(* ===== verification/Prelude.thy ===== *)
theory Prelude
  imports Main "HOL-Library.Sublist"
begin

text \<open>
  Shared vocabulary of the development: the result type that models Python
  exceptions as values, the decimal-digit strings of \<open>str(int)\<close> and
  \<open>int(str)\<close>, the string operations of the standard library that the sources
  use (\<open>lstrip\<close>, \<open>split\<close>, \<open>removeprefix\<close>, \<open>startswith\<close>), and generic lemmas
  on lists, options and maps.
\<close>

named_theorems res_simps "unfolding of the result combinators"
named_theorems dec_simps "facts that normalise canonical decimals"
named_theorems inv_intros "introduction rules of component invariants"

section \<open>Outcome codes and exceptions\<close>

text \<open>
  \<open>ea.core.outcomes.OutcomeCode\<close>: the closed registry, in source order.
\<close>

datatype (plugins only: code) outcome_code =
    INVALID_TYPE | NON_FINITE | OUT_OF_RANGE | NOT_QUANTIZED | PRICE_DOMAIN
  | ARITHMETIC_OVERFLOW | CONFLICTING_ID
  | PREFLIGHT_UNSUPPORTED_PLATFORM | PREFLIGHT_PROVENANCE_UNVERIFIED
  | PREFLIGHT_MANIFEST_UNVERIFIED
  | DURABILITY_AUDIT_APPEND_FAILED | DURABILITY_AUDIT_ACK_MISMATCH
  | DURABILITY_RESULT_WRITE_FAILED
  | RISK_ALLOWED | RISK_RESIZED | RISK_REJECTED | RISK_EVALUATION_FAILED | RISK_STALE_APPROVAL
  | SUBMISSION_SUBMITTED | SUBMISSION_DEFINITELY_NOT_SUBMITTED | SUBMISSION_UNCERTAIN
  | SUBMISSION_BLOCKED_BY_HALT
  | FACT_ACCEPTED | FACT_DUPLICATE | FACT_INVALID | FACT_INVALID_MISSING_DEDUP_IDENTITY
  | FACT_CONFLICT | FACT_UNRESOLVED
  | ORDER_ACKNOWLEDGED | ORDER_REJECTED | ORDER_PARTIALLY_FILLED | ORDER_FILLED
  | ORDER_EXPIRED | ORDER_CANCELLED | ORDER_EXPIRED_NO_ELIGIBLE_MARKET_DATA
  | LEDGER_APPLIED | LEDGER_DUPLICATE | LEDGER_CONFLICT | LEDGER_UNBALANCED
  | ROUNDING_UNREPRESENTABLE
  | RECONCILIATION_MATCH | RECONCILIATION_REMOTE_AHEAD | RECONCILIATION_LOCAL_AHEAD_STALE
  | RECONCILIATION_MISMATCH | RECONCILIATION_UNRESOLVED_CORRELATION
  | RECONCILIATION_SUBMISSION_UNKNOWN | RECONCILIATION_LATE_FACT_AFTER_TERMINAL
  | RECONCILIATION_INVALID | RECONCILIATION_QUARANTINED
  | RECONCILIATION_SUBMISSION_CONFIRMED_SUBMITTED
  | RECONCILIATION_SUBMISSION_CONFIRMED_NOT_SUBMITTED
  | RECONCILIATION_SUBMISSION_CONFIRMED_REJECTED
  | RECONCILIATION_SUBMISSION_CONFIRMED_FILLED
  | RECONCILIATION_SUBMISSION_STILL_UNKNOWN

text \<open>
  The exceptions the modelled code raises. A structured error carries its
  outcome code; the human-readable message is not modelled. \<open>AssertionError\<close> is
  kept as a value so that reachability of internal assertions can be stated.
\<close>

datatype (plugins only: code) exn =
    EconomicValidationError outcome_code
  | ExecutionIdentityError outcome_code
  | ExecutionMessageError outcome_code
  | PortfolioLedgerError outcome_code
  | RuntimeOrderingError outcome_code
  | OrderCommandError outcome_code
  | OperatorKillSwitchError outcome_code
  | ReconciliationContractError outcome_code
  | LedgerIntegrationError outcome_code
  | ReconciliationAuthorityError outcome_code
  | ExecutionStateError outcome_code
  | ExecutionFactAuthorityError outcome_code
  | RiskContractError outcome_code
  | RiskAuthorityError outcome_code
  | ExecutionAuthorityError outcome_code
  | OperationalSafetyError outcome_code
  | StrategyContractError outcome_code
  | PortfolioPlanningError outcome_code
  | HistoricalMatcherError outcome_code
  | PaperBrokerError outcome_code
  | AuditContractError outcome_code
  | LifecycleError
  | MarketDataValidationError
  | IdentityValidationError
  | RunContractError
  | TimeValidationError
  | ValueError
  | TypeError
  | KeyError
  | RuntimeError
  | AssertionError

type_synonym 'a result = "exn + 'a"

text \<open>Sequencing: the first exception wins, as in straight-line Python.\<close>

definition bind_res :: "'a result \<Rightarrow> ('a \<Rightarrow> 'b result) \<Rightarrow> 'b result" where
  "bind_res r f = (case r of Inl e \<Rightarrow> Inl e | Inr x \<Rightarrow> f x)"

text \<open>\<open>if c: raise e\<close> before the rest.\<close>

definition guard_res :: "bool \<Rightarrow> exn \<Rightarrow> 'a result \<Rightarrow> 'a result" where
  "guard_res c e r = (if c then Inl e else r)"

text \<open>\<open>try: r  except E as error: raise h(error)\<close>.\<close>

definition map_exn :: "(exn \<Rightarrow> exn) \<Rightarrow> 'a result \<Rightarrow> 'a result" where
  "map_exn h r = (case r of Inl e \<Rightarrow> Inl (h e) | Inr x \<Rightarrow> Inr x)"

lemma bind_res_simps [simp, res_simps]:
  "bind_res (Inl e) f = Inl e"
  "bind_res (Inr x) f = f x"
  by (simp_all add: bind_res_def)

lemma bind_res_Inr_iff [simp]:
  "bind_res r f = Inr y \<longleftrightarrow> (\<exists>x. r = Inr x \<and> f x = Inr y)"
  by (cases r) auto

lemma bind_res_Inl_iff:
  "bind_res r f = Inl e \<longleftrightarrow> r = Inl e \<or> (\<exists>x. r = Inr x \<and> f x = Inl e)"
  by (cases r) auto

lemma guard_res_Inr_iff [simp]: "guard_res c e r = Inr y \<longleftrightarrow> \<not> c \<and> r = Inr y"
  by (simp add: guard_res_def)

lemma guard_res_False [simp]: "guard_res False e r = r"
  by (simp add: guard_res_def)

lemma guard_res_True [simp]: "guard_res True e r = Inl e"
  by (simp add: guard_res_def)

lemma map_exn_simps [simp]:
  "map_exn h (Inl e) = Inl (h e)" "map_exn h (Inr x) = Inr x"
  by (simp_all add: map_exn_def)

lemma map_exn_Inr_iff [simp]: "map_exn h r = Inr x \<longleftrightarrow> r = Inr x"
  by (cases r) auto

text \<open>A loop that collects results: the first exception ends it.\<close>

fun map_res :: "('a \<Rightarrow> 'b result) \<Rightarrow> 'a list \<Rightarrow> 'b list result" where
  "map_res f [] = Inr []"
| "map_res f (x # xs) = bind_res (f x) (\<lambda>y. bind_res (map_res f xs) (\<lambda>ys. Inr (y # ys)))"

lemma map_res_Inr: "map_res f xs = Inr ys \<longleftrightarrow> map f xs = map Inr ys"
proof (induction xs arbitrary: ys)
  case (Cons x xs)
  show ?case by (cases ys) (auto simp: Cons.IH)
qed auto

lemma bind_res_cong:
  "r = r' \<Longrightarrow> (\<And>x. r' = Inr x \<Longrightarrow> f x = g x) \<Longrightarrow> bind_res r f = bind_res r' g"
  by (cases r') auto

section \<open>Maps\<close>

lemma map_of_sorted:
  assumes "distinct (map fst kvs)"
  shows "map_of (sort_key f kvs) = map_of kvs"
proof -
  have "distinct (map fst (sort_key f kvs))"
    using assms by (metis distinct_map distinct_sort inj_on_cong set_sort)
  then show ?thesis using assms by (intro map_of_inject_set [THEN iffD2]) simp_all
qed

section \<open>Texts\<close>

text \<open>
  The characters \<open>str.strip\<close> removes and the length of the UTF-8 encoding. A
  string is a sequence of code points below 256.
\<close>

definition py_space :: "char \<Rightarrow> bool" where
  "py_space c = (let n = of_char c :: nat in n \<in> {9..13} \<union> {28..32} \<union> {133, 160})"

definition utf8_length :: "string \<Rightarrow> nat" where
  "utf8_length s = sum_list (map (\<lambda>c. if of_char c < (128 :: nat) then 1 else 2) s)"

section \<open>Decimal digits: \<open>str(int)\<close> and \<open>int(str)\<close>\<close>

definition is_digit :: "char \<Rightarrow> bool" where
  "is_digit c \<longleftrightarrow> (48::nat) \<le> of_char c \<and> of_char c \<le> (57::nat)"

definition digit_char :: "nat \<Rightarrow> char" where
  "digit_char n = char_of (48 + n)"

definition digit_val :: "char \<Rightarrow> nat" where
  "digit_val c = of_char c - 48"

fun nat_str :: "nat \<Rightarrow> string" where
  "nat_str n = (if n < 10 then [digit_char n] else nat_str (n div 10) @ [digit_char (n mod 10)])"

declare nat_str.simps [simp del]

definition digits_nat :: "string \<Rightarrow> nat" where
  "digits_nat s = foldl (\<lambda>a c. 10 * a + digit_val c) 0 s"

lemma digit_char_val [simp]: "n < 10 \<Longrightarrow> digit_val (digit_char n) = n"
  by (simp add: digit_val_def digit_char_def)

lemma is_digit_char [simp]: "n < 10 \<Longrightarrow> is_digit (digit_char n)"
  by (simp add: is_digit_def digit_char_def)

lemma digit_val_char [simp]: "is_digit c \<Longrightarrow> digit_char (digit_val c) = c"
  by (simp add: is_digit_def digit_val_def digit_char_def)

lemma digit_val_less [simp]: "is_digit c \<Longrightarrow> digit_val c < 10"
  by (auto simp add: is_digit_def digit_val_def)

lemma digit_char_inj [simp]: "m < 10 \<Longrightarrow> n < 10 \<Longrightarrow> digit_char m = digit_char n \<longleftrightarrow> m = n"
  by (metis digit_char_val)

lemma nat_str_small: "n < 10 \<Longrightarrow> nat_str n = [digit_char n]"
  by (subst nat_str.simps) simp

lemma nat_str_step: "10 \<le> n \<Longrightarrow> nat_str n = nat_str (n div 10) @ [digit_char (n mod 10)]"
  by (subst nat_str.simps) simp

lemma nat_str_nonempty [simp]: "nat_str n \<noteq> []"
  by (subst nat_str.simps) simp

lemma nat_str_digits: "\<forall>c \<in> set (nat_str n). is_digit c"
proof (induction n rule: nat_str.induct)
  case (1 n)
  then show ?case
    by (cases "n < 10") (auto simp: nat_str_small nat_str_step)
qed

lemma digits_nat_snoc [simp]: "digits_nat (s @ [c]) = 10 * digits_nat s + digit_val c"
  by (simp add: digits_nat_def)

lemma digits_nat_Nil [simp]: "digits_nat [] = 0"
  by (simp add: digits_nat_def)

lemma digits_nat_str [simp]: "digits_nat (nat_str n) = n"
proof (induction n rule: nat_str.induct)
  case (1 n)
  then show ?case
  proof (cases "n < 10")
    case True
    then have "digits_nat (nat_str n) = digits_nat ([] @ [digit_char n])"
      by (simp add: nat_str_small)
    also have "\<dots> = n" using True by (subst digits_nat_snoc) simp
    finally show ?thesis .
  next
    case False
    with "1.IH" show ?thesis by (simp add: nat_str_step)
  qed
qed

lemma nat_str_inj [simp]: "nat_str m = nat_str n \<longleftrightarrow> m = n"
  by (metis digits_nat_str)

lemma digits_nat_append:
  "digits_nat (s @ t) = digits_nat s * 10 ^ length t + digits_nat t"
proof (induction t rule: rev_induct)
  case Nil
  show ?case by simp
next
  case (snoc c t)
  have "digits_nat (s @ t @ [c]) = digits_nat ((s @ t) @ [c])" by simp
  also have "\<dots> = 10 * digits_nat (s @ t) + digit_val c" by (rule digits_nat_snoc)
  finally show ?case using snoc.IH by (simp add: algebra_simps)
qed

lemma digits_nat_bound:
  "\<forall>c \<in> set s. is_digit c \<Longrightarrow> digits_nat s < 10 ^ length s"
proof (induction s rule: rev_induct)
  case Nil
  show ?case by simp
next
  case (snoc c s)
  then have "digits_nat s < 10 ^ length s" "digit_val c < 10" by auto
  then show ?case by simp
qed

lemma digit_val_0 [simp]: "digit_val (CHR ''0'') = 0"
  by code_simp

lemma digits_nat_zeros: "digits_nat (replicate k (CHR ''0'') @ u) = digits_nat u"
proof -
  have "digits_nat (replicate k (CHR ''0'')) = 0"
  proof (induction k)
    case (Suc k)
    have "digits_nat (replicate (Suc k) (CHR ''0''))
        = digits_nat (replicate k (CHR ''0'') @ [CHR ''0''])"
      by (simp add: replicate_append_same)
    with Suc show ?case by (simp only: digits_nat_snoc) simp
  qed simp
  then show ?thesis by (simp add: digits_nat_append)
qed

lemma takeWhile_eq_replicate:
  "takeWhile (\<lambda>c. c = a) s = replicate (length (takeWhile (\<lambda>c. c = a) s)) a"
  by (induction s) auto

text \<open>The canonical digit strings are exactly those without a leading zero.\<close>

definition canonical_digits :: "string \<Rightarrow> bool" where
  "canonical_digits s \<longleftrightarrow> s \<noteq> [] \<and> (\<forall>c \<in> set s. is_digit c) \<and> (hd s = CHR ''0'' \<longrightarrow> s = ''0'')"

lemma digit_char_0: "digit_char 0 = CHR ''0''"
  by code_simp

lemma digit_char_eq_0: "n < 10 \<Longrightarrow> digit_char n = CHR ''0'' \<longleftrightarrow> n = 0"
  by (metis digit_char_0 digit_char_inj zero_less_numeral)

lemma hd_nat_str: "0 < n \<Longrightarrow> hd (nat_str n) \<noteq> CHR ''0''"
proof (induction n rule: nat_str.induct)
  case (1 n)
  show ?case
  proof (cases "n < 10")
    case True
    with "1.prems" show ?thesis by (simp add: nat_str_small digit_char_eq_0)
  next
    case False
    with "1.IH" show ?thesis by (simp add: nat_str_step div_greater_zero_iff)
  qed
qed

lemma nat_str_0: "nat_str 0 = ''0''"
  by (simp add: nat_str_small digit_char_0)

lemma canonical_nat_str: "canonical_digits (nat_str n)"
  using nat_str_digits [of n] hd_nat_str [of n]
  by (cases "n = 0") (auto simp: canonical_digits_def nat_str_0)

lemma digits_nat_pos:
  assumes "canonical_digits s" "s \<noteq> ''0''"
  shows "0 < digits_nat s"
proof -
  from assms obtain c t where s: "s = [c] @ t" and c: "is_digit c" "c \<noteq> CHR ''0''"
    by (cases s) (auto simp: canonical_digits_def)
  then have "0 < digit_val c"
    by (metis digit_char_0 digit_val_char gr0I)
  then have "0 < digits_nat ([] @ [c])" by (subst digits_nat_snoc) simp
  then show ?thesis by (simp only: s digits_nat_append) simp
qed

lemma nat_str_digits_nat: "canonical_digits s \<Longrightarrow> nat_str (digits_nat s) = s"
proof (induction s rule: rev_induct)
  case Nil
  then show ?case by (simp add: canonical_digits_def)
next
  case (snoc c s)
  have c: "is_digit c" using snoc.prems by (simp add: canonical_digits_def)
  show ?case
  proof (cases "s = []")
    case True
    have "digits_nat ([] @ [c]) = digit_val c" by (subst digits_nat_snoc) simp
    with True c show ?thesis by (simp add: nat_str_small)
  next
    case False
    with snoc.prems have s: "canonical_digits s" "s \<noteq> ''0''"
      by (auto simp: canonical_digits_def)
    then have "0 < digits_nat s" by (rule digits_nat_pos)
    with snoc.IH s c show ?thesis by (simp add: nat_str_step)
  qed
qed

lemma length_nat_str_le: "length (nat_str n) \<le> k \<longleftrightarrow> n < 10 ^ k" if "0 < k"
  using that
proof (induction n arbitrary: k rule: nat_str.induct)
  case (1 n)
  show ?case
  proof (cases "n < 10")
    case True
    moreover from "1.prems" have "(10::nat) ^ 1 \<le> 10 ^ k"
      by (intro power_increasing) auto
    ultimately show ?thesis using "1.prems" by (auto simp: nat_str_small)
  next
    case False
    show ?thesis
    proof (cases "k = 1")
      case True
      with False show ?thesis
        by (simp add: nat_str_step)
    next
      case k: False
      with "1.prems" obtain j where j: "k = Suc j" "0 < j" by (cases k) auto
      have "length (nat_str n) \<le> k \<longleftrightarrow> length (nat_str (n div 10)) \<le> j"
        using False j by (simp add: nat_str_step)
      also have "\<dots> \<longleftrightarrow> n div 10 < 10 ^ j" using "1.IH" False j by simp
      also have "\<dots> \<longleftrightarrow> n < 10 ^ k" using j by (simp add: less_mult_imp_div_less div_less_iff_less_mult mult.commute)
      finally show ?thesis .
    qed
  qed
qed

section \<open>String operations of the standard library\<close>

text \<open>\<open>s.split(sep)\<close> for a non-empty separator: cut at every non-overlapping occurrence.\<close>

fun split_from :: "string \<Rightarrow> string \<Rightarrow> nat \<Rightarrow> string \<Rightarrow> string list" where
  "split_from sep acc 0 s = [rev acc @ s]"
| "split_from sep acc (Suc n) [] = [rev acc]"
| "split_from sep acc (Suc n) (c # s) =
     (if prefix sep (c # s) then rev acc # split_from sep [] n (drop (length sep) (c # s))
      else split_from sep (c # acc) n s)"

definition py_split :: "string \<Rightarrow> string \<Rightarrow> string list" where
  "py_split sep s = split_from sep [] (length s) s"

lemma split_from_fuel:
  assumes "sep \<noteq> []"
  shows "length s \<le> n \<Longrightarrow> length s \<le> m \<Longrightarrow> split_from sep acc n s = split_from sep acc m s"
proof (induction n arbitrary: acc m s)
  case 0
  then show ?case by (cases m) simp_all
next
  case (Suc n)
  show ?case
  proof (cases s)
    case Nil
    then show ?thesis by (cases m) simp_all
  next
    case (Cons c u)
    with Suc.prems obtain k where k: "m = Suc k" "length u \<le> k" "length u \<le> n" by (cases m) auto
    obtain e r where "sep = e # r" using assms by (cases sep) auto
    then have "length (drop (length sep) (c # u)) \<le> length u" by simp
    then have "split_from sep [] n (drop (length sep) (c # u)) = split_from sep [] k (drop (length sep) (c # u))"
      using k by (intro Suc.IH) linarith+
    moreover have "split_from sep (c # acc) n u = split_from sep (c # acc) k u"
      using k by (intro Suc.IH)
    ultimately show ?thesis using Cons k(1) by simp
  qed
qed

text \<open>
  A separator whose second character does not occur in the first part cuts
  exactly behind that part.
\<close>

lemma prefix_mem: "prefix sep s \<Longrightarrow> z \<in> set sep \<Longrightarrow> z \<in> set s"
  by (auto simp: prefix_def)

lemma split_from_none:
  "z \<in> set sep \<Longrightarrow> z \<notin> set s \<Longrightarrow> split_from sep acc n s = [rev acc @ s]"
  by (induction sep acc n s rule: split_from.induct) (auto dest: prefix_mem)

lemma py_split_none: "z \<in> set sep \<Longrightarrow> z \<notin> set s \<Longrightarrow> py_split sep s = [s]"
  by (simp add: py_split_def split_from_none)

lemma split_from_app:
  assumes "c \<noteq> d" "d \<notin> set a"
  shows "length (a @ (c # d # r) @ b) \<le> n \<Longrightarrow>
    split_from (c # d # r) acc n (a @ (c # d # r) @ b) = (rev acc @ a) # py_split (c # d # r) b"
  using assms(2)
proof (induction a arbitrary: acc n)
  case Nil
  then obtain k where k: "n = Suc k" "length b \<le> k" by (cases n) auto
  with split_from_fuel [of "c # d # r" b k "length b" "[]"] show ?case by (simp add: py_split_def)
next
  case (Cons x a)
  then obtain k where k: "n = Suc k" by (cases n) auto
  have np: "\<not> prefix (c # d # r) (x # a @ (c # d # r) @ b)"
    using Cons.prems(2) assms(1) by (cases a) auto
  from Cons k have "split_from (c # d # r) (x # acc) k (a @ (c # d # r) @ b) =
      (rev (x # acc) @ a) # py_split (c # d # r) b" by (intro Cons.IH) auto
  with np k show ?case by simp
qed

lemma py_split_app:
  "c \<noteq> d \<Longrightarrow> d \<notin> set a \<Longrightarrow> py_split (c # d # r) (a @ (c # d # r) @ b) = a # py_split (c # d # r) b"
  using split_from_app [of c d a r b "length (a @ (c # d # r) @ b)" "[]"]
  by (simp add: py_split_def)

text \<open>\<open>s.lstrip("0")\<close>.\<close>

definition lstrip0 :: "string \<Rightarrow> string" where
  "lstrip0 s = dropWhile (\<lambda>c. c = CHR ''0'') s"

end
