(* ===== verification/Regex.thy ===== *)
theory Regex
  imports Prelude
begin

text \<open>
  The fragment of Python's \<open>re\<close> that the sources use to validate identifiers and
  decimal texts: character classes, \<open>[..]*\<close>, \<open>[..]{0,n}\<close>, sequence, alternation
  and optional groups. \<open>fullmatch\<close> is the executable matcher (Brzozowski
  derivatives) that stands for \<open>Pattern.fullmatch\<close>; \<open>fullmatch_lang\<close> shows that
  it decides the language of the pattern, so proofs reason about \<open>lang\<close>.
\<close>

datatype regex =
    Void
  | Eps
  | Cls "char \<Rightarrow> bool"
  | Many "char \<Rightarrow> bool"
  | Upto nat "char \<Rightarrow> bool"
  | Sq regex regex
  | Alt regex regex
  | Opt regex

fun lang :: "regex \<Rightarrow> string set" where
  "lang Void = {}"
| "lang Eps = {[]}"
| "lang (Cls p) = {s. \<exists>c. s = [c] \<and> p c}"
| "lang (Many p) = {s. list_all p s}"
| "lang (Upto n p) = {s. list_all p s \<and> length s \<le> n}"
| "lang (Sq r t) = {s. \<exists>u v. s = u @ v \<and> u \<in> lang r \<and> v \<in> lang t}"
| "lang (Alt r t) = lang r \<union> lang t"
| "lang (Opt r) = insert [] (lang r)"

fun nullable :: "regex \<Rightarrow> bool" where
  "nullable Void = False"
| "nullable Eps = True"
| "nullable (Cls p) = False"
| "nullable (Many p) = True"
| "nullable (Upto n p) = True"
| "nullable (Sq r t) = (nullable r \<and> nullable t)"
| "nullable (Alt r t) = (nullable r \<or> nullable t)"
| "nullable (Opt r) = True"

text \<open>Smart constructors keep the derivatives small.\<close>

fun mk_sq :: "regex \<Rightarrow> regex \<Rightarrow> regex" where
  "mk_sq Void t = Void"
| "mk_sq Eps t = t"
| "mk_sq r t = Sq r t"

definition mk_alt :: "regex \<Rightarrow> regex \<Rightarrow> regex" where
  "mk_alt r t = (case r of Void \<Rightarrow> t | _ \<Rightarrow> (case t of Void \<Rightarrow> r | _ \<Rightarrow> Alt r t))"

fun deriv :: "char \<Rightarrow> regex \<Rightarrow> regex" where
  "deriv c Void = Void"
| "deriv c Eps = Void"
| "deriv c (Cls p) = (if p c then Eps else Void)"
| "deriv c (Many p) = (if p c then Many p else Void)"
| "deriv c (Upto n p) = (if 0 < n \<and> p c then Upto (n - 1) p else Void)"
| "deriv c (Sq r t) =
     (if nullable r then mk_alt (mk_sq (deriv c r) t) (deriv c t) else mk_sq (deriv c r) t)"
| "deriv c (Alt r t) = mk_alt (deriv c r) (deriv c t)"
| "deriv c (Opt r) = deriv c r"

fun fullmatch :: "regex \<Rightarrow> string \<Rightarrow> bool" where
  "fullmatch r [] = nullable r"
| "fullmatch r (c # s) = fullmatch (deriv c r) s"

text \<open>A literal string as a pattern, and the character classes of the sources.\<close>

fun lit :: "string \<Rightarrow> regex" where
  "lit [] = Eps"
| "lit (c # s) = Sq (Cls (\<lambda>d. d = c)) (lit s)"

definition is_upper :: "char \<Rightarrow> bool" where
  "is_upper c \<longleftrightarrow> (65::nat) \<le> of_char c \<and> of_char c \<le> (90::nat)"

definition is_lower :: "char \<Rightarrow> bool" where
  "is_lower c \<longleftrightarrow> (97::nat) \<le> of_char c \<and> of_char c \<le> (122::nat)"

definition is_digit19 :: "char \<Rightarrow> bool" where
  "is_digit19 c \<longleftrightarrow> (49::nat) \<le> of_char c \<and> of_char c \<le> (57::nat)"

lemma lang_mk_sq [simp]: "lang (mk_sq r t) = lang (Sq r t)"
  by (cases r) auto

lemma lang_mk_alt [simp]: "lang (mk_alt r t) = lang r \<union> lang t"
  by (auto simp: mk_alt_def split: regex.splits)

lemma nullable_iff: "nullable r \<longleftrightarrow> [] \<in> lang r"
  by (induction r) auto

lemma deriv_lang: "s \<in> lang (deriv c r) \<longleftrightarrow> c # s \<in> lang r"
proof (induction r arbitrary: s)
  case (Sq r t)
  have "c # s \<in> lang (Sq r t) \<longleftrightarrow>
      (\<exists>u v. s = u @ v \<and> c # u \<in> lang r \<and> v \<in> lang t) \<or> ([] \<in> lang r \<and> c # s \<in> lang t)"
    by (auto simp: Cons_eq_append_conv)
  then show ?case by (simp add: Sq.IH nullable_iff)
next
  case (Upto n p)
  then show ?case by (cases n) auto
qed auto

theorem fullmatch_lang: "fullmatch r s \<longleftrightarrow> s \<in> lang r"
  by (induction s arbitrary: r) (simp_all add: nullable_iff deriv_lang)

lemma lang_lit [simp]: "lang (lit s) = {s}"
  by (induction s) auto

lemma is_digit19_digit: "is_digit19 c \<longleftrightarrow> is_digit c \<and> c \<noteq> CHR ''0''"
proof -
  have zero: "char_of (48::nat) = CHR ''0''"
    using digit_char_0 by (simp add: digit_char_def)
  have "of_char c = (48::nat) \<Longrightarrow> c = CHR ''0''"
    using char_of_char [of c, where 'a = nat] by (simp only: zero)
  then have "c = CHR ''0'' \<longleftrightarrow> of_char c = (48::nat)" by auto
  then show ?thesis by (auto simp: is_digit19_def is_digit_def)
qed

lemmas regex_lang = fullmatch_lang lang.simps list_all_iff

end
