(* ===== verification/Economics.thy ===== *)
theory Economics
  imports Regex Complex_Main
begin

text \<open>
  \<open>ea.core.economics\<close>: canonical decimal texts (\<open>ea-decimal-v1\<close>), their exact
  ordering, the positivity and grid checks, and the settlement of a product at
  the single half-even rounding boundary.

  A \<open>CanonicalDecimal\<close> is the record of its three fields. The constructor
  \<open>canonical_decimal\<close> is \<open>__post_init__\<close>; \<open>wf_dec\<close> says that a record is a value
  the constructor returns. The value denoted is the rational \<open>dval\<close>.
\<close>

section \<open>The canonical decimal\<close>

record canonical_decimal =
  dec_text :: string
  coefficient :: int
  scale :: nat

definition MAX_SIGNIFICANT_DIGITS :: nat where "MAX_SIGNIFICANT_DIGITS = 38"
definition MAX_INTEGER_DIGITS :: nat where "MAX_INTEGER_DIGITS = 20"
definition MAX_FRACTIONAL_DIGITS :: nat where "MAX_FRACTIONAL_DIGITS = 18"

lemmas max_digits_defs =
  MAX_SIGNIFICANT_DIGITS_def MAX_INTEGER_DIGITS_def MAX_FRACTIONAL_DIGITS_def

definition decimal_pattern :: regex where
  "decimal_pattern =
     Alt (lit ''0'')
       (Sq (Opt (lit ''-''))
         (Alt
           (Sq (Cls is_digit19) (Sq (Many is_digit)
             (Opt (Sq (lit ''.'') (Sq (Many is_digit) (Cls is_digit19))))))
           (Sq (lit ''0.'') (Sq (Many is_digit) (Cls is_digit19)))))"

definition ascii_lower :: "char \<Rightarrow> char" where
  "ascii_lower c = (if is_upper c then char_of (of_char c + 32 :: nat) else c)"

fun lit_ci :: "string \<Rightarrow> regex" where
  "lit_ci [] = Eps"
| "lit_ci (c # s) = Sq (Cls (\<lambda>d. ascii_lower d = c)) (lit_ci s)"

definition non_finite_pattern :: regex where
  "non_finite_pattern =
     Sq (Opt (Cls (\<lambda>c. c = CHR ''+'' \<or> c = CHR ''-'')))
       (Alt (Sq (lit_ci ''inf'') (Opt (lit_ci ''inity'')))
         (Sq (Opt (lit_ci ''s'')) (Sq (lit_ci ''nan'') (Many is_digit))))"

text \<open>
  \<open>__post_init__\<close>. Inside the 38/20/18 bounds the trapping context parses the
  text exactly, so the digits of the parsed tuple are those of the text and its
  exponent is minus the number of fractional digits.
\<close>

definition canonical_decimal :: "string \<Rightarrow> canonical_decimal result" where
  "canonical_decimal t =
     guard_res (fullmatch non_finite_pattern t) (EconomicValidationError NON_FINITE)
    (guard_res (\<not> fullmatch decimal_pattern t) (EconomicValidationError OUT_OF_RANGE)
    (let unsigned_text = (if prefix ''-'' t then drop 1 t else t);
         integer_text = takeWhile (\<lambda>c. c \<noteq> CHR ''.'') unsigned_text;
         tail = dropWhile (\<lambda>c. c \<noteq> CHR ''.'') unsigned_text;
         fractional_text = drop 1 tail;
         stripped = lstrip0 (integer_text @ fractional_text);
         coefficient_digits = (if stripped = [] then ''0'' else stripped);
         text_scale = (if tail \<noteq> [] then length fractional_text else 0)
     in guard_res
          (MAX_SIGNIFICANT_DIGITS < length coefficient_digits
           \<or> MAX_INTEGER_DIGITS < length integer_text \<or> MAX_FRACTIONAL_DIGITS < text_scale)
          (EconomicValidationError OUT_OF_RANGE)
       (let magnitude = int (digits_nat (integer_text @ fractional_text));
            c = (if prefix ''-'' t then - magnitude else magnitude);
            parsed_scale = (if c = 0 then 0 else text_scale)
        in guard_res (parsed_scale \<noteq> text_scale) AssertionError
          (guard_res (0 < parsed_scale \<and> c mod 10 = 0) (EconomicValidationError OUT_OF_RANGE)
            (Inr \<lparr>dec_text = t, coefficient = c, scale = parsed_scale\<rparr>)))))"

definition wf_dec :: "canonical_decimal \<Rightarrow> bool" where
  "wf_dec d \<longleftrightarrow> canonical_decimal (dec_text d) = Inr d"

definition dval :: "canonical_decimal \<Rightarrow> rat" where
  "dval d = of_int (coefficient d) / 10 ^ scale d"

text \<open>The observers \<open>significant_digits\<close> and \<open>integer_digits\<close>.\<close>

definition significant_digits :: "canonical_decimal \<Rightarrow> nat" where
  "significant_digits d =
     (if coefficient d \<noteq> 0 then length (nat_str (nat \<bar>coefficient d\<bar>)) else 1)"

definition integer_digits :: "canonical_decimal \<Rightarrow> int" where
  "integer_digits d = max (int (significant_digits d) - int (scale d)) 1"

section \<open>Alignment, order and comparison\<close>

fun pow10_loop :: "nat \<Rightarrow> int" where
  "pow10_loop 0 = 1"
| "pow10_loop (Suc n) = pow10_loop n * 10"

definition at_scale :: "canonical_decimal \<Rightarrow> nat \<Rightarrow> int result" where
  "at_scale d s =
     guard_res (s < scale d) AssertionError (Inr (coefficient d * pow10_loop (s - scale d)))"

definition dec_less :: "canonical_decimal \<Rightarrow> canonical_decimal \<Rightarrow> bool result" where
  "dec_less a b =
     (let s = max (scale a) (scale b)
      in bind_res (at_scale a s) (\<lambda>x. bind_res (at_scale b s) (\<lambda>y. Inr (x < y))))"

text \<open>\<open>functools.total_ordering\<close> derives \<open>>\<close> and \<open>>=\<close> from \<open>__lt__\<close> and the field equality.\<close>

definition dec_greater :: "canonical_decimal \<Rightarrow> canonical_decimal \<Rightarrow> bool result" where
  "dec_greater a b = bind_res (dec_less a b) (\<lambda>l. Inr (\<not> l \<and> a \<noteq> b))"

definition dec_greater_eq :: "canonical_decimal \<Rightarrow> canonical_decimal \<Rightarrow> bool result" where
  "dec_greater_eq a b = bind_res (dec_less a b) (\<lambda>l. Inr (\<not> l))"

section \<open>Normalisation and text\<close>

fun normalize_loop :: "int \<Rightarrow> nat \<Rightarrow> int \<times> nat" where
  "normalize_loop c 0 = (c, 0)"
| "normalize_loop c (Suc s) =
     (if c mod 10 = 0 then normalize_loop (c div 10) s else (c, Suc s))"

definition normalize_scaled :: "int \<Rightarrow> nat \<Rightarrow> int \<times> nat" where
  "normalize_scaled c s = (if c = 0 then (0, 0) else normalize_loop c s)"

definition scaled_text :: "int \<Rightarrow> nat \<Rightarrow> string" where
  "scaled_text c0 s0 =
     (let (c, s) = normalize_scaled c0 s0
      in if c = 0 then ''0''
         else let sign = (if c < 0 then ''-'' else []);
                  digits0 = nat_str (nat \<bar>c\<bar>)
              in if s = 0 then sign @ digits0
                 else let digits = (if length digits0 \<le> s
                        then replicate (s + 1 - length digits0) (CHR ''0'') @ digits0 else digits0);
                          cut = length digits - s
                      in sign @ take cut digits @ ''.'' @ drop cut digits)"

definition bounded_scaled :: "int \<Rightarrow> nat \<Rightarrow> outcome_code \<Rightarrow> canonical_decimal result" where
  "bounded_scaled c s failure_code =
     (case canonical_decimal (scaled_text c s) of
        Inr d \<Rightarrow> Inr d
      | Inl e \<Rightarrow> (if e = EconomicValidationError OUT_OF_RANGE
                  then Inl (EconomicValidationError failure_code) else Inl e))"

section \<open>Grid checks and settlement\<close>

definition require_positive :: "canonical_decimal \<Rightarrow> canonical_decimal result" where
  "require_positive d =
     guard_res (coefficient d \<le> 0) (EconomicValidationError OUT_OF_RANGE) (Inr d)"

definition require_quantized ::
  "canonical_decimal \<Rightarrow> canonical_decimal \<Rightarrow> canonical_decimal result" where
  "require_quantized v q =
     bind_res (require_positive q) (\<lambda>_.
       let s = max (scale v) (scale q);
           vc = coefficient v * 10 ^ (s - scale v);
           qc = coefficient q * 10 ^ (s - scale q)
       in guard_res (vc mod qc \<noteq> 0) (EconomicValidationError NOT_QUANTIZED) (Inr v))"

text \<open>
  The half-even quotient both \<open>settle_product\<close> and \<open>commission_amount\<close> compute
  from \<open>divmod\<close>.
\<close>

definition half_even_div :: "int \<Rightarrow> int \<Rightarrow> int" where
  "half_even_div numerator denominator =
     (let quotient = numerator div denominator;
          doubled_remainder = (numerator mod denominator) * 2
      in if denominator < doubled_remainder
            \<or> (doubled_remainder = denominator \<and> quotient mod 2 = 1)
         then quotient + 1 else quotient)"

record scalar_settlement =
  amount :: canonical_decimal
  rounding_residual :: canonical_decimal

definition settle_product ::
  "canonical_decimal \<Rightarrow> canonical_decimal \<Rightarrow> canonical_decimal \<Rightarrow> canonical_decimal
   \<Rightarrow> scalar_settlement result" where
  "settle_product price quantity contract_multiplier currency_quantum =
     bind_res (require_positive quantity) (\<lambda>_.
     bind_res (require_positive contract_multiplier) (\<lambda>_.
     bind_res (require_positive currency_quantum) (\<lambda>_.
       let exact_coefficient =
             coefficient price * coefficient quantity * coefficient contract_multiplier;
           exact_scale = scale price + scale quantity + scale contract_multiplier;
           numerator = \<bar>exact_coefficient\<bar> * 10 ^ scale currency_quantum;
           denominator = coefficient currency_quantum * 10 ^ exact_scale;
           quotient = half_even_div numerator denominator;
           units = (if exact_coefficient < 0 then - quotient else quotient);
           settled_coefficient = units * coefficient currency_quantum;
           settled_scale = scale currency_quantum
       in bind_res (bounded_scaled settled_coefficient settled_scale ARITHMETIC_OVERFLOW) (\<lambda>a.
          let residual_scale = max exact_scale settled_scale;
              residual_coefficient =
                exact_coefficient * 10 ^ (residual_scale - exact_scale)
                - settled_coefficient * 10 ^ (residual_scale - settled_scale)
          in bind_res (bounded_scaled residual_coefficient residual_scale ROUNDING_UNREPRESENTABLE)
               (\<lambda>r. Inr \<lparr>amount = a, rounding_residual = r\<rparr>)))))"

end
