(* ===== verification/Decimal_Laws.thy ===== *)
theory Decimal_Laws
  imports Economics
begin

text \<open>
  The laws of \<open>ea.core.economics\<close>: what language the decimal pattern accepts,
  what the constructor computes on it, that printing and parsing are inverse,
  that a canonical decimal is determined by its value, that comparison, the
  grid check and settlement are the exact rational operations they stand for,
  with one half-even rounding.
\<close>

section \<open>The texts of canonical decimals\<close>

definition frac_ok :: "string \<Rightarrow> bool" where
  "frac_ok fr \<longleftrightarrow> (\<forall>c \<in> set fr. is_digit c) \<and> (fr \<noteq> [] \<longrightarrow> last fr \<noteq> CHR ''0'')"

definition dec_body :: "string \<Rightarrow> string \<Rightarrow> string" where
  "dec_body ip fr = ip @ (if fr = [] then [] else CHR ''.'' # fr)"

lemma frac_lang:
  "s \<in> lang (Sq (Many is_digit) (Cls is_digit19)) \<longleftrightarrow> s \<noteq> [] \<and> frac_ok s"
proof (cases s rule: rev_cases)
  case Nil
  then show ?thesis by (auto simp: frac_ok_def)
next
  case (snoc u c)
  then show ?thesis by (auto simp: frac_ok_def list_all_iff is_digit19_digit)
qed

lemma lang_Sq: "s \<in> lang (Sq r t) \<longleftrightarrow> (\<exists>u v. s = u @ v \<and> u \<in> lang r \<and> v \<in> lang t)"
  by simp

lemma lang_lit_Sq: "s \<in> lang (Sq (lit w) r) \<longleftrightarrow> (\<exists>u. s = w @ u \<and> u \<in> lang r)"
  by auto

lemma lang_Cls_Sq: "s \<in> lang (Sq (Cls p) r) \<longleftrightarrow> (\<exists>c u. s = c # u \<and> p c \<and> u \<in> lang r)"
proof
  assume "\<exists>c u. s = c # u \<and> p c \<and> u \<in> lang r"
  then obtain c u where "s = [c] @ u" "p c" "u \<in> lang r" by auto
  then show "s \<in> lang (Sq (Cls p) r)" unfolding lang_Sq lang.simps by blast
qed auto

lemma lang_Sq_assoc: "lang (Sq r (Sq t u)) = lang (Sq (Sq r t) u)"
  by (auto; metis append.assoc)

lemma int_lang:
  "s \<in> lang (Sq (Cls is_digit19) (Many is_digit)) \<longleftrightarrow> canonical_digits s \<and> s \<noteq> ''0''"
  unfolding lang_Cls_Sq
  by (cases s) (auto simp: canonical_digits_def list_all_iff is_digit19_digit)

lemma dec_body_iff:
  "(\<exists>t. s = ip @ t \<and> (t = [] \<or> (\<exists>fr. t = ''.'' @ fr \<and> fr \<noteq> [] \<and> frac_ok fr))) \<longleftrightarrow>
   (\<exists>fr. s = dec_body ip fr \<and> frac_ok fr)" (is "?L \<longleftrightarrow> ?R")
proof
  assume ?L
  then obtain t where s: "s = ip @ t"
    and t: "t = [] \<or> (\<exists>fr. t = ''.'' @ fr \<and> fr \<noteq> [] \<and> frac_ok fr)" by blast
  from t show ?R
  proof (elim disjE exE conjE)
    assume "t = []"
    with s have "s = dec_body ip [] \<and> frac_ok []" by (simp add: dec_body_def frac_ok_def)
    then show ?R by blast
  next
    fix fr assume "t = ''.'' @ fr" "fr \<noteq> []" "frac_ok fr"
    with s have "s = dec_body ip fr \<and> frac_ok fr" by (simp add: dec_body_def)
    then show ?R by blast
  qed
next
  assume ?R
  then show ?L by (auto simp: dec_body_def)
qed

lemma pos_lang:
  "s \<in> lang (Sq (Cls is_digit19) (Sq (Many is_digit)
             (Opt (Sq (lit ''.'') (Sq (Many is_digit) (Cls is_digit19)))))) \<longleftrightarrow>
   (\<exists>ip fr. s = dec_body ip fr \<and> canonical_digits ip \<and> ip \<noteq> ''0'' \<and> frac_ok fr)"
  (is "_ \<longleftrightarrow> ?R")
proof -
  have "s \<in> lang (Sq (Cls is_digit19) (Sq (Many is_digit)
             (Opt (Sq (lit ''.'') (Sq (Many is_digit) (Cls is_digit19)))))) \<longleftrightarrow>
    (\<exists>ip t. s = ip @ t \<and> (canonical_digits ip \<and> ip \<noteq> ''0'') \<and>
       (t = [] \<or> (\<exists>fr. t = ''.'' @ fr \<and> fr \<noteq> [] \<and> frac_ok fr)))"
    by (simp only: lang_Sq_assoc [of "Cls is_digit19"] lang_Sq [of s] int_lang lang.simps(8)
      insert_iff lang_lit_Sq frac_lang)
  also have "\<dots> \<longleftrightarrow> ?R"
    using dec_body_iff [of s] by blast
  finally show ?thesis .
qed

lemma zero_frac_lang:
  "s \<in> lang (Sq (lit ''0.'') (Sq (Many is_digit) (Cls is_digit19))) \<longleftrightarrow>
   (\<exists>fr. s = dec_body ''0'' fr \<and> fr \<noteq> [] \<and> frac_ok fr)"
  unfolding lang_Sq [of s] frac_lang by (auto simp: dec_body_def)

lemma canonical_digits_0: "canonical_digits ''0''"
  by code_simp

lemma body_iff:
  "(\<exists>ip fr. u = dec_body ip fr \<and> canonical_digits ip \<and> ip \<noteq> ''0'' \<and> frac_ok fr) \<or>
   (\<exists>fr. u = dec_body ''0'' fr \<and> fr \<noteq> [] \<and> frac_ok fr) \<longleftrightarrow>
   (\<exists>ip fr. u = dec_body ip fr \<and> canonical_digits ip \<and> frac_ok fr \<and> (ip = ''0'' \<longrightarrow> fr \<noteq> []))"
  using canonical_digits_0 by blast

lemma decimal_pattern_iff:
  "fullmatch decimal_pattern t \<longleftrightarrow> t = ''0'' \<or>
     (\<exists>sg ip fr. (sg = [] \<or> sg = ''-'') \<and> t = sg @ dec_body ip fr
        \<and> canonical_digits ip \<and> frac_ok fr \<and> (ip = ''0'' \<longrightarrow> fr \<noteq> []))"
proof -
  have "fullmatch decimal_pattern t \<longleftrightarrow> t = ''0'' \<or>
     (\<exists>sg u. t = sg @ u \<and> (sg = [] \<or> sg = ''-'') \<and>
        ((\<exists>ip fr. u = dec_body ip fr \<and> canonical_digits ip \<and> ip \<noteq> ''0'' \<and> frac_ok fr) \<or>
         (\<exists>fr. u = dec_body ''0'' fr \<and> fr \<noteq> [] \<and> frac_ok fr)))"
    unfolding decimal_pattern_def fullmatch_lang lang.simps(7) Un_iff lang_Sq [of t]
      pos_lang zero_frac_lang lang.simps(8) lang_lit by auto
  also have "\<dots> \<longleftrightarrow> t = ''0'' \<or> (\<exists>sg u. t = sg @ u \<and> (sg = [] \<or> sg = ''-'') \<and>
      (\<exists>ip fr. u = dec_body ip fr \<and> canonical_digits ip \<and> frac_ok fr \<and> (ip = ''0'' \<longrightarrow> fr \<noteq> [])))"
    unfolding body_iff ..
  finally show ?thesis by blast
qed


section \<open>What the constructor computes\<close>

lemma lstrip0_split: "\<exists>k. s = replicate k (CHR ''0'') @ lstrip0 s"
proof -
  have "s = takeWhile (\<lambda>c. c = CHR ''0'') s @ lstrip0 s"
    by (simp add: lstrip0_def)
  then show ?thesis by (subst (asm) takeWhile_eq_replicate) blast
qed

lemma lstrip0_nat_str:
  assumes "\<forall>c \<in> set s. is_digit c" "0 < digits_nat s"
  shows "lstrip0 s = nat_str (digits_nat s)"
proof -
  obtain k where k: "s = replicate k (CHR ''0'') @ lstrip0 s" using lstrip0_split by blast
  have "set (lstrip0 s) \<subseteq> set s" unfolding lstrip0_def by (rule set_dropWhileD[THEN subsetI])
  with assms(1) have d: "\<forall>c \<in> set (lstrip0 s). is_digit c" by blast
  have val: "digits_nat (lstrip0 s) = digits_nat s" by (subst (2) k) (simp add: digits_nat_zeros)
  with assms(2) have ne: "lstrip0 s \<noteq> []" by (metis digits_nat_Nil less_irrefl)
  then have "hd (lstrip0 s) \<noteq> CHR ''0''"
    unfolding lstrip0_def by (metis (mono_tags, lifting) hd_dropWhile)
  with d ne have "canonical_digits (lstrip0 s)" by (simp add: canonical_digits_def)
  from nat_str_digits_nat [OF this] val show ?thesis by simp
qed

lemma digit_val_pos: "is_digit c \<Longrightarrow> c \<noteq> CHR ''0'' \<Longrightarrow> 0 < digit_val c"
  by (metis digit_char_0 digit_val_char gr0I)

lemma frac_value:
  assumes "frac_ok fr" "fr \<noteq> []"
  shows "digits_nat (ip @ fr) mod 10 \<noteq> 0"
proof -
  from assms(2) obtain u c where u: "fr = u @ [c]" by (cases fr rule: rev_cases) auto
  with assms have c: "is_digit c" "c \<noteq> CHR ''0''" by (auto simp: frac_ok_def)
  have "digits_nat (ip @ fr) = 10 * digits_nat (ip @ u) + digit_val c"
    unfolding u append_assoc [symmetric] by (rule digits_nat_snoc)
  with c show ?thesis using digit_val_pos [OF c] digit_val_less [of c] by simp
qed

lemma canonical_digits_all: "canonical_digits s \<Longrightarrow> \<forall>c \<in> set s. is_digit c"
  by (simp add: canonical_digits_def)

lemma frac_ok_digits: "frac_ok s \<Longrightarrow> \<forall>c \<in> set s. is_digit c"
  by (simp add: frac_ok_def)

lemma body_value_pos:
  assumes "canonical_digits ip" "frac_ok fr" "ip = ''0'' \<longrightarrow> fr \<noteq> []"
  shows "0 < digits_nat (ip @ fr)"
proof (cases "fr = []")
  case True
  with assms show ?thesis by (auto intro: digits_nat_pos)
next
  case False
  from frac_value [OF assms(2) False] show ?thesis by (metis gr0I mod_0)
qed

lemma digit_not_dot: "is_digit c \<Longrightarrow> c \<noteq> CHR ''.'' \<and> c \<noteq> CHR ''-'' \<and> ascii_lower c \<noteq> CHR ''n''"
proof -
  have a: "\<not> is_digit (CHR ''.'')" "\<not> is_digit (CHR ''-'')" "\<not> is_digit (CHR ''n'')"
    by code_simp+
  assume c: "is_digit c"
  then have "\<not> is_upper c" by (auto simp: is_digit_def is_upper_def)
  with a c show ?thesis by (auto simp: ascii_lower_def)
qed

lemma lang_lit_ci: "s \<in> lang (lit_ci w) \<longleftrightarrow> map ascii_lower s = w"
proof (induction w arbitrary: s)
  case Nil
  then show ?case by simp
next
  case (Cons c w)
  then show ?case unfolding lit_ci.simps lang_Cls_Sq by (auto simp: map_eq_Cons_conv)
qed

lemma non_finite_has_n:
  assumes "fullmatch non_finite_pattern s" shows "CHR ''n'' \<in> ascii_lower ` set s"
proof -
  from assms obtain u v where s: "s = u @ v" and
    v: "v \<in> lang (Sq (lit_ci ''inf'') (Opt (lit_ci ''inity''))) \<or>
        v \<in> lang (Sq (Opt (lit_ci ''s'')) (Sq (lit_ci ''nan'') (Many is_digit)))"
    unfolding non_finite_pattern_def fullmatch_lang lang_Sq [of s] lang.simps(7) Un_iff
    by blast
  from v have "CHR ''n'' \<in> set (map ascii_lower v)"
  proof
    assume "v \<in> lang (Sq (lit_ci ''inf'') (Opt (lit_ci ''inity'')))"
    from lang_Sq [THEN iffD1, OF this] obtain a b where v: "v = a @ b"
      and "a \<in> lang (lit_ci ''inf'')" by (elim exE conjE) (rule that)
    then have "map ascii_lower a = ''inf''" by (simp only: lang_lit_ci)
    with v show ?thesis by simp
  next
    assume "v \<in> lang (Sq (Opt (lit_ci ''s'')) (Sq (lit_ci ''nan'') (Many is_digit)))"
    from lang_Sq [THEN iffD1, OF this] obtain a w where v: "v = a @ w"
      and w: "w \<in> lang (Sq (lit_ci ''nan'') (Many is_digit))" by (elim exE conjE) (rule that)
    from lang_Sq [THEN iffD1, OF w] obtain b c where b: "w = b @ c"
      and "b \<in> lang (lit_ci ''nan'')" by (elim exE conjE) (rule that)
    then have "map ascii_lower b = ''nan''" by (simp only: lang_lit_ci)
    with v b show ?thesis by simp
  qed
  then show ?thesis unfolding s set_append image_Un set_map by (rule UnI2)
qed

lemma dec_text_not_non_finite:
  assumes "sg = [] \<or> sg = ''-''" "\<forall>c \<in> set ip. is_digit c" "\<forall>c \<in> set fr. is_digit c"
  shows "\<not> fullmatch non_finite_pattern (sg @ dec_body ip fr)"
proof -
  have p: "ascii_lower (CHR ''-'') \<noteq> CHR ''n''" "ascii_lower (CHR ''.'') \<noteq> CHR ''n''" by code_simp+
  have "\<forall>c \<in> set ip. ascii_lower c \<noteq> CHR ''n''" "\<forall>c \<in> set fr. ascii_lower c \<noteq> CHR ''n''"
    using assms(2,3) digit_not_dot by blast+
  with p have "\<forall>c \<in> set (sg @ dec_body ip fr). ascii_lower c \<noteq> CHR ''n''"
    using assms(1) unfolding dec_body_def by (cases "fr = []") auto
  then have "CHR ''n'' \<notin> ascii_lower ` set (sg @ dec_body ip fr)" by (metis imageE)
  then show ?thesis using non_finite_has_n by blast
qed

lemma parts_of_body:
  assumes "\<forall>c \<in> set ip. is_digit c"
  shows "takeWhile (\<lambda>c. c \<noteq> CHR ''.'') (dec_body ip fr) = ip"
    "dropWhile (\<lambda>c. c \<noteq> CHR ''.'') (dec_body ip fr) = (if fr = [] then [] else CHR ''.'' # fr)"
proof -
  have "\<forall>c \<in> set ip. c \<noteq> CHR ''.''" using assms digit_not_dot by blast
  then show "takeWhile (\<lambda>c. c \<noteq> CHR ''.'') (dec_body ip fr) = ip"
    "dropWhile (\<lambda>c. c \<noteq> CHR ''.'') (dec_body ip fr) = (if fr = [] then [] else CHR ''.'' # fr)"
    by (auto simp: dec_body_def)
qed

lemma sign_of_body:
  assumes "sg = [] \<or> sg = ''-''" "canonical_digits ip"
  shows "prefix ''-'' (sg @ dec_body ip fr) \<longleftrightarrow> sg = ''-''"
    "(if prefix ''-'' (sg @ dec_body ip fr) then drop 1 (sg @ dec_body ip fr)
      else sg @ dec_body ip fr) = dec_body ip fr"
proof -
  from assms(2) obtain d ds where ip: "ip = d # ds" "is_digit d"
    by (cases ip) (auto simp: canonical_digits_def)
  with digit_not_dot [of d] assms(1) show *: "prefix ''-'' (sg @ dec_body ip fr) \<longleftrightarrow> sg = ''-''"
    by (auto simp: dec_body_def)
  show "(if prefix ''-'' (sg @ dec_body ip fr) then drop 1 (sg @ dec_body ip fr)
      else sg @ dec_body ip fr) = dec_body ip fr"
    unfolding * using assms(1) by auto
qed

lemma canonical_decimal_body:
  assumes sg: "sg = [] \<or> sg = ''-''" and ip: "canonical_digits ip" and fr: "frac_ok fr"
    and nz: "ip = ''0'' \<longrightarrow> fr \<noteq> []"
  shows "canonical_decimal (sg @ dec_body ip fr) =
    (if length (nat_str (digits_nat (ip @ fr))) \<le> 38 \<and> length ip \<le> 20 \<and> length fr \<le> 18
     then Inr \<lparr>dec_text = sg @ dec_body ip fr,
       coefficient = (if sg = [] then int (digits_nat (ip @ fr)) else - int (digits_nat (ip @ fr))),
       scale = length fr\<rparr>
     else Inl (EconomicValidationError OUT_OF_RANGE))"
proof -
  have ipd: "\<forall>c \<in> set ip. is_digit c" using ip by (rule canonical_digits_all)
  have frd: "\<forall>c \<in> set fr. is_digit c" using fr by (rule frac_ok_digits)
  have pos: "0 < digits_nat (ip @ fr)" by (rule body_value_pos [OF ip fr nz])
  have strip: "lstrip0 (ip @ fr) = nat_str (digits_nat (ip @ fr))"
    using ipd frd pos by (intro lstrip0_nat_str) auto
  have m: "fullmatch decimal_pattern (sg @ dec_body ip fr)"
    unfolding decimal_pattern_iff using assms by blast
  have nf: "\<not> fullmatch non_finite_pattern (sg @ dec_body ip fr)"
    by (rule dec_text_not_non_finite [OF sg ipd frd])
  have md: "fr \<noteq> [] \<Longrightarrow> int (digits_nat (ip @ fr)) mod 10 \<noteq> 0"
    "fr \<noteq> [] \<Longrightarrow> (- int (digits_nat (ip @ fr))) mod 10 \<noteq> 0"
    using frac_value [OF fr, of ip] by presburger+
  define N where "N = digits_nat (ip @ fr)"
  have ne: "nat_str N \<noteq> []" by simp
  have d1: "drop 1 (if fr = [] then [] else CHR ''.'' # fr) = fr" by simp
  show ?thesis
    unfolding canonical_decimal_def sign_of_body(2) [OF sg ip] Let_def
    unfolding sign_of_body(1) [OF sg ip] parts_of_body [OF ipd] d1 strip N_def [symmetric]
    using m nf md pos sg ne unfolding N_def [symmetric]
    by (cases "fr = []"; cases "sg = []")
      (simp_all add: guard_res_def max_digits_defs not_le)
qed


section \<open>Normal forms\<close>

definition normalized :: "int \<Rightarrow> nat \<Rightarrow> bool" where
  "normalized c s \<longleftrightarrow> (s = 0 \<or> c mod 10 \<noteq> 0)"

definition in_bounds :: "int \<Rightarrow> nat \<Rightarrow> bool" where
  "in_bounds c s \<longleftrightarrow> s \<le> 18 \<and> \<bar>c\<bar> < 10 ^ (s + 20)"

lemma normalize_loop_spec:
  "normalize_loop c s = (c', s') \<Longrightarrow> c = c' * 10 ^ (s - s') \<and> s' \<le> s \<and> normalized c' s'"
proof (induction c s rule: normalize_loop.induct)
  case (1 c)
  then show ?case by (simp add: normalized_def)
next
  case (2 c s)
  show ?case
  proof (cases "c mod 10 = 0")
    case True
    with 2 have IH: "c div 10 = c' * 10 ^ (s - s')" "s' \<le> s" "normalized c' s'" by auto
    from True have "c = (c div 10) * 10" by presburger
    with IH show ?thesis by (simp add: Suc_diff_le)
  next
    case False
    with 2 show ?thesis by (auto simp: normalized_def)
  qed
qed

lemma normalize_scaled_spec:
  assumes "normalize_scaled c s = (c', s')"
  shows "c' * 10 ^ (s - s') = c" "s' \<le> s" "normalized c' s'" "c = 0 \<longrightarrow> s' = 0"
  using assms normalize_loop_spec [of c s c' s']
  by (auto simp: normalize_scaled_def normalized_def split: if_splits)

lemma normalize_loop_id: "normalized c s \<Longrightarrow> normalize_loop c s = (c, s)"
  by (cases s) (auto simp: normalized_def)

lemma normalize_scaled_id: "normalized c s \<Longrightarrow> normalize_scaled c s = (c, s)"
  by (auto simp: normalize_scaled_def normalize_loop_id normalized_def)

lemma normalize_scaled_idem:
  "normalize_scaled c s = (c', s') \<Longrightarrow> normalize_scaled c' s' = (c', s')"
  by (rule normalize_scaled_id) (rule normalize_scaled_spec(3))

lemma scaled_text_normalize: "normalize_scaled c s = (c', s') \<Longrightarrow> scaled_text c s = scaled_text c' s'"
  by (simp add: scaled_text_def normalize_scaled_idem)

definition int_part :: "nat \<Rightarrow> nat \<Rightarrow> string" where
  "int_part n s = (let ds = nat_str n in if length ds \<le> s then ''0'' else take (length ds - s) ds)"

definition frac_part :: "nat \<Rightarrow> nat \<Rightarrow> string" where
  "frac_part n s =
     (let ds = nat_str n in
      if length ds \<le> s then replicate (s - length ds) (CHR ''0'') @ ds else drop (length ds - s) ds)"

lemma scaled_text_body:
  assumes "c \<noteq> 0" "normalized c s"
  shows "scaled_text c s = (if c < 0 then ''-'' else []) @ dec_body (int_part (nat \<bar>c\<bar>) s) (frac_part (nat \<bar>c\<bar>) s)"
proof -
  have n: "normalize_scaled c s = (c, s)" using assms(2) by (rule normalize_scaled_id)
  show ?thesis
  proof (cases "s = 0")
    case True
    then show ?thesis using assms(1) n
      by (simp add: scaled_text_def int_part_def frac_part_def dec_body_def Let_def)
  next
    case False
    then show ?thesis using assms(1)
      by (auto simp: scaled_text_def n int_part_def frac_part_def dec_body_def Let_def Suc_diff_le)
  qed
qed

lemma part_props:
  assumes "0 < n" "s = 0 \<or> n mod 10 \<noteq> 0"
  shows "canonical_digits (int_part n s)" "frac_ok (frac_part n s)"
    "int_part n s = ''0'' \<longrightarrow> frac_part n s \<noteq> []" "length (frac_part n s) = s"
    "digits_nat (int_part n s @ frac_part n s) = n"
    "length (int_part n s) \<le> 20 \<longleftrightarrow> length (nat_str n) \<le> s + 20"
proof -
  let ?ds = "nat_str n"
  have d: "\<forall>c \<in> set ?ds. is_digit c" by (rule nat_str_digits)
  have h: "hd ?ds \<noteq> CHR ''0''" by (rule hd_nat_str [OF assms(1)])
  have lst: "s \<noteq> 0 \<Longrightarrow> last ?ds \<noteq> CHR ''0''"
    using assms by (subst nat_str.simps) (simp add: digit_char_eq_0)
  show "canonical_digits (int_part n s)"
  proof (cases "length ?ds \<le> s")
    case True
    then show ?thesis by (simp add: int_part_def canonical_digits_0)
  next
    case False
    then have "hd (take (length ?ds - s) ?ds) = hd ?ds" "take (length ?ds - s) ?ds \<noteq> []"
      by auto
    then show ?thesis using False d h
      by (auto simp: int_part_def canonical_digits_def Let_def dest: in_set_takeD)
  qed
  show "frac_ok (frac_part n s)"
  proof (cases "s = 0")
    case True
    then show ?thesis by (simp add: frac_part_def frac_ok_def)
  next
    case False
    then show ?thesis using d lst
      by (auto simp: frac_part_def frac_ok_def Let_def last_drop digit_char_0 [symmetric]
          dest: in_set_dropD)
  qed
  show "length (frac_part n s) = s" by (simp add: frac_part_def Let_def)
  show "int_part n s = ''0'' \<longrightarrow> frac_part n s \<noteq> []"
  proof
    assume i: "int_part n s = ''0''"
    show "frac_part n s \<noteq> []"
    proof (cases "length ?ds \<le> s")
      case False
      have "hd (int_part n s) = hd ?ds" using False by (simp add: int_part_def Let_def)
      with i h show ?thesis by simp
    qed (simp add: frac_part_def Let_def)
  qed
  show "digits_nat (int_part n s @ frac_part n s) = n"
    using digits_nat_zeros [of "Suc (s - length ?ds)" ?ds]
    by (simp add: int_part_def frac_part_def Let_def)
  show "length (int_part n s) \<le> 20 \<longleftrightarrow> length ?ds \<le> s + 20"
    by (simp add: int_part_def Let_def) arith
qed

lemma in_bounds_digits:
  "length (nat_str (nat \<bar>c\<bar>)) \<le> 38 \<and> length (nat_str (nat \<bar>c\<bar>)) \<le> s + 20 \<and> s \<le> 18 \<longleftrightarrow>
   in_bounds c s"
proof -
  have "length (nat_str (nat \<bar>c\<bar>)) \<le> s + 20 \<longleftrightarrow> nat \<bar>c\<bar> < 10 ^ (s + 20)"
    by (rule length_nat_str_le) simp
  also have "\<dots> \<longleftrightarrow> \<bar>c\<bar> < 10 ^ (s + 20)" by (simp add: nat_less_iff)
  finally show ?thesis unfolding in_bounds_def by linarith
qed

theorem canonical_scaled_text:
  assumes "normalize_scaled c0 s0 = (c, s)"
  shows "canonical_decimal (scaled_text c0 s0) =
    (if in_bounds c s then Inr \<lparr>dec_text = scaled_text c0 s0, coefficient = c, scale = s\<rparr>
     else Inl (EconomicValidationError OUT_OF_RANGE))"
proof -
  have nf: "normalized c s" "c0 = 0 \<longrightarrow> s = 0" using assms by (auto dest: normalize_scaled_spec)
  have t: "scaled_text c0 s0 = scaled_text c s" by (rule scaled_text_normalize [OF assms])
  show ?thesis
  proof (cases "c = 0")
    case True
    have s0: "s = 0" using True nf(1) by (simp add: normalized_def)
    have z: "scaled_text c0 s0 = ''0''" using t True by (simp add: scaled_text_def s0 normalize_scaled_def)
    have "canonical_decimal ''0'' = Inr \<lparr>dec_text = ''0'', coefficient = 0, scale = 0\<rparr>"
      by code_simp
    then show ?thesis unfolding z using True s0 by (simp add: in_bounds_def)
  next
    case False
    define n where "n = nat \<bar>c\<bar>"
    have n: "0 < n" using False by (simp add: n_def)
    have c: "c = (if c < 0 then - int n else int n)" by (simp add: n_def)
    have "s = 0 \<or> n mod 10 \<noteq> 0"
      using nf(1) c unfolding normalized_def by (cases "c < 0") presburger+
    note p = part_props [OF n this]
    define sg where "sg = (if c < 0 then ''-'' else [])"
    have sg: "sg = [] \<or> sg = ''-''" by (simp add: sg_def)
    have b: "scaled_text c s = sg @ dec_body (int_part n s) (frac_part n s)"
      unfolding sg_def n_def by (rule scaled_text_body [OF False nf(1)])
    have w: "length (nat_str n) \<le> 38 \<and> length (nat_str n) \<le> s + 20 \<and> s \<le> 18 \<longleftrightarrow> in_bounds c s"
      unfolding n_def by (rule in_bounds_digits)
    show ?thesis
      unfolding t b canonical_decimal_body [OF sg p(1,2,3)] p(4,5,6) w
      using c by (cases "c < 0") (simp_all add: sg_def)
  qed
qed


section \<open>Parsed decimals\<close>

lemma int_frac_of_body:
  assumes "canonical_digits ip" "frac_ok fr" "ip = ''0'' \<longrightarrow> fr \<noteq> []"
  shows "int_part (digits_nat (ip @ fr)) (length fr) = ip"
    "frac_part (digits_nat (ip @ fr)) (length fr) = fr"
proof -
  have d: "\<forall>c \<in> set (ip @ fr). is_digit c"
    using canonical_digits_all [OF assms(1)] frac_ok_digits [OF assms(2)] by auto
  have N: "nat_str (digits_nat (ip @ fr)) = lstrip0 (ip @ fr)"
    using lstrip0_nat_str [OF d body_value_pos [OF assms]] by simp
  have "int_part (digits_nat (ip @ fr)) (length fr) = ip \<and>
    frac_part (digits_nat (ip @ fr)) (length fr) = fr"
  proof (cases "ip = ''0''")
    case False
    have "lstrip0 (ip @ fr) = ip @ fr"
      using assms(1) False by (cases ip) (auto simp: canonical_digits_def lstrip0_def)
    moreover have "ip \<noteq> []" using assms(1) by (simp add: canonical_digits_def)
    ultimately show ?thesis using N by (auto simp: int_part_def frac_part_def Let_def)
  next
    case True
    have l: "lstrip0 (ip @ fr) = lstrip0 fr" using True by (simp add: lstrip0_def)
    obtain k where k: "fr = replicate k (CHR ''0'') @ lstrip0 fr" using lstrip0_split by blast
    then have "length fr = k + length (lstrip0 fr)" by (metis length_append length_replicate)
    then have "int_part (digits_nat (ip @ fr)) (length fr) = ''0''"
      "frac_part (digits_nat (ip @ fr)) (length fr) = replicate k (CHR ''0'') @ lstrip0 fr"
      using N l by (auto simp: int_part_def frac_part_def Let_def)
    with k True show ?thesis by simp
  qed
  then show "int_part (digits_nat (ip @ fr)) (length fr) = ip"
    "frac_part (digits_nat (ip @ fr)) (length fr) = fr" by blast+
qed


lemma mod10_int: "N mod 10 \<noteq> 0 \<Longrightarrow> int N mod 10 \<noteq> 0 \<and> (- int N) mod 10 \<noteq> 0"
  by presburger

text \<open>What a returned value is: its parts are normal, in bounds, and print to its text.\<close>

theorem canonical_decimal_Inr:
  assumes "canonical_decimal t = Inr d"
  shows "dec_text d = t" "normalized (coefficient d) (scale d)"
    "in_bounds (coefficient d) (scale d)" "scaled_text (coefficient d) (scale d) = t"
proof -
  have "fullmatch decimal_pattern t"
    using assms by (simp add: canonical_decimal_def)
  then consider "t = ''0''" | sg ip fr where "sg = [] \<or> sg = ''-''" "t = sg @ dec_body ip fr"
    "canonical_digits ip" "frac_ok fr" "ip = ''0'' \<longrightarrow> fr \<noteq> []"
    unfolding decimal_pattern_iff by blast
  then have "dec_text d = t \<and> normalized (coefficient d) (scale d) \<and>
    in_bounds (coefficient d) (scale d) \<and> scaled_text (coefficient d) (scale d) = t"
  proof cases
    case 1
    have z: "canonical_decimal ''0'' = Inr \<lparr>dec_text = ''0'', coefficient = 0, scale = 0\<rparr>"
      "scaled_text 0 0 = ''0''" by code_simp+
    with assms 1 show ?thesis by (auto simp: normalized_def in_bounds_def)
  next
    case 2
    let ?N = "digits_nat (ip @ fr)"
    note b = canonical_decimal_body [OF 2(1,3,4,5)]
    from assms 2(2) b have l: "length (nat_str ?N) \<le> 38" "length ip \<le> 20" "length fr \<le> 18"
      and d: "d = \<lparr>dec_text = t,
       coefficient = (if sg = [] then int ?N else - int ?N), scale = length fr\<rparr>"
      by (auto split: if_splits)
    have pos: "0 < ?N" by (rule body_value_pos [OF 2(3,4,5)])
    have md: "length fr = 0 \<or> ?N mod 10 \<noteq> 0" using frac_value [OF 2(4), of ip] by (cases "fr = []") simp_all
    have nrm: "normalized (coefficient d) (scale d)"
      using md mod10_int [of ?N] unfolding d normalized_def by auto
    have abs: "nat \<bar>coefficient d\<bar> = ?N" "coefficient d \<noteq> 0"
      "(if coefficient d < 0 then ''-'' else []) = sg"
      using d pos 2(1) by auto
    have sc: "scale d = length fr" using d by simp
    note pp = part_props [OF pos md]
    note ii = int_frac_of_body [OF 2(3,4,5)]
    have "scaled_text (coefficient d) (scale d) = t"
      using scaled_text_body [OF abs(2) nrm] unfolding abs(1,3) sc ii 2(2) .
    moreover have "in_bounds (coefficient d) (scale d)"
      using l pp(6) unfolding in_bounds_digits [symmetric] abs(1) sc ii by simp
    ultimately show ?thesis using nrm d by simp
  qed
  then show "dec_text d = t" "normalized (coefficient d) (scale d)"
    "in_bounds (coefficient d) (scale d)" "scaled_text (coefficient d) (scale d) = t" by blast+
qed

lemma wf_dec_iff:
  "wf_dec d \<longleftrightarrow> normalized (coefficient d) (scale d) \<and> in_bounds (coefficient d) (scale d)
     \<and> dec_text d = scaled_text (coefficient d) (scale d)"
proof
  assume "wf_dec d"
  then show "normalized (coefficient d) (scale d) \<and> in_bounds (coefficient d) (scale d)
     \<and> dec_text d = scaled_text (coefficient d) (scale d)"
    using canonical_decimal_Inr unfolding wf_dec_def by metis
next
  assume a: "normalized (coefficient d) (scale d) \<and> in_bounds (coefficient d) (scale d)
     \<and> dec_text d = scaled_text (coefficient d) (scale d)"
  then have "normalize_scaled (coefficient d) (scale d) = (coefficient d, scale d)"
    by (auto intro: normalize_scaled_id)
  from canonical_scaled_text [OF this] a show "wf_dec d" by (simp add: wf_dec_def)
qed

lemma canonical_decimal_wf [dest]: "canonical_decimal t = Inr d \<Longrightarrow> wf_dec d"
  using canonical_decimal_Inr(1) by (simp add: wf_dec_def)

lemma canonical_decimal_errors:
  assumes "canonical_decimal t = Inl e"
  shows "e = EconomicValidationError NON_FINITE \<or> e = EconomicValidationError OUT_OF_RANGE"
proof (cases "fullmatch non_finite_pattern t \<or> \<not> fullmatch decimal_pattern t")
  case True
  then show ?thesis using assms by (auto simp: canonical_decimal_def guard_res_def split: if_splits)
next
  case False
  then consider "t = ''0''" | sg ip fr where "sg = [] \<or> sg = ''-''" "t = sg @ dec_body ip fr"
    "canonical_digits ip" "frac_ok fr" "ip = ''0'' \<longrightarrow> fr \<noteq> []"
    unfolding decimal_pattern_iff by blast
  then show ?thesis
  proof cases
    case 1
    have "canonical_decimal ''0'' = Inr \<lparr>dec_text = ''0'', coefficient = 0, scale = 0\<rparr>" by code_simp
    with 1 assms show ?thesis by simp
  next
    case 2
    from canonical_decimal_body [OF 2(1,3,4,5)] assms 2(2) show ?thesis by (auto split: if_splits)
  qed
qed

section \<open>Values\<close>

lemma pow10_loop_power [simp]: "pow10_loop n = 10 ^ n"
  by (induction n) auto

lemma dval_scaled:
  assumes "scale d \<le> s"
  shows "dval d = of_int (coefficient d * 10 ^ (s - scale d)) / 10 ^ s"
proof -
  from assms obtain k where "s = scale d + k" using le_Suc_ex by blast
  then show ?thesis by (simp add: dval_def power_add)
qed

lemma normalize_scaled_val:
  assumes "normalize_scaled c s = (c', s')"
  shows "(of_int c' :: rat) / 10 ^ s' = of_int c / 10 ^ s"
proof -
  note p = normalize_scaled_spec [OF assms]
  have "(of_int c :: rat) = of_int c' * 10 ^ (s - s')" by (subst p(1) [symmetric]) simp
  with p(2) show ?thesis by (simp add: power_diff)
qed

text \<open>\<open>bounded_scaled\<close>: the value is exact, and the only error is the caller's code.\<close>

lemma bounded_scaled_Inr:
  assumes "bounded_scaled c s code = Inr d"
  shows "wf_dec d" "dval d = of_int c / 10 ^ s"
proof -
  obtain c' s' where n: "normalize_scaled c s = (c', s')" by fastforce
  have "canonical_decimal (scaled_text c s) = Inr d"
    using assms by (auto simp: bounded_scaled_def split: sum.splits if_splits)
  then have "wf_dec d" "coefficient d = c'" "scale d = s'"
    using canonical_scaled_text [OF n] by (auto split: if_splits)
  then show "wf_dec d" "dval d = of_int c / 10 ^ s"
    using normalize_scaled_val [OF n] by (auto simp: dval_def)
qed

lemma bounded_scaled_Inl:
  "bounded_scaled c s code = Inl e \<Longrightarrow> e = EconomicValidationError code"
proof -
  obtain c' s' where n: "normalize_scaled c s = (c', s')" by fastforce
  show "bounded_scaled c s code = Inl e \<Longrightarrow> e = EconomicValidationError code"
    using canonical_scaled_text [OF n] by (auto simp: bounded_scaled_def split: sum.splits if_splits)
qed

lemma normalized_unique:
  assumes "normalized a s" "normalized b t" "a * 10 ^ t = b * 10 ^ s" "s \<le> t"
  shows "a = b \<and> s = t"
proof -
  have "a * 10 ^ (t - s) * 10 ^ s = b * 10 ^ s"
    using assms(3,4) by (simp add: mult.assoc power_add [symmetric])
  then have b: "b = a * 10 ^ (t - s)" by simp
  have "s = t"
  proof (rule ccontr)
    assume "s \<noteq> t"
    with assms(4) obtain k where "t - s = Suc k" "t \<noteq> 0" by (cases "t - s") auto
    with b assms(2) show False by (simp add: normalized_def)
  qed
  with b show ?thesis by simp
qed

lemma wf_dec_unique:
  assumes "wf_dec a" "wf_dec b" "dval a = dval b"
  shows "a = b"
proof -
  have "(of_int (coefficient a) * 10 ^ scale b :: rat) = of_int (coefficient b) * 10 ^ scale a"
    using assms(3) by (simp add: dval_def field_simps)
  then have "(of_int (coefficient a * 10 ^ scale b) :: rat) = of_int (coefficient b * 10 ^ scale a)"
    by simp
  then have e: "coefficient a * 10 ^ scale b = coefficient b * 10 ^ scale a"
    unfolding of_int_eq_iff .
  have n: "normalized (coefficient a) (scale a)" "normalized (coefficient b) (scale b)"
    using assms by (auto simp: wf_dec_iff)
  have "coefficient a = coefficient b \<and> scale a = scale b"
  proof (cases "scale a \<le> scale b")
    case True
    from normalized_unique [OF n e this] show ?thesis .
  next
    case False
    then have "scale b \<le> scale a" by simp
    from normalized_unique [OF n(2,1) e [symmetric] this] show ?thesis by simp
  qed
  then show ?thesis using assms by (simp add: wf_dec_iff)
qed

lemma dec_less_dval: "dec_less a b = Inr (dval a < dval b)"
proof -
  let ?s = "max (scale a) (scale b)"
  have "dval a < dval b \<longleftrightarrow> (of_int (coefficient a * 10 ^ (?s - scale a)) :: rat)
      < of_int (coefficient b * 10 ^ (?s - scale b))"
    by (subst dval_scaled [of a ?s], simp, subst dval_scaled [of b ?s], simp)
       (simp only: divide_less_cancel, simp)
  then show ?thesis
    unfolding of_int_less_iff by (simp add: dec_less_def at_scale_def Let_def)
qed

lemma dec_greater_eq_dval: "dec_greater_eq a b = Inr (dval b \<le> dval a)"
  by (auto simp: dec_greater_eq_def dec_less_dval)

lemma dec_greater_dval: "wf_dec a \<Longrightarrow> wf_dec b \<Longrightarrow> dec_greater a b = Inr (dval b < dval a)"
  using wf_dec_unique [of a b] linorder_less_linear [of "dval a" "dval b"]
  by (auto simp: dec_greater_def dec_less_dval)

lemma dval_sign [simp]:
  "0 < dval d \<longleftrightarrow> 0 < coefficient d" "dval d < 0 \<longleftrightarrow> coefficient d < 0" "dval d = 0 \<longleftrightarrow> coefficient d = 0"
  by (simp_all add: dval_def zero_less_divide_iff divide_less_0_iff)

lemma dval_sign_le [simp]:
  "dval d \<le> 0 \<longleftrightarrow> coefficient d \<le> 0" "0 \<le> dval d \<longleftrightarrow> 0 \<le> coefficient d"
  by (simp_all add: not_less [symmetric])

section \<open>The grid check\<close>

lemma scaled_dvd_iff:
  fixes v q :: int
  assumes "q \<noteq> 0"
  shows "v mod q = 0 \<longleftrightarrow> (\<exists>k. (of_int v :: rat) = of_int k * of_int q)"
proof
  assume "v mod q = 0"
  then have "v = (v div q) * q" by (simp add: mod_0_imp_dvd)
  then have "(of_int v :: rat) = of_int (v div q) * of_int q" by (metis of_int_mult)
  then show "\<exists>k. (of_int v :: rat) = of_int k * of_int q" ..
next
  assume "\<exists>k. (of_int v :: rat) = of_int k * of_int q"
  then obtain k where "(of_int v :: rat) = of_int (k * q)" by auto
  then have "v = k * q" unfolding of_int_eq_iff .
  then show "v mod q = 0" by simp
qed

lemma require_quantized_Inr_iff:
  "require_quantized v q = Inr w \<longleftrightarrow>
   0 < dval q \<and> w = v \<and> (\<exists>k. dval v = of_int k * dval q)"
proof (cases "0 < coefficient q")
  case False
  then show ?thesis by (simp add: require_quantized_def require_positive_def)
next
  case True
  let ?s = "max (scale v) (scale q)"
  let ?vc = "coefficient v * 10 ^ (?s - scale v)" and ?qc = "coefficient q * 10 ^ (?s - scale q)"
  have "?vc mod ?qc = 0 \<longleftrightarrow> (\<exists>k. (of_int ?vc :: rat) = of_int k * of_int ?qc)"
    using True by (intro scaled_dvd_iff) simp
  also have "\<dots> \<longleftrightarrow> (\<exists>k. (of_int ?vc :: rat) / 10 ^ ?s = of_int k * (of_int ?qc / 10 ^ ?s))"
    by simp
  also have "\<dots> \<longleftrightarrow> (\<exists>k. dval v = of_int k * dval q)"
    using dval_scaled [of v ?s] dval_scaled [of q ?s] by simp
  finally show ?thesis
    using True by (auto simp: require_quantized_def require_positive_def guard_res_def Let_def)
qed

section \<open>Half-even rounding and settlement\<close>

lemma half_even_div_cases:
  fixes n d :: int
  assumes "0 < d"
  obtains "2 * (n mod d) < d" "half_even_div n d = n div d" "n - half_even_div n d * d = n mod d"
  | "d < 2 * (n mod d)" "half_even_div n d = n div d + 1" "n - half_even_div n d * d = n mod d - d"
  | "2 * (n mod d) = d" "even (half_even_div n d)" "half_even_div n d = n div d"
    "n - half_even_div n d * d = n mod d"
  | "2 * (n mod d) = d" "even (half_even_div n d)" "half_even_div n d = n div d + 1"
    "n - half_even_div n d * d = n mod d - d"
proof -
  have e: "n - n div d * d = n mod d" "n - (n div d + 1) * d = n mod d - d"
    by (simp_all add: minus_div_mult_eq_mod algebra_simps)
  consider "2 * (n mod d) < d" | "d < 2 * (n mod d)"
    | "2 * (n mod d) = d" "n div d mod 2 = 1" | "2 * (n mod d) = d" "n div d mod 2 \<noteq> 1"
    by linarith
  then show thesis
  proof cases
    case 1
    then have "half_even_div n d = n div d" by (simp add: half_even_div_def Let_def)
    with 1 e that(1) show ?thesis by metis
  next
    case 2
    then have "half_even_div n d = n div d + 1" by (simp add: half_even_div_def Let_def)
    with 2 e that(2) show ?thesis by metis
  next
    case 3
    then have "half_even_div n d = n div d + 1" by (simp add: half_even_div_def Let_def)
    moreover have "even (n div d + 1)" using 3(2) by (simp add: odd_iff_mod_2_eq_one)
    ultimately show ?thesis using 3 e that(4) by metis
  next
    case 4
    then have "half_even_div n d = n div d" by (simp add: half_even_div_def Let_def)
    moreover have "even (n div d)" using 4(2) by (simp add: even_iff_mod_2_eq_zero)
    ultimately show ?thesis using 4 e that(3) by metis
  qed
qed

lemma half_even_div_spec:
  fixes n d :: int
  assumes "0 < d"
  shows "2 * \<bar>n - half_even_div n d * d\<bar> \<le> d"
    "2 * \<bar>n - half_even_div n d * d\<bar> = d \<Longrightarrow> even (half_even_div n d)"
proof -
  have r: "0 \<le> n mod d" "n mod d < d" using assms by simp_all
  show "2 * \<bar>n - half_even_div n d * d\<bar> \<le> d"
    using r by (cases rule: half_even_div_cases [OF assms, of n]) simp_all
  show "even (half_even_div n d)" if "2 * \<bar>n - half_even_div n d * d\<bar> = d"
    using that r by (cases rule: half_even_div_cases [OF assms, of n]) simp_all
qed

lemma half_even_div_nonneg: "0 \<le> n \<Longrightarrow> 0 < d \<Longrightarrow> 0 \<le> half_even_div n d"
  by (auto simp: half_even_div_def Let_def pos_imp_zdiv_nonneg_iff add_nonneg_nonneg)

lemma half_even_div_exact: "0 < d \<Longrightarrow> half_even_div (k * d) d = k"
  by (simp add: half_even_div_def)


lemma gap_le:
  assumes "(0::rat) < w" shows "2 * (of_int x / w) \<le> of_int y / w \<longleftrightarrow> 2 * x \<le> y"
proof -
  have "2 * (of_int x / w) = of_int (2 * x) / w" by simp
  then show ?thesis using assms by (simp only: divide_le_cancel of_int_le_iff) auto
qed

lemma gap_eq:
  assumes "(0::rat) < w" shows "2 * (of_int x / w) = of_int y / w \<longleftrightarrow> 2 * x = y"
proof -
  have "2 * (of_int x / w) = of_int (2 * x) / w" by simp
  then show ?thesis using assms by (simp only: divide_cancel_right of_int_eq_iff) auto
qed

lemma settle_product_spec:
  assumes "settle_product p q m u = Inr r"
  defines "exact \<equiv> dval p * dval q * dval m"
  shows "dval (amount r) + dval (rounding_residual r) = exact"
    "\<exists>k. dval (amount r) = of_int k * dval u \<and>
       (2 * \<bar>dval (rounding_residual r)\<bar> = dval u \<longrightarrow> even k)"
    "2 * \<bar>dval (rounding_residual r)\<bar> \<le> dval u"
    "wf_dec (amount r)" "wf_dec (rounding_residual r)"
    "0 < dval q" "0 < dval m" "0 < dval u"
proof -
  let ?E = "coefficient p * coefficient q * coefficient m"
  let ?es = "scale p + scale q + scale m"
  let ?n = "\<bar>?E\<bar> * 10 ^ scale u" and ?d = "coefficient u * 10 ^ ?es"
  let ?k = "if ?E < 0 then - half_even_div ?n ?d else half_even_div ?n ?d"
  let ?rs = "max ?es (scale u)"
  let ?R = "?E * 10 ^ (?rs - ?es) - (?k * coefficient u) * 10 ^ (?rs - scale u)"
  have pos: "0 < coefficient q" "0 < coefficient m" "0 < coefficient u"
    and a: "bounded_scaled (?k * coefficient u) (scale u) ARITHMETIC_OVERFLOW = Inr (amount r)"
    and b: "bounded_scaled ?R ?rs ROUNDING_UNREPRESENTABLE = Inr (rounding_residual r)"
    using assms(1) by (auto simp: settle_product_def require_positive_def Let_def)
  from pos show "0 < dval q" "0 < dval m" and u: "0 < dval u" by simp_all
  from a b show "wf_dec (amount r)" "wf_dec (rounding_residual r)"
    by (auto dest: bounded_scaled_Inr)
  have ex: "exact = of_int ?E / 10 ^ ?es" by (simp add: exact_def dval_def power_add)
  have av: "dval (amount r) = of_int ?k * dval u"
    using bounded_scaled_Inr(2) [OF a] by (simp add: dval_def)
  have rv: "dval (rounding_residual r) = exact - of_int ?k * dval u"
  proof -
    have p: "(10::rat) ^ ?rs = 10 ^ (?rs - ?es) * 10 ^ ?es" "(10::rat) ^ ?rs = 10 ^ (?rs - scale u) * 10 ^ scale u"
      by (simp_all add: power_add [symmetric])
    have "dval (rounding_residual r) = of_int (?E * 10 ^ (?rs - ?es)) / 10 ^ ?rs
        - of_int ((?k * coefficient u) * 10 ^ (?rs - scale u)) / 10 ^ ?rs"
      using bounded_scaled_Inr(2) [OF b] by (simp only: of_int_diff diff_divide_distrib)
    also have "\<dots> = of_int ?E / 10 ^ ?es - of_int (?k * coefficient u) / 10 ^ scale u"
      by (subst p(1), subst p(2)) simp
    finally show ?thesis by (simp add: ex dval_def)
  qed
  show "dval (amount r) + dval (rounding_residual r) = exact" using av rv by simp
  have d: "0 < ?d" using pos by simp
  have gap: "\<bar>dval (rounding_residual r)\<bar> =
      of_int \<bar>?n - half_even_div ?n ?d * ?d\<bar> / (10 ^ scale u * 10 ^ ?es)"
  proof -
    have "\<bar>exact - of_int ?k * dval u\<bar> = \<bar>\<bar>exact\<bar> - of_int (half_even_div ?n ?d) * dval u\<bar>"
    proof (cases "?E < 0")
      case True
      then have "(of_int ?E :: rat) < 0" unfolding of_int_less_0_iff .
      then have "exact < 0" unfolding ex by (intro divide_neg_pos) simp_all
      with True show ?thesis by simp
    next
      case False
      then have "(0::rat) \<le> of_int ?E" unfolding of_int_0_le_iff by simp
      then have "0 \<le> exact" unfolding ex by (intro divide_nonneg_pos) simp_all
      with False show ?thesis by simp
    qed
    also have "\<bar>exact\<bar> - of_int (half_even_div ?n ?d) * dval u =
       of_int (?n - half_even_div ?n ?d * ?d) / (10 ^ scale u * 10 ^ ?es)"
      by (simp add: ex dval_def field_simps abs_mult)
    finally show ?thesis using rv by (simp add: abs_mult)
  qed
  have du: "dval u = of_int ?d / (10 ^ scale u * 10 ^ ?es)" by (simp add: dval_def)
  have sp: "(0::rat) < 10 ^ scale u * 10 ^ ?es" by simp
  show "2 * \<bar>dval (rounding_residual r)\<bar> \<le> dval u"
    unfolding gap du gap_le [OF sp] by (rule half_even_div_spec(1) [OF d])
  show "\<exists>k. dval (amount r) = of_int k * dval u \<and>
       (2 * \<bar>dval (rounding_residual r)\<bar> = dval u \<longrightarrow> even k)"
  proof (intro exI conjI impI)
    show "dval (amount r) = of_int ?k * dval u" by (rule av)
    assume "2 * \<bar>dval (rounding_residual r)\<bar> = dval u"
    then have "even (half_even_div ?n ?d)"
      unfolding gap du gap_eq [OF sp] by (rule half_even_div_spec(2) [OF d])
    then show "even ?k" by (cases "?E < 0") (simp_all only: if_True if_False even_minus)
  qed
qed

section \<open>The characters of a decimal text\<close>

lemma dec_text_chars:
  assumes "wf_dec d" "x \<in> set (dec_text d)"
  shows "is_digit x \<or> x = CHR ''.'' \<or> x = CHR ''-''"
proof -
  have "fullmatch decimal_pattern (dec_text d)"
    using assms(1) by (simp add: wf_dec_def canonical_decimal_def)
  moreover have "is_digit (CHR ''0'')" by code_simp
  ultimately show ?thesis using assms(2) unfolding decimal_pattern_iff
    by (auto simp: dec_body_def frac_ok_def canonical_digits_def split: if_splits)
qed

lemma dec_text_letters:
  assumes "wf_dec d" "97 \<le> (of_char x :: nat)"
  shows "x \<notin> set (dec_text d)"
proof
  assume "x \<in> set (dec_text d)"
  from dec_text_chars [OF assms(1) this] assms(2) show False
    by (auto simp: is_digit_def)
qed

lemma dec_text_not_none:
  assumes "wf_dec d"
  shows "dec_text d \<noteq> ''none''"
proof -
  have "97 \<le> (of_char (CHR ''n'') :: nat)" by code_simp
  from dec_text_letters [OF assms this] show ?thesis by auto
qed

section \<open>Properties\<close>

text \<open>C1: a decimal text the constructor accepts is kept verbatim and is exactly what the
  renderer prints for the parsed coefficient and scale; the parsed pair is in normal form
  (no trailing fractional zero) and inside the 38/20/18 digit bounds.\<close>

theorem canonical_decimal_parse_print:
  assumes "canonical_decimal t = Inr d"
  shows "dec_text d = t \<and> scaled_text (coefficient d) (scale d) = t
    \<and> (scale d = 0 \<or> coefficient d mod 10 \<noteq> 0)
    \<and> scale d \<le> 18 \<and> \<bar>coefficient d\<bar> < 10 ^ (scale d + 20)"
  using canonical_decimal_Inr [OF assms] by (simp add: normalized_def in_bounds_def)

theorem canonical_decimal_parse_print_witness:
  "\<exists>d. canonical_decimal ''-12.305'' = Inr d \<and> scaled_text (coefficient d) (scale d) = ''-12.305''
     \<and> coefficient d = -12305 \<and> scale d = 3"
proof -
  have c: "canonical_decimal ''-12.305'' =
      Inr \<lparr>dec_text = ''-12.305'', coefficient = -12305, scale = 3\<rparr>"
    by code_simp
  from canonical_decimal_parse_print [OF c] c show ?thesis by simp
qed

text \<open>Printing a coefficient and a scale and parsing the text back gives the normalised
  pair, or the range error exactly when the normalised pair leaves the bounds; in the first
  case the value denoted is exactly coefficient / 10 ^ scale.\<close>

theorem scaled_text_print_parse:
  "canonical_decimal (scaled_text c s) =
     (let (c', s') = normalize_scaled c s in
      if s' \<le> 18 \<and> \<bar>c'\<bar> < 10 ^ (s' + 20)
      then Inr \<lparr>dec_text = scaled_text c s, coefficient = c', scale = s'\<rparr>
      else Inl (EconomicValidationError OUT_OF_RANGE))
   \<and> (let (c', s') = normalize_scaled c s in (of_int c' :: rat) / 10 ^ s' = of_int c / 10 ^ s)"
proof -
  obtain c' s' where n: "normalize_scaled c s = (c', s')" by fastforce
  show ?thesis
    using canonical_scaled_text [OF n] normalize_scaled_val [OF n]
    by (simp add: n in_bounds_def)
qed

text \<open>C2: among constructed decimals equality of the records is equality of the values, and
  the derived comparisons are the order of the values; comparison never raises.\<close>

theorem decimal_order_is_value_order:
  assumes "wf_dec a" "wf_dec b"
  shows "(a = b \<longleftrightarrow> dval a = dval b) \<and> dec_less a b = Inr (dval a < dval b)
    \<and> dec_greater a b = Inr (dval b < dval a) \<and> dec_greater_eq a b = Inr (dval b \<le> dval a)"
  using wf_dec_unique [OF assms] dec_greater_dval [OF assms]
  by (auto simp: dec_less_dval dec_greater_eq_dval)

theorem decimal_order_is_value_order_witness:
  "dec_less \<lparr>dec_text = ''1.5'', coefficient = 15, scale = 1\<rparr>
            \<lparr>dec_text = ''1.49'', coefficient = 149, scale = 2\<rparr> = Inr False"
proof -
  have "wf_dec \<lparr>dec_text = ''1.5'', coefficient = 15, scale = 1\<rparr>"
    "wf_dec \<lparr>dec_text = ''1.49'', coefficient = 149, scale = 2\<rparr>" by code_simp+
  from decimal_order_is_value_order [OF this] show ?thesis by (simp add: dval_def)
qed

text \<open>The grid check accepts exactly the integer multiples of a positive quantum and
  returns the value unchanged; every other value is rejected as not quantized, and a
  quantum that is not positive as out of range.\<close>

theorem require_quantized_iff_multiple:
  "require_quantized v q =
     (if dval q \<le> 0 then Inl (EconomicValidationError OUT_OF_RANGE)
      else if \<exists>k. dval v = of_int k * dval q then Inr v
      else Inl (EconomicValidationError NOT_QUANTIZED))"
proof (cases "dval q \<le> 0")
  case True
  then show ?thesis by (simp add: require_quantized_def require_positive_def)
next
  case False
  show ?thesis
  proof (cases "\<exists>k. dval v = of_int k * dval q")
    case True
    then have "require_quantized v q = Inr v"
      unfolding require_quantized_Inr_iff using False by simp
    then show ?thesis using False True by simp
  next
    case no: False
    then have "require_quantized v q \<noteq> Inr v" unfolding require_quantized_Inr_iff by blast
    then have "require_quantized v q = Inl (EconomicValidationError NOT_QUANTIZED)"
      using False by (auto simp: require_quantized_def require_positive_def guard_res_def Let_def split: if_splits)
    then show ?thesis using False no by simp
  qed
qed

text \<open>A settled product splits price times quantity times multiplier exactly into an
  amount on the currency grid and a residual of at most half a quantum, and a tie is
  settled to the even multiple.\<close>

theorem settle_product_exact:
  assumes "settle_product p q m u = Inr r"
  shows "dval (amount r) + dval (rounding_residual r) = dval p * dval q * dval m
    \<and> 2 * \<bar>dval (rounding_residual r)\<bar> \<le> dval u
    \<and> (\<exists>k. dval (amount r) = of_int k * dval u
         \<and> (2 * \<bar>dval (rounding_residual r)\<bar> = dval u \<longrightarrow> even k))
    \<and> wf_dec (amount r) \<and> wf_dec (rounding_residual r)"
  using settle_product_spec [OF assms] by blast

definition dec_12345 :: canonical_decimal where
  "dec_12345 = \<lparr>dec_text = ''1.2345'', coefficient = 12345, scale = 4\<rparr>"

definition dec_3 :: canonical_decimal where
  "dec_3 = \<lparr>dec_text = ''3'', coefficient = 3, scale = 0\<rparr>"

definition dec_1 :: canonical_decimal where
  "dec_1 = \<lparr>dec_text = ''1'', coefficient = 1, scale = 0\<rparr>"

definition dec_001 :: canonical_decimal where
  "dec_001 = \<lparr>dec_text = ''0.01'', coefficient = 1, scale = 2\<rparr>"

theorem settle_product_exact_witness:
  "\<exists>r. settle_product dec_12345 dec_3 dec_1 dec_001 = Inr r
     \<and> dval (amount r) + dval (rounding_residual r) = 37035 / 10000
     \<and> dec_text (amount r) = ''3.7'' \<and> dec_text (rounding_residual r) = ''0.0035''"
proof -
  have s: "settle_product dec_12345 dec_3 dec_1 dec_001 = Inr
      \<lparr>amount = \<lparr>dec_text = ''3.7'', coefficient = 37, scale = 1\<rparr>,
       rounding_residual = \<lparr>dec_text = ''0.0035'', coefficient = 35, scale = 4\<rparr>\<rparr>"
    by code_simp
  from settle_product_exact [OF s] s show ?thesis
    by (simp add: dval_def dec_12345_def dec_3_def dec_1_def)
qed

end
