(* ===== verification/Commission.thy ===== *)
theory Commission
  imports Decimal_Laws
begin

text \<open>
  \<open>ea.core.commission\<close>: the bounds of latency, slippage and commission, the
  policy identities that carry them through a run as text and digest, and the
  commission amount. \<open>hashlib.sha256(...).hexdigest()\<close> is the parameter \<open>sha\<close>,
  a function from the encoded text to the digest; nothing is assumed of it.
  Timestamps are integers counting microseconds.
\<close>

section \<open>Prefixes and bounds\<close>

definition POLICY_PREFIX :: string where
  "POLICY_PREFIX = ''phase2.next-bar-close.commission-v1.bps-''"

definition COST_POLICY_PREFIX :: string where
  "COST_POLICY_PREFIX = ''phase2.next-bar-close.cost-v1.slippage-''"

definition LATENCY_POLICY_PREFIX :: string where
  "LATENCY_POLICY_PREFIX = ''phase2.next-bar-close.latency-v1.ms-''"

abbreviation conflicting_id :: exn where
  "conflicting_id \<equiv> EconomicValidationError CONFLICTING_ID"

definition require_latency_ms :: "int \<Rightarrow> int result" where
  "require_latency_ms v =
     guard_res (\<not> (0 \<le> v \<and> v \<le> 86400000)) (EconomicValidationError OUT_OF_RANGE) (Inr v)"

definition require_slippage_bps :: "canonical_decimal \<Rightarrow> canonical_decimal result" where
  "require_slippage_bps v =
     guard_res (coefficient v < 0) (EconomicValidationError OUT_OF_RANGE)
       (bind_res (canonical_decimal ''10000'') (\<lambda>limit.
        bind_res (dec_greater_eq v limit) (\<lambda>over.
          guard_res over (EconomicValidationError OUT_OF_RANGE) (Inr v))))"

definition require_commission_bps :: "canonical_decimal \<Rightarrow> canonical_decimal result" where
  "require_commission_bps v =
     guard_res (coefficient v < 0) (EconomicValidationError OUT_OF_RANGE)
       (bind_res (canonical_decimal ''10000'') (\<lambda>limit.
        bind_res (dec_greater v limit) (\<lambda>over.
          guard_res over (EconomicValidationError OUT_OF_RANGE) (Inr v))))"

text \<open>
  \<open>"none" if v is None else require(v).text\<close>, and its reading
  \<open>None if s == "none" else require(CanonicalDecimal(s))\<close>.
\<close>

definition option_text ::
  "(canonical_decimal \<Rightarrow> canonical_decimal result) \<Rightarrow> canonical_decimal option \<Rightarrow> string result" where
  "option_text req v =
     (case v of None \<Rightarrow> Inr ''none'' | Some d \<Rightarrow> bind_res (req d) (\<lambda>d. Inr (dec_text d)))"

definition option_of_text ::
  "(canonical_decimal \<Rightarrow> canonical_decimal result) \<Rightarrow> string \<Rightarrow> canonical_decimal option result" where
  "option_of_text req s =
     (if s = ''none'' then Inr None
      else bind_res (canonical_decimal s) (\<lambda>d. bind_res (req d) (\<lambda>d. Inr (Some d))))"

section \<open>Policy identities\<close>

definition NUL :: string where "NUL = [char_of (0::nat)]"

definition execution_latency_policy_identity ::
  "(string \<Rightarrow> string) \<Rightarrow> int \<Rightarrow> canonical_decimal option \<Rightarrow> canonical_decimal option
   \<Rightarrow> (string \<times> string) result" where
  "execution_latency_policy_identity sha latency_ms slippage_bps commission_bps =
     bind_res (require_latency_ms latency_ms) (\<lambda>_.
     bind_res (option_text require_slippage_bps slippage_bps) (\<lambda>slip.
     bind_res (option_text require_commission_bps commission_bps) (\<lambda>fee.
       let identifier = LATENCY_POLICY_PREFIX @ nat_str (nat latency_ms)
             @ ''.slippage-'' @ slip @ ''.commission-'' @ fee
       in Inr (identifier,
            sha (''ea.execution-latency-policy.v1'' @ NUL @ identifier @ NUL
                 @ ''strict-event-time-after-submission-latency'' @ NUL
                 @ ''absolute-close-adverse-nearest-tick'')))))"

definition latency_costs ::
  "(string \<Rightarrow> string) \<Rightarrow> string \<Rightarrow> string
   \<Rightarrow> (int \<times> canonical_decimal option \<times> canonical_decimal option) result" where
  "latency_costs sha identifier digest =
     (case py_split ''.slippage-'' (drop (length LATENCY_POLICY_PREFIX) identifier) of
        [delay, cost] \<Rightarrow>
          (let values = py_split ''.commission-'' cost
           in guard_res (\<not> (1 \<le> length delay \<and> length delay \<le> 8)
                         \<or> \<not> list_all is_digit delay \<or> length values \<noteq> 2) conflicting_id
             (bind_res (require_latency_ms (int (digits_nat delay))) (\<lambda>milliseconds.
              bind_res (option_of_text require_slippage_bps (values ! 0)) (\<lambda>slip.
              bind_res (option_of_text require_commission_bps (values ! 1)) (\<lambda>fee.
              bind_res (execution_latency_policy_identity sha milliseconds slip fee) (\<lambda>expected.
                guard_res (expected \<noteq> (identifier, digest)) conflicting_id
                  (Inr (milliseconds, slip, fee))))))))
      | _ \<Rightarrow> Inl conflicting_id)"

definition latency_ms_from_identity ::
  "(string \<Rightarrow> string) \<Rightarrow> string \<Rightarrow> string \<Rightarrow> int result" where
  "latency_ms_from_identity sha identifier digest =
     (if \<not> prefix LATENCY_POLICY_PREFIX identifier then Inr 0
      else bind_res (latency_costs sha identifier digest) (\<lambda>r. Inr (fst r)))"

definition execution_latency_allows ::
  "(string \<Rightarrow> string) \<Rightarrow> int \<Rightarrow> int \<Rightarrow> string \<Rightarrow> string \<Rightarrow> bool result" where
  "execution_latency_allows sha event_time submitted_at identifier digest =
     bind_res (latency_ms_from_identity sha identifier digest) (\<lambda>ms.
       Inr (event_time - submitted_at > ms * 1000))"

definition execution_cost_policy_identity ::
  "(string \<Rightarrow> string) \<Rightarrow> canonical_decimal \<Rightarrow> canonical_decimal option
   \<Rightarrow> (string \<times> string) result" where
  "execution_cost_policy_identity sha slippage_bps commission_bps =
     bind_res (require_slippage_bps slippage_bps) (\<lambda>_.
     bind_res (option_text require_commission_bps commission_bps) (\<lambda>fee.
       let identifier = COST_POLICY_PREFIX @ dec_text slippage_bps @ ''.commission-'' @ fee
       in Inr (identifier,
            sha (''ea.execution-cost-policy.v1'' @ NUL @ identifier @ NUL
                 @ ''absolute-close-adverse-nearest-tick''))))"

definition execution_costs ::
  "(string \<Rightarrow> string) \<Rightarrow> string \<Rightarrow> string
   \<Rightarrow> (canonical_decimal \<times> canonical_decimal option) result" where
  "execution_costs sha identifier digest =
     (case py_split ''.commission-'' (drop (length COST_POLICY_PREFIX) identifier) of
        [slip_text, fee_text] \<Rightarrow>
          bind_res (canonical_decimal slip_text) (\<lambda>d.
          bind_res (require_slippage_bps d) (\<lambda>slippage.
          bind_res (option_of_text require_commission_bps fee_text) (\<lambda>commission.
          bind_res (execution_cost_policy_identity sha slippage commission) (\<lambda>expected.
            guard_res (expected \<noteq> (identifier, digest)) conflicting_id
              (Inr (slippage, commission))))))
      | _ \<Rightarrow> Inl conflicting_id)"

definition slippage_bps_from_identity ::
  "(string \<Rightarrow> string) \<Rightarrow> string \<Rightarrow> string \<Rightarrow> canonical_decimal option result" where
  "slippage_bps_from_identity sha identifier digest =
     (if prefix LATENCY_POLICY_PREFIX identifier
      then bind_res (latency_costs sha identifier digest) (\<lambda>r. Inr (fst (snd r)))
      else if \<not> prefix COST_POLICY_PREFIX identifier then Inr None
      else bind_res (execution_costs sha identifier digest) (\<lambda>r. Inr (Some (fst r))))"

definition commission_policy_identity ::
  "(string \<Rightarrow> string) \<Rightarrow> canonical_decimal \<Rightarrow> (string \<times> string) result" where
  "commission_policy_identity sha bps =
     bind_res (require_commission_bps bps) (\<lambda>_.
       let identifier = POLICY_PREFIX @ dec_text bps
       in Inr (identifier,
            sha (''ea.commission-policy.v1'' @ NUL @ identifier @ NUL
                 @ ''per-fill-half-even-currency-quantum'')))"

definition commission_bps_from_identity ::
  "(string \<Rightarrow> string) \<Rightarrow> string \<Rightarrow> string \<Rightarrow> canonical_decimal option result" where
  "commission_bps_from_identity sha identifier digest =
     (if prefix LATENCY_POLICY_PREFIX identifier
      then bind_res (latency_costs sha identifier digest) (\<lambda>r. Inr (snd (snd r)))
      else if prefix COST_POLICY_PREFIX identifier
      then bind_res (execution_costs sha identifier digest) (\<lambda>r. Inr (snd r))
      else if \<not> prefix POLICY_PREFIX identifier then Inr None
      else bind_res (canonical_decimal (drop (length POLICY_PREFIX) identifier)) (\<lambda>d.
           bind_res (require_commission_bps d) (\<lambda>bps.
           bind_res (commission_policy_identity sha bps) (\<lambda>expected.
             guard_res (expected \<noteq> (identifier, digest)) conflicting_id (Inr (Some bps))))))"

section \<open>The commission amount\<close>

definition commission_amount ::
  "canonical_decimal \<Rightarrow> canonical_decimal \<Rightarrow> canonical_decimal \<Rightarrow> canonical_decimal
   \<Rightarrow> canonical_decimal \<Rightarrow> canonical_decimal result" where
  "commission_amount price quantity multiplier bps quantum =
     bind_res (require_commission_bps bps) (\<lambda>_.
     bind_res (require_positive quantity) (\<lambda>_.
     bind_res (require_positive multiplier) (\<lambda>_.
     bind_res (require_positive quantum) (\<lambda>_.
     guard_res (coefficient price < 0) (EconomicValidationError OUT_OF_RANGE)
       (let numerator = coefficient price * coefficient quantity * coefficient multiplier
              * coefficient bps;
            s = scale price + scale quantity + scale multiplier + scale bps + 4;
            denominator = coefficient quantum * 10 ^ s;
            units = half_even_div (numerator * 10 ^ scale quantum) denominator
        in bounded_scaled (units * coefficient quantum) (scale quantum) ARITHMETIC_OVERFLOW)))))"

section \<open>Reading back a policy identity\<close>

lemma ten_thousand:
  obtains x where "canonical_decimal ''10000'' = Inr x" "dval x = 10000" "wf_dec x"
proof -
  have c: "canonical_decimal ''10000'' = Inr \<lparr>dec_text = ''10000'', coefficient = 10000, scale = 0\<rparr>"
    by code_simp
  from that [OF c] canonical_decimal_wf [OF c] show thesis by (simp add: dval_def)
qed

lemma require_slippage_Inr_iff:
  assumes "wf_dec v"
  shows "require_slippage_bps v = Inr w \<longleftrightarrow> w = v \<and> 0 \<le> dval v \<and> dval v < 10000"
proof -
  obtain x where x: "canonical_decimal ''10000'' = Inr x" "dval x = 10000" "wf_dec x"
    by (rule ten_thousand)
  show ?thesis
    unfolding require_slippage_bps_def x(1) bind_res_simps dec_greater_eq_dval x(2) guard_res_Inr_iff
    by auto
qed

lemma require_commission_Inr_iff:
  assumes "wf_dec v"
  shows "require_commission_bps v = Inr w \<longleftrightarrow> w = v \<and> 0 \<le> dval v \<and> dval v \<le> 10000"
proof -
  obtain x where x: "canonical_decimal ''10000'' = Inr x" "dval x = 10000" "wf_dec x"
    by (rule ten_thousand)
  show ?thesis
    unfolding require_commission_bps_def x(1) bind_res_simps dec_greater_dval [OF assms x(3)] x(2)
      guard_res_Inr_iff
    by auto
qed

lemma require_latency_Inr_iff [simp]:
  "require_latency_ms v = Inr w \<longleftrightarrow> w = v \<and> 0 \<le> v \<and> v \<le> 86400000"
  by (auto simp: require_latency_ms_def)

definition wf_opt :: "canonical_decimal option \<Rightarrow> bool" where
  "wf_opt v \<longleftrightarrow> (case v of None \<Rightarrow> True | Some d \<Rightarrow> wf_dec d)"

lemma option_text_round:
  assumes "option_text req v = Inr s" "wf_opt v"
    "\<And>d e. req d = Inr e \<Longrightarrow> e = d"
  shows "option_of_text req s = Inr v"
proof (cases v)
  case None
  with assms(1) show ?thesis by (simp add: option_text_def option_of_text_def)
next
  case (Some d)
  with assms obtain e where "req d = Inr e" "s = dec_text e"
    by (auto simp: option_text_def)
  with assms(3) have e: "req d = Inr d" "s = dec_text d" by auto
  with Some assms(2) have "canonical_decimal s = Inr d" "s \<noteq> ''none''"
    by (auto simp: wf_opt_def wf_dec_def dest: dec_text_not_none [unfolded wf_dec_def])
  with e Some show ?thesis by (simp add: option_of_text_def)
qed

lemma require_id:
  "require_slippage_bps d = Inr e \<Longrightarrow> e = d" "require_commission_bps d = Inr e \<Longrightarrow> e = d"
  by (auto simp: require_slippage_bps_def require_commission_bps_def)

lemma option_text_chars:
  assumes "option_text req v = Inr s" "wf_opt v" "\<And>d e. req d = Inr e \<Longrightarrow> e = d"
  shows "CHR ''s'' \<notin> set s" "CHR ''c'' \<notin> set s" "CHR ''g'' \<notin> set s"
proof -
  consider "s = ''none''" | d where "wf_dec d" "s = dec_text d"
    using assms by (cases v) (auto simp: option_text_def wf_opt_def dest: assms(3))
  then have "CHR ''s'' \<notin> set s \<and> CHR ''c'' \<notin> set s \<and> CHR ''g'' \<notin> set s"
  proof cases
    case (2 d)
    have "97 \<le> (of_char (CHR ''s'') :: nat)" "97 \<le> (of_char (CHR ''c'') :: nat)"
      "97 \<le> (of_char (CHR ''g'') :: nat)" by code_simp+
    with 2 show ?thesis using dec_text_letters by blast
  qed simp
  then show "CHR ''s'' \<notin> set s" "CHR ''c'' \<notin> set s" "CHR ''g'' \<notin> set s" by auto
qed


lemma latency_costs_round:
  assumes "execution_latency_policy_identity sha ms slip fee = Inr (i, d)" "wf_opt slip" "wf_opt fee"
  shows "latency_costs sha i d = Inr (ms, slip, fee)" "prefix LATENCY_POLICY_PREFIX i"
proof -
  from assms(1) obtain st ft where ms: "0 \<le> ms" "ms \<le> 86400000"
    and st: "option_text require_slippage_bps slip = Inr st"
    and ft: "option_text require_commission_bps fee = Inr ft"
    and i: "i = LATENCY_POLICY_PREFIX @ nat_str (nat ms) @ ''.slippage-'' @ st @ ''.commission-'' @ ft"
    by (auto simp: execution_latency_policy_identity_def Let_def)
  have sd: "\<not> is_digit (CHR ''s'')" by code_simp
  have s1: "CHR ''s'' \<notin> set (nat_str (nat ms))" using nat_str_digits sd by blast
  note c = option_text_chars [OF st assms(2) require_id(1)] option_text_chars [OF ft assms(3) require_id(2)]
  have "py_split ''.slippage-'' (drop (length LATENCY_POLICY_PREFIX) i) =
      [nat_str (nat ms), st @ ''.commission-'' @ ft]"
    using py_split_app [of "CHR ''.''" "CHR ''s''" "nat_str (nat ms)" "''lippage-''" "st @ ''.commission-'' @ ft"]
      s1 c py_split_none [of "CHR ''g''" "''.slippage-''" "st @ ''.commission-'' @ ft"] unfolding i by simp
  moreover have "py_split ''.commission-'' (st @ ''.commission-'' @ ft) = [st, ft]"
    using py_split_app [of "CHR ''.''" "CHR ''c''" st "''ommission-''" ft] c
      py_split_none [of "CHR ''c''" "''.commission-''" ft] by simp
  moreover have "length (nat_str (nat ms)) \<le> 8" using ms by (simp add: length_nat_str_le)
  moreover have "Suc 0 \<le> length (nat_str (nat ms))" by (simp add: Suc_le_eq)
  moreover have "list_all is_digit (nat_str (nat ms))" using nat_str_digits by (simp add: list_all_iff)
  ultimately show "latency_costs sha i d = Inr (ms, slip, fee)"
    using ms assms(1) option_text_round [OF st assms(2) require_id(1)]
      option_text_round [OF ft assms(3) require_id(2)]
    by (simp add: latency_costs_def)
  show "prefix LATENCY_POLICY_PREFIX i" by (simp add: i)
qed

lemma execution_costs_round:
  assumes "execution_cost_policy_identity sha slip fee = Inr (i, d)" "wf_dec slip" "wf_opt fee"
  shows "execution_costs sha i d = Inr (slip, fee)" "prefix COST_POLICY_PREFIX i"
proof -
  from assms(1,2) obtain ft where sl: "require_slippage_bps slip = Inr slip"
    and ft: "option_text require_commission_bps fee = Inr ft"
    and i: "i = COST_POLICY_PREFIX @ dec_text slip @ ''.commission-'' @ ft"
    by (auto simp: execution_cost_policy_identity_def Let_def require_slippage_Inr_iff)
  have "97 \<le> (of_char (CHR ''c'') :: nat)" by code_simp
  then have "CHR ''c'' \<notin> set (dec_text slip)" by (rule dec_text_letters [OF assms(2)])
  then have "py_split ''.commission-'' (drop (length COST_POLICY_PREFIX) i) = [dec_text slip, ft]"
    using py_split_app [of "CHR ''.''" "CHR ''c''" "dec_text slip" "''ommission-''" ft]
      py_split_none [of "CHR ''c''" "''.commission-''" ft] option_text_chars [OF ft assms(3) require_id(2)]
    unfolding i by simp
  moreover have "canonical_decimal (dec_text slip) = Inr slip" using assms(2) by (simp add: wf_dec_def)
  ultimately show "execution_costs sha i d = Inr (slip, fee)"
    using assms(1) sl option_text_round [OF ft assms(3) require_id(2)]
    by (simp add: execution_costs_def)
  show "prefix COST_POLICY_PREFIX i" by (simp add: i)
qed

lemma prefixes_disjoint:
  "prefix LATENCY_POLICY_PREFIX i \<Longrightarrow> \<not> prefix COST_POLICY_PREFIX i"
  "prefix LATENCY_POLICY_PREFIX i \<Longrightarrow> \<not> prefix POLICY_PREFIX i"
  "prefix COST_POLICY_PREFIX i \<Longrightarrow> \<not> prefix POLICY_PREFIX i"
  by (auto simp: LATENCY_POLICY_PREFIX_def COST_POLICY_PREFIX_def POLICY_PREFIX_def prefix_def)


section \<open>What the commission amount is\<close>

lemma commission_amount_spec:
  assumes "commission_amount p q m b u = Inr a"
  defines "exact \<equiv> dval p * dval q * dval m * dval b / 10000"
  shows "\<exists>k\<ge>0. dval a = of_int k * dval u \<and> 2 * \<bar>exact - dval a\<bar> \<le> dval u
      \<and> (2 * \<bar>exact - dval a\<bar> = dval u \<longrightarrow> even k)"
    "wf_dec a" "0 < dval u" "0 \<le> dval b"
proof -
  let ?N = "coefficient p * coefficient q * coefficient m * coefficient b"
  let ?s = "scale p + scale q + scale m + scale b + 4"
  let ?n = "?N * 10 ^ scale u" and ?d = "coefficient u * 10 ^ ?s"
  let ?k = "half_even_div ?n ?d" and ?w = "10 ^ scale u * 10 ^ ?s :: rat"
  have pos: "0 < coefficient q" "0 < coefficient m" "0 < coefficient u" "0 \<le> coefficient p"
      "0 \<le> coefficient b"
    and k: "bounded_scaled (?k * coefficient u) (scale u) ARITHMETIC_OVERFLOW = Inr a"
    using assms(1)
    by (auto simp: commission_amount_def require_positive_def require_commission_bps_def Let_def not_less)
  from pos show "0 < dval u" "0 \<le> dval b" by simp_all
  from k show "wf_dec a" by (rule bounded_scaled_Inr)
  have d: "0 < ?d" using pos by simp
  have w: "0 < ?w" by simp
  have av: "dval a = of_int ?k * dval u" using bounded_scaled_Inr(2) [OF k] by (simp add: dval_def)
  have "exact - dval a = of_int (?n - ?k * ?d) / ?w"
    unfolding av exact_def by (simp add: dval_def power_add field_simps)
  then have gap: "\<bar>exact - dval a\<bar> = of_int \<bar>?n - ?k * ?d\<bar> / ?w"
    by (simp add: abs_mult)
  have du: "dval u = of_int ?d / ?w" by (simp add: dval_def)
  have "0 \<le> ?k" using pos d by (intro half_even_div_nonneg) simp_all
  moreover have "2 * \<bar>exact - dval a\<bar> \<le> dval u"
    unfolding gap du gap_le [OF w] by (rule half_even_div_spec(1) [OF d])
  moreover have "even ?k" if "2 * \<bar>exact - dval a\<bar> = dval u"
    using that unfolding gap du gap_eq [OF w] by (rule half_even_div_spec(2) [OF d])
  ultimately show "\<exists>k\<ge>0. dval a = of_int k * dval u \<and> 2 * \<bar>exact - dval a\<bar> \<le> dval u
      \<and> (2 * \<bar>exact - dval a\<bar> = dval u \<longrightarrow> even k)"
    using av by blast
qed

section \<open>Properties\<close>

text \<open>Whatever policy identity the builders return, the readers recover from it exactly
  the latency, slippage and commission it was built from, for each of the three policy
  families and whatever the digest function; a reader of a simpler family never sees a
  cost the identity does not carry.\<close>

theorem policy_identity_roundtrip:
  assumes "wf_opt slip" "wf_opt fee" "wf_dec bps"
  shows "(execution_latency_policy_identity sha ms slip fee = Inr (i, d) \<longrightarrow>
        latency_ms_from_identity sha i d = Inr ms
        \<and> slippage_bps_from_identity sha i d = Inr slip
        \<and> commission_bps_from_identity sha i d = Inr fee)
    \<and> (execution_cost_policy_identity sha bps fee = Inr (i, d) \<longrightarrow>
        latency_ms_from_identity sha i d = Inr 0
        \<and> slippage_bps_from_identity sha i d = Inr (Some bps)
        \<and> commission_bps_from_identity sha i d = Inr fee)
    \<and> (commission_policy_identity sha bps = Inr (i, d) \<longrightarrow>
        latency_ms_from_identity sha i d = Inr 0
        \<and> slippage_bps_from_identity sha i d = Inr None
        \<and> commission_bps_from_identity sha i d = Inr (Some bps))"
proof (intro conjI impI)
  assume "execution_latency_policy_identity sha ms slip fee = Inr (i, d)"
  note r = latency_costs_round [OF this assms(1,2)]
  show "latency_ms_from_identity sha i d = Inr ms" "slippage_bps_from_identity sha i d = Inr slip"
    "commission_bps_from_identity sha i d = Inr fee"
    using r by (simp_all add: latency_ms_from_identity_def slippage_bps_from_identity_def
        commission_bps_from_identity_def)
next
  assume "execution_cost_policy_identity sha bps fee = Inr (i, d)"
  note r = execution_costs_round [OF this assms(3,2)]
  have "\<not> prefix LATENCY_POLICY_PREFIX i" using r(2) prefixes_disjoint(1) by blast
  with r show "latency_ms_from_identity sha i d = Inr 0"
    "slippage_bps_from_identity sha i d = Inr (Some bps)"
    "commission_bps_from_identity sha i d = Inr fee"
    by (simp_all add: latency_ms_from_identity_def slippage_bps_from_identity_def
        commission_bps_from_identity_def)
next
  assume c: "commission_policy_identity sha bps = Inr (i, d)"
  then have i: "i = POLICY_PREFIX @ dec_text bps" and q: "require_commission_bps bps = Inr bps"
    using assms(3) by (auto simp: commission_policy_identity_def Let_def require_commission_Inr_iff)
  then have p: "prefix POLICY_PREFIX i" by simp
  then have "\<not> prefix LATENCY_POLICY_PREFIX i" "\<not> prefix COST_POLICY_PREFIX i"
    using prefixes_disjoint(2,3) by blast+
  moreover have "canonical_decimal (drop (length POLICY_PREFIX) i) = Inr bps"
    using assms(3) by (simp add: i wf_dec_def)
  ultimately show "latency_ms_from_identity sha i d = Inr 0"
    "slippage_bps_from_identity sha i d = Inr None"
    "commission_bps_from_identity sha i d = Inr (Some bps)"
    using p q c by (simp_all add: latency_ms_from_identity_def slippage_bps_from_identity_def
        commission_bps_from_identity_def)
qed

definition dec_25 :: canonical_decimal where
  "dec_25 = \<lparr>dec_text = ''2.5'', coefficient = 25, scale = 1\<rparr>"

theorem policy_identity_roundtrip_witness:
  "\<exists>i d. execution_latency_policy_identity (\<lambda>_. ''00'') 250 (Some dec_25) None = Inr (i, d)
     \<and> slippage_bps_from_identity (\<lambda>_. ''00'') i d = Inr (Some dec_25)"
proof -
  have w: "wf_dec dec_25" by code_simp
  then have o: "wf_opt (Some dec_25)" "wf_opt None" by (simp_all add: wf_opt_def)
  obtain i d where e:
      "execution_latency_policy_identity (\<lambda>_. ''00'') 250 (Some dec_25) None = Inr (i, d)"
  proof -
    have "require_slippage_bps dec_25 = Inr dec_25" using w
      by (simp add: require_slippage_Inr_iff dval_def dec_25_def)
    then show thesis using that
      by (simp add: execution_latency_policy_identity_def option_text_def Let_def)
  qed
  from policy_identity_roundtrip [OF o w, of "\<lambda>_. ''00''" 250 i d] e show ?thesis by auto
qed

text \<open>C3: a commission amount is the multiple of the currency quantum nearest to
  price times quantity times multiplier times bps / 10000, with ties to the even multiple;
  it is never negative.\<close>

theorem commission_amount_nearest_even:
  assumes "commission_amount p q m b u = Inr a"
  shows "\<exists>k\<ge>0. dval a = of_int k * dval u
      \<and> 2 * \<bar>dval p * dval q * dval m * dval b / 10000 - dval a\<bar> \<le> dval u
      \<and> (2 * \<bar>dval p * dval q * dval m * dval b / 10000 - dval a\<bar> = dval u \<longrightarrow> even k)"
  using commission_amount_spec(1) [OF assms] .

theorem commission_amount_nearest_even_witness:
  "\<exists>a. commission_amount dec_12345 dec_3 dec_1 dec_25 dec_001 = Inr a
    \<and> 2 * \<bar>dval dec_12345 * dval dec_3 * dval dec_1 * dval dec_25 / 10000 - dval a\<bar> \<le> 1 / 100"
proof -
  have c: "commission_amount dec_12345 dec_3 dec_1 dec_25 dec_001 =
      Inr \<lparr>dec_text = ''0'', coefficient = 0, scale = 0\<rparr>" by code_simp
  from commission_amount_nearest_even [OF c] c show ?thesis
    by (auto simp: dval_def dec_001_def)
qed

text \<open>The latency gate opens strictly after the configured delay, and exactly then, for an
  order submitted under an identity built with that delay.\<close>

theorem latency_gate_strictly_after:
  assumes "execution_latency_policy_identity sha ms slip fee = Inr (i, d)" "wf_opt slip" "wf_opt fee"
  shows "execution_latency_allows sha event submitted i d = Inr (submitted + ms * 1000 < event)"
  using latency_costs_round [OF assms]
  by (auto simp: execution_latency_allows_def latency_ms_from_identity_def)

theorem latency_gate_strictly_after_witness:
  "\<exists>i d. execution_latency_policy_identity (\<lambda>_. ''00'') 250 None None = Inr (i, d)
     \<and> execution_latency_allows (\<lambda>_. ''00'') 1250000 1000000 i d = Inr False
     \<and> execution_latency_allows (\<lambda>_. ''00'') 1250001 1000000 i d = Inr True"
proof -
  obtain i d where e: "execution_latency_policy_identity (\<lambda>_. ''00'') 250 None None = Inr (i, d)"
    by (simp add: execution_latency_policy_identity_def option_text_def Let_def)
  have o: "wf_opt None" by (simp add: wf_opt_def)
  show ?thesis
    using latency_gate_strictly_after [OF e o o, of 1250000 1000000]
      latency_gate_strictly_after [OF e o o, of 1250001 1000000] e by auto
qed

end
