(* ===== verification/Identity.thy ===== *)
theory Identity
  imports Regex
begin

text \<open>
  Identities: venue and instrument (\<open>ea.core.identity\<close>), digests and run
  identities (\<open>ea.core.run\<close>), and the execution identities with their canonical
  bytes and replay classification (\<open>ea.core.execution_identity\<close>).

  Texts and byte strings are both character lists: every text these modules
  encode is ASCII. \<open>sha256(...).hexdigest()\<close> is the parameter \<open>sha\<close>.
\<close>

section \<open>Venues, instruments, digests and runs\<close>

definition is_alnum :: "char \<Rightarrow> bool" where
  "is_alnum c \<longleftrightarrow> is_digit c \<or> is_upper c \<or> is_lower c"

definition venue_pattern :: regex where
  "venue_pattern =
     Sq (Cls (\<lambda>c. is_upper c \<or> is_digit c))
        (Upto 31 (\<lambda>c. is_upper c \<or> is_digit c \<or> c \<in> set ''._-''))"

definition symbol_pattern :: regex where
  "symbol_pattern = Sq (Cls is_alnum) (Upto 63 (\<lambda>c. is_alnum c \<or> c \<in> set ''._/-''))"

datatype venue_id = VenueId string

definition make_venue_id :: "string \<Rightarrow> venue_id result" where
  "make_venue_id c =
     guard_res (\<not> fullmatch venue_pattern c) IdentityValidationError (Inr (VenueId c))"

fun venue_code :: "venue_id \<Rightarrow> string" where
  "venue_code (VenueId c) = c"

datatype instrument = Instrument venue_id string

definition make_instrument :: "venue_id \<Rightarrow> string \<Rightarrow> instrument result" where
  "make_instrument v s =
     guard_res (\<not> fullmatch symbol_pattern s) IdentityValidationError (Inr (Instrument v s))"

fun instrument_key :: "instrument \<Rightarrow> string \<times> string" where
  "instrument_key (Instrument v s) = (venue_code v, s)"

fun instrument_id :: "instrument \<Rightarrow> string" where
  "instrument_id (Instrument v s) = venue_code v @ '':'' @ s"

definition is_hex :: "char \<Rightarrow> bool" where
  "is_hex c \<longleftrightarrow> is_digit c \<or> c \<in> set ''abcdef''"

datatype sha256_digest = Sha256Digest string

definition make_digest :: "string \<Rightarrow> sha256_digest result" where
  "make_digest t =
     guard_res (\<not> (length t = 64 \<and> list_all is_hex t)) RunContractError (Inr (Sha256Digest t))"

text \<open>
  \<open>UUID(value)\<close> with \<open>str(parsed) == value\<close>, version 4 and the RFC 4122 variant:
  the lowercase 8-4-4-4-12 form whose version and variant digits are fixed (such
  a value is never zero).
\<close>

definition uuid4_text :: "string \<Rightarrow> bool" where
  "uuid4_text t \<longleftrightarrow> length t = 36
     \<and> list_all (\<lambda>i. if i \<in> set [8, 13, 18, 23] then t ! i = CHR ''-'' else is_hex (t ! i)) [0..<36]
     \<and> t ! 14 = CHR ''4'' \<and> t ! 19 \<in> set ''89ab''"

datatype run_id = RunId string

definition make_run_id :: "string \<Rightarrow> run_id result" where
  "make_run_id t = guard_res (\<not> uuid4_text t) RunContractError (Inr (RunId t))"

fun run_text :: "run_id \<Rightarrow> string" where
  "run_text (RunId t) = t"

section \<open>Integers and JSON\<close>

definition MAX_UINT64 :: int where "MAX_UINT64 = 2 ^ 64 - 1"

definition require_uint64 :: "int \<Rightarrow> int result" where
  "require_uint64 v =
     guard_res (v < 0 \<or> MAX_UINT64 < v) (ExecutionIdentityError OUT_OF_RANGE) (Inr v)"

definition require_non_negative_integer :: "int \<Rightarrow> int result" where
  "require_non_negative_integer v =
     guard_res (v < 0) (ExecutionIdentityError OUT_OF_RANGE) (Inr v)"

text \<open>\<open>json.dumps(value, ensure_ascii=True)\<close> of a string.\<close>

definition hex_char :: "nat \<Rightarrow> char" where
  "hex_char n = (if n < 10 then digit_char n else char_of (87 + n))"

definition json_escape :: "char \<Rightarrow> string" where
  "json_escape c =
     (if c = CHR 0x22 then [CHR 0x5C, CHR 0x22]
      else if c = CHR 0x5C then [CHR 0x5C, CHR 0x5C]
      else if 32 \<le> (of_char c :: nat) \<and> (of_char c :: nat) \<le> 126 then [c]
      else if c = CHR 0x08 then CHR 0x5C # ''b''
      else if c = CHR 0x09 then CHR 0x5C # ''t''
      else if c = CHR 0x0A then CHR 0x5C # ''n''
      else if c = CHR 0x0C then CHR 0x5C # ''f''
      else if c = CHR 0x0D then CHR 0x5C # ''r''
      else CHR 0x5C # ''u00'' @ [hex_char (of_char c div 16), hex_char (of_char c mod 16)])"

definition QUOTE :: string where "QUOTE = [CHR 0x22]"

definition json_string :: "string \<Rightarrow> string" where
  "json_string s = QUOTE @ concat (map json_escape s) @ QUOTE"

text \<open>
  \<open>_non_negative_integer_bytes\<close>: the loop that cuts an unbounded integer into
  chunks of nine digits, the zero-padded rendering of a chunk, and the join.
\<close>

fun chunk_loop :: "nat \<Rightarrow> nat list \<Rightarrow> nat list" where
  "chunk_loop remaining chunks =
     (if remaining = 0 then chunks
      else chunk_loop (remaining div 1000000000) (chunks @ [remaining mod 1000000000]))"

declare chunk_loop.simps [simp del]

definition pad9 :: "nat \<Rightarrow> string" where
  "pad9 n = replicate (9 - length (nat_str n)) (CHR ''0'') @ nat_str n"

definition non_negative_integer_bytes :: "nat \<Rightarrow> string" where
  "non_negative_integer_bytes v =
     (if v = 0 then ''0''
      else let chunks = chunk_loop v [];
               most_significant = nat_str (last chunks);
               suffix = concat (map pad9 (rev (butlast chunks)))
           in most_significant @ suffix)"

section \<open>Economic identities\<close>

datatype (plugins only: code) economic_owner_kind =
    STRATEGY_SIGNAL | PORTFOLIO_TARGET | PORTFOLIO_INTENT | RISK_DECISION | RISK_APPROVAL
  | EXECUTION_ORDER | EXECUTION_FILL | RUNTIME_DISPATCH | AUDIT_RECORD | LEDGER_ENTRY
  | RECONCILIATION_OBSERVATION | RECONCILIATION_AUTHORIZATION | RECONCILIATION_ADJUSTMENT

fun owner_kind_value :: "economic_owner_kind \<Rightarrow> string" where
  "owner_kind_value STRATEGY_SIGNAL = ''strategy.signal''"
| "owner_kind_value PORTFOLIO_TARGET = ''portfolio.target''"
| "owner_kind_value PORTFOLIO_INTENT = ''portfolio.intent''"
| "owner_kind_value RISK_DECISION = ''risk.decision''"
| "owner_kind_value RISK_APPROVAL = ''risk.approval''"
| "owner_kind_value EXECUTION_ORDER = ''execution.order''"
| "owner_kind_value EXECUTION_FILL = ''execution.fill''"
| "owner_kind_value RUNTIME_DISPATCH = ''runtime.dispatch''"
| "owner_kind_value AUDIT_RECORD = ''audit.record''"
| "owner_kind_value LEDGER_ENTRY = ''ledger.entry''"
| "owner_kind_value RECONCILIATION_OBSERVATION = ''reconciliation.observation''"
| "owner_kind_value RECONCILIATION_AUTHORIZATION = ''reconciliation.authorization''"
| "owner_kind_value RECONCILIATION_ADJUSTMENT = ''reconciliation.adjustment''"

record economic_id =
  run_id :: run_id
  owner_kind :: economic_owner_kind
  owner_sequence :: int

definition make_economic_id ::
  "run_id \<Rightarrow> economic_owner_kind \<Rightarrow> int \<Rightarrow> economic_id result" where
  "make_economic_id r k n =
     bind_res (require_uint64 n) (\<lambda>_. Inr \<lparr>run_id = r, owner_kind = k, owner_sequence = n\<rparr>)"

definition require_owner_kind ::
  "economic_id \<Rightarrow> economic_owner_kind \<Rightarrow> economic_id result" where
  "require_owner_kind i expected =
     guard_res (owner_kind i \<noteq> expected) (ExecutionIdentityError CONFLICTING_ID) (Inr i)"

definition require_same_run :: "economic_id \<Rightarrow> economic_id \<Rightarrow> unit result" where
  "require_same_run a b =
     guard_res (run_id a \<noteq> run_id b) (ExecutionIdentityError CONFLICTING_ID) (Inr ())"

text \<open>\<open>"key":\<close> of a canonical JSON object (the keys need no escaping).\<close>

definition json_key :: "string \<Rightarrow> string" where
  "json_key k = QUOTE @ k @ QUOTE @ '':''"

definition canonical_economic_id_bytes :: "economic_id \<Rightarrow> string" where
  "canonical_economic_id_bytes i =
     ''{'' @ json_key ''canonicalization'' @ json_string ''ea-economic-id-v1''
     @ '','' @ json_key ''owner_kind'' @ json_string (owner_kind_value (owner_kind i))
     @ '','' @ json_key ''owner_sequence'' @ nat_str (nat (owner_sequence i))
     @ '','' @ json_key ''run_id'' @ json_string (run_text (run_id i))
     @ '','' @ json_key ''schema_version'' @ ''1}''"

text \<open>
  \<open>Sha256Digest(sha256(domain + payload).hexdigest())\<close>; every domain ends in a
  NUL byte, and a hexdigest always passes the constructor's pattern.
\<close>

definition domain_digest :: "(string \<Rightarrow> string) \<Rightarrow> string \<Rightarrow> string \<Rightarrow> sha256_digest" where
  "domain_digest sha domain payload = Sha256Digest (sha (domain @ [char_of (0::nat)] @ payload))"

fun digest_text :: "sha256_digest \<Rightarrow> string" where
  "digest_text (Sha256Digest t) = t"

lemma digest_text_inj [simp]: "digest_text a = digest_text b \<longleftrightarrow> a = b"
  by (cases a; cases b) simp

definition economic_id_digest :: "(string \<Rightarrow> string) \<Rightarrow> economic_id \<Rightarrow> sha256_digest" where
  "economic_id_digest sha i =
     domain_digest sha ''ea.economic-id.v1'' (canonical_economic_id_bytes i)"

section \<open>Fact identities\<close>

text \<open>The token pattern \<open>[a-z][a-z0-9._-]{0,127}\<close> of namespaces and specification ids.\<close>


definition source_namespace_pattern :: regex where
  "source_namespace_pattern =
     Sq (Cls is_lower) (Upto 127 (\<lambda>c. is_lower c \<or> is_digit c \<or> c \<in> set ''._-''))"

datatype source_namespace = SourceNamespace string

definition make_source_namespace :: "string \<Rightarrow> source_namespace result" where
  "make_source_namespace v =
     guard_res (\<not> fullmatch source_namespace_pattern v) (ExecutionIdentityError OUT_OF_RANGE)
       (Inr (SourceNamespace v))"

fun namespace_text :: "source_namespace \<Rightarrow> string" where
  "namespace_text (SourceNamespace v) = v"

text \<open>The tagged union \<open>ExternalFactId | SourceNativeSequence\<close>.\<close>

datatype fact_dedup_identity = ExternalFactId string | SourceNativeSequence int

definition make_external_fact_id :: "string \<Rightarrow> fact_dedup_identity result" where
  "make_external_fact_id v =
     guard_res (\<not> (1 \<le> length v \<and> length v \<le> 128)
        \<or> list_ex (\<lambda>c. (of_char c :: nat) < 33 \<or> 126 < (of_char c :: nat)) v)
       (ExecutionIdentityError OUT_OF_RANGE) (Inr (ExternalFactId v))"

definition make_source_native_sequence :: "int \<Rightarrow> fact_dedup_identity result" where
  "make_source_native_sequence v =
     bind_res (require_non_negative_integer v) (\<lambda>_. Inr (SourceNativeSequence v))"

fun canonical_fact_dedup_identity_bytes :: "fact_dedup_identity \<Rightarrow> string" where
  "canonical_fact_dedup_identity_bytes (ExternalFactId v) =
     ''{'' @ json_key ''canonicalization'' @ json_string ''ea-fact-dedup-id-v1''
     @ '','' @ json_key ''kind'' @ json_string ''external_id''
     @ '','' @ json_key ''schema_version'' @ ''1''
     @ '','' @ json_key ''value'' @ json_string v @ ''}''"
| "canonical_fact_dedup_identity_bytes (SourceNativeSequence n) =
     ''{'' @ json_key ''canonicalization'' @ json_string ''ea-fact-dedup-id-v1''
     @ '','' @ json_key ''kind'' @ json_string ''source_native_sequence''
     @ '','' @ json_key ''schema_version'' @ ''1''
     @ '','' @ json_key ''value'' @ non_negative_integer_bytes (nat n) @ ''}''"

record ingress_identity =
  ingress_namespace :: source_namespace
  ingress_sequence :: int

definition make_ingress_identity :: "source_namespace \<Rightarrow> int \<Rightarrow> ingress_identity result" where
  "make_ingress_identity ns n =
     bind_res (require_non_negative_integer n) (\<lambda>_.
       Inr \<lparr>ingress_namespace = ns, ingress_sequence = n\<rparr>)"

definition canonical_ingress_identity_bytes :: "ingress_identity \<Rightarrow> string" where
  "canonical_ingress_identity_bytes i =
     ''{'' @ json_key ''canonicalization'' @ json_string ''ea-execution-ingress-id-v1''
     @ '','' @ json_key ''ingress_sequence'' @ non_negative_integer_bytes (nat (ingress_sequence i))
     @ '','' @ json_key ''schema_version'' @ ''1''
     @ '','' @ json_key ''source_namespace'' @ json_string (namespace_text (ingress_namespace i))
     @ ''}''"

record fact_dedup_key =
  key_namespace :: source_namespace
  key_identity :: fact_dedup_identity

fun dedup_kind :: "fact_dedup_identity \<Rightarrow> string" where
  "dedup_kind (ExternalFactId _) = ''external_id''"
| "dedup_kind (SourceNativeSequence _) = ''source_native_sequence''"

fun dedup_value_bytes :: "fact_dedup_identity \<Rightarrow> string" where
  "dedup_value_bytes (ExternalFactId v) = json_string v"
| "dedup_value_bytes (SourceNativeSequence n) = non_negative_integer_bytes (nat n)"

definition canonical_fact_dedup_key_bytes :: "fact_dedup_key \<Rightarrow> string" where
  "canonical_fact_dedup_key_bytes k =
     ''{'' @ json_key ''canonicalization'' @ json_string ''ea-fact-dedup-key-v1''
     @ '','' @ json_key ''identity''
     @ ''{'' @ json_key ''kind'' @ json_string (dedup_kind (key_identity k))
     @ '','' @ json_key ''value'' @ dedup_value_bytes (key_identity k) @ ''}''
     @ '','' @ json_key ''schema_version'' @ ''1''
     @ '','' @ json_key ''source_namespace'' @ json_string (namespace_text (key_namespace k))
     @ ''}''"

section \<open>Replay classification\<close>

datatype identity_disposition = NEW | EXACT_REPLAY | CONFLICT

datatype replay_identity =
    Economic economic_id | Ingress ingress_identity | Dedup fact_dedup_key

fun same_variant :: "replay_identity \<Rightarrow> replay_identity \<Rightarrow> bool" where
  "same_variant (Economic _) (Economic _) = True"
| "same_variant (Ingress _) (Ingress _) = True"
| "same_variant (Dedup _) (Dedup _) = True"
| "same_variant _ _ = False"

definition classify_identity_replay ::
  "replay_identity \<Rightarrow> string \<Rightarrow> replay_identity \<Rightarrow> string \<Rightarrow> identity_disposition result" where
  "classify_identity_replay existing existing_payload candidate candidate_payload =
     guard_res (\<not> same_variant existing candidate) (ExecutionIdentityError INVALID_TYPE)
       (Inr (if existing \<noteq> candidate then NEW
             else if existing_payload = candidate_payload then EXACT_REPLAY else CONFLICT))"

section \<open>The chunked rendering is the decimal text\<close>

lemma chunk_loop_append: "chunk_loop r cs = cs @ chunk_loop r []"
proof (induction r arbitrary: cs rule: less_induct)
  case (less r)
  show ?case
  proof (cases "r = 0")
    case False
    then have "r div 1000000000 < r" by simp
    note IH = less.IH [OF this]
    show ?thesis
      using False by (subst (1 2) chunk_loop.simps) (simp add: IH [of "cs @ _"] IH [of "[_]"])
  qed (simp add: chunk_loop.simps)
qed

lemma chunk_loop_step:
  "0 < r \<Longrightarrow> chunk_loop r [] = r mod 1000000000 # chunk_loop (r div 1000000000) []"
  by (subst chunk_loop.simps) (simp add: chunk_loop_append [of _ "[_]"])

lemma chunk_loop_nonempty: "0 < r \<Longrightarrow> chunk_loop r [] \<noteq> []"
  by (simp add: chunk_loop_step)

lemma pad9_props:
  assumes "m < 1000000000"
  shows "length (pad9 m) = 9" "digits_nat (pad9 m) = m" "\<forall>c \<in> set (pad9 m). is_digit c"
proof -
  have "length (nat_str m) \<le> 9" using assms by (simp add: length_nat_str_le)
  then show "length (pad9 m) = 9" by (simp add: pad9_def)
  show "digits_nat (pad9 m) = m" by (simp add: pad9_def digits_nat_zeros)
  have "is_digit (CHR ''0'')" by code_simp
  then show "\<forall>c \<in> set (pad9 m). is_digit c" using nat_str_digits by (auto simp: pad9_def)
qed

lemma nat_str_pad9:
  assumes "0 < q" "m < 1000000000"
  shows "nat_str q @ pad9 m = nat_str (q * 1000000000 + m)"
proof -
  have "canonical_digits (nat_str q @ pad9 m)"
    using pad9_props(3) [OF assms(2)] nat_str_digits [of q] hd_nat_str [OF assms(1)]
    by (auto simp: canonical_digits_def)
  then have "nat_str (digits_nat (nat_str q @ pad9 m)) = nat_str q @ pad9 m"
    by (rule nat_str_digits_nat)
  then show ?thesis by (simp add: digits_nat_append pad9_props [OF assms(2)])
qed

lemma chunks_nat_str:
  "0 < r \<Longrightarrow> nat_str (last (chunk_loop r [])) @ concat (map pad9 (rev (butlast (chunk_loop r [])))) = nat_str r"
proof (induction r rule: less_induct)
  case (less r)
  let ?q = "r div 1000000000" and ?m = "r mod 1000000000"
  have s: "chunk_loop r [] = ?m # chunk_loop ?q []" using less.prems by (rule chunk_loop_step)
  show ?case
  proof (cases "?q = 0")
    case True
    then show ?thesis unfolding s by (simp add: chunk_loop.simps div_eq_0_iff)
  next
    case False
    then have q: "0 < ?q" "?q < r" using less.prems by simp_all
    have "nat_str (last (chunk_loop ?q [])) @ concat (map pad9 (rev (butlast (chunk_loop ?q [])))) @ pad9 ?m
        = nat_str ?q @ pad9 ?m"
      using less.IH [OF q(2,1)] by (simp add: append_assoc [symmetric] del: append_assoc)
    also have "\<dots> = nat_str (?q * 1000000000 + ?m)" by (rule nat_str_pad9 [OF q(1)]) simp
    also have "?q * 1000000000 + ?m = r" by simp
    finally show ?thesis unfolding s using chunk_loop_nonempty [OF q(1)] by simp
  qed
qed

lemma non_negative_integer_bytes_nat_str [code]: "non_negative_integer_bytes v = nat_str v"
  using chunks_nat_str [of v] by (auto simp: non_negative_integer_bytes_def Let_def nat_str_0)

section \<open>JSON strings are uniquely decodable\<close>

definition hex_val :: "char \<Rightarrow> nat" where
  "hex_val c = (if is_digit c then digit_val c else of_char c - 87)"

definition json_take :: "string \<Rightarrow> char \<times> string" where
  "json_take s =
     (if hd s \<noteq> CHR 0x5C then (hd s, tl s)
      else let c = s ! 1 in
        if c = CHR ''u'' then (char_of (16 * hex_val (s ! 4) + hex_val (s ! 5)), drop 6 s)
        else (if c = CHR ''b'' then CHR 0x08 else if c = CHR ''t'' then CHR 0x09
          else if c = CHR ''n'' then CHR 0x0A else if c = CHR ''f'' then CHR 0x0C
          else if c = CHR ''r'' then CHR 0x0D else c, drop 2 s))"

lemma hex_val_char: "n < 16 \<Longrightarrow> hex_val (hex_char n) = n"
  by (auto simp: hex_val_def hex_char_def digit_val_def digit_char_def is_digit_def)

lemma char_split: "char_of (16 * (of_char c div 16) + of_char c mod 16 :: nat) = (c::char)"
  by (simp del: mult_div_mod_eq add: mult_div_mod_eq)

lemma json_take_escape: "json_take (json_escape c @ x) = (c, x)"
proof -
  have "(of_char c :: nat) < 16 * 16" using nat_of_char_less_256 [of c] by simp
  then have h: "of_char c div 16 < (16::nat)" by (rule less_mult_imp_div_less)
  have h2: "of_char c mod 16 < (16::nat)" by simp
  note h = h h2
  show ?thesis
    using h by (auto simp: json_escape_def json_take_def Let_def hex_val_char)
qed

lemma json_escape_hd: "json_escape c \<noteq> [] \<and> hd (json_escape c) \<noteq> CHR 0x22"
  by (auto simp: json_escape_def)

lemma json_string_inj:
  "json_string s @ x = json_string t @ y \<Longrightarrow> s = t \<and> x = y"
proof -
  have q: "concat (map json_escape s) @ QUOTE @ x = concat (map json_escape t) @ QUOTE @ y \<Longrightarrow> s = t \<and> x = y"
  proof (induction s arbitrary: t)
    case Nil
    show ?case
    proof (cases t)
      case (Cons d u)
      with Nil show ?thesis using json_escape_hd [of d]
        by (cases "json_escape d") (auto simp: QUOTE_def)
    qed (use Nil in \<open>simp add: QUOTE_def\<close>)
  next
    case (Cons c s)
    show ?case
    proof (cases t)
      case Nil
      with Cons.prems show ?thesis using json_escape_hd [of c]
        by (cases "json_escape c") (auto simp: QUOTE_def)
    next
      case t: (Cons d u)
      from Cons.prems have "json_take (json_escape c @ concat (map json_escape s) @ QUOTE @ x) =
        json_take (json_escape d @ concat (map json_escape u) @ QUOTE @ y)" by (simp add: t)
      then have "c = d" "concat (map json_escape s) @ QUOTE @ x = concat (map json_escape u) @ QUOTE @ y"
        by (simp_all only: json_take_escape prod.inject)
      with Cons.IH t show ?thesis by simp
    qed
  qed
  assume "json_string s @ x = json_string t @ y"
  then show ?thesis by (intro q) (simp add: json_string_def)
qed

lemma nat_str_delim:
  assumes "nat_str m @ c # x = nat_str n @ d # y" "\<not> is_digit c" "\<not> is_digit d"
  shows "m = n \<and> c # x = d # y"
proof -
  have tw: "takeWhile is_digit (nat_str k @ e # z) = nat_str k"
    "dropWhile is_digit (nat_str k @ e # z) = e # z" if "\<not> is_digit e" for k e z
    using that nat_str_digits [of k] by (auto simp: takeWhile_append2)
  from assms show ?thesis
    using tw [of c m x] tw [of d n y] by (metis nat_str_inj)
qed

lemma owner_kind_value_inj [simp]: "owner_kind_value a = owner_kind_value b \<longleftrightarrow> a = b"
  by (cases a; cases b; simp)


lemma not_digit_delims: "\<not> is_digit (CHR '','')" "\<not> is_digit (CHR ''}'')"
  by code_simp+

lemma run_text_inj [simp]: "run_text a = run_text b \<longleftrightarrow> a = b"
  by (cases a; cases b) simp

lemma namespace_text_inj [simp]: "namespace_text a = namespace_text b \<longleftrightarrow> a = b"
  by (cases a; cases b) simp

lemma economic_id_bytes_inj:
  assumes "canonical_economic_id_bytes a = canonical_economic_id_bytes b"
    "0 \<le> owner_sequence a" "0 \<le> owner_sequence b"
  shows "a = b"
proof -
  let ?k = "\<lambda>i. json_string (owner_kind_value (owner_kind i))"
  let ?r = "\<lambda>i. json_string (run_text (run_id i)) @ '','' @ json_key ''schema_version'' @ ''1}''"
  let ?n = "\<lambda>i. nat_str (nat (owner_sequence i)) @ '','' @ json_key ''run_id'' @ ?r i"
  from assms(1) have "?k a @ '','' @ json_key ''owner_sequence'' @ ?n a =
      ?k b @ '','' @ json_key ''owner_sequence'' @ ?n b"
    by (simp add: canonical_economic_id_bytes_def)
  from json_string_inj [OF this] have k: "owner_kind a = owner_kind b" and n: "?n a = ?n b" by auto
  from n have "nat (owner_sequence a) = nat (owner_sequence b) \<and>
      CHR '','' # json_key ''run_id'' @ ?r a = CHR '','' # json_key ''run_id'' @ ?r b"
    by (intro nat_str_delim) (auto simp: not_digit_delims)
  then have q: "owner_sequence a = owner_sequence b" and r: "?r a = ?r b" using assms(2,3) by auto
  from json_string_inj [OF r] have "run_id a = run_id b" by simp
  with k q show ?thesis by simp
qed

lemma ingress_bytes_inj:
  assumes "canonical_ingress_identity_bytes a = canonical_ingress_identity_bytes b"
    "0 \<le> ingress_sequence a" "0 \<le> ingress_sequence b"
  shows "a = b"
proof -
  let ?t = "\<lambda>i. json_string (namespace_text (ingress_namespace i)) @ ''}''"
  let ?s = "\<lambda>i. json_key ''schema_version'' @ ''1'' @ '','' @ json_key ''source_namespace'' @ ?t i"
  from assms(1) have "nat_str (nat (ingress_sequence a)) @ CHR '','' # ?s a =
      nat_str (nat (ingress_sequence b)) @ CHR '','' # ?s b"
    by (simp add: canonical_ingress_identity_bytes_def non_negative_integer_bytes_nat_str)
  from nat_str_delim [OF this not_digit_delims(1) not_digit_delims(1)]
  have q: "ingress_sequence a = ingress_sequence b" and t: "?t a = ?t b" using assms(2,3) by auto
  from json_string_inj [OF t] have "ingress_namespace a = ingress_namespace b" by simp
  with q show ?thesis by simp
qed

fun wf_dedup :: "fact_dedup_identity \<Rightarrow> bool" where
  "wf_dedup (ExternalFactId _) = True"
| "wf_dedup (SourceNativeSequence n) = (0 \<le> n)"

lemma dedup_value_inj:
  assumes "dedup_kind a = dedup_kind b" "dedup_value_bytes a @ CHR ''}'' # x = dedup_value_bytes b @ CHR ''}'' # y"
    "wf_dedup a" "wf_dedup b"
  shows "a = b \<and> x = y"
proof (cases a; cases b)
  fix v w assume ab: "a = ExternalFactId v" "b = ExternalFactId w"
  with json_string_inj [of v "CHR ''}'' # x" w "CHR ''}'' # y"] assms show ?thesis by simp
next
  fix m n assume "a = SourceNativeSequence m" "b = SourceNativeSequence n"
  with nat_str_delim [of "nat m" "CHR ''}''" x "nat n" "CHR ''}''" y] assms not_digit_delims
  show ?thesis by (auto simp: non_negative_integer_bytes_nat_str)
qed (use assms(1) in auto)

lemma dedup_key_bytes_inj:
  assumes "canonical_fact_dedup_key_bytes a = canonical_fact_dedup_key_bytes b"
    "wf_dedup (key_identity a)" "wf_dedup (key_identity b)"
  shows "a = b"
proof -
  let ?t = "\<lambda>k. json_string (namespace_text (key_namespace k)) @ ''}''"
  let ?v = "\<lambda>k. dedup_value_bytes (key_identity k) @ CHR ''}'' # '','' @ json_key ''schema_version'' @ ''1''
      @ '','' @ json_key ''source_namespace'' @ ?t k"
  from assms(1) have "json_string (dedup_kind (key_identity a)) @ '','' @ json_key ''value'' @ ?v a =
      json_string (dedup_kind (key_identity b)) @ '','' @ json_key ''value'' @ ?v b"
    by (simp add: canonical_fact_dedup_key_bytes_def)
  from json_string_inj [OF this] have k: "dedup_kind (key_identity a) = dedup_kind (key_identity b)"
    and v: "?v a = ?v b" by auto
  from dedup_value_inj [OF k v assms(2,3)] have i: "key_identity a = key_identity b"
    and t: "?t a = ?t b" by auto
  from json_string_inj [OF t] have "key_namespace a = key_namespace b" by simp
  with i show ?thesis by simp
qed

section \<open>Instrument identities\<close>

lemma venue_code_no_colon:
  assumes "make_venue_id c = Inr v"
  shows "CHR '':'' \<notin> set (venue_code v)"
proof -
  have "\<not> is_digit (CHR '':'')" "\<not> is_upper (CHR '':'')" "CHR '':'' \<notin> set ''._-''" by code_simp+
  moreover from assms have "v = VenueId c" "fullmatch venue_pattern c"
    by (auto simp: make_venue_id_def)
  ultimately show ?thesis
    by (auto simp: venue_pattern_def fullmatch_lang list_all_iff)
qed

lemma colon_inj:
  assumes "a @ c # x = b @ c # y" "c \<notin> set a" "c \<notin> set b"
  shows "a = b \<and> x = y"
proof -
  have "takeWhile (\<lambda>z. z \<noteq> c) (a @ c # x) = a" "takeWhile (\<lambda>z. z \<noteq> c) (b @ c # y) = b"
    using assms(2,3) by (auto simp: takeWhile_append)
  with assms(1) show ?thesis by auto
qed

section \<open>Properties\<close>

text \<open>The nine-digit chunk loop renders every non-negative integer, of any size, as its
  decimal text, and the text determines the integer.\<close>

theorem integer_bytes_decimal:
  "non_negative_integer_bytes v = nat_str v \<and> digits_nat (non_negative_integer_bytes v) = v"
  by (simp add: non_negative_integer_bytes_nat_str)

text \<open>Canonical bytes identify: two identities of the same kind with equal canonical
  bytes are equal, for economic identities, ingress occurrences and source-scoped fact keys
  (whose namespaces and fact ids are arbitrary texts).\<close>

theorem canonical_bytes_identify:
  assumes "0 \<le> owner_sequence a" "0 \<le> owner_sequence b"
    "0 \<le> ingress_sequence i" "0 \<le> ingress_sequence j"
    "wf_dedup (key_identity k)" "wf_dedup (key_identity l)"
  shows "(canonical_economic_id_bytes a = canonical_economic_id_bytes b \<longleftrightarrow> a = b)
    \<and> (canonical_ingress_identity_bytes i = canonical_ingress_identity_bytes j \<longleftrightarrow> i = j)
    \<and> (canonical_fact_dedup_key_bytes k = canonical_fact_dedup_key_bytes l \<longleftrightarrow> k = l)"
  using economic_id_bytes_inj [of a b] ingress_bytes_inj [of i j] dedup_key_bytes_inj [of k l] assms
  by blast

theorem canonical_bytes_identify_witness:
  "canonical_fact_dedup_key_bytes \<lparr>key_namespace = SourceNamespace ''x'', key_identity = ExternalFactId ''7''\<rparr>
   \<noteq> canonical_fact_dedup_key_bytes \<lparr>key_namespace = SourceNamespace ''x'', key_identity = SourceNativeSequence 7\<rparr>"
  using canonical_bytes_identify
    [of "\<lparr>run_id = RunId [], owner_kind = AUDIT_RECORD, owner_sequence = 0\<rparr>"
        "\<lparr>run_id = RunId [], owner_kind = AUDIT_RECORD, owner_sequence = 0\<rparr>"
        "\<lparr>ingress_namespace = SourceNamespace [], ingress_sequence = 0\<rparr>"
        "\<lparr>ingress_namespace = SourceNamespace [], ingress_sequence = 0\<rparr>"
        "\<lparr>key_namespace = SourceNamespace ''x'', key_identity = ExternalFactId ''7''\<rparr>"
        "\<lparr>key_namespace = SourceNamespace ''x'', key_identity = SourceNativeSequence 7\<rparr>"]
  by simp

end
