(* ===== verification/Outcomes.thy ===== *)
theory Outcomes
  imports Prelude
begin

text \<open>
  \<open>ea.core.outcomes\<close>: the wire value of every outcome code and the family a
  code belongs to, read off the text before the first dot.
\<close>

primrec outcome_code_value :: "outcome_code \<Rightarrow> string" where
  "outcome_code_value INVALID_TYPE = ''validation.invalid_type''"
| "outcome_code_value NON_FINITE = ''validation.non_finite''"
| "outcome_code_value OUT_OF_RANGE = ''validation.out_of_range''"
| "outcome_code_value NOT_QUANTIZED = ''validation.not_quantized''"
| "outcome_code_value PRICE_DOMAIN = ''validation.price_domain''"
| "outcome_code_value ARITHMETIC_OVERFLOW = ''validation.arithmetic_overflow''"
| "outcome_code_value CONFLICTING_ID = ''validation.conflicting_id''"
| "outcome_code_value PREFLIGHT_UNSUPPORTED_PLATFORM = ''preflight.unsupported_platform''"
| "outcome_code_value PREFLIGHT_PROVENANCE_UNVERIFIED = ''preflight.provenance_unverified''"
| "outcome_code_value PREFLIGHT_MANIFEST_UNVERIFIED = ''preflight.manifest_unverified''"
| "outcome_code_value DURABILITY_AUDIT_APPEND_FAILED = ''durability.audit_append_failed''"
| "outcome_code_value DURABILITY_AUDIT_ACK_MISMATCH = ''durability.audit_ack_mismatch''"
| "outcome_code_value DURABILITY_RESULT_WRITE_FAILED = ''durability.result_write_failed''"
| "outcome_code_value RISK_ALLOWED = ''risk.allowed''"
| "outcome_code_value RISK_RESIZED = ''risk.resized''"
| "outcome_code_value RISK_REJECTED = ''risk.rejected''"
| "outcome_code_value RISK_EVALUATION_FAILED = ''risk.evaluation_failed''"
| "outcome_code_value RISK_STALE_APPROVAL = ''risk.stale_approval''"
| "outcome_code_value SUBMISSION_SUBMITTED = ''submission.submitted''"
| "outcome_code_value SUBMISSION_DEFINITELY_NOT_SUBMITTED = ''submission.definitely_not_submitted''"
| "outcome_code_value SUBMISSION_UNCERTAIN = ''submission.uncertain''"
| "outcome_code_value SUBMISSION_BLOCKED_BY_HALT = ''submission.blocked_by_halt''"
| "outcome_code_value FACT_ACCEPTED = ''fact.accepted''"
| "outcome_code_value FACT_DUPLICATE = ''fact.duplicate''"
| "outcome_code_value FACT_INVALID = ''fact.invalid''"
| "outcome_code_value FACT_INVALID_MISSING_DEDUP_IDENTITY = ''fact.invalid.missing_dedup_identity''"
| "outcome_code_value FACT_CONFLICT = ''fact.conflict''"
| "outcome_code_value FACT_UNRESOLVED = ''fact.unresolved''"
| "outcome_code_value ORDER_ACKNOWLEDGED = ''order.acknowledged''"
| "outcome_code_value ORDER_REJECTED = ''order.rejected''"
| "outcome_code_value ORDER_PARTIALLY_FILLED = ''order.partially_filled''"
| "outcome_code_value ORDER_FILLED = ''order.filled''"
| "outcome_code_value ORDER_EXPIRED = ''order.expired''"
| "outcome_code_value ORDER_CANCELLED = ''order.cancelled''"
| "outcome_code_value ORDER_EXPIRED_NO_ELIGIBLE_MARKET_DATA = ''order.expired.no_eligible_market_data''"
| "outcome_code_value LEDGER_APPLIED = ''ledger.applied''"
| "outcome_code_value LEDGER_DUPLICATE = ''ledger.duplicate''"
| "outcome_code_value LEDGER_CONFLICT = ''ledger.conflict''"
| "outcome_code_value LEDGER_UNBALANCED = ''ledger.unbalanced''"
| "outcome_code_value ROUNDING_UNREPRESENTABLE = ''ledger.rounding_unrepresentable''"
| "outcome_code_value RECONCILIATION_MATCH = ''reconciliation.match''"
| "outcome_code_value RECONCILIATION_REMOTE_AHEAD = ''reconciliation.remote_ahead''"
| "outcome_code_value RECONCILIATION_LOCAL_AHEAD_STALE = ''reconciliation.local_ahead_stale''"
| "outcome_code_value RECONCILIATION_MISMATCH = ''reconciliation.mismatch''"
| "outcome_code_value RECONCILIATION_UNRESOLVED_CORRELATION = ''reconciliation.unresolved_correlation''"
| "outcome_code_value RECONCILIATION_SUBMISSION_UNKNOWN = ''reconciliation.submission_unknown''"
| "outcome_code_value RECONCILIATION_LATE_FACT_AFTER_TERMINAL = ''reconciliation.late_fact_after_terminal''"
| "outcome_code_value RECONCILIATION_INVALID = ''reconciliation.invalid''"
| "outcome_code_value RECONCILIATION_QUARANTINED = ''reconciliation.quarantined''"
| "outcome_code_value RECONCILIATION_SUBMISSION_CONFIRMED_SUBMITTED = ''reconciliation.submission.confirmed_submitted''"
| "outcome_code_value RECONCILIATION_SUBMISSION_CONFIRMED_NOT_SUBMITTED = ''reconciliation.submission.confirmed_not_submitted''"
| "outcome_code_value RECONCILIATION_SUBMISSION_CONFIRMED_REJECTED = ''reconciliation.submission.confirmed_rejected''"
| "outcome_code_value RECONCILIATION_SUBMISSION_CONFIRMED_FILLED = ''reconciliation.submission.confirmed_filled''"
| "outcome_code_value RECONCILIATION_SUBMISSION_STILL_UNKNOWN = ''reconciliation.submission.still_unknown''"

datatype (plugins only: code) outcome_family =
    VALIDATION | PREFLIGHT | DURABILITY | RISK | SUBMISSION | FACT | ORDER | LEDGER
  | RECONCILIATION

fun family_value :: "outcome_family \<Rightarrow> string" where
  "family_value VALIDATION = ''validation''"
| "family_value PREFLIGHT = ''preflight''"
| "family_value DURABILITY = ''durability''"
| "family_value RISK = ''risk''"
| "family_value SUBMISSION = ''submission''"
| "family_value FACT = ''fact''"
| "family_value ORDER = ''order''"
| "family_value LEDGER = ''ledger''"
| "family_value RECONCILIATION = ''reconciliation''"

definition all_families :: "outcome_family list" where
  "all_families =
     [VALIDATION, PREFLIGHT, DURABILITY, RISK, SUBMISSION, FACT, ORDER, LEDGER, RECONCILIATION]"

text \<open>\<open>OutcomeFamily(code.value.split(".", 1)[0])\<close>; the registry is built by
  applying it to every code, and an unknown family text is a \<open>ValueError\<close>.\<close>

definition outcome_family :: "outcome_code \<Rightarrow> outcome_family result" where
  "outcome_family c =
     (let t = takeWhile (\<lambda>x. x \<noteq> CHR ''.'') (outcome_code_value c)
      in case find (\<lambda>f. family_value f = t) all_families of
           Some f \<Rightarrow> Inr f | None \<Rightarrow> Inl ValueError)"

definition all_outcome_codes :: "outcome_code list" where
  "all_outcome_codes =
     [INVALID_TYPE, NON_FINITE, OUT_OF_RANGE, NOT_QUANTIZED, PRICE_DOMAIN, 
      ARITHMETIC_OVERFLOW, CONFLICTING_ID, PREFLIGHT_UNSUPPORTED_PLATFORM, 
      PREFLIGHT_PROVENANCE_UNVERIFIED, PREFLIGHT_MANIFEST_UNVERIFIED, 
      DURABILITY_AUDIT_APPEND_FAILED, DURABILITY_AUDIT_ACK_MISMATCH, 
      DURABILITY_RESULT_WRITE_FAILED, RISK_ALLOWED, RISK_RESIZED, RISK_REJECTED, 
      RISK_EVALUATION_FAILED, RISK_STALE_APPROVAL, SUBMISSION_SUBMITTED, 
      SUBMISSION_DEFINITELY_NOT_SUBMITTED, SUBMISSION_UNCERTAIN, SUBMISSION_BLOCKED_BY_HALT, 
      FACT_ACCEPTED, FACT_DUPLICATE, FACT_INVALID, FACT_INVALID_MISSING_DEDUP_IDENTITY, 
      FACT_CONFLICT, FACT_UNRESOLVED, ORDER_ACKNOWLEDGED, ORDER_REJECTED, 
      ORDER_PARTIALLY_FILLED, ORDER_FILLED, ORDER_EXPIRED, ORDER_CANCELLED, 
      ORDER_EXPIRED_NO_ELIGIBLE_MARKET_DATA, LEDGER_APPLIED, LEDGER_DUPLICATE, 
      LEDGER_CONFLICT, LEDGER_UNBALANCED, ROUNDING_UNREPRESENTABLE, RECONCILIATION_MATCH, 
      RECONCILIATION_REMOTE_AHEAD, RECONCILIATION_LOCAL_AHEAD_STALE, 
      RECONCILIATION_MISMATCH, RECONCILIATION_UNRESOLVED_CORRELATION, 
      RECONCILIATION_SUBMISSION_UNKNOWN, RECONCILIATION_LATE_FACT_AFTER_TERMINAL, 
      RECONCILIATION_INVALID, RECONCILIATION_QUARANTINED, 
      RECONCILIATION_SUBMISSION_CONFIRMED_SUBMITTED, 
      RECONCILIATION_SUBMISSION_CONFIRMED_NOT_SUBMITTED, 
      RECONCILIATION_SUBMISSION_CONFIRMED_REJECTED, 
      RECONCILIATION_SUBMISSION_CONFIRMED_FILLED, RECONCILIATION_SUBMISSION_STILL_UNKNOWN]"

lemma all_outcome_codes_complete: "c \<in> set all_outcome_codes"
  by (cases c) (simp_all add: all_outcome_codes_def)

lemma outcome_code_values_distinct: "distinct (map outcome_code_value all_outcome_codes)"
  by code_simp

lemma outcome_code_value_inj [simp]: "outcome_code_value a = outcome_code_value b \<longleftrightarrow> a = b"
  using outcome_code_values_distinct all_outcome_codes_complete
  by (auto simp: distinct_map inj_on_def)

end
