(* ===== verification/Canonical_Json.thy ===== *)
theory Canonical_Json
  imports Identity "HOL-Library.List_Lexorder" "HOL-Library.Char_ord"
begin

text \<open>
  The canonical JSON encoder \<open>_encode_json\<close> of \<open>ea.core.portfolio\<close> and
  \<open>ea.core.execution_messages\<close>: a document is a tree, an object is the list of
  its members in the order the source writes them, and the encoder sorts them
  by key. Encoding is injective up to the order of members, so that equal
  canonical bytes mean equal documents.
\<close>

section \<open>Documents and their bytes\<close>

datatype json =
    JNull | JBool bool | JStr string | JInt int
  | JList "json list" | JObj "(string \<times> json) list"

text \<open>\<open>_decimal_integer_bytes\<close>.\<close>

definition decimal_integer_bytes :: "int \<Rightarrow> string" where
  "decimal_integer_bytes v =
     (if v < 0 then ''-'' @ non_negative_integer_bytes (nat (- v))
      else non_negative_integer_bytes (nat v))"

text \<open>\<open>sep.join(parts)\<close>.\<close>

fun join_with :: "string \<Rightarrow> string list \<Rightarrow> string" where
  "join_with sep [] = []"
| "join_with sep [p] = p"
| "join_with sep (p # q # ps) = p @ sep @ join_with sep (q # ps)"

primrec json_bytes :: "json \<Rightarrow> string" where
  "json_bytes JNull = ''null''"
| "json_bytes (JBool b) = (if b then ''true'' else ''false'')"
| "json_bytes (JStr s) = json_string s"
| "json_bytes (JInt n) = decimal_integer_bytes n"
| "json_bytes (JList xs) = ''['' @ join_with '','' (map json_bytes xs) @ '']''"
| "json_bytes (JObj kvs) =
     ''{'' @ join_with '','' (map (\<lambda>(k, v). json_string k @ '':'' @ v)
                 (sort_key fst (map (map_prod id json_bytes) kvs))) @ ''}''"

section \<open>Injectivity\<close>

text \<open>The normal form sorts the members of every object; \<open>enc\<close> encodes without sorting.\<close>

primrec json_norm :: "json \<Rightarrow> json" where
  "json_norm JNull = JNull"
| "json_norm (JBool b) = JBool b"
| "json_norm (JStr s) = JStr s"
| "json_norm (JInt n) = JInt n"
| "json_norm (JList xs) = JList (map json_norm xs)"
| "json_norm (JObj kvs) = JObj (sort_key fst (map (map_prod id json_norm) kvs))"

primrec enc :: "json \<Rightarrow> string" where
  "enc JNull = ''null''"
| "enc (JBool b) = (if b then ''true'' else ''false'')"
| "enc (JStr s) = json_string s"
| "enc (JInt n) = decimal_integer_bytes n"
| "enc (JList xs) = ''['' @ join_with '','' (map enc xs) @ '']''"
| "enc (JObj kvs) =
     ''{'' @ join_with '','' (map (\<lambda>(k, v). json_string k @ '':'' @ v)
                 (map (map_prod id enc) kvs)) @ ''}''"

lemma sort_key_map_prod:
  "sort_key fst (map (map_prod id f) kvs) = map (map_prod id f) (sort_key fst kvs)"
proof -
  have i: "insort_key fst (map_prod id f x) (map (map_prod id f) ys) =
      map (map_prod id f) (insort_key fst x ys)" for x ys
    by (induction ys) auto
  show ?thesis by (induction kvs) (simp_all add: i [unfolded id_def] id_def)
qed

lemma json_bytes_enc: "json_bytes j = enc (json_norm j)"
proof (induction j)
  case (JObj kvs)
  have "map (map_prod id json_bytes) kvs = map (map_prod id (enc \<circ> json_norm)) kvs"
    using JObj by (auto simp: map_prod_def)
  then have "map (map_prod id json_bytes) kvs = map (map_prod id enc) (map (map_prod id json_norm) kvs)"
    by (simp add: map_prod.comp)
  then show ?case by (simp only: json_bytes.simps json_norm.simps enc.simps sort_key_map_prod)
qed (simp_all cong: map_cong)

definition delim :: "string \<Rightarrow> bool" where
  "delim x \<longleftrightarrow> x = [] \<or> \<not> is_digit (hd x)"

lemma delim_simps [simp]:
  "delim []" "delim (CHR '','' # x)" "delim (CHR '']'' # x)" "delim (CHR ''}'' # x)"
proof -
  have "\<not> is_digit (CHR '','')" "\<not> is_digit (CHR '']'')" "\<not> is_digit (CHR ''}'')" by code_simp+
  then show "delim []" "delim (CHR '','' # x)" "delim (CHR '']'' # x)" "delim (CHR ''}'' # x)"
    by (simp_all add: delim_def)
qed

text \<open>An encoder is readable on a value when its text can be cut off any delimited continuation.\<close>

definition readable :: "('a \<Rightarrow> string) \<Rightarrow> 'a \<Rightarrow> bool" where
  "readable f a \<longleftrightarrow>
     (\<forall>b x y. delim x \<longrightarrow> delim y \<longrightarrow> f a @ x = f b @ y \<longrightarrow> a = b \<and> x = y)"

lemma readableD:
  "readable f a \<Longrightarrow> f a @ x = f b @ y \<Longrightarrow> delim x \<Longrightarrow> delim y \<Longrightarrow> a = b \<and> x = y"
  by (simp add: readable_def)

lemma join_Cons:
  "join_with sep (p # ps) = p @ (if ps = [] then [] else sep @ join_with sep ps)"
  by (cases ps) auto

lemma items_inj:
  assumes "join_with '','' (map f xs) @ z # x = join_with '','' (map f ys) @ z # y"
    and "\<forall>a \<in> set xs. readable f a" and z: "z = CHR '']'' \<or> z = CHR ''}''"
    and ne: "\<And>a. f a \<noteq> [] \<and> hd (f a) \<noteq> z"
  shows "xs = ys \<and> x = y"
  using assms(1,2)
proof (induction xs arbitrary: ys)
  case Nil
  show ?case
  proof (cases ys)
    case (Cons b ys')
    then have "z = hd (f b)" using Nil.prems(1) ne [of b] by (cases "f b") (auto simp: join_Cons)
    then show ?thesis using ne [of b] by simp
  qed (use Nil in simp)
next
  case (Cons a xs)
  have dz: "delim (z # w)" for w using z by auto
  show ?case
  proof (cases ys)
    case Nil
    then have "z = hd (f a)" using Cons.prems(1) ne [of a] by (cases "f a") (auto simp: join_Cons)
    then show ?thesis using ne [of a] by simp
  next
    case ys: (Cons b ys')
    let ?t = "\<lambda>us u. (if us = [] then [] else '','' @ join_with '','' (map f us)) @ z # u"
    have "f a @ ?t xs x = f b @ ?t ys' y" using Cons.prems(1) ys by (auto simp: join_Cons)
    moreover have "delim (?t xs x)" "delim (?t ys' y)" by (auto simp: dz)
    moreover have "readable f a" using Cons.prems(2) by simp
    ultimately have abt: "a = b \<and> ?t xs x = ?t ys' y"
      by (intro readableD [of f a])
    then have ab: "a = b" and t: "?t xs x = ?t ys' y" by (rule conjunct1, rule conjunct2)
    from t z have "xs = [] \<longleftrightarrow> ys' = []" by (auto split: if_splits)
    with t have "join_with '','' (map f xs) @ z # x = join_with '','' (map f ys') @ z # y"
      by (auto split: if_splits)
    with Cons ab ys show ?thesis by auto
  qed
qed

definition tag :: "char \<Rightarrow> nat" where
  "tag c = (if c = CHR ''n'' then 0 else if c = CHR ''t'' then 1 else if c = CHR ''f'' then 2
     else if c = CHR 0x22 then 3 else if is_digit c \<or> c = CHR ''-'' then 4
     else if c = CHR ''['' then 5 else if c = CHR ''{'' then 6 else 7)"

fun json_tag :: "json \<Rightarrow> nat" where
  "json_tag JNull = 0" | "json_tag (JBool b) = (if b then 1 else 2)" | "json_tag (JStr _) = 3"
| "json_tag (JInt _) = 4" | "json_tag (JList _) = 5" | "json_tag (JObj _) = 6"

lemma nat_str_hd_digit: "is_digit (hd (nat_str n))"
  using nat_str_digits [of n] nat_str_nonempty [of n] by auto

lemma non_digits:
  "\<not> is_digit (CHR ''n'')" "\<not> is_digit (CHR ''t'')" "\<not> is_digit (CHR ''f'')"
  "\<not> is_digit (CHR 0x22)" "\<not> is_digit (CHR ''['')" "\<not> is_digit (CHR ''{'')"
  "\<not> is_digit (CHR ''-'')" "\<not> is_digit (CHR '']'')" "\<not> is_digit (CHR ''}'')"
  by code_simp+

lemma enc_hd: "enc j \<noteq> [] \<and> tag (hd (enc j)) = json_tag j"
proof (cases j)
  case (JInt n)
  have d: "is_digit c \<Longrightarrow> tag c = 4" for c using non_digits by (auto simp: tag_def)
  have "tag (hd (nat_str m)) = 4" for m by (rule d) (rule nat_str_hd_digit)
  moreover have "tag (CHR ''-'') = 4" by code_simp
  ultimately show ?thesis
    using JInt by (simp add: decimal_integer_bytes_def non_negative_integer_bytes_nat_str)
qed (use non_digits in \<open>simp_all add: tag_def json_string_def QUOTE_def\<close>)

lemma int_readable: "readable decimal_integer_bytes n"
proof (unfold readable_def, intro allI impI)
  fix m x y assume d: "delim x" "delim y" and e: "decimal_integer_bytes n @ x = decimal_integer_bytes m @ y"
  have cut: "nat_str i @ x = nat_str k @ y \<Longrightarrow> i = k \<and> x = y" for i k
  proof -
    assume e: "nat_str i @ x = nat_str k @ y"
    have tw: "takeWhile is_digit (nat_str i @ w) = nat_str i" "dropWhile is_digit (nat_str i @ w) = w"
      if "delim w" for i w
      using that nat_str_digits [of i] by (cases w; simp add: delim_def takeWhile_append2)+
    show ?thesis using tw [of x i] tw [of y k] d e by (metis nat_str_inj)
  qed
  have sg: "CHR ''-'' # u \<noteq> nat_str k @ w" for u k w
    using nat_str_hd_digit [of k] non_digits(7) nat_str_nonempty [of k] by (cases "nat_str k") auto
  from e show "n = m \<and> x = y"
    by (auto simp: decimal_integer_bytes_def non_negative_integer_bytes_nat_str sg sg [symmetric]
        dest!: cut split: if_splits)
qed

lemma enc_tag_eq:
  assumes "enc a @ x = enc b @ y" shows "json_tag a = json_tag b"
proof -
  have "hd (enc a @ x) = hd (enc a)" "hd (enc b @ y) = hd (enc b)" using enc_hd by simp_all
  with assms show ?thesis using enc_hd by metis
qed

lemma enc_ne: "enc j \<noteq> [] \<and> hd (enc j) \<noteq> CHR '']''"
proof -
  have "tag (CHR '']'') = 7" by code_simp
  moreover have "json_tag j \<noteq> 7" by (cases j) auto
  ultimately show ?thesis using enc_hd [of j] by metis
qed

definition member_text :: "string \<times> json \<Rightarrow> string" where
  "member_text kv = json_string (fst kv) @ '':'' @ enc (snd kv)"

lemma member_readable:
  assumes "readable enc (snd kv)" shows "readable member_text kv"
proof (unfold readable_def, intro allI impI)
  fix kw x y assume d: "delim x" "delim y" and "member_text kv @ x = member_text kw @ y"
  then have "json_string (fst kv) @ CHR '':'' # enc (snd kv) @ x
      = json_string (fst kw) @ CHR '':'' # enc (snd kw) @ y" by (simp add: member_text_def)
  from json_string_inj [OF this] have "fst kv = fst kw" "enc (snd kv) @ x = enc (snd kw) @ y" by auto
  with readableD [OF assms _ d] show "kv = kw \<and> x = y" by (auto simp: prod_eq_iff)
qed

lemma member_ne: "member_text kv \<noteq> [] \<and> hd (member_text kv) \<noteq> CHR ''}''"
  by (simp add: member_text_def json_string_def QUOTE_def)

lemma enc_JObj: "enc (JObj kvs) = ''{'' @ join_with '','' (map member_text kvs) @ ''}''"
proof -
  have "member_text = (\<lambda>kv. json_string (fst kv) @ '':'' @ enc (snd kv))"
    by (rule ext) (rule member_text_def)
  then show ?thesis by (simp add: comp_def split_def)
qed

lemma enc_readable: "readable enc j"
proof (induction j)
  case (JList xs)
  show ?case
  proof (unfold readable_def, intro allI impI)
    fix b x y assume e: "enc (JList xs) @ x = enc b @ y"
    from enc_tag_eq [OF this] obtain ys where b: "b = JList ys" by (cases b) (auto split: if_splits)
    with e have "join_with '','' (map enc xs) @ CHR '']'' # x = join_with '','' (map enc ys) @ CHR '']'' # y"
      by simp
    from items_inj [OF this _ _ enc_ne] JList b show "JList xs = b \<and> x = y" by auto
  qed
next
  case (JObj kvs)
  have r: "\<forall>kv \<in> set kvs. readable member_text kv"
    using JObj by (auto intro!: member_readable)
  show ?case
  proof (unfold readable_def, intro allI impI)
    fix b x y assume e: "enc (JObj kvs) @ x = enc b @ y"
    from enc_tag_eq [OF this] obtain kws where b: "b = JObj kws" by (cases b) (auto split: if_splits)
    with e have "join_with '','' (map member_text kvs) @ CHR ''}'' # x
        = join_with '','' (map member_text kws) @ CHR ''}'' # y"
      unfolding b enc_JObj by simp
    from items_inj [OF this r _ member_ne] b show "JObj kvs = b \<and> x = y" by auto
  qed
next
  case (JStr s)
  show ?case
  proof (unfold readable_def, intro allI impI)
    fix b x y assume e: "enc (JStr s) @ x = enc b @ y"
    from enc_tag_eq [OF this] obtain t where b: "b = JStr t" by (cases b) (auto split: if_splits)
    with e json_string_inj [of s x t y] show "JStr s = b \<and> x = y" by simp
  qed
next
  case (JInt n)
  show ?case
  proof (unfold readable_def, intro allI impI)
    fix b x y assume d: "delim x" "delim y" and e: "enc (JInt n) @ x = enc b @ y"
    from enc_tag_eq [OF e] obtain m where b: "b = JInt m" by (cases b) (auto split: if_splits)
    with e d readableD [OF int_readable, of n x m y] show "JInt n = b \<and> x = y" by simp
  qed
next
  case JNull
  show ?case
  proof (unfold readable_def, intro allI impI)
    fix b x y assume e: "enc JNull @ x = enc b @ y"
    from enc_tag_eq [OF e] have "b = JNull" by (cases b) (auto split: if_splits)
    with e show "JNull = b \<and> x = y" by simp
  qed
next
  case (JBool v)
  show ?case
  proof (unfold readable_def, intro allI impI)
    fix b x y assume e: "enc (JBool v) @ x = enc b @ y"
    from enc_tag_eq [OF e] have "b = JBool v" by (cases b) (auto split: if_splits)
    with e show "JBool v = b \<and> x = y" by simp
  qed
qed

theorem json_bytes_norm: "json_bytes a = json_bytes b \<longleftrightarrow> json_norm a = json_norm b"
proof
  assume "json_bytes a = json_bytes b"
  then have "enc (json_norm a) @ [] = enc (json_norm b) @ []" by (simp add: json_bytes_enc)
  from readableD [OF enc_readable this] show "json_norm a = json_norm b" by simp
qed (simp add: json_bytes_enc)

section \<open>Reading an equation between documents\<close>

lemma same_keys_eq:
  "map fst xs = map fst ys \<Longrightarrow> distinct (map fst xs) \<Longrightarrow> set xs = set ys \<Longrightarrow> xs = ys"
proof (induction xs arbitrary: ys)
  case (Cons a xs)
  then obtain b zs where ys: "ys = b # zs" "fst b = fst a" "map fst xs = map fst zs" by (cases ys) auto
  have f: "fst ` set xs = fst ` set zs" using ys(3) by (metis list.set_map)
  have nx: "fst a \<notin> fst ` set xs" using Cons.prems(2) by simp
  have n1: "a \<notin> set xs" using nx by auto
  have n3: "fst a \<notin> fst ` set zs" using nx f by simp
  have n2: "b \<notin> set zs" using n3 ys(2) by (metis image_eqI)
  have "a \<in> set ys" using Cons.prems(3) by (metis list.set_intros(1))
  then have ab: "a = b" using ys(1) n3 by auto
  have "insert b (set xs) = insert b (set zs)" using Cons.prems(3) unfolding ys(1) ab by simp
  with n1 n2 ab have "set xs = set zs" by (metis insert_ident)
  then have "xs = zs" using Cons.prems(2) by (intro Cons.IH [OF ys(3)]) auto
  then show ?case unfolding ys(1) ab by simp
qed simp

text \<open>
  Two objects with the same distinct keys have equal normal forms exactly when
  their members do, key by key.
\<close>

lemma norm_obj:
  assumes "distinct (map fst kvs)" "map fst kws = map fst kvs"
  shows "json_norm (JObj kvs) = json_norm (JObj kws) \<longleftrightarrow>
    map (json_norm \<circ> snd) kvs = map (json_norm \<circ> snd) kws" (is "?L \<longleftrightarrow> ?R")
proof
  let ?f = "map_prod id json_norm"
  assume ?L
  then have s: "set (map ?f kvs) = set (map ?f kws)"
    by (simp only: json_norm.simps json.inject) (metis set_sort)
  have "map fst (map ?f kvs) = map fst (map ?f kws)" "distinct (map fst (map ?f kvs))"
    using assms by simp_all
  from same_keys_eq [OF this s] have "map snd (map ?f kvs) = map snd (map ?f kws)" by simp
  then show ?R by (simp add: comp_def)
next
  assume r: ?R
  have "map (map_prod id json_norm) kvs = map (map_prod id json_norm) kws"
    using r assms(2) by (intro list.map_comp pair_list_eqI) auto
  then show ?L by simp
qed

lemma norm_obj_eq:
  "json_norm (JObj kvs) = json_norm (JObj kws) \<Longrightarrow> distinct (map fst kvs) \<Longrightarrow>
   map fst kws = map fst kvs \<Longrightarrow> map (json_norm \<circ> snd) kvs = map (json_norm \<circ> snd) kws"
  using norm_obj by blast

lemma norm_leaf [simp]:
  "json_norm j = JStr s \<longleftrightarrow> j = JStr s" "json_norm j = JNull \<longleftrightarrow> j = JNull"
  "json_norm j = JInt n \<longleftrightarrow> j = JInt n" "json_norm j = JBool b \<longleftrightarrow> j = JBool b"
  by (cases j; auto)+

end
