(* ===== verification/Execution_Spec.thy ===== *)
theory Execution_Spec
  imports Canonical_Json Decimal_Laws "HOL-Library.Product_Lexorder" "HOL-Library.Multiset"
begin

text \<open>
  \<open>ea.core.execution\<close>: instrument execution specifications, the ordered and
  duplicate-free specification set with its canonical document and digest, and
  the instrument-bound settlement of one execution. Keys are compared as Python
  compares tuples of strings, which is the lexicographic order of the library.
\<close>

section \<open>Specifications\<close>

datatype price_domain = POSITIVE | NON_NEGATIVE | SIGNED

fun price_domain_value :: "price_domain \<Rightarrow> string" where
  "price_domain_value POSITIVE = ''positive''"
| "price_domain_value NON_NEGATIVE = ''non_negative''"
| "price_domain_value SIGNED = ''signed''"

definition currency_pattern :: regex where
  "currency_pattern =
     Sq (Cls is_upper) (Sq (Cls (\<lambda>c. is_upper c \<or> is_digit c))
       (Sq (Cls (\<lambda>c. is_upper c \<or> is_digit c)) (Upto 9 (\<lambda>c. is_upper c \<or> is_digit c))))"

datatype settlement_currency = SettlementCurrency string

fun currency_code :: "settlement_currency \<Rightarrow> string" where
  "currency_code (SettlementCurrency c) = c"

definition make_settlement_currency :: "string \<Rightarrow> settlement_currency result" where
  "make_settlement_currency c =
     guard_res (\<not> fullmatch currency_pattern c) (EconomicValidationError OUT_OF_RANGE)
       (Inr (SettlementCurrency c))"

datatype spec_id = InstrumentSpecId string
datatype spec_set_id = InstrumentSpecSetId string

fun spec_id_text :: "spec_id \<Rightarrow> string" where
  "spec_id_text (InstrumentSpecId t) = t"

fun spec_set_id_text :: "spec_set_id \<Rightarrow> string" where
  "spec_set_id_text (InstrumentSpecSetId t) = t"

definition validate_spec_id :: "string \<Rightarrow> unit result" where
  "validate_spec_id t =
     guard_res (\<not> fullmatch source_namespace_pattern t) (EconomicValidationError OUT_OF_RANGE)
       (Inr ())"

definition make_spec_id :: "string \<Rightarrow> spec_id result" where
  "make_spec_id t = bind_res (validate_spec_id t) (\<lambda>_. Inr (InstrumentSpecId t))"

definition make_spec_set_id :: "string \<Rightarrow> spec_set_id result" where
  "make_spec_set_id t = bind_res (validate_spec_id t) (\<lambda>_. Inr (InstrumentSpecSetId t))"

record execution_spec =
  spec_instrument :: instrument
  specification_id :: spec_id
  price_quantum :: canonical_decimal
  quantity_quantum :: canonical_decimal
  settlement_currency :: settlement_currency
  currency_quantum :: canonical_decimal
  contract_multiplier :: canonical_decimal
  price_domain :: price_domain

text \<open>\<open>InstrumentExecutionSpec.__post_init__\<close>: the value, or the first failing check.\<close>

definition make_execution_spec :: "execution_spec \<Rightarrow> execution_spec result" where
  "make_execution_spec s =
     bind_res (require_positive (price_quantum s)) (\<lambda>_.
     bind_res (require_positive (quantity_quantum s)) (\<lambda>_.
     bind_res (require_positive (currency_quantum s)) (\<lambda>_.
     bind_res (require_positive (contract_multiplier s)) (\<lambda>_. Inr s))))"

section \<open>The specification set\<close>

record spec_set =
  set_identifier :: spec_set_id
  specifications :: "execution_spec list"

abbreviation spec_key :: "execution_spec \<Rightarrow> string \<times> string" where
  "spec_key s \<equiv> instrument_key (spec_instrument s)"

definition make_spec_set :: "spec_set_id \<Rightarrow> execution_spec list \<Rightarrow> spec_set result" where
  "make_spec_set i specs =
     (let keys = map spec_key specs
      in guard_res (\<not> distinct keys) (EconomicValidationError CONFLICTING_ID)
        (guard_res (keys \<noteq> sort keys) (EconomicValidationError OUT_OF_RANGE)
          (Inr \<lparr>set_identifier = i, specifications = specs\<rparr>)))"

definition require_spec :: "spec_set \<Rightarrow> instrument \<Rightarrow> execution_spec result" where
  "require_spec ss i =
     (case find (\<lambda>s. spec_instrument s = i) (specifications ss) of
        Some s \<Rightarrow> Inr s | None \<Rightarrow> Inl (EconomicValidationError OUT_OF_RANGE))"

definition build_instrument_spec_set ::
  "spec_set_id \<Rightarrow> execution_spec list \<Rightarrow> spec_set result" where
  "build_instrument_spec_set i specs = make_spec_set i (sort_key spec_key specs)"

fun instrument_document :: "instrument \<Rightarrow> json" where
  "instrument_document (Instrument v s) =
     JObj [(''symbol'', JStr s), (''venue'', JStr (venue_code v))]"

definition specification_mapping :: "execution_spec \<Rightarrow> json" where
  "specification_mapping s = JObj
     [(''contract_multiplier'', JStr (dec_text (contract_multiplier s))),
      (''currency_quantum'', JStr (dec_text (currency_quantum s))),
      (''instrument'', instrument_document (spec_instrument s)),
      (''price_domain'', JStr (price_domain_value (price_domain s))),
      (''price_quantum'', JStr (dec_text (price_quantum s))),
      (''quantity_quantum'', JStr (dec_text (quantity_quantum s))),
      (''settlement_currency'', JStr (currency_code (settlement_currency s))),
      (''specification_id'', JStr (spec_id_text (specification_id s)))]"

definition spec_set_document :: "spec_set \<Rightarrow> json" where
  "spec_set_document ss = JObj
     [(''canonicalization'', JStr ''ea-instrument-spec-set-v1''),
      (''instrument_spec_set_id'', JStr (spec_set_id_text (set_identifier ss))),
      (''record_count'', JInt (int (length (specifications ss)))),
      (''schema_version'', JInt 1),
      (''specs'', JList (map specification_mapping (specifications ss)))]"

definition canonical_instrument_spec_set_bytes :: "spec_set \<Rightarrow> string" where
  "canonical_instrument_spec_set_bytes ss = json_bytes (spec_set_document ss)"

definition instrument_spec_set_digest :: "(string \<Rightarrow> string) \<Rightarrow> spec_set \<Rightarrow> sha256_digest" where
  "instrument_spec_set_digest sha ss =
     domain_digest sha ''ea.instrument-spec-set.v1'' (canonical_instrument_spec_set_bytes ss)"

section \<open>Settlement of an execution\<close>

definition require_price_domain ::
  "canonical_decimal \<Rightarrow> price_domain \<Rightarrow> canonical_decimal result" where
  "require_price_domain p d =
     guard_res (d = POSITIVE \<and> coefficient p \<le> 0) (EconomicValidationError PRICE_DOMAIN)
       (guard_res (d = NON_NEGATIVE \<and> coefficient p < 0) (EconomicValidationError PRICE_DOMAIN)
         (Inr p))"

definition validate_execution_inputs ::
  "spec_set \<Rightarrow> instrument \<Rightarrow> canonical_decimal \<Rightarrow> canonical_decimal \<Rightarrow> execution_spec result" where
  "validate_execution_inputs ss i price quantity =
     bind_res (require_spec ss i) (\<lambda>specification.
     bind_res (require_price_domain price (price_domain specification)) (\<lambda>_.
     bind_res (require_positive quantity) (\<lambda>_.
     bind_res (require_quantized price (price_quantum specification)) (\<lambda>_.
     bind_res (require_quantized quantity (quantity_quantum specification)) (\<lambda>_.
       Inr specification)))))"

record execution_settlement =
  es_instrument :: instrument
  es_specification_id :: spec_id
  es_spec_set_id :: spec_set_id
  es_spec_set_sha256 :: sha256_digest
  es_currency :: settlement_currency
  es_amount :: canonical_decimal
  es_rounding_residual :: canonical_decimal

definition settle_execution ::
  "(string \<Rightarrow> string) \<Rightarrow> spec_set \<Rightarrow> instrument \<Rightarrow> canonical_decimal \<Rightarrow> canonical_decimal
   \<Rightarrow> execution_settlement result" where
  "settle_execution sha ss i price quantity =
     bind_res (validate_execution_inputs ss i price quantity) (\<lambda>specification.
     bind_res (settle_product price quantity (contract_multiplier specification)
                 (currency_quantum specification)) (\<lambda>scalar.
       Inr \<lparr>es_instrument = spec_instrument specification,
            es_specification_id = specification_id specification,
            es_spec_set_id = set_identifier ss,
            es_spec_set_sha256 = instrument_spec_set_digest sha ss,
            es_currency = settlement_currency specification,
            es_amount = amount scalar,
            es_rounding_residual = rounding_residual scalar\<rparr>))"

section \<open>Laws of the specification set\<close>

lemma venue_code_inj [simp]: "venue_code a = venue_code b \<longleftrightarrow> a = b"
  by (cases a; cases b) simp

lemma instrument_key_inj [simp]: "instrument_key a = instrument_key b \<longleftrightarrow> a = b"
  by (cases a; cases b) auto

lemma currency_code_inj [simp]: "currency_code a = currency_code b \<longleftrightarrow> a = b"
  by (cases a; cases b) simp

lemma spec_id_text_inj [simp]: "spec_id_text a = spec_id_text b \<longleftrightarrow> a = b"
  by (cases a; cases b) simp

lemma spec_set_id_text_inj [simp]: "spec_set_id_text a = spec_set_id_text b \<longleftrightarrow> a = b"
  by (cases a; cases b) simp

lemma price_domain_value_inj [simp]: "price_domain_value a = price_domain_value b \<longleftrightarrow> a = b"
  by (cases a; cases b) simp_all

lemma sort_eq_iff: "xs \<noteq> sort xs \<longleftrightarrow> \<not> sorted xs" for xs :: "'a::linorder list"
  by (metis sorted_sort sorted_sort_id)

lemma make_spec_set_Inr_iff:
  "make_spec_set i specs = Inr ss \<longleftrightarrow>
   distinct (map spec_key specs) \<and> sorted (map spec_key specs)
   \<and> ss = \<lparr>set_identifier = i, specifications = specs\<rparr>"
  by (auto simp: make_spec_set_def Let_def sort_eq_iff)

text \<open>The invariant of a constructed specification set.\<close>

definition wf_spec_set :: "spec_set \<Rightarrow> bool" where
  "wf_spec_set ss \<longleftrightarrow> distinct (map spec_key (specifications ss))
     \<and> sorted (map spec_key (specifications ss))"

lemma make_spec_set_wf [inv_intros]: "make_spec_set i specs = Inr ss \<Longrightarrow> wf_spec_set ss"
  by (auto simp: make_spec_set_Inr_iff wf_spec_set_def)

lemma build_spec_set:
  "build_instrument_spec_set i specs =
     (if distinct (map spec_key specs)
      then Inr \<lparr>set_identifier = i, specifications = sort_key spec_key specs\<rparr>
      else Inl (EconomicValidationError CONFLICTING_ID))"
proof -
  have "distinct (map spec_key (sort_key spec_key specs)) \<longleftrightarrow> distinct (map spec_key specs)"
    by (simp add: distinct_map)
  moreover have "sorted (map spec_key (sort_key spec_key specs))" by simp
  ultimately show ?thesis
    by (simp add: build_instrument_spec_set_def make_spec_set_def Let_def sorted_sort_id)
qed

lemma build_spec_set_perm:
  assumes "mset specs = mset specs'"
  shows "build_instrument_spec_set i specs = build_instrument_spec_set i specs'"
proof (cases "distinct (map spec_key specs)")
  case True
  have "inj_on spec_key (set specs)" using True by (simp add: distinct_map)
  then have "sort_key spec_key specs = sort_key spec_key specs'"
    using assms by (intro sort_key_inj_key_eq) auto
  moreover have "distinct (map spec_key specs')"
    using True assms by (metis mset_map mset_eq_imp_distinct_iff)
  ultimately show ?thesis using True by (simp add: build_spec_set)
next
  case False
  then have "\<not> distinct (map spec_key specs')" using assms by (metis mset_map mset_eq_imp_distinct_iff)
  with False show ?thesis by (simp add: build_spec_set)
qed

lemma require_spec_Inr:
  "require_spec ss i = Inr s \<Longrightarrow> s \<in> set (specifications ss) \<and> spec_instrument s = i"
  by (auto simp: require_spec_def find_Some_iff split: option.splits)

lemma require_spec_iff:
  assumes "wf_spec_set ss"
  shows "require_spec ss i = Inr s \<longleftrightarrow> s \<in> set (specifications ss) \<and> spec_instrument s = i"
proof
  assume s: "s \<in> set (specifications ss) \<and> spec_instrument s = i"
  have inj: "inj_on spec_key (set (specifications ss))"
    using assms by (simp add: wf_spec_set_def distinct_map)
  show "require_spec ss i = Inr s"
  proof (cases "find (\<lambda>s. spec_instrument s = i) (specifications ss)")
    case None
    with s show ?thesis by (auto simp: find_None_iff)
  next
    case (Some t)
    then have "t \<in> set (specifications ss)" "spec_instrument t = i"
      by (auto simp: find_Some_iff)
    then have "t = s" using s inj by (auto simp: inj_on_def)
    with Some show ?thesis by (simp add: require_spec_def)
  qed
qed (rule require_spec_Inr)

lemma require_positive_Inr_iff [simp]: "require_positive d = Inr e \<longleftrightarrow> e = d \<and> 0 < dval d"
  by (auto simp: require_positive_def)

lemma require_price_domain_Inr_iff:
  "require_price_domain p d = Inr e \<longleftrightarrow> e = p \<and> (d = POSITIVE \<longrightarrow> 0 < dval p) \<and> (d = NON_NEGATIVE \<longrightarrow> 0 \<le> dval p)"
  by (auto simp: require_price_domain_def)

lemma validate_execution_inputs_Inr:
  assumes "validate_execution_inputs ss i p q = Inr s"
  shows "require_spec ss i = Inr s" "spec_instrument s = i"
    "price_domain s = POSITIVE \<longrightarrow> 0 < dval p" "price_domain s = NON_NEGATIVE \<longrightarrow> 0 \<le> dval p"
    "0 < dval q" "\<exists>k. dval p = of_int k * dval (price_quantum s)"
    "\<exists>k. dval q = of_int k * dval (quantity_quantum s)"
  using assms
  by (auto simp: validate_execution_inputs_def require_price_domain_Inr_iff require_quantized_Inr_iff
      dest: require_spec_Inr)

section \<open>Canonical documents\<close>

lemma instrument_document_norm [simp]:
  "json_norm (instrument_document a) = json_norm (instrument_document b) \<longleftrightarrow> a = b"
proof -
  obtain v s w t where ab: "a = Instrument v s" "b = Instrument w t" by (cases a; cases b)
  show ?thesis unfolding ab instrument_document.simps by (subst norm_obj) auto
qed

definition wf_spec :: "execution_spec \<Rightarrow> bool" where
  "wf_spec s \<longleftrightarrow> wf_dec (price_quantum s) \<and> wf_dec (quantity_quantum s)
     \<and> wf_dec (currency_quantum s) \<and> wf_dec (contract_multiplier s)"

lemma dec_text_inj: "wf_dec a \<Longrightarrow> wf_dec b \<Longrightarrow> dec_text a = dec_text b \<longleftrightarrow> a = b"
  unfolding wf_dec_def by (metis sum.inject(2))

lemma specification_mapping_norm:
  assumes "wf_spec s" "wf_spec t"
    "json_norm (specification_mapping s) = json_norm (specification_mapping t)"
  shows "s = t"
proof -
  from norm_obj_eq [OF assms(3) [unfolded specification_mapping_def]] assms(1,2)
  show ?thesis by (simp add: dec_text_inj wf_spec_def)
qed

lemma map_norm_inj:
  "map (json_norm \<circ> f) xs = map (json_norm \<circ> f) ys \<Longrightarrow>
   (\<And>x y. x \<in> set xs \<Longrightarrow> y \<in> set ys \<Longrightarrow> json_norm (f x) = json_norm (f y) \<Longrightarrow> x = y) \<Longrightarrow> xs = ys"
proof (induction xs arbitrary: ys)
  case (Cons x xs)
  then obtain y zs where ys: "ys = y # zs" by (cases ys) auto
  with Cons.prems have "x = y" by simp
  moreover have "xs = zs" using Cons.prems ys by (intro Cons.IH) auto
  ultimately show ?case using ys by simp
qed simp

lemma spec_set_bytes_inj:
  assumes "canonical_instrument_spec_set_bytes a = canonical_instrument_spec_set_bytes b"
    "\<forall>s \<in> set (specifications a). wf_spec s" "\<forall>s \<in> set (specifications b). wf_spec s"
  shows "a = b"
proof -
  have n: "json_norm (spec_set_document a) = json_norm (spec_set_document b)"
    using assms(1) by (simp add: canonical_instrument_spec_set_bytes_def json_bytes_norm)
  from norm_obj_eq [OF n [unfolded spec_set_document_def]]
  have "set_identifier a = set_identifier b"
    and m: "map (json_norm \<circ> specification_mapping) (specifications a)
      = map (json_norm \<circ> specification_mapping) (specifications b)" by simp_all
  moreover have "specifications a = specifications b"
    using m assms(2,3) by (intro map_norm_inj [OF m]) (blast intro: specification_mapping_norm)
  ultimately show ?thesis by simp
qed

section \<open>Properties\<close>

text \<open>Building a specification set depends only on the multiset of specifications: it
  fails exactly on a duplicate instrument; otherwise the result is the strictly ordered
  arrangement of the same specifications, which passes the constructor's own check, and
  looking up an instrument returns the one specification given for it.\<close>

theorem spec_set_canonical:
  assumes "mset specs = mset specs'"
  shows "build_instrument_spec_set i specs = build_instrument_spec_set i specs'
    \<and> (\<not> distinct (map spec_key specs) \<longleftrightarrow>
         build_instrument_spec_set i specs = Inl (EconomicValidationError CONFLICTING_ID))
    \<and> (\<forall>ss. build_instrument_spec_set i specs = Inr ss \<longrightarrow>
         mset (specifications ss) = mset specs \<and> sorted (map spec_key (specifications ss))
         \<and> make_spec_set i (specifications ss) = Inr ss
         \<and> (\<forall>s \<in> set specs. require_spec ss (spec_instrument s) = Inr s))"
proof (intro conjI allI impI)
  show "build_instrument_spec_set i specs = build_instrument_spec_set i specs'"
    by (rule build_spec_set_perm [OF assms])
  show "\<not> distinct (map spec_key specs) \<longleftrightarrow>
         build_instrument_spec_set i specs = Inl (EconomicValidationError CONFLICTING_ID)"
    by (simp add: build_spec_set)
  fix ss assume b: "build_instrument_spec_set i specs = Inr ss"
  then have ss: "distinct (map spec_key specs)"
      "ss = \<lparr>set_identifier = i, specifications = sort_key spec_key specs\<rparr>"
    by (auto simp: build_spec_set split: if_splits)
  then show "mset (specifications ss) = mset specs" "sorted (map spec_key (specifications ss))"
    by simp_all
  show m: "make_spec_set i (specifications ss) = Inr ss"
    using b by (simp add: build_instrument_spec_set_def ss(2))
  show "\<forall>s \<in> set specs. require_spec ss (spec_instrument s) = Inr s"
    using require_spec_iff [OF make_spec_set_wf [OF m]] by (simp add: ss(2))
qed

definition spec_example :: "string \<Rightarrow> execution_spec" where
  "spec_example s = \<lparr>spec_instrument = Instrument (VenueId ''X'') s,
     specification_id = InstrumentSpecId ''a'', price_quantum = dec_001, quantity_quantum = dec_1,
     settlement_currency = SettlementCurrency ''USD'', currency_quantum = dec_001,
     contract_multiplier = dec_1, price_domain = POSITIVE\<rparr>"

theorem spec_set_canonical_witness:
  "build_instrument_spec_set (InstrumentSpecSetId ''s'') [spec_example ''B'', spec_example ''A'']
   = build_instrument_spec_set (InstrumentSpecSetId ''s'') [spec_example ''A'', spec_example ''B'']"
  using spec_set_canonical [of "[spec_example ''B'', spec_example ''A'']"
      "[spec_example ''A'', spec_example ''B'']" "InstrumentSpecSetId ''s''"] by simp

text \<open>C4: a settled execution is lineage-bound and exact: the price and the quantity are on
  their grids and in their domain, the settlement names the instrument, specification, set and
  set digest, and amount plus residual is exactly price times quantity times multiplier with
  the amount on the currency grid.\<close>

theorem settle_execution_exact:
  assumes "settle_execution sha ss i p q = Inr e"
  shows "\<exists>s \<in> set (specifications ss). spec_instrument s = i
    \<and> es_instrument e = i \<and> es_specification_id e = specification_id s
    \<and> es_spec_set_id e = set_identifier ss
    \<and> es_spec_set_sha256 e = instrument_spec_set_digest sha ss
    \<and> es_currency e = settlement_currency s
    \<and> 0 < dval q \<and> (\<exists>k. dval q = of_int k * dval (quantity_quantum s))
    \<and> (\<exists>k. dval p = of_int k * dval (price_quantum s))
    \<and> (price_domain s = POSITIVE \<longrightarrow> 0 < dval p)
    \<and> (price_domain s = NON_NEGATIVE \<longrightarrow> 0 \<le> dval p)
    \<and> dval (es_amount e) + dval (es_rounding_residual e)
        = dval p * dval q * dval (contract_multiplier s)
    \<and> 2 * \<bar>dval (es_rounding_residual e)\<bar> \<le> dval (currency_quantum s)
    \<and> (\<exists>k. dval (es_amount e) = of_int k * dval (currency_quantum s))"
proof -
  from assms obtain s r where v: "validate_execution_inputs ss i p q = Inr s"
    and r: "settle_product p q (contract_multiplier s) (currency_quantum s) = Inr r"
    and e: "e = \<lparr>es_instrument = spec_instrument s, es_specification_id = specification_id s,
      es_spec_set_id = set_identifier ss, es_spec_set_sha256 = instrument_spec_set_digest sha ss,
      es_currency = settlement_currency s, es_amount = amount r,
      es_rounding_residual = rounding_residual r\<rparr>"
    by (auto simp: settle_execution_def)
  note v' = validate_execution_inputs_Inr [OF v]
  from require_spec_Inr [OF v'(1)] settle_product_spec [OF r] v' show ?thesis
    unfolding e by (intro bexI [of _ s]) auto
qed

definition set_example :: spec_set where
  "set_example = \<lparr>set_identifier = InstrumentSpecSetId ''s'', specifications = [spec_example ''A'']\<rparr>"

theorem settle_execution_exact_witness:
  "\<forall>sha. \<exists>e. settle_execution sha set_example (Instrument (VenueId ''X'') ''A'') dec_001 dec_3 = Inr e
     \<and> dval (es_amount e) + dval (es_rounding_residual e) = 3 / 100"
proof (rule allI)
  fix sha
  let ?i = "Instrument (VenueId ''X'') ''A''"
  have "validate_execution_inputs set_example ?i dec_001 dec_3 = Inr (spec_example ''A'')"
    by code_simp
  moreover have "contract_multiplier (spec_example ''A'') = dec_1"
      "currency_quantum (spec_example ''A'') = dec_001" by (simp_all add: spec_example_def)
  moreover have "settle_product dec_001 dec_3 dec_1 dec_001 = Inr
      \<lparr>amount = \<lparr>dec_text = ''0.03'', coefficient = 3, scale = 2\<rparr>,
       rounding_residual = \<lparr>dec_text = ''0'', coefficient = 0, scale = 0\<rparr>\<rparr>"
    by code_simp
  ultimately obtain e where e: "settle_execution sha set_example ?i dec_001 dec_3 = Inr e"
    by (simp add: settle_execution_def)
  from settle_execution_exact [OF e] e show "\<exists>e. settle_execution sha set_example ?i dec_001 dec_3 = Inr e
      \<and> dval (es_amount e) + dval (es_rounding_residual e) = 3 / 100"
    by (auto simp: set_example_def spec_example_def dval_def dec_001_def dec_3_def dec_1_def)
qed

text \<open>The canonical bytes of a specification set of constructed decimals determine the
  set: equal bytes mean the same identifier and the same specifications, field by field.\<close>

theorem spec_set_bytes_identify:
  assumes "\<forall>s \<in> set (specifications a). wf_spec s" "\<forall>s \<in> set (specifications b). wf_spec s"
  shows "canonical_instrument_spec_set_bytes a = canonical_instrument_spec_set_bytes b \<longleftrightarrow> a = b"
  using spec_set_bytes_inj [OF _ assms] by blast

theorem spec_set_bytes_identify_witness:
  "canonical_instrument_spec_set_bytes set_example
   \<noteq> canonical_instrument_spec_set_bytes (set_example\<lparr>specifications := [spec_example ''B'']\<rparr>)"
proof -
  have "wf_dec dec_001" "wf_dec dec_1" by code_simp+
  then have w: "wf_spec (spec_example x)" for x by (simp add: wf_spec_def spec_example_def)
  show ?thesis
    by (subst spec_set_bytes_identify) (simp_all add: w [unfolded spec_example_def] set_example_def spec_example_def)
qed

end
