(* ===== verification/Order_Messages.thy ===== *)
theory Order_Messages
  imports Execution_Spec Commission Outcomes
begin

text \<open>
  The first half of \<open>ea.core.execution_messages\<close>: order intents, risk
  decisions with their execution approvals, and orders, with the canonical
  document and digest of each. What the module takes from the standard library
  is the record \<open>stdlib\<close>: the SHA-256 hexdigest of a byte string and the text
  of a UTC instant (an integer count of microseconds).
\<close>

record stdlib =
  hexdigest :: "string \<Rightarrow> string"
  utc_text :: "int \<Rightarrow> string"

section \<open>Vocabularies and references\<close>

datatype order_side = BUY | SELL
datatype order_kind = MARKET
datatype time_in_force = GOOD_FOR_NEXT_ELIGIBLE_MARKET_EVENT
datatype risk_decision_kind = ALLOW | RESIZE | REJECT | EVALUATION_FAILED

fun side_value :: "order_side \<Rightarrow> string" where
  "side_value BUY = ''buy''"
| "side_value SELL = ''sell''"

fun order_kind_value :: "order_kind \<Rightarrow> string" where
  "order_kind_value MARKET = ''market''"

fun time_in_force_value :: "time_in_force \<Rightarrow> string" where
  "time_in_force_value GOOD_FOR_NEXT_ELIGIBLE_MARKET_EVENT = ''good_for_next_eligible_market_event''"

fun decision_kind_value :: "risk_decision_kind \<Rightarrow> string" where
  "decision_kind_value ALLOW = ''allow''"
| "decision_kind_value RESIZE = ''resize''"
| "decision_kind_value REJECT = ''reject''"
| "decision_kind_value EVALUATION_FAILED = ''evaluation_failed''"

abbreviation conflicting_message :: exn where
  "conflicting_message \<equiv> ExecutionMessageError CONFLICTING_ID"

definition require_token :: "string \<Rightarrow> string result" where
  "require_token t =
     guard_res (\<not> fullmatch source_namespace_pattern t) (ExecutionMessageError OUT_OF_RANGE) (Inr t)"

definition require_non_negative :: "int \<Rightarrow> int result" where
  "require_non_negative v = guard_res (v < 0) (ExecutionMessageError OUT_OF_RANGE) (Inr v)"

definition require_id_owner :: "economic_id \<Rightarrow> economic_owner_kind \<Rightarrow> economic_id result" where
  "require_id_owner i owner = guard_res (owner_kind i \<noteq> owner) conflicting_message (Inr i)"

fun require_run_of :: "run_id \<Rightarrow> economic_id option list \<Rightarrow> unit result" where
  "require_run_of r [] = Inr ()"
| "require_run_of r (None # is) = require_run_of r is"
| "require_run_of r (Some i # is) =
     guard_res (run_id i \<noteq> r) conflicting_message (require_run_of r is)"

record target_lineage =
  target_id :: economic_id
  target_sha256 :: sha256_digest

definition make_target_lineage :: "economic_id \<Rightarrow> sha256_digest \<Rightarrow> target_lineage result" where
  "make_target_lineage i d =
     bind_res (require_id_owner i PORTFOLIO_TARGET) (\<lambda>_. Inr \<lparr>target_id = i, target_sha256 = d\<rparr>)"

record execution_policy =
  policy_identifier :: string
  policy_sha256 :: sha256_digest

text \<open>\<open>_require_spec_set\<close> with the lineage fields that are present.\<close>

definition require_spec_set ::
  "stdlib \<Rightarrow> spec_set \<Rightarrow> instrument \<Rightarrow> spec_id option \<Rightarrow> spec_set_id option
   \<Rightarrow> sha256_digest option \<Rightarrow> (execution_spec \<times> sha256_digest) result" where
  "require_spec_set std ss i sid set_id set_sha =
     bind_res (require_spec ss i) (\<lambda>specification.
       let digest = instrument_spec_set_digest (hexdigest std) ss
       in guard_res (sid \<noteq> None \<and> sid \<noteq> Some (specification_id specification)) conflicting_message
         (guard_res (set_id \<noteq> None \<and> set_id \<noteq> Some (set_identifier ss)) conflicting_message
         (guard_res (set_sha \<noteq> None \<and> set_sha \<noteq> Some digest) conflicting_message
           (Inr (specification, digest)))))"

definition require_quantity ::
  "canonical_decimal \<Rightarrow> execution_spec \<Rightarrow> canonical_decimal result" where
  "require_quantity q s =
     bind_res (require_positive q) (\<lambda>_. require_quantized q (quantity_quantum s))"

definition require_price :: "canonical_decimal \<Rightarrow> execution_spec \<Rightarrow> canonical_decimal result" where
  "require_price p s =
     guard_res (price_domain s = POSITIVE \<and> coefficient p \<le> 0) (EconomicValidationError PRICE_DOMAIN)
       (guard_res (price_domain s = NON_NEGATIVE \<and> coefficient p < 0)
          (EconomicValidationError PRICE_DOMAIN)
         (require_quantized p (price_quantum s)))"

section \<open>Shared documents\<close>

definition economic_id_document :: "economic_id \<Rightarrow> json" where
  "economic_id_document i = JObj
     [(''owner_kind'', JStr (owner_kind_value (owner_kind i))),
      (''owner_sequence'', JInt (owner_sequence i)),
      (''run_id'', JStr (run_text (run_id i)))]"

definition optional_document :: "('a \<Rightarrow> json) \<Rightarrow> 'a option \<Rightarrow> json" where
  "optional_document f v = (case v of None \<Rightarrow> JNull | Some x \<Rightarrow> f x)"

abbreviation digest_json :: "sha256_digest \<Rightarrow> json" where
  "digest_json d \<equiv> JStr (digest_text d)"

definition target_document :: "target_lineage \<Rightarrow> json" where
  "target_document l = JObj
     [(''target_id'', economic_id_document (target_id l)),
      (''target_sha256'', digest_json (target_sha256 l))]"

definition policy_document :: "execution_policy \<Rightarrow> json" where
  "policy_document p = JObj
     [(''execution_policy_id'', JStr (policy_identifier p)),
      (''execution_policy_sha256'', digest_json (policy_sha256 p))]"

section \<open>Order intents\<close>

record order_intent =
  in_run :: run_id
  in_intent_id :: economic_id
  in_correlation :: economic_id
  in_causation :: economic_id
  in_target :: target_lineage
  in_instrument :: instrument
  in_side :: order_side
  in_quantity :: canonical_decimal
  in_kind :: order_kind
  in_tif :: time_in_force
  in_snapshot_version :: int
  in_available_at :: int
  in_dispatch :: int
  in_spec_id :: spec_id
  in_set_id :: spec_set_id
  in_set_sha256 :: sha256_digest
  in_policy :: execution_policy

definition create_order_intent ::
  "stdlib \<Rightarrow> run_id \<Rightarrow> economic_id \<Rightarrow> economic_id \<Rightarrow> target_lineage \<Rightarrow> instrument \<Rightarrow> order_side
   \<Rightarrow> canonical_decimal \<Rightarrow> int \<Rightarrow> int \<Rightarrow> int \<Rightarrow> spec_set \<Rightarrow> execution_policy \<Rightarrow> order_intent result"
where
  "create_order_intent std run intent_id correlation_id lineage i side quantity snapshot_version
     causal_root_available_at dispatch_sequence ss policy =
     bind_res (require_id_owner intent_id PORTFOLIO_INTENT) (\<lambda>_.
     bind_res (require_id_owner correlation_id STRATEGY_SIGNAL) (\<lambda>_.
     bind_res (require_run_of run [Some intent_id, Some correlation_id, Some (target_id lineage)]) (\<lambda>_.
     bind_res (require_spec_set std ss i None None None) (\<lambda>(specification, set_digest).
     bind_res (require_quantity quantity specification) (\<lambda>_.
     bind_res (require_non_negative snapshot_version) (\<lambda>_.
     bind_res (require_non_negative dispatch_sequence) (\<lambda>_.
       Inr \<lparr>in_run = run, in_intent_id = intent_id, in_correlation = correlation_id,
            in_causation = target_id lineage, in_target = lineage, in_instrument = i,
            in_side = side, in_quantity = quantity, in_kind = MARKET,
            in_tif = GOOD_FOR_NEXT_ELIGIBLE_MARKET_EVENT,
            in_snapshot_version = snapshot_version, in_available_at = causal_root_available_at,
            in_dispatch = dispatch_sequence, in_spec_id = specification_id specification,
            in_set_id = set_identifier ss, in_set_sha256 = set_digest, in_policy = policy\<rparr>)))))))"

definition order_intent_document :: "stdlib \<Rightarrow> order_intent \<Rightarrow> json" where
  "order_intent_document std n = JObj
     [(''canonicalization'', JStr ''ea-order-intent-v1''),
      (''causal_root_available_at'', JStr (utc_text std (in_available_at n))),
      (''causation_id'', economic_id_document (in_causation n)),
      (''correlation_id'', economic_id_document (in_correlation n)),
      (''dispatch_sequence'', JInt (in_dispatch n)),
      (''execution_policy'', policy_document (in_policy n)),
      (''instrument'', instrument_document (in_instrument n)),
      (''instrument_spec_set_id'', JStr (spec_set_id_text (in_set_id n))),
      (''instrument_spec_set_sha256'', digest_json (in_set_sha256 n)),
      (''instrument_specification_id'', JStr (spec_id_text (in_spec_id n))),
      (''intent_id'', economic_id_document (in_intent_id n)),
      (''message_type'', JStr ''order_intent''),
      (''order_kind'', JStr (order_kind_value (in_kind n))),
      (''portfolio_snapshot_version'', JInt (in_snapshot_version n)),
      (''price_constraint'', JNull),
      (''quantity'', JStr (dec_text (in_quantity n))),
      (''run_id'', JStr (run_text (in_run n))),
      (''schema_version'', JInt 1),
      (''side'', JStr (side_value (in_side n))),
      (''target_lineage'', target_document (in_target n)),
      (''time_in_force'', JStr (time_in_force_value (in_tif n)))]"

definition canonical_order_intent_bytes :: "stdlib \<Rightarrow> order_intent \<Rightarrow> string" where
  "canonical_order_intent_bytes std n = json_bytes (order_intent_document std n)"

definition order_intent_digest :: "stdlib \<Rightarrow> order_intent \<Rightarrow> sha256_digest" where
  "order_intent_digest std n =
     domain_digest (hexdigest std) ''ea.order-intent.v1'' (canonical_order_intent_bytes std n)"

definition effective_intent_document :: "stdlib \<Rightarrow> order_intent \<Rightarrow> canonical_decimal \<Rightarrow> json" where
  "effective_intent_document std n q = JObj
     [(''approved_quantity'', JStr (dec_text q)),
      (''canonicalization'', JStr ''ea-effective-order-intent-v1''),
      (''intent_id'', economic_id_document (in_intent_id n)),
      (''original_intent_sha256'', digest_json (order_intent_digest std n)),
      (''projection_type'', JStr ''effective_order_intent''),
      (''run_id'', JStr (run_text (in_run n))),
      (''schema_version'', JInt 1)]"

definition effective_order_intent_digest ::
  "stdlib \<Rightarrow> order_intent \<Rightarrow> canonical_decimal \<Rightarrow> sha256_digest" where
  "effective_order_intent_digest std n q =
     domain_digest (hexdigest std) ''ea.effective-order-intent.v1''
       (json_bytes (effective_intent_document std n q))"

section \<open>Risk decisions and approvals\<close>

record execution_approval =
  ap_run :: run_id
  ap_id :: economic_id
  ap_decision :: economic_id
  ap_intent :: economic_id
  ap_correlation :: economic_id
  ap_causation :: economic_id
  ap_original_sha256 :: sha256_digest
  ap_effective_sha256 :: sha256_digest
  ap_quantity :: canonical_decimal
  ap_snapshot_version :: int
  ap_risk_version :: int
  ap_available_at :: int
  ap_dispatch :: int

record risk_decision =
  rd_run :: run_id
  rd_id :: economic_id
  rd_intent :: economic_id
  rd_correlation :: economic_id
  rd_causation :: economic_id
  rd_intent_sha256 :: sha256_digest
  rd_kind :: risk_decision_kind
  rd_outcome :: outcome_code
  rd_snapshot_version :: int
  rd_risk_version :: int
  rd_available_at :: int
  rd_dispatch :: int
  rd_quantity :: "canonical_decimal option"
  rd_effective_sha256 :: "sha256_digest option"
  rd_approval :: "execution_approval option"

definition make_approval ::
  "stdlib \<Rightarrow> economic_id \<Rightarrow> economic_id \<Rightarrow> order_intent \<Rightarrow> canonical_decimal \<Rightarrow> sha256_digest
   \<Rightarrow> int \<Rightarrow> execution_approval result" where
  "make_approval std approval_id decision_id n q effective risk_version =
     bind_res (require_id_owner approval_id RISK_APPROVAL) (\<lambda>_.
     bind_res (require_run_of (in_run n) [Some approval_id, Some decision_id]) (\<lambda>_.
       Inr \<lparr>ap_run = in_run n, ap_id = approval_id, ap_decision = decision_id,
            ap_intent = in_intent_id n, ap_correlation = in_correlation n,
            ap_causation = decision_id, ap_original_sha256 = order_intent_digest std n,
            ap_effective_sha256 = effective, ap_quantity = q,
            ap_snapshot_version = in_snapshot_version n, ap_risk_version = risk_version,
            ap_available_at = in_available_at n, ap_dispatch = in_dispatch n\<rparr>))"

fun outcome_of_kind :: "risk_decision_kind \<Rightarrow> outcome_code" where
  "outcome_of_kind ALLOW = RISK_ALLOWED"
| "outcome_of_kind RESIZE = RISK_RESIZED"
| "outcome_of_kind REJECT = RISK_REJECTED"
| "outcome_of_kind EVALUATION_FAILED = RISK_EVALUATION_FAILED"

text \<open>
  The approval fields of \<open>_create_risk_decision\<close>: present exactly for the
  executable kinds, with the quantity checks of each kind.
\<close>

definition approval_fields ::
  "stdlib \<Rightarrow> risk_decision_kind \<Rightarrow> economic_id \<Rightarrow> order_intent \<Rightarrow> execution_spec \<Rightarrow> int
   \<Rightarrow> economic_id option \<Rightarrow> canonical_decimal option
   \<Rightarrow> (sha256_digest option \<times> execution_approval option) result" where
  "approval_fields std kind decision_id n specification risk_version approval_id approved =
     (if kind = ALLOW \<or> kind = RESIZE
      then case (approval_id, approved) of
        (Some a, Some q) \<Rightarrow>
          bind_res (require_quantity q specification) (\<lambda>_.
          bind_res (dec_greater q (in_quantity n)) (\<lambda>over.
          guard_res over (ExecutionMessageError OUT_OF_RANGE)
         (guard_res (kind = ALLOW \<and> q \<noteq> in_quantity n) conflicting_message
         (guard_res (kind = RESIZE \<and> q = in_quantity n) (ExecutionMessageError OUT_OF_RANGE)
         (let effective = effective_order_intent_digest std n q
          in bind_res (make_approval std a decision_id n q effective risk_version) (\<lambda>ap.
               Inr (Some effective, Some ap)))))))
      | _ \<Rightarrow> Inl (ExecutionMessageError INVALID_TYPE)
      else guard_res (approval_id \<noteq> None \<or> approved \<noteq> None) (ExecutionMessageError INVALID_TYPE)
             (Inr (None, None)))"

definition create_risk_decision ::
  "stdlib \<Rightarrow> risk_decision_kind \<Rightarrow> economic_id \<Rightarrow> order_intent \<Rightarrow> spec_set \<Rightarrow> int
   \<Rightarrow> economic_id option \<Rightarrow> canonical_decimal option \<Rightarrow> risk_decision result" where
  "create_risk_decision std kind decision_id n ss risk_state_version approval_id approved =
     bind_res (require_id_owner decision_id RISK_DECISION) (\<lambda>_.
     bind_res (require_run_of (in_run n) [Some decision_id]) (\<lambda>_.
     bind_res (require_spec_set std ss (in_instrument n) (Some (in_spec_id n)) (Some (in_set_id n))
                 (Some (in_set_sha256 n))) (\<lambda>(specification, _).
     bind_res (require_non_negative risk_state_version) (\<lambda>_.
     bind_res (approval_fields std kind decision_id n specification risk_state_version approval_id
                 approved) (\<lambda>(effective, approval).
       Inr \<lparr>rd_run = in_run n, rd_id = decision_id, rd_intent = in_intent_id n,
            rd_correlation = in_correlation n, rd_causation = in_intent_id n,
            rd_intent_sha256 = order_intent_digest std n, rd_kind = kind,
            rd_outcome = outcome_of_kind kind, rd_snapshot_version = in_snapshot_version n,
            rd_risk_version = risk_state_version, rd_available_at = in_available_at n,
            rd_dispatch = in_dispatch n, rd_quantity = approved,
            rd_effective_sha256 = effective, rd_approval = approval\<rparr>)))))"

definition allow_order_intent ::
  "stdlib \<Rightarrow> economic_id \<Rightarrow> economic_id \<Rightarrow> order_intent \<Rightarrow> spec_set \<Rightarrow> int \<Rightarrow> risk_decision result"
where
  "allow_order_intent std decision_id approval_id n ss v =
     create_risk_decision std ALLOW decision_id n ss v (Some approval_id) (Some (in_quantity n))"

definition resize_order_intent ::
  "stdlib \<Rightarrow> economic_id \<Rightarrow> economic_id \<Rightarrow> order_intent \<Rightarrow> canonical_decimal \<Rightarrow> spec_set \<Rightarrow> int
   \<Rightarrow> risk_decision result" where
  "resize_order_intent std decision_id approval_id n q ss v =
     create_risk_decision std RESIZE decision_id n ss v (Some approval_id) (Some q)"

definition reject_order_intent ::
  "stdlib \<Rightarrow> economic_id \<Rightarrow> order_intent \<Rightarrow> spec_set \<Rightarrow> int \<Rightarrow> risk_decision result" where
  "reject_order_intent std decision_id n ss v =
     create_risk_decision std REJECT decision_id n ss v None None"

definition fail_order_intent_evaluation ::
  "stdlib \<Rightarrow> economic_id \<Rightarrow> order_intent \<Rightarrow> spec_set \<Rightarrow> int \<Rightarrow> risk_decision result" where
  "fail_order_intent_evaluation std decision_id n ss v =
     create_risk_decision std EVALUATION_FAILED decision_id n ss v None None"

definition approval_document :: "stdlib \<Rightarrow> execution_approval \<Rightarrow> json" where
  "approval_document std a = JObj
     [(''approval_id'', economic_id_document (ap_id a)),
      (''approved_quantity'', JStr (dec_text (ap_quantity a))),
      (''canonicalization'', JStr ''ea-execution-approval-v1''),
      (''causal_root_available_at'', JStr (utc_text std (ap_available_at a))),
      (''causation_id'', economic_id_document (ap_causation a)),
      (''correlation_id'', economic_id_document (ap_correlation a)),
      (''decision_id'', economic_id_document (ap_decision a)),
      (''dispatch_sequence'', JInt (ap_dispatch a)),
      (''effective_intent_sha256'', digest_json (ap_effective_sha256 a)),
      (''intent_id'', economic_id_document (ap_intent a)),
      (''message_type'', JStr ''execution_approval''),
      (''original_intent_sha256'', digest_json (ap_original_sha256 a)),
      (''portfolio_snapshot_version'', JInt (ap_snapshot_version a)),
      (''risk_state_version'', JInt (ap_risk_version a)),
      (''run_id'', JStr (run_text (ap_run a))),
      (''schema_version'', JInt 1)]"

definition execution_approval_digest :: "stdlib \<Rightarrow> execution_approval \<Rightarrow> sha256_digest" where
  "execution_approval_digest std a =
     domain_digest (hexdigest std) ''ea.execution-approval.v1'' (json_bytes (approval_document std a))"

definition risk_decision_document :: "stdlib \<Rightarrow> risk_decision \<Rightarrow> json" where
  "risk_decision_document std d = JObj
     [(''approval'', optional_document (approval_document std) (rd_approval d)),
      (''approved_quantity'', optional_document (\<lambda>q. JStr (dec_text q)) (rd_quantity d)),
      (''canonicalization'', JStr ''ea-risk-decision-v1''),
      (''causal_root_available_at'', JStr (utc_text std (rd_available_at d))),
      (''causation_id'', economic_id_document (rd_causation d)),
      (''correlation_id'', economic_id_document (rd_correlation d)),
      (''decision_id'', economic_id_document (rd_id d)),
      (''dispatch_sequence'', JInt (rd_dispatch d)),
      (''effective_intent_sha256'', optional_document digest_json (rd_effective_sha256 d)),
      (''intent_id'', economic_id_document (rd_intent d)),
      (''intent_sha256'', digest_json (rd_intent_sha256 d)),
      (''kind'', JStr (decision_kind_value (rd_kind d))),
      (''message_type'', JStr ''risk_decision''),
      (''outcome_code'', JStr (outcome_code_value (rd_outcome d))),
      (''portfolio_snapshot_version'', JInt (rd_snapshot_version d)),
      (''risk_state_version'', JInt (rd_risk_version d)),
      (''run_id'', JStr (run_text (rd_run d))),
      (''schema_version'', JInt 1)]"

definition risk_decision_digest :: "stdlib \<Rightarrow> risk_decision \<Rightarrow> sha256_digest" where
  "risk_decision_digest std d =
     domain_digest (hexdigest std) ''ea.risk-decision.v1'' (json_bytes (risk_decision_document std d))"

section \<open>Orders\<close>

record order =
  or_run :: run_id
  or_id :: economic_id
  or_intent :: economic_id
  or_correlation :: economic_id
  or_causation :: economic_id
  or_decision :: economic_id
  or_approval :: economic_id
  or_original_sha256 :: sha256_digest
  or_effective_sha256 :: sha256_digest
  or_decision_sha256 :: sha256_digest
  or_approval_sha256 :: sha256_digest
  or_snapshot_version :: int
  or_risk_version :: int
  or_dispatch :: int
  or_instrument :: instrument
  or_side :: order_side
  or_quantity :: canonical_decimal
  or_kind :: order_kind
  or_tif :: time_in_force
  or_spec_id :: spec_id
  or_set_id :: spec_set_id
  or_set_sha256 :: sha256_digest
  or_policy :: execution_policy
  or_eligible_after :: int

text \<open>The two binding checks of \<open>create_order\<close>.\<close>

definition decision_binds_intent :: "stdlib \<Rightarrow> risk_decision \<Rightarrow> order_intent \<Rightarrow> bool" where
  "decision_binds_intent std d n \<longleftrightarrow>
     \<not> (rd_intent d \<noteq> in_intent_id n \<or> rd_intent_sha256 d \<noteq> order_intent_digest std n
        \<or> rd_correlation d \<noteq> in_correlation n \<or> rd_causation d \<noteq> in_intent_id n
        \<or> rd_snapshot_version d \<noteq> in_snapshot_version n
        \<or> rd_available_at d \<noteq> in_available_at n \<or> rd_dispatch d \<noteq> in_dispatch n)"

definition approval_binds_decision ::
  "stdlib \<Rightarrow> execution_approval \<Rightarrow> risk_decision \<Rightarrow> order_intent \<Rightarrow> bool" where
  "approval_binds_decision std a d n \<longleftrightarrow>
     \<not> (ap_decision a \<noteq> rd_id d \<or> ap_intent a \<noteq> in_intent_id n
        \<or> ap_correlation a \<noteq> in_correlation n \<or> ap_causation a \<noteq> rd_id d
        \<or> ap_original_sha256 a \<noteq> order_intent_digest std n
        \<or> Some (ap_effective_sha256 a) \<noteq> rd_effective_sha256 d
        \<or> Some (ap_quantity a) \<noteq> rd_quantity d
        \<or> ap_snapshot_version a \<noteq> in_snapshot_version n
        \<or> ap_risk_version a \<noteq> rd_risk_version d
        \<or> ap_available_at a \<noteq> in_available_at n \<or> ap_dispatch a \<noteq> in_dispatch n)"

definition create_order ::
  "stdlib \<Rightarrow> economic_id \<Rightarrow> order_intent \<Rightarrow> risk_decision \<Rightarrow> spec_set \<Rightarrow> order result" where
  "create_order std order_id n d ss =
     bind_res (require_id_owner order_id EXECUTION_ORDER) (\<lambda>_.
     bind_res (require_run_of (in_run n) [Some order_id, Some (rd_id d)]) (\<lambda>_.
     (case (rd_approval d, rd_quantity d, rd_effective_sha256 d) of
        (Some approval, Some q, Some effective) \<Rightarrow>
          guard_res (\<not> (rd_kind d = ALLOW \<or> rd_kind d = RESIZE)) conflicting_message
         (guard_res (\<not> decision_binds_intent std d n) conflicting_message
         (guard_res (\<not> approval_binds_decision std approval d n) conflicting_message
         (bind_res (require_spec_set std ss (in_instrument n) (Some (in_spec_id n))
                     (Some (in_set_id n)) (Some (in_set_sha256 n))) (\<lambda>(specification, _).
          bind_res (require_quantity q specification) (\<lambda>_.
            Inr \<lparr>or_run = in_run n, or_id = order_id, or_intent = in_intent_id n,
              or_correlation = in_correlation n, or_causation = ap_id approval,
              or_decision = rd_id d, or_approval = ap_id approval,
              or_original_sha256 = order_intent_digest std n, or_effective_sha256 = effective,
              or_decision_sha256 = risk_decision_digest std d,
              or_approval_sha256 = execution_approval_digest std approval,
              or_snapshot_version = in_snapshot_version n, or_risk_version = rd_risk_version d,
              or_dispatch = in_dispatch n, or_instrument = in_instrument n, or_side = in_side n,
              or_quantity = q, or_kind = in_kind n, or_tif = in_tif n, or_spec_id = in_spec_id n,
              or_set_id = in_set_id n, or_set_sha256 = in_set_sha256 n, or_policy = in_policy n,
              or_eligible_after = in_available_at n\<rparr>)))))
      | _ \<Rightarrow> Inl conflicting_message)))"

definition order_document :: "stdlib \<Rightarrow> order \<Rightarrow> json" where
  "order_document std r = JObj
     [(''approval_id'', economic_id_document (or_approval r)),
      (''approval_sha256'', digest_json (or_approval_sha256 r)),
      (''canonicalization'', JStr ''ea-order-v1''),
      (''causation_id'', economic_id_document (or_causation r)),
      (''correlation_id'', economic_id_document (or_correlation r)),
      (''decision_id'', economic_id_document (or_decision r)),
      (''dispatch_sequence'', JInt (or_dispatch r)),
      (''effective_intent_sha256'', digest_json (or_effective_sha256 r)),
      (''eligible_after_available_at'', JStr (utc_text std (or_eligible_after r))),
      (''execution_policy'', policy_document (or_policy r)),
      (''instrument'', instrument_document (or_instrument r)),
      (''instrument_spec_set_id'', JStr (spec_set_id_text (or_set_id r))),
      (''instrument_spec_set_sha256'', digest_json (or_set_sha256 r)),
      (''instrument_specification_id'', JStr (spec_id_text (or_spec_id r))),
      (''intent_id'', economic_id_document (or_intent r)),
      (''message_type'', JStr ''order''),
      (''order_id'', economic_id_document (or_id r)),
      (''order_kind'', JStr (order_kind_value (or_kind r))),
      (''original_intent_sha256'', digest_json (or_original_sha256 r)),
      (''portfolio_snapshot_version'', JInt (or_snapshot_version r)),
      (''price_constraint'', JNull),
      (''quantity'', JStr (dec_text (or_quantity r))),
      (''risk_decision_sha256'', digest_json (or_decision_sha256 r)),
      (''risk_state_version'', JInt (or_risk_version r)),
      (''run_id'', JStr (run_text (or_run r))),
      (''schema_version'', JInt 1),
      (''side'', JStr (side_value (or_side r))),
      (''time_in_force'', JStr (time_in_force_value (or_tif r)))]"

definition canonical_order_bytes :: "stdlib \<Rightarrow> order \<Rightarrow> string" where
  "canonical_order_bytes std r = json_bytes (order_document std r)"

definition order_digest :: "stdlib \<Rightarrow> order \<Rightarrow> sha256_digest" where
  "order_digest std r = domain_digest (hexdigest std) ''ea.order.v1'' (canonical_order_bytes std r)"

definition order_client_submission_key :: "stdlib \<Rightarrow> order \<Rightarrow> sha256_digest" where
  "order_client_submission_key std r =
     domain_digest (hexdigest std) ''ea.client-submission-key.v1'' (canonical_order_bytes std r)"

definition execution_request_document :: "stdlib \<Rightarrow> order \<Rightarrow> json" where
  "execution_request_document std r = JObj
     [(''canonicalization'', JStr ''ea-execution-request-v1''),
      (''client_submission_key'', digest_json (order_client_submission_key std r)),
      (''eligible_after_available_at'', JStr (utc_text std (or_eligible_after r))),
      (''execution_policy'', policy_document (or_policy r)),
      (''instrument'', instrument_document (or_instrument r)),
      (''instrument_spec_set_id'', JStr (spec_set_id_text (or_set_id r))),
      (''instrument_spec_set_sha256'', digest_json (or_set_sha256 r)),
      (''instrument_specification_id'', JStr (spec_id_text (or_spec_id r))),
      (''order_id'', economic_id_document (or_id r)),
      (''order_kind'', JStr (order_kind_value (or_kind r))),
      (''order_sha256'', digest_json (order_digest std r)),
      (''price_constraint'', JNull),
      (''projection_type'', JStr ''execution_request''),
      (''quantity'', JStr (dec_text (or_quantity r))),
      (''run_id'', JStr (run_text (or_run r))),
      (''schema_version'', JInt 1),
      (''side'', JStr (side_value (or_side r))),
      (''time_in_force'', JStr (time_in_force_value (or_tif r)))]"

definition execution_request_digest :: "stdlib \<Rightarrow> order \<Rightarrow> sha256_digest" where
  "execution_request_digest std r =
     domain_digest (hexdigest std) ''ea.execution-request.v1''
       (json_bytes (execution_request_document std r))"

section \<open>Reading equal documents\<close>

text \<open>Documents of identities, references and optional values are injective up to member order.\<close>

lemma economic_id_document_norm [simp]:
  "json_norm (economic_id_document a) = json_norm (economic_id_document b) \<longleftrightarrow> a = b"
  unfolding economic_id_document_def by (subst norm_obj) auto

lemma target_document_norm [simp]:
  "json_norm (target_document a) = json_norm (target_document b) \<longleftrightarrow> a = b"
  unfolding target_document_def by (subst norm_obj) auto

lemma policy_document_norm [simp]:
  "json_norm (policy_document a) = json_norm (policy_document b) \<longleftrightarrow> a = b"
  unfolding policy_document_def by (subst norm_obj) auto

lemma optional_document_norm:
  assumes "\<And>x. json_norm (f x) \<noteq> JNull"
    "\<And>x y. a = Some x \<Longrightarrow> b = Some y \<Longrightarrow> json_norm (f x) = json_norm (f y) \<longleftrightarrow> x = y"
  shows "json_norm (optional_document f a) = json_norm (optional_document f b) \<longleftrightarrow> a = b"
  using assms(1) [symmetric] assms
  by (cases a; cases b) (auto simp: optional_document_def)

lemma optional_id_norm [simp]:
  "json_norm (optional_document economic_id_document a) = json_norm (optional_document economic_id_document b)
   \<longleftrightarrow> a = b"
  by (rule optional_document_norm) (simp add: economic_id_document_def, simp)

lemma optional_str_norm:
  assumes "\<And>x y. g x = g y \<longleftrightarrow> x = y"
  shows "json_norm (optional_document (\<lambda>x. JStr (g x)) a) = json_norm (optional_document (\<lambda>x. JStr (g x)) b)
    \<longleftrightarrow> a = b"
  by (rule optional_document_norm) (simp_all add: assms)

lemma side_value_inj [simp]: "side_value s = side_value t \<longleftrightarrow> s = t"
  by (cases s; cases t) simp_all

lemma decision_kind_value_inj [simp]: "decision_kind_value c = decision_kind_value d \<longleftrightarrow> c = d"
  by (cases c; cases d) simp_all

lemma single_kind [simp]: "(k :: order_kind) = l"
  by (cases k; cases l) simp

lemma single_tif [simp]: "(u :: time_in_force) = v"
  by (cases u; cases v) simp

lemma order_bytes_inj:
  assumes "canonical_order_bytes std a = canonical_order_bytes std b"
    "inj (utc_text std)" "wf_dec (or_quantity a)" "wf_dec (or_quantity b)"
  shows "a = b"
proof -
  have n: "json_norm (order_document std a) = json_norm (order_document std b)"
    using assms(1) by (simp add: canonical_order_bytes_def json_bytes_norm)
  from norm_obj_eq [OF n [unfolded order_document_def]] assms(2-4)
  show ?thesis by (simp add: dec_text_inj inj_eq)
qed

lemma order_intent_bytes_inj:
  assumes "canonical_order_intent_bytes std a = canonical_order_intent_bytes std b"
    "inj (utc_text std)" "wf_dec (in_quantity a)" "wf_dec (in_quantity b)"
  shows "a = b"
proof -
  have n: "json_norm (order_intent_document std a) = json_norm (order_intent_document std b)"
    using assms(1) by (simp add: canonical_order_intent_bytes_def json_bytes_norm)
  from norm_obj_eq [OF n [unfolded order_intent_document_def]] assms(2-4)
  show ?thesis by (simp add: dec_text_inj inj_eq)
qed

section \<open>From a decision to an order\<close>

lemma require_quantity_Inr_iff:
  "require_quantity q s = Inr r \<longleftrightarrow>
   r = q \<and> 0 < dval q \<and> 0 < dval (quantity_quantum s) \<and> (\<exists>k. dval q = of_int k * dval (quantity_quantum s))"
  by (auto simp: require_quantity_def require_quantized_Inr_iff)

lemma require_id_owner_Inr_iff [simp]: "require_id_owner i k = Inr j \<longleftrightarrow> j = i \<and> owner_kind i = k"
  by (auto simp: require_id_owner_def)

lemma require_non_negative_Inr_iff [simp]: "require_non_negative v = Inr w \<longleftrightarrow> w = v \<and> 0 \<le> v"
  by (auto simp: require_non_negative_def)

lemma require_run_of_Inr_iff [simp]:
  "require_run_of r is = Inr u \<longleftrightarrow> (\<forall>i. Some i \<in> set is \<longrightarrow> run_id i = r)"
  by (induction r "is" rule: require_run_of.induct) auto

text \<open>What an executable decision carries.\<close>

lemma executable_decision:
  assumes "create_risk_decision std kind did n ss v aid aq = Inr d" "kind = ALLOW \<or> kind = RESIZE"
    "wf_dec (in_quantity n)" "\<forall>q. aq = Some q \<longrightarrow> wf_dec q"
  obtains q a spec where
    "aq = Some q" "rd_quantity d = Some q" "rd_approval d = Some a" "rd_kind d = kind"
    "rd_effective_sha256 d = Some (effective_order_intent_digest std n q)"
    "decision_binds_intent std d n" "approval_binds_decision std a d n" "rd_id d = did"
    "run_id did = in_run n" "ap_id a = the aid"
    "require_spec_set std ss (in_instrument n) (Some (in_spec_id n)) (Some (in_set_id n))
       (Some (in_set_sha256 n)) = Inr spec"
    "require_quantity q (fst spec) = Inr q"
    "dval q \<le> dval (in_quantity n)" "kind = ALLOW \<longrightarrow> q = in_quantity n"
    "kind = RESIZE \<longrightarrow> dval q < dval (in_quantity n)"
proof -
  from assms(1) obtain spec e ap where
    s: "require_spec_set std ss (in_instrument n) (Some (in_spec_id n)) (Some (in_set_id n))
       (Some (in_set_sha256 n)) = Inr spec"
    and f: "approval_fields std kind did n (fst spec) v aid aq = Inr (e, ap)"
    and d: "d = \<lparr>rd_run = in_run n, rd_id = did, rd_intent = in_intent_id n,
            rd_correlation = in_correlation n, rd_causation = in_intent_id n,
            rd_intent_sha256 = order_intent_digest std n, rd_kind = kind,
            rd_outcome = outcome_of_kind kind, rd_snapshot_version = in_snapshot_version n,
            rd_risk_version = v, rd_available_at = in_available_at n,
            rd_dispatch = in_dispatch n, rd_quantity = aq,
            rd_effective_sha256 = e, rd_approval = ap\<rparr>"
    and r: "run_id did = in_run n"
    by (auto simp: create_risk_decision_def)
  from f assms(2) obtain q a b where q: "aid = Some b" "aq = Some q" "require_quantity q (fst spec) = Inr q"
    and g: "dec_greater q (in_quantity n) = Inr False"
    and k: "kind = ALLOW \<longrightarrow> q = in_quantity n" "kind = RESIZE \<longrightarrow> q \<noteq> in_quantity n"
    and a: "make_approval std b did n q (effective_order_intent_digest std n q) v = Inr a"
    and e: "e = Some (effective_order_intent_digest std n q)" "ap = Some a"
    by (auto simp: approval_fields_def require_quantity_Inr_iff Let_def split: option.splits)
  have w: "wf_dec q" using q(2) assms(4) by simp
  have le: "dval q \<le> dval (in_quantity n)" using g dec_greater_dval [OF w assms(3)] by simp
  have lt: "kind = RESIZE \<longrightarrow> dval q < dval (in_quantity n)"
    using k(2) le wf_dec_unique [OF w assms(3)] by (auto simp: less_le)
  from a have ap: "a = \<lparr>ap_run = in_run n, ap_id = b, ap_decision = did,
            ap_intent = in_intent_id n, ap_correlation = in_correlation n,
            ap_causation = did, ap_original_sha256 = order_intent_digest std n,
            ap_effective_sha256 = effective_order_intent_digest std n q, ap_quantity = q,
            ap_snapshot_version = in_snapshot_version n, ap_risk_version = v,
            ap_available_at = in_available_at n, ap_dispatch = in_dispatch n\<rparr>"
    by (auto simp: make_approval_def)
  have ad: "approval_binds_decision std a d n"
    unfolding approval_binds_decision_def ap d e q(2) by simp
  have bd: "decision_binds_intent std d n"
    unfolding decision_binds_intent_def d by simp
  have d': "rd_quantity d = Some q" "rd_approval d = Some a" "rd_kind d = kind" "rd_id d = did"
    "rd_effective_sha256 d = Some (effective_order_intent_digest std n q)"
    unfolding d e q(2) by simp_all
  have "ap_id a = the aid" unfolding ap q(1) by simp
  from that [OF q(2) d'(1,2,3,5) bd ad d'(4) r this s q(3) le k(1) lt] show thesis .
qed

section \<open>Properties\<close>

text \<open>Every executable decision becomes an order, and only executable decisions do. An
  allow or resize decision on an intent, with an order identity of the right owner and run,
  always materialises; the order keeps the intent's instrument, side, lineage and policy, its
  quantity is positive, on the grid and at most the intended one (equal for allow, strictly
  less for resize). A rejected or failed decision never yields an order.\<close>

theorem order_of_decision:
  assumes "create_risk_decision std kind did n ss v aid aq = Inr d"
    "wf_dec (in_quantity n)" "\<forall>q. aq = Some q \<longrightarrow> wf_dec q"
    "owner_kind oid = EXECUTION_ORDER" "run_id oid = in_run n"
  shows "if kind = ALLOW \<or> kind = RESIZE
    then \<exists>r q. create_order std oid n d ss = Inr r \<and> aq = Some q \<and> or_quantity r = q
      \<and> 0 < dval q \<and> dval q \<le> dval (in_quantity n)
      \<and> (kind = ALLOW \<longrightarrow> q = in_quantity n) \<and> (kind = RESIZE \<longrightarrow> dval q < dval (in_quantity n))
      \<and> or_id r = oid \<and> or_instrument r = in_instrument n \<and> or_side r = in_side n
      \<and> or_policy r = in_policy n \<and> or_set_sha256 r = in_set_sha256 n
      \<and> or_original_sha256 r = order_intent_digest std n
      \<and> or_effective_sha256 r = effective_order_intent_digest std n q
      \<and> or_decision_sha256 r = risk_decision_digest std d \<and> or_approval r = the aid
      \<and> or_eligible_after r = in_available_at n
    else create_order std oid n d ss = Inl conflicting_message"
proof (cases "kind = ALLOW \<or> kind = RESIZE")
  case True
  from executable_decision [OF assms(1) True assms(2,3)] obtain q a spec where
    q: "aq = Some q" "rd_quantity d = Some q" "rd_approval d = Some a" "rd_kind d = kind"
    "rd_effective_sha256 d = Some (effective_order_intent_digest std n q)"
    "decision_binds_intent std d n" "approval_binds_decision std a d n" "rd_id d = did"
    "run_id did = in_run n" "ap_id a = the aid"
    "require_spec_set std ss (in_instrument n) (Some (in_spec_id n)) (Some (in_set_id n))
       (Some (in_set_sha256 n)) = Inr spec"
    "require_quantity q (fst spec) = Inr q"
    "dval q \<le> dval (in_quantity n)" "kind = ALLOW \<longrightarrow> q = in_quantity n"
    "kind = RESIZE \<longrightarrow> dval q < dval (in_quantity n)" by metis
  have run: "require_run_of (in_run n) [Some oid, Some (rd_id d)] = Inr ()"
    using q(8,9) assms(5) by simp
  have own: "require_id_owner oid EXECUTION_ORDER = Inr oid" using assms(4) by simp
  have pos: "0 < dval q" using q(12) unfolding require_quantity_Inr_iff by blast
  have "\<exists>r. create_order std oid n d ss = Inr r \<and> or_quantity r = q
      \<and> or_id r = oid \<and> or_instrument r = in_instrument n \<and> or_side r = in_side n
      \<and> or_policy r = in_policy n \<and> or_set_sha256 r = in_set_sha256 n
      \<and> or_original_sha256 r = order_intent_digest std n
      \<and> or_effective_sha256 r = effective_order_intent_digest std n q
      \<and> or_decision_sha256 r = risk_decision_digest std d \<and> or_approval r = the aid
      \<and> or_eligible_after r = in_available_at n"
    unfolding create_order_def own run bind_res_simps q(2,3,5) prod.case option.case q(11)
    using q(4,6,7,10,12) True by (cases spec) simp
  with True q(1,13,14,15) pos show ?thesis by auto
next
  case False
  then have na: "rd_approval d = None"
    using assms(1) by (auto simp: create_risk_decision_def approval_fields_def)
  have "run_id did = in_run n" "rd_id d = did"
    using assms(1) by (auto simp: create_risk_decision_def)
  then have run: "require_run_of (in_run n) [Some oid, Some (rd_id d)] = Inr ()"
    using assms(5) by simp
  have own: "require_id_owner oid EXECUTION_ORDER = Inr oid" using assms(4) by simp
  have "create_order std oid n d ss = Inl conflicting_message"
    unfolding create_order_def own run bind_res_simps na by simp
  with False show ?thesis by simp
qed

text \<open>Canonical order bytes identify the order: with the instant texts injective (the
  documented behaviour of the ISO rendering), two orders with equal bytes agree in every
  field, so the submission key and the order digest are functions of the whole order.\<close>

theorem order_bytes_identify:
  assumes "inj (utc_text std)" "wf_dec (or_quantity a)" "wf_dec (or_quantity b)"
  shows "canonical_order_bytes std a = canonical_order_bytes std b \<longleftrightarrow> a = b"
  using order_bytes_inj [OF _ assms] by blast

section \<open>Witnesses\<close>

definition std_example :: stdlib where
  "std_example = \<lparr>hexdigest = (\<lambda>_. []), utc_text = (\<lambda>t. replicate (nat t) (CHR ''+'')
      @ replicate (nat (- t)) (CHR ''-''))\<rparr>"

lemma std_example_inj: "inj (utc_text std_example)"
proof (rule injI)
  fix s t assume "utc_text std_example s = utc_text std_example t"
  then have "count (mset (replicate (nat s) (CHR ''+'') @ replicate (nat (- s)) (CHR ''-''))) c
      = count (mset (replicate (nat t) (CHR ''+'') @ replicate (nat (- t)) (CHR ''-''))) c" for c
    by (simp add: std_example_def)
  from this [of "CHR ''+''"] this [of "CHR ''-''"] have "nat s = nat t" "nat (- s) = nat (- t)"
    by simp_all
  then show "s = t" by linarith
qed

definition id_of :: "economic_owner_kind \<Rightarrow> int \<Rightarrow> economic_id" where
  "id_of k n = \<lparr>run_id = RunId ''r'', owner_kind = k, owner_sequence = n\<rparr>"

definition policy_example :: execution_policy where
  "policy_example = \<lparr>policy_identifier = ''p'', policy_sha256 = Sha256Digest ''d''\<rparr>"

definition intent_example :: order_intent where
  "intent_example = \<lparr>in_run = RunId ''r'', in_intent_id = id_of PORTFOLIO_INTENT 1,
     in_correlation = id_of STRATEGY_SIGNAL 1, in_causation = id_of PORTFOLIO_TARGET 1,
     in_target = \<lparr>target_id = id_of PORTFOLIO_TARGET 1, target_sha256 = Sha256Digest ''t''\<rparr>,
     in_instrument = Instrument (VenueId ''X'') ''A'', in_side = BUY, in_quantity = dec_3,
     in_kind = MARKET, in_tif = GOOD_FOR_NEXT_ELIGIBLE_MARKET_EVENT, in_snapshot_version = 0,
     in_available_at = 0, in_dispatch = 0, in_spec_id = InstrumentSpecId ''a'',
     in_set_id = InstrumentSpecSetId ''s'', in_set_sha256 = Sha256Digest [],
     in_policy = policy_example\<rparr>"

theorem order_of_decision_witness:
  "\<exists>d r. resize_order_intent std_example (id_of RISK_DECISION 1) (id_of RISK_APPROVAL 1)
       intent_example dec_1 set_example 0 = Inr d
     \<and> create_order std_example (id_of EXECUTION_ORDER 1) intent_example d set_example = Inr r
     \<and> or_quantity r = dec_1"
proof -
  let ?d = "resize_order_intent std_example (id_of RISK_DECISION 1) (id_of RISK_APPROVAL 1)
       intent_example dec_1 set_example 0"
  have w: "wf_dec dec_1" "wf_dec dec_3" by code_simp+
  have iq: "in_quantity intent_example = dec_3" by (simp add: intent_example_def)
  have dg: "hexdigest std_example x = []" for x by (simp add: std_example_def)
  have sp: "require_spec set_example (in_instrument intent_example) = Inr (spec_example ''A'')"
    by code_simp
  have sd: "instrument_spec_set_digest (hexdigest std_example) set_example = Sha256Digest []"
    by (simp add: instrument_spec_set_digest_def domain_digest_def dg)
  have ss: "require_spec_set std_example set_example (in_instrument intent_example)
      (Some (in_spec_id intent_example)) (Some (in_set_id intent_example))
      (Some (in_set_sha256 intent_example)) = Inr (spec_example ''A'', Sha256Digest [])"
    unfolding require_spec_set_def sp bind_res_simps sd
    by (simp add: intent_example_def spec_example_def set_example_def)
  have q: "require_quantity dec_1 (spec_example ''A'') = Inr dec_1" by code_simp
  have g: "dec_greater dec_1 dec_3 = Inr False" by code_simp
  have ne: "dec_1 \<noteq> dec_3" by (simp add: dec_1_def dec_3_def)
  have own: "owner_kind (id_of k i) = k" "run_id (id_of k i) = in_run intent_example" for k i
    by (simp_all add: id_of_def intent_example_def)
  obtain d where d: "?d = Inr d"
    unfolding resize_order_intent_def create_risk_decision_def ss approval_fields_def
    by (simp add: own q g ne iq make_approval_def Let_def
        require_id_owner_def require_non_negative_def)
  from order_of_decision [OF d [unfolded resize_order_intent_def], of "id_of EXECUTION_ORDER 1"]
  have "\<exists>r. create_order std_example (id_of EXECUTION_ORDER 1) intent_example d set_example = Inr r
      \<and> or_quantity r = dec_1"
    using w by (auto simp: iq own)
  with d show ?thesis by blast
qed

definition order_example :: "canonical_decimal \<Rightarrow> order" where
  "order_example q = \<lparr>or_run = RunId ''r'', or_id = id_of EXECUTION_ORDER 1,
     or_intent = id_of PORTFOLIO_INTENT 1, or_correlation = id_of STRATEGY_SIGNAL 1,
     or_causation = id_of RISK_APPROVAL 1, or_decision = id_of RISK_DECISION 1,
     or_approval = id_of RISK_APPROVAL 1, or_original_sha256 = Sha256Digest [],
     or_effective_sha256 = Sha256Digest [], or_decision_sha256 = Sha256Digest [],
     or_approval_sha256 = Sha256Digest [], or_snapshot_version = 0, or_risk_version = 0,
     or_dispatch = 0, or_instrument = Instrument (VenueId ''X'') ''A'', or_side = BUY,
     or_quantity = q, or_kind = MARKET, or_tif = GOOD_FOR_NEXT_ELIGIBLE_MARKET_EVENT,
     or_spec_id = InstrumentSpecId ''a'', or_set_id = InstrumentSpecSetId ''s'',
     or_set_sha256 = Sha256Digest [], or_policy = policy_example, or_eligible_after = 0\<rparr>"

theorem order_bytes_identify_witness:
  "canonical_order_bytes std_example (order_example dec_1)
   \<noteq> canonical_order_bytes std_example (order_example dec_3)"
proof -
  have w: "wf_dec dec_1" "wf_dec dec_3" by code_simp+
  have q: "or_quantity (order_example x) = x" for x by (simp add: order_example_def)
  have "order_example dec_1 \<noteq> order_example dec_3"
    using q [of dec_1] q [of dec_3] by (auto simp: dec_1_def dec_3_def)
  then show ?thesis
    using order_bytes_identify [OF std_example_inj, of "order_example dec_1" "order_example dec_3"] w q
    by simp
qed

end
