(* ===== verification/Fact_Messages.thy ===== *)
theory Fact_Messages
  imports Order_Messages
begin

text \<open>
  The second half of the message constructors of \<open>ea.core.execution_messages\<close>:
  execution facts (lifecycle, trade, submission query), their ingress
  envelopes, and fills, with documents and digests.
\<close>

section \<open>Values\<close>

datatype execution_fact_kind = TRADE | REJECTION | ACKNOWLEDGEMENT | EXPIRY | CANCELLATION | SUBMISSION_QUERY

fun fact_kind_value :: "execution_fact_kind \<Rightarrow> string" where
  "fact_kind_value TRADE = ''trade''"
| "fact_kind_value REJECTION = ''rejection''"
| "fact_kind_value ACKNOWLEDGEMENT = ''acknowledgement''"
| "fact_kind_value EXPIRY = ''expiry''"
| "fact_kind_value CANCELLATION = ''cancellation''"
| "fact_kind_value SUBMISSION_QUERY = ''submission_query''"

fun lifecycle_code_by_kind :: "execution_fact_kind \<Rightarrow> outcome_code option" where
  "lifecycle_code_by_kind ACKNOWLEDGEMENT = Some ORDER_ACKNOWLEDGED"
| "lifecycle_code_by_kind REJECTION = Some ORDER_REJECTED"
| "lifecycle_code_by_kind EXPIRY = Some ORDER_EXPIRED"
| "lifecycle_code_by_kind CANCELLATION = Some ORDER_CANCELLED"
| "lifecycle_code_by_kind _ = None"

definition LIFECYCLE_CODES :: "outcome_code list" where
  "LIFECYCLE_CODES = [ORDER_ACKNOWLEDGED, ORDER_REJECTED, ORDER_EXPIRED,
     ORDER_EXPIRED_NO_ELIGIBLE_MARKET_DATA, ORDER_CANCELLED]"

definition SUBMISSION_QUERY_CODES :: "outcome_code list" where
  "SUBMISSION_QUERY_CODES = [RECONCILIATION_SUBMISSION_CONFIRMED_SUBMITTED,
     RECONCILIATION_SUBMISSION_CONFIRMED_NOT_SUBMITTED,
     RECONCILIATION_SUBMISSION_CONFIRMED_REJECTED, RECONCILIATION_SUBMISSION_CONFIRMED_FILLED,
     RECONCILIATION_SUBMISSION_STILL_UNKNOWN]"

datatype venue_order_id = VenueOrderId string

fun venue_order_text :: "venue_order_id \<Rightarrow> string" where
  "venue_order_text (VenueOrderId t) = t"

definition make_venue_order_id :: "string \<Rightarrow> venue_order_id result" where
  "make_venue_order_id v =
     guard_res (\<not> (1 \<le> length v \<and> length v \<le> 128)
        \<or> list_ex (\<lambda>c. (of_char c :: nat) < 33 \<or> 126 < (of_char c :: nat)) v)
       (ExecutionMessageError OUT_OF_RANGE) (Inr (VenueOrderId v))"

record fact_provenance =
  provenance_id :: string
  source_payload_sha256 :: sha256_digest

text \<open>\<open>FeeEntry\<close>; its only fee code is the commission.\<close>

record fee_entry =
  fee_currency :: settlement_currency
  fee_amount :: canonical_decimal
  fee_bps :: "canonical_decimal option"

definition make_fee_entry ::
  "settlement_currency \<Rightarrow> canonical_decimal \<Rightarrow> canonical_decimal option \<Rightarrow> fee_entry result" where
  "make_fee_entry cur a bps =
     bind_res (case bps of None \<Rightarrow> Inr () | Some b \<Rightarrow> bind_res (require_commission_bps b) (\<lambda>_. Inr ())) (\<lambda>_.
       guard_res (coefficient a < 0 \<or> (bps = None \<and> dec_text a \<noteq> ''0''))
         (ExecutionMessageError OUT_OF_RANGE)
         (Inr \<lparr>fee_currency = cur, fee_amount = a, fee_bps = bps\<rparr>))"

record trade_payload =
  tp_side :: order_side
  tp_quantity :: canonical_decimal
  tp_price :: canonical_decimal
  tp_fees :: "fee_entry list"
  tp_spec_id :: spec_id
  tp_set_id :: spec_set_id
  tp_set_sha256 :: sha256_digest

datatype fact_payload =
    LifecyclePayload outcome_code | TradePayload trade_payload | QueryPayload outcome_code

record execution_fact =
  ef_namespace :: source_namespace
  ef_dedup :: fact_dedup_identity
  ef_kind :: execution_fact_kind
  ef_occurred_at :: int
  ef_instrument :: "instrument option"
  ef_submission_key :: "sha256_digest option"
  ef_venue_order :: "venue_order_id option"
  ef_order :: "economic_id option"
  ef_correlation :: "economic_id option"
  ef_causation :: "economic_id option"
  ef_payload :: fact_payload
  ef_provenance :: fact_provenance

section \<open>Fact construction\<close>

text \<open>
  The ancestry checks of \<open>_require_fact_common\<close>: owner kinds, one run, and the
  causation equal to a known order (every caller asks for the latter).
\<close>

definition require_fact_common ::
  "economic_id option \<Rightarrow> economic_id option \<Rightarrow> economic_id option \<Rightarrow> unit result" where
  "require_fact_common order_id correlation_id causation_id =
     bind_res (case order_id of None \<Rightarrow> Inr ()
       | Some i \<Rightarrow> bind_res (require_id_owner i EXECUTION_ORDER) (\<lambda>_. Inr ())) (\<lambda>_.
     bind_res (case correlation_id of None \<Rightarrow> Inr ()
       | Some i \<Rightarrow> bind_res (require_id_owner i STRATEGY_SIGNAL) (\<lambda>_. Inr ())) (\<lambda>_.
     bind_res (case causation_id of None \<Rightarrow> Inr ()
       | Some i \<Rightarrow> guard_res (owner_kind i \<noteq> EXECUTION_ORDER \<and> owner_kind i \<noteq> RECONCILIATION_OBSERVATION)
                    conflicting_message (Inr ())) (\<lambda>_.
     bind_res (case filter (\<lambda>i. i \<noteq> None) [order_id, correlation_id, causation_id] of
         Some i # is \<Rightarrow> require_run_of (run_id i) (Some i # is)
       | _ \<Rightarrow> Inr ()) (\<lambda>_.
       guard_res (order_id \<noteq> None \<and> causation_id \<noteq> order_id) conflicting_message (Inr ())))))"

definition create_lifecycle_execution_fact ::
  "execution_fact_kind \<Rightarrow> source_namespace \<Rightarrow> fact_dedup_identity \<Rightarrow> int \<Rightarrow> fact_provenance
   \<Rightarrow> instrument option \<Rightarrow> sha256_digest option \<Rightarrow> venue_order_id option \<Rightarrow> economic_id option
   \<Rightarrow> economic_id option \<Rightarrow> economic_id option \<Rightarrow> outcome_code option \<Rightarrow> execution_fact result" where
  "create_lifecycle_execution_fact kind ns dedup occurred prov i key venue order_id correlation_id
     causation_id code =
     (case lifecycle_code_by_kind kind of
        None \<Rightarrow> Inl (ExecutionMessageError OUT_OF_RANGE)
      | Some preset \<Rightarrow>
          bind_res (case code of None \<Rightarrow> Inr preset
              | Some c \<Rightarrow> if kind = EXPIRY \<and> c = ORDER_EXPIRED_NO_ELIGIBLE_MARKET_DATA then Inr c
                         else Inl (ExecutionMessageError OUT_OF_RANGE)) (\<lambda>selected.
          bind_res (require_fact_common order_id correlation_id causation_id) (\<lambda>_.
          guard_res (selected \<notin> set LIFECYCLE_CODES) (ExecutionMessageError OUT_OF_RANGE)
            (Inr \<lparr>ef_namespace = ns, ef_dedup = dedup, ef_kind = kind, ef_occurred_at = occurred,
              ef_instrument = i, ef_submission_key = key, ef_venue_order = venue,
              ef_order = order_id, ef_correlation = correlation_id, ef_causation = causation_id,
              ef_payload = LifecyclePayload selected, ef_provenance = prov\<rparr>))))"

definition phase1_trade_payload ::
  "stdlib \<Rightarrow> spec_set \<Rightarrow> instrument \<Rightarrow> order_side \<Rightarrow> canonical_decimal \<Rightarrow> canonical_decimal
   \<Rightarrow> canonical_decimal option \<Rightarrow> trade_payload result" where
  "phase1_trade_payload std ss i side quantity price bps =
     bind_res (require_spec_set std ss i None None None) (\<lambda>(specification, set_digest).
     bind_res (require_quantity quantity specification) (\<lambda>_.
     bind_res (require_price price specification) (\<lambda>_.
     bind_res (canonical_decimal ''0'') (\<lambda>zero.
     bind_res (require_quantized zero (currency_quantum specification)) (\<lambda>_.
     bind_res (case bps of None \<Rightarrow> Inr zero
         | Some b \<Rightarrow> commission_amount price quantity (contract_multiplier specification) b
                      (currency_quantum specification)) (\<lambda>a.
     bind_res (make_fee_entry (settlement_currency specification) a bps) (\<lambda>fee.
       Inr \<lparr>tp_side = side, tp_quantity = quantity, tp_price = price, tp_fees = [fee],
            tp_spec_id = specification_id specification, tp_set_id = set_identifier ss,
            tp_set_sha256 = set_digest\<rparr>)))))))"

definition create_trade_execution_fact ::
  "stdlib \<Rightarrow> source_namespace \<Rightarrow> fact_dedup_identity \<Rightarrow> int \<Rightarrow> fact_provenance \<Rightarrow> spec_set
   \<Rightarrow> instrument \<Rightarrow> order_side \<Rightarrow> canonical_decimal \<Rightarrow> canonical_decimal \<Rightarrow> canonical_decimal option
   \<Rightarrow> sha256_digest option \<Rightarrow> venue_order_id option \<Rightarrow> economic_id option \<Rightarrow> economic_id option
   \<Rightarrow> economic_id option \<Rightarrow> execution_fact result" where
  "create_trade_execution_fact std ns dedup occurred prov ss i side quantity price bps key venue
     order_id correlation_id causation_id =
     bind_res (require_fact_common order_id correlation_id causation_id) (\<lambda>_.
     bind_res (phase1_trade_payload std ss i side quantity price bps) (\<lambda>payload.
       Inr \<lparr>ef_namespace = ns, ef_dedup = dedup, ef_kind = TRADE, ef_occurred_at = occurred,
         ef_instrument = Some i, ef_submission_key = key, ef_venue_order = venue,
         ef_order = order_id, ef_correlation = correlation_id, ef_causation = causation_id,
         ef_payload = TradePayload payload, ef_provenance = prov\<rparr>))"

definition create_submission_query_execution_fact ::
  "stdlib \<Rightarrow> source_namespace \<Rightarrow> fact_dedup_identity \<Rightarrow> int \<Rightarrow> fact_provenance \<Rightarrow> outcome_code
   \<Rightarrow> order \<Rightarrow> venue_order_id option \<Rightarrow> execution_fact result" where
  "create_submission_query_execution_fact std ns dedup occurred prov code subject venue =
     guard_res (code \<notin> set SUBMISSION_QUERY_CODES) (ExecutionMessageError OUT_OF_RANGE)
     (bind_res (require_fact_common (Some (or_id subject)) (Some (or_correlation subject))
                  (Some (or_id subject))) (\<lambda>_.
       Inr \<lparr>ef_namespace = ns, ef_dedup = dedup, ef_kind = SUBMISSION_QUERY, ef_occurred_at = occurred,
         ef_instrument = Some (or_instrument subject),
         ef_submission_key = Some (order_client_submission_key std subject),
         ef_venue_order = venue, ef_order = Some (or_id subject),
         ef_correlation = Some (or_correlation subject), ef_causation = Some (or_id subject),
         ef_payload = QueryPayload code, ef_provenance = prov\<rparr>))"

section \<open>Documents of facts\<close>

fun dedup_document :: "fact_dedup_identity \<Rightarrow> json" where
  "dedup_document (ExternalFactId v) = JObj [(''kind'', JStr ''external_id''), (''value'', JStr v)]"
| "dedup_document (SourceNativeSequence n) =
     JObj [(''kind'', JStr ''source_native_sequence''), (''value'', JInt n)]"

definition provenance_document :: "fact_provenance \<Rightarrow> json" where
  "provenance_document p = JObj
     [(''provenance_id'', JStr (provenance_id p)),
      (''source_payload_sha256'', digest_json (source_payload_sha256 p))]"

definition fee_document :: "fee_entry \<Rightarrow> json" where
  "fee_document f = JObj
     ([(''amount'', JStr (dec_text (fee_amount f))),
       (''currency'', JStr (currency_code (fee_currency f))),
       (''fee_code'', JStr ''commission'')]
      @ (case fee_bps f of None \<Rightarrow> []
         | Some b \<Rightarrow> [(''commission'', JObj [(''policy'', JStr ''deterministic-commission-v1''),
                                            (''commission_bps'', JStr (dec_text b))])]))"

fun fact_payload_document :: "fact_payload \<Rightarrow> json" where
  "fact_payload_document (LifecyclePayload c) = JObj
     [(''outcome_code'', JStr (outcome_code_value c)), (''payload_type'', JStr ''lifecycle'')]"
| "fact_payload_document (TradePayload p) = JObj
     [(''fees'', JList (map fee_document (tp_fees p))),
      (''instrument_spec_set_id'', JStr (spec_set_id_text (tp_set_id p))),
      (''instrument_spec_set_sha256'', digest_json (tp_set_sha256 p)),
      (''instrument_specification_id'', JStr (spec_id_text (tp_spec_id p))),
      (''payload_type'', JStr ''trade''),
      (''price'', JStr (dec_text (tp_price p))),
      (''quantity'', JStr (dec_text (tp_quantity p))),
      (''side'', JStr (side_value (tp_side p)))]"
| "fact_payload_document (QueryPayload c) = JObj
     [(''outcome_code'', JStr (outcome_code_value c)), (''payload_type'', JStr ''submission_query'')]"

definition fact_members :: "stdlib \<Rightarrow> execution_fact \<Rightarrow> (string \<times> json) list" where
  "fact_members std f =
     [(''canonicalization'', JStr ''ea-execution-fact-v1''),
      (''causation_id'', optional_document economic_id_document (ef_causation f)),
      (''client_submission_key'', optional_document digest_json (ef_submission_key f)),
      (''correlation_id'', optional_document economic_id_document (ef_correlation f)),
      (''dedup_identity'', dedup_document (ef_dedup f)),
      (''instrument'', optional_document instrument_document (ef_instrument f)),
      (''kind'', JStr (fact_kind_value (ef_kind f))),
      (''message_type'', JStr ''execution_fact''),
      (''occurred_at'', JStr (utc_text std (ef_occurred_at f))),
      (''order_id'', optional_document economic_id_document (ef_order f)),
      (''payload'', fact_payload_document (ef_payload f)),
      (''provenance'', provenance_document (ef_provenance f)),
      (''schema_version'', JInt 1),
      (''source_namespace'', JStr (namespace_text (ef_namespace f))),
      (''venue_order_id'', optional_document (\<lambda>v. JStr (venue_order_text v)) (ef_venue_order f))]"

definition execution_fact_digest :: "stdlib \<Rightarrow> execution_fact \<Rightarrow> sha256_digest" where
  "execution_fact_digest std f =
     domain_digest (hexdigest std) ''ea.execution-fact.v1'' (json_bytes (JObj (fact_members std f)))"

text \<open>\<open>_fact_document(include_digest=True)\<close>: the digest of the preimage is appended.\<close>

definition fact_document :: "stdlib \<Rightarrow> execution_fact \<Rightarrow> json" where
  "fact_document std f =
     JObj (fact_members std f @ [(''fact_sha256'', digest_json (execution_fact_digest std f))])"

definition canonical_execution_fact_bytes :: "stdlib \<Rightarrow> execution_fact \<Rightarrow> string" where
  "canonical_execution_fact_bytes std f = json_bytes (fact_document std f)"

record execution_fact_ingress =
  ig_available_at :: int
  ig_namespace :: source_namespace
  ig_sequence :: int
  ig_fact :: execution_fact

definition create_execution_fact_ingress ::
  "int \<Rightarrow> source_namespace \<Rightarrow> int \<Rightarrow> execution_fact \<Rightarrow> execution_fact_ingress result" where
  "create_execution_fact_ingress available_at ns n f =
     bind_res (require_non_negative n) (\<lambda>_.
       guard_res (ns \<noteq> ef_namespace f) (ExecutionMessageError FACT_INVALID)
      (guard_res (available_at < ef_occurred_at f) (ExecutionMessageError OUT_OF_RANGE)
        (Inr \<lparr>ig_available_at = available_at, ig_namespace = ns, ig_sequence = n, ig_fact = f\<rparr>)))"

definition ingress_document :: "stdlib \<Rightarrow> execution_fact_ingress \<Rightarrow> json" where
  "ingress_document std g = JObj
     [(''available_at'', JStr (utc_text std (ig_available_at g))),
      (''canonicalization'', JStr ''ea-execution-fact-ingress-v1''),
      (''fact'', fact_document std (ig_fact g)),
      (''ingress_sequence'', JInt (ig_sequence g)),
      (''message_type'', JStr ''execution_fact_ingress''),
      (''schema_version'', JInt 1),
      (''source_namespace'', JStr (namespace_text (ig_namespace g)))]"

definition execution_fact_ingress_digest :: "stdlib \<Rightarrow> execution_fact_ingress \<Rightarrow> sha256_digest" where
  "execution_fact_ingress_digest std g =
     domain_digest (hexdigest std) ''ea.execution-fact-ingress.v1'' (json_bytes (ingress_document std g))"

section \<open>Fills\<close>

record fill =
  fl_run :: run_id
  fl_id :: economic_id
  fl_namespace :: source_namespace
  fl_dedup :: fact_dedup_identity
  fl_fact_sha256 :: sha256_digest
  fl_provenance :: fact_provenance
  fl_occurred_at :: int
  fl_instrument :: instrument
  fl_side :: order_side
  fl_quantity :: canonical_decimal
  fl_price :: canonical_decimal
  fl_fees :: "fee_entry list"
  fl_spec_id :: spec_id
  fl_set_id :: spec_set_id
  fl_set_sha256 :: sha256_digest
  fl_submission_key :: "sha256_digest option"
  fl_venue_order :: "venue_order_id option"
  fl_order :: "economic_id option"
  fl_correlation :: "economic_id option"
  fl_causation :: "economic_id option"

definition fact_key :: "fill \<Rightarrow> fact_dedup_key" where
  "fact_key f = \<lparr>key_namespace = fl_namespace f, key_identity = fl_dedup f\<rparr>"

definition require_phase1_fees ::
  "fee_entry list \<Rightarrow> execution_spec \<Rightarrow> canonical_decimal \<Rightarrow> canonical_decimal
   \<Rightarrow> fee_entry list result" where
  "require_phase1_fees fees specification price quantity =
     (case fees of
        [fee] \<Rightarrow>
          guard_res (fee_currency fee \<noteq> settlement_currency specification) conflicting_message
         (bind_res (case fee_bps fee of None \<Rightarrow> canonical_decimal ''0''
             | Some b \<Rightarrow> commission_amount price quantity (contract_multiplier specification) b
                          (currency_quantum specification)) (\<lambda>expected.
          guard_res (fee_amount fee \<noteq> expected) conflicting_message
         (bind_res (require_quantized (fee_amount fee) (currency_quantum specification)) (\<lambda>_.
            Inr fees))))
      | _ \<Rightarrow> Inl (ExecutionMessageError INVALID_TYPE))"

definition create_fill ::
  "stdlib \<Rightarrow> economic_id \<Rightarrow> execution_fact \<Rightarrow> spec_set \<Rightarrow> fill result" where
  "create_fill std fill_id f ss =
     bind_res (require_id_owner fill_id EXECUTION_FILL) (\<lambda>_.
     (case (ef_payload f, ef_instrument f) of
        (TradePayload p, Some i) \<Rightarrow>
          guard_res (ef_kind f \<noteq> TRADE) conflicting_message
         (bind_res (require_spec_set std ss i (Some (tp_spec_id p)) (Some (tp_set_id p))
                     (Some (tp_set_sha256 p))) (\<lambda>(specification, _).
          bind_res (require_quantity (tp_quantity p) specification) (\<lambda>_.
          bind_res (require_price (tp_price p) specification) (\<lambda>_.
          bind_res (require_phase1_fees (tp_fees p) specification (tp_price p) (tp_quantity p)) (\<lambda>_.
          bind_res (require_run_of (run_id fill_id) [ef_order f, ef_correlation f, ef_causation f]) (\<lambda>_.
            Inr \<lparr>fl_run = run_id fill_id, fl_id = fill_id, fl_namespace = ef_namespace f,
              fl_dedup = ef_dedup f, fl_fact_sha256 = execution_fact_digest std f,
              fl_provenance = ef_provenance f, fl_occurred_at = ef_occurred_at f,
              fl_instrument = i, fl_side = tp_side p, fl_quantity = tp_quantity p,
              fl_price = tp_price p, fl_fees = tp_fees p, fl_spec_id = tp_spec_id p,
              fl_set_id = tp_set_id p, fl_set_sha256 = tp_set_sha256 p,
              fl_submission_key = ef_submission_key f, fl_venue_order = ef_venue_order f,
              fl_order = ef_order f, fl_correlation = ef_correlation f,
              fl_causation = ef_causation f\<rparr>))))))
      | _ \<Rightarrow> Inl conflicting_message))"

definition fill_document :: "stdlib \<Rightarrow> fill \<Rightarrow> json" where
  "fill_document std f = JObj
     [(''canonicalization'', JStr ''ea-fill-v1''),
      (''causation_id'', optional_document economic_id_document (fl_causation f)),
      (''client_submission_key'', optional_document digest_json (fl_submission_key f)),
      (''correlation_id'', optional_document economic_id_document (fl_correlation f)),
      (''dedup_identity'', dedup_document (fl_dedup f)),
      (''fact_sha256'', digest_json (fl_fact_sha256 f)),
      (''fees'', JList (map fee_document (fl_fees f))),
      (''fill_id'', economic_id_document (fl_id f)),
      (''instrument'', instrument_document (fl_instrument f)),
      (''instrument_spec_set_id'', JStr (spec_set_id_text (fl_set_id f))),
      (''instrument_spec_set_sha256'', digest_json (fl_set_sha256 f)),
      (''instrument_specification_id'', JStr (spec_id_text (fl_spec_id f))),
      (''message_type'', JStr ''fill''),
      (''occurred_at'', JStr (utc_text std (fl_occurred_at f))),
      (''order_id'', optional_document economic_id_document (fl_order f)),
      (''price'', JStr (dec_text (fl_price f))),
      (''provenance'', provenance_document (fl_provenance f)),
      (''quantity'', JStr (dec_text (fl_quantity f))),
      (''run_id'', JStr (run_text (fl_run f))),
      (''schema_version'', JInt 1),
      (''side'', JStr (side_value (fl_side f))),
      (''source_namespace'', JStr (namespace_text (fl_namespace f))),
      (''venue_order_id'', optional_document (\<lambda>v. JStr (venue_order_text v)) (fl_venue_order f))]"

definition canonical_fill_bytes :: "stdlib \<Rightarrow> fill \<Rightarrow> string" where
  "canonical_fill_bytes std f = json_bytes (fill_document std f)"

definition fill_digest :: "stdlib \<Rightarrow> fill \<Rightarrow> sha256_digest" where
  "fill_digest std f = domain_digest (hexdigest std) ''ea.fill.v1'' (canonical_fill_bytes std f)"

section \<open>Reading equal fill documents\<close>

lemma venue_order_text_inj [simp]: "venue_order_text a = venue_order_text b \<longleftrightarrow> a = b"
  by (cases a; cases b) simp

lemma fact_kind_value_inj [simp]: "fact_kind_value a = fact_kind_value b \<longleftrightarrow> a = b"
  by (cases a; cases b) simp_all

lemma dedup_document_norm [simp]:
  "json_norm (dedup_document a) = json_norm (dedup_document b) \<longleftrightarrow> a = b"
  by (cases a; cases b; simp only: dedup_document.simps; subst norm_obj) auto

lemma provenance_document_norm [simp]:
  "json_norm (provenance_document a) = json_norm (provenance_document b) \<longleftrightarrow> a = b"
  unfolding provenance_document_def by (subst norm_obj) auto

definition wf_fee :: "fee_entry \<Rightarrow> bool" where
  "wf_fee f \<longleftrightarrow> wf_dec (fee_amount f) \<and> wf_opt (fee_bps f)"

lemma norm_obj_length:
  "json_norm (JObj kvs) = json_norm (JObj kws) \<Longrightarrow> length kvs = length kws"
  by (drule arg_cong [where f = "\<lambda>j. case j of JObj xs \<Rightarrow> length xs | _ \<Rightarrow> 0"]) simp

lemma fee_document_norm:
  assumes "json_norm (fee_document a) = json_norm (fee_document b)" "wf_fee a" "wf_fee b"
  shows "a = b"
proof (cases "fee_bps a"; cases "fee_bps b")
  assume n: "fee_bps a = None" "fee_bps b = None"
  from norm_obj_eq [OF assms(1) [unfolded fee_document_def]] n assms(2,3)
  show ?thesis by (simp add: wf_fee_def dec_text_inj)
next
  fix x y assume n: "fee_bps a = Some x" "fee_bps b = Some y"
  from norm_obj_eq [OF assms(1) [unfolded fee_document_def]] n
  have r: "dec_text (fee_amount a) = dec_text (fee_amount b)" "fee_currency a = fee_currency b"
    "json_norm (JObj [(''policy'', JStr ''deterministic-commission-v1''), (''commission_bps'', JStr (dec_text x))])
     = json_norm (JObj [(''policy'', JStr ''deterministic-commission-v1''), (''commission_bps'', JStr (dec_text y))])"
    by simp_all
  from norm_obj_eq [OF r(3)] have "dec_text x = dec_text y" by simp
  with r(1,2) n assms(2,3) show ?thesis by (simp add: wf_fee_def wf_opt_def dec_text_inj)
qed (use norm_obj_length [OF assms(1) [unfolded fee_document_def]] in simp_all)

definition wf_fill :: "fill \<Rightarrow> bool" where
  "wf_fill f \<longleftrightarrow> wf_dec (fl_quantity f) \<and> wf_dec (fl_price f) \<and> (\<forall>e \<in> set (fl_fees f). wf_fee e)"

lemma optional_digest_norm [simp]:
  "json_norm (optional_document digest_json a) = json_norm (optional_document digest_json b) \<longleftrightarrow> a = b"
  by (rule optional_str_norm) simp

lemma optional_venue_norm [simp]:
  "json_norm (optional_document (\<lambda>v. JStr (venue_order_text v)) a)
   = json_norm (optional_document (\<lambda>v. JStr (venue_order_text v)) b) \<longleftrightarrow> a = b"
  by (rule optional_str_norm) simp

lemma fill_bytes_inj:
  assumes "canonical_fill_bytes std a = canonical_fill_bytes std b"
    "inj (utc_text std)" "wf_fill a" "wf_fill b"
  shows "a = b"
proof -
  have n: "json_norm (fill_document std a) = json_norm (fill_document std b)"
    using assms(1) by (simp add: canonical_fill_bytes_def json_bytes_norm)
  note e = norm_obj_eq [OF n [unfolded fill_document_def]]
  have m: "map (json_norm \<circ> fee_document) (fl_fees a) = map (json_norm \<circ> fee_document) (fl_fees b)"
    using e by simp
  have fees: "fl_fees a = fl_fees b"
    using assms(3,4) fee_document_norm by (intro map_norm_inj [OF m]) (auto simp: wf_fill_def)
  have "wf_dec (fl_quantity a)" "wf_dec (fl_quantity b)" "wf_dec (fl_price a)" "wf_dec (fl_price b)"
    using assms(3,4) by (simp_all add: wf_fill_def)
  with e fees assms(2) show ?thesis by (simp add: dec_text_inj inj_eq)
qed

section \<open>From a trade fact to a fill\<close>

lemma require_price_Inr_iff:
  "require_price p s = Inr r \<longleftrightarrow> r = p \<and> (price_domain s = POSITIVE \<longrightarrow> 0 < dval p)
     \<and> (price_domain s = NON_NEGATIVE \<longrightarrow> 0 \<le> dval p) \<and> 0 < dval (price_quantum s)
     \<and> (\<exists>k. dval p = of_int k * dval (price_quantum s))"
  by (auto simp: require_price_def require_quantized_Inr_iff)

lemma require_spec_set_again:
  "require_spec_set std ss i None None None = Inr (s, d) \<Longrightarrow>
   require_spec_set std ss i (Some (specification_id s)) (Some (set_identifier ss)) (Some d) = Inr (s, d)"
  by (auto simp: require_spec_set_def Let_def)

lemma phase1_payload:
  assumes "phase1_trade_payload std ss i side q p bps = Inr tp"
  obtains s d where "require_spec_set std ss i (Some (tp_spec_id tp)) (Some (tp_set_id tp))
      (Some (tp_set_sha256 tp)) = Inr (s, d)"
    "require_quantity q s = Inr q" "require_price p s = Inr p"
    "require_phase1_fees (tp_fees tp) s p q = Inr (tp_fees tp)"
    "tp_side tp = side" "tp_quantity tp = q" "tp_price tp = p"
proof -
  from assms obtain s d zero a fee where
    s: "require_spec_set std ss i None None None = Inr (s, d)"
    and q: "require_quantity q s = Inr q" and p: "require_price p s = Inr p"
    and z: "canonical_decimal ''0'' = Inr zero"
    and zq: "require_quantized zero (currency_quantum s) = Inr zero"
    and a: "(case bps of None \<Rightarrow> Inr zero
         | Some b \<Rightarrow> commission_amount p q (contract_multiplier s) b (currency_quantum s)) = Inr a"
    and fee: "make_fee_entry (settlement_currency s) a bps = Inr fee"
    and tp: "tp = \<lparr>tp_side = side, tp_quantity = q, tp_price = p, tp_fees = [fee],
            tp_spec_id = specification_id s, tp_set_id = set_identifier ss, tp_set_sha256 = d\<rparr>"
    by (auto simp: phase1_trade_payload_def require_quantized_Inr_iff require_quantity_Inr_iff
        require_price_Inr_iff)
  have f: "fee = \<lparr>fee_currency = settlement_currency s, fee_amount = a, fee_bps = bps\<rparr>"
    using fee by (auto simp: make_fee_entry_def)
  have aq: "require_quantized a (currency_quantum s) = Inr a"
  proof (cases bps)
    case None
    with a zq show ?thesis by simp
  next
    case (Some b)
    with a have c: "commission_amount p q (contract_multiplier s) b (currency_quantum s) = Inr a" by simp
    from commission_amount_spec(1,3) [OF c] show ?thesis by (auto simp: require_quantized_Inr_iff)
  qed
  have "require_phase1_fees [fee] s p q = Inr [fee]"
    using a z aq by (cases bps) (simp_all add: require_phase1_fees_def f)
  then show thesis
    using that [of s d] require_spec_set_again [OF s] q p by (simp add: tp)
qed

section \<open>Properties\<close>

text \<open>A trade fact always books: whatever trade fact the constructor returns, a fill with an
  identity of the fill owner in the run of the fact's ancestry is created from it under the same
  specification set, and it carries the fact's instrument, side, quantity, price, fees, ancestry
  and digest. The commission recomputed by the fill is the one the fact carried.\<close>

theorem trade_fact_books:
  assumes "create_trade_execution_fact std ns dedup occurred prov ss i side quantity price bps key venue
      order_id correlation_id causation_id = Inr f"
    "owner_kind fid = EXECUTION_FILL"
    "\<forall>a. Some a \<in> {order_id, correlation_id, causation_id} \<longrightarrow> run_id a = run_id fid"
  shows "\<exists>fl. create_fill std fid f ss = Inr fl \<and> fl_id fl = fid \<and> fl_run fl = run_id fid
    \<and> fl_instrument fl = i \<and> fl_side fl = side \<and> fl_quantity fl = quantity \<and> fl_price fl = price
    \<and> fl_order fl = order_id \<and> fl_correlation fl = correlation_id \<and> fl_causation fl = causation_id
    \<and> fact_key fl = \<lparr>key_namespace = ns, key_identity = dedup\<rparr>
    \<and> fl_fact_sha256 fl = execution_fact_digest std f"
proof -
  from assms(1) obtain tp where tp: "phase1_trade_payload std ss i side quantity price bps = Inr tp"
    and f: "f = \<lparr>ef_namespace = ns, ef_dedup = dedup, ef_kind = TRADE, ef_occurred_at = occurred,
         ef_instrument = Some i, ef_submission_key = key, ef_venue_order = venue,
         ef_order = order_id, ef_correlation = correlation_id, ef_causation = causation_id,
         ef_payload = TradePayload tp, ef_provenance = prov\<rparr>"
    by (auto simp: create_trade_execution_fact_def)
  obtain s d where p: "require_spec_set std ss i (Some (tp_spec_id tp)) (Some (tp_set_id tp))
      (Some (tp_set_sha256 tp)) = Inr (s, d)"
    "require_quantity quantity s = Inr quantity" "require_price price s = Inr price"
    "require_phase1_fees (tp_fees tp) s price quantity = Inr (tp_fees tp)"
    "tp_side tp = side" "tp_quantity tp = quantity" "tp_price tp = price"
    by (rule phase1_payload [OF tp])
  have own: "require_id_owner fid EXECUTION_FILL = Inr fid" using assms(2) by simp
  have run: "require_run_of (run_id fid) [order_id, correlation_id, causation_id] = Inr ()"
    using assms(3) by simp
  have sel: "ef_payload f = TradePayload tp" "ef_instrument f = Some i" "ef_kind f = TRADE"
    "ef_order f = order_id" "ef_correlation f = correlation_id" "ef_causation f = causation_id"
    "ef_namespace f = ns" "ef_dedup f = dedup"
    by (simp_all add: f)
  show ?thesis
    unfolding create_fill_def own bind_res_simps sel prod.case fact_payload.case option.case
      p(1) p(5,6,7) p(2,3,4) run
    by (simp add: fact_key_def)
qed

text \<open>Canonical fill bytes identify the fill, field by field, given injective instant
  texts; the fill digest is a function of the whole fill.\<close>

theorem fill_bytes_identify:
  assumes "inj (utc_text std)" "wf_fill a" "wf_fill b"
  shows "canonical_fill_bytes std a = canonical_fill_bytes std b \<longleftrightarrow> a = b"
  using fill_bytes_inj [OF _ assms] by blast

section \<open>Witnesses\<close>

definition provenance_example :: fact_provenance where
  "provenance_example = \<lparr>provenance_id = ''v'', source_payload_sha256 = Sha256Digest []\<rparr>"

lemma example_spec_set:
  "require_spec_set std_example set_example (Instrument (VenueId ''X'') ''A'') None None None
   = Inr (spec_example ''A'', Sha256Digest [])"
proof -
  have "require_spec set_example (Instrument (VenueId ''X'') ''A'') = Inr (spec_example ''A'')"
    by code_simp
  then show ?thesis
    by (simp add: require_spec_set_def instrument_spec_set_digest_def domain_digest_def std_example_def)
qed

definition zero_dec :: canonical_decimal where
  "zero_dec = \<lparr>dec_text = ''0'', coefficient = 0, scale = 0\<rparr>"

definition payload_example :: trade_payload where
  "payload_example = \<lparr>tp_side = BUY, tp_quantity = dec_3, tp_price = dec_001,
     tp_fees = [\<lparr>fee_currency = SettlementCurrency ''USD'', fee_amount = zero_dec, fee_bps = None\<rparr>],
     tp_spec_id = InstrumentSpecId ''a'', tp_set_id = InstrumentSpecSetId ''s'',
     tp_set_sha256 = Sha256Digest []\<rparr>"

lemma example_payload:
  "phase1_trade_payload std_example set_example (Instrument (VenueId ''X'') ''A'') BUY dec_3 dec_001 None
   = Inr payload_example"
proof -
  have "require_quantity dec_3 (spec_example ''A'') = Inr dec_3"
    "require_price dec_001 (spec_example ''A'') = Inr dec_001"
    "canonical_decimal ''0'' = Inr zero_dec"
    "require_quantized zero_dec (currency_quantum (spec_example ''A'')) = Inr zero_dec"
    "make_fee_entry (settlement_currency (spec_example ''A'')) zero_dec None
     = Inr \<lparr>fee_currency = SettlementCurrency ''USD'', fee_amount = zero_dec, fee_bps = None\<rparr>"
    by code_simp+
  then show ?thesis
    unfolding phase1_trade_payload_def example_spec_set bind_res_simps prod.case option.case
    by (simp add: payload_example_def spec_example_def set_example_def)
qed

theorem trade_fact_books_witness:
  "\<exists>f fl. create_trade_execution_fact std_example (SourceNamespace ''v'') (ExternalFactId ''1'') 0
       provenance_example set_example (Instrument (VenueId ''X'') ''A'') BUY dec_3 dec_001 None
       None None (Some (id_of EXECUTION_ORDER 1)) None (Some (id_of EXECUTION_ORDER 1)) = Inr f
     \<and> create_fill std_example (id_of EXECUTION_FILL 1) f set_example = Inr fl \<and> fl_price fl = dec_001"
proof -
  have "require_fact_common (Some (id_of EXECUTION_ORDER 1)) None (Some (id_of EXECUTION_ORDER 1)) = Inr ()"
    by code_simp
  then obtain f where f: "create_trade_execution_fact std_example (SourceNamespace ''v'') (ExternalFactId ''1'') 0
       provenance_example set_example (Instrument (VenueId ''X'') ''A'') BUY dec_3 dec_001 None
       None None (Some (id_of EXECUTION_ORDER 1)) None (Some (id_of EXECUTION_ORDER 1)) = Inr f"
    by (simp add: create_trade_execution_fact_def example_payload)
  from trade_fact_books [OF f, of "id_of EXECUTION_FILL 1"] f show ?thesis
    by (auto simp: id_of_def)
qed

definition fill_example :: "canonical_decimal \<Rightarrow> fill" where
  "fill_example q = \<lparr>fl_run = RunId ''r'', fl_id = id_of EXECUTION_FILL 1,
     fl_namespace = SourceNamespace ''v'', fl_dedup = ExternalFactId ''1'',
     fl_fact_sha256 = Sha256Digest [], fl_provenance = provenance_example, fl_occurred_at = 0,
     fl_instrument = Instrument (VenueId ''X'') ''A'', fl_side = BUY, fl_quantity = q,
     fl_price = dec_001, fl_fees = tp_fees payload_example, fl_spec_id = InstrumentSpecId ''a'',
     fl_set_id = InstrumentSpecSetId ''s'', fl_set_sha256 = Sha256Digest [],
     fl_submission_key = None, fl_venue_order = None, fl_order = None, fl_correlation = None,
     fl_causation = None\<rparr>"

theorem fill_bytes_identify_witness:
  "canonical_fill_bytes std_example (fill_example dec_1)
   \<noteq> canonical_fill_bytes std_example (fill_example dec_3)"
proof -
  have w: "wf_dec dec_1" "wf_dec dec_3" "wf_dec dec_001" "wf_dec zero_dec" by code_simp+
  have q: "fl_quantity (fill_example x) = x" for x by (simp add: fill_example_def)
  have "wf_fill (fill_example dec_1)" "wf_fill (fill_example dec_3)"
    using w by (auto simp: wf_fill_def fill_example_def payload_example_def wf_fee_def wf_opt_def)
  moreover have "fill_example dec_1 \<noteq> fill_example dec_3"
    using q [of dec_1] q [of dec_3] by (auto simp: dec_1_def dec_3_def)
  ultimately show ?thesis
    using fill_bytes_identify [OF std_example_inj] by simp
qed

end
