(* ===== verification/Portfolio.thy ===== *)
theory Portfolio
  imports Fact_Messages "HOL-Library.AList"
begin

text \<open>
  \<open>ea.core.portfolio\<close>: the values of the ledger. Postings and the checks of a
  transaction, balances, references and snapshots with their constructor
  checks, apply outcomes, and the canonical documents and digests of all of
  them. A \<open>dict\<close> whose items are enumerated is an association list with the
  insertion order of Python (\<open>AList.update\<close> keeps the place of a known key).
\<close>

section \<open>Closed vocabularies\<close>

datatype (plugins only: code) ledger_account_kind =
    PORTFOLIO_POSITION | EXTERNAL_INVENTORY | PORTFOLIO_CASH | EXTERNAL_SETTLEMENT
  | PORTFOLIO_ROUNDING | COMMISSION_EXPENSE

fun account_value :: "ledger_account_kind \<Rightarrow> string" where
  "account_value PORTFOLIO_POSITION = ''portfolio.position''"
| "account_value EXTERNAL_INVENTORY = ''external.inventory''"
| "account_value PORTFOLIO_CASH = ''portfolio.cash''"
| "account_value EXTERNAL_SETTLEMENT = ''external.settlement''"
| "account_value PORTFOLIO_ROUNDING = ''portfolio.rounding''"
| "account_value COMMISSION_EXPENSE = ''portfolio.commission''"

fun posting_order :: "ledger_account_kind \<Rightarrow> nat" where
  "posting_order PORTFOLIO_POSITION = 0"
| "posting_order EXTERNAL_INVENTORY = 1"
| "posting_order PORTFOLIO_CASH = 2"
| "posting_order EXTERNAL_SETTLEMENT = 3"
| "posting_order PORTFOLIO_ROUNDING = 4"
| "posting_order COMMISSION_EXPENSE = 5"

datatype (plugins only: code) ledger_conflict_kind =
    FILL_ID_COLLISION | FACT_KEY_COLLISION | FILL_AND_FACT_COLLISION | CROSS_INDEX_COLLISION
  | INDEX_INCONSISTENT | ENTRY_ID_OCCUPIED | UNBOUND_EXISTING_FILL

fun conflict_value :: "ledger_conflict_kind \<Rightarrow> string" where
  "conflict_value FILL_ID_COLLISION = ''fill_id_collision''"
| "conflict_value FACT_KEY_COLLISION = ''fact_key_collision''"
| "conflict_value FILL_AND_FACT_COLLISION = ''fill_and_fact_collision''"
| "conflict_value CROSS_INDEX_COLLISION = ''cross_index_collision''"
| "conflict_value INDEX_INCONSISTENT = ''index_inconsistent''"
| "conflict_value ENTRY_ID_OCCUPIED = ''entry_id_occupied''"
| "conflict_value UNBOUND_EXISTING_FILL = ''unbound_existing_fill''"

datatype (plugins only: code) ledger_failure_stage =
    LEDGER_SEQUENCE_EXHAUSTED | SETTLEMENT_ARITHMETIC_OVERFLOW
  | SETTLEMENT_ROUNDING_UNREPRESENTABLE | EXACT_NOTIONAL_OVERFLOW | CASH_BALANCE_OVERFLOW
  | INSUFFICIENT_CASH | POSITION_BALANCE_OVERFLOW | ROUNDING_BALANCE_OVERFLOW
  | COMMODITY_UNBALANCED

fun stage_value :: "ledger_failure_stage \<Rightarrow> string" where
  "stage_value LEDGER_SEQUENCE_EXHAUSTED = ''ledger_sequence_exhausted''"
| "stage_value SETTLEMENT_ARITHMETIC_OVERFLOW = ''settlement_arithmetic_overflow''"
| "stage_value SETTLEMENT_ROUNDING_UNREPRESENTABLE = ''settlement_rounding_unrepresentable''"
| "stage_value EXACT_NOTIONAL_OVERFLOW = ''exact_notional_overflow''"
| "stage_value CASH_BALANCE_OVERFLOW = ''cash_balance_overflow''"
| "stage_value INSUFFICIENT_CASH = ''insufficient_cash''"
| "stage_value POSITION_BALANCE_OVERFLOW = ''position_balance_overflow''"
| "stage_value ROUNDING_BALANCE_OVERFLOW = ''rounding_balance_overflow''"
| "stage_value COMMODITY_UNBALANCED = ''commodity_unbalanced''"

abbreviation ledger_conflict :: exn where
  "ledger_conflict \<equiv> PortfolioLedgerError CONFLICTING_ID"

text \<open>\<open>PortfolioLedgerError\<close> accepts these codes only.\<close>

definition LEDGER_ERROR_CODES :: "outcome_code list" where
  "LEDGER_ERROR_CODES = [INVALID_TYPE, OUT_OF_RANGE, NOT_QUANTIZED, PRICE_DOMAIN, CONFLICTING_ID]"

text \<open>\<open>_translate_economic_error\<close> and \<open>_structural_error\<close>.\<close>

fun translate_economic_error :: "exn \<Rightarrow> exn" where
  "translate_economic_error (EconomicValidationError c) =
     (if c \<in> set LEDGER_ERROR_CODES then PortfolioLedgerError c else AssertionError)"
| "translate_economic_error e = e"

section \<open>Postings\<close>

datatype ledger_commodity = InstrumentCommodity instrument | CurrencyCommodity settlement_currency

fun is_instrument_commodity :: "ledger_commodity \<Rightarrow> bool" where
  "is_instrument_commodity (InstrumentCommodity _) = True"
| "is_instrument_commodity (CurrencyCommodity _) = False"

record posting =
  account :: ledger_account_kind
  commodity :: ledger_commodity
  po_amount :: canonical_decimal

definition make_posting ::
  "ledger_account_kind \<Rightarrow> ledger_commodity \<Rightarrow> canonical_decimal \<Rightarrow> posting result" where
  "make_posting a c v =
     guard_res (coefficient v = 0) (PortfolioLedgerError OUT_OF_RANGE)
    (guard_res ((a = PORTFOLIO_POSITION \<or> a = EXTERNAL_INVENTORY) \<noteq> is_instrument_commodity c)
       ledger_conflict
       (Inr \<lparr>account = a, commodity = c, po_amount = v\<rparr>))"

text \<open>The running sums per commodity, as an insertion-ordered dictionary of scaled integers.\<close>

fun add_posting ::
  "(ledger_commodity \<times> int \<times> nat) list \<Rightarrow> posting \<Rightarrow> (ledger_commodity \<times> int \<times> nat) list" where
  "add_posting totals p =
     (case map_of totals (commodity p) of
        None \<Rightarrow> AList.update (commodity p) (coefficient (po_amount p), scale (po_amount p)) totals
      | Some (c, s) \<Rightarrow>
          (let target = max s (scale (po_amount p));
               total = c * 10 ^ (target - s)
                 + coefficient (po_amount p) * 10 ^ (target - scale (po_amount p))
           in AList.update (commodity p) (total, target) totals))"

definition postings_sum_to_zero :: "posting list \<Rightarrow> bool" where
  "postings_sum_to_zero ps = list_all (\<lambda>(_, c, _). c = 0) (foldl add_posting [] ps)"

definition require_postings :: "posting list \<Rightarrow> posting list result" where
  "require_postings ps =
     guard_res (length ps < 2 \<or> 6 < length ps) (PortfolioLedgerError OUT_OF_RANGE)
     (let order = map (\<lambda>p. posting_order (account p)) ps
      in guard_res (order \<noteq> sort order \<or> \<not> distinct order) ledger_conflict
        (guard_res (take 2 order \<noteq> [0, 1]) ledger_conflict
        (let first = ps ! 0; second = ps ! 1;
             currencies = filter (\<lambda>c. \<not> is_instrument_commodity c) (map commodity (drop 2 ps))
         in guard_res (commodity first \<noteq> commodity second
               \<or> scale (po_amount first) \<noteq> scale (po_amount second)
               \<or> coefficient (po_amount first) \<noteq> - coefficient (po_amount second)) ledger_conflict
           (guard_res (list_ex (\<lambda>c. c \<noteq> hd currencies) (tl currencies)) ledger_conflict
           (guard_res (\<not> postings_sum_to_zero ps) ledger_conflict (Inr ps))))))"

section \<open>Balances and references\<close>

record initial_funding =
  fu_run :: run_id
  fu_currency :: settlement_currency
  fu_amount :: canonical_decimal

definition make_initial_funding ::
  "run_id \<Rightarrow> settlement_currency \<Rightarrow> canonical_decimal \<Rightarrow> initial_funding result" where
  "make_initial_funding r c a =
     bind_res (map_exn translate_economic_error (require_positive a)) (\<lambda>_.
       Inr \<lparr>fu_run = r, fu_currency = c, fu_amount = a\<rparr>)"

record cash_balance =
  cb_currency :: settlement_currency
  cb_quantum :: canonical_decimal
  cb_amount :: canonical_decimal

definition make_cash_balance ::
  "settlement_currency \<Rightarrow> canonical_decimal \<Rightarrow> canonical_decimal \<Rightarrow> cash_balance result" where
  "make_cash_balance c u a =
     bind_res (map_exn translate_economic_error
       (bind_res (require_positive u) (\<lambda>_. require_quantized a u))) (\<lambda>_.
     guard_res (coefficient a = 0) (PortfolioLedgerError OUT_OF_RANGE)
       (Inr \<lparr>cb_currency = c, cb_quantum = u, cb_amount = a\<rparr>))"

record position_balance =
  pb_instrument :: instrument
  pb_quantum :: canonical_decimal
  pb_quantity :: canonical_decimal

definition make_position_balance ::
  "instrument \<Rightarrow> canonical_decimal \<Rightarrow> canonical_decimal \<Rightarrow> position_balance result" where
  "make_position_balance i u q =
     bind_res (map_exn translate_economic_error
       (bind_res (require_positive u) (\<lambda>_. require_quantized q u))) (\<lambda>_.
     guard_res (coefficient q = 0) (PortfolioLedgerError OUT_OF_RANGE)
       (Inr \<lparr>pb_instrument = i, pb_quantum = u, pb_quantity = q\<rparr>))"

record rounding_balance =
  rb_currency :: settlement_currency
  rb_amount :: canonical_decimal

definition make_rounding_balance ::
  "settlement_currency \<Rightarrow> canonical_decimal \<Rightarrow> rounding_balance result" where
  "make_rounding_balance c a =
     guard_res (coefficient a = 0) (PortfolioLedgerError OUT_OF_RANGE)
       (Inr \<lparr>rb_currency = c, rb_amount = a\<rparr>)"

definition require_economic_id ::
  "economic_id \<Rightarrow> economic_owner_kind option \<Rightarrow> run_id option \<Rightarrow> economic_id result" where
  "require_economic_id i owner run =
     guard_res (owner \<noteq> None \<and> owner \<noteq> Some (owner_kind i)) ledger_conflict
    (guard_res (run \<noteq> None \<and> run \<noteq> Some (run_id i)) ledger_conflict (Inr i))"

definition require_version :: "int \<Rightarrow> int result" where
  "require_version v =
     guard_res (v < 0 \<or> 2 ^ 64 \<le> v) (PortfolioLedgerError OUT_OF_RANGE) (Inr v)"

record unresolved_ref =
  ur_fill :: economic_id
  ur_sha256 :: sha256_digest

definition make_unresolved_ref :: "economic_id \<Rightarrow> sha256_digest \<Rightarrow> unresolved_ref result" where
  "make_unresolved_ref i d =
     bind_res (require_economic_id i (Some EXECUTION_FILL) None) (\<lambda>_.
       Inr \<lparr>ur_fill = i, ur_sha256 = d\<rparr>)"

record open_ref =
  op_fill :: economic_id
  op_sha256 :: sha256_digest
  op_outcome_sha256 :: sha256_digest

definition make_open_ref ::
  "economic_id \<Rightarrow> sha256_digest \<Rightarrow> sha256_digest \<Rightarrow> open_ref result" where
  "make_open_ref i d p =
     bind_res (require_economic_id i (Some EXECUTION_FILL) None) (\<lambda>_.
       Inr \<lparr>op_fill = i, op_sha256 = d, op_outcome_sha256 = p\<rparr>)"

record ledger_binding =
  bi_entry :: economic_id
  bi_fill :: economic_id
  bi_fill_sha256 :: sha256_digest
  bi_tx_sha256 :: sha256_digest

definition make_binding ::
  "economic_id \<Rightarrow> economic_id \<Rightarrow> sha256_digest \<Rightarrow> sha256_digest \<Rightarrow> ledger_binding result" where
  "make_binding e f d t =
     bind_res (require_economic_id e (Some LEDGER_ENTRY) None) (\<lambda>_.
     bind_res (require_economic_id f (Some EXECUTION_FILL) None) (\<lambda>_.
     guard_res (run_id e \<noteq> run_id f) ledger_conflict
       (Inr \<lparr>bi_entry = e, bi_fill = f, bi_fill_sha256 = d, bi_tx_sha256 = t\<rparr>)))"

section \<open>Transactions\<close>

record ledger_transaction =
  lt_run :: run_id
  lt_entry :: economic_id
  lt_sequence :: int
  lt_fill :: economic_id
  lt_fill_sha256 :: sha256_digest
  lt_fact_key :: fact_dedup_key
  lt_provenance :: fact_provenance
  lt_occurred_at :: int
  lt_order :: "economic_id option"
  lt_correlation :: "economic_id option"
  lt_causation :: "economic_id option"
  lt_submission_key :: "sha256_digest option"
  lt_venue_order :: "venue_order_id option"
  lt_spec_id :: spec_id
  lt_set_id :: spec_set_id
  lt_set_sha256 :: sha256_digest
  lt_previous :: "sha256_digest option"
  lt_postings :: "posting list"
  lt_reconcile :: bool

text \<open>\<open>LedgerTransaction.__post_init__\<close>.\<close>

definition make_ledger_transaction :: "ledger_transaction \<Rightarrow> ledger_transaction result" where
  "make_ledger_transaction t =
     bind_res (require_economic_id (lt_entry t) (Some LEDGER_ENTRY) (Some (lt_run t))) (\<lambda>_.
     guard_res (\<not> (1 \<le> lt_sequence t \<and> lt_sequence t < 2 ^ 64)) (PortfolioLedgerError OUT_OF_RANGE)
    (guard_res (owner_sequence (lt_entry t) \<noteq> lt_sequence t) ledger_conflict
    (bind_res (require_economic_id (lt_fill t) (Some EXECUTION_FILL) (Some (lt_run t))) (\<lambda>_.
     bind_res (case lt_order t of None \<Rightarrow> Inr () | Some i \<Rightarrow>
         bind_res (require_economic_id i None (Some (lt_run t))) (\<lambda>_. Inr ())) (\<lambda>_.
     bind_res (case lt_correlation t of None \<Rightarrow> Inr () | Some i \<Rightarrow>
         bind_res (require_economic_id i None (Some (lt_run t))) (\<lambda>_. Inr ())) (\<lambda>_.
     bind_res (case lt_causation t of None \<Rightarrow> Inr () | Some i \<Rightarrow>
         bind_res (require_economic_id i None (Some (lt_run t))) (\<lambda>_. Inr ())) (\<lambda>_.
     guard_res (lt_sequence t = 1 \<and> lt_previous t \<noteq> None) ledger_conflict
    (guard_res (lt_sequence t \<noteq> 1 \<and> lt_previous t = None) (PortfolioLedgerError INVALID_TYPE)
    (bind_res (require_postings (lt_postings t)) (\<lambda>_.
     guard_res ((lt_order t = None \<or> lt_correlation t = None \<or> lt_causation t = None)
                \<and> \<not> lt_reconcile t) ledger_conflict
       (Inr t)))))))))))"

record funding_transaction =
  ft_run :: run_id
  ft_entry :: economic_id
  ft_sha256 :: sha256_digest
  ft_currency :: settlement_currency
  ft_amount :: canonical_decimal
  ft_set_id :: spec_set_id
  ft_set_sha256 :: sha256_digest
  ft_postings :: "posting list"

datatype adjustment_variant = BALANCE_CORRECTION | ANCESTRY_RESOLUTION
datatype adjustment_target = INSTRUMENT_POSITION | SETTLEMENT_CASH | OPEN_RECONCILIATION_REF

record reconciliation_transaction =
  rt_run :: run_id
  rt_entry :: economic_id
  rt_sequence :: int
  rt_adjustment :: economic_id
  rt_authorization_sha256 :: sha256_digest
  rt_observation_sha256 :: sha256_digest
  rt_outcome_sha256 :: sha256_digest
  rt_command_sha256 :: sha256_digest
  rt_variant :: adjustment_variant
  rt_target :: adjustment_target
  rt_instrument :: "instrument option"
  rt_currency :: "settlement_currency option"
  rt_local :: "canonical_decimal option"
  rt_observed :: "canonical_decimal option"
  rt_delta :: "canonical_decimal option"
  rt_open_ref :: "open_ref option"
  rt_previous :: "sha256_digest option"
  rt_set_id :: spec_set_id
  rt_set_sha256 :: sha256_digest
  rt_postings :: "posting list"
  rt_occurred_at :: int
  rt_available_at :: int

datatype portfolio_transaction =
    Funding funding_transaction | FillEntry ledger_transaction | Adjustment reconciliation_transaction

section \<open>Snapshots\<close>

record snapshot =
  sn_run :: run_id
  sn_set_id :: spec_set_id
  sn_set_sha256 :: sha256_digest
  sn_version :: int
  sn_sequence :: int
  sn_last_entry :: "economic_id option"
  sn_last_sha256 :: "sha256_digest option"
  sn_cash :: "cash_balance list"
  sn_positions :: "position_balance list"
  sn_rounding :: "rounding_balance list"
  sn_unresolved :: "unresolved_ref list"
  sn_open_bindings :: "ledger_binding list"
  sn_open_refs :: "open_ref list"

definition economic_id_key :: "economic_id \<Rightarrow> string \<times> string \<times> int" where
  "economic_id_key i = (run_text (run_id i), owner_kind_value (owner_kind i), owner_sequence i)"

definition canonical_keys :: "'a::linorder list \<Rightarrow> bool" where
  "canonical_keys ks \<longleftrightarrow> ks = sort ks \<and> distinct ks"

text \<open>The key checks of \<open>_require_snapshot_tuples\<close>.\<close>

definition snapshot_keys_canonical :: "snapshot \<Rightarrow> bool" where
  "snapshot_keys_canonical n \<longleftrightarrow>
     canonical_keys (map (currency_code \<circ> cb_currency) (sn_cash n))
     \<and> canonical_keys (map (instrument_key \<circ> pb_instrument) (sn_positions n))
     \<and> canonical_keys (map (currency_code \<circ> rb_currency) (sn_rounding n))
     \<and> canonical_keys (map (economic_id_key \<circ> ur_fill) (sn_unresolved n))
     \<and> canonical_keys (map (economic_id_key \<circ> bi_fill) (sn_open_bindings n))
     \<and> canonical_keys (map (economic_id_key \<circ> op_fill) (sn_open_refs n))"

text \<open>The loop over the open bindings, with the set of entries already seen.\<close>

fun check_bindings :: "snapshot \<Rightarrow> economic_id set \<Rightarrow> ledger_binding list \<Rightarrow> unit result" where
  "check_bindings n seen [] = Inr ()"
| "check_bindings n seen (b # bs) =
     bind_res (require_economic_id (bi_entry b) (Some LEDGER_ENTRY) (Some (sn_run n))) (\<lambda>_.
     bind_res (require_economic_id (bi_fill b) (Some EXECUTION_FILL) (Some (sn_run n))) (\<lambda>_.
     guard_res (owner_sequence (bi_entry b) = 0) ledger_conflict
    (guard_res (sn_sequence n < owner_sequence (bi_entry b)) ledger_conflict
    (guard_res (owner_sequence (bi_entry b) = sn_sequence n
                \<and> Some (bi_tx_sha256 b) \<noteq> sn_last_sha256 n) ledger_conflict
    (guard_res (bi_entry b \<in> seen) ledger_conflict
       (check_bindings n (insert (bi_entry b) seen) bs))))))"

fun check_open_refs :: "snapshot \<Rightarrow> open_ref list \<Rightarrow> unit result" where
  "check_open_refs n [] = Inr ()"
| "check_open_refs n (r # rs) =
     bind_res (require_economic_id (op_fill r) (Some EXECUTION_FILL) (Some (sn_run n))) (\<lambda>_.
     (case find (\<lambda>b. bi_fill b = op_fill r) (rev (sn_open_bindings n)) of
        None \<Rightarrow> Inl ledger_conflict
      | Some b \<Rightarrow> guard_res (bi_fill_sha256 b \<noteq> op_sha256 r) ledger_conflict (check_open_refs n rs)))"

fun check_unresolved :: "snapshot \<Rightarrow> unresolved_ref list \<Rightarrow> unit result" where
  "check_unresolved n [] = Inr ()"
| "check_unresolved n (r # rs) =
     bind_res (require_economic_id (ur_fill r) (Some EXECUTION_FILL) (Some (sn_run n))) (\<lambda>_.
       check_unresolved n rs)"

definition require_snapshot_tuples :: "snapshot \<Rightarrow> unit result" where
  "require_snapshot_tuples n =
     guard_res (\<not> snapshot_keys_canonical n) ledger_conflict
    (bind_res (check_unresolved n (sn_unresolved n)) (\<lambda>_.
     bind_res (check_bindings n {} (sn_open_bindings n)) (\<lambda>_.
     bind_res (check_open_refs n (sn_open_refs n)) (\<lambda>_.
     guard_res (bi_fill ` set (sn_open_bindings n) \<noteq> op_fill ` set (sn_open_refs n)) ledger_conflict
    (guard_res (list_ex (\<lambda>r. list_ex (\<lambda>u. ur_fill u = op_fill r \<and> ur_sha256 u \<noteq> op_sha256 r)
        (sn_unresolved n)) (sn_open_refs n)) ledger_conflict
       (Inr ()))))))"

text \<open>\<open>PortfolioSnapshot.__post_init__\<close>.\<close>

definition make_snapshot :: "snapshot \<Rightarrow> snapshot result" where
  "make_snapshot n =
     bind_res (require_version (sn_version n)) (\<lambda>_.
     bind_res (require_version (sn_sequence n)) (\<lambda>_.
     guard_res (sn_version n \<noteq> sn_sequence n) ledger_conflict
    (bind_res (require_snapshot_tuples n) (\<lambda>_.
     if sn_sequence n = 0
     then guard_res (sn_last_entry n \<noteq> None \<or> sn_last_sha256 n \<noteq> None) ledger_conflict
         (guard_res (sn_cash n \<noteq> [] \<or> sn_positions n \<noteq> [] \<or> sn_rounding n \<noteq> []
            \<or> sn_unresolved n \<noteq> [] \<or> sn_open_bindings n \<noteq> [] \<or> sn_open_refs n \<noteq> []) ledger_conflict
           (Inr n))
     else (case sn_last_entry n of
         None \<Rightarrow> Inl (PortfolioLedgerError INVALID_TYPE)
       | Some e \<Rightarrow>
           bind_res (require_economic_id e (Some LEDGER_ENTRY) (Some (sn_run n))) (\<lambda>_.
           guard_res (owner_sequence e \<noteq> sn_sequence n) ledger_conflict
          (guard_res (sn_last_sha256 n = None) (PortfolioLedgerError INVALID_TYPE) (Inr n))))))))"

section \<open>Canonical documents\<close>

fun commodity_document :: "ledger_commodity \<Rightarrow> json" where
  "commodity_document (InstrumentCommodity i) =
     JObj [(''instrument'', instrument_document i), (''kind'', JStr ''instrument'')]"
| "commodity_document (CurrencyCommodity c) =
     JObj [(''currency'', JStr (currency_code c)), (''kind'', JStr ''currency'')]"

definition posting_document :: "posting \<Rightarrow> json" where
  "posting_document p = JObj
     [(''account'', JStr (account_value (account p))),
      (''amount'', JStr (dec_text (po_amount p))),
      (''commodity'', commodity_document (commodity p))]"

definition fact_key_document :: "fact_dedup_key \<Rightarrow> json" where
  "fact_key_document k = JObj
     [(''dedup_identity'', dedup_document (key_identity k)),
      (''source_namespace'', JStr (namespace_text (key_namespace k)))]"

definition transaction_document :: "stdlib \<Rightarrow> ledger_transaction \<Rightarrow> json" where
  "transaction_document std t = JObj
     [(''canonicalization'', JStr ''ea-ledger-transaction-v1''),
      (''causation_id'', optional_document economic_id_document (lt_causation t)),
      (''client_submission_key'', optional_document digest_json (lt_submission_key t)),
      (''correlation_id'', optional_document economic_id_document (lt_correlation t)),
      (''entry_id'', economic_id_document (lt_entry t)),
      (''fact_key'', fact_key_document (lt_fact_key t)),
      (''fill_id'', economic_id_document (lt_fill t)),
      (''fill_sha256'', digest_json (lt_fill_sha256 t)),
      (''instrument_specification_id'', JStr (spec_id_text (lt_spec_id t))),
      (''instrument_spec_set_id'', JStr (spec_set_id_text (lt_set_id t))),
      (''instrument_spec_set_sha256'', digest_json (lt_set_sha256 t)),
      (''ledger_sequence'', JInt (lt_sequence t)),
      (''message_type'', JStr ''ledger_transaction''),
      (''occurred_at'', JStr (utc_text std (lt_occurred_at t))),
      (''order_id'', optional_document economic_id_document (lt_order t)),
      (''postings'', JList (map posting_document (lt_postings t))),
      (''previous_transaction_sha256'', optional_document digest_json (lt_previous t)),
      (''provenance'', provenance_document (lt_provenance t)),
      (''requires_reconciliation'', JBool (lt_reconcile t)),
      (''run_id'', JStr (run_text (lt_run t))),
      (''schema_version'', JInt 1),
      (''venue_order_id'', optional_document (\<lambda>v. JStr (venue_order_text v)) (lt_venue_order t))]"

definition ledger_transaction_digest :: "stdlib \<Rightarrow> ledger_transaction \<Rightarrow> sha256_digest" where
  "ledger_transaction_digest std t =
     domain_digest (hexdigest std) ''ea.ledger-transaction.v1'' (json_bytes (transaction_document std t))"

definition canonical_initial_funding_bytes :: "initial_funding \<Rightarrow> string" where
  "canonical_initial_funding_bytes f = json_bytes (JObj
     [(''amount'', JStr (dec_text (fu_amount f))),
      (''canonicalization'', JStr ''ea-initial-funding-v1''),
      (''currency'', JStr (currency_code (fu_currency f))),
      (''message_type'', JStr ''initial_funding''),
      (''run_id'', JStr (run_text (fu_run f))),
      (''schema_version'', JInt 1)])"

definition initial_funding_digest :: "stdlib \<Rightarrow> initial_funding \<Rightarrow> sha256_digest" where
  "initial_funding_digest std f =
     domain_digest (hexdigest std) ''ea.initial-funding.v1'' (canonical_initial_funding_bytes f)"

definition funding_transaction_document :: "funding_transaction \<Rightarrow> json" where
  "funding_transaction_document t = JObj
     [(''amount'', JStr (dec_text (ft_amount t))),
      (''canonicalization'', JStr ''ea-funding-transaction-v1''),
      (''currency'', JStr (currency_code (ft_currency t))),
      (''entry_id'', economic_id_document (ft_entry t)),
      (''funding_sha256'', digest_json (ft_sha256 t)),
      (''instrument_spec_set_id'', JStr (spec_set_id_text (ft_set_id t))),
      (''instrument_spec_set_sha256'', digest_json (ft_set_sha256 t)),
      (''ledger_sequence'', JInt 1),
      (''message_type'', JStr ''funding_transaction''),
      (''postings'', JList (map posting_document (ft_postings t))),
      (''previous_transaction_sha256'', JNull),
      (''run_id'', JStr (run_text (ft_run t))),
      (''schema_version'', JInt 1)]"

definition funding_transaction_digest :: "stdlib \<Rightarrow> funding_transaction \<Rightarrow> sha256_digest" where
  "funding_transaction_digest std t =
     domain_digest (hexdigest std) ''ea.funding-transaction.v1'' (json_bytes (funding_transaction_document t))"

definition binding_document :: "ledger_binding \<Rightarrow> json" where
  "binding_document b = JObj
     [(''entry_id'', economic_id_document (bi_entry b)),
      (''fill_id'', economic_id_document (bi_fill b)),
      (''fill_sha256'', digest_json (bi_fill_sha256 b)),
      (''transaction_sha256'', digest_json (bi_tx_sha256 b))]"

definition open_ref_document :: "open_ref \<Rightarrow> json" where
  "open_ref_document r = JObj
     [(''fill_id'', economic_id_document (op_fill r)),
      (''fill_sha256'', digest_json (op_sha256 r)),
      (''processing_outcome_sha256'', digest_json (op_outcome_sha256 r))]"

definition cash_document :: "cash_balance \<Rightarrow> json" where
  "cash_document b = JObj
     [(''amount'', JStr (dec_text (cb_amount b))),
      (''currency'', JStr (currency_code (cb_currency b))),
      (''currency_quantum'', JStr (dec_text (cb_quantum b)))]"

definition position_document :: "position_balance \<Rightarrow> json" where
  "position_document b = JObj
     [(''instrument'', instrument_document (pb_instrument b)),
      (''quantity'', JStr (dec_text (pb_quantity b))),
      (''quantity_quantum'', JStr (dec_text (pb_quantum b)))]"

definition rounding_document :: "rounding_balance \<Rightarrow> json" where
  "rounding_document b = JObj
     [(''amount'', JStr (dec_text (rb_amount b))),
      (''currency'', JStr (currency_code (rb_currency b)))]"

definition unresolved_document :: "unresolved_ref \<Rightarrow> json" where
  "unresolved_document r = JObj
     [(''fill_id'', economic_id_document (ur_fill r)),
      (''fill_sha256'', digest_json (ur_sha256 r))]"

definition snapshot_document :: "snapshot \<Rightarrow> json" where
  "snapshot_document n = JObj
     [(''canonicalization'', JStr ''ea-portfolio-snapshot-v2''),
      (''cash_balances'', JList (map cash_document (sn_cash n))),
      (''instrument_spec_set_id'', JStr (spec_set_id_text (sn_set_id n))),
      (''instrument_spec_set_sha256'', digest_json (sn_set_sha256 n)),
      (''last_entry_id'', optional_document economic_id_document (sn_last_entry n)),
      (''last_transaction_sha256'', optional_document digest_json (sn_last_sha256 n)),
      (''ledger_sequence'', JInt (sn_sequence n)),
      (''message_type'', JStr ''portfolio_snapshot''),
      (''open_reconciliation_bindings'', JList (map binding_document (sn_open_bindings n))),
      (''open_reconciliation_refs'', JList (map open_ref_document (sn_open_refs n))),
      (''position_balances'', JList (map position_document (sn_positions n))),
      (''rounding_balances'', JList (map rounding_document (sn_rounding n))),
      (''run_id'', JStr (run_text (sn_run n))),
      (''schema_version'', JInt 2),
      (''snapshot_version'', JInt (sn_version n)),
      (''unresolved_fills'', JList (map unresolved_document (sn_unresolved n)))]"

definition portfolio_snapshot_digest :: "stdlib \<Rightarrow> snapshot \<Rightarrow> sha256_digest" where
  "portfolio_snapshot_digest std n =
     domain_digest (hexdigest std) ''ea.portfolio-snapshot.v2'' (json_bytes (snapshot_document n))"

text \<open>
  The document of a reconciliation transaction (\<open>ea.core.reconciliation\<close>) and its
  length-framed digest: domain, payload length as eight big-endian bytes, payload.
\<close>

fun variant_value :: "adjustment_variant \<Rightarrow> string" where
  "variant_value BALANCE_CORRECTION = ''balance_correction''"
| "variant_value ANCESTRY_RESOLUTION = ''ancestry_resolution''"

fun target_value :: "adjustment_target \<Rightarrow> string" where
  "target_value INSTRUMENT_POSITION = ''instrument_position''"
| "target_value SETTLEMENT_CASH = ''settlement_cash''"
| "target_value OPEN_RECONCILIATION_REF = ''open_reconciliation_ref''"

definition reconciliation_transaction_document ::
  "stdlib \<Rightarrow> reconciliation_transaction \<Rightarrow> json" where
  "reconciliation_transaction_document std t = JObj
     [(''adjustment_command_sha256'', digest_json (rt_command_sha256 t)),
      (''adjustment_id'', economic_id_document (rt_adjustment t)),
      (''authorization_sha256'', digest_json (rt_authorization_sha256 t)),
      (''available_at'', JStr (utc_text std (rt_available_at t))),
      (''canonicalization'', JStr ''ea-canonical-json-v1''),
      (''currency'', optional_document (\<lambda>c. JStr (currency_code c)) (rt_currency t)),
      (''delta'', optional_document (\<lambda>d. JStr (dec_text d)) (rt_delta t)),
      (''entry_id'', economic_id_document (rt_entry t)),
      (''instrument'', optional_document instrument_document (rt_instrument t)),
      (''instrument_spec_set_id'', JStr (spec_set_id_text (rt_set_id t))),
      (''instrument_spec_set_sha256'', digest_json (rt_set_sha256 t)),
      (''ledger_sequence'', JInt (rt_sequence t)),
      (''local_amount'', optional_document (\<lambda>d. JStr (dec_text d)) (rt_local t)),
      (''observed_amount'', optional_document (\<lambda>d. JStr (dec_text d)) (rt_observed t)),
      (''occurred_at'', JStr (utc_text std (rt_occurred_at t))),
      (''open_reconciliation_ref'', optional_document open_ref_document (rt_open_ref t)),
      (''postings'', JList (map posting_document (rt_postings t))),
      (''previous_transaction_sha256'', optional_document digest_json (rt_previous t)),
      (''reconciliation_outcome_sha256'', digest_json (rt_outcome_sha256 t)),
      (''run_id'', JStr (run_text (rt_run t))),
      (''schema'', JStr ''ea.reconciliation-transaction.v1''),
      (''target_kind'', JStr (target_value (rt_target t))),
      (''variant'', JStr (variant_value (rt_variant t)))]"

definition u64be :: "nat \<Rightarrow> string" where
  "u64be n = map (\<lambda>i. char_of (n div 256 ^ (7 - i) mod 256)) [0..<8]"

definition framed_digest :: "(string \<Rightarrow> string) \<Rightarrow> string \<Rightarrow> string \<Rightarrow> sha256_digest" where
  "framed_digest sha domain payload =
     domain_digest sha domain (u64be (length payload) @ payload)"

definition reconciliation_transaction_digest ::
  "stdlib \<Rightarrow> reconciliation_transaction \<Rightarrow> sha256_digest" where
  "reconciliation_transaction_digest std t =
     framed_digest (hexdigest std) ''ea.reconciliation-transaction.v1''
       (json_bytes (reconciliation_transaction_document std t))"

text \<open>\<open>_transaction_digest\<close>.\<close>

fun transaction_digest :: "stdlib \<Rightarrow> portfolio_transaction \<Rightarrow> sha256_digest" where
  "transaction_digest std (Funding t) = funding_transaction_digest std t"
| "transaction_digest std (FillEntry t) = ledger_transaction_digest std t"
| "transaction_digest std (Adjustment t) = reconciliation_transaction_digest std t"

section \<open>Apply outcomes\<close>

record apply_outcome =
  ao_run :: run_id
  ao_code :: outcome_code
  ao_before :: int
  ao_after :: int
  ao_snapshot :: snapshot
  ao_transaction :: "ledger_transaction option"
  ao_fill :: economic_id
  ao_fill_sha256 :: sha256_digest
  ao_conflict :: "ledger_conflict_kind option"
  ao_entry_binding :: "ledger_binding option"
  ao_fill_binding :: "ledger_binding option"
  ao_fact_binding :: "ledger_binding option"
  ao_stage :: "ledger_failure_stage option"

definition LEDGER_RESULT_CODES :: "outcome_code list" where
  "LEDGER_RESULT_CODES = [LEDGER_APPLIED, LEDGER_DUPLICATE, LEDGER_CONFLICT, LEDGER_UNBALANCED,
     ROUNDING_UNREPRESENTABLE, ARITHMETIC_OVERFLOW, OUT_OF_RANGE]"

text \<open>\<open>_create_ledger_apply_outcome\<close>: the field matrix of an outcome.\<close>

definition create_apply_outcome :: "apply_outcome \<Rightarrow> apply_outcome result" where
  "create_apply_outcome a =
     guard_res (ao_code a \<notin> set LEDGER_RESULT_CODES) AssertionError
    (guard_res (sn_run (ao_snapshot a) \<noteq> ao_run a \<or> run_id (ao_fill a) \<noteq> ao_run a) AssertionError
    (bind_res (require_version (ao_before a)) (\<lambda>_.
     bind_res (require_version (ao_after a)) (\<lambda>_.
     guard_res (sn_version (ao_snapshot a) \<noteq> ao_after a) AssertionError
    (let applied = ao_code a = LEDGER_APPLIED; duplicate = ao_code a = LEDGER_DUPLICATE;
         conflict = ao_code a = LEDGER_CONFLICT
     in guard_res (if applied then ao_transaction a = None \<or> ao_after a \<noteq> ao_before a + 1
          else if duplicate then ao_transaction a = None \<or> ao_after a \<noteq> ao_before a
          else ao_after a \<noteq> ao_before a \<or> ao_transaction a \<noteq> None) AssertionError
       (guard_res (if conflict then ao_conflict a = None \<or> ao_stage a \<noteq> None
          else ao_entry_binding a \<noteq> None \<or> ao_fill_binding a \<noteq> None \<or> ao_fact_binding a \<noteq> None
            \<or> ao_conflict a \<noteq> None) AssertionError
       (guard_res ((\<not> (applied \<or> duplicate \<or> conflict)) \<noteq> (ao_stage a \<noteq> None)) AssertionError
         (Inr a))))))))"

definition apply_outcome_document :: "stdlib \<Rightarrow> apply_outcome \<Rightarrow> json" where
  "apply_outcome_document std a = JObj
     [(''after_snapshot_version'', JInt (ao_after a)),
      (''before_snapshot_version'', JInt (ao_before a)),
      (''canonicalization'', JStr ''ea-ledger-apply-outcome-v1''),
      (''code'', JStr (outcome_code_value (ao_code a))),
      (''conflict_kind'', optional_document (\<lambda>k. JStr (conflict_value k)) (ao_conflict a)),
      (''entry_index_binding'', optional_document binding_document (ao_entry_binding a)),
      (''fact_index_binding'', optional_document binding_document (ao_fact_binding a)),
      (''failure_stage'', optional_document (\<lambda>s. JStr (stage_value s)) (ao_stage a)),
      (''fill_index_binding'', optional_document binding_document (ao_fill_binding a)),
      (''message_type'', JStr ''ledger_apply_outcome''),
      (''run_id'', JStr (run_text (ao_run a))),
      (''schema_version'', JInt 1),
      (''snapshot_sha256'', digest_json (portfolio_snapshot_digest std (ao_snapshot a))),
      (''submitted_fill_id'', economic_id_document (ao_fill a)),
      (''submitted_fill_sha256'', digest_json (ao_fill_sha256 a)),
      (''transaction_entry_id'',
         optional_document economic_id_document (map_option lt_entry (ao_transaction a))),
      (''transaction_sha256'',
         optional_document digest_json (map_option (ledger_transaction_digest std) (ao_transaction a)))]"

definition canonical_apply_outcome_bytes :: "stdlib \<Rightarrow> apply_outcome \<Rightarrow> string" where
  "canonical_apply_outcome_bytes std a = json_bytes (apply_outcome_document std a)"

record funding_outcome =
  fo_run :: run_id
  fo_code :: outcome_code
  fo_before :: int
  fo_after :: int
  fo_snapshot :: snapshot
  fo_transaction :: "funding_transaction option"
  fo_submitted_sha256 :: sha256_digest
  fo_existing_sha256 :: "sha256_digest option"

definition create_funding_transaction ::
  "stdlib \<Rightarrow> initial_funding \<Rightarrow> economic_id \<Rightarrow> spec_set_id \<Rightarrow> sha256_digest \<Rightarrow> posting list
   \<Rightarrow> funding_transaction result" where
  "create_funding_transaction std f e set_id set_sha ps =
     guard_res (run_id e \<noteq> fu_run f \<or> owner_kind e \<noteq> LEDGER_ENTRY \<or> owner_sequence e \<noteq> 1) AssertionError
     (case ps of
        [a, b] \<Rightarrow>
          guard_res (account a \<noteq> PORTFOLIO_CASH \<or> account b \<noteq> EXTERNAL_SETTLEMENT
              \<or> commodity a \<noteq> commodity b \<or> scale (po_amount a) \<noteq> scale (po_amount b)
              \<or> coefficient (po_amount a) \<noteq> - coefficient (po_amount b)) AssertionError
            (Inr \<lparr>ft_run = fu_run f, ft_entry = e, ft_sha256 = initial_funding_digest std f,
               ft_currency = fu_currency f, ft_amount = fu_amount f, ft_set_id = set_id,
               ft_set_sha256 = set_sha, ft_postings = ps\<rparr>)
      | _ \<Rightarrow> Inl AssertionError)"

definition create_funding_outcome ::
  "stdlib \<Rightarrow> initial_funding \<Rightarrow> outcome_code \<Rightarrow> int \<Rightarrow> int \<Rightarrow> snapshot \<Rightarrow> funding_transaction option
   \<Rightarrow> sha256_digest option \<Rightarrow> funding_outcome result" where
  "create_funding_outcome std f code version_before version_after n t existing =
     guard_res (code \<noteq> LEDGER_APPLIED \<and> code \<noteq> LEDGER_CONFLICT) AssertionError
    (guard_res (sn_run n \<noteq> fu_run f \<or> sn_version n \<noteq> version_after) AssertionError
    (guard_res (if code = LEDGER_APPLIED then t = None \<or> version_after \<noteq> version_before + 1 \<or> existing \<noteq> None
                else t \<noteq> None \<or> version_after \<noteq> version_before) AssertionError
       (Inr \<lparr>fo_run = fu_run f, fo_code = code, fo_before = version_before, fo_after = version_after,
          fo_snapshot = n, fo_transaction = t, fo_submitted_sha256 = initial_funding_digest std f,
          fo_existing_sha256 = existing\<rparr>)))"

end
