(* ===== verification/Reconciliation.thy ===== *)
theory Reconciliation
  imports Portfolio
begin

text \<open>
  The part of \<open>ea.core.reconciliation\<close> the ledger applies: adjustment commands
  and authorizations, the factory of a reconciliation transaction with the checks
  of a balance correction, and the outcome matrix of an adjustment.
\<close>

section \<open>Errors\<close>

definition RECONCILIATION_ERROR_CODES :: "outcome_code list" where
  "RECONCILIATION_ERROR_CODES = [INVALID_TYPE, OUT_OF_RANGE, NOT_QUANTIZED, CONFLICTING_ID]"

text \<open>\<open>_fail\<close>: the constructor raises \<open>TypeError\<close> for any other code.\<close>

definition reconciliation_fail :: "outcome_code \<Rightarrow> exn" where
  "reconciliation_fail c =
     (if c \<in> set RECONCILIATION_ERROR_CODES then ReconciliationContractError c else TypeError)"

fun reconciliation_translate :: "exn \<Rightarrow> exn" where
  "reconciliation_translate (EconomicValidationError c) = reconciliation_fail c"
| "reconciliation_translate e = e"

text \<open>A handler that maps every \<open>EconomicValidationError\<close> to one error.\<close>

fun economic_to :: "exn \<Rightarrow> exn \<Rightarrow> exn" where
  "economic_to target (EconomicValidationError c) = target"
| "economic_to target e = e"

definition MAX_RECONCILIATION_PAYLOAD_BYTES :: nat where
  "MAX_RECONCILIATION_PAYLOAD_BYTES = 16384"

definition bounded_payload :: "string \<Rightarrow> string result" where
  "bounded_payload p =
     guard_res (MAX_RECONCILIATION_PAYLOAD_BYTES < length p) (ReconciliationContractError OUT_OF_RANGE)
       (Inr p)"

section \<open>Commands and authorizations\<close>

datatype authorization_decision = AUTHORIZATION_ALLOWED | AUTHORIZATION_DENIED

record adjustment_command =
  ac_run :: run_id
  ac_set_id :: spec_set_id
  ac_set_sha256 :: sha256_digest
  ac_adjustment :: economic_id
  ac_observation :: sha256_digest
  ac_outcome :: sha256_digest
  ac_sequence :: int
  ac_snapshot :: sha256_digest
  ac_variant :: adjustment_variant
  ac_target :: adjustment_target
  ac_instrument :: "instrument option"
  ac_currency :: "settlement_currency option"
  ac_local :: "canonical_decimal option"
  ac_observed :: "canonical_decimal option"
  ac_delta :: "canonical_decimal option"
  ac_ref :: "open_ref option"
  ac_order :: "economic_id option"
  ac_order_sha256 :: "sha256_digest option"
  ac_dispatch :: int

record adjustment_authorization =
  aa_run :: run_id
  aa_set_id :: spec_set_id
  aa_set_sha256 :: sha256_digest
  aa_authorization :: economic_id
  aa_adjustment :: economic_id
  aa_observation :: sha256_digest
  aa_outcome :: sha256_digest
  aa_outcome_ack :: sha256_digest
  aa_sequence :: int
  aa_snapshot :: sha256_digest
  aa_command_sha256 :: sha256_digest
  aa_policy :: string
  aa_policy_version :: int
  aa_policy_sha256 :: sha256_digest
  aa_decision :: authorization_decision
  aa_available_at :: int
  aa_dispatch :: int

record audited_authorization =
  au_authorization :: adjustment_authorization
  au_sha256 :: sha256_digest
  au_record :: economic_id
  au_ack :: sha256_digest
  au_head :: sha256_digest

text \<open>\<open>_adjustment_command_document\<close>, with its assertions.\<close>

definition command_common :: "adjustment_command \<Rightarrow> (string \<times> json) list" where
  "command_common c =
     [(''adjustment_id'', economic_id_document (ac_adjustment c)),
      (''canonicalization'', JStr ''ea-canonical-json-v1''),
      (''dispatch_sequence'', JInt (ac_dispatch c)),
      (''instrument_spec_set_id'', JStr (spec_set_id_text (ac_set_id c))),
      (''instrument_spec_set_sha256'', digest_json (ac_set_sha256 c)),
      (''ledger_sequence'', JInt (ac_sequence c)),
      (''local_snapshot_sha256'', digest_json (ac_snapshot c)),
      (''observation_sha256'', digest_json (ac_observation c)),
      (''reconciliation_outcome_sha256'', digest_json (ac_outcome c)),
      (''run_id'', JStr (run_text (ac_run c))),
      (''schema'', JStr ''ea.reconciliation-adjustment-command.v1''),
      (''variant'', JStr (variant_value (ac_variant c)))]"

fun instrument_fields :: "instrument \<Rightarrow> json" where
  "instrument_fields (Instrument v s) = JObj [(''symbol'', JStr s), (''venue'', JStr (venue_code v))]"

definition command_target :: "adjustment_command \<Rightarrow> json result" where
  "command_target c =
     (if ac_target c = INSTRUMENT_POSITION
      then (case ac_instrument c of
          None \<Rightarrow> Inl AssertionError
        | Some i \<Rightarrow> Inr (JObj [(''instrument'', instrument_fields i),
            (''kind'', JStr (target_value (ac_target c)))]))
      else (case ac_currency c of
          None \<Rightarrow> Inl AssertionError
        | Some y \<Rightarrow> Inr (JObj [(''currency'', JStr (currency_code y)),
            (''kind'', JStr (target_value (ac_target c)))])))"

definition adjustment_command_document :: "adjustment_command \<Rightarrow> json result" where
  "adjustment_command_document c =
     (case ac_variant c of
        BALANCE_CORRECTION \<Rightarrow>
          (case (ac_local c, ac_observed c, ac_delta c) of
             (Some l, Some ob, Some d) \<Rightarrow>
               bind_res (command_target c) (\<lambda>target.
                 Inr (JObj (command_common c @
                   [(''delta'', JStr (dec_text d)), (''local_amount'', JStr (dec_text l)),
                    (''observed_amount'', JStr (dec_text ob)), (''target'', target)])))
           | _ \<Rightarrow> Inl AssertionError)
      | ANCESTRY_RESOLUTION \<Rightarrow>
          (case (ac_ref c, ac_order c, ac_order_sha256 c) of
             (Some r, Some i, Some d) \<Rightarrow>
               Inr (JObj (command_common c @
                 [(''ancestry_order_id'', economic_id_document i),
                  (''ancestry_order_sha256'', digest_json d),
                  (''target'', JObj
                    [(''fill_id'', economic_id_document (op_fill r)),
                     (''fill_sha256'', digest_json (op_sha256 r)),
                     (''kind'', JStr (target_value (ac_target c))),
                     (''processing_outcome_sha256'', digest_json (op_outcome_sha256 r))])]))
           | _ \<Rightarrow> Inl AssertionError))"

definition adjustment_command_bytes :: "adjustment_command \<Rightarrow> string result" where
  "adjustment_command_bytes c =
     bind_res (adjustment_command_document c) (\<lambda>d. bounded_payload (json_bytes d))"

definition adjustment_command_digest :: "stdlib \<Rightarrow> adjustment_command \<Rightarrow> sha256_digest result" where
  "adjustment_command_digest std c =
     bind_res (adjustment_command_bytes c) (\<lambda>p.
       Inr (framed_digest (hexdigest std) ''ea.reconciliation-adjustment-command.v1'' p))"

section \<open>Exact differences\<close>

definition rstrip_char :: "char \<Rightarrow> string \<Rightarrow> string" where
  "rstrip_char c s = rev (dropWhile (\<lambda>d. d = c) (rev s))"

text \<open>\<open>_scaled_decimal_text\<close>.\<close>

definition scaled_decimal_text :: "int \<Rightarrow> nat \<Rightarrow> string" where
  "scaled_decimal_text c s =
     (if c = 0 then ''0''
      else let d0 = nat_str (nat \<bar>c\<bar>);
               d1 = replicate (s + 1 - length d0) (CHR ''0'') @ d0;
               cut = length d1 - s;
               d2 = (if s \<noteq> 0
                     then rstrip_char (CHR ''.'') (rstrip_char (CHR ''0'') (take cut d1 @ ''.'' @ drop cut d1))
                     else d1)
           in if d2 = ''0'' then ''0'' else (if c < 0 then ''-'' else []) @ d2)"

definition subtract_decimal ::
  "canonical_decimal \<Rightarrow> canonical_decimal \<Rightarrow> canonical_decimal result" where
  "subtract_decimal a b =
     (let s = max (scale a) (scale b);
          c = coefficient a * 10 ^ (s - scale a) - coefficient b * 10 ^ (s - scale b)
      in map_exn (economic_to (ReconciliationContractError OUT_OF_RANGE))
           (canonical_decimal (scaled_decimal_text c s)))"

definition negated_decimal :: "canonical_decimal \<Rightarrow> canonical_decimal result" where
  "negated_decimal d =
     (if coefficient d = 0 then canonical_decimal ''0''
      else if prefix ''-'' (dec_text d) then canonical_decimal (drop 1 (dec_text d))
      else canonical_decimal (''-'' @ dec_text d))"

section \<open>The transaction factory\<close>

definition currency_quantums :: "spec_set \<Rightarrow> settlement_currency \<Rightarrow> canonical_decimal list" where
  "currency_quantums ss y =
     remdups (map currency_quantum (filter (\<lambda>s. settlement_currency s = y) (specifications ss)))"

text \<open>The grid, commodity and account pair of a correction target.\<close>

definition correction_target ::
  "spec_set \<Rightarrow> reconciliation_transaction
   \<Rightarrow> (canonical_decimal \<times> ledger_commodity \<times> ledger_account_kind list) result" where
  "correction_target ss t =
     guard_res (rt_open_ref t \<noteq> None \<or> rt_target t = OPEN_RECONCILIATION_REF)
       (ReconciliationContractError CONFLICTING_ID)
     (if rt_target t = INSTRUMENT_POSITION
      then (case (rt_instrument t, rt_currency t) of
          (Some i, None) \<Rightarrow>
            bind_res (map_exn (economic_to (ReconciliationContractError CONFLICTING_ID)) (require_spec ss i))
              (\<lambda>s. Inr (quantity_quantum s, InstrumentCommodity i, [PORTFOLIO_POSITION, EXTERNAL_INVENTORY]))
        | _ \<Rightarrow> Inl (ReconciliationContractError CONFLICTING_ID))
      else (case (rt_instrument t, rt_currency t) of
          (None, Some y) \<Rightarrow>
            (case currency_quantums ss y of
               [q] \<Rightarrow> Inr (q, CurrencyCommodity y, [PORTFOLIO_CASH, EXTERNAL_SETTLEMENT])
             | _ \<Rightarrow> Inl (ReconciliationContractError CONFLICTING_ID))
        | _ \<Rightarrow> Inl (ReconciliationContractError CONFLICTING_ID)))"

definition correction_amount ::
  "canonical_decimal \<Rightarrow> canonical_decimal option \<Rightarrow> canonical_decimal result" where
  "correction_amount q a =
     (case a of
        None \<Rightarrow> Inl (ReconciliationContractError INVALID_TYPE)
      | Some v \<Rightarrow> map_exn reconciliation_translate (require_quantized v q))"

text \<open>\<open>_require_balance_correction_fields\<close>.\<close>

definition require_balance_correction :: "spec_set \<Rightarrow> reconciliation_transaction \<Rightarrow> unit result" where
  "require_balance_correction ss t =
     bind_res (correction_target ss t) (\<lambda>(quantum, target_commodity, accounts).
     bind_res (correction_amount quantum (rt_local t)) (\<lambda>local_amount.
     bind_res (correction_amount quantum (rt_observed t)) (\<lambda>observed_amount.
     bind_res (canonical_decimal ''0'') (\<lambda>zero.
     (case rt_delta t of
        None \<Rightarrow> Inl (ReconciliationContractError CONFLICTING_ID)
      | Some delta \<Rightarrow>
          guard_res (delta = zero) (ReconciliationContractError CONFLICTING_ID)
         (bind_res (map_exn reconciliation_translate (require_quantized delta quantum)) (\<lambda>_.
          bind_res (subtract_decimal observed_amount local_amount) (\<lambda>difference.
          guard_res (delta \<noteq> difference) (ReconciliationContractError CONFLICTING_ID)
         (guard_res (length (rt_postings t) \<noteq> 2 \<or> map account (rt_postings t) \<noteq> accounts)
            (ReconciliationContractError CONFLICTING_ID)
         (guard_res (list_ex (\<lambda>p. commodity p \<noteq> target_commodity) (rt_postings t))
            (ReconciliationContractError CONFLICTING_ID)
         (bind_res (if po_amount (rt_postings t ! 0) \<noteq> delta then Inr True
             else bind_res (negated_decimal delta) (\<lambda>n. Inr (po_amount (rt_postings t ! 1) \<noteq> n)))
            (\<lambda>conflict.
          guard_res conflict (ReconciliationContractError CONFLICTING_ID)
         (guard_res (\<not> postings_sum_to_zero (rt_postings t)) (reconciliation_fail LEDGER_UNBALANCED)
            (Inr ()))))))))))))))"

definition reconciliation_transaction_bytes ::
  "stdlib \<Rightarrow> reconciliation_transaction \<Rightarrow> string result" where
  "reconciliation_transaction_bytes std t =
     bounded_payload (json_bytes (reconciliation_transaction_document std t))"

text \<open>\<open>_create_reconciliation_transaction\<close>: the checks on the fields in the order of the code.\<close>

definition create_reconciliation_transaction ::
  "stdlib \<Rightarrow> spec_set \<Rightarrow> reconciliation_transaction \<Rightarrow> reconciliation_transaction result" where
  "create_reconciliation_transaction std ss t0 =
     (let t = t0\<lparr>rt_set_id := set_identifier ss,
                 rt_set_sha256 := instrument_spec_set_digest (hexdigest std) ss\<rparr>
      in guard_res (owner_kind (rt_entry t) \<noteq> LEDGER_ENTRY) (ReconciliationContractError INVALID_TYPE)
        (guard_res (run_id (rt_entry t) \<noteq> rt_run t \<or> owner_sequence (rt_entry t) \<noteq> rt_sequence t
            \<or> rt_sequence t < 1) (ReconciliationContractError CONFLICTING_ID)
        (guard_res (owner_kind (rt_adjustment t) \<noteq> RECONCILIATION_ADJUSTMENT
            \<or> run_id (rt_adjustment t) \<noteq> rt_run t) (ReconciliationContractError CONFLICTING_ID)
        (guard_res ((rt_previous t = None) \<noteq> (rt_sequence t = 1))
            (ReconciliationContractError CONFLICTING_ID)
        (guard_res (rt_available_at t < rt_occurred_at t) (ReconciliationContractError CONFLICTING_ID)
        (bind_res (case rt_variant t of
            BALANCE_CORRECTION \<Rightarrow> require_balance_correction ss t
          | ANCESTRY_RESOLUTION \<Rightarrow>
              (case rt_open_ref t of
                 None \<Rightarrow> Inl (ReconciliationContractError CONFLICTING_ID)
               | Some r \<Rightarrow>
                   guard_res (rt_target t \<noteq> OPEN_RECONCILIATION_REF \<or> run_id (op_fill r) \<noteq> rt_run t
                       \<or> rt_instrument t \<noteq> None \<or> rt_currency t \<noteq> None \<or> rt_local t \<noteq> None
                       \<or> rt_observed t \<noteq> None \<or> rt_delta t \<noteq> None \<or> rt_postings t \<noteq> [])
                     (ReconciliationContractError CONFLICTING_ID) (Inr ()))) (\<lambda>_.
         bind_res (reconciliation_transaction_bytes std t) (\<lambda>_. Inr t))))))))"

section \<open>The outcome matrix\<close>

datatype adjustment_result = ADJ_APPLIED | ADJ_DUPLICATE | ADJ_CONFLICT | ADJ_FAILED

fun adjustment_result_value :: "adjustment_result \<Rightarrow> string" where
  "adjustment_result_value ADJ_APPLIED = ''applied''"
| "adjustment_result_value ADJ_DUPLICATE = ''duplicate''"
| "adjustment_result_value ADJ_CONFLICT = ''conflict''"
| "adjustment_result_value ADJ_FAILED = ''failed''"

datatype adjustment_failure = INVALID_COMMAND | STALE_FRONTIER | ARITHMETIC_FAILURE | UNBALANCED

fun adjustment_failure_value :: "adjustment_failure \<Rightarrow> string" where
  "adjustment_failure_value INVALID_COMMAND = ''invalid_command''"
| "adjustment_failure_value STALE_FRONTIER = ''stale_frontier''"
| "adjustment_failure_value ARITHMETIC_FAILURE = ''arithmetic_failure''"
| "adjustment_failure_value UNBALANCED = ''unbalanced''"

datatype adjustment_conflict =
  AUTHORIZATION_ID_COLLISION | ADJUSTMENT_ID_COLLISION | OBSERVATION_ALREADY_CONSUMED
  | ADJUSTMENT_INDEX_INCONSISTENT

fun adjustment_conflict_value :: "adjustment_conflict \<Rightarrow> string" where
  "adjustment_conflict_value AUTHORIZATION_ID_COLLISION = ''authorization_id_collision''"
| "adjustment_conflict_value ADJUSTMENT_ID_COLLISION = ''adjustment_id_collision''"
| "adjustment_conflict_value OBSERVATION_ALREADY_CONSUMED = ''observation_already_consumed''"
| "adjustment_conflict_value ADJUSTMENT_INDEX_INCONSISTENT = ''index_inconsistent''"

record adjustment_outcome =
  jo_run :: run_id
  jo_adjustment :: economic_id
  jo_authorization :: sha256_digest
  jo_observation :: sha256_digest
  jo_outcome :: sha256_digest
  jo_command :: sha256_digest
  jo_result :: adjustment_result
  jo_failure :: "adjustment_failure option"
  jo_conflict :: "adjustment_conflict option"
  jo_entry :: "economic_id option"
  jo_entry_sha256 :: "sha256_digest option"
  jo_before :: sha256_digest
  jo_after :: sha256_digest

definition adjustment_outcome_bytes :: "adjustment_outcome \<Rightarrow> string result" where
  "adjustment_outcome_bytes a = bounded_payload (json_bytes (JObj
     [(''adjustment_command_sha256'', digest_json (jo_command a)),
      (''adjustment_id'', economic_id_document (jo_adjustment a)),
      (''after_snapshot_sha256'', digest_json (jo_after a)),
      (''authorization_sha256'', digest_json (jo_authorization a)),
      (''before_snapshot_sha256'', digest_json (jo_before a)),
      (''canonicalization'', JStr ''ea-canonical-json-v1''),
      (''conflict_kind'', optional_document (\<lambda>k. JStr (adjustment_conflict_value k)) (jo_conflict a)),
      (''failure_kind'', optional_document (\<lambda>k. JStr (adjustment_failure_value k)) (jo_failure a)),
      (''observation_sha256'', digest_json (jo_observation a)),
      (''original_transaction_id'', optional_document economic_id_document (jo_entry a)),
      (''original_transaction_sha256'', optional_document digest_json (jo_entry_sha256 a)),
      (''reconciliation_outcome_sha256'', digest_json (jo_outcome a)),
      (''result'', JStr (adjustment_result_value (jo_result a))),
      (''run_id'', JStr (run_text (jo_run a))),
      (''schema'', JStr ''ea.reconciliation-adjustment-outcome.v1'')]))"

text \<open>The pairing of the original entry with the transaction, when one is given.\<close>

definition original_evidence ::
  "stdlib \<Rightarrow> adjustment_outcome \<Rightarrow> reconciliation_transaction option
   \<Rightarrow> (economic_id option \<times> sha256_digest option) result" where
  "original_evidence std a transaction =
     guard_res (case jo_entry a of None \<Rightarrow> False
         | Some i \<Rightarrow> owner_kind i \<noteq> LEDGER_ENTRY \<or> run_id i \<noteq> jo_run a)
       (ReconciliationContractError CONFLICTING_ID)
    (guard_res ((jo_entry a = None) \<noteq> (jo_entry_sha256 a = None))
       (ReconciliationContractError CONFLICTING_ID)
    (case transaction of
       None \<Rightarrow> Inr (jo_entry a, jo_entry_sha256 a)
     | Some t \<Rightarrow>
         bind_res (reconciliation_transaction_bytes std t) (\<lambda>_.
         let sha = reconciliation_transaction_digest std t
         in guard_res (jo_entry a \<noteq> None
                \<and> (jo_entry a \<noteq> Some (rt_entry t) \<or> jo_entry_sha256 a \<noteq> Some sha))
              (ReconciliationContractError CONFLICTING_ID) (Inr (Some (rt_entry t), Some sha)))))"

definition adjustment_fields_ok ::
  "adjustment_outcome \<Rightarrow> reconciliation_transaction option \<Rightarrow> bool" where
  "adjustment_fields_ok a transaction =
     (case jo_result a of
        ADJ_APPLIED \<Rightarrow> jo_entry a \<noteq> None \<and> jo_failure a = None \<and> jo_conflict a = None
          \<and> (case transaction of None \<Rightarrow> True | Some t \<Rightarrow>
               rt_adjustment t = jo_adjustment a \<and> rt_authorization_sha256 t = jo_authorization a
               \<and> rt_observation_sha256 t = jo_observation a \<and> rt_outcome_sha256 t = jo_outcome a
               \<and> rt_command_sha256 t = jo_command a)
      | ADJ_DUPLICATE \<Rightarrow> jo_entry a \<noteq> None \<and> jo_failure a = None \<and> jo_conflict a = None
          \<and> jo_before a = jo_after a
          \<and> (case transaction of None \<Rightarrow> True | Some t \<Rightarrow> rt_adjustment t = jo_adjustment a)
      | ADJ_CONFLICT \<Rightarrow> transaction = None \<and> jo_entry a = None \<and> jo_failure a = None
          \<and> jo_conflict a \<noteq> None \<and> jo_before a = jo_after a
      | ADJ_FAILED \<Rightarrow> transaction = None \<and> jo_entry a = None \<and> jo_failure a \<noteq> None
          \<and> jo_conflict a = None \<and> jo_before a = jo_after a)"

text \<open>\<open>_create_reconciliation_adjustment_outcome\<close>.\<close>

definition create_adjustment_outcome ::
  "stdlib \<Rightarrow> reconciliation_transaction option \<Rightarrow> adjustment_outcome \<Rightarrow> adjustment_outcome result" where
  "create_adjustment_outcome std transaction a0 =
     guard_res (owner_kind (jo_adjustment a0) \<noteq> RECONCILIATION_ADJUSTMENT
         \<or> run_id (jo_adjustment a0) \<noteq> jo_run a0) (ReconciliationContractError CONFLICTING_ID)
    (bind_res (original_evidence std a0 transaction) (\<lambda>(entry, sha).
     let a = a0\<lparr>jo_entry := entry, jo_entry_sha256 := sha\<rparr>
     in guard_res (\<not> adjustment_fields_ok a transaction) (ReconciliationContractError CONFLICTING_ID)
       (bind_res (adjustment_outcome_bytes a) (\<lambda>_. Inr a))))"

end
