(* ===== verification/Portfolio_Ledger.thy ===== *)
theory Portfolio_Ledger
  imports Reconciliation
begin

text \<open>
  \<open>ea.portfolio.ledger\<close>: the single in-memory authority of cash, positions and
  rounding. An operation is first planned on the current state and only a
  completed plan is stored, as the code assigns \<open>_state\<close> in its last
  statement; an exception leaves the state as it was. Dictionaries that are only
  looked up are maps; those whose items are enumerated into a snapshot are
  association lists.
\<close>

section \<open>State\<close>

record handoff_binding =
  hb_command_sha256 :: sha256_digest
  hb_processing_sha256 :: sha256_digest
  hb_fill_sha256 :: sha256_digest
  hb_outcome :: apply_outcome
  hb_outcome_bytes :: string
  hb_tx_sha256 :: sha256_digest
  hb_before_sha256 :: sha256_digest
  hb_after_sha256 :: sha256_digest

record funding_binding =
  fb_bytes :: string
  fb_outcome :: funding_outcome

record ledger_state =
  ls_cash :: "(settlement_currency \<times> canonical_decimal) list"
  ls_positions :: "(instrument \<times> canonical_decimal) list"
  ls_rounding :: "(settlement_currency \<times> canonical_decimal) list"
  ls_unresolved :: "(economic_id \<times> unresolved_ref) list"
  ls_fill_index :: "economic_id \<rightharpoonup> ledger_binding"
  ls_fact_index :: "fact_dedup_key \<rightharpoonup> ledger_binding"
  ls_entry_index :: "economic_id \<rightharpoonup> portfolio_transaction"
  ls_transactions :: "portfolio_transaction list"
  ls_funding :: "funding_binding option"
  ls_open_bindings :: "(economic_id \<times> ledger_binding) list"
  ls_open_refs :: "(economic_id \<times> open_ref) list"
  ls_handoff_index :: "sha256_digest \<rightharpoonup> handoff_binding"
  ls_authorization_index :: "sha256_digest \<rightharpoonup> sha256_digest"
  ls_adjustment_index :: "economic_id \<rightharpoonup> sha256_digest"
  ls_observation_index :: "sha256_digest \<rightharpoonup> economic_id"
  ls_command_index :: "sha256_digest \<rightharpoonup> adjustment_outcome"
  ls_adjustment_outcomes :: "sha256_digest \<rightharpoonup> adjustment_outcome"
  ls_snapshot :: snapshot

record ledger =
  lg_run :: run_id
  lg_specs :: spec_set
  lg_specs_sha256 :: sha256_digest
  lg_quanta :: "(settlement_currency \<times> canonical_decimal) list"
  lg_by_instrument :: "(instrument \<times> execution_spec) list"
  lg_state :: ledger_state

text \<open>\<open>PortfolioLedgerError(code)\<close>: the constructor admits the closed set of codes only.\<close>

definition ledger_fail :: "outcome_code \<Rightarrow> exn" where
  "ledger_fail c = (if c \<in> set LEDGER_ERROR_CODES then PortfolioLedgerError c else TypeError)"

text \<open>\<open>try: x = r  except EconomicValidationError: handled\<close> around the continuation.\<close>

fun on_economic :: "'a result \<Rightarrow> (outcome_code \<Rightarrow> 'b result) \<Rightarrow> ('a \<Rightarrow> 'b result) \<Rightarrow> 'b result" where
  "on_economic (Inl (EconomicValidationError c)) handled k = handled c"
| "on_economic (Inl e) handled k = Inl e"
| "on_economic (Inr x) handled k = k x"

section \<open>Creation\<close>

fun index_specs ::
  "(settlement_currency \<times> canonical_decimal) list \<Rightarrow> (instrument \<times> execution_spec) list
   \<Rightarrow> execution_spec list
   \<Rightarrow> ((settlement_currency \<times> canonical_decimal) list \<times> (instrument \<times> execution_spec) list) result" where
  "index_specs quanta specs [] = Inr (quanta, specs)"
| "index_specs quanta specs (s # ss) =
     guard_res (case map_of quanta (settlement_currency s) of
         None \<Rightarrow> False | Some q \<Rightarrow> q \<noteq> currency_quantum s) ledger_conflict
       (index_specs (AList.update (settlement_currency s) (currency_quantum s) quanta)
          (AList.update (spec_instrument s) s specs) ss)"

definition create_portfolio_ledger :: "stdlib \<Rightarrow> run_id \<Rightarrow> spec_set \<Rightarrow> ledger result" where
  "create_portfolio_ledger std run ss =
     bind_res (index_specs [] [] (specifications ss)) (\<lambda>(quanta, by_instrument).
     let sha = instrument_spec_set_digest (hexdigest std) ss
     in bind_res (make_snapshot \<lparr>sn_run = run, sn_set_id = set_identifier ss, sn_set_sha256 = sha,
          sn_version = 0, sn_sequence = 0, sn_last_entry = None, sn_last_sha256 = None,
          sn_cash = [], sn_positions = [], sn_rounding = [], sn_unresolved = [],
          sn_open_bindings = [], sn_open_refs = []\<rparr>) (\<lambda>initial.
        Inr \<lparr>lg_run = run, lg_specs = ss, lg_specs_sha256 = sha, lg_quanta = quanta,
          lg_by_instrument = by_instrument,
          lg_state = \<lparr>ls_cash = [], ls_positions = [], ls_rounding = [], ls_unresolved = [],
            ls_fill_index = Map.empty, ls_fact_index = Map.empty, ls_entry_index = Map.empty,
            ls_transactions = [], ls_funding = None, ls_open_bindings = [], ls_open_refs = [],
            ls_handoff_index = Map.empty, ls_authorization_index = Map.empty,
            ls_adjustment_index = Map.empty, ls_observation_index = Map.empty,
            ls_command_index = Map.empty, ls_adjustment_outcomes = Map.empty,
            ls_snapshot = initial\<rparr>\<rparr>))"

section \<open>Exact decimal arithmetic\<close>

definition add_decimal :: "canonical_decimal \<Rightarrow> canonical_decimal \<Rightarrow> canonical_decimal result" where
  "add_decimal a b =
     (let s = max (scale a) (scale b);
          c = coefficient a * 10 ^ (s - scale a) + coefficient b * 10 ^ (s - scale b)
      in canonical_decimal (scaled_text c s))"

definition signed_decimal :: "canonical_decimal \<Rightarrow> int \<Rightarrow> canonical_decimal result" where
  "signed_decimal v sign =
     guard_res (sign \<noteq> -1 \<and> sign \<noteq> 1) AssertionError
       (canonical_decimal (scaled_text (coefficient v * sign) (scale v)))"

definition next_balance ::
  "canonical_decimal option \<Rightarrow> canonical_decimal \<Rightarrow> canonical_decimal result" where
  "next_balance current delta = (case current of None \<Rightarrow> Inr delta | Some v \<Rightarrow> add_decimal v delta)"

definition assign_nonzero ::
  "('k \<times> canonical_decimal) list \<Rightarrow> 'k \<Rightarrow> canonical_decimal \<Rightarrow> ('k \<times> canonical_decimal) list" where
  "assign_nonzero m k v = (if coefficient v = 0 then AList.delete k m else AList.update k v m)"

section \<open>Postings of a fill\<close>

definition optional_posting ::
  "ledger_account_kind \<Rightarrow> ledger_commodity \<Rightarrow> canonical_decimal \<Rightarrow> posting list result" where
  "optional_posting a c v =
     (if coefficient v \<noteq> 0 then bind_res (make_posting a c v) (\<lambda>p. Inr [p]) else Inr [])"

definition fill_postings ::
  "instrument \<Rightarrow> settlement_currency \<Rightarrow> canonical_decimal \<Rightarrow> canonical_decimal \<Rightarrow> canonical_decimal
   \<Rightarrow> canonical_decimal \<Rightarrow> canonical_decimal \<Rightarrow> posting list result" where
  "fill_postings i y position_delta cash_delta external_notional rounding_delta commission =
     bind_res (make_posting PORTFOLIO_POSITION (InstrumentCommodity i) position_delta) (\<lambda>p0.
     bind_res (signed_decimal position_delta (-1)) (\<lambda>opposite.
     bind_res (make_posting EXTERNAL_INVENTORY (InstrumentCommodity i) opposite) (\<lambda>p1.
     bind_res (optional_posting PORTFOLIO_CASH (CurrencyCommodity y) cash_delta) (\<lambda>p2.
     bind_res (optional_posting EXTERNAL_SETTLEMENT (CurrencyCommodity y) external_notional) (\<lambda>p3.
     bind_res (optional_posting PORTFOLIO_ROUNDING (CurrencyCommodity y) rounding_delta) (\<lambda>p4.
     bind_res (optional_posting COMMISSION_EXPENSE (CurrencyCommodity y) commission) (\<lambda>p5.
       Inr ([p0, p1] @ p2 @ p3 @ p4 @ p5))))))))"

definition binding_for :: "stdlib \<Rightarrow> ledger_transaction \<Rightarrow> ledger_binding result" where
  "binding_for std t =
     make_binding (lt_entry t) (lt_fill t) (lt_fill_sha256 t) (ledger_transaction_digest std t)"

section \<open>Snapshots of the next state\<close>

fun make_cash_balances ::
  "ledger \<Rightarrow> (settlement_currency \<times> canonical_decimal) list \<Rightarrow> cash_balance list result" where
  "make_cash_balances l [] = Inr []"
| "make_cash_balances l ((y, v) # rest) =
     (case map_of (lg_quanta l) y of
        None \<Rightarrow> Inl KeyError
      | Some q \<Rightarrow> bind_res (make_cash_balance y q v) (\<lambda>b.
          bind_res (make_cash_balances l rest) (\<lambda>bs. Inr (b # bs))))"

fun make_position_balances ::
  "ledger \<Rightarrow> (instrument \<times> canonical_decimal) list \<Rightarrow> position_balance list result" where
  "make_position_balances l [] = Inr []"
| "make_position_balances l ((i, v) # rest) =
     (case map_of (lg_by_instrument l) i of
        None \<Rightarrow> Inl KeyError
      | Some s \<Rightarrow> bind_res (make_position_balance i (quantity_quantum s) v) (\<lambda>b.
          bind_res (make_position_balances l rest) (\<lambda>bs. Inr (b # bs))))"

fun make_rounding_balances ::
  "(settlement_currency \<times> canonical_decimal) list \<Rightarrow> rounding_balance list result" where
  "make_rounding_balances [] = Inr []"
| "make_rounding_balances ((y, v) # rest) =
     bind_res (make_rounding_balance y v) (\<lambda>b.
       bind_res (make_rounding_balances rest) (\<lambda>bs. Inr (b # bs)))"

definition by_identity :: "(economic_id \<times> 'v) list \<Rightarrow> 'v list" where
  "by_identity m = map snd (sort_key (economic_id_key \<circ> fst) m)"

text \<open>\<open>_snapshot\<close>, over the parts of the next state.\<close>

definition next_snapshot ::
  "ledger \<Rightarrow> int \<Rightarrow> economic_id \<Rightarrow> sha256_digest
   \<Rightarrow> (settlement_currency \<times> canonical_decimal) list \<Rightarrow> (instrument \<times> canonical_decimal) list
   \<Rightarrow> (settlement_currency \<times> canonical_decimal) list \<Rightarrow> (economic_id \<times> unresolved_ref) list
   \<Rightarrow> (economic_id \<times> ledger_binding) list \<Rightarrow> (economic_id \<times> open_ref) list \<Rightarrow> snapshot result" where
  "next_snapshot l sequence entry sha cash positions rounding unresolved bindings refs =
     bind_res (make_cash_balances l (sort_key (currency_code \<circ> fst) cash)) (\<lambda>cs.
     bind_res (make_position_balances l (sort_key (instrument_key \<circ> fst) positions)) (\<lambda>ps.
     bind_res (make_rounding_balances (sort_key (currency_code \<circ> fst) rounding)) (\<lambda>rs.
       make_snapshot \<lparr>sn_run = lg_run l, sn_set_id = set_identifier (lg_specs l),
         sn_set_sha256 = lg_specs_sha256 l, sn_version = sequence, sn_sequence = sequence,
         sn_last_entry = Some entry, sn_last_sha256 = Some sha, sn_cash = cs, sn_positions = ps,
         sn_rounding = rs, sn_unresolved = by_identity unresolved,
         sn_open_bindings = by_identity bindings, sn_open_refs = by_identity refs\<rparr>)))"

section \<open>Outcomes that change nothing\<close>

definition unchanged_outcome ::
  "ledger \<Rightarrow> fill \<Rightarrow> sha256_digest \<Rightarrow> outcome_code \<Rightarrow> apply_outcome" where
  "unchanged_outcome l f sha code =
     (let n = ls_snapshot (lg_state l)
      in \<lparr>ao_run = lg_run l, ao_code = code, ao_before = sn_version n, ao_after = sn_version n,
         ao_snapshot = n, ao_transaction = None, ao_fill = fl_id f, ao_fill_sha256 = sha,
         ao_conflict = None, ao_entry_binding = None, ao_fill_binding = None,
         ao_fact_binding = None, ao_stage = None\<rparr>)"

definition conflict_outcome ::
  "ledger \<Rightarrow> fill \<Rightarrow> sha256_digest \<Rightarrow> ledger_conflict_kind \<Rightarrow> ledger_binding option
   \<Rightarrow> ledger_binding option \<Rightarrow> ledger_binding option \<Rightarrow> (ledger_state \<times> apply_outcome) result" where
  "conflict_outcome l f sha kind entry_binding fill_binding fact_binding =
     bind_res (create_apply_outcome ((unchanged_outcome l f sha LEDGER_CONFLICT)
         \<lparr>ao_conflict := Some kind, ao_entry_binding := entry_binding,
          ao_fill_binding := fill_binding, ao_fact_binding := fact_binding\<rparr>))
       (\<lambda>a. Inr (lg_state l, a))"

definition failure_outcome ::
  "ledger \<Rightarrow> fill \<Rightarrow> sha256_digest \<Rightarrow> outcome_code \<Rightarrow> ledger_failure_stage
   \<Rightarrow> (ledger_state \<times> apply_outcome) result" where
  "failure_outcome l f sha code stage =
     bind_res (create_apply_outcome ((unchanged_outcome l f sha code)\<lparr>ao_stage := Some stage\<rparr>))
       (\<lambda>a. Inr (lg_state l, a))"

text \<open>\<open>_classify_replay\<close>: the answer for a fill whose identity or fact key is indexed.\<close>

definition classify_replay ::
  "stdlib \<Rightarrow> ledger \<Rightarrow> fill \<Rightarrow> sha256_digest \<Rightarrow> ledger_binding option \<Rightarrow> ledger_binding option
   \<Rightarrow> (ledger_state \<times> apply_outcome) option result" where
  "classify_replay std l f sha fill_binding fact_binding =
     (case (fill_binding, fact_binding) of
        (None, None) \<Rightarrow> Inr None
      | (Some b, None) \<Rightarrow>
          bind_res (conflict_outcome l f sha
            (if bi_fill_sha256 b \<noteq> sha then FILL_ID_COLLISION else INDEX_INCONSISTENT)
            None (Some b) None) (\<lambda>a. Inr (Some a))
      | (None, Some b) \<Rightarrow>
          bind_res (conflict_outcome l f sha
            (if bi_fill_sha256 b \<noteq> sha then FACT_KEY_COLLISION else INDEX_INCONSISTENT)
            None None (Some b)) (\<lambda>a. Inr (Some a))
      | (Some b, Some b') \<Rightarrow>
          if bi_entry b \<noteq> bi_entry b'
          then bind_res (conflict_outcome l f sha CROSS_INDEX_COLLISION None (Some b) (Some b'))
                 (\<lambda>a. Inr (Some a))
          else if b \<noteq> b'
          then bind_res (conflict_outcome l f sha INDEX_INCONSISTENT None (Some b) (Some b'))
                 (\<lambda>a. Inr (Some a))
          else
            (case ls_entry_index (lg_state l) (bi_entry b) of
               Some (FillEntry t) \<Rightarrow>
                 bind_res (binding_for std t) (\<lambda>bound.
                 if bound \<noteq> b
                 then bind_res (conflict_outcome l f sha INDEX_INCONSISTENT None (Some b) (Some b'))
                        (\<lambda>a. Inr (Some a))
                 else if bi_fill_sha256 b = sha
                 then bind_res (create_apply_outcome ((unchanged_outcome l f sha LEDGER_DUPLICATE)
                          \<lparr>ao_transaction := Some t\<rparr>)) (\<lambda>a. Inr (Some (lg_state l, a)))
                 else bind_res (conflict_outcome l f sha FILL_AND_FACT_COLLISION None (Some b) (Some b'))
                        (\<lambda>a. Inr (Some a)))
             | _ \<Rightarrow> bind_res (conflict_outcome l f sha INDEX_INCONSISTENT None (Some b) (Some b'))
                     (\<lambda>a. Inr (Some a))))"

section \<open>A new fill\<close>

definition expected_fee :: "execution_spec \<Rightarrow> fill \<Rightarrow> fee_entry \<Rightarrow> canonical_decimal result" where
  "expected_fee s f fee =
     (case fee_bps fee of
        None \<Rightarrow> canonical_decimal ''0''
      | Some b \<Rightarrow> commission_amount (fl_price f) (fl_quantity f) (contract_multiplier s) b
                   (currency_quantum s))"

definition require_specification :: "ledger \<Rightarrow> fill \<Rightarrow> execution_spec result" where
  "require_specification l f =
     bind_res (map_exn translate_economic_error (require_spec (lg_specs l) (fl_instrument f))) (\<lambda>s.
     guard_res (fl_spec_id f \<noteq> specification_id s \<or> fl_set_id f \<noteq> set_identifier (lg_specs l)
         \<or> fl_set_sha256 f \<noteq> lg_specs_sha256 l) ledger_conflict
    (bind_res (map_exn translate_economic_error
         (validate_execution_inputs (lg_specs l) (fl_instrument f) (fl_price f) (fl_quantity f)))
       (\<lambda>validated.
     guard_res (validated \<noteq> s) AssertionError
    (case fl_fees f of
       [fee] \<Rightarrow>
         guard_res (fee_currency fee \<noteq> settlement_currency s) ledger_conflict
        (bind_res (expected_fee s f fee) (\<lambda>expected.
         guard_res (fee_amount fee \<noteq> expected) ledger_conflict
        (bind_res (map_exn translate_economic_error
            (require_quantized (fee_amount fee) (currency_quantum s))) (\<lambda>_. Inr s))))
     | _ \<Rightarrow> Inl (PortfolioLedgerError INVALID_TYPE)))))"

record fill_movement =
  mv_currency :: settlement_currency
  mv_position :: canonical_decimal
  mv_cash :: canonical_decimal
  mv_rounding :: canonical_decimal
  mv_postings :: "posting list"

record handoff_request =
  hr_requires_reconciliation :: bool
  hr_processing_sha256 :: sha256_digest
  hr_handoff_sha256 :: sha256_digest
  hr_command_sha256 :: sha256_digest

fun side_sign :: "order_side \<Rightarrow> int" where
  "side_sign BUY = 1"
| "side_sign SELL = -1"

text \<open>The settlement, the three deltas and the postings.\<close>

definition fill_moves ::
  "stdlib \<Rightarrow> ledger \<Rightarrow> fill \<Rightarrow> sha256_digest \<Rightarrow> (fill_movement \<Rightarrow> (ledger_state \<times> apply_outcome) result)
   \<Rightarrow> (ledger_state \<times> apply_outcome) result" where
  "fill_moves std l f sha k =
     on_economic (settle_execution (hexdigest std) (lg_specs l) (fl_instrument f) (fl_price f) (fl_quantity f))
       (\<lambda>c. if c = ARITHMETIC_OVERFLOW
            then failure_outcome l f sha ARITHMETIC_OVERFLOW SETTLEMENT_ARITHMETIC_OVERFLOW
            else if c = ROUNDING_UNREPRESENTABLE
            then failure_outcome l f sha ROUNDING_UNREPRESENTABLE SETTLEMENT_ROUNDING_UNREPRESENTABLE
            else Inl (translate_economic_error (EconomicValidationError c)))
       (\<lambda>settlement.
     on_economic (add_decimal (es_amount settlement) (es_rounding_residual settlement))
       (\<lambda>_. failure_outcome l f sha ARITHMETIC_OVERFLOW EXACT_NOTIONAL_OVERFLOW)
       (\<lambda>exact_notional.
     let sign = side_sign (fl_side f); fee = fee_amount (fl_fees f ! 0)
     in bind_res (signed_decimal (fl_quantity f) sign) (\<lambda>position_delta.
     on_economic
       (bind_res (signed_decimal (es_amount settlement) (- sign)) (\<lambda>a.
          bind_res (signed_decimal fee (-1)) (\<lambda>b. add_decimal a b)))
       (\<lambda>_. failure_outcome l f sha ARITHMETIC_OVERFLOW CASH_BALANCE_OVERFLOW)
       (\<lambda>cash_delta.
     bind_res (signed_decimal (es_rounding_residual settlement) (- sign)) (\<lambda>rounding_delta.
     bind_res (signed_decimal exact_notional sign) (\<lambda>external_notional.
     bind_res (fill_postings (fl_instrument f) (es_currency settlement) position_delta cash_delta
                 external_notional rounding_delta fee) (\<lambda>ps.
       k \<lparr>mv_currency = es_currency settlement, mv_position = position_delta,
          mv_cash = cash_delta, mv_rounding = rounding_delta, mv_postings = ps\<rparr>)))))))"

text \<open>The next balances, checked in the order of the code.\<close>

definition fill_balances ::
  "ledger \<Rightarrow> fill \<Rightarrow> sha256_digest \<Rightarrow> fill_movement
   \<Rightarrow> (canonical_decimal \<Rightarrow> canonical_decimal \<Rightarrow> canonical_decimal \<Rightarrow> (ledger_state \<times> apply_outcome) result)
   \<Rightarrow> (ledger_state \<times> apply_outcome) result" where
  "fill_balances l f sha m k =
     (let st = lg_state l
      in on_economic (next_balance (map_of (ls_cash st) (mv_currency m)) (mv_cash m))
        (\<lambda>_. failure_outcome l f sha ARITHMETIC_OVERFLOW CASH_BALANCE_OVERFLOW)
        (\<lambda>next_cash.
      if ls_funding st \<noteq> None \<and> coefficient next_cash < 0
      then failure_outcome l f sha OUT_OF_RANGE INSUFFICIENT_CASH
      else on_economic (next_balance (map_of (ls_positions st) (fl_instrument f)) (mv_position m))
        (\<lambda>_. failure_outcome l f sha ARITHMETIC_OVERFLOW POSITION_BALANCE_OVERFLOW)
        (\<lambda>next_position.
      on_economic (next_balance (map_of (ls_rounding st) (mv_currency m)) (mv_rounding m))
        (\<lambda>_. failure_outcome l f sha ROUNDING_UNREPRESENTABLE ROUNDING_BALANCE_OVERFLOW)
        (\<lambda>next_rounding.
      if \<not> postings_sum_to_zero (mv_postings m)
      then failure_outcome l f sha LEDGER_UNBALANCED COMMODITY_UNBALANCED
      else k next_cash next_position next_rounding))))"

definition missing_ancestry :: "fill \<Rightarrow> bool" where
  "missing_ancestry f \<longleftrightarrow> fl_order f = None \<or> fl_correlation f = None \<or> fl_causation f = None"

text \<open>The flag of the transaction; the audited path may raise it but not clear it.\<close>

definition reconciliation_flag :: "fill \<Rightarrow> handoff_request option \<Rightarrow> bool result" where
  "reconciliation_flag f h =
     (case h of
        None \<Rightarrow> Inr (missing_ancestry f)
      | Some r \<Rightarrow> guard_res (missing_ancestry f \<and> \<not> hr_requires_reconciliation r) AssertionError
                   (Inr (hr_requires_reconciliation r)))"

definition previous_digest :: "stdlib \<Rightarrow> ledger_state \<Rightarrow> sha256_digest option" where
  "previous_digest std st =
     (if ls_transactions st = [] then None
      else Some (transaction_digest std (last (ls_transactions st))))"

text \<open>The transaction, the next references, the next snapshot, the outcome and the commit.\<close>

definition fill_transaction ::
  "stdlib \<Rightarrow> ledger \<Rightarrow> fill \<Rightarrow> sha256_digest \<Rightarrow> economic_id \<Rightarrow> posting list \<Rightarrow> bool \<Rightarrow> ledger_transaction" where
  "fill_transaction std l f sha entry ps flag =
     \<lparr>lt_run = lg_run l, lt_entry = entry, lt_sequence = owner_sequence entry, lt_fill = fl_id f,
      lt_fill_sha256 = sha, lt_fact_key = fact_key f, lt_provenance = fl_provenance f,
      lt_occurred_at = fl_occurred_at f, lt_order = fl_order f, lt_correlation = fl_correlation f,
      lt_causation = fl_causation f, lt_submission_key = fl_submission_key f,
      lt_venue_order = fl_venue_order f, lt_spec_id = fl_spec_id f, lt_set_id = fl_set_id f,
      lt_set_sha256 = fl_set_sha256 f, lt_previous = previous_digest std (lg_state l),
      lt_postings = ps, lt_reconcile = flag\<rparr>"

definition next_unresolved :: "ledger_state \<Rightarrow> fill \<Rightarrow> sha256_digest \<Rightarrow> (economic_id \<times> unresolved_ref) list result" where
  "next_unresolved st f sha =
     (if missing_ancestry f
      then bind_res (make_unresolved_ref (fl_id f) sha) (\<lambda>u. Inr (AList.update (fl_id f) u (ls_unresolved st)))
      else Inr (ls_unresolved st))"

definition next_open ::
  "ledger_state \<Rightarrow> fill \<Rightarrow> sha256_digest \<Rightarrow> handoff_request option \<Rightarrow> economic_id \<Rightarrow> sha256_digest
   \<Rightarrow> ((economic_id \<times> ledger_binding) list \<times> (economic_id \<times> open_ref) list) result" where
  "next_open st f sha h entry tx_sha =
     (case h of
        Some r \<Rightarrow>
          if hr_requires_reconciliation r
          then bind_res (make_binding entry (fl_id f) sha tx_sha) (\<lambda>b.
               bind_res (make_open_ref (fl_id f) sha (hr_processing_sha256 r)) (\<lambda>o_ref.
                 Inr (AList.update (fl_id f) b (ls_open_bindings st),
                      AList.update (fl_id f) o_ref (ls_open_refs st))))
          else Inr (ls_open_bindings st, ls_open_refs st)
      | None \<Rightarrow> Inr (ls_open_bindings st, ls_open_refs st))"

definition handoff_entry ::
  "stdlib \<Rightarrow> ledger_state \<Rightarrow> handoff_request \<Rightarrow> sha256_digest \<Rightarrow> sha256_digest \<Rightarrow> apply_outcome
   \<Rightarrow> snapshot \<Rightarrow> handoff_binding" where
  "handoff_entry std st r sha tx_sha outcome n =
     \<lparr>hb_command_sha256 = hr_command_sha256 r, hb_processing_sha256 = hr_processing_sha256 r,
      hb_fill_sha256 = sha, hb_outcome = outcome,
      hb_outcome_bytes = canonical_apply_outcome_bytes std outcome, hb_tx_sha256 = tx_sha,
      hb_before_sha256 = portfolio_snapshot_digest std (ls_snapshot st),
      hb_after_sha256 = portfolio_snapshot_digest std n\<rparr>"

definition record_fill ::
  "stdlib \<Rightarrow> ledger \<Rightarrow> fill \<Rightarrow> sha256_digest \<Rightarrow> handoff_request option \<Rightarrow> economic_id \<Rightarrow> fill_movement
   \<Rightarrow> canonical_decimal \<Rightarrow> canonical_decimal \<Rightarrow> canonical_decimal \<Rightarrow> (ledger_state \<times> apply_outcome) result" where
  "record_fill std l f sha h entry m next_cash next_position next_rounding =
     (let st = lg_state l;
          cash = assign_nonzero (ls_cash st) (mv_currency m) next_cash;
          positions = assign_nonzero (ls_positions st) (fl_instrument f) next_position;
          rounding = assign_nonzero (ls_rounding st) (mv_currency m) next_rounding
      in bind_res (reconciliation_flag f h) (\<lambda>flag.
         bind_res (make_ledger_transaction (fill_transaction std l f sha entry (mv_postings m) flag)) (\<lambda>t.
         let tx_sha = ledger_transaction_digest std t
         in bind_res (next_unresolved st f sha) (\<lambda>unresolved.
            bind_res (next_open st f sha h entry tx_sha) (\<lambda>(bindings, refs).
            bind_res (next_snapshot l (owner_sequence entry) entry tx_sha cash positions rounding
                        unresolved bindings refs) (\<lambda>n.
            bind_res (make_binding entry (fl_id f) sha tx_sha) (\<lambda>b.
            bind_res (create_apply_outcome \<lparr>ao_run = lg_run l, ao_code = LEDGER_APPLIED,
                 ao_before = sn_version (ls_snapshot st), ao_after = owner_sequence entry,
                 ao_snapshot = n, ao_transaction = Some t, ao_fill = fl_id f, ao_fill_sha256 = sha,
                 ao_conflict = None, ao_entry_binding = None, ao_fill_binding = None,
                 ao_fact_binding = None, ao_stage = None\<rparr>) (\<lambda>outcome.
              Inr (st\<lparr>ls_cash := cash, ls_positions := positions, ls_rounding := rounding,
                    ls_unresolved := unresolved,
                    ls_fill_index := (ls_fill_index st)(fl_id f \<mapsto> b),
                    ls_fact_index := (ls_fact_index st)(fact_key f \<mapsto> b),
                    ls_entry_index := (ls_entry_index st)(entry \<mapsto> FillEntry t),
                    ls_transactions := ls_transactions st @ [FillEntry t],
                    ls_open_bindings := bindings, ls_open_refs := refs,
                    ls_handoff_index := (case h of None \<Rightarrow> ls_handoff_index st
                      | Some r \<Rightarrow> (ls_handoff_index st)
                          (hr_handoff_sha256 r \<mapsto> handoff_entry std st r sha tx_sha outcome n)),
                    ls_snapshot := n\<rparr>, outcome)))))))))"

definition apply_new_fill ::
  "stdlib \<Rightarrow> ledger \<Rightarrow> fill \<Rightarrow> sha256_digest \<Rightarrow> handoff_request option
   \<Rightarrow> (ledger_state \<times> apply_outcome) result" where
  "apply_new_fill std l f sha h =
     bind_res (require_specification l f) (\<lambda>_.
     let st = lg_state l; version = sn_version (ls_snapshot st)
     in if version = 2 ^ 64 - 1
        then failure_outcome l f sha OUT_OF_RANGE LEDGER_SEQUENCE_EXHAUSTED
        else bind_res (make_economic_id (lg_run l) LEDGER_ENTRY (version + 1)) (\<lambda>entry.
          case ls_entry_index st entry of
            Some (FillEntry t) \<Rightarrow>
              bind_res (binding_for std t) (\<lambda>b.
                conflict_outcome l f sha ENTRY_ID_OCCUPIED (Some b) None None)
          | Some _ \<Rightarrow> conflict_outcome l f sha INDEX_INCONSISTENT None None None
          | None \<Rightarrow>
              fill_moves std l f sha (\<lambda>m.
                fill_balances l f sha m (\<lambda>next_cash next_position next_rounding.
                  record_fill std l f sha h entry m next_cash next_position next_rounding))))"

section \<open>The operations\<close>

definition plan_fill :: "stdlib \<Rightarrow> ledger \<Rightarrow> fill \<Rightarrow> (ledger_state \<times> apply_outcome) result" where
  "plan_fill std l f =
     guard_res (fl_run f \<noteq> lg_run l) ledger_conflict
     (let sha = fill_digest std f
      in bind_res (classify_replay std l f sha (ls_fill_index (lg_state l) (fl_id f))
             (ls_fact_index (lg_state l) (fact_key f))) (\<lambda>replay.
         case replay of Some a \<Rightarrow> Inr a | None \<Rightarrow> apply_new_fill std l f sha None))"

text \<open>Store the planned state, or keep the present one with the exception.\<close>

definition commit :: "ledger \<Rightarrow> (ledger_state \<times> 'a) result \<Rightarrow> ledger \<times> 'a result" where
  "commit l r = (case r of Inl e \<Rightarrow> (l, Inl e) | Inr (st, a) \<Rightarrow> (l\<lparr>lg_state := st\<rparr>, Inr a))"

definition apply_fill :: "stdlib \<Rightarrow> ledger \<Rightarrow> fill \<Rightarrow> ledger \<times> apply_outcome result" where
  "apply_fill std l f = commit l (plan_fill std l f)"

text \<open>\<open>LedgerApplicationCommand\<close> (\<open>ea.core.ledger_integration\<close>) and its digest.\<close>

record application_command =
  ap_run :: run_id
  ap_dispatch :: int
  ap_handoff_sha256 :: sha256_digest
  ap_processing_sha256 :: sha256_digest
  ap_fill :: economic_id
  ap_fill_sha256 :: sha256_digest
  ap_requires_reconciliation :: bool

definition application_command_bytes :: "application_command \<Rightarrow> string result" where
  "application_command_bytes c =
     (let payload = json_bytes (JObj
        [(''audited_handoff_sha256'', digest_json (ap_handoff_sha256 c)),
         (''canonicalization'', JStr ''ea-canonical-json-v1''),
         (''dispatch_sequence'', JInt (ap_dispatch c)),
         (''fill_id'', economic_id_document (ap_fill c)),
         (''fill_sha256'', digest_json (ap_fill_sha256 c)),
         (''processing_outcome_sha256'', digest_json (ap_processing_sha256 c)),
         (''requires_reconciliation'', JBool (ap_requires_reconciliation c)),
         (''run_id'', JStr (run_text (ap_run c))),
         (''schema'', JStr ''ea.ledger-application-command.v1'')])
      in guard_res (16384 < length payload) (LedgerIntegrationError OUT_OF_RANGE) (Inr payload))"

definition application_command_digest :: "stdlib \<Rightarrow> application_command \<Rightarrow> sha256_digest result" where
  "application_command_digest std c =
     bind_res (application_command_bytes c) (\<lambda>p.
       Inr (framed_digest (hexdigest std) ''ea.ledger-application-command.v1'' p))"

definition plan_command ::
  "stdlib \<Rightarrow> ledger \<Rightarrow> application_command \<Rightarrow> fill \<Rightarrow> (ledger_state \<times> apply_outcome) result" where
  "plan_command std l c f =
     guard_res (ap_run c \<noteq> lg_run l \<or> fl_run f \<noteq> lg_run l) ledger_conflict
     (let sha = fill_digest std f; st = lg_state l
      in guard_res (ap_fill c \<noteq> fl_id f \<or> ap_fill_sha256 c \<noteq> sha) ledger_conflict
        (case ls_handoff_index st (ap_handoff_sha256 c) of
           Some b \<Rightarrow>
             bind_res (application_command_digest std c) (\<lambda>d.
               guard_res (hb_command_sha256 b \<noteq> d) ledger_conflict (Inr (st, hb_outcome b)))
         | None \<Rightarrow>
             (let fill_binding = ls_fill_index st (fl_id f); fact_binding = ls_fact_index st (fact_key f)
              in if fill_binding \<noteq> None \<or> fact_binding \<noteq> None
                 then conflict_outcome l f sha UNBOUND_EXISTING_FILL None fill_binding fact_binding
                 else bind_res (application_command_digest std c) (\<lambda>d.
                   apply_new_fill std l f sha (Some
                     \<lparr>hr_requires_reconciliation = ap_requires_reconciliation c,
                      hr_processing_sha256 = ap_processing_sha256 c,
                      hr_handoff_sha256 = ap_handoff_sha256 c, hr_command_sha256 = d\<rparr>)))))"

definition apply_ledger_application_command ::
  "stdlib \<Rightarrow> ledger \<Rightarrow> application_command \<Rightarrow> fill \<Rightarrow> ledger \<times> apply_outcome result" where
  "apply_ledger_application_command std l c f = commit l (plan_command std l c f)"

definition resolve_handoff_binding :: "ledger \<Rightarrow> sha256_digest \<Rightarrow> handoff_binding option" where
  "resolve_handoff_binding l d = ls_handoff_index (lg_state l) d"

text \<open>The initial funding. Its last check follows the assignment of the state.\<close>

definition funding_checks :: "ledger \<Rightarrow> initial_funding \<Rightarrow> unit result" where
  "funding_checks l f =
     guard_res (fu_run f \<noteq> lg_run l) ledger_conflict
     (case map_of (lg_quanta l) (fu_currency f) of
        None \<Rightarrow> Inl ledger_conflict
      | Some q \<Rightarrow> bind_res (map_exn translate_economic_error (require_quantized (fu_amount f) q)) (\<lambda>_.
          Inr ()))"

definition record_funding ::
  "stdlib \<Rightarrow> ledger \<Rightarrow> initial_funding \<Rightarrow> (ledger_state \<times> funding_outcome) result" where
  "record_funding std l f =
     bind_res (make_economic_id (lg_run l) LEDGER_ENTRY 1) (\<lambda>entry.
     bind_res (make_posting PORTFOLIO_CASH (CurrencyCommodity (fu_currency f)) (fu_amount f)) (\<lambda>p0.
     bind_res (signed_decimal (fu_amount f) (-1)) (\<lambda>opposite.
     bind_res (make_posting EXTERNAL_SETTLEMENT (CurrencyCommodity (fu_currency f)) opposite) (\<lambda>p1.
     bind_res (create_funding_transaction std f entry (set_identifier (lg_specs l)) (lg_specs_sha256 l) [p0, p1])
       (\<lambda>t.
     bind_res (next_snapshot l 1 entry (funding_transaction_digest std t)
         [(fu_currency f, fu_amount f)] [] [] [] [] []) (\<lambda>n.
     bind_res (create_funding_outcome std f LEDGER_APPLIED 0 1 n (Some t) None) (\<lambda>outcome.
       Inr (\<lparr>ls_cash = [(fu_currency f, fu_amount f)], ls_positions = [], ls_rounding = [],
            ls_unresolved = [], ls_fill_index = Map.empty, ls_fact_index = Map.empty,
            ls_entry_index = [entry \<mapsto> Funding t], ls_transactions = [Funding t],
            ls_funding = Some \<lparr>fb_bytes = canonical_initial_funding_bytes f, fb_outcome = outcome\<rparr>,
            ls_open_bindings = [], ls_open_refs = [], ls_handoff_index = Map.empty,
            ls_authorization_index = Map.empty, ls_adjustment_index = Map.empty,
            ls_observation_index = Map.empty, ls_command_index = Map.empty,
            ls_adjustment_outcomes = Map.empty, ls_snapshot = n\<rparr>, outcome))))))))"

definition plan_funding ::
  "stdlib \<Rightarrow> ledger \<Rightarrow> initial_funding \<Rightarrow> (ledger_state \<times> funding_outcome) result" where
  "plan_funding std l f =
     bind_res (funding_checks l f) (\<lambda>_.
     let st = lg_state l; version = sn_version (ls_snapshot st)
     in (case ls_funding st of
           Some existing \<Rightarrow>
             if fb_bytes existing = canonical_initial_funding_bytes f then Inr (st, fb_outcome existing)
             else bind_res (create_funding_outcome std f LEDGER_CONFLICT version version (ls_snapshot st)
                    None (Some (fo_submitted_sha256 (fb_outcome existing)))) (\<lambda>a. Inr (st, a))
         | None \<Rightarrow>
             if sn_sequence (ls_snapshot st) \<noteq> 0
             then bind_res (create_funding_outcome std f LEDGER_CONFLICT version version (ls_snapshot st)
                    None None) (\<lambda>a. Inr (st, a))
             else record_funding std l f))"

definition apply_initial_funding ::
  "stdlib \<Rightarrow> ledger \<Rightarrow> initial_funding \<Rightarrow> ledger \<times> funding_outcome result" where
  "apply_initial_funding std l f =
     (let (l', r) = commit l (plan_funding std l f)
      in (l', bind_res r (\<lambda>outcome.
           guard_res (ls_funding (lg_state l) = None \<and> fo_code outcome = LEDGER_APPLIED
               \<and> initial_funding_digest std f \<noteq> fo_submitted_sha256 outcome) AssertionError
             (Inr outcome))))"

section \<open>Reconciliation adjustments\<close>

definition adjustment_base ::
  "stdlib \<Rightarrow> ledger \<Rightarrow> adjustment_command \<Rightarrow> sha256_digest \<Rightarrow> sha256_digest \<Rightarrow> adjustment_outcome" where
  "adjustment_base std l c command_sha sha =
     (let d = portfolio_snapshot_digest std (ls_snapshot (lg_state l))
      in \<lparr>jo_run = lg_run l, jo_adjustment = ac_adjustment c, jo_authorization = sha,
         jo_observation = ac_observation c, jo_outcome = ac_outcome c, jo_command = command_sha,
         jo_result = ADJ_FAILED, jo_failure = None, jo_conflict = None, jo_entry = None,
         jo_entry_sha256 = None, jo_before = d, jo_after = d\<rparr>)"

definition adjustment_failed ::
  "stdlib \<Rightarrow> ledger \<Rightarrow> adjustment_command \<Rightarrow> sha256_digest \<Rightarrow> adjustment_failure
   \<Rightarrow> (ledger_state \<times> adjustment_outcome) result" where
  "adjustment_failed std l c sha failure =
     bind_res (adjustment_command_digest std c) (\<lambda>d.
     bind_res (create_adjustment_outcome std None
         ((adjustment_base std l c d sha)\<lparr>jo_failure := Some failure\<rparr>)) (\<lambda>a. Inr (lg_state l, a)))"

definition adjustment_conflicting ::
  "stdlib \<Rightarrow> ledger \<Rightarrow> adjustment_command \<Rightarrow> sha256_digest \<Rightarrow> adjustment_conflict
   \<Rightarrow> (ledger_state \<times> adjustment_outcome) result" where
  "adjustment_conflicting std l c sha conflict =
     bind_res (adjustment_command_digest std c) (\<lambda>d.
     bind_res (create_adjustment_outcome std None
         ((adjustment_base std l c d sha)\<lparr>jo_result := ADJ_CONFLICT, jo_conflict := Some conflict\<rparr>))
       (\<lambda>a. Inr (lg_state l, a)))"

text \<open>\<open>_negated_decimal_value\<close> is the negation of the reconciliation module.\<close>

fun correction_failure_kind :: "outcome_code \<Rightarrow> adjustment_failure" where
  "correction_failure_kind c =
     (if c = ARITHMETIC_OVERFLOW \<or> c = ROUNDING_UNREPRESENTABLE then ARITHMETIC_FAILURE
      else if c = LEDGER_UNBALANCED then UNBALANCED else INVALID_COMMAND)"

definition build_adjustment_transaction ::
  "stdlib \<Rightarrow> ledger \<Rightarrow> adjustment_authorization \<Rightarrow> adjustment_command \<Rightarrow> economic_id \<Rightarrow> sha256_digest
   \<Rightarrow> posting list \<Rightarrow> reconciliation_transaction result" where
  "build_adjustment_transaction std l auth c entry sha ps =
     bind_res (adjustment_command_digest std c) (\<lambda>d.
       create_reconciliation_transaction std (lg_specs l)
         \<lparr>rt_run = lg_run l, rt_entry = entry, rt_sequence = owner_sequence entry,
          rt_adjustment = ac_adjustment c, rt_authorization_sha256 = sha,
          rt_observation_sha256 = ac_observation c, rt_outcome_sha256 = ac_outcome c,
          rt_command_sha256 = d, rt_variant = ac_variant c, rt_target = ac_target c,
          rt_instrument = ac_instrument c, rt_currency = ac_currency c, rt_local = ac_local c,
          rt_observed = ac_observed c, rt_delta = ac_delta c, rt_open_ref = ac_ref c,
          rt_previous = previous_digest std (lg_state l), rt_set_id = set_identifier (lg_specs l),
          rt_set_sha256 = lg_specs_sha256 l, rt_postings = ps,
          rt_occurred_at = aa_available_at auth, rt_available_at = aa_available_at auth\<rparr>)"

record adjustment_parts =
  dp_cash :: "(settlement_currency \<times> canonical_decimal) list"
  dp_positions :: "(instrument \<times> canonical_decimal) list"
  dp_unresolved :: "(economic_id \<times> unresolved_ref) list"
  dp_bindings :: "(economic_id \<times> ledger_binding) list"
  dp_refs :: "(economic_id \<times> open_ref) list"
  dp_transaction :: reconciliation_transaction
  dp_snapshot :: snapshot

definition finish_adjustment ::
  "stdlib \<Rightarrow> ledger \<Rightarrow> economic_id \<Rightarrow> reconciliation_transaction
   \<Rightarrow> (settlement_currency \<times> canonical_decimal) list \<Rightarrow> (instrument \<times> canonical_decimal) list
   \<Rightarrow> (economic_id \<times> unresolved_ref) list \<Rightarrow> (economic_id \<times> ledger_binding) list
   \<Rightarrow> (economic_id \<times> open_ref) list \<Rightarrow> adjustment_parts result" where
  "finish_adjustment std l entry t cash positions unresolved bindings refs =
     bind_res (reconciliation_transaction_bytes std t) (\<lambda>_.
     bind_res (next_snapshot l (owner_sequence entry) entry (reconciliation_transaction_digest std t)
         cash positions (ls_rounding (lg_state l)) unresolved bindings refs) (\<lambda>n.
       Inr \<lparr>dp_cash = cash, dp_positions = positions, dp_unresolved = unresolved,
            dp_bindings = bindings, dp_refs = refs, dp_transaction = t, dp_snapshot = n\<rparr>))"

text \<open>\<open>_derive_correction\<close>: the target of a correction in this ledger.\<close>

definition ledger_target ::
  "ledger \<Rightarrow> adjustment_command
   \<Rightarrow> (canonical_decimal \<times> ledger_commodity \<times> ledger_account_kind \<times> ledger_account_kind
       \<times> canonical_decimal option) result" where
  "ledger_target l c =
     (if ac_target c = INSTRUMENT_POSITION
      then (case ac_instrument c of
          None \<Rightarrow> Inl (ledger_fail INVALID_TYPE)
        | Some i \<Rightarrow>
            bind_res (map_exn translate_economic_error (require_spec (lg_specs l) i)) (\<lambda>s.
              Inr (quantity_quantum s, InstrumentCommodity i, PORTFOLIO_POSITION, EXTERNAL_INVENTORY,
                   map_of (ls_positions (lg_state l)) i)))
      else (case ac_currency c of
          None \<Rightarrow> Inl (ledger_fail INVALID_TYPE)
        | Some y \<Rightarrow>
            (case currency_quantums (lg_specs l) y of
               [q] \<Rightarrow> Inr (q, CurrencyCommodity y, PORTFOLIO_CASH, EXTERNAL_SETTLEMENT,
                          map_of (ls_cash (lg_state l)) y)
             | _ \<Rightarrow> Inl (ledger_fail CONFLICTING_ID))))"

definition derive_correction ::
  "stdlib \<Rightarrow> ledger \<Rightarrow> adjustment_authorization \<Rightarrow> adjustment_command \<Rightarrow> economic_id \<Rightarrow> sha256_digest
   \<Rightarrow> adjustment_parts result" where
  "derive_correction std l auth c entry sha =
     guard_res (ac_local c = None \<or> ac_observed c = None) (ledger_fail INVALID_TYPE)
     (case ac_delta c of
        None \<Rightarrow> Inl (ledger_fail INVALID_TYPE)
      | Some delta \<Rightarrow>
          bind_res (ledger_target l c) (\<lambda>(quantum, target_commodity, own, other, current).
          on_economic (require_quantized delta quantum)
            (\<lambda>e. Inl (ledger_fail (if e = NOT_QUANTIZED then NOT_QUANTIZED else OUT_OF_RANGE)))
            (\<lambda>_.
          on_economic (next_balance current delta)
            (\<lambda>_. Inl (ledger_fail ARITHMETIC_OVERFLOW))
            (\<lambda>balance.
          bind_res (make_posting own target_commodity delta) (\<lambda>p0.
          bind_res (negated_decimal delta) (\<lambda>opposite.
          bind_res (make_posting other target_commodity opposite) (\<lambda>p1.
          bind_res (build_adjustment_transaction std l auth c entry sha [p0, p1]) (\<lambda>t.
          let st = lg_state l
          in finish_adjustment std l entry t
               (case target_commodity of
                  CurrencyCommodity y \<Rightarrow> assign_nonzero (ls_cash st) y balance | _ \<Rightarrow> ls_cash st)
               (case target_commodity of
                  InstrumentCommodity i \<Rightarrow> assign_nonzero (ls_positions st) i balance
                | _ \<Rightarrow> ls_positions st)
               (ls_unresolved st) (ls_open_bindings st) (ls_open_refs st)))))))))"

definition derive_ancestry_resolution ::
  "stdlib \<Rightarrow> ledger \<Rightarrow> adjustment_authorization \<Rightarrow> adjustment_command \<Rightarrow> economic_id \<Rightarrow> sha256_digest
   \<Rightarrow> open_ref \<Rightarrow> adjustment_parts result" where
  "derive_ancestry_resolution std l auth c entry sha reference =
     (let st = lg_state l; k = op_fill reference
      in bind_res (build_adjustment_transaction std l auth c entry sha []) (\<lambda>t.
           finish_adjustment std l entry t (ls_cash st) (ls_positions st)
             (AList.delete k (ls_unresolved st)) (AList.delete k (ls_open_bindings st))
             (AList.delete k (ls_open_refs st))))"

definition authorization_binds :: "adjustment_authorization \<Rightarrow> adjustment_command \<Rightarrow> sha256_digest \<Rightarrow> bool" where
  "authorization_binds a c command_sha \<longleftrightarrow>
     aa_command_sha256 a = command_sha \<and> aa_adjustment a = ac_adjustment c
     \<and> aa_observation a = ac_observation c \<and> aa_outcome a = ac_outcome c
     \<and> aa_sequence a = ac_sequence c \<and> aa_snapshot a = ac_snapshot c \<and> aa_dispatch a = ac_dispatch c"

text \<open>The last part of an adjustment: the applied outcome and the indexed next state.\<close>

definition record_adjustment ::
  "stdlib \<Rightarrow> ledger \<Rightarrow> adjustment_command \<Rightarrow> sha256_digest \<Rightarrow> sha256_digest \<Rightarrow> economic_id
   \<Rightarrow> adjustment_parts \<Rightarrow> (ledger_state \<times> adjustment_outcome) result" where
  "record_adjustment std l c command_sha sha entry p =
     bind_res (create_adjustment_outcome std (Some (dp_transaction p))
         ((adjustment_base std l c command_sha sha)
            \<lparr>jo_result := ADJ_APPLIED, jo_after := portfolio_snapshot_digest std (dp_snapshot p)\<rparr>))
       (\<lambda>outcome.
     let st = lg_state l
     in Inr (st\<lparr>ls_cash := dp_cash p, ls_positions := dp_positions p, ls_unresolved := dp_unresolved p,
           ls_entry_index := (ls_entry_index st)(entry \<mapsto> Adjustment (dp_transaction p)),
           ls_transactions := ls_transactions st @ [Adjustment (dp_transaction p)],
           ls_open_bindings := dp_bindings p, ls_open_refs := dp_refs p,
           ls_authorization_index := (ls_authorization_index st)(sha \<mapsto> command_sha),
           ls_adjustment_index := (ls_adjustment_index st)(ac_adjustment c \<mapsto> command_sha),
           ls_observation_index := (ls_observation_index st)(ac_observation c \<mapsto> ac_adjustment c),
           ls_command_index := (ls_command_index st)(command_sha \<mapsto> outcome),
           ls_adjustment_outcomes := (ls_adjustment_outcomes st)(sha \<mapsto> outcome),
           ls_snapshot := dp_snapshot p\<rparr>, outcome))"

definition plan_new_adjustment ::
  "stdlib \<Rightarrow> ledger \<Rightarrow> adjustment_authorization \<Rightarrow> adjustment_command \<Rightarrow> sha256_digest \<Rightarrow> sha256_digest
   \<Rightarrow> (ledger_state \<times> adjustment_outcome) result" where
  "plan_new_adjustment std l auth c command_sha sha =
     (let st = lg_state l; n = ls_snapshot st
      in if ac_sequence c \<noteq> sn_sequence n \<or> ac_snapshot c \<noteq> portfolio_snapshot_digest std n
            \<or> sn_version n = 2 ^ 64 - 1
         then adjustment_failed std l c sha STALE_FRONTIER
         else bind_res (make_economic_id (lg_run l) LEDGER_ENTRY (sn_version n + 1)) (\<lambda>entry.
           if ls_entry_index st entry \<noteq> None
           then adjustment_conflicting std l c sha ADJUSTMENT_INDEX_INCONSISTENT
           else (case ac_variant c of
               BALANCE_CORRECTION \<Rightarrow>
                 (case derive_correction std l auth c entry sha of
                    Inl (PortfolioLedgerError e) \<Rightarrow> adjustment_failed std l c sha (correction_failure_kind e)
                  | Inl e \<Rightarrow> Inl e
                  | Inr p \<Rightarrow> record_adjustment std l c command_sha sha entry p)
             | ANCESTRY_RESOLUTION \<Rightarrow>
                 (case (ac_target c, ac_ref c) of
                    (OPEN_RECONCILIATION_REF, Some r) \<Rightarrow>
                      if map_of (ls_open_refs st) (op_fill r) \<noteq> Some r
                      then adjustment_failed std l c sha STALE_FRONTIER
                      else bind_res (derive_ancestry_resolution std l auth c entry sha r) (\<lambda>p.
                        record_adjustment std l c command_sha sha entry p)
                  | _ \<Rightarrow> adjustment_failed std l c sha INVALID_COMMAND))))"

definition plan_adjustment ::
  "stdlib \<Rightarrow> ledger \<Rightarrow> audited_authorization \<Rightarrow> adjustment_command
   \<Rightarrow> (ledger_state \<times> adjustment_outcome) result" where
  "plan_adjustment std l audited c =
     (let auth = au_authorization audited; sha = au_sha256 audited; st = lg_state l
      in guard_res (aa_run auth \<noteq> lg_run l \<or> ac_run c \<noteq> lg_run l \<or> run_id (ac_adjustment c) \<noteq> lg_run l)
           ledger_conflict
        (bind_res (adjustment_command_digest std c) (\<lambda>command_sha.
         guard_res (\<not> authorization_binds auth c command_sha) ledger_conflict
         (if aa_decision auth \<noteq> AUTHORIZATION_ALLOWED then adjustment_failed std l c sha INVALID_COMMAND
          else case ls_adjustment_outcomes st sha of
            Some replay \<Rightarrow>
              if jo_adjustment replay = ac_adjustment c \<and> jo_command replay = command_sha
              then Inr (st, replay)
              else adjustment_conflicting std l c sha AUTHORIZATION_ID_COLLISION
          | None \<Rightarrow>
              if ls_adjustment_index st (ac_adjustment c) \<noteq> None
              then adjustment_conflicting std l c sha ADJUSTMENT_ID_COLLISION
              else if ls_observation_index st (ac_observation c) \<noteq> None
              then adjustment_conflicting std l c sha OBSERVATION_ALREADY_CONSUMED
              else plan_new_adjustment std l auth c command_sha sha))))"

definition apply_reconciliation_adjustment ::
  "stdlib \<Rightarrow> ledger \<Rightarrow> audited_authorization \<Rightarrow> adjustment_command
   \<Rightarrow> ledger \<times> adjustment_outcome result" where
  "apply_reconciliation_adjustment std l audited c = commit l (plan_adjustment std l audited c)"

end
