(* ===== verification/Ledger_Laws.thy ===== *)
theory Ledger_Laws
  imports Portfolio_Ledger
begin

text \<open>
  Laws of the ledger's parts: exact values of the decimal helpers, the posting
  sums, the replay classification and the stages of a new fill. The properties
  of the whole ledger are in the theory that imports this one.
\<close>

section \<open>Decimal helpers\<close>

lemma canonical_scaled_val:
  assumes "canonical_decimal (scaled_text c s) = Inr d"
  shows "wf_dec d" "dval d = of_int c / 10 ^ s"
proof -
  obtain c' s' where n: "normalize_scaled c s = (c', s')" by fastforce
  have "coefficient d = c' \<and> scale d = s'"
    using assms canonical_scaled_text [OF n] by (auto split: if_splits)
  then show "dval d = of_int c / 10 ^ s"
    using normalize_scaled_val [OF n] by (simp add: dval_def)
  show "wf_dec d" using assms by blast
qed

lemma canonical_scaled_fails:
  "canonical_decimal (scaled_text c s) = Inl e \<Longrightarrow> e = EconomicValidationError OUT_OF_RANGE"
  using canonical_scaled_text [of c s] by (cases "normalize_scaled c s") (auto split: if_splits)

lemma add_decimal_spec:
  assumes "add_decimal a b = Inr d"
  shows "wf_dec d" "dval d = dval a + dval b"
proof -
  let ?s = "max (scale a) (scale b)"
  have d: "canonical_decimal (scaled_text (coefficient a * 10 ^ (?s - scale a)
      + coefficient b * 10 ^ (?s - scale b)) ?s) = Inr d"
    using assms by (simp add: add_decimal_def Let_def)
  show "wf_dec d" by (rule canonical_scaled_val [OF d])
  have "of_int (coefficient x * 10 ^ (?s - scale x)) / 10 ^ ?s = dval x" if "scale x \<le> ?s" for x
    using that by (simp add: dval_def field_simps flip: power_add)
  from this [of a] this [of b] show "dval d = dval a + dval b"
    by (simp add: canonical_scaled_val [OF d] add_divide_distrib)
qed

lemma add_decimal_fails: "add_decimal a b = Inl e \<Longrightarrow> e = EconomicValidationError OUT_OF_RANGE"
  by (auto simp: add_decimal_def Let_def dest: canonical_scaled_fails)

lemma signed_decimal_spec:
  assumes "signed_decimal v s = Inr d"
  shows "wf_dec d" "dval d = of_int s * dval v"
  using assms canonical_scaled_val [of "coefficient v * s" "scale v" d]
  by (simp_all add: signed_decimal_def dval_def)

lemma signed_decimal_fails:
  "signed_decimal v s = Inl e \<Longrightarrow> s = 1 \<or> s = -1 \<Longrightarrow> e = EconomicValidationError OUT_OF_RANGE"
  by (auto simp: signed_decimal_def guard_res_def dest: canonical_scaled_fails)

lemma side_sign_unit [simp]: "side_sign x \<noteq> -1 \<longleftrightarrow> side_sign x = 1" "side_sign x = 1 \<or> side_sign x = -1"
  by (cases x; simp)+

definition value_at :: "('k \<times> canonical_decimal) list \<Rightarrow> 'k \<Rightarrow> rat" where
  "value_at m k = (case map_of m k of None \<Rightarrow> 0 | Some v \<Rightarrow> dval v)"

lemma value_at_simps [simp]:
  "value_at [] k = 0"
  "value_at ((k', v) # m) k = (if k' = k then dval v else value_at m k)"
  by (simp_all add: value_at_def)

lemma next_balance_val: "next_balance (map_of m k) delta = Inr d \<Longrightarrow> dval d = value_at m k + dval delta"
  by (auto simp: next_balance_def value_at_def add_decimal_spec split: option.splits)

lemma next_balance_wf: "next_balance c delta = Inr d \<Longrightarrow> wf_dec delta \<Longrightarrow> wf_dec d"
  by (auto simp: next_balance_def add_decimal_spec(1) split: option.splits)

lemma next_balance_fails: "next_balance c delta = Inl e \<Longrightarrow> e = EconomicValidationError OUT_OF_RANGE"
  by (auto simp: next_balance_def dest: add_decimal_fails split: option.splits)

lemma dval_zero_iff [simp]: "dval d = 0 \<longleftrightarrow> coefficient d = 0"
  by (simp add: dval_def)

lemma value_at_assign [simp]:
  "value_at (assign_nonzero m k v) = (value_at m)(k := dval v)"
  by (auto simp: value_at_def assign_nonzero_def fun_eq_iff update_conv' delete_conv')

lemma distinct_assign [simp]:
  "distinct (map fst m) \<Longrightarrow> distinct (map fst (assign_nonzero m k v))"
  by (auto simp: assign_nonzero_def distinct_update distinct_delete)

section \<open>Posting sums\<close>

definition posting_total :: "posting list \<Rightarrow> ledger_commodity \<Rightarrow> rat" where
  "posting_total ps c = (\<Sum>p\<leftarrow>ps. if commodity p = c then dval (po_amount p) else 0)"

lemma posting_total_simps [simp]:
  "posting_total [] c = 0"
  "posting_total (p # ps) c = (if commodity p = c then dval (po_amount p) else 0) + posting_total ps c"
  "posting_total (ps @ qs) c = posting_total ps c + posting_total qs c"
  by (simp_all add: posting_total_def)

definition total_at :: "(ledger_commodity \<times> int \<times> nat) list \<Rightarrow> ledger_commodity \<Rightarrow> rat" where
  "total_at totals c = (case map_of totals c of None \<Rightarrow> 0 | Some (k, s) \<Rightarrow> of_int k / 10 ^ s)"

lemma scaled_sum:
  "(of_int (c * 10 ^ (max s s' - s) + c' * 10 ^ (max s s' - s')) :: rat) / 10 ^ max s s'
   = of_int c / 10 ^ s + of_int c' / 10 ^ s'"
proof -
  have "of_int (x * 10 ^ (m - t)) / (10 :: rat) ^ m = of_int x / 10 ^ t" if "t \<le> m" for x m t
    using that by (simp add: field_simps flip: power_add)
  then show ?thesis by (simp add: add_divide_distrib)
qed

lemma add_posting_total:
  "total_at (add_posting totals p) c
   = total_at totals c + (if commodity p = c then dval (po_amount p) else 0)"
  using scaled_sum
  by (auto simp: total_at_def update_conv' dval_def Let_def split: option.splits prod.splits)

lemma add_posting_distinct:
  "distinct (map fst totals) \<Longrightarrow> distinct (map fst (add_posting totals p))"
  by (auto simp: Let_def distinct_update split: option.splits prod.splits)

lemma fold_postings:
  "distinct (map fst totals) \<Longrightarrow> distinct (map fst (foldl add_posting totals ps))
     \<and> total_at (foldl add_posting totals ps) c = total_at totals c + posting_total ps c"
proof (induction ps arbitrary: totals)
  case (Cons p ps)
  from Cons.IH [OF add_posting_distinct [OF Cons.prems]] show ?case
    by (simp add: add_posting_total del: add_posting.simps)
qed simp

lemma totals_zero_iff:
  assumes "distinct (map fst totals)"
  shows "list_all (\<lambda>(_, c, _). c = 0) totals \<longleftrightarrow> (\<forall>c. total_at totals c = 0)"
proof
  assume z: "list_all (\<lambda>(_, c, _). c = 0) totals"
  show "\<forall>c. total_at totals c = 0"
  proof
    fix c show "total_at totals c = 0"
    proof (cases "map_of totals c")
      case (Some ks)
      then have "(c, ks) \<in> set totals" by (rule map_of_SomeD)
      with z have "fst ks = 0" by (auto simp: list_all_iff)
      with Some show ?thesis by (cases ks) (simp add: total_at_def)
    qed (simp add: total_at_def)
  qed
next
  assume z: "\<forall>c. total_at totals c = 0"
  { fix c k s assume "(c, k, s) \<in> set totals"
    with assms have "map_of totals c = Some (k, s)" by simp
    with z [rule_format, of c] have "k = 0" by (simp add: total_at_def) }
  then show "list_all (\<lambda>(_, c, _). c = 0) totals" by (auto simp: list_all_iff)
qed

lemma postings_sum_iff: "postings_sum_to_zero ps \<longleftrightarrow> (\<forall>c. posting_total ps c = 0)"
proof -
  have d: "distinct (map fst (foldl add_posting [] ps))" using fold_postings [of "[]"] by simp
  have "total_at (foldl add_posting [] ps) c = posting_total ps c" for c
    using fold_postings [of "[]" ps c] by (simp add: total_at_def)
  then show ?thesis by (simp add: postings_sum_to_zero_def totals_zero_iff [OF d])
qed

section \<open>Postings of a fill\<close>

definition account_total :: "posting list \<Rightarrow> ledger_account_kind \<Rightarrow> ledger_commodity \<Rightarrow> rat" where
  "account_total ps a c =
     (\<Sum>p\<leftarrow>ps. if account p = a \<and> commodity p = c then dval (po_amount p) else 0)"

lemma account_total_simps [simp]:
  "account_total [] a c = 0"
  "account_total (p # ps) a c
   = (if account p = a \<and> commodity p = c then dval (po_amount p) else 0) + account_total ps a c"
  "account_total (ps @ qs) a c = account_total ps a c + account_total qs a c"
  by (simp_all add: account_total_def)

lemma on_economic_Inr:
  "on_economic r h k = Inr x \<longleftrightarrow>
   (\<exists>c. r = Inl (EconomicValidationError c) \<and> h c = Inr x) \<or> (\<exists>y. r = Inr y \<and> k y = Inr x)"
  by (cases "(r, h, k)" rule: on_economic.cases) auto

lemma make_posting_Inr:
  "make_posting a c v = Inr p \<longleftrightarrow> coefficient v \<noteq> 0
     \<and> (a = PORTFOLIO_POSITION \<or> a = EXTERNAL_INVENTORY) = is_instrument_commodity c
     \<and> p = \<lparr>account = a, commodity = c, po_amount = v\<rparr>"
  by (auto simp: make_posting_def)

lemma optional_posting_totals:
  assumes "optional_posting a c v = Inr ps"
  shows "posting_total ps c' = (if c = c' then dval v else 0)"
    "account_total ps a' c' = (if a = a' \<and> c = c' then dval v else 0)"
  using assms by (auto simp: optional_posting_def make_posting_Inr split: if_splits)

definition fill_account :: "instrument \<Rightarrow> settlement_currency \<Rightarrow> rat \<Rightarrow> rat \<Rightarrow> rat \<Rightarrow> rat \<Rightarrow> rat
    \<Rightarrow> ledger_account_kind \<Rightarrow> ledger_commodity \<Rightarrow> rat" where
  "fill_account i y position_delta cash external rounding commission a c =
     (case a of
        PORTFOLIO_POSITION \<Rightarrow> if c = InstrumentCommodity i then position_delta else 0
      | EXTERNAL_INVENTORY \<Rightarrow> if c = InstrumentCommodity i then - position_delta else 0
      | PORTFOLIO_CASH \<Rightarrow> if c = CurrencyCommodity y then cash else 0
      | EXTERNAL_SETTLEMENT \<Rightarrow> if c = CurrencyCommodity y then external else 0
      | PORTFOLIO_ROUNDING \<Rightarrow> if c = CurrencyCommodity y then rounding else 0
      | COMMISSION_EXPENSE \<Rightarrow> if c = CurrencyCommodity y then commission else 0)"

lemma fill_postings_totals:
  assumes "fill_postings i y pd cd en rd cm = Inr ps"
  shows "posting_total ps c = (if c = CurrencyCommodity y
      then dval cd + dval en + dval rd + dval cm else 0)"
    "account_total ps a c = fill_account i y (dval pd) (dval cd) (dval en) (dval rd) (dval cm) a c"
proof -
  from assms obtain p0 n p1 p2 p3 p4 p5 where
    p: "make_posting PORTFOLIO_POSITION (InstrumentCommodity i) pd = Inr p0"
      "signed_decimal pd (-1) = Inr n"
      "make_posting EXTERNAL_INVENTORY (InstrumentCommodity i) n = Inr p1"
    and o: "optional_posting PORTFOLIO_CASH (CurrencyCommodity y) cd = Inr p2"
      "optional_posting EXTERNAL_SETTLEMENT (CurrencyCommodity y) en = Inr p3"
      "optional_posting PORTFOLIO_ROUNDING (CurrencyCommodity y) rd = Inr p4"
      "optional_posting COMMISSION_EXPENSE (CurrencyCommodity y) cm = Inr p5"
    and ps: "ps = [p0, p1] @ p2 @ p3 @ p4 @ p5"
    by (auto simp: fill_postings_def)
  have n: "dval n = - dval pd" using signed_decimal_spec [OF p(2)] by simp
  have q: "p0 = \<lparr>account = PORTFOLIO_POSITION, commodity = InstrumentCommodity i, po_amount = pd\<rparr>"
    "p1 = \<lparr>account = EXTERNAL_INVENTORY, commodity = InstrumentCommodity i, po_amount = n\<rparr>"
    using p by (auto simp: make_posting_Inr)
  show "posting_total ps c = (if c = CurrencyCommodity y
      then dval cd + dval en + dval rd + dval cm else 0)"
    using n by (auto simp: ps q optional_posting_totals [OF o(1)] optional_posting_totals [OF o(2)]
        optional_posting_totals [OF o(3)] optional_posting_totals [OF o(4)])
  show "account_total ps a c = fill_account i y (dval pd) (dval cd) (dval en) (dval rd) (dval cm) a c"
    using n by (cases a) (auto simp: ps q fill_account_def optional_posting_totals [OF o(1)]
        optional_posting_totals [OF o(2)] optional_posting_totals [OF o(3)] optional_posting_totals [OF o(4)])
qed

text \<open>What a computed movement is, as exact values.\<close>

definition movement_of :: "stdlib \<Rightarrow> ledger \<Rightarrow> fill \<Rightarrow> fill_movement \<Rightarrow> bool" where
  "movement_of std l f m \<longleftrightarrow> (\<exists>s. settle_execution (hexdigest std) (lg_specs l) (fl_instrument f)
       (fl_price f) (fl_quantity f) = Inr s
     \<and> mv_currency m = es_currency s
     \<and> dval (mv_position m) = of_int (side_sign (fl_side f)) * dval (fl_quantity f)
     \<and> dval (mv_cash m) = - of_int (side_sign (fl_side f)) * dval (es_amount s)
          - dval (fee_amount (fl_fees f ! 0))
     \<and> dval (mv_rounding m) = - of_int (side_sign (fl_side f)) * dval (es_rounding_residual s)
     \<and> wf_dec (mv_position m) \<and> wf_dec (mv_cash m) \<and> wf_dec (mv_rounding m)
     \<and> (\<forall>a c. account_total (mv_postings m) a c
          = fill_account (fl_instrument f) (mv_currency m) (dval (mv_position m)) (dval (mv_cash m))
              (of_int (side_sign (fl_side f)) * (dval (es_amount s) + dval (es_rounding_residual s)))
              (dval (mv_rounding m)) (dval (fee_amount (fl_fees f ! 0))) a c)
     \<and> postings_sum_to_zero (mv_postings m))"

definition moves_stages :: "(outcome_code \<times> ledger_failure_stage) set" where
  "moves_stages = {(ARITHMETIC_OVERFLOW, SETTLEMENT_ARITHMETIC_OVERFLOW),
     (ROUNDING_UNREPRESENTABLE, SETTLEMENT_ROUNDING_UNREPRESENTABLE),
     (ARITHMETIC_OVERFLOW, EXACT_NOTIONAL_OVERFLOW), (ARITHMETIC_OVERFLOW, CASH_BALANCE_OVERFLOW)}"

lemma fill_moves_Inr:
  assumes "fill_moves std l f sha k = Inr r"
  obtains (failed) c stage where "failure_outcome l f sha c stage = Inr r" "(c, stage) \<in> moves_stages"
  | (moved) m where "movement_of std l f m" "k m = Inr r"
proof -
  let ?s = "side_sign (fl_side f)" and ?fee = "fee_amount (fl_fees f ! 0)"
  from assms consider
    (failed) c stage where "failure_outcome l f sha c stage = Inr r" "(c, stage) \<in> moves_stages"
  | (moved) s en pd cd rd x ps a b where
      "settle_execution (hexdigest std) (lg_specs l) (fl_instrument f) (fl_price f) (fl_quantity f) = Inr s"
      "add_decimal (es_amount s) (es_rounding_residual s) = Inr en"
      "signed_decimal (fl_quantity f) ?s = Inr pd"
      "signed_decimal (es_amount s) (- ?s) = Inr a" "signed_decimal ?fee (-1) = Inr b"
      "add_decimal a b = Inr cd"
      "signed_decimal (es_rounding_residual s) (- ?s) = Inr rd"
      "signed_decimal en ?s = Inr x"
      "fill_postings (fl_instrument f) (es_currency s) pd cd x rd ?fee = Inr ps"
      "k \<lparr>mv_currency = es_currency s, mv_position = pd, mv_cash = cd, mv_rounding = rd, mv_postings = ps\<rparr> = Inr r"
    unfolding fill_moves_def Let_def on_economic_Inr bind_res_Inr_iff
    by (fastforce simp: moves_stages_def split: if_splits)
  then show thesis
  proof cases
    case failed
    then show ?thesis by (rule that(1))
  next
    case (moved s en pd cd rd x ps a b)
    let ?m = "\<lparr>mv_currency = es_currency s, mv_position = pd, mv_cash = cd, mv_rounding = rd, mv_postings = ps\<rparr>"
    have v: "dval en = dval (es_amount s) + dval (es_rounding_residual s)"
      "dval pd = of_int ?s * dval (fl_quantity f)"
      "dval cd = - of_int ?s * dval (es_amount s) - dval ?fee"
      "dval rd = - of_int ?s * dval (es_rounding_residual s)"
      "dval x = of_int ?s * dval en"
      using add_decimal_spec(2) [OF moved(2)] signed_decimal_spec(2) [OF moved(3)]
        signed_decimal_spec(2) [OF moved(4)] signed_decimal_spec(2) [OF moved(5)]
        add_decimal_spec(2) [OF moved(6)] signed_decimal_spec(2) [OF moved(7)]
        signed_decimal_spec(2) [OF moved(8)] by simp_all
    note t = fill_postings_totals [OF moved(9)]
    have "dval cd + dval x + dval rd + dval ?fee = 0" unfolding v by (simp add: algebra_simps)
    then have z: "postings_sum_to_zero ps" by (simp add: postings_sum_iff t(1))
    have "movement_of std l f ?m"
      unfolding movement_of_def
      using moved(1) z v t(2) signed_decimal_spec(1) [OF moved(3)] add_decimal_spec(1) [OF moved(6)]
        signed_decimal_spec(1) [OF moved(7)] by auto
    then show ?thesis using moved(10) by (rule that(2))
  qed
qed

definition balance_stages :: "(outcome_code \<times> ledger_failure_stage) set" where
  "balance_stages = {(ARITHMETIC_OVERFLOW, CASH_BALANCE_OVERFLOW), (OUT_OF_RANGE, INSUFFICIENT_CASH),
     (ARITHMETIC_OVERFLOW, POSITION_BALANCE_OVERFLOW), (ROUNDING_UNREPRESENTABLE, ROUNDING_BALANCE_OVERFLOW)}"

lemma fill_balances_Inr:
  assumes "fill_balances l f sha m k = Inr r" "postings_sum_to_zero (mv_postings m)"
  obtains (failed) c stage where "failure_outcome l f sha c stage = Inr r" "(c, stage) \<in> balance_stages"
  | (balanced) x y z where
      "next_balance (map_of (ls_cash (lg_state l)) (mv_currency m)) (mv_cash m) = Inr x"
      "next_balance (map_of (ls_positions (lg_state l)) (fl_instrument f)) (mv_position m) = Inr y"
      "next_balance (map_of (ls_rounding (lg_state l)) (mv_currency m)) (mv_rounding m) = Inr z"
      "ls_funding (lg_state l) \<noteq> None \<longrightarrow> 0 \<le> coefficient x" "k x y z = Inr r"
proof -
  from assms(1) consider
    (failed) c stage where "failure_outcome l f sha c stage = Inr r" "(c, stage) \<in> balance_stages"
  | (balanced) x y z where
      "next_balance (map_of (ls_cash (lg_state l)) (mv_currency m)) (mv_cash m) = Inr x"
      "next_balance (map_of (ls_positions (lg_state l)) (fl_instrument f)) (mv_position m) = Inr y"
      "next_balance (map_of (ls_rounding (lg_state l)) (mv_currency m)) (mv_rounding m) = Inr z"
      "ls_funding (lg_state l) \<noteq> None \<longrightarrow> 0 \<le> coefficient x" "k x y z = Inr r"
    unfolding fill_balances_def Let_def on_economic_Inr
    using assms(2) by (auto simp: balance_stages_def on_economic_Inr not_less split: if_splits)
  then show thesis using that by cases blast+
qed

end
