(* ===== verification/Ledger_Books.thy ===== *)
theory Ledger_Books
  imports Ledger_Laws
begin

text \<open>
  The book-keeping invariant of the portfolio ledger: the entries form one hash
  chain numbered from 1, the indexes and the snapshot describe exactly these
  entries, and every balance is the sum of the postings of its account. An
  operation either leaves the state alone or books one entry.
\<close>

section \<open>Entries\<close>

fun tx_entry :: "portfolio_transaction \<Rightarrow> economic_id" where
  "tx_entry (Funding t) = ft_entry t"
| "tx_entry (FillEntry t) = lt_entry t"
| "tx_entry (Adjustment t) = rt_entry t"

fun tx_previous :: "portfolio_transaction \<Rightarrow> sha256_digest option" where
  "tx_previous (Funding t) = None"
| "tx_previous (FillEntry t) = lt_previous t"
| "tx_previous (Adjustment t) = rt_previous t"

fun tx_postings :: "portfolio_transaction \<Rightarrow> posting list" where
  "tx_postings (Funding t) = ft_postings t"
| "tx_postings (FillEntry t) = lt_postings t"
| "tx_postings (Adjustment t) = rt_postings t"

definition entry_at :: "run_id \<Rightarrow> nat \<Rightarrow> economic_id" where
  "entry_at r i = \<lparr>run_id = r, owner_kind = LEDGER_ENTRY, owner_sequence = int i + 1\<rparr>"

lemma entry_at_inj [simp]: "entry_at r i = entry_at r j \<longleftrightarrow> i = j"
  by (simp add: entry_at_def)

definition link_ok :: "stdlib \<Rightarrow> run_id \<Rightarrow> portfolio_transaction list \<Rightarrow> portfolio_transaction \<Rightarrow> bool" where
  "link_ok std r txs t \<longleftrightarrow> tx_entry t = entry_at r (length txs)
     \<and> tx_previous t = (if txs = [] then None else Some (transaction_digest std (last txs)))
     \<and> postings_sum_to_zero (tx_postings t)"

definition chained :: "stdlib \<Rightarrow> run_id \<Rightarrow> portfolio_transaction list \<Rightarrow> bool" where
  "chained std r txs \<longleftrightarrow> (\<forall>i < length txs. link_ok std r (take i txs) (txs ! i))"

lemma chained_Nil [simp]: "chained std r []"
  by (simp add: chained_def)

lemma chained_snoc [simp]:
  "chained std r (txs @ [t]) \<longleftrightarrow> chained std r txs \<and> link_ok std r txs t"
proof -
  have "(\<forall>i < length (txs @ [t]). link_ok std r (take i (txs @ [t])) ((txs @ [t]) ! i))
      \<longleftrightarrow> (\<forall>i < length txs. link_ok std r (take i txs) (txs ! i)) \<and> link_ok std r txs t"
    by (auto simp: less_Suc_eq nth_append)
  then show ?thesis by (simp add: chained_def)
qed

definition booked :: "portfolio_transaction list \<Rightarrow> ledger_account_kind \<Rightarrow> ledger_commodity \<Rightarrow> rat" where
  "booked txs a c = (\<Sum>t\<leftarrow>txs. account_total (tx_postings t) a c)"

lemma booked_simps [simp]:
  "booked [] a c = 0"
  "booked (txs @ [t]) a c = booked txs a c + account_total (tx_postings t) a c"
  by (simp_all add: booked_def)

definition tx_binding :: "stdlib \<Rightarrow> ledger_transaction \<Rightarrow> ledger_binding" where
  "tx_binding std t = \<lparr>bi_entry = lt_entry t, bi_fill = lt_fill t, bi_fill_sha256 = lt_fill_sha256 t,
     bi_tx_sha256 = ledger_transaction_digest std t\<rparr>"

section \<open>The invariant\<close>

text \<open>Balances against the entries.\<close>

definition balances_ok :: "ledger_state \<Rightarrow> bool" where
  "balances_ok st \<longleftrightarrow>
     (\<forall>y. value_at (ls_cash st) y = booked (ls_transactions st) PORTFOLIO_CASH (CurrencyCommodity y))
     \<and> (\<forall>i. value_at (ls_positions st) i = booked (ls_transactions st) PORTFOLIO_POSITION (InstrumentCommodity i))
     \<and> (\<forall>y. value_at (ls_rounding st) y = booked (ls_transactions st) PORTFOLIO_ROUNDING (CurrencyCommodity y))
     \<and> distinct (map fst (ls_cash st)) \<and> distinct (map fst (ls_positions st))
     \<and> distinct (map fst (ls_rounding st))"

text \<open>The fill and fact indexes against the entries.\<close>

definition index_ok :: "stdlib \<Rightarrow> ledger_state \<Rightarrow> bool" where
  "index_ok std st \<longleftrightarrow>
     (\<forall>t. FillEntry t \<in> set (ls_transactions st) \<longrightarrow> make_ledger_transaction t = Inr t
        \<and> ls_fill_index st (lt_fill t) = Some (tx_binding std t)
        \<and> ls_fact_index st (lt_fact_key t) = Some (tx_binding std t))
     \<and> (\<forall>k b. ls_fill_index st k = Some b \<longrightarrow>
          (\<exists>t. FillEntry t \<in> set (ls_transactions st) \<and> lt_fill t = k \<and> b = tx_binding std t))
     \<and> (\<forall>k b. ls_fact_index st k = Some b \<longrightarrow>
          (\<exists>t. FillEntry t \<in> set (ls_transactions st) \<and> lt_fact_key t = k \<and> b = tx_binding std t))"

definition entries_ok :: "run_id \<Rightarrow> ledger_state \<Rightarrow> bool" where
  "entries_ok r st \<longleftrightarrow> (\<forall>e t. ls_entry_index st e = Some t \<longleftrightarrow>
     (\<exists>i < length (ls_transactions st). e = entry_at r i \<and> t = ls_transactions st ! i))"

definition snapshot_ok :: "stdlib \<Rightarrow> run_id \<Rightarrow> ledger_state \<Rightarrow> bool" where
  "snapshot_ok std r st \<longleftrightarrow> (let n = ls_snapshot st; txs = ls_transactions st in
     sn_run n = r \<and> sn_version n = int (length txs) \<and> sn_sequence n = int (length txs)
     \<and> int (length txs) < 2 ^ 64
     \<and> sn_last_sha256 n = (if txs = [] then None else Some (transaction_digest std (last txs)))
     \<and> map (\<lambda>b. (cb_currency b, cb_amount b)) (sn_cash n) = sort_key (currency_code \<circ> fst) (ls_cash st)
     \<and> map (\<lambda>b. (pb_instrument b, pb_quantity b)) (sn_positions n)
        = sort_key (instrument_key \<circ> fst) (ls_positions st)
     \<and> map (\<lambda>b. (rb_currency b, rb_amount b)) (sn_rounding n)
        = sort_key (currency_code \<circ> fst) (ls_rounding st))"

definition funding_ok :: "ledger_state \<Rightarrow> bool" where
  "funding_ok st \<longleftrightarrow> (ls_funding st \<noteq> None) = (\<exists>t. Funding t \<in> set (ls_transactions st))"

definition ledger_inv :: "stdlib \<Rightarrow> ledger \<Rightarrow> bool" where
  "ledger_inv std l \<longleftrightarrow> (let st = lg_state l in
     chained std (lg_run l) (ls_transactions st) \<and> balances_ok st \<and> index_ok std st
     \<and> entries_ok (lg_run l) st \<and> snapshot_ok std (lg_run l) st \<and> funding_ok st)"

section \<open>Booking one entry\<close>

definition indexes_follow ::
  "stdlib \<Rightarrow> ledger_state \<Rightarrow> ledger_state \<Rightarrow> portfolio_transaction \<Rightarrow> bool" where
  "indexes_follow std st st' t = (case t of
     FillEntry u \<Rightarrow> make_ledger_transaction u = Inr u
       \<and> ls_fill_index st (lt_fill u) = None \<and> ls_fact_index st (lt_fact_key u) = None
       \<and> ls_fill_index st' = (ls_fill_index st)(lt_fill u \<mapsto> tx_binding std u)
       \<and> ls_fact_index st' = (ls_fact_index st)(lt_fact_key u \<mapsto> tx_binding std u)
       \<and> ls_funding st' = ls_funding st
   | Funding _ \<Rightarrow> ls_fill_index st' = ls_fill_index st \<and> ls_fact_index st' = ls_fact_index st
       \<and> ls_funding st' \<noteq> None
   | Adjustment _ \<Rightarrow> ls_fill_index st' = ls_fill_index st \<and> ls_fact_index st' = ls_fact_index st
       \<and> ls_funding st' = ls_funding st)"

definition values_follow :: "ledger_state \<Rightarrow> ledger_state \<Rightarrow> posting list \<Rightarrow> bool" where
  "values_follow st st' ps \<longleftrightarrow>
     (\<forall>y. value_at (ls_cash st') y
        = value_at (ls_cash st) y + account_total ps PORTFOLIO_CASH (CurrencyCommodity y))
     \<and> (\<forall>i. value_at (ls_positions st') i
        = value_at (ls_positions st) i + account_total ps PORTFOLIO_POSITION (InstrumentCommodity i))
     \<and> (\<forall>y. value_at (ls_rounding st') y
        = value_at (ls_rounding st) y + account_total ps PORTFOLIO_ROUNDING (CurrencyCommodity y))
     \<and> (distinct (map fst (ls_cash st)) \<longrightarrow> distinct (map fst (ls_cash st')))
     \<and> (distinct (map fst (ls_positions st)) \<longrightarrow> distinct (map fst (ls_positions st')))
     \<and> (distinct (map fst (ls_rounding st)) \<longrightarrow> distinct (map fst (ls_rounding st')))"

text \<open>The effect every successful operation has: one entry appended, everything else following it.\<close>

definition books_entry :: "stdlib \<Rightarrow> ledger \<Rightarrow> ledger_state \<Rightarrow> portfolio_transaction \<Rightarrow> bool" where
  "books_entry std l st' t \<longleftrightarrow> (let st = lg_state l in
     ls_transactions st' = ls_transactions st @ [t]
     \<and> link_ok std (lg_run l) (ls_transactions st) t
     \<and> values_follow st st' (tx_postings t)
     \<and> indexes_follow std st st' t
     \<and> ls_entry_index st' = (ls_entry_index st)(tx_entry t \<mapsto> t)
     \<and> snapshot_ok std (lg_run l) st')"

lemma books_balances:
  "books_entry std l st' t \<Longrightarrow> balances_ok (lg_state l) \<Longrightarrow> balances_ok st'"
  by (simp add: books_entry_def balances_ok_def values_follow_def Let_def)

lemma books_entries:
  assumes "books_entry std l st' t" "entries_ok (lg_run l) (lg_state l)"
  shows "entries_ok (lg_run l) st'"
proof -
  let ?st = "lg_state l" and ?r = "lg_run l"
  have t: "tx_entry t = entry_at ?r (length (ls_transactions ?st))"
    "ls_transactions st' = ls_transactions ?st @ [t]"
    "ls_entry_index st' = (ls_entry_index ?st)(tx_entry t \<mapsto> t)"
    using assms(1) by (simp_all add: books_entry_def link_ok_def Let_def)
  show ?thesis
    using assms(2) unfolding entries_ok_def t
    by (auto simp: less_Suc_eq nth_append)
qed

lemma books_index:
  assumes "books_entry std l st' t" "index_ok std (lg_state l)"
  shows "index_ok std st'"
proof (cases t)
  case (FillEntry u)
  have i: "make_ledger_transaction u = Inr u" "ls_fill_index (lg_state l) (lt_fill u) = None"
    "ls_fact_index (lg_state l) (lt_fact_key u) = None"
    "ls_fill_index st' = (ls_fill_index (lg_state l))(lt_fill u \<mapsto> tx_binding std u)"
    "ls_fact_index st' = (ls_fact_index (lg_state l))(lt_fact_key u \<mapsto> tx_binding std u)"
    "ls_transactions st' = ls_transactions (lg_state l) @ [t]"
    using assms(1) by (simp_all add: books_entry_def indexes_follow_def FillEntry Let_def)
  have old: "lt_fill v \<noteq> lt_fill u" "lt_fact_key v \<noteq> lt_fact_key u"
    if "FillEntry v \<in> set (ls_transactions (lg_state l))" for v
    using assms(2) that i(2,3) by (auto simp: index_ok_def)
  show ?thesis
    using assms(2) old i(1) unfolding index_ok_def i(4-6) FillEntry
    by (auto split: if_splits) metis+
qed (use assms in \<open>auto simp: books_entry_def indexes_follow_def index_ok_def Let_def\<close>)

lemma books_inv:
  assumes "ledger_inv std l" "books_entry std l st' t"
  shows "ledger_inv std (l\<lparr>lg_state := st'\<rparr>)"
proof -
  have "funding_ok st'"
    using assms by (cases t) (auto simp: ledger_inv_def books_entry_def indexes_follow_def funding_ok_def Let_def)
  moreover have "chained std (lg_run l) (ls_transactions st')"
    using assms by (simp add: ledger_inv_def books_entry_def Let_def)
  ultimately show ?thesis
    using assms books_balances [OF assms(2)] books_entries [OF assms(2)] books_index [OF assms(2)]
    by (simp add: ledger_inv_def books_entry_def Let_def)
qed

end
