(* ===== verification/Ledger_Steps.thy ===== *)
theory Ledger_Steps
  imports Ledger_Books
begin

text \<open>
  Every ledger operation either leaves the state alone or books one entry, and
  so preserves the book-keeping invariant. The relation of all ledger
  operations, with what it keeps forever.
\<close>

section \<open>Constructors that return their argument\<close>

lemma create_apply_outcome_Inr: "create_apply_outcome a = Inr b \<Longrightarrow> b = a"
  by (auto simp: create_apply_outcome_def Let_def split: if_splits)

lemma make_snapshot_Inr: "make_snapshot n = Inr m \<Longrightarrow> m = n \<and> 0 \<le> sn_version n \<and> sn_version n < 2 ^ 64"
  by (auto simp: make_snapshot_def require_version_def split: if_splits option.splits)

lemma make_ledger_transaction_Inr:
  assumes "make_ledger_transaction t = Inr u"
  shows "u = t" "lt_sequence t = 1 \<longleftrightarrow> lt_previous t = None" "require_postings (lt_postings t) = Inr (lt_postings t)"
    "owner_kind (lt_entry t) = LEDGER_ENTRY" "run_id (lt_entry t) = lt_run t"
    "owner_kind (lt_fill t) = EXECUTION_FILL" "run_id (lt_fill t) = lt_run t"
  using assms
  by (auto simp: make_ledger_transaction_def require_economic_id_def require_postings_def Let_def)

lemma binding_for_Inr: "make_ledger_transaction t = Inr t \<Longrightarrow> binding_for std t = Inr (tx_binding std t)"
  using make_ledger_transaction_Inr [of t t]
  by (simp add: binding_for_def make_binding_def require_economic_id_def tx_binding_def)

lemma make_binding_Inr:
  "make_binding e f d t = Inr b \<Longrightarrow> b = \<lparr>bi_entry = e, bi_fill = f, bi_fill_sha256 = d, bi_tx_sha256 = t\<rparr>"
  by (auto simp: make_binding_def)

lemma make_cash_balances_Inr:
  "make_cash_balances l m = Inr bs \<Longrightarrow> map (\<lambda>b. (cb_currency b, cb_amount b)) bs = m"
  by (induction l m arbitrary: bs rule: make_cash_balances.induct)
    (auto simp: make_cash_balance_def split: option.splits)

lemma make_position_balances_Inr:
  "make_position_balances l m = Inr bs \<Longrightarrow> map (\<lambda>b. (pb_instrument b, pb_quantity b)) bs = m"
  by (induction l m arbitrary: bs rule: make_position_balances.induct)
    (auto simp: make_position_balance_def split: option.splits)

lemma make_rounding_balances_Inr:
  "make_rounding_balances m = Inr bs \<Longrightarrow> map (\<lambda>b. (rb_currency b, rb_amount b)) bs = m"
  by (induction m arbitrary: bs rule: make_rounding_balances.induct) (auto simp: make_rounding_balance_def)

lemma next_snapshot_Inr:
  assumes "next_snapshot l q e sha cash positions rounding u bs rs = Inr n"
  shows "sn_run n = lg_run l" "sn_version n = q" "sn_sequence n = q" "sn_last_sha256 n = Some sha" "q < 2 ^ 64"
    "map (\<lambda>b. (cb_currency b, cb_amount b)) (sn_cash n) = sort_key (currency_code \<circ> fst) cash"
    "map (\<lambda>b. (pb_instrument b, pb_quantity b)) (sn_positions n) = sort_key (instrument_key \<circ> fst) positions"
    "map (\<lambda>b. (rb_currency b, rb_amount b)) (sn_rounding n) = sort_key (currency_code \<circ> fst) rounding"
  using assms unfolding next_snapshot_def bind_res_Inr_iff
  by (auto dest!: make_snapshot_Inr make_cash_balances_Inr make_position_balances_Inr
      make_rounding_balances_Inr)

lemma make_economic_id_Inr:
  "make_economic_id r k n = Inr i \<Longrightarrow> i = \<lparr>run_id = r, owner_kind = k, owner_sequence = n\<rparr>"
  by (auto simp: make_economic_id_def)

section \<open>Fills\<close>

lemma failure_outcome_Inr:
  "failure_outcome l f sha c stage = Inr (st, a) \<longleftrightarrow>
   st = lg_state l \<and> create_apply_outcome ((unchanged_outcome l f sha c)\<lparr>ao_stage := Some stage\<rparr>) = Inr a"
  by (auto simp: failure_outcome_def)

lemma failure_outcome_fields:
  assumes "failure_outcome l f sha c stage = Inr (st, a)"
  shows "st = lg_state l" "ao_code a = c" "ao_stage a = Some stage" "ao_snapshot a = ls_snapshot (lg_state l)"
    "ao_transaction a = None" "ao_conflict a = None"
  using assms create_apply_outcome_Inr by (fastforce simp: failure_outcome_Inr unchanged_outcome_def Let_def)+

lemma conflict_outcome_fields:
  assumes "conflict_outcome l f sha k x y z = Inr (st, a)"
  shows "st = lg_state l" "ao_code a = LEDGER_CONFLICT" "ao_conflict a = Some k" "ao_stage a = None"
    "ao_snapshot a = ls_snapshot (lg_state l)" "ao_transaction a = None"
proof -
  obtain b where "create_apply_outcome b = Inr a" "st = lg_state l"
    "b = (unchanged_outcome l f sha LEDGER_CONFLICT)\<lparr>ao_conflict := Some k, ao_entry_binding := x,
          ao_fill_binding := y, ao_fact_binding := z\<rparr>"
    using assms by (auto simp: conflict_outcome_def)
  moreover from this(1) have "a = b" by (rule create_apply_outcome_Inr)
  ultimately show "st = lg_state l" "ao_code a = LEDGER_CONFLICT" "ao_conflict a = Some k" "ao_stage a = None"
    "ao_snapshot a = ls_snapshot (lg_state l)" "ao_transaction a = None"
    by (simp_all add: unchanged_outcome_def Let_def)
qed

text \<open>The state and the outcome a booked fill produces.\<close>

definition fill_booked ::
  "stdlib \<Rightarrow> ledger \<Rightarrow> fill \<Rightarrow> sha256_digest \<Rightarrow> handoff_request option \<Rightarrow> ledger_state \<Rightarrow> apply_outcome
   \<Rightarrow> ledger_transaction \<Rightarrow> bool" where
  "fill_booked std l f sha h st' a t \<longleftrightarrow>
     books_entry std l st' (FillEntry t)
     \<and> (\<exists>ps flag. t = fill_transaction std l f sha (entry_at (lg_run l) (length (ls_transactions (lg_state l)))) ps flag)
     \<and> ao_code a = LEDGER_APPLIED \<and> ao_transaction a = Some t \<and> ao_stage a = None \<and> ao_conflict a = None
     \<and> ao_snapshot a = ls_snapshot st' \<and> ao_before a = sn_version (ls_snapshot (lg_state l))
     \<and> ao_after a = ao_before a + 1
     \<and> (\<forall>r. h = Some r \<longrightarrow> (\<exists>b. ls_handoff_index st' = (ls_handoff_index (lg_state l))(hr_handoff_sha256 r \<mapsto> b)
          \<and> hb_outcome b = a \<and> hb_command_sha256 b = hr_command_sha256 r))
     \<and> (h = None \<longrightarrow> ls_handoff_index st' = ls_handoff_index (lg_state l))
     \<and> ls_adjustment_index st' = ls_adjustment_index (lg_state l)
     \<and> ls_adjustment_outcomes st' = ls_adjustment_outcomes (lg_state l)"

lemma record_fill_Inr:
  assumes rec: "record_fill std l f sha h entry m x y z = Inr (st', a)"
    and inv: "ledger_inv std l" and new: "ls_fill_index (lg_state l) (fl_id f) = None"
      "ls_fact_index (lg_state l) (fact_key f) = None"
    and entry: "entry = entry_at (lg_run l) (length (ls_transactions (lg_state l)))"
    and m: "movement_of std l f m"
    and bal: "next_balance (map_of (ls_cash (lg_state l)) (mv_currency m)) (mv_cash m) = Inr x"
      "next_balance (map_of (ls_positions (lg_state l)) (fl_instrument f)) (mv_position m) = Inr y"
      "next_balance (map_of (ls_rounding (lg_state l)) (mv_currency m)) (mv_rounding m) = Inr z"
  obtains t where "fill_booked std l f sha h st' a t" "lt_postings t = mv_postings m"
    "ls_cash st' = assign_nonzero (ls_cash (lg_state l)) (mv_currency m) x"
    "ls_positions st' = assign_nonzero (ls_positions (lg_state l)) (fl_instrument f) y"
    "ls_rounding st' = assign_nonzero (ls_rounding (lg_state l)) (mv_currency m) z"
proof -
  let ?st = "lg_state l"
  let ?cash = "assign_nonzero (ls_cash ?st) (mv_currency m) x"
  let ?pos = "assign_nonzero (ls_positions ?st) (fl_instrument f) y"
  let ?rnd = "assign_nonzero (ls_rounding ?st) (mv_currency m) z"
  from rec obtain flag t u bs rs n b where
    t: "make_ledger_transaction (fill_transaction std l f sha entry (mv_postings m) flag) = Inr t"
    and n: "next_snapshot l (owner_sequence entry) entry (ledger_transaction_digest std t) ?cash ?pos ?rnd
        u bs rs = Inr n"
    and b: "make_binding entry (fl_id f) sha (ledger_transaction_digest std t) = Inr b"
    and a: "create_apply_outcome \<lparr>ao_run = lg_run l, ao_code = LEDGER_APPLIED,
                 ao_before = sn_version (ls_snapshot ?st), ao_after = owner_sequence entry,
                 ao_snapshot = n, ao_transaction = Some t, ao_fill = fl_id f, ao_fill_sha256 = sha,
                 ao_conflict = None, ao_entry_binding = None, ao_fill_binding = None,
                 ao_fact_binding = None, ao_stage = None\<rparr> = Inr a"
    and st: "st' = ?st\<lparr>ls_cash := ?cash, ls_positions := ?pos, ls_rounding := ?rnd,
                    ls_unresolved := u,
                    ls_fill_index := (ls_fill_index ?st)(fl_id f \<mapsto> b),
                    ls_fact_index := (ls_fact_index ?st)(fact_key f \<mapsto> b),
                    ls_entry_index := (ls_entry_index ?st)(entry \<mapsto> FillEntry t),
                    ls_transactions := ls_transactions ?st @ [FillEntry t],
                    ls_open_bindings := bs, ls_open_refs := rs,
                    ls_handoff_index := (case h of None \<Rightarrow> ls_handoff_index ?st
                      | Some r \<Rightarrow> (ls_handoff_index ?st)
                          (hr_handoff_sha256 r \<mapsto> handoff_entry std ?st r sha (ledger_transaction_digest std t) a n)),
                    ls_snapshot := n\<rparr>"
    unfolding record_fill_def Let_def bind_res_Inr_iff by (auto simp: case_prod_beta)
  note a' = create_apply_outcome_Inr [OF a]
  note tt = make_ledger_transaction_Inr [OF t]
  have tr: "make_ledger_transaction t = Inr t" using t tt(1) by simp
  have tf: "t = fill_transaction std l f sha entry (mv_postings m) flag" by (rule tt(1))
  have sel: "lt_entry t = entry" "lt_fill t = fl_id f" "lt_fact_key t = fact_key f"
    "lt_fill_sha256 t = sha" "lt_postings t = mv_postings m" "lt_previous t = previous_digest std ?st"
    by (simp_all add: tf fill_transaction_def)
  have bb: "b = tx_binding std t"
    using make_binding_Inr [OF b] by (simp add: tx_binding_def sel)
  have mv: "postings_sum_to_zero (mv_postings m)"
    "account_total (mv_postings m) PORTFOLIO_CASH (CurrencyCommodity c)
      = (if c = mv_currency m then dval (mv_cash m) else 0)"
    "account_total (mv_postings m) PORTFOLIO_ROUNDING (CurrencyCommodity c)
      = (if c = mv_currency m then dval (mv_rounding m) else 0)"
    "account_total (mv_postings m) PORTFOLIO_POSITION (InstrumentCommodity i)
      = (if i = fl_instrument f then dval (mv_position m) else 0)" for c i
    using m by (auto simp: movement_of_def fill_account_def)
  have link: "link_ok std (lg_run l) (ls_transactions ?st) (FillEntry t)"
    using mv(1) by (simp add: link_ok_def sel entry previous_digest_def)
  have follow: "values_follow ?st st' (lt_postings t)"
    using next_balance_val [OF bal(1)] next_balance_val [OF bal(2)] next_balance_val [OF bal(3)]
    by (auto simp: values_follow_def st sel mv)
  have idx: "indexes_follow std ?st st' (FillEntry t)"
    using new tr by (simp add: indexes_follow_def st sel bb)
  have snap: "snapshot_ok std (lg_run l) st'"
    using next_snapshot_Inr [OF n] by (simp add: snapshot_ok_def st entry entry_at_def Let_def)
  have "books_entry std l st' (FillEntry t)"
    using link follow idx snap by (simp add: books_entry_def Let_def sel) (simp add: st)
  moreover have "sn_version (ls_snapshot ?st) = int (length (ls_transactions ?st))"
    using inv by (simp add: ledger_inv_def snapshot_ok_def Let_def)
  ultimately have "fill_booked std l f sha h st' a t"
    unfolding fill_booked_def tf [unfolded entry]
    by (cases h) (auto simp: a' st entry entry_at_def handoff_entry_def tf [unfolded entry])
  then show thesis using that sel(5) by (simp add: st)
qed

definition fill_failures :: "(outcome_code \<times> ledger_failure_stage) set" where
  "fill_failures = insert (OUT_OF_RANGE, LEDGER_SEQUENCE_EXHAUSTED) (moves_stages \<union> balance_stages)"

text \<open>An answer that left everything alone.\<close>

definition nothing_booked :: "ledger \<Rightarrow> ledger_state \<Rightarrow> apply_outcome \<Rightarrow> bool" where
  "nothing_booked l st' a \<longleftrightarrow> st' = lg_state l \<and> ao_code a \<noteq> LEDGER_APPLIED
     \<and> ao_stage a \<noteq> Some COMMODITY_UNBALANCED \<and> ao_conflict a \<noteq> Some ENTRY_ID_OCCUPIED"

lemma next_entry_free:
  assumes "ledger_inv std l"
    "make_economic_id (lg_run l) LEDGER_ENTRY (sn_version (ls_snapshot (lg_state l)) + 1) = Inr e"
  shows "e = entry_at (lg_run l) (length (ls_transactions (lg_state l)))" "ls_entry_index (lg_state l) e = None"
proof -
  have v: "sn_version (ls_snapshot (lg_state l)) = int (length (ls_transactions (lg_state l)))"
    and e: "entries_ok (lg_run l) (lg_state l)"
    using assms(1) by (simp_all add: ledger_inv_def snapshot_ok_def Let_def)
  show *: "e = entry_at (lg_run l) (length (ls_transactions (lg_state l)))"
    using make_economic_id_Inr [OF assms(2)] by (simp add: entry_at_def v)
  show "ls_entry_index (lg_state l) e = None"
    using e unfolding entries_ok_def * by (metis entry_at_inj nat_neq_iff option.exhaust)
qed

lemma apply_new_fill_Inr:
  assumes run: "apply_new_fill std l f sha h = Inr (st', a)" and inv: "ledger_inv std l"
    and new: "ls_fill_index (lg_state l) (fl_id f) = None" "ls_fact_index (lg_state l) (fact_key f) = None"
  obtains (failed) c stage where "failure_outcome l f sha c stage = Inr (st', a)" "(c, stage) \<in> fill_failures"
  | (booked) t m x y z where "fill_booked std l f sha h st' a t" "movement_of std l f m"
      "lt_postings t = mv_postings m"
      "next_balance (map_of (ls_cash (lg_state l)) (mv_currency m)) (mv_cash m) = Inr x"
      "ls_funding (lg_state l) \<noteq> None \<longrightarrow> 0 \<le> coefficient x"
      "ls_cash st' = assign_nonzero (ls_cash (lg_state l)) (mv_currency m) x"
      "ls_positions st' = assign_nonzero (ls_positions (lg_state l)) (fl_instrument f) y"
      "ls_rounding st' = assign_nonzero (ls_rounding (lg_state l)) (mv_currency m) z"
      "dval y = value_at (ls_positions (lg_state l)) (fl_instrument f) + dval (mv_position m)"
      "dval z = value_at (ls_rounding (lg_state l)) (mv_currency m) + dval (mv_rounding m)"
proof -
  from run consider
    (max) "failure_outcome l f sha OUT_OF_RANGE LEDGER_SEQUENCE_EXHAUSTED = Inr (st', a)"
  | (entry) e where
      "make_economic_id (lg_run l) LEDGER_ENTRY (sn_version (ls_snapshot (lg_state l)) + 1) = Inr e"
      "(case ls_entry_index (lg_state l) e of
            Some (FillEntry t) \<Rightarrow> bind_res (binding_for std t) (\<lambda>b.
                conflict_outcome l f sha ENTRY_ID_OCCUPIED (Some b) None None)
          | Some _ \<Rightarrow> conflict_outcome l f sha INDEX_INCONSISTENT None None None
          | None \<Rightarrow> fill_moves std l f sha (\<lambda>m. fill_balances l f sha m (\<lambda>x y z.
                  record_fill std l f sha h e m x y z))) = Inr (st', a)"
    unfolding apply_new_fill_def Let_def bind_res_Inr_iff by (auto split: if_splits)
  then show thesis
  proof cases
    case max
    then show ?thesis by (rule failed) (simp add: fill_failures_def)
  next
    case (entry e)
    note free = next_entry_free [OF inv entry(1)]
    have moves: "fill_moves std l f sha (\<lambda>m. fill_balances l f sha m (\<lambda>x y z.
        record_fill std l f sha h e m x y z)) = Inr (st', a)"
      using entry(2) free(2) by simp
    show ?thesis
    proof (rule fill_moves_Inr [OF moves])
      fix c stage assume "failure_outcome l f sha c stage = Inr (st', a)" "(c, stage) \<in> moves_stages"
      then show thesis by (intro failed) (auto simp: fill_failures_def)
    next
      fix m assume m: "movement_of std l f m"
        and b: "fill_balances l f sha m (\<lambda>x y z. record_fill std l f sha h e m x y z) = Inr (st', a)"
      have "postings_sum_to_zero (mv_postings m)" using m by (auto simp: movement_of_def)
      from b this show thesis
      proof (rule fill_balances_Inr)
        fix c stage assume "failure_outcome l f sha c stage = Inr (st', a)" "(c, stage) \<in> balance_stages"
        then show thesis by (intro failed) (auto simp: fill_failures_def)
      next
        fix x y z assume bal: "next_balance (map_of (ls_cash (lg_state l)) (mv_currency m)) (mv_cash m) = Inr x"
          "next_balance (map_of (ls_positions (lg_state l)) (fl_instrument f)) (mv_position m) = Inr y"
          "next_balance (map_of (ls_rounding (lg_state l)) (mv_currency m)) (mv_rounding m) = Inr z"
          and fund: "ls_funding (lg_state l) \<noteq> None \<longrightarrow> 0 \<le> coefficient x"
          and rec: "record_fill std l f sha h e m x y z = Inr (st', a)"
        from record_fill_Inr [OF rec inv new free(1) m bal] booked [OF _ m _ bal(1) fund]
          next_balance_val [OF bal(2)] next_balance_val [OF bal(3)]
        show thesis by metis
      qed
    qed
  qed
qed

lemma apply_new_fill_step:
  assumes "apply_new_fill std l f sha h = Inr (st', a)" "ledger_inv std l"
    "ls_fill_index (lg_state l) (fl_id f) = None" "ls_fact_index (lg_state l) (fact_key f) = None"
  shows "nothing_booked l st' a \<or> (\<exists>t. fill_booked std l f sha h st' a t)"
  using assms
proof (cases rule: apply_new_fill_Inr)
  case (failed c stage)
  then have "nothing_booked l st' a"
    using failure_outcome_fields [OF failed(1)]
    by (auto simp: nothing_booked_def fill_failures_def moves_stages_def balance_stages_def)
  then show ?thesis ..
qed blast

lemma conflict_nothing:
  "conflict_outcome l f sha k x y z = Inr (st, a) \<Longrightarrow> k \<noteq> ENTRY_ID_OCCUPIED \<Longrightarrow> nothing_booked l st a"
  using conflict_outcome_fields by (fastforce simp: nothing_booked_def)

lemma duplicate_nothing:
  "create_apply_outcome ((unchanged_outcome l f sha LEDGER_DUPLICATE)\<lparr>ao_transaction := Some t\<rparr>) = Inr a
   \<Longrightarrow> nothing_booked l (lg_state l) a"
  by (drule create_apply_outcome_Inr) (simp add: nothing_booked_def unchanged_outcome_def Let_def)

lemma classify_replay_Inr:
  assumes "classify_replay std l f sha x y = Inr r"
  shows "r = None \<longleftrightarrow> x = None \<and> y = None"
    "r = Some (st', a) \<Longrightarrow> nothing_booked l st' a"
proof -
  show "r = None \<longleftrightarrow> x = None \<and> y = None"
    using assms
    by (cases x; cases y) (auto simp: classify_replay_def split: if_splits option.splits portfolio_transaction.splits)
  show "r = Some (st', a) \<Longrightarrow> nothing_booked l st' a"
    using assms
    by (cases x; cases y)
      (auto simp: classify_replay_def intro: conflict_nothing duplicate_nothing
        split: if_splits option.splits portfolio_transaction.splits)
qed

lemma plan_fill_step:
  assumes "plan_fill std l f = Inr (st', a)" "ledger_inv std l"
  shows "nothing_booked l st' a \<or> (\<exists>t. fill_booked std l f (fill_digest std f) None st' a t)"
proof -
  from assms(1) obtain r where r: "classify_replay std l f (fill_digest std f)
      (ls_fill_index (lg_state l) (fl_id f)) (ls_fact_index (lg_state l) (fact_key f)) = Inr r"
    and k: "(case r of Some a \<Rightarrow> Inr a | None \<Rightarrow> apply_new_fill std l f (fill_digest std f) None) = Inr (st', a)"
    by (auto simp: plan_fill_def Let_def)
  show ?thesis
  proof (cases r)
    case None
    with classify_replay_Inr(1) [OF r] k apply_new_fill_step [OF _ assms(2)] show ?thesis by simp
  next
    case (Some x)
    with k classify_replay_Inr(2) [OF r] show ?thesis by simp
  qed
qed

text \<open>The audited path. A replayed handoff answers with the outcome it retained.\<close>

lemma plan_command_step:
  assumes "plan_command std l c f = Inr (st', a)" "ledger_inv std l"
  shows "(\<exists>b. ls_handoff_index (lg_state l) (ap_handoff_sha256 c) = Some b \<and> st' = lg_state l \<and> a = hb_outcome b)
    \<or> nothing_booked l st' a
    \<or> (\<exists>t r. fill_booked std l f (fill_digest std f) (Some r) st' a t
         \<and> hr_handoff_sha256 r = ap_handoff_sha256 c)"
proof (cases "ls_handoff_index (lg_state l) (ap_handoff_sha256 c)")
  case (Some b)
  with assms(1) show ?thesis by (auto simp: plan_command_def Let_def)
next
  case None
  let ?x = "ls_fill_index (lg_state l) (fl_id f)" and ?y = "ls_fact_index (lg_state l) (fact_key f)"
  show ?thesis
  proof (cases "?x = None \<and> ?y = None")
    case True
    with None assms(1) obtain r where "apply_new_fill std l f (fill_digest std f) (Some r) = Inr (st', a)"
      "hr_handoff_sha256 r = ap_handoff_sha256 c"
      by (fastforce simp: plan_command_def Let_def)
    moreover from apply_new_fill_step [OF this(1) assms(2)] True
    have "nothing_booked l st' a \<or> (\<exists>t. fill_booked std l f (fill_digest std f) (Some r) st' a t)" by simp
    ultimately show ?thesis by blast
  next
    case False
    with None assms(1) have "conflict_outcome l f (fill_digest std f) UNBOUND_EXISTING_FILL None ?x ?y = Inr (st', a)"
      by (auto simp: plan_command_def Let_def split: if_splits)
    from conflict_outcome_fields [OF this] show ?thesis by (simp add: nothing_booked_def)
  qed
qed

section \<open>Funding\<close>

lemma empty_ledger:
  assumes "ledger_inv std l" "sn_sequence (ls_snapshot (lg_state l)) = 0"
  shows "ls_transactions (lg_state l) = []" "ls_fill_index (lg_state l) = Map.empty"
    "ls_fact_index (lg_state l) = Map.empty" "ls_entry_index (lg_state l) = Map.empty"
    "value_at (ls_cash (lg_state l)) y = 0" "value_at (ls_positions (lg_state l)) i = 0"
    "value_at (ls_rounding (lg_state l)) y = 0"
proof -
  show t: "ls_transactions (lg_state l) = []"
    using assms by (simp add: ledger_inv_def snapshot_ok_def Let_def)
  have i: "index_ok std (lg_state l)" "entries_ok (lg_run l) (lg_state l)" "balances_ok (lg_state l)"
    using assms(1) by (simp_all add: ledger_inv_def Let_def)
  have "ls_fill_index (lg_state l) k = None" "ls_fact_index (lg_state l) k' = None"
    "ls_entry_index (lg_state l) k = None" for k k'
    using i(1,2) unfolding index_ok_def entries_ok_def t by (auto intro: option.exhaust)
  then show "ls_fill_index (lg_state l) = Map.empty" "ls_fact_index (lg_state l) = Map.empty"
    "ls_entry_index (lg_state l) = Map.empty" by (simp_all add: fun_eq_iff)
  show "value_at (ls_cash (lg_state l)) y = 0" "value_at (ls_positions (lg_state l)) i = 0"
    "value_at (ls_rounding (lg_state l)) y = 0"
    using i(3) by (simp_all add: balances_ok_def t)
qed

lemma record_funding_Inr:
  assumes rec: "record_funding std l f = Inr (st', a)" and inv: "ledger_inv std l"
    and zero: "sn_sequence (ls_snapshot (lg_state l)) = 0"
  obtains t where "books_entry std l st' (Funding t)" "fo_transaction a = Some t" "fo_code a = LEDGER_APPLIED"
    "fo_snapshot a = ls_snapshot st'" "fo_submitted_sha256 a = initial_funding_digest std f"
    "ls_funding st' = Some \<lparr>fb_bytes = canonical_initial_funding_bytes f, fb_outcome = a\<rparr>"
    "ls_cash st' = [(fu_currency f, fu_amount f)]"
proof -
  from rec obtain entry p0 opp p1 t n where
    e: "make_economic_id (lg_run l) LEDGER_ENTRY 1 = Inr entry"
    and p: "make_posting PORTFOLIO_CASH (CurrencyCommodity (fu_currency f)) (fu_amount f) = Inr p0"
      "signed_decimal (fu_amount f) (-1) = Inr opp"
      "make_posting EXTERNAL_SETTLEMENT (CurrencyCommodity (fu_currency f)) opp = Inr p1"
    and t: "create_funding_transaction std f entry (set_identifier (lg_specs l)) (lg_specs_sha256 l) [p0, p1] = Inr t"
    and n: "next_snapshot l 1 entry (funding_transaction_digest std t) [(fu_currency f, fu_amount f)]
         [] [] [] [] [] = Inr n"
    and a: "create_funding_outcome std f LEDGER_APPLIED 0 1 n (Some t) None = Inr a"
    and st: "st' = \<lparr>ls_cash = [(fu_currency f, fu_amount f)], ls_positions = [], ls_rounding = [],
            ls_unresolved = [], ls_fill_index = Map.empty, ls_fact_index = Map.empty,
            ls_entry_index = [entry \<mapsto> Funding t], ls_transactions = [Funding t],
            ls_funding = Some \<lparr>fb_bytes = canonical_initial_funding_bytes f, fb_outcome = a\<rparr>,
            ls_open_bindings = [], ls_open_refs = [], ls_handoff_index = Map.empty,
            ls_authorization_index = Map.empty, ls_adjustment_index = Map.empty,
            ls_observation_index = Map.empty, ls_command_index = Map.empty,
            ls_adjustment_outcomes = Map.empty, ls_snapshot = n\<rparr>"
    unfolding record_funding_def bind_res_Inr_iff by auto
  note empty = empty_ledger [OF inv zero]
  have en: "entry = entry_at (lg_run l) 0" using make_economic_id_Inr [OF e] by (simp add: entry_at_def)
  have tt: "ft_entry t = entry" "ft_postings t = [p0, p1]"
    using t by (auto simp: create_funding_transaction_def)
  have pp: "p0 = \<lparr>account = PORTFOLIO_CASH, commodity = CurrencyCommodity (fu_currency f), po_amount = fu_amount f\<rparr>"
    "p1 = \<lparr>account = EXTERNAL_SETTLEMENT, commodity = CurrencyCommodity (fu_currency f), po_amount = opp\<rparr>"
    using p by (simp_all add: make_posting_Inr)
  have o: "dval opp = - dval (fu_amount f)" using signed_decimal_spec [OF p(2)] by simp
  have aa: "fo_transaction a = Some t" "fo_code a = LEDGER_APPLIED" "fo_snapshot a = n"
    "fo_submitted_sha256 a = initial_funding_digest std f"
    using a by (auto simp: create_funding_outcome_def)
  have "link_ok std (lg_run l) (ls_transactions (lg_state l)) (Funding t)"
    by (simp add: link_ok_def empty tt en postings_sum_iff pp o)
  moreover have "values_follow (lg_state l) st' (ft_postings t)"
    by (auto simp: values_follow_def empty tt pp st)
  moreover have "indexes_follow std (lg_state l) st' (Funding t)"
    by (simp add: indexes_follow_def empty st)
  moreover have "snapshot_ok std (lg_run l) st'"
    using next_snapshot_Inr [OF n] by (simp add: snapshot_ok_def st Let_def)
  ultimately have "books_entry std l st' (Funding t)"
    by (simp add: books_entry_def Let_def empty) (simp add: st tt)
  then show thesis by (rule that) (simp_all add: st aa)
qed

lemma plan_funding_step:
  assumes "plan_funding std l f = Inr (st', a)" "ledger_inv std l"
  shows "st' = lg_state l \<and> (fo_code a = LEDGER_CONFLICT
        \<or> (\<exists>b. ls_funding (lg_state l) = Some b \<and> fb_bytes b = canonical_initial_funding_bytes f \<and> a = fb_outcome b))
    \<or> (\<exists>t. books_entry std l st' (Funding t) \<and> ls_funding (lg_state l) = None \<and> fo_code a = LEDGER_APPLIED
        \<and> ls_funding st' = Some \<lparr>fb_bytes = canonical_initial_funding_bytes f, fb_outcome = a\<rparr>)"
proof -
  have c: "create_funding_outcome std f LEDGER_CONFLICT v v' n t e = Inr a \<Longrightarrow> fo_code a = LEDGER_CONFLICT"
    for v v' n t e by (auto simp: create_funding_outcome_def)
  show ?thesis
  proof (cases "ls_funding (lg_state l) = None \<and> sn_sequence (ls_snapshot (lg_state l)) = 0")
    case True
    with assms(1) have r: "record_funding std l f = Inr (st', a)"
      by (auto simp: plan_funding_def Let_def)
    from record_funding_Inr [OF r assms(2)] True show ?thesis by metis
  next
    case False
    with assms(1) c show ?thesis
      by (auto simp: plan_funding_def Let_def split: option.splits if_splits)
  qed
qed

section \<open>Adjustments\<close>

lemma create_reconciliation_transaction_Inr:
  assumes "create_reconciliation_transaction std ss t0 = Inr t"
  shows "rt_entry t = rt_entry t0" "rt_previous t = rt_previous t0" "rt_postings t = rt_postings t0"
    "rt_sequence t = owner_sequence (rt_entry t)" "postings_sum_to_zero (rt_postings t)"
    "rt_command_sha256 t = rt_command_sha256 t0" "rt_delta t = rt_delta t0"
    "rt_local t = rt_local t0" "rt_observed t = rt_observed t0"
    "rt_variant t0 = BALANCE_CORRECTION \<Longrightarrow> require_balance_correction ss t = Inr ()"
proof -
  have z: "postings_sum_to_zero []" by (simp add: postings_sum_to_zero_def)
  have c: "require_balance_correction ss t = Inr () \<Longrightarrow> postings_sum_to_zero (rt_postings t)"
    by (auto simp: require_balance_correction_def Let_def split: option.splits if_splits)
  show "rt_entry t = rt_entry t0" "rt_previous t = rt_previous t0" "rt_postings t = rt_postings t0"
    "rt_sequence t = owner_sequence (rt_entry t)" "postings_sum_to_zero (rt_postings t)"
    "rt_command_sha256 t = rt_command_sha256 t0" "rt_delta t = rt_delta t0"
    "rt_local t = rt_local t0" "rt_observed t = rt_observed t0"
    "rt_variant t0 = BALANCE_CORRECTION \<Longrightarrow> require_balance_correction ss t = Inr ()"
    using assms z c
    by (auto simp: create_reconciliation_transaction_def Let_def
        split: adjustment_variant.splits option.splits)
qed

lemma build_adjustment_Inr:
  assumes "build_adjustment_transaction std l auth c e sha ps = Inr t"
  shows "rt_entry t = e" "rt_previous t = previous_digest std (lg_state l)" "rt_postings t = ps"
    "postings_sum_to_zero ps" "rt_delta t = ac_delta c" "rt_local t = ac_local c" "rt_observed t = ac_observed c"
    "ac_variant c = BALANCE_CORRECTION \<Longrightarrow> require_balance_correction (lg_specs l) t = Inr ()"
proof -
  from assms obtain t0 where r: "create_reconciliation_transaction std (lg_specs l) t0 = Inr t"
    and t0: "rt_entry t0 = e" "rt_previous t0 = previous_digest std (lg_state l)" "rt_postings t0 = ps"
    "rt_delta t0 = ac_delta c" "rt_local t0 = ac_local c" "rt_observed t0 = ac_observed c"
    "rt_variant t0 = ac_variant c"
    by (fastforce simp: build_adjustment_transaction_def)
  note f = create_reconciliation_transaction_Inr [OF r]
  show "rt_entry t = e" "rt_previous t = previous_digest std (lg_state l)" "rt_postings t = ps"
    "postings_sum_to_zero ps" "rt_delta t = ac_delta c" "rt_local t = ac_local c" "rt_observed t = ac_observed c"
    "ac_variant c = BALANCE_CORRECTION \<Longrightarrow> require_balance_correction (lg_specs l) t = Inr ()"
    using f t0 by simp_all
qed

lemma finish_adjustment_Inr:
  assumes "finish_adjustment std l e t cash positions u bs rs = Inr p"
  shows "dp_cash p = cash" "dp_positions p = positions" "dp_transaction p = t" "dp_unresolved p = u"
    "dp_bindings p = bs" "dp_refs p = rs"
    "next_snapshot l (owner_sequence e) e (reconciliation_transaction_digest std t) cash positions
       (ls_rounding (lg_state l)) u bs rs = Inr (dp_snapshot p)"
  using assms by (auto simp: finish_adjustment_def)

text \<open>What a derivation hands to the commit.\<close>

definition derived_ok :: "stdlib \<Rightarrow> ledger \<Rightarrow> economic_id \<Rightarrow> adjustment_parts \<Rightarrow> bool" where
  "derived_ok std l e p \<longleftrightarrow> (let t = dp_transaction p; st = lg_state l in
     rt_entry t = e \<and> rt_previous t = previous_digest std st \<and> postings_sum_to_zero (rt_postings t)
     \<and> next_snapshot l (owner_sequence e) e (reconciliation_transaction_digest std t) (dp_cash p)
         (dp_positions p) (ls_rounding st) (dp_unresolved p) (dp_bindings p) (dp_refs p) = Inr (dp_snapshot p)
     \<and> values_follow st (st\<lparr>ls_cash := dp_cash p, ls_positions := dp_positions p\<rparr>) (rt_postings t))"

lemma ledger_target_Inr:
  assumes "ledger_target l c = Inr (q, tc, own, other, cur)"
  obtains (position) i where "tc = InstrumentCommodity i" "own = PORTFOLIO_POSITION"
      "other = EXTERNAL_INVENTORY" "cur = map_of (ls_positions (lg_state l)) i"
      "ac_target c = INSTRUMENT_POSITION" "ac_instrument c = Some i"
  | (cash) y where "tc = CurrencyCommodity y" "own = PORTFOLIO_CASH" "other = EXTERNAL_SETTLEMENT"
      "cur = map_of (ls_cash (lg_state l)) y" "ac_target c \<noteq> INSTRUMENT_POSITION" "ac_currency c = Some y"
  using assms by (auto simp: ledger_target_def split: if_splits option.splits list.splits)

lemma derive_correction_Inr:
  assumes "derive_correction std l auth c e sha = Inr p"
  obtains delta q tc own other cur balance p0 p1 where
    "ac_delta c = Some delta" "ledger_target l c = Inr (q, tc, own, other, cur)"
    "next_balance cur delta = Inr balance"
    "p0 = \<lparr>account = own, commodity = tc, po_amount = delta\<rparr>"
    "account p1 = other" "commodity p1 = tc"
    "build_adjustment_transaction std l auth c e sha [p0, p1] = Inr (dp_transaction p)"
    "finish_adjustment std l e (dp_transaction p)
       (case tc of CurrencyCommodity y \<Rightarrow> assign_nonzero (ls_cash (lg_state l)) y balance | _ \<Rightarrow> ls_cash (lg_state l))
       (case tc of InstrumentCommodity i \<Rightarrow> assign_nonzero (ls_positions (lg_state l)) i balance
          | _ \<Rightarrow> ls_positions (lg_state l))
       (ls_unresolved (lg_state l)) (ls_open_bindings (lg_state l)) (ls_open_refs (lg_state l)) = Inr p"
proof -
  from assms obtain delta where d: "ac_delta c = Some delta"
    by (auto simp: derive_correction_def split: option.splits)
  from assms obtain q tc own other cur balance p0 p1 opp t where
    r: "ledger_target l c = Inr (q, tc, own, other, cur)" "next_balance cur delta = Inr balance"
    "make_posting own tc delta = Inr p0" "make_posting other tc opp = Inr p1"
    "build_adjustment_transaction std l auth c e sha [p0, p1] = Inr t"
    "finish_adjustment std l e t
       (case tc of CurrencyCommodity y \<Rightarrow> assign_nonzero (ls_cash (lg_state l)) y balance | _ \<Rightarrow> ls_cash (lg_state l))
       (case tc of InstrumentCommodity i \<Rightarrow> assign_nonzero (ls_positions (lg_state l)) i balance
          | _ \<Rightarrow> ls_positions (lg_state l))
       (ls_unresolved (lg_state l)) (ls_open_bindings (lg_state l)) (ls_open_refs (lg_state l)) = Inr p"
    unfolding derive_correction_def d option.case Let_def guard_res_Inr_iff bind_res_Inr_iff
    by (fastforce simp: on_economic_Inr)
  have t: "t = dp_transaction p" using finish_adjustment_Inr(3) [OF r(6)] by simp
  have pp: "p0 = \<lparr>account = own, commodity = tc, po_amount = delta\<rparr>" "account p1 = other" "commodity p1 = tc"
    using r(3,4) by (simp_all add: make_posting_Inr)
  show thesis by (rule that [OF d r(1,2) pp r(5) [unfolded t] r(6) [unfolded t]])
qed

lemma derive_correction_ok: "derive_correction std l auth c e sha = Inr p \<Longrightarrow> derived_ok std l e p"
proof (erule derive_correction_Inr)
  fix delta q tc own other cur balance p0 p1
  assume t: "ledger_target l c = Inr (q, tc, own, other, cur)" "next_balance cur delta = Inr balance"
    "p0 = \<lparr>account = own, commodity = tc, po_amount = delta\<rparr>" "account p1 = other" "commodity p1 = tc"
    and b: "build_adjustment_transaction std l auth c e sha [p0, p1] = Inr (dp_transaction p)"
    and f: "finish_adjustment std l e (dp_transaction p)
       (case tc of CurrencyCommodity y \<Rightarrow> assign_nonzero (ls_cash (lg_state l)) y balance | _ \<Rightarrow> ls_cash (lg_state l))
       (case tc of InstrumentCommodity i \<Rightarrow> assign_nonzero (ls_positions (lg_state l)) i balance
          | _ \<Rightarrow> ls_positions (lg_state l))
       (ls_unresolved (lg_state l)) (ls_open_bindings (lg_state l)) (ls_open_refs (lg_state l)) = Inr p"
  note bb = build_adjustment_Inr [OF b] and ff = finish_adjustment_Inr [OF f]
  have "values_follow (lg_state l) (lg_state l\<lparr>ls_cash := dp_cash p, ls_positions := dp_positions p\<rparr>) [p0, p1]"
    using t(1)
  proof (cases rule: ledger_target_Inr)
    case (position i)
    then show ?thesis
      using next_balance_val [OF t(2) [unfolded position(4)]] t(3-5)
      by (auto simp: values_follow_def ff)
  next
    case (cash y)
    then show ?thesis
      using next_balance_val [OF t(2) [unfolded cash(4)]] t(3-5)
      by (auto simp: values_follow_def ff)
  qed
  then show "derived_ok std l e p"
    using bb ff by (simp add: derived_ok_def Let_def)
qed

lemma derive_ancestry_ok: "derive_ancestry_resolution std l auth c e sha r = Inr p \<Longrightarrow> derived_ok std l e p"
proof -
  assume "derive_ancestry_resolution std l auth c e sha r = Inr p"
  then obtain t where b: "build_adjustment_transaction std l auth c e sha [] = Inr t"
    and f: "finish_adjustment std l e t (ls_cash (lg_state l)) (ls_positions (lg_state l))
      (AList.delete (op_fill r) (ls_unresolved (lg_state l))) (AList.delete (op_fill r) (ls_open_bindings (lg_state l)))
      (AList.delete (op_fill r) (ls_open_refs (lg_state l))) = Inr p"
    by (auto simp: derive_ancestry_resolution_def Let_def)
  note bb = build_adjustment_Inr [OF b] and ff = finish_adjustment_Inr [OF f]
  show ?thesis using bb ff by (simp add: derived_ok_def values_follow_def Let_def)
qed

text \<open>A booked adjustment: its entry, its indexes and its outcome.\<close>

definition adjustment_booked ::
  "stdlib \<Rightarrow> ledger \<Rightarrow> adjustment_command \<Rightarrow> sha256_digest \<Rightarrow> sha256_digest \<Rightarrow> ledger_state
   \<Rightarrow> adjustment_outcome \<Rightarrow> bool" where
  "adjustment_booked std l c command_sha sha st' a \<longleftrightarrow> (let st = lg_state l in
     (\<exists>t. books_entry std l st' (Adjustment t) \<and> rt_adjustment t = ac_adjustment c
        \<and> jo_entry a = Some (rt_entry t))
     \<and> jo_result a = ADJ_APPLIED \<and> jo_failure a = None
     \<and> jo_adjustment a = ac_adjustment c \<and> jo_command a = command_sha
     \<and> ls_handoff_index st' = ls_handoff_index st
     \<and> ls_adjustment_outcomes st' = (ls_adjustment_outcomes st)(sha \<mapsto> a)
     \<and> ls_adjustment_index st' = (ls_adjustment_index st)(ac_adjustment c \<mapsto> command_sha)
     \<and> ls_observation_index st' = (ls_observation_index st)(ac_observation c \<mapsto> ac_adjustment c))"

lemma create_adjustment_outcome_Inr:
  assumes "create_adjustment_outcome std t a0 = Inr a"
  shows "jo_result a = jo_result a0" "jo_adjustment a = jo_adjustment a0" "jo_command a = jo_command a0"
    "jo_failure a = jo_failure a0" "jo_conflict a = jo_conflict a0" "adjustment_fields_ok a t"
    "t = Some u \<Longrightarrow> jo_entry a = Some (rt_entry u)"
  using assms
  by (auto simp: create_adjustment_outcome_def original_evidence_def Let_def split: prod.splits)

lemma record_adjustment_Inr:
  assumes rec: "record_adjustment std l c command_sha sha e p = Inr (st', a)" and inv: "ledger_inv std l"
    and e: "e = entry_at (lg_run l) (length (ls_transactions (lg_state l)))" and d: "derived_ok std l e p"
  shows "adjustment_booked std l c command_sha sha st' a"
proof -
  let ?st = "lg_state l" and ?t = "dp_transaction p"
  from rec have a: "create_adjustment_outcome std (Some ?t) ((adjustment_base std l c command_sha sha)
            \<lparr>jo_result := ADJ_APPLIED, jo_after := portfolio_snapshot_digest std (dp_snapshot p)\<rparr>) = Inr a"
    and st: "st' = ?st\<lparr>ls_cash := dp_cash p, ls_positions := dp_positions p, ls_unresolved := dp_unresolved p,
           ls_entry_index := (ls_entry_index ?st)(e \<mapsto> Adjustment ?t),
           ls_transactions := ls_transactions ?st @ [Adjustment ?t],
           ls_open_bindings := dp_bindings p, ls_open_refs := dp_refs p,
           ls_authorization_index := (ls_authorization_index ?st)(sha \<mapsto> command_sha),
           ls_adjustment_index := (ls_adjustment_index ?st)(ac_adjustment c \<mapsto> command_sha),
           ls_observation_index := (ls_observation_index ?st)(ac_observation c \<mapsto> ac_adjustment c),
           ls_command_index := (ls_command_index ?st)(command_sha \<mapsto> a),
           ls_adjustment_outcomes := (ls_adjustment_outcomes ?st)(sha \<mapsto> a),
           ls_snapshot := dp_snapshot p\<rparr>"
    by (auto simp: record_adjustment_def Let_def)
  note aa = create_adjustment_outcome_Inr [OF a]
  note n = next_snapshot_Inr [of l "owner_sequence e" e "reconciliation_transaction_digest std ?t" "dp_cash p"
      "dp_positions p" "ls_rounding ?st" "dp_unresolved p" "dp_bindings p" "dp_refs p" "dp_snapshot p"]
  have d': "rt_entry ?t = e" "rt_previous ?t = previous_digest std ?st" "postings_sum_to_zero (rt_postings ?t)"
    "next_snapshot l (owner_sequence e) e (reconciliation_transaction_digest std ?t) (dp_cash p)
         (dp_positions p) (ls_rounding ?st) (dp_unresolved p) (dp_bindings p) (dp_refs p) = Inr (dp_snapshot p)"
    "values_follow ?st (?st\<lparr>ls_cash := dp_cash p, ls_positions := dp_positions p\<rparr>) (rt_postings ?t)"
    using d by (simp_all add: derived_ok_def Let_def)
  have "link_ok std (lg_run l) (ls_transactions ?st) (Adjustment ?t)"
    by (simp add: link_ok_def d' e previous_digest_def)
  moreover have "values_follow ?st st' (rt_postings ?t)"
    using d'(5) by (simp add: values_follow_def st)
  moreover have "indexes_follow std ?st st' (Adjustment ?t)"
    by (simp add: indexes_follow_def st)
  moreover have "snapshot_ok std (lg_run l) st'"
    using n [OF d'(4)] by (simp add: snapshot_ok_def st e entry_at_def Let_def)
  ultimately have "books_entry std l st' (Adjustment ?t)"
    by (simp add: books_entry_def Let_def d') (simp add: st)
  moreover have "jo_failure a = None" "jo_result a = ADJ_APPLIED" "jo_adjustment a = ac_adjustment c"
    "jo_command a = command_sha" "jo_entry a = Some (rt_entry ?t)"
    using aa by (simp_all add: adjustment_base_def Let_def)
  moreover have "rt_adjustment ?t = ac_adjustment c"
    using aa(6) calculation by (simp add: adjustment_fields_ok_def)
  ultimately show ?thesis
    by (auto simp: adjustment_booked_def st Let_def)
qed

text \<open>An answer to an adjustment that changed nothing.\<close>

definition adjustment_refused :: "ledger \<Rightarrow> ledger_state \<Rightarrow> adjustment_outcome \<Rightarrow> bool" where
  "adjustment_refused l st' a \<longleftrightarrow> st' = lg_state l \<and> (jo_result a = ADJ_CONFLICT \<and> jo_failure a = None
     \<or> jo_result a = ADJ_FAILED \<and> jo_failure a \<noteq> Some ARITHMETIC_FAILURE \<and> jo_failure a \<noteq> Some UNBALANCED)"

lemma create_adjustment_outcome_kept:
  "create_adjustment_outcome std t a0 = Inr a \<Longrightarrow> jo_result a = jo_result a0 \<and> jo_failure a = jo_failure a0"
  by (simp add: create_adjustment_outcome_Inr)

lemma adjustment_failed_Inr:
  "adjustment_failed std l c sha k = Inr (st', a) \<Longrightarrow> k \<noteq> ARITHMETIC_FAILURE \<Longrightarrow> k \<noteq> UNBALANCED
   \<Longrightarrow> adjustment_refused l st' a"
  by (auto simp: adjustment_failed_def adjustment_refused_def adjustment_base_def Let_def
      dest!: create_adjustment_outcome_kept)

lemma adjustment_conflicting_Inr:
  "adjustment_conflicting std l c sha k = Inr (st', a) \<Longrightarrow> adjustment_refused l st' a"
  by (auto simp: adjustment_conflicting_def adjustment_refused_def adjustment_base_def Let_def
      dest!: create_adjustment_outcome_kept)

text \<open>Every \<open>PortfolioLedgerError\<close> of a derivation carries a code its constructor admits.\<close>

definition coded :: "exn \<Rightarrow> bool" where
  "coded e \<longleftrightarrow> (\<forall>c. e = PortfolioLedgerError c \<longrightarrow> c \<in> set LEDGER_ERROR_CODES)"

definition ledger_coded :: "'a result \<Rightarrow> bool" where
  "ledger_coded r \<longleftrightarrow> (\<forall>e. r = Inl e \<longrightarrow> coded e)"

named_theorems coding "results whose ledger errors carry admitted codes"

lemma coded_simps [simp]:
  "coded (PortfolioLedgerError c) \<longleftrightarrow> c \<in> set LEDGER_ERROR_CODES"
  "coded (EconomicValidationError c)" "coded (ReconciliationContractError c)" "coded (ExecutionIdentityError c)"
  "coded TypeError" "coded AssertionError" "coded KeyError" "coded (reconciliation_fail c)" "coded (ledger_fail c)"
  by (auto simp: coded_def ledger_fail_def reconciliation_fail_def)

lemma admitted_codes [simp]:
  "INVALID_TYPE \<in> set LEDGER_ERROR_CODES" "OUT_OF_RANGE \<in> set LEDGER_ERROR_CODES"
  "CONFLICTING_ID \<in> set LEDGER_ERROR_CODES"
  by (simp_all add: LEDGER_ERROR_CODES_def)

lemma coded_handlers:
  "coded x \<Longrightarrow> coded (translate_economic_error x)" "coded x \<Longrightarrow> coded (reconciliation_translate x)"
  "coded x \<Longrightarrow> coded e \<Longrightarrow> coded (economic_to e x)"
  by (cases x; simp)+

lemma ledger_coded_simps [simp]: "ledger_coded (Inr x)" "ledger_coded (Inl e) \<longleftrightarrow> coded e"
  by (simp_all add: ledger_coded_def)

lemma coding_combinators [coding]:
  "ledger_coded r \<Longrightarrow> (\<And>x. ledger_coded (f x)) \<Longrightarrow> ledger_coded (bind_res r f)"
  "coded e \<Longrightarrow> ledger_coded r \<Longrightarrow> ledger_coded (guard_res b e r)"
  "ledger_coded r \<Longrightarrow> (\<And>c. ledger_coded (h c)) \<Longrightarrow> (\<And>x. ledger_coded (f x)) \<Longrightarrow> ledger_coded (on_economic r h f)"
  by (auto simp: ledger_coded_def bind_res_Inl_iff guard_res_def elim: on_economic.elims split: if_splits)

lemma coding_handlers [coding]:
  "ledger_coded r \<Longrightarrow> ledger_coded (map_exn translate_economic_error r)"
  "ledger_coded r \<Longrightarrow> ledger_coded (map_exn reconciliation_translate r)"
  "ledger_coded r \<Longrightarrow> coded e \<Longrightarrow> ledger_coded (map_exn (economic_to e) r)"
  by (cases r; simp add: coded_handlers)+

lemma coding_decimals [coding]:
  "ledger_coded (canonical_decimal x)" "ledger_coded (require_quantized v q)" "ledger_coded (require_positive q)"
  "ledger_coded (require_spec ss i)" "ledger_coded (add_decimal v d)" "ledger_coded (next_balance cur d)"
  "ledger_coded (signed_decimal v 1)" "ledger_coded (negated_decimal v)" "ledger_coded (subtract_decimal v d)"
proof -
  show c: "ledger_coded (canonical_decimal x)" for x
    by (auto simp: canonical_decimal_def Let_def intro!: coding)
  show p: "ledger_coded (require_positive q)" for q by (auto simp: require_positive_def intro!: coding)
  show "ledger_coded (require_quantized v q)"
    by (auto simp: require_quantized_def Let_def intro!: coding p)
  show "ledger_coded (require_spec ss i)" by (auto simp: require_spec_def split: option.splits)
  show a: "ledger_coded (add_decimal v d)" for v d by (simp add: add_decimal_def Let_def c)
  show "ledger_coded (next_balance cur d)" by (auto simp: next_balance_def a split: option.splits)
  show "ledger_coded (signed_decimal v 1)" by (simp add: signed_decimal_def c)
  show "ledger_coded (negated_decimal v)" by (simp add: negated_decimal_def c)
  show "ledger_coded (subtract_decimal v d)" by (auto simp: subtract_decimal_def Let_def intro!: coding c)
qed

lemma coding_checks [coding]:
  "ledger_coded (make_posting a c v)" "ledger_coded (require_economic_id i ow ru)"
  "ledger_coded (require_version ver)" "ledger_coded (check_unresolved n us)"
  "ledger_coded (check_bindings n seen bs)" "ledger_coded (check_open_refs n rs)"
proof -
  show "ledger_coded (make_posting a c v)" by (auto simp: make_posting_def intro!: coding)
  show i: "ledger_coded (require_economic_id i ow ru)" for i ow ru
    by (auto simp: require_economic_id_def intro!: coding)
  show "ledger_coded (require_version ver)" by (auto simp: require_version_def intro!: coding)
  show "ledger_coded (check_unresolved n us)" by (induction us) (auto intro!: coding i)
  show "ledger_coded (check_bindings n seen bs)" by (induction bs arbitrary: seen) (auto intro!: coding i)
  show "ledger_coded (check_open_refs n rs)"
    by (induction rs) (auto intro!: coding i split: option.splits)
qed

lemma coding_snapshot [coding]: "ledger_coded (next_snapshot l q e sha cash positions rounding u bs rs)"
proof -
  have c: "ledger_coded (make_cash_balances l m)" for m
    by (induction l m rule: make_cash_balances.induct)
      (auto simp: make_cash_balance_def intro!: coding split: option.splits)
  have p: "ledger_coded (make_position_balances l m)" for m
    by (induction l m rule: make_position_balances.induct)
      (auto simp: make_position_balance_def intro!: coding split: option.splits)
  have r: "ledger_coded (make_rounding_balances m)" for m
    by (induction m rule: make_rounding_balances.induct) (auto simp: make_rounding_balance_def intro!: coding)
  have t: "ledger_coded (require_snapshot_tuples n)" for n
    unfolding require_snapshot_tuples_def by (auto intro!: coding)
  have "ledger_coded (make_snapshot n)" for n
    unfolding make_snapshot_def by (auto intro!: coding t split: option.splits)
  then show ?thesis unfolding next_snapshot_def by (auto intro!: coding c p r)
qed

lemma coding_transaction [coding]: "ledger_coded (create_reconciliation_transaction std ss t)"
proof -
  have b: "ledger_coded (bounded_payload x)" for x by (auto simp: bounded_payload_def intro!: coding)
  have t: "ledger_coded (correction_target ss t)" for t
    unfolding correction_target_def by (auto intro!: coding split: option.splits list.splits)
  have a: "ledger_coded (correction_amount q v)" for q v
    unfolding correction_amount_def by (auto intro!: coding split: option.splits)
  have r: "ledger_coded (require_balance_correction ss t)" for t
    unfolding require_balance_correction_def
    by (auto intro!: coding t a split: option.splits)
  show ?thesis
    unfolding create_reconciliation_transaction_def Let_def reconciliation_transaction_bytes_def
    by (auto intro!: coding r b split: option.splits adjustment_variant.splits)
qed

lemma coding_derivation: "ledger_coded (derive_correction std l auth c e sha)"
proof -
  have b: "ledger_coded (bounded_payload x)" for x by (auto simp: bounded_payload_def intro!: coding)
  have d: "ledger_coded (adjustment_command_digest std c)"
    by (auto simp: adjustment_command_digest_def adjustment_command_bytes_def adjustment_command_document_def
        command_target_def intro!: coding b split: option.splits adjustment_variant.splits)
  have t: "ledger_coded (ledger_target l c)"
    unfolding ledger_target_def by (auto intro!: coding split: option.splits list.splits)
  show ?thesis
    unfolding derive_correction_def finish_adjustment_def build_adjustment_transaction_def Let_def
      reconciliation_transaction_bytes_def
    by (auto intro!: coding b d t split: option.splits)
qed

lemma derivation_failure_kind:
  assumes "derive_correction std l auth c e sha = Inl (PortfolioLedgerError x)"
  shows "correction_failure_kind x = INVALID_COMMAND"
  using coding_derivation [of std l auth c e sha] assms
  by (auto simp: ledger_coded_def coded_def LEDGER_ERROR_CODES_def)

end
