(* ===== verification/Reconciliation_Laws.thy ===== *)
theory Reconciliation_Laws
  imports Ledger_Laws
begin

text \<open>
  The exact difference of the reconciliation module: its own decimal printer
  agrees with the one of \<open>ea.core.economics\<close>, so a correction's delta is the
  observed amount minus the local amount.
\<close>

section \<open>The second decimal printer\<close>

lemma rstrip_snoc [simp]:
  "rstrip_char c (xs @ [d]) = (if d = c then rstrip_char c xs else xs @ [d])"
  by (simp add: rstrip_char_def)

lemma nat_str_last: "\<exists>xs. nat_str n = xs @ [digit_char (n mod 10)]"
  by (cases "n < 10") (auto simp: nat_str_small nat_str_step)

lemma nat_str_times_10: "0 < n \<Longrightarrow> nat_str (10 * n) = nat_str n @ ''0''"
  by (simp add: nat_str_step digit_char_0)

definition padded :: "nat \<Rightarrow> nat \<Rightarrow> string" where
  "padded n s = replicate (s + 1 - length (nat_str n)) (CHR ''0'') @ nat_str n"

lemma padded_times_10: "0 < n \<Longrightarrow> padded (10 * n) (Suc s) = padded n s @ ''0''"
  by (simp add: padded_def nat_str_times_10)

lemma length_padded: "s < length (padded n s)"
  by (simp add: padded_def)

lemma padded_last: "\<exists>xs. padded n s = xs @ [digit_char (n mod 10)]"
  using nat_str_last [of n] by (auto simp: padded_def)

lemma padded_digits: "\<forall>c \<in> set (padded n s). c \<noteq> CHR ''.''"
  using nat_str_digits [of n] by (auto simp: padded_def is_digit_def)

definition pointed :: "nat \<Rightarrow> nat \<Rightarrow> string" where
  "pointed n s = (let p = padded n s; cut = length p - s in take cut p @ ''.'' @ drop cut p)"

definition stripped :: "nat \<Rightarrow> nat \<Rightarrow> string" where
  "stripped n s = (if s \<noteq> 0 then rstrip_char (CHR ''.'') (rstrip_char (CHR ''0'') (pointed n s)) else padded n s)"

lemma stripped_times_10:
  assumes "0 < n"
  shows "stripped (10 * n) (Suc s) = stripped n s"
proof -
  have p: "padded (10 * n) (Suc s) = padded n s @ ''0''" by (rule padded_times_10 [OF assms])
  have l: "s \<le> length (padded n s)" using length_padded [of s n] by simp
  show ?thesis
  proof (cases s)
    case 0
    obtain xs d where x: "padded n 0 = xs @ [d]" "d \<noteq> CHR ''.''"
      using padded_last [of n 0] padded_digits [of n 0] by fastforce
    have "pointed (10 * n) (Suc 0) = ((xs @ [d]) @ ''.'') @ ''0''"
      using p 0 by (simp add: pointed_def x(1) Let_def)
    then have "rstrip_char (CHR ''0'') (pointed (10 * n) (Suc 0)) = (xs @ [d]) @ ''.''"
      by (simp only: rstrip_snoc) simp
    moreover have "rstrip_char (CHR ''.'') ((xs @ [d]) @ ''.'') = xs @ [d]"
      using x(2) by (simp only: rstrip_snoc simp_thms if_True if_False)
    ultimately show ?thesis using x(1) 0 by (simp add: stripped_def)
  next
    case (Suc k)
    have "pointed (10 * n) (Suc s) = pointed n s @ ''0''"
      using l by (simp add: pointed_def p Let_def)
    then show ?thesis using Suc by (simp add: stripped_def)
  qed
qed

lemma stripped_nonzero:
  assumes "n mod 10 \<noteq> 0" "s \<noteq> 0"
  shows "stripped n s = pointed n s"
proof -
  obtain xs where x: "padded n s = xs @ [digit_char (n mod 10)]" using padded_last by blast
  have d: "digit_char (n mod 10) \<noteq> CHR ''0''" using assms(1) by (simp add: digit_char_eq_0)
  have "digit_char (n mod 10) \<noteq> CHR ''.''" using padded_digits [of n s] by (simp add: x)
  moreover have "length xs + 1 - s \<le> length xs" using assms(2) by simp
  then have "\<exists>ys. pointed n s = ys @ [digit_char (n mod 10)]" by (simp add: pointed_def x Let_def)
  ultimately show ?thesis using assms(2) d by (auto simp: stripped_def)
qed

lemma stripped_scaled:
  "c \<noteq> 0 \<Longrightarrow> (if c < 0 then ''-'' else []) @ stripped (nat \<bar>c\<bar>) s = scaled_text c s"
proof (induction s arbitrary: c)
  case 0
  then show ?case
    by (simp add: stripped_def scaled_text_def normalize_scaled_def padded_def)
      (use nat_str_nonempty [of "nat \<bar>c\<bar>"] in \<open>cases "nat_str (nat \<bar>c\<bar>)"; simp\<close>)
next
  case (Suc s)
  show ?case
  proof (cases "c mod 10 = 0")
    case True
    then obtain k where k: "c = 10 * k" by (auto simp: mod_eq_0_iff_dvd)
    have "k \<noteq> 0" "nat \<bar>c\<bar> = 10 * nat \<bar>k\<bar>" "(c < 0) = (k < 0)" using Suc.prems k by (auto simp: nat_mult_distrib)
    moreover have "scaled_text c (Suc s) = scaled_text k s"
      using k calculation(1) by (simp add: scaled_text_def normalize_scaled_def)
    ultimately show ?thesis using Suc.IH [of k] stripped_times_10 [of "nat \<bar>k\<bar>" s] by simp
  next
    case False
    have "\<not> 10 dvd nat \<bar>c\<bar>"
      using False by (metis dvd_abs_iff dvd_imp_mod_0 int_dvd_int_iff int_nat_eq of_nat_numeral abs_ge_zero)
    then have "nat \<bar>c\<bar> mod 10 \<noteq> 0" by (simp add: dvd_eq_mod_eq_0)
    then have "stripped (nat \<bar>c\<bar>) (Suc s) = pointed (nat \<bar>c\<bar>) (Suc s)" by (rule stripped_nonzero) simp
    then show ?thesis
      using False Suc.prems
      by (auto simp: scaled_text_def normalize_scaled_def pointed_def padded_def Let_def not_le)
  qed
qed

lemma stripped_not_zero: "0 < n \<Longrightarrow> stripped n s \<noteq> ''0''"
proof
  assume n: "0 < n" "stripped n s = ''0''"
  have "scaled_text (int n) s = ''0''" using stripped_scaled [of "int n" s] n by simp
  then have "canonical_decimal (scaled_text (int n) s) = Inr \<lparr>dec_text = ''0'', coefficient = 0, scale = 0\<rparr>"
    by (simp, code_simp)
  from canonical_scaled_val(2) [OF this] n show False by (simp add: dval_def)
qed

theorem scaled_decimal_text_eq: "scaled_decimal_text c s = scaled_text c s"
proof (cases "c = 0")
  case False
  then have "stripped (nat \<bar>c\<bar>) s \<noteq> ''0''" by (intro stripped_not_zero) simp
  moreover have "scaled_decimal_text c s = (if stripped (nat \<bar>c\<bar>) s = ''0'' then ''0''
      else (if c < 0 then ''-'' else []) @ stripped (nat \<bar>c\<bar>) s)"
    using False by (simp add: scaled_decimal_text_def stripped_def pointed_def padded_def Let_def)
  ultimately show ?thesis using stripped_scaled [OF False] by simp
qed (simp add: scaled_decimal_text_def scaled_text_def normalize_scaled_def)

lemma subtract_decimal_val:
  assumes "subtract_decimal a b = Inr d"
  shows "wf_dec d" "dval d = dval a - dval b"
proof -
  let ?s = "max (scale a) (scale b)"
  have d: "canonical_decimal (scaled_text (coefficient a * 10 ^ (?s - scale a)
      - coefficient b * 10 ^ (?s - scale b)) ?s) = Inr d"
    using assms by (simp add: subtract_decimal_def scaled_decimal_text_eq Let_def)
  show "wf_dec d" by (rule canonical_scaled_val [OF d])
  have "of_int (coefficient x * 10 ^ (?s - scale x)) / 10 ^ ?s = dval x" if "scale x \<le> ?s" for x
    using that by (simp add: dval_def field_simps flip: power_add)
  from this [of a] this [of b] show "dval d = dval a - dval b"
    by (simp add: canonical_scaled_val [OF d] diff_divide_distrib)
qed

end
