(* ===== verification/Authority.thy ===== *)
theory Authority
  imports Main
begin

text \<open>
  The contract that every single-owner authority of the system offers its
  callers: a command changes the owner's state at most once, and once it has,
  any later submission of it changes nothing. The client lemmas are proved
  here from the laws; the ledger, the order and risk authorities and the
  ingress register discharge the laws for their own definitions.
\<close>

locale idempotent_authority =
  fixes step :: "'s \<Rightarrow> 'c \<Rightarrow> 's"
    and inv :: "'s \<Rightarrow> bool"
    and settled :: "'s \<Rightarrow> 'c \<Rightarrow> bool"
  assumes inv_step: "inv s \<Longrightarrow> inv (step s c)"
    and change_settles: "inv s \<Longrightarrow> step s c \<noteq> s \<Longrightarrow> settled (step s c) c"
    and settled_stable: "inv s \<Longrightarrow> settled s c \<Longrightarrow> settled (step s d) c"
    and settled_idle: "inv s \<Longrightarrow> settled s c \<Longrightarrow> step s c = s"
begin

definition run :: "'s \<Rightarrow> 'c list \<Rightarrow> 's" where
  "run s cs = foldl step s cs"

lemma run_simps [simp]: "run s [] = s" "run s (c # cs) = run (step s c) cs" "run s (cs @ ds) = run (run s cs) ds"
  by (simp_all add: run_def)

lemma run_inv: "inv s \<Longrightarrow> inv (run s cs)"
  by (induction cs arbitrary: s) (simp_all add: inv_step)

lemma run_settled: "inv s \<Longrightarrow> settled s c \<Longrightarrow> settled (run s cs) c"
  by (induction cs arbitrary: s) (simp_all add: inv_step settled_stable)

lemma replay_idle:
  assumes "inv s" "step s c \<noteq> s"
  shows "step (run (step s c) cs) c = run (step s c) cs"
  using assms by (simp add: settled_idle run_inv run_settled inv_step change_settles)

lemma same_command_twice:
  assumes "inv s"
  shows "step (step s c) c = step s c"
  using assms by (cases "step s c = s") (simp_all add: settled_idle inv_step change_settles)

text \<open>How often a run changes the state while serving one command.\<close>

fun changes :: "'s \<Rightarrow> 'c \<Rightarrow> 'c list \<Rightarrow> nat" where
  "changes s c [] = 0"
| "changes s c (d # ds) = (if d = c \<and> step s d \<noteq> s then 1 else 0) + changes (step s d) c ds"

lemma settled_no_change: "inv s \<Longrightarrow> settled s c \<Longrightarrow> changes s c cs = 0"
  by (induction cs arbitrary: s) (auto simp: inv_step settled_stable settled_idle)

lemma at_most_one_change: "inv s \<Longrightarrow> changes s c cs \<le> 1"
proof (induction cs arbitrary: s)
  case (Cons d ds)
  show ?case
  proof (cases "d = c \<and> step s d \<noteq> s")
    case True
    then have "changes (step s d) c ds = 0"
      using Cons.prems by (intro settled_no_change) (auto simp: inv_step change_settles)
    with True show ?thesis by simp
  qed (use Cons inv_step in auto)
qed simp

end

text \<open>
  An authority that also answers: while the command is settled, every submission
  gets the same answer, whatever ran in between.
\<close>

locale retaining_authority = idempotent_authority step inv settled
  for step :: "'s \<Rightarrow> 'c \<Rightarrow> 's" and inv :: "'s \<Rightarrow> bool" and settled :: "'s \<Rightarrow> 'c \<Rightarrow> bool" +
  fixes answer :: "'s \<Rightarrow> 'c \<Rightarrow> 'a"
  assumes answer_stable: "inv s \<Longrightarrow> settled s c \<Longrightarrow> answer (step s d) c = answer s c"
begin

lemma answer_kept: "inv s \<Longrightarrow> settled s c \<Longrightarrow> answer (run s cs) c = answer s c"
  by (induction cs arbitrary: s) (simp_all add: inv_step settled_stable answer_stable)

lemma answers_agree:
  assumes "inv s" "settled s c"
  shows "answer (run s cs) c = answer (run s ds) c"
  using assms by (simp add: answer_kept)

end

end
