(* ===== verification/Ledger_Properties.thy ===== *)
theory Ledger_Properties
  imports Ledger_Steps Reconciliation_Laws Authority
begin

text \<open>
  The ledger as one machine: its four operations as events, the invariant over
  any sequence of them, the authority contract it discharges, and the
  properties of the ledger.
\<close>

section \<open>Events\<close>

datatype ledger_event =
    FillEvent fill
  | CommandEvent application_command fill
  | FundingEvent initial_funding
  | AdjustmentEvent audited_authorization adjustment_command

fun ledger_next :: "stdlib \<Rightarrow> ledger \<Rightarrow> ledger_event \<Rightarrow> ledger" where
  "ledger_next std l (FillEvent f) = fst (apply_fill std l f)"
| "ledger_next std l (CommandEvent c f) = fst (apply_ledger_application_command std l c f)"
| "ledger_next std l (FundingEvent f) = fst (apply_initial_funding std l f)"
| "ledger_next std l (AdjustmentEvent a c) = fst (apply_reconciliation_adjustment std l a c)"

definition ledger_run :: "stdlib \<Rightarrow> ledger \<Rightarrow> ledger_event list \<Rightarrow> ledger" where
  "ledger_run std l es = foldl (ledger_next std) l es"

text \<open>The retained evidence: every index points at an entry that was booked.\<close>

definition retained_ok :: "ledger_state \<Rightarrow> bool" where
  "retained_ok st \<longleftrightarrow>
     (\<forall>d b. ls_handoff_index st d = Some b \<longrightarrow> ao_code (hb_outcome b) = LEDGER_APPLIED
        \<and> (\<exists>t. FillEntry t \<in> set (ls_transactions st) \<and> ao_transaction (hb_outcome b) = Some t))
     \<and> (\<forall>k d. ls_adjustment_index st k = Some d \<longrightarrow>
          (\<exists>t. Adjustment t \<in> set (ls_transactions st) \<and> rt_adjustment t = k))
     \<and> (\<forall>d a. ls_adjustment_outcomes st d = Some a \<longrightarrow>
          (\<exists>t. Adjustment t \<in> set (ls_transactions st) \<and> jo_entry a = Some (rt_entry t) \<and> jo_failure a = None))"

lemma retained_okI [inv_intros]:
  assumes "\<And>d b. ls_handoff_index st d = Some b \<Longrightarrow> ao_code (hb_outcome b) = LEDGER_APPLIED
        \<and> (\<exists>t. FillEntry t \<in> set (ls_transactions st) \<and> ao_transaction (hb_outcome b) = Some t)"
    "\<And>k d. ls_adjustment_index st k = Some d \<Longrightarrow>
          \<exists>t. Adjustment t \<in> set (ls_transactions st) \<and> rt_adjustment t = k"
    "\<And>d a. ls_adjustment_outcomes st d = Some a \<Longrightarrow>
          \<exists>t. Adjustment t \<in> set (ls_transactions st) \<and> jo_entry a = Some (rt_entry t) \<and> jo_failure a = None"
  shows "retained_ok st"
  using assms by (simp add: retained_ok_def)

lemma retained_okD:
  assumes "retained_ok st"
  shows "ls_handoff_index st d = Some b \<Longrightarrow> ao_code (hb_outcome b) = LEDGER_APPLIED
        \<and> (\<exists>t. FillEntry t \<in> set (ls_transactions st) \<and> ao_transaction (hb_outcome b) = Some t)"
    "ls_adjustment_index st k = Some e \<Longrightarrow>
          \<exists>t. Adjustment t \<in> set (ls_transactions st) \<and> rt_adjustment t = k"
    "ls_adjustment_outcomes st d = Some a \<Longrightarrow>
          \<exists>t. Adjustment t \<in> set (ls_transactions st) \<and> jo_entry a = Some (rt_entry t) \<and> jo_failure a = None"
  using assms by (simp_all add: retained_ok_def)

definition ledger_ok :: "stdlib \<Rightarrow> ledger \<Rightarrow> bool" where
  "ledger_ok std l \<longleftrightarrow> ledger_inv std l \<and> retained_ok (lg_state l)"

section \<open>Adjustments, case by case\<close>

lemma plan_new_adjustment_step:
  assumes "plan_new_adjustment std l auth c command_sha sha = Inr (st', a)" "ledger_inv std l"
  shows "adjustment_refused l st' a \<or> adjustment_booked std l c command_sha sha st' a"
proof -
  let ?n = "ls_snapshot (lg_state l)"
  show ?thesis
  proof (cases "ac_sequence c \<noteq> sn_sequence ?n \<or> ac_snapshot c \<noteq> portfolio_snapshot_digest std ?n
            \<or> sn_version ?n = 2 ^ 64 - 1")
    case True
    with assms(1) have "adjustment_failed std l c sha STALE_FRONTIER = Inr (st', a)"
      by (simp add: plan_new_adjustment_def Let_def)
    then show ?thesis using adjustment_failed_Inr by blast
  next
    case False
    with assms(1) obtain e where e: "make_economic_id (lg_run l) LEDGER_ENTRY (sn_version ?n + 1) = Inr e"
      and k: "(if ls_entry_index (lg_state l) e \<noteq> None
           then adjustment_conflicting std l c sha ADJUSTMENT_INDEX_INCONSISTENT
           else (case ac_variant c of
               BALANCE_CORRECTION \<Rightarrow>
                 (case derive_correction std l auth c e sha of
                    Inl (PortfolioLedgerError x) \<Rightarrow> adjustment_failed std l c sha (correction_failure_kind x)
                  | Inl x \<Rightarrow> Inl x
                  | Inr p \<Rightarrow> record_adjustment std l c command_sha sha e p)
             | ANCESTRY_RESOLUTION \<Rightarrow>
                 (case (ac_target c, ac_ref c) of
                    (OPEN_RECONCILIATION_REF, Some r) \<Rightarrow>
                      if map_of (ls_open_refs (lg_state l)) (op_fill r) \<noteq> Some r
                      then adjustment_failed std l c sha STALE_FRONTIER
                      else bind_res (derive_ancestry_resolution std l auth c e sha r) (\<lambda>p.
                        record_adjustment std l c command_sha sha e p)
                  | _ \<Rightarrow> adjustment_failed std l c sha INVALID_COMMAND))) = Inr (st', a)"
      by (auto simp: plan_new_adjustment_def Let_def simp del: bind_res_simps)
    note free = next_entry_free [OF assms(2) e]
    have stale: "adjustment_failed std l c sha x = Inr (st', a) \<Longrightarrow> x \<in> {INVALID_COMMAND, STALE_FRONTIER}
        \<Longrightarrow> adjustment_refused l st' a" for x using adjustment_failed_Inr by blast
    have rec: "record_adjustment std l c command_sha sha e p = Inr (st', a) \<Longrightarrow> derived_ok std l e p
        \<Longrightarrow> adjustment_booked std l c command_sha sha st' a" for p
      using record_adjustment_Inr [OF _ assms(2) free(1)] by blast
    show ?thesis
    proof (cases "ac_variant c")
      case BALANCE_CORRECTION
      with k free(2) have k': "(case derive_correction std l auth c e sha of
            Inl (PortfolioLedgerError x) \<Rightarrow> adjustment_failed std l c sha (correction_failure_kind x)
          | Inl x \<Rightarrow> Inl x
          | Inr p \<Rightarrow> record_adjustment std l c command_sha sha e p) = Inr (st', a)" by simp
      show ?thesis
      proof (cases "derive_correction std l auth c e sha")
        case (Inl x)
        with k' obtain y where x: "x = PortfolioLedgerError y"
          and f: "adjustment_failed std l c sha (correction_failure_kind y) = Inr (st', a)"
          by (cases x) auto
        show ?thesis using f derivation_failure_kind [OF Inl [unfolded x]] stale by auto
      next
        case (Inr p)
        with k' show ?thesis using rec derive_correction_ok [OF Inr] by simp
      qed
    next
      case ANCESTRY_RESOLUTION
      with k free(2) stale rec show ?thesis
        by (auto dest!: derive_ancestry_ok split: adjustment_target.splits option.splits if_splits)
    qed
  qed
qed

lemma plan_adjustment_step:
  assumes "plan_adjustment std l audited c = Inr (st', a)" "ledger_inv std l"
  shows "ls_adjustment_outcomes (lg_state l) (au_sha256 audited) = Some a \<and> st' = lg_state l
    \<or> adjustment_refused l st' a
    \<or> (\<exists>d. adjustment_booked std l c d (au_sha256 audited) st' a
         \<and> ls_adjustment_index (lg_state l) (ac_adjustment c) = None
         \<and> ls_adjustment_outcomes (lg_state l) (au_sha256 audited) = None
         \<and> ls_observation_index (lg_state l) (ac_observation c) = None)"
proof -
  let ?sha = "au_sha256 audited"
  have failed: "adjustment_failed std l c ?sha INVALID_COMMAND = Inr (st', a) \<Longrightarrow> adjustment_refused l st' a"
    using adjustment_failed_Inr by blast
  show ?thesis
    using assms(1) adjustment_conflicting_Inr failed plan_new_adjustment_step [OF _ assms(2)]
    by (fastforce simp: plan_adjustment_def Let_def split: option.splits if_splits)
qed

section \<open>One event\<close>

fun ledger_settled :: "ledger \<Rightarrow> ledger_event \<Rightarrow> bool" where
  "ledger_settled l (FillEvent f) \<longleftrightarrow>
     ls_fill_index (lg_state l) (fl_id f) \<noteq> None \<or> ls_fact_index (lg_state l) (fact_key f) \<noteq> None"
| "ledger_settled l (CommandEvent c f) \<longleftrightarrow>
     ls_handoff_index (lg_state l) (ap_handoff_sha256 c) \<noteq> None
     \<or> ls_fill_index (lg_state l) (fl_id f) \<noteq> None \<or> ls_fact_index (lg_state l) (fact_key f) \<noteq> None"
| "ledger_settled l (FundingEvent f) \<longleftrightarrow> ls_funding (lg_state l) \<noteq> None"
| "ledger_settled l (AdjustmentEvent a c) \<longleftrightarrow> ls_adjustment_index (lg_state l) (ac_adjustment c) \<noteq> None"

lemma commit_cases:
  obtains (kept) "fst (commit l r) = l" "\<And>st a. r = Inr (st, a) \<Longrightarrow> st = lg_state l"
  | (changed) st a where "r = Inr (st, a)" "fst (commit l r) = l\<lparr>lg_state := st\<rparr>" "st \<noteq> lg_state l"
proof (cases r)
  case (Inl e)
  then show thesis by (intro kept) (simp_all add: commit_def)
next
  case (Inr x)
  obtain st a where x: "x = (st, a)" by fastforce
  show thesis
  proof (cases "st = lg_state l")
    case True
    with Inr x show thesis by (intro kept) (simp_all add: commit_def)
  next
    case False
    with Inr x show thesis by (intro changed) (simp_all add: commit_def)
  qed
qed

lemma fill_change:
  assumes "plan_fill std l f = Inr (st', a)" "st' \<noteq> lg_state l" "ledger_inv std l"
  obtains t where "fill_booked std l f (fill_digest std f) None st' a t"
  using plan_fill_step [OF assms(1,3)] assms(2) by (auto simp: nothing_booked_def)

lemma command_change:
  assumes "plan_command std l c f = Inr (st', a)" "st' \<noteq> lg_state l" "ledger_inv std l"
  obtains t r where "fill_booked std l f (fill_digest std f) (Some r) st' a t"
    "hr_handoff_sha256 r = ap_handoff_sha256 c"
  using plan_command_step [OF assms(1,3)] assms(2) by (auto simp: nothing_booked_def)

lemma funding_change:
  assumes "plan_funding std l f = Inr (st', a)" "st' \<noteq> lg_state l" "ledger_inv std l"
  obtains t where "books_entry std l st' (Funding t)" "ls_funding (lg_state l) = None"
    "record_funding std l f = Inr (st', a)" "sn_sequence (ls_snapshot (lg_state l)) = 0"
proof -
  from plan_funding_step [OF assms(1,3)] assms(2) obtain t where
    t: "books_entry std l st' (Funding t)" "ls_funding (lg_state l) = None" by auto
  with assms(1,2) have "record_funding std l f = Inr (st', a)" "sn_sequence (ls_snapshot (lg_state l)) = 0"
    by (auto simp: plan_funding_def Let_def split: if_splits)
  with t that show thesis by blast
qed

lemma adjustment_change:
  assumes "plan_adjustment std l au c = Inr (st', a)" "st' \<noteq> lg_state l" "ledger_inv std l"
  obtains d where "adjustment_booked std l c d (au_sha256 au) st' a"
  using plan_adjustment_step [OF assms(1,3)] assms(2) by (auto simp: adjustment_refused_def)

lemma funding_fst: "fst (apply_initial_funding std l f) = fst (commit l (plan_funding std l f))"
  by (simp add: apply_initial_funding_def split: prod.splits)

text \<open>A changing event books exactly one entry, is settled by it, and forgets nothing.\<close>

definition keeps_evidence :: "ledger_state \<Rightarrow> ledger_state \<Rightarrow> bool" where
  "keeps_evidence st st' \<longleftrightarrow>
     (\<forall>d. ls_handoff_index st d \<noteq> None \<longrightarrow> ls_handoff_index st' d \<noteq> None)
     \<and> (\<forall>k. ls_adjustment_index st k \<noteq> None \<longrightarrow> ls_adjustment_index st' k \<noteq> None)
     \<and> (\<forall>k. ls_fill_index st k \<noteq> None \<longrightarrow> ls_fill_index st' k = ls_fill_index st k)
     \<and> (\<forall>k. ls_fact_index st k \<noteq> None \<longrightarrow> ls_fact_index st' k = ls_fact_index st k)
     \<and> (ls_funding st \<noteq> None \<longrightarrow> ls_funding st' \<noteq> None)"

lemma books_keep:
  assumes "books_entry std l st' t"
    "\<And>d. ls_handoff_index (lg_state l) d \<noteq> None \<Longrightarrow> ls_handoff_index st' d \<noteq> None"
    "\<And>k. ls_adjustment_index (lg_state l) k \<noteq> None \<Longrightarrow> ls_adjustment_index st' k \<noteq> None"
  shows "keeps_evidence (lg_state l) st'"
  using assms by (cases t) (auto simp: keeps_evidence_def books_entry_def indexes_follow_def Let_def)

lemma fill_booked_follow:
  assumes "fill_booked std l f sha h st' a t" "retained_ok (lg_state l)"
  shows "keeps_evidence (lg_state l) st'" "retained_ok st'"
    "ls_fill_index st' (fl_id f) = Some (tx_binding std t)"
    "ls_fact_index st' (fact_key f) = Some (tx_binding std t)"
    "h = Some r \<Longrightarrow> ls_handoff_index st' (hr_handoff_sha256 r) \<noteq> None"
proof -
  have b: "books_entry std l st' (FillEntry t)" and adj: "ls_adjustment_index st' = ls_adjustment_index (lg_state l)"
    "ls_adjustment_outcomes st' = ls_adjustment_outcomes (lg_state l)"
    and sel: "lt_fill t = fl_id f" "lt_fact_key t = fact_key f"
    using assms(1) by (auto simp: fill_booked_def fill_transaction_def)
  have tx: "ls_transactions st' = ls_transactions (lg_state l) @ [FillEntry t]"
    using b by (simp add: books_entry_def Let_def)
  have h: "ls_handoff_index st' d = Some x \<Longrightarrow> ls_handoff_index (lg_state l) d = Some x
      \<or> (hb_outcome x = a \<and> ao_code a = LEDGER_APPLIED \<and> ao_transaction a = Some t)" for d x
    using assms(1) by (cases h) (auto simp: fill_booked_def split: if_splits)
  show "keeps_evidence (lg_state l) st'"
    using assms(1) adj by (intro books_keep [OF b]) (cases h, auto simp: fill_booked_def)
  show "retained_ok st'"
  proof (rule retained_okI, goal_cases)
    case (1 d b)
    from h [OF this] retained_okD(1) [OF assms(2), of d b] show ?case by (fastforce simp: tx)
  next
    case (2 k d) then show ?case using retained_okD(2) [OF assms(2)] by (fastforce simp: tx adj)
  next
    case (3 d x) then show ?case using retained_okD(3) [OF assms(2)] by (fastforce simp: tx adj)
  qed
  show "ls_fill_index st' (fl_id f) = Some (tx_binding std t)"
    "ls_fact_index st' (fact_key f) = Some (tx_binding std t)"
    using b by (auto simp: books_entry_def indexes_follow_def sel Let_def)
  show "h = Some r \<Longrightarrow> ls_handoff_index st' (hr_handoff_sha256 r) \<noteq> None"
    using assms(1) by (auto simp: fill_booked_def)
qed

lemma adjustment_booked_follow:
  assumes "adjustment_booked std l c d sha st' a" "retained_ok (lg_state l)"
  shows "keeps_evidence (lg_state l) st'" "retained_ok st'" "ls_adjustment_index st' (ac_adjustment c) \<noteq> None"
proof -
  obtain t where b: "books_entry std l st' (Adjustment t)" "rt_adjustment t = ac_adjustment c"
      "jo_entry a = Some (rt_entry t)" "jo_failure a = None"
    and i: "ls_handoff_index st' = ls_handoff_index (lg_state l)"
      "ls_adjustment_index st' = (ls_adjustment_index (lg_state l))(ac_adjustment c \<mapsto> d)"
      "ls_adjustment_outcomes st' = (ls_adjustment_outcomes (lg_state l))(sha \<mapsto> a)"
    using assms(1) by (auto simp: adjustment_booked_def Let_def)
  have tx: "ls_transactions st' = ls_transactions (lg_state l) @ [Adjustment t]"
    using b by (simp add: books_entry_def Let_def)
  show "keeps_evidence (lg_state l) st'" by (rule books_keep [OF b(1)]) (auto simp: i)
  show "ls_adjustment_index st' (ac_adjustment c) \<noteq> None" by (simp add: i)
  show "retained_ok st'"
  proof (rule retained_okI, goal_cases)
    case (1 d x) then show ?case using retained_okD(1) [OF assms(2)] by (fastforce simp: tx i)
  next
    case (2 k x) then show ?case
      using retained_okD(2) [OF assms(2)] b(2) by (cases "k = ac_adjustment c") (fastforce simp: tx i)+
  next
    case (3 x y) then show ?case
      using retained_okD(3) [OF assms(2)] b(3,4) by (cases "x = sha") (fastforce simp: tx i)+
  qed
qed

lemma funding_booked_follow:
  assumes "record_funding std l f = Inr (st', a)" "books_entry std l st' (Funding t)" "retained_ok (lg_state l)"
    "sn_sequence (ls_snapshot (lg_state l)) = 0" "ledger_inv std l"
  shows "keeps_evidence (lg_state l) st'" "retained_ok st'" "ls_funding st' \<noteq> None"
proof -
  have i: "ls_handoff_index st' = Map.empty" "ls_adjustment_index st' = Map.empty"
    "ls_adjustment_outcomes st' = Map.empty" "ls_funding st' \<noteq> None"
    using assms(1) by (auto simp: record_funding_def)
  have e: "ls_handoff_index (lg_state l) d = None" "ls_adjustment_index (lg_state l) k = None" for d k
    using assms(3) unfolding retained_ok_def empty_ledger(1) [OF assms(5,4)] by (auto intro: option.exhaust)
  show "keeps_evidence (lg_state l) st'" by (rule books_keep [OF assms(2)]) (simp_all add: e)
  show "retained_ok st'" "ls_funding st' \<noteq> None" using i by (simp_all add: retained_ok_def)
qed

lemma ledger_next_cases:
  assumes "ledger_ok std l"
  obtains (kept) "ledger_next std l e = l"
  | (booked) st' t where "ledger_next std l e = l\<lparr>lg_state := st'\<rparr>" "books_entry std l st' t"
      "keeps_evidence (lg_state l) st'" "retained_ok st'" "ledger_settled (l\<lparr>lg_state := st'\<rparr>) e"
proof -
  have inv: "ledger_inv std l" "retained_ok (lg_state l)" using assms by (simp_all add: ledger_ok_def)
  show thesis
  proof (cases e)
    case (FillEvent f)
    show thesis
    proof (cases rule: commit_cases [of l "plan_fill std l f"])
      case kept then show ?thesis using that(1) by (simp add: FillEvent apply_fill_def)
    next
      case (changed st a)
      obtain t where t: "fill_booked std l f (fill_digest std f) None st a t"
        using fill_change [OF changed(1,3) inv(1)] .
      have "books_entry std l st (FillEntry t)" using t by (simp add: fill_booked_def)
      with changed(2) fill_booked_follow [OF t inv(2)] show ?thesis
        by (intro that(2)) (auto simp: FillEvent apply_fill_def)
    qed
  next
    case (CommandEvent c f)
    show thesis
    proof (cases rule: commit_cases [of l "plan_command std l c f"])
      case kept then show ?thesis
        using that(1) by (simp add: CommandEvent apply_ledger_application_command_def)
    next
      case (changed st a)
      obtain t r where t: "fill_booked std l f (fill_digest std f) (Some r) st a t"
        "hr_handoff_sha256 r = ap_handoff_sha256 c"
        using command_change [OF changed(1,3) inv(1)] .
      have "books_entry std l st (FillEntry t)" using t by (simp add: fill_booked_def)
      with changed(2) fill_booked_follow [OF t(1) inv(2)] t(2) show ?thesis
        by (intro that(2)) (auto simp: CommandEvent apply_ledger_application_command_def)
    qed
  next
    case (FundingEvent f)
    show thesis
    proof (cases rule: commit_cases [of l "plan_funding std l f"])
      case kept then show ?thesis using that(1) by (simp add: FundingEvent funding_fst)
    next
      case (changed st a)
      obtain t where t: "books_entry std l st (Funding t)" "record_funding std l f = Inr (st, a)"
        "sn_sequence (ls_snapshot (lg_state l)) = 0"
        using funding_change [OF changed(1,3) inv(1)] by metis
      with changed(2) funding_booked_follow [OF t(2,1) inv(2) t(3) inv(1)] show ?thesis
        by (intro that(2)) (auto simp: FundingEvent funding_fst)
    qed
  next
    case (AdjustmentEvent au c)
    show thesis
    proof (cases rule: commit_cases [of l "plan_adjustment std l au c"])
      case kept then show ?thesis
        using that(1) by (simp add: AdjustmentEvent apply_reconciliation_adjustment_def)
    next
      case (changed st a)
      obtain d where d: "adjustment_booked std l c d (au_sha256 au) st a"
        using adjustment_change [OF changed(1,3) inv(1)] .
      then obtain t where "books_entry std l st (Adjustment t)" by (auto simp: adjustment_booked_def Let_def)
      with changed(2) adjustment_booked_follow [OF d inv(2)] show ?thesis
        by (intro that(2)) (auto simp: AdjustmentEvent apply_reconciliation_adjustment_def)
    qed
  qed
qed

lemma ledger_ok_next [inv_intros]: "ledger_ok std l \<Longrightarrow> ledger_ok std (ledger_next std l e)"
  by (rule ledger_next_cases [of std l e]) (auto simp: ledger_ok_def books_inv)

section \<open>The contract of the ledger\<close>

lemma keeps_settled:
  "keeps_evidence (lg_state l) st' \<Longrightarrow> ledger_settled l e \<Longrightarrow> ledger_settled (l\<lparr>lg_state := st'\<rparr>) e"
  by (cases e) (auto simp: keeps_evidence_def)

lemma settled_kept:
  assumes "ledger_ok std l" "ledger_settled l e"
  shows "ledger_next std l e = l"
proof -
  have inv: "ledger_inv std l" using assms(1) by (simp add: ledger_ok_def)
  show ?thesis
  proof (cases e)
    case (FillEvent f)
    have "fst (commit l (plan_fill std l f)) = l"
    proof (cases rule: commit_cases [of l "plan_fill std l f"])
      case (changed st a)
      obtain t where "fill_booked std l f (fill_digest std f) None st a t"
        using fill_change [OF changed(1,3) inv] .
      then have "ls_fill_index (lg_state l) (fl_id f) = None \<and> ls_fact_index (lg_state l) (fact_key f) = None"
        by (auto simp: fill_booked_def books_entry_def indexes_follow_def fill_transaction_def Let_def)
      with assms(2) show ?thesis by (simp add: FillEvent)
    qed
    then show ?thesis by (simp add: FillEvent apply_fill_def)
  next
    case (CommandEvent c f)
    have "fst (commit l (plan_command std l c f)) = l"
    proof (cases rule: commit_cases [of l "plan_command std l c f"])
      case (changed st a)
      have h: "ls_handoff_index (lg_state l) (ap_handoff_sha256 c) = None"
        using changed(1,3) by (cases "ls_handoff_index (lg_state l) (ap_handoff_sha256 c)")
          (auto simp: plan_command_def Let_def)
      obtain t r where "fill_booked std l f (fill_digest std f) (Some r) st a t"
        using command_change [OF changed(1,3) inv] by metis
      then have "ls_fill_index (lg_state l) (fl_id f) = None \<and> ls_fact_index (lg_state l) (fact_key f) = None"
        by (auto simp: fill_booked_def books_entry_def indexes_follow_def fill_transaction_def Let_def)
      with assms(2) h show ?thesis by (simp add: CommandEvent)
    qed
    then show ?thesis by (simp add: CommandEvent apply_ledger_application_command_def)
  next
    case (FundingEvent f)
    have "fst (commit l (plan_funding std l f)) = l"
    proof (cases rule: commit_cases [of l "plan_funding std l f"])
      case (changed st a)
      have "ls_funding (lg_state l) = None" by (rule funding_change [OF changed(1,3) inv])
      with assms(2) show ?thesis by (simp add: FundingEvent)
    qed
    then show ?thesis by (simp add: FundingEvent funding_fst)
  next
    case (AdjustmentEvent au c)
    have "fst (commit l (plan_adjustment std l au c)) = l"
    proof (cases rule: commit_cases [of l "plan_adjustment std l au c"])
      case (changed st a)
      have "ls_adjustment_index (lg_state l) (ac_adjustment c) = None"
        using plan_adjustment_step [OF changed(1) inv] changed(3) by (auto simp: adjustment_refused_def)
      with assms(2) show ?thesis by (simp add: AdjustmentEvent)
    qed
    then show ?thesis by (simp add: AdjustmentEvent apply_reconciliation_adjustment_def)
  qed
qed

interpretation ledger_authority: idempotent_authority "ledger_next std" "ledger_ok std" ledger_settled for std
proof
  fix l e d assume ok: "ledger_ok std l"
  show "ledger_ok std (ledger_next std l e)" using ok by (rule ledger_ok_next)
  show "ledger_next std l e = l" if "ledger_settled l e" using ok that by (rule settled_kept)
  show "ledger_settled (ledger_next std l e) e" if "ledger_next std l e \<noteq> l"
    by (rule ledger_next_cases [OF ok, of e]) (use that in simp_all)
  show "ledger_settled (ledger_next std l d) e" if "ledger_settled l e"
    by (rule ledger_next_cases [OF ok, of d]) (use that in \<open>simp_all add: keeps_settled\<close>)
qed

lemma ledger_run_authority: "ledger_run std l es = ledger_authority.run std l es"
  by (simp add: ledger_run_def ledger_authority.run_def)

lemma created_ok:
  assumes "create_portfolio_ledger std run ss = Inr l"
  shows "ledger_ok std l" "lg_run l = run" "ls_transactions (lg_state l) = []" "ls_funding (lg_state l) = None"
    "ls_cash (lg_state l) = []" "sn_sequence (ls_snapshot (lg_state l)) = 0"
proof -
  from assms obtain quanta specs n where n: "make_snapshot \<lparr>sn_run = run, sn_set_id = set_identifier ss,
          sn_set_sha256 = instrument_spec_set_digest (hexdigest std) ss,
          sn_version = 0, sn_sequence = 0, sn_last_entry = None, sn_last_sha256 = None,
          sn_cash = [], sn_positions = [], sn_rounding = [], sn_unresolved = [],
          sn_open_bindings = [], sn_open_refs = []\<rparr> = Inr n"
    and l: "l = \<lparr>lg_run = run, lg_specs = ss, lg_specs_sha256 = instrument_spec_set_digest (hexdigest std) ss,
          lg_quanta = quanta, lg_by_instrument = specs,
          lg_state = \<lparr>ls_cash = [], ls_positions = [], ls_rounding = [], ls_unresolved = [],
            ls_fill_index = Map.empty, ls_fact_index = Map.empty, ls_entry_index = Map.empty,
            ls_transactions = [], ls_funding = None, ls_open_bindings = [], ls_open_refs = [],
            ls_handoff_index = Map.empty, ls_authorization_index = Map.empty,
            ls_adjustment_index = Map.empty, ls_observation_index = Map.empty,
            ls_command_index = Map.empty, ls_adjustment_outcomes = Map.empty, ls_snapshot = n\<rparr>\<rparr>"
    by (auto simp: create_portfolio_ledger_def Let_def)
  have n': "sn_run n = run" "sn_version n = 0" "sn_sequence n = 0" "sn_last_sha256 n = None"
    "sn_cash n = []" "sn_positions n = []" "sn_rounding n = []"
    using make_snapshot_Inr [OF n] by simp_all
  show "ledger_ok std l"
    by (simp add: l n' ledger_ok_def ledger_inv_def balances_ok_def index_ok_def entries_ok_def
        snapshot_ok_def funding_ok_def retained_ok_def Let_def)
  show "lg_run l = run" "ls_transactions (lg_state l) = []" "ls_funding (lg_state l) = None"
    "ls_cash (lg_state l) = []" "sn_sequence (ls_snapshot (lg_state l)) = 0" by (simp_all add: l n')
qed

lemma run_ok: "create_portfolio_ledger std run ss = Inr l \<Longrightarrow> ledger_ok std (ledger_run std l es)"
  by (simp add: ledger_run_authority ledger_authority.run_inv created_ok)

lemma next_run_id: "ledger_ok std l \<Longrightarrow> lg_run (ledger_next std l e) = lg_run l"
  by (rule ledger_next_cases [of std l e]) simp_all

lemma run_run_id: "ledger_ok std l \<Longrightarrow> lg_run (ledger_run std l es) = lg_run l"
  by (induction es arbitrary: l) (simp_all add: ledger_run_def next_run_id ledger_ok_next)

end
