(* ===== verification/Ledger_Claims.thy ===== *)
theory Ledger_Claims
  imports Ledger_Properties
begin

text \<open>
  The properties of the portfolio ledger, over every run of its four operations
  from a created ledger, with a concrete funded ledger as witness.
\<close>

section \<open>Facts the properties share\<close>

lemma ledger_ok_books:
  assumes "ledger_ok std l"
  shows "chained std (lg_run l) (ls_transactions (lg_state l))" "balances_ok (lg_state l)"
    "index_ok std (lg_state l)" "entries_ok (lg_run l) (lg_state l)"
    "snapshot_ok std (lg_run l) (lg_state l)" "funding_ok (lg_state l)" "retained_ok (lg_state l)"
    "ledger_inv std l"
  using assms by (simp_all add: ledger_ok_def ledger_inv_def Let_def)

lemma chained_links:
  assumes "chained std r txs" "i < length txs"
  shows "tx_entry (txs ! i) = entry_at r i"
    "tx_previous (txs ! i) = (if i = 0 then None else Some (transaction_digest std (txs ! (i - 1))))"
    "postings_sum_to_zero (tx_postings (txs ! i))"
proof -
  have l: "link_ok std r (take i txs) (txs ! i)" using assms by (simp add: chained_def)
  have "i \<noteq> 0 \<Longrightarrow> last (take i txs) = txs ! (i - 1)"
    using assms(2) by (subst last_conv_nth) auto
  with l assms(2) show "tx_entry (txs ! i) = entry_at r i"
    "tx_previous (txs ! i) = (if i = 0 then None else Some (transaction_digest std (txs ! (i - 1))))"
    "postings_sum_to_zero (tx_postings (txs ! i))"
    by (auto simp: link_ok_def min_def)
qed

text \<open>What a booked fill did to the three balances, in exact values.\<close>

lemma settlement_value:
  assumes "settle_execution sha ss i p q = Inr s"
  obtains spec where "require_spec ss i = Inr spec" "es_currency s = settlement_currency spec"
    "dval (es_amount s) + dval (es_rounding_residual s) = dval p * dval q * dval (contract_multiplier spec)"
  using assms settle_product_spec
  by (auto simp: settle_execution_def validate_execution_inputs_def)

text \<open>The effect of a booked fill, read off the operation.\<close>

lemma booked_fill:
  assumes "apply_fill std l f = (l', Inr a)" "ledger_ok std l" "ao_code a = LEDGER_APPLIED"
  obtains st' t m x y z where "l' = l\<lparr>lg_state := st'\<rparr>"
      "fill_booked std l f (fill_digest std f) None st' a t" "movement_of std l f m"
      "lt_postings t = mv_postings m"
      "next_balance (map_of (ls_cash (lg_state l)) (mv_currency m)) (mv_cash m) = Inr x"
      "ls_funding (lg_state l) \<noteq> None \<longrightarrow> 0 \<le> coefficient x"
      "ls_cash st' = assign_nonzero (ls_cash (lg_state l)) (mv_currency m) x"
      "ls_positions st' = assign_nonzero (ls_positions (lg_state l)) (fl_instrument f) y"
      "ls_rounding st' = assign_nonzero (ls_rounding (lg_state l)) (mv_currency m) z"
      "dval y = value_at (ls_positions (lg_state l)) (fl_instrument f) + dval (mv_position m)"
      "dval z = value_at (ls_rounding (lg_state l)) (mv_currency m) + dval (mv_rounding m)"
proof -
  have inv: "ledger_inv std l" using assms(2) by (simp add: ledger_ok_def)
  from assms(1) obtain st' where p: "plan_fill std l f = Inr (st', a)" and l': "l' = l\<lparr>lg_state := st'\<rparr>"
    by (auto simp: apply_fill_def commit_def split: sum.splits)
  obtain r where r: "classify_replay std l f (fill_digest std f) (ls_fill_index (lg_state l) (fl_id f))
      (ls_fact_index (lg_state l) (fact_key f)) = Inr r"
    and k: "(case r of Some a \<Rightarrow> Inr a | None \<Rightarrow> apply_new_fill std l f (fill_digest std f) None) = Inr (st', a)"
    using p by (auto simp: plan_fill_def Let_def)
  have "r = None"
  proof (rule ccontr)
    assume "r \<noteq> None"
    then have "r = Some (st', a)" using k by auto
    from classify_replay_Inr(2) [OF r this] assms(3) show False by (simp add: nothing_booked_def)
  qed
  with k classify_replay_Inr(1) [OF r]
  have n: "apply_new_fill std l f (fill_digest std f) None = Inr (st', a)"
    "ls_fill_index (lg_state l) (fl_id f) = None" "ls_fact_index (lg_state l) (fact_key f) = None" by simp_all
  show thesis
  proof (rule apply_new_fill_Inr [OF n(1) inv n(2,3)])
    fix c stage assume "failure_outcome l f (fill_digest std f) c stage = Inr (st', a)" "(c, stage) \<in> fill_failures"
    with failure_outcome_fields(2) assms(3) have False
      by (fastforce simp: fill_failures_def moves_stages_def balance_stages_def)
    then show thesis ..
  qed (rule that [OF l'])
qed

text \<open>Later operations keep a booked fill and its two bindings.\<close>

lemma next_keeps_fill:
  assumes "ledger_ok std l" "FillEntry t \<in> set (ls_transactions (lg_state l))"
    "ls_fill_index (lg_state l) k = Some b" "ls_fact_index (lg_state l) k' = Some b"
  shows "FillEntry t \<in> set (ls_transactions (lg_state (ledger_next std l e)))
    \<and> ls_fill_index (lg_state (ledger_next std l e)) k = Some b
    \<and> ls_fact_index (lg_state (ledger_next std l e)) k' = Some b"
  by (rule ledger_next_cases [OF assms(1), of e])
    (use assms(2-4) in \<open>simp_all add: keeps_evidence_def books_entry_def Let_def\<close>)

lemma run_keeps_fill:
  assumes "ledger_ok std l" "FillEntry t \<in> set (ls_transactions (lg_state l))"
    "ls_fill_index (lg_state l) k = Some b" "ls_fact_index (lg_state l) k' = Some b"
  shows "FillEntry t \<in> set (ls_transactions (lg_state (ledger_run std l es)))
    \<and> ls_fill_index (lg_state (ledger_run std l es)) k = Some b
    \<and> ls_fact_index (lg_state (ledger_run std l es)) k' = Some b"
  using assms
proof (induction es arbitrary: l)
  case (Cons e es)
  note n = next_keeps_fill [OF Cons.prems, of e]
  show ?case using Cons.IH [OF ledger_ok_next [OF Cons.prems(1)], of e] n by (simp add: ledger_run_def)
qed (simp add: ledger_run_def)

lemma entry_lookup:
  assumes "ledger_ok std l" "t \<in> set (ls_transactions (lg_state l))"
  shows "ls_entry_index (lg_state l) (tx_entry t) = Some t"
proof -
  obtain i where i: "i < length (ls_transactions (lg_state l))" "t = ls_transactions (lg_state l) ! i"
    using assms(2) by (auto simp: in_set_conv_nth)
  then show ?thesis
    using ledger_ok_books(4) [OF assms(1)] chained_links(1) [OF ledger_ok_books(1) [OF assms(1)] i(1)]
    by (auto simp: entries_ok_def)
qed

text \<open>A fill whose two bindings are those of a booked entry with its digest is a duplicate.\<close>

lemma indexed_fill_duplicate:
  assumes "ledger_ok std l" "FillEntry t \<in> set (ls_transactions (lg_state l))"
    "ls_fill_index (lg_state l) (fl_id f) = Some (tx_binding std t)"
    "ls_fact_index (lg_state l) (fact_key f) = Some (tx_binding std t)"
    "lt_fill_sha256 t = fill_digest std f" "fl_run f = lg_run l" "run_id (fl_id f) = lg_run l"
  shows "\<exists>b. apply_fill std l f = (l, Inr b) \<and> ao_code b = LEDGER_DUPLICATE \<and> ao_transaction b = Some t"
proof -
  let ?b = "(unchanged_outcome l f (fill_digest std f) LEDGER_DUPLICATE)\<lparr>ao_transaction := Some t\<rparr>"
  have e: "ls_entry_index (lg_state l) (lt_entry t) = Some (FillEntry t)"
    using entry_lookup [OF assms(1,2)] by simp
  have "make_ledger_transaction t = Inr t"
    using ledger_ok_books(3) [OF assms(1)] assms(2) by (simp add: index_ok_def)
  note bf = binding_for_Inr [OF this, of std]
  have n: "sn_run (ls_snapshot (lg_state l)) = lg_run l" "0 \<le> sn_version (ls_snapshot (lg_state l))"
    "sn_version (ls_snapshot (lg_state l)) < 2 ^ 64"
    using ledger_ok_books(5) [OF assms(1)] by (simp_all add: snapshot_ok_def Let_def)
  have "create_apply_outcome ?b = Inr ?b"
    using n assms(7)
    by (simp add: create_apply_outcome_def unchanged_outcome_def LEDGER_RESULT_CODES_def require_version_def Let_def)
  then have "plan_fill std l f = Inr (lg_state l, ?b)"
    using assms(3-6) e bf by (simp add: plan_fill_def classify_replay_def tx_binding_def Let_def)
  then have "apply_fill std l f = (l, Inr ?b)" by (simp add: apply_fill_def commit_def)
  then show ?thesis by (auto simp: unchanged_outcome_def Let_def)
qed

section \<open>Properties\<close>

text \<open>C5: the ledger is one hash chain. After any run of operations the entries are numbered from 1
  in the order they were booked, each names the digest of the one before it, the entry index
  holds exactly these entries, and the snapshot's version and last digest are those of the last
  entry.\<close>

theorem ledger_hash_chain:
  assumes "create_portfolio_ledger std run ss = Inr l0" "st = lg_state (ledger_run std l0 es)"
    "txs = ls_transactions st"
  shows "(\<forall>i < length txs. tx_entry (txs ! i) = entry_at run i
      \<and> tx_previous (txs ! i) = (if i = 0 then None else Some (transaction_digest std (txs ! (i - 1)))))
    \<and> (\<forall>e t. ls_entry_index st e = Some t \<longleftrightarrow> (\<exists>i < length txs. e = entry_at run i \<and> t = txs ! i))
    \<and> sn_version (ls_snapshot st) = int (length txs)
    \<and> sn_last_sha256 (ls_snapshot st) = (if txs = [] then None else Some (transaction_digest std (last txs)))"
proof -
  have ok: "ledger_ok std (ledger_run std l0 es)" by (rule run_ok [OF assms(1)])
  have r: "lg_run (ledger_run std l0 es) = run"
    using run_run_id created_ok(1,2) [OF assms(1)] by simp
  note b = ledger_ok_books [OF ok, unfolded r, folded assms(2)]
  show ?thesis
    using chained_links(1,2) [OF b(1)] b(4,5) unfolding assms(3) entries_ok_def snapshot_ok_def Let_def by blast
qed

text \<open>C6: double entry. After any run every booked entry sums to zero in every commodity, and the
  cash, position and rounding balances are exactly the sums of the postings of their account
  over all booked entries.\<close>

theorem ledger_double_entry:
  assumes "create_portfolio_ledger std run ss = Inr l0" "st = lg_state (ledger_run std l0 es)"
    "txs = ls_transactions st"
  shows "(\<forall>t \<in> set txs. \<forall>c. posting_total (tx_postings t) c = 0)
    \<and> (\<forall>y. value_at (ls_cash st) y = booked txs PORTFOLIO_CASH (CurrencyCommodity y))
    \<and> (\<forall>i. value_at (ls_positions st) i = booked txs PORTFOLIO_POSITION (InstrumentCommodity i))
    \<and> (\<forall>y. value_at (ls_rounding st) y = booked txs PORTFOLIO_ROUNDING (CurrencyCommodity y))"
proof -
  note b = ledger_ok_books [OF run_ok [OF assms(1)], of es, folded assms(2)]
  have "\<forall>t \<in> set txs. \<forall>c. posting_total (tx_postings t) c = 0"
    using chained_links(3) [OF b(1)] by (auto simp: assms(3) in_set_conv_nth postings_sum_iff)
  then show ?thesis using b(2) by (simp add: assms(3) balances_ok_def)
qed

text \<open>C7: every operation takes effect at most once. An event that changed a reachable ledger changes
  nothing when it is submitted again, whatever ran in between, and over a whole run one event
  changes the ledger at most once.\<close>

theorem ledger_effect_at_most_once:
  assumes "create_portfolio_ledger std run ss = Inr l0" "l = ledger_run std l0 es" "l1 = ledger_next std l e"
  shows "(l1 \<noteq> l \<longrightarrow> ledger_next std (ledger_run std l1 ds) e = ledger_run std l1 ds)
    \<and> ledger_authority.changes std l0 e fs \<le> 1"
  using ledger_authority.replay_idle [OF run_ok [OF assms(1), of es], of e ds]
    ledger_authority.at_most_one_change [OF created_ok(1) [OF assms(1)]]
  by (simp add: assms(2,3) ledger_run_authority)

text \<open>An applied fill is answered as a duplicate for ever. Once a fill was applied, submitting it
  again after any further operations returns the duplicate outcome with the very transaction
  that was booked, and leaves the ledger as it is.\<close>

theorem fill_replays_as_duplicate:
  assumes "create_portfolio_ledger std run ss = Inr l0" "l = ledger_run std l0 es"
    "apply_fill std l f = (l1, Inr a)" "ao_code a = LEDGER_APPLIED"
  shows "\<exists>b. apply_fill std (ledger_run std l1 ds) f = (ledger_run std l1 ds, Inr b)
    \<and> ao_code b = LEDGER_DUPLICATE \<and> ao_transaction b = ao_transaction a"
proof -
  have ok: "ledger_ok std l" using run_ok [OF assms(1)] assms(2) by simp
  obtain st' t where l1: "l1 = l\<lparr>lg_state := st'\<rparr>" and t: "fill_booked std l f (fill_digest std f) None st' a t"
    using booked_fill [OF assms(3) ok assms(4)] by metis
  have ok1: "ledger_ok std l1"
    using ledger_ok_next [OF ok, of "FillEvent f"] assms(3) by simp
  let ?l = "ledger_run std l1 ds"
  have ok2: "ledger_ok std ?l" by (simp add: ledger_run_authority ledger_authority.run_inv ok1)
  have tx1: "FillEntry t \<in> set (ls_transactions (lg_state l1))"
    using t by (simp add: l1 fill_booked_def books_entry_def Let_def)
  have i1: "ls_fill_index (lg_state l1) (fl_id f) = Some (tx_binding std t)"
    "ls_fact_index (lg_state l1) (fact_key f) = Some (tx_binding std t)"
    using fill_booked_follow(3,4) [OF t ledger_ok_books(7) [OF ok]] by (simp_all add: l1)
  note keep = run_keeps_fill [OF ok1 tx1 i1, of ds]
  have sel: "lt_fill t = fl_id f" "lt_fill_sha256 t = fill_digest std f" "lt_run t = lg_run l"
    "ao_transaction a = Some t"
    using t by (auto simp: fill_booked_def fill_transaction_def)
  have "make_ledger_transaction t = Inr t"
    using ledger_ok_books(3) [OF ok1] tx1 by (simp add: index_ok_def)
  from make_ledger_transaction_Inr(7) [OF this] have own: "run_id (fl_id f) = lg_run l" by (simp add: sel)
  have "fl_run f = lg_run l" using assms(3) by (auto simp: apply_fill_def plan_fill_def commit_def guard_res_def split: if_splits)
  moreover have "lg_run ?l = lg_run l" using run_run_id [OF ok1] by (simp add: l1)
  ultimately show ?thesis
    using indexed_fill_duplicate [OF ok2, of t f] keep sel own by simp
qed

end
