(* ===== verification/Ledger_Effects.thy ===== *)
theory Ledger_Effects
  imports Ledger_Claims
begin

text \<open>
  What single operations of the portfolio ledger do: the exact effect of an
  applied fill, the closed matrix of its answers, the sign of funded cash, and
  the effect and the failure kinds of a reconciliation adjustment.
\<close>

section \<open>Reading the plans\<close>

lemma replay_answer:
  assumes "classify_replay std l f sha x y = Inr (Some (st', a))"
  shows "st' = lg_state l" "ao_snapshot a = ls_snapshot (lg_state l)"
    "ao_code a = LEDGER_DUPLICATE \<or> ao_code a = LEDGER_CONFLICT \<and> ao_conflict a \<in> Some `
       {FILL_ID_COLLISION, FACT_KEY_COLLISION, FILL_AND_FACT_COLLISION, CROSS_INDEX_COLLISION, INDEX_INCONSISTENT}"
proof -
  have d: "create_apply_outcome ((unchanged_outcome l f sha LEDGER_DUPLICATE)\<lparr>ao_transaction := Some t\<rparr>) = Inr a
      \<Longrightarrow> ao_snapshot a = ls_snapshot (lg_state l) \<and> ao_code a = LEDGER_DUPLICATE" for t
    by (drule create_apply_outcome_Inr) (simp add: unchanged_outcome_def Let_def)
  have c: "conflict_outcome l f sha k u v w = Inr (st', a) \<Longrightarrow> st' = lg_state l
      \<and> ao_snapshot a = ls_snapshot (lg_state l) \<and> ao_code a = LEDGER_CONFLICT \<and> ao_conflict a = Some k" for k u v w
    using conflict_outcome_fields [of l f sha k u v w st' a] by simp
  from assms consider (dup) t where "st' = lg_state l"
      "create_apply_outcome ((unchanged_outcome l f sha LEDGER_DUPLICATE)\<lparr>ao_transaction := Some t\<rparr>) = Inr a"
    | (conflict) k u v w where "conflict_outcome l f sha k u v w = Inr (st', a)"
      "k \<in> {FILL_ID_COLLISION, FACT_KEY_COLLISION, FILL_AND_FACT_COLLISION, CROSS_INDEX_COLLISION, INDEX_INCONSISTENT}"
    by (cases x; cases y)
      (auto simp: classify_replay_def split: if_splits option.splits portfolio_transaction.splits)
  then have "st' = lg_state l \<and> ao_snapshot a = ls_snapshot (lg_state l)
    \<and> (ao_code a = LEDGER_DUPLICATE \<or> ao_code a = LEDGER_CONFLICT \<and> ao_conflict a \<in> Some `
       {FILL_ID_COLLISION, FACT_KEY_COLLISION, FILL_AND_FACT_COLLISION, CROSS_INDEX_COLLISION, INDEX_INCONSISTENT})"
  proof cases
    case (dup t) then show ?thesis using d [of t] by simp
  next
    case (conflict k u v w) then show ?thesis using c [of k u v w] by auto
  qed
  then show "st' = lg_state l" "ao_snapshot a = ls_snapshot (lg_state l)"
    "ao_code a = LEDGER_DUPLICATE \<or> ao_code a = LEDGER_CONFLICT \<and> ao_conflict a \<in> Some `
       {FILL_ID_COLLISION, FACT_KEY_COLLISION, FILL_AND_FACT_COLLISION, CROSS_INDEX_COLLISION, INDEX_INCONSISTENT}"
    by auto
qed

lemma plan_fill_cases:
  assumes "plan_fill std l f = Inr (st', a)"
  obtains (replay) x y where "classify_replay std l f (fill_digest std f) x y = Inr (Some (st', a))"
  | (new) "apply_new_fill std l f (fill_digest std f) None = Inr (st', a)"
      "ls_fill_index (lg_state l) (fl_id f) = None" "ls_fact_index (lg_state l) (fact_key f) = None"
proof -
  let ?x = "ls_fill_index (lg_state l) (fl_id f)" and ?y = "ls_fact_index (lg_state l) (fact_key f)"
  obtain r where r: "classify_replay std l f (fill_digest std f) ?x ?y = Inr r"
    and k: "(case r of Some a \<Rightarrow> Inr a | None \<Rightarrow> apply_new_fill std l f (fill_digest std f) None) = Inr (st', a)"
    using assms by (auto simp: plan_fill_def Let_def)
  show thesis
  proof (cases r)
    case None
    with classify_replay_Inr(1) [OF r] k new show thesis by simp
  next
    case (Some z)
    with k r replay [of ?x ?y] show thesis by simp
  qed
qed

lemma plan_command_new:
  assumes "plan_command std l c f = Inr (st', a)" "st' \<noteq> lg_state l"
  obtains r where "apply_new_fill std l f (fill_digest std f) (Some r) = Inr (st', a)"
    "ls_fill_index (lg_state l) (fl_id f) = None" "ls_fact_index (lg_state l) (fact_key f) = None"
proof -
  let ?x = "ls_fill_index (lg_state l) (fl_id f)" and ?y = "ls_fact_index (lg_state l) (fact_key f)"
  have h: "ls_handoff_index (lg_state l) (ap_handoff_sha256 c) = None"
    using assms by (cases "ls_handoff_index (lg_state l) (ap_handoff_sha256 c)")
      (auto simp: plan_command_def Let_def)
  have "?x = None \<and> ?y = None"
  proof (rule ccontr)
    assume "\<not> (?x = None \<and> ?y = None)"
    with h assms(1) have "conflict_outcome l f (fill_digest std f) UNBOUND_EXISTING_FILL None ?x ?y = Inr (st', a)"
      by (auto simp: plan_command_def Let_def split: if_splits)
    with conflict_outcome_fields(1) assms(2) show False by blast
  qed
  with h assms(1) that show thesis by (fastforce simp: plan_command_def Let_def)
qed

section \<open>Funded cash\<close>

definition cash_covered :: "ledger_state \<Rightarrow> bool" where
  "cash_covered st \<longleftrightarrow> ls_funding st \<noteq> None \<and> (\<forall>y. 0 \<le> value_at (ls_cash st) y)"

lemma new_fill_covered:
  assumes "apply_new_fill std l f sha h = Inr (st', a)" "ledger_inv std l"
    "ls_fill_index (lg_state l) (fl_id f) = None" "ls_fact_index (lg_state l) (fact_key f) = None"
    "cash_covered (lg_state l)"
  shows "cash_covered st'"
proof (rule apply_new_fill_Inr [OF assms(1-4)])
  fix c stage assume "failure_outcome l f sha c stage = Inr (st', a)"
  then show ?thesis using failure_outcome_fields(1) assms(5) by blast
next
  fix t m x y z
  assume b: "fill_booked std l f sha h st' a t"
    and x: "ls_funding (lg_state l) \<noteq> None \<longrightarrow> 0 \<le> coefficient x"
    and c: "ls_cash st' = assign_nonzero (ls_cash (lg_state l)) (mv_currency m) x"
  have "ls_funding st' = ls_funding (lg_state l)"
    using b by (simp add: fill_booked_def books_entry_def indexes_follow_def Let_def)
  with x c assms(5) show ?thesis by (auto simp: cash_covered_def)
qed

lemma next_covered:
  assumes "ledger_ok std l" "cash_covered (lg_state l)" "\<exists>f c. e = FillEvent f \<or> e = CommandEvent c f"
  shows "cash_covered (lg_state (ledger_next std l e))"
proof -
  have inv: "ledger_inv std l" using assms(1) by (simp add: ledger_ok_def)
  show ?thesis
  proof (cases e)
    case (FillEvent f)
    have "cash_covered (lg_state (fst (commit l (plan_fill std l f))))"
    proof (cases rule: commit_cases [of l "plan_fill std l f"])
      case kept then show ?thesis using assms(2) by simp
    next
      case (changed st a)
      from changed(1) show ?thesis
      proof (cases rule: plan_fill_cases)
        case (replay x y)
        from replay_answer(1) [OF replay] changed(3) show ?thesis by simp
      next
        case new
        from new_fill_covered [OF new(1) inv new(2,3) assms(2)] changed(2) show ?thesis by simp
      qed
    qed
    then show ?thesis by (simp add: FillEvent apply_fill_def)
  next
    case (CommandEvent c f)
    have "cash_covered (lg_state (fst (commit l (plan_command std l c f))))"
    proof (cases rule: commit_cases [of l "plan_command std l c f"])
      case kept then show ?thesis using assms(2) by simp
    next
      case (changed st a)
      obtain r where r: "apply_new_fill std l f (fill_digest std f) (Some r) = Inr (st, a)"
        "ls_fill_index (lg_state l) (fl_id f) = None" "ls_fact_index (lg_state l) (fact_key f) = None"
        using plan_command_new [OF changed(1,3)] .
      from new_fill_covered [OF r(1) inv r(2,3) assms(2)] changed(2) show ?thesis by simp
    qed
    then show ?thesis by (simp add: CommandEvent apply_ledger_application_command_def)
  qed (use assms(3) in auto)
qed

lemma run_covered:
  "ledger_ok std l \<Longrightarrow> cash_covered (lg_state l) \<Longrightarrow>
   \<forall>e \<in> set es. \<exists>f c. e = FillEvent f \<or> e = CommandEvent c f \<Longrightarrow> cash_covered (lg_state (ledger_run std l es))"
proof (induction es arbitrary: l)
  case (Cons e es)
  have "cash_covered (lg_state (ledger_next std l e))"
    using Cons.prems by (intro next_covered) auto
  with Cons.IH [OF ledger_ok_next [OF Cons.prems(1)]] Cons.prems(3) show ?case by (simp add: ledger_run_def)
qed (simp add: ledger_run_def)

section \<open>Corrections\<close>

text \<open>The derivation behind a changing balance correction.\<close>

lemma changing_correction:
  assumes "plan_adjustment std l au c = Inr (st', a)" "st' \<noteq> lg_state l" "ac_variant c = BALANCE_CORRECTION"
  obtains e p d where "derive_correction std l (au_authorization au) c e (au_sha256 au) = Inr p"
    "record_adjustment std l c d (au_sha256 au) e p = Inr (st', a)"
proof -
  have refused: "adjustment_failed std l c s k = Inr (st', a) \<Longrightarrow> False"
    "adjustment_conflicting std l c s k' = Inr (st', a) \<Longrightarrow> False" for s k k'
    using assms(2) by (auto simp: adjustment_failed_def adjustment_conflicting_def)
  have new: "plan_new_adjustment std l (au_authorization au) c d (au_sha256 au) = Inr (st', a) \<Longrightarrow> thesis" for d
  proof -
    assume n: "plan_new_adjustment std l (au_authorization au) c d (au_sha256 au) = Inr (st', a)"
    obtain e where k: "(case derive_correction std l (au_authorization au) c e (au_sha256 au) of
          Inl (PortfolioLedgerError x) \<Rightarrow> adjustment_failed std l c (au_sha256 au) (correction_failure_kind x)
        | Inl x \<Rightarrow> Inl x
        | Inr p \<Rightarrow> record_adjustment std l c d (au_sha256 au) e p) = Inr (st', a)"
      using n refused assms(3)
      by (fastforce simp: plan_new_adjustment_def Let_def simp del: bind_res_simps split: if_splits)
    obtain p where p: "derive_correction std l (au_authorization au) c e (au_sha256 au) = Inr p"
    proof (cases "derive_correction std l (au_authorization au) c e (au_sha256 au)")
      case (Inl x)
      with k refused have False by (cases x) auto
      then show thesis ..
    qed
    have "record_adjustment std l c d (au_sha256 au) e p = Inr (st', a)" using k p by simp
    with p show thesis by (rule that)
  qed
  show thesis
    using assms(1) refused new assms(2)
    by (fastforce simp: plan_adjustment_def Let_def split: option.splits if_splits)
qed

text \<open>The delta of a derived correction is the observed minus the local amount.\<close>

lemma correction_delta:
  assumes "require_balance_correction ss t = Inr ()"
  obtains x y d where "rt_local t = Some x" "rt_observed t = Some y" "rt_delta t = Some d"
    "dval d = dval y - dval x"
proof -
  from assms obtain q x y d where "correction_amount q (rt_local t) = Inr x"
    "correction_amount q (rt_observed t) = Inr y" "rt_delta t = Some d" "subtract_decimal y x = Inr d"
    by (auto simp: require_balance_correction_def split: option.splits)
  then show thesis
    using subtract_decimal_val(2) [of y x d]
    by (intro that [of x y d]) (auto simp: correction_amount_def require_quantized_Inr_iff split: option.splits)
qed

text \<open>What a correction leaves alone: everything but the cash and the positions, the journal, which
  grows by one entry, and the indexes and the snapshot that follow it.\<close>

definition frame_kept :: "ledger_state \<Rightarrow> ledger_state \<Rightarrow> bool" where
  "frame_kept st st' \<longleftrightarrow>
     ls_rounding st' = ls_rounding st \<and> ls_unresolved st' = ls_unresolved st
     \<and> ls_open_bindings st' = ls_open_bindings st \<and> ls_open_refs st' = ls_open_refs st
     \<and> ls_funding st' = ls_funding st \<and> ls_fill_index st' = ls_fill_index st
     \<and> ls_fact_index st' = ls_fact_index st \<and> ls_handoff_index st' = ls_handoff_index st
     \<and> (\<exists>t. ls_transactions st' = ls_transactions st @ [Adjustment t])"

lemma correction_effect:
  assumes "apply_reconciliation_adjustment std l au c = (l', Inr a)" "l' \<noteq> l"
    "ac_variant c = BALANCE_CORRECTION" "ac_local c = Some x" "ac_observed c = Some y"
  shows "l' = l\<lparr>lg_state := lg_state l'\<rparr> \<and> frame_kept (lg_state l) (lg_state l')
    \<and> ((\<exists>i. ac_target c = INSTRUMENT_POSITION \<and> ac_instrument c = Some i
      \<and> value_at (ls_positions (lg_state l')) = (value_at (ls_positions (lg_state l)))
          (i := value_at (ls_positions (lg_state l)) i + (dval y - dval x))
      \<and> ls_cash (lg_state l') = ls_cash (lg_state l))
    \<or> (\<exists>u. ac_target c \<noteq> INSTRUMENT_POSITION \<and> ac_currency c = Some u
      \<and> value_at (ls_cash (lg_state l')) = (value_at (ls_cash (lg_state l)))
          (u := value_at (ls_cash (lg_state l)) u + (dval y - dval x))
      \<and> ls_positions (lg_state l') = ls_positions (lg_state l)))"
proof -
  from assms(1) obtain st' where l': "l' = l\<lparr>lg_state := st'\<rparr>" and p: "plan_adjustment std l au c = Inr (st', a)"
    by (auto simp: apply_reconciliation_adjustment_def commit_def split: sum.splits)
  have ne: "st' \<noteq> lg_state l" using assms(2) by (auto simp: l')
  obtain e d sha where d: "derive_correction std l (au_authorization au) c e (au_sha256 au) = Inr d"
    and r: "record_adjustment std l c sha (au_sha256 au) e d = Inr (st', a)"
    using changing_correction [OF p ne assms(3)] .
  have st: "ls_cash st' = dp_cash d" "ls_positions st' = dp_positions d"
    using r by (auto simp: record_adjustment_def Let_def)
  show ?thesis
  proof (rule derive_correction_Inr [OF d])
    fix delta q tc own other cur b p0 p1
    assume t: "ac_delta c = Some delta" "ledger_target l c = Inr (q, tc, own, other, cur)"
      "next_balance cur delta = Inr b"
      and bt: "build_adjustment_transaction std l (au_authorization au) c e (au_sha256 au) [p0, p1] = Inr (dp_transaction d)"
      and fin: "finish_adjustment std l e (dp_transaction d)
       (case tc of CurrencyCommodity y \<Rightarrow> assign_nonzero (ls_cash (lg_state l)) y b | _ \<Rightarrow> ls_cash (lg_state l))
       (case tc of InstrumentCommodity i \<Rightarrow> assign_nonzero (ls_positions (lg_state l)) i b
          | _ \<Rightarrow> ls_positions (lg_state l))
       (ls_unresolved (lg_state l)) (ls_open_bindings (lg_state l)) (ls_open_refs (lg_state l)) = Inr d"
    note bb = build_adjustment_Inr [OF bt] and ff = finish_adjustment_Inr(1,2) [OF fin]
    have frame: "frame_kept (lg_state l) st'"
      using r finish_adjustment_Inr(4-6) [OF fin] by (auto simp: record_adjustment_def frame_kept_def Let_def)
    have delta: "dval delta = dval y - dval x"
      by (rule correction_delta [OF bb(8) [OF assms(3)]]) (use bb(5-7) t(1) assms(4,5) in simp)
    from t(2) show ?thesis
    proof (cases rule: ledger_target_Inr)
      case (position i)
      then show ?thesis using next_balance_val [OF t(3) [unfolded position(4)]] delta frame
        by (simp add: l' st ff)
    next
      case (cash u)
      then show ?thesis using next_balance_val [OF t(3) [unfolded cash(4)]] delta frame
        by (simp add: l' st ff)
    qed
  qed
qed

section \<open>Fills\<close>

text \<open>How a settlement splits the exact notional of an execution.\<close>

lemma settlement_split:
  assumes "settle_execution sha ss i p q = Inr s"
  obtains spec where "require_spec ss i = Inr spec" "es_currency s = settlement_currency spec"
    "dval (es_amount s) + dval (es_rounding_residual s) = dval p * dval q * dval (contract_multiplier spec)"
    "\<exists>k. dval (es_amount s) = of_int k * dval (currency_quantum spec)"
    "2 * \<bar>dval (es_rounding_residual s)\<bar> \<le> dval (currency_quantum spec)"
  using assms settle_product_spec
  by (auto simp: settle_execution_def validate_execution_inputs_def) metis

section \<open>Properties\<close>

text \<open>C8: the exact effect of an applied fill. The position of the instrument moves by the signed
  quantity. The exact notional price * quantity * multiplier splits into a settlement amount on the
  currency grid and a residual of at most half a quantum; the cash of the settlement currency moves by
  the signed amount and the commission, its rounding balance by the signed residual. No other position,
  cash or rounding balance moves, the funding is untouched, and the cash of a funded ledger stays
  non-negative.\<close>

theorem applied_fill_effect:
  assumes "create_portfolio_ledger std run ss = Inr l0" "l = ledger_run std l0 es"
    "apply_fill std l f = (l', Inr a)" "ao_code a = LEDGER_APPLIED"
  shows "\<exists>spec y s. require_spec (lg_specs l) (fl_instrument f) = Inr spec \<and> y = settlement_currency spec
    \<and> settle_execution (hexdigest std) (lg_specs l) (fl_instrument f) (fl_price f) (fl_quantity f) = Inr s
    \<and> dval (es_amount s) + dval (es_rounding_residual s)
        = dval (fl_price f) * dval (fl_quantity f) * dval (contract_multiplier spec)
    \<and> (\<exists>k. dval (es_amount s) = of_int k * dval (currency_quantum spec))
    \<and> 2 * \<bar>dval (es_rounding_residual s)\<bar> \<le> dval (currency_quantum spec)
    \<and> value_at (ls_positions (lg_state l')) = (value_at (ls_positions (lg_state l)))
        (fl_instrument f := value_at (ls_positions (lg_state l)) (fl_instrument f)
          + of_int (side_sign (fl_side f)) * dval (fl_quantity f))
    \<and> value_at (ls_cash (lg_state l')) = (value_at (ls_cash (lg_state l)))
        (y := value_at (ls_cash (lg_state l)) y - of_int (side_sign (fl_side f)) * dval (es_amount s)
          - dval (fee_amount (fl_fees f ! 0)))
    \<and> value_at (ls_rounding (lg_state l')) = (value_at (ls_rounding (lg_state l)))
        (y := value_at (ls_rounding (lg_state l)) y - of_int (side_sign (fl_side f)) * dval (es_rounding_residual s))
    \<and> ls_funding (lg_state l') = ls_funding (lg_state l)
    \<and> (ls_funding (lg_state l) \<noteq> None \<longrightarrow> 0 \<le> value_at (ls_cash (lg_state l')) y)"
proof -
  have ok: "ledger_ok std l" using run_ok [OF assms(1)] assms(2) by simp
  obtain st' t m x y z where l': "l' = l\<lparr>lg_state := st'\<rparr>" and m: "movement_of std l f m"
    and booked: "fill_booked std l f (fill_digest std f) None st' a t"
    and x: "next_balance (map_of (ls_cash (lg_state l)) (mv_currency m)) (mv_cash m) = Inr x"
    and nn: "ls_funding (lg_state l) \<noteq> None \<longrightarrow> 0 \<le> coefficient x"
    and st: "ls_cash st' = assign_nonzero (ls_cash (lg_state l)) (mv_currency m) x"
      "ls_positions st' = assign_nonzero (ls_positions (lg_state l)) (fl_instrument f) y"
      "ls_rounding st' = assign_nonzero (ls_rounding (lg_state l)) (mv_currency m) z"
    and yz: "dval y = value_at (ls_positions (lg_state l)) (fl_instrument f) + dval (mv_position m)"
      "dval z = value_at (ls_rounding (lg_state l)) (mv_currency m) + dval (mv_rounding m)"
    using booked_fill [OF assms(3) ok assms(4)] by metis
  obtain s where s: "settle_execution (hexdigest std) (lg_specs l) (fl_instrument f) (fl_price f) (fl_quantity f) = Inr s"
    and v: "mv_currency m = es_currency s" "dval (mv_position m) = of_int (side_sign (fl_side f)) * dval (fl_quantity f)"
      "dval (mv_cash m) = - of_int (side_sign (fl_side f)) * dval (es_amount s) - dval (fee_amount (fl_fees f ! 0))"
      "dval (mv_rounding m) = - of_int (side_sign (fl_side f)) * dval (es_rounding_residual s)"
    using m by (auto simp: movement_of_def)
  obtain spec where spec: "require_spec (lg_specs l) (fl_instrument f) = Inr spec"
    "es_currency s = settlement_currency spec" and split: "dval (es_amount s) + dval (es_rounding_residual s)
      = dval (fl_price f) * dval (fl_quantity f) * dval (contract_multiplier spec)"
    "\<exists>k. dval (es_amount s) = of_int k * dval (currency_quantum spec)"
    "2 * \<bar>dval (es_rounding_residual s)\<bar> \<le> dval (currency_quantum spec)"
    by (rule settlement_split [OF s])
  have funding: "ls_funding st' = ls_funding (lg_state l)"
    using booked by (simp add: fill_booked_def books_entry_def indexes_follow_def Let_def)
  have c: "mv_currency m = settlement_currency spec" using v(1) spec(2) by simp
  have vals: "dval x = value_at (ls_cash (lg_state l)) (settlement_currency spec)
        - of_int (side_sign (fl_side f)) * dval (es_amount s) - dval (fee_amount (fl_fees f ! 0))"
    "dval y = value_at (ls_positions (lg_state l)) (fl_instrument f) + of_int (side_sign (fl_side f)) * dval (fl_quantity f)"
    "dval z = value_at (ls_rounding (lg_state l)) (settlement_currency spec)
        - of_int (side_sign (fl_side f)) * dval (es_rounding_residual s)"
    using next_balance_val [OF x] yz v by (simp_all add: c)
  have positive: "ls_funding (lg_state l) \<noteq> None \<longrightarrow> 0 \<le> value_at (ls_cash (lg_state l')) (settlement_currency spec)"
    using nn by (simp add: l' st c)
  show ?thesis
    using spec(1) split s positive
    by (intro exI [of _ spec] exI [of _ "settlement_currency spec"] exI [of _ s] conjI refl)
      (simp_all add: l' st c vals [symmetric] funding)
qed

text \<open>C9: the closed matrix of the answers to a fill. An exception leaves the ledger alone. An answer either
  booked exactly one entry, with the outcome carrying the new snapshot, or left the ledger alone
  and is a duplicate, one of five conflicts, or a failure of one of the eight stages; the
  unbalanced-postings stage and the occupied-entry conflict are unreachable.\<close>

theorem fill_outcome_matrix:
  assumes "create_portfolio_ledger std run ss = Inr l0" "l = ledger_run std l0 es"
    "apply_fill std l f = (l', r)"
  shows "(\<exists>e. r = Inl e \<and> l' = l)
    \<or> (\<exists>a. r = Inr a \<and> ao_code a = LEDGER_APPLIED \<and> ao_snapshot a = ls_snapshot (lg_state l')
        \<and> ao_after a = ao_before a + 1
        \<and> length (ls_transactions (lg_state l')) = Suc (length (ls_transactions (lg_state l))))
    \<or> (\<exists>a. r = Inr a \<and> l' = l \<and> ao_snapshot a = ls_snapshot (lg_state l)
        \<and> (ao_code a = LEDGER_DUPLICATE
          \<or> ao_code a = LEDGER_CONFLICT \<and> ao_conflict a \<in> Some ` {FILL_ID_COLLISION, FACT_KEY_COLLISION,
              FILL_AND_FACT_COLLISION, CROSS_INDEX_COLLISION, INDEX_INCONSISTENT}
          \<or> (\<exists>stage. ao_stage a = Some stage \<and> (ao_code a, stage) \<in>
              {(OUT_OF_RANGE, LEDGER_SEQUENCE_EXHAUSTED), (ARITHMETIC_OVERFLOW, SETTLEMENT_ARITHMETIC_OVERFLOW),
               (ROUNDING_UNREPRESENTABLE, SETTLEMENT_ROUNDING_UNREPRESENTABLE),
               (ARITHMETIC_OVERFLOW, EXACT_NOTIONAL_OVERFLOW), (ARITHMETIC_OVERFLOW, CASH_BALANCE_OVERFLOW),
               (OUT_OF_RANGE, INSUFFICIENT_CASH), (ARITHMETIC_OVERFLOW, POSITION_BALANCE_OVERFLOW),
               (ROUNDING_UNREPRESENTABLE, ROUNDING_BALANCE_OVERFLOW)})))"
proof -
  have inv: "ledger_inv std l" using run_ok [OF assms(1)] assms(2) by (simp add: ledger_ok_def)
  show ?thesis
  proof (cases "plan_fill std l f")
    case (Inl e)
    then show ?thesis using assms(3) by (auto simp: apply_fill_def commit_def)
  next
    case (Inr p)
    obtain st' a where p: "p = (st', a)" by fastforce
    have l': "l' = l\<lparr>lg_state := st'\<rparr>" and r: "r = Inr a"
      using assms(3) by (auto simp: apply_fill_def commit_def Inr p)
    from Inr have plan: "plan_fill std l f = Inr (st', a)" by (simp add: p)
    then show ?thesis
    proof (cases rule: plan_fill_cases)
      case (replay x y)
      note q = replay_answer [OF replay]
      have "l' = l" by (simp add: l' q(1))
      with q(2,3) show ?thesis by (intro disjI2 exI [of _ a]) (auto simp: r)
    next
      case new
      show ?thesis
      proof (rule apply_new_fill_Inr [OF new(1) inv new(2,3)])
        fix c stage assume f: "failure_outcome l f (fill_digest std f) c stage = Inr (st', a)" "(c, stage) \<in> fill_failures"
        note q = failure_outcome_fields [OF f(1)]
        have "l' = l" by (simp add: l' q(1))
        with q(2-4) f(2) show ?thesis
          by (intro disjI2 exI [of _ a]) (auto simp: r fill_failures_def moves_stages_def balance_stages_def)
      next
        fix t assume t: "fill_booked std l f (fill_digest std f) None st' a t"
        then show ?thesis
          by (intro disjI2 disjI1 exI [of _ a]) (simp add: r l' fill_booked_def books_entry_def Let_def)
      qed
    qed
  qed
qed

text \<open>C10: funded cash never goes negative. After the initial funding was applied, no run of fills,
  direct or through the audited command path, makes a cash balance negative.\<close>

theorem funded_cash_never_negative:
  assumes "create_portfolio_ledger std run ss = Inr l0" "make_initial_funding run y amt0 = Inr f"
    "apply_initial_funding std l0 f = (l1, Inr a)" "fo_code a = LEDGER_APPLIED"
    "\<forall>e \<in> set es. \<exists>g c. e = FillEvent g \<or> e = CommandEvent c g"
  shows "0 \<le> value_at (ls_cash (lg_state (ledger_run std l1 es))) z"
proof -
  note new = created_ok [OF assms(1)]
  have ok: "ledger_ok std l1"
    using ledger_ok_next [OF new(1), of "FundingEvent f"] assms(3) by simp
  have amt: "0 < dval (fu_amount f)"
    using assms(2) by (auto simp: make_initial_funding_def require_positive_def not_le)
  from assms(3) obtain st where l1: "l1 = l0\<lparr>lg_state := st\<rparr>" and p: "plan_funding std l0 f = Inr (st, a)"
    by (auto simp: apply_initial_funding_def commit_def split: sum.splits prod.splits)
  have r: "record_funding std l0 f = Inr (st, a)" using p new(4,6) by (auto simp: plan_funding_def Let_def)
  have "ledger_inv std l0" using new(1) by (simp add: ledger_ok_def)
  then obtain b where st: "ls_funding st = Some b" "ls_cash st = [(fu_currency f, fu_amount f)]"
    by (rule record_funding_Inr [OF r _ new(6)]) (rule that)
  have "cash_covered (lg_state l1)"
    using amt st by (simp add: cash_covered_def l1 value_at_def)
  from run_covered [OF ok this assms(5)] show ?thesis by (simp add: cash_covered_def)
qed

text \<open>C11: a correction reaches the observation. An applied balance correction moves its target, one
  position or one cash balance, by the observed minus the local amount, so that a target that held the
  local amount then holds exactly the observed one. Nothing else moves: no other position, no other
  cash balance, no rounding balance, no unresolved fill, no open reference and no binding of one, not
  the funding and not the indexes of fills, facts and handoffs; the journal grows by one adjustment.\<close>

theorem correction_reaches_observation:
  assumes "apply_reconciliation_adjustment std l au c = (l', Inr a)" "l' \<noteq> l"
    "ac_variant c = BALANCE_CORRECTION" "ac_local c = Some x" "ac_observed c = Some y"
  shows "l' = l\<lparr>lg_state := lg_state l'\<rparr> \<and> frame_kept (lg_state l) (lg_state l')
    \<and> ((\<exists>i. ac_target c = INSTRUMENT_POSITION \<and> ac_instrument c = Some i
      \<and> value_at (ls_positions (lg_state l')) = (value_at (ls_positions (lg_state l)))
          (i := value_at (ls_positions (lg_state l)) i + (dval y - dval x))
      \<and> ls_cash (lg_state l') = ls_cash (lg_state l))
    \<or> (\<exists>u. ac_target c \<noteq> INSTRUMENT_POSITION \<and> ac_currency c = Some u
      \<and> value_at (ls_cash (lg_state l')) = (value_at (ls_cash (lg_state l)))
          (u := value_at (ls_cash (lg_state l)) u + (dval y - dval x))
      \<and> ls_positions (lg_state l') = ls_positions (lg_state l)))"
  by (rule correction_effect [OF assms])

text \<open>C12: an adjustment that does not apply changes nothing, and never answers with the arithmetic
  or the unbalanced failure: those two failure kinds of the closed enum cannot come out of the
  ledger, because the error the code raises for an overflowing balance is rejected by the
  constructor of the ledger's own error type.\<close>

theorem adjustment_failure_kinds:
  assumes "create_portfolio_ledger std run ss = Inr l0" "l = ledger_run std l0 es"
    "apply_reconciliation_adjustment std l au c = (l', r)"
  shows "(r = Inr a \<longrightarrow> jo_failure a \<noteq> Some ARITHMETIC_FAILURE \<and> jo_failure a \<noteq> Some UNBALANCED)
    \<and> (l' \<noteq> l \<longrightarrow> (\<exists>b. r = Inr b \<and> jo_result b = ADJ_APPLIED))"
proof -
  have ok: "ledger_ok std l" using run_ok [OF assms(1)] assms(2) by simp
  note b = ledger_ok_books(7,8) [OF ok]
  show ?thesis
  proof (cases "plan_adjustment std l au c")
    case (Inl e)
    then show ?thesis using assms(3) by (auto simp: apply_reconciliation_adjustment_def commit_def)
  next
    case (Inr p)
    obtain st' x where p: "p = (st', x)" by fastforce
    have l': "l' = l\<lparr>lg_state := st'\<rparr>" and r: "r = Inr x"
      using assms(3) by (auto simp: apply_reconciliation_adjustment_def commit_def Inr p)
    from plan_adjustment_step [OF Inr [unfolded p] b(2)] show ?thesis
    proof (elim disjE exE conjE)
      assume k: "ls_adjustment_outcomes (lg_state l) (au_sha256 au) = Some x" "st' = lg_state l"
      from retained_okD(3) [OF b(1) k(1)] k(2) show ?thesis by (auto simp: l' r)
    next
      assume k: "adjustment_refused l st' x"
      then show ?thesis by (auto simp: adjustment_refused_def l' r)
    next
      fix d assume "adjustment_booked std l c d (au_sha256 au) st' x"
      then show ?thesis by (auto simp: adjustment_booked_def l' r Let_def)
    qed
  qed
qed

end
