(* ===== verification/Ledger_Witnesses.thy ===== *)
theory Ledger_Witnesses
  imports Ledger_Effects
begin

text \<open>
  Concrete runs of the portfolio ledger: a ledger of one instrument, a first
  fill, an initial funding and a cash correction, each evaluated, on which every
  property of the ledger is applied.
\<close>

declare bind_res_def [code_unfold] guard_res_def [code_unfold] map_exn_def [code_unfold]
lemma on_economic_case [code_unfold]:
  "on_economic r h k = (case r of Inl e \<Rightarrow> (case e of EconomicValidationError c \<Rightarrow> h c | _ \<Rightarrow> Inl e) | Inr x \<Rightarrow> k x)"
  by (cases "(r, h, k)" rule: on_economic.cases) auto

section \<open>Evaluating operations\<close>

text \<open>
  Every digest of the example hash is the same, and no operation but a payload
  bound reads the bytes behind a digest: with these equations an operation on
  concrete inputs becomes a closed term that does not compute canonical bytes.
\<close>

lemma example_digests:
  "domain_digest (hexdigest std_example) t p = Sha256Digest []"
  "framed_digest (hexdigest std_example) t p = Sha256Digest []"
  by (simp_all add: framed_digest_def domain_digest_def std_example_def)

lemma example_transaction_digest: "transaction_digest std_example t = Sha256Digest []"
  by (cases t) (simp_all add: example_digests ledger_transaction_digest_def funding_transaction_digest_def
      reconciliation_transaction_digest_def)

lemmas digest_defs = fill_digest_def ledger_transaction_digest_def initial_funding_digest_def
  funding_transaction_digest_def portfolio_snapshot_digest_def reconciliation_transaction_digest_def
  instrument_spec_set_digest_def

lemmas fill_defs = apply_fill_def plan_fill_def classify_replay_def apply_new_fill_def fill_moves_def
  settle_execution_def fill_balances_def record_fill_def fill_transaction_def previous_digest_def binding_for_def

text \<open>A bound on the length of canonical bytes that needs neither sorting nor escaping.\<close>

primrec json_size :: "json \<Rightarrow> nat" where
  "json_size JNull = 4"
| "json_size (JBool b) = 5"
| "json_size (JStr s) = 2 + 6 * length s"
| "json_size (JInt n) = length (decimal_integer_bytes n)"
| "json_size (JList xs) = 2 + sum_list (map (\<lambda>x. 1 + json_size x) xs)"
| "json_size (JObj kvs) = 2 + sum_list (map (\<lambda>(k, n). 4 + 6 * length k + n) (map (map_prod id json_size) kvs))"

lemma json_string_length: "length (json_string s) \<le> 2 + 6 * length s"
proof -
  have "length (json_escape c) \<le> 6" for c by (simp add: json_escape_def Let_def)
  then have "length (concat (map json_escape s)) \<le> 6 * length s"
    by (induction s) (auto intro!: add_mono)
  then show ?thesis by (simp add: json_string_def QUOTE_def)
qed

lemma join_with_length: "length (join_with '','' ps) \<le> sum_list (map (\<lambda>p. 1 + length p) ps)"
  by (induction "'',''" ps rule: join_with.induct) auto

lemma sum_list_sort_key: "sum_list (map (f :: _ \<Rightarrow> nat) (sort_key k xs)) = sum_list (map f xs)"
  by (metis mset_map mset_sort sum_mset_sum_list)

lemma json_size_bounds: "length (json_bytes j) \<le> json_size j"
proof (induction j)
  case (JList xs)
  have "sum_list (map (\<lambda>x. 1 + length (json_bytes x)) xs) \<le> sum_list (map (\<lambda>x. 1 + json_size x) xs)"
    using JList by (intro sum_list_mono) auto
  with join_with_length [of "map json_bytes xs"] show ?case by (simp add: comp_def)
next
  case (JObj kvs)
  have item: "1 + length (json_string k @ '':'' @ json_bytes j) \<le> 4 + 6 * length k + json_size j"
    if "(k, j) \<in> set kvs" for k j
    using JObj that json_string_length [of k] by (fastforce intro: snds.intros)
  let ?f = "\<lambda>(k, v). json_string k @ '':'' @ v"
  have "length (join_with '','' (map ?f (sort_key fst (map (map_prod id json_bytes) kvs))))
      \<le> sum_list (map (\<lambda>p. 1 + length (?f p)) (sort_key fst (map (map_prod id json_bytes) kvs)))"
    using join_with_length [of "map ?f (sort_key fst (map (map_prod id json_bytes) kvs))"]
    by (simp add: comp_def del: sum_list_sort_key)
  also have "\<dots> = sum_list (map (\<lambda>p. 1 + length (?f p)) (map (map_prod id json_bytes) kvs))"
    by (rule sum_list_sort_key)
  also have "\<dots> = sum_list (map (\<lambda>(k, j). 1 + length (?f (k, json_bytes j))) kvs)"
    by (simp add: comp_def case_prod_unfold)
  also have "\<dots> \<le> sum_list (map (\<lambda>(k, j). 4 + 6 * length k + json_size j) kvs)"
    by (rule sum_list_mono) (use item in fastforce)
  finally show ?case by (simp add: comp_def case_prod_unfold)
qed (use json_string_length in \<open>simp_all\<close>)

definition unbounded_payload :: "json \<Rightarrow> string result" where
  "unbounded_payload d = bounded_payload (json_bytes d)"

lemma bounded_payload_size:
  "bind_res (bounded_payload (json_bytes d)) (\<lambda>_. r)
   = (if json_size d \<le> 16384 then r else bind_res (unbounded_payload d) (\<lambda>_. r))"
  using json_size_bounds [of d]
  by (auto simp: unbounded_payload_def bounded_payload_def MAX_RECONCILIATION_PAYLOAD_BYTES_def)

text \<open>The same bound over integers, whose numerals stay binary in an evaluation.\<close>

primrec text_weight :: "string \<Rightarrow> int" where
  "text_weight [] = 0"
| "text_weight (c # cs) = 1 + text_weight cs"

primrec json_weight :: "json \<Rightarrow> int" where
  "json_weight JNull = 4"
| "json_weight (JBool b) = 5"
| "json_weight (JStr s) = 2 + 6 * text_weight s"
| "json_weight (JInt n) = text_weight (decimal_integer_bytes n)"
| "json_weight (JList xs) = 2 + sum_list (map (\<lambda>x. 1 + json_weight x) xs)"
| "json_weight (JObj kvs) = 2 + sum_list (map (\<lambda>(k, n). 4 + 6 * text_weight k + n) (map (map_prod id json_weight) kvs))"

lemma text_weight_length: "text_weight s = int (length s)"
  by (induction s) simp_all

lemma int_sum_list: "int (sum_list (map f xs)) = sum_list (map (\<lambda>x. int (f x)) xs)"
  by (induction xs) simp_all

lemma json_weight_size: "json_weight j = int (json_size j)"
proof (induction j)
  case (JList xs)
  then have "map (\<lambda>x. 1 + json_weight x) xs = map (\<lambda>x. int (1 + json_size x)) xs" by simp
  then show ?case by (simp only: json_weight.simps json_size.simps) (simp add: int_sum_list)
next
  case (JObj kvs)
  then have "4 + 6 * text_weight (fst x) + json_weight (snd x) = 4 + 6 * int (length (fst x)) + int (json_size (snd x))"
    if "x \<in> set kvs" for x
    using that by (cases x) (fastforce simp: text_weight_length intro: snds.intros)
  then have "sum_list (map (\<lambda>x. 4 + 6 * text_weight (fst x) + json_weight (snd x)) kvs)
      = sum_list (map (\<lambda>x. 4 + 6 * int (length (fst x)) + int (json_size (snd x))) kvs)"
    by (intro arg_cong [where f = sum_list] map_cong refl)
  then show ?case by (simp add: comp_def case_prod_unfold int_sum_list)
qed (simp_all add: text_weight_length)

lemma bounded_payload_weight:
  "bind_res (bounded_payload (json_bytes d)) (\<lambda>_. r)
   = (if json_weight d \<le> 16384 then r else bind_res (unbounded_payload d) (\<lambda>_. r))"
  unfolding bounded_payload_size json_weight_size by simp

lemma bind_res_assoc: "bind_res (bind_res r f) g = bind_res r (\<lambda>x. bind_res (f x) g)"
  by (cases r) simp_all

lemmas adjustment_defs = apply_reconciliation_adjustment_def plan_adjustment_def plan_new_adjustment_def
  adjustment_command_digest_def adjustment_command_bytes_def
  adjustment_base_def derive_correction_def build_adjustment_transaction_def create_reconciliation_transaction_def
  finish_adjustment_def reconciliation_transaction_bytes_def record_adjustment_def create_adjustment_outcome_def
  adjustment_outcome_bytes_def original_evidence_def previous_digest_def

section \<open>The concrete ledger and its operations\<close>

definition ledger_example :: ledger where
  "ledger_example = \<lparr>lg_run = RunId ''r'', lg_specs = set_example, lg_specs_sha256 = Sha256Digest [],
     lg_quanta = [(SettlementCurrency ''USD'', dec_001)],
     lg_by_instrument = [(Instrument (VenueId ''X'') ''A'', spec_example ''A'')],
     lg_state = \<lparr>ls_cash = [], ls_positions = [], ls_rounding = [], ls_unresolved = [],
       ls_fill_index = Map.empty, ls_fact_index = Map.empty, ls_entry_index = Map.empty,
       ls_transactions = [], ls_funding = None, ls_open_bindings = [], ls_open_refs = [],
       ls_handoff_index = Map.empty, ls_authorization_index = Map.empty,
       ls_adjustment_index = Map.empty, ls_observation_index = Map.empty,
       ls_command_index = Map.empty, ls_adjustment_outcomes = Map.empty,
       ls_snapshot = \<lparr>sn_run = RunId ''r'', sn_set_id = InstrumentSpecSetId ''s'', sn_set_sha256 = Sha256Digest [],
          sn_version = 0, sn_sequence = 0, sn_last_entry = None, sn_last_sha256 = None,
          sn_cash = [], sn_positions = [], sn_rounding = [], sn_unresolved = [],
          sn_open_bindings = [], sn_open_refs = []\<rparr>\<rparr>\<rparr>"

lemma create_example: "create_portfolio_ledger std_example (RunId ''r'') set_example = Inr ledger_example"
proof -
  have "make_snapshot (ls_snapshot (lg_state ledger_example)) = Inr (ls_snapshot (lg_state ledger_example))"
    by code_simp
  then show ?thesis
    by (simp add: create_portfolio_ledger_def Let_def digest_defs example_digests set_example_def spec_example_def
        ledger_example_def)
qed

lemma fill_example_applied:
  "\<exists>l a. apply_fill std_example ledger_example (fill_example dec_3) = (l, Inr a) \<and> ao_code a = LEDGER_APPLIED"
proof -
  have "case apply_fill std_example ledger_example (fill_example dec_3) of
     (l, Inr a) \<Rightarrow> ao_code a = LEDGER_APPLIED | _ \<Rightarrow> False"
    unfolding fill_defs digest_defs example_digests example_transaction_digest
    by code_simp
  then show ?thesis by (auto split: prod.splits sum.splits)
qed

definition funding_example :: initial_funding where
  "funding_example = \<lparr>fu_run = RunId ''r'', fu_currency = SettlementCurrency ''USD'', fu_amount = dec_3\<rparr>"

lemma funding_example_applied:
  "make_initial_funding (RunId ''r'') (SettlementCurrency ''USD'') dec_3 = Inr funding_example"
  "\<exists>l a. apply_initial_funding std_example ledger_example funding_example = (l, Inr a) \<and> fo_code a = LEDGER_APPLIED"
proof -
  show "make_initial_funding (RunId ''r'') (SettlementCurrency ''USD'') dec_3 = Inr funding_example"
    by code_simp
  have "case apply_initial_funding std_example ledger_example funding_example of
     (l, Inr a) \<Rightarrow> fo_code a = LEDGER_APPLIED | _ \<Rightarrow> False" by code_simp
  then show "\<exists>l a. apply_initial_funding std_example ledger_example funding_example = (l, Inr a)
      \<and> fo_code a = LEDGER_APPLIED" by (auto split: prod.splits sum.splits)
qed

definition correction_example :: adjustment_command where
  "correction_example = \<lparr>ac_run = RunId ''r'', ac_set_id = InstrumentSpecSetId ''s'', ac_set_sha256 = Sha256Digest [],
     ac_adjustment = id_of RECONCILIATION_ADJUSTMENT 1, ac_observation = Sha256Digest [], ac_outcome = Sha256Digest [],
     ac_sequence = 0, ac_snapshot = Sha256Digest [], ac_variant = BALANCE_CORRECTION, ac_target = SETTLEMENT_CASH,
     ac_instrument = None, ac_currency = Some (SettlementCurrency ''USD''), ac_local = Some zero_dec,
     ac_observed = Some dec_3, ac_delta = Some dec_3, ac_ref = None, ac_order = None, ac_order_sha256 = None,
     ac_dispatch = 1\<rparr>"

definition authorization_example :: audited_authorization where
  "authorization_example = \<lparr>au_authorization = \<lparr>aa_run = RunId ''r'', aa_set_id = InstrumentSpecSetId ''s'',
       aa_set_sha256 = Sha256Digest [], aa_authorization = id_of RECONCILIATION_ADJUSTMENT 1,
       aa_adjustment = id_of RECONCILIATION_ADJUSTMENT 1, aa_observation = Sha256Digest [],
       aa_outcome = Sha256Digest [], aa_outcome_ack = Sha256Digest [], aa_sequence = 0,
       aa_snapshot = Sha256Digest [], aa_command_sha256 = Sha256Digest [], aa_policy = ''p'',
       aa_policy_version = 1, aa_policy_sha256 = Sha256Digest [], aa_decision = AUTHORIZATION_ALLOWED,
       aa_available_at = 0, aa_dispatch = 1\<rparr>,
     au_sha256 = Sha256Digest [], au_record = id_of RECONCILIATION_ADJUSTMENT 1, au_ack = Sha256Digest [],
     au_head = Sha256Digest []\<rparr>"


lemma correction_example_applied:
  "\<exists>l a. apply_reconciliation_adjustment std_example ledger_example authorization_example correction_example
     = (l, Inr a) \<and> l \<noteq> ledger_example"
proof -
  have "case apply_reconciliation_adjustment std_example ledger_example authorization_example correction_example of
     (l, Inr a) \<Rightarrow> ls_cash (lg_state l) \<noteq> [] | _ \<Rightarrow> False"
    unfolding adjustment_defs digest_defs example_digests example_transaction_digest bounded_payload_weight
      bind_res_simps bind_res_assoc
    by code_simp
  then show ?thesis by (force simp: ledger_example_def split: prod.splits sum.splits)
qed

section \<open>Witnesses\<close>

lemma fill_applied_run:
  obtains l a where "apply_fill std_example (ledger_run std_example ledger_example []) (fill_example dec_3) = (l, Inr a)"
    "ao_code a = LEDGER_APPLIED" "l = ledger_run std_example ledger_example [FillEvent (fill_example dec_3)]"
proof -
  obtain l a where a: "apply_fill std_example ledger_example (fill_example dec_3) = (l, Inr a)" "ao_code a = LEDGER_APPLIED"
    using fill_example_applied by blast
  then show thesis by (intro that [of l a]) (simp_all add: ledger_run_def)
qed

theorem ledger_hash_chain_witness:
  "\<exists>st. st = lg_state (ledger_run std_example ledger_example [FillEvent (fill_example dec_3)])
     \<and> sn_version (ls_snapshot st) = int (length (ls_transactions st))"
  using ledger_hash_chain [OF create_example refl refl, of "[FillEvent (fill_example dec_3)]"] by blast

theorem ledger_double_entry_witness:
  "\<exists>st. st = lg_state (ledger_run std_example ledger_example [FillEvent (fill_example dec_3)])
     \<and> value_at (ls_cash st) (SettlementCurrency ''USD'')
       = booked (ls_transactions st) PORTFOLIO_CASH (CurrencyCommodity (SettlementCurrency ''USD''))"
  using ledger_double_entry [OF create_example refl refl, of "[FillEvent (fill_example dec_3)]"] by blast

theorem ledger_effect_at_most_once_witness:
  "ledger_next std_example (ledger_next std_example ledger_example (FillEvent (fill_example dec_3)))
     (FillEvent (fill_example dec_3))
   = ledger_next std_example ledger_example (FillEvent (fill_example dec_3))"
  using ledger_effect_at_most_once [OF create_example refl refl, of "[]" "FillEvent (fill_example dec_3)" "[]"]
  by (cases "ledger_next std_example ledger_example (FillEvent (fill_example dec_3)) = ledger_example")
    (simp_all add: ledger_run_def)

theorem fill_replays_as_duplicate_witness:
  "\<exists>l b. apply_fill std_example l (fill_example dec_3) = (l, Inr b) \<and> ao_code b = LEDGER_DUPLICATE"
proof (rule fill_applied_run)
  fix l a assume "apply_fill std_example (ledger_run std_example ledger_example []) (fill_example dec_3) = (l, Inr a)"
    "ao_code a = LEDGER_APPLIED"
  from fill_replays_as_duplicate [OF create_example refl this, of "[]"] show ?thesis
    by (auto simp: ledger_run_def)
qed

theorem applied_fill_effect_witness:
  "\<exists>l a. apply_fill std_example ledger_example (fill_example dec_3) = (l, Inr a)
     \<and> value_at (ls_positions (lg_state l)) (Instrument (VenueId ''X'') ''A'') = 3
     \<and> value_at (ls_cash (lg_state l)) (SettlementCurrency ''USD'')
         + value_at (ls_rounding (lg_state l)) (SettlementCurrency ''USD'') = - (3 / 100)
     \<and> 2 * \<bar>value_at (ls_rounding (lg_state l)) (SettlementCurrency ''USD'')\<bar> \<le> 1 / 100"
proof (rule fill_applied_run)
  fix l a assume a: "apply_fill std_example (ledger_run std_example ledger_example []) (fill_example dec_3) = (l, Inr a)"
    "ao_code a = LEDGER_APPLIED"
  have spec: "require_spec set_example (Instrument (VenueId ''X'') ''A'') = Inr (spec_example ''A'')" by code_simp
  have f: "fl_instrument (fill_example dec_3) = Instrument (VenueId ''X'') ''A''" "fl_side (fill_example dec_3) = BUY"
    "dval (fl_quantity (fill_example dec_3)) = 3" "dval (fl_price (fill_example dec_3)) = 1 / 100"
    "dval (fee_amount (fl_fees (fill_example dec_3) ! 0)) = 0"
    by (simp_all add: fill_example_def payload_example_def dval_def dec_3_def dec_001_def zero_dec_def)
  have s: "settlement_currency (spec_example ''A'') = SettlementCurrency ''USD''"
    "dval (contract_multiplier (spec_example ''A'')) = 1" "dval (currency_quantum (spec_example ''A'')) = 1 / 100"
    by (simp_all add: spec_example_def dval_def dec_1_def dec_001_def)
  have l: "lg_specs (ledger_run std_example ledger_example []) = set_example"
    "value_at (ls_cash (lg_state (ledger_run std_example ledger_example []))) y = 0"
    "value_at (ls_rounding (lg_state (ledger_run std_example ledger_example []))) y = 0"
    "value_at (ls_positions (lg_state (ledger_run std_example ledger_example []))) i = 0" for y i
    by (simp_all add: ledger_run_def ledger_example_def value_at_def)
  from applied_fill_effect [OF create_example refl a]
  have "value_at (ls_positions (lg_state l)) (Instrument (VenueId ''X'') ''A'') = 3
     \<and> value_at (ls_cash (lg_state l)) (SettlementCurrency ''USD'')
         + value_at (ls_rounding (lg_state l)) (SettlementCurrency ''USD'') = - (3 / 100)
     \<and> 2 * \<bar>value_at (ls_rounding (lg_state l)) (SettlementCurrency ''USD'')\<bar> \<le> 1 / 100"
    unfolding f l spec by (auto simp: s)
  with a(1) show ?thesis by (auto simp: ledger_run_def)
qed

theorem fill_outcome_matrix_witness:
  "\<exists>l a. apply_fill std_example ledger_example (fill_example dec_3) = (l, Inr a)
     \<and> length (ls_transactions (lg_state l)) = 1"
proof (rule fill_applied_run)
  fix l a assume a: "apply_fill std_example (ledger_run std_example ledger_example []) (fill_example dec_3) = (l, Inr a)"
    "ao_code a = LEDGER_APPLIED"
  from fill_outcome_matrix [OF create_example refl this(1)] a(2)
  have "length (ls_transactions (lg_state l)) = 1"
    by (auto simp: ledger_run_def ledger_example_def)
  with a(1) show ?thesis by (auto simp: ledger_run_def)
qed

theorem funded_cash_never_negative_witness:
  "\<exists>l a. apply_initial_funding std_example ledger_example funding_example = (l, Inr a)
     \<and> 0 \<le> value_at (ls_cash (lg_state (ledger_run std_example l [FillEvent (fill_example dec_3)])))
         (SettlementCurrency ''USD'')"
proof -
  obtain l a where a: "apply_initial_funding std_example ledger_example funding_example = (l, Inr a)"
    "fo_code a = LEDGER_APPLIED" using funding_example_applied(2) by blast
  from funded_cash_never_negative [OF create_example funding_example_applied(1) a,
      of "[FillEvent (fill_example dec_3)]" "SettlementCurrency ''USD''"] a(1)
  show ?thesis by auto
qed

theorem correction_reaches_observation_witness:
  "\<exists>l a. apply_reconciliation_adjustment std_example ledger_example authorization_example correction_example
     = (l, Inr a) \<and> value_at (ls_cash (lg_state l)) (SettlementCurrency ''USD'') = 3"
proof -
  obtain l a where a: "apply_reconciliation_adjustment std_example ledger_example authorization_example
      correction_example = (l, Inr a)" "l \<noteq> ledger_example" using correction_example_applied by blast
  from correction_reaches_observation [OF a, of zero_dec dec_3]
  have "value_at (ls_cash (lg_state l)) (SettlementCurrency ''USD'') = 3"
    by (auto simp: correction_example_def ledger_example_def dval_def dec_3_def zero_dec_def)
  with a(1) show ?thesis by auto
qed

theorem adjustment_failure_kinds_witness:
  "\<exists>l a. apply_reconciliation_adjustment std_example ledger_example authorization_example correction_example
     = (l, Inr a) \<and> jo_result a = ADJ_APPLIED"
proof -
  obtain l a where a: "apply_reconciliation_adjustment std_example ledger_example authorization_example
      correction_example = (l, Inr a)" "l \<noteq> ledger_example" using correction_example_applied by blast
  from adjustment_failure_kinds [OF create_example refl, of "[]" authorization_example correction_example l "Inr a"] a
  show ?thesis by (auto simp: ledger_run_def)
qed

end
