(* ===== verification/Market_Data.thy ===== *)
theory Market_Data
  imports Complex_Main Identity Regex "HOL-Library.AList" "HOL-Library.List_Lexorder" "HOL-Library.Char_ord"
    "HOL-Library.Product_Lexorder"
begin

text \<open>
  \<open>ea.core.market_data\<close>: closed bars in their source envelopes, the validation of
  a batch, the deterministic admission order, the latest visible revisions and
  the incremental admission behind a cursor. Instants are integers
  (microseconds of canonical UTC), so \<open>require_utc\<close> is the identity. A binary64
  is its exact rational value or one of the three non-finite values.
\<close>

section \<open>Values\<close>

datatype adjustment = RAW

fun adjustment_value :: "adjustment \<Rightarrow> string" where
  "adjustment_value RAW = ''raw''"

datatype source_id = SourceId string

definition source_pattern :: regex where
  "source_pattern = Sq (Cls (\<lambda>c. is_lower c \<or> is_digit c))
     (Upto 63 (\<lambda>c. is_lower c \<or> is_digit c \<or> c \<in> set ''._-''))"

definition make_source_id :: "string \<Rightarrow> source_id result" where
  "make_source_id c = guard_res (\<not> fullmatch source_pattern c) MarketDataValidationError (Inr (SourceId c))"

fun source_code :: "source_id \<Rightarrow> string" where
  "source_code (SourceId c) = c"

datatype py_float = Finite rat | PosInf | NegInf | NaN

fun is_finite :: "py_float \<Rightarrow> bool" where
  "is_finite (Finite x) = True"
| "is_finite _ = False"

fun float_le :: "py_float \<Rightarrow> py_float \<Rightarrow> bool" where
  "float_le NaN y = False"
| "float_le x NaN = False"
| "float_le NegInf y = True"
| "float_le x PosInf = True"
| "float_le (Finite x) (Finite y) = (x \<le> y)"
| "float_le x y = False"

definition float_less :: "py_float \<Rightarrow> py_float \<Rightarrow> bool" where
  "float_less x y \<longleftrightarrow> float_le x y \<and> \<not> float_le y x"

record bar =
  br_instrument :: instrument
  br_start :: int
  br_end :: int
  br_adjustment :: adjustment
  br_open :: py_float
  br_high :: py_float
  br_low :: py_float
  br_close :: py_float
  br_volume :: py_float

definition make_bar :: "bar \<Rightarrow> bar result" where
  "make_bar b =
     guard_res (br_end b \<le> br_start b) MarketDataValidationError
    (guard_res (\<not> list_all is_finite [br_open b, br_high b, br_low b, br_close b, br_volume b])
       MarketDataValidationError
    (guard_res (\<not> (float_le (br_low b) (br_open b) \<and> float_le (br_open b) (br_high b)))
       MarketDataValidationError
    (guard_res (\<not> (float_le (br_low b) (br_close b) \<and> float_le (br_close b) (br_high b)))
       MarketDataValidationError
    (guard_res (float_less (br_volume b) (Finite 0)) MarketDataValidationError (Inr b)))))"

record market_envelope =
  me_payload :: bar
  me_source :: source_id
  me_available_at :: int
  me_sequence :: int
  me_revision :: int

definition event_time :: "market_envelope \<Rightarrow> int" where
  "event_time e = br_end (me_payload e)"

definition make_envelope :: "market_envelope \<Rightarrow> market_envelope result" where
  "make_envelope e =
     guard_res (me_sequence e < 0) MarketDataValidationError
    (guard_res (me_revision e < 0) MarketDataValidationError
    (guard_res (me_available_at e < event_time e) MarketDataValidationError (Inr e)))"

type_synonym logical_key = "string \<times> string \<times> string \<times> int \<times> int \<times> string \<times> string"
type_synonym admission_key =
  "int \<times> int \<times> int \<times> string \<times> int \<times> string \<times> string \<times> int \<times> int \<times> string \<times> int"

definition logical_key :: "market_envelope \<Rightarrow> logical_key" where
  "logical_key e =
     (let p = me_payload e; (v, s) = instrument_key (br_instrument p)
      in (''bar'', v, s, br_start p, br_end p, adjustment_value (br_adjustment p), source_code (me_source e)))"

definition record_key :: "market_envelope \<Rightarrow> logical_key \<times> int" where
  "record_key e = (logical_key e, me_revision e)"

definition emission_key :: "market_envelope \<Rightarrow> string \<times> int" where
  "emission_key e = (source_code (me_source e), me_sequence e)"

definition admission_order_key :: "market_envelope \<Rightarrow> admission_key" where
  "admission_order_key e =
     (let p = me_payload e; (v, s) = instrument_key (br_instrument p)
      in (me_available_at e, event_time e, 0, source_code (me_source e), me_sequence e, v, s,
          br_start p, br_end p, adjustment_value (br_adjustment p), me_revision e))"

section \<open>Validation of a batch\<close>

fun validate_events :: "market_envelope list \<Rightarrow> market_envelope list \<Rightarrow> unit result" where
  "validate_events seen [] = Inr ()"
| "validate_events seen (e # es) =
     guard_res (record_key e \<in> record_key ` set seen) MarketDataValidationError
    (guard_res (emission_key e \<in> emission_key ` set seen) MarketDataValidationError
    (guard_res (admission_order_key e \<in> admission_order_key ` set seen) MarketDataValidationError
      (validate_events (seen @ [e]) es)))"

text \<open>The \<open>histories\<close> dictionary: the events of one logical key, in source order.\<close>

definition history_of :: "market_envelope list \<Rightarrow> logical_key \<Rightarrow> market_envelope list" where
  "history_of es k = filter (\<lambda>e. logical_key e = k) es"

text \<open>The \<open>pairwise\<close> loop over one history sorted by revision.\<close>

fun revisions_regress :: "market_envelope list \<Rightarrow> bool" where
  "revisions_regress (a # b # es) \<longleftrightarrow>
     me_available_at b < me_available_at a \<or> me_sequence b \<le> me_sequence a \<or> revisions_regress (b # es)"
| "revisions_regress _ \<longleftrightarrow> False"

definition validated_events :: "market_envelope list \<Rightarrow> market_envelope list result" where
  "validated_events es =
     bind_res (validate_events [] es) (\<lambda>_.
     guard_res (list_ex (\<lambda>k. revisions_regress (sort_key me_revision (history_of es k)))
         (remdups (map logical_key es))) MarketDataValidationError (Inr es))"

definition order_market_data :: "market_envelope list \<Rightarrow> market_envelope list result" where
  "order_market_data es =
     bind_res (validated_events es) (\<lambda>v. Inr (sort_key admission_order_key v))"

section \<open>Visibility and admission\<close>

definition is_visible_as_of :: "market_envelope \<Rightarrow> int \<Rightarrow> bool" where
  "is_visible_as_of e as_of \<longleftrightarrow> event_time e \<le> as_of \<and> me_available_at e \<le> as_of"

fun select_latest ::
  "int \<Rightarrow> (logical_key \<times> market_envelope) list \<Rightarrow> market_envelope list \<Rightarrow> (logical_key \<times> market_envelope) list"
where
  "select_latest cutoff selected [] = selected"
| "select_latest cutoff selected (e # es) =
     (if \<not> is_visible_as_of e cutoff then select_latest cutoff selected es
      else (case map_of selected (logical_key e) of
          None \<Rightarrow> select_latest cutoff (AList.update (logical_key e) e selected) es
        | Some prior \<Rightarrow>
            if me_revision prior < me_revision e
            then select_latest cutoff (AList.update (logical_key e) e selected) es
            else select_latest cutoff selected es))"

definition latest_as_of :: "market_envelope list \<Rightarrow> int \<Rightarrow> market_envelope list result" where
  "latest_as_of es cutoff =
     bind_res (order_market_data es) (\<lambda>ordered.
       Inr (sort_key admission_order_key (map snd (select_latest cutoff [] ordered))))"

record admission_cursor =
  cu_as_of :: int
  cu_last :: "market_envelope option"

definition make_cursor :: "int \<Rightarrow> market_envelope option \<Rightarrow> admission_cursor result" where
  "make_cursor as_of event =
     guard_res (case event of None \<Rightarrow> False | Some e \<Rightarrow> as_of < event_time e \<or> as_of < me_available_at e)
       MarketDataValidationError (Inr \<lparr>cu_as_of = as_of, cu_last = event\<rparr>)"

definition admit_market_data ::
  "market_envelope list \<Rightarrow> int \<Rightarrow> admission_cursor option \<Rightarrow> int option
   \<Rightarrow> (admission_cursor \<times> market_envelope list) result" where
  "admit_market_data history now cursor limit =
     guard_res (case cursor of None \<Rightarrow> False | Some c \<Rightarrow> now < cu_as_of c) MarketDataValidationError
    (guard_res (case limit of None \<Rightarrow> False | Some n \<Rightarrow> n \<le> 0) MarketDataValidationError
    (bind_res (order_market_data history) (\<lambda>ordered.
     let last_event = (case cursor of None \<Rightarrow> None | Some c \<Rightarrow> cu_last c)
     in guard_res (case last_event of None \<Rightarrow> False | Some e \<Rightarrow> e \<notin> set ordered) MarketDataValidationError
       (let previous_key = map_option admission_order_key last_event;
            candidates = filter (\<lambda>e. is_visible_as_of e now
              \<and> (case previous_key of None \<Rightarrow> True | Some k \<Rightarrow> k < admission_order_key e)) ordered;
            admitted = (case limit of None \<Rightarrow> candidates | Some n \<Rightarrow> take (nat n) candidates)
        in bind_res (make_cursor now (if admitted \<noteq> [] then Some (last admitted) else last_event))
             (\<lambda>c. Inr (c, admitted))))))"

end
