(* ===== verification/Market_Admission.thy ===== *)
theory Market_Admission
  imports Market_Laws
begin

text \<open>
  Incremental admission refines the one ordered list: whatever the limits and
  the cutoffs of the successive calls, the reader behind a cursor receives a
  prefix of the admission order, never an event that was not yet knowable.
\<close>

section \<open>A reader\<close>

text \<open>Successive calls over one cumulative history, each with its clock and limit.\<close>

fun admit_run ::
  "market_envelope list \<Rightarrow> admission_cursor option \<Rightarrow> (int \<times> int option) list
   \<Rightarrow> (admission_cursor option \<times> market_envelope list) result" where
  "admit_run h c [] = Inr (c, [])"
| "admit_run h c ((now, limit) # calls) =
     bind_res (admit_market_data h now c limit) (\<lambda>(c', out).
     bind_res (admit_run h (Some c') calls) (\<lambda>(c'', outs). Inr (c'', out @ outs)))"

definition wf_envelope :: "market_envelope \<Rightarrow> bool" where
  "wf_envelope e \<longleftrightarrow> make_envelope e = Inr e"

lemma wf_available: "wf_envelope e \<Longrightarrow> event_time e \<le> me_available_at e"
  by (simp add: wf_envelope_def make_envelope_def)

lemma wf_visible: "wf_envelope e \<Longrightarrow> is_visible_as_of e t \<longleftrightarrow> me_available_at e \<le> t"
  using wf_available [of e] by (auto simp: is_visible_as_of_def)

lemma key_less_available: "key_less a b \<Longrightarrow> me_available_at a \<le> me_available_at b"
  by (auto simp: admission_order_key_def Let_def less_prod_def split: prod.splits)

section \<open>Prefixes of the order\<close>

lemma filter_monotone_prefix:
  assumes "sorted_wrt R ord" "\<And>a b. R a b \<Longrightarrow> P b \<Longrightarrow> P a"
  shows "filter P ord = take (length (filter P ord)) ord"
  using assms(1)
proof (induction ord)
  case (Cons a ord)
  show ?case
  proof (cases "P a")
    case True then show ?thesis using Cons by simp
  next
    case False
    then have "filter P ord = []" using Cons.prems assms(2) by (auto simp: filter_empty_conv)
    with False show ?thesis by simp
  qed
qed simp

lemma filter_after:
  assumes "sorted_wrt (\<lambda>a b. f a < (f b :: 'k :: linorder)) ord" "n < length ord"
  shows "filter (\<lambda>e. f (ord ! n) < f e) ord = drop (Suc n) ord"
  using assms
proof (induction ord arbitrary: n)
  case (Cons a ord)
  show ?case
  proof (cases n)
    case 0
    then show ?thesis using Cons.prems(1) by simp
  next
    case (Suc m)
    have "f a < f (ord ! m)" using Cons.prems Suc by simp
    then show ?thesis using Cons Suc by (simp add: not_less less_imp_le)
  qed
qed simp

text \<open>Where a cursor stands in the order.\<close>

definition cursor_at :: "market_envelope list \<Rightarrow> admission_cursor option \<Rightarrow> nat \<Rightarrow> bool" where
  "cursor_at ord c n \<longleftrightarrow> n \<le> length ord \<and> (case c of
       None \<Rightarrow> n = 0
     | Some c \<Rightarrow> cu_last c = (if n = 0 then None else Some (ord ! (n - 1)))
         \<and> (\<forall>e \<in> set (take n ord). me_available_at e \<le> cu_as_of c))"

text \<open>How far a call reaches.\<close>

definition visible_count :: "market_envelope list \<Rightarrow> int \<Rightarrow> nat" where
  "visible_count ord now = length (filter (\<lambda>e. me_available_at e \<le> now) ord)"

definition next_position :: "market_envelope list \<Rightarrow> nat \<Rightarrow> int \<Rightarrow> int option \<Rightarrow> nat" where
  "next_position ord n now limit = (case limit of
      None \<Rightarrow> visible_count ord now
    | Some l \<Rightarrow> min (visible_count ord now) (n + nat l))"

lemma visible_prefix:
  assumes "sorted_wrt key_less ord"
  shows "filter (\<lambda>e. me_available_at e \<le> now) ord = take (visible_count ord now) ord"
  unfolding visible_count_def
  by (rule filter_monotone_prefix [OF assms]) (use key_less_available in fastforce)

lemma visible_count_le: "visible_count ord now \<le> length ord"
  by (simp add: visible_count_def)

lemma seen_le_visible:
  assumes "sorted_wrt key_less ord" "n \<le> length ord" "\<forall>e \<in> set (take n ord). me_available_at e \<le> now"
  shows "n \<le> visible_count ord now"
proof (rule ccontr)
  assume "\<not> n \<le> visible_count ord now"
  then have i: "visible_count ord now < n" by simp
  have "filter (\<lambda>e. me_available_at e \<le> now) (take n ord) = take n ord"
    using assms(3) by (simp add: filter_id_conv)
  then have "n \<le> length (filter (\<lambda>e. me_available_at e \<le> now) ord)"
    using assms(2) by (metis append_take_drop_id filter_append le_add1 length_append length_take min.absorb2)
  with i show False by (simp add: visible_count_def)
qed

section \<open>One call\<close>

lemma candidates_eq:
  assumes "sorted_wrt key_less ord" "\<forall>e \<in> set ord. wf_envelope e" "n \<le> visible_count ord now"
    "k = (if n = 0 then None else Some (admission_order_key (ord ! (n - 1))))"
  shows "filter (\<lambda>e. is_visible_as_of e now \<and> (case k of None \<Rightarrow> True | Some k \<Rightarrow> k < admission_order_key e)) ord
    = drop n (take (visible_count ord now) ord)"
proof -
  let ?m = "visible_count ord now" and ?Q = "\<lambda>e. case k of None \<Rightarrow> True | Some k \<Rightarrow> k < admission_order_key e"
  have "filter (\<lambda>e. is_visible_as_of e now \<and> ?Q e) ord = filter ?Q (filter (\<lambda>e. me_available_at e \<le> now) ord)"
    using assms(2) by (auto simp: wf_visible conj_commute intro!: filter_cong)
  also have "\<dots> = filter ?Q (take ?m ord)" by (simp only: visible_prefix [OF assms(1)])
  also have "\<dots> = drop n (take ?m ord)"
  proof (cases n)
    case 0 then show ?thesis by (simp add: assms(4))
  next
    case (Suc j)
    have "j < length (take ?m ord)" using Suc assms(3) visible_count_le [of ord now] by simp
    from filter_after [OF sorted_wrt_take [OF assms(1)] this] show ?thesis
      using Suc assms(3) by (simp add: assms(4))
  qed
  finally show ?thesis .
qed

lemma admit_step:
  assumes b: "batch_ok h" and w: "\<forall>e \<in> set h. wf_envelope e"
    and o: "ord = sort_key admission_order_key h" and at: "cursor_at ord c n"
    and now: "\<And>x. c = Some x \<Longrightarrow> cu_as_of x \<le> now" and lim: "\<And>l. limit = Some l \<Longrightarrow> 0 < l"
    and n': "n' = next_position ord n now limit"
  obtains c' where "admit_market_data h now c limit = Inr (c', drop n (take n' ord))"
    "cu_as_of c' = now" "cursor_at ord (Some c') n'" "n \<le> n'"
proof -
  let ?m = "visible_count ord now"
  have s: "sorted_wrt key_less ord" using ordered_sorted [OF b] by (simp add: o)
  have wo: "\<forall>e \<in> set ord. wf_envelope e" using w by (simp add: o)
  define event where "event = (if n = 0 then None else Some (ord ! (n - 1)))"
  have last_event: "(case c of None \<Rightarrow> None | Some c \<Rightarrow> cu_last c) = event"
    using at by (auto simp: cursor_at_def event_def split: option.splits)
  have seen: "\<forall>e \<in> set (take n ord). me_available_at e \<le> now"
    using at now by (cases c) (force simp: cursor_at_def)+
  have nl: "n \<le> length ord" using at by (simp add: cursor_at_def)
  have nm: "n \<le> ?m" by (rule seen_le_visible [OF s nl seen])
  have ml: "?m \<le> length ord" by (rule visible_count_le)
  have nn: "n \<le> n'" "n' \<le> ?m" using nm by (auto simp: n' next_position_def split: option.splits)
  have mem: "e \<in> set ord" if "event = Some e" for e
    using that nl by (auto simp: event_def split: if_splits)
  have k: "map_option admission_order_key event = (if n = 0 then None else Some (admission_order_key (ord ! (n - 1))))"
    by (simp add: event_def)
  note cand = candidates_eq [OF s wo nm k]
  have adm: "(case limit of None \<Rightarrow> drop n (take ?m ord) | Some l \<Rightarrow> take (nat l) (drop n (take ?m ord))) = drop n (take n' ord)"
    by (cases limit) (simp_all add: n' next_position_def take_drop min.commute add.commute)
  define event' where "event' = (if drop n (take n' ord) \<noteq> [] then Some (last (drop n (take n' ord))) else event)"
  have vis: "\<forall>e \<in> set (take n' ord). me_available_at e \<le> now"
  proof -
    have "set (take n' ord) \<subseteq> set (take ?m ord)" using nn(2) by (simp add: set_take_subset_set_take)
    then show ?thesis by (auto simp flip: visible_prefix [OF s])
  qed
  have ev': "event' = (if n' = 0 then None else Some (ord ! (n' - 1)))"
  proof (cases "n < n'")
    case True
    then have "last (drop n (take n' ord)) = ord ! (n' - 1)"
      using nn ml by (simp add: last_conv_nth)
    with True nn ml show ?thesis by (auto simp: event'_def)
  next
    case False
    then show ?thesis using nn by (simp add: event'_def event_def)
  qed
  have ok: "make_cursor now event' = Inr \<lparr>cu_as_of = now, cu_last = event'\<rparr>"
  proof (cases event')
    case (Some e)
    then have "e \<in> set (take n' ord)" using ev' nn ml by (auto simp: in_set_conv_nth split: if_splits intro!: exI [of _ "n' - 1"])
    with vis wo wf_available [of e] show ?thesis by (force simp: make_cursor_def Some dest: in_set_takeD)
  qed (simp add: make_cursor_def)
  have g: "(case c of None \<Rightarrow> False | Some c \<Rightarrow> now < cu_as_of c) = False"
    "(case limit of None \<Rightarrow> False | Some l \<Rightarrow> l \<le> 0) = False"
    "(case event of None \<Rightarrow> False | Some e \<Rightarrow> e \<notin> set ord) = False"
    using now lim mem by (force split: option.splits)+
  have "admit_market_data h now c limit = Inr (\<lparr>cu_as_of = now, cu_last = event'\<rparr>, drop n (take n' ord))"
    using b by (simp only: admit_market_data_def last_event order_market_data_eq Let_def o [symmetric] g
        cand adm event'_def [symmetric] ok guard_res_False bind_res_simps if_True)
  then show thesis
    by (rule that) (use nn vis ev' ml in \<open>simp_all add: cursor_at_def\<close>)
qed

section \<open>A run of calls\<close>

definition call_ok :: "int \<times> int option \<Rightarrow> bool" where
  "call_ok x \<longleftrightarrow> (case snd x of None \<Rightarrow> True | Some l \<Rightarrow> 0 < l)"

lemma next_position_None [simp]: "next_position ord n now None = visible_count ord now"
  by (simp add: next_position_def)

lemma admit_run_position:
  assumes b: "batch_ok h" and w: "\<forall>e \<in> set h. wf_envelope e" and o: "ord = sort_key admission_order_key h"
  shows "cursor_at ord c n \<Longrightarrow> (\<And>x. c = Some x \<Longrightarrow> \<forall>t \<in> set (map fst calls). cu_as_of x \<le> t)
    \<Longrightarrow> sorted (map fst calls) \<Longrightarrow> list_all call_ok calls
    \<Longrightarrow> \<exists>c' n'. admit_run h c calls = Inr (c', drop n (take n' ord)) \<and> cursor_at ord c' n' \<and> n \<le> n'
      \<and> (calls \<noteq> [] \<longrightarrow> (\<exists>x. c' = Some x \<and> cu_as_of x = fst (last calls))
          \<and> (snd (last calls) = None \<longrightarrow> n' = visible_count ord (fst (last calls))))"
proof (induction calls arbitrary: c n)
  case Nil
  then show ?case by (intro exI [of _ c] exI [of _ n]) simp
next
  case (Cons call calls)
  obtain now limit where call: "call = (now, limit)" by fastforce
  have l: "0 < l" if "limit = Some l" for l using Cons.prems(4) that by (simp add: call call_ok_def)
  have t: "cu_as_of x \<le> now" if "c = Some x" for x using Cons.prems(2) [OF that] by (simp add: call)
  define n1 where s5: "n1 = next_position ord n now limit"
  obtain c1 where s1: "admit_market_data h now c limit = Inr (c1, drop n (take n1 ord))"
    "cu_as_of c1 = now" "cursor_at ord (Some c1) n1" "n \<le> n1"
    using admit_step [OF b w o Cons.prems(1) t l s5] .
  note s = s1 s5
  obtain c' n' where r: "admit_run h (Some c1) calls = Inr (c', drop n1 (take n' ord))" "cursor_at ord c' n'" "n1 \<le> n'"
    "calls \<noteq> [] \<longrightarrow> (\<exists>x. c' = Some x \<and> cu_as_of x = fst (last calls))
          \<and> (snd (last calls) = None \<longrightarrow> n' = visible_count ord (fst (last calls)))"
    using Cons.IH [OF s(3)] Cons.prems(3,4) by (auto simp: call s(2))
  have app: "drop n (take n1 ord) @ drop n1 (take n' ord) = drop n (take n' ord)"
  proof -
    have nl: "n \<le> length (take n1 ord)" using Cons.prems(1) s(4) by (simp add: cursor_at_def)
    have "take n' ord = take n1 ord @ drop n1 (take n' ord)"
      using r(3) append_take_drop_id [of n1 "take n' ord"] by (simp add: min.absorb1)
    then have "drop n (take n' ord) = drop n (take n1 ord @ drop n1 (take n' ord))" by simp
    then show ?thesis using nl by simp
  qed
  show ?case
  proof (intro exI conjI)
    show "admit_run h c (call # calls) = Inr (c', drop n (take n' ord))" by (simp add: call s(1) r(1) app)
    show "cursor_at ord c' n'" by (rule r(2))
    show "n \<le> n'" using s(4) r(3) by simp
    show "call # calls \<noteq> [] \<longrightarrow> (\<exists>x. c' = Some x \<and> cu_as_of x = fst (last (call # calls)))
          \<and> (snd (last (call # calls)) = None \<longrightarrow> n' = visible_count ord (fst (last (call # calls))))"
    proof (cases "calls = []")
      case True
      with r(1) have "c' = Some c1" "drop n1 (take n' ord) = []" by auto
      moreover have "n' = n1"
        using calculation(2) r(2,3) by (auto simp: cursor_at_def)
      ultimately show ?thesis using True s(2,5) by (simp add: call)
    qed (use r(4) in simp)
  qed
qed

section \<open>The latest view\<close>

definition is_latest :: "market_envelope list \<Rightarrow> int \<Rightarrow> market_envelope \<Rightarrow> bool" where
  "is_latest es t e \<longleftrightarrow> e \<in> set es \<and> is_visible_as_of e t
     \<and> (\<forall>e' \<in> set es. is_visible_as_of e' t \<and> logical_key e' = logical_key e \<longrightarrow> me_revision e' \<le> me_revision e)"

definition slot_ok :: "market_envelope list \<Rightarrow> int \<Rightarrow> logical_key \<Rightarrow> market_envelope option \<Rightarrow> bool" where
  "slot_ok es t k r \<longleftrightarrow> (case r of
      None \<Rightarrow> \<forall>e \<in> set es. is_visible_as_of e t \<longrightarrow> logical_key e \<noteq> k
    | Some e \<Rightarrow> logical_key e = k \<and> is_latest es t e)"

definition selects :: "(logical_key \<times> market_envelope) list \<Rightarrow> market_envelope list \<Rightarrow> int \<Rightarrow> bool" where
  "selects m es t \<longleftrightarrow> distinct (map fst m) \<and> (\<forall>k. slot_ok es t k (map_of m k))"

lemma selectsI: "distinct (map fst m) \<Longrightarrow> (\<And>k. slot_ok es t k (map_of m k)) \<Longrightarrow> selects m es t"
  unfolding selects_def by blast

lemma selectsD: "selects m es t \<Longrightarrow> distinct (map fst m)" "selects m es t \<Longrightarrow> slot_ok es t k (map_of m k)"
  unfolding selects_def by blast+

lemma slot_ok_skip: "slot_ok es t k r \<Longrightarrow> \<not> is_visible_as_of e t \<or> logical_key e \<noteq> k \<Longrightarrow> slot_ok (es @ [e]) t k r"
  by (cases r) (auto simp: slot_ok_def is_latest_def)

lemma slot_ok_keep: "slot_ok es t k (Some p) \<Longrightarrow> me_revision e \<le> me_revision p \<Longrightarrow> slot_ok (es @ [e]) t k (Some p)"
  by (auto simp: slot_ok_def is_latest_def)

lemma slot_ok_new:
  assumes "slot_ok es t (logical_key e) r" "is_visible_as_of e t"
    "case r of None \<Rightarrow> True | Some p \<Rightarrow> me_revision p < me_revision e"
  shows "slot_ok (es @ [e]) t (logical_key e) (Some e)"
proof (cases r)
  case (Some p)
  have "me_revision e' \<le> me_revision e" if "e' \<in> set es" "is_visible_as_of e' t" "logical_key e' = logical_key e" for e'
    using assms(1,3) that by (fastforce simp: Some slot_ok_def is_latest_def)
  with assms(2) show ?thesis by (auto simp: slot_ok_def is_latest_def)
qed (use assms in \<open>auto simp: slot_ok_def is_latest_def\<close>)

lemma selects_skip: "selects m es t \<Longrightarrow> \<not> is_visible_as_of e t \<Longrightarrow> selects m (es @ [e]) t"
  by (rule selectsI) (blast intro: slot_ok_skip selectsD)+

lemma selects_keep:
  assumes "selects m es t" "map_of m (logical_key e) = Some p" "me_revision e \<le> me_revision p"
  shows "selects m (es @ [e]) t"
proof (rule selectsI)
  fix k
  show "slot_ok (es @ [e]) t k (map_of m k)"
  proof (cases "k = logical_key e")
    case True
    with assms(2,3) selectsD(2) [OF assms(1), of k] show ?thesis by (simp add: slot_ok_keep)
  next
    case False
    then show ?thesis using slot_ok_skip [OF selectsD(2) [OF assms(1), of k], of e] by simp
  qed
qed (rule selectsD(1) [OF assms(1)])

lemma selects_update:
  assumes "selects m es t" "is_visible_as_of e t"
    "case map_of m (logical_key e) of None \<Rightarrow> True | Some p \<Rightarrow> me_revision p < me_revision e"
  shows "selects (AList.update (logical_key e) e m) (es @ [e]) t"
proof (rule selectsI)
  show "distinct (map fst (AList.update (logical_key e) e m))"
    using selectsD(1) [OF assms(1)] by (rule distinct_update)
  fix k
  show "slot_ok (es @ [e]) t k (map_of (AList.update (logical_key e) e m) k)"
  proof (cases "k = logical_key e")
    case True
    then show ?thesis using slot_ok_new [OF selectsD(2) [OF assms(1)] assms(2,3)] by (simp add: update_conv')
  next
    case False
    then have "map_of (AList.update (logical_key e) e m) k = map_of m k" by (simp add: update_conv')
    with slot_ok_skip [OF selectsD(2) [OF assms(1), of k], of e] False show ?thesis by simp
  qed
qed

lemma select_latest_selects:
  "selects m seen t \<Longrightarrow> selects (select_latest t m es) (seen @ es) t"
proof (induction es arbitrary: m seen)
  case (Cons e es)
  show ?case
  proof (cases "is_visible_as_of e t")
    case False
    with Cons.IH [OF selects_skip [OF Cons.prems False]] show ?thesis by simp
  next
    case True
    show ?thesis
    proof (cases "\<exists>p. map_of m (logical_key e) = Some p \<and> me_revision e \<le> me_revision p")
      case p: True
      then show ?thesis using True Cons.IH selects_keep [OF Cons.prems] by fastforce
    next
      case False
      then have "case map_of m (logical_key e) of None \<Rightarrow> True | Some p \<Rightarrow> me_revision p < me_revision e"
        by (auto simp: not_le split: option.splits)
      with Cons.IH [OF selects_update [OF Cons.prems True this]] True show ?thesis
        by (auto split: option.splits)
    qed
  qed
qed simp

lemma selects_set:
  assumes "selects m es t" "distinct (map record_key es)"
  shows "e \<in> set (map snd m) \<longleftrightarrow> is_latest es t e" "distinct (map snd m)"
proof -
  note d = selectsD(1) [OF assms(1)] and h = selectsD(2) [OF assms(1)]
  have fst: "logical_key v = k \<and> is_latest es t v" if "(k, v) \<in> set m" for k v
    using h [of k] map_of_is_SomeI [OF d that] by (simp add: slot_ok_def)
  show "e \<in> set (map snd m) \<longleftrightarrow> is_latest es t e"
  proof
    assume l: "is_latest es t e"
    then obtain x where x: "map_of m (logical_key e) = Some x" "is_latest es t x" "logical_key x = logical_key e"
      using h [of "logical_key e"] by (cases "map_of m (logical_key e)") (auto simp: slot_ok_def is_latest_def)
    have "record_key x = record_key e" "x \<in> set es" "e \<in> set es"
      using l x(2,3) by (auto simp: is_latest_def record_key_def intro: order.antisym)
    with assms(2) have "x = e" by (auto simp: distinct_map inj_on_def)
    with x(1) show "e \<in> set (map snd m)" by (force dest: map_of_SomeD)
  next
    assume "e \<in> set (map snd m)"
    then obtain p where "p \<in> set m" "e = snd p" by auto
    then show "is_latest es t e" using fst [of "fst p" "snd p"] by simp
  qed
  have "p = q" if "p \<in> set m" "q \<in> set m" "snd p = snd q" for p q
    using fst [of "fst p" "snd p"] fst [of "fst q" "snd q"] that by (metis prod.collapse)
  then have "inj_on snd (set m)" by (rule inj_onI)
  moreover have "distinct m" using d by (simp add: distinct_map)
  ultimately show "distinct (map snd m)" by (simp add: distinct_map)
qed

section \<open>Properties\<close>

text \<open>C16: incremental admission refines the ordered history. Over a valid history, any sequence of
  calls with a monotone clock and positive limits returns, call after call, a prefix of the one
  deterministic order: no event twice, none out of order, none before it was knowable; and a
  last call without a limit has delivered everything visible.\<close>

theorem market_admission_exact:
  assumes "order_market_data h = Inr ord" "\<forall>e \<in> set h. wf_envelope e"
    "sorted (map fst calls)" "list_all call_ok calls" "calls \<noteq> []"
  shows "\<exists>c n. admit_run h None calls = Inr (c, take n ord)
    \<and> (\<forall>e \<in> set (take n ord). is_visible_as_of e (fst (last calls)))
    \<and> (snd (last calls) = None \<longrightarrow> take n ord = filter (\<lambda>e. is_visible_as_of e (fst (last calls))) ord)"
proof -
  have b: "batch_ok h" and o: "ord = sort_key admission_order_key h"
    using assms(1) by (auto simp: order_market_data_eq split: if_splits)
  have wo: "\<forall>e \<in> set ord. wf_envelope e" using assms(2) by (simp add: o)
  have "cursor_at ord None 0" by (simp add: cursor_at_def)
  from admit_run_position [OF b assms(2) o this _ assms(3,4)] assms(5) obtain c n x where
    r: "admit_run h None calls = Inr (c, take n ord)" "cursor_at ord c n" "c = Some x" "cu_as_of x = fst (last calls)"
      "snd (last calls) = None \<longrightarrow> n = visible_count ord (fst (last calls))" by auto
  have v: "\<forall>e \<in> set (take n ord). is_visible_as_of e (fst (last calls))"
  proof
    fix e assume e: "e \<in> set (take n ord)"
    then have "wf_envelope e" using wo by (auto dest: in_set_takeD)
    with e r(2-4) show "is_visible_as_of e (fst (last calls))" by (simp add: cursor_at_def wf_visible)
  qed
  have "filter (\<lambda>e. is_visible_as_of e (fst (last calls))) ord = take (visible_count ord (fst (last calls))) ord"
    using wo visible_prefix [OF ordered_sorted [OF b], folded o]
    by (auto simp: wf_visible cong: filter_cong)
  with r v show ?thesis by (intro exI [of _ c] exI [of _ n]) auto
qed

text \<open>C17: the latest view is the point-in-time view. For a valid history it returns, in admission
  order and without duplicates, exactly the visible events whose revision is the highest visible
  one of their logical bar.\<close>

theorem latest_view_exact:
  assumes "latest_as_of es t = Inr out"
  shows "(\<forall>e. e \<in> set out \<longleftrightarrow> is_latest es t e) \<and> sorted_wrt key_less out"
proof -
  have b: "batch_ok es" and o: "out = sort_key admission_order_key (map snd (select_latest t [] (sort_key admission_order_key es)))"
    using assms by (auto simp: latest_as_of_def order_market_data_eq split: if_splits)
  let ?ord = "sort_key admission_order_key es"
  have "selects [] [] t" by (rule selectsI) (simp_all add: slot_ok_def)
  note s = select_latest_selects [OF this, of ?ord, simplified]
  have "distinct (map record_key ?ord)"
    using b distinct_map_perm [of ?ord es record_key] by (simp add: batch_ok_def)
  note ss = selects_set [OF s this]
  have "is_latest ?ord t e \<longleftrightarrow> is_latest es t e" for e by (simp add: is_latest_def)
  then have a: "\<forall>e. e \<in> set out \<longleftrightarrow> is_latest es t e" using ss(1) by (simp add: o)
  have "inj_on admission_order_key (set es)" using b by (simp add: batch_ok_def distinct_map)
  then have "inj_on admission_order_key (set out)"
    by (rule inj_on_subset) (use a in \<open>auto simp: is_latest_def\<close>)
  then have "sorted_wrt (<) (map admission_order_key out)"
    using ss(2) by (simp add: strict_sorted_iff distinct_map o)
  then have "sorted_wrt key_less out" unfolding sorted_wrt_map .
  with a show ?thesis by blast
qed

definition envelope_example :: "int \<Rightarrow> int \<Rightarrow> market_envelope" where
  "envelope_example t n = \<lparr>me_payload = \<lparr>br_instrument = Instrument (VenueId ''X'') ''A'', br_start = t, br_end = t + 1,
       br_adjustment = RAW, br_open = Finite 1, br_high = Finite 2, br_low = Finite 1, br_close = Finite 2,
       br_volume = Finite 0\<rparr>,
     me_source = SourceId ''s'', me_available_at = t + 2, me_sequence = n, me_revision = 0\<rparr>"

lemma envelope_example_keys:
  "admission_order_key (envelope_example t n) = (t + 2, t + 1, 0, ''s'', n, ''X'', ''A'', t, t + 1, ''raw'', 0)"
  "record_key (envelope_example t n) = ((''bar'', ''X'', ''A'', t, t + 1, ''raw'', ''s''), 0)"
  "emission_key (envelope_example t n) = (''s'', n)" "me_revision (envelope_example t n) = 0"
  "event_time (envelope_example t n) = t + 1" "wf_envelope (envelope_example t (int k))"
  by (simp_all add: admission_order_key_def record_key_def logical_key_def emission_key_def event_time_def
      wf_envelope_def make_envelope_def envelope_example_def)

theorem market_admission_exact_witness:
  "\<exists>c. admit_run [envelope_example 5 1, envelope_example 0 0] None [(2, None), (7, None)]
     = Inr (c, [envelope_example 0 0, envelope_example 5 1])"
proof -
  let ?h = "[envelope_example 5 1, envelope_example 0 0]" and ?o = "[envelope_example 0 0, envelope_example 5 1]"
  have o: "order_market_data ?h = Inr ?o"
    by (simp add: order_market_data_eq batch_ok_def histories_ok_def envelope_example_keys)
  have w: "\<forall>e \<in> set ?h. wf_envelope e"
    using envelope_example_keys(6) [of 5 1] envelope_example_keys(6) [of 0 0] by simp
  have v: "filter (\<lambda>e. is_visible_as_of e 7) ?o = ?o"
    by (simp add: is_visible_as_of_def envelope_example_keys) (simp add: envelope_example_def)
  let ?calls = "[(2, None), (7, None)] :: (int \<times> int option) list"
  have c: "sorted (map fst ?calls)" "list_all call_ok ?calls" "?calls \<noteq> []" by (simp_all add: call_ok_def)
  from market_admission_exact [OF o w c] obtain c n where
    r: "admit_run ?h None ?calls = Inr (c, take n ?o)"
      "snd (last ?calls) = None \<longrightarrow> take n ?o = filter (\<lambda>e. is_visible_as_of e (fst (last ?calls))) ?o"
    by (elim exE conjE) (rule that)
  have "take n ?o = ?o" using r(2) v by simp
  with r(1) show ?thesis by metis
qed

theorem latest_view_exact_witness:
  "\<exists>out. latest_as_of [envelope_example 5 1, envelope_example 0 0] 3 = Inr out \<and> set out = {envelope_example 0 0}"
proof -
  let ?h = "[envelope_example 5 1, envelope_example 0 0]"
  have "order_market_data ?h = Inr [envelope_example 0 0, envelope_example 5 1]"
    by (simp add: order_market_data_eq batch_ok_def histories_ok_def envelope_example_keys)
  then obtain out where o: "latest_as_of ?h 3 = Inr out" by (simp add: latest_as_of_def)
  have a: "me_available_at (envelope_example t n) = t + 2" for t n by (simp add: envelope_example_def)
  have v: "is_visible_as_of (envelope_example 0 0) 3" "\<not> is_visible_as_of (envelope_example 5 1) 3"
    by (simp_all add: is_visible_as_of_def envelope_example_keys a)
  have "is_latest ?h 3 e \<longleftrightarrow> e = envelope_example 0 0" for e
    using v by (auto simp: is_latest_def simp del: split_paired_All)
  with latest_view_exact [OF o] have "set out = {envelope_example 0 0}" by (auto simp only: set_eq_iff singleton_iff)
  with o show ?thesis by blast
qed

end
