(* ===== verification/Runtime_Kinds.thy ===== *)
theory Runtime_Kinds
  imports Identity Fact_Messages
begin

text \<open>
  The closed vocabularies of \<open>ea.core.runtime\<close>: root domains and kinds with the
  ranks of the global order, and the visible-ASCII identifiers of the runtime.
\<close>

datatype root_domain =
    DOMAIN_SAFETY | DOMAIN_EXECUTION_FACT | DOMAIN_RECONCILIATION | DOMAIN_MARKET_DATA | DOMAIN_TIMER | DOMAIN_END

fun domain_rank :: "root_domain \<Rightarrow> int" where
  "domain_rank DOMAIN_SAFETY = 0"
| "domain_rank DOMAIN_EXECUTION_FACT = 10"
| "domain_rank DOMAIN_RECONCILIATION = 20"
| "domain_rank DOMAIN_MARKET_DATA = 30"
| "domain_rank DOMAIN_TIMER = 40"
| "domain_rank DOMAIN_END = 50"

datatype safety_kind = HALT | FAILURE_CUTOVER | STOP_CUTOVER

fun safety_rank :: "safety_kind \<Rightarrow> int" where
  "safety_rank HALT = 0"
| "safety_rank FAILURE_CUTOVER = 10"
| "safety_rank STOP_CUTOVER = 20"

fun fact_rank :: "execution_fact_kind \<Rightarrow> int" where
  "fact_rank TRADE = 0"
| "fact_rank REJECTION = 10"
| "fact_rank ACKNOWLEDGEMENT = 20"
| "fact_rank EXPIRY = 30"
| "fact_rank CANCELLATION = 40"
| "fact_rank SUBMISSION_QUERY = 50"

datatype observation_kind = TRADE_DETAIL | ORDER_DETAIL | POSITION_SNAPSHOT | CASH_SNAPSHOT

fun observation_kind_value :: "observation_kind \<Rightarrow> string" where
  "observation_kind_value TRADE_DETAIL = ''trade_detail''"
| "observation_kind_value ORDER_DETAIL = ''order_detail''"
| "observation_kind_value POSITION_SNAPSHOT = ''position_snapshot''"
| "observation_kind_value CASH_SNAPSHOT = ''cash_snapshot''"

fun observation_rank :: "observation_kind \<Rightarrow> int" where
  "observation_rank TRADE_DETAIL = 0"
| "observation_rank ORDER_DETAIL = 10"
| "observation_rank POSITION_SNAPSHOT = 20"
| "observation_rank CASH_SNAPSHOT = 30"

datatype timer_kind = SAFETY_DEADLINE | STRATEGY_TIMER | MAINTENANCE

fun timer_rank :: "timer_kind \<Rightarrow> int" where
  "timer_rank SAFETY_DEADLINE = 0"
| "timer_rank STRATEGY_TIMER = 10"
| "timer_rank MAINTENANCE = 20"

datatype end_kind = BOUNDED_SOURCE_EXHAUSTED | REQUESTED_END

fun end_rank :: "end_kind \<Rightarrow> int" where
  "end_rank BOUNDED_SOURCE_EXHAUSTED = 0"
| "end_rank REQUESTED_END = 10"

text \<open>\<open>RuntimeOrderingError\<close>: 1 to 128 characters, each visible ASCII.\<close>

datatype runtime_identifier = RuntimeIdentifier string

definition make_runtime_identifier :: "string \<Rightarrow> runtime_identifier result" where
  "make_runtime_identifier t =
     guard_res (\<not> (1 \<le> length t \<and> length t \<le> 128)
         \<or> list_ex (\<lambda>c. (of_char c :: nat) < 33 \<or> 126 < (of_char c :: nat)) t) (RuntimeOrderingError OUT_OF_RANGE)
       (Inr (RuntimeIdentifier t))"

fun identifier_text :: "runtime_identifier \<Rightarrow> string" where
  "identifier_text (RuntimeIdentifier t) = t"

end
