(* ===== verification/Observations.thy ===== *)
theory Observations
  imports Reconciliation Runtime_Kinds
begin

text \<open>
  The reconciliation evidence of \<open>ea.core.reconciliation\<close>: broker observations,
  position and cash discrepancies, and the outcome of a comparison with its
  closed action matrix.
\<close>

section \<open>Observations\<close>

datatype scope_kind = SCOPE_TRADE | SCOPE_ORDER | SCOPE_POSITION | SCOPE_CASH

fun scope_kind_value :: "scope_kind \<Rightarrow> string" where
  "scope_kind_value SCOPE_TRADE = ''trade''"
| "scope_kind_value SCOPE_ORDER = ''order''"
| "scope_kind_value SCOPE_POSITION = ''position''"
| "scope_kind_value SCOPE_CASH = ''cash''"

datatype balance =
    ObservedPosition instrument canonical_decimal
  | ObservedCash settlement_currency canonical_decimal

record observation =
  ob_run :: run_id
  ob_set_id :: spec_set_id
  ob_set_sha256 :: sha256_digest
  ob_id :: economic_id
  ob_kind :: observation_kind
  ob_namespace :: source_namespace
  ob_sequence :: int
  ob_occurred_at :: int
  ob_available_at :: int
  ob_watermark_namespace :: source_namespace
  ob_watermark_sequence :: int
  ob_scope_kind :: scope_kind
  ob_scope_id :: runtime_identifier
  ob_provenance_id :: string
  ob_provenance_sha256 :: sha256_digest
  ob_balances :: "balance list"

definition MAX_RECONCILIATION_BALANCES :: nat where
  "MAX_RECONCILIATION_BALANCES = 32"

definition require_reconciliation_uint64 :: "int \<Rightarrow> unit result" where
  "require_reconciliation_uint64 n =
     guard_res (\<not> (0 \<le> n \<and> n \<le> MAX_UINT64)) (ReconciliationContractError OUT_OF_RANGE) (Inr ())"

fun expected_scope :: "observation_kind \<Rightarrow> scope_kind" where
  "expected_scope TRADE_DETAIL = SCOPE_TRADE"
| "expected_scope ORDER_DETAIL = SCOPE_ORDER"
| "expected_scope POSITION_SNAPSHOT = SCOPE_POSITION"
| "expected_scope CASH_SNAPSHOT = SCOPE_CASH"

fun position_keys :: "balance list \<Rightarrow> (string \<times> string) list" where
  "position_keys [] = []"
| "position_keys (ObservedPosition i q # bs) = instrument_key i # position_keys bs"
| "position_keys (ObservedCash y v # bs) = position_keys bs"

fun cash_keys :: "balance list \<Rightarrow> string list" where
  "cash_keys [] = []"
| "cash_keys (ObservedPosition i q # bs) = cash_keys bs"
| "cash_keys (ObservedCash y v # bs) = currency_code y # cash_keys bs"

fun is_position :: "balance \<Rightarrow> bool" where
  "is_position (ObservedPosition i q) = True"
| "is_position (ObservedCash y v) = False"

fun require_position_quantities :: "spec_set \<Rightarrow> balance list \<Rightarrow> unit result" where
  "require_position_quantities ss [] = Inr ()"
| "require_position_quantities ss (ObservedPosition i q # bs) =
     bind_res (map_exn reconciliation_translate
       (bind_res (require_spec ss i) (\<lambda>s. require_quantized q (quantity_quantum s)))) (\<lambda>_.
       require_position_quantities ss bs)"
| "require_position_quantities ss (ObservedCash y v # bs) = Inl AssertionError"

text \<open>\<open>quantums.setdefault\<close>: one quantum per currency code.\<close>

fun currency_grid :: "(string \<times> canonical_decimal) list \<Rightarrow> execution_spec list
   \<Rightarrow> (string \<times> canonical_decimal) list result" where
  "currency_grid m [] = Inr m"
| "currency_grid m (s # ss) =
     (case map_of m (currency_code (settlement_currency s)) of
        None \<Rightarrow> currency_grid ((currency_code (settlement_currency s), currency_quantum s) # m) ss
      | Some q \<Rightarrow> guard_res (q \<noteq> currency_quantum s) (ReconciliationContractError CONFLICTING_ID)
          (currency_grid m ss))"

fun require_cash_amounts :: "(string \<times> canonical_decimal) list \<Rightarrow> balance list \<Rightarrow> unit result" where
  "require_cash_amounts m [] = Inr ()"
| "require_cash_amounts m (ObservedCash y v # bs) =
     (case map_of m (currency_code y) of
        None \<Rightarrow> Inl (ReconciliationContractError CONFLICTING_ID)
      | Some q \<Rightarrow> bind_res (map_exn reconciliation_translate (require_quantized v q)) (\<lambda>_.
          require_cash_amounts m bs))"
| "require_cash_amounts m (ObservedPosition i q # bs) = Inl AssertionError"

text \<open>\<open>_require_kind_scope_and_balances\<close>.\<close>

definition require_kind_scope_balances ::
  "observation_kind \<Rightarrow> scope_kind \<Rightarrow> balance list \<Rightarrow> spec_set \<Rightarrow> unit result" where
  "require_kind_scope_balances kind scope bs ss =
     guard_res (scope \<noteq> expected_scope kind) (ReconciliationContractError CONFLICTING_ID)
     (if kind = TRADE_DETAIL \<or> kind = ORDER_DETAIL
      then guard_res (bs \<noteq> []) (ReconciliationContractError CONFLICTING_ID) (Inr ())
      else guard_res (\<not> (1 \<le> length bs \<and> length bs \<le> MAX_RECONCILIATION_BALANCES))
             (ReconciliationContractError OUT_OF_RANGE)
        (if kind = POSITION_SNAPSHOT
         then guard_res (\<not> list_all is_position bs) (ReconciliationContractError CONFLICTING_ID)
             (guard_res (position_keys bs \<noteq> sort (remdups (position_keys bs)))
                (ReconciliationContractError CONFLICTING_ID) (require_position_quantities ss bs))
         else guard_res (list_ex is_position bs) (ReconciliationContractError CONFLICTING_ID)
             (guard_res (cash_keys bs \<noteq> sort (remdups (cash_keys bs)))
                (ReconciliationContractError CONFLICTING_ID)
             (bind_res (currency_grid [] (specifications ss)) (\<lambda>m. require_cash_amounts m bs)))))"

fun balance_document :: "balance \<Rightarrow> json" where
  "balance_document (ObservedPosition i q) =
     JObj [(''instrument'', instrument_fields i), (''kind'', JStr ''instrument_position''),
       (''quantity'', JStr (dec_text q))]"
| "balance_document (ObservedCash y v) =
     JObj [(''amount'', JStr (dec_text v)), (''currency'', JStr (currency_code y)),
       (''kind'', JStr ''settlement_cash'')]"

definition observation_document :: "stdlib \<Rightarrow> observation \<Rightarrow> json" where
  "observation_document std ob = JObj
     [(''available_at'', JStr (utc_text std (ob_available_at ob))),
      (''balances'', JList (map balance_document (ob_balances ob))),
      (''canonicalization'', JStr ''ea-canonical-json-v1''),
      (''declared_scope_id'', JStr (identifier_text (ob_scope_id ob))),
      (''declared_scope_kind'', JStr (scope_kind_value (ob_scope_kind ob))),
      (''instrument_spec_set_id'', JStr (spec_set_id_text (ob_set_id ob))),
      (''instrument_spec_set_sha256'', digest_json (ob_set_sha256 ob)),
      (''kind'', JStr (observation_kind_value (ob_kind ob))),
      (''observation_id'', economic_id_document (ob_id ob)),
      (''occurred_at'', JStr (utc_text std (ob_occurred_at ob))),
      (''provenance_id'', JStr (ob_provenance_id ob)),
      (''provenance_payload_sha256'', digest_json (ob_provenance_sha256 ob)),
      (''run_id'', JStr (run_text (ob_run ob))),
      (''schema'', JStr ''ea.reconciliation-observation.v1''),
      (''source_namespace'', JStr (namespace_text (ob_namespace ob))),
      (''source_sequence'', JInt (ob_sequence ob)),
      (''watermark_namespace'', JStr (namespace_text (ob_watermark_namespace ob))),
      (''watermark_sequence'', JInt (ob_watermark_sequence ob))]"

definition observation_bytes :: "stdlib \<Rightarrow> observation \<Rightarrow> string result" where
  "observation_bytes std ob = bounded_payload (json_bytes (observation_document std ob))"

definition observation_digest :: "stdlib \<Rightarrow> observation \<Rightarrow> sha256_digest result" where
  "observation_digest std ob = bind_res (observation_bytes std ob) (\<lambda>p.
     Inr (framed_digest (hexdigest std) ''ea.reconciliation-observation.v1'' p))"

text \<open>\<open>create_reconciliation_observation\<close>; the specification set fills two fields.\<close>

definition create_observation :: "stdlib \<Rightarrow> spec_set \<Rightarrow> observation \<Rightarrow> observation result" where
  "create_observation std ss ob0 =
     bind_res (require_reconciliation_uint64 (ob_sequence ob0)) (\<lambda>_.
     bind_res (require_reconciliation_uint64 (ob_watermark_sequence ob0)) (\<lambda>_.
     guard_res (ob_available_at ob0 < ob_occurred_at ob0) (ReconciliationContractError OUT_OF_RANGE)
    (guard_res (run_id (ob_id ob0) \<noteq> ob_run ob0) (ReconciliationContractError CONFLICTING_ID)
    (guard_res (owner_kind (ob_id ob0) \<noteq> RECONCILIATION_OBSERVATION) (ReconciliationContractError CONFLICTING_ID)
    (bind_res (require_kind_scope_balances (ob_kind ob0) (ob_scope_kind ob0) (ob_balances ob0) ss) (\<lambda>_.
     let ob = ob0\<lparr>ob_set_id := set_identifier ss, ob_set_sha256 := instrument_spec_set_digest (hexdigest std) ss\<rparr>
     in bind_res (observation_bytes std ob) (\<lambda>_. Inr ob)))))))"

section \<open>Discrepancies\<close>

datatype discrepancy =
    PositionDiscrepancy instrument canonical_decimal canonical_decimal canonical_decimal
  | CashDiscrepancy settlement_currency canonical_decimal canonical_decimal canonical_decimal

text \<open>The common tail of the two factories: the grid of both amounts and a delta that is not zero.\<close>

definition discrepancy_delta ::
  "(canonical_decimal \<Rightarrow> unit result) \<Rightarrow> canonical_decimal \<Rightarrow> canonical_decimal \<Rightarrow> canonical_decimal result" where
  "discrepancy_delta grid local_amount observed_amount =
     bind_res (grid local_amount) (\<lambda>_.
     bind_res (grid observed_amount) (\<lambda>_.
     bind_res (subtract_decimal observed_amount local_amount) (\<lambda>delta.
     bind_res (canonical_decimal ''0'') (\<lambda>zero.
     guard_res (delta = zero) (ReconciliationContractError CONFLICTING_ID) (Inr delta)))))"

definition create_position_discrepancy ::
  "spec_set \<Rightarrow> instrument \<Rightarrow> canonical_decimal \<Rightarrow> canonical_decimal \<Rightarrow> discrepancy result" where
  "create_position_discrepancy ss i local_amount observed_amount =
     bind_res (discrepancy_delta
       (\<lambda>v. map_exn reconciliation_translate
          (bind_res (require_spec ss i) (\<lambda>s. bind_res (require_quantized v (quantity_quantum s)) (\<lambda>_. Inr ()))))
       local_amount observed_amount) (\<lambda>delta.
     Inr (PositionDiscrepancy i local_amount observed_amount delta))"

definition create_cash_discrepancy ::
  "spec_set \<Rightarrow> settlement_currency \<Rightarrow> canonical_decimal \<Rightarrow> canonical_decimal \<Rightarrow> discrepancy result" where
  "create_cash_discrepancy ss y local_amount observed_amount =
     (case currency_quantums ss y of
        [quantum] \<Rightarrow>
          bind_res (discrepancy_delta
            (\<lambda>v. map_exn reconciliation_translate (bind_res (require_quantized v quantum) (\<lambda>_. Inr ())))
            local_amount observed_amount) (\<lambda>delta.
          Inr (CashDiscrepancy y local_amount observed_amount delta))
      | _ \<Rightarrow> Inl (ReconciliationContractError CONFLICTING_ID))"

fun discrepancy_document :: "discrepancy \<Rightarrow> json" where
  "discrepancy_document (PositionDiscrepancy i l ob d) =
     JObj [(''delta'', JStr (dec_text d)), (''local_amount'', JStr (dec_text l)),
       (''observed_amount'', JStr (dec_text ob)), (''instrument'', instrument_fields i),
       (''kind'', JStr ''instrument_position'')]"
| "discrepancy_document (CashDiscrepancy y l ob d) =
     JObj [(''delta'', JStr (dec_text d)), (''local_amount'', JStr (dec_text l)),
       (''observed_amount'', JStr (dec_text ob)), (''currency'', JStr (currency_code y)),
       (''kind'', JStr ''settlement_cash'')]"

fun discrepancy_key :: "discrepancy \<Rightarrow> string \<times> string \<times> string" where
  "discrepancy_key (PositionDiscrepancy i l ob d) =
     (let (v, s) = instrument_key i in (''instrument_position'', v, s))"
| "discrepancy_key (CashDiscrepancy y l ob d) = (''settlement_cash'', currency_code y, [])"

section \<open>Outcomes\<close>

datatype watermark_comparison = EQUAL | REMOTE_LOWER | REMOTE_HIGHER | INCOMPARABLE

fun comparison_value :: "watermark_comparison \<Rightarrow> string" where
  "comparison_value EQUAL = ''equal''"
| "comparison_value REMOTE_LOWER = ''remote_lower''"
| "comparison_value REMOTE_HIGHER = ''remote_higher''"
| "comparison_value INCOMPARABLE = ''incomparable''"

datatype requested_action =
    ACTION_NONE | REQUEST_MISSING_TRADE_FACTS | RETAIN_AND_HALT | MANUAL_EVIDENCE_DECOMPOSITION
  | PROPOSE_SINGLE_TARGET_ADJUSTMENT | PROPOSE_ANCESTRY_RESOLUTION

fun action_value :: "requested_action \<Rightarrow> string" where
  "action_value ACTION_NONE = ''none''"
| "action_value REQUEST_MISSING_TRADE_FACTS = ''request_missing_trade_facts''"
| "action_value RETAIN_AND_HALT = ''retain_and_halt''"
| "action_value MANUAL_EVIDENCE_DECOMPOSITION = ''manual_evidence_decomposition''"
| "action_value PROPOSE_SINGLE_TARGET_ADJUSTMENT = ''propose_single_target_adjustment''"
| "action_value PROPOSE_ANCESTRY_RESOLUTION = ''propose_ancestry_resolution''"

record reconciliation_outcome =
  ro_run :: run_id
  ro_dispatch :: int
  ro_observation :: sha256_digest
  ro_snapshot_version :: int
  ro_snapshot :: sha256_digest
  ro_ledger_sequence :: int
  ro_comparison :: watermark_comparison
  ro_discrepancies :: "discrepancy list"
  ro_code :: outcome_code
  ro_action :: requested_action
  ro_halt :: bool

text \<open>\<open>_require_outcome_matrix\<close>.\<close>

definition allowed_exact ::
  "(watermark_comparison \<times> outcome_code \<times> requested_action \<times> bool \<times> nat) list" where
  "allowed_exact =
     [(EQUAL, RECONCILIATION_MATCH, ACTION_NONE, False, 0),
      (EQUAL, RECONCILIATION_MATCH, PROPOSE_ANCESTRY_RESOLUTION, True, 0),
      (REMOTE_LOWER, RECONCILIATION_LOCAL_AHEAD_STALE, RETAIN_AND_HALT, True, 0),
      (REMOTE_HIGHER, RECONCILIATION_REMOTE_AHEAD, REQUEST_MISSING_TRADE_FACTS, True, 0),
      (EQUAL, RECONCILIATION_MISMATCH, PROPOSE_SINGLE_TARGET_ADJUSTMENT, True, 1),
      (INCOMPARABLE, RECONCILIATION_INVALID, RETAIN_AND_HALT, True, 0),
      (EQUAL, RECONCILIATION_UNRESOLVED_CORRELATION, RETAIN_AND_HALT, True, 0)]"

definition outcome_matrix_ok :: "reconciliation_outcome \<Rightarrow> bool" where
  "outcome_matrix_ok r \<longleftrightarrow>
     (ro_comparison r, ro_code r, ro_action r, ro_halt r, length (ro_discrepancies r)) \<in> set allowed_exact
     \<or> ro_comparison r = EQUAL \<and> ro_code r = RECONCILIATION_QUARANTINED
       \<and> ro_action r = MANUAL_EVIDENCE_DECOMPOSITION \<and> ro_halt r
       \<and> 2 \<le> length (ro_discrepancies r) \<and> length (ro_discrepancies r) \<le> MAX_RECONCILIATION_BALANCES"

definition outcome_document :: "reconciliation_outcome \<Rightarrow> json" where
  "outcome_document r = JObj
     [(''canonicalization'', JStr ''ea-canonical-json-v1''),
      (''discrepancies'', JList (map discrepancy_document (ro_discrepancies r))),
      (''dispatch_sequence'', JInt (ro_dispatch r)),
      (''halt_requested'', JBool (ro_halt r)),
      (''ledger_sequence'', JInt (ro_ledger_sequence r)),
      (''local_snapshot_sha256'', digest_json (ro_snapshot r)),
      (''local_snapshot_version'', JInt (ro_snapshot_version r)),
      (''observation_sha256'', digest_json (ro_observation r)),
      (''outcome_code'', JStr (outcome_code_value (ro_code r))),
      (''requested_action'', JStr (action_value (ro_action r))),
      (''run_id'', JStr (run_text (ro_run r))),
      (''schema'', JStr ''ea.reconciliation-outcome.v2''),
      (''watermark_comparison'', JStr (comparison_value (ro_comparison r)))]"

definition outcome_bytes :: "reconciliation_outcome \<Rightarrow> string result" where
  "outcome_bytes r = bounded_payload (json_bytes (outcome_document r))"

definition outcome_digest :: "stdlib \<Rightarrow> reconciliation_outcome \<Rightarrow> sha256_digest result" where
  "outcome_digest std r = bind_res (outcome_bytes r) (\<lambda>p.
     Inr (framed_digest (hexdigest std) ''ea.reconciliation-outcome.v2'' p))"

definition create_reconciliation_outcome :: "reconciliation_outcome \<Rightarrow> reconciliation_outcome result" where
  "create_reconciliation_outcome r =
     bind_res (require_reconciliation_uint64 (ro_dispatch r)) (\<lambda>_.
     bind_res (require_reconciliation_uint64 (ro_snapshot_version r)) (\<lambda>_.
     bind_res (require_reconciliation_uint64 (ro_ledger_sequence r)) (\<lambda>_.
     guard_res (ro_dispatch r = 0) (ReconciliationContractError OUT_OF_RANGE)
    (guard_res (MAX_RECONCILIATION_BALANCES < length (ro_discrepancies r)) (ReconciliationContractError OUT_OF_RANGE)
    (let keys = map discrepancy_key (ro_discrepancies r)
     in guard_res (keys \<noteq> sort (remdups keys)) (ReconciliationContractError CONFLICTING_ID)
       (guard_res (\<not> outcome_matrix_ok r) (ReconciliationContractError CONFLICTING_ID)
       (bind_res (outcome_bytes r) (\<lambda>_. Inr r))))))))"

end
