(* ===== verification/Runtime_Roots.thy ===== *)
theory Runtime_Roots
  imports Observations Market_Laws
begin

text \<open>
  \<open>ea.core.runtime\<close>: the independent roots of a run, their order keys and the
  bounded plan. A key is compared by availability, then by domain rank, then by
  a suffix whose type the domain fixes; comparing suffixes of two types is an
  error of the code, and \<open>order_key_less_root\<close> shows that no two roots reach it.
\<close>

section \<open>Roots\<close>

record safety_root =
  sr_available_at :: int
  sr_kind :: safety_kind
  sr_namespace :: source_namespace
  sr_sequence :: int
  sr_subject :: "(runtime_identifier \<times> runtime_identifier) option"

definition require_runtime_non_negative :: "int \<Rightarrow> unit result" where
  "require_runtime_non_negative n = guard_res (n < 0) (RuntimeOrderingError OUT_OF_RANGE) (Inr ())"

definition make_safety_root :: "safety_root \<Rightarrow> safety_root result" where
  "make_safety_root r = bind_res (require_runtime_non_negative (sr_sequence r)) (\<lambda>_. Inr r)"

record timer_root =
  tr_available_at :: int
  tr_kind :: timer_kind
  tr_namespace :: source_namespace
  tr_id :: runtime_identifier
  tr_sequence :: int

definition make_timer_root :: "timer_root \<Rightarrow> timer_root result" where
  "make_timer_root r = bind_res (require_runtime_non_negative (tr_sequence r)) (\<lambda>_. Inr r)"

record end_root =
  er_available_at :: int
  er_kind :: end_kind
  er_namespace :: source_namespace
  er_sequence :: int
  er_run :: run_id

definition make_end_root :: "end_root \<Rightarrow> end_root result" where
  "make_end_root r = bind_res (require_runtime_non_negative (er_sequence r)) (\<lambda>_. Inr r)"

record observation_root =
  or_observation :: observation
  or_bytes :: string
  or_sha256 :: sha256_digest

definition create_observation_root :: "stdlib \<Rightarrow> observation \<Rightarrow> observation_root result" where
  "create_observation_root std ob =
     bind_res (observation_bytes std ob) (\<lambda>p.
     bind_res (observation_digest std ob) (\<lambda>d.
       Inr \<lparr>or_observation = ob, or_bytes = p, or_sha256 = d\<rparr>))"

text \<open>\<open>_require_reconciliation_observation_root\<close>: the carried evidence is recomputed.\<close>

definition require_observation_root :: "stdlib \<Rightarrow> observation_root \<Rightarrow> unit result" where
  "require_observation_root std r =
     bind_res (observation_bytes std (or_observation r)) (\<lambda>p.
     guard_res (or_bytes r \<noteq> p) (RuntimeOrderingError INVALID_TYPE)
    (bind_res (observation_digest std (or_observation r)) (\<lambda>d.
     guard_res (or_sha256 r \<noteq> d) (RuntimeOrderingError INVALID_TYPE) (Inr ()))))"

datatype runtime_root =
    SafetyRoot safety_root | FactRoot execution_fact_ingress | ObservationRoot observation_root
  | MarketRoot market_envelope | TimerRoot timer_root | EndRoot end_root

section \<open>Order keys\<close>

datatype root_suffix =
    SafetySuffix "int \<times> string \<times> int \<times> int \<times> string \<times> string"
  | FactSuffix "int \<times> string \<times> int"
  | ObservationSuffix "int \<times> string \<times> int \<times> string \<times> int \<times> string \<times> string \<times> int"
  | MarketSuffix "int \<times> int \<times> string \<times> int \<times> string \<times> string \<times> int \<times> int \<times> string \<times> int"
  | TimerSuffix "int \<times> string \<times> string \<times> int"
  | EndSuffix "int \<times> string \<times> int \<times> string"

type_synonym order_key = "int \<times> int \<times> root_suffix"

text \<open>The comparison of two suffixes in \<open>RuntimeRootOrderKey.__lt__\<close>.\<close>

fun suffix_less :: "root_suffix \<Rightarrow> root_suffix \<Rightarrow> bool result" where
  "suffix_less (SafetySuffix a) (SafetySuffix b) = Inr (a < b)"
| "suffix_less (FactSuffix a) (FactSuffix b) = Inr (a < b)"
| "suffix_less (ObservationSuffix a) (ObservationSuffix b) = Inr (a < b)"
| "suffix_less (MarketSuffix a) (MarketSuffix b) = Inr (a < b)"
| "suffix_less (TimerSuffix a) (TimerSuffix b) = Inr (a < b)"
| "suffix_less (EndSuffix a) (EndSuffix b) = Inr (a < b)"
| "suffix_less _ _ = Inl (RuntimeOrderingError CONFLICTING_ID)"

definition order_key_less :: "order_key \<Rightarrow> order_key \<Rightarrow> bool result" where
  "order_key_less k k' = (case (k, k') of ((t, r, s), (t', r', s')) \<Rightarrow>
     if t \<noteq> t' then Inr (t < t') else if r \<noteq> r' then Inr (r < r') else suffix_less s s')"

text \<open>A linear order that extends the comparison to suffixes of different types.\<close>

fun suffix_index :: "root_suffix \<Rightarrow> nat" where
  "suffix_index (SafetySuffix a) = 0"
| "suffix_index (FactSuffix a) = 1"
| "suffix_index (ObservationSuffix a) = 2"
| "suffix_index (MarketSuffix a) = 3"
| "suffix_index (TimerSuffix a) = 4"
| "suffix_index (EndSuffix a) = 5"

instantiation root_suffix :: linorder
begin

definition less_root_suffix :: "root_suffix \<Rightarrow> root_suffix \<Rightarrow> bool" where
  "less_root_suffix x y = (case suffix_less x y of Inr b \<Rightarrow> b | Inl e \<Rightarrow> suffix_index x < suffix_index y)"

definition less_eq_root_suffix :: "root_suffix \<Rightarrow> root_suffix \<Rightarrow> bool" where
  "less_eq_root_suffix x y \<longleftrightarrow> x < y \<or> x = y"

instance
proof
  fix x y z :: root_suffix
  show "(x < y) = (x \<le> y \<and> \<not> y \<le> x)"
    by (cases x; cases y) (auto simp: less_root_suffix_def less_eq_root_suffix_def)
  show "x \<le> x" by (simp add: less_eq_root_suffix_def)
  show "x \<le> y \<Longrightarrow> y \<le> z \<Longrightarrow> x \<le> z"
    by (cases x; cases y; cases z)
      (auto simp only: less_root_suffix_def less_eq_root_suffix_def suffix_less.simps sum.case suffix_index.simps
        root_suffix.inject intro: less_trans)
  show "x \<le> y \<Longrightarrow> y \<le> x \<Longrightarrow> x = y"
    by (cases x; cases y)
      (auto simp only: less_root_suffix_def less_eq_root_suffix_def suffix_less.simps sum.case suffix_index.simps
        dest: less_asym)
  show "x \<le> y \<or> y \<le> x"
    by (cases x; cases y; simp add: less_root_suffix_def less_eq_root_suffix_def; (metis less_linear)?)
qed

end

fun safety_suffix :: "safety_root \<Rightarrow> root_suffix" where
  "safety_suffix r = SafetySuffix (case sr_subject r of
      None \<Rightarrow> (safety_rank (sr_kind r), namespace_text (sr_namespace r), sr_sequence r, 0, [], [])
    | Some (k, i) \<Rightarrow> (safety_rank (sr_kind r), namespace_text (sr_namespace r), sr_sequence r, 1,
        identifier_text k, identifier_text i))"

fun observation_suffix :: "observation \<Rightarrow> root_suffix" where
  "observation_suffix ob = ObservationSuffix
     (observation_rank (ob_kind ob), namespace_text (ob_namespace ob), ob_sequence ob,
      namespace_text (ob_watermark_namespace ob), ob_watermark_sequence ob, run_text (run_id (ob_id ob)),
      owner_kind_value (owner_kind (ob_id ob)), owner_sequence (ob_id ob))"

definition runtime_root_order_key :: "stdlib \<Rightarrow> runtime_root \<Rightarrow> order_key result" where
  "runtime_root_order_key std x = (case x of
      SafetyRoot r \<Rightarrow> Inr (sr_available_at r, domain_rank DOMAIN_SAFETY, safety_suffix r)
    | FactRoot g \<Rightarrow> Inr (ig_available_at g, domain_rank DOMAIN_EXECUTION_FACT,
        FactSuffix (fact_rank (ef_kind (ig_fact g)), namespace_text (ig_namespace g), ig_sequence g))
    | ObservationRoot r \<Rightarrow> bind_res (require_observation_root std r) (\<lambda>_.
        Inr (ob_available_at (or_observation r), domain_rank DOMAIN_RECONCILIATION,
          observation_suffix (or_observation r)))
    | MarketRoot e \<Rightarrow> (let (t, rest) = admission_order_key e in
        Inr (t, domain_rank DOMAIN_MARKET_DATA, MarketSuffix rest))
    | TimerRoot r \<Rightarrow> Inr (tr_available_at r, domain_rank DOMAIN_TIMER,
        TimerSuffix (timer_rank (tr_kind r), namespace_text (tr_namespace r), identifier_text (tr_id r), tr_sequence r))
    | EndRoot r \<Rightarrow> Inr (er_available_at r, domain_rank DOMAIN_END,
        EndSuffix (end_rank (er_kind r), namespace_text (er_namespace r), er_sequence r, run_text (er_run r))))"

section \<open>The bounded plan\<close>

text \<open>\<open>_validate_market_subset\<close>.\<close>

definition validate_market_subset :: "market_envelope list \<Rightarrow> unit result" where
  "validate_market_subset es =
     map_exn (\<lambda>_. RuntimeOrderingError CONFLICTING_ID)
       (bind_res (validate_events [] es) (\<lambda>_.
        guard_res (list_ex (\<lambda>k. revisions_regress (sort_key me_revision (history_of es k)))
            (remdups (map logical_key es))) MarketDataValidationError
       (bind_res (validated_events es) (\<lambda>_. Inr ()))))"

fun market_roots :: "runtime_root list \<Rightarrow> market_envelope list" where
  "market_roots [] = []"
| "market_roots (MarketRoot e # rs) = e # market_roots rs"
| "market_roots (_ # rs) = market_roots rs"

text \<open>The identity a root occupies in the set of its domain.\<close>

datatype root_identity =
    FactIdentity string int | ObservationIdentity string int | SafetyIdentity string int
  | TimerIdentity string int | EndIdentity string string int

definition root_identity :: "stdlib \<Rightarrow> runtime_root \<Rightarrow> root_identity option result" where
  "root_identity std x = (case x of
      FactRoot g \<Rightarrow> Inr (Some (FactIdentity (namespace_text (ig_namespace g)) (ig_sequence g)))
    | ObservationRoot r \<Rightarrow> bind_res (require_observation_root std r) (\<lambda>_.
        Inr (Some (ObservationIdentity (namespace_text (ob_namespace (or_observation r))) (ob_sequence (or_observation r)))))
    | SafetyRoot r \<Rightarrow> Inr (Some (SafetyIdentity (namespace_text (sr_namespace r)) (sr_sequence r)))
    | TimerRoot r \<Rightarrow> Inr (Some (TimerIdentity (namespace_text (tr_namespace r)) (tr_sequence r)))
    | EndRoot r \<Rightarrow> Inr (Some (EndIdentity (run_text (er_run r)) (namespace_text (er_namespace r)) (er_sequence r)))
    | MarketRoot e \<Rightarrow> Inr None)"

fun check_identities :: "stdlib \<Rightarrow> root_identity list \<Rightarrow> runtime_root list \<Rightarrow> unit result" where
  "check_identities std seen [] = Inr ()"
| "check_identities std seen (x # rs) =
     bind_res (root_identity std x) (\<lambda>i.
       case i of
         None \<Rightarrow> check_identities std seen rs
       | Some i \<Rightarrow> guard_res (i \<in> set seen) (RuntimeOrderingError CONFLICTING_ID)
           (check_identities std (i # seen) rs))"

fun keyed_roots :: "stdlib \<Rightarrow> runtime_root list \<Rightarrow> (order_key \<times> runtime_root) list result" where
  "keyed_roots std [] = Inr []"
| "keyed_roots std (x # rs) =
     bind_res (runtime_root_order_key std x) (\<lambda>k.
     bind_res (keyed_roots std rs) (\<lambda>ks. Inr ((k, x) # ks)))"

definition prepare_bounded_runtime_roots :: "stdlib \<Rightarrow> runtime_root list \<Rightarrow> runtime_root list result" where
  "prepare_bounded_runtime_roots std roots =
     guard_res (roots = []) (RuntimeOrderingError OUT_OF_RANGE)
    (bind_res (validate_market_subset (market_roots roots)) (\<lambda>_.
     bind_res (check_identities std [] roots) (\<lambda>_.
     bind_res (keyed_roots std roots) (\<lambda>keyed.
     guard_res (\<not> distinct (map fst keyed)) (RuntimeOrderingError CONFLICTING_ID)
       (Inr (map snd (sort_key fst keyed)))))))"

end
