(* ===== verification/Runtime_Plan.thy ===== *)
theory Runtime_Plan
  imports Runtime_Roots
begin

text \<open>
  The bounded plan is canonical: the order keys of roots are never compared
  across suffix types, a plan is the one strictly sorted arrangement of its
  roots, and it does not depend on the order in which they were supplied.
\<close>

section \<open>Keys\<close>

lemma order_key_less_root:
  assumes "runtime_root_order_key std x = Inr k" "runtime_root_order_key std y = Inr k'"
  shows "order_key_less k k' = Inr (k < k')"
  using assms
  by (cases x; cases y)
    (auto simp: runtime_root_order_key_def order_key_less_def less_prod_def less_root_suffix_def
      less_le_not_le [where 'a = int] less_eq_root_suffix_def split: prod.splits)

definition key_of :: "stdlib \<Rightarrow> runtime_root \<Rightarrow> order_key" where
  "key_of std x = (case runtime_root_order_key std x of Inr k \<Rightarrow> k | Inl e \<Rightarrow> undefined)"

lemma key_of_Inr [simp]: "runtime_root_order_key std x = Inr k \<Longrightarrow> key_of std x = k"
  by (simp add: key_of_def)

lemma keyed_roots_Inr_iff:
  "keyed_roots std rs = Inr ks \<longleftrightarrow>
     (\<forall>x \<in> set rs. \<exists>k. runtime_root_order_key std x = Inr k) \<and> ks = map (\<lambda>x. (key_of std x, x)) rs"
  by (induction rs arbitrary: ks) auto

lemma sort_key_map_fst: "map snd (sort_key fst (map (\<lambda>x. (f x, x)) xs)) = sort_key f xs"
proof -
  have i: "insort_key fst (f x, x) (map (\<lambda>x. (f x, x)) ys) = map (\<lambda>x. (f x, x)) (insort_key f x ys)" for x ys
    by (induction ys) auto
  have "sort_key fst (map (\<lambda>x. (f x, x)) xs) = map (\<lambda>x. (f x, x)) (sort_key f xs)"
    by (induction xs) (simp_all add: i)
  then show ?thesis by (simp add: comp_def)
qed

section \<open>Collisions\<close>

definition identity_of :: "stdlib \<Rightarrow> runtime_root \<Rightarrow> root_identity option" where
  "identity_of std x = (case root_identity std x of Inr i \<Rightarrow> i | Inl e \<Rightarrow> None)"

lemma check_identities_iff:
  "check_identities std seen rs = Inr () \<longleftrightarrow> (\<forall>x \<in> set rs. \<exists>i. root_identity std x = Inr i)
     \<and> distinct (List.map_filter (identity_of std) rs) \<and> set (List.map_filter (identity_of std) rs) \<inter> set seen = {}"
proof (induction rs arbitrary: seen)
  case (Cons x rs)
  show ?case
  proof (cases "root_identity std x")
    case (Inr i)
    show ?thesis
      by (cases i) (auto simp: Inr Cons identity_of_def List.map_filter_simps)
  qed simp
qed (simp add: List.map_filter_simps)

lemma market_roots_filter:
  "market_roots rs = List.map_filter (\<lambda>x. case x of MarketRoot e \<Rightarrow> Some e | _ \<Rightarrow> None) rs"
  by (induction rs rule: market_roots.induct) (simp_all add: List.map_filter_simps)

lemma mset_map_filter: "mset xs = mset ys \<Longrightarrow> mset (List.map_filter f xs) = mset (List.map_filter f ys)"
  by (simp add: List.map_filter_def mset_map [symmetric] mset_filter [symmetric] del: mset_map mset_filter)
    (metis mset_filter mset_map)

lemma validate_market_subset_iff: "validate_market_subset es = Inr () \<longleftrightarrow> batch_ok es"
  using validate_events_iff [of "[]" es] history_regress_iff [of es]
  by (auto simp: validate_market_subset_def validated_events_eq batch_ok_def fresh_keys_Nil)

definition plan_ok :: "stdlib \<Rightarrow> runtime_root list \<Rightarrow> bool" where
  "plan_ok std rs \<longleftrightarrow> rs \<noteq> [] \<and> batch_ok (market_roots rs)
     \<and> (\<forall>x \<in> set rs. \<exists>i. root_identity std x = Inr i) \<and> distinct (List.map_filter (identity_of std) rs)
     \<and> (\<forall>x \<in> set rs. \<exists>k. runtime_root_order_key std x = Inr k) \<and> distinct (map (key_of std) rs)"

lemma prepare_iff:
  "prepare_bounded_runtime_roots std rs = Inr plan \<longleftrightarrow> plan_ok std rs \<and> plan = sort_key (key_of std) rs"
  by (auto simp: prepare_bounded_runtime_roots_def plan_ok_def validate_market_subset_iff check_identities_iff
      keyed_roots_Inr_iff sort_key_map_fst comp_def)

lemma plan_ok_perm:
  assumes "mset rs = mset rs'"
  shows "plan_ok std rs \<longleftrightarrow> plan_ok std rs'"
proof -
  have "distinct (List.map_filter (identity_of std) rs) \<longleftrightarrow> distinct (List.map_filter (identity_of std) rs')"
    by (rule mset_eq_imp_distinct_iff) (rule mset_map_filter [OF assms])
  moreover have "distinct (map (key_of std) rs) \<longleftrightarrow> distinct (map (key_of std) rs')"
    by (rule distinct_map_perm [OF assms])
  moreover have "batch_ok (market_roots rs) \<longleftrightarrow> batch_ok (market_roots rs')"
    unfolding market_roots_filter by (rule batch_ok_perm) (rule mset_map_filter [OF assms])
  moreover have "rs = [] \<longleftrightarrow> rs' = []" using assms by auto
  ultimately show ?thesis by (simp add: plan_ok_def mset_eq_setD [OF assms])
qed

lemma plan_sorted:
  assumes "plan_ok std rs"
  shows "sorted_wrt (\<lambda>x y. key_of std x < key_of std y) (sort_key (key_of std) rs)"
proof -
  have "distinct (map (key_of std) (sort_key (key_of std) rs))"
    using assms distinct_map_perm [of "sort_key (key_of std) rs" rs "key_of std"] by (simp add: plan_ok_def)
  then have "sorted_wrt (<) (map (key_of std) (sort_key (key_of std) rs))"
    unfolding strict_sorted_iff by simp
  then show ?thesis unfolding sorted_wrt_map .
qed

section \<open>Properties\<close>

text \<open>C18: the plan of a run is canonical. A prepared plan holds exactly the supplied roots, strictly
  increasing in their order keys, so at one instant safety precedes facts, facts precede
  reconciliation, reconciliation precedes market data, timers follow and the end of the run
  comes last; and any rearrangement of the supplied roots prepares the same plan.\<close>

theorem plan_is_canonical:
  assumes "prepare_bounded_runtime_roots std rs = Inr plan"
  shows "mset plan = mset rs
    \<and> (\<forall>i j. i < j \<longrightarrow> j < length plan \<longrightarrow> (\<exists>t r s t' r' s'.
          runtime_root_order_key std (plan ! i) = Inr (t, r, s) \<and> runtime_root_order_key std (plan ! j) = Inr (t', r', s')
          \<and> order_key_less (t, r, s) (t', r', s') = Inr True \<and> (t < t' \<or> t = t' \<and> r \<le> r')))
    \<and> (\<forall>rs'. mset rs' = mset rs \<longrightarrow> prepare_bounded_runtime_roots std rs' = Inr plan)"
proof -
  have ok: "plan_ok std rs" and p: "plan = sort_key (key_of std) rs"
    using assms by (simp_all add: prepare_iff)
  have k: "\<exists>k. runtime_root_order_key std x = Inr k" if "x \<in> set plan" for x
    using ok that by (simp add: plan_ok_def p)
  have less: "\<exists>t r s t' r' s'. runtime_root_order_key std (plan ! i) = Inr (t, r, s)
        \<and> runtime_root_order_key std (plan ! j) = Inr (t', r', s')
        \<and> order_key_less (t, r, s) (t', r', s') = Inr True \<and> (t < t' \<or> t = t' \<and> r \<le> r')"
    if ij: "i < j" "j < length plan" for i j
  proof -
    obtain a b where a: "runtime_root_order_key std (plan ! i) = Inr a"
      and b: "runtime_root_order_key std (plan ! j) = Inr b"
      using k ij by (meson nth_mem less_trans)
    have "a < b"
      using sorted_wrt_nth_less [OF plan_sorted [OF ok, folded p] ij] a b by simp
    with order_key_less_root [OF a b] a b show ?thesis
      by (cases a; cases b) (auto simp: less_prod_def)
  qed
  have "prepare_bounded_runtime_roots std rs' = Inr plan" if m: "mset rs' = mset rs" for rs'
  proof -
    have "inj_on (key_of std) (set rs')"
      using ok mset_eq_setD [OF m] by (simp add: plan_ok_def distinct_map)
    then have "sort_key (key_of std) rs' = plan"
      unfolding p by (intro sort_key_inj_key_eq) (simp_all add: m)
    then show ?thesis using ok plan_ok_perm [OF m] by (simp add: prepare_iff)
  qed
  moreover have "mset plan = mset rs" by (simp add: p)
  ultimately show ?thesis using less by blast
qed

definition safety_example :: safety_root where
  "safety_example = \<lparr>sr_available_at = 0, sr_kind = HALT, sr_namespace = SourceNamespace ''s'',
     sr_sequence = 0, sr_subject = None\<rparr>"

definition end_example :: end_root where
  "end_example = \<lparr>er_available_at = 0, er_kind = REQUESTED_END, er_namespace = SourceNamespace ''s'',
     er_sequence = 0, er_run = RunId ''r''\<rparr>"

lemma prepare_example:
  "prepare_bounded_runtime_roots std_example [EndRoot end_example, SafetyRoot safety_example]
   = Inr [SafetyRoot safety_example, EndRoot end_example]"
  by (simp add: prepare_bounded_runtime_roots_def validate_market_subset_def validated_events_def root_identity_def
      runtime_root_order_key_def safety_example_def end_example_def)

theorem plan_is_canonical_witness:
  "prepare_bounded_runtime_roots std_example [SafetyRoot safety_example, EndRoot end_example]
   = Inr [SafetyRoot safety_example, EndRoot end_example]"
proof -
  have "mset [SafetyRoot safety_example, EndRoot end_example] = mset [EndRoot end_example, SafetyRoot safety_example]"
    by simp
  then show ?thesis using plan_is_canonical [OF prepare_example] by blast
qed

end
