(* ===== verification/Root_Queue.thy ===== *)
theory Root_Queue
  imports Runtime_Plan
begin

text \<open>
  \<open>ea.runtime.ingress\<close> and \<open>ea.runtime.queue\<close>: the source-bound register of
  issued ingress, and the queue that consumes a bounded plan with at most one
  live dispatch. A lease carries the allocation number of its object, so that
  equality of leases is the object identity the code compares with \<open>is\<close>.
\<close>

section \<open>The issuance register\<close>

record issued_record =
  is_ingress :: execution_fact_ingress
  is_ingress_bytes :: string
  is_fact_bytes :: string

record ingress_authority =
  ia_run :: run_id
  ia_specs :: spec_set
  ia_namespace :: source_namespace
  ia_index :: "ingress_identity \<rightharpoonup> issued_record"
  ia_issued :: "execution_fact_ingress list"

definition create_ingress_authority :: "run_id \<Rightarrow> spec_set \<Rightarrow> source_namespace \<Rightarrow> ingress_authority" where
  "create_ingress_authority r ss ns =
     \<lparr>ia_run = r, ia_specs = ss, ia_namespace = ns, ia_index = Map.empty, ia_issued = []\<rparr>"

definition canonical_execution_fact_ingress_bytes :: "stdlib \<Rightarrow> execution_fact_ingress \<Rightarrow> string" where
  "canonical_execution_fact_ingress_bytes std g = json_bytes (ingress_document std g)"

definition ingress_identity_of :: "execution_fact_ingress \<Rightarrow> ingress_identity result" where
  "ingress_identity_of g = make_ingress_identity (ig_namespace g) (ig_sequence g)"

text \<open>\<open>_raise_runtime\<close>: the validation errors that cross the boundary.\<close>

fun raise_runtime :: "exn \<Rightarrow> exn" where
  "raise_runtime (ExecutionIdentityError c) =
     RuntimeOrderingError (if c = INVALID_TYPE then INVALID_TYPE
       else if c = CONFLICTING_ID then CONFLICTING_ID else OUT_OF_RANGE)"
| "raise_runtime e = e"

definition preflight_ingress :: "stdlib \<Rightarrow> ingress_authority \<Rightarrow> ingress_identity \<Rightarrow> issued_record \<Rightarrow> bool" where
  "preflight_ingress std a i r \<longleftrightarrow> ia_index a i = Some r \<and> ia_issued a \<noteq> [] \<and> last (ia_issued a) = is_ingress r
     \<and> canonical_execution_fact_ingress_bytes std (is_ingress r) = is_ingress_bytes r
     \<and> canonical_execution_fact_bytes std (ig_fact (is_ingress r)) = is_fact_bytes r"

definition register_ingress ::
  "stdlib \<Rightarrow> ingress_authority \<Rightarrow> execution_fact_ingress \<Rightarrow> ingress_authority \<times> execution_fact_ingress result" where
  "register_ingress std a g =
     (if ig_namespace g \<noteq> ia_namespace a \<or> ef_namespace (ig_fact g) \<noteq> ia_namespace a
      then (a, Inl (RuntimeOrderingError CONFLICTING_ID))
      else if ig_available_at g < ef_occurred_at (ig_fact g) then (a, Inl (RuntimeOrderingError OUT_OF_RANGE))
      else let ingress_bytes = canonical_execution_fact_ingress_bytes std g;
               fact_bytes = canonical_execution_fact_bytes std (ig_fact g)
      in case ingress_identity_of g of
        Inl e \<Rightarrow> (a, Inl (raise_runtime e))
      | Inr i \<Rightarrow>
          (case ia_index a i of
             Some r \<Rightarrow>
               if is_ingress_bytes r = ingress_bytes \<and> is_fact_bytes r = fact_bytes then (a, Inr (is_ingress r))
               else (a, Inl (RuntimeOrderingError CONFLICTING_ID))
           | None \<Rightarrow>
               let r = \<lparr>is_ingress = g, is_ingress_bytes = ingress_bytes, is_fact_bytes = fact_bytes\<rparr>;
                   a' = a\<lparr>ia_index := (ia_index a)(i \<mapsto> r), ia_issued := ia_issued a @ [g]\<rparr>
               in if preflight_ingress std a' i r then (a', Inr g) else (a, Inl AssertionError)))"

definition has_issued_ingress :: "ingress_authority \<Rightarrow> ingress_identity \<Rightarrow> string \<Rightarrow> string \<Rightarrow> bool" where
  "has_issued_ingress a i ingress_bytes fact_bytes \<longleftrightarrow> (case ia_index a i of
      None \<Rightarrow> False
    | Some r \<Rightarrow> is_ingress_bytes r = ingress_bytes \<and> is_fact_bytes r = fact_bytes)"

section \<open>The queue\<close>

record dispatch_lease =
  le_root :: runtime_root
  le_sequence :: int
  le_object :: nat

record active_dispatch =
  ad_lease :: dispatch_lease
  ad_root :: runtime_root
  ad_sequence :: int
  ad_evidence :: "(ingress_identity \<times> string \<times> string) option"

record acknowledged_dispatch =
  ak_sequence :: int
  ak_identity :: ingress_identity
  ak_ingress_bytes :: string
  ak_fact_bytes :: string

record root_queue =
  qu_run :: run_id
  qu_specs :: spec_set
  qu_plan :: "runtime_root list"
  qu_sources :: "source_namespace list"
  qu_cursor :: nat
  qu_next :: "int option"
  qu_active :: "active_dispatch option"
  qu_history :: "acknowledged_dispatch list"

definition queue_remaining :: "root_queue \<Rightarrow> nat" where
  "queue_remaining q = length (qu_plan q) - qu_cursor q"

definition queue_current :: "root_queue \<Rightarrow> runtime_root result" where
  "queue_current q =
     (if length (qu_plan q) \<le> qu_cursor q then Inl (RuntimeOrderingError OUT_OF_RANGE)
      else Inr (qu_plan q ! qu_cursor q))"

definition advance_dispatch :: "int \<Rightarrow> int option result" where
  "advance_dispatch v =
     guard_res (\<not> (1 \<le> v \<and> v \<le> MAX_UINT64)) AssertionError
       (Inr (if v = MAX_UINT64 then None else Some (v + 1)))"

definition preflight_pop :: "root_queue \<Rightarrow> runtime_root \<Rightarrow> dispatch_lease \<Rightarrow> bool" where
  "preflight_pop q x l \<longleftrightarrow> (case qu_active q of None \<Rightarrow> False | Some d \<Rightarrow>
     ad_lease d = l \<and> ad_root d = x \<and> ad_sequence d = le_sequence l \<and> le_root l = x \<and> 1 \<le> le_sequence l)"

text \<open>The evidence of a fact root: its identity and canonical bytes, vouched for by its source.\<close>

definition issuance_evidence ::
  "stdlib \<Rightarrow> (source_namespace \<rightharpoonup> ingress_authority) \<Rightarrow> runtime_root
   \<Rightarrow> (ingress_identity \<times> string \<times> string) option result" where
  "issuance_evidence std verifiers x = (case x of
      FactRoot g \<Rightarrow>
        bind_res (ingress_identity_of g) (\<lambda>i.
        let ingress_bytes = canonical_execution_fact_ingress_bytes std g;
            fact_bytes = canonical_execution_fact_bytes std (ig_fact g)
        in (case verifiers (ig_namespace g) of
              None \<Rightarrow> Inl KeyError
            | Some a \<Rightarrow> guard_res (\<not> has_issued_ingress a i ingress_bytes fact_bytes)
                (RuntimeOrderingError CONFLICTING_ID) (Inr (Some (i, ingress_bytes, fact_bytes)))))
    | _ \<Rightarrow> Inr None)"

definition plan_pop ::
  "stdlib \<Rightarrow> (source_namespace \<rightharpoonup> ingress_authority) \<Rightarrow> nat \<Rightarrow> root_queue \<Rightarrow> (root_queue \<times> dispatch_lease) result" where
  "plan_pop std verifiers fresh q =
     guard_res (qu_active q \<noteq> None) (RuntimeOrderingError CONFLICTING_ID)
    (bind_res (queue_current q) (\<lambda>x.
     case qu_next q of
       None \<Rightarrow> Inl (RuntimeOrderingError OUT_OF_RANGE)
     | Some n \<Rightarrow>
         bind_res (issuance_evidence std verifiers x) (\<lambda>evidence.
         bind_res (advance_dispatch n) (\<lambda>next_sequence.
         let l = \<lparr>le_root = x, le_sequence = n, le_object = fresh\<rparr>;
             q' = q\<lparr>qu_cursor := qu_cursor q + 1, qu_next := next_sequence,
                    qu_active := Some \<lparr>ad_lease = l, ad_root = x, ad_sequence = n, ad_evidence = evidence\<rparr>\<rparr>
         in guard_res (\<not> preflight_pop q' x l) AssertionError (Inr (q', l))))))"

definition queue_pop ::
  "stdlib \<Rightarrow> (source_namespace \<rightharpoonup> ingress_authority) \<Rightarrow> nat \<Rightarrow> root_queue \<Rightarrow> root_queue \<times> dispatch_lease result" where
  "queue_pop std verifiers fresh q =
     (case plan_pop std verifiers fresh q of Inl e \<Rightarrow> (q, Inl e) | Inr (q', l) \<Rightarrow> (q', Inr l))"

definition queue_acknowledge :: "root_queue \<Rightarrow> dispatch_lease \<Rightarrow> root_queue \<times> unit result" where
  "queue_acknowledge q l = (case qu_active q of
      None \<Rightarrow> (q, Inl (RuntimeOrderingError CONFLICTING_ID))
    | Some d \<Rightarrow>
        if ad_lease d \<noteq> l then (q, Inl (RuntimeOrderingError CONFLICTING_ID))
        else let history = (case ad_evidence d of
                 None \<Rightarrow> qu_history q
               | Some (i, ingress_bytes, fact_bytes) \<Rightarrow> qu_history q @
                   [\<lparr>ak_sequence = ad_sequence d, ak_identity = i, ak_ingress_bytes = ingress_bytes,
                     ak_fact_bytes = fact_bytes\<rparr>])
             in if ad_evidence d \<noteq> None \<and> (history = [] \<or> ak_sequence (last history) \<noteq> ad_sequence d)
                then (q, Inl AssertionError)
                else (q\<lparr>qu_active := None, qu_history := history\<rparr>, Inr ()))"

definition resolve_active_dispatch ::
  "root_queue \<Rightarrow> ingress_identity \<Rightarrow> string \<Rightarrow> string \<Rightarrow> int option" where
  "resolve_active_dispatch q i ingress_bytes fact_bytes = (case qu_active q of
      None \<Rightarrow> None
    | Some d \<Rightarrow> if ad_evidence d = Some (i, ingress_bytes, fact_bytes) then Some (ad_sequence d) else None)"

text \<open>\<open>create_deterministic_root_queue\<close>: the verifiers, in the order of the tuple.\<close>

fun fact_sources :: "runtime_root list \<Rightarrow> source_namespace list" where
  "fact_sources [] = []"
| "fact_sources (FactRoot g # rs) = ig_namespace g # fact_sources rs"
| "fact_sources (_ # rs) = fact_sources rs"

fun bind_verifiers ::
  "stdlib \<Rightarrow> run_id \<Rightarrow> spec_set \<Rightarrow> source_namespace list \<Rightarrow> ingress_authority list \<Rightarrow> source_namespace list result" where
  "bind_verifiers std r ss seen [] = Inr seen"
| "bind_verifiers std r ss seen (a # verifiers) =
     guard_res (ia_run a \<noteq> r \<or> set_identifier (ia_specs a) \<noteq> set_identifier ss
         \<or> instrument_spec_set_digest (hexdigest std) (ia_specs a) \<noteq> instrument_spec_set_digest (hexdigest std) ss)
       (RuntimeOrderingError CONFLICTING_ID)
    (guard_res (ia_namespace a \<in> set seen) (RuntimeOrderingError CONFLICTING_ID)
       (bind_verifiers std r ss (seen @ [ia_namespace a]) verifiers))"

definition create_root_queue ::
  "stdlib \<Rightarrow> run_id \<Rightarrow> spec_set \<Rightarrow> runtime_root list \<Rightarrow> ingress_authority list \<Rightarrow> root_queue result" where
  "create_root_queue std r ss plan verifiers =
     bind_res (bind_verifiers std r ss [] verifiers) (\<lambda>seen.
     guard_res (map namespace_text seen \<noteq> sort (map namespace_text seen)) (RuntimeOrderingError CONFLICTING_ID)
    (guard_res (seen \<noteq> sort_key namespace_text (remdups (fact_sources plan))) (RuntimeOrderingError CONFLICTING_ID)
      (Inr \<lparr>qu_run = r, qu_specs = ss, qu_plan = plan, qu_sources = seen, qu_cursor = 0, qu_next = Some 1,
            qu_active = None, qu_history = []\<rparr>)))"

end
