(* ===== verification/Queue_Runs.thy ===== *)
theory Queue_Runs
  imports Root_Queue Authority
begin

text \<open>
  The queue and the issuance registers of its sources running together, as a
  labelled step relation. A run dispatches the plan front to back, one live
  dispatch at a time, numbered from one, and no fact that its source did not
  issue.
\<close>

section \<open>The issuance register as an authority\<close>

lemma register_cases:
  obtains (kept) "fst (register_ingress std a g) = a"
  | (issued) i r where "ingress_identity_of g = Inr i" "ia_index a i = None"
      "fst (register_ingress std a g) = a\<lparr>ia_index := (ia_index a)(i \<mapsto> r), ia_issued := ia_issued a @ [g]\<rparr>"
      "snd (register_ingress std a g) = Inr g"
      "r = \<lparr>is_ingress = g, is_ingress_bytes = canonical_execution_fact_ingress_bytes std g,
         is_fact_bytes = canonical_execution_fact_bytes std (ig_fact g)\<rparr>"
proof (cases "fst (register_ingress std a g) = a")
  case True
  then show thesis by (rule kept)
next
  case False
  then have "\<exists>i. ingress_identity_of g = Inr i \<and> ia_index a i = None \<and> register_ingress std a g
      = (a\<lparr>ia_index := (ia_index a)(i \<mapsto> \<lparr>is_ingress = g, is_ingress_bytes = canonical_execution_fact_ingress_bytes std g,
         is_fact_bytes = canonical_execution_fact_bytes std (ig_fact g)\<rparr>), ia_issued := ia_issued a @ [g]\<rparr>, Inr g)"
    by (simp add: register_ingress_def Let_def split: if_splits sum.splits option.splits)
  then show thesis using issued by auto
qed

definition index_sound :: "stdlib \<Rightarrow> ingress_authority \<Rightarrow> bool" where
  "index_sound std a \<longleftrightarrow> (\<forall>i r. ia_index a i = Some r \<longrightarrow> ingress_identity_of (is_ingress r) = Inr i
     \<and> is_ingress r \<in> set (ia_issued a)
     \<and> is_ingress_bytes r = canonical_execution_fact_ingress_bytes std (is_ingress r)
     \<and> is_fact_bytes r = canonical_execution_fact_bytes std (ig_fact (is_ingress r)))"

text \<open>An ingress is settled when its identity is occupied, by itself or by another.\<close>

definition occupied :: "ingress_authority \<Rightarrow> execution_fact_ingress \<Rightarrow> bool" where
  "occupied a g \<longleftrightarrow> (case ingress_identity_of g of Inl e \<Rightarrow> False | Inr i \<Rightarrow> ia_index a i \<noteq> None)"

lemma occupied_idle: "occupied a g \<Longrightarrow> fst (register_ingress std a g) = a"
  by (rule register_cases [of std a g]) (auto simp: occupied_def)

lemma occupied_answer:
  assumes "occupied a g" "ia_namespace a' = ia_namespace a"
    "\<And>i. ingress_identity_of g = Inr i \<Longrightarrow> ia_index a' i = ia_index a i"
  shows "snd (register_ingress std a' g) = snd (register_ingress std a g)"
  using assms by (auto simp: occupied_def register_ingress_def Let_def split: sum.splits option.splits)

lemma register_keeps:
  "ia_namespace (fst (register_ingress std a g)) = ia_namespace a"
  "ia_index a i = Some r \<Longrightarrow> ia_index (fst (register_ingress std a g)) i = Some r"
  by (rule register_cases [of std a g]; auto)+

lemma register_again:
  assumes "register_ingress std a g = (a', Inr h)"
  shows "register_ingress std a' g = (a', Inr h)"
proof (rule register_cases [of std a g])
  fix i r
  assume i: "ingress_identity_of g = Inr i" "ia_index a i = None"
    "fst (register_ingress std a g) = a\<lparr>ia_index := (ia_index a)(i \<mapsto> r), ia_issued := ia_issued a @ [g]\<rparr>"
    "snd (register_ingress std a g) = Inr g"
    "r = \<lparr>is_ingress = g, is_ingress_bytes = canonical_execution_fact_ingress_bytes std g,
         is_fact_bytes = canonical_execution_fact_bytes std (ig_fact g)\<rparr>"
  have "\<not> (ig_namespace g \<noteq> ia_namespace a \<or> ef_namespace (ig_fact g) \<noteq> ia_namespace a)"
    "\<not> ig_available_at g < ef_occurred_at (ig_fact g)"
    using assms by (simp_all add: register_ingress_def Let_def split: if_splits)
  then show ?thesis using i assms by (simp add: register_ingress_def Let_def)
qed (use assms in simp)

interpretation ingress: retaining_authority "\<lambda>a g. fst (register_ingress std a g)" "index_sound std" occupied
    "\<lambda>a g. snd (register_ingress std a g)" for std
proof
  fix a g h
  show "index_sound std (fst (register_ingress std a g))" if "index_sound std a"
    using that by (rule_tac register_cases [of std a g]) (auto simp: index_sound_def)
  show "occupied (fst (register_ingress std a g)) g" if "fst (register_ingress std a g) \<noteq> a"
    by (rule register_cases [of std a g]) (use that in \<open>auto simp: occupied_def\<close>)
  show "occupied (fst (register_ingress std a h)) g" if "occupied a g"
    using that register_keeps(2) [of a _ _ std h] by (fastforce simp: occupied_def split: sum.splits)
  show "fst (register_ingress std a g) = a" if "occupied a g" using that by (rule occupied_idle)
  show "snd (register_ingress std (fst (register_ingress std a h)) g) = snd (register_ingress std a g)"
    if "occupied a g"
  proof (rule occupied_answer [OF that register_keeps(1)])
    fix i assume "ingress_identity_of g = Inr i"
    with that obtain r where "ia_index a i = Some r" by (auto simp: occupied_def)
    then show "ia_index (fst (register_ingress std a h)) i = ia_index a i" using register_keeps(2) by simp
  qed
qed

section \<open>The running system\<close>

record runtime_system =
  sy_queue :: root_queue
  sy_registers :: "source_namespace \<rightharpoonup> ingress_authority"
  sy_objects :: nat

datatype runtime_label =
    Registered source_namespace execution_fact_ingress
  | Dispatched dispatch_lease
  | Acknowledged dispatch_lease

inductive runtime_step :: "stdlib \<Rightarrow> runtime_system \<Rightarrow> runtime_label \<Rightarrow> runtime_system \<Rightarrow> bool" for std where
  step_register: "sy_registers s ns = Some a \<Longrightarrow> register_ingress std a g = (a', Inr g')
    \<Longrightarrow> runtime_step std s (Registered ns g) (s\<lparr>sy_registers := (sy_registers s)(ns \<mapsto> a')\<rparr>)"
| step_dispatch: "queue_pop std (sy_registers s) (sy_objects s) (sy_queue s) = (q', Inr l)
    \<Longrightarrow> runtime_step std s (Dispatched l) (s\<lparr>sy_queue := q', sy_objects := sy_objects s + 1\<rparr>)"
| step_acknowledge: "queue_acknowledge (sy_queue s) l = (q', Inr ())
    \<Longrightarrow> runtime_step std s (Acknowledged l) (s\<lparr>sy_queue := q'\<rparr>)"

inductive_cases runtime_stepE: "runtime_step std s x s'"

inductive runtime_run :: "stdlib \<Rightarrow> runtime_system \<Rightarrow> runtime_label list \<Rightarrow> runtime_system \<Rightarrow> bool" for std s0 where
  run_start: "runtime_run std s0 [] s0"
| run_step: "runtime_run std s0 xs s \<Longrightarrow> runtime_step std s x s' \<Longrightarrow> runtime_run std s0 (xs @ [x]) s'"

definition dispatched :: "runtime_label list \<Rightarrow> dispatch_lease list" where
  "dispatched = List.map_filter (\<lambda>x. case x of Dispatched l \<Rightarrow> Some l | _ \<Rightarrow> None)"

definition acknowledged :: "runtime_label list \<Rightarrow> dispatch_lease list" where
  "acknowledged = List.map_filter (\<lambda>x. case x of Acknowledged l \<Rightarrow> Some l | _ \<Rightarrow> None)"

lemma map_filter_append: "List.map_filter f (xs @ ys) = List.map_filter f xs @ List.map_filter f ys"
  by (simp add: List.map_filter_def)

lemma labels_simps [simp]:
  "dispatched [] = []" "acknowledged [] = []"
  "dispatched (xs @ [Dispatched l]) = dispatched xs @ [l]" "dispatched (xs @ [Acknowledged l]) = dispatched xs"
  "dispatched (xs @ [Registered ns g]) = dispatched xs" "acknowledged (xs @ [Dispatched l]) = acknowledged xs"
  "acknowledged (xs @ [Acknowledged l]) = acknowledged xs @ [l]" "acknowledged (xs @ [Registered ns g]) = acknowledged xs"
  by (simp_all add: dispatched_def acknowledged_def map_filter_append List.map_filter_simps)

text \<open>A fact is issued when the register of its source vouches for its exact bytes.\<close>

definition vouched :: "stdlib \<Rightarrow> (source_namespace \<rightharpoonup> ingress_authority) \<Rightarrow> execution_fact_ingress \<Rightarrow> bool" where
  "vouched std registers g \<longleftrightarrow> (case (registers (ig_namespace g), ingress_identity_of g) of
      (Some a, Inr i) \<Rightarrow> has_issued_ingress a i (canonical_execution_fact_ingress_bytes std g)
        (canonical_execution_fact_bytes std (ig_fact g))
    | _ \<Rightarrow> False)"

lemma vouched_kept:
  assumes "vouched std registers g" "registers ns = Some a" "register_ingress std a h = (a', r)"
  shows "vouched std (registers(ns \<mapsto> a')) g"
proof (cases "ig_namespace g = ns")
  case True
  with assms(1,2) obtain i x where i: "ingress_identity_of g = Inr i" "ia_index a i = Some x"
    "is_ingress_bytes x = canonical_execution_fact_ingress_bytes std g"
    "is_fact_bytes x = canonical_execution_fact_bytes std (ig_fact g)"
    by (auto simp: vouched_def has_issued_ingress_def split: sum.splits option.splits)
  have "ia_index a' i = Some x" using register_keeps(2) [OF i(2), of std h] assms(3) by simp
  with i True show ?thesis by (simp add: vouched_def has_issued_ingress_def)
qed (use assms(1) in \<open>simp add: vouched_def\<close>)

section \<open>One operation of the queue\<close>

definition is_fact :: "runtime_root \<Rightarrow> bool" where
  "is_fact x \<longleftrightarrow> (case x of FactRoot g \<Rightarrow> True | _ \<Rightarrow> False)"

lemma pop_Inr:
  assumes "queue_pop std registers fresh q = (q', Inr l)"
  obtains n ev where "qu_active q = None" "qu_cursor q < length (qu_plan q)" "qu_next q = Some n" "1 \<le> n" "n \<le> MAX_UINT64"
    "l = \<lparr>le_root = qu_plan q ! qu_cursor q, le_sequence = n, le_object = fresh\<rparr>"
    "q' = q\<lparr>qu_cursor := qu_cursor q + 1, qu_next := (if n = MAX_UINT64 then None else Some (n + 1)),
        qu_active := Some \<lparr>ad_lease = l, ad_root = qu_plan q ! qu_cursor q, ad_sequence = n, ad_evidence = ev\<rparr>\<rparr>"
    "ev \<noteq> None \<longleftrightarrow> is_fact (qu_plan q ! qu_cursor q)"
    "\<And>g. qu_plan q ! qu_cursor q = FactRoot g \<Longrightarrow> vouched std registers g"
proof -
  have p: "plan_pop std registers fresh q = Inr (q', l)"
    using assms by (auto simp: queue_pop_def split: sum.splits)
  obtain n where n: "qu_next q = Some n"
    using p by (cases "qu_next q") (auto simp: plan_pop_def guard_res_def bind_res_def split: sum.splits if_splits)
  from p n obtain x ev where q: "qu_active q = None" "queue_current q = Inr x" "issuance_evidence std registers x = Inr ev"
    and k: "bind_res (advance_dispatch n) (\<lambda>next_sequence.
         let l = \<lparr>le_root = x, le_sequence = n, le_object = fresh\<rparr>;
             q' = q\<lparr>qu_cursor := qu_cursor q + 1, qu_next := next_sequence,
                    qu_active := Some \<lparr>ad_lease = l, ad_root = x, ad_sequence = n, ad_evidence = ev\<rparr>\<rparr>
         in guard_res (\<not> preflight_pop q' x l) AssertionError (Inr (q', l))) = Inr (q', l)"
    unfolding plan_pop_def guard_res_def
    by (cases "queue_current q"; cases "issuance_evidence std registers (qu_plan q ! qu_cursor q)")
      (auto simp: bind_res_def guard_res_def split: sum.splits if_splits)
  have c: "qu_cursor q < length (qu_plan q)" "x = qu_plan q ! qu_cursor q"
    using q(2) by (auto simp: queue_current_def split: if_splits)
  have v: "vouched std registers g" if "x = FactRoot g" for g
    using q(3) that by (auto simp: issuance_evidence_def vouched_def Let_def split: option.splits)
  have f: "ev \<noteq> None \<longleftrightarrow> is_fact x"
    using q(3) by (auto simp: issuance_evidence_def is_fact_def Let_def split: option.splits runtime_root.splits)
  show thesis
    by (rule that [OF q(1) c(1) n]) (use k v f c(2) in \<open>auto simp: advance_dispatch_def Let_def\<close>)
qed

lemma pop_progress:
  assumes "qu_active q = None" "qu_cursor q < length (qu_plan q)" "qu_next q = Some n" "1 \<le> n" "n \<le> MAX_UINT64"
    "\<And>g. qu_plan q ! qu_cursor q = FactRoot g \<Longrightarrow> vouched std registers g"
  shows "\<exists>q' l. queue_pop std registers fresh q = (q', Inr l)"
proof -
  have "\<exists>ev. issuance_evidence std registers (qu_plan q ! qu_cursor q) = Inr ev"
    using assms(6)
    by (cases "qu_plan q ! qu_cursor q")
      (auto simp: issuance_evidence_def vouched_def Let_def split: option.splits sum.splits)
  then obtain ev where "issuance_evidence std registers (qu_plan q ! qu_cursor q) = Inr ev" ..
  then show ?thesis
    using assms(1-5)
    by (auto simp: queue_pop_def plan_pop_def queue_current_def advance_dispatch_def preflight_pop_def Let_def
        guard_res_def bind_res_def)
qed

lemma acknowledge_Inr:
  assumes "queue_acknowledge q l = (q', Inr u)"
  obtains d where "qu_active q = Some d" "ad_lease d = l" "qu_active q' = None" "qu_plan q' = qu_plan q"
    "qu_cursor q' = qu_cursor q" "qu_next q' = qu_next q"
    "map ak_sequence (qu_history q') =
       map ak_sequence (qu_history q) @ (if ad_evidence d = None then [] else [ad_sequence d])"
  using assms by (auto simp: queue_acknowledge_def Let_def split: option.splits if_splits)

lemma acknowledge_progress:
  assumes "qu_active q = Some d"
  shows "\<exists>q'. queue_acknowledge q (ad_lease d) = (q', Inr ())"
  using assms by (auto simp: queue_acknowledge_def Let_def split: option.splits prod.splits)

section \<open>The invariant of a run\<close>

definition run_sound :: "stdlib \<Rightarrow> runtime_root list \<Rightarrow> runtime_label list \<Rightarrow> runtime_system \<Rightarrow> bool" where
  "run_sound std plan xs s \<longleftrightarrow> (let q = sy_queue s; ls = dispatched xs; n = length ls in
     qu_plan q = plan \<and> qu_cursor q = n \<and> n \<le> length plan \<and> int n \<le> MAX_UINT64
     \<and> qu_next q = (if int n = MAX_UINT64 then None else Some (int n + 1))
     \<and> map le_root ls = take n plan \<and> map le_sequence ls = map int [1..<Suc n]
     \<and> map ak_sequence (qu_history q) = map le_sequence (filter (is_fact \<circ> le_root) (acknowledged xs))
     \<and> (case qu_active q of None \<Rightarrow> ls = acknowledged xs
        | Some d \<Rightarrow> ls = acknowledged xs @ [ad_lease d] \<and> ad_sequence d = le_sequence (ad_lease d)
            \<and> (ad_evidence d \<noteq> None \<longleftrightarrow> is_fact (le_root (ad_lease d))))
     \<and> (\<forall>l g. l \<in> set ls \<and> le_root l = FactRoot g \<longrightarrow> vouched std (sy_registers s) g))"

lemma create_queue_start:
  assumes "create_root_queue std r ss plan verifiers = Inr q"
  shows "qu_plan q = plan" "qu_cursor q = 0" "qu_next q = Some 1" "qu_active q = None" "qu_history q = []"
  using assms by (auto simp: create_root_queue_def)

lemma run_sound_start:
  assumes "create_root_queue std r ss plan verifiers = Inr q" "sy_queue s = q"
  shows "run_sound std plan [] s"
  using create_queue_start [OF assms(1)] assms(2) by (simp add: run_sound_def MAX_UINT64_def)

lemma run_sound_dispatch:
  assumes "run_sound std plan xs s" "queue_pop std (sy_registers s) fresh (sy_queue s) = (q', Inr l)"
  shows "run_sound std plan (xs @ [Dispatched l]) (s\<lparr>sy_queue := q', sy_objects := k\<rparr>)"
  using assms(2)
proof (rule pop_Inr)
  fix n ev
  assume p: "qu_active (sy_queue s) = None" "qu_cursor (sy_queue s) < length (qu_plan (sy_queue s))"
    "qu_next (sy_queue s) = Some n" "1 \<le> n" "n \<le> MAX_UINT64"
    "l = \<lparr>le_root = qu_plan (sy_queue s) ! qu_cursor (sy_queue s), le_sequence = n, le_object = fresh\<rparr>"
    "q' = (sy_queue s)\<lparr>qu_cursor := qu_cursor (sy_queue s) + 1, qu_next := (if n = MAX_UINT64 then None else Some (n + 1)),
        qu_active := Some \<lparr>ad_lease = l, ad_root = qu_plan (sy_queue s) ! qu_cursor (sy_queue s), ad_sequence = n, ad_evidence = ev\<rparr>\<rparr>"
    "ev \<noteq> None \<longleftrightarrow> is_fact (qu_plan (sy_queue s) ! qu_cursor (sy_queue s))"
    and v: "\<And>g. qu_plan (sy_queue s) ! qu_cursor (sy_queue s) = FactRoot g \<Longrightarrow> vouched std (sy_registers s) g"
  have n: "n = int (length (dispatched xs)) + 1"
    using assms(1) p(3) by (auto simp: run_sound_def Let_def split: if_splits)
  show ?thesis
    using assms(1) p v unfolding run_sound_def Let_def n
    by (auto simp: take_Suc_conv_app_nth upt_Suc)
qed

lemma run_sound_acknowledge:
  assumes "run_sound std plan xs s" "queue_acknowledge (sy_queue s) l = (q', Inr u)"
  shows "run_sound std plan (xs @ [Acknowledged l]) (s\<lparr>sy_queue := q'\<rparr>)"
  using assms(2)
  by (rule acknowledge_Inr) (use assms(1) in \<open>auto simp: run_sound_def Let_def\<close>)

lemma run_sound_step:
  assumes "run_sound std plan xs s" "runtime_step std s x s'"
  shows "run_sound std plan (xs @ [x]) s'"
  using assms(2)
proof (cases rule: runtime_step.cases)
  case (step_register ns a g a' g')
  have "vouched std (sy_registers s') h" if "vouched std (sy_registers s) h" for h
    using vouched_kept [OF that, of ns a g a'] step_register by simp
  then show ?thesis using assms(1) step_register
    by (auto simp: run_sound_def Let_def split: option.splits)
next
  case step_dispatch
  then show ?thesis using run_sound_dispatch [OF assms(1)] by simp
next
  case step_acknowledge
  then show ?thesis using run_sound_acknowledge [OF assms(1)] by simp
qed

lemma run_sound_run: "runtime_run std s0 xs s \<Longrightarrow> run_sound std plan [] s0 \<Longrightarrow> run_sound std plan xs s"
  by (induction rule: runtime_run.induct) (auto intro: run_sound_step)

section \<open>Progress of a run\<close>

lemma run_trans: "runtime_run std s1 ys s2 \<Longrightarrow> runtime_run std s0 xs s1 \<Longrightarrow> runtime_run std s0 (xs @ ys) s2"
  by (induction rule: runtime_run.induct) (auto simp flip: append_assoc intro: run_step)

lemma run_one: "runtime_step std s x s' \<Longrightarrow> runtime_run std s [x] s'"
  using run_step [OF run_start] by fastforce

text \<open>What is left to do: two operations per root still to dispatch, one for a live dispatch.\<close>

definition pending :: "root_queue \<Rightarrow> nat" where
  "pending q = 2 * queue_remaining q + (if qu_active q = None then 0 else 1)"

text \<open>A live dispatch has already taken its root off the plan.\<close>

lemma pending_bound:
  assumes "run_sound std plan xs s" shows "pending (sy_queue s) \<le> 2 * length plan"
proof (cases "qu_active (sy_queue s)")
  case None
  then show ?thesis using assms by (simp add: pending_def queue_remaining_def run_sound_def Let_def)
next
  case (Some d)
  then have "dispatched xs = acknowledged xs @ [ad_lease d]" using assms by (simp add: run_sound_def Let_def)
  then have "0 < length (dispatched xs)" by simp
  with Some show ?thesis using assms by (auto simp: pending_def queue_remaining_def run_sound_def Let_def)
qed

lemma run_progress:
  assumes "run_sound std plan xs s" "int (length plan) \<le> MAX_UINT64" "pending (sy_queue s) \<noteq> 0"
    "\<forall>g. FactRoot g \<in> set plan \<longrightarrow> vouched std (sy_registers s) g"
  obtains x s' where "runtime_step std s x s'" "sy_registers s' = sy_registers s"
    "pending (sy_queue s') < pending (sy_queue s)"
proof (cases "qu_active (sy_queue s)")
  case None
  let ?q = "sy_queue s" and ?n = "length (dispatched xs)"
  have r: "qu_plan ?q = plan" "qu_cursor ?q = ?n" "?n < length plan"
    using assms(1,3) None by (auto simp: run_sound_def Let_def pending_def queue_remaining_def)
  then have "qu_next ?q = Some (int ?n + 1)" using assms(1,2) by (auto simp: run_sound_def Let_def)
  moreover have "vouched std (sy_registers s) g" if "qu_plan ?q ! qu_cursor ?q = FactRoot g" for g
    using assms(4) that r nth_mem [of ?n plan] by auto
  ultimately obtain q' l where q: "queue_pop std (sy_registers s) (sy_objects s) ?q = (q', Inr l)"
    using pop_progress [of ?q "int ?n + 1" std "sy_registers s" "sy_objects s"] None r assms(2) by auto
  moreover have "pending q' < pending ?q"
    using q by (rule pop_Inr) (auto simp: pending_def queue_remaining_def)
  ultimately show thesis using that [OF step_dispatch [OF q]] by simp
next
  case (Some d)
  then obtain q' where q: "queue_acknowledge (sy_queue s) (ad_lease d) = (q', Inr ())"
    using acknowledge_progress by blast
  have "pending q' < pending (sy_queue s)"
    using q by (rule acknowledge_Inr) (auto simp: pending_def queue_remaining_def)
  then show thesis using that [OF step_acknowledge [OF q]] by simp
qed

lemma run_drains:
  assumes "run_sound std plan xs s" "int (length plan) \<le> MAX_UINT64"
    "\<forall>g. FactRoot g \<in> set plan \<longrightarrow> vouched std (sy_registers s) g"
  shows "\<exists>ys s'. runtime_run std s ys s' \<and> length ys \<le> pending (sy_queue s) \<and> run_sound std plan (xs @ ys) s'
    \<and> pending (sy_queue s') = 0"
  using assms
proof (induction "pending (sy_queue s)" arbitrary: xs s rule: less_induct)
  case less
  show ?case
  proof (cases "pending (sy_queue s) = 0")
    case True
    then show ?thesis using less.prems run_start [of std s] by fastforce
  next
    case False
    then obtain x s1 where x: "runtime_step std s x s1" "sy_registers s1 = sy_registers s"
      "pending (sy_queue s1) < pending (sy_queue s)"
      using run_progress [OF less.prems(1,2) _ less.prems(3)] by blast
    with less.prems less.hyps [of s1 "xs @ [x]"] run_sound_step [OF less.prems(1) x(1)]
    obtain ys s' where "runtime_run std s1 ys s'" "length ys \<le> pending (sy_queue s1)"
      "run_sound std plan ((xs @ [x]) @ ys) s'" "pending (sy_queue s') = 0"
      by auto
    then show ?thesis using run_trans [OF _ run_one [OF x(1)], of ys s'] x(3)
      by (intro exI [of _ "x # ys"] exI [of _ s']) auto
  qed
qed

section \<open>Properties\<close>

definition started :: "root_queue \<Rightarrow> (source_namespace \<rightharpoonup> ingress_authority) \<Rightarrow> runtime_system" where
  "started q registers = \<lparr>sy_queue = q, sy_registers = registers, sy_objects = 0\<rparr>"

text \<open>C19: a run dispatches its plan. Whatever interleaving of registrations, dispatches and
  acknowledgements has happened since the queue was created, the dispatched roots are the
  first roots of the plan in order, their sequences count from one, every dispatch but a live
  one was acknowledged in the same order, the audit history holds exactly the acknowledged
  facts, and no fact was dispatched that its source did not vouch for byte by byte.\<close>

theorem dispatch_follows_plan:
  assumes "create_root_queue std r ss plan verifiers = Inr q"
    "runtime_run std (started q registers) xs s"
  shows "map le_root (dispatched xs) = take (length (dispatched xs)) plan
    \<and> map le_sequence (dispatched xs) = map int [1..<Suc (length (dispatched xs))]
    \<and> (case qu_active (sy_queue s) of None \<Rightarrow> acknowledged xs = dispatched xs
       | Some d \<Rightarrow> acknowledged xs @ [ad_lease d] = dispatched xs)
    \<and> map ak_sequence (qu_history (sy_queue s)) = map le_sequence (filter (is_fact \<circ> le_root) (acknowledged xs))
    \<and> (\<forall>l g. l \<in> set (dispatched xs) \<and> le_root l = FactRoot g \<longrightarrow> vouched std (sy_registers s) g)"
proof -
  have "run_sound std plan xs s"
    using run_sound_run [OF assms(2) run_sound_start [OF assms(1)]] by (simp add: started_def)
  then show ?thesis by (auto simp: run_sound_def Let_def split: option.splits)
qed

definition queue_example :: root_queue where
  "queue_example = \<lparr>qu_run = RunId ''r'', qu_specs = \<lparr>set_identifier = InstrumentSpecSetId ''s'', specifications = []\<rparr>,
     qu_plan = [SafetyRoot safety_example, EndRoot end_example], qu_sources = [], qu_cursor = 0, qu_next = Some 1,
     qu_active = None, qu_history = []\<rparr>"

lemma create_queue_example:
  "create_root_queue std_example (RunId ''r'') \<lparr>set_identifier = InstrumentSpecSetId ''s'', specifications = []\<rparr>
     [SafetyRoot safety_example, EndRoot end_example] [] = Inr queue_example"
  by (simp add: create_root_queue_def queue_example_def)

definition lease_example :: dispatch_lease where
  "lease_example = \<lparr>le_root = SafetyRoot safety_example, le_sequence = 1, le_object = 0\<rparr>"

definition live_example :: root_queue where
  "live_example = queue_example\<lparr>qu_cursor := 1, qu_next := Some 2, qu_active := Some
     \<lparr>ad_lease = lease_example, ad_root = SafetyRoot safety_example, ad_sequence = 1, ad_evidence = None\<rparr>\<rparr>"

lemma run_example:
  "runtime_run std_example (started queue_example Map.empty) [Dispatched lease_example]
     ((started queue_example Map.empty)\<lparr>sy_queue := live_example, sy_objects := 1\<rparr>)"
proof -
  have "queue_pop std_example Map.empty 0 queue_example = (live_example, Inr lease_example)"
    by (simp add: queue_pop_def plan_pop_def queue_example_def live_example_def lease_example_def queue_current_def
        issuance_evidence_def advance_dispatch_def preflight_pop_def MAX_UINT64_def Let_def)
  then have "runtime_step std_example (started queue_example Map.empty) (Dispatched lease_example)
     ((started queue_example Map.empty)\<lparr>sy_queue := live_example, sy_objects := sy_objects (started queue_example Map.empty) + 1\<rparr>)"
    by (intro step_dispatch) (simp add: started_def)
  then show ?thesis using run_one by (simp add: started_def)
qed

theorem dispatch_follows_plan_witness:
  "\<exists>s. runtime_run std_example (started queue_example Map.empty) [Dispatched lease_example] s
     \<and> map le_root (dispatched [Dispatched lease_example]) = [SafetyRoot safety_example]
     \<and> map le_sequence (dispatched [Dispatched lease_example]) = [1]
     \<and> (\<exists>d. qu_active (sy_queue s) = Some d \<and> ad_lease d = lease_example)"
proof -
  have "qu_active (sy_queue ((started queue_example Map.empty)\<lparr>sy_queue := live_example, sy_objects := 1\<rparr>)) \<noteq> None"
    by (simp add: live_example_def)
  with dispatch_follows_plan [OF create_queue_example run_example] run_example show ?thesis
    by (fastforce simp: dispatched_def acknowledged_def List.map_filter_simps split: option.splits)
qed

text \<open>C20: a run can always be finished. From every reachable state in which the facts of the plan
  have been issued, and for every plan that the sequence numbers can count, at most two more
  operations per root bring the queue to the point where the whole plan was dispatched in
  order, every dispatch was acknowledged and nothing is live.\<close>

theorem queue_drains:
  assumes "create_root_queue std r ss plan verifiers = Inr q"
    "runtime_run std (started q registers) xs s"
    "int (length plan) \<le> MAX_UINT64"
    "\<forall>g. FactRoot g \<in> set plan \<longrightarrow> vouched std (sy_registers s) g"
  shows "\<exists>ys s'. runtime_run std s ys s' \<and> length ys \<le> 2 * length plan
    \<and> map le_root (dispatched (xs @ ys)) = plan \<and> acknowledged (xs @ ys) = dispatched (xs @ ys)
    \<and> qu_active (sy_queue s') = None \<and> queue_remaining (sy_queue s') = 0"
proof -
  have "run_sound std plan xs s"
    using run_sound_run [OF assms(2) run_sound_start [OF assms(1)]] by (simp add: started_def)
  from run_drains [OF this assms(3,4)] obtain ys s' where r: "runtime_run std s ys s'"
    "length ys \<le> pending (sy_queue s)" "run_sound std plan (xs @ ys) s'" "pending (sy_queue s') = 0"
    by blast
  have "qu_active (sy_queue s') = None" "queue_remaining (sy_queue s') = 0"
    using r(4) by (simp_all add: pending_def split: if_splits)
  moreover have "length ys \<le> 2 * length plan"
    using r(2) pending_bound [OF \<open>run_sound std plan xs s\<close>] by simp
  ultimately show ?thesis using r(1,3)
    by (intro exI [of _ ys] exI [of _ s']) (auto simp: run_sound_def Let_def queue_remaining_def)
qed

theorem queue_drains_witness:
  "\<exists>s ys s'. runtime_run std_example (started queue_example Map.empty) [Dispatched lease_example] s
     \<and> runtime_run std_example s ys s' \<and> length ys \<le> 4
     \<and> map le_root (dispatched (Dispatched lease_example # ys)) = [SafetyRoot safety_example, EndRoot end_example]
     \<and> qu_active (sy_queue s') = None \<and> queue_remaining (sy_queue s') = 0"
proof -
  let ?s = "(started queue_example Map.empty)\<lparr>sy_queue := live_example, sy_objects := 1\<rparr>"
  have l: "int (length [SafetyRoot safety_example, EndRoot end_example]) \<le> MAX_UINT64"
    by (simp add: MAX_UINT64_def)
  have v: "\<forall>g. FactRoot g \<in> set [SafetyRoot safety_example, EndRoot end_example]
      \<longrightarrow> vouched std_example (sy_registers ?s) g"
    by simp
  from queue_drains [OF create_queue_example run_example l v]
  obtain ys s' where "runtime_run std_example ?s ys s'" "length ys \<le> 4"
    "map le_root (dispatched (Dispatched lease_example # ys)) = [SafetyRoot safety_example, EndRoot end_example]"
    "qu_active (sy_queue s') = None" "queue_remaining (sy_queue s') = 0"
    by auto
  then show ?thesis using run_example by (intro exI [of _ ?s] exI [of _ ys] exI [of _ s']) simp
qed

definition register_all :: "stdlib \<Rightarrow> ingress_authority \<Rightarrow> execution_fact_ingress list \<Rightarrow> ingress_authority" where
  "register_all std a gs = foldl (\<lambda>a g. fst (register_ingress std a g)) a gs"

lemma register_all_run: "register_all std a gs = ingress.run std a gs"
  by (simp add: register_all_def ingress.run_def)

lemma register_all_sound: "index_sound std (register_all std (create_ingress_authority r ss ns) gs)"
  unfolding register_all_run
  by (rule ingress.run_inv) (simp add: index_sound_def create_ingress_authority_def)

text \<open>An issued ingress is issued for ever. Once a source has accepted an ingress, and after any
  further submissions, submitting it again changes nothing and is answered as before, and it
  is still vouched for with exactly its bytes; any other bytes under its identity are refused.\<close>

theorem issued_for_ever:
  assumes "a = register_all std (create_ingress_authority r ss ns) gs" "register_ingress std a g = (a', Inr h)"
    "b = register_all std a' ks"
  shows "register_ingress std b g = (b, Inr h)
    \<and> (\<exists>i. ingress_identity_of g = Inr i
        \<and> (\<forall>x y. has_issued_ingress b i x y \<longleftrightarrow> x = canonical_execution_fact_ingress_bytes std g
            \<and> y = canonical_execution_fact_bytes std (ig_fact g)))"
proof -
  obtain i x where i: "ingress_identity_of g = Inr i" "ia_index a' i = Some x"
    "is_ingress_bytes x = canonical_execution_fact_ingress_bytes std g"
    "is_fact_bytes x = canonical_execution_fact_bytes std (ig_fact g)"
    using assms(2) by (auto simp: register_ingress_def Let_def split: if_splits sum.splits option.splits)
  have occ: "occupied a' g" using i by (simp add: occupied_def)
  have sound: "index_sound std a'"
    using ingress.inv_step [OF register_all_sound, of std r ss ns gs g] assms(1,2) by simp
  have b: "b = ingress.run std a' ks" by (simp add: assms(3) register_all_run)
  have kept: "ia_index b i = Some x" unfolding b using i(2)
    by (induction ks arbitrary: a') (simp_all add: register_keeps)
  have "fst (register_ingress std b g) = b"
    unfolding b by (intro ingress.settled_idle ingress.run_inv ingress.run_settled sound occ)
  moreover have "snd (register_ingress std b g) = Inr h"
    using ingress.answer_kept [OF sound occ, of ks] register_again [OF assms(2)] b by simp
  ultimately have "register_ingress std b g = (b, Inr h)" by (simp add: prod_eq_iff)
  moreover have "has_issued_ingress b i u v \<longleftrightarrow> u = canonical_execution_fact_ingress_bytes std g
      \<and> v = canonical_execution_fact_bytes std (ig_fact g)" for u v
    by (auto simp: has_issued_ingress_def kept i(3,4))
  ultimately show ?thesis using i(1) by simp
qed

definition ingress_example :: "string \<Rightarrow> int \<Rightarrow> execution_fact_ingress" where
  "ingress_example v n = \<lparr>ig_available_at = 5, ig_namespace = SourceNamespace v, ig_sequence = n,
     ig_fact = \<lparr>ef_namespace = SourceNamespace v, ef_dedup = ExternalFactId ''1'', ef_kind = CANCELLATION,
       ef_occurred_at = 2, ef_instrument = None, ef_submission_key = None, ef_venue_order = None, ef_order = None,
       ef_correlation = None, ef_causation = None, ef_payload = LifecyclePayload ORDER_CANCELLED,
       ef_provenance = provenance_example\<rparr>\<rparr>"

lemma register_example:
  "\<exists>a'. register_ingress std_example (register_all std_example (create_ingress_authority (RunId ''r'') set_example (SourceNamespace ''v'')) [])
     (ingress_example ''v'' 7) = (a', Inr (ingress_example ''v'' 7))"
  by (simp add: register_ingress_def register_all_def create_ingress_authority_def ingress_example_def Let_def
      ingress_identity_of_def make_ingress_identity_def require_non_negative_integer_def preflight_ingress_def)

theorem issued_for_ever_witness:
  "\<exists>b i. register_ingress std_example b (ingress_example ''v'' 7) = (b, Inr (ingress_example ''v'' 7))
     \<and> has_issued_ingress b i (canonical_execution_fact_ingress_bytes std_example (ingress_example ''v'' 7))
         (canonical_execution_fact_bytes std_example (ig_fact (ingress_example ''v'' 7)))"
proof -
  obtain a' where "register_ingress std_example (register_all std_example
      (create_ingress_authority (RunId ''r'') set_example (SourceNamespace ''v'')) []) (ingress_example ''v'' 7)
    = (a', Inr (ingress_example ''v'' 7))" using register_example ..
  from issued_for_ever [OF refl this refl, of "[ingress_example ''w'' 7]"] show ?thesis by blast
qed

end
