(* ===== verification/Execution_State.thy ===== *)
theory Execution_State
  imports Fact_Messages Portfolio Decimal_Laws
begin

text \<open>
  \<open>ea.core.execution_state\<close>: the observation-derived projection of an order and
  the closed outcome of processing one execution fact, with the factories that
  admit only consistent values and their canonical documents.
\<close>

section \<open>Vocabulary\<close>

datatype projection_state =
    PS_SUBMITTED | PS_ACKNOWLEDGED | PS_REJECTED | PS_PARTIALLY_FILLED | PS_FILLED | PS_EXPIRED
  | PS_CANCELLED | PS_DEFINITELY_NOT_SUBMITTED

fun projection_state_value :: "projection_state \<Rightarrow> string" where
  "projection_state_value PS_SUBMITTED = ''submitted''"
| "projection_state_value PS_ACKNOWLEDGED = ''acknowledged''"
| "projection_state_value PS_REJECTED = ''rejected''"
| "projection_state_value PS_PARTIALLY_FILLED = ''partially_filled''"
| "projection_state_value PS_FILLED = ''filled''"
| "projection_state_value PS_EXPIRED = ''expired''"
| "projection_state_value PS_CANCELLED = ''cancelled''"
| "projection_state_value PS_DEFINITELY_NOT_SUBMITTED = ''definitely_not_submitted''"

definition TERMINAL_PROJECTION_STATES :: "projection_state list" where
  "TERMINAL_PROJECTION_STATES =
     [PS_FILLED, PS_REJECTED, PS_EXPIRED, PS_CANCELLED, PS_DEFINITELY_NOT_SUBMITTED]"

datatype fact_action = FA_ACCEPTED | FA_DUPLICATE | FA_CONFLICT | FA_INVALID | FA_UNRESOLVED

fun action_text :: "fact_action \<Rightarrow> string" where
  "action_text FA_ACCEPTED = ''accepted''"
| "action_text FA_DUPLICATE = ''duplicate''"
| "action_text FA_CONFLICT = ''conflict''"
| "action_text FA_INVALID = ''invalid''"
| "action_text FA_UNRESOLVED = ''unresolved''"

fun action_outcome :: "fact_action \<Rightarrow> outcome_code" where
  "action_outcome FA_ACCEPTED = FACT_ACCEPTED"
| "action_outcome FA_DUPLICATE = FACT_DUPLICATE"
| "action_outcome FA_CONFLICT = FACT_CONFLICT"
| "action_outcome FA_INVALID = FACT_INVALID"
| "action_outcome FA_UNRESOLVED = FACT_UNRESOLVED"

datatype fact_anomaly =
    CONTEXT_INVALID | ORDER_BINDING_CONFLICT | UNKNOWN_ORDER | MISSING_ANCESTRY
  | INSUFFICIENT_PROJECTION_EVIDENCE | CONFIRMED_FILL_WITHOUT_TRADE | OVERFILL
  | LATE_AFTER_TERMINAL | PROJECTION_TRANSITION_CONFLICT | TERMINAL_STATE_CONFLICT

fun anomaly_text :: "fact_anomaly \<Rightarrow> string" where
  "anomaly_text CONTEXT_INVALID = ''context_invalid''"
| "anomaly_text ORDER_BINDING_CONFLICT = ''order_binding_conflict''"
| "anomaly_text UNKNOWN_ORDER = ''unknown_order''"
| "anomaly_text MISSING_ANCESTRY = ''missing_ancestry''"
| "anomaly_text INSUFFICIENT_PROJECTION_EVIDENCE = ''insufficient_projection_evidence''"
| "anomaly_text CONFIRMED_FILL_WITHOUT_TRADE = ''confirmed_fill_without_trade''"
| "anomaly_text OVERFILL = ''overfill''"
| "anomaly_text LATE_AFTER_TERMINAL = ''late_after_terminal''"
| "anomaly_text PROJECTION_TRANSITION_CONFLICT = ''projection_transition_conflict''"
| "anomaly_text TERMINAL_STATE_CONFLICT = ''terminal_state_conflict''"

fun anomaly_rank :: "fact_anomaly \<Rightarrow> int" where
  "anomaly_rank CONTEXT_INVALID = 0"
| "anomaly_rank ORDER_BINDING_CONFLICT = 10"
| "anomaly_rank UNKNOWN_ORDER = 20"
| "anomaly_rank MISSING_ANCESTRY = 30"
| "anomaly_rank INSUFFICIENT_PROJECTION_EVIDENCE = 40"
| "anomaly_rank CONFIRMED_FILL_WITHOUT_TRADE = 50"
| "anomaly_rank OVERFILL = 60"
| "anomaly_rank LATE_AFTER_TERMINAL = 70"
| "anomaly_rank PROJECTION_TRANSITION_CONFLICT = 80"
| "anomaly_rank TERMINAL_STATE_CONFLICT = 90"

datatype resolution_kind = KEY_ORDER_ID | KEY_CLIENT_SUBMISSION | KEY_VENUE_ORDER

fun resolution_text :: "resolution_kind \<Rightarrow> string" where
  "resolution_text KEY_ORDER_ID = ''order_id''"
| "resolution_text KEY_CLIENT_SUBMISSION = ''client_submission_key''"
| "resolution_text KEY_VENUE_ORDER = ''venue_order_id''"

fun resolution_rank :: "resolution_kind \<Rightarrow> int" where
  "resolution_rank KEY_ORDER_ID = 0"
| "resolution_rank KEY_CLIENT_SUBMISSION = 10"
| "resolution_rank KEY_VENUE_ORDER = 20"

section \<open>Errors\<close>

text \<open>The three codes a boundary error may carry (\<open>_raise_public\<close>).\<close>

definition public_code :: "outcome_code \<Rightarrow> outcome_code" where
  "public_code c =
     (if c = INVALID_TYPE then INVALID_TYPE
      else if c \<in> {OUT_OF_RANGE, NOT_QUANTIZED, PRICE_DOMAIN, ARITHMETIC_OVERFLOW, NON_FINITE} then OUT_OF_RANGE
      else CONFLICTING_ID)"

fun state_raise_public :: "exn \<Rightarrow> exn" where
  "state_raise_public (EconomicValidationError c) = ExecutionStateError (public_code c)"
| "state_raise_public (ExecutionIdentityError c) = ExecutionStateError (public_code c)"
| "state_raise_public (ExecutionMessageError c) = ExecutionStateError (public_code c)"
| "state_raise_public RunContractError = AssertionError"
| "state_raise_public e = e"

section \<open>Comparisons of quantities\<close>

definition dec_zero :: canonical_decimal where
  "dec_zero = \<lparr>dec_text = ''0'', coefficient = 0, scale = 0\<rparr>"

lemma canonical_zero: "canonical_decimal ''0'' = Inr dec_zero"
  by code_simp

definition dec_lt :: "canonical_decimal \<Rightarrow> canonical_decimal \<Rightarrow> bool" where
  "dec_lt a b \<longleftrightarrow> (case dec_less a b of Inr r \<Rightarrow> r | Inl e \<Rightarrow> False)"

definition dec_gt :: "canonical_decimal \<Rightarrow> canonical_decimal \<Rightarrow> bool" where
  "dec_gt a b \<longleftrightarrow> \<not> dec_lt a b \<and> a \<noteq> b"

definition dec_min :: "canonical_decimal \<Rightarrow> canonical_decimal \<Rightarrow> canonical_decimal" where
  "dec_min a b = (if dec_lt b a then b else a)"

lemma dec_lt_dval [dec_simps]: "dec_lt a b \<longleftrightarrow> dval a < dval b"
  by (simp add: dec_lt_def dec_less_dval)

lemma dec_gt_dval: "wf_dec a \<Longrightarrow> wf_dec b \<Longrightarrow> dec_gt a b \<longleftrightarrow> dval b < dval a"
  using wf_dec_unique [of a b] by (auto simp: dec_gt_def dec_lt_dval not_less order.order_iff_strict)

lemma dec_gt_le: "\<not> dec_gt a b \<Longrightarrow> dval a \<le> dval b"
  by (auto simp: dec_gt_def dec_lt_dval)

lemma dec_min_dval [dec_simps]: "dval (dec_min a b) = min (dval a) (dval b)"
  by (simp add: dec_min_def dec_lt_dval)

lemma dec_zero_simps [simp]: "dval dec_zero = 0" "coefficient dec_zero = 0" "wf_dec dec_zero"
  using canonical_zero by (auto simp: dec_zero_def dval_def)

section \<open>Projections\<close>

record projection =
  pj_run :: run_id
  pj_order :: economic_id
  pj_order_sha256 :: sha256_digest
  pj_submission_key :: sha256_digest
  pj_version :: int
  pj_state :: projection_state
  pj_quantity :: canonical_decimal
  pj_venue :: "(source_namespace \<times> venue_order_id) option"
  pj_last_key :: fact_dedup_key
  pj_last_sha256 :: sha256_digest

definition is_terminal :: "projection \<Rightarrow> bool" where
  "is_terminal p \<longleftrightarrow> pj_state p \<in> set TERMINAL_PROJECTION_STATES"

text \<open>
  \<open>create_order_projection_snapshot\<close>. The two venue arguments are checked to be
  jointly present (\<open>_require_venue_pair\<close>); the record keeps the pair.
\<close>

definition venue_pair ::
  "source_namespace option \<Rightarrow> venue_order_id option \<Rightarrow> (source_namespace \<times> venue_order_id) option result" where
  "venue_pair ns v = (case (ns, v) of
      (None, None) \<Rightarrow> Inr None
    | (Some n, Some i) \<Rightarrow> Inr (Some (n, i))
    | _ \<Rightarrow> Inl (ExecutionStateError CONFLICTING_ID))"

definition projection_quantity_ok :: "projection_state \<Rightarrow> canonical_decimal \<Rightarrow> order \<Rightarrow> bool" where
  "projection_quantity_ok s q od \<longleftrightarrow>
     \<not> (dec_lt q dec_zero \<or> dec_gt q (or_quantity od))
     \<and> \<not> (s = PS_PARTIALLY_FILLED \<and> \<not> (dec_lt dec_zero q \<and> dec_lt q (or_quantity od)))
     \<and> \<not> (s = PS_FILLED \<and> q \<noteq> or_quantity od)
     \<and> \<not> (s \<in> {PS_SUBMITTED, PS_ACKNOWLEDGED, PS_REJECTED, PS_DEFINITELY_NOT_SUBMITTED} \<and> q \<noteq> dec_zero)
     \<and> \<not> (s \<in> {PS_EXPIRED, PS_CANCELLED} \<and> \<not> dec_lt q (or_quantity od))"

definition create_order_projection_snapshot ::
  "stdlib \<Rightarrow> order \<Rightarrow> spec_set \<Rightarrow> int \<Rightarrow> projection_state \<Rightarrow> canonical_decimal \<Rightarrow> source_namespace option
   \<Rightarrow> venue_order_id option \<Rightarrow> fact_dedup_key \<Rightarrow> sha256_digest \<Rightarrow> projection result" where
  "create_order_projection_snapshot std od ss version s q ns v key sha =
     map_exn state_raise_public
    (guard_res (or_set_id od \<noteq> set_identifier ss
        \<or> or_set_sha256 od \<noteq> instrument_spec_set_digest (hexdigest std) ss) (ExecutionStateError CONFLICTING_ID)
    (guard_res (\<not> (1 \<le> version \<and> version \<le> MAX_UINT64)) (ExecutionStateError OUT_OF_RANGE)
    (bind_res (require_spec ss (or_instrument od)) (\<lambda>specification.
     bind_res (require_quantized q (quantity_quantum specification)) (\<lambda>_.
     guard_res (\<not> projection_quantity_ok s q od) (ExecutionStateError OUT_OF_RANGE)
    (bind_res (venue_pair ns v) (\<lambda>pair.
       Inr \<lparr>pj_run = or_run od, pj_order = or_id od, pj_order_sha256 = order_digest std od,
            pj_submission_key = order_client_submission_key std od, pj_version = version, pj_state = s,
            pj_quantity = q, pj_venue = pair, pj_last_key = key, pj_last_sha256 = sha\<rparr>)))))))"

definition venue_document :: "(source_namespace \<times> venue_order_id) option \<Rightarrow> json" where
  "venue_document pair = (case pair of
      None \<Rightarrow> JNull
    | Some (ns, v) \<Rightarrow> JObj
        [(''source_namespace'', JStr (namespace_text ns)), (''venue_order_id'', JStr (venue_order_text v))])"

definition projection_document :: "projection \<Rightarrow> json" where
  "projection_document p = JObj
     [(''canonicalization'', JStr ''ea-order-projection-snapshot-v1''),
      (''client_submission_key'', digest_json (pj_submission_key p)),
      (''last_fact_key'', fact_key_document (pj_last_key p)),
      (''last_fact_sha256'', digest_json (pj_last_sha256 p)),
      (''message_type'', JStr ''order_projection_snapshot''),
      (''order_id'', economic_id_document (pj_order p)),
      (''order_sha256'', digest_json (pj_order_sha256 p)),
      (''projected_executed_quantity'', JStr (dec_text (pj_quantity p))),
      (''projection_state'', JStr (projection_state_value (pj_state p))),
      (''projection_version'', JInt (pj_version p)),
      (''run_id'', JStr (run_text (pj_run p))),
      (''schema_version'', JInt 1),
      (''venue_order'', venue_document (pj_venue p))]"

definition canonical_projection_bytes :: "projection \<Rightarrow> string" where
  "canonical_projection_bytes p = json_bytes (projection_document p)"

definition projection_digest :: "stdlib \<Rightarrow> projection \<Rightarrow> sha256_digest" where
  "projection_digest std p =
     domain_digest (hexdigest std) ''ea.execution-order-projection.v1'' (canonical_projection_bytes p)"

section \<open>Processing outcomes\<close>

record fact_outcome =
  fo_run :: run_id
  fo_dispatch :: int
  fo_ingress :: ingress_identity
  fo_ingress_sha256 :: sha256_digest
  fo_fact_key :: fact_dedup_key
  fo_fact_sha256 :: sha256_digest
  fo_action :: fact_action
  fo_anomalies :: "fact_anomaly list"
  fo_code :: outcome_code
  fo_reported_order :: "economic_id option"
  fo_submission_key :: "sha256_digest option"
  fo_reported_venue :: "(source_namespace \<times> venue_order_id) option"
  fo_resolutions :: "(resolution_kind \<times> economic_id option) list"
  fo_resolved_order :: "economic_id option"
  fo_fill :: "(economic_id \<times> sha256_digest) option"
  fo_before_sha256 :: "sha256_digest option"
  fo_after_sha256 :: "sha256_digest option"
  fo_reconcile :: bool
  fo_halt :: bool

definition create_order_resolution_binding ::
  "resolution_kind \<Rightarrow> order option \<Rightarrow> resolution_kind \<times> economic_id option" where
  "create_order_resolution_binding k od = (k, map_option or_id od)"

definition fact_dedup_key_of :: "execution_fact \<Rightarrow> fact_dedup_key" where
  "fact_dedup_key_of f = \<lparr>key_namespace = ef_namespace f, key_identity = ef_dedup f\<rparr>"

definition action_anomalies_ok :: "fact_action \<Rightarrow> fact_anomaly list \<Rightarrow> bool" where
  "action_anomalies_ok act anomalies \<longleftrightarrow>
     sorted_wrt (<) (map anomaly_rank anomalies)
     \<and> ((act \<in> {FA_ACCEPTED, FA_DUPLICATE} \<and> anomalies = [])
        \<or> (act = FA_CONFLICT \<and> anomalies = [])
        \<or> (act = FA_INVALID \<and> anomalies = [CONTEXT_INVALID])
        \<or> (act = FA_UNRESOLVED \<and> anomalies \<noteq> [] \<and> CONTEXT_INVALID \<notin> set anomalies))"

definition is_short_circuit :: "fact_action \<Rightarrow> bool" where
  "is_short_circuit act \<longleftrightarrow> act = FA_DUPLICATE \<or> act = FA_CONFLICT \<or> act = FA_INVALID"

definition expected_keys :: "execution_fact \<Rightarrow> resolution_kind list" where
  "expected_keys f =
     (if ef_order f \<noteq> None then [KEY_ORDER_ID] else [])
     @ (if ef_submission_key f \<noteq> None then [KEY_CLIENT_SUBMISSION] else [])
     @ (if ef_venue_order f \<noteq> None then [KEY_VENUE_ORDER] else [])"

definition resolution_tuple_ok ::
  "execution_fact \<Rightarrow> fact_action \<Rightarrow> (resolution_kind \<times> economic_id option) list \<Rightarrow> bool" where
  "resolution_tuple_ok f act bindings \<longleftrightarrow>
     sorted_wrt (<) (map (resolution_rank \<circ> fst) bindings)
     \<and> (if is_short_circuit act then bindings = [] else map fst bindings = expected_keys f)"

definition derived_selected_order :: "(resolution_kind \<times> economic_id option) list \<Rightarrow> economic_id option" where
  "derived_selected_order bindings =
     (case remdups (List.map_filter snd bindings) of [i] \<Rightarrow> Some i | _ \<Rightarrow> None)"

definition fill_context_ok ::
  "stdlib \<Rightarrow> run_id \<Rightarrow> execution_fact \<Rightarrow> fact_action \<Rightarrow> fill option \<Rightarrow> bool" where
  "fill_context_ok std r f act fl \<longleftrightarrow>
     (fl \<noteq> None) = (ef_kind f = TRADE \<and> (case ef_payload f of TradePayload p \<Rightarrow> True | _ \<Rightarrow> False)
        \<and> (act = FA_ACCEPTED \<or> act = FA_UNRESOLVED))
     \<and> (case fl of None \<Rightarrow> True | Some x \<Rightarrow>
          fl_run x = r \<and> fact_key x = fact_dedup_key_of f \<and> fl_fact_sha256 x = execution_fact_digest std f)"

definition projection_context_ok :: "stdlib \<Rightarrow> run_id \<Rightarrow> order option \<Rightarrow> projection option list \<Rightarrow> bool" where
  "projection_context_ok std r od ps \<longleftrightarrow> (case od of
      None \<Rightarrow> list_all (\<lambda>p. p = None) ps
    | Some x \<Rightarrow> list_all (\<lambda>p. case p of None \<Rightarrow> True | Some v \<Rightarrow>
        pj_run v = r \<and> pj_order v = or_id x \<and> pj_order_sha256 v = order_digest std x
        \<and> pj_submission_key v = order_client_submission_key std x) ps)"

definition create_fact_outcome ::
  "stdlib \<Rightarrow> run_id \<Rightarrow> int \<Rightarrow> execution_fact_ingress \<Rightarrow> fact_action \<Rightarrow> fact_anomaly list
   \<Rightarrow> (resolution_kind \<times> economic_id option) list \<Rightarrow> order option \<Rightarrow> fill option \<Rightarrow> projection option
   \<Rightarrow> projection option \<Rightarrow> fact_outcome result" where
  "create_fact_outcome std r dispatch g act anomalies bindings od fl before after =
     map_exn state_raise_public
    (guard_res (\<not> (1 \<le> dispatch \<and> dispatch \<le> MAX_UINT64)) (ExecutionStateError OUT_OF_RANGE)
    (guard_res (\<not> action_anomalies_ok act anomalies) (ExecutionStateError CONFLICTING_ID)
    (guard_res (\<not> resolution_tuple_ok (ig_fact g) act bindings) (ExecutionStateError CONFLICTING_ID)
    (guard_res (derived_selected_order bindings \<noteq> map_option or_id od) (ExecutionStateError CONFLICTING_ID)
    (guard_res (case od of None \<Rightarrow> False | Some x \<Rightarrow> or_run x \<noteq> r) (ExecutionStateError CONFLICTING_ID)
    (guard_res (\<not> fill_context_ok std r (ig_fact g) act fl) (ExecutionStateError CONFLICTING_ID)
    (guard_res (\<not> projection_context_ok std r od [before, after]) (ExecutionStateError CONFLICTING_ID)
    (guard_res (is_short_circuit act \<and> (bindings \<noteq> [] \<or> od \<noteq> None \<or> fl \<noteq> None \<or> before \<noteq> None \<or> after \<noteq> None))
       (ExecutionStateError CONFLICTING_ID)
    (bind_res (make_ingress_identity (ig_namespace g) (ig_sequence g)) (\<lambda>identity.
     let f = ig_fact g; reconciliation = act \<in> {FA_CONFLICT, FA_INVALID, FA_UNRESOLVED}
     in Inr \<lparr>fo_run = r, fo_dispatch = dispatch, fo_ingress = identity,
          fo_ingress_sha256 = execution_fact_ingress_digest std g, fo_fact_key = fact_dedup_key_of f,
          fo_fact_sha256 = execution_fact_digest std f, fo_action = act, fo_anomalies = anomalies,
          fo_code = action_outcome act, fo_reported_order = ef_order f, fo_submission_key = ef_submission_key f,
          fo_reported_venue = map_option (\<lambda>v. (ef_namespace f, v)) (ef_venue_order f),
          fo_resolutions = bindings, fo_resolved_order = map_option or_id od,
          fo_fill = map_option (\<lambda>x. (fl_id x, fill_digest std x)) fl,
          fo_before_sha256 = map_option (projection_digest std) before,
          fo_after_sha256 = map_option (projection_digest std) after,
          fo_reconcile = reconciliation, fo_halt = reconciliation\<rparr>))))))))))"

definition fact_outcome_document :: "fact_outcome \<Rightarrow> json" where
  "fact_outcome_document v = JObj
     [(''action'', JStr (action_text (fo_action v))),
      (''anomalies'', JList (map (\<lambda>a. JStr (anomaly_text a)) (fo_anomalies v))),
      (''canonicalization'', JStr ''ea-execution-fact-processing-outcome-v1''),
      (''client_submission_key'', optional_document digest_json (fo_submission_key v)),
      (''fact_key'', fact_key_document (fo_fact_key v)),
      (''fact_sha256'', digest_json (fo_fact_sha256 v)),
      (''fill'', optional_document (\<lambda>(i, d). JObj
         [(''fill_id'', economic_id_document i), (''fill_sha256'', digest_json d)]) (fo_fill v)),
      (''halt_requested'', JBool (fo_halt v)),
      (''ingress_identity'', JObj
         [(''ingress_sequence'', JInt (ingress_sequence (fo_ingress v))),
          (''source_namespace'', JStr (namespace_text (ingress_namespace (fo_ingress v))))]),
      (''ingress_sha256'', digest_json (fo_ingress_sha256 v)),
      (''message_type'', JStr ''execution_fact_processing_outcome''),
      (''order_resolutions'', JList (map (\<lambda>(k, i). JObj
         [(''key_kind'', JStr (resolution_text k)),
          (''resolved_order_id'', optional_document economic_id_document i)]) (fo_resolutions v))),
      (''outcome_code'', JStr (outcome_code_value (fo_code v))),
      (''projection_after_sha256'', optional_document digest_json (fo_after_sha256 v)),
      (''projection_before_sha256'', optional_document digest_json (fo_before_sha256 v)),
      (''reported_order_id'', optional_document economic_id_document (fo_reported_order v)),
      (''reported_venue_order'', venue_document (fo_reported_venue v)),
      (''requires_reconciliation'', JBool (fo_reconcile v)),
      (''resolved_order_id'', optional_document economic_id_document (fo_resolved_order v)),
      (''run_id'', JStr (run_text (fo_run v))),
      (''runtime_dispatch_sequence'', JInt (fo_dispatch v)),
      (''schema_version'', JInt 1)]"

definition canonical_fact_outcome_bytes :: "fact_outcome \<Rightarrow> string" where
  "canonical_fact_outcome_bytes v = json_bytes (fact_outcome_document v)"

definition fact_outcome_digest :: "stdlib \<Rightarrow> fact_outcome \<Rightarrow> sha256_digest" where
  "fact_outcome_digest std v =
     domain_digest (hexdigest std) ''ea.execution-fact-processing-outcome.v1'' (canonical_fact_outcome_bytes v)"

end
