(* ===== verification/Fact_Authority.thy ===== *)
theory Fact_Authority
  imports Execution_State Root_Queue Commission "HOL-Library.AList"
begin

text \<open>
  \<open>ea.execution.fact_authority\<close>: the only owner of processed facts, fills and
  order projections. One operation, \<open>process_ingress\<close>, takes an ingress that the
  runtime is dispatching and either publishes one outcome with all its indexes
  or leaves the state as it was.

  The two verifiers it is constructed with are ports: the lookups of issued
  orders and the question whether an ingress is the live dispatch. A digest of
  SHA-256 is never empty, so the preflight compares the canonical bytes only.
\<close>

section \<open>Tables\<close>

definition allowed_transitions :: "projection_state \<Rightarrow> projection_state list" where
  "allowed_transitions s = (case s of
      PS_SUBMITTED \<Rightarrow> [PS_ACKNOWLEDGED, PS_REJECTED, PS_PARTIALLY_FILLED, PS_FILLED, PS_EXPIRED, PS_CANCELLED]
    | PS_ACKNOWLEDGED \<Rightarrow> [PS_PARTIALLY_FILLED, PS_FILLED, PS_EXPIRED, PS_CANCELLED]
    | PS_PARTIALLY_FILLED \<Rightarrow> [PS_PARTIALLY_FILLED, PS_FILLED, PS_EXPIRED, PS_CANCELLED]
    | _ \<Rightarrow> [])"

fun lifecycle_projection :: "execution_fact_kind \<Rightarrow> projection_state option" where
  "lifecycle_projection ACKNOWLEDGEMENT = Some PS_ACKNOWLEDGED"
| "lifecycle_projection REJECTION = Some PS_REJECTED"
| "lifecycle_projection EXPIRY = Some PS_EXPIRED"
| "lifecycle_projection CANCELLATION = Some PS_CANCELLED"
| "lifecycle_projection _ = None"

definition query_projection :: "outcome_code \<Rightarrow> projection_state option" where
  "query_projection c =
     (if c = RECONCILIATION_SUBMISSION_CONFIRMED_SUBMITTED then Some PS_SUBMITTED
      else if c = RECONCILIATION_SUBMISSION_CONFIRMED_NOT_SUBMITTED then Some PS_DEFINITELY_NOT_SUBMITTED
      else if c = RECONCILIATION_SUBMISSION_CONFIRMED_REJECTED then Some PS_REJECTED
      else if c = RECONCILIATION_SUBMISSION_CONFIRMED_FILLED then Some PS_FILLED else None)"

abbreviation fact_error :: "outcome_code \<Rightarrow> exn" where
  "fact_error \<equiv> ExecutionFactAuthorityError"

fun fact_raise_public :: "exn \<Rightarrow> exn" where
  "fact_raise_public (EconomicValidationError c) = fact_error (public_code c)"
| "fact_raise_public (ExecutionIdentityError c) = fact_error (public_code c)"
| "fact_raise_public (ExecutionMessageError c) = fact_error (public_code c)"
| "fact_raise_public (ExecutionStateError c) = fact_error (public_code c)"
| "fact_raise_public RunContractError = AssertionError"
| "fact_raise_public TimeValidationError = AssertionError"
| "fact_raise_public TypeError = fact_error INVALID_TYPE"
| "fact_raise_public e = e"

section \<open>State\<close>

record fact_ports =
  po_order_run :: run_id
  po_order_specs :: spec_set
  po_dispatch_run :: run_id
  po_dispatch_specs :: spec_set
  po_order_by_id :: "economic_id \<Rightarrow> order option"
  po_order_by_key :: "sha256_digest \<Rightarrow> order option"
  po_dispatch :: "ingress_identity \<Rightarrow> string \<Rightarrow> string \<Rightarrow> int option"

record ingress_record =
  ir_ingress :: execution_fact_ingress
  ir_ingress_bytes :: string
  ir_fact_bytes :: string
  ir_outcome :: fact_outcome

record fact_record =
  fr_fact :: execution_fact
  fr_bytes :: string
  fr_first_ingress :: ingress_identity

type_synonym venue_key = "source_namespace \<times> venue_order_id"

record fact_state =
  fs_fill_next :: "int option"
  fs_halt :: bool
  fs_ingress_index :: "ingress_identity \<rightharpoonup> ingress_record"
  fs_fact_index :: "fact_dedup_key \<rightharpoonup> fact_record"
  fs_fill_index :: "economic_id \<rightharpoonup> fill"
  fs_order_index :: "economic_id \<rightharpoonup> order"
  fs_client_index :: "sha256_digest \<rightharpoonup> order"
  fs_venue_index :: "(venue_key \<times> order) list"
  fs_projection_index :: "economic_id \<rightharpoonup> projection"
  fs_history_index :: "economic_id \<times> sha256_digest \<rightharpoonup> projection"
  fs_observed :: "economic_id \<rightharpoonup> canonical_decimal"
  fs_ingresses :: "execution_fact_ingress list"
  fs_outcomes :: "fact_outcome list"
  fs_first_facts :: "execution_fact list"
  fs_fills :: "fill list"
  fs_projections :: "projection list"

record fact_authority =
  fa_run :: run_id
  fa_specs :: spec_set
  fa_state :: fact_state

definition empty_fact_state :: fact_state where
  "empty_fact_state =
     \<lparr>fs_fill_next = Some 1, fs_halt = False, fs_ingress_index = Map.empty, fs_fact_index = Map.empty,
      fs_fill_index = Map.empty, fs_order_index = Map.empty, fs_client_index = Map.empty, fs_venue_index = [],
      fs_projection_index = Map.empty, fs_history_index = Map.empty, fs_observed = Map.empty,
      fs_ingresses = [], fs_outcomes = [], fs_first_facts = [], fs_fills = [], fs_projections = []\<rparr>"

text \<open>\<open>_require_order_verifier\<close> and \<open>_require_dispatch_verifier\<close>: a port is bound to the same run and specifications.\<close>

definition require_port_binding :: "stdlib \<Rightarrow> run_id \<Rightarrow> spec_set \<Rightarrow> run_id \<Rightarrow> spec_set \<Rightarrow> unit result" where
  "require_port_binding std r ss port_run port_specs =
     guard_res (port_run \<noteq> r \<or> set_identifier port_specs \<noteq> set_identifier ss
         \<or> instrument_spec_set_digest (hexdigest std) port_specs \<noteq> instrument_spec_set_digest (hexdigest std) ss)
       (fact_error CONFLICTING_ID) (Inr ())"

definition create_fact_authority :: "stdlib \<Rightarrow> run_id \<Rightarrow> spec_set \<Rightarrow> fact_ports \<Rightarrow> fact_authority result" where
  "create_fact_authority std r ss ports =
     bind_res (require_port_binding std r ss (po_order_run ports) (po_order_specs ports)) (\<lambda>_.
     bind_res (require_port_binding std r ss (po_dispatch_run ports) (po_dispatch_specs ports)) (\<lambda>_.
       Inr \<lparr>fa_run = r, fa_specs = ss, fa_state = empty_fact_state\<rparr>))"

definition recover_fact_authority :: "stdlib \<Rightarrow> fact_authority \<Rightarrow> fact_ports \<Rightarrow> fact_authority result" where
  "recover_fact_authority std history ports =
     bind_res (create_fact_authority std (fa_run history) (fa_specs history) ports) (\<lambda>a.
       Inr (a\<lparr>fa_state := fa_state history\<rparr>))"

definition projection_for_order :: "fact_authority \<Rightarrow> economic_id \<Rightarrow> projection option" where
  "projection_for_order a i = fs_projection_index (fa_state a) i"

definition resolve_processing_outcome ::
  "stdlib \<Rightarrow> fact_authority \<Rightarrow> ingress_identity \<Rightarrow> sha256_digest \<Rightarrow> fact_outcome option" where
  "resolve_processing_outcome std a i sha = (case fs_ingress_index (fa_state a) i of
      None \<Rightarrow> None
    | Some r \<Rightarrow> if execution_fact_ingress_digest std (ir_ingress r) \<noteq> sha then None else Some (ir_outcome r))"

definition resolve_fill :: "stdlib \<Rightarrow> fact_authority \<Rightarrow> economic_id \<Rightarrow> sha256_digest \<Rightarrow> fill option" where
  "resolve_fill std a i sha = (case fs_fill_index (fa_state a) i of
      None \<Rightarrow> None | Some f \<Rightarrow> if fill_digest std f \<noteq> sha then None else Some f)"

definition resolve_projection_after :: "fact_authority \<Rightarrow> economic_id \<Rightarrow> sha256_digest \<Rightarrow> projection option" where
  "resolve_projection_after a i sha = fs_history_index (fa_state a) (i, sha)"

definition observed_in :: "fact_state \<Rightarrow> economic_id \<Rightarrow> canonical_decimal" where
  "observed_in st i = (case fs_observed st i of None \<Rightarrow> dec_zero | Some q \<Rightarrow> q)"

definition observed_quantity_for_order :: "fact_authority \<Rightarrow> economic_id \<Rightarrow> canonical_decimal" where
  "observed_quantity_for_order a i = observed_in (fa_state a) i"

section \<open>The context of a fact\<close>

text \<open>
  \<open>decode_execution_fact\<close> applied to a fact's own canonical bytes: reading them
  back gives the fields of the fact, so what is left of the decoder is the
  checked construction by kind, the digest and the document of the result.
\<close>

definition rebuild_trade_fact :: "stdlib \<Rightarrow> spec_set \<Rightarrow> execution_fact \<Rightarrow> instrument \<Rightarrow> trade_payload \<Rightarrow> execution_fact result" where
  "rebuild_trade_fact std ss f i p =
     bind_res (require_spec_set std ss i (Some (tp_spec_id p)) (Some (tp_set_id p)) (Some (tp_set_sha256 p)))
       (\<lambda>(specification, _).
     bind_res (require_phase1_fees (tp_fees p) specification (tp_price p) (tp_quantity p)) (\<lambda>fees.
     case fees of
       [fee] \<Rightarrow> create_trade_execution_fact std (ef_namespace f) (ef_dedup f) (ef_occurred_at f)
         (ef_provenance f) ss i (tp_side p) (tp_quantity p) (tp_price p) (fee_bps fee) (ef_submission_key f)
         (ef_venue_order f) (ef_order f) (ef_correlation f) (ef_causation f)
     | _ \<Rightarrow> Inl (ExecutionMessageError INVALID_TYPE)))"

definition rebuild_lifecycle_fact :: "execution_fact \<Rightarrow> outcome_code \<Rightarrow> execution_fact result" where
  "rebuild_lifecycle_fact f code =
     (case lifecycle_code_by_kind (ef_kind f) of
        None \<Rightarrow> Inl (ExecutionMessageError OUT_OF_RANGE)
      | Some expected \<Rightarrow>
          guard_res (code \<noteq> expected \<and> \<not> (ef_kind f = EXPIRY \<and> code = ORDER_EXPIRED_NO_ELIGIBLE_MARKET_DATA))
            (ExecutionMessageError OUT_OF_RANGE)
          (create_lifecycle_execution_fact (ef_kind f) (ef_namespace f) (ef_dedup f) (ef_occurred_at f)
             (ef_provenance f) (ef_instrument f) (ef_submission_key f) (ef_venue_order f) (ef_order f)
             (ef_correlation f) (ef_causation f) (if code = expected then None else Some code)))"

definition decode_own_fact :: "stdlib \<Rightarrow> spec_set \<Rightarrow> execution_fact \<Rightarrow> execution_fact result" where
  "decode_own_fact std ss f =
     bind_res
       (if ef_kind f = SUBMISSION_QUERY then Inl (ExecutionMessageError INVALID_TYPE)
        else if ef_kind f = TRADE
        then (case (ef_instrument f, ef_payload f) of
               (None, _) \<Rightarrow> Inl (ExecutionMessageError INVALID_TYPE)
             | (Some i, TradePayload p) \<Rightarrow> rebuild_trade_fact std ss f i p
             | _ \<Rightarrow> Inl (ExecutionMessageError OUT_OF_RANGE))
        else (case ef_payload f of
               LifecyclePayload code \<Rightarrow> rebuild_lifecycle_fact f code
             | _ \<Rightarrow> Inl (ExecutionMessageError OUT_OF_RANGE))) (\<lambda>f'.
     guard_res (execution_fact_digest std f \<noteq> execution_fact_digest std f') (ExecutionMessageError FACT_INVALID)
    (guard_res (json_norm (fact_document std f) \<noteq> json_norm (fact_document std f')) (ExecutionMessageError CONFLICTING_ID)
       (Inr f')))"

definition is_context_valid :: "stdlib \<Rightarrow> fact_authority \<Rightarrow> execution_fact_ingress \<Rightarrow> bool" where
  "is_context_valid std a g = (let f = ig_fact g in
     if ig_namespace g \<noteq> ef_namespace f \<or> ig_available_at g < ef_occurred_at f then False
     else if list_ex (\<lambda>i. run_id i \<noteq> fa_run a)
       (List.map_filter (\<lambda>i. i) [ef_order f, ef_correlation f, ef_causation f]) then False
     else (case (case ef_instrument f of None \<Rightarrow> Inr None
                 | Some i \<Rightarrow> bind_res (require_spec (fa_specs a) i) (\<lambda>s. Inr (Some s))) of
        Inl e \<Rightarrow> False
      | Inr specification \<Rightarrow>
          if ef_kind f = SUBMISSION_QUERY
          then (case ef_payload f of QueryPayload c \<Rightarrow> c \<in> set SUBMISSION_QUERY_CODES \<and> specification \<noteq> None
                | _ \<Rightarrow> False)
          else if ef_kind f = TRADE \<and> (case ef_payload f of
              TradePayload p \<Rightarrow> ef_instrument f = None \<or> specification = None
                \<or> tp_set_sha256 p \<noteq> instrument_spec_set_digest (hexdigest std) (fa_specs a)
            | _ \<Rightarrow> True) then False
          else if lifecycle_projection (ef_kind f) \<noteq> None
              \<and> (case ef_payload f of LifecyclePayload c \<Rightarrow> False | _ \<Rightarrow> True) then False
          else (case decode_own_fact std (fa_specs a) f of Inr _ \<Rightarrow> True | Inl _ \<Rightarrow> False)))"

section \<open>Resolving the order a fact reports\<close>

record fact_resolution =
  rs_bindings :: "(resolution_kind \<times> economic_id option) list"
  rs_selected :: "order option"
  rs_orders :: "order list"
  rs_staged :: "venue_key option"
  rs_anomalies :: "fact_anomaly list"

definition record_resolved_order ::
  "stdlib \<Rightarrow> fact_authority \<Rightarrow> order option \<Rightarrow> (economic_id \<times> order) list \<Rightarrow> (economic_id \<times> order) list result" where
  "record_resolved_order std a od orders = (case od of
      None \<Rightarrow> Inr orders
    | Some x \<Rightarrow>
        guard_res (or_run x \<noteq> fa_run a \<or> or_set_id x \<noteq> set_identifier (fa_specs a)
            \<or> or_set_sha256 x \<noteq> instrument_spec_set_digest (hexdigest std) (fa_specs a)
            \<or> owner_kind (or_id x) \<noteq> EXECUTION_ORDER \<or> canonical_order_bytes std x = []) (fact_error CONFLICTING_ID)
       (guard_res (case map_of orders (or_id x) of None \<Rightarrow> False
            | Some y \<Rightarrow> canonical_order_bytes std y \<noteq> canonical_order_bytes std x) (fact_error CONFLICTING_ID)
         (Inr (AList.update (or_id x) x orders))))"

text \<open>An empty fee tuple would be an \<open>IndexError\<close>; both lookup errors are one value here.\<close>

definition fact_contradicts_order :: "stdlib \<Rightarrow> execution_fact \<Rightarrow> order \<Rightarrow> bool result" where
  "fact_contradicts_order std f od =
     (if (ef_order f \<noteq> None \<and> ef_order f \<noteq> Some (or_id od))
        \<or> (ef_submission_key f \<noteq> None \<and> ef_submission_key f \<noteq> Some (order_client_submission_key std od))
        \<or> (ef_instrument f \<noteq> None \<and> ef_instrument f \<noteq> Some (or_instrument od)) then Inr True
      else bind_res
        (case ef_payload f of
           TradePayload p \<Rightarrow>
             if tp_side p \<noteq> or_side od then Inr True
             else (case tp_fees p of
                 [] \<Rightarrow> Inl KeyError
               | fee # _ \<Rightarrow> bind_res (commission_bps_from_identity (hexdigest std) (policy_identifier (or_policy od))
                     (digest_text (policy_sha256 (or_policy od)))) (\<lambda>bps. Inr (fee_bps fee \<noteq> bps)))
         | _ \<Rightarrow> Inr False)
        (\<lambda>b. Inr (b \<or> (ef_correlation f \<noteq> None \<and> ef_correlation f \<noteq> Some (or_correlation od))
                   \<or> (ef_causation f \<noteq> None \<and> ef_causation f \<noteq> Some (or_id od)))))"

definition resolve_base ::
  "stdlib \<Rightarrow> fact_ports \<Rightarrow> fact_authority \<Rightarrow> execution_fact
   \<Rightarrow> ((resolution_kind \<times> order option) list \<times> (economic_id \<times> order) list) result" where
  "resolve_base std ports a f =
     bind_res (case ef_order f of
         None \<Rightarrow> Inr ([], [])
       | Some i \<Rightarrow> let od = po_order_by_id ports i in
           bind_res (record_resolved_order std a od []) (\<lambda>orders. Inr ([(KEY_ORDER_ID, od)], orders)))
       (\<lambda>(resolved, orders).
     case ef_submission_key f of
       None \<Rightarrow> Inr (resolved, orders)
     | Some k \<Rightarrow> let od = po_order_by_key ports k in
         bind_res (record_resolved_order std a od orders) (\<lambda>orders'.
           Inr (resolved @ [(KEY_CLIENT_SUBMISSION, od)], orders')))"

text \<open>The venue key: the known order, or the coherent order it is staged for, or a conflict.\<close>

definition resolve_venue ::
  "(venue_key \<times> order) list \<Rightarrow> venue_key \<Rightarrow> (resolution_kind \<times> order option) list
   \<Rightarrow> order option \<times> venue_key option \<times> bool" where
  "resolve_venue index key resolved =
     (let non_null = List.map_filter snd resolved;
          coherent = (resolved \<noteq> [] \<and> length non_null = length resolved
            \<and> length (remdups (map or_id non_null)) = 1)
      in if map_of index key = None \<and> coherent
         then let candidate = hd non_null;
                  keys = map fst (filter (\<lambda>(k, x). or_id x = or_id candidate) index)
              in if keys \<noteq> [] \<and> key \<notin> set keys then (None, None, True) else (Some candidate, Some key, False)
         else (map_of index key, None, False))"

definition order_sort_key :: "order \<Rightarrow> string \<times> string \<times> int" where
  "order_sort_key x = (run_text (or_run x), owner_kind_value (owner_kind (or_id x)), owner_sequence (or_id x))"

definition binding_conflicts ::
  "(resolution_kind \<times> order option) list \<Rightarrow> economic_id list \<Rightarrow> bool \<Rightarrow> bool" where
  "binding_conflicts resolved ids venue_conflict \<longleftrightarrow>
     1 < length ids \<or> venue_conflict
     \<or> (let base = filter (\<lambda>(k, x). k = KEY_ORDER_ID \<or> k = KEY_CLIENT_SUBMISSION) resolved
        in list_ex (\<lambda>(k, x). x = None) base \<and> list_ex (\<lambda>(k, x). x \<noteq> None) base)"

definition resolve_orders ::
  "stdlib \<Rightarrow> fact_ports \<Rightarrow> fact_authority \<Rightarrow> execution_fact_ingress \<Rightarrow> fact_resolution result" where
  "resolve_orders std ports a g =
     (let f = ig_fact g in
      bind_res (resolve_base std ports a f) (\<lambda>(base, base_orders).
      let (venue_order, staged, venue_conflict) = (case ef_venue_order f of
            None \<Rightarrow> (None, None, False)
          | Some v \<Rightarrow> resolve_venue (fs_venue_index (fa_state a)) (ef_namespace f, v) base);
          orders = (case venue_order of None \<Rightarrow> base_orders | Some x \<Rightarrow> AList.update (or_id x) x base_orders);
          resolved = (if ef_venue_order f = None then base else base @ [(KEY_VENUE_ORDER, venue_order)]);
          bindings = map (\<lambda>(k, x). create_order_resolution_binding k x) resolved;
          ids = remdups (List.map_filter snd bindings)
      in bind_res (case ids of
             [i] \<Rightarrow> (case map_of orders i of None \<Rightarrow> Inl KeyError | Some x \<Rightarrow> Inr (Some x))
           | _ \<Rightarrow> Inr None) (\<lambda>selected.
         bind_res (case selected of None \<Rightarrow> Inr False | Some x \<Rightarrow> fact_contradicts_order std f x) (\<lambda>contradicts.
         let conflict = (binding_conflicts resolved ids venue_conflict \<or> contradicts);
             anomalies = (if ids = [] then [UNKNOWN_ORDER] else []) @ (if conflict then [ORDER_BINDING_CONFLICT] else []);
             withdrawn = (staged \<noteq> None \<and> conflict)
         in Inr \<lparr>rs_bindings = (if withdrawn
                   then map (\<lambda>(k, i). (k, if k = KEY_VENUE_ORDER then None else i)) bindings else bindings),
              rs_selected = selected, rs_orders = sort_key order_sort_key (map snd orders),
              rs_staged = (if withdrawn then None else staged), rs_anomalies = anomalies\<rparr>))))"

section \<open>Fills and quantities\<close>

definition add_quantities :: "canonical_decimal \<Rightarrow> canonical_decimal \<Rightarrow> canonical_decimal result" where
  "add_quantities left right =
     (let s = max (scale left) (scale right);
          c = coefficient left * 10 ^ (s - scale left) + coefficient right * 10 ^ (s - scale right)
      in canonical_decimal (scaled_text c s))"

definition fact_advance :: "int \<Rightarrow> int option result" where
  "fact_advance v = guard_res (\<not> (1 \<le> v \<and> v \<le> MAX_UINT64)) AssertionError
     (Inr (if v = MAX_UINT64 then None else Some (v + 1)))"

definition advance_required :: "int \<Rightarrow> int result" where
  "advance_required v = bind_res (fact_advance v) (\<lambda>n. case n of
     None \<Rightarrow> Inl (fact_error OUT_OF_RANGE) | Some m \<Rightarrow> Inr m)"

definition build_fill :: "stdlib \<Rightarrow> fact_authority \<Rightarrow> execution_fact_ingress \<Rightarrow> (fill option \<times> int option) result" where
  "build_fill std a g =
     (if \<not> (ef_kind (ig_fact g) = TRADE \<and> (case ef_payload (ig_fact g) of TradePayload p \<Rightarrow> True | _ \<Rightarrow> False))
      then Inr (None, fs_fill_next (fa_state a))
      else (case fs_fill_next (fa_state a) of
              None \<Rightarrow> Inl (fact_error OUT_OF_RANGE)
            | Some n \<Rightarrow>
                bind_res (make_economic_id (fa_run a) EXECUTION_FILL n) (\<lambda>i.
                bind_res (create_fill std i (ig_fact g) (fa_specs a)) (\<lambda>fl.
                bind_res (fact_advance n) (\<lambda>n'. Inr (Some fl, n'))))))"

section \<open>Projecting a fact\<close>

record projection_result =
  pr_before :: "projection option"
  pr_after :: "projection option"
  pr_new :: "projection option"
  pr_observed :: "canonical_decimal option"
  pr_anomalies :: "fact_anomaly list"

definition projection_target ::
  "execution_fact \<Rightarrow> order \<Rightarrow> canonical_decimal \<Rightarrow> projection_state option \<times> canonical_decimal \<times> fact_anomaly list" where
  "projection_target f od observed =
     (if ef_kind f = TRADE
      then if dec_lt observed (or_quantity od) then (Some PS_PARTIALLY_FILLED, observed, [])
           else (Some PS_FILLED, or_quantity od, if dec_gt observed (or_quantity od) then [OVERFILL] else [])
      else (case lifecycle_projection (ef_kind f) of
          Some s \<Rightarrow> (Some s, dec_min observed (or_quantity od), [])
        | None \<Rightarrow> (case ef_payload f of
              QueryPayload c \<Rightarrow>
                (query_projection c,
                 if query_projection c = Some PS_FILLED then or_quantity od else dec_min observed (or_quantity od),
                 (if c = RECONCILIATION_SUBMISSION_STILL_UNKNOWN then [INSUFFICIENT_PROJECTION_EVIDENCE] else [])
                 @ (if query_projection c = Some PS_FILLED \<and> dec_lt observed (or_quantity od)
                    then [CONFIRMED_FILL_WITHOUT_TRADE] else []))
            | _ \<Rightarrow> (None, dec_zero, [INSUFFICIENT_PROJECTION_EVIDENCE]))))"

definition reported_venue :: "execution_fact \<Rightarrow> fact_resolution \<Rightarrow> (source_namespace \<times> venue_order_id) option" where
  "reported_venue f rs = (case (ef_venue_order f, rs_selected rs) of
      (Some v, Some x) \<Rightarrow>
        if rs_staged rs \<noteq> None \<or> list_ex (\<lambda>(k, i). k = KEY_VENUE_ORDER \<and> i = Some (or_id x)) (rs_bindings rs)
        then Some (ef_namespace f, v) else None
    | _ \<Rightarrow> None)"

definition projection_venue ::
  "projection option \<Rightarrow> execution_fact \<Rightarrow> fact_resolution \<Rightarrow> (source_namespace \<times> venue_order_id) option" where
  "projection_venue before f rs =
     (case before of
        Some p \<Rightarrow> (case pj_venue p of Some pair \<Rightarrow> Some pair | None \<Rightarrow> reported_venue f rs)
      | None \<Rightarrow> reported_venue f rs)"

definition transition_allowed :: "projection_state \<Rightarrow> projection_state \<Rightarrow> bool" where
  "transition_allowed s t \<longleftrightarrow> t = s \<or> t \<in> set (allowed_transitions s)"

text \<open>The successor of a projection whose target is admissible: a new version when anything changes.\<close>

definition advance_projection ::
  "stdlib \<Rightarrow> fact_authority \<Rightarrow> execution_fact \<Rightarrow> fact_resolution \<Rightarrow> order \<Rightarrow> projection option
   \<Rightarrow> projection_state \<Rightarrow> canonical_decimal \<Rightarrow> projection option result" where
  "advance_projection std a f rs od before s q =
     (let venue = projection_venue before f rs;
          change = (case before of None \<Rightarrow> True
            | Some p \<Rightarrow> pj_state p \<noteq> s \<or> pj_quantity p \<noteq> q \<or> pj_venue p \<noteq> venue)
      in if \<not> change then Inr None
         else bind_res (case before of None \<Rightarrow> Inr 1 | Some p \<Rightarrow> advance_required (pj_version p)) (\<lambda>version.
           bind_res (create_order_projection_snapshot std od (fa_specs a) version s q
               (map_option fst venue) (map_option snd venue) (fact_dedup_key_of f) (execution_fact_digest std f))
             (\<lambda>p. Inr (Some p))))"

definition project_fact ::
  "stdlib \<Rightarrow> fact_authority \<Rightarrow> execution_fact \<Rightarrow> fill option \<Rightarrow> fact_resolution \<Rightarrow> fact_anomaly list
   \<Rightarrow> projection_result result" where
  "project_fact std a f fl rs inherited = (case rs_selected rs of
      None \<Rightarrow> Inr \<lparr>pr_before = None, pr_after = None, pr_new = None, pr_observed = None, pr_anomalies = []\<rparr>
    | Some od \<Rightarrow>
        let before = fs_projection_index (fa_state a) (or_id od) in
        if ORDER_BINDING_CONFLICT \<in> set inherited
        then Inr \<lparr>pr_before = before, pr_after = before, pr_new = None, pr_observed = None, pr_anomalies = []\<rparr>
        else bind_res (case fl of None \<Rightarrow> Inr (observed_in (fa_state a) (or_id od))
               | Some x \<Rightarrow> add_quantities (observed_in (fa_state a) (or_id od)) (fl_quantity x)) (\<lambda>observed.
          let (target, q, anomalies) = projection_target f od observed;
              unchanged = (\<lambda>xs. Inr \<lparr>pr_before = before, pr_after = before, pr_new = None,
                pr_observed = Some observed, pr_anomalies = xs\<rparr>)
          in if (case before of None \<Rightarrow> False | Some p \<Rightarrow> is_terminal p)
             then unchanged (anomalies @ (if ef_kind f = TRADE then [LATE_AFTER_TERMINAL]
                    else if target \<noteq> None \<and> target \<noteq> map_option pj_state before then [TERMINAL_STATE_CONFLICT] else []))
             else (case target of
                 None \<Rightarrow> unchanged anomalies
               | Some s \<Rightarrow>
                   if (case before of None \<Rightarrow> False | Some p \<Rightarrow> \<not> transition_allowed (pj_state p) s)
                   then unchanged (anomalies @ [PROJECTION_TRANSITION_CONFLICT])
                   else bind_res (advance_projection std a f rs od before s q) (\<lambda>new.
                     case new of
                       None \<Rightarrow> unchanged anomalies
                     | Some p \<Rightarrow> Inr \<lparr>pr_before = before, pr_after = Some p, pr_new = Some p,
                         pr_observed = Some observed, pr_anomalies = anomalies\<rparr>))))"

section \<open>Publication\<close>

fun insert_derived_orders ::
  "stdlib \<Rightarrow> (economic_id \<rightharpoonup> order) \<times> (sha256_digest \<rightharpoonup> order) \<Rightarrow> order list
   \<Rightarrow> ((economic_id \<rightharpoonup> order) \<times> (sha256_digest \<rightharpoonup> order)) result" where
  "insert_derived_orders std m [] = Inr m"
| "insert_derived_orders std (by_id, by_key) (x # xs) =
     guard_res ((case by_id (or_id x) of None \<Rightarrow> False
           | Some y \<Rightarrow> canonical_order_bytes std y \<noteq> canonical_order_bytes std x)
         \<or> (case by_key (order_client_submission_key std x) of None \<Rightarrow> False
           | Some y \<Rightarrow> canonical_order_bytes std y \<noteq> canonical_order_bytes std x)) (fact_error CONFLICTING_ID)
       (insert_derived_orders std (by_id(or_id x \<mapsto> x), by_key(order_client_submission_key std x \<mapsto> x)) xs)"

text \<open>\<open>_preflight_candidate\<close>, \<open>_preflight_fill\<close>, \<open>_preflight_projection\<close>.\<close>

definition preflight_candidate ::
  "stdlib \<Rightarrow> fact_state \<Rightarrow> ingress_identity \<Rightarrow> execution_fact_ingress \<Rightarrow> fact_outcome \<Rightarrow> fill option
   \<Rightarrow> projection option \<Rightarrow> bool" where
  "preflight_candidate std st i g v fl new \<longleftrightarrow>
     (case fs_ingress_index st i of None \<Rightarrow> False | Some r \<Rightarrow> ir_outcome r = v)
     \<and> fs_ingresses st \<noteq> [] \<and> last (fs_ingresses st) = g \<and> fs_outcomes st \<noteq> [] \<and> last (fs_outcomes st) = v
     \<and> canonical_fact_outcome_bytes v \<noteq> []
     \<and> (case fl of None \<Rightarrow> True | Some x \<Rightarrow> canonical_fill_bytes std x \<noteq> [])
     \<and> (case new of None \<Rightarrow> True | Some p \<Rightarrow> canonical_projection_bytes p \<noteq> [])"

definition publish_short_circuit ::
  "stdlib \<Rightarrow> fact_authority \<Rightarrow> execution_fact_ingress \<Rightarrow> ingress_identity \<Rightarrow> string \<Rightarrow> string \<Rightarrow> int \<Rightarrow> fact_action
   \<Rightarrow> (fact_state \<times> fact_outcome) result" where
  "publish_short_circuit std a g i ingress_bytes fact_bytes dispatch act =
     bind_res (create_fact_outcome std (fa_run a) dispatch g act [] [] None None None None) (\<lambda>v.
     let st = fa_state a;
         st' = st\<lparr>fs_halt := fs_halt st \<or> act = FA_CONFLICT,
           fs_ingress_index := (fs_ingress_index st)(i \<mapsto> \<lparr>ir_ingress = g, ir_ingress_bytes = ingress_bytes,
             ir_fact_bytes = fact_bytes, ir_outcome = v\<rparr>),
           fs_ingresses := fs_ingresses st @ [g], fs_outcomes := fs_outcomes st @ [v]\<rparr>
     in guard_res (\<not> preflight_candidate std st' i g v None None) AssertionError (Inr (st', v)))"

definition publish_first_fact ::
  "stdlib \<Rightarrow> fact_authority \<Rightarrow> execution_fact_ingress \<Rightarrow> ingress_identity \<Rightarrow> string \<Rightarrow> string \<Rightarrow> int \<Rightarrow> fact_action
   \<Rightarrow> fact_anomaly list \<Rightarrow> fact_resolution \<Rightarrow> fill option \<Rightarrow> projection_result \<Rightarrow> int option
   \<Rightarrow> (fact_state \<times> fact_outcome) result" where
  "publish_first_fact std a g i ingress_bytes fact_bytes dispatch act anomalies rs fl pr fill_after =
     bind_res (create_fact_outcome std (fa_run a) dispatch g act anomalies (rs_bindings rs) (rs_selected rs) fl
         (pr_before pr) (pr_after pr)) (\<lambda>v.
     let st = fa_state a in
     bind_res (insert_derived_orders std (fs_order_index st, fs_client_index st) (rs_orders rs)) (\<lambda>(by_id, by_key).
     let st' = \<lparr>
           fs_fill_next = (if fl = None then fs_fill_next st else fill_after),
           fs_halt = (fs_halt st \<or> act \<in> {FA_INVALID, FA_UNRESOLVED, FA_CONFLICT}),
           fs_ingress_index = (fs_ingress_index st)(i \<mapsto> \<lparr>ir_ingress = g, ir_ingress_bytes = ingress_bytes,
             ir_fact_bytes = fact_bytes, ir_outcome = v\<rparr>),
           fs_fact_index = (fs_fact_index st)(fact_dedup_key_of (ig_fact g) \<mapsto>
             \<lparr>fr_fact = ig_fact g, fr_bytes = fact_bytes, fr_first_ingress = i\<rparr>),
           fs_fill_index = (case fl of None \<Rightarrow> fs_fill_index st | Some x \<Rightarrow> (fs_fill_index st)(fl_id x \<mapsto> x)),
           fs_order_index = by_id, fs_client_index = by_key,
           fs_venue_index = (case (rs_staged rs, rs_selected rs) of
               (Some k, Some x) \<Rightarrow>
                 if ORDER_BINDING_CONFLICT \<notin> set anomalies \<and> UNKNOWN_ORDER \<notin> set anomalies
                 then AList.update k x (fs_venue_index st) else fs_venue_index st
             | _ \<Rightarrow> fs_venue_index st),
           fs_projection_index = (case (pr_new pr, rs_selected rs) of
               (Some p, Some x) \<Rightarrow> (fs_projection_index st)(or_id x \<mapsto> p) | _ \<Rightarrow> fs_projection_index st),
           fs_history_index = (case (pr_new pr, rs_selected rs) of
               (Some p, Some x) \<Rightarrow> (fs_history_index st)((or_id x, projection_digest std p) \<mapsto> p)
             | _ \<Rightarrow> fs_history_index st),
           fs_observed = (case (pr_observed pr, rs_selected rs) of
               (Some q, Some x) \<Rightarrow> (fs_observed st)(or_id x \<mapsto> q) | _ \<Rightarrow> fs_observed st),
           fs_ingresses = fs_ingresses st @ [g], fs_outcomes = fs_outcomes st @ [v],
           fs_first_facts = fs_first_facts st @ [ig_fact g],
           fs_fills = (case fl of None \<Rightarrow> fs_fills st | Some x \<Rightarrow> fs_fills st @ [x]),
           fs_projections = (case (pr_new pr, rs_selected rs) of
               (Some p, Some x) \<Rightarrow> fs_projections st @ [p] | _ \<Rightarrow> fs_projections st)\<rparr>
     in guard_res (\<not> preflight_candidate std st' i g v fl (pr_new pr)) AssertionError (Inr (st', v))))"

section \<open>Processing an ingress\<close>

definition require_active_dispatch ::
  "fact_ports \<Rightarrow> ingress_identity \<Rightarrow> string \<Rightarrow> string \<Rightarrow> int result" where
  "require_active_dispatch ports i ingress_bytes fact_bytes = (case po_dispatch ports i ingress_bytes fact_bytes of
      None \<Rightarrow> Inl (fact_error CONFLICTING_ID)
    | Some n \<Rightarrow> guard_res (\<not> (1 \<le> n \<and> n \<le> MAX_UINT64)) (fact_error OUT_OF_RANGE) (Inr n))"

definition no_resolution :: fact_resolution where
  "no_resolution = \<lparr>rs_bindings = [], rs_selected = None, rs_orders = [], rs_staged = None, rs_anomalies = []\<rparr>"

definition no_projection :: projection_result where
  "no_projection = \<lparr>pr_before = None, pr_after = None, pr_new = None, pr_observed = None, pr_anomalies = []\<rparr>"

definition fill_missing_ancestry :: "fill option \<Rightarrow> bool" where
  "fill_missing_ancestry fl \<longleftrightarrow> (case fl of None \<Rightarrow> False
     | Some x \<Rightarrow> fl_order x = None \<or> fl_correlation x = None \<or> fl_causation x = None)"

definition inherited_anomalies :: "fact_resolution \<Rightarrow> fill option \<Rightarrow> fact_anomaly list" where
  "inherited_anomalies rs fl = rs_anomalies rs @ (if fill_missing_ancestry fl then [MISSING_ANCESTRY] else [])"

definition process_first_fact ::
  "stdlib \<Rightarrow> fact_ports \<Rightarrow> fact_authority \<Rightarrow> execution_fact_ingress \<Rightarrow> ingress_identity \<Rightarrow> string \<Rightarrow> string \<Rightarrow> int
   \<Rightarrow> (fact_state \<times> fact_outcome) result" where
  "process_first_fact std ports a g i ingress_bytes fact_bytes dispatch =
     (if \<not> is_context_valid std a g
      then publish_first_fact std a g i ingress_bytes fact_bytes dispatch FA_INVALID [CONTEXT_INVALID]
        no_resolution None no_projection None
      else bind_res (resolve_orders std ports a g) (\<lambda>rs.
        bind_res (build_fill std a g) (\<lambda>(fl, fill_after).
        bind_res (project_fact std a (ig_fact g) fl rs (inherited_anomalies rs fl)) (\<lambda>pr.
        let anomalies = sort_key anomaly_rank (remdups (inherited_anomalies rs fl @ pr_anomalies pr));
            act = (if anomalies = [] then FA_ACCEPTED else FA_UNRESOLVED)
        in publish_first_fact std a g i ingress_bytes fact_bytes dispatch act anomalies rs fl pr fill_after))))"

definition plan_ingress ::
  "stdlib \<Rightarrow> fact_ports \<Rightarrow> fact_authority \<Rightarrow> execution_fact_ingress \<Rightarrow> (fact_state \<times> fact_outcome) result" where
  "plan_ingress std ports a g =
     (let ingress_bytes = canonical_execution_fact_ingress_bytes std g;
          fact_bytes = canonical_execution_fact_bytes std (ig_fact g);
          st = fa_state a
      in bind_res (ingress_identity_of g) (\<lambda>i.
         case fs_ingress_index st i of
           Some r \<Rightarrow> guard_res (\<not> (ir_ingress_bytes r = ingress_bytes \<and> ir_fact_bytes r = fact_bytes))
             (fact_error CONFLICTING_ID) (Inr (st, ir_outcome r))
         | None \<Rightarrow>
             bind_res (require_active_dispatch ports i ingress_bytes fact_bytes) (\<lambda>dispatch.
             case fs_fact_index st (fact_dedup_key_of (ig_fact g)) of
               Some r \<Rightarrow> publish_short_circuit std a g i ingress_bytes fact_bytes dispatch
                 (if fr_bytes r = fact_bytes then FA_DUPLICATE else FA_CONFLICT)
             | None \<Rightarrow> process_first_fact std ports a g i ingress_bytes fact_bytes dispatch)))"

definition process_ingress ::
  "stdlib \<Rightarrow> fact_ports \<Rightarrow> fact_authority \<Rightarrow> execution_fact_ingress \<Rightarrow> fact_authority \<times> fact_outcome result" where
  "process_ingress std ports a g = (case map_exn fact_raise_public (plan_ingress std ports a g) of
      Inl e \<Rightarrow> (a, Inl e)
    | Inr (st, v) \<Rightarrow> (a\<lparr>fa_state := st\<rparr>, Inr v))"

end
