(* ===== verification/Fact_Laws.thy ===== *)
theory Fact_Laws
  imports Fact_Authority Ledger_Laws
begin

text \<open>
  What one call of the fact authority does: the branches of \<open>process_ingress\<close>,
  the pieces of a published fact, and how a projection and an observed quantity
  come out of them.
\<close>

section \<open>The branches of an operation\<close>

definition first_plan ::
  "stdlib \<Rightarrow> fact_ports \<Rightarrow> fact_authority \<Rightarrow> execution_fact_ingress \<Rightarrow> fact_action \<Rightarrow> fact_anomaly list
   \<Rightarrow> fact_resolution \<Rightarrow> fill option \<Rightarrow> projection_result \<Rightarrow> int option \<Rightarrow> bool" where
  "first_plan std ports a g act anomalies rs fl pr fill_after \<longleftrightarrow>
     (if is_context_valid std a g
      then resolve_orders std ports a g = Inr rs \<and> build_fill std a g = Inr (fl, fill_after)
        \<and> project_fact std a (ig_fact g) fl rs (inherited_anomalies rs fl) = Inr pr
        \<and> anomalies = sort_key anomaly_rank (remdups (inherited_anomalies rs fl @ pr_anomalies pr))
        \<and> act = (if anomalies = [] then FA_ACCEPTED else FA_UNRESOLVED)
      else act = FA_INVALID \<and> anomalies = [CONTEXT_INVALID] \<and> rs = no_resolution \<and> fl = None
        \<and> pr = no_projection \<and> fill_after = None)"

lemma process_first_Inr:
  assumes "process_first_fact std ports a g i ib fb n = Inr r"
  obtains act anomalies rs fl pr fill_after where
    "first_plan std ports a g act anomalies rs fl pr fill_after"
    "publish_first_fact std a g i ib fb n act anomalies rs fl pr fill_after = Inr r"
proof (cases "is_context_valid std a g")
  case True
  then obtain rs fl fill_after pr where "resolve_orders std ports a g = Inr rs" "build_fill std a g = Inr (fl, fill_after)"
    "project_fact std a (ig_fact g) fl rs (inherited_anomalies rs fl) = Inr pr"
    and p: "publish_first_fact std a g i ib fb n
      (if sort_key anomaly_rank (remdups (inherited_anomalies rs fl @ pr_anomalies pr)) = [] then FA_ACCEPTED else FA_UNRESOLVED)
      (sort_key anomaly_rank (remdups (inherited_anomalies rs fl @ pr_anomalies pr))) rs fl pr fill_after = Inr r"
    using assms by (auto simp: process_first_fact_def Let_def)
  then show thesis using True by (intro that [OF _ p]) (simp add: first_plan_def)
next
  case False
  then have p: "publish_first_fact std a g i ib fb n FA_INVALID [CONTEXT_INVALID] no_resolution None no_projection None = Inr r"
    using assms by (simp add: process_first_fact_def)
  show thesis using False by (intro that [OF _ p]) (simp add: first_plan_def)
qed

lemma process_cases:
  assumes "process_ingress std ports a g = (a', r)"
  obtains (failed) e where "a' = a" "r = Inl e"
  | (replayed) i x where "a' = a" "ingress_identity_of g = Inr i" "fs_ingress_index (fa_state a) i = Some x"
      "ir_ingress_bytes x = canonical_execution_fact_ingress_bytes std g"
      "ir_fact_bytes x = canonical_execution_fact_bytes std (ig_fact g)" "r = Inr (ir_outcome x)"
  | (short) i n x st v where "ingress_identity_of g = Inr i" "fs_ingress_index (fa_state a) i = None"
      "po_dispatch ports i (canonical_execution_fact_ingress_bytes std g)
         (canonical_execution_fact_bytes std (ig_fact g)) = Some n"
      "fs_fact_index (fa_state a) (fact_dedup_key_of (ig_fact g)) = Some x"
      "publish_short_circuit std a g i (canonical_execution_fact_ingress_bytes std g)
         (canonical_execution_fact_bytes std (ig_fact g)) n
         (if fr_bytes x = canonical_execution_fact_bytes std (ig_fact g) then FA_DUPLICATE else FA_CONFLICT) = Inr (st, v)"
      "a' = a\<lparr>fa_state := st\<rparr>" "r = Inr v"
  | (first) i n act anomalies rs fl pr fill_after st v where "ingress_identity_of g = Inr i"
      "fs_ingress_index (fa_state a) i = None"
      "po_dispatch ports i (canonical_execution_fact_ingress_bytes std g)
         (canonical_execution_fact_bytes std (ig_fact g)) = Some n"
      "fs_fact_index (fa_state a) (fact_dedup_key_of (ig_fact g)) = None"
      "first_plan std ports a g act anomalies rs fl pr fill_after"
      "publish_first_fact std a g i (canonical_execution_fact_ingress_bytes std g)
         (canonical_execution_fact_bytes std (ig_fact g)) n act anomalies rs fl pr fill_after = Inr (st, v)"
      "a' = a\<lparr>fa_state := st\<rparr>" "r = Inr v"
proof (cases "plan_ingress std ports a g")
  case (Inl e)
  then show thesis using assms failed by (auto simp: process_ingress_def)
next
  case (Inr sv)
  obtain st v where sv: "sv = (st, v)" by fastforce
  have res: "a' = a\<lparr>fa_state := st\<rparr>" "r = Inr v" using assms Inr sv by (auto simp: process_ingress_def)
  let ?ib = "canonical_execution_fact_ingress_bytes std g" and ?fb = "canonical_execution_fact_bytes std (ig_fact g)"
  obtain i where i: "ingress_identity_of g = Inr i"
    using Inr by (auto simp: plan_ingress_def Let_def)
  show thesis
  proof (cases "fs_ingress_index (fa_state a) i")
    case (Some x)
    then have "ir_ingress_bytes x = ?ib" "ir_fact_bytes x = ?fb" "st = fa_state a" "v = ir_outcome x"
      using Inr sv i by (auto simp: plan_ingress_def Let_def)
    then show thesis using replayed [of i x] res i Some by simp
  next
    case None
    obtain n where n: "po_dispatch ports i ?ib ?fb = Some n"
      using Inr i None by (auto simp: plan_ingress_def Let_def require_active_dispatch_def split: option.splits)
    show thesis
    proof (cases "fs_fact_index (fa_state a) (fact_dedup_key_of (ig_fact g))")
      case (Some x)
      then show thesis using short [of i n x st v] Inr sv i None n res
        by (auto simp: plan_ingress_def Let_def require_active_dispatch_def)
    next
      case n2: None
      have "process_first_fact std ports a g i ?ib ?fb n = Inr (st, v)"
        using Inr sv i None n n2 by (auto simp: plan_ingress_def Let_def require_active_dispatch_def)
      then show thesis
        by (rule process_first_Inr) (rule first [OF i None n n2 _ _ res])
    qed
  qed
qed

lemma process_error_keeps: "process_ingress std ports a g = (a', Inl e) \<Longrightarrow> a' = a"
  by (erule process_cases) auto

section \<open>What is published\<close>

lemma create_outcome_Inr:
  assumes "create_fact_outcome std r n g act anomalies bindings od fl before after = Inr v"
  shows "fo_action v = act" "fo_anomalies v = anomalies" "fo_resolutions v = bindings"
    "fo_resolved_order v = map_option or_id od" "fo_fill v = map_option (\<lambda>x. (fl_id x, fill_digest std x)) fl"
    "fo_run v = r" "fo_dispatch v = n" "fo_fact_key v = fact_dedup_key_of (ig_fact g)"
    "fo_code v = action_outcome act" "fo_halt v \<longleftrightarrow> act \<in> {FA_CONFLICT, FA_INVALID, FA_UNRESOLVED}"
    "fo_reconcile v \<longleftrightarrow> fo_halt v"
    "action_anomalies_ok act anomalies" "resolution_tuple_ok (ig_fact g) act bindings"
    "fill_context_ok std r (ig_fact g) act fl" "1 \<le> n" "n \<le> MAX_UINT64"
    "fo_before_sha256 v = map_option (projection_digest std) before"
    "fo_after_sha256 v = map_option (projection_digest std) after"
    "ingress_identity_of g = Inr (fo_ingress v)" "fo_fact_sha256 v = execution_fact_digest std (ig_fact g)"
  using assms by (auto simp: create_fact_outcome_def Let_def ingress_identity_of_def)

lemma publish_short_Inr:
  assumes "publish_short_circuit std a g i ib fb n act = Inr (st, v)"
  shows "create_fact_outcome std (fa_run a) n g act [] [] None None None None = Inr v"
    "st = (fa_state a)\<lparr>fs_halt := fs_halt (fa_state a) \<or> act = FA_CONFLICT,
           fs_ingress_index := (fs_ingress_index (fa_state a))(i \<mapsto> \<lparr>ir_ingress = g, ir_ingress_bytes = ib,
             ir_fact_bytes = fb, ir_outcome = v\<rparr>),
           fs_ingresses := fs_ingresses (fa_state a) @ [g], fs_outcomes := fs_outcomes (fa_state a) @ [v]\<rparr>"
  using assms by (auto simp: publish_short_circuit_def Let_def)

lemma publish_first_Inr:
  assumes "publish_first_fact std a g i ib fb n act anomalies rs fl pr fill_after = Inr (st, v)"
  shows "create_fact_outcome std (fa_run a) n g act anomalies (rs_bindings rs) (rs_selected rs) fl (pr_before pr) (pr_after pr) = Inr v"
    "fs_fill_next st = (if fl = None then fs_fill_next (fa_state a) else fill_after)"
    "fs_halt st \<longleftrightarrow> fs_halt (fa_state a) \<or> act \<in> {FA_INVALID, FA_UNRESOLVED, FA_CONFLICT}"
    "fs_ingress_index st = (fs_ingress_index (fa_state a))(i \<mapsto> \<lparr>ir_ingress = g, ir_ingress_bytes = ib,
             ir_fact_bytes = fb, ir_outcome = v\<rparr>)"
    "fs_fact_index st = (fs_fact_index (fa_state a))(fact_dedup_key_of (ig_fact g) \<mapsto>
             \<lparr>fr_fact = ig_fact g, fr_bytes = fb, fr_first_ingress = i\<rparr>)"
    "fs_projection_index st = (case (pr_new pr, rs_selected rs) of
               (Some p, Some x) \<Rightarrow> (fs_projection_index (fa_state a))(or_id x \<mapsto> p) | _ \<Rightarrow> fs_projection_index (fa_state a))"
    "fs_observed st = (case (pr_observed pr, rs_selected rs) of
               (Some q, Some x) \<Rightarrow> (fs_observed (fa_state a))(or_id x \<mapsto> q) | _ \<Rightarrow> fs_observed (fa_state a))"
    "fs_outcomes st = fs_outcomes (fa_state a) @ [v]"
    "fs_fills st = fs_fills (fa_state a) @ (case fl of None \<Rightarrow> [] | Some x \<Rightarrow> [x])"
    "fs_projections st = fs_projections (fa_state a) @ (case (pr_new pr, rs_selected rs) of
               (Some p, Some x) \<Rightarrow> [p] | _ \<Rightarrow> [])"
  using assms unfolding publish_first_fact_def Let_def
  by (auto split: option.splits)

section \<open>Resolution, fills, projections\<close>

lemma add_quantities_spec:
  assumes "add_quantities a b = Inr d"
  shows "wf_dec d" "dval d = dval a + dval b"
  using assms add_decimal_spec [of a b d] by (simp_all add: add_quantities_def add_decimal_def)

lemma build_fill_Some:
  assumes "build_fill std a g = Inr (Some x, fill_after)"
  obtains n where "fs_fill_next (fa_state a) = Some n" "1 \<le> n" "n \<le> MAX_UINT64"
    "fill_after = (if n = MAX_UINT64 then None else Some (n + 1))"
    "fl_id x = \<lparr>run_id = fa_run a, owner_kind = EXECUTION_FILL, owner_sequence = n\<rparr>"
    "fact_key x = fact_dedup_key_of (ig_fact g)" "ef_kind (ig_fact g) = TRADE"
    "create_fill std (fl_id x) (ig_fact g) (fa_specs a) = Inr x"
  using assms
  by (auto simp: build_fill_def make_economic_id_def fact_advance_def create_fill_def fact_key_def
      fact_dedup_key_of_def split: if_splits option.splits fact_payload.splits)

lemma build_fill_None: "build_fill std a g = Inr (None, fill_after) \<Longrightarrow> fill_after = fs_fill_next (fa_state a)"
  by (auto simp: build_fill_def split: if_splits option.splits)

lemma projection_target_anomalies:
  "projection_target f od q = (t, q', xs) \<Longrightarrow> ORDER_BINDING_CONFLICT \<notin> set xs \<and> UNKNOWN_ORDER \<notin> set xs"
  by (auto simp: projection_target_def split: if_splits option.splits fact_payload.splits)

lemma advance_projection_Some:
  assumes "advance_projection std a f rs od before s q = Inr (Some p)"
  shows "pj_order p = or_id od" "pj_order_sha256 p = order_digest std od" "pj_state p = s" "pj_quantity p = q"
    "pj_version p = (case before of None \<Rightarrow> 1 | Some b \<Rightarrow> pj_version b + 1)"
    "1 \<le> pj_version p" "pj_version p \<le> MAX_UINT64" "projection_quantity_ok s q od"
    "pj_submission_key p = order_client_submission_key std od" "pj_last_key p = fact_dedup_key_of f"
  using assms
  by (auto simp: advance_projection_def Let_def create_order_projection_snapshot_def advance_required_def
      fact_advance_def split: if_splits option.splits)

lemma project_None: "rs_selected rs = None \<Longrightarrow> project_fact std a f fl rs inh = Inr pr \<Longrightarrow>
    pr_before pr = None \<and> pr_after pr = None \<and> pr_new pr = None \<and> pr_observed pr = None \<and> pr_anomalies pr = []"
  by (auto simp: project_fact_def)

lemma project_conflict:
  assumes "rs_selected rs = Some od" "ORDER_BINDING_CONFLICT \<in> set inh" "project_fact std a f fl rs inh = Inr pr"
  shows "pr_before pr = fs_projection_index (fa_state a) (or_id od)" "pr_after pr = pr_before pr" "pr_new pr = None"
    "pr_observed pr = None" "pr_anomalies pr = []"
  using assms by (auto simp: project_fact_def Let_def)

text \<open>Away from a binding conflict: the observed quantity grows by the fill, the projection may advance.\<close>

lemma project_Some:
  assumes "rs_selected rs = Some od" "ORDER_BINDING_CONFLICT \<notin> set inh" "project_fact std a f fl rs inh = Inr pr"
  obtains q t q' xs where "pr_before pr = fs_projection_index (fa_state a) (or_id od)" "pr_observed pr = Some q"
    "dval q = dval (observed_in (fa_state a) (or_id od)) + (case fl of None \<Rightarrow> 0 | Some x \<Rightarrow> dval (fl_quantity x))"
    "projection_target f od q = (t, q', xs)" "set xs \<subseteq> set (pr_anomalies pr)"
    "ORDER_BINDING_CONFLICT \<notin> set (pr_anomalies pr)"
    "(pr_new pr = None \<and> pr_after pr = pr_before pr)
     \<or> (\<exists>p s. pr_new pr = Some p \<and> pr_after pr = Some p \<and> t = Some s \<and> pr_anomalies pr = xs
          \<and> advance_projection std a f rs od (pr_before pr) s q' = Inr (Some p)
          \<and> (\<forall>b. pr_before pr = Some b \<longrightarrow> \<not> is_terminal b \<and> transition_allowed (pj_state b) s))"
    "pr_anomalies pr = [] \<Longrightarrow> pr_new pr = None \<Longrightarrow> (\<exists>b. pr_before pr = Some b \<and> t = Some (pj_state b) \<and> pj_quantity b = q')
       \<or> (t = None \<and> ef_kind f \<noteq> TRADE)
       \<or> (\<exists>b. pr_before pr = Some b \<and> is_terminal b \<and> ef_kind f \<noteq> TRADE)"
proof -
  define before where "before = fs_projection_index (fa_state a) (or_id od)"
  define obs where "obs = (case fl of None \<Rightarrow> Inr (observed_in (fa_state a) (or_id od))
               | Some x \<Rightarrow> add_quantities (observed_in (fa_state a) (or_id od)) (fl_quantity x))"
  obtain q where q: "obs = Inr q" using assms by (auto simp: project_fact_def obs_def Let_def)
  obtain t q' xs where t: "projection_target f od q = (t, q', xs)" by (rule prod_cases3)
  define unchanged :: "fact_anomaly list \<Rightarrow> projection_result" where "unchanged = (\<lambda>ys. \<lparr>pr_before = before, pr_after = before, pr_new = None, pr_observed = Some q, pr_anomalies = ys\<rparr>)"
  have pr: "(if (case before of None \<Rightarrow> False | Some p \<Rightarrow> is_terminal p)
             then Inr (unchanged (xs @ (if ef_kind f = TRADE then [LATE_AFTER_TERMINAL]
                    else if t \<noteq> None \<and> t \<noteq> map_option pj_state before then [TERMINAL_STATE_CONFLICT] else [])))
             else (case t of
                 None \<Rightarrow> Inr (unchanged xs)
               | Some s \<Rightarrow>
                   if (case before of None \<Rightarrow> False | Some p \<Rightarrow> \<not> transition_allowed (pj_state p) s)
                   then Inr (unchanged (xs @ [PROJECTION_TRANSITION_CONFLICT]))
                   else bind_res (advance_projection std a f rs od before s q') (\<lambda>new.
                     case new of
                       None \<Rightarrow> Inr (unchanged xs)
                     | Some p \<Rightarrow> Inr \<lparr>pr_before = before, pr_after = Some p, pr_new = Some p,
                         pr_observed = Some q, pr_anomalies = xs\<rparr>))) = Inr pr"
    using assms(3) q t unfolding project_fact_def assms(1) option.case Let_def
      obs_def [symmetric] before_def [symmetric] unchanged_def
    by (simp only: assms(2) if_False bind_res_simps prod.case cong: if_cong option.case_cong)
  note anoms = projection_target_anomalies [OF t]
  have d: "dval q = dval (observed_in (fa_state a) (or_id od)) + (case fl of None \<Rightarrow> 0 | Some x \<Rightarrow> dval (fl_quantity x))"
    using q by (auto simp: obs_def add_quantities_spec split: option.splits)
  have noadv: "\<exists>b. before = Some b \<and> pj_state b = s \<and> pj_quantity b = q'"
    if "advance_projection std a f rs od before s q' = Inr None" for s
    using that by (cases before) (auto simp: advance_projection_def Let_def split: if_splits)
  have tnone: "ef_kind f \<noteq> TRADE" if "t = None" using t that by (auto simp: projection_target_def split: if_splits)
  let ?C = "(\<exists>b. before = Some b \<and> t = Some (pj_state b) \<and> pj_quantity b = q')
    \<or> (t = None \<and> ef_kind f \<noteq> TRADE) \<or> (\<exists>b. before = Some b \<and> is_terminal b \<and> ef_kind f \<noteq> TRADE)"
  have "(\<exists>ys. pr = unchanged (xs @ ys) \<and> ORDER_BINDING_CONFLICT \<notin> set ys \<and> (ys = [] \<longrightarrow> ?C))
    \<or> (\<exists>p s. t = Some s \<and> advance_projection std a f rs od before s q' = Inr (Some p)
        \<and> pr = \<lparr>pr_before = before, pr_after = Some p, pr_new = Some p, pr_observed = Some q, pr_anomalies = xs\<rparr>
        \<and> (\<forall>b. before = Some b \<longrightarrow> \<not> is_terminal b \<and> transition_allowed (pj_state b) s))"
  proof (cases "case before of None \<Rightarrow> False | Some p \<Rightarrow> is_terminal p")
    case True
    then obtain b where b: "before = Some b" "is_terminal b" by (cases before) auto
    let ?ys = "if ef_kind f = TRADE then [LATE_AFTER_TERMINAL]
         else if t \<noteq> None \<and> t \<noteq> map_option pj_state before then [TERMINAL_STATE_CONFLICT] else []"
    have "pr = unchanged (xs @ ?ys)" using pr True by simp
    then show ?thesis using b by (intro disjI1 exI [of _ ?ys]) auto
  next
    case False
    show ?thesis
    proof (cases t)
      case None
      then have "pr = unchanged (xs @ [])" using pr False by simp
      then show ?thesis using None tnone by (intro disjI1 exI [of _ "[]"]) auto
    next
      case (Some s)
      show ?thesis
      proof (cases "case before of None \<Rightarrow> False | Some p \<Rightarrow> \<not> transition_allowed (pj_state p) s")
        case True
        then have "pr = unchanged (xs @ [PROJECTION_TRANSITION_CONFLICT])" using pr False Some by simp
        then show ?thesis by (intro disjI1 exI [of _ "[PROJECTION_TRANSITION_CONFLICT]"]) auto
      next
        case allowed: False
        then obtain new where new: "advance_projection std a f rs od before s q' = Inr new"
          using pr False Some by auto
        show ?thesis
        proof (cases new)
          case None
          then have "pr = unchanged (xs @ [])" using pr False Some allowed new by simp
          then show ?thesis using noadv [of s] new None Some by (intro disjI1 exI [of _ "[]"]) auto
        next
          case (Some p)
          then have "pr = \<lparr>pr_before = before, pr_after = Some p, pr_new = Some p, pr_observed = Some q, pr_anomalies = xs\<rparr>"
            using pr False \<open>t = Some s\<close> allowed new by simp
          then show ?thesis using new Some \<open>t = Some s\<close> False allowed
            by (intro disjI2 exI [of _ p] exI [of _ s]) (auto split: option.splits)
        qed
      qed
    qed
  qed
  then show thesis
  proof (elim disjE exE conjE)
    fix ys assume "pr = unchanged (xs @ ys)" "ORDER_BINDING_CONFLICT \<notin> set ys" "ys = [] \<longrightarrow> ?C"
    then show thesis using d t anoms by (intro that [of q t q' xs]) (auto simp: unchanged_def before_def)
  next
    fix p s assume n: "t = Some s" "advance_projection std a f rs od before s q' = Inr (Some p)"
      "pr = \<lparr>pr_before = before, pr_after = Some p, pr_new = Some p, pr_observed = Some q, pr_anomalies = xs\<rparr>"
      "\<forall>b. before = Some b \<longrightarrow> \<not> is_terminal b \<and> transition_allowed (pj_state b) s"
    show thesis
      by (rule that [of q t q' xs]) (use n(1,2,4) d t anoms in \<open>simp_all add: n(3) before_def [symmetric]\<close>)
  qed
qed

end
