(* ===== verification/Fact_Runs.thy ===== *)
theory Fact_Runs
  imports Fact_Laws Authority
begin

text \<open>
  Runs of the fact authority: any list of submitted ingresses, each with the
  ports as they answer at that moment. The invariants say that projections only
  move along the allowed transitions within the bounds of their order, that
  every observed quantity is the sum of the fills credited to the order, and
  that every fact is judged once.
\<close>

definition process_all :: "stdlib \<Rightarrow> fact_authority \<Rightarrow> (fact_ports \<times> execution_fact_ingress) list \<Rightarrow> fact_authority" where
  "process_all std a calls = foldl (\<lambda>a (ports, g). fst (process_ingress std ports a g)) a calls"

lemma process_all_simps [simp]:
  "process_all std a [] = a" "process_all std a (c # cs) = process_all std (fst (process_ingress std (fst c) a (snd c))) cs"
  "process_all std a (cs @ ds) = process_all std (process_all std a cs) ds"
  by (simp_all add: process_all_def case_prod_beta)

lemma process_all_induct:
  assumes "P a" "\<And>a ports g a' r. P a \<Longrightarrow> process_ingress std ports a g = (a', r) \<Longrightarrow> P a'"
  shows "P (process_all std a calls)"
  using assms(1) by (induction calls arbitrary: a) (simp_all add: assms(2) [OF _ surjective_pairing])

lemma process_keeps_binding: "process_ingress std ports a g = (a', r) \<Longrightarrow> fa_run a' = fa_run a \<and> fa_specs a' = fa_specs a"
  by (erule process_cases) auto

lemma fresh_authority:
  "create_fact_authority std r ss ports = Inr a \<Longrightarrow> fa_state a = empty_fact_state \<and> fa_run a = r \<and> fa_specs a = ss"
  by (auto simp: create_fact_authority_def)

section \<open>Projections\<close>

definition projection_history :: "fact_state \<Rightarrow> economic_id \<Rightarrow> projection list" where
  "projection_history st i = filter (\<lambda>p. pj_order p = i) (fs_projections st)"

definition follows :: "projection \<Rightarrow> projection \<Rightarrow> bool" where
  "follows p q \<longleftrightarrow> \<not> is_terminal p \<and> transition_allowed (pj_state p) (pj_state q)"

definition projection_bounded :: "stdlib \<Rightarrow> projection \<Rightarrow> bool" where
  "projection_bounded std p \<longleftrightarrow> (\<exists>od. pj_order p = or_id od \<and> pj_order_sha256 p = order_digest std od
     \<and> projection_quantity_ok (pj_state p) (pj_quantity p) od)"

definition projections_sound :: "stdlib \<Rightarrow> fact_state \<Rightarrow> bool" where
  "projections_sound std st \<longleftrightarrow>
     (\<forall>i. map pj_version (projection_history st i) = map int [1..<Suc (length (projection_history st i))]
        \<and> successively follows (projection_history st i)
        \<and> fs_projection_index st i = (if projection_history st i = [] then None else Some (last (projection_history st i))))
     \<and> (\<forall>p \<in> set (fs_projections st). projection_bounded std p)"

lemma projections_sound_same:
  "fs_projections st' = fs_projections st \<Longrightarrow> fs_projection_index st' = fs_projection_index st \<Longrightarrow>
   projections_sound std st' = projections_sound std st"
  by (simp add: projections_sound_def projection_history_def)

lemma projections_sound_add:
  assumes s: "projections_sound std st"
    and new: "fs_projections st' = fs_projections st @ [p]" "fs_projection_index st' = (fs_projection_index st)(pj_order p \<mapsto> p)"
    and ver: "pj_version p = (case fs_projection_index st (pj_order p) of None \<Rightarrow> 1 | Some b \<Rightarrow> pj_version b + 1)"
    and step: "\<And>b. fs_projection_index st (pj_order p) = Some b \<Longrightarrow> follows b p"
    and ok: "projection_bounded std p"
  shows "projections_sound std st'"
proof -
  let ?h = "projection_history st (pj_order p)"
  have h: "projection_history st' i = (if i = pj_order p then ?h @ [p] else projection_history st i)" for i
    by (simp add: projection_history_def new)
  have old: "map pj_version ?h = map int [1..<Suc (length ?h)]" "successively follows ?h"
    "fs_projection_index st (pj_order p) = (if ?h = [] then None else Some (last ?h))"
    using s by (auto simp: projections_sound_def)
  have v: "pj_version p = int (length ?h) + 1"
  proof (cases "?h = []")
    case False
    then have "pj_version (last ?h) = last (map pj_version ?h)" by (simp add: last_map)
    also have "\<dots> = int (length ?h)"
    proof -
      have "1 \<le> length ?h" using False by (simp add: Suc_le_eq)
      then show ?thesis unfolding old(1) by (simp add: last_map)
    qed
    finally show ?thesis using ver old(3) False by simp
  qed (use ver old(3) in simp)
  have "map pj_version (?h @ [p]) = map int [1..<Suc (length (?h @ [p]))]"
    using old(1) v by simp
  moreover have "successively follows (?h @ [p])"
    using old(2,3) step [of "last ?h"] by (cases "?h = []") (auto simp: successively_append_iff)
  ultimately show ?thesis
    using s ok unfolding projections_sound_def h new by auto
qed

lemma first_new_projection:
  assumes "first_plan std ports a g act anomalies rs fl pr fill_after" "pr_new pr = Some p"
  obtains od where "rs_selected rs = Some od" "pj_order p = or_id od" "projection_bounded std p"
    "pj_version p = (case fs_projection_index (fa_state a) (or_id od) of None \<Rightarrow> 1 | Some b \<Rightarrow> pj_version b + 1)"
    "\<And>b. fs_projection_index (fa_state a) (or_id od) = Some b \<Longrightarrow> follows b p"
proof -
  have c: "is_context_valid std a g" and pr: "project_fact std a (ig_fact g) fl rs (inherited_anomalies rs fl) = Inr pr"
    using assms by (auto simp: first_plan_def no_projection_def split: if_splits)
  obtain od where od: "rs_selected rs = Some od"
    using project_None [OF _ pr] assms(2) by (cases "rs_selected rs") auto
  have n: "ORDER_BINDING_CONFLICT \<notin> set (inherited_anomalies rs fl)"
    using project_conflict(3) [OF od _ pr] assms(2) by auto
  obtain s q' where b: "pr_before pr = fs_projection_index (fa_state a) (or_id od)"
    and adv: "advance_projection std a (ig_fact g) rs od (pr_before pr) s q' = Inr (Some p)"
    and ok: "\<forall>b. pr_before pr = Some b \<longrightarrow> \<not> is_terminal b \<and> transition_allowed (pj_state b) s"
    by (rule project_Some [OF od n pr]) (use assms(2) in auto)
  note a = advance_projection_Some [OF adv]
  have "projection_bounded std p"
    unfolding projection_bounded_def using a(1-4,8) by (intro exI [of _ od]) simp
  moreover have "follows x p" if "fs_projection_index (fa_state a) (or_id od) = Some x" for x
    using ok that b a(3) by (simp add: follows_def)
  ultimately show thesis using that [OF od a(1)] a(5) b by simp
qed

lemma projections_sound_step:
  assumes "projections_sound std (fa_state a)" "process_ingress std ports a g = (a', r)"
  shows "projections_sound std (fa_state a')"
  using assms(2)
proof (cases rule: process_cases)
  case (short i n x st v)
  then show ?thesis using assms(1) publish_short_Inr(2) [OF short(5)]
    by (simp add: projections_sound_def projection_history_def)
next
  case (first i n act anomalies rs fl pr fill_after st v)
  note p = publish_first_Inr [OF first(6)]
  show ?thesis
  proof (cases "pr_new pr")
    case None
    then show ?thesis using assms(1) p first(7) projections_sound_same [of st "fa_state a" std] by simp
  next
    case (Some pj)
    from first_new_projection [OF first(5) Some] obtain od where od: "rs_selected rs = Some od"
      "pj_order pj = or_id od" "projection_bounded std pj"
      "pj_version pj = (case fs_projection_index (fa_state a) (or_id od) of None \<Rightarrow> 1 | Some b \<Rightarrow> pj_version b + 1)"
      "\<And>b. fs_projection_index (fa_state a) (or_id od) = Some b \<Longrightarrow> follows b pj" by blast
    then show ?thesis
      using projections_sound_add [OF assms(1), of st pj] p(6,10) Some first(7) by simp
  qed
qed (use assms in auto)

lemma projections_sound_run:
  assumes "create_fact_authority std r ss ports = Inr a"
  shows "projections_sound std (fa_state (process_all std a calls))"
proof (rule process_all_induct)
  show "projections_sound std (fa_state a)"
    using fresh_authority [OF assms] by (simp add: projections_sound_def projection_history_def empty_fact_state_def)
qed (rule projections_sound_step)

section \<open>Fills and observed quantities\<close>

definition fill_outcomes :: "fact_state \<Rightarrow> fact_outcome list" where
  "fill_outcomes st = filter (\<lambda>v. fo_fill v \<noteq> None) (fs_outcomes st)"

text \<open>A fill is credited to the order its outcome resolved to, unless the keys conflicted.\<close>

definition credit :: "economic_id \<Rightarrow> fact_outcome \<Rightarrow> fill \<Rightarrow> rat" where
  "credit i v f = (if fo_resolved_order v = Some i \<and> ORDER_BINDING_CONFLICT \<notin> set (fo_anomalies v)
     then dval (fl_quantity f) else 0)"

definition credited :: "fact_state \<Rightarrow> economic_id \<Rightarrow> rat" where
  "credited st i = sum_list (map2 (credit i) (fill_outcomes st) (fs_fills st))"

definition fill_identity :: "run_id \<Rightarrow> int \<Rightarrow> economic_id" where
  "fill_identity r n = \<lparr>run_id = r, owner_kind = EXECUTION_FILL, owner_sequence = n\<rparr>"

definition fills_sound :: "stdlib \<Rightarrow> run_id \<Rightarrow> fact_state \<Rightarrow> bool" where
  "fills_sound std r st \<longleftrightarrow>
     map fo_fill (fill_outcomes st) = map (\<lambda>f. Some (fl_id f, fill_digest std f)) (fs_fills st)
     \<and> map fl_id (fs_fills st) = map (fill_identity r \<circ> int) [1..<Suc (length (fs_fills st))]
     \<and> int (length (fs_fills st)) \<le> MAX_UINT64
     \<and> fs_fill_next st = (if int (length (fs_fills st)) = MAX_UINT64 then None else Some (int (length (fs_fills st)) + 1))
     \<and> distinct (map fact_key (fs_fills st)) \<and> fact_key ` set (fs_fills st) \<subseteq> dom (fs_fact_index st)
     \<and> (\<forall>i. dval (observed_in st i) = credited st i)"

lemma fills_sound_length: "fills_sound std r st \<Longrightarrow> length (fill_outcomes st) = length (fs_fills st)"
  unfolding fills_sound_def by (metis length_map)

lemma fills_sound_idle:
  assumes "fills_sound std r st" "fs_outcomes st' = fs_outcomes st @ [v]" "fo_fill v = None"
    "fs_fills st' = fs_fills st" "fs_fill_next st' = fs_fill_next st" "dom (fs_fact_index st) \<subseteq> dom (fs_fact_index st')"
    "\<And>i. dval (observed_in st' i) = dval (observed_in st i)"
  shows "fills_sound std r st'"
proof -
  have "fill_outcomes st' = fill_outcomes st" using assms(2,3) by (simp add: fill_outcomes_def)
  moreover have "fact_key ` set (fs_fills st') \<subseteq> dom (fs_fact_index st')"
    using assms(1,4,6) unfolding fills_sound_def by (metis subset_trans)
  ultimately show ?thesis using assms(1,4,5,7) by (simp add: fills_sound_def credited_def)
qed

lemma fills_sound_fill:
  assumes s: "fills_sound std r st" and v: "fs_outcomes st' = fs_outcomes st @ [v]"
    "fo_fill v = Some (fl_id x, fill_digest std x)"
    and x: "fs_fills st' = fs_fills st @ [x]" "fs_fill_next st = Some n" "fl_id x = fill_identity r n" "n \<le> MAX_UINT64"
    "fs_fill_next st' = (if n = MAX_UINT64 then None else Some (n + 1))"
    and k: "fs_fact_index st (fact_key x) = None"
    "dom (fs_fact_index st') = insert (fact_key x) (dom (fs_fact_index st))"
    and q: "\<And>i. dval (observed_in st' i) = dval (observed_in st i) + credit i v x"
  shows "fills_sound std r st'"
proof -
  have o: "fill_outcomes st' = fill_outcomes st @ [v]" using v by (simp add: fill_outcomes_def)
  have n: "n = int (length (fs_fills st)) + 1" using s x(2) by (auto simp: fills_sound_def split: if_splits)
  have "credited st' i = credited st i + credit i v x" for i
    using fills_sound_length [OF s] by (simp add: credited_def o x(1))
  moreover have "fact_key x \<notin> fact_key ` set (fs_fills st)" using s k(1) by (auto simp: fills_sound_def)
  moreover have "map fl_id (fs_fills st') = map (fill_identity r \<circ> int) [1..<Suc (length (fs_fills st'))]"
    using s x(1,3) n by (simp add: fills_sound_def add.commute)
  ultimately show ?thesis
    using s v(2) x k q o n unfolding fills_sound_def by auto
qed

lemma first_conflict_iff:
  assumes "first_plan std ports a g act anomalies rs fl pr fill_after"
  shows "ORDER_BINDING_CONFLICT \<in> set anomalies \<longleftrightarrow> ORDER_BINDING_CONFLICT \<in> set (inherited_anomalies rs fl)"
proof (cases "is_context_valid std a g")
  case True
  then have p: "project_fact std a (ig_fact g) fl rs (inherited_anomalies rs fl) = Inr pr"
    and an: "set anomalies = set (inherited_anomalies rs fl) \<union> set (pr_anomalies pr)"
    using assms by (auto simp: first_plan_def)
  have "ORDER_BINDING_CONFLICT \<in> set (inherited_anomalies rs fl)" if "ORDER_BINDING_CONFLICT \<in> set (pr_anomalies pr)"
  proof (cases "rs_selected rs")
    case None
    then show ?thesis using project_None [OF None p] that by simp
  next
    case (Some od)
    then show ?thesis using project_Some [OF Some _ p] that by blast
  qed
  with an show ?thesis by blast
next
  case False
  with assms show ?thesis by (simp add: first_plan_def inherited_anomalies_def no_resolution_def fill_missing_ancestry_def)
qed

text \<open>The observed quantities after a published fact.\<close>

lemma first_observed:
  assumes "first_plan std ports a g act anomalies rs fl pr fill_after"
    "publish_first_fact std a g j ib fb n act anomalies rs fl pr fill_after = Inr (st, v)"
  shows "dval (observed_in st i) = dval (observed_in (fa_state a) i) + (case fl of None \<Rightarrow> 0 | Some x \<Rightarrow> credit i v x)"
proof -
  note p = publish_first_Inr [OF assms(2)]
  note c = create_outcome_Inr [OF p(1)]
  have cr: "credit i v x = (if map_option or_id (rs_selected rs) = Some i
      \<and> ORDER_BINDING_CONFLICT \<notin> set (inherited_anomalies rs fl) then dval (fl_quantity x) else 0)" for x
    by (simp add: credit_def c(2,4) first_conflict_iff [OF assms(1)])
  show ?thesis
  proof (cases "is_context_valid std a g")
    case False
    with assms(1) have "fl = None" "pr = no_projection" by (auto simp: first_plan_def)
    then show ?thesis using p(7) by (simp add: observed_in_def no_projection_def)
  next
    case True
    with assms(1) have pf: "project_fact std a (ig_fact g) fl rs (inherited_anomalies rs fl) = Inr pr"
      by (simp add: first_plan_def)
    show ?thesis
    proof (cases "rs_selected rs")
      case None
      then show ?thesis using p(7) project_None [OF None pf] cr by (simp add: observed_in_def split: option.splits)
    next
      case (Some od)
      show ?thesis
      proof (cases "ORDER_BINDING_CONFLICT \<in> set (inherited_anomalies rs fl)")
        case True
        then show ?thesis using p(7) project_conflict(4) [OF Some True pf] cr Some
          by (simp add: observed_in_def split: option.splits)
      next
        case False
        then obtain q where "pr_observed pr = Some q"
          "dval q = dval (observed_in (fa_state a) (or_id od)) + (case fl of None \<Rightarrow> 0 | Some x \<Rightarrow> dval (fl_quantity x))"
          by (rule project_Some [OF Some _ pf])
        then show ?thesis using p(7) cr Some False by (auto simp: observed_in_def split: option.splits)
      qed
    qed
  qed
qed

lemma fills_sound_step:
  assumes "fills_sound std (fa_run a) (fa_state a)" "process_ingress std ports a g = (a', r)"
  shows "fills_sound std (fa_run a') (fa_state a')"
  using assms(2)
proof (cases rule: process_cases)
  case (short i n x st v)
  note p = publish_short_Inr [OF short(5)]
  have "fo_fill v = None" using create_outcome_Inr(5) [OF p(1)] by simp
  then show ?thesis
    using fills_sound_idle [OF assms(1), of st v] short(6) by (simp add: p(2) observed_in_def)
next
  case (first i n act anomalies rs fl pr fill_after st v)
  note p = publish_first_Inr [OF first(6)]
  note fill = create_outcome_Inr(5) [OF p(1)]
  note obs = first_observed [OF first(5,6)]
  show ?thesis
  proof (cases fl)
    case None
    have "fs_fill_next st = fs_fill_next (fa_state a)" using None p(2) by simp
    with None show ?thesis
      using fills_sound_idle [OF assms(1) p(8)] fill p(5,9) obs first(7) by auto
  next
    case (Some x)
    then have "build_fill std a g = Inr (Some x, fill_after)" using first(5) by (auto simp: first_plan_def split: if_splits)
    then obtain m where m: "fs_fill_next (fa_state a) = Some m" "m \<le> MAX_UINT64"
      "fill_after = (if m = MAX_UINT64 then None else Some (m + 1))" "fl_id x = fill_identity (fa_run a) m"
      "fact_key x = fact_dedup_key_of (ig_fact g)"
      by (rule build_fill_Some) (simp add: fill_identity_def)
    then show ?thesis
      using fills_sound_fill [OF assms(1) p(8), of x m] fill p(2,5,9) obs first(4,7) Some by simp
  qed
qed (use assms in auto)

lemma fills_sound_run:
  assumes "create_fact_authority std r ss ports = Inr a"
  shows "fills_sound std r (fa_state (process_all std a calls)) \<and> fa_run (process_all std a calls) = r"
proof (rule process_all_induct)
  show "fills_sound std r (fa_state a) \<and> fa_run a = r"
    using fresh_authority [OF assms]
    by (simp add: fills_sound_def empty_fact_state_def fill_outcomes_def credited_def observed_in_def MAX_UINT64_def)
next
  fix b ports g c x assume "fills_sound std r (fa_state b) \<and> fa_run b = r" "process_ingress std ports b g = (c, x)"
  then show "fills_sound std r (fa_state c) \<and> fa_run c = r"
    using fills_sound_step [of std b ports g c x] process_keeps_binding [of std ports b g c x] by simp
qed

section \<open>Outcomes\<close>

definition outcome_closed :: "fact_outcome \<Rightarrow> bool" where
  "outcome_closed v \<longleftrightarrow> action_anomalies_ok (fo_action v) (fo_anomalies v) \<and> fo_code v = action_outcome (fo_action v)
     \<and> fo_halt v = (fo_action v \<in> {FA_CONFLICT, FA_INVALID, FA_UNRESOLVED}) \<and> fo_reconcile v = fo_halt v
     \<and> (fo_fill v \<noteq> None \<longrightarrow> fo_action v \<in> {FA_ACCEPTED, FA_UNRESOLVED})
     \<and> (is_short_circuit (fo_action v) \<longrightarrow> fo_resolved_order v = None \<and> fo_after_sha256 v = None)
     \<and> 1 \<le> fo_dispatch v \<and> fo_dispatch v \<le> MAX_UINT64"

text \<open>The outcomes that judge a fact for the first time.\<close>

definition judgements :: "fact_state \<Rightarrow> fact_outcome list" where
  "judgements st = filter (\<lambda>v. fo_action v \<noteq> FA_DUPLICATE \<and> fo_action v \<noteq> FA_CONFLICT) (fs_outcomes st)"

definition outcomes_sound :: "fact_state \<Rightarrow> bool" where
  "outcomes_sound st \<longleftrightarrow> (\<forall>v \<in> set (fs_outcomes st). outcome_closed v)
     \<and> (fs_halt st \<longleftrightarrow> (\<exists>v \<in> set (fs_outcomes st). fo_halt v))
     \<and> distinct (map fo_ingress (fs_outcomes st))
     \<and> fo_ingress ` set (fs_outcomes st) = dom (fs_ingress_index st)
     \<and> (\<forall>i r. fs_ingress_index st i = Some r \<longrightarrow> ir_outcome r \<in> set (fs_outcomes st) \<and> fo_ingress (ir_outcome r) = i)
     \<and> distinct (map fo_fact_key (judgements st)) \<and> fo_fact_key ` set (judgements st) = dom (fs_fact_index st)"

lemma created_outcome_closed:
  assumes "create_fact_outcome std r n g act anomalies bindings od fl before after = Inr v"
  shows "outcome_closed v"
proof -
  have "is_short_circuit act \<Longrightarrow> od = None \<and> after = None"
    using assms by (auto simp: create_fact_outcome_def)
  moreover have "fl \<noteq> None \<Longrightarrow> act \<in> {FA_ACCEPTED, FA_UNRESOLVED}"
    using create_outcome_Inr(14) [OF assms] by (auto simp: fill_context_ok_def)
  ultimately show ?thesis
    unfolding outcome_closed_def using create_outcome_Inr [OF assms] by auto
qed

lemma outcomes_sound_add:
  assumes s: "outcomes_sound st" and c: "outcome_closed v" and i: "fs_ingress_index st (fo_ingress v) = None"
    and n: "fs_outcomes st' = fs_outcomes st @ [v]" "fs_halt st' \<longleftrightarrow> fs_halt st \<or> fo_halt v"
      "fs_ingress_index st' = (fs_ingress_index st)(fo_ingress v \<mapsto> x)" "ir_outcome x = v"
    and j: "if fo_action v \<noteq> FA_DUPLICATE \<and> fo_action v \<noteq> FA_CONFLICT
      then fs_fact_index st (fo_fact_key v) = None \<and> dom (fs_fact_index st') = insert (fo_fact_key v) (dom (fs_fact_index st))
      else dom (fs_fact_index st') = dom (fs_fact_index st)"
  shows "outcomes_sound st'"
proof -
  have new: "fo_ingress v \<notin> fo_ingress ` set (fs_outcomes st)" using s i by (auto simp: outcomes_sound_def)
  have jd: "judgements st' = judgements st @ (if fo_action v \<noteq> FA_DUPLICATE \<and> fo_action v \<noteq> FA_CONFLICT then [v] else [])"
    by (simp add: judgements_def n(1))
  have jk: "distinct (map fo_fact_key (judgements st')) \<and> fo_fact_key ` set (judgements st') = dom (fs_fact_index st')"
  proof (cases "fo_action v \<noteq> FA_DUPLICATE \<and> fo_action v \<noteq> FA_CONFLICT")
    case True
    then have "fo_fact_key v \<notin> fo_fact_key ` set (judgements st)" using s j by (auto simp: outcomes_sound_def)
    then show ?thesis using s j True unfolding jd outcomes_sound_def by simp
  next
    case False
    then have "judgements st' = judgements st" "dom (fs_fact_index st') = dom (fs_fact_index st)" using jd j by auto
    then show ?thesis using s by (simp add: outcomes_sound_def)
  qed
  moreover have "fs_ingress_index st' k = Some r \<Longrightarrow> ir_outcome r \<in> set (fs_outcomes st') \<and> fo_ingress (ir_outcome r) = k" for k r
    using s n(1,3,4) by (auto simp: outcomes_sound_def split: if_splits)
  moreover have "distinct (map fo_ingress (fs_outcomes st'))" using s new n(1) by (simp add: outcomes_sound_def)
  moreover have "fo_ingress ` set (fs_outcomes st') = dom (fs_ingress_index st')" using s n(1,3) by (simp add: outcomes_sound_def)
  ultimately show ?thesis using s c n(1,2) unfolding outcomes_sound_def by auto
qed

lemma outcomes_sound_step:
  assumes "outcomes_sound (fa_state a)" "process_ingress std ports a g = (a', r)"
  shows "outcomes_sound (fa_state a')"
  using assms(2)
proof (cases rule: process_cases)
  case (short i n x st v)
  note p = publish_short_Inr [OF short(5)]
  note c = create_outcome_Inr [OF p(1)]
  have "fo_ingress v = i" using c(19) short(1) by simp
  then show ?thesis
    using outcomes_sound_add [OF assms(1) created_outcome_closed [OF p(1)], of st] short(2,6) c(1,10) p(2)
    by (simp split: if_splits)
next
  case (first i n act anomalies rs fl pr fill_after st v)
  note p = publish_first_Inr [OF first(6)]
  note c = create_outcome_Inr [OF p(1)]
  have "fo_ingress v = i" using c(19) first(1) by simp
  moreover have "act \<noteq> FA_DUPLICATE" "act \<noteq> FA_CONFLICT"
    using first(5) by (auto simp: first_plan_def split: if_splits)
  ultimately show ?thesis
    using outcomes_sound_add [OF assms(1) created_outcome_closed [OF p(1)], of st
        "\<lparr>ir_ingress = g, ir_ingress_bytes = canonical_execution_fact_ingress_bytes std g,
             ir_fact_bytes = canonical_execution_fact_bytes std (ig_fact g), ir_outcome = v\<rparr>"]
      first(2,4,7) c(1,8,10) p(3,4,5,8) by auto
qed (use assms in auto)

lemma outcomes_sound_run:
  assumes "create_fact_authority std r ss ports = Inr a"
  shows "outcomes_sound (fa_state (process_all std a calls))"
proof (rule process_all_induct)
  show "outcomes_sound (fa_state a)"
    using fresh_authority [OF assms] by (simp add: outcomes_sound_def judgements_def empty_fact_state_def)
qed (rule outcomes_sound_step)

section \<open>The fact authority as an authority\<close>

definition ingress_settled :: "fact_authority \<Rightarrow> fact_ports \<times> execution_fact_ingress \<Rightarrow> bool" where
  "ingress_settled a c \<longleftrightarrow> (case ingress_identity_of (snd c) of
      Inl e \<Rightarrow> False | Inr i \<Rightarrow> fs_ingress_index (fa_state a) i \<noteq> None)"

lemma process_keeps_ingress:
  assumes "process_ingress std ports a g = (a', r)" "fs_ingress_index (fa_state a) i = Some x"
  shows "fs_ingress_index (fa_state a') i = Some x"
  using assms(1)
proof (cases rule: process_cases)
  case (short j n y st v)
  then show ?thesis using assms(2) publish_short_Inr(2) [OF short(5)] by auto
next
  case (first j n act anomalies rs fl pr fill_after st v)
  then show ?thesis using assms(2) publish_first_Inr(4) [OF first(6)] by auto
qed (use assms in auto)

lemma settled_process:
  assumes "ingress_identity_of g = Inr i" "fs_ingress_index (fa_state a) i = Some x"
  shows "process_ingress std ports a g = (a,
    if ir_ingress_bytes x = canonical_execution_fact_ingress_bytes std g
       \<and> ir_fact_bytes x = canonical_execution_fact_bytes std (ig_fact g)
    then Inr (ir_outcome x) else Inl (fact_error CONFLICTING_ID))"
  using assms by (simp add: process_ingress_def plan_ingress_def Let_def guard_res_def)

lemma changed_settles:
  assumes "process_ingress std ports a g = (a', r)" "a' \<noteq> a"
  shows "ingress_settled a' (p, g)"
  using assms(1)
proof (cases rule: process_cases)
  case (short i n y st v)
  then show ?thesis using publish_short_Inr(2) [OF short(5)] by (simp add: ingress_settled_def)
next
  case (first i n act anomalies rs fl pr fill_after st v)
  then show ?thesis using publish_first_Inr(4) [OF first(6)] by (simp add: ingress_settled_def)
qed (use assms in auto)

interpretation facts: retaining_authority "\<lambda>a (ports, g). fst (process_ingress std ports a g)"
    "\<lambda>a. True" ingress_settled "\<lambda>a (ports, g). snd (process_ingress std ports a g)" for std
proof
  fix a :: fact_authority and c d :: "fact_ports \<times> execution_fact_ingress"
  obtain ports g qorts h where c: "c = (ports, g)" and d: "d = (qorts, h)" by (cases c; cases d)
  have keep: "fs_ingress_index (fa_state (fst (process_ingress std qorts a h))) i = Some x"
    if "fs_ingress_index (fa_state a) i = Some x" for i x
    using process_keeps_ingress [OF surjective_pairing that] .
  show "ingress_settled ((\<lambda>a (ports, g). fst (process_ingress std ports a g)) a c) c"
    if "(\<lambda>a (ports, g). fst (process_ingress std ports a g)) a c \<noteq> a"
    using that changed_settles [OF surjective_pairing, of std ports a g ports] by (simp add: c)
  show "ingress_settled ((\<lambda>a (ports, g). fst (process_ingress std ports a g)) a d) c" if "ingress_settled a c"
    using that keep by (auto simp: ingress_settled_def d split: sum.splits)
  show "(\<lambda>a (ports, g). fst (process_ingress std ports a g)) a c = a" if "ingress_settled a c"
    using that settled_process [of g _ a _ std ports] by (auto simp: ingress_settled_def c split: sum.splits)
  show "(\<lambda>a (ports, g). snd (process_ingress std ports a g)) ((\<lambda>a (ports, g). fst (process_ingress std ports a g)) a d) c
      = (\<lambda>a (ports, g). snd (process_ingress std ports a g)) a c" if settled: "ingress_settled a c"
  proof -
    obtain i x where i: "ingress_identity_of g = Inr i" "fs_ingress_index (fa_state a) i = Some x"
      using settled by (auto simp: ingress_settled_def c split: sum.splits)
    show ?thesis
      using settled_process [OF i, of std ports] settled_process [OF i(1) keep [OF i(2)], of std ports] by (simp add: c d)
  qed
qed simp

end
