(* ===== verification/Fact_Resolution.thy ===== *)
theory Fact_Resolution
  imports Fact_Runs
begin

text \<open>
  Where the order a fact is attributed to comes from: the answer of the order
  verifier to an identity the fact reports, or the venue index, which in turn
  holds only orders the verifier answered for an earlier fact.
\<close>

section \<open>Agreement of a fact and its order\<close>

definition fact_agrees :: "stdlib \<Rightarrow> execution_fact \<Rightarrow> order \<Rightarrow> bool" where
  "fact_agrees std f od \<longleftrightarrow>
     ef_order f \<in> {None, Some (or_id od)}
     \<and> ef_submission_key f \<in> {None, Some (order_client_submission_key std od)}
     \<and> ef_instrument f \<in> {None, Some (or_instrument od)}
     \<and> ef_correlation f \<in> {None, Some (or_correlation od)} \<and> ef_causation f \<in> {None, Some (or_id od)}
     \<and> (\<forall>tp. ef_payload f = TradePayload tp \<longrightarrow> tp_side tp = or_side od
         \<and> (\<exists>fee fees. tp_fees tp = fee # fees \<and> commission_bps_from_identity (hexdigest std)
               (policy_identifier (or_policy od)) (digest_text (policy_sha256 (or_policy od))) = Inr (fee_bps fee)))"

lemma not_contradicted:
  assumes "fact_contradicts_order std f od = Inr False"
  shows "fact_agrees std f od"
  using assms
  by (auto simp: fact_contradicts_order_def fact_agrees_def split: if_splits fact_payload.splits list.splits)

section \<open>A resolution without anomalies\<close>

lemma sort_key_Nil [simp]: "sort_key f xs = [] \<longleftrightarrow> xs = []"
  by (metis length_0_conv length_sort)

lemma resolve_clean:
  assumes "resolve_orders std ports a g = Inr rs" "rs_anomalies rs = []"
  obtains od where "rs_selected rs = Some od" "fact_contradicts_order std (ig_fact g) od = Inr False"
proof -
  obtain base orders where b: "resolve_base std ports a (ig_fact g) = Inr (base, orders)"
    using assms(1) by (auto simp: resolve_orders_def Let_def)
  obtain venue staged venue_conflict where v: "(case ef_venue_order (ig_fact g) of
            None \<Rightarrow> (None, None, False)
          | Some v \<Rightarrow> resolve_venue (fs_venue_index (fa_state a)) (ef_namespace (ig_fact g), v) base)
      = (venue, staged, venue_conflict)" by (rule prod_cases3)
  define resolved where "resolved = (if ef_venue_order (ig_fact g) = None then base else base @ [(KEY_VENUE_ORDER, venue)])"
  define ids where "ids = remdups (List.map_filter snd (map (\<lambda>(k, x). create_order_resolution_binding k x) resolved))"
  obtain selected where s: "(case ids of
             [i] \<Rightarrow> (case map_of (case venue of None \<Rightarrow> orders | Some x \<Rightarrow> AList.update (or_id x) x orders) i of
                None \<Rightarrow> Inl KeyError | Some x \<Rightarrow> Inr (Some x))
           | _ \<Rightarrow> Inr None) = Inr selected"
    and sel: "rs_selected rs = selected"
    and c: "bind_res (case selected of None \<Rightarrow> Inr False | Some x \<Rightarrow> fact_contradicts_order std (ig_fact g) x) (\<lambda>contradicts.
       Inr ((if ids = [] then [UNKNOWN_ORDER] else [])
         @ (if binding_conflicts resolved ids venue_conflict \<or> contradicts then [ORDER_BINDING_CONFLICT] else [])))
      = Inr (rs_anomalies rs)"
    using assms(1) b v
    by (auto simp: resolve_orders_def Let_def resolved_def [symmetric] ids_def [symmetric] simp del: remdups_eq_nil_iff)
  obtain contradicts where x: "(case selected of None \<Rightarrow> Inr False | Some x \<Rightarrow> fact_contradicts_order std (ig_fact g) x) = Inr contradicts"
    using c by auto
  have "ids \<noteq> []" "\<not> binding_conflicts resolved ids venue_conflict" "\<not> contradicts"
    using c x assms(2) by (auto split: if_splits)
  moreover from this obtain i where "ids = [i]"
    by (cases ids) (auto simp: binding_conflicts_def)
  ultimately show thesis using s x sel by (auto intro: that split: option.splits)
qed

section \<open>The source of a resolved order\<close>

definition answered_order :: "fact_ports \<Rightarrow> execution_fact \<Rightarrow> order \<Rightarrow> bool" where
  "answered_order ports f od \<longleftrightarrow>
     (\<exists>i. ef_order f = Some i \<and> po_order_by_id ports i = Some od)
     \<or> (\<exists>k. ef_submission_key f = Some k \<and> po_order_by_key ports k = Some od)"

definition known_venue_order :: "fact_authority \<Rightarrow> execution_fact \<Rightarrow> order \<Rightarrow> bool" where
  "known_venue_order a f od \<longleftrightarrow>
     (\<exists>w. ef_venue_order f = Some w \<and> map_of (fs_venue_index (fa_state a)) (ef_namespace f, w) = Some od)"

lemma recorded_order:
  assumes "record_resolved_order std a od orders = Inr orders'" "map_of orders' i = Some x"
  shows "map_of orders i = Some x \<or> od = Some x"
  using assms
  by (auto simp: record_resolved_order_def update_conv' split: option.splits if_splits)

lemma resolve_base_answered:
  assumes "resolve_base std ports a f = Inr (base, orders)"
  shows "(k, Some x) \<in> set base \<Longrightarrow> answered_order ports f x"
    "map_of orders i = Some x \<Longrightarrow> answered_order ports f x"
proof -
  let ?first = "case ef_order f of None \<Rightarrow> Inr ([], [])
     | Some i \<Rightarrow> let od = po_order_by_id ports i in
         bind_res (record_resolved_order std a od []) (\<lambda>orders. Inr ([(KEY_ORDER_ID, od)], orders))"
  obtain base0 orders0 where r: "?first = Inr (base0, orders0)"
    using assms by (auto simp: resolve_base_def)
  have base0: "(k, Some x) \<in> set base0 \<Longrightarrow> answered_order ports f x"
    and orders0: "map_of orders0 i = Some x \<Longrightarrow> answered_order ports f x" for k i x
    using r by (auto simp: answered_order_def Let_def split: option.splits dest: recorded_order)
  consider "ef_submission_key f = None" "base = base0" "orders = orders0"
    | key where "ef_submission_key f = Some key" "base = base0 @ [(KEY_CLIENT_SUBMISSION, po_order_by_key ports key)]"
        "record_resolved_order std a (po_order_by_key ports key) orders0 = Inr orders"
    using assms r by (auto simp: resolve_base_def Let_def split: option.splits)
  note cs = this
  show "answered_order ports f x" if "(k, Some x) \<in> set base"
    using cs that by cases (auto dest: base0 simp: answered_order_def)
  show "answered_order ports f x" if "map_of orders i = Some x"
    using cs
  proof cases
    case 1
    then show ?thesis using that orders0 by simp
  next
    case (2 key)
    from recorded_order [OF 2(3) that] show ?thesis using 2(1) orders0 by (auto simp: answered_order_def)
  qed
qed

lemma resolve_venue_source:
  assumes "resolve_venue index key base = (Some x, staged, conflict)"
  shows "map_of index key = Some x \<or> (\<exists>k. (k, Some x) \<in> set base)"
proof (cases "map_of index key = Some x")
  case False
  define found where "found = List.map_filter snd base"
  have "base \<noteq> []" "length found = length base" "x = hd found"
    using assms False by (auto simp: resolve_venue_def Let_def found_def split: if_splits)
  then have "x \<in> set found" by (cases found) auto
  then show ?thesis by (auto simp: found_def List.map_filter_def)
qed simp

lemma resolved_source:
  assumes "resolve_orders std ports a g = Inr rs" "rs_selected rs = Some od"
  shows "answered_order ports (ig_fact g) od \<or> known_venue_order a (ig_fact g) od"
proof -
  let ?f = "ig_fact g"
  obtain base orders where b: "resolve_base std ports a ?f = Inr (base, orders)"
    using assms(1) by (auto simp: resolve_orders_def Let_def)
  obtain venue staged venue_conflict where v: "(case ef_venue_order ?f of
            None \<Rightarrow> (None, None, False)
          | Some v \<Rightarrow> resolve_venue (fs_venue_index (fa_state a)) (ef_namespace ?f, v) base)
      = (venue, staged, venue_conflict)" by (rule prod_cases3)
  obtain i where "map_of (case venue of None \<Rightarrow> orders | Some x \<Rightarrow> AList.update (or_id x) x orders) i = Some od"
    using assms b v by (auto simp: resolve_orders_def Let_def split: list.splits option.splits)
  then have "map_of orders i = Some od \<or> venue = Some od"
    by (auto simp: update_conv' split: option.splits if_splits)
  then show ?thesis
  proof
    assume "venue = Some od"
    with v resolve_base_answered(1) [OF b] show ?thesis
      by (auto simp: known_venue_order_def split: option.splits dest!: resolve_venue_source)
  qed (use resolve_base_answered(2) [OF b] in blast)
qed

section \<open>The venue index\<close>

definition venue_answered :: "(fact_ports \<times> execution_fact_ingress) set \<Rightarrow> fact_authority \<Rightarrow> bool" where
  "venue_answered calls a \<longleftrightarrow> (\<forall>key od. map_of (fs_venue_index (fa_state a)) key = Some od
     \<longrightarrow> (\<exists>(ports, g)\<in>calls. answered_order ports (ig_fact g) od))"

lemma venue_answeredD:
  assumes "venue_answered calls a" "map_of (fs_venue_index (fa_state a)) key = Some od"
  shows "\<exists>(ports, g)\<in>calls. answered_order ports (ig_fact g) od"
  using assms unfolding venue_answered_def by blast

lemma publish_first_venue:
  assumes "publish_first_fact std a g i ib fb n act anomalies rs fl pr fill_after = Inr (st, v)"
    "map_of (fs_venue_index st) key = Some od"
  shows "map_of (fs_venue_index (fa_state a)) key = Some od \<or> rs_selected rs = Some od"
  using assms
  by (auto simp: publish_first_fact_def Let_def update_conv' split: option.splits if_splits)

lemma venue_answered_step:
  assumes "venue_answered calls a" "process_ingress std ports a g = (b, r)"
  shows "venue_answered (insert (ports, g) calls) b"
  using assms(2)
proof (cases rule: process_cases)
  case (short i n x st v)
  then show ?thesis using assms(1) publish_short_Inr(2) [OF short(5)] by (auto simp: venue_answered_def)
next
  case (first i n act anomalies rs fl pr fill_after st v)
  show ?thesis unfolding venue_answered_def
  proof (intro allI impI)
    fix key od assume "map_of (fs_venue_index (fa_state b)) key = Some od"
    with publish_first_venue [OF first(6), of key od] first(7) consider "map_of (fs_venue_index (fa_state a)) key = Some od" | "rs_selected rs = Some od"
      by fastforce
    then show "\<exists>(ports, g)\<in>insert (ports, g) calls. answered_order ports (ig_fact g) od"
    proof cases
      case 1
      then show ?thesis using venue_answeredD [OF assms(1)] by blast
    next
      case 2
      then have "resolve_orders std ports a g = Inr rs"
        using first(5) by (auto simp: first_plan_def no_resolution_def split: if_splits)
      from resolved_source [OF this 2] show ?thesis
        using venue_answeredD [OF assms(1)] unfolding known_venue_order_def by blast
    qed
  qed
qed (use assms(1) in \<open>auto simp: venue_answered_def\<close>)

lemma venue_answered_run:
  assumes "create_fact_authority std r ss ports = Inr a"
  shows "venue_answered (set calls) (process_all std a calls)"
proof (induction calls rule: rev_induct)
  case Nil
  then show ?case using assms by (auto simp: create_fact_authority_def venue_answered_def empty_fact_state_def)
next
  case (snoc c calls)
  obtain b r where b: "process_ingress std (fst c) (process_all std a calls) (snd c) = (b, r)" by fastforce
  from venue_answered_step [OF snoc b] b show ?case by simp
qed

end
