(* ===== verification/Fact_Claims.thy ===== *)
theory Fact_Claims
  imports Fact_Resolution
begin

text \<open>
  The properties of the fact authority, and the runs they are applied to.
\<close>

section \<open>Accepted facts\<close>

text \<open>The fill an accepted trade books, and its effect on the order of the trade.\<close>

definition books_trade :: "execution_fact \<Rightarrow> fill \<Rightarrow> bool" where
  "books_trade f x \<longleftrightarrow> fact_key x = fact_dedup_key_of f \<and> (\<exists>tp. ef_payload f = TradePayload tp
     \<and> fl_side x = tp_side tp \<and> fl_quantity x = tp_quantity tp \<and> fl_price x = tp_price tp \<and> fl_fees x = tp_fees tp
     \<and> ef_instrument f = Some (fl_instrument x) \<and> fl_occurred_at x = ef_occurred_at f \<and> fl_order x = ef_order f)"

definition trade_effect :: "fact_authority \<Rightarrow> fact_authority \<Rightarrow> execution_fact \<Rightarrow> order \<Rightarrow> bool" where
  "trade_effect a a' f od \<longleftrightarrow> (\<exists>x p.
     fs_fills (fa_state a') = fs_fills (fa_state a) @ [x] \<and> books_trade f x
     \<and> dval (observed_quantity_for_order a' (or_id od))
         = dval (observed_quantity_for_order a (or_id od)) + dval (fl_quantity x)
     \<and> dval (observed_quantity_for_order a' (or_id od)) \<le> dval (or_quantity od)
     \<and> projection_for_order a' (or_id od) = Some p
     \<and> pj_state p = (if dval (observed_quantity_for_order a' (or_id od)) < dval (or_quantity od)
                     then PS_PARTIALLY_FILLED else PS_FILLED)
     \<and> dval (pj_quantity p) = dval (observed_quantity_for_order a' (or_id od)))"

lemma accepted_first:
  assumes "first_plan std ports a g FA_ACCEPTED anomalies rs fl pr fill_after"
  shows "is_context_valid std a g" "anomalies = []" "rs_anomalies rs = []" "\<not> fill_missing_ancestry fl" "pr_anomalies pr = []"
    "inherited_anomalies rs fl = []" "resolve_orders std ports a g = Inr rs" "build_fill std a g = Inr (fl, fill_after)"
    "project_fact std a (ig_fact g) fl rs [] = Inr pr"
  using assms by (auto simp: first_plan_def inherited_anomalies_def split: if_splits)

lemma trade_target:
  assumes "projection_target f od q = (t, q', [])" "ef_kind f = TRADE"
  shows "t = Some (if dval q < dval (or_quantity od) then PS_PARTIALLY_FILLED else PS_FILLED)"
    "dval q \<le> dval (or_quantity od)" "dval q' = dval q"
  using assms dec_gt_le [of q "or_quantity od"] by (auto simp: projection_target_def dec_lt_dval split: if_splits)

lemma accepted_trade:
  assumes f: "first_plan std ports a g FA_ACCEPTED anomalies rs fl pr fill_after"
    and p: "publish_first_fact std a g i ib fb n FA_ACCEPTED anomalies rs fl pr fill_after = Inr (st, v)"
    and od: "rs_selected rs = Some od" and k: "ef_kind (ig_fact g) = TRADE"
  shows "trade_effect a (a\<lparr>fa_state := st\<rparr>) (ig_fact g) od"
proof -
  note c = accepted_first [OF f]
  note pub = publish_first_Inr [OF p]
  have "\<exists>x. fl = Some x"
    using create_outcome_Inr(14) [OF pub(1)] c(1) k by (auto simp: fill_context_ok_def is_context_valid_def Let_def split: if_splits option.splits sum.splits fact_payload.splits)
  then obtain x where x: "fl = Some x" ..
  obtain q t q' xs where q: "pr_before pr = fs_projection_index (fa_state a) (or_id od)" "pr_observed pr = Some q"
    "dval q = dval (observed_in (fa_state a) (or_id od)) + (case fl of None \<Rightarrow> 0 | Some x \<Rightarrow> dval (fl_quantity x))"
    "projection_target (ig_fact g) od q = (t, q', xs)" "set xs \<subseteq> set (pr_anomalies pr)"
    "(pr_new pr = None \<and> pr_after pr = pr_before pr)
     \<or> (\<exists>p s. pr_new pr = Some p \<and> pr_after pr = Some p \<and> t = Some s \<and> pr_anomalies pr = xs
          \<and> advance_projection std a (ig_fact g) rs od (pr_before pr) s q' = Inr (Some p)
          \<and> (\<forall>b. pr_before pr = Some b \<longrightarrow> \<not> is_terminal b \<and> transition_allowed (pj_state b) s))"
    "pr_new pr = None \<Longrightarrow> (\<exists>b. pr_before pr = Some b \<and> t = Some (pj_state b) \<and> pj_quantity b = q')"
    by (rule project_Some [OF od _ c(9)]) (use c(5) k in auto)
  have xs: "xs = []" using q(5) c(5) by simp
  note tt = trade_target [OF q(4) [unfolded xs] k]
  have obs: "observed_in st (or_id od) = q" using pub(7) q(2) od by (simp add: observed_in_def)
  have proj: "\<exists>p. fs_projection_index st (or_id od) = Some p \<and> t = Some (pj_state p) \<and> pj_quantity p = q'"
  proof (cases "pr_new pr")
    case None
    then show ?thesis using q(1,7) pub(6) by (auto split: option.splits)
  next
    case (Some p)
    then obtain s where "t = Some s" "advance_projection std a (ig_fact g) rs od (pr_before pr) s q' = Inr (Some p)"
      using q(6) by auto
    then show ?thesis using advance_projection_Some(3,4) [of std a "ig_fact g" rs od "pr_before pr" s q' p] pub(6) Some od by simp
  qed
  have "books_trade (ig_fact g) x"
    using c(8) x by (auto simp: books_trade_def create_fill_def elim!: build_fill_Some split: fact_payload.splits option.splits)
  with proj obs q(3) x tt pub(9) show ?thesis
    by (auto simp: trade_effect_def observed_quantity_for_order_def projection_for_order_def)
qed

section \<open>A concrete authority\<close>

lemma object_bytes_nonempty [simp]: "json_bytes (JObj kvs) \<noteq> []"
  by simp

lemma canonical_bytes_nonempty [simp]:
  "canonical_order_bytes std x \<noteq> []" "canonical_fact_outcome_bytes v \<noteq> []" "canonical_fill_bytes std f \<noteq> []"
  "canonical_projection_bytes p \<noteq> []"
  by (simp_all only: canonical_order_bytes_def order_document_def canonical_fact_outcome_bytes_def fact_outcome_document_def
      canonical_fill_bytes_def fill_document_def canonical_projection_bytes_def projection_document_def object_bytes_nonempty
      simp_thms)

lemma publish_first_progress:
  assumes "create_fact_outcome std (fa_run a) n g act anomalies (rs_bindings rs) (rs_selected rs) fl (pr_before pr) (pr_after pr) = Inr v"
    "insert_derived_orders std (fs_order_index (fa_state a), fs_client_index (fa_state a)) (rs_orders rs) = Inr m"
  shows "\<exists>st. publish_first_fact std a g i ib fb n act anomalies rs fl pr fill_after = Inr (st, v)"
  using assms by (cases m) (auto simp: publish_first_fact_def Let_def preflight_candidate_def split: option.splits)

lemma process_first_progress:
  assumes "ingress_identity_of g = Inr i" "fs_ingress_index (fa_state a) i = None"
    "po_dispatch ports i (canonical_execution_fact_ingress_bytes std g)
         (canonical_execution_fact_bytes std (ig_fact g)) = Some n" "1 \<le> n" "n \<le> MAX_UINT64"
    "fs_fact_index (fa_state a) (fact_dedup_key_of (ig_fact g)) = None"
    "is_context_valid std a g" "resolve_orders std ports a g = Inr rs" "build_fill std a g = Inr (fl, fill_after)"
    "inherited_anomalies rs fl = []" "project_fact std a (ig_fact g) fl rs [] = Inr pr" "pr_anomalies pr = []"
    "create_fact_outcome std (fa_run a) n g FA_ACCEPTED [] (rs_bindings rs) (rs_selected rs) fl (pr_before pr) (pr_after pr) = Inr v"
    "insert_derived_orders std (fs_order_index (fa_state a), fs_client_index (fa_state a)) (rs_orders rs) = Inr m"
  shows "\<exists>a'. process_ingress std ports a g = (a', Inr v)"
proof -
  obtain st where "publish_first_fact std a g i (canonical_execution_fact_ingress_bytes std g)
      (canonical_execution_fact_bytes std (ig_fact g)) n FA_ACCEPTED [] rs fl pr fill_after = Inr (st, v)"
    using publish_first_progress [OF assms(13,14)] by blast
  then have "plan_ingress std ports a g = Inr (st, v)"
    using assms by (simp add: plan_ingress_def Let_def require_active_dispatch_def process_first_fact_def)
  then show ?thesis by (simp add: process_ingress_def)
qed

abbreviation "example_order \<equiv> order_example dec_3"

definition ports_example :: fact_ports where
  "ports_example = \<lparr>po_order_run = RunId ''r'', po_order_specs = set_example, po_dispatch_run = RunId ''r'',
     po_dispatch_specs = set_example,
     po_order_by_id = (\<lambda>i. if i = id_of EXECUTION_ORDER 1 then Some example_order else None),
     po_order_by_key = (\<lambda>k. None), po_dispatch = (\<lambda>i b c. Some 1)\<rparr>"

definition facts_example :: fact_authority where
  "facts_example = \<lparr>fa_run = RunId ''r'', fa_specs = set_example, fa_state = empty_fact_state\<rparr>"

lemma create_facts_example: "create_fact_authority std_example (RunId ''r'') set_example ports_example = Inr facts_example"
  by (simp add: create_fact_authority_def require_port_binding_def ports_example_def facts_example_def)

definition trade_example :: execution_fact where
  "trade_example = \<lparr>ef_namespace = SourceNamespace ''v'', ef_dedup = ExternalFactId ''1'', ef_kind = TRADE,
     ef_occurred_at = 0, ef_instrument = Some (Instrument (VenueId ''X'') ''A''), ef_submission_key = None,
     ef_venue_order = None, ef_order = Some (id_of EXECUTION_ORDER 1),
     ef_correlation = Some (id_of STRATEGY_SIGNAL 1), ef_causation = Some (id_of EXECUTION_ORDER 1),
     ef_payload = TradePayload payload_example, ef_provenance = provenance_example\<rparr>"

definition trade_ingress :: execution_fact_ingress where
  "trade_ingress = \<lparr>ig_available_at = 5, ig_namespace = SourceNamespace ''v'', ig_sequence = 7, ig_fact = trade_example\<rparr>"

lemma example_common:
  "require_fact_common (Some (id_of EXECUTION_ORDER 1)) (Some (id_of STRATEGY_SIGNAL 1)) (Some (id_of EXECUTION_ORDER 1)) = Inr ()"
  by code_simp

lemma trade_example_created:
  "create_trade_execution_fact std_example (SourceNamespace ''v'') (ExternalFactId ''1'') 0
       provenance_example set_example (Instrument (VenueId ''X'') ''A'') BUY dec_3 dec_001 None
       None None (Some (id_of EXECUTION_ORDER 1)) (Some (id_of STRATEGY_SIGNAL 1)) (Some (id_of EXECUTION_ORDER 1))
   = Inr trade_example"
  by (simp add: create_trade_execution_fact_def example_payload example_common trade_example_def)

definition fill_of_trade :: fill where
  "fill_of_trade = \<lparr>fl_run = RunId ''r'', fl_id = id_of EXECUTION_FILL 1,
     fl_namespace = SourceNamespace ''v'', fl_dedup = ExternalFactId ''1'',
     fl_fact_sha256 = Sha256Digest [], fl_provenance = provenance_example, fl_occurred_at = 0,
     fl_instrument = Instrument (VenueId ''X'') ''A'', fl_side = BUY, fl_quantity = dec_3,
     fl_price = dec_001, fl_fees = tp_fees payload_example, fl_spec_id = InstrumentSpecId ''a'',
     fl_set_id = InstrumentSpecSetId ''s'', fl_set_sha256 = Sha256Digest [],
     fl_submission_key = None, fl_venue_order = None, fl_order = Some (id_of EXECUTION_ORDER 1),
     fl_correlation = Some (id_of STRATEGY_SIGNAL 1), fl_causation = Some (id_of EXECUTION_ORDER 1)\<rparr>"

lemma no_digest: "domain_digest (hexdigest std_example) t p = Sha256Digest []"
  by (simp add: domain_digest_def std_example_def)

lemma example_spec_bound:
  "require_spec_set std_example set_example (Instrument (VenueId ''X'') ''A'') (Some (InstrumentSpecId ''a''))
     (Some (InstrumentSpecSetId ''s'')) (Some (Sha256Digest [])) = Inr (spec_example ''A'', Sha256Digest [])"
  unfolding require_spec_set_def instrument_spec_set_digest_def no_digest by code_simp

lemma fill_of_trade_created:
  "create_fill std_example (id_of EXECUTION_FILL 1) trade_example set_example = Inr fill_of_trade"
proof -
  have f: "require_quantity dec_3 (spec_example ''A'') = Inr dec_3" "require_price dec_001 (spec_example ''A'') = Inr dec_001"
    "require_phase1_fees (tp_fees payload_example) (spec_example ''A'') dec_001 dec_3 = Inr (tp_fees payload_example)"
    "require_run_of (RunId ''r'') [Some (id_of EXECUTION_ORDER 1), Some (id_of STRATEGY_SIGNAL 1), Some (id_of EXECUTION_ORDER 1)] = Inr ()"
    by code_simp+
  have p: "tp_quantity payload_example = dec_3" "tp_price payload_example = dec_001" "tp_side payload_example = BUY"
    "tp_spec_id payload_example = InstrumentSpecId ''a''" "tp_set_id payload_example = InstrumentSpecSetId ''s''"
    "tp_set_sha256 payload_example = Sha256Digest []" by (simp_all add: payload_example_def)
  have i: "run_id (id_of k n) = RunId ''r''" "owner_kind (id_of k n) = k" for k n by (simp_all add: id_of_def)
  show ?thesis
    by (simp add: create_fill_def trade_example_def require_id_owner_def p i f [simplified] example_spec_bound execution_fact_digest_def
        no_digest fill_of_trade_def del: bind_res_Inr_iff)
qed

lemma trade_context: "is_context_valid std_example facts_example trade_ingress"
proof -
  have p: "tp_quantity payload_example = dec_3" "tp_price payload_example = dec_001" "tp_side payload_example = BUY"
    "tp_spec_id payload_example = InstrumentSpecId ''a''" "tp_set_id payload_example = InstrumentSpecSetId ''s''"
    "tp_set_sha256 payload_example = Sha256Digest []" by (simp_all add: payload_example_def)
  obtain fee where fee: "tp_fees payload_example = [fee]" "fee_bps fee = None" by (simp add: payload_example_def)
  have r: "require_phase1_fees [fee] (spec_example ''A'') dec_001 dec_3 = Inr [fee]"
    unfolding fee(1) [symmetric] by code_simp
  have "rebuild_trade_fact std_example set_example trade_example (Instrument (VenueId ''X'') ''A'') payload_example
      = Inr trade_example"
    using trade_example_created
    by (simp add: rebuild_trade_fact_def p fee r example_spec_bound trade_example_def del: bind_res_Inr_iff)
  then have d: "decode_own_fact std_example set_example trade_example = Inr trade_example"
    by (simp add: decode_own_fact_def trade_example_def)
  have s: "require_spec set_example (Instrument (VenueId ''X'') ''A'') = Inr (spec_example ''A'')" by code_simp
  have "instrument_spec_set_digest (hexdigest std_example) set_example = Sha256Digest []"
    by (simp add: instrument_spec_set_digest_def no_digest)
  then show ?thesis
    using d s by (simp add: is_context_valid_def trade_ingress_def facts_example_def trade_example_def Let_def p id_of_def
        List.map_filter_simps)
qed

definition resolution_example :: fact_resolution where
  "resolution_example = \<lparr>rs_bindings = [(KEY_ORDER_ID, Some (id_of EXECUTION_ORDER 1))], rs_selected = Some example_order,
     rs_orders = [example_order], rs_staged = None, rs_anomalies = []\<rparr>"

lemma selected: "rs_selected resolution_example = Some example_order"
  by (simp add: resolution_example_def)

lemma example_order_simps:
  "or_id example_order = id_of EXECUTION_ORDER 1" "or_run example_order = RunId ''r''"
  "or_set_id example_order = InstrumentSpecSetId ''s''" "or_set_sha256 example_order = Sha256Digest []"
  "or_side example_order = BUY" "or_instrument example_order = Instrument (VenueId ''X'') ''A''"
  "or_correlation example_order = id_of STRATEGY_SIGNAL 1" "or_policy example_order = policy_example"
  "or_quantity example_order = dec_3"
  by (simp_all add: order_example_def)

lemma trade_resolution: "resolve_orders std_example ports_example facts_example trade_ingress = Inr resolution_example"
proof -
  have bps: "commission_bps_from_identity h ''p'' ''d'' = Inr None" for h
  proof -
    have "\<not> prefix LATENCY_POLICY_PREFIX ''p''" "\<not> prefix COST_POLICY_PREFIX ''p''" "\<not> prefix POLICY_PREFIX ''p''"
      by code_simp+
    then show ?thesis by (simp add: commission_bps_from_identity_def)
  qed
  have rec: "record_resolved_order std_example facts_example (Some example_order) []
      = Inr [(id_of EXECUTION_ORDER 1, example_order)]"
    by (simp add: record_resolved_order_def facts_example_def example_order_simps instrument_spec_set_digest_def no_digest id_of_def set_example_def)
  have contra: "fact_contradicts_order std_example trade_example example_order = Inr False"
    by (simp add: fact_contradicts_order_def trade_example_def example_order_simps payload_example_def policy_example_def bps)
  show ?thesis
    by (simp add: resolve_orders_def resolve_base_def trade_ingress_def ports_example_def rec contra [unfolded trade_example_def]
        trade_example_def create_order_resolution_binding_def example_order_simps resolution_example_def binding_conflicts_def Let_def
        List.map_filter_simps)
qed

lemma trade_fill: "build_fill std_example facts_example trade_ingress = Inr (Some fill_of_trade, Some 2)"
proof -
  have "make_economic_id (RunId ''r'') EXECUTION_FILL 1 = Inr (id_of EXECUTION_FILL 1)"
    by code_simp
  moreover have "ef_kind trade_example = TRADE" "ef_payload trade_example = TradePayload payload_example"
    by (simp_all add: trade_example_def)
  ultimately show ?thesis
    by (simp add: build_fill_def trade_ingress_def facts_example_def empty_fact_state_def fill_of_trade_created fact_advance_def
        MAX_UINT64_def)
qed

definition projection_example :: projection where
  "projection_example = \<lparr>pj_run = RunId ''r'', pj_order = id_of EXECUTION_ORDER 1, pj_order_sha256 = Sha256Digest [],
     pj_submission_key = order_client_submission_key std_example example_order, pj_version = 1, pj_state = PS_FILLED, pj_quantity = dec_3, pj_venue = None,
     pj_last_key = fact_dedup_key_of trade_example, pj_last_sha256 = Sha256Digest []\<rparr>"

definition projected_example :: projection_result where
  "projected_example = \<lparr>pr_before = None, pr_after = Some projection_example, pr_new = Some projection_example,
     pr_observed = Some dec_3, pr_anomalies = []\<rparr>"

lemma trade_projection:
  "project_fact std_example facts_example trade_example (Some fill_of_trade) resolution_example [] = Inr projected_example"
proof -
  have fill_quantity: "fl_quantity fill_of_trade = dec_3" and set_name: "set_identifier set_example = InstrumentSpecSetId ''s''"
    by (simp_all add: fill_of_trade_def set_example_def)
  have "add_quantities dec_zero dec_3 = Inr dec_3" "\<not> dec_lt dec_3 dec_3" "projection_quantity_ok PS_FILLED dec_3 example_order"
    "require_spec set_example (Instrument (VenueId ''X'') ''A'') = Inr (spec_example ''A'')"
    "require_quantized dec_3 (quantity_quantum (spec_example ''A'')) = Inr dec_3"
    by code_simp+
  moreover have "reported_venue trade_example resolution_example = None"
    by (simp add: reported_venue_def trade_example_def)
  moreover have "ef_kind trade_example = TRADE" by (simp add: trade_example_def)
  moreover have "instrument_spec_set_digest (hexdigest std_example) set_example = Sha256Digest []"
    "order_digest std_example example_order = Sha256Digest []" "execution_fact_digest std_example trade_example = Sha256Digest []"
    by (simp_all add: instrument_spec_set_digest_def order_digest_def execution_fact_digest_def no_digest)
  ultimately show ?thesis
    by (simp add: project_fact_def facts_example_def empty_fact_state_def observed_in_def selected
        projection_target_def advance_projection_def projection_venue_def create_order_projection_snapshot_def
        example_order_simps fill_quantity set_name venue_pair_def MAX_UINT64_def dec_gt_def
        projected_example_def projection_example_def Let_def del: bind_res_Inr_iff)
qed

lemma trade_outcome:
  "\<exists>v. create_fact_outcome std_example (RunId ''r'') 1 trade_ingress FA_ACCEPTED [] (rs_bindings resolution_example)
     (rs_selected resolution_example) (Some fill_of_trade) None (Some projection_example) = Inr v \<and> fo_action v = FA_ACCEPTED"
proof -
  have "resolution_tuple_ok trade_example FA_ACCEPTED (rs_bindings resolution_example)"
    "derived_selected_order (rs_bindings resolution_example) = Some (id_of EXECUTION_ORDER 1)"
    by (simp_all add: resolution_tuple_ok_def resolution_example_def is_short_circuit_def expected_keys_def trade_example_def
        derived_selected_order_def List.map_filter_simps)
  moreover have "fill_context_ok std_example (RunId ''r'') trade_example FA_ACCEPTED (Some fill_of_trade)"
    by (simp add: fill_context_ok_def trade_example_def fill_of_trade_def fact_key_def fact_dedup_key_of_def
        execution_fact_digest_def no_digest)
  moreover have "projection_context_ok std_example (RunId ''r'') (Some example_order) [None, Some projection_example]"
    by (simp add: projection_context_ok_def projection_example_def example_order_simps order_digest_def no_digest)
  moreover have "action_anomalies_ok FA_ACCEPTED []" by (simp add: action_anomalies_ok_def)
  moreover have "ig_fact trade_ingress = trade_example" by (simp add: trade_ingress_def)
  ultimately show ?thesis
    by (simp add: create_fact_outcome_def selected example_order_simps is_short_circuit_def MAX_UINT64_def
        make_ingress_identity_def require_non_negative_integer_def trade_ingress_def Let_def)
qed

lemma trade_processed:
  "\<exists>a' v. process_ingress std_example ports_example facts_example trade_ingress = (a', Inr v) \<and> fo_action v = FA_ACCEPTED"
proof -
  obtain v where v: "create_fact_outcome std_example (RunId ''r'') 1 trade_ingress FA_ACCEPTED [] (rs_bindings resolution_example)
     (rs_selected resolution_example) (Some fill_of_trade) None (Some projection_example) = Inr v" "fo_action v = FA_ACCEPTED"
    using trade_outcome by blast
  have i: "ingress_identity_of trade_ingress = Inr \<lparr>ingress_namespace = SourceNamespace ''v'', ingress_sequence = 7\<rparr>"
    by (simp add: ingress_identity_of_def make_ingress_identity_def require_non_negative_integer_def trade_ingress_def)
  have st: "fa_state facts_example = empty_fact_state" "fa_run facts_example = RunId ''r''" by (simp_all add: facts_example_def)
  have port: "po_dispatch ports_example i b c = Some 1" for i b c by (simp add: ports_example_def)
  have "inherited_anomalies resolution_example (Some fill_of_trade) = []"
    by (simp add: inherited_anomalies_def resolution_example_def fill_missing_ancestry_def fill_of_trade_def)
  moreover have "insert_derived_orders std_example (fs_order_index (fa_state facts_example), fs_client_index (fa_state facts_example))
      (rs_orders resolution_example) = Inr (Map.empty(or_id example_order \<mapsto> example_order),
        Map.empty(order_client_submission_key std_example example_order \<mapsto> example_order))"
    by (simp add: st empty_fact_state_def resolution_example_def)
  moreover have "project_fact std_example facts_example (ig_fact trade_ingress) (Some fill_of_trade) resolution_example [] = Inr projected_example"
    using trade_projection by (simp add: trade_ingress_def)
  ultimately have "\<exists>a'. process_ingress std_example ports_example facts_example trade_ingress = (a', Inr v)"
    using v(1)
    by (intro process_first_progress [where pr = projected_example, OF i _ port _ _ _ trade_context trade_resolution trade_fill])
      (simp_all add: st empty_fact_state_def MAX_UINT64_def projected_example_def)
  with v(2) show ?thesis by blast
qed

text \<open>An answered ingress is on record with its answer.\<close>

lemma process_recorded:
  assumes "process_ingress std ports a g = (b, Inr v)"
  obtains i x where "ingress_identity_of g = Inr i" "fs_ingress_index (fa_state b) i = Some x"
    "ir_ingress_bytes x = canonical_execution_fact_ingress_bytes std g"
    "ir_fact_bytes x = canonical_execution_fact_bytes std (ig_fact g)" "ir_outcome x = v"
  using assms
proof (cases rule: process_cases)
  case (short i n y st w)
  then show ?thesis using publish_short_Inr(2) [OF short(5)] by (intro that [of i]) auto
next
  case (first i n act anomalies rs fl pr fill_after st w)
  then show ?thesis using publish_first_Inr(4) [OF first(6)] by (intro that [of i]) auto
qed (auto intro: that)

text \<open>A fact that was judged before is cut short.\<close>

lemma known_fact:
  assumes "process_ingress std ports b h = (c, Inr w)" "c \<noteq> b" "fs_fact_index (fa_state b) (fact_dedup_key_of (ig_fact h)) = Some x"
  shows "fo_action w = (if fr_bytes x = canonical_execution_fact_bytes std (ig_fact h) then FA_DUPLICATE else FA_CONFLICT)
    \<and> fs_fills (fa_state c) = fs_fills (fa_state b) \<and> fs_projections (fa_state c) = fs_projections (fa_state b)
    \<and> fs_observed (fa_state c) = fs_observed (fa_state b)"
  using assms(1)
proof (cases rule: process_cases)
  case (short i n y st v)
  note p = publish_short_Inr [OF short(5)]
  show ?thesis using create_outcome_Inr(1) [OF p(1)] p(2) short(4,6,7) assms(3) by simp
qed (use assms in auto)

lemma fact_indexed:
  assumes "process_ingress std ports a g = (b, Inr v)" "b \<noteq> a"
  shows "\<exists>x. fs_fact_index (fa_state b) (fact_dedup_key_of (ig_fact g)) = Some x"
  using assms(1)
proof (cases rule: process_cases)
  case (short i n x st w)
  then show ?thesis using publish_short_Inr(2) [OF short(5)] by simp
next
  case (first i n act anomalies rs fl pr fill_after st w)
  then show ?thesis using publish_first_Inr(5) [OF first(6)] by simp
qed (use assms in auto)

lemma fact_index_step:
  assumes "fs_fact_index (fa_state a) k = Some x"
  shows "fs_fact_index (fa_state (fst (process_ingress std ports a g))) k = Some x"
proof (cases "process_ingress std ports a g")
  case (Pair b r)
  then show ?thesis
  proof (cases rule: process_cases)
    case (short i n y st v)
    then show ?thesis using publish_short_Inr(2) [OF short(5)] Pair assms by simp
  next
    case (first i n act anomalies rs fl pr fill_after st v)
    then show ?thesis using publish_first_Inr(5) [OF first(6)] Pair assms by auto
  qed (use assms Pair in auto)
qed

lemma fact_index_kept:
  "fs_fact_index (fa_state a) k = Some x \<Longrightarrow> fs_fact_index (fa_state (process_all std a calls)) k = Some x"
  by (induction calls arbitrary: a) (auto simp: process_all_def intro: fact_index_step)

section \<open>Properties\<close>

text \<open>C21: projections stay within their orders. After any run of submissions the projections of an
  order are numbered one, two, three and so on, each is a state the transition table allows
  after a non-terminal predecessor, the current projection is the last, and the executed
  quantity each shows lies between zero and the quantity of the order it names by digest,
  strictly inside while partially filled, equal when filled, below it when cancelled or
  expired, and zero before any execution.\<close>

theorem projections_within_orders:
  assumes "create_fact_authority std r ss ports = Inr a" "b = process_all std a calls"
  shows "(\<forall>i. let ps = projection_history (fa_state b) i in
      map pj_version ps = map int [1..<Suc (length ps)] \<and> successively follows ps
      \<and> projection_for_order b i = (if ps = [] then None else Some (last ps)))
    \<and> (\<forall>p. p \<in> set (fs_projections (fa_state b)) \<longrightarrow> (\<exists>od. pj_order p = or_id od \<and> pj_order_sha256 p = order_digest std od
        \<and> 0 \<le> dval (pj_quantity p) \<and> dval (pj_quantity p) \<le> dval (or_quantity od)
        \<and> (case pj_state p of
             PS_PARTIALLY_FILLED \<Rightarrow> 0 < dval (pj_quantity p) \<and> dval (pj_quantity p) < dval (or_quantity od)
           | PS_FILLED \<Rightarrow> pj_quantity p = or_quantity od
           | PS_EXPIRED \<Rightarrow> dval (pj_quantity p) < dval (or_quantity od)
           | PS_CANCELLED \<Rightarrow> dval (pj_quantity p) < dval (or_quantity od)
           | _ \<Rightarrow> dval (pj_quantity p) = 0)))"
proof -
  have s: "projections_sound std (fa_state b)" unfolding assms(2) by (rule projections_sound_run [OF assms(1)])
  have "0 \<le> dval q \<and> dval q \<le> dval (or_quantity od) \<and> (case s of
             PS_PARTIALLY_FILLED \<Rightarrow> 0 < dval q \<and> dval q < dval (or_quantity od)
           | PS_FILLED \<Rightarrow> q = or_quantity od
           | PS_EXPIRED \<Rightarrow> dval q < dval (or_quantity od)
           | PS_CANCELLED \<Rightarrow> dval q < dval (or_quantity od)
           | _ \<Rightarrow> dval q = 0)" if "projection_quantity_ok s q od" for s q od
  proof -
    have "0 \<le> dval q" "dval q \<le> dval (or_quantity od)"
      using that dec_gt_le [of q "or_quantity od"] by (simp_all add: projection_quantity_ok_def dec_lt_dval not_less)
    then show ?thesis
      using that by (cases s) (simp_all add: projection_quantity_ok_def dec_lt_dval)
  qed
  then show ?thesis
    using s unfolding projections_sound_def projection_bounded_def projection_for_order_def Let_def by blast
qed

theorem projections_within_orders_witness:
  "successively follows (projection_history (fa_state (process_all std_example facts_example
     [(ports_example, trade_ingress), (ports_example, trade_ingress)])) (id_of EXECUTION_ORDER 1))"
  using projections_within_orders [OF create_facts_example refl] by (simp only: Let_def)

text \<open>C22: every fill is accounted for. After any run the fills carry the identities one, two, three
  and so on of the run, no two book the same fact, the outcomes that carry a fill name exactly
  these fills in order with their digests, and the quantity observed for an order is the sum of
  the fills whose outcomes resolved to it without a key conflict.\<close>

theorem fills_accounted:
  assumes "create_fact_authority std r ss ports = Inr a" "b = process_all std a calls"
  shows "map fl_id (fs_fills (fa_state b)) = map (fill_identity r \<circ> int) [1..<Suc (length (fs_fills (fa_state b)))]
    \<and> distinct (map fact_key (fs_fills (fa_state b)))
    \<and> map fo_fill (fill_outcomes (fa_state b)) = map (\<lambda>f. Some (fl_id f, fill_digest std f)) (fs_fills (fa_state b))
    \<and> (\<forall>i. dval (observed_quantity_for_order b i)
        = sum_list (map2 (credit i) (fill_outcomes (fa_state b)) (fs_fills (fa_state b))))"
proof -
  have "fills_sound std r (fa_state b)" unfolding assms(2) using fills_sound_run [OF assms(1)] by blast
  then show ?thesis unfolding fills_sound_def credited_def observed_quantity_for_order_def by blast
qed

theorem fills_accounted_witness:
  "dval (observed_quantity_for_order (process_all std_example facts_example [(ports_example, trade_ingress)]) (id_of EXECUTION_ORDER 1))
   = sum_list (map2 (credit (id_of EXECUTION_ORDER 1))
       (fill_outcomes (fa_state (process_all std_example facts_example [(ports_example, trade_ingress)])))
       (fs_fills (fa_state (process_all std_example facts_example [(ports_example, trade_ingress)]))))"
  using fills_accounted [OF create_facts_example refl] by blast

text \<open>C23: the outcomes of a run are closed. Every recorded outcome has the code of its action, anomalies
  exactly when it is unresolved or invalid and these in canonical order, a fill only when
  accepted or unresolved, no order when it was cut short, and asks for a halt exactly when it
  conflicts, is invalid or is unresolved; the authority is halted exactly when some outcome asked
  for it; no ingress has two outcomes and no fact is judged twice.\<close>

theorem outcomes_closed:
  assumes "create_fact_authority std r ss ports = Inr a" "b = process_all std a calls"
  shows "(\<forall>v. v \<in> set (fs_outcomes (fa_state b)) \<longrightarrow> outcome_closed v)
    \<and> (fs_halt (fa_state b) \<longleftrightarrow> (\<exists>v. v \<in> set (fs_outcomes (fa_state b)) \<and> fo_halt v))
    \<and> distinct (map fo_ingress (fs_outcomes (fa_state b)))
    \<and> distinct (map fo_fact_key (judgements (fa_state b)))"
proof -
  have "outcomes_sound (fa_state b)" unfolding assms(2) by (rule outcomes_sound_run [OF assms(1)])
  then show ?thesis unfolding outcomes_sound_def by blast
qed

theorem outcomes_closed_witness:
  "distinct (map fo_fact_key (judgements (fa_state (process_all std_example facts_example
     [(ports_example, trade_ingress), (ports_example, trade_ingress)]))))"
  using outcomes_closed [OF create_facts_example refl] by blast

text \<open>C24: a fact takes effect once. A processed ingress is answered for ever with the outcome it got,
  whatever ran in between and whatever the ports say by then, and changes nothing again; and its
  fact, arriving in another ingress at any later time, adds no fill, no projection and no observed
  quantity: it is a duplicate when its bytes are the same and a conflict otherwise.\<close>

theorem fact_effect_once:
  assumes "process_ingress std ports a g = (b, Inr v)"
  shows "(\<forall>calls qorts. let c = process_all std b calls in process_ingress std qorts c g = (c, Inr v))
    \<and> (b \<noteq> a \<longrightarrow> (\<exists>x. fs_fact_index (fa_state b) (fact_dedup_key_of (ig_fact g)) = Some x
        \<and> (\<forall>calls h c w qorts. let d = process_all std b calls in
              fact_dedup_key_of (ig_fact h) = fact_dedup_key_of (ig_fact g)
              \<longrightarrow> process_ingress std qorts d h = (c, Inr w) \<longrightarrow> c \<noteq> d
              \<longrightarrow> fo_action w = (if fr_bytes x = canonical_execution_fact_bytes std (ig_fact h)
                                  then FA_DUPLICATE else FA_CONFLICT)
                \<and> fs_fills (fa_state c) = fs_fills (fa_state d) \<and> fs_projections (fa_state c) = fs_projections (fa_state d)
                \<and> fs_observed (fa_state c) = fs_observed (fa_state d))))"
proof (intro conjI allI impI)
  fix calls :: "(fact_ports \<times> execution_fact_ingress) list" and qorts :: fact_ports
  obtain i x where x: "ingress_identity_of g = Inr i" "fs_ingress_index (fa_state b) i = Some x"
    "ir_ingress_bytes x = canonical_execution_fact_ingress_bytes std g"
    "ir_fact_bytes x = canonical_execution_fact_bytes std (ig_fact g)" "ir_outcome x = v"
    using assms by (rule process_recorded)
  have settled: "ingress_settled b (qorts, g)" using x by (simp add: ingress_settled_def)
  have run: "process_all std b calls = facts.run std b calls" by (simp add: process_all_def facts.run_def)
  have "process_ingress std qorts b g = (b, Inr v)" using settled_process [OF x(1,2), of std qorts] x(3-) by simp
  then have "snd (process_ingress std qorts (process_all std b calls) g) = Inr v"
    using facts.answer_kept [OF TrueI settled, of std calls] by (simp add: run)
  moreover have "fst (process_ingress std qorts (process_all std b calls) g) = process_all std b calls"
    using facts.settled_idle [OF TrueI facts.run_settled [OF TrueI settled], of std std calls] by (simp add: run)
  ultimately show "let c = process_all std b calls in process_ingress std qorts c g = (c, Inr v)"
    by (simp add: Let_def prod_eq_iff)
next
  assume "b \<noteq> a"
  then obtain x where x: "fs_fact_index (fa_state b) (fact_dedup_key_of (ig_fact g)) = Some x"
    using fact_indexed [OF assms] by blast
  show "\<exists>x. fs_fact_index (fa_state b) (fact_dedup_key_of (ig_fact g)) = Some x
        \<and> (\<forall>calls h c w qorts. let d = process_all std b calls in
              fact_dedup_key_of (ig_fact h) = fact_dedup_key_of (ig_fact g)
              \<longrightarrow> process_ingress std qorts d h = (c, Inr w) \<longrightarrow> c \<noteq> d
              \<longrightarrow> fo_action w = (if fr_bytes x = canonical_execution_fact_bytes std (ig_fact h)
                                  then FA_DUPLICATE else FA_CONFLICT)
                \<and> fs_fills (fa_state c) = fs_fills (fa_state d) \<and> fs_projections (fa_state c) = fs_projections (fa_state d)
                \<and> fs_observed (fa_state c) = fs_observed (fa_state d))"
    unfolding Let_def
    by (rule exI [of _ x], rule conjI [OF x], intro allI impI, rule known_fact, assumption, assumption)
      (simp add: fact_index_kept [OF x])
qed

theorem fact_effect_once_witness:
  "\<exists>a v. process_ingress std_example ports_example a trade_ingress = (a, Inr v) \<and> fo_action v = FA_ACCEPTED"
proof -
  obtain a' v where v: "process_ingress std_example ports_example facts_example trade_ingress = (a', Inr v)" "fo_action v = FA_ACCEPTED"
    using trade_processed by blast
  then show ?thesis using fact_effect_once [OF v(1)] by (auto simp: Let_def)
qed

text \<open>C25: what acceptance means. When a fact is accepted the ingress was the live dispatch; the one order
  it is attributed to was issued, being the answer of the order verifier to an identity the fact
  reports, or the venue index's order, itself the verifier's answer to an earlier fact; the fact
  agrees with that order in everything it reports, for a trade in side and commission too; the halt
  flag did not change; and for a trade the next fill was booked with the side, quantity, price and
  fees of the trade, the observed quantity grew by exactly that quantity and still fits the order,
  and the projection shows it as a partial or a complete fill accordingly.\<close>

theorem accepted_fact_effect:
  assumes "create_fact_authority std r ss ports0 = Inr a0" "a = process_all std a0 calls"
    "process_ingress std ports a g = (b, Inr v)" "b \<noteq> a" "fo_action v = FA_ACCEPTED"
  shows "\<exists>od i. let f = ig_fact g in fo_resolved_order v = Some (or_id od)
    \<and> ingress_identity_of g = Inr i
    \<and> po_dispatch ports i (canonical_execution_fact_ingress_bytes std g) (canonical_execution_fact_bytes std f) = Some (fo_dispatch v)
    \<and> (answered_order ports f od
        \<or> known_venue_order a f od \<and> (\<exists>(earlier, h)\<in>set calls. answered_order earlier (ig_fact h) od))
    \<and> fact_agrees std f od
    \<and> fs_halt (fa_state b) = fs_halt (fa_state a)
    \<and> (if ef_kind f = TRADE then trade_effect a b f od else fs_fills (fa_state b) = fs_fills (fa_state a))"
  using assms(3)
proof (cases rule: process_cases)
  case (short i n x st w)
  then show ?thesis using create_outcome_Inr(1) [OF publish_short_Inr(1) [OF short(5)]] assms(5) by (simp split: if_splits)
next
  case (first i n act anomalies rs fl pr fill_after st w)
  note p = publish_first_Inr [OF first(6)]
  note c = create_outcome_Inr [OF p(1)]
  have act: "act = FA_ACCEPTED" using c(1) assms(5) first(8) by simp
  note plan = accepted_first [OF first(5) [unfolded act]]
  obtain od where od: "rs_selected rs = Some od" "fact_contradicts_order std (ig_fact g) od = Inr False"
    by (rule resolve_clean [OF plan(7,3)])
  have source: "answered_order ports (ig_fact g) od \<or> known_venue_order a (ig_fact g) od
      \<and> (\<exists>(earlier, h)\<in>set calls. answered_order earlier (ig_fact h) od)"
    using resolved_source [OF plan(7) od(1)] venue_answeredD [OF venue_answered_run [OF assms(1), of calls]]
    unfolding assms(2) known_venue_order_def by blast
  have "fs_fills (fa_state b) = fs_fills (fa_state a)" if "ef_kind (ig_fact g) \<noteq> TRADE"
    using p(9) plan(8) that first(7) by (auto simp: build_fill_def split: option.splits)
  moreover have "trade_effect a b (ig_fact g) od" if "ef_kind (ig_fact g) = TRADE"
    using accepted_trade [OF first(5,6) [unfolded act] od(1) that] first(7) by simp
  ultimately show ?thesis
    using not_contradicted [OF od(2)] source first(1,3,7,8) p(3) act c(4,7) od(1)
    by (intro exI [of _ od] exI [of _ i]) (simp add: Let_def)
qed (use assms in auto)

theorem accepted_fact_effect_witness:
  "\<exists>b v od. process_ingress std_example ports_example facts_example trade_ingress = (b, Inr v)
     \<and> answered_order ports_example trade_example od \<and> fact_agrees std_example trade_example od
     \<and> trade_effect facts_example b trade_example od"
proof -
  obtain b v where v: "process_ingress std_example ports_example facts_example trade_ingress = (b, Inr v)" "fo_action v = FA_ACCEPTED"
    using trade_processed by blast
  obtain i x where "fs_ingress_index (fa_state b) i = Some x"
    by (rule process_recorded [OF v(1)])
  then have "b \<noteq> facts_example" by (auto simp: facts_example_def empty_fact_state_def)
  moreover have "facts_example = process_all std_example facts_example []" by simp
  ultimately show ?thesis
    using accepted_fact_effect [OF create_facts_example _ v(1) _ v(2), of "[]"] v(1)
    by (auto simp: Let_def trade_ingress_def trade_example_def)
qed

end
