(* ===== verification/Risk_Contracts.thy ===== *)
theory Risk_Contracts
  imports Order_Messages Portfolio
begin

text \<open>
  \<open>ea.core.risk\<close>: the deny-by-default risk policy, the monotone halt state, the
  evidence of one evaluation and its binding to a decision, with the canonical
  document and digest of each.
\<close>

section \<open>Vocabularies\<close>

datatype risk_reason =
    RR_WITHIN_LIMITS | RR_RESIZED_ORDER_LIMIT | RR_RESIZED_POSITION_LIMIT
  | RR_RESIZED_ORDER_AND_POSITION_LIMITS | RR_HALTED | RR_INSTRUMENT_NOT_CONFIGURED
  | RR_NO_POSITION_CAPACITY | RR_STALE_PORTFOLIO_SNAPSHOT | RR_LINEAGE_MISMATCH
  | RR_ARITHMETIC_FAILURE | RR_APPROVAL_SEQUENCE_EXHAUSTED

fun reason_value :: "risk_reason \<Rightarrow> string" where
  "reason_value RR_WITHIN_LIMITS = ''within_limits''"
| "reason_value RR_RESIZED_ORDER_LIMIT = ''resized_order_limit''"
| "reason_value RR_RESIZED_POSITION_LIMIT = ''resized_position_limit''"
| "reason_value RR_RESIZED_ORDER_AND_POSITION_LIMITS = ''resized_order_and_position_limits''"
| "reason_value RR_HALTED = ''halted''"
| "reason_value RR_INSTRUMENT_NOT_CONFIGURED = ''instrument_not_configured''"
| "reason_value RR_NO_POSITION_CAPACITY = ''no_position_capacity''"
| "reason_value RR_STALE_PORTFOLIO_SNAPSHOT = ''stale_portfolio_snapshot''"
| "reason_value RR_LINEAGE_MISMATCH = ''lineage_mismatch''"
| "reason_value RR_ARITHMETIC_FAILURE = ''arithmetic_failure''"
| "reason_value RR_APPROVAL_SEQUENCE_EXHAUSTED = ''approval_sequence_exhausted''"

datatype halt_reason =
    HR_KILL_SWITCH | HR_INTENT_IDENTITY_CONFLICT | HR_RISK_EVALUATION_FAILURE
  | HR_EXTERNAL_SAFETY_HALT | HR_RECONCILIATION_REQUIRED

fun halt_reason_value :: "halt_reason \<Rightarrow> string" where
  "halt_reason_value HR_KILL_SWITCH = ''kill_switch''"
| "halt_reason_value HR_INTENT_IDENTITY_CONFLICT = ''intent_identity_conflict''"
| "halt_reason_value HR_RISK_EVALUATION_FAILURE = ''risk_evaluation_failure''"
| "halt_reason_value HR_EXTERNAL_SAFETY_HALT = ''external_safety_halt''"
| "halt_reason_value HR_RECONCILIATION_REQUIRED = ''reconciliation_required''"

fun reasons_by_kind :: "risk_decision_kind \<Rightarrow> risk_reason list" where
  "reasons_by_kind ALLOW = [RR_WITHIN_LIMITS]"
| "reasons_by_kind RESIZE =
     [RR_RESIZED_ORDER_LIMIT, RR_RESIZED_POSITION_LIMIT, RR_RESIZED_ORDER_AND_POSITION_LIMITS]"
| "reasons_by_kind REJECT = [RR_HALTED, RR_INSTRUMENT_NOT_CONFIGURED, RR_NO_POSITION_CAPACITY]"
| "reasons_by_kind EVALUATION_FAILED =
     [RR_STALE_PORTFOLIO_SNAPSHOT, RR_LINEAGE_MISMATCH, RR_ARITHMETIC_FAILURE, RR_APPROVAL_SEQUENCE_EXHAUSTED]"

text \<open>\<open>_translate_economic_error\<close>.\<close>

fun risk_economic_error :: "exn \<Rightarrow> exn" where
  "risk_economic_error (EconomicValidationError c) =
     (if c \<in> {INVALID_TYPE, NOT_QUANTIZED, CONFLICTING_ID} then RiskContractError c
      else if c \<in> {OUT_OF_RANGE, NON_FINITE, PRICE_DOMAIN, ARITHMETIC_OVERFLOW}
      then RiskContractError OUT_OF_RANGE else AssertionError)"
| "risk_economic_error e = e"

section \<open>The policy\<close>

datatype risk_policy_id = RiskPolicyId string

fun risk_policy_text :: "risk_policy_id \<Rightarrow> string" where
  "risk_policy_text (RiskPolicyId v) = v"

definition make_risk_policy_id :: "string \<Rightarrow> risk_policy_id result" where
  "make_risk_policy_id v =
     guard_res (\<not> fullmatch source_namespace_pattern v) (RiskContractError OUT_OF_RANGE) (Inr (RiskPolicyId v))"

record risk_limit =
  rl_instrument :: instrument
  rl_order :: canonical_decimal
  rl_position :: canonical_decimal

definition make_risk_limit :: "instrument \<Rightarrow> canonical_decimal \<Rightarrow> canonical_decimal \<Rightarrow> risk_limit result" where
  "make_risk_limit i q p =
     map_exn risk_economic_error
       (bind_res (require_positive q) (\<lambda>_. bind_res (require_positive p) (\<lambda>_.
         Inr \<lparr>rl_instrument = i, rl_order = q, rl_position = p\<rparr>)))"

record risk_policy =
  rp_id :: risk_policy_id
  rp_set_id :: spec_set_id
  rp_set_sha256 :: sha256_digest
  rp_execution :: execution_policy
  rp_limits :: "risk_limit list"

fun require_limits :: "spec_set \<Rightarrow> risk_limit list \<Rightarrow> unit result" where
  "require_limits ss [] = Inr ()"
| "require_limits ss (l # ls) =
     bind_res (map_exn risk_economic_error
       (bind_res (require_spec ss (rl_instrument l)) (\<lambda>specification.
        bind_res (require_quantized (rl_order l) (quantity_quantum specification)) (\<lambda>_.
        require_quantized (rl_position l) (quantity_quantum specification)))))
       (\<lambda>_. require_limits ss ls)"

definition create_risk_policy ::
  "stdlib \<Rightarrow> risk_policy_id \<Rightarrow> spec_set \<Rightarrow> execution_policy \<Rightarrow> risk_limit list \<Rightarrow> risk_policy result" where
  "create_risk_policy std i ss policy limits =
     guard_res (\<not> distinct (map (\<lambda>l. instrument_key (rl_instrument l)) limits)) (RiskContractError CONFLICTING_ID)
       (let ordered = sort_key (\<lambda>l. instrument_key (rl_instrument l)) limits
        in bind_res (require_limits ss ordered) (\<lambda>_.
             Inr \<lparr>rp_id = i, rp_set_id = set_identifier ss,
                  rp_set_sha256 = instrument_spec_set_digest (hexdigest std) ss,
                  rp_execution = policy, rp_limits = ordered\<rparr>))"

definition risk_policy_document :: "risk_policy \<Rightarrow> json" where
  "risk_policy_document p = JObj
     [(''canonicalization'', JStr ''ea-risk-policy-v1''),
      (''default_action'', JStr ''deny''),
      (''execution_policy'', policy_document (rp_execution p)),
      (''instrument_limits'', JList (map (\<lambda>l. JObj
         [(''instrument'', instrument_document (rl_instrument l)),
          (''maximum_absolute_position'', JStr (dec_text (rl_position l))),
          (''maximum_order_quantity'', JStr (dec_text (rl_order l)))]) (rp_limits p))),
      (''instrument_spec_set_id'', JStr (spec_set_id_text (rp_set_id p))),
      (''instrument_spec_set_sha256'', digest_json (rp_set_sha256 p)),
      (''message_type'', JStr ''phase1_risk_policy''),
      (''policy_id'', JStr (risk_policy_text (rp_id p))),
      (''schema_version'', JInt 1)]"

definition risk_policy_digest :: "stdlib \<Rightarrow> risk_policy \<Rightarrow> sha256_digest" where
  "risk_policy_digest std p =
     domain_digest (hexdigest std) ''ea.risk-policy.v1'' (json_bytes (risk_policy_document p))"

section \<open>The halt state\<close>

record risk_state =
  rk_run :: run_id
  rk_policy :: risk_policy_id
  rk_policy_sha256 :: sha256_digest
  rk_version :: int
  rk_halted :: bool
  rk_reason :: "halt_reason option"
  rk_available_at :: "int option"
  rk_dispatch :: "int option"
  rk_existing_sha256 :: "sha256_digest option"
  rk_submitted_sha256 :: "sha256_digest option"

definition require_halt_fields :: "risk_state \<Rightarrow> unit result" where
  "require_halt_fields s =
     guard_res (rk_reason s = None \<or> rk_available_at s = None) (RiskContractError INVALID_TYPE)
    (case rk_dispatch s of
       None \<Rightarrow> Inl (RiskContractError INVALID_TYPE)
     | Some n \<Rightarrow> guard_res (n < 0) (RiskContractError OUT_OF_RANGE)
         (guard_res (rk_version s \<noteq> 1) (RiskContractError CONFLICTING_ID)
         (guard_res (rk_reason s = Some HR_INTENT_IDENTITY_CONFLICT
              \<and> (rk_existing_sha256 s = None \<or> rk_submitted_sha256 s = None)) (RiskContractError CONFLICTING_ID)
         (guard_res (rk_reason s \<noteq> Some HR_INTENT_IDENTITY_CONFLICT
              \<and> (rk_existing_sha256 s \<noteq> None \<or> rk_submitted_sha256 s \<noteq> None)) (RiskContractError CONFLICTING_ID)
            (Inr ())))))"

definition require_initial_fields :: "risk_state \<Rightarrow> unit result" where
  "require_initial_fields s =
     guard_res (rk_reason s \<noteq> None \<or> rk_available_at s \<noteq> None \<or> rk_dispatch s \<noteq> None
         \<or> rk_existing_sha256 s \<noteq> None \<or> rk_submitted_sha256 s \<noteq> None) (RiskContractError CONFLICTING_ID)
       (guard_res (rk_version s \<noteq> 0) (RiskContractError CONFLICTING_ID) (Inr ()))"

definition create_risk_state :: "risk_state \<Rightarrow> risk_state result" where
  "create_risk_state s =
     guard_res (rk_version s \<noteq> 0 \<and> rk_version s \<noteq> 1) (RiskContractError OUT_OF_RANGE)
       (bind_res (if rk_halted s then require_halt_fields s else require_initial_fields s) (\<lambda>_. Inr s))"

definition risk_state_document :: "stdlib \<Rightarrow> risk_state \<Rightarrow> json" where
  "risk_state_document std s = JObj
     [(''canonicalization'', JStr ''ea-risk-state-v1''),
      (''conflict_existing_intent_sha256'', optional_document digest_json (rk_existing_sha256 s)),
      (''conflict_submitted_intent_sha256'', optional_document digest_json (rk_submitted_sha256 s)),
      (''halt_causal_root_available_at'', optional_document (\<lambda>t. JStr (utc_text std t)) (rk_available_at s)),
      (''halt_dispatch_sequence'', optional_document JInt (rk_dispatch s)),
      (''halt_reason'', optional_document (\<lambda>r. JStr (halt_reason_value r)) (rk_reason s)),
      (''halted'', JBool (rk_halted s)),
      (''message_type'', JStr ''risk_state_snapshot''),
      (''policy_id'', JStr (risk_policy_text (rk_policy s))),
      (''policy_sha256'', digest_json (rk_policy_sha256 s)),
      (''risk_state_version'', JInt (rk_version s)),
      (''run_id'', JStr (run_text (rk_run s))),
      (''schema_version'', JInt 1)]"

definition risk_state_digest :: "stdlib \<Rightarrow> risk_state \<Rightarrow> sha256_digest" where
  "risk_state_digest std s =
     domain_digest (hexdigest std) ''ea.risk-state.v1'' (json_bytes (risk_state_document std s))"

section \<open>Evaluation evidence\<close>

record risk_evidence =
  rv_run :: run_id
  rv_intent :: economic_id
  rv_intent_sha256 :: sha256_digest
  rv_snapshot_version :: int
  rv_snapshot_sha256 :: sha256_digest
  rv_policy :: risk_policy_id
  rv_policy_sha256 :: sha256_digest
  rv_risk_version :: int
  rv_decision :: economic_id
  rv_decision_sha256 :: sha256_digest
  rv_approval_sha256 :: "sha256_digest option"
  rv_reason :: risk_reason
  rv_decision_before :: int
  rv_decision_after :: "int option"
  rv_approval_before :: "int option"
  rv_approval_after :: "int option"

definition require_next :: "int option \<Rightarrow> int option result" where
  "require_next v = (case v of
      None \<Rightarrow> Inr None
    | Some n \<Rightarrow> guard_res (n < 1 \<or> n > MAX_UINT64) (RiskContractError OUT_OF_RANGE) (Inr (Some n)))"

definition next_allocation :: "int \<Rightarrow> int option" where
  "next_allocation n = (if n = MAX_UINT64 then None else Some (n + 1))"

definition require_allocated :: "int option \<Rightarrow> int option \<Rightarrow> economic_id \<Rightarrow> unit result" where
  "require_allocated before after i =
     bind_res (require_next before) (\<lambda>b. bind_res (require_next after) (\<lambda>a.
     case b of
       None \<Rightarrow> Inl (RiskContractError CONFLICTING_ID)
     | Some n \<Rightarrow> guard_res (owner_sequence i \<noteq> n) (RiskContractError CONFLICTING_ID)
         (guard_res (a \<noteq> next_allocation n) (RiskContractError CONFLICTING_ID) (Inr ()))))"

definition require_unchanged :: "int option \<Rightarrow> int option \<Rightarrow> unit result" where
  "require_unchanged before after =
     bind_res (require_next before) (\<lambda>b. bind_res (require_next after) (\<lambda>a.
       guard_res (b \<noteq> a) (RiskContractError CONFLICTING_ID) (Inr ())))"

definition evidence_approval ::
  "stdlib \<Rightarrow> risk_decision \<Rightarrow> int option \<Rightarrow> int option \<Rightarrow> sha256_digest option result" where
  "evidence_approval std d before after =
     (if rd_kind d = ALLOW \<or> rd_kind d = RESIZE
      then (case rd_approval d of
          None \<Rightarrow> Inl (RiskContractError CONFLICTING_ID)
        | Some a \<Rightarrow> bind_res (require_allocated before after (ap_id a)) (\<lambda>_.
            Inr (Some (execution_approval_digest std a))))
      else bind_res (require_unchanged before after) (\<lambda>_.
        guard_res (rd_approval d \<noteq> None) (RiskContractError CONFLICTING_ID) (Inr None)))"

definition create_risk_evidence ::
  "stdlib \<Rightarrow> risk_decision \<Rightarrow> sha256_digest \<Rightarrow> int \<Rightarrow> sha256_digest \<Rightarrow> risk_policy \<Rightarrow> int \<Rightarrow> risk_reason
   \<Rightarrow> int \<Rightarrow> int option \<Rightarrow> int option \<Rightarrow> int option \<Rightarrow> risk_evidence result" where
  "create_risk_evidence std d intent_sha version snapshot_sha policy risk_version reason
      decision_before decision_after approval_before approval_after =
     guard_res (version < 0) (RiskContractError OUT_OF_RANGE)
    (guard_res (risk_version < 0) (RiskContractError OUT_OF_RANGE)
    (guard_res (rd_risk_version d \<noteq> risk_version) (RiskContractError CONFLICTING_ID)
    (guard_res (rd_intent_sha256 d \<noteq> intent_sha) (RiskContractError CONFLICTING_ID)
    (guard_res (owner_kind (rd_id d) \<noteq> RISK_DECISION \<or> run_id (rd_id d) \<noteq> rd_run d) (RiskContractError CONFLICTING_ID)
    (bind_res (require_allocated (Some decision_before) decision_after (rd_id d)) (\<lambda>_.
     guard_res (reason \<notin> set (reasons_by_kind (rd_kind d))) (RiskContractError CONFLICTING_ID)
    (bind_res (evidence_approval std d approval_before approval_after) (\<lambda>approval_sha.
       Inr \<lparr>rv_run = rd_run d, rv_intent = rd_intent d, rv_intent_sha256 = intent_sha,
            rv_snapshot_version = version, rv_snapshot_sha256 = snapshot_sha, rv_policy = rp_id policy,
            rv_policy_sha256 = risk_policy_digest std policy, rv_risk_version = risk_version,
            rv_decision = rd_id d, rv_decision_sha256 = risk_decision_digest std d,
            rv_approval_sha256 = approval_sha, rv_reason = reason, rv_decision_before = decision_before,
            rv_decision_after = decision_after, rv_approval_before = approval_before,
            rv_approval_after = approval_after\<rparr>))))))))"

definition evidence_document :: "risk_evidence \<Rightarrow> json" where
  "evidence_document v = JObj
     [(''approval_next_after'', optional_document JInt (rv_approval_after v)),
      (''approval_next_before'', optional_document JInt (rv_approval_before v)),
      (''approval_sha256'', optional_document digest_json (rv_approval_sha256 v)),
      (''canonicalization'', JStr ''ea-risk-evaluation-evidence-v1''),
      (''decision_id'', economic_id_document (rv_decision v)),
      (''decision_next_after'', optional_document JInt (rv_decision_after v)),
      (''decision_next_before'', JInt (rv_decision_before v)),
      (''decision_sha256'', digest_json (rv_decision_sha256 v)),
      (''intent_id'', economic_id_document (rv_intent v)),
      (''intent_sha256'', digest_json (rv_intent_sha256 v)),
      (''message_type'', JStr ''risk_evaluation_evidence''),
      (''policy_id'', JStr (risk_policy_text (rv_policy v))),
      (''policy_sha256'', digest_json (rv_policy_sha256 v)),
      (''portfolio_snapshot_sha256'', digest_json (rv_snapshot_sha256 v)),
      (''portfolio_snapshot_version'', JInt (rv_snapshot_version v)),
      (''reason_code'', JStr (reason_value (rv_reason v))),
      (''risk_state_version'', JInt (rv_risk_version v)),
      (''run_id'', JStr (run_text (rv_run v))),
      (''schema_version'', JInt 1)]"

definition canonical_evidence_bytes :: "risk_evidence \<Rightarrow> string" where
  "canonical_evidence_bytes v = json_bytes (evidence_document v)"

definition risk_evidence_digest :: "stdlib \<Rightarrow> risk_evidence \<Rightarrow> sha256_digest" where
  "risk_evidence_digest std v =
     domain_digest (hexdigest std) ''ea.risk-evaluation-evidence.v1'' (canonical_evidence_bytes v)"

section \<open>Results\<close>

record risk_result =
  rr_decision :: risk_decision
  rr_evidence :: risk_evidence

definition create_risk_result :: "stdlib \<Rightarrow> risk_decision \<Rightarrow> risk_evidence \<Rightarrow> risk_result result" where
  "create_risk_result std d v =
     guard_res (rv_run v \<noteq> rd_run d \<or> rv_intent v \<noteq> rd_intent d \<or> rv_decision v \<noteq> rd_id d
         \<or> rv_decision_sha256 v \<noteq> risk_decision_digest std d \<or> rv_risk_version v \<noteq> rd_risk_version d)
       (RiskContractError CONFLICTING_ID)
    (guard_res (rv_approval_sha256 v \<noteq> map_option (execution_approval_digest std) (rd_approval d))
       (RiskContractError CONFLICTING_ID)
       (Inr \<lparr>rr_decision = d, rr_evidence = v\<rparr>))"

text \<open>\<open>canonical_risk_decision_bytes\<close> of \<open>ea.core.execution_messages\<close>.\<close>

definition canonical_risk_decision_bytes :: "stdlib \<Rightarrow> risk_decision \<Rightarrow> string" where
  "canonical_risk_decision_bytes std d = json_bytes (risk_decision_document std d)"

end
