(* ===== verification/Risk_Authority.thy ===== *)
theory Risk_Authority
  imports Risk_Contracts Portfolio_Ledger
begin

text \<open>
  \<open>ea.risk.authority\<close>: the single owner of risk evaluation. An intent is
  evaluated against the frozen policy and one portfolio snapshot; the decision
  and its evidence are recorded under the intent's identity, a repeated intent
  is answered from the record, a conflicting one engages the halt.
\<close>

section \<open>State\<close>

record risk_replay =
  ry_intent_sha256 :: sha256_digest
  ry_intent_bytes :: string
  ry_snapshot_sha256 :: sha256_digest
  ry_decision :: risk_decision
  ry_decision_bytes :: string
  ry_evidence :: risk_evidence
  ry_evidence_bytes :: string
  ry_result :: risk_result

record risk_authority_state =
  ks_risk :: risk_state
  ks_decision_next :: "int option"
  ks_approval_next :: "int option"
  ks_replay :: "economic_id \<rightharpoonup> risk_replay"
  ks_decisions :: "risk_decision list"
  ks_evidence :: "risk_evidence list"
  ks_results :: "risk_result list"

record risk_authority =
  ka_run :: run_id
  ka_specs :: spec_set
  ka_specs_sha256 :: sha256_digest
  ka_execution :: execution_policy
  ka_policy :: risk_policy
  ka_quanta :: "(settlement_currency \<times> canonical_decimal) list"
  ka_state :: risk_authority_state

text \<open>The dictionaries of the constructor: the last entry for a key wins.\<close>

definition limit_by_instrument :: "risk_authority \<Rightarrow> instrument \<Rightarrow> risk_limit option" where
  "limit_by_instrument a i = map_of (rev (map (\<lambda>l. (rl_instrument l, l)) (rp_limits (ka_policy a)))) i"

definition spec_by_instrument :: "risk_authority \<Rightarrow> instrument \<Rightarrow> execution_spec option" where
  "spec_by_instrument a i = map_of (rev (map (\<lambda>s. (spec_instrument s, s)) (specifications (ka_specs a)))) i"

section \<open>Errors and arithmetic\<close>

text \<open>\<open>_raise_structural\<close>, for the three families it is applied to.\<close>

definition structural_error :: "outcome_code \<Rightarrow> exn" where
  "structural_error c =
     (if c \<in> {INVALID_TYPE, NOT_QUANTIZED, CONFLICTING_ID} then RiskAuthorityError c
      else if c \<in> {OUT_OF_RANGE, NON_FINITE, PRICE_DOMAIN, ARITHMETIC_OVERFLOW}
      then RiskAuthorityError OUT_OF_RANGE else AssertionError)"

fun raise_structural :: "exn \<Rightarrow> exn" where
  "raise_structural (ExecutionMessageError c) = structural_error c"
| "raise_structural (RiskContractError c) = structural_error c"
| "raise_structural (EconomicValidationError c) = structural_error c"
| "raise_structural e = e"

definition add_signed_decimal :: "canonical_decimal \<Rightarrow> canonical_decimal \<Rightarrow> int \<Rightarrow> canonical_decimal result" where
  "add_signed_decimal left right right_sign =
     guard_res (right_sign \<noteq> -1 \<and> right_sign \<noteq> 1) AssertionError
       (let s = max (scale left) (scale right);
            c = coefficient left * 10 ^ (s - scale left) + right_sign * coefficient right * 10 ^ (s - scale right)
        in canonical_decimal (scaled_text c s))"

definition position_for :: "snapshot \<Rightarrow> instrument \<Rightarrow> canonical_decimal result" where
  "position_for sn i = (case find (\<lambda>b. pb_instrument b = i) (sn_positions sn) of
      Some b \<Rightarrow> Inr (pb_quantity b)
    | None \<Rightarrow> canonical_decimal ''0'')"

text \<open>Python's \<open>max\<close> and \<open>min\<close>: a later argument replaces the choice when it is strictly better.\<close>

definition dec_max2 :: "canonical_decimal \<Rightarrow> canonical_decimal \<Rightarrow> canonical_decimal result" where
  "dec_max2 a b = bind_res (dec_greater b a) (\<lambda>g. Inr (if g then b else a))"

definition dec_min2 :: "canonical_decimal \<Rightarrow> canonical_decimal \<Rightarrow> canonical_decimal result" where
  "dec_min2 a b = bind_res (dec_less b a) (\<lambda>g. Inr (if g then b else a))"

definition side_capacity :: "canonical_decimal \<Rightarrow> canonical_decimal \<Rightarrow> order_side \<Rightarrow> canonical_decimal result" where
  "side_capacity maximum current side =
     bind_res (add_signed_decimal maximum current (case side of BUY \<Rightarrow> -1 | SELL \<Rightarrow> 1)) (\<lambda>v.
     bind_res (canonical_decimal ''0'') (\<lambda>z. dec_max2 z v))"

definition risk_advance :: "int \<Rightarrow> int option result" where
  "risk_advance v = guard_res (v < 1 \<or> v > MAX_UINT64) AssertionError (Inr (next_allocation v))"

section \<open>Creation\<close>

fun risk_quanta :: "(settlement_currency \<times> canonical_decimal) list \<Rightarrow> execution_spec list
    \<Rightarrow> (settlement_currency \<times> canonical_decimal) list result" where
  "risk_quanta quanta [] = Inr quanta"
| "risk_quanta quanta (s # ss) =
     guard_res (case map_of quanta (settlement_currency s) of
           None \<Rightarrow> False | Some q \<Rightarrow> q \<noteq> currency_quantum s) (RiskAuthorityError CONFLICTING_ID)
       (risk_quanta (AList.update (settlement_currency s) (currency_quantum s) quanta) ss)"

definition create_risk_authority ::
  "stdlib \<Rightarrow> run_id \<Rightarrow> spec_set \<Rightarrow> execution_policy \<Rightarrow> risk_policy \<Rightarrow> risk_authority result" where
  "create_risk_authority std run ss execution policy =
     (let sha = instrument_spec_set_digest (hexdigest std) ss
      in guard_res (rp_set_id policy \<noteq> set_identifier ss \<or> rp_set_sha256 policy \<noteq> sha
             \<or> rp_execution policy \<noteq> execution) (RiskAuthorityError CONFLICTING_ID)
        (bind_res (risk_quanta [] (specifications ss)) (\<lambda>quanta.
         bind_res (create_risk_state \<lparr>rk_run = run, rk_policy = rp_id policy,
             rk_policy_sha256 = risk_policy_digest std policy, rk_version = 0, rk_halted = False,
             rk_reason = None, rk_available_at = None, rk_dispatch = None, rk_existing_sha256 = None,
             rk_submitted_sha256 = None\<rparr>) (\<lambda>initial.
           Inr \<lparr>ka_run = run, ka_specs = ss, ka_specs_sha256 = sha, ka_execution = execution,
                ka_policy = policy, ka_quanta = quanta,
                ka_state = \<lparr>ks_risk = initial, ks_decision_next = Some 1, ks_approval_next = Some 1,
                  ks_replay = Map.empty, ks_decisions = [], ks_evidence = [], ks_results = []\<rparr>\<rparr>))))"

section \<open>Halting\<close>

definition halted_state :: "stdlib \<Rightarrow> risk_authority \<Rightarrow> halt_reason \<Rightarrow> int \<Rightarrow> int
    \<Rightarrow> sha256_digest option \<Rightarrow> sha256_digest option \<Rightarrow> risk_state result" where
  "halted_state std a reason available_at dispatch existing submitted =
     create_risk_state \<lparr>rk_run = ka_run a, rk_policy = rp_id (ka_policy a),
       rk_policy_sha256 = risk_policy_digest std (ka_policy a), rk_version = 1, rk_halted = True,
       rk_reason = Some reason, rk_available_at = Some available_at, rk_dispatch = Some dispatch,
       rk_existing_sha256 = existing, rk_submitted_sha256 = submitted\<rparr>"

definition engage_halt ::
  "stdlib \<Rightarrow> risk_authority \<Rightarrow> halt_reason \<Rightarrow> int \<Rightarrow> int \<Rightarrow> risk_authority \<times> risk_state result" where
  "engage_halt std a reason available_at dispatch =
     (if reason = HR_INTENT_IDENTITY_CONFLICT then (a, Inl (RiskAuthorityError OUT_OF_RANGE))
      else if dispatch < 0 then (a, Inl (RiskAuthorityError OUT_OF_RANGE))
      else if rk_halted (ks_risk (ka_state a)) then (a, Inr (ks_risk (ka_state a)))
      else case halted_state std a reason available_at dispatch None None of
          Inl e \<Rightarrow> (a, Inl e)
        | Inr s \<Rightarrow> (a\<lparr>ka_state := (ka_state a)\<lparr>ks_risk := s\<rparr>\<rparr>, Inr s))"

definition engage_identity_conflict ::
  "stdlib \<Rightarrow> risk_authority \<Rightarrow> order_intent \<Rightarrow> sha256_digest \<Rightarrow> sha256_digest \<Rightarrow> risk_authority \<times> exn" where
  "engage_identity_conflict std a n existing submitted =
     (if rk_halted (ks_risk (ka_state a)) then (a, RiskAuthorityError CONFLICTING_ID)
      else case halted_state std a HR_INTENT_IDENTITY_CONFLICT (in_available_at n) (in_dispatch n)
             (Some existing) (Some submitted) of
          Inl e \<Rightarrow> (a, e)
        | Inr s \<Rightarrow> (a\<lparr>ka_state := (ka_state a)\<lparr>ks_risk := s\<rparr>\<rparr>, RiskAuthorityError CONFLICTING_ID))"

section \<open>Checks before a decision\<close>

definition require_structural_intent :: "risk_authority \<Rightarrow> order_intent \<Rightarrow> execution_spec result" where
  "require_structural_intent a n =
     guard_res (in_run n \<noteq> ka_run a) (RiskAuthorityError CONFLICTING_ID)
    (guard_res (in_set_id n \<noteq> set_identifier (ka_specs a) \<or> in_set_sha256 n \<noteq> ka_specs_sha256 a)
       (RiskAuthorityError CONFLICTING_ID)
    (case spec_by_instrument a (in_instrument n) of
       None \<Rightarrow> Inl (RiskAuthorityError CONFLICTING_ID)
     | Some specification \<Rightarrow>
         guard_res (in_spec_id n \<noteq> specification_id specification) (RiskAuthorityError CONFLICTING_ID)
        (map_exn raise_structural
          (bind_res (require_positive (in_quantity n)) (\<lambda>_.
           bind_res (require_quantized (in_quantity n) (quantity_quantum specification)) (\<lambda>_.
             Inr specification))))))"

definition quantized :: "canonical_decimal \<Rightarrow> canonical_decimal \<Rightarrow> bool" where
  "quantized v q \<longleftrightarrow> (case require_quantized v q of Inl e \<Rightarrow> False | Inr w \<Rightarrow> True)"

definition snapshot_balances_match :: "risk_authority \<Rightarrow> snapshot \<Rightarrow> bool" where
  "snapshot_balances_match a sn \<longleftrightarrow>
     list_all (\<lambda>b. case spec_by_instrument a (pb_instrument b) of
         None \<Rightarrow> False
       | Some s \<Rightarrow> pb_quantum b = quantity_quantum s \<and> quantized (pb_quantity b) (quantity_quantum s))
       (sn_positions sn)
     \<and> list_all (\<lambda>b. case map_of (ka_quanta a) (cb_currency b) of
         None \<Rightarrow> False | Some q \<Rightarrow> cb_quantum b = q \<and> quantized (cb_amount b) q) (sn_cash sn)
     \<and> list_all (\<lambda>b. map_of (ka_quanta a) (rb_currency b) \<noteq> None) (sn_rounding sn)"

definition classify_lineage_failure :: "risk_authority \<Rightarrow> order_intent \<Rightarrow> snapshot \<Rightarrow> risk_reason option" where
  "classify_lineage_failure a n sn =
     (if in_policy n \<noteq> ka_execution a then Some RR_LINEAGE_MISMATCH
      else if sn_run sn \<noteq> ka_run a \<or> sn_run sn \<noteq> in_run n then Some RR_LINEAGE_MISMATCH
      else if sn_set_id sn \<noteq> set_identifier (ka_specs a) \<or> sn_set_sha256 sn \<noteq> ka_specs_sha256 a
      then Some RR_LINEAGE_MISMATCH
      else if sn_version sn < in_snapshot_version n then Some RR_STALE_PORTFOLIO_SNAPSHOT
      else if sn_version sn > in_snapshot_version n then Some RR_LINEAGE_MISMATCH
      else if \<not> snapshot_balances_match a sn then Some RR_LINEAGE_MISMATCH
      else None)"

section \<open>Registration\<close>

definition risk_id :: "risk_authority \<Rightarrow> economic_owner_kind \<Rightarrow> int \<Rightarrow> economic_id result" where
  "risk_id a k n = make_economic_id (ka_run a) k n"

text \<open>The kind, reason, quantity and approval identity actually decided: the last approval may be gone.\<close>

definition allocate_approval ::
  "risk_authority \<Rightarrow> risk_decision_kind \<Rightarrow> risk_reason \<Rightarrow> canonical_decimal option
   \<Rightarrow> (risk_decision_kind \<times> risk_reason \<times> canonical_decimal option \<times> economic_id option \<times> int option) result" where
  "allocate_approval a kind reason approved =
     (let before = ks_approval_next (ka_state a) in
      if kind = ALLOW \<or> kind = RESIZE
      then (case before of
          None \<Rightarrow> Inr (EVALUATION_FAILED, RR_APPROVAL_SEQUENCE_EXHAUSTED, None, None, before)
        | Some n \<Rightarrow> bind_res (risk_advance n) (\<lambda>after.
            bind_res (risk_id a RISK_APPROVAL n) (\<lambda>i. Inr (kind, reason, approved, Some i, after))))
      else Inr (kind, reason, approved, None, before))"

definition make_decision ::
  "stdlib \<Rightarrow> risk_authority \<Rightarrow> order_intent \<Rightarrow> economic_id \<Rightarrow> economic_id option \<Rightarrow> risk_decision_kind
   \<Rightarrow> canonical_decimal option \<Rightarrow> risk_decision result" where
  "make_decision std a n decision_id approval_id kind approved =
     (let version = rk_version (ks_risk (ka_state a)) in
      case kind of
        ALLOW \<Rightarrow> (case approval_id of
            None \<Rightarrow> Inl AssertionError
          | Some i \<Rightarrow> allow_order_intent std decision_id i n (ka_specs a) version)
      | RESIZE \<Rightarrow> (case (approval_id, approved) of
            (Some i, Some q) \<Rightarrow> resize_order_intent std decision_id i n q (ka_specs a) version
          | _ \<Rightarrow> Inl AssertionError)
      | REJECT \<Rightarrow> reject_order_intent std decision_id n (ka_specs a) version
      | EVALUATION_FAILED \<Rightarrow> fail_order_intent_evaluation std decision_id n (ka_specs a) version)"

definition register_decision ::
  "stdlib \<Rightarrow> risk_authority \<Rightarrow> order_intent \<Rightarrow> string \<Rightarrow> sha256_digest \<Rightarrow> int \<Rightarrow> sha256_digest
   \<Rightarrow> risk_decision_kind \<Rightarrow> risk_reason \<Rightarrow> canonical_decimal option
   \<Rightarrow> (risk_authority_state \<times> risk_result) result" where
  "register_decision std a n intent_bytes intent_sha version snapshot_sha kind reason approved =
     (let st = ka_state a in
      case ks_decision_next st of
        None \<Rightarrow> Inl (RiskAuthorityError OUT_OF_RANGE)
      | Some decision_before \<Rightarrow>
          bind_res (risk_advance decision_before) (\<lambda>decision_after.
          bind_res (risk_id a RISK_DECISION decision_before) (\<lambda>decision_id.
          bind_res (allocate_approval a kind reason approved) (\<lambda>(kind, reason, approved, approval_id, approval_after).
          map_exn raise_structural
            (bind_res (make_decision std a n decision_id approval_id kind approved) (\<lambda>d.
             bind_res (create_risk_evidence std d intent_sha version snapshot_sha (ka_policy a)
               (rk_version (ks_risk st)) reason decision_before decision_after
               (ks_approval_next st) approval_after) (\<lambda>v.
             bind_res (create_risk_result std d v) (\<lambda>r.
               Inr (st\<lparr>ks_decision_next := decision_after, ks_approval_next := approval_after,
                  ks_replay := (ks_replay st)(in_intent_id n \<mapsto> \<lparr>ry_intent_sha256 = intent_sha,
                    ry_intent_bytes = intent_bytes, ry_snapshot_sha256 = snapshot_sha, ry_decision = d,
                    ry_decision_bytes = canonical_risk_decision_bytes std d, ry_evidence = v,
                    ry_evidence_bytes = canonical_evidence_bytes v, ry_result = r\<rparr>),
                  ks_decisions := ks_decisions st @ [d], ks_evidence := ks_evidence st @ [v],
                  ks_results := ks_results st @ [r]\<rparr>, r)))))))))"

section \<open>Evaluation\<close>

text \<open>The kind, reason and quantity of an intent that is neither mismatched nor halted.\<close>

definition resize_reason ::
  "canonical_decimal \<Rightarrow> canonical_decimal \<Rightarrow> canonical_decimal \<Rightarrow> canonical_decimal \<Rightarrow> risk_reason result" where
  "resize_reason quantity maximum capacity approved =
     bind_res (dec_less maximum quantity) (\<lambda>below_order.
     bind_res (dec_less capacity quantity) (\<lambda>below_position.
     let order_binds = (below_order \<and> maximum = approved);
         position_binds = (below_position \<and> capacity = approved)
     in if order_binds \<and> position_binds then Inr RR_RESIZED_ORDER_AND_POSITION_LIMITS
        else if order_binds then Inr RR_RESIZED_ORDER_LIMIT
        else if position_binds then Inr RR_RESIZED_POSITION_LIMIT
        else Inl AssertionError))"

definition decide_against_limit ::
  "order_intent \<Rightarrow> risk_limit \<Rightarrow> canonical_decimal
   \<Rightarrow> (risk_decision_kind \<times> risk_reason \<times> canonical_decimal option) result" where
  "decide_against_limit n limit current =
     (case side_capacity (rl_position limit) current (in_side n) of
        Inl (EconomicValidationError c) \<Rightarrow> Inr (EVALUATION_FAILED, RR_ARITHMETIC_FAILURE, None)
      | Inl e \<Rightarrow> Inl e
      | Inr capacity \<Rightarrow>
          bind_res (dec_min2 (in_quantity n) (rl_order limit)) (\<lambda>m.
          bind_res (dec_min2 m capacity) (\<lambda>approved.
          if coefficient approved = 0 then Inr (REJECT, RR_NO_POSITION_CAPACITY, None)
          else if approved = in_quantity n then Inr (ALLOW, RR_WITHIN_LIMITS, Some approved)
          else bind_res (resize_reason (in_quantity n) (rl_order limit) capacity approved) (\<lambda>reason.
            Inr (RESIZE, reason, Some approved)))))"

definition decide ::
  "risk_authority \<Rightarrow> order_intent \<Rightarrow> snapshot
   \<Rightarrow> (risk_decision_kind \<times> risk_reason \<times> canonical_decimal option) result" where
  "decide a n sn =
     (case classify_lineage_failure a n sn of
        Some reason \<Rightarrow> Inr (EVALUATION_FAILED, reason, None)
      | None \<Rightarrow>
          if rk_halted (ks_risk (ka_state a)) then Inr (REJECT, RR_HALTED, None)
          else (case limit_by_instrument a (in_instrument n) of
              None \<Rightarrow> Inr (REJECT, RR_INSTRUMENT_NOT_CONFIGURED, None)
            | Some limit \<Rightarrow> bind_res (position_for sn (in_instrument n)) (decide_against_limit n limit)))"

definition plan_evaluation ::
  "stdlib \<Rightarrow> risk_authority \<Rightarrow> order_intent \<Rightarrow> snapshot \<Rightarrow> (risk_authority_state \<times> risk_result) result" where
  "plan_evaluation std a n sn =
     bind_res (require_structural_intent a n) (\<lambda>_.
     guard_res (ks_decision_next (ka_state a) = None) (RiskAuthorityError OUT_OF_RANGE)
    (bind_res (decide a n sn) (\<lambda>(kind, reason, approved).
       register_decision std a n (canonical_order_intent_bytes std n) (order_intent_digest std n)
         (sn_version sn) (portfolio_snapshot_digest std sn) kind reason approved)))"

definition evaluate ::
  "stdlib \<Rightarrow> risk_authority \<Rightarrow> order_intent \<Rightarrow> snapshot \<Rightarrow> risk_authority \<times> risk_result result" where
  "evaluate std a n sn =
     (if in_dispatch n < 0 then (a, Inl (RiskAuthorityError OUT_OF_RANGE))
      else case ks_replay (ka_state a) (in_intent_id n) of
          Some y \<Rightarrow>
            if ry_intent_bytes y = canonical_order_intent_bytes std n then (a, Inr (ry_result y))
            else (case engage_identity_conflict std a n (ry_intent_sha256 y) (order_intent_digest std n) of
                (a', e) \<Rightarrow> (a', Inl e))
        | None \<Rightarrow> (case plan_evaluation std a n sn of
                Inl e \<Rightarrow> (a, Inl e)
              | Inr (st, r) \<Rightarrow> (a\<lparr>ka_state := st\<rparr>, Inr r)))"

definition has_issued_result :: "risk_authority \<Rightarrow> economic_id \<Rightarrow> string \<Rightarrow> string \<Rightarrow> string \<Rightarrow> bool" where
  "has_issued_result a i intent_bytes decision_bytes evidence_bytes =
     (case ks_replay (ka_state a) i of
        None \<Rightarrow> False
      | Some y \<Rightarrow> ry_intent_bytes y = intent_bytes \<and> ry_decision_bytes y = decision_bytes
          \<and> ry_evidence_bytes y = evidence_bytes)"

end
