(* ===== verification/Risk_Laws.thy ===== *)
theory Risk_Laws
  imports Risk_Authority Ledger_Laws Authority
begin

text \<open>
  What one evaluation decides, what is registered for it, and the invariant that
  every run of evaluations and halts keeps.
\<close>

section \<open>The capacity of a limit\<close>

lemma add_signed_spec:
  assumes "add_signed_decimal a b s = Inr d"
  shows "dval d = dval a + of_int s * dval b"
proof -
  let ?s = "max (scale a) (scale b)"
  have d: "canonical_decimal (scaled_text (coefficient a * 10 ^ (?s - scale a)
      + s * coefficient b * 10 ^ (?s - scale b)) ?s) = Inr d"
    using assms by (simp add: add_signed_decimal_def Let_def)
  have "of_int (c * coefficient x * 10 ^ (?s - scale x)) / 10 ^ ?s = of_int c * dval x" if "scale x \<le> ?s" for c x
    using that by (simp add: dval_def field_simps flip: power_add)
  from this [of a 1] this [of b s] show ?thesis
    by (simp add: canonical_scaled_val [OF d] add_divide_distrib)
qed

lemma canonical_zero_text: "canonical_decimal ''0'' = Inr \<lparr>dec_text = ''0'', coefficient = 0, scale = 0\<rparr>"
  by code_simp

lemma canonical_zero_val: "canonical_decimal ''0'' = Inr z \<Longrightarrow> dval z = 0 \<and> coefficient z = 0"
  by (auto simp: canonical_zero_text)

lemma dec_min2_dval [dec_simps]: "dec_min2 a b = Inr m \<Longrightarrow> dval m = min (dval a) (dval b)"
  by (auto simp: dec_min2_def dec_less_dval split: if_splits)

lemma dec_max2_dval [dec_simps]: "dec_max2 a b = Inr m \<Longrightarrow> dval m = max (dval a) (dval b)"
  by (auto simp: dec_max2_def dec_greater_def dec_less_dval max_def split: if_splits)

lemma side_capacity_spec:
  assumes "side_capacity m c side = Inr v"
  shows "dval v = max 0 (dval m - of_int (side_sign side) * dval c)"
  using assms by (auto simp: side_capacity_def dec_simps canonical_zero_val dest!: add_signed_spec split: order_side.splits)

lemma side_capacity_wf: "side_capacity m c side = Inr v \<Longrightarrow> wf_dec v"
  by (auto simp: side_capacity_def dec_max2_def add_signed_decimal_def Let_def canonical_zero_text
      dest!: canonical_scaled_val(1) split: if_splits order_side.splits) (code_simp)+

lemma dec_min2_wf: "dec_min2 a b = Inr m \<Longrightarrow> wf_dec a \<Longrightarrow> wf_dec b \<Longrightarrow> wf_dec m"
  by (auto simp: dec_min2_def split: if_splits)

section \<open>The decision\<close>

definition position_value :: "snapshot \<Rightarrow> instrument \<Rightarrow> rat" where
  "position_value sn i = (case find (\<lambda>b. pb_instrument b = i) (sn_positions sn) of
      None \<Rightarrow> 0 | Some b \<Rightarrow> dval (pb_quantity b))"

definition within_limit :: "order_intent \<Rightarrow> risk_limit \<Rightarrow> rat \<Rightarrow> rat \<Rightarrow> bool" where
  "within_limit n l current q \<longleftrightarrow>
     q \<le> dval (in_quantity n) \<and> q \<le> dval (rl_order l)
     \<and> \<bar>current + of_int (side_sign (in_side n)) * q\<bar> \<le> max \<bar>current\<bar> (dval (rl_position l))"

lemma capacity_bounds_position:
  fixes q c m :: rat
  assumes "0 < q" "q \<le> max 0 (m - of_int (side_sign side) * c)"
  shows "\<bar>c + of_int (side_sign side) * q\<bar> \<le> max \<bar>c\<bar> m"
  using assms by (cases side) (auto simp: max_def abs_if split: if_splits)

lemma decide_against_limit_cases:
  assumes "decide_against_limit n l current = Inr (k, reason, q)"
  obtains "k = EVALUATION_FAILED" "q = None" | "k = REJECT" "q = None"
  | x where "q = Some x" "k = (if x = in_quantity n then ALLOW else RESIZE)" "reason \<in> set (reasons_by_kind k)"
      "0 < dval x \<Longrightarrow> within_limit n l (dval current) (dval x)"
      "wf_dec (in_quantity n) \<Longrightarrow> wf_dec (rl_order l) \<Longrightarrow> wf_dec x"
proof (cases "side_capacity (rl_position l) current (in_side n)")
  case (Inl e)
  then show thesis using assms that(1) by (auto simp: decide_against_limit_def split: exn.splits)
next
  case (Inr capacity)
  then obtain m x where m: "dec_min2 (in_quantity n) (rl_order l) = Inr m" "dec_min2 m capacity = Inr x"
    and r: "(if coefficient x = 0 then Inr (REJECT, RR_NO_POSITION_CAPACITY, None)
          else if x = in_quantity n then Inr (ALLOW, RR_WITHIN_LIMITS, Some x)
          else bind_res (resize_reason (in_quantity n) (rl_order l) capacity x) (\<lambda>reason.
            Inr (RESIZE, reason, Some x))) = Inr (k, reason, q)"
    using assms by (auto simp: decide_against_limit_def)
  have v: "dval x = min (min (dval (in_quantity n)) (dval (rl_order l))) (dval capacity)"
    using m by (simp add: dec_simps)
  have le: "dval x \<le> dval (in_quantity n)" "dval x \<le> dval (rl_order l)" "dval x \<le> dval capacity"
    unfolding v by simp_all
  have "within_limit n l (dval current) (dval x)" if "0 < dval x"
    unfolding within_limit_def
    using capacity_bounds_position [OF that le(3) [unfolded side_capacity_spec [OF Inr]]] le(1,2) by blast
  moreover have "reason \<in> set (reasons_by_kind k)" if "q = Some x"
    using r that by (auto simp: resize_reason_def Let_def split: if_splits)
  moreover have "wf_dec (in_quantity n) \<Longrightarrow> wf_dec (rl_order l) \<Longrightarrow> wf_dec x"
    using m side_capacity_wf [OF Inr] by (blast intro: dec_min2_wf)
  ultimately show thesis using r that by (auto split: if_splits)
qed

lemma decide_cases:
  assumes "decide a n sn = Inr (k, reason, q)"
  obtains "k = EVALUATION_FAILED" "q = None" | "k = REJECT" "q = None"
  | l x where "q = Some x" "k = (if x = in_quantity n then ALLOW else RESIZE)" "reason \<in> set (reasons_by_kind k)"
      "classify_lineage_failure a n sn = None" "\<not> rk_halted (ks_risk (ka_state a))"
      "l \<in> set (rp_limits (ka_policy a))" "rl_instrument l = in_instrument n"
      "0 < dval x \<Longrightarrow> within_limit n l (position_value sn (in_instrument n)) (dval x)"
      "wf_dec (in_quantity n) \<Longrightarrow> wf_dec (rl_order l) \<Longrightarrow> wf_dec x"
proof (cases "limit_by_instrument a (in_instrument n)")
  case None
  then show thesis using assms that(1,2) by (auto simp: decide_def split: option.splits if_splits)
next
  case (Some l)
  have l: "l \<in> set (rp_limits (ka_policy a))" "rl_instrument l = in_instrument n"
    using map_of_SomeD [OF Some [unfolded limit_by_instrument_def]] by auto
  show thesis
  proof (cases "classify_lineage_failure a n sn \<noteq> None \<or> rk_halted (ks_risk (ka_state a))")
    case True
    then show thesis using assms that(1,2) by (auto simp: decide_def split: option.splits if_splits)
  next
    case False
    then obtain current where c: "position_for sn (in_instrument n) = Inr current"
      "decide_against_limit n l current = Inr (k, reason, q)"
      using assms Some by (auto simp: decide_def)
    have "dval current = position_value sn (in_instrument n)"
      using c(1) by (auto simp: position_for_def position_value_def canonical_zero_val split: option.splits)
    then show thesis
      using c(2) l False that by (elim decide_against_limit_cases) auto
  qed
qed

section \<open>What a decision carries\<close>

lemma create_risk_decision_Inr:
  assumes "create_risk_decision std kind did n ss v aid aq = Inr d"
  shows "rd_run d = in_run n" "rd_id d = did" "rd_intent d = in_intent_id n" "rd_kind d = kind" "rd_quantity d = aq"
    "rd_risk_version d = v" "run_id did = in_run n" "owner_kind did = RISK_DECISION"
    "rd_intent_sha256 d = order_intent_digest std n"
    "rd_approval d = None \<longleftrightarrow> \<not> (kind = ALLOW \<or> kind = RESIZE)"
    "rd_approval d = Some ap \<Longrightarrow> aq = Some (ap_quantity ap) \<and> aid = Some (ap_id ap) \<and> 0 < dval (ap_quantity ap)
       \<and> ap_intent ap = in_intent_id n \<and> ap_decision ap = did"
  using assms by (auto simp: create_risk_decision_def approval_fields_def make_approval_def
      require_quantity_Inr_iff Let_def split: option.splits if_splits)

lemma make_decision_create:
  assumes "make_decision std a n did aid kind q = Inr d"
  obtains aid' aq where "create_risk_decision std kind did n (ka_specs a) (rk_version (ks_risk (ka_state a))) aid' aq = Inr d"
    "kind = ALLOW \<or> kind = RESIZE \<longrightarrow> aid' = aid \<and> aq = (if kind = ALLOW then Some (in_quantity n) else q)"
  using assms by (cases kind; cases aid; cases q)
    (auto simp: make_decision_def Let_def allow_order_intent_def resize_order_intent_def reject_order_intent_def
       fail_order_intent_evaluation_def)

lemma allocate_approval_Inr:
  assumes "allocate_approval a kind reason q = Inr (kind', reason', q', aid, after)"
  obtains "kind' = kind" "q' = q" "\<not> (kind = ALLOW \<or> kind = RESIZE)" "aid = None" "after = ks_approval_next (ka_state a)"
  | "kind' = EVALUATION_FAILED" "q' = None" "aid = None" "after = ks_approval_next (ka_state a)"
      "ks_approval_next (ka_state a) = None"
  | m where "kind' = kind" "q' = q" "reason' = reason" "kind = ALLOW \<or> kind = RESIZE" "ks_approval_next (ka_state a) = Some m"
      "1 \<le> m" "m \<le> MAX_UINT64" "aid = Some \<lparr>run_id = ka_run a, owner_kind = RISK_APPROVAL, owner_sequence = m\<rparr>"
      "after = next_allocation m"
  using assms
  by (auto simp: allocate_approval_def Let_def risk_advance_def risk_id_def make_economic_id_def
      split: if_splits option.splits)

lemma register_Inr:
  assumes "register_decision std a n ib is version ss kind reason q = Inr (st, r)"
  obtains m kind' reason' q' aid after d v where
    "ks_decision_next (ka_state a) = Some m" "1 \<le> m" "m \<le> MAX_UINT64"
    "allocate_approval a kind reason q = Inr (kind', reason', q', aid, after)"
    "make_decision std a n \<lparr>run_id = ka_run a, owner_kind = RISK_DECISION, owner_sequence = m\<rparr> aid kind' q' = Inr d"
    "create_risk_evidence std d is version ss (ka_policy a) (rk_version (ks_risk (ka_state a))) reason' m
       (next_allocation m) (ks_approval_next (ka_state a)) after = Inr v"
    "r = \<lparr>rr_decision = d, rr_evidence = v\<rparr>"
    "st = (ka_state a)\<lparr>ks_decision_next := next_allocation m, ks_approval_next := after,
       ks_replay := (ks_replay (ka_state a))(in_intent_id n \<mapsto> \<lparr>ry_intent_sha256 = is,
         ry_intent_bytes = ib, ry_snapshot_sha256 = ss, ry_decision = d,
         ry_decision_bytes = canonical_risk_decision_bytes std d, ry_evidence = v,
         ry_evidence_bytes = canonical_evidence_bytes v, ry_result = r\<rparr>),
       ks_decisions := ks_decisions (ka_state a) @ [d], ks_evidence := ks_evidence (ka_state a) @ [v],
       ks_results := ks_results (ka_state a) @ [r]\<rparr>"
  using assms
  by (auto simp: register_decision_def Let_def risk_advance_def risk_id_def make_economic_id_def create_risk_result_def
      split: option.splits)

end
