(* ===== verification/Risk_Runs.thy ===== *)
theory Risk_Runs
  imports Risk_Laws
begin

text \<open>
  Runs of the risk authority: the commands of its two callers, the cases of one
  command, the invariant of the books, and the contract of a single-owner
  authority that every answered command stays answered.
\<close>

section \<open>Commands\<close>

datatype risk_command = Evaluate order_intent snapshot | EngageHalt halt_reason int int

definition risk_step :: "stdlib \<Rightarrow> risk_authority \<Rightarrow> risk_command \<Rightarrow> risk_authority" where
  "risk_step std a c = (case c of
      Evaluate n sn \<Rightarrow> fst (evaluate std a n sn)
    | EngageHalt reason t k \<Rightarrow> fst (engage_halt std a reason t k))"

definition risk_run :: "stdlib \<Rightarrow> risk_authority \<Rightarrow> risk_command list \<Rightarrow> risk_authority" where
  "risk_run std a cs = foldl (risk_step std) a cs"

lemma risk_run_simps [simp]:
  "risk_run std a [] = a" "risk_run std a (c # cs) = risk_run std (risk_step std a c) cs"
  "risk_run std a (cs @ ds) = risk_run std (risk_run std a cs) ds"
  by (simp_all add: risk_run_def)

abbreviation risk_halted :: "risk_authority \<Rightarrow> bool" where
  "risk_halted a \<equiv> rk_halted (ks_risk (ka_state a))"

text \<open>A new halt: everything else stays.\<close>

definition newly_halted :: "risk_authority \<Rightarrow> risk_authority \<Rightarrow> bool" where
  "newly_halted a b \<longleftrightarrow> \<not> risk_halted a \<and> (\<exists>s. rk_halted s \<and> rk_version s = 1
     \<and> b = a\<lparr>ka_state := (ka_state a)\<lparr>ks_risk := s\<rparr>\<rparr>)"

definition registered :: "stdlib \<Rightarrow> risk_authority \<Rightarrow> order_intent \<Rightarrow> snapshot \<Rightarrow> risk_authority \<Rightarrow> risk_result \<Rightarrow> bool" where
  "registered std a n sn b r \<longleftrightarrow> 0 \<le> in_dispatch n \<and> ks_replay (ka_state a) (in_intent_id n) = None
     \<and> (\<exists>specification. require_structural_intent a n = Inr specification)
     \<and> (\<exists>kind reason q st. decide a n sn = Inr (kind, reason, q)
          \<and> register_decision std a n (canonical_order_intent_bytes std n) (order_intent_digest std n)
              (sn_version sn) (portfolio_snapshot_digest std sn) kind reason q = Inr (st, r)
          \<and> b = a\<lparr>ka_state := st\<rparr>)"

lemma halted_state_Inr: "halted_state std a r t k e f = Inr s \<Longrightarrow> rk_halted s \<and> rk_version s = 1"
  by (auto simp: halted_state_def create_risk_state_def)

lemma evaluate_cases:
  assumes "evaluate std a n sn = (b, r)"
  obtains (failed) e where "b = a" "r = Inl e"
  | (replayed) y where "b = a" "ks_replay (ka_state a) (in_intent_id n) = Some y" "0 \<le> in_dispatch n"
      "ry_intent_bytes y = canonical_order_intent_bytes std n" "r = Inr (ry_result y)"
  | (conflict) y where "newly_halted a b" "ks_replay (ka_state a) (in_intent_id n) = Some y" "0 \<le> in_dispatch n"
      "ry_intent_bytes y \<noteq> canonical_order_intent_bytes std n" "r = Inl (RiskAuthorityError CONFLICTING_ID)"
  | (registered) s where "r = Inr s" "registered std a n sn b s"
proof (cases "in_dispatch n < 0")
  case True
  then show thesis using assms failed by (auto simp: evaluate_def)
next
  case d: False
  show thesis
  proof (cases "ks_replay (ka_state a) (in_intent_id n)")
    case (Some y)
    then show thesis
      using assms d failed replayed [of y] conflict [of y]
      by (auto simp: evaluate_def engage_identity_conflict_def newly_halted_def dest!: halted_state_Inr
          split: if_splits sum.splits)
  next
    case None
    then show thesis
      using assms d failed registered
      by (auto simp: evaluate_def plan_evaluation_def registered_def split: sum.splits prod.splits)
  qed
qed

lemma engage_halt_cases:
  assumes "engage_halt std a reason t k = (b, r)"
  obtains (failed) e where "b = a" "r = Inl e"
  | (kept) "b = a" "risk_halted a" "r = Inr (ks_risk (ka_state a))"
  | (engaged) "newly_halted a b" "r = Inr (ks_risk (ka_state b))" "0 \<le> k" "reason \<noteq> HR_INTENT_IDENTITY_CONFLICT"
proof (cases "halted_state std a reason t k None None")
  case (Inl e)
  then show thesis using assms failed [of e] failed [of "RiskAuthorityError OUT_OF_RANGE"] kept
    by (auto simp: engage_halt_def split: if_splits)
next
  case (Inr s)
  show thesis
  proof (cases "reason = HR_INTENT_IDENTITY_CONFLICT \<or> k < 0 \<or> risk_halted a")
    case True
    then show thesis using assms failed [of "RiskAuthorityError OUT_OF_RANGE"] kept
      by (auto simp: engage_halt_def split: if_splits)
  next
    case False
    then have "b = a\<lparr>ka_state := (ka_state a)\<lparr>ks_risk := s\<rparr>\<rparr>" "r = Inr s"
      using assms Inr by (simp_all add: engage_halt_def)
    then show thesis using False halted_state_Inr [OF Inr] by (intro engaged) (auto simp: newly_halted_def)
  qed
qed

lemma risk_step_cases:
  obtains (same) "risk_step std a c = a" | (halt) "newly_halted a (risk_step std a c)"
  | (register) n sn r where "c = Evaluate n sn" "evaluate std a n sn = (risk_step std a c, Inr r)"
      "registered std a n sn (risk_step std a c) r"
proof (cases c)
  case (Evaluate n sn)
  obtain b r where e: "evaluate std a n sn = (b, r)" by fastforce
  then have "risk_step std a c = b" by (simp add: risk_step_def Evaluate)
  then show thesis using e Evaluate that by (cases rule: evaluate_cases [OF e]) auto
next
  case (EngageHalt reason t k)
  obtain b r where e: "engage_halt std a reason t k = (b, r)" by fastforce
  then have "risk_step std a c = b" by (simp add: risk_step_def EngageHalt)
  then show thesis using that by (cases rule: engage_halt_cases [OF e]) auto
qed

section \<open>The books\<close>

definition judged :: "stdlib \<Rightarrow> risk_authority \<Rightarrow> order_intent \<Rightarrow> snapshot \<Rightarrow> risk_decision \<Rightarrow> bool" where
  "judged std a n sn d \<longleftrightarrow> rd_intent d = in_intent_id n \<and> rd_intent_sha256 d = order_intent_digest std n
     \<and> in_run n = ka_run a
     \<and> (rd_approval d \<noteq> None \<longleftrightarrow> rd_kind d = ALLOW \<or> rd_kind d = RESIZE)
     \<and> (\<forall>ap. rd_approval d = Some ap \<longrightarrow> rd_risk_version d = 0 \<and> rd_quantity d = Some (ap_quantity ap)
          \<and> ap_intent ap = in_intent_id n \<and> ap_decision ap = rd_id d
          \<and> sn_run sn = ka_run a \<and> sn_version sn = in_snapshot_version n \<and> in_policy n = ka_execution a
          \<and> (rd_kind d = ALLOW \<longleftrightarrow> ap_quantity ap = in_quantity n) \<and> 0 < dval (ap_quantity ap)
          \<and> (\<exists>l. l \<in> set (rp_limits (ka_policy a)) \<and> rl_instrument l = in_instrument n
               \<and> within_limit n l (position_value sn (in_instrument n)) (dval (ap_quantity ap))
               \<and> (wf_dec (in_quantity n) \<longrightarrow> wf_dec (rl_order l) \<longrightarrow> wf_dec (ap_quantity ap))))"

text \<open>A record answers an intent that was submitted (\<open>asked\<close>) and names its judgement byte by byte.\<close>

definition record_sound :: "(order_intent \<Rightarrow> snapshot \<Rightarrow> bool) \<Rightarrow> stdlib \<Rightarrow> risk_authority \<Rightarrow> economic_id \<Rightarrow> risk_replay \<Rightarrow> bool" where
  "record_sound asked std a i y \<longleftrightarrow> (\<exists>n sn. asked n sn \<and> i = in_intent_id n \<and> ry_intent_bytes y = canonical_order_intent_bytes std n
     \<and> ry_snapshot_sha256 y = portfolio_snapshot_digest std sn \<and> judged std a n sn (ry_decision y)
     \<and> ry_decision y = rr_decision (ry_result y) \<and> ry_evidence y = rr_evidence (ry_result y)
     \<and> ry_decision_bytes y = canonical_risk_decision_bytes std (ry_decision y)
     \<and> ry_evidence_bytes y = canonical_evidence_bytes (ry_evidence y))"

definition approvals :: "risk_decision list \<Rightarrow> execution_approval list" where
  "approvals ds = List.map_filter rd_approval ds"

lemma approvals_simps [simp]:
  "approvals [] = []" "approvals (ds @ es) = approvals ds @ approvals es"
  "approvals [d] = (case rd_approval d of None \<Rightarrow> [] | Some x \<Rightarrow> [x])"
  by (simp_all add: approvals_def List.map_filter_def split: option.splits)

definition numbered :: "run_id \<Rightarrow> economic_owner_kind \<Rightarrow> economic_id list \<Rightarrow> int option \<Rightarrow> bool" where
  "numbered r k ids next_id \<longleftrightarrow>
     ids = map (\<lambda>m. \<lparr>run_id = r, owner_kind = k, owner_sequence = int m\<rparr>) [1..<Suc (length ids)]
     \<and> int (length ids) \<le> MAX_UINT64
     \<and> next_id = (if int (length ids) = MAX_UINT64 then None else Some (int (length ids) + 1))"

lemma numbered_extend:
  assumes "numbered r k ids (Some m)"
  shows "numbered r k (ids @ [\<lparr>run_id = r, owner_kind = k, owner_sequence = m\<rparr>]) (next_allocation m)"
  using assms by (auto simp: numbered_def next_allocation_def split: if_splits)

definition risk_books :: "(order_intent \<Rightarrow> snapshot \<Rightarrow> bool) \<Rightarrow> stdlib \<Rightarrow> risk_authority \<Rightarrow> bool" where
  "risk_books asked std a \<longleftrightarrow>
     numbered (ka_run a) RISK_DECISION (map rd_id (ks_decisions (ka_state a))) (ks_decision_next (ka_state a))
     \<and> numbered (ka_run a) RISK_APPROVAL (map ap_id (approvals (ks_decisions (ka_state a)))) (ks_approval_next (ka_state a))
     \<and> map rr_decision (ks_results (ka_state a)) = ks_decisions (ka_state a)
     \<and> map rr_evidence (ks_results (ka_state a)) = ks_evidence (ka_state a)
     \<and> distinct (map rd_intent (ks_decisions (ka_state a)))
     \<and> dom (ks_replay (ka_state a)) = set (map rd_intent (ks_decisions (ka_state a)))
     \<and> map (\<lambda>d. map_option ry_result (ks_replay (ka_state a) (rd_intent d))) (ks_decisions (ka_state a))
         = map Some (ks_results (ka_state a))
     \<and> (\<forall>i y. ks_replay (ka_state a) i = Some y \<longrightarrow> record_sound asked std a i y)
     \<and> rk_version (ks_risk (ka_state a)) = (if risk_halted a then 1 else 0)"

lemma judged_same: "ka_run b = ka_run a \<Longrightarrow> ka_policy b = ka_policy a \<Longrightarrow> ka_execution b = ka_execution a \<Longrightarrow>
    judged std b = judged std a"
  by (simp add: judged_def fun_eq_iff)

lemma record_sound_same: "ka_run b = ka_run a \<Longrightarrow> ka_policy b = ka_policy a \<Longrightarrow> ka_execution b = ka_execution a \<Longrightarrow>
    record_sound asked std b = record_sound asked std a"
  by (simp add: record_sound_def fun_eq_iff judged_same [of b a])

lemma books_halt:
  assumes "newly_halted a b" "risk_books asked std a"
  shows "risk_books asked std b"
proof -
  obtain s where s: "rk_halted s" "rk_version s = 1" "b = a\<lparr>ka_state := (ka_state a)\<lparr>ks_risk := s\<rparr>\<rparr>"
    using assms(1) by (auto simp: newly_halted_def)
  have "record_sound asked std b = record_sound asked std a" by (rule record_sound_same) (simp_all add: s(3))
  then show ?thesis using assms(2) s(1,2) by (simp add: risk_books_def s(3))
qed

lemma lineage_clean:
  assumes "classify_lineage_failure a n sn = None"
  shows "sn_run sn = ka_run a" "in_run n = ka_run a" "sn_version sn = in_snapshot_version n" "in_policy n = ka_execution a"
  using assms by (auto simp: classify_lineage_failure_def split: if_splits)

lemma structural_run: "require_structural_intent a n = Inr s \<Longrightarrow> in_run n = ka_run a"
  by (auto simp: require_structural_intent_def)

text \<open>One registered evaluation: a sound judgement, numbered by the two counters.\<close>

lemma registered_judged:
  assumes "registered std a n sn b r" "rk_version (ks_risk (ka_state a)) = (if risk_halted a then 1 else 0)"
  shows "judged std a n sn (rr_decision r)"
proof -
  from assms(1) obtain kind reason q st spec where
    s: "require_structural_intent a n = Inr spec" and d: "decide a n sn = Inr (kind, reason, q)"
    and g: "register_decision std a n (canonical_order_intent_bytes std n) (order_intent_digest std n)
              (sn_version sn) (portfolio_snapshot_digest std sn) kind reason q = Inr (st, r)"
    by (auto simp: registered_def)
  from g obtain m kind' reason' q' aid after d' v where
    al: "allocate_approval a kind reason q = Inr (kind', reason', q', aid, after)"
    and md: "make_decision std a n \<lparr>run_id = ka_run a, owner_kind = RISK_DECISION, owner_sequence = m\<rparr> aid kind' q' = Inr d'"
    and r: "r = \<lparr>rr_decision = d', rr_evidence = v\<rparr>"
    by (rule register_Inr)
  from md obtain aid' aq where cd: "create_risk_decision std kind'
        \<lparr>run_id = ka_run a, owner_kind = RISK_DECISION, owner_sequence = m\<rparr> n (ka_specs a)
        (rk_version (ks_risk (ka_state a))) aid' aq = Inr d'"
    and ax: "kind' = ALLOW \<or> kind' = RESIZE \<longrightarrow> aid' = aid \<and> aq = (if kind' = ALLOW then Some (in_quantity n) else q')"
    by (rule make_decision_create)
  note c = create_risk_decision_Inr [OF cd]
  have "rd_risk_version d' = 0 \<and> rd_quantity d' = Some (ap_quantity ap)
          \<and> ap_intent ap = in_intent_id n \<and> ap_decision ap = rd_id d'
          \<and> sn_run sn = ka_run a \<and> sn_version sn = in_snapshot_version n \<and> in_policy n = ka_execution a
          \<and> (rd_kind d' = ALLOW \<longleftrightarrow> ap_quantity ap = in_quantity n) \<and> 0 < dval (ap_quantity ap)
          \<and> (\<exists>l. l \<in> set (rp_limits (ka_policy a)) \<and> rl_instrument l = in_instrument n
               \<and> within_limit n l (position_value sn (in_instrument n)) (dval (ap_quantity ap))
               \<and> (wf_dec (in_quantity n) \<longrightarrow> wf_dec (rl_order l) \<longrightarrow> wf_dec (ap_quantity ap)))"
    if ap: "rd_approval d' = Some ap" for ap
  proof -
    have k: "kind' = ALLOW \<or> kind' = RESIZE" using c(10) ap by auto
    then have kq: "kind' = kind \<and> q' = q" by (cases rule: allocate_approval_Inr [OF al]) auto
    note p = c(11) [OF ap]
    from d k kq obtain l x where x: "q = Some x" "kind = (if x = in_quantity n then ALLOW else RESIZE)"
      "classify_lineage_failure a n sn = None" "\<not> risk_halted a"
      "l \<in> set (rp_limits (ka_policy a))" "rl_instrument l = in_instrument n"
      "0 < dval x \<Longrightarrow> within_limit n l (position_value sn (in_instrument n)) (dval x)"
      "wf_dec (in_quantity n) \<Longrightarrow> wf_dec (rl_order l) \<Longrightarrow> wf_dec x"
      by (cases rule: decide_cases) auto
    have "ap_quantity ap = x" using p ax k x(1,2) kq by (auto split: if_splits)
    then show ?thesis
      using p x lineage_clean [OF x(3)] c(2,4,5,6) kq assms(2) by (auto split: if_splits)
  qed
  then show ?thesis
    using c(1,3,4,9,10) structural_run [OF s] by (auto simp: judged_def r)
qed

lemma registered_extends:
  assumes "registered std a n sn b r" "risk_books asked std a"
  shows "numbered (ka_run a) RISK_DECISION (map rd_id (ks_decisions (ka_state b))) (ks_decision_next (ka_state b))"
    "numbered (ka_run a) RISK_APPROVAL (map ap_id (approvals (ks_decisions (ka_state b)))) (ks_approval_next (ka_state b))"
    "ks_decisions (ka_state b) = ks_decisions (ka_state a) @ [rr_decision r]"
    "ks_evidence (ka_state b) = ks_evidence (ka_state a) @ [rr_evidence r]"
    "ks_results (ka_state b) = ks_results (ka_state a) @ [r]"
    "ks_risk (ka_state b) = ks_risk (ka_state a)" "ka_run b = ka_run a" "ka_policy b = ka_policy a"
    "ka_execution b = ka_execution a"
    "ks_replay (ka_state b) = (ks_replay (ka_state a))(in_intent_id n \<mapsto> \<lparr>ry_intent_sha256 = order_intent_digest std n,
         ry_intent_bytes = canonical_order_intent_bytes std n, ry_snapshot_sha256 = portfolio_snapshot_digest std sn,
         ry_decision = rr_decision r, ry_decision_bytes = canonical_risk_decision_bytes std (rr_decision r),
         ry_evidence = rr_evidence r, ry_evidence_bytes = canonical_evidence_bytes (rr_evidence r), ry_result = r\<rparr>)"
proof -
  from assms(1) obtain kind reason q st where b: "b = a\<lparr>ka_state := st\<rparr>"
    and g: "register_decision std a n (canonical_order_intent_bytes std n) (order_intent_digest std n)
              (sn_version sn) (portfolio_snapshot_digest std sn) kind reason q = Inr (st, r)"
    by (auto simp: registered_def)
  from g obtain m kind' reason' q' aid after d' v where
    m: "ks_decision_next (ka_state a) = Some m"
    and al: "allocate_approval a kind reason q = Inr (kind', reason', q', aid, after)"
    and md: "make_decision std a n \<lparr>run_id = ka_run a, owner_kind = RISK_DECISION, owner_sequence = m\<rparr> aid kind' q' = Inr d'"
    and r: "r = \<lparr>rr_decision = d', rr_evidence = v\<rparr>"
    and st: "st = (ka_state a)\<lparr>ks_decision_next := next_allocation m, ks_approval_next := after,
       ks_replay := (ks_replay (ka_state a))(in_intent_id n \<mapsto> \<lparr>ry_intent_sha256 = order_intent_digest std n,
         ry_intent_bytes = canonical_order_intent_bytes std n, ry_snapshot_sha256 = portfolio_snapshot_digest std sn,
         ry_decision = d', ry_decision_bytes = canonical_risk_decision_bytes std d', ry_evidence = v,
         ry_evidence_bytes = canonical_evidence_bytes v, ry_result = r\<rparr>),
       ks_decisions := ks_decisions (ka_state a) @ [d'], ks_evidence := ks_evidence (ka_state a) @ [v],
       ks_results := ks_results (ka_state a) @ [r]\<rparr>"
    by (rule register_Inr)
  from md obtain aid' aq where cd: "create_risk_decision std kind'
        \<lparr>run_id = ka_run a, owner_kind = RISK_DECISION, owner_sequence = m\<rparr> n (ka_specs a)
        (rk_version (ks_risk (ka_state a))) aid' aq = Inr d'"
    and ax: "kind' = ALLOW \<or> kind' = RESIZE \<longrightarrow> aid' = aid \<and> aq = (if kind' = ALLOW then Some (in_quantity n) else q')"
    by (rule make_decision_create)
  note c = create_risk_decision_Inr [OF cd]
  have ids: "numbered (ka_run a) RISK_DECISION (map rd_id (ks_decisions (ka_state a)) @ [rd_id d']) (next_allocation m)"
    using numbered_extend [of "ka_run a" RISK_DECISION _ m] assms(2) m c(2) by (simp add: risk_books_def)
  have aps: "numbered (ka_run a) RISK_APPROVAL (map ap_id (approvals (ks_decisions (ka_state a) @ [d']))) after"
    using al
  proof (cases rule: allocate_approval_Inr)
    case (3 k)
    then obtain ap where "rd_approval d' = Some ap" using c(10) by auto
    moreover have "ap_id ap = \<lparr>run_id = ka_run a, owner_kind = RISK_APPROVAL, owner_sequence = k\<rparr>"
      using 3 ax c(11) [OF calculation] by auto
    ultimately show ?thesis
      using numbered_extend [of "ka_run a" RISK_APPROVAL _ k] assms(2) 3 by (simp add: risk_books_def)
  qed (use assms(2) c(10) in \<open>auto simp: risk_books_def\<close>)
  have "numbered (ka_run a) RISK_DECISION (map rd_id (ks_decisions (ka_state b))) (ks_decision_next (ka_state b))"
    "numbered (ka_run a) RISK_APPROVAL (map ap_id (approvals (ks_decisions (ka_state b)))) (ks_approval_next (ka_state b))"
    using ids aps by (simp_all add: b st)
  then show "numbered (ka_run a) RISK_DECISION (map rd_id (ks_decisions (ka_state b))) (ks_decision_next (ka_state b))"
    "numbered (ka_run a) RISK_APPROVAL (map ap_id (approvals (ks_decisions (ka_state b)))) (ks_approval_next (ka_state b))"
    "ks_decisions (ka_state b) = ks_decisions (ka_state a) @ [rr_decision r]"
    "ks_evidence (ka_state b) = ks_evidence (ka_state a) @ [rr_evidence r]"
    "ks_results (ka_state b) = ks_results (ka_state a) @ [r]"
    "ks_risk (ka_state b) = ks_risk (ka_state a)" "ka_run b = ka_run a" "ka_policy b = ka_policy a"
    "ka_execution b = ka_execution a"
    "ks_replay (ka_state b) = (ks_replay (ka_state a))(in_intent_id n \<mapsto> \<lparr>ry_intent_sha256 = order_intent_digest std n,
         ry_intent_bytes = canonical_order_intent_bytes std n, ry_snapshot_sha256 = portfolio_snapshot_digest std sn,
         ry_decision = rr_decision r, ry_decision_bytes = canonical_risk_decision_bytes std (rr_decision r),
         ry_evidence = rr_evidence r, ry_evidence_bytes = canonical_evidence_bytes (rr_evidence r), ry_result = r\<rparr>)"
    by (simp_all add: b st r)
qed

lemma books_registered:
  assumes "registered std a n sn b r" "risk_books asked std a" "asked n sn"
  shows "risk_books asked std b"
proof -
  note e = registered_extends [OF assms(1,2)]
  have j: "judged std a n sn (rr_decision r)"
    using registered_judged [OF assms(1)] assms(2) by (simp add: risk_books_def)
  have fresh: "in_intent_id n \<notin> dom (ks_replay (ka_state a))" using assms(1) by (auto simp: registered_def)
  have i: "rd_intent (rr_decision r) = in_intent_id n" using j by (simp add: judged_def)
  have same: "record_sound asked std b = record_sound asked std a" by (rule record_sound_same) (simp_all add: e)
  have new: "record_sound asked std a (in_intent_id n) (the (ks_replay (ka_state b) (in_intent_id n)))"
    using j assms(3) by (auto simp: record_sound_def e)
  have "in_intent_id n \<notin> rd_intent ` set (ks_decisions (ka_state a))"
    using fresh assms(2) by (simp add: risk_books_def)
  then have "rd_intent d \<noteq> in_intent_id n" if "d \<in> set (ks_decisions (ka_state a))" for d
    using that by (metis imageI)
  then have "map (\<lambda>d. map_option ry_result (ks_replay (ka_state b) (rd_intent d))) (ks_decisions (ka_state a))
      = map (\<lambda>d. map_option ry_result (ks_replay (ka_state a) (rd_intent d))) (ks_decisions (ka_state a))"
    by (intro map_cong) (simp_all add: e(10))
  also have "\<dots> = map Some (ks_results (ka_state a))" using assms(2) by (simp add: risk_books_def)
  finally have keep: "map (\<lambda>d. map_option ry_result (ks_replay (ka_state b) (rd_intent d))) (ks_decisions (ka_state a))
      = map Some (ks_results (ka_state a))"
    .
  show ?thesis
    using assms(2) e(1,2) new keep fresh i unfolding risk_books_def same by (auto simp: e(3-))
qed

lemma books_step:
  "risk_books asked std a \<Longrightarrow> (\<And>n sn. c = Evaluate n sn \<Longrightarrow> asked n sn) \<Longrightarrow> risk_books asked std (risk_step std a c)"
  by (cases rule: risk_step_cases [of std a c]) (auto intro: books_halt books_registered)

lemma books_run:
  "risk_books asked std a \<Longrightarrow> (\<And>n sn. Evaluate n sn \<in> set cs \<Longrightarrow> asked n sn) \<Longrightarrow> risk_books asked std (risk_run std a cs)"
  by (induction cs arbitrary: a) (simp_all add: books_step)

lemma books_created: "create_risk_authority std r ss ex policy = Inr a \<Longrightarrow> risk_books asked std a"
  by (auto simp: create_risk_authority_def Let_def create_risk_state_def risk_books_def numbered_def MAX_UINT64_def)

section \<open>Answers are kept\<close>

definition risk_settled :: "stdlib \<Rightarrow> risk_authority \<Rightarrow> risk_command \<Rightarrow> bool" where
  "risk_settled std a c = (case c of
      Evaluate n sn \<Rightarrow> 0 \<le> in_dispatch n \<and> (\<exists>y. ks_replay (ka_state a) (in_intent_id n) = Some y
        \<and> (ry_intent_bytes y = canonical_order_intent_bytes std n \<or> risk_halted a))
    | EngageHalt reason t k \<Rightarrow> risk_halted a)"

definition risk_answer :: "stdlib \<Rightarrow> risk_authority \<Rightarrow> risk_command \<Rightarrow> (risk_result result + risk_state result)" where
  "risk_answer std a c = (case c of
      Evaluate n sn \<Rightarrow> Inl (snd (evaluate std a n sn))
    | EngageHalt reason t k \<Rightarrow> Inr (snd (engage_halt std a reason t k)))"

lemma risk_step_keeps:
  shows "ks_replay (ka_state a) i = Some y \<Longrightarrow> ks_replay (ka_state (risk_step std a c)) i = Some y"
    "risk_halted a \<Longrightarrow> ks_risk (ka_state (risk_step std a c)) = ks_risk (ka_state a)"
proof -
  have "(ks_replay (ka_state a) i = Some y \<longrightarrow> ks_replay (ka_state (risk_step std a c)) i = Some y)
    \<and> (risk_halted a \<longrightarrow> ks_risk (ka_state (risk_step std a c)) = ks_risk (ka_state a))"
  proof (cases rule: risk_step_cases [of std a c])
    case halt
    then show ?thesis by (auto simp: newly_halted_def)
  next
    case (register n sn r)
    then show ?thesis by (auto simp: registered_def elim!: register_Inr)
  qed simp
  then show "ks_replay (ka_state a) i = Some y \<Longrightarrow> ks_replay (ka_state (risk_step std a c)) i = Some y"
    "risk_halted a \<Longrightarrow> ks_risk (ka_state (risk_step std a c)) = ks_risk (ka_state a)" by blast+
qed

lemma settled_evaluation:
  assumes "risk_settled std a (Evaluate n sn)"
  shows "evaluate std a n sn = (a, if ry_intent_bytes (the (ks_replay (ka_state a) (in_intent_id n)))
      = canonical_order_intent_bytes std n then Inr (ry_result (the (ks_replay (ka_state a) (in_intent_id n))))
      else Inl (RiskAuthorityError CONFLICTING_ID))"
  using assms by (auto simp: risk_settled_def evaluate_def engage_identity_conflict_def)

lemma settled_halt:
  "risk_halted a \<Longrightarrow> engage_halt std a reason t k = (a, if reason = HR_INTENT_IDENTITY_CONFLICT \<or> k < 0
     then Inl (RiskAuthorityError OUT_OF_RANGE) else Inr (ks_risk (ka_state a)))"
  by (auto simp: engage_halt_def)

interpretation risk: retaining_authority "risk_step std" "\<lambda>_. True" "risk_settled std" "risk_answer std" for std
proof unfold_locales
  fix a c
  assume change: "risk_step std a c \<noteq> a"
  show "risk_settled std (risk_step std a c) c"
  proof (cases c)
    case (Evaluate n sn)
    obtain b r where e: "evaluate std a n sn = (b, r)" by fastforce
    then have "risk_step std a c = b" by (simp add: risk_step_def Evaluate)
    then show ?thesis
      using e change by (cases rule: evaluate_cases [OF e])
        (auto simp: Evaluate risk_settled_def newly_halted_def registered_def elim!: register_Inr)
  next
    case (EngageHalt reason t k)
    obtain b r where e: "engage_halt std a reason t k = (b, r)" by fastforce
    then have "risk_step std a c = b" by (simp add: risk_step_def EngageHalt)
    then show ?thesis
      using e change by (cases rule: engage_halt_cases [OF e]) (auto simp: EngageHalt risk_settled_def newly_halted_def)
  qed
next
  fix a c d
  assume "risk_settled std a c"
  then show "risk_settled std (risk_step std a d) c"
    by (auto simp: risk_settled_def risk_step_keeps split: risk_command.splits)
next
  fix a c
  assume "risk_settled std a c"
  then show "risk_step std a c = a"
    by (cases c) (auto simp: risk_step_def settled_evaluation settled_halt risk_settled_def [of _ _ "EngageHalt _ _ _"])
next
  fix a c d
  assume s: "risk_settled std a c"
  then have s': "risk_settled std (risk_step std a d) c"
    by (auto simp: risk_settled_def risk_step_keeps split: risk_command.splits)
  show "risk_answer std (risk_step std a d) c = risk_answer std a c"
  proof (cases c)
    case (Evaluate n sn)
    then obtain y where "ks_replay (ka_state a) (in_intent_id n) = Some y" using s by (auto simp: risk_settled_def)
    then show ?thesis
      using settled_evaluation [of std a n sn] settled_evaluation [of std "risk_step std a d" n sn] s s'
      by (simp add: Evaluate risk_answer_def risk_step_keeps)
  next
    case (EngageHalt reason t k)
    then show ?thesis using s s' by (simp add: risk_answer_def settled_halt risk_settled_def risk_step_keeps)
  qed
qed simp

end
