(* ===== verification/Risk_Claims.thy ===== *)
theory Risk_Claims
  imports Risk_Runs
begin

text \<open>
  What the risk authority promises: an approval stays within the limits of the
  policy, the books number and pair decisions, evidence and approvals, and every
  answer is final. The witnesses evaluate one intent that the order limit resizes.
\<close>

section \<open>From the invariant\<close>

lemma risk_step_frozen:
  "ka_run (risk_step std a c) = ka_run a \<and> ka_policy (risk_step std a c) = ka_policy a
   \<and> ka_execution (risk_step std a c) = ka_execution a \<and> ka_specs (risk_step std a c) = ka_specs a"
  by (cases rule: risk_step_cases [of std a c]) (auto simp: newly_halted_def registered_def)

lemma risk_run_frozen [simp]:
  "ka_run (risk_run std a cs) = ka_run a" "ka_policy (risk_run std a cs) = ka_policy a"
  "ka_execution (risk_run std a cs) = ka_execution a" "ka_specs (risk_run std a cs) = ka_specs a"
  by (induction cs arbitrary: a) (simp_all add: risk_step_frozen)

lemma created_fields: "create_risk_authority std run ss ex policy = Inr a \<Longrightarrow>
    ka_run a = run \<and> ka_policy a = policy \<and> ka_execution a = ex \<and> ka_specs a = ss"
  by (auto simp: create_risk_authority_def Let_def)

lemma registered_version:
  "registered std a n sn b r \<Longrightarrow> rd_risk_version (rr_decision r) = rk_version (ks_risk (ka_state a))"
  by (auto simp: registered_def elim!: register_Inr make_decision_create dest!: create_risk_decision_Inr(6))

lemma books_of_run:
  assumes "create_risk_authority std run ss ex policy = Inr a"
  shows "risk_books (\<lambda>n sn. Evaluate n sn \<in> set cs) std (risk_run std a cs)"
  by (rule books_run [OF books_created [OF assms]])

lemma evaluation_settles:
  assumes "evaluate std a n sn = (b, Inr r)"
  shows "risk_settled std b (Evaluate n sn) \<and> evaluate std b n sn = (b, Inr r)"
  using assms
proof (cases rule: evaluate_cases)
  case (replayed y)
  then show ?thesis using assms by (simp add: risk_settled_def)
next
  case (registered s)
  then have "risk_settled std b (Evaluate n sn)" "ry_result (the (ks_replay (ka_state b) (in_intent_id n))) = r"
    "ry_intent_bytes (the (ks_replay (ka_state b) (in_intent_id n))) = canonical_order_intent_bytes std n"
    by (auto simp: risk_settled_def registered_def elim!: register_Inr)
  then show ?thesis using settled_evaluation [of std b n sn] by simp
qed simp_all

lemma approval_judged:
  assumes "create_risk_authority std run ss ex policy = Inr a" "b = risk_run std a cs"
    "evaluate std b n sn = (c, Inr r)" "c \<noteq> b" "rd_approval (rr_decision r) = Some ap"
  shows "judged std b n sn (rr_decision r)" "\<not> risk_halted b"
proof -
  have r: "registered std b n sn c r" using assms(3,4) by (cases rule: evaluate_cases) auto
  have v: "rk_version (ks_risk (ka_state b)) = (if risk_halted b then 1 else 0)"
    using books_of_run [OF assms(1), of cs] unfolding assms(2) risk_books_def by blast
  show j: "judged std b n sn (rr_decision r)" by (rule registered_judged [OF r v])
  show "\<not> risk_halted b" using j registered_version [OF r] v assms(5) by (auto simp: judged_def split: if_splits)
qed

section \<open>An example\<close>

definition limit_example :: risk_limit where
  "limit_example = \<lparr>rl_instrument = Instrument (VenueId ''X'') ''A'', rl_order = dec_1, rl_position = dec_3\<rparr>"

definition risk_policy_example :: risk_policy where
  "risk_policy_example = \<lparr>rp_id = RiskPolicyId ''p'', rp_set_id = InstrumentSpecSetId ''s'',
     rp_set_sha256 = Sha256Digest [], rp_execution = policy_example, rp_limits = [limit_example]\<rparr>"

definition snapshot_example :: snapshot where
  "snapshot_example = \<lparr>sn_run = RunId ''r'', sn_set_id = InstrumentSpecSetId ''s'', sn_set_sha256 = Sha256Digest [],
     sn_version = 0, sn_sequence = 0, sn_last_entry = None, sn_last_sha256 = None, sn_cash = [], sn_positions = [],
     sn_rounding = [], sn_unresolved = [], sn_open_bindings = [], sn_open_refs = []\<rparr>"

definition risk_example :: risk_authority where
  "risk_example = \<lparr>ka_run = RunId ''r'', ka_specs = set_example, ka_specs_sha256 = Sha256Digest [],
     ka_execution = policy_example, ka_policy = risk_policy_example,
     ka_quanta = (case risk_quanta [] (specifications set_example) of Inl e \<Rightarrow> [] | Inr q \<Rightarrow> q),
     ka_state = \<lparr>ks_risk = \<lparr>rk_run = RunId ''r'', rk_policy = RiskPolicyId ''p'', rk_policy_sha256 = Sha256Digest [],
         rk_version = 0, rk_halted = False, rk_reason = None, rk_available_at = None, rk_dispatch = None,
         rk_existing_sha256 = None, rk_submitted_sha256 = None\<rparr>,
       ks_decision_next = Some 1, ks_approval_next = Some 1, ks_replay = Map.empty, ks_decisions = [],
       ks_evidence = [], ks_results = []\<rparr>\<rparr>"

lemma digests_example [simp]:
  "domain_digest (hexdigest std_example) d x = Sha256Digest []"
  "instrument_spec_set_digest (hexdigest std_example) ss = Sha256Digest []"
  by (simp_all add: domain_digest_def std_example_def instrument_spec_set_digest_def)

lemma create_risk_example:
  "create_risk_authority std_example (RunId ''r'') set_example policy_example risk_policy_example = Inr risk_example"
proof -
  have q: "\<exists>q. risk_quanta [] (specifications set_example) = Inr q" by (simp add: set_example_def spec_example_def)
  have i: "set_identifier set_example = InstrumentSpecSetId ''s''" by (simp add: set_example_def)
  show ?thesis
    using q by (auto simp: create_risk_authority_def create_risk_state_def require_initial_fields_def i
        risk_policy_example_def risk_example_def risk_policy_digest_def Let_def)
qed

text \<open>The example intent, or one of another target, instant and dispatch.\<close>

abbreviation desk_intent :: "target_lineage \<Rightarrow> int \<Rightarrow> int \<Rightarrow> order_intent" where
  "desk_intent lineage t k \<equiv> intent_example\<lparr>in_target := lineage, in_available_at := t, in_dispatch := k\<rparr>"

lemma desk_intent_self: "intent_example = desk_intent \<lparr>target_id = id_of PORTFOLIO_TARGET 1, target_sha256 = Sha256Digest ''t''\<rparr> 0 0"
  by (simp add: intent_example_def)

lemma like_decides:
  assumes like: "n = desk_intent lineage t k"
  shows "decide risk_example n snapshot_example = Inr (RESIZE, RR_RESIZED_ORDER_LIMIT, Some dec_1)"
proof -
  have l: "limit_by_instrument risk_example (in_instrument n) = Some limit_example"
    by (simp add: limit_by_instrument_def risk_example_def risk_policy_example_def limit_example_def like intent_example_def)
  have c: "classify_lineage_failure risk_example n snapshot_example = None"
    by (simp add: classify_lineage_failure_def risk_example_def like intent_example_def snapshot_example_def
        set_example_def snapshot_balances_match_def)
  have p: "position_for snapshot_example (in_instrument n) = canonical_decimal ''0''"
    by (simp add: position_for_def snapshot_example_def)
  have "decide_against_limit n limit_example \<lparr>dec_text = ''0'', coefficient = 0, scale = 0\<rparr>
      = Inr (RESIZE, RR_RESIZED_ORDER_LIMIT, Some dec_1)"
    unfolding like by code_simp
  then show ?thesis
    by (simp add: decide_def c l p canonical_zero_text) (simp add: risk_example_def)
qed

lemma like_resizes:
  assumes like: "n = desk_intent lineage t k"
  shows "\<exists>d ap. resize_order_intent std_example (id_of RISK_DECISION 1) (id_of RISK_APPROVAL 1) n dec_1 set_example 0 = Inr d
     \<and> rd_approval d = Some ap \<and> ap_quantity ap = dec_1 \<and> ap_id ap = id_of RISK_APPROVAL 1
     \<and> rd_kind d = RESIZE \<and> rd_id d = id_of RISK_DECISION 1 \<and> rd_run d = RunId ''r'' \<and> rd_risk_version d = 0
     \<and> rd_intent_sha256 d = order_intent_digest std_example n"
proof -
  have sp: "require_spec set_example (in_instrument n) = Inr (spec_example ''A'')" unfolding like by code_simp
  have ss: "require_spec_set std_example set_example (in_instrument n)
      (Some (in_spec_id n)) (Some (in_set_id n))
      (Some (in_set_sha256 n)) = Inr (spec_example ''A'', Sha256Digest [])"
    unfolding require_spec_set_def sp bind_res_simps
    by (simp add: like intent_example_def spec_example_def set_example_def)
  have q: "require_quantity dec_1 (spec_example ''A'') = Inr dec_1" "dec_greater dec_1 dec_3 = Inr False" unfolding like by code_simp+
  have ne: "dec_1 \<noteq> dec_3" by (simp add: dec_1_def dec_3_def)
  have n: "in_quantity n = dec_3" "in_run n = RunId ''r''"
    "run_id (id_of k i) = RunId ''r''" "owner_kind (id_of k i) = k" for k i
    by (simp_all add: like intent_example_def id_of_def)
  show ?thesis
    unfolding resize_order_intent_def create_risk_decision_def ss approval_fields_def
    by (simp add: n q ne make_approval_def Let_def require_id_owner_def require_non_negative_def)
qed

lemma like_evaluates:
  assumes like: "n = desk_intent lineage t k" and k: "0 \<le> k"
  shows "\<exists>c r ap. evaluate std_example risk_example n snapshot_example = (c, Inr r) \<and> c \<noteq> risk_example
     \<and> rd_approval (rr_decision r) = Some ap \<and> ap_quantity ap = dec_1"
proof -
  obtain d ap where d: "resize_order_intent std_example (id_of RISK_DECISION 1) (id_of RISK_APPROVAL 1) n dec_1 set_example 0 = Inr d"
    "rd_approval d = Some ap" "ap_quantity ap = dec_1" "ap_id ap = id_of RISK_APPROVAL 1" "rd_kind d = RESIZE"
    "rd_id d = id_of RISK_DECISION 1" "rd_run d = RunId ''r''" "rd_risk_version d = 0"
    "rd_intent_sha256 d = order_intent_digest std_example n"
    using like_resizes [OF like] by blast
  have st: "ks_decision_next (ka_state risk_example) = Some 1" "ks_approval_next (ka_state risk_example) = Some 1"
    "rk_version (ks_risk (ka_state risk_example)) = 0" "ka_specs risk_example = set_example"
    "ka_run risk_example = RunId ''r''" "ks_decisions (ka_state risk_example) = []"
    "ks_replay (ka_state risk_example) = Map.empty" by (simp_all add: risk_example_def)
  have n: "in_dispatch n = k" "in_run n = RunId ''r''" by (simp_all add: like intent_example_def)
  have structural: "\<exists>x. require_structural_intent risk_example n = Inr x"
  proof -
    have "spec_by_instrument risk_example (in_instrument n) = Some (spec_example ''A'')" unfolding like by code_simp
    moreover have "require_positive (in_quantity n) = Inr (in_quantity n)"
      "require_quantized (in_quantity n) (quantity_quantum (spec_example ''A'')) = Inr (in_quantity n)"
      unfolding like by code_simp+
    ultimately show ?thesis
      unfolding require_structural_intent_def
      by (simp add: n st) (simp add: like intent_example_def set_example_def spec_example_def risk_example_def)
  qed
  have ids: "\<lparr>run_id = RunId ''r'', owner_kind = k, owner_sequence = 1\<rparr> = id_of k 1" for k by (simp add: id_of_def)
  have own: "owner_kind (id_of k i) = k" "owner_sequence (id_of k i) = i" "run_id (id_of k i) = RunId ''r''" for k i
    by (simp_all add: id_of_def)
  have "\<exists>st' v. register_decision std_example risk_example n ib (order_intent_digest std_example n) 0 ss
      RESIZE RR_RESIZED_ORDER_LIMIT (Some dec_1) = Inr (st', \<lparr>rr_decision = d, rr_evidence = v\<rparr>)
      \<and> ks_decisions st' = [d]" for ib ss
    by (simp add: register_decision_def Let_def st risk_advance_def MAX_UINT64_def risk_id_def make_economic_id_def
        require_uint64_def allocate_approval_def make_decision_def ids d create_risk_evidence_def require_allocated_def
        require_next_def next_allocation_def own evidence_approval_def create_risk_result_def n)
  then obtain st' v where "register_decision std_example risk_example n
      (canonical_order_intent_bytes std_example n) (order_intent_digest std_example n)
      (sn_version snapshot_example) (portfolio_snapshot_digest std_example snapshot_example)
      RESIZE RR_RESIZED_ORDER_LIMIT (Some dec_1) = Inr (st', \<lparr>rr_decision = d, rr_evidence = v\<rparr>)" "ks_decisions st' = [d]"
    by (auto simp: snapshot_example_def) blast
  moreover have "risk_example\<lparr>ka_state := st'\<rparr> \<noteq> risk_example" if "ks_decisions st' = [d]" for st'
  proof
    assume "risk_example\<lparr>ka_state := st'\<rparr> = risk_example"
    then have "ka_state (risk_example\<lparr>ka_state := st'\<rparr>) = ka_state risk_example" by simp
    then show False using that st(6) by simp
  qed
  ultimately show ?thesis
    using structural k by (auto simp: evaluate_def plan_evaluation_def like_decides [OF like] st n d)
qed

lemmas example_decides = like_decides [OF desk_intent_self]
lemmas example_resizes = like_resizes [OF desk_intent_self]
lemmas example_evaluates = like_evaluates [OF desk_intent_self order_refl]

section \<open>Properties\<close>

text \<open>C26: an approval stays within the limits. When an evaluation registers an approval, the authority
  was not halted, the snapshot was that of the run at the version the intent names, and the
  approved quantity is positive, at most the intended one (equal exactly for an allowance), at
  most the order limit the policy sets for the instrument, and such that the position of the
  snapshot moved by it stays within the position limit or comes no further out than it was.\<close>

theorem approval_within_limits:
  assumes "create_risk_authority std run ss ex policy = Inr a" "b = risk_run std a cs"
    "evaluate std b n sn = (c, Inr r)" "c \<noteq> b" "rd_approval (rr_decision r) = Some ap"
  shows "\<not> risk_halted b \<and> sn_run sn = run \<and> in_run n = run \<and> sn_version sn = in_snapshot_version n
    \<and> (rd_kind (rr_decision r) = ALLOW \<or> rd_kind (rr_decision r) = RESIZE)
    \<and> (rd_kind (rr_decision r) = ALLOW \<longleftrightarrow> ap_quantity ap = in_quantity n)
    \<and> 0 < dval (ap_quantity ap) \<and> dval (ap_quantity ap) \<le> dval (in_quantity n)
    \<and> (\<exists>l. l \<in> set (rp_limits policy) \<and> rl_instrument l = in_instrument n
        \<and> dval (ap_quantity ap) \<le> dval (rl_order l)
        \<and> \<bar>position_value sn (in_instrument n) + of_int (side_sign (in_side n)) * dval (ap_quantity ap)\<bar>
            \<le> max \<bar>position_value sn (in_instrument n)\<bar> (dval (rl_position l)))"
proof -
  note j = approval_judged [OF assms]
  have f: "ka_run b = run" "ka_policy b = policy" using created_fields [OF assms(1)] by (simp_all add: assms(2))
  have "in_run n = run" using j(1) f(1) by (simp add: judged_def)
  moreover have "rd_kind (rr_decision r) = ALLOW \<or> rd_kind (rr_decision r) = RESIZE" using j(1) assms(5) by (auto simp: judged_def)
  ultimately show ?thesis using j assms(5) unfolding judged_def within_limit_def f by blast
qed

theorem approval_within_limits_witness:
  "\<exists>c r ap l. evaluate std_example (risk_run std_example risk_example []) intent_example snapshot_example = (c, Inr r)
     \<and> rd_approval (rr_decision r) = Some ap \<and> ap_quantity ap = dec_1 \<and> l = limit_example \<and> dval (ap_quantity ap) \<le> dval (rl_order l)"
proof -
  obtain c r ap where e: "evaluate std_example risk_example intent_example snapshot_example = (c, Inr r)" "c \<noteq> risk_example"
    "rd_approval (rr_decision r) = Some ap" "ap_quantity ap = dec_1" using example_evaluates by blast
  have "\<exists>l. l \<in> set (rp_limits risk_policy_example) \<and> dval (ap_quantity ap) \<le> dval (rl_order l)"
    using approval_within_limits [OF create_risk_example, of _ "[]", OF refl, unfolded risk_run_simps, OF e(1-3)] by blast
  then show ?thesis using e by (auto simp: risk_policy_example_def)
qed

text \<open>The halt of an authority, over a run.\<close>

lemma halt_final: "risk_halted b \<Longrightarrow> ks_risk (ka_state (risk_run std b cs)) = ks_risk (ka_state b)"
  by (induction cs arbitrary: b) (simp_all add: risk_step_keeps)

lemma not_halted_step: "\<not> risk_halted (risk_step std a c) \<Longrightarrow> ks_risk (ka_state (risk_step std a c)) = ks_risk (ka_state a)"
  by (cases rule: risk_step_cases [of std a c]) (auto simp: newly_halted_def registered_def elim!: register_Inr)

lemma not_halted_run: "\<not> risk_halted (risk_run std a cs) \<Longrightarrow> ks_risk (ka_state (risk_run std a cs)) = ks_risk (ka_state a)"
proof (induction cs arbitrary: a)
  case (Cons c cs)
  then have run: "\<not> risk_halted (risk_run std (risk_step std a c) cs)" by simp
  then have "\<not> risk_halted (risk_step std a c)" using halt_final [of "risk_step std a c" std cs] by auto
  then show ?case using Cons.IH [OF run] by (simp add: not_halted_step)
qed simp

lemma engaged_halt:
  assumes "\<not> risk_halted a" "risk_halted (risk_step std a (EngageHalt reason t k))"
  shows "rk_reason (ks_risk (ka_state (risk_step std a (EngageHalt reason t k)))) = Some reason"
    "rk_available_at (ks_risk (ka_state (risk_step std a (EngageHalt reason t k)))) = Some t"
    "rk_dispatch (ks_risk (ka_state (risk_step std a (EngageHalt reason t k)))) = Some k"
  using assms
  by (auto simp: risk_step_def engage_halt_def halted_state_def create_risk_state_def split: if_splits sum.splits)

text \<open>C27: the books of the risk authority. After any run, decisions and approvals each carry the
  identities one, two, three and so on of the run and the counters name the next; results pair
  decisions with their evidence in order; an intent has one decision, kept under its identity
  with the bytes of an intent that was submitted for evaluation. The halt happens once: the risk state
  is the initial one until an authority is halted, and from then on it never changes again; when a
  request to engage it was what halted the authority, the state names for ever the reason, the time and
  the dispatch of that request.\<close>

theorem risk_books_sound:
  assumes "create_risk_authority std run ss ex policy = Inr a" "b = risk_run std a cs"
  shows "numbered run RISK_DECISION (map rd_id (ks_decisions (ka_state b))) (ks_decision_next (ka_state b))
    \<and> numbered run RISK_APPROVAL (map ap_id (approvals (ks_decisions (ka_state b)))) (ks_approval_next (ka_state b))
    \<and> map rr_decision (ks_results (ka_state b)) = ks_decisions (ka_state b)
    \<and> map rr_evidence (ks_results (ka_state b)) = ks_evidence (ka_state b)
    \<and> distinct (map rd_intent (ks_decisions (ka_state b)))
    \<and> (\<forall>r. r \<in> set (ks_results (ka_state b)) \<longrightarrow> (\<exists>y n sn. Evaluate n sn \<in> set cs
        \<and> ks_replay (ka_state b) (in_intent_id n) = Some y \<and> ry_result y = r
        \<and> ry_intent_bytes y = canonical_order_intent_bytes std n \<and> judged std b n sn (rr_decision r)
        \<and> has_issued_result b (in_intent_id n) (canonical_order_intent_bytes std n)
            (canonical_risk_decision_bytes std (rr_decision r)) (canonical_evidence_bytes (rr_evidence r))))
    \<and> (rk_version (ks_risk (ka_state b)) = 1 \<longleftrightarrow> risk_halted b)
    \<and> (\<not> risk_halted b \<longrightarrow> ks_risk (ka_state b) = ks_risk (ka_state a))
    \<and> (\<forall>xs ys. cs = xs @ ys \<and> risk_halted (risk_run std a xs)
        \<longrightarrow> ks_risk (ka_state b) = ks_risk (ka_state (risk_run std a xs)))
    \<and> (\<forall>xs reason t k ys. cs = xs @ [EngageHalt reason t k] @ ys \<and> \<not> risk_halted (risk_run std a xs)
        \<and> risk_halted (risk_run std a (xs @ [EngageHalt reason t k]))
        \<longrightarrow> rk_reason (ks_risk (ka_state b)) = Some reason \<and> rk_available_at (ks_risk (ka_state b)) = Some t
          \<and> rk_dispatch (ks_risk (ka_state b)) = Some k)"
proof -
  have k: "risk_books (\<lambda>n sn. Evaluate n sn \<in> set cs) std b" unfolding assms(2) by (rule books_of_run [OF assms(1)])
  have run: "ka_run b = run" using created_fields [OF assms(1)] by (simp add: assms(2))
  have "\<exists>y n sn. Evaluate n sn \<in> set cs
        \<and> ks_replay (ka_state b) (in_intent_id n) = Some y \<and> ry_result y = r
        \<and> ry_intent_bytes y = canonical_order_intent_bytes std n \<and> judged std b n sn (rr_decision r)
        \<and> has_issued_result b (in_intent_id n) (canonical_order_intent_bytes std n)
            (canonical_risk_decision_bytes std (rr_decision r)) (canonical_evidence_bytes (rr_evidence r))"
    if "r \<in> set (ks_results (ka_state b))" for r
  proof -
    have "map (\<lambda>d. map_option ry_result (ks_replay (ka_state b) (rd_intent d))) (ks_decisions (ka_state b))
        = map Some (ks_results (ka_state b))" using k by (simp add: risk_books_def)
    then have "Some r \<in> set (map (\<lambda>d. map_option ry_result (ks_replay (ka_state b) (rd_intent d))) (ks_decisions (ka_state b)))"
      using that by simp
    then obtain d :: risk_decision where "Some r = map_option ry_result (ks_replay (ka_state b) (rd_intent d))" by auto
    from this [symmetric] obtain i y where y: "ks_replay (ka_state b) i = Some y" "ry_result y = r" by auto
    then have "record_sound (\<lambda>n sn. Evaluate n sn \<in> set cs) std b i y" using k by (simp add: risk_books_def)
    then obtain n sn where n: "Evaluate n sn \<in> set cs" "i = in_intent_id n"
      "ry_intent_bytes y = canonical_order_intent_bytes std n" "judged std b n sn (ry_decision y)"
      "ry_decision y = rr_decision (ry_result y)" "ry_evidence y = rr_evidence (ry_result y)"
      "ry_decision_bytes y = canonical_risk_decision_bytes std (ry_decision y)"
      "ry_evidence_bytes y = canonical_evidence_bytes (ry_evidence y)"
      unfolding record_sound_def by blast
    show ?thesis using n y by (intro exI [of _ y] exI [of _ n] exI [of _ sn]) (simp add: has_issued_result_def)
  qed
  moreover have "ks_risk (ka_state b) = ks_risk (ka_state (risk_run std a xs))"
    if "cs = xs @ ys" "risk_halted (risk_run std a xs)" for xs ys
    using halt_final [OF that(2), of std ys] by (simp add: assms(2) that(1))
  moreover have "rk_reason (ks_risk (ka_state b)) = Some reason \<and> rk_available_at (ks_risk (ka_state b)) = Some t
      \<and> rk_dispatch (ks_risk (ka_state b)) = Some k"
    if "cs = xs @ [EngageHalt reason t k] @ ys" "\<not> risk_halted (risk_run std a xs)"
      "risk_halted (risk_run std a (xs @ [EngageHalt reason t k]))" for xs reason t k ys
    using engaged_halt [OF that(2), of std reason t k] halt_final [OF that(3), of std ys] that(3)
    by (simp add: assms(2) that(1))
  moreover have "ks_risk (ka_state b) = ks_risk (ka_state a)" if "\<not> risk_halted b"
    using not_halted_run [of std a cs] that by (simp add: assms(2))
  ultimately show ?thesis using k by (auto simp: risk_books_def run)
qed

lemma answer_keeps_halt:
  assumes "evaluate std a n sn = (b, Inr r)" shows "ks_risk (ka_state b) = ks_risk (ka_state a)"
  by (rule evaluate_cases [OF assms]) (auto simp: registered_def elim!: register_Inr)

lemma halt_example:
  "\<not> risk_halted (risk_run std_example risk_example [Evaluate intent_example snapshot_example])"
  "risk_halted (risk_run std_example risk_example
     ([Evaluate intent_example snapshot_example] @ [EngageHalt HR_KILL_SWITCH 5 2]))"
proof -
  obtain c r where e: "evaluate std_example risk_example intent_example snapshot_example = (c, Inr r)"
    using example_evaluates by blast
  have h: "ks_risk (ka_state c) = ks_risk (ka_state risk_example)" by (rule answer_keeps_halt [OF e])
  then have c: "risk_step std_example risk_example (Evaluate intent_example snapshot_example) = c"
    by (simp add: risk_step_def e)
  have u: "\<not> risk_halted c" unfolding h by (simp add: risk_example_def)
  show "\<not> risk_halted (risk_run std_example risk_example [Evaluate intent_example snapshot_example])"
    using u by (simp add: c)
  show "risk_halted (risk_run std_example risk_example
     ([Evaluate intent_example snapshot_example] @ [EngageHalt HR_KILL_SWITCH 5 2]))"
    using u by (simp add: c)
      (simp add: risk_step_def engage_halt_def halted_state_def create_risk_state_def require_halt_fields_def)
qed

theorem risk_books_sound_witness:
  "\<exists>b. b = risk_run std_example risk_example ([Evaluate intent_example snapshot_example]
       @ [EngageHalt HR_KILL_SWITCH 5 2] @ [EngageHalt HR_KILL_SWITCH 9 3])
     \<and> distinct (map rd_intent (ks_decisions (ka_state b))) \<and> risk_halted b
     \<and> rk_available_at (ks_risk (ka_state b)) = Some 5 \<and> rk_dispatch (ks_risk (ka_state b)) = Some 2"
proof -
  let ?b = "risk_run std_example risk_example ([Evaluate intent_example snapshot_example]
       @ [EngageHalt HR_KILL_SWITCH 5 2] @ [EngageHalt HR_KILL_SWITCH 9 3])"
  note sound = risk_books_sound [OF create_risk_example refl, of "[Evaluate intent_example snapshot_example]
       @ [EngageHalt HR_KILL_SWITCH 5 2] @ [EngageHalt HR_KILL_SWITCH 9 3]"]
  have "distinct (map rd_intent (ks_decisions (ka_state ?b)))" using sound by blast
  moreover have "rk_available_at (ks_risk (ka_state ?b)) = Some 5 \<and> rk_dispatch (ks_risk (ka_state ?b)) = Some 2"
    using sound halt_example by blast
  moreover have "risk_halted ?b"
    using sound halt_example(2) by (metis append.assoc)
  ultimately show ?thesis by blast
qed

text \<open>Answers are final. The answer an evaluation gave is given for ever to the same intent, with
  any snapshot, whatever is evaluated and halted in between, and costs nothing; once engaged, the
  halt never changes again.\<close>

theorem risk_answers_final:
  assumes "evaluate std a n sn = (b, Inr r)"
  shows "(\<forall>cs sp. let c = risk_run std b cs in evaluate std c n sp = (c, Inr r))
    \<and> (risk_halted b \<longrightarrow> (\<forall>cs. ks_risk (ka_state (risk_run std b cs)) = ks_risk (ka_state b)))"
proof (intro conjI allI impI)
  fix cs sp
  have s: "risk_settled std b (Evaluate n sp)" using evaluation_settles [OF assms] by (simp add: risk_settled_def)
  have run: "risk_run std b cs = risk.run std b cs" by (simp add: risk_run_def risk.run_def)
  have "risk_settled std (risk_run std b cs) (Evaluate n sp)" unfolding run by (rule risk.run_settled [OF TrueI s])
  then have "fst (evaluate std (risk_run std b cs) n sp) = risk_run std b cs" by (simp add: settled_evaluation)
  moreover have "evaluate std b n sp = (b, Inr r)"
    using evaluation_settles [OF assms] settled_evaluation [of std b n sn] settled_evaluation [OF s] by simp
  then have "snd (evaluate std (risk_run std b cs) n sp) = Inr r"
    using risk.answer_kept [OF TrueI s, of cs] by (simp add: run risk_answer_def)
  ultimately show "let c = risk_run std b cs in evaluate std c n sp = (c, Inr r)" by (simp add: Let_def prod_eq_iff)
next
  fix cs
  assume "risk_halted b"
  then show "ks_risk (ka_state (risk_run std b cs)) = ks_risk (ka_state b)" by (rule halt_final)
qed

theorem risk_answers_final_witness:
  "\<exists>c r. evaluate std_example risk_example intent_example snapshot_example = (c, Inr r)
     \<and> evaluate std_example (risk_run std_example c [EngageHalt HR_KILL_SWITCH 0 0]) intent_example snapshot_example
       = (risk_run std_example c [EngageHalt HR_KILL_SWITCH 0 0], Inr r)"
proof -
  obtain c r where e: "evaluate std_example risk_example intent_example snapshot_example = (c, Inr r)"
    using example_evaluates by blast
  then show ?thesis using risk_answers_final [OF e] by (auto simp only: Let_def)
qed

end
