(* ===== verification/Order_Authority.thy ===== *)
theory Order_Authority
  imports Risk_Runs
begin

text \<open>
  \<open>ea.execution.authority\<close>: the single owner of order creation. One risk result
  is re-proved from its own canonical bytes, checked against the frozen policy
  and against the risk authority that issued it, and consumed once. The issuance
  question is the port \<open>issuer\<close>, so that the state of the risk authority at the
  time of the call is an argument of the call.
\<close>

record issuer =
  is_run :: run_id
  is_specs :: spec_set
  is_execution :: execution_policy
  is_policy :: risk_policy
  is_issued :: "economic_id \<Rightarrow> string \<Rightarrow> string \<Rightarrow> string \<Rightarrow> bool"

record order_record =
  oc_intent_bytes :: string
  oc_decision_bytes :: string
  oc_evidence_bytes :: string
  oc_order :: order
  oc_order_bytes :: string
  oc_order_sha256 :: sha256_digest
  oc_request_bytes :: string
  oc_request_sha256 :: sha256_digest
  oc_key :: sha256_digest

record order_state =
  os_next :: "int option"
  os_approvals :: "economic_id \<rightharpoonup> order_record"
  os_intents :: "economic_id \<rightharpoonup> order_record"
  os_decisions :: "economic_id \<rightharpoonup> order_record"
  os_by_id :: "economic_id \<rightharpoonup> order_record"
  os_by_key :: "sha256_digest \<rightharpoonup> order_record"
  os_orders :: "order list"

record order_authority =
  oa_run :: run_id
  oa_specs :: spec_set
  oa_specs_sha256 :: sha256_digest
  oa_execution :: execution_policy
  oa_policy :: risk_policy
  oa_policy_sha256 :: sha256_digest
  oa_state :: order_state

abbreviation order_error :: "outcome_code \<Rightarrow> exn" where
  "order_error \<equiv> ExecutionAuthorityError"

text \<open>\<open>_raise_public\<close> with the \<open>TypeError\<close> clause of \<open>create_order\<close>.\<close>

definition order_public_code :: "outcome_code \<Rightarrow> exn" where
  "order_public_code c =
     (if c \<in> {INVALID_TYPE, NON_FINITE, OUT_OF_RANGE, NOT_QUANTIZED, PRICE_DOMAIN, ARITHMETIC_OVERFLOW, CONFLICTING_ID}
      then order_error c else AssertionError)"

fun order_raise_public :: "exn \<Rightarrow> exn" where
  "order_raise_public (EconomicValidationError c) = order_public_code c"
| "order_raise_public (ExecutionIdentityError c) = order_public_code c"
| "order_raise_public (ExecutionMessageError c) = order_public_code c"
| "order_raise_public (RiskContractError c) = order_public_code c"
| "order_raise_public RunContractError = order_error OUT_OF_RANGE"
| "order_raise_public TimeValidationError = order_error OUT_OF_RANGE"
| "order_raise_public TypeError = order_error INVALID_TYPE"
| "order_raise_public e = e"

section \<open>Creation\<close>

definition require_issuer_binding :: "stdlib \<Rightarrow> issuer \<Rightarrow> run_id \<Rightarrow> spec_set \<Rightarrow> execution_policy \<Rightarrow> risk_policy \<Rightarrow> unit result" where
  "require_issuer_binding std port run ss execution policy =
     guard_res (is_run port \<noteq> run \<or> set_identifier (is_specs port) \<noteq> set_identifier ss
         \<or> instrument_spec_set_digest (hexdigest std) (is_specs port) \<noteq> instrument_spec_set_digest (hexdigest std) ss
         \<or> is_execution port \<noteq> execution \<or> rp_id (is_policy port) \<noteq> rp_id policy
         \<or> risk_policy_digest std (is_policy port) \<noteq> risk_policy_digest std policy) (order_error CONFLICTING_ID) (Inr ())"

definition empty_order_state :: order_state where
  "empty_order_state = \<lparr>os_next = Some 1, os_approvals = Map.empty, os_intents = Map.empty,
     os_decisions = Map.empty, os_by_id = Map.empty, os_by_key = Map.empty, os_orders = []\<rparr>"

definition create_order_authority ::
  "stdlib \<Rightarrow> run_id \<Rightarrow> spec_set \<Rightarrow> execution_policy \<Rightarrow> risk_policy \<Rightarrow> issuer \<Rightarrow> order_authority result" where
  "create_order_authority std run ss execution policy port =
     (let sha = instrument_spec_set_digest (hexdigest std) ss
      in guard_res (rp_set_id policy \<noteq> set_identifier ss \<or> rp_set_sha256 policy \<noteq> sha
             \<or> rp_execution policy \<noteq> execution) (order_error CONFLICTING_ID)
        (bind_res (require_issuer_binding std port run ss execution policy) (\<lambda>_.
           Inr \<lparr>oa_run = run, oa_specs = ss, oa_specs_sha256 = sha, oa_execution = execution, oa_policy = policy,
                oa_policy_sha256 = risk_policy_digest std policy, oa_state = empty_order_state\<rparr>)))"

definition resolve_order_by_id :: "order_authority \<Rightarrow> economic_id \<Rightarrow> order option" where
  "resolve_order_by_id a i = map_option oc_order (os_by_id (oa_state a) i)"

definition resolve_order_by_key :: "order_authority \<Rightarrow> sha256_digest \<Rightarrow> order option" where
  "resolve_order_by_key a k = map_option oc_order (os_by_key (oa_state a) k)"

section \<open>Reconstruction from canonical bytes\<close>

text \<open>
  The decoders of \<open>ea.core.execution_messages\<close> applied to the bytes a value was
  just written to: reading them back gives the fields of the value, so what is
  left is the checked construction, in the order of the checks, and the
  comparison of the two documents.
\<close>

definition decode_own_intent :: "stdlib \<Rightarrow> spec_set \<Rightarrow> order_intent \<Rightarrow> order_intent result" where
  "decode_own_intent std ss n =
     bind_res (require_non_negative (in_snapshot_version n)) (\<lambda>_.
     bind_res (require_non_negative (in_dispatch n)) (\<lambda>_.
     bind_res (create_order_intent std (in_run n) (in_intent_id n) (in_correlation n) (in_target n)
       (in_instrument n) (in_side n) (in_quantity n) (in_snapshot_version n) (in_available_at n)
       (in_dispatch n) ss (in_policy n)) (\<lambda>m.
     guard_res (json_norm (order_intent_document std n) \<noteq> json_norm (order_intent_document std m))
       (ExecutionMessageError CONFLICTING_ID) (Inr m))))"

definition validate_approval :: "execution_approval \<Rightarrow> unit result" where
  "validate_approval ap =
     bind_res (require_non_negative (ap_snapshot_version ap)) (\<lambda>_.
     bind_res (require_non_negative (ap_risk_version ap)) (\<lambda>_.
     bind_res (require_non_negative (execution_approval.ap_dispatch ap)) (\<lambda>_. Inr ())))"

definition rebuild_decision :: "stdlib \<Rightarrow> spec_set \<Rightarrow> order_intent \<Rightarrow> risk_decision \<Rightarrow> risk_decision result" where
  "rebuild_decision std ss n d =
     (if rd_kind d = ALLOW \<or> rd_kind d = RESIZE
      then (case rd_approval d of
          None \<Rightarrow> Inl (ExecutionMessageError INVALID_TYPE)
        | Some ap \<Rightarrow> bind_res (validate_approval ap) (\<lambda>_.
            (case (rd_quantity d, rd_effective_sha256 d) of
               (Some q, Some effective) \<Rightarrow>
                 if rd_kind d = ALLOW then allow_order_intent std (rd_id d) (ap_id ap) n ss (rd_risk_version d)
                 else resize_order_intent std (rd_id d) (ap_id ap) n q ss (rd_risk_version d)
             | _ \<Rightarrow> Inl (ExecutionMessageError INVALID_TYPE))))
      else guard_res (rd_approval d \<noteq> None \<or> rd_quantity d \<noteq> None \<or> rd_effective_sha256 d \<noteq> None)
          (ExecutionMessageError CONFLICTING_ID)
        (if rd_kind d = REJECT then reject_order_intent std (rd_id d) n ss (rd_risk_version d)
         else fail_order_intent_evaluation std (rd_id d) n ss (rd_risk_version d)))"

definition decode_own_decision :: "stdlib \<Rightarrow> spec_set \<Rightarrow> order_intent \<Rightarrow> risk_decision \<Rightarrow> risk_decision result" where
  "decode_own_decision std ss n d =
     bind_res (require_non_negative (rd_risk_version d)) (\<lambda>_.
     bind_res (require_non_negative (rd_snapshot_version d)) (\<lambda>_.
     bind_res (require_non_negative (rd_dispatch d)) (\<lambda>_.
     bind_res (rebuild_decision std ss n d) (\<lambda>d'.
     guard_res (rd_outcome d \<noteq> rd_outcome d') (ExecutionMessageError CONFLICTING_ID)
    (guard_res (json_norm (risk_decision_document std d) \<noteq> json_norm (risk_decision_document std d'))
       (ExecutionMessageError CONFLICTING_ID) (Inr d'))))))"

definition decode_own_approval ::
  "stdlib \<Rightarrow> order_intent \<Rightarrow> risk_decision \<Rightarrow> execution_approval \<Rightarrow> execution_approval result" where
  "decode_own_approval std n d ap = (case rd_approval d of
      None \<Rightarrow> Inl (ExecutionMessageError CONFLICTING_ID)
    | Some ap' \<Rightarrow> bind_res (validate_approval ap) (\<lambda>_.
        guard_res (rd_intent d \<noteq> in_intent_id n \<or> rd_intent_sha256 d \<noteq> order_intent_digest std n)
          (ExecutionMessageError CONFLICTING_ID)
       (guard_res (json_norm (approval_document std ap) \<noteq> json_norm (approval_document std ap'))
          (ExecutionMessageError CONFLICTING_ID) (Inr ap'))))"

section \<open>Proofs about a result\<close>

definition require_issue_transition :: "int option \<Rightarrow> int option \<Rightarrow> economic_id \<Rightarrow> unit result" where
  "require_issue_transition before after i = (case before of
      None \<Rightarrow> Inl (order_error OUT_OF_RANGE)
    | Some n \<Rightarrow>
        guard_res (n < 1 \<or> n > MAX_UINT64 \<or> owner_sequence i < 1 \<or> owner_sequence i > MAX_UINT64) (order_error OUT_OF_RANGE)
       (guard_res (n \<noteq> owner_sequence i) (order_error CONFLICTING_ID)
       (guard_res (after \<noteq> next_allocation n) (order_error OUT_OF_RANGE) (Inr ()))))"

fun executable_reasons :: "risk_decision_kind \<Rightarrow> risk_reason list option" where
  "executable_reasons ALLOW = Some [RR_WITHIN_LIMITS]"
| "executable_reasons RESIZE =
     Some [RR_RESIZED_ORDER_LIMIT, RR_RESIZED_POSITION_LIMIT, RR_RESIZED_ORDER_AND_POSITION_LIMITS]"
| "executable_reasons REJECT = None"
| "executable_reasons EVALUATION_FAILED = None"

definition require_evidence ::
  "stdlib \<Rightarrow> order_authority \<Rightarrow> risk_evidence \<Rightarrow> order_intent \<Rightarrow> risk_decision \<Rightarrow> execution_approval \<Rightarrow> unit result" where
  "require_evidence std a v n d ap =
     guard_res (rv_approval_sha256 v = None) (order_error INVALID_TYPE)
    (guard_res (rv_snapshot_version v < 0 \<or> rv_risk_version v < 0) (order_error OUT_OF_RANGE)
    (bind_res (require_issue_transition (Some (rv_decision_before v)) (rv_decision_after v) (rd_id d)) (\<lambda>_.
     bind_res (require_issue_transition (rv_approval_before v) (rv_approval_after v) (ap_id ap)) (\<lambda>_.
     guard_res (case executable_reasons (rd_kind d) of None \<Rightarrow> True | Some rs \<Rightarrow> rv_reason v \<notin> set rs)
       (order_error CONFLICTING_ID)
    (guard_res (rv_run v \<noteq> in_run n \<or> rv_intent v \<noteq> in_intent_id n \<or> rv_intent_sha256 v \<noteq> order_intent_digest std n
         \<or> rv_snapshot_version v \<noteq> in_snapshot_version n \<or> rv_snapshot_version v \<noteq> rd_snapshot_version d
         \<or> rv_policy v \<noteq> rp_id (oa_policy a) \<or> rv_policy_sha256 v \<noteq> oa_policy_sha256 a
         \<or> rv_risk_version v \<noteq> rd_risk_version d \<or> rv_decision v \<noteq> rd_id d
         \<or> rv_decision_sha256 v \<noteq> risk_decision_digest std d
         \<or> rv_approval_sha256 v \<noteq> Some (execution_approval_digest std ap)) (order_error CONFLICTING_ID) (Inr ()))))))"

definition require_frozen_lineage :: "stdlib \<Rightarrow> order_authority \<Rightarrow> order_intent \<Rightarrow> risk_evidence \<Rightarrow> unit result" where
  "require_frozen_lineage std a n v =
     guard_res (in_run n \<noteq> oa_run a \<or> in_set_id n \<noteq> set_identifier (oa_specs a) \<or> in_set_sha256 n \<noteq> oa_specs_sha256 a
         \<or> instrument_spec_set_digest (hexdigest std) (oa_specs a) \<noteq> oa_specs_sha256 a
         \<or> in_policy n \<noteq> oa_execution a \<or> rv_policy v \<noteq> rp_id (oa_policy a) \<or> rv_policy_sha256 v \<noteq> oa_policy_sha256 a
         \<or> risk_policy_digest std (oa_policy a) \<noteq> oa_policy_sha256 a
         \<or> rp_set_id (oa_policy a) \<noteq> set_identifier (oa_specs a) \<or> rp_set_sha256 (oa_policy a) \<noteq> oa_specs_sha256 a
         \<or> rp_execution (oa_policy a) \<noteq> oa_execution a) (order_error CONFLICTING_ID) (Inr ())"

definition static_proof_holds :: "order_intent \<Rightarrow> risk_decision \<Rightarrow> risk_reason \<Rightarrow> canonical_decimal \<Rightarrow> canonical_decimal \<Rightarrow> bool result" where
  "static_proof_holds n d reason approved maximum =
     (case rd_kind d of
        ALLOW \<Rightarrow> bind_res (dec_greater (in_quantity n) maximum) (\<lambda>over.
          Inr (reason = RR_WITHIN_LIMITS \<and> approved = in_quantity n \<and> \<not> over))
      | RESIZE \<Rightarrow>
          bind_res (canonical_decimal ''0'') (\<lambda>zero.
          bind_res (dec_less zero approved) (\<lambda>positive. bind_res (dec_less approved (in_quantity n)) (\<lambda>smaller.
          bind_res (dec_greater (in_quantity n) maximum) (\<lambda>over. bind_res (dec_less approved maximum) (\<lambda>below.
          Inr (positive \<and> smaller \<and>
            (if reason = RR_RESIZED_ORDER_LIMIT \<or> reason = RR_RESIZED_ORDER_AND_POSITION_LIMITS
             then over \<and> approved = maximum
             else reason = RR_RESIZED_POSITION_LIMIT \<and> below)))))))
      | _ \<Rightarrow> Inr False)"

definition require_static_policy_proof ::
  "order_authority \<Rightarrow> order_intent \<Rightarrow> risk_decision \<Rightarrow> risk_evidence \<Rightarrow> execution_approval \<Rightarrow> unit result" where
  "require_static_policy_proof a n d v ap =
     (case find (\<lambda>l. rl_instrument l = in_instrument n) (rp_limits (oa_policy a)) of
        None \<Rightarrow> Inl (order_error CONFLICTING_ID)
      | Some l \<Rightarrow> bind_res (static_proof_holds n d (rv_reason v) (ap_quantity ap) (rl_order l)) (\<lambda>valid.
          guard_res (\<not> valid) (order_error CONFLICTING_ID) (Inr ())))"

section \<open>Issuing an order\<close>

definition order_record_of :: "stdlib \<Rightarrow> string \<Rightarrow> string \<Rightarrow> string \<Rightarrow> order \<Rightarrow> order_record" where
  "order_record_of std intent_bytes decision_bytes evidence_bytes od =
     \<lparr>oc_intent_bytes = intent_bytes, oc_decision_bytes = decision_bytes, oc_evidence_bytes = evidence_bytes,
      oc_order = od, oc_order_bytes = canonical_order_bytes std od, oc_order_sha256 = order_digest std od,
      oc_request_bytes = json_bytes (execution_request_document std od),
      oc_request_sha256 = execution_request_digest std od, oc_key = order_client_submission_key std od\<rparr>"

text \<open>
  \<open>_classify_replay\<close>. The source compares records by object identity; a record
  holds the one order of its number, so equal records are the same object.
\<close>

definition classify_order_replay ::
  "order_authority \<Rightarrow> order_intent \<Rightarrow> risk_decision \<Rightarrow> string \<Rightarrow> string \<Rightarrow> string \<Rightarrow> order option result" where
  "classify_order_replay a n d intent_bytes decision_bytes evidence_bytes =
     (let by_approval = (case rd_approval d of None \<Rightarrow> None | Some ap \<Rightarrow> os_approvals (oa_state a) (ap_id ap));
          by_intent = os_intents (oa_state a) (in_intent_id n);
          by_decision = os_decisions (oa_state a) (rd_id d)
      in if by_approval = None \<and> by_intent = None \<and> by_decision = None then Inr None
         else case by_approval of
             None \<Rightarrow> Inl (order_error CONFLICTING_ID)
           | Some x \<Rightarrow>
               guard_res (\<not> (by_intent = Some x \<and> by_decision = Some x \<and> oc_intent_bytes x = intent_bytes
                   \<and> oc_decision_bytes x = decision_bytes \<and> oc_evidence_bytes x = evidence_bytes))
                 (order_error CONFLICTING_ID) (Inr (Some (oc_order x))))"

definition preflight_order_state ::
  "order_state \<Rightarrow> economic_id \<Rightarrow> economic_id \<Rightarrow> economic_id \<Rightarrow> order_record \<Rightarrow> bool" where
  "preflight_order_state st approval_id intent_id decision_id x \<longleftrightarrow>
     os_approvals st approval_id = Some x \<and> os_intents st intent_id = Some x \<and> os_decisions st decision_id = Some x
     \<and> os_by_id st (or_id (oc_order x)) = Some x \<and> os_by_key st (oc_key x) = Some x
     \<and> os_orders st \<noteq> [] \<and> last (os_orders st) = oc_order x"

text \<open>What is proved of a result before anything is allocated.\<close>

definition prove_result ::
  "stdlib \<Rightarrow> order_authority \<Rightarrow> order_intent \<Rightarrow> risk_result \<Rightarrow> (order_intent \<times> risk_decision \<times> execution_approval) result" where
  "prove_result std a n r =
     (let d = rr_decision r; v = rr_evidence r in
      bind_res (decode_own_intent std (oa_specs a) n) (\<lambda>n'.
      guard_res (n' \<noteq> n) (order_error CONFLICTING_ID)
     (bind_res (decode_own_decision std (oa_specs a) n' d) (\<lambda>d'.
      guard_res (\<not> (rd_kind d' = ALLOW \<or> rd_kind d' = RESIZE) \<or> rd_approval d' = None) (order_error CONFLICTING_ID)
     (case rd_approval d of
        None \<Rightarrow> Inl (order_error CONFLICTING_ID)
      | Some ap \<Rightarrow>
          bind_res (decode_own_approval std n' d' ap) (\<lambda>ap'.
          guard_res (d' \<noteq> d \<or> ap' \<noteq> ap) (order_error CONFLICTING_ID)
         (bind_res (require_evidence std a v n' d' ap') (\<lambda>_.
          bind_res (require_frozen_lineage std a n' v) (\<lambda>_.
          bind_res (require_static_policy_proof a n' d' v ap') (\<lambda>_. Inr (n', d', ap')))))))))))"

definition plan_order ::
  "stdlib \<Rightarrow> issuer \<Rightarrow> order_authority \<Rightarrow> order_intent \<Rightarrow> risk_result \<Rightarrow> (order_state \<times> order) result" where
  "plan_order std port a n r =
     (let intent_bytes = canonical_order_intent_bytes std n;
          decision_bytes = canonical_risk_decision_bytes std (rr_decision r);
          evidence_bytes = canonical_evidence_bytes (rr_evidence r);
          st = oa_state a
      in bind_res (classify_order_replay a n (rr_decision r) intent_bytes decision_bytes evidence_bytes) (\<lambda>replay.
         case replay of
           Some od \<Rightarrow> Inr (st, od)
         | None \<Rightarrow>
             bind_res (prove_result std a n r) (\<lambda>(n', d', ap').
             guard_res (\<not> is_issued port (in_intent_id n) intent_bytes decision_bytes evidence_bytes) (order_error CONFLICTING_ID)
            (case os_next st of
               None \<Rightarrow> Inl (order_error OUT_OF_RANGE)
             | Some before \<Rightarrow>
                 guard_res (before < 1 \<or> before > MAX_UINT64) AssertionError
                (bind_res (make_economic_id (oa_run a) EXECUTION_ORDER before) (\<lambda>order_id.
                 bind_res (create_order std order_id n' d' (oa_specs a)) (\<lambda>od.
                 let x = order_record_of std intent_bytes decision_bytes evidence_bytes od;
                     st' = \<lparr>os_next = next_allocation before, os_approvals = (os_approvals st)(ap_id ap' \<mapsto> x),
                       os_intents = (os_intents st)(in_intent_id n' \<mapsto> x), os_decisions = (os_decisions st)(rd_id d' \<mapsto> x),
                       os_by_id = (os_by_id st)(or_id od \<mapsto> x), os_by_key = (os_by_key st)(oc_key x \<mapsto> x),
                       os_orders = os_orders st @ [od]\<rparr>
                 in guard_res (\<not> preflight_order_state st' (ap_id ap') (in_intent_id n') (rd_id d') x) AssertionError
                      (Inr (st', od)))))))))"

definition issue_order ::
  "stdlib \<Rightarrow> issuer \<Rightarrow> order_authority \<Rightarrow> order_intent \<Rightarrow> risk_result \<Rightarrow> order_authority \<times> order result" where
  "issue_order std port a n r = (case map_exn order_raise_public (plan_order std port a n r) of
      Inl e \<Rightarrow> (a, Inl e)
    | Inr (st, od) \<Rightarrow> (a\<lparr>oa_state := st\<rparr>, Inr od))"

end
