(* ===== verification/Order_Runs.thy ===== *)
theory Order_Runs
  imports Order_Authority Risk_Claims
begin

text \<open>
  The risk and the order authority run together: the order authority asks the
  risk authority of the moment whether it issued a result. Every order of a run
  rests on one recorded approval, and no approval is consumed twice.
\<close>

section \<open>The desk\<close>

definition issuer_of :: "risk_authority \<Rightarrow> issuer" where
  "issuer_of a = \<lparr>is_run = ka_run a, is_specs = ka_specs a, is_execution = ka_execution a, is_policy = ka_policy a,
     is_issued = has_issued_result a\<rparr>"

datatype desk_command = RiskCommand risk_command | IssueOrder order_intent risk_result

type_synonym desk = "risk_authority \<times> order_authority"

definition desk_step :: "stdlib \<Rightarrow> desk \<Rightarrow> desk_command \<Rightarrow> desk" where
  "desk_step std s c = (case c of
      RiskCommand k \<Rightarrow> (risk_step std (fst s) k, snd s)
    | IssueOrder n r \<Rightarrow> (fst s, fst (issue_order std (issuer_of (fst s)) (snd s) n r)))"

definition desk_run :: "stdlib \<Rightarrow> desk \<Rightarrow> desk_command list \<Rightarrow> desk" where
  "desk_run std s cs = foldl (desk_step std) s cs"

lemma desk_run_simps [simp]:
  "desk_run std s [] = s" "desk_run std s (c # cs) = desk_run std (desk_step std s c) cs"
  "desk_run std s (cs @ ds) = desk_run std (desk_run std s cs) ds"
  by (simp_all add: desk_run_def)

section \<open>One call\<close>

lemma prove_result_Inr:
  assumes "prove_result std a n r = Inr (n', d, ap)"
  shows "n' = n" "d = rr_decision r" "rd_approval (rr_decision r) = Some ap"
    "rd_kind d = ALLOW \<or> rd_kind d = RESIZE" "in_run n = oa_run a"
  using assms by (auto simp: prove_result_def Let_def require_frozen_lineage_def split: option.splits)

text \<open>Everything that holds when a new order is issued.\<close>

lemma create_order_Inr:
  assumes "create_order std i n d ss = Inr od"
  shows "or_id od = i" "or_intent od = in_intent_id n" "or_decision od = rd_id d" "or_instrument od = in_instrument n"
    "or_side od = in_side n" "or_run od = in_run n"
    "rd_approval d = Some ap \<Longrightarrow> or_approval od = ap_id ap \<and> or_quantity od = ap_quantity ap \<and> 0 < dval (ap_quantity ap)"
  using assms by (auto simp: create_order_def require_quantity_Inr_iff approval_binds_decision_def split: option.splits)

lemma issue_cases:
  assumes "issue_order std port a n r = (b, x)"
  obtains (failed) e where "b = a" "x = Inl e"
  | (replayed) y ap where "b = a" "x = Inr (oc_order y)" "rd_approval (rr_decision r) = Some ap"
      "os_approvals (oa_state a) (ap_id ap) = Some y" "os_intents (oa_state a) (in_intent_id n) = Some y"
      "os_decisions (oa_state a) (rd_id (rr_decision r)) = Some y"
      "oc_intent_bytes y = canonical_order_intent_bytes std n"
      "oc_decision_bytes y = canonical_risk_decision_bytes std (rr_decision r)"
      "oc_evidence_bytes y = canonical_evidence_bytes (rr_evidence r)"
  | (issued) m ap od y where "x = Inr od" "rd_approval (rr_decision r) = Some ap"
      "os_approvals (oa_state a) (ap_id ap) = None" "os_intents (oa_state a) (in_intent_id n) = None"
      "os_decisions (oa_state a) (rd_id (rr_decision r)) = None"
      "is_issued port (in_intent_id n) (canonical_order_intent_bytes std n)
         (canonical_risk_decision_bytes std (rr_decision r)) (canonical_evidence_bytes (rr_evidence r))"
      "os_next (oa_state a) = Some m" "1 \<le> m" "m \<le> MAX_UINT64" "in_run n = oa_run a"
      "create_order std \<lparr>run_id = oa_run a, owner_kind = EXECUTION_ORDER, owner_sequence = m\<rparr> n (rr_decision r) (oa_specs a) = Inr od"
      "y = order_record_of std (canonical_order_intent_bytes std n) (canonical_risk_decision_bytes std (rr_decision r))
         (canonical_evidence_bytes (rr_evidence r)) od"
      "b = a\<lparr>oa_state := \<lparr>os_next = next_allocation m, os_approvals = (os_approvals (oa_state a))(ap_id ap \<mapsto> y),
         os_intents = (os_intents (oa_state a))(in_intent_id n \<mapsto> y),
         os_decisions = (os_decisions (oa_state a))(rd_id (rr_decision r) \<mapsto> y),
         os_by_id = (os_by_id (oa_state a))(or_id od \<mapsto> y), os_by_key = (os_by_key (oa_state a))(oc_key y \<mapsto> y),
         os_orders = os_orders (oa_state a) @ [od]\<rparr>\<rparr>"
proof (cases "plan_order std port a n r")
  case (Inl e)
  then show thesis using assms failed by (auto simp: issue_order_def)
next
  case (Inr so)
  obtain st od where so: "so = (st, od)" by fastforce
  have b: "b = a\<lparr>oa_state := st\<rparr>" "x = Inr od" using assms Inr so by (simp_all add: issue_order_def)
  obtain replay where c: "classify_order_replay a n (rr_decision r) (canonical_order_intent_bytes std n)
      (canonical_risk_decision_bytes std (rr_decision r)) (canonical_evidence_bytes (rr_evidence r)) = Inr replay"
    using Inr by (auto simp: plan_order_def Let_def)
  show thesis
  proof (cases replay)
    case (Some od')
    then have "st = oa_state a" "od' = od" using Inr so c by (auto simp: plan_order_def Let_def)
    then show thesis
      using c Some b by (auto simp: classify_order_replay_def Let_def split: if_splits option.splits intro: replayed)
  next
    case None
    then have fresh: "(case rd_approval (rr_decision r) of None \<Rightarrow> None | Some ap \<Rightarrow> os_approvals (oa_state a) (ap_id ap)) = None"
      "os_intents (oa_state a) (in_intent_id n) = None" "os_decisions (oa_state a) (rd_id (rr_decision r)) = None"
      using c by (auto simp: classify_order_replay_def Let_def split: if_splits option.splits)
    obtain n' d' ap m where p: "prove_result std a n r = Inr (n', d', ap)" "os_next (oa_state a) = Some m"
      "is_issued port (in_intent_id n) (canonical_order_intent_bytes std n)
         (canonical_risk_decision_bytes std (rr_decision r)) (canonical_evidence_bytes (rr_evidence r))"
      "\<not> (m < 1 \<or> m > MAX_UINT64)"
      "create_order std \<lparr>run_id = oa_run a, owner_kind = EXECUTION_ORDER, owner_sequence = m\<rparr> n' d' (oa_specs a) = Inr od"
      "st = \<lparr>os_next = next_allocation m,
         os_approvals = (os_approvals (oa_state a))(ap_id ap \<mapsto> order_record_of std (canonical_order_intent_bytes std n)
           (canonical_risk_decision_bytes std (rr_decision r)) (canonical_evidence_bytes (rr_evidence r)) od),
         os_intents = (os_intents (oa_state a))(in_intent_id n' \<mapsto> order_record_of std (canonical_order_intent_bytes std n)
           (canonical_risk_decision_bytes std (rr_decision r)) (canonical_evidence_bytes (rr_evidence r)) od),
         os_decisions = (os_decisions (oa_state a))(rd_id d' \<mapsto> order_record_of std (canonical_order_intent_bytes std n)
           (canonical_risk_decision_bytes std (rr_decision r)) (canonical_evidence_bytes (rr_evidence r)) od),
         os_by_id = (os_by_id (oa_state a))(or_id od \<mapsto> order_record_of std (canonical_order_intent_bytes std n)
           (canonical_risk_decision_bytes std (rr_decision r)) (canonical_evidence_bytes (rr_evidence r)) od),
         os_by_key = (os_by_key (oa_state a))(oc_key (order_record_of std (canonical_order_intent_bytes std n)
           (canonical_risk_decision_bytes std (rr_decision r)) (canonical_evidence_bytes (rr_evidence r)) od)
           \<mapsto> order_record_of std (canonical_order_intent_bytes std n)
           (canonical_risk_decision_bytes std (rr_decision r)) (canonical_evidence_bytes (rr_evidence r)) od),
         os_orders = os_orders (oa_state a) @ [od]\<rparr>"
      using Inr so c None
      by (auto simp: plan_order_def Let_def make_economic_id_def split: option.splits)
    note q = prove_result_Inr [OF p(1)]
    show thesis
      by (rule issued [OF b(2) q(3) _ fresh(2,3) p(3,2) _ _ q(5) p(5) [unfolded q(1,2)] refl])
        (use p(4,6) fresh(1) b(1) in \<open>simp_all add: q(1-3)\<close>)
  qed
qed

section \<open>Reading canonical bytes\<close>

lemma approval_norm_fields:
  assumes "json_norm (approval_document std a) = json_norm (approval_document std b)"
  shows "ap_id a = ap_id b" "dec_text (ap_quantity a) = dec_text (ap_quantity b)"
  using norm_obj_eq [OF assms [unfolded approval_document_def]] by simp_all

lemma approval_not_null [simp]: "approval_document std a \<noteq> JNull"
  by (simp add: approval_document_def)

lemma decision_bytes_fields:
  assumes "canonical_risk_decision_bytes std a = canonical_risk_decision_bytes std b"
  shows "rd_id a = rd_id b"
    "json_norm (optional_document (approval_document std) (rd_approval a))
       = json_norm (optional_document (approval_document std) (rd_approval b))"
proof -
  have n: "json_norm (risk_decision_document std a) = json_norm (risk_decision_document std b)"
    using assms by (simp add: canonical_risk_decision_bytes_def json_bytes_norm)
  from norm_obj_eq [OF n [unfolded risk_decision_document_def]]
  show "rd_id a = rd_id b" "json_norm (optional_document (approval_document std) (rd_approval a))
       = json_norm (optional_document (approval_document std) (rd_approval b))" by simp_all
qed

lemma decision_bytes_approval:
  assumes "canonical_risk_decision_bytes std a = canonical_risk_decision_bytes std b" "rd_approval a = Some x"
  obtains y where "rd_approval b = Some y" "ap_id x = ap_id y" "dec_text (ap_quantity x) = dec_text (ap_quantity y)"
  using decision_bytes_fields(2) [OF assms(1)] assms(2) that
  by (cases "rd_approval b") (auto simp: optional_document_def dest: approval_norm_fields)

lemma intent_bytes_fields:
  assumes "canonical_order_intent_bytes std a = canonical_order_intent_bytes std b"
  shows "in_instrument a = in_instrument b" "in_side a = in_side b" "in_intent_id a = in_intent_id b" "in_run a = in_run b"
    "dec_text (in_quantity a) = dec_text (in_quantity b)"
proof -
  have n: "json_norm (order_intent_document std a) = json_norm (order_intent_document std b)"
    using assms by (simp add: canonical_order_intent_bytes_def json_bytes_norm)
  from norm_obj_eq [OF n [unfolded order_intent_document_def]]
  show "in_instrument a = in_instrument b" "in_side a = in_side b" "in_intent_id a = in_intent_id b" "in_run a = in_run b"
    "dec_text (in_quantity a) = dec_text (in_quantity b)" by simp_all
qed

section \<open>The books of the desk\<close>

definition backed :: "(order_intent \<Rightarrow> snapshot \<Rightarrow> bool) \<Rightarrow> stdlib \<Rightarrow> risk_authority \<Rightarrow> order \<Rightarrow> bool" where
  "backed asked std ra od \<longleftrightarrow> (\<exists>y n sn ap. ks_replay (ka_state ra) (or_intent od) = Some y \<and> asked n sn
     \<and> or_intent od = in_intent_id n \<and> judged std ra n sn (ry_decision y) \<and> rd_approval (ry_decision y) = Some ap
     \<and> or_approval od = ap_id ap \<and> or_decision od = rd_id (ry_decision y) \<and> or_quantity od = ap_quantity ap
     \<and> or_instrument od = in_instrument n \<and> or_side od = in_side n)"

lemma backed_step: "backed asked std ra od \<Longrightarrow> backed asked std (risk_step std ra c) od"
  using judged_same [of "risk_step std ra c" ra] risk_step_frozen [of std ra c]
  unfolding backed_def by (metis risk_step_keeps(1))

text \<open>Decimals that commands bring in were made by the decimal constructor.\<close>

definition wf_command :: "desk_command \<Rightarrow> bool" where
  "wf_command c = (case c of
      RiskCommand (Evaluate n sn) \<Rightarrow> wf_dec (in_quantity n)
    | RiskCommand (EngageHalt reason t k) \<Rightarrow> True
    | IssueOrder n r \<Rightarrow> \<forall>ap. rd_approval (rr_decision r) = Some ap \<longrightarrow> wf_dec (ap_quantity ap))"

lemma issued_backed:
  assumes "risk_books asked std ra" "\<And>n sn. asked n sn \<Longrightarrow> wf_dec (in_quantity n)"
    "\<And>l. l \<in> set (rp_limits (ka_policy ra)) \<Longrightarrow> wf_dec (rl_order l)"
    "wf_command (IssueOrder n r)" "rd_approval (rr_decision r) = Some ap"
    "has_issued_result ra (in_intent_id n) (canonical_order_intent_bytes std n)
         (canonical_risk_decision_bytes std (rr_decision r)) evidence"
    "create_order std i n (rr_decision r) ss = Inr od"
  shows "backed asked std ra od"
proof -
  from assms(6) obtain y where y: "ks_replay (ka_state ra) (in_intent_id n) = Some y"
    "ry_intent_bytes y = canonical_order_intent_bytes std n"
    "ry_decision_bytes y = canonical_risk_decision_bytes std (rr_decision r)"
    by (auto simp: has_issued_result_def split: option.splits)
  then have "record_sound asked std ra (in_intent_id n) y" using assms(1) by (simp add: risk_books_def)
  then obtain m sn where m: "asked m sn" "in_intent_id n = in_intent_id m"
    "ry_intent_bytes y = canonical_order_intent_bytes std m" "judged std ra m sn (ry_decision y)"
    "ry_decision_bytes y = canonical_risk_decision_bytes std (ry_decision y)"
    unfolding record_sound_def by blast
  have d: "canonical_risk_decision_bytes std (rr_decision r) = canonical_risk_decision_bytes std (ry_decision y)"
    using y(3) m(5) by simp
  obtain bp where bp: "rd_approval (ry_decision y) = Some bp" "ap_id ap = ap_id bp"
    "dec_text (ap_quantity ap) = dec_text (ap_quantity bp)"
    by (rule decision_bytes_approval [OF d assms(5)])
  obtain l where "l \<in> set (rp_limits (ka_policy ra))" "wf_dec (in_quantity m) \<longrightarrow> wf_dec (rl_order l) \<longrightarrow> wf_dec (ap_quantity bp)"
    using m(4) bp(1) unfolding judged_def by blast
  then have "wf_dec (ap_quantity bp)" "wf_dec (ap_quantity ap)"
    using assms(2) [OF m(1)] assms(3,4,5) by (auto simp: wf_command_def)
  then have q: "ap_quantity ap = ap_quantity bp" using dec_text_inj bp(3) by blast
  note c = create_order_Inr [OF assms(7)]
  note b = intent_bytes_fields [OF y(2) [unfolded m(3), symmetric]]
  show ?thesis
    unfolding backed_def
    using y(1) m(1,2,4) bp(1,2) q c(1-5) c(7) [OF assms(5)] b decision_bytes_fields(1) [OF d]
    by (intro exI [of _ y] exI [of _ m] exI [of _ sn] exI [of _ bp]) simp
qed

definition order_books :: "order_authority \<Rightarrow> bool" where
  "order_books oa \<longleftrightarrow>
     numbered (oa_run oa) EXECUTION_ORDER (map or_id (os_orders (oa_state oa))) (os_next (oa_state oa))
     \<and> distinct (map or_approval (os_orders (oa_state oa)))
     \<and> distinct (map or_intent (os_orders (oa_state oa)))
     \<and> distinct (map or_decision (os_orders (oa_state oa)))
     \<and> dom (os_approvals (oa_state oa)) = set (map or_approval (os_orders (oa_state oa)))
     \<and> dom (os_intents (oa_state oa)) = set (map or_intent (os_orders (oa_state oa)))
     \<and> dom (os_decisions (oa_state oa)) = set (map or_decision (os_orders (oa_state oa)))
     \<and> map (resolve_order_by_id oa \<circ> or_id) (os_orders (oa_state oa)) = map Some (os_orders (oa_state oa))"

lemma numbered_fresh: "numbered r k ids (Some m) \<Longrightarrow> \<lparr>run_id = r, owner_kind = k, owner_sequence = m\<rparr> \<notin> set ids"
proof
  assume n: "numbered r k ids (Some m)" and "\<lparr>run_id = r, owner_kind = k, owner_sequence = m\<rparr> \<in> set ids"
  then have "\<lparr>run_id = r, owner_kind = k, owner_sequence = m\<rparr>
      \<in> set (map (\<lambda>m. \<lparr>run_id = r, owner_kind = k, owner_sequence = int m\<rparr>) [1..<Suc (length ids)])"
    unfolding numbered_def by metis
  moreover have "m = int (length ids) + 1" using n by (auto simp: numbered_def split: if_splits)
  ultimately show False by auto
qed

lemma order_books_issue:
  assumes "order_books a" "issue_order std port a n r = (b, x)"
  shows "order_books b"
  using assms(2)
proof (cases rule: issue_cases)
  case (issued m ap od y)
  note c = create_order_Inr [OF issued(11)]
  have y: "oc_order y = od" by (simp add: issued(12) order_record_of_def)
  have num: "numbered (oa_run a) EXECUTION_ORDER (map or_id (os_orders (oa_state a))) (Some m)"
    using assms(1) issued(7) by (simp add: order_books_def)
  have "or_id od \<notin> or_id ` set (os_orders (oa_state a))" using numbered_fresh [OF num] c(1) by simp
  then have "or_id x \<noteq> or_id od" if "x \<in> set (os_orders (oa_state a))" for x using that by (metis imageI)
  then have "map (resolve_order_by_id b \<circ> or_id) (os_orders (oa_state a)) = map (resolve_order_by_id a \<circ> or_id) (os_orders (oa_state a))"
    by (intro map_cong) (simp_all add: issued(13) resolve_order_by_id_def)
  also have "\<dots> = map Some (os_orders (oa_state a))" using assms(1) by (simp add: order_books_def)
  finally have r: "map (resolve_order_by_id b \<circ> or_id) (os_orders (oa_state b)) = map Some (os_orders (oa_state b))"
    by (simp add: issued(13) resolve_order_by_id_def y)
  have ap: "or_approval od = ap_id ap" using c(7) [OF issued(2)] by simp
  have "numbered (oa_run b) EXECUTION_ORDER (map or_id (os_orders (oa_state b))) (os_next (oa_state b))"
    using numbered_extend [OF num] by (simp add: issued(13) c(1))
  moreover have "ap_id ap \<notin> dom (os_approvals (oa_state a))" "in_intent_id n \<notin> dom (os_intents (oa_state a))"
    "rd_id (rr_decision r) \<notin> dom (os_decisions (oa_state a))" using issued(3-5) by auto
  ultimately show ?thesis
    using assms(1) r unfolding order_books_def by (auto simp: issued(13) ap c(2,3))
qed (use assms(1) in auto)

definition desk_books :: "(order_intent \<Rightarrow> snapshot \<Rightarrow> bool) \<Rightarrow> stdlib \<Rightarrow> risk_policy \<Rightarrow> desk \<Rightarrow> bool" where
  "desk_books asked std policy s \<longleftrightarrow> risk_books asked std (fst s) \<and> order_books (snd s)
     \<and> ka_policy (fst s) = policy \<and> ka_run (fst s) = oa_run (snd s)
     \<and> (\<forall>od. od \<in> set (os_orders (oa_state (snd s))) \<longrightarrow> backed asked std (fst s) od)"

lemma issue_keeps_run: "oa_run (fst (issue_order std port a n r)) = oa_run a"
  by (auto simp: issue_order_def split: sum.splits)

lemma desk_books_step:
  assumes "desk_books asked std policy s" "\<And>n sn. asked n sn \<Longrightarrow> wf_dec (in_quantity n)"
    "\<And>l. l \<in> set (rp_limits policy) \<Longrightarrow> wf_dec (rl_order l)" "wf_command c"
    "\<And>n sn. c = RiskCommand (Evaluate n sn) \<Longrightarrow> asked n sn"
  shows "desk_books asked std policy (desk_step std s c)"
proof (cases c)
  case (RiskCommand k)
  then show ?thesis
    using assms(1,5) books_step [of asked std "fst s" k]
    by (auto simp: desk_books_def desk_step_def risk_step_frozen intro: backed_step)
next
  case (IssueOrder n r)
  obtain b x where e: "issue_order std (issuer_of (fst s)) (snd s) n r = (b, x)" by fastforce
  have "order_books b" using order_books_issue [OF _ e] assms(1) by (simp add: desk_books_def)
  moreover have "oa_run b = oa_run (snd s)" using issue_keeps_run [of std "issuer_of (fst s)" "snd s" n r] e by simp
  moreover have "backed asked std (fst s) od" if "od \<in> set (os_orders (oa_state b))" for od
    using e
  proof (cases rule: issue_cases)
    case (issued m ap od' y)
    show ?thesis
    proof (cases "od = od'")
      case True
      have "backed asked std (fst s) od'"
      proof (rule issued_backed [where evidence = "canonical_evidence_bytes (rr_evidence r)", OF _ assms(2) _ _ issued(2) _ issued(11)])
        show "risk_books asked std (fst s)" using assms(1) by (simp add: desk_books_def)
        show "wf_dec (rl_order l)" if "l \<in> set (rp_limits (ka_policy (fst s)))" for l
          using assms(1,3) that by (simp add: desk_books_def)
        show "wf_command (IssueOrder n r)" using assms(4) by (simp add: IssueOrder)
        show "has_issued_result (fst s) (in_intent_id n) (canonical_order_intent_bytes std n)
            (canonical_risk_decision_bytes std (rr_decision r)) (canonical_evidence_bytes (rr_evidence r))"
          using issued(6) unfolding issuer_of_def by simp
      qed
      then show ?thesis by (simp add: True)
    next
      case False
      then show ?thesis using that assms(1) by (auto simp: issued(13) desk_books_def)
    qed
  qed (use that assms(1) in \<open>auto simp: desk_books_def\<close>)
  ultimately show ?thesis
    using assms(1) by (simp add: desk_books_def desk_step_def IssueOrder e)
qed

lemma desk_books_run:
  assumes "desk_books asked std policy s" "\<And>n sn. asked n sn \<Longrightarrow> wf_dec (in_quantity n)"
    "\<And>l. l \<in> set (rp_limits policy) \<Longrightarrow> wf_dec (rl_order l)" "\<And>c. c \<in> set cs \<Longrightarrow> wf_command c"
    "\<And>n sn. RiskCommand (Evaluate n sn) \<in> set cs \<Longrightarrow> asked n sn"
  shows "desk_books asked std policy (desk_run std s cs)"
  using assms(1,4,5)
proof (induction cs arbitrary: s)
  case (Cons c cs)
  then show ?case using desk_books_step [OF Cons.prems(1) assms(2,3)] by simp
qed simp

lemma desk_books_created:
  assumes "create_risk_authority std run ss ex policy = Inr ra"
    "create_order_authority std run ss ex policy (issuer_of ra) = Inr oa"
  shows "desk_books asked std policy (ra, oa) \<and> oa_run oa = run"
  using books_created [OF assms(1)] created_fields [OF assms(1)] assms(2)
  by (auto simp: create_order_authority_def desk_books_def order_books_def empty_order_state_def numbered_def MAX_UINT64_def Let_def)

lemma desk_run_frozen: "oa_run (snd (desk_run std s cs)) = oa_run (snd s)"
  by (induction cs arbitrary: s) (auto simp: desk_step_def issue_keeps_run split: desk_command.splits)

section \<open>An issued order stays issued\<close>

type_synonym order_command = "issuer \<times> order_intent \<times> risk_result"

definition order_step :: "stdlib \<Rightarrow> order_authority \<Rightarrow> order_command \<Rightarrow> order_authority" where
  "order_step std a c = (case c of (port, n, r) \<Rightarrow> fst (issue_order std port a n r))"

definition order_answer :: "stdlib \<Rightarrow> order_authority \<Rightarrow> order_command \<Rightarrow> order result" where
  "order_answer std a c = (case c of (port, n, r) \<Rightarrow> snd (issue_order std port a n r))"

definition consumed :: "stdlib \<Rightarrow> order_authority \<Rightarrow> order_intent \<Rightarrow> risk_result \<Rightarrow> order_record \<Rightarrow> bool" where
  "consumed std a n r y \<longleftrightarrow> (\<exists>ap. rd_approval (rr_decision r) = Some ap \<and> os_approvals (oa_state a) (ap_id ap) = Some y)
     \<and> os_intents (oa_state a) (in_intent_id n) = Some y \<and> os_decisions (oa_state a) (rd_id (rr_decision r)) = Some y
     \<and> oc_intent_bytes y = canonical_order_intent_bytes std n
     \<and> oc_decision_bytes y = canonical_risk_decision_bytes std (rr_decision r)
     \<and> oc_evidence_bytes y = canonical_evidence_bytes (rr_evidence r)"

lemma consumed_answer: "consumed std a n r y \<Longrightarrow> issue_order std port a n r = (a, Inr (oc_order y))"
  by (auto simp: consumed_def issue_order_def plan_order_def classify_order_replay_def Let_def)

lemma issue_consumes:
  assumes "issue_order std port a n r = (b, Inr od)"
  obtains y where "consumed std b n r y" "oc_order y = od"
  using assms
proof (cases rule: issue_cases)
  case (replayed y ap)
  then show ?thesis by (intro that [of y]) (simp_all add: consumed_def)
next
  case (issued m ap od' y)
  then show ?thesis by (intro that [of y]) (simp_all add: consumed_def order_record_of_def)
qed simp

lemma consumed_step:
  assumes "consumed std a n r y"
  shows "consumed std (fst (issue_order std port a m q)) n r y"
proof (cases "issue_order std port a m q")
  case (Pair b x)
  then show ?thesis
  proof (cases rule: issue_cases)
    case (issued i ap od z)
    then show ?thesis using Pair assms by (auto simp: consumed_def)
  qed (use assms Pair in simp_all)
qed

definition order_settled :: "stdlib \<Rightarrow> order_authority \<Rightarrow> order_command \<Rightarrow> bool" where
  "order_settled std a c = (case c of (port, n, r) \<Rightarrow> \<exists>y. consumed std a n r y)"

interpretation orders: retaining_authority "order_step std" "\<lambda>_. True" "order_settled std" "order_answer std" for std
proof unfold_locales
  fix a c
  assume ch: "order_step std a c \<noteq> a"
  obtain port n r where c: "c = (port, n, r)" by (cases c)
  obtain b x where e: "issue_order std port a n r = (b, x)" by fastforce
  then have "b \<noteq> a" using ch by (simp add: order_step_def c)
  then obtain od where "x = Inr od" by (cases rule: issue_cases [OF e]) auto
  then show "order_settled std (order_step std a c) c"
    using issue_consumes [OF e [unfolded \<open>x = Inr od\<close>]] by (auto simp: order_settled_def order_step_def c e)
next
  fix a :: order_authority and c d :: order_command
  assume "order_settled std a c"
  then obtain port n r y where c: "c = (port, n, r)" "consumed std a n r y" by (auto simp: order_settled_def)
  obtain qort m q where d: "d = (qort, m, q)" by (cases d)
  have k: "consumed std (order_step std a d) n r y" unfolding order_step_def d by (simp add: consumed_step [OF c(2)])
  then show "order_settled std (order_step std a d) c" by (auto simp: order_settled_def c(1))
  show "order_answer std (order_step std a d) c = order_answer std a c"
    using consumed_answer [OF k, of port] consumed_answer [OF c(2), of port] by (simp add: order_answer_def c(1))
qed (auto simp: order_settled_def order_step_def consumed_answer)

end
