(* ===== verification/Order_Claims.thy ===== *)
theory Order_Claims
  imports Order_Runs
begin

text \<open>
  What the two authorities promise together: an issued order is one consumed
  approval of an intent that was evaluated, within the limits of the policy, and
  it is issued once. The example issues the order of a resized intent.
\<close>

section \<open>An example\<close>

definition resize_approval :: execution_approval where
  "resize_approval = \<lparr>execution_approval.ap_run = RunId ''r'', ap_id = id_of RISK_APPROVAL 1, ap_decision = id_of RISK_DECISION 1,
     ap_intent = id_of PORTFOLIO_INTENT 1, ap_correlation = id_of STRATEGY_SIGNAL 1, ap_causation = id_of RISK_DECISION 1,
     ap_original_sha256 = Sha256Digest [], ap_effective_sha256 = Sha256Digest [], ap_quantity = dec_1,
     ap_snapshot_version = 0, ap_risk_version = 0, ap_available_at = 0, execution_approval.ap_dispatch = 0\<rparr>"

definition resize_decision :: risk_decision where
  "resize_decision = \<lparr>rd_run = RunId ''r'', rd_id = id_of RISK_DECISION 1, rd_intent = id_of PORTFOLIO_INTENT 1,
     rd_correlation = id_of STRATEGY_SIGNAL 1, rd_causation = id_of PORTFOLIO_INTENT 1, rd_intent_sha256 = Sha256Digest [],
     rd_kind = RESIZE, rd_outcome = RISK_RESIZED, rd_snapshot_version = 0, rd_risk_version = 0, rd_available_at = 0,
     rd_dispatch = 0, rd_quantity = Some dec_1, rd_effective_sha256 = Some (Sha256Digest []), rd_approval = Some resize_approval\<rparr>"

definition resize_evidence :: risk_evidence where
  "resize_evidence = \<lparr>rv_run = RunId ''r'', rv_intent = id_of PORTFOLIO_INTENT 1, rv_intent_sha256 = Sha256Digest [],
     rv_snapshot_version = 0, rv_snapshot_sha256 = Sha256Digest [], rv_policy = RiskPolicyId ''p'',
     rv_policy_sha256 = Sha256Digest [], rv_risk_version = 0, rv_decision = id_of RISK_DECISION 1,
     rv_decision_sha256 = Sha256Digest [], rv_approval_sha256 = Some (Sha256Digest []), rv_reason = RR_RESIZED_ORDER_LIMIT,
     rv_decision_before = 1, rv_decision_after = Some 2, rv_approval_before = Some 1, rv_approval_after = Some 2\<rparr>"

lemma message_digests [simp]:
  "order_intent_digest std_example n = Sha256Digest []" "effective_order_intent_digest std_example n q = Sha256Digest []"
  "execution_approval_digest std_example ap = Sha256Digest []" "risk_decision_digest std_example d = Sha256Digest []"
  "risk_policy_digest std_example p = Sha256Digest []" "portfolio_snapshot_digest std_example sn = Sha256Digest []"
  by (simp_all add: order_intent_digest_def effective_order_intent_digest_def execution_approval_digest_def
      risk_decision_digest_def risk_policy_digest_def portfolio_snapshot_digest_def)

lemma order_spec_set:
  "require_spec_set std_example set_example (in_instrument intent_example) sid setid sha
   = (if sid \<in> {None, Some (InstrumentSpecId ''a'')} \<and> setid \<in> {None, Some (InstrumentSpecSetId ''s'')} \<and> sha \<in> {None, Some (Sha256Digest [])}
      then Inr (spec_example ''A'', Sha256Digest []) else Inl conflicting_message)"
proof -
  have "require_spec set_example (in_instrument intent_example) = Inr (spec_example ''A'')" by code_simp
  then show ?thesis by (auto simp: require_spec_set_def spec_example_def set_example_def Let_def guard_res_def)
qed

lemma example_quantities:
  "require_quantity dec_1 (spec_example ''A'') = Inr dec_1" "require_quantity dec_3 (spec_example ''A'') = Inr dec_3"
  "dec_greater dec_1 dec_3 = Inr False" "wf_dec dec_1" "wf_dec dec_3" "dec_1 \<noteq> dec_3"
  by code_simp+

lemma example_intent_fields:
  "in_quantity intent_example = dec_3" "in_run intent_example = RunId ''r''" "in_dispatch intent_example = 0"
  "in_intent_id intent_example = id_of PORTFOLIO_INTENT 1" "in_snapshot_version intent_example = 0"
  "in_set_id intent_example = InstrumentSpecSetId ''s''" "in_set_sha256 intent_example = Sha256Digest []"
  "in_spec_id intent_example = InstrumentSpecId ''a''" "in_policy intent_example = policy_example"
  "in_available_at intent_example = 0" "in_correlation intent_example = id_of STRATEGY_SIGNAL 1"
  by (simp_all add: intent_example_def)

lemma id_of_fields [simp]: "run_id (id_of k i) = RunId ''r''" "owner_kind (id_of k i) = k" "owner_sequence (id_of k i) = i"
  by (simp_all add: id_of_def)

lemma resize_example:
  "resize_order_intent std_example (id_of RISK_DECISION 1) (id_of RISK_APPROVAL 1) intent_example dec_1 set_example 0
   = Inr resize_decision"
  unfolding resize_order_intent_def create_risk_decision_def approval_fields_def order_spec_set
  by (simp add: example_intent_fields example_quantities make_approval_def require_id_owner_def require_non_negative_def
      resize_decision_def resize_approval_def Let_def)

lemma evaluate_example:
  obtains c where "evaluate std_example risk_example intent_example snapshot_example
      = (c, Inr \<lparr>rr_decision = resize_decision, rr_evidence = resize_evidence\<rparr>)"
    "has_issued_result c (id_of PORTFOLIO_INTENT 1) (canonical_order_intent_bytes std_example intent_example)
       (canonical_risk_decision_bytes std_example resize_decision) (canonical_evidence_bytes resize_evidence)"
    "ka_run c = RunId ''r''" "ka_specs c = set_example" "ka_execution c = policy_example" "ka_policy c = risk_policy_example"
proof -
  obtain c r where e: "evaluate std_example risk_example intent_example snapshot_example = (c, Inr r)" "c \<noteq> risk_example"
    using example_evaluates by blast
  have g: "registered std_example risk_example intent_example snapshot_example c r"
    using e by (cases rule: evaluate_cases [OF e(1)]) auto
  have st: "ks_decision_next (ka_state risk_example) = Some 1" "ks_approval_next (ka_state risk_example) = Some 1"
    "rk_version (ks_risk (ka_state risk_example)) = 0" "ka_specs risk_example = set_example"
    "ka_run risk_example = RunId ''r''" "ka_policy risk_example = risk_policy_example" "ka_execution risk_example = policy_example"
    by (simp_all add: risk_example_def)
  have ids: "\<lparr>run_id = RunId ''r'', owner_kind = k, owner_sequence = 1\<rparr> = id_of k 1" for k by (simp add: id_of_def)
  have sv: "sn_version snapshot_example = 0" by (simp add: snapshot_example_def)
  obtain s where reg: "register_decision std_example risk_example intent_example
      (canonical_order_intent_bytes std_example intent_example) (Sha256Digest []) 0 (Sha256Digest [])
      RESIZE RR_RESIZED_ORDER_LIMIT (Some dec_1) = Inr (s, r)" "c = risk_example\<lparr>ka_state := s\<rparr>"
    using g sv by (auto simp: registered_def example_decides)
  have al: "allocate_approval risk_example RESIZE RR_RESIZED_ORDER_LIMIT (Some dec_1)
      = Inr (RESIZE, RR_RESIZED_ORDER_LIMIT, Some dec_1, Some (id_of RISK_APPROVAL 1), Some 2)"
    by (simp add: allocate_approval_def st risk_advance_def risk_id_def make_economic_id_def ids MAX_UINT64_def
        require_uint64_def next_allocation_def)
  have mk: "make_decision std_example risk_example intent_example (id_of RISK_DECISION 1) (Some (id_of RISK_APPROVAL 1))
      RESIZE (Some dec_1) = Inr resize_decision"
    by (simp add: make_decision_def st resize_example)
  have ev: "create_risk_evidence std_example resize_decision (Sha256Digest []) 0 (Sha256Digest []) risk_policy_example 0
      RR_RESIZED_ORDER_LIMIT 1 (Some 2) (Some 1) (Some 2) = Inr resize_evidence"
    by (simp add: create_risk_evidence_def resize_decision_def resize_approval_def require_allocated_def require_next_def
        MAX_UINT64_def next_allocation_def evidence_approval_def resize_evidence_def risk_policy_example_def)
  from reg(1) have r: "r = \<lparr>rr_decision = resize_decision, rr_evidence = resize_evidence\<rparr>"
    and s: "ks_replay s (id_of PORTFOLIO_INTENT 1) = Some \<lparr>ry_intent_sha256 = Sha256Digest [],
         ry_intent_bytes = canonical_order_intent_bytes std_example intent_example, ry_snapshot_sha256 = Sha256Digest [],
         ry_decision = resize_decision, ry_decision_bytes = canonical_risk_decision_bytes std_example resize_decision,
         ry_evidence = resize_evidence, ry_evidence_bytes = canonical_evidence_bytes resize_evidence, ry_result = r\<rparr>"
    by (auto simp: st al mk ev ids next_allocation_def MAX_UINT64_def example_intent_fields elim!: register_Inr)
  show thesis
    by (rule that [of c]) (use e(1) r s in \<open>simp_all add: reg(2) st has_issued_result_def\<close>)
qed

definition desk_orders_example :: order_authority where
  "desk_orders_example = \<lparr>oa_run = RunId ''r'', oa_specs = set_example, oa_specs_sha256 = Sha256Digest [],
     oa_execution = policy_example, oa_policy = risk_policy_example, oa_policy_sha256 = Sha256Digest [],
     oa_state = empty_order_state\<rparr>"

lemma create_orders_example:
  "create_order_authority std_example (RunId ''r'') set_example policy_example risk_policy_example (issuer_of risk_example)
   = Inr desk_orders_example"
proof -
  have "set_identifier set_example = InstrumentSpecSetId ''s''" by (simp add: set_example_def)
  then show ?thesis
    by (simp add: create_order_authority_def require_issuer_binding_def issuer_of_def risk_example_def risk_policy_example_def
        desk_orders_example_def Let_def)
qed

lemma prove_example:
  "prove_result std_example desk_orders_example intent_example \<lparr>rr_decision = resize_decision, rr_evidence = resize_evidence\<rparr>
   = Inr (intent_example, resize_decision, resize_approval)"
proof -
  have n: "decode_own_intent std_example set_example intent_example = Inr intent_example"
    unfolding decode_own_intent_def create_order_intent_def order_spec_set
    by (simp add: example_intent_fields example_quantities require_id_owner_def require_non_negative_def)
      (simp add: intent_example_def spec_example_def set_example_def)
  have d: "rebuild_decision std_example set_example intent_example resize_decision = Inr resize_decision"
    using resize_example by (simp add: rebuild_decision_def resize_decision_def resize_approval_def validate_approval_def
        require_non_negative_def)
  have st: "static_proof_holds intent_example resize_decision RR_RESIZED_ORDER_LIMIT dec_1 dec_1 = Inr True" by code_simp
  have l: "find (\<lambda>l. rl_instrument l = in_instrument intent_example) (rp_limits risk_policy_example) = Some limit_example"
    by (simp add: risk_policy_example_def limit_example_def intent_example_def)
  have "require_static_policy_proof desk_orders_example intent_example resize_decision resize_evidence resize_approval = Inr ()"
    unfolding require_static_policy_proof_def using st l
    by (simp add: desk_orders_example_def resize_evidence_def resize_approval_def limit_example_def)
  moreover have "decode_own_decision std_example set_example intent_example resize_decision = Inr resize_decision"
    using d by (simp add: decode_own_decision_def resize_decision_def require_non_negative_def)
  moreover have "decode_own_approval std_example intent_example resize_decision resize_approval = Inr resize_approval"
    by (simp add: decode_own_approval_def resize_decision_def validate_approval_def resize_approval_def
        require_non_negative_def example_intent_fields)
  moreover have "require_evidence std_example desk_orders_example resize_evidence intent_example resize_decision resize_approval = Inr ()"
    by (simp add: require_evidence_def resize_evidence_def resize_decision_def resize_approval_def require_issue_transition_def
        MAX_UINT64_def next_allocation_def example_intent_fields desk_orders_example_def risk_policy_example_def)
  moreover have "require_frozen_lineage std_example desk_orders_example intent_example resize_evidence = Inr ()"
    by (simp add: require_frozen_lineage_def desk_orders_example_def example_intent_fields resize_evidence_def
        risk_policy_example_def set_example_def)
  moreover have "oa_specs desk_orders_example = set_example" by (simp add: desk_orders_example_def)
  ultimately show ?thesis
    by (simp add: prove_result_def n) (simp add: resize_decision_def)
qed

lemma issue_example:
  assumes "is_issued port (id_of PORTFOLIO_INTENT 1) (canonical_order_intent_bytes std_example intent_example)
      (canonical_risk_decision_bytes std_example resize_decision) (canonical_evidence_bytes resize_evidence)"
  shows "\<exists>b od. issue_order std_example port desk_orders_example intent_example
      \<lparr>rr_decision = resize_decision, rr_evidence = resize_evidence\<rparr> = (b, Inr od)
      \<and> os_orders (oa_state b) = [od] \<and> or_quantity od = dec_1"
proof -
  have ids: "\<lparr>run_id = RunId ''r'', owner_kind = k, owner_sequence = 1\<rparr> = id_of k 1" for k by (simp add: id_of_def)
  have "\<exists>od. create_order std_example (id_of EXECUTION_ORDER 1) intent_example resize_decision set_example = Inr od
      \<and> or_quantity od = dec_1"
    unfolding create_order_def example_intent_fields order_spec_set
    by (simp add: resize_decision_def resize_approval_def require_id_owner_def decision_binds_intent_def approval_binds_decision_def
        example_intent_fields example_quantities order_spec_set)
  then obtain od where od: "create_order std_example (id_of EXECUTION_ORDER 1) intent_example resize_decision set_example = Inr od"
    "or_quantity od = dec_1" by blast
  have st: "oa_state desk_orders_example = empty_order_state" "oa_run desk_orders_example = RunId ''r''"
    "oa_specs desk_orders_example = set_example" by (simp_all add: desk_orders_example_def)
  have "classify_order_replay desk_orders_example intent_example resize_decision ib db eb = Inr None" for ib db eb
    by (simp add: classify_order_replay_def st empty_order_state_def Let_def split: option.splits)
  then show ?thesis
    using assms od by (simp add: issue_order_def plan_order_def Let_def prove_example st empty_order_state_def MAX_UINT64_def
        make_economic_id_def require_uint64_def ids example_intent_fields preflight_order_state_def order_record_of_def)
qed

section \<open>From the invariant\<close>

lemma recorded_decision:
  assumes "risk_books asked std a" "ks_replay (ka_state a) i = Some y"
  shows "ry_decision y \<in> set (ks_decisions (ka_state a))"
proof -
  have k: "map rr_decision (ks_results (ka_state a)) = ks_decisions (ka_state a)"
    "map (\<lambda>d. map_option ry_result (ks_replay (ka_state a) (rd_intent d))) (ks_decisions (ka_state a))
       = map Some (ks_results (ka_state a))"
    "i \<in> set (map rd_intent (ks_decisions (ka_state a)))" "ry_decision y = rr_decision (ry_result y)"
    using assms by (auto simp: risk_books_def record_sound_def)
  from k(3) obtain d where d: "d \<in> set (ks_decisions (ka_state a))" "rd_intent d = i" by auto
  then have "map_option ry_result (ks_replay (ka_state a) (rd_intent d)) \<in> set (map Some (ks_results (ka_state a)))"
    unfolding k(2) [symmetric] by (simp add: image_iff) blast
  then have "ry_result y \<in> set (ks_results (ka_state a))" using d(2) assms(2) by auto
  then show ?thesis unfolding k(4) k(1) [symmetric] by simp
qed

lemma desk_books_of_run:
  assumes "create_risk_authority std run ss ex policy = Inr ra"
    "create_order_authority std run ss ex policy (issuer_of ra) = Inr oa"
    "\<And>l. l \<in> set (rp_limits policy) \<Longrightarrow> wf_dec (rl_order l)" "\<And>c. c \<in> set cs \<Longrightarrow> wf_command c"
  shows "desk_books (\<lambda>n sn. RiskCommand (Evaluate n sn) \<in> set cs) std policy (desk_run std (ra, oa) cs)"
proof (rule desk_books_run)
  show "desk_books (\<lambda>n sn. RiskCommand (Evaluate n sn) \<in> set cs) std policy (ra, oa)"
    using desk_books_created [OF assms(1,2)] by blast
  fix n sn
  assume "RiskCommand (Evaluate n sn) \<in> set cs"
  from assms(4) [OF this] show "wf_dec (in_quantity n)" by (simp add: wf_command_def)
qed (use assms(3,4) in auto)

section \<open>Properties\<close>

text \<open>C28: every order is one approval within the limits. After any run of evaluations, halts and order
  requests, whose decimals came from the decimal constructor, the orders are numbered one, two,
  three and so on of the run, each resolves under its identity, no two consume the same approval,
  intent or decision, and each has the instrument and side of an intent that was evaluated in
  this run and the quantity of the approval the risk authority recorded for it before any halt:
  positive, at most the order limit, and such that the position of the snapshot it was evaluated
  against stays within the position limit or comes no further out than it was.\<close>

theorem orders_within_approvals:
  assumes "create_risk_authority std run ss ex policy = Inr ra0"
    "create_order_authority std run ss ex policy (issuer_of ra0) = Inr oa0"
    "\<And>l. l \<in> set (rp_limits policy) \<Longrightarrow> wf_dec (rl_order l)" "\<And>c. c \<in> set cs \<Longrightarrow> wf_command c"
    "(ra, oa) = desk_run std (ra0, oa0) cs"
  shows "numbered run EXECUTION_ORDER (map or_id (os_orders (oa_state oa))) (os_next (oa_state oa))
    \<and> distinct (map or_approval (os_orders (oa_state oa))) \<and> distinct (map or_intent (os_orders (oa_state oa)))
    \<and> distinct (map or_decision (os_orders (oa_state oa)))
    \<and> (\<forall>od. od \<in> set (os_orders (oa_state oa)) \<longrightarrow> resolve_order_by_id oa (or_id od) = Some od
      \<and> (\<exists>n sn d ap l. RiskCommand (Evaluate n sn) \<in> set cs \<and> d \<in> set (ks_decisions (ka_state ra))
          \<and> rd_approval d = Some ap \<and> rd_risk_version d = 0 \<and> or_approval od = ap_id ap \<and> or_decision od = rd_id d
          \<and> or_intent od = in_intent_id n \<and> or_instrument od = in_instrument n \<and> or_side od = in_side n
          \<and> or_quantity od = ap_quantity ap \<and> l \<in> set (rp_limits policy) \<and> rl_instrument l = or_instrument od
          \<and> 0 < dval (or_quantity od) \<and> dval (or_quantity od) \<le> dval (in_quantity n)
          \<and> dval (or_quantity od) \<le> dval (rl_order l)
          \<and> \<bar>position_value sn (or_instrument od) + of_int (side_sign (or_side od)) * dval (or_quantity od)\<bar>
              \<le> max \<bar>position_value sn (or_instrument od)\<bar> (dval (rl_position l))))"
proof -
  let ?asked = "\<lambda>n sn. RiskCommand (Evaluate n sn) \<in> set cs"
  have k: "desk_books ?asked std policy (ra, oa)" unfolding assms(5) by (rule desk_books_of_run [OF assms(1-4)])
  have r: "oa_run oa = run"
    using desk_books_created [OF assms(1,2)] desk_run_frozen [of std "(ra0, oa0)" cs] unfolding assms(5) [symmetric] by simp
  have resolved: "resolve_order_by_id oa (or_id od) = Some od" if "od \<in> set (os_orders (oa_state oa))" for od
  proof -
    have "map (resolve_order_by_id oa \<circ> or_id) (os_orders (oa_state oa)) = map Some (os_orders (oa_state oa))"
      using k by (simp add: desk_books_def order_books_def)
    then show ?thesis using that by (simp add: map_eq_conv)
  qed
  have "\<exists>n sn d ap l. RiskCommand (Evaluate n sn) \<in> set cs \<and> d \<in> set (ks_decisions (ka_state ra))
          \<and> rd_approval d = Some ap \<and> rd_risk_version d = 0 \<and> or_approval od = ap_id ap \<and> or_decision od = rd_id d
          \<and> or_intent od = in_intent_id n \<and> or_instrument od = in_instrument n \<and> or_side od = in_side n
          \<and> or_quantity od = ap_quantity ap \<and> l \<in> set (rp_limits policy) \<and> rl_instrument l = or_instrument od
          \<and> 0 < dval (or_quantity od) \<and> dval (or_quantity od) \<le> dval (in_quantity n)
          \<and> dval (or_quantity od) \<le> dval (rl_order l)
          \<and> \<bar>position_value sn (or_instrument od) + of_int (side_sign (or_side od)) * dval (or_quantity od)\<bar>
              \<le> max \<bar>position_value sn (or_instrument od)\<bar> (dval (rl_position l))"
    if "od \<in> set (os_orders (oa_state oa))" for od
  proof -
    have "backed ?asked std ra od" "risk_books ?asked std ra" "ka_policy ra = policy"
      using k that by (auto simp: desk_books_def)
    then obtain y n sn ap where y: "ks_replay (ka_state ra) (or_intent od) = Some y" "?asked n sn"
      "or_intent od = in_intent_id n" "judged std ra n sn (ry_decision y)" "rd_approval (ry_decision y) = Some ap"
      "or_approval od = ap_id ap" "or_decision od = rd_id (ry_decision y)" "or_quantity od = ap_quantity ap"
      "or_instrument od = in_instrument n" "or_side od = in_side n"
      unfolding backed_def by blast
    from y(4,5) obtain l where l: "l \<in> set (rp_limits policy)" "rl_instrument l = in_instrument n"
      "within_limit n l (position_value sn (in_instrument n)) (dval (ap_quantity ap))"
      "rd_risk_version (ry_decision y) = 0" "0 < dval (ap_quantity ap)"
      unfolding judged_def \<open>ka_policy ra = policy\<close> by blast
    have "ry_decision y \<in> set (ks_decisions (ka_state ra))" by (rule recorded_decision [OF \<open>risk_books ?asked std ra\<close> y(1)])
    then show ?thesis
      using y l by (intro exI [of _ n] exI [of _ sn] exI [of _ "ry_decision y"] exI [of _ ap] exI [of _ l])
        (simp add: within_limit_def)
  qed
  then show ?thesis using k r resolved by (simp add: desk_books_def order_books_def)
qed

theorem orders_within_approvals_witness:
  "\<exists>ra oa od. (ra, oa) = desk_run std_example (risk_example, desk_orders_example)
       [RiskCommand (Evaluate intent_example snapshot_example),
        IssueOrder intent_example \<lparr>rr_decision = resize_decision, rr_evidence = resize_evidence\<rparr>]
     \<and> os_orders (oa_state oa) = [od] \<and> or_quantity od = dec_1 \<and> resolve_order_by_id oa (or_id od) = Some od"
proof -
  let ?r = "\<lparr>rr_decision = resize_decision, rr_evidence = resize_evidence\<rparr>"
  let ?cs = "[RiskCommand (Evaluate intent_example snapshot_example), IssueOrder intent_example ?r]"
  obtain c where c: "evaluate std_example risk_example intent_example snapshot_example = (c, Inr ?r)"
    "has_issued_result c (id_of PORTFOLIO_INTENT 1) (canonical_order_intent_bytes std_example intent_example)
       (canonical_risk_decision_bytes std_example resize_decision) (canonical_evidence_bytes resize_evidence)"
    by (rule evaluate_example)
  obtain b od where b: "issue_order std_example (issuer_of c) desk_orders_example intent_example ?r = (b, Inr od)"
    "os_orders (oa_state b) = [od]" "or_quantity od = dec_1"
    using issue_example [of "issuer_of c"] c(2) by (auto simp: issuer_of_def)
  have run: "(c, b) = desk_run std_example (risk_example, desk_orders_example) ?cs"
    using c(1) b(1) by (simp add: desk_step_def risk_step_def)
  have l: "wf_dec (rl_order l)" if "l \<in> set (rp_limits risk_policy_example)" for l
    using that example_quantities by (simp add: risk_policy_example_def limit_example_def)
  have w: "wf_command x" if "x \<in> set ?cs" for x
    using that example_quantities by (auto simp: wf_command_def example_intent_fields resize_decision_def resize_approval_def)
  have "resolve_order_by_id b (or_id od) = Some od"
    using orders_within_approvals [OF create_risk_example create_orders_example l w run] b(2) by simp
  then show ?thesis using run b(2,3) by blast
qed

text \<open>An order is issued once and for ever. Once an intent and its risk result have an order, the
  same request is answered with that order for ever, whatever is issued in between and whatever
  the risk authority then says, and changes nothing.\<close>

theorem order_issued_for_ever:
  assumes "issue_order std port a n r = (b, Inr od)"
  shows "\<forall>cs qort. let c = foldl (order_step std) b cs in issue_order std qort c n r = (c, Inr od)"
proof (intro allI)
  fix cs :: "order_command list" and qort
  obtain y where y: "consumed std b n r y" "oc_order y = od" by (rule issue_consumes [OF assms])
  have s: "order_settled std b (qort, n, r)" using y(1) by (auto simp: order_settled_def)
  have "order_settled std (orders.run std b cs) (qort, n, r)" by (rule orders.run_settled [OF TrueI s])
  then have "fst (issue_order std qort (orders.run std b cs) n r) = orders.run std b cs"
    using orders.settled_idle [OF TrueI] by (auto simp: order_step_def)
  moreover have "snd (issue_order std qort (orders.run std b cs) n r) = Inr od"
    using orders.answer_kept [OF TrueI s, of cs] consumed_answer [OF y(1), of qort] y(2) by (simp add: order_answer_def)
  ultimately show "let c = foldl (order_step std) b cs in issue_order std qort c n r = (c, Inr od)"
    by (simp add: Let_def prod_eq_iff orders.run_def)
qed

theorem order_issued_for_ever_witness:
  "\<exists>c b od. issue_order std_example (issuer_of c) desk_orders_example intent_example
       \<lparr>rr_decision = resize_decision, rr_evidence = resize_evidence\<rparr> = (b, Inr od)
     \<and> issue_order std_example (issuer_of risk_example) b intent_example
       \<lparr>rr_decision = resize_decision, rr_evidence = resize_evidence\<rparr> = (b, Inr od)"
proof -
  obtain c where c: "has_issued_result c (id_of PORTFOLIO_INTENT 1) (canonical_order_intent_bytes std_example intent_example)
       (canonical_risk_decision_bytes std_example resize_decision) (canonical_evidence_bytes resize_evidence)"
    by (rule evaluate_example)
  obtain b od where b: "issue_order std_example (issuer_of c) desk_orders_example intent_example
      \<lparr>rr_decision = resize_decision, rr_evidence = resize_evidence\<rparr> = (b, Inr od)"
    using issue_example [of "issuer_of c"] c by (auto simp: issuer_of_def)
  have "issue_order std_example (issuer_of risk_example) (foldl (order_step std_example) b []) intent_example
      \<lparr>rr_decision = resize_decision, rr_evidence = resize_evidence\<rparr> = (foldl (order_step std_example) b [], Inr od)"
    using order_issued_for_ever [OF b] unfolding Let_def by blast
  then show ?thesis using b by auto
qed

end
