(* ===== verification/Order_Commands.thy ===== *)
theory Order_Commands
  imports Order_Authority Fact_Authority
begin

text \<open>
  \<open>ea.execution.order_lifecycle\<close>: the tracker of one-shot transport commands. It
  reserves the sole send of an order before the transport is called, classifies
  what the transport returned, and reserves at most one cancellation, on
  positive evidence only. The order authority and the fact authority of the
  moment are arguments of each call; the tracker's lock makes each call one step.
\<close>

section \<open>State\<close>

datatype submission_state = SA_PENDING | SA_SUBMITTED | SA_DEFINITELY_NOT_SUBMITTED | SA_UNCERTAIN

datatype cancellation_state = CA_PENDING | CA_ACCEPTED | CA_DEFINITELY_NOT_SENT | CA_UNCERTAIN

record submit_command =
  sc_order :: order
  sc_key :: sha256_digest
  sc_request_sha256 :: sha256_digest

record cancel_command =
  cc_order :: order
  cc_key :: sha256_digest
  cc_request_sha256 :: sha256_digest

record command_record =
  cr_submit :: submit_command
  cr_submission :: submission_state
  cr_cancel :: "cancel_command option"
  cr_cancellation :: "cancellation_state option"

record command_snapshot =
  cs_order :: economic_id
  cs_key :: sha256_digest
  cs_request_sha256 :: sha256_digest
  cs_submission :: submission_state
  cs_cancellation :: "cancellation_state option"
  cs_projection :: "projection option"

type_synonym tracker = "economic_id \<rightharpoonup> command_record"

definition ACTIVE_PROJECTIONS :: "projection_state list" where
  "ACTIVE_PROJECTIONS = [PS_SUBMITTED, PS_ACKNOWLEDGED, PS_PARTIALLY_FILLED]"

section \<open>Checks\<close>

text \<open>The two resolutions of an issued order give the same object: equal orders, as an identity is issued once.\<close>

definition require_issued_order :: "stdlib \<Rightarrow> order_authority \<Rightarrow> order \<Rightarrow> unit result" where
  "require_issued_order std oa od =
     (case (resolve_order_by_id oa (or_id od), resolve_order_by_key oa (order_client_submission_key std od)) of
        (Some x, Some y) \<Rightarrow>
          guard_res (x \<noteq> y \<or> order_digest std x \<noteq> order_digest std od
              \<or> execution_request_digest std x \<noteq> execution_request_digest std od)
            (OrderCommandError CONFLICTING_ID) (Inr ())
      | _ \<Rightarrow> Inl (OrderCommandError CONFLICTING_ID))"

definition require_record :: "tracker \<Rightarrow> order \<Rightarrow> command_record result" where
  "require_record t od = (case t (or_id od) of
      None \<Rightarrow> Inl (OrderCommandError CONFLICTING_ID)
    | Some x \<Rightarrow> guard_res (sc_order (cr_submit x) \<noteq> od) (OrderCommandError CONFLICTING_ID) (Inr x))"

definition require_facts :: "stdlib \<Rightarrow> order_authority \<Rightarrow> fact_authority \<Rightarrow> order \<Rightarrow> projection option result" where
  "require_facts std oa fa od =
     guard_res (fa_run fa \<noteq> oa_run oa \<or> fa_specs fa \<noteq> oa_specs oa) (OrderCommandError CONFLICTING_ID)
    (case projection_for_order fa (or_id od) of
       None \<Rightarrow> Inr None
     | Some p \<Rightarrow>
         guard_res (pj_order_sha256 p \<noteq> order_digest std od \<or> pj_submission_key p \<noteq> order_client_submission_key std od)
           (OrderCommandError CONFLICTING_ID) (Inr (Some p)))"

section \<open>Operations\<close>

definition submit_command_of :: "stdlib \<Rightarrow> order \<Rightarrow> submit_command" where
  "submit_command_of std od =
     \<lparr>sc_order = od, sc_key = order_client_submission_key std od, sc_request_sha256 = execution_request_digest std od\<rparr>"

definition begin_submit :: "stdlib \<Rightarrow> order_authority \<Rightarrow> tracker \<Rightarrow> order \<Rightarrow> tracker \<times> submit_command option result" where
  "begin_submit std oa t od = (case require_issued_order std oa od of
      Inl e \<Rightarrow> (t, Inl e)
    | Inr u \<Rightarrow>
        if t (or_id od) \<noteq> None then (t, Inr None)
        else let command = submit_command_of std od
             in (t(or_id od \<mapsto> \<lparr>cr_submit = command, cr_submission = SA_PENDING, cr_cancel = None, cr_cancellation = None\<rparr>),
                 Inr (Some command)))"

definition record_submit_result ::
  "tracker \<Rightarrow> submit_command \<Rightarrow> submission_state \<Rightarrow> tracker \<times> submission_state result" where
  "record_submit_result t command s =
     (if s = SA_PENDING then (t, Inl (OrderCommandError OUT_OF_RANGE))
      else case require_record t (sc_order command) of
          Inl e \<Rightarrow> (t, Inl e)
        | Inr x \<Rightarrow>
            if cr_submit x \<noteq> command then (t, Inl (OrderCommandError CONFLICTING_ID))
            else if cr_submission x = SA_PENDING
            then (t(or_id (sc_order command) \<mapsto> x\<lparr>cr_submission := s\<rparr>), Inr s)
            else if cr_submission x \<noteq> s then (t, Inl (OrderCommandError CONFLICTING_ID))
            else (t, Inr s))"

definition begin_cancel ::
  "stdlib \<Rightarrow> order_authority \<Rightarrow> fact_authority \<Rightarrow> tracker \<Rightarrow> order \<Rightarrow> tracker \<times> cancel_command option result" where
  "begin_cancel std oa fa t od =
     (case bind_res (require_issued_order std oa od) (\<lambda>_. require_record t od) of
        Inl e \<Rightarrow> (t, Inl e)
      | Inr x \<Rightarrow>
          if cr_cancel x \<noteq> None then (t, Inr None)
          else (case require_facts std oa fa od of
              Inl e \<Rightarrow> (t, Inl e)
            | Inr p \<Rightarrow>
                if (case p of None \<Rightarrow> False | Some q \<Rightarrow> is_terminal q) then (t, Inl (OrderCommandError CONFLICTING_ID))
                else if cr_submission x \<noteq> SA_SUBMITTED
                     \<and> (case p of None \<Rightarrow> True | Some q \<Rightarrow> pj_state q \<notin> set ACTIVE_PROJECTIONS)
                then (t, Inl (OrderCommandError CONFLICTING_ID))
                else let command = \<lparr>cc_order = od, cc_key = order_client_submission_key std od,
                       cc_request_sha256 = sc_request_sha256 (cr_submit x)\<rparr>
                     in (t(or_id od \<mapsto> x\<lparr>cr_cancel := Some command, cr_cancellation := Some CA_PENDING\<rparr>),
                         Inr (Some command))))"

definition record_cancel_result ::
  "tracker \<Rightarrow> cancel_command \<Rightarrow> cancellation_state \<Rightarrow> tracker \<times> cancellation_state result" where
  "record_cancel_result t command s =
     (if s = CA_PENDING then (t, Inl (OrderCommandError OUT_OF_RANGE))
      else case require_record t (cc_order command) of
          Inl e \<Rightarrow> (t, Inl e)
        | Inr x \<Rightarrow>
            if cr_cancel x \<noteq> Some command then (t, Inl (OrderCommandError CONFLICTING_ID))
            else if cr_cancellation x = Some CA_PENDING
            then (t(or_id (cc_order command) \<mapsto> x\<lparr>cr_cancellation := Some s\<rparr>), Inr s)
            else if cr_cancellation x \<noteq> Some s then (t, Inl (OrderCommandError CONFLICTING_ID))
            else (t, Inr s))"

definition command_snapshot_of :: "stdlib \<Rightarrow> order_authority \<Rightarrow> fact_authority \<Rightarrow> tracker \<Rightarrow> order \<Rightarrow> command_snapshot result" where
  "command_snapshot_of std oa fa t od =
     bind_res (require_issued_order std oa od) (\<lambda>_.
     bind_res (require_record t od) (\<lambda>x.
     bind_res (require_facts std oa fa od) (\<lambda>p.
       Inr \<lparr>cs_order = or_id (sc_order (cr_submit x)), cs_key = sc_key (cr_submit x),
            cs_request_sha256 = sc_request_sha256 (cr_submit x), cs_submission = cr_submission x,
            cs_cancellation = cr_cancellation x, cs_projection = p\<rparr>)))"

section \<open>Runs\<close>

datatype tracker_op =
    BeginSubmit order | RecordSubmit submit_command submission_state
  | BeginCancel order | RecordCancel cancel_command cancellation_state

text \<open>One call under the authorities of the moment, with the command it hands to the transport, if any.\<close>

type_synonym tracker_call = "order_authority \<times> fact_authority \<times> tracker_op"

definition tracker_step :: "stdlib \<Rightarrow> tracker \<Rightarrow> tracker_call \<Rightarrow> tracker \<times> (submit_command + cancel_command) list" where
  "tracker_step std t c = (case c of (oa, fa, op) \<Rightarrow> (case op of
      BeginSubmit od \<Rightarrow> (case begin_submit std oa t od of
          (t', Inr (Some command)) \<Rightarrow> (t', [Inl command]) | (t', _) \<Rightarrow> (t', []))
    | RecordSubmit command s \<Rightarrow> (fst (record_submit_result t command s), [])
    | BeginCancel od \<Rightarrow> (case begin_cancel std oa fa t od of
          (t', Inr (Some command)) \<Rightarrow> (t', [Inr command]) | (t', _) \<Rightarrow> (t', []))
    | RecordCancel command s \<Rightarrow> (fst (record_cancel_result t command s), [])))"

fun tracker_run :: "stdlib \<Rightarrow> tracker \<Rightarrow> tracker_call list \<Rightarrow> tracker \<times> (submit_command + cancel_command) list" where
  "tracker_run std t [] = (t, [])"
| "tracker_run std t (c # cs) = (case tracker_step std t c of (t', out) \<Rightarrow>
     case tracker_run std t' cs of (t'', out') \<Rightarrow> (t'', out @ out'))"

definition submits :: "(submit_command + cancel_command) list \<Rightarrow> submit_command list" where
  "submits out = List.map_filter (\<lambda>x. case x of Inl c \<Rightarrow> Some c | Inr c \<Rightarrow> None) out"

definition cancels :: "(submit_command + cancel_command) list \<Rightarrow> cancel_command list" where
  "cancels out = List.map_filter (\<lambda>x. case x of Inl c \<Rightarrow> None | Inr c \<Rightarrow> Some c) out"

lemma submits_simps [simp]: "submits [] = []" "submits (Inl c # out) = c # submits out" "submits (Inr d # out) = submits out"
  "submits (out @ out') = submits out @ submits out'"
  by (simp_all add: submits_def List.map_filter_def)

lemma cancels_simps [simp]: "cancels [] = []" "cancels (Inl c # out) = cancels out" "cancels (Inr d # out) = d # cancels out"
  "cancels (out @ out') = cancels out @ cancels out'"
  by (simp_all add: cancels_def List.map_filter_def)

section \<open>What one call does\<close>

text \<open>The five ways a call ends.\<close>

lemma tracker_step_cases:
  assumes "tracker_step std t (oa, fa, op) = (t', out)"
  obtains (idle) "t' = t" "out = []"
  | (submit) od where "op = BeginSubmit od" "require_issued_order std oa od = Inr ()" "t (or_id od) = None"
      "t' = t(or_id od \<mapsto> \<lparr>cr_submit = submit_command_of std od, cr_submission = SA_PENDING, cr_cancel = None, cr_cancellation = None\<rparr>)"
      "out = [Inl (submit_command_of std od)]"
  | (submitted) x s where "op = RecordSubmit (cr_submit x) s" "t (or_id (sc_order (cr_submit x))) = Some x"
      "cr_submission x = SA_PENDING" "s \<noteq> SA_PENDING"
      "t' = t(or_id (sc_order (cr_submit x)) \<mapsto> x\<lparr>cr_submission := s\<rparr>)" "out = []"
  | (cancel) od x p d where "op = BeginCancel od" "require_issued_order std oa od = Inr ()" "t (or_id od) = Some x"
      "sc_order (cr_submit x) = od" "cr_cancel x = None" "require_facts std oa fa od = Inr p"
      "\<forall>q. p = Some q \<longrightarrow> \<not> is_terminal q"
      "cr_submission x = SA_SUBMITTED \<or> (\<exists>q. p = Some q \<and> pj_state q \<in> set ACTIVE_PROJECTIONS)"
      "d = \<lparr>cc_order = od, cc_key = order_client_submission_key std od, cc_request_sha256 = sc_request_sha256 (cr_submit x)\<rparr>"
      "t' = t(or_id od \<mapsto> x\<lparr>cr_cancel := Some d, cr_cancellation := Some CA_PENDING\<rparr>)" "out = [Inr d]"
  | (cancelled) x d s where "op = RecordCancel d s" "t (or_id (cc_order d)) = Some x" "cr_cancel x = Some d"
      "cr_cancellation x = Some CA_PENDING" "s \<noteq> CA_PENDING"
      "t' = t(or_id (cc_order d) \<mapsto> x\<lparr>cr_cancellation := Some s\<rparr>)" "out = []"
proof (cases op)
  case (BeginSubmit od)
  then show thesis using assms idle submit
    by (auto simp: tracker_step_def begin_submit_def Let_def split: sum.splits if_splits)
next
  case (RecordSubmit command s)
  have o: "out = []" "t' = fst (record_submit_result t command s)"
    using assms by (simp_all add: tracker_step_def RecordSubmit)
  show thesis
  proof (cases "\<exists>x. t (or_id (sc_order command)) = Some x \<and> cr_submit x = command \<and> cr_submission x = SA_PENDING \<and> s \<noteq> SA_PENDING")
    case True
    then obtain x where x: "t (or_id (sc_order command)) = Some x" "cr_submit x = command" "cr_submission x = SA_PENDING" "s \<noteq> SA_PENDING"
      by blast
    then have "t' = t(or_id (sc_order command) \<mapsto> x\<lparr>cr_submission := s\<rparr>)"
      by (simp add: o(2) record_submit_result_def require_record_def)
    with x o(1) show thesis by (intro submitted [of x s]) (simp_all add: RecordSubmit)
  next
    case False
    then have "t' = t"
      by (auto simp: o(2) record_submit_result_def require_record_def guard_res_def split: option.splits)
    with o(1) show thesis by (rule idle [rotated])
  qed
next
  case (BeginCancel od)
  show thesis
  proof (cases "\<exists>d. begin_cancel std oa fa t od = (t', Inr (Some d))")
    case False
    then have "t' = t \<and> out = []"
      using assms unfolding tracker_step_def BeginCancel
      by (auto simp: begin_cancel_def Let_def split: sum.splits if_splits option.splits)
    then show thesis using idle by blast
  next
    case True
    then obtain d where d: "begin_cancel std oa fa t od = (t', Inr (Some d))" by blast
    then have out: "out = [Inr d]" using assms by (simp add: tracker_step_def BeginCancel)
    from d obtain x p where x: "require_issued_order std oa od = Inr ()" "require_record t od = Inr x" "cr_cancel x = None"
      "require_facts std oa fa od = Inr p" "\<forall>q. p = Some q \<longrightarrow> \<not> is_terminal q"
      "cr_submission x = SA_SUBMITTED \<or> (\<exists>q. p = Some q \<and> pj_state q \<in> set ACTIVE_PROJECTIONS)"
      "d = \<lparr>cc_order = od, cc_key = order_client_submission_key std od, cc_request_sha256 = sc_request_sha256 (cr_submit x)\<rparr>"
      "t' = t(or_id od \<mapsto> x\<lparr>cr_cancel := Some d, cr_cancellation := Some CA_PENDING\<rparr>)"
      by (auto simp: begin_cancel_def Let_def split: sum.splits if_splits option.splits)
    then have "t (or_id od) = Some x" "sc_order (cr_submit x) = od"
      by (auto simp: require_record_def split: option.splits)
    from cancel [OF BeginCancel x(1) this x(3-8) out] show thesis .
  qed
next
  case (RecordCancel d s)
  have o: "out = []" "t' = fst (record_cancel_result t d s)"
    using assms by (simp_all add: tracker_step_def RecordCancel)
  show thesis
  proof (cases "\<exists>x. require_record t (cc_order d) = Inr x \<and> cr_cancel x = Some d \<and> cr_cancellation x = Some CA_PENDING \<and> s \<noteq> CA_PENDING")
    case True
    then obtain x where x: "require_record t (cc_order d) = Inr x" "cr_cancel x = Some d" "cr_cancellation x = Some CA_PENDING" "s \<noteq> CA_PENDING"
      by blast
    then have "t (or_id (cc_order d)) = Some x" by (auto simp: require_record_def split: option.splits)
    moreover have "t' = t(or_id (cc_order d) \<mapsto> x\<lparr>cr_cancellation := Some s\<rparr>)"
      using x by (simp add: o(2) record_cancel_result_def)
    ultimately show thesis using x o(1) by (intro cancelled [of d s x]) (simp_all add: RecordCancel)
  next
    case False
    then have "t' = t" by (auto simp: o(2) record_cancel_result_def split: sum.splits)
    with o(1) show thesis by (rule idle [rotated])
  qed
qed

end
