(* ===== verification/Command_Claims.thy ===== *)
theory Command_Claims
  imports Order_Commands Order_Claims Fact_Claims
begin

text \<open>
  At most one send and one cancellation per order, whatever the callers do and
  however the two authorities change between the calls.
\<close>

section \<open>The invariant\<close>

definition sent :: "(submit_command + cancel_command) list \<Rightarrow> order \<Rightarrow> sha256_digest \<Rightarrow> bool" where
  "sent out od request \<longleftrightarrow> (\<exists>c. c \<in> set (submits out) \<and> sc_order c = od \<and> sc_request_sha256 c = request)"

fun cancels_follow :: "(submit_command + cancel_command) list \<Rightarrow> (submit_command + cancel_command) list \<Rightarrow> bool" where
  "cancels_follow before [] \<longleftrightarrow> True"
| "cancels_follow before (Inl c # out) \<longleftrightarrow> cancels_follow (before @ [Inl c]) out"
| "cancels_follow before (Inr d # out) \<longleftrightarrow> sent before (cc_order d) (cc_request_sha256 d) \<and> cancels_follow (before @ [Inr d]) out"

lemma cancels_follow_append:
  "cancels_follow before (xs @ ys) \<longleftrightarrow> cancels_follow before xs \<and> cancels_follow (before @ xs) ys"
  by (induction before xs rule: cancels_follow.induct) simp_all

definition record_ok :: "(submit_command + cancel_command) list \<Rightarrow> economic_id \<Rightarrow> command_record \<Rightarrow> bool" where
  "record_ok out i x \<longleftrightarrow> or_id (sc_order (cr_submit x)) = i \<and> cr_submit x \<in> set (submits out)
     \<and> (cr_cancel x = None \<longleftrightarrow> i \<notin> set (map (or_id \<circ> cc_order) (cancels out)))
     \<and> (\<forall>d. cr_cancel x = Some d \<longrightarrow> cc_order d = sc_order (cr_submit x))"

definition tracker_sound :: "tracker \<Rightarrow> (submit_command + cancel_command) list \<Rightarrow> bool" where
  "tracker_sound t out \<longleftrightarrow>
     (\<forall>i x. t i = Some x \<longrightarrow> record_ok out i x)
     \<and> distinct (map (or_id \<circ> sc_order) (submits out)) \<and> set (map (or_id \<circ> sc_order) (submits out)) = dom t
     \<and> distinct (map (or_id \<circ> cc_order) (cancels out)) \<and> set (map (or_id \<circ> cc_order) (cancels out)) \<subseteq> dom t
     \<and> cancels_follow [] out"

text \<open>An update of one record that keeps its commands keeps everything.\<close>

lemma sound_update:
  assumes "tracker_sound t out" "t i = Some x" "cr_submit y = cr_submit x" "cr_cancel y = cr_cancel x"
  shows "tracker_sound (t(i \<mapsto> y)) out"
proof -
  have "record_ok out i y" using assms by (simp add: tracker_sound_def record_ok_def)
  then show ?thesis using assms(1,2) by (auto simp: tracker_sound_def insert_absorb domI)
qed

lemma tracker_sound_step:
  assumes "tracker_sound t out" "tracker_step std t c = (t', new)"
  shows "tracker_sound t' (out @ new)"
proof -
  obtain oa fa op where c: "c = (oa, fa, op)" by (cases c)
  show ?thesis using assms(2) [unfolded c]
  proof (cases rule: tracker_step_cases)
    case (submit od)
    let ?c = "submit_command_of std od"
    have id: "or_id (sc_order ?c) = or_id od" by (simp add: submit_command_of_def)
    have fresh: "or_id od \<notin> dom t" using submit(3) by auto
    have "record_ok (out @ [Inl ?c]) i x" if "record_ok out i x" for i x
      using that by (auto simp: record_ok_def)
    moreover have "record_ok (out @ [Inl ?c]) (or_id od)
        \<lparr>cr_submit = ?c, cr_submission = SA_PENDING, cr_cancel = None, cr_cancellation = None\<rparr>"
      using fresh assms(1) by (auto simp: record_ok_def id tracker_sound_def)
    ultimately show ?thesis
      using assms(1) fresh unfolding tracker_sound_def submit(4,5)
      by (auto simp: id cancels_follow_append)
  next
    case (submitted x s)
    then show ?thesis using sound_update [OF assms(1) submitted(2)] by simp
  next
    case (cancel od x p d)
    have ok: "record_ok out (or_id od) x" using assms(1) cancel(3) by (simp add: tracker_sound_def)
    have d: "cc_order d = od" "cc_request_sha256 d = sc_request_sha256 (cr_submit x)" by (simp_all add: cancel(9))
    have fresh: "or_id od \<notin> set (map (or_id \<circ> cc_order) (cancels out))" using ok cancel(5) by (simp add: record_ok_def)
    have s: "sent out (cc_order d) (cc_request_sha256 d)"
      unfolding sent_def d using ok cancel(4) by (intro exI [of _ "cr_submit x"]) (simp add: record_ok_def)
    have "record_ok (out @ [Inr d]) i z" if "record_ok out i z" "i \<noteq> or_id od" for i z
      using that by (auto simp: record_ok_def d)
    moreover have "record_ok (out @ [Inr d]) (or_id od) (x\<lparr>cr_cancel := Some d, cr_cancellation := Some CA_PENDING\<rparr>)"
      using ok cancel(4) by (auto simp: record_ok_def d)
    ultimately show ?thesis
      using assms(1) fresh s cancel(3) unfolding tracker_sound_def cancel(10,11)
      by (auto simp: d cancels_follow_append)
  next
    case (cancelled x d s)
    then show ?thesis using sound_update [OF assms(1) cancelled(2)] by simp
  qed (use assms(1) in simp)
qed

lemma tracker_sound_run:
  "tracker_sound t out \<Longrightarrow> tracker_run std t cs = (t', new) \<Longrightarrow> tracker_sound t' (out @ new)"
proof (induction cs arbitrary: t out new)
  case (Cons c cs)
  obtain u a where s: "tracker_step std t c = (u, a)" by fastforce
  obtain b where r: "tracker_run std u cs = (t', b)" "new = a @ b"
    using Cons.prems(2) by (auto simp: s split: prod.splits)
  show ?case using Cons.IH [OF tracker_sound_step [OF Cons.prems(1) s] r(1)] r(2) by simp
qed simp

lemma tracker_sound_empty: "tracker_sound Map.empty []"
  by (simp add: tracker_sound_def)

section \<open>What is recorded stays\<close>

definition keeps :: "command_record \<Rightarrow> command_record \<Rightarrow> bool" where
  "keeps x y \<longleftrightarrow> cr_submit y = cr_submit x
     \<and> (cr_submission x \<noteq> SA_PENDING \<longrightarrow> cr_submission y = cr_submission x)
     \<and> (cr_cancel x \<noteq> None \<longrightarrow> cr_cancel y = cr_cancel x)
     \<and> (cr_cancel x \<noteq> None \<longrightarrow> cr_cancellation x \<noteq> Some CA_PENDING \<longrightarrow> cr_cancellation y = cr_cancellation x)"

lemma keeps_step: "t i = Some x \<Longrightarrow> \<exists>y. fst (tracker_step std t c) i = Some y \<and> keeps x y"
proof -
  assume x: "t i = Some x"
  obtain oa fa op where c: "c = (oa, fa, op)" by (cases c)
  obtain u a where s: "tracker_step std t c = (u, a)" by fastforce
  have "\<exists>y. u i = Some y \<and> keeps x y" using s [unfolded c]
    by (cases rule: tracker_step_cases) (use x in \<open>auto simp: keeps_def\<close>)
  then show ?thesis by (simp add: s)
qed

lemma keeps_trans: "keeps x y \<Longrightarrow> keeps y z \<Longrightarrow> keeps x z"
  unfolding keeps_def by metis

lemma keeps_run: "t i = Some x \<Longrightarrow> \<exists>y. fst (tracker_run std t cs) i = Some y \<and> keeps x y"
proof (induction cs arbitrary: t x)
  case (Cons c cs)
  obtain u a where s: "tracker_step std t c = (u, a)" by fastforce
  obtain y where y: "u i = Some y" "keeps x y" using keeps_step [of t i x std c] Cons.prems by (auto simp: s)
  obtain z where "fst (tracker_run std u cs) i = Some z" "keeps y z" using Cons.IH [of u y] y(1) by blast
  then show ?case using y(2) keeps_trans by (auto simp: s split: prod.splits)
qed (auto simp: keeps_def)

section \<open>Property\<close>

text \<open>C29: one send and one cancellation per order. In any run of the tracker, whatever is called and
  however the order and fact authorities change in between, no order identity is handed to the
  transport twice for submission or twice for cancellation; a cancellation follows the submission
  of the same order and names the same request; it is handed out only for an issued order that
  was reported submitted or whose projection is active, never for a terminal one; and a command
  or a final transport result once recorded never changes.\<close>

theorem one_send_per_order:
  assumes "tracker_run std Map.empty cs = (t, out)"
  shows "distinct (map (or_id \<circ> sc_order) (submits out)) \<and> distinct (map (or_id \<circ> cc_order) (cancels out))
    \<and> cancels_follow [] out
    \<and> (\<forall>oa fa od u d. begin_cancel std oa fa t od = (u, Inr (Some d)) \<longrightarrow>
        require_issued_order std oa od = Inr () \<and> (\<exists>x. t (or_id od) = Some x \<and> cr_cancel x = None
          \<and> (cr_submission x = SA_SUBMITTED
             \<or> (\<exists>p. projection_for_order fa (or_id od) = Some p \<and> pj_state p \<in> set ACTIVE_PROJECTIONS))
          \<and> (\<forall>p. projection_for_order fa (or_id od) = Some p \<longrightarrow> \<not> is_terminal p)))
    \<and> (\<forall>i x ds. t i = Some x \<longrightarrow> (\<exists>y. fst (tracker_run std t ds) i = Some y \<and> keeps x y))"
proof -
  have s: "tracker_sound t out" using tracker_sound_run [OF tracker_sound_empty assms] by simp
  have "require_issued_order std oa od = Inr () \<and> (\<exists>x. t (or_id od) = Some x \<and> cr_cancel x = None
          \<and> (cr_submission x = SA_SUBMITTED
             \<or> (\<exists>p. projection_for_order fa (or_id od) = Some p \<and> pj_state p \<in> set ACTIVE_PROJECTIONS))
          \<and> (\<forall>p. projection_for_order fa (or_id od) = Some p \<longrightarrow> \<not> is_terminal p))"
    if b: "begin_cancel std oa fa t od = (u, Inr (Some d))" for oa fa od u d
  proof -
    have "tracker_step std t (oa, fa, BeginCancel od) = (u, [Inr d])" by (simp add: tracker_step_def b)
    then show ?thesis
    proof (cases rule: tracker_step_cases)
      case (cancel od' x p d')
      then have "p = projection_for_order fa (or_id od)"
        by (auto simp: require_facts_def split: option.splits)
      then show ?thesis using cancel by auto
    qed simp_all
  qed
  then show ?thesis using s keeps_run unfolding tracker_sound_def by blast
qed

definition commands_orders :: order_authority where
  "commands_orders = \<lparr>oa_run = RunId ''r'', oa_specs = set_example, oa_specs_sha256 = Sha256Digest [],
     oa_execution = policy_example, oa_policy = risk_policy_example, oa_policy_sha256 = Sha256Digest [],
     oa_state = \<lparr>os_next = Some 2, os_approvals = Map.empty, os_intents = Map.empty, os_decisions = Map.empty,
       os_by_id = [id_of EXECUTION_ORDER 1 \<mapsto> order_record_of std_example [] [] [] example_order],
       os_by_key = [Sha256Digest [] \<mapsto> order_record_of std_example [] [] [] example_order],
       os_orders = [example_order]\<rparr>\<rparr>"

theorem one_send_per_order_witness:
  "\<exists>t c d. tracker_run std_example Map.empty
       [(commands_orders, facts_example, BeginSubmit example_order), (commands_orders, facts_example, BeginSubmit example_order),
        (commands_orders, facts_example, RecordSubmit (submit_command_of std_example example_order) SA_SUBMITTED),
        (commands_orders, facts_example, BeginCancel example_order), (commands_orders, facts_example, BeginCancel example_order)]
      = (t, [Inl c, Inr d]) \<and> sc_order c = example_order \<and> cc_order d = example_order
     \<and> distinct (map (or_id \<circ> sc_order) (submits [Inl c, Inr d])) \<and> cancels_follow [] [Inl c, Inr d]"
proof -
  let ?cs = "[(commands_orders, facts_example, BeginSubmit example_order), (commands_orders, facts_example, BeginSubmit example_order),
        (commands_orders, facts_example, RecordSubmit (submit_command_of std_example example_order) SA_SUBMITTED),
        (commands_orders, facts_example, BeginCancel example_order), (commands_orders, facts_example, BeginCancel example_order)]"
  have g: "hexdigest std_example x = []" for x by (simp add: std_example_def)
  have k: "order_client_submission_key std_example od = Sha256Digest []" for od
    by (simp add: order_client_submission_key_def domain_digest_def g)
  have i: "or_id example_order = id_of EXECUTION_ORDER 1" by (simp add: order_example_def)
  have q: "require_issued_order std_example commands_orders example_order = Inr ()"
    by (simp add: require_issued_order_def resolve_order_by_id_def resolve_order_by_key_def commands_orders_def k i order_record_of_def)
  have f: "require_facts std_example commands_orders facts_example example_order = Inr None"
    by (simp add: require_facts_def commands_orders_def facts_example_def projection_for_order_def empty_fact_state_def)
  have "\<exists>t c d. tracker_run std_example Map.empty ?cs = (t, [Inl c, Inr d]) \<and> sc_order c = example_order \<and> cc_order d = example_order"
    by (simp add: tracker_step_def begin_submit_def record_submit_result_def begin_cancel_def require_record_def q f i
        submit_command_of_def Let_def)
  then obtain t c d where r: "tracker_run std_example Map.empty ?cs = (t, [Inl c, Inr d])" "sc_order c = example_order" "cc_order d = example_order"
    by blast
  show ?thesis using one_send_per_order [OF r(1)] r by blast
qed

end
