(* ===== verification/Kill_Switch.thy ===== *)
theory Kill_Switch
  imports Order_Messages
begin

text \<open>
  \<open>ea.risk.kill_switch\<close>: the operator switch of three nested scopes that denies
  the next outbound effect. Halting is idempotent per scope (the first reason
  wins), only an explicit resume releases a scope, and the canonical document
  restores the switch as it was. A string is a sequence of code points below 256;
  a \<open>datetime\<close> is its offset in microseconds, aware (UTC) or naive.
\<close>

section \<open>Data\<close>

datatype kill_scope = KILL_STRATEGY | KILL_ACCOUNT | KILL_GLOBAL
datatype switch_state = SWITCH_ACTIVE | SWITCH_HALTED
datatype stamp = Aware int | Naive int

fun kill_scope_value :: "kill_scope \<Rightarrow> string" where
  "kill_scope_value KILL_STRATEGY = ''strategy''"
| "kill_scope_value KILL_ACCOUNT = ''account''"
| "kill_scope_value KILL_GLOBAL = ''global''"

fun switch_state_value :: "switch_state \<Rightarrow> string" where
  "switch_state_value SWITCH_ACTIVE = ''active''"
| "switch_state_value SWITCH_HALTED = ''halted''"

definition KILL_SCOPES :: "kill_scope list" where
  "KILL_SCOPES = [KILL_STRATEGY, KILL_ACCOUNT, KILL_GLOBAL]"

definition MAX_REASON_BYTES :: nat where "MAX_REASON_BYTES = 1024"

record scope_control =
  ct_scope :: kill_scope
  ct_state :: switch_state
  ct_reason :: string
  ct_changed_at :: "stamp option"

record kill_switch =
  kw_run :: run_id
  kw_revision :: int
  kw_scopes :: "kill_scope \<Rightarrow> scope_control"

section \<open>Checks\<close>

definition require_reason :: "string \<Rightarrow> string result" where
  "require_reason reason =
     (if \<forall>c \<in> set reason. py_space c then Inl (OperatorKillSwitchError OUT_OF_RANGE)
      else if utf8_length reason > MAX_REASON_BYTES then Inl (OperatorKillSwitchError OUT_OF_RANGE)
      else Inr reason)"

definition require_changed_at :: "stamp \<Rightarrow> stamp result" where
  "require_changed_at t = (case t of Aware _ \<Rightarrow> Inr t | Naive _ \<Rightarrow> Inl (OperatorKillSwitchError OUT_OF_RANGE))"

section \<open>Operations\<close>

definition is_halted :: "kill_switch \<Rightarrow> kill_scope \<Rightarrow> bool" where
  "is_halted k s \<longleftrightarrow> ct_state (kw_scopes k s) = SWITCH_HALTED"

definition effective_halted :: "kill_switch \<Rightarrow> bool" where
  "effective_halted k \<longleftrightarrow> list_ex (is_halted k) KILL_SCOPES"

definition halted_scopes :: "kill_switch \<Rightarrow> kill_scope list" where
  "halted_scopes k = filter (is_halted k) KILL_SCOPES"

definition set_control :: "kill_switch \<Rightarrow> scope_control \<Rightarrow> kill_switch" where
  "set_control k c = k\<lparr>kw_revision := kw_revision k + 1, kw_scopes := (kw_scopes k)(ct_scope c := c)\<rparr>"

definition kill_halt :: "kill_switch \<Rightarrow> kill_scope \<Rightarrow> string \<Rightarrow> stamp \<Rightarrow> kill_switch \<times> scope_control result" where
  "kill_halt k s reason changed_at =
     (case bind_res (require_reason reason) (\<lambda>r. bind_res (require_changed_at changed_at) (\<lambda>t. Inr (r, t))) of
        Inl e \<Rightarrow> (k, Inl e)
      | Inr (r, t) \<Rightarrow>
          let control = kw_scopes k s
          in if ct_state control = SWITCH_HALTED then (k, Inr control)
             else let c = \<lparr>ct_scope = s, ct_state = SWITCH_HALTED, ct_reason = r, ct_changed_at = Some t\<rparr>
                  in (set_control k c, Inr c))"

definition kill_resume :: "kill_switch \<Rightarrow> kill_scope \<Rightarrow> string \<Rightarrow> stamp \<Rightarrow> kill_switch \<times> scope_control result" where
  "kill_resume k s reason changed_at =
     (case bind_res (require_reason reason) (\<lambda>r. bind_res (require_changed_at changed_at) (\<lambda>t. Inr (r, t))) of
        Inl e \<Rightarrow> (k, Inl e)
      | Inr (r, t) \<Rightarrow>
          let control = kw_scopes k s
          in if ct_state control \<noteq> SWITCH_HALTED then (k, Inl (OperatorKillSwitchError CONFLICTING_ID))
             else let c = \<lparr>ct_scope = s, ct_state = SWITCH_ACTIVE, ct_reason = r, ct_changed_at = Some t\<rparr>
                  in (set_control k c, Inr c))"

definition create_kill_switch :: "run_id \<Rightarrow> kill_switch" where
  "create_kill_switch run = \<lparr>kw_run = run, kw_revision = 0,
     kw_scopes = (\<lambda>s. \<lparr>ct_scope = s, ct_state = SWITCH_ACTIVE, ct_reason = [], ct_changed_at = None\<rparr>)\<rparr>"

section \<open>The durable document\<close>

text \<open>\<open>_utc_text\<close> formats the fields of the datetime; it does not look at its zone.\<close>

fun stamp_micros :: "stamp \<Rightarrow> int" where
  "stamp_micros (Aware t) = t"
| "stamp_micros (Naive t) = t"

definition scope_document :: "stdlib \<Rightarrow> scope_control \<Rightarrow> json" where
  "scope_document std c = JObj
     [(''state'', JStr (switch_state_value (ct_state c))), (''reason'', JStr (ct_reason c)),
      (''changed_at'', case ct_changed_at c of None \<Rightarrow> JNull | Some t \<Rightarrow> JStr (utc_text std (stamp_micros t)))]"

definition kill_switch_document :: "stdlib \<Rightarrow> kill_switch \<Rightarrow> json" where
  "kill_switch_document std k = JObj
     [(''schema'', JStr ''ea.paper-kill-switch.v1''), (''run_id'', JStr (run_text (kw_run k))),
      (''revision'', JInt (kw_revision k)),
      (''scopes'', JObj (map (\<lambda>s. (kill_scope_value s, scope_document std (kw_scopes k s))) KILL_SCOPES))]"

definition canonical_kill_switch_bytes :: "stdlib \<Rightarrow> kill_switch \<Rightarrow> string" where
  "canonical_kill_switch_bytes std k = json_bytes (kill_switch_document std k)"

definition kill_switch_digest :: "stdlib \<Rightarrow> kill_switch \<Rightarrow> sha256_digest" where
  "kill_switch_digest std k =
     domain_digest (hexdigest std) ''ea.paper-kill-switch.v1'' (canonical_kill_switch_bytes std k)"

text \<open>
  The standard library functions the restoration calls: \<open>json.loads\<close>, None where
  it raises, and \<open>datetime.strptime\<close> with the format of \<open>_utc_text\<close>, None where it raises.
\<close>

record kill_reader =
  json_loads :: "string \<Rightarrow> json option"
  parse_utc_text :: "string \<Rightarrow> int option"

abbreviation kill_conflict :: exn where
  "kill_conflict \<equiv> OperatorKillSwitchError CONFLICTING_ID"

fun switch_state_of :: "json \<Rightarrow> switch_state option" where
  "switch_state_of (JStr s) = (if s = ''active'' then Some SWITCH_ACTIVE
     else if s = ''halted'' then Some SWITCH_HALTED else None)"
| "switch_state_of _ = None"

text \<open>A change time reads back naive: \<open>strptime\<close> matches the letter Z and attaches no zone.\<close>

definition restore_changed_at :: "kill_reader \<Rightarrow> switch_state \<Rightarrow> json \<Rightarrow> stamp option result" where
  "restore_changed_at rd state changed_at = (case changed_at of
      JNull \<Rightarrow> guard_res (state \<noteq> SWITCH_ACTIVE) kill_conflict (Inr None)
    | JStr text \<Rightarrow> (case parse_utc_text rd text of None \<Rightarrow> Inl kill_conflict | Some t \<Rightarrow> Inr (Some (Naive t)))
    | _ \<Rightarrow> Inl kill_conflict)"

definition restore_scope :: "kill_reader \<Rightarrow> (string \<times> json) list \<Rightarrow> kill_scope \<Rightarrow> scope_control result" where
  "restore_scope rd raw_scopes s = (case map_of raw_scopes (kill_scope_value s) of
      Some (JObj raw) \<Rightarrow>
        guard_res (fst ` set raw \<noteq> {''state'', ''reason'', ''changed_at''}) kill_conflict
       (case switch_state_of (the (map_of raw ''state'')) of
          None \<Rightarrow> Inl kill_conflict
        | Some state \<Rightarrow> (case map_of raw ''reason'' of
            Some (JStr reason) \<Rightarrow>
              bind_res (restore_changed_at rd state (the (map_of raw ''changed_at''))) (\<lambda>t.
                Inr \<lparr>ct_scope = s, ct_state = state, ct_reason = reason, ct_changed_at = t\<rparr>)
          | _ \<Rightarrow> Inl kill_conflict))
    | _ \<Rightarrow> Inl kill_conflict)"

definition restore_kill_switch :: "kill_reader \<Rightarrow> run_id \<Rightarrow> string \<Rightarrow> kill_switch result" where
  "restore_kill_switch rd run payload = (case json_loads rd payload of
      Some (JObj doc) \<Rightarrow>
        guard_res (map_of doc ''schema'' \<noteq> Some (JStr ''ea.paper-kill-switch.v1'')) kill_conflict
       (guard_res (map_of doc ''run_id'' \<noteq> Some (JStr (run_text run))) kill_conflict
       (case map_of doc ''revision'' of
          Some (JInt revision) \<Rightarrow>
            guard_res (revision < 0) (OperatorKillSwitchError OUT_OF_RANGE)
           (case map_of doc ''scopes'' of
              Some (JObj raw_scopes) \<Rightarrow>
                guard_res (fst ` set raw_scopes \<noteq> kill_scope_value ` set KILL_SCOPES) kill_conflict
               (bind_res (map_res (restore_scope rd raw_scopes) KILL_SCOPES) (\<lambda>cs.
                  Inr \<lparr>kw_run = run, kw_revision = revision, kw_scopes = (\<lambda>s. the (find (\<lambda>c. ct_scope c = s) cs))\<rparr>))
            | _ \<Rightarrow> Inl kill_conflict)
        | _ \<Rightarrow> Inl kill_conflict))
    | _ \<Rightarrow> Inl kill_conflict)"

section \<open>Runs\<close>

datatype kill_op = Halt kill_scope string stamp | Resume kill_scope string stamp

definition kill_step :: "kill_switch \<Rightarrow> kill_op \<Rightarrow> kill_switch" where
  "kill_step k c = (case c of Halt s r t \<Rightarrow> fst (kill_halt k s r t) | Resume s r t \<Rightarrow> fst (kill_resume k s r t))"

definition kill_run :: "kill_switch \<Rightarrow> kill_op list \<Rightarrow> kill_switch" where
  "kill_run k cs = foldl kill_step k cs"

text \<open>A well-formed request: a non-blank bounded reason and an aware time.\<close>

definition proper :: "string \<Rightarrow> stamp \<Rightarrow> bool" where
  "proper r t \<longleftrightarrow> (\<exists>c \<in> set r. \<not> py_space c) \<and> utf8_length r \<le> MAX_REASON_BYTES \<and> (\<exists>n. t = Aware n)"

lemma kill_run_simps [simp]:
  "kill_run k [] = k" "kill_run k (cs @ [c]) = kill_step (kill_run k cs) c" "kill_run k (c # cs) = kill_run (kill_step k c) cs"
  by (simp_all add: kill_run_def)

lemma checks_proper:
  "bind_res (require_reason r) (\<lambda>r. bind_res (require_changed_at t) (\<lambda>t. Inr (r, t)))
   = (if proper r t then Inr (r, t) else Inl (OperatorKillSwitchError OUT_OF_RANGE))"
  by (cases t) (auto simp: require_reason_def require_changed_at_def proper_def)

lemma kill_step_Halt:
  "kill_step k (Halt s r t) = (if proper r t \<and> \<not> is_halted k s
     then set_control k \<lparr>ct_scope = s, ct_state = SWITCH_HALTED, ct_reason = r, ct_changed_at = Some t\<rparr> else k)"
  by (simp add: kill_step_def kill_halt_def checks_proper is_halted_def Let_def)

lemma kill_step_Resume:
  "kill_step k (Resume s r t) = (if proper r t \<and> is_halted k s
     then set_control k \<lparr>ct_scope = s, ct_state = SWITCH_ACTIVE, ct_reason = r, ct_changed_at = Some t\<rparr> else k)"
  by (simp add: kill_step_def kill_resume_def checks_proper is_halted_def Let_def)

end
