(* ===== verification/Kill_Claims.thy ===== *)
theory Kill_Claims
  imports Kill_Switch
begin

text \<open>
  What the operator switch promises: a scope is halted exactly while a well-formed
  halt of it stands unanswered, its record is that of the first such halt, and a
  restart brings the switch back as it was.
\<close>

section \<open>Runs\<close>

lemma set_control_simps [simp]:
  "kw_run (set_control k c) = kw_run k" "kw_revision (set_control k c) = kw_revision k + 1"
  "kw_scopes (set_control k c) s = (if s = ct_scope c then c else kw_scopes k s)"
  "is_halted (set_control k c) s = (if s = ct_scope c then ct_state c = SWITCH_HALTED else is_halted k s)"
  by (simp_all add: set_control_def is_halted_def)

lemma create_kill_simps [simp]:
  "\<not> is_halted (create_kill_switch run) s" "kw_run (create_kill_switch run) = run"
  "kw_revision (create_kill_switch run) = 0" "ct_scope (kw_scopes (create_kill_switch run) s) = s"
  by (simp_all add: is_halted_def create_kill_switch_def)

abbreviation resumed :: "kill_op list \<Rightarrow> kill_scope \<Rightarrow> bool" where
  "resumed cs s \<equiv> \<exists>r t. Resume s r t \<in> set cs \<and> proper r t"

text \<open>The standing halt of a scope: proper, with no proper resume behind it.\<close>

definition standing :: "kill_op list \<Rightarrow> kill_scope \<Rightarrow> kill_op list \<Rightarrow> string \<Rightarrow> stamp \<Rightarrow> kill_op list \<Rightarrow> bool" where
  "standing cs s pre r t post \<longleftrightarrow> cs = pre @ Halt s r t # post \<and> proper r t \<and> \<not> resumed post s"

lemma standing_snoc:
  "standing (cs @ [c]) s pre r t post \<longleftrightarrow>
     (post = [] \<and> pre = cs \<and> c = Halt s r t \<and> proper r t)
     \<or> (\<exists>ps. post = ps @ [c] \<and> standing cs s pre r t ps \<and> \<not> resumed [c] s)"
  by (cases post rule: rev_cases) (auto simp: standing_def)

lemma some_standing_snoc:
  "(\<exists>pre r t post. standing (cs @ [c]) s pre r t post) \<longleftrightarrow>
     (\<exists>r t. c = Halt s r t \<and> proper r t) \<or> (\<not> resumed [c] s \<and> (\<exists>pre r t post. standing cs s pre r t post))"
  unfolding standing_snoc by blast

lemma halted_iff_standing:
  "is_halted (kill_run (create_kill_switch run) cs) s \<longleftrightarrow> (\<exists>pre r t post. standing cs s pre r t post)"
proof (induction cs rule: rev_induct)
  case Nil
  then show ?case by (simp add: standing_def)
next
  case (snoc c cs)
  show ?case unfolding some_standing_snoc snoc [symmetric]
    by (cases c) (auto simp: kill_step_Halt kill_step_Resume)
qed

lemma first_halt_recorded:
  assumes "is_halted (kill_run (create_kill_switch run) cs) s"
  shows "\<exists>pre r t post. standing cs s pre r t post \<and> \<not> is_halted (kill_run (create_kill_switch run) pre) s
    \<and> kw_scopes (kill_run (create_kill_switch run) cs) s
      = \<lparr>ct_scope = s, ct_state = SWITCH_HALTED, ct_reason = r, ct_changed_at = Some t\<rparr>"
  using assms
proof (induction cs rule: rev_induct)
  case (snoc c cs)
  let ?k = "kill_run (create_kill_switch run) cs"
  show ?case
  proof (cases "is_halted ?k s")
    case True
    then have keep: "\<not> resumed [c] s" "kw_scopes (kill_step ?k c) s = kw_scopes ?k s"
      using snoc.prems by (cases c; auto simp: kill_step_Halt kill_step_Resume split: if_splits)+
    obtain pre r t post where h: "standing cs s pre r t post" "\<not> is_halted (kill_run (create_kill_switch run) pre) s"
      "kw_scopes ?k s = \<lparr>ct_scope = s, ct_state = SWITCH_HALTED, ct_reason = r, ct_changed_at = Some t\<rparr>"
      using snoc.IH [OF True] by blast
    then have "standing (cs @ [c]) s pre r t (post @ [c])" using keep(1) unfolding standing_snoc by blast
    moreover have "kw_scopes (kill_run (create_kill_switch run) (cs @ [c])) s
        = \<lparr>ct_scope = s, ct_state = SWITCH_HALTED, ct_reason = r, ct_changed_at = Some t\<rparr>"
      unfolding kill_run_simps keep(2) by (rule h(3))
    ultimately show ?thesis using h(2) by blast
  next
    case False
    then obtain r t where "c = Halt s r t" "proper r t"
      using snoc.prems by (cases c) (auto simp: kill_step_Halt kill_step_Resume split: if_splits)
    then show ?thesis using False by (intro exI [of _ cs] exI [of _ r] exI [of _ t] exI [of _ "[]"])
      (simp add: standing_snoc kill_step_Halt)
  qed
qed simp

definition kill_ok :: "run_id \<Rightarrow> kill_switch \<Rightarrow> bool" where
  "kill_ok run k \<longleftrightarrow> kw_run k = run \<and> 0 \<le> kw_revision k \<and> (\<forall>s. ct_scope (kw_scopes k s) = s)
     \<and> (\<forall>s. is_halted k s \<longrightarrow> ct_changed_at (kw_scopes k s) \<noteq> None)"

lemma kill_ok_run: "kill_ok run (kill_run (create_kill_switch run) cs)"
proof (induction cs rule: rev_induct)
  case (snoc c cs)
  then show ?case by (cases c) (auto simp: kill_ok_def kill_step_Halt kill_step_Resume)
qed (simp add: kill_ok_def)

section \<open>Restart\<close>

definition naive :: "scope_control \<Rightarrow> scope_control" where
  "naive c = c\<lparr>ct_changed_at := map_option (\<lambda>t. Naive (stamp_micros t)) (ct_changed_at c)\<rparr>"

definition reads_back :: "kill_reader \<Rightarrow> stdlib \<Rightarrow> kill_switch \<Rightarrow> bool" where
  "reads_back rd std k \<longleftrightarrow>
     json_loads rd (canonical_kill_switch_bytes std k) = Some (json_norm (kill_switch_document std k))
     \<and> (\<forall>s t. ct_changed_at (kw_scopes k s) = Some t \<longrightarrow>
          parse_utc_text rd (utc_text std (stamp_micros t)) = Some (stamp_micros t))"

lemma switch_state_of_value [simp]: "switch_state_of (JStr (switch_state_value st)) = Some st"
  by (cases st) simp_all

lemma restore_scope_norm:
  assumes "map_of raw (kill_scope_value s) = Some (json_norm (scope_document std c))" "ct_scope c = s"
    "ct_state c = SWITCH_HALTED \<Longrightarrow> ct_changed_at c \<noteq> None"
    "\<And>t. ct_changed_at c = Some t \<Longrightarrow> parse_utc_text rd (utc_text std (stamp_micros t)) = Some (stamp_micros t)"
  shows "restore_scope rd raw s = Inr (naive c)"
proof -
  let ?t = "case ct_changed_at c of None \<Rightarrow> JNull | Some t \<Rightarrow> JStr (utc_text std (stamp_micros t))"
  define kvs where "kvs = [(''state'', JStr (switch_state_value (ct_state c))), (''reason'', JStr (ct_reason c)), (''changed_at'', json_norm ?t)]"
  have m: "map_of (sort_key fst kvs) = map_of kvs" by (rule map_of_sorted) (simp add: kvs_def)
  have v: "map_of kvs ''state'' = Some (JStr (switch_state_value (ct_state c)))" "map_of kvs ''reason'' = Some (JStr (ct_reason c))"
    "map_of kvs ''changed_at'' = Some (json_norm ?t)" by (simp_all add: kvs_def)
  have t: "restore_changed_at rd (ct_state c) (json_norm ?t) = Inr (map_option (\<lambda>t. Naive (stamp_micros t)) (ct_changed_at c))"
    using assms(3,4) by (cases "ct_changed_at c"; cases "ct_state c") (auto simp: restore_changed_at_def)
  have n: "json_norm (scope_document std c) = JObj (sort_key fst kvs)"
    by (simp only: scope_document_def json_norm.simps list.map map_prod_simp id_apply kvs_def)
  have k: "fst ` set (sort_key fst kvs) = {''state'', ''reason'', ''changed_at''}" by (auto simp: kvs_def)
  have "naive c = \<lparr>ct_scope = s, ct_state = ct_state c, ct_reason = ct_reason c,
      ct_changed_at = map_option (\<lambda>t. Naive (stamp_micros t)) (ct_changed_at c)\<rparr>"
    using assms(2) by (cases c) (simp add: naive_def)
  then show ?thesis unfolding restore_scope_def assms(1) n option.case json.case m v k
    by (simp add: t del: switch_state_of.simps)
qed

lemma document_norm:
  assumes "raw = sort_key fst (map (map_prod id json_norm) (map (\<lambda>s. (kill_scope_value s, scope_document std (kw_scopes k s))) KILL_SCOPES))"
  obtains kvs where "json_norm (kill_switch_document std k) = JObj kvs"
    "map_of kvs ''schema'' = Some (JStr ''ea.paper-kill-switch.v1'')" "map_of kvs ''run_id'' = Some (JStr (run_text (kw_run k)))"
    "map_of kvs ''revision'' = Some (JInt (kw_revision k))" "map_of kvs ''scopes'' = Some (JObj raw)"
proof
  let ?kvs = "[(''schema'', JStr ''ea.paper-kill-switch.v1''), (''run_id'', JStr (run_text (kw_run k))),
      (''revision'', JInt (kw_revision k)), (''scopes'', JObj raw)]"
  show "json_norm (kill_switch_document std k) = JObj (sort_key fst ?kvs)"
    by (simp only: kill_switch_document_def json_norm.simps list.map map_prod_simp id_apply assms)
  have m: "map_of (sort_key fst ?kvs) = map_of ?kvs" by (rule map_of_sorted) simp
  show "map_of (sort_key fst ?kvs) ''schema'' = Some (JStr ''ea.paper-kill-switch.v1'')"
    "map_of (sort_key fst ?kvs) ''run_id'' = Some (JStr (run_text (kw_run k)))"
    "map_of (sort_key fst ?kvs) ''revision'' = Some (JInt (kw_revision k))"
    "map_of (sort_key fst ?kvs) ''scopes'' = Some (JObj raw)" unfolding m by simp_all
qed

lemma restore_ok:
  assumes "kill_ok run k" "reads_back rd std k"
  shows "restore_kill_switch rd run (canonical_kill_switch_bytes std k)
    = Inr \<lparr>kw_run = run, kw_revision = kw_revision k, kw_scopes = (\<lambda>s. naive (kw_scopes k s))\<rparr>"
proof -
  define scopes where "scopes = map (map_prod id json_norm) (map (\<lambda>s. (kill_scope_value s, scope_document std (kw_scopes k s))) KILL_SCOPES)"
  define raw where "raw = sort_key fst scopes"
  obtain kvs where kvs: "json_norm (kill_switch_document std k) = JObj kvs"
    "map_of kvs ''schema'' = Some (JStr ''ea.paper-kill-switch.v1'')" "map_of kvs ''run_id'' = Some (JStr (run_text (kw_run k)))"
    "map_of kvs ''revision'' = Some (JInt (kw_revision k))" "map_of kvs ''scopes'' = Some (JObj raw)"
    by (rule document_norm [OF raw_def [unfolded scopes_def]])
  have "distinct (map fst scopes)" by (simp add: scopes_def KILL_SCOPES_def)
  from map_of_sorted [OF this] have ms: "map_of raw = map_of scopes" by (simp add: raw_def)
  have sc: "map_of raw (kill_scope_value s) = Some (json_norm (scope_document std (kw_scopes k s)))" for s
    unfolding ms by (cases s) (simp_all add: scopes_def KILL_SCOPES_def)
  have r: "restore_scope rd raw s = Inr (naive (kw_scopes k s))" for s
    by (rule restore_scope_norm [OF sc]) (use assms in \<open>auto simp: kill_ok_def reads_back_def is_halted_def\<close>)
  have "map_res (restore_scope rd raw) KILL_SCOPES = Inr (map (\<lambda>s. naive (kw_scopes k s)) KILL_SCOPES)"
    by (simp add: r KILL_SCOPES_def)
  moreover have "the (find (\<lambda>c. ct_scope c = s) (map (\<lambda>s. naive (kw_scopes k s)) KILL_SCOPES)) = naive (kw_scopes k s)" for s
    using assms(1) by (cases s) (auto simp: KILL_SCOPES_def kill_ok_def naive_def)
  moreover have "fst ` set raw = kill_scope_value ` set KILL_SCOPES" by (auto simp: image_image raw_def scopes_def)
  ultimately show ?thesis
    using assms unfolding restore_kill_switch_def reads_back_def
    by (simp add: kvs kill_ok_def)
qed

lemma restore_other_run:
  assumes "reads_back rd std k" "r \<noteq> kw_run k"
  shows "restore_kill_switch rd r (canonical_kill_switch_bytes std k) = Inl kill_conflict"
proof -
  obtain kvs where "json_norm (kill_switch_document std k) = JObj kvs"
    "map_of kvs ''schema'' = Some (JStr ''ea.paper-kill-switch.v1'')" "map_of kvs ''run_id'' = Some (JStr (run_text (kw_run k)))"
    by (rule document_norm [OF refl])
  moreover have "run_text r \<noteq> run_text (kw_run k)" using assms(2) by (cases r; cases "kw_run k") auto
  ultimately show ?thesis using assms(1) unfolding restore_kill_switch_def reads_back_def by simp
qed

lemma naive_document: "scope_document std (naive c) = scope_document std c"
  by (cases "ct_changed_at c") (simp_all add: scope_document_def naive_def)

section \<open>Properties\<close>

text \<open>C30: the switch blocks exactly while a halt stands. After any sequence of halts and resumes a
  scope is halted if and only if some well-formed halt of it has no well-formed resume of it
  after it; its record is then that of the first halt since the scope was last active, never
  rewritten; and an outbound effect is denied if and only if some scope is halted.\<close>

theorem switch_holds_standing_halts:
  assumes "k = kill_run (create_kill_switch run) cs"
  shows "(is_halted k s \<longleftrightarrow> (\<exists>pre r t post. standing cs s pre r t post))
    \<and> (is_halted k s \<longrightarrow> (\<exists>pre r t post. standing cs s pre r t post
          \<and> \<not> is_halted (kill_run (create_kill_switch run) pre) s
          \<and> kw_scopes k s = \<lparr>ct_scope = s, ct_state = SWITCH_HALTED, ct_reason = r, ct_changed_at = Some t\<rparr>))
    \<and> (effective_halted k \<longleftrightarrow> (\<exists>s. is_halted k s)) \<and> set (halted_scopes k) = {s. is_halted k s}"
proof -
  have all: "s \<in> set KILL_SCOPES" for s by (cases s) (simp_all add: KILL_SCOPES_def)
  then have "effective_halted k \<longleftrightarrow> (\<exists>s. is_halted k s)" "set (halted_scopes k) = {s. is_halted k s}"
    by (auto simp: effective_halted_def halted_scopes_def list_ex_iff)
  then show ?thesis using halted_iff_standing [of run cs s] first_halt_recorded [of run cs s] assms by blast
qed

definition switch_example :: "kill_op list" where
  "switch_example = [Halt KILL_ACCOUNT ''a'' (Aware 1), Halt KILL_ACCOUNT ''b'' (Aware 2), Halt KILL_GLOBAL '' '' (Aware 3)]"

lemma switch_example_run:
  "kill_run (create_kill_switch (RunId ''r'')) switch_example
   = set_control (create_kill_switch (RunId ''r''))
       \<lparr>ct_scope = KILL_ACCOUNT, ct_state = SWITCH_HALTED, ct_reason = ''a'', ct_changed_at = Some (Aware 1)\<rparr>"
proof -
  have "proper ''a'' (Aware 1)" "\<not> proper '' '' (Aware 3)"
    by (simp_all add: proper_def MAX_REASON_BYTES_def utf8_length_def py_space_def)
  then show ?thesis by (simp add: switch_example_def kill_step_Halt)
qed

theorem switch_holds_standing_halts_witness:
  "let k = kill_run (create_kill_switch (RunId ''r'')) switch_example
   in halted_scopes k = [KILL_ACCOUNT] \<and> ct_reason (kw_scopes k KILL_ACCOUNT) = ''a''
     \<and> (\<exists>pre r t post. standing switch_example KILL_ACCOUNT pre r t post)"
proof -
  have "is_halted (kill_run (create_kill_switch (RunId ''r'')) switch_example) KILL_ACCOUNT"
    by (simp add: switch_example_run)
  then show ?thesis
    using switch_holds_standing_halts [of _ "RunId ''r''" switch_example KILL_ACCOUNT, OF refl]
    by (simp add: Let_def halted_scopes_def KILL_SCOPES_def switch_example_run)
qed

text \<open>C31: a restart restores the switch. Where the JSON reader reads back the document and
  the time parser the recorded times, the persisted bytes of any reachable switch restore the same
  revision, states and reasons, so the same scopes stay halted, and persist to the same bytes
  again; the bytes of another run are refused.\<close>

theorem restart_restores_switch:
  assumes "k = kill_run (create_kill_switch run) cs" "reads_back rd std k"
  shows "(\<exists>k'. restore_kill_switch rd run (canonical_kill_switch_bytes std k) = Inr k'
      \<and> kw_run k' = run \<and> kw_revision k' = kw_revision k \<and> halted_scopes k' = halted_scopes k
      \<and> (\<forall>s. ct_state (kw_scopes k' s) = ct_state (kw_scopes k s) \<and> ct_reason (kw_scopes k' s) = ct_reason (kw_scopes k s))
      \<and> canonical_kill_switch_bytes std k' = canonical_kill_switch_bytes std k)
    \<and> (\<forall>r. r \<noteq> run \<longrightarrow> restore_kill_switch rd r (canonical_kill_switch_bytes std k)
        = Inl (OperatorKillSwitchError CONFLICTING_ID))"
proof -
  have ok: "kill_ok run k" unfolding assms(1) by (rule kill_ok_run)
  let ?k = "\<lparr>kw_run = run, kw_revision = kw_revision k, kw_scopes = (\<lambda>s. naive (kw_scopes k s))\<rparr>"
  have "canonical_kill_switch_bytes std ?k = canonical_kill_switch_bytes std k"
    using ok by (simp add: canonical_kill_switch_bytes_def kill_switch_document_def naive_document kill_ok_def)
  moreover have "halted_scopes ?k = halted_scopes k"
    unfolding halted_scopes_def by (rule filter_cong) (simp_all add: is_halted_def naive_def)
  moreover have "kw_run k = run" using ok by (simp add: kill_ok_def)
  ultimately show ?thesis
    using restore_ok [OF ok assms(2)] restore_other_run [OF assms(2)] by (auto simp: naive_def)
qed

definition kill_reader_example :: kill_reader where
  "kill_reader_example = \<lparr>json_loads = (\<lambda>_. Some (json_norm (kill_switch_document std_example
       (kill_run (create_kill_switch (RunId ''r'')) switch_example)))),
     parse_utc_text = (\<lambda>s. Some (int (length s)))\<rparr>"

theorem restart_restores_switch_witness:
  "let k = kill_run (create_kill_switch (RunId ''r'')) switch_example
   in \<exists>k'. restore_kill_switch kill_reader_example (RunId ''r'') (canonical_kill_switch_bytes std_example k) = Inr k'
        \<and> halted_scopes k' = [KILL_ACCOUNT] \<and> ct_reason (kw_scopes k' KILL_ACCOUNT) = ''a''"
proof -
  let ?k = "kill_run (create_kill_switch (RunId ''r'')) switch_example"
  have "reads_back kill_reader_example std_example ?k"
    unfolding reads_back_def
    by (auto simp: kill_reader_example_def switch_example_run)
       (auto simp: std_example_def create_kill_switch_def split: if_splits)
  from restart_restores_switch [OF refl this]
  obtain k' where "restore_kill_switch kill_reader_example (RunId ''r'') (canonical_kill_switch_bytes std_example ?k) = Inr k'"
    "halted_scopes k' = halted_scopes ?k" "\<And>s. ct_reason (kw_scopes k' s) = ct_reason (kw_scopes ?k s)" by blast
  then show ?thesis by (simp add: Let_def halted_scopes_def KILL_SCOPES_def switch_example_run)
qed

end
