(* ===== verification/Strategy_Signals.thy ===== *)
theory Strategy_Signals
  imports Market_Data Portfolio Risk_Contracts
begin

text \<open>
  \<open>ea.core.strategy\<close>, \<open>ea.runtime.strategy\<close> and \<open>ea.strategy.authority\<close>: the
  canonical strategy signals, the evidence of an authority conflict, the
  verification of the active market dispatch, and the single owner of signal
  issuance. The encoding of a binary64 as sixteen hexadecimal digits
  (\<open>struct.pack\<close>) is the parameter \<open>fb\<close>; the identity of the issuer and the seals
  of the proof hold by construction, as the authority asks its own verifier.
\<close>

section \<open>Vocabularies and records\<close>

datatype signal_direction = LONG | FLAT | SHORT
datatype authority_kind = SIGNAL_AUTHORITY | PLANNING_AUTHORITY
datatype authority_conflict_kind = IDENTITY_REUSE | NON_MONOTONE_DISPATCH

fun direction_value :: "signal_direction \<Rightarrow> string" where
  "direction_value LONG = ''long''"
| "direction_value FLAT = ''flat''"
| "direction_value SHORT = ''short''"

fun authority_kind_value :: "authority_kind \<Rightarrow> string" where
  "authority_kind_value SIGNAL_AUTHORITY = ''strategy_signal''"
| "authority_kind_value PLANNING_AUTHORITY = ''portfolio_planning''"

fun conflict_kind_value :: "authority_conflict_kind \<Rightarrow> string" where
  "conflict_kind_value IDENTITY_REUSE = ''identity_reuse''"
| "conflict_kind_value NON_MONOTONE_DISPATCH = ''non_monotone_dispatch''"

record strategy_signal =
  sg_run :: run_id
  sg_id :: economic_id
  sg_instrument :: instrument
  sg_direction :: signal_direction
  sg_market_sha256 :: sha256_digest
  sg_available_at :: int
  sg_dispatch :: int

record conflict_evidence =
  cf_authority :: authority_kind
  cf_kind :: authority_conflict_kind
  cf_run :: run_id
  cf_occupied :: "economic_id option"
  cf_dispatch :: int
  cf_last :: "int option"
  cf_existing :: "sha256_digest option"
  cf_submitted :: sha256_digest

record signal_state =
  gs_run :: run_id
  gs_halted :: bool
  gs_next :: "int option"
  gs_last :: "int option"
  gs_count :: int
  gs_conflict :: "conflict_evidence option"

section \<open>Checks\<close>

text \<open>The three checks of numbers and the check of an identity; each module raises its own error.\<close>

definition positive_uint64 :: "(outcome_code \<Rightarrow> exn) \<Rightarrow> int \<Rightarrow> unit result" where
  "positive_uint64 err n = guard_res (n < 1 \<or> n > MAX_UINT64) (err OUT_OF_RANGE) (Inr ())"

definition optional_positive_uint64 :: "(outcome_code \<Rightarrow> exn) \<Rightarrow> int option \<Rightarrow> unit result" where
  "optional_positive_uint64 err v = (case v of None \<Rightarrow> Inr () | Some n \<Rightarrow> positive_uint64 err n)"

definition non_negative_uint64 :: "(outcome_code \<Rightarrow> exn) \<Rightarrow> int \<Rightarrow> unit result" where
  "non_negative_uint64 err n = guard_res (n < 0 \<or> n > MAX_UINT64) (err OUT_OF_RANGE) (Inr ())"

definition validate_economic_id ::
  "(outcome_code \<Rightarrow> exn) \<Rightarrow> economic_id \<Rightarrow> economic_owner_kind option \<Rightarrow> run_id option \<Rightarrow> unit result" where
  "validate_economic_id err i expected_owner expected_run =
     bind_res (positive_uint64 err (owner_sequence i)) (\<lambda>_.
     guard_res (case expected_owner of None \<Rightarrow> False | Some k \<Rightarrow> owner_kind i \<noteq> k) (err CONFLICTING_ID)
    (guard_res (case expected_run of None \<Rightarrow> False | Some r \<Rightarrow> run_id i \<noteq> r) (err CONFLICTING_ID) (Inr ())))"

section \<open>Digests of the cause\<close>

text \<open>Venues, symbols, sources and times are ASCII, so the unescaped encoding of a record is the escaped one.\<close>

definition market_record_document :: "(py_float \<Rightarrow> string) \<Rightarrow> stdlib \<Rightarrow> market_envelope \<Rightarrow> json" where
  "market_record_document fb std e = (let p = me_payload e in JObj
     [(''adjustment'', JStr (adjustment_value (br_adjustment p))),
      (''available_at'', JStr (utc_text std (me_available_at e))),
      (''close_bits'', JStr (fb (br_close p))),
      (''high_bits'', JStr (fb (br_high p))),
      (''interval_end'', JStr (utc_text std (br_end p))),
      (''interval_start'', JStr (utc_text std (br_start p))),
      (''kind'', JStr ''bar''),
      (''low_bits'', JStr (fb (br_low p))),
      (''open_bits'', JStr (fb (br_open p))),
      (''revision'', JInt (me_revision e)),
      (''source'', JStr (source_code (me_source e))),
      (''source_sequence'', JInt (me_sequence e)),
      (''symbol'', JStr (snd (instrument_key (br_instrument p)))),
      (''venue'', JStr (fst (instrument_key (br_instrument p)))),
      (''volume_bits'', JStr (fb (br_volume p)))])"

definition market_record_bytes :: "(py_float \<Rightarrow> string) \<Rightarrow> stdlib \<Rightarrow> market_envelope \<Rightarrow> string" where
  "market_record_bytes fb std e = json_bytes (market_record_document fb std e)"

definition causal_market_digest_of :: "stdlib \<Rightarrow> string \<Rightarrow> sha256_digest" where
  "causal_market_digest_of std payload =
     domain_digest (hexdigest std) ''ea.phase1-strategy-causal-market.v1'' (u64be (length payload) @ payload)"

definition causal_market_digest :: "(py_float \<Rightarrow> string) \<Rightarrow> stdlib \<Rightarrow> market_envelope \<Rightarrow> sha256_digest" where
  "causal_market_digest fb std e = causal_market_digest_of std (market_record_bytes fb std e)"

definition signal_submission_digest ::
  "(py_float \<Rightarrow> string) \<Rightarrow> stdlib \<Rightarrow> market_envelope \<Rightarrow> int \<Rightarrow> signal_direction \<Rightarrow> sha256_digest result" where
  "signal_submission_digest fb std e dispatch direction =
     bind_res (positive_uint64 StrategyContractError dispatch) (\<lambda>_.
       let m = market_record_bytes fb std e; d = direction_value direction
       in Inr (domain_digest (hexdigest std) ''ea.phase1-strategy-signal-submission.v1''
            (u64be (length m) @ m @ u64be (nat dispatch) @ u64be (length d) @ d)))"

section \<open>Signals\<close>

definition validate_signal :: "strategy_signal \<Rightarrow> unit result" where
  "validate_signal s =
     bind_res (validate_economic_id StrategyContractError (sg_id s) (Some STRATEGY_SIGNAL) (Some (sg_run s))) (\<lambda>_.
       positive_uint64 StrategyContractError (sg_dispatch s))"

definition signal_document :: "stdlib \<Rightarrow> strategy_signal \<Rightarrow> json" where
  "signal_document std s = JObj
     [(''canonicalization'', JStr ''ea-canonical-json-v1''),
      (''causal_market_sha256'', digest_json (sg_market_sha256 s)),
      (''causal_root_available_at'', JStr (utc_text std (sg_available_at s))),
      (''direction'', JStr (direction_value (sg_direction s))),
      (''dispatch_sequence'', JInt (sg_dispatch s)),
      (''instrument'', instrument_document (sg_instrument s)),
      (''run_id'', JStr (run_text (sg_run s))),
      (''schema'', JStr ''ea.phase1-strategy-signal.v1''),
      (''signal_id'', economic_id_document (sg_id s))]"

definition signal_bytes :: "stdlib \<Rightarrow> strategy_signal \<Rightarrow> string result" where
  "signal_bytes std s = bind_res (validate_signal s) (\<lambda>_. Inr (json_bytes (signal_document std s)))"

definition signal_digest :: "stdlib \<Rightarrow> strategy_signal \<Rightarrow> sha256_digest result" where
  "signal_digest std s =
     bind_res (signal_bytes std s) (\<lambda>b. Inr (domain_digest (hexdigest std) ''ea.phase1-strategy-signal.v1'' b))"

definition create_strategy_signal ::
  "stdlib \<Rightarrow> run_id \<Rightarrow> economic_id \<Rightarrow> market_envelope \<Rightarrow> signal_direction \<Rightarrow> sha256_digest \<Rightarrow> int
   \<Rightarrow> strategy_signal result" where
  "create_strategy_signal std run i e direction sha dispatch =
     (let s = \<lparr>sg_run = run, sg_id = i, sg_instrument = br_instrument (me_payload e), sg_direction = direction,
            sg_market_sha256 = sha, sg_available_at = me_available_at e, sg_dispatch = dispatch\<rparr>
      in bind_res (signal_bytes std s) (\<lambda>_. Inr s))"

section \<open>Conflict evidence\<close>

definition validate_conflict :: "conflict_evidence \<Rightarrow> unit result" where
  "validate_conflict c =
     bind_res (positive_uint64 StrategyContractError (cf_dispatch c)) (\<lambda>_.
     bind_res (optional_positive_uint64 StrategyContractError (cf_last c)) (\<lambda>_.
     bind_res (case cf_occupied c of None \<Rightarrow> Inr ()
        | Some i \<Rightarrow> validate_economic_id StrategyContractError i (Some STRATEGY_SIGNAL) (Some (cf_run c))) (\<lambda>_.
     guard_res ((cf_occupied c \<noteq> None) \<noteq> (cf_existing c \<noteq> None)) (StrategyContractError CONFLICTING_ID)
    (case cf_kind c of
       IDENTITY_REUSE \<Rightarrow>
         guard_res (case cf_occupied c of None \<Rightarrow> True | Some i \<Rightarrow> owner_kind i \<noteq> STRATEGY_SIGNAL)
           (StrategyContractError CONFLICTING_ID) (Inr ())
     | NON_MONOTONE_DISPATCH \<Rightarrow>
         guard_res (cf_occupied c \<noteq> None) (StrategyContractError CONFLICTING_ID) (Inr ())))))"

definition conflict_document :: "conflict_evidence \<Rightarrow> json" where
  "conflict_document c = JObj
     [(''authority_kind'', JStr (authority_kind_value (cf_authority c))),
      (''canonicalization'', JStr ''ea-canonical-json-v1''),
      (''conflict_kind'', JStr (conflict_kind_value (cf_kind c))),
      (''dispatch_sequence'', JInt (cf_dispatch c)),
      (''existing_sha256'', (case cf_existing c of None \<Rightarrow> JNull | Some d \<Rightarrow> digest_json d)),
      (''last_new_dispatch_sequence'', (case cf_last c of None \<Rightarrow> JNull | Some n \<Rightarrow> JInt n)),
      (''occupied_owner_id'', (case cf_occupied c of None \<Rightarrow> JNull | Some i \<Rightarrow> economic_id_document i)),
      (''run_id'', JStr (run_text (cf_run c))),
      (''schema'', JStr ''ea.phase1-authority-conflict.v1''),
      (''submitted_sha256'', digest_json (cf_submitted c))]"

definition conflict_bytes :: "conflict_evidence \<Rightarrow> string result" where
  "conflict_bytes c = bind_res (validate_conflict c) (\<lambda>_. Inr (json_bytes (conflict_document c)))"

definition conflict_digest :: "stdlib \<Rightarrow> conflict_evidence \<Rightarrow> sha256_digest result" where
  "conflict_digest std c =
     bind_res (conflict_bytes c) (\<lambda>b. Inr (domain_digest (hexdigest std) ''ea.phase1-authority-conflict.v1'' b))"

definition create_conflict :: "conflict_evidence \<Rightarrow> conflict_evidence result" where
  "create_conflict c = bind_res (conflict_bytes c) (\<lambda>_. Inr c)"

section \<open>The public state\<close>

definition validate_signal_state :: "signal_state \<Rightarrow> unit result" where
  "validate_signal_state v =
     bind_res (optional_positive_uint64 StrategyContractError (gs_next v)) (\<lambda>_.
     bind_res (optional_positive_uint64 StrategyContractError (gs_last v)) (\<lambda>_.
     bind_res (non_negative_uint64 StrategyContractError (gs_count v)) (\<lambda>_.
     bind_res (case gs_conflict v of None \<Rightarrow> Inr ()
        | Some c \<Rightarrow> bind_res (validate_conflict c) (\<lambda>_.
            guard_res (cf_authority c \<noteq> SIGNAL_AUTHORITY \<or> cf_run c \<noteq> gs_run v)
              (StrategyContractError CONFLICTING_ID) (Inr ()))) (\<lambda>_.
     guard_res (gs_halted v = (gs_conflict v = None)) (StrategyContractError CONFLICTING_ID) (Inr ())))))"

definition signal_state_document :: "signal_state \<Rightarrow> json" where
  "signal_state_document v = JObj
     [(''canonicalization'', JStr ''ea-canonical-json-v1''),
      (''conflict'', (case gs_conflict v of None \<Rightarrow> JNull | Some c \<Rightarrow> conflict_document c)),
      (''halted'', JBool (gs_halted v)),
      (''issuance_count'', JInt (gs_count v)),
      (''last_new_dispatch_sequence'', (case gs_last v of None \<Rightarrow> JNull | Some n \<Rightarrow> JInt n)),
      (''run_id'', JStr (run_text (gs_run v))),
      (''schema'', JStr ''ea.phase1-strategy-signal-authority-state.v1''),
      (''signal_next'', (case gs_next v of None \<Rightarrow> JNull | Some n \<Rightarrow> JInt n))]"

definition signal_state_bytes :: "signal_state \<Rightarrow> string result" where
  "signal_state_bytes v = bind_res (validate_signal_state v) (\<lambda>_. Inr (json_bytes (signal_state_document v)))"

definition signal_state_digest :: "stdlib \<Rightarrow> signal_state \<Rightarrow> sha256_digest result" where
  "signal_state_digest std v =
     bind_res (signal_state_bytes v) (\<lambda>b.
       Inr (domain_digest (hexdigest std) ''ea.phase1-strategy-signal-authority-state.v1'' b))"

definition create_signal_state :: "signal_state \<Rightarrow> signal_state result" where
  "create_signal_state v = bind_res (signal_state_bytes v) (\<lambda>_. Inr v)"

section \<open>The verifier of the active dispatch\<close>

text \<open>
  The historical runtime a verifier is bound to, seen from outside: its run and
  \<open>_require_active_market_dispatch_bytes\<close>, the canonical bytes of the active root
  or the error it raises.
\<close>

record dispatch_port =
  dp_run :: run_id
  dp_active_bytes :: "market_envelope \<Rightarrow> int \<Rightarrow> string result"

record dispatch_proof =
  vp_run :: run_id
  vp_root :: market_envelope
  vp_bytes :: string
  vp_market_sha256 :: sha256_digest
  vp_dispatch :: int

fun verifier_error :: "exn \<Rightarrow> exn" where
  "verifier_error (RuntimeOrderingError c) =
     StrategyContractError (if c \<in> {INVALID_TYPE, OUT_OF_RANGE, CONFLICTING_ID} then c else INVALID_TYPE)"
| "verifier_error (StrategyContractError c) = StrategyContractError c"
| "verifier_error _ = StrategyContractError INVALID_TYPE"

definition verify_active_market_dispatch ::
  "stdlib \<Rightarrow> dispatch_port \<Rightarrow> market_envelope \<Rightarrow> int \<Rightarrow> dispatch_proof result" where
  "verify_active_market_dispatch std port e dispatch =
     bind_res (positive_uint64 StrategyContractError dispatch) (\<lambda>_.
     bind_res (map_exn verifier_error
        (bind_res (dp_active_bytes port e dispatch) (\<lambda>bytes.
         bind_res (dp_active_bytes port e dispatch) (\<lambda>confirmed. Inr (bytes, confirmed))))) (\<lambda>(bytes, confirmed).
     guard_res (confirmed \<noteq> bytes) (StrategyContractError CONFLICTING_ID)
       (Inr \<lparr>vp_run = dp_run port, vp_root = e, vp_bytes = bytes,
             vp_market_sha256 = causal_market_digest_of std bytes, vp_dispatch = dispatch\<rparr>)))"

definition require_dispatch_proof ::
  "dispatch_proof \<Rightarrow> run_id \<Rightarrow> market_envelope \<Rightarrow> string \<Rightarrow> sha256_digest \<Rightarrow> int \<Rightarrow> dispatch_proof result" where
  "require_dispatch_proof p run e bytes sha dispatch =
     guard_res (\<not> (vp_run p = run \<and> vp_root p = e \<and> vp_bytes p = bytes \<and> vp_market_sha256 p = sha
        \<and> 1 \<le> vp_dispatch p \<and> vp_dispatch p \<le> MAX_UINT64 \<and> vp_dispatch p = dispatch))
       (RuntimeOrderingError CONFLICTING_ID) (Inr p)"

end
