(* ===== verification/Signal_Authority.thy ===== *)
theory Signal_Authority
  imports Strategy_Signals Authority
begin

text \<open>
  \<open>ea.strategy.authority\<close>: one signal per dispatch, in the order of the
  dispatches, each on a market event the runtime vouches for as active. A
  repeated request is answered from the record; a conflicting one halts the
  authority with evidence.
\<close>

section \<open>State\<close>

record signal_replay =
  gr_bytes :: string
  gr_direction :: signal_direction
  gr_submitted :: sha256_digest
  gr_signal :: strategy_signal
  gr_signal_bytes :: string
  gr_signal_sha256 :: sha256_digest

record signal_authority =
  ga_run :: run_id
  ga_public :: signal_state
  ga_replay :: "int \<rightharpoonup> signal_replay"

definition create_signal_authority :: "run_id \<Rightarrow> int \<Rightarrow> int \<Rightarrow> int option \<Rightarrow> signal_authority result" where
  "create_signal_authority run first_sequence issued latest =
     guard_res (\<not> (1 \<le> first_sequence \<and> first_sequence \<le> MAX_UINT64)) (StrategyContractError OUT_OF_RANGE)
    (guard_res (\<not> (0 \<le> issued \<and> issued \<le> MAX_UINT64)) (StrategyContractError OUT_OF_RANGE)
    (guard_res (case latest of None \<Rightarrow> False | Some n \<Rightarrow> \<not> (1 \<le> n \<and> n \<le> MAX_UINT64)) (StrategyContractError OUT_OF_RANGE)
    (bind_res (create_signal_state \<lparr>gs_run = run, gs_halted = False, gs_next = Some first_sequence, gs_last = latest,
         gs_count = issued, gs_conflict = None\<rparr>) (\<lambda>public.
       Inr \<lparr>ga_run = run, ga_public = public, ga_replay = Map.empty\<rparr>))))"

definition lookup_signal :: "signal_authority \<Rightarrow> int \<Rightarrow> strategy_signal option result" where
  "lookup_signal a dispatch =
     bind_res (positive_uint64 StrategyContractError dispatch) (\<lambda>_.
       Inr (map_option gr_signal (ga_replay a dispatch)))"

section \<open>Conflicts\<close>

definition publish_signal_conflict ::
  "signal_authority \<Rightarrow> authority_conflict_kind \<Rightarrow> int \<Rightarrow> economic_id option \<Rightarrow> sha256_digest option
   \<Rightarrow> sha256_digest \<Rightarrow> signal_authority \<times> exn" where
  "publish_signal_conflict a kind dispatch occupied existing submitted =
     (let p = ga_public a
      in if gs_conflict p \<noteq> None then (a, StrategyContractError CONFLICTING_ID)
         else case bind_res (create_conflict \<lparr>cf_authority = SIGNAL_AUTHORITY, cf_kind = kind, cf_run = ga_run a,
                 cf_occupied = occupied, cf_dispatch = dispatch, cf_last = gs_last p, cf_existing = existing,
                 cf_submitted = submitted\<rparr>)
               (\<lambda>c. create_signal_state \<lparr>gs_run = ga_run a, gs_halted = True, gs_next = gs_next p, gs_last = gs_last p,
                 gs_count = gs_count p, gs_conflict = Some c\<rparr>) of
             Inl e \<Rightarrow> (a, e)
           | Inr public \<Rightarrow> (a\<lparr>ga_public := public\<rparr>, StrategyContractError CONFLICTING_ID))"

section \<open>Issuance\<close>

text \<open>The two \<open>except\<close> clauses of a preflight: the module's own errors pass, any other is an invalid type.\<close>

fun strategy_preflight_error :: "exn \<Rightarrow> exn" where
  "strategy_preflight_error (StrategyContractError c) = StrategyContractError c"
| "strategy_preflight_error _ = StrategyContractError INVALID_TYPE"

fun strategy_proof_error :: "exn \<Rightarrow> exn" where
  "strategy_proof_error (RuntimeOrderingError c) =
     StrategyContractError (if c \<in> {INVALID_TYPE, CONFLICTING_ID} then c else INVALID_TYPE)"
| "strategy_proof_error e = e"

definition plan_signal ::
  "(py_float \<Rightarrow> string) \<Rightarrow> stdlib \<Rightarrow> dispatch_port \<Rightarrow> signal_authority \<Rightarrow> market_envelope \<Rightarrow> int \<Rightarrow> signal_direction
   \<Rightarrow> string \<Rightarrow> sha256_digest \<Rightarrow> int \<Rightarrow> (signal_replay \<times> signal_state) result" where
  "plan_signal fb std port a e dispatch direction bytes submitted next_sequence =
     (let market_sha256 = causal_market_digest fb std e in
      bind_res (map_exn strategy_preflight_error (verify_active_market_dispatch std port e dispatch)) (\<lambda>proof.
      bind_res (map_exn strategy_proof_error
        (require_dispatch_proof proof (ga_run a) e bytes market_sha256 dispatch)) (\<lambda>_.
      bind_res (map_exn strategy_preflight_error
        (bind_res (make_economic_id (ga_run a) STRATEGY_SIGNAL next_sequence) (\<lambda>i.
         bind_res (create_strategy_signal std (ga_run a) i e direction market_sha256 dispatch) (\<lambda>s.
         bind_res (signal_bytes std s) (\<lambda>sb.
         bind_res (signal_digest std s) (\<lambda>sd. Inr (s, sb, sd))))))) (\<lambda>(s, sb, sd).
      bind_res (map_exn strategy_preflight_error
        (create_signal_state \<lparr>gs_run = ga_run a, gs_halted = False, gs_next = next_allocation next_sequence,
           gs_last = Some dispatch, gs_count = gs_count (ga_public a) + 1, gs_conflict = None\<rparr>)) (\<lambda>public.
        Inr (\<lparr>gr_bytes = bytes, gr_direction = direction, gr_submitted = submitted, gr_signal = s,
              gr_signal_bytes = sb, gr_signal_sha256 = sd\<rparr>, public))))))"

definition issue_signal ::
  "(py_float \<Rightarrow> string) \<Rightarrow> stdlib \<Rightarrow> dispatch_port \<Rightarrow> signal_authority \<Rightarrow> market_envelope \<Rightarrow> int \<Rightarrow> signal_direction
   \<Rightarrow> signal_authority \<times> strategy_signal result" where
  "issue_signal fb std port a e dispatch direction =
     (case bind_res (positive_uint64 StrategyContractError dispatch) (\<lambda>_.
          signal_submission_digest fb std e dispatch direction) of
        Inl x \<Rightarrow> (a, Inl x)
      | Inr submitted \<Rightarrow>
          let bytes = market_record_bytes fb std e; p = ga_public a in
          (case ga_replay a dispatch of
             Some y \<Rightarrow>
               if gr_bytes y = bytes \<and> gr_direction y = direction then (a, Inr (gr_signal y))
               else apsnd Inl (publish_signal_conflict a IDENTITY_REUSE dispatch (Some (sg_id (gr_signal y)))
                      (Some (gr_signal_sha256 y)) submitted)
           | None \<Rightarrow>
               if (case gs_last p of None \<Rightarrow> False | Some n \<Rightarrow> dispatch \<le> n)
               then apsnd Inl (publish_signal_conflict a NON_MONOTONE_DISPATCH dispatch None None submitted)
               else if gs_halted p then (a, Inl (StrategyContractError CONFLICTING_ID))
               else (case gs_next p of
                   None \<Rightarrow> (a, Inl (StrategyContractError OUT_OF_RANGE))
                 | Some n \<Rightarrow> (case plan_signal fb std port a e dispatch direction bytes submitted n of
                       Inl x \<Rightarrow> (a, Inl x)
                     | Inr (y, public) \<Rightarrow>
                         (a\<lparr>ga_public := public, ga_replay := (ga_replay a)(dispatch \<mapsto> y)\<rparr>, Inr (gr_signal y))))))"

section \<open>The ways a call ends\<close>

lemma positive_uint64_Inr [simp]: "positive_uint64 err n = Inr u \<longleftrightarrow> 1 \<le> n \<and> n \<le> MAX_UINT64"
  by (auto simp: positive_uint64_def)

lemma map_exn_bind: "map_exn h (bind_res r f) = bind_res (map_exn h r) (\<lambda>x. map_exn h (f x))"
  by (cases r) simp_all

definition halt_signals :: "signal_authority \<Rightarrow> conflict_evidence \<Rightarrow> signal_authority" where
  "halt_signals a c = (let p = ga_public a in a\<lparr>ga_public := \<lparr>gs_run = ga_run a, gs_halted = True, gs_next = gs_next p,
     gs_last = gs_last p, gs_count = gs_count p, gs_conflict = Some c\<rparr>\<rparr>)"

lemma publish_signal_conflict_cases:
  assumes "publish_signal_conflict a kind dispatch occupied existing submitted = (b, x)"
  obtains (same) "b = a"
  | (halted) c where "gs_conflict (ga_public a) = None" "x = StrategyContractError CONFLICTING_ID"
      "b = halt_signals a c"
  using assms by (auto simp: publish_signal_conflict_def halt_signals_def Let_def create_conflict_def create_signal_state_def split: if_splits sum.splits)

lemma plan_signal_Inr:
  assumes "plan_signal fb std port a e dispatch direction bytes submitted n = Inr (y, public)"
  shows "dp_run port = ga_run a" "dp_active_bytes port e dispatch = Inr bytes"
    "gr_bytes y = bytes" "gr_direction y = direction"
    "gr_signal y = \<lparr>sg_run = ga_run a, sg_id = \<lparr>run_id = ga_run a, owner_kind = STRATEGY_SIGNAL, owner_sequence = n\<rparr>,
         sg_instrument = br_instrument (me_payload e), sg_direction = direction,
         sg_market_sha256 = causal_market_digest fb std e, sg_available_at = me_available_at e, sg_dispatch = dispatch\<rparr>"
    "public = \<lparr>gs_run = ga_run a, gs_halted = False, gs_next = next_allocation n, gs_last = Some dispatch,
          gs_count = gs_count (ga_public a) + 1, gs_conflict = None\<rparr>"
    "1 \<le> n" "n \<le> MAX_UINT64" "gs_count (ga_public a) < MAX_UINT64"
  using assms
  by (auto simp: plan_signal_def verify_active_market_dispatch_def require_dispatch_proof_def make_economic_id_def
      create_strategy_signal_def create_signal_state_def signal_state_bytes_def validate_signal_state_def
      non_negative_uint64_def signal_bytes_def validate_signal_def validate_economic_id_def Let_def)

lemma issue_signal_cases:
  assumes "issue_signal fb std port a e dispatch direction = (b, x)"
  obtains (failed) z where "b = a" "x = Inl z"
  | (replayed) y where "b = a" "x = Inr (gr_signal y)" "ga_replay a dispatch = Some y"
      "gr_bytes y = market_record_bytes fb std e" "gr_direction y = direction"
  | (conflict) c where "gs_conflict (ga_public a) = None" "x = Inl (StrategyContractError CONFLICTING_ID)"
      "b = halt_signals a c"
      "ga_replay a dispatch \<noteq> None \<or> (\<exists>n. gs_last (ga_public a) = Some n \<and> dispatch \<le> n)"
  | (issued) n y submitted public where "x = Inr (gr_signal y)" "ga_replay a dispatch = None" "\<not> gs_halted (ga_public a)"
      "\<And>m. gs_last (ga_public a) = Some m \<Longrightarrow> m < dispatch" "1 \<le> dispatch" "dispatch \<le> MAX_UINT64"
      "gs_next (ga_public a) = Some n"
      "plan_signal fb std port a e dispatch direction (market_record_bytes fb std e) submitted n = Inr (y, public)"
      "b = a\<lparr>ga_public := public, ga_replay := (ga_replay a)(dispatch \<mapsto> y)\<rparr>"
proof (cases "1 \<le> dispatch \<and> dispatch \<le> MAX_UINT64")
  case False
  then have "issue_signal fb std port a e dispatch direction = (a, Inl (StrategyContractError OUT_OF_RANGE))"
    by (auto simp: issue_signal_def positive_uint64_def)
  then show thesis using assms failed by simp
next
  case True
  then obtain submitted where s: "signal_submission_digest fb std e dispatch direction = Inr submitted"
    by (auto simp: signal_submission_digest_def positive_uint64_def Let_def)
  have p: "positive_uint64 StrategyContractError dispatch = Inr ()" using True by simp
  let ?bytes = "market_record_bytes fb std e"
  show thesis
  proof (cases "ga_replay a dispatch")
    case (Some y)
    show thesis
    proof (cases "gr_bytes y = ?bytes \<and> gr_direction y = direction")
      case True
      then show thesis using assms Some replayed [OF _ _ Some] by (simp add: issue_signal_def s p)
    next
      case False
      obtain c z where q: "publish_signal_conflict a IDENTITY_REUSE dispatch (Some (sg_id (gr_signal y)))
          (Some (gr_signal_sha256 y)) submitted = (c, z)" by fastforce
      with assms False Some have x: "b = c" "x = Inl z" by (simp_all add: issue_signal_def s p Let_def)
      show thesis using q by (cases rule: publish_signal_conflict_cases) (use x Some failed conflict in auto)
    qed
  next
    case None
    show thesis
    proof (cases "case gs_last (ga_public a) of None \<Rightarrow> False | Some n \<Rightarrow> dispatch \<le> n")
      case True
      obtain c z where q: "publish_signal_conflict a NON_MONOTONE_DISPATCH dispatch None None submitted = (c, z)" by fastforce
      with assms True None have x: "b = c" "x = Inl z" by (simp_all add: issue_signal_def s p Let_def)
      have late: "\<exists>n. gs_last (ga_public a) = Some n \<and> dispatch \<le> n" using True by (simp split: option.splits)
      show thesis using q by (cases rule: publish_signal_conflict_cases) (use x late failed conflict in auto)
    next
      case False
      then have l: "\<And>m. gs_last (ga_public a) = Some m \<Longrightarrow> m < dispatch" by simp
      show thesis
      proof (cases "gs_halted (ga_public a) \<or> gs_next (ga_public a) = None")
        case True
        then show thesis using assms None False failed by (auto simp: issue_signal_def s p Let_def split: if_splits)
      next
        case nh: False
        then obtain n where n: "gs_next (ga_public a) = Some n" by auto
        show thesis
        proof (cases "plan_signal fb std port a e dispatch direction ?bytes submitted n")
          case (Inl z)
          then have "b = a" "x = Inl z" using assms None False nh n by (auto simp: issue_signal_def s p Let_def)
          then show thesis by (rule failed)
        next
          case (Inr yp)
          obtain y public where yp: "yp = (y, public)" by (cases yp)
          have "b = a\<lparr>ga_public := public, ga_replay := (ga_replay a)(dispatch \<mapsto> y)\<rparr>" "x = Inr (gr_signal y)"
            using assms None False nh n Inr yp by (auto simp: issue_signal_def s p Let_def)
          then show thesis using issued [OF _ None _ l _ _ n] nh \<open>1 \<le> dispatch \<and> _\<close> Inr yp by blast
        qed
      qed
    qed
  qed
qed

end
