(* ===== verification/Signal_Runs.thy ===== *)
theory Signal_Runs
  imports Signal_Authority
begin

text \<open>
  Runs of the signal authority: signals are numbered in the order of the
  dispatches, each rests on a dispatch the runtime vouched for, an answer is
  final, and a halted authority never changes again.
\<close>

section \<open>Sequences of allocated identities\<close>

definition numbered_from :: "run_id \<Rightarrow> economic_owner_kind \<Rightarrow> int \<Rightarrow> economic_id list \<Rightarrow> int option \<Rightarrow> bool" where
  "numbered_from r k first_sequence ids next_sequence \<longleftrightarrow>
     ids = map (\<lambda>m. \<lparr>run_id = r, owner_kind = k, owner_sequence = first_sequence + int m\<rparr>) [0..<length ids]
     \<and> 1 \<le> first_sequence \<and> first_sequence + int (length ids) \<le> MAX_UINT64 + 1
     \<and> next_sequence = (if first_sequence + int (length ids) = MAX_UINT64 + 1 then None
         else Some (first_sequence + int (length ids)))"

lemma numbered_from_start: "1 \<le> n \<Longrightarrow> n \<le> MAX_UINT64 \<Longrightarrow> numbered_from r k n [] (Some n)"
  by (simp add: numbered_from_def)

lemma numbered_from_extend:
  assumes "numbered_from r k f ids (Some n)"
  shows "numbered_from r k f (ids @ [\<lparr>run_id = r, owner_kind = k, owner_sequence = n\<rparr>]) (next_allocation n)"
proof -
  have n: "n = f + int (length ids)" "f + int (length ids) \<le> MAX_UINT64"
    using assms by (auto simp: numbered_from_def split: if_splits)
  have i: "ids = map (\<lambda>m. \<lparr>run_id = r, owner_kind = k, owner_sequence = f + int m\<rparr>) [0..<length ids]"
    using assms by (simp add: numbered_from_def)
  show ?thesis using assms n unfolding numbered_from_def next_allocation_def
    by (simp flip: i)
qed

lemma numbered_from_distinct:
  assumes "numbered_from r k f ids n"
  shows "distinct ids"
proof -
  have e: "ids = map (\<lambda>m. \<lparr>run_id = r, owner_kind = k, owner_sequence = f + int m\<rparr>) [0..<length ids]"
    using assms by (simp add: numbered_from_def)
  show ?thesis by (subst e) (simp add: distinct_map inj_on_def)
qed

section \<open>Runs\<close>

type_synonym signal_call = "dispatch_port \<times> market_envelope \<times> int \<times> signal_direction"

definition signal_step ::
  "(py_float \<Rightarrow> string) \<Rightarrow> stdlib \<Rightarrow> signal_authority \<Rightarrow> signal_call \<Rightarrow> signal_authority" where
  "signal_step fb std a c = (case c of (port, e, dispatch, direction) \<Rightarrow> fst (issue_signal fb std port a e dispatch direction))"

definition signal_answer ::
  "(py_float \<Rightarrow> string) \<Rightarrow> stdlib \<Rightarrow> signal_authority \<Rightarrow> signal_call \<Rightarrow> strategy_signal result" where
  "signal_answer fb std a c = (case c of (port, e, dispatch, direction) \<Rightarrow> snd (issue_signal fb std port a e dispatch direction))"

text \<open>The signals a run issues, in order: the answers that were not replays.\<close>

definition signal_new ::
  "(py_float \<Rightarrow> string) \<Rightarrow> stdlib \<Rightarrow> signal_authority \<Rightarrow> signal_call \<Rightarrow> strategy_signal list" where
  "signal_new fb std a c = (case c of (port, e, dispatch, direction) \<Rightarrow>
     (case signal_answer fb std a c of Inr s \<Rightarrow> if ga_replay a dispatch = None then [s] else [] | Inl _ \<Rightarrow> []))"

fun signal_run ::
  "(py_float \<Rightarrow> string) \<Rightarrow> stdlib \<Rightarrow> signal_authority \<Rightarrow> signal_call list \<Rightarrow> signal_authority \<times> strategy_signal list" where
  "signal_run fb std a [] = (a, [])"
| "signal_run fb std a (c # cs) =
     (case signal_run fb std (signal_step fb std a c) cs of (b, gs) \<Rightarrow> (b, signal_new fb std a c @ gs))"

lemma signal_step_cases:
  obtains (same) "signal_step fb std a (port, e, d, dir) = a" "signal_new fb std a (port, e, d, dir) = []"
  | (conflict) c where "gs_conflict (ga_public a) = None" "signal_step fb std a (port, e, d, dir) = halt_signals a c"
      "signal_new fb std a (port, e, d, dir) = []"
      "signal_answer fb std a (port, e, d, dir) = Inl (StrategyContractError CONFLICTING_ID)"
      "ga_replay a d \<noteq> None \<or> (\<exists>n. gs_last (ga_public a) = Some n \<and> d \<le> n)"
  | (issued) n y submitted public where "signal_answer fb std a (port, e, d, dir) = Inr (gr_signal y)"
      "ga_replay a d = None" "\<not> gs_halted (ga_public a)"
      "\<And>m. gs_last (ga_public a) = Some m \<Longrightarrow> m < d" "1 \<le> d" "d \<le> MAX_UINT64" "gs_next (ga_public a) = Some n"
      "plan_signal fb std port a e d dir (market_record_bytes fb std e) submitted n = Inr (y, public)"
      "signal_step fb std a (port, e, d, dir) = a\<lparr>ga_public := public, ga_replay := (ga_replay a)(d \<mapsto> y)\<rparr>"
      "signal_new fb std a (port, e, d, dir) = [gr_signal y]"
proof -
  obtain b x where i: "issue_signal fb std port a e d dir = (b, x)" by fastforce
  then have "signal_step fb std a (port, e, d, dir) = b" "signal_answer fb std a (port, e, d, dir) = x"
    by (simp_all add: signal_step_def signal_answer_def)
  with i show thesis
    by (cases rule: issue_signal_cases) (auto simp: signal_new_def intro: same conflict issued)
qed

section \<open>The books\<close>

definition signal_books :: "run_id \<Rightarrow> int \<Rightarrow> int option \<Rightarrow> int \<Rightarrow> signal_authority \<Rightarrow> strategy_signal list \<Rightarrow> bool" where
  "signal_books run first_sequence latest issued a gs \<longleftrightarrow>
     ga_run a = run \<and> numbered_from run STRATEGY_SIGNAL first_sequence (map sg_id gs) (gs_next (ga_public a))
     \<and> sorted_wrt (<) (map sg_dispatch gs)
     \<and> gs_last (ga_public a) = (if gs = [] then latest else Some (sg_dispatch (last gs)))
     \<and> (\<forall>m s. latest = Some m \<longrightarrow> s \<in> set gs \<longrightarrow> m < sg_dispatch s)
     \<and> gs_count (ga_public a) = issued + int (length gs)
     \<and> (gs_halted (ga_public a) \<longleftrightarrow> gs_conflict (ga_public a) \<noteq> None)
     \<and> dom (ga_replay a) = sg_dispatch ` set gs
     \<and> (\<forall>s \<in> set gs. \<exists>y. ga_replay a (sg_dispatch s) = Some y \<and> gr_signal y = s)"

lemma sorted_wrt_append_last:
  assumes "sorted_wrt (<) xs" "\<And>x. xs \<noteq> [] \<Longrightarrow> x = last xs \<Longrightarrow> x < (y :: int)"
  shows "sorted_wrt (<) (xs @ [y])"
proof -
  have "x < y" if "x \<in> set xs" for x
  proof -
    have "x \<le> last xs" using assms(1) that by (induction xs) (auto simp: less_imp_le)
    then show ?thesis using assms(2) that by force
  qed
  then show ?thesis using assms(1) by (simp add: sorted_wrt_append)
qed

lemma signal_books_step:
  assumes "signal_books run f l k a gs"
  shows "signal_books run f l k (signal_step fb std a c) (gs @ signal_new fb std a c)"
proof -
  obtain port e d dir where c: "c = (port, e, d, dir)" by (cases c)
  show ?thesis
  proof (cases rule: signal_step_cases [of fb std a port e d dir])
    case same
    then show ?thesis using assms by (simp add: c)
  next
    case (conflict x)
    then show ?thesis using assms by (simp add: c signal_books_def halt_signals_def Let_def)
  next
    case (issued n y submitted public)
    note p = plan_signal_Inr [OF issued(8)]
    have fresh: "d \<notin> sg_dispatch ` set gs" using issued(2) assms by (auto simp: signal_books_def)
    have dy: "sg_dispatch (gr_signal y) = d" by (simp add: p)
    have "numbered_from run STRATEGY_SIGNAL f (map sg_id (gs @ [gr_signal y])) (gs_next public)"
      using numbered_from_extend [of run STRATEGY_SIGNAL f "map sg_id gs" n] assms issued(7) by (simp add: signal_books_def p)
    moreover have "sorted_wrt (<) (map sg_dispatch gs @ [d])"
      using assms issued(4) by (intro sorted_wrt_append_last) (auto simp: signal_books_def last_map split: if_splits)
    moreover have "\<forall>m. l = Some m \<longrightarrow> m < d"
    proof (intro allI impI)
      fix m assume m: "l = Some m"
      show "m < d"
      proof (cases "gs = []")
        case True
        then show ?thesis using m assms issued(4) by (simp add: signal_books_def)
      next
        case False
        then have "m < sg_dispatch (last gs)" "gs_last (ga_public a) = Some (sg_dispatch (last gs))"
          using m assms by (auto simp: signal_books_def)
        then show ?thesis using issued(4) by force
      qed
    qed
    ultimately show ?thesis using assms fresh unfolding c issued(9,10) signal_books_def
      by (auto simp: dy p(6))
  qed
qed

lemma signal_books_run:
  "signal_books run f l k a gs \<Longrightarrow> signal_run fb std a cs = (b, new) \<Longrightarrow> signal_books run f l k b (gs @ new)"
proof (induction cs arbitrary: a gs new)
  case (Cons c cs)
  obtain b' new' where r: "signal_run fb std (signal_step fb std a c) cs = (b', new')" by fastforce
  show ?case
    using Cons.IH [OF signal_books_step [OF Cons.prems(1), of fb std c], of new'] Cons.prems(2) r by (simp add: r)
qed simp

lemma signal_books_created:
  assumes "create_signal_authority run f k l = Inr a"
  shows "signal_books run f l k a []"
  using assms by (auto simp: create_signal_authority_def create_signal_state_def signal_books_def
      intro: numbered_from_start split: option.splits)

section \<open>Where a signal comes from\<close>

definition signal_cause ::
  "(py_float \<Rightarrow> string) \<Rightarrow> stdlib \<Rightarrow> run_id \<Rightarrow> signal_call \<Rightarrow> strategy_signal \<Rightarrow> bool" where
  "signal_cause fb std run c s \<longleftrightarrow> (case c of (port, e, d, dir) \<Rightarrow>
     1 \<le> d \<and> d \<le> MAX_UINT64
     \<and> dp_run port = run \<and> dp_active_bytes port e d = Inr (market_record_bytes fb std e)
     \<and> sg_run s = run \<and> sg_instrument s = br_instrument (me_payload e) \<and> sg_direction s = dir
     \<and> sg_market_sha256 s = causal_market_digest fb std e \<and> sg_available_at s = me_available_at e \<and> sg_dispatch s = d)"

lemma signal_step_run: "ga_run (signal_step fb std a c) = ga_run a"
proof -
  obtain port e d dir where c: "c = (port, e, d, dir)" by (cases c)
  show ?thesis unfolding c by (cases rule: signal_step_cases [of fb std a port e d dir]) (simp_all add: halt_signals_def Let_def)
qed

lemma signal_new_cause: "s \<in> set (signal_new fb std a c) \<Longrightarrow> signal_cause fb std (ga_run a) c s"
proof -
  assume s: "s \<in> set (signal_new fb std a c)"
  obtain port e d dir where c: "c = (port, e, d, dir)" by (cases c)
  show ?thesis using s unfolding c
    by (cases rule: signal_step_cases [of fb std a port e d dir]) (auto simp: signal_cause_def dest: plan_signal_Inr)
qed

lemma signal_run_cause:
  "signal_run fb std a cs = (b, gs) \<Longrightarrow> s \<in> set gs \<Longrightarrow> \<exists>c \<in> set cs. signal_cause fb std (ga_run a) c s"
proof (induction cs arbitrary: a gs)
  case (Cons c cs)
  obtain new' where r: "signal_run fb std (signal_step fb std a c) cs = (b, new')" "gs = signal_new fb std a c @ new'"
    using Cons.prems(1) by (auto split: prod.splits)
  show ?case
  proof (cases "s \<in> set new'")
    case True
    then show ?thesis using Cons.IH [OF r(1)] by (auto simp: signal_step_run)
  next
    case False
    then show ?thesis using Cons.prems(2) signal_new_cause by (auto simp: r(2))
  qed
qed simp

section \<open>Answers are final\<close>

definition signal_inv :: "signal_authority \<Rightarrow> bool" where
  "signal_inv a \<longleftrightarrow> (gs_halted (ga_public a) \<longleftrightarrow> gs_conflict (ga_public a) \<noteq> None)"

definition signal_settled :: "(py_float \<Rightarrow> string) \<Rightarrow> stdlib \<Rightarrow> signal_authority \<Rightarrow> signal_call \<Rightarrow> bool" where
  "signal_settled fb std a c \<longleftrightarrow> gs_halted (ga_public a) \<or> (case c of (port, e, d, dir) \<Rightarrow>
     1 \<le> d \<and> d \<le> MAX_UINT64
     \<and> (\<exists>y. ga_replay a d = Some y \<and> gr_bytes y = market_record_bytes fb std e \<and> gr_direction y = dir))"

lemma halted_step:
  assumes "signal_inv a" "gs_halted (ga_public a)"
  shows "signal_step fb std a c = a" "signal_new fb std a c = []"
proof -
  obtain port e d dir where c: "c = (port, e, d, dir)" by (cases c)
  show "signal_step fb std a c = a" "signal_new fb std a c = []" unfolding c
    by (cases rule: signal_step_cases [of fb std a port e d dir]; use assms in \<open>auto simp: signal_inv_def\<close>)+
qed

lemma signal_replays:
  assumes "1 \<le> d" "d \<le> MAX_UINT64" "ga_replay a d = Some y" "gr_bytes y = market_record_bytes fb std e" "gr_direction y = dir"
  shows "issue_signal fb std port a e d dir = (a, Inr (gr_signal y))"
proof -
  have "signal_submission_digest fb std e d dir = Inr x \<Longrightarrow> ?thesis" for x
    using assms by (simp add: issue_signal_def positive_uint64_def)
  then show ?thesis using assms(1,2) by (auto simp: signal_submission_digest_def positive_uint64_def Let_def)
qed

lemma signal_step_facts:
  assumes "signal_inv a"
  shows "signal_inv (signal_step fb std a c)"
    "signal_step fb std a c \<noteq> a \<Longrightarrow> signal_settled fb std (signal_step fb std a c) c"
    "ga_replay a k = Some y \<Longrightarrow> ga_replay (signal_step fb std a c) k = Some y"
proof -
  obtain port e d dir where c: "c = (port, e, d, dir)" by (cases c)
  have "signal_inv (signal_step fb std a c)
    \<and> (signal_step fb std a c \<noteq> a \<longrightarrow> signal_settled fb std (signal_step fb std a c) c)
    \<and> (ga_replay a k = Some y \<longrightarrow> ga_replay (signal_step fb std a c) k = Some y)"
  proof (cases rule: signal_step_cases [of fb std a port e d dir])
    case (issued n y submitted public)
    note p = plan_signal_Inr [OF issued(8)]
    show ?thesis using issued(2,5,6) by (auto simp: c issued(9) signal_inv_def signal_settled_def p)
  qed (use assms in \<open>auto simp: c signal_inv_def signal_settled_def halt_signals_def Let_def\<close>)
  then show "signal_inv (signal_step fb std a c)"
    "signal_step fb std a c \<noteq> a \<Longrightarrow> signal_settled fb std (signal_step fb std a c) c"
    "ga_replay a k = Some y \<Longrightarrow> ga_replay (signal_step fb std a c) k = Some y" by blast+
qed

lemma signal_settled_facts:
  assumes "signal_inv a" "signal_settled fb std a c"
  shows "signal_step fb std a c = a" "signal_settled fb std (signal_step fb std a d) c"
    "signal_answer fb std (signal_step fb std a d) c = signal_answer fb std a c"
proof -
  obtain port e n dir where c: "c = (port, e, n, dir)" by (cases c)
  have "signal_step fb std a c = a \<and> signal_settled fb std (signal_step fb std a d) c
    \<and> signal_answer fb std (signal_step fb std a d) c = signal_answer fb std a c"
  proof (cases "gs_halted (ga_public a)")
    case True
    then show ?thesis using assms halted_step [OF assms(1) True] by simp
  next
    case False
    then obtain y where y: "1 \<le> n" "n \<le> MAX_UINT64" "ga_replay a n = Some y"
      "gr_bytes y = market_record_bytes fb std e" "gr_direction y = dir"
      using assms(2) by (auto simp: signal_settled_def c)
    note y' = signal_step_facts(3) [OF assms(1) y(3), of fb std d]
    show ?thesis using y y' signal_replays [of n _ y fb std e dir port]
      by (auto simp: c signal_step_def [of fb std a "(port, e, n, dir)"] signal_answer_def signal_settled_def)
  qed
  then show "signal_step fb std a c = a" "signal_settled fb std (signal_step fb std a d) c"
    "signal_answer fb std (signal_step fb std a d) c = signal_answer fb std a c" by blast+
qed

interpretation signals: retaining_authority "signal_step fb std" signal_inv "signal_settled fb std" "signal_answer fb std"
  for fb std
  by unfold_locales (auto simp: signal_step_facts signal_settled_facts)

end
