(* ===== verification/Signal_Claims.thy ===== *)
theory Signal_Claims
  imports Signal_Runs Market_Admission
begin

text \<open>
  What the signal authority promises: signals are numbered in the order of their
  dispatches and each names a dispatch the runtime vouched for; answers are final
  and a halted authority issues nothing. The example issues one long signal.
\<close>

section \<open>Runs and the contract\<close>

lemma signal_run_fst: "fst (signal_run fb std a cs) = signals.run fb std a cs"
proof (induction cs arbitrary: a)
  case (Cons c cs)
  show ?case using Cons [of "signal_step fb std a c"] by (simp add: case_prod_beta)
qed simp

lemma created_signal_fields: "create_signal_authority run f k l = Inr a \<Longrightarrow> ga_run a = run \<and> signal_inv a"
  by (auto simp: create_signal_authority_def create_signal_state_def signal_inv_def)

lemma halted_run:
  "signal_inv a \<Longrightarrow> gs_halted (ga_public a) \<Longrightarrow> signal_run fb std a cs = (a, [])"
  by (induction cs) (simp_all add: halted_step)

lemma issued_settles:
  assumes "issue_signal fb std port a e d dir = (b, Inr s)"
  shows "1 \<le> d \<and> d \<le> MAX_UINT64 \<and> (\<exists>y. ga_replay b d = Some y \<and> gr_bytes y = market_record_bytes fb std e
    \<and> gr_direction y = dir \<and> gr_signal y = s)"
  using assms
proof (cases rule: issue_signal_cases)
  case (replayed y)
  have "positive_uint64 StrategyContractError d = Inr ()"
    using assms by (cases "positive_uint64 StrategyContractError d") (auto simp: issue_signal_def)
  then show ?thesis using replayed by auto
next
  case (issued n y submitted public)
  then show ?thesis using plan_signal_Inr [OF issued(8)] by auto
qed simp_all

section \<open>An example\<close>

definition signal_port_example :: dispatch_port where
  "signal_port_example = \<lparr>dp_run = RunId ''r'',
     dp_active_bytes = (\<lambda>e d. Inr (market_record_bytes (\<lambda>_. []) std_example e))\<rparr>"

definition signals_example :: signal_authority where
  "signals_example = \<lparr>ga_run = RunId ''r'', ga_public = \<lparr>gs_run = RunId ''r'', gs_halted = False, gs_next = Some 1,
     gs_last = None, gs_count = 0, gs_conflict = None\<rparr>, ga_replay = Map.empty\<rparr>"

abbreviation issue_signal_example :: "signal_authority \<Rightarrow> int \<Rightarrow> signal_direction \<Rightarrow> signal_authority \<times> strategy_signal result" where
  "issue_signal_example a d dir \<equiv> issue_signal (\<lambda>_. []) std_example signal_port_example a (envelope_example 0 0) d dir"

lemma create_signals_example: "create_signal_authority (RunId ''r'') 1 0 None = Inr signals_example"
  by (simp add: create_signal_authority_def create_signal_state_def signal_state_bytes_def validate_signal_state_def
      optional_positive_uint64_def positive_uint64_def non_negative_uint64_def MAX_UINT64_def signals_example_def)

lemma example_issues:
  "\<exists>b s. issue_signal_example signals_example 1 LONG = (b, Inr s) \<and> sg_dispatch s = 1 \<and> b \<noteq> signals_example"
proof -
  have e: "ga_run signals_example = RunId ''r''" "ga_public signals_example = \<lparr>gs_run = RunId ''r'', gs_halted = False, gs_next = Some 1,
     gs_last = None, gs_count = 0, gs_conflict = None\<rparr>" "ga_replay signals_example = Map.empty"
    by (simp_all add: signals_example_def)
  have p: "\<exists>y public. plan_signal (\<lambda>_. []) std_example signal_port_example signals_example (envelope_example 0 0) 1 LONG
      (market_record_bytes (\<lambda>_. []) std_example (envelope_example 0 0)) submitted 1 = Inr (y, public)
      \<and> sg_dispatch (gr_signal y) = 1" for submitted
    by (simp add: plan_signal_def e signal_port_example_def verify_active_market_dispatch_def positive_uint64_def MAX_UINT64_def
        require_dispatch_proof_def causal_market_digest_def make_economic_id_def require_uint64_def create_strategy_signal_def
        signal_bytes_def signal_digest_def validate_signal_def validate_economic_id_def create_signal_state_def
        signal_state_bytes_def validate_signal_state_def optional_positive_uint64_def non_negative_uint64_def
        next_allocation_def Let_def)
  obtain submitted where d: "signal_submission_digest (\<lambda>_. []) std_example (envelope_example 0 0) 1 LONG = Inr submitted"
    by (simp add: signal_submission_digest_def positive_uint64_def MAX_UINT64_def Let_def)
  from p [of submitted] obtain y public where "plan_signal (\<lambda>_. []) std_example signal_port_example signals_example
      (envelope_example 0 0) 1 LONG (market_record_bytes (\<lambda>_. []) std_example (envelope_example 0 0)) submitted 1 = Inr (y, public)"
    and dy: "sg_dispatch (gr_signal y) = 1" by blast
  then have "issue_signal_example signals_example 1 LONG
      = (signals_example\<lparr>ga_public := public, ga_replay := (ga_replay signals_example)(1 \<mapsto> y)\<rparr>, Inr (gr_signal y))"
    by (simp add: issue_signal_def positive_uint64_def MAX_UINT64_def Let_def e d)
  moreover have "signals_example\<lparr>ga_public := public, ga_replay := (ga_replay signals_example)(1 \<mapsto> y)\<rparr> \<noteq> signals_example"
    by (simp add: signals_example_def)
  ultimately show ?thesis using dy by blast
qed

section \<open>Properties\<close>

text \<open>C32: signals are issued in the order of the dispatches. A run of any calls, each with the
  runtime as it answers at that moment, issues signals numbered consecutively from the first
  identity, with strictly increasing dispatches above the last one known at creation; each
  copies the event, direction and dispatch of a call whose event the runtime named active
  under that dispatch, and is found under its dispatch from then on.\<close>

theorem signals_in_dispatch_order:
  assumes "create_signal_authority run f k latest = Inr a" "signal_run fb std a cs = (b, gs)"
  shows "map sg_id gs = map (\<lambda>m. \<lparr>run_id = run, owner_kind = STRATEGY_SIGNAL, owner_sequence = f + int m\<rparr>) [0..<length gs]
    \<and> sorted_wrt (<) (case latest of None \<Rightarrow> map sg_dispatch gs | Some m \<Rightarrow> m # map sg_dispatch gs)
    \<and> gs_count (ga_public b) = k + int (length gs)
    \<and> (\<forall>s \<in> set gs. (\<exists>c \<in> set cs. signal_cause fb std run c s) \<and> lookup_signal b (sg_dispatch s) = Inr (Some s))"
proof -
  have books: "signal_books run f latest k b gs"
    using signal_books_run [OF signal_books_created [OF assms(1)] assms(2)] by simp
  have cause: "s \<in> set gs \<Longrightarrow> \<exists>c \<in> set cs. signal_cause fb std run c s" for s
    using signal_run_cause [OF assms(2)] created_signal_fields [OF assms(1)] by simp
  have "lookup_signal b (sg_dispatch s) = Inr (Some s)" if "s \<in> set gs" for s
    using cause [OF that] books that
    by (auto simp: signal_cause_def lookup_signal_def positive_uint64_def signal_books_def)
  then show ?thesis using books cause
    by (auto simp: signal_books_def numbered_from_def split: option.splits)
qed

theorem signals_in_dispatch_order_witness:
  "\<exists>b s. signal_run (\<lambda>_. []) std_example signals_example [(signal_port_example, envelope_example 0 0, 1, LONG)] = (b, [s])
     \<and> lookup_signal b 1 = Inr (Some s)"
proof -
  obtain b s where i: "issue_signal_example signals_example 1 LONG = (b, Inr s)" "sg_dispatch s = 1" using example_issues by blast
  then have r: "signal_run (\<lambda>_. []) std_example signals_example [(signal_port_example, envelope_example 0 0, 1, LONG)] = (b, [s])"
    by (simp add: signal_step_def signal_new_def signal_answer_def) (simp add: signals_example_def)
  then show ?thesis using signals_in_dispatch_order [OF create_signals_example r] i(2) by auto
qed

text \<open>The answers of the signal authority are final. Once a call has been answered with a signal,
  the same event, dispatch and direction are answered with it for ever, whatever runtime is
  asked, and nothing changes; after a conflict has halted the authority no call issues a
  signal and no call changes it.\<close>

theorem signal_answers_final:
  assumes "create_signal_authority run f k latest = Inr a0" "signal_run fb std a0 cs = (a, gs)"
    "issue_signal fb std port a e d dir = (b, x)"
  shows "(\<forall>s ds later. x = Inr s \<longrightarrow> (let c = fst (signal_run fb std b ds) in
        issue_signal fb std later c e d dir = (c, Inr s)))
    \<and> (gs_halted (ga_public b) \<longrightarrow> (\<forall>ds. signal_run fb std b ds = (b, [])))"
proof -
  have "a = signals.run fb std a0 cs" using assms(2) signal_run_fst [of fb std a0 cs] by simp
  then have inv: "signal_inv a" using signals.run_inv created_signal_fields [OF assms(1)] by simp
  have b: "b = signal_step fb std a (port, e, d, dir)" using assms(3) by (simp add: signal_step_def)
  then have invb: "signal_inv b" using signal_step_facts(1) [OF inv] by simp
  have "issue_signal fb std later (signals.run fb std b ds) e d dir = (signals.run fb std b ds, Inr s)"
    if x: "x = Inr s" for s ds later
  proof -
    obtain y where y: "1 \<le> d" "d \<le> MAX_UINT64" "ga_replay b d = Some y" "gr_bytes y = market_record_bytes fb std e"
      "gr_direction y = dir" "gr_signal y = s" using issued_settles [of fb std port a e d dir b s] assms(3) x by auto
    then have "signal_settled fb std b (later, e, d, dir)" by (auto simp: signal_settled_def)
    from signals.run_settled [OF invb this, of ds] signals.answer_kept [OF invb this, of ds]
    show ?thesis using signal_replays [OF y(1-5), of later] y(6)
        signals.settled_idle [OF signals.run_inv [OF invb] signals.run_settled [OF invb \<open>signal_settled fb std b _\<close>], of ds]
      by (simp add: signal_answer_def signal_step_def prod_eq_iff)
  qed
  then show ?thesis using halted_run [OF invb] by (simp add: Let_def signal_run_fst)
qed

theorem signal_answers_final_witness:
  "\<exists>b s. issue_signal_example signals_example 1 LONG = (b, Inr s)
     \<and> (let c = fst (signal_run (\<lambda>_. []) std_example b [(signal_port_example, envelope_example 0 0, 1, FLAT)])
        in issue_signal_example c 1 LONG = (c, Inr s))"
proof -
  obtain b s where i: "issue_signal_example signals_example 1 LONG = (b, Inr s)" using example_issues by blast
  have "signal_run (\<lambda>_. []) std_example signals_example [] = (signals_example, [])" by simp
  then show ?thesis using signal_answers_final [OF create_signals_example _ i] i by blast
qed

end
