(* ===== verification/Portfolio_Planning.thy ===== *)
theory Portfolio_Planning
  imports Strategy_Signals
begin

text \<open>
  \<open>ea.core.portfolio_planning\<close>: the frozen portfolio policy, targets, planning
  outcomes and results with their checks and canonical documents, and the public
  state of the planning authority. Values are immutable, so the encodings a
  result retains are those of its fields and are not stored.
\<close>

section \<open>Errors\<close>

abbreviation planning_error :: "outcome_code \<Rightarrow> exn" where
  "planning_error \<equiv> PortfolioPlanningError"

definition planning_code :: "outcome_code \<Rightarrow> exn" where
  "planning_code c = planning_error (if c \<in> {INVALID_TYPE, NOT_QUANTIZED, CONFLICTING_ID} then c else OUT_OF_RANGE)"

text \<open>\<open>_raise_economic\<close>, and \<open>_raise_structural\<close> of the authority for the families it is applied to.\<close>

fun planning_structural :: "exn \<Rightarrow> exn" where
  "planning_structural (EconomicValidationError c) = planning_code c"
| "planning_structural (StrategyContractError c) = planning_code c"
| "planning_structural (ExecutionMessageError c) = planning_code c"
| "planning_structural (PortfolioLedgerError c) = planning_code c"
| "planning_structural e = e"

text \<open>The two \<open>except\<close> clauses of an encoder or preflight: the module's own errors pass, any other is an invalid type.\<close>

fun planning_preflight_error :: "exn \<Rightarrow> exn" where
  "planning_preflight_error (PortfolioPlanningError c) = planning_error c"
| "planning_preflight_error _ = planning_error INVALID_TYPE"

section \<open>Policy\<close>

datatype portfolio_policy_id = PortfolioPolicyId string

fun portfolio_policy_text :: "portfolio_policy_id \<Rightarrow> string" where
  "portfolio_policy_text (PortfolioPolicyId v) = v"

definition make_portfolio_policy_id :: "string \<Rightarrow> portfolio_policy_id result" where
  "make_portfolio_policy_id v =
     guard_res (\<not> fullmatch source_namespace_pattern v) (planning_error OUT_OF_RANGE) (Inr (PortfolioPolicyId v))"

record policy_entry =
  pe_instrument :: instrument
  pe_quantity :: canonical_decimal

definition make_policy_entry :: "instrument \<Rightarrow> canonical_decimal \<Rightarrow> policy_entry result" where
  "make_policy_entry i q =
     bind_res (map_exn planning_structural (require_positive q)) (\<lambda>_.
       Inr \<lparr>pe_instrument = i, pe_quantity = q\<rparr>)"

record planning_policy =
  pp_id :: portfolio_policy_id
  pp_set_id :: spec_set_id
  pp_set_sha256 :: sha256_digest
  pp_entries :: "policy_entry list"

fun entries_positive :: "policy_entry list \<Rightarrow> unit result" where
  "entries_positive [] = Inr ()"
| "entries_positive (e # es) =
     bind_res (map_exn planning_structural (require_positive (pe_quantity e))) (\<lambda>_. entries_positive es)"

definition policy_keys :: "policy_entry list \<Rightarrow> (string \<times> string) list" where
  "policy_keys es = map (\<lambda>e. instrument_key (pe_instrument e)) es"

definition validate_planning_policy :: "planning_policy \<Rightarrow> unit result" where
  "validate_planning_policy p =
     guard_res (pp_entries p = []) (planning_error INVALID_TYPE)
    (bind_res (entries_positive (pp_entries p)) (\<lambda>_.
     guard_res (policy_keys (pp_entries p) \<noteq> sort (policy_keys (pp_entries p)) \<or> \<not> distinct (policy_keys (pp_entries p)))
       (planning_error CONFLICTING_ID) (Inr ())))"

definition planning_policy_document :: "planning_policy \<Rightarrow> json" where
  "planning_policy_document p = JObj
     [(''canonicalization'', JStr ''ea-canonical-json-v1''),
      (''entries'', JList (map (\<lambda>e. JObj [(''instrument'', instrument_document (pe_instrument e)),
         (''target_quantity'', JStr (dec_text (pe_quantity e)))]) (pp_entries p))),
      (''instrument_spec_set_id'', JStr (spec_set_id_text (pp_set_id p))),
      (''instrument_spec_set_sha256'', digest_json (pp_set_sha256 p)),
      (''policy_id'', JStr (portfolio_policy_text (pp_id p))),
      (''schema'', JStr ''ea.phase1-portfolio-policy.v1'')]"

definition planning_policy_bytes :: "planning_policy \<Rightarrow> string result" where
  "planning_policy_bytes p = bind_res (validate_planning_policy p) (\<lambda>_. Inr (json_bytes (planning_policy_document p)))"

definition planning_policy_digest :: "stdlib \<Rightarrow> planning_policy \<Rightarrow> sha256_digest result" where
  "planning_policy_digest std p =
     bind_res (planning_policy_bytes p) (\<lambda>b. Inr (domain_digest (hexdigest std) ''ea.phase1-portfolio-policy.v1'' b))"

fun entries_quantized :: "spec_set \<Rightarrow> policy_entry list \<Rightarrow> unit result" where
  "entries_quantized ss [] = Inr ()"
| "entries_quantized ss (e # es) =
     bind_res (map_exn planning_structural
        (bind_res (require_spec ss (pe_instrument e)) (\<lambda>s. require_quantized (pe_quantity e) (quantity_quantum s))))
       (\<lambda>_. entries_quantized ss es)"

definition create_planning_policy ::
  "stdlib \<Rightarrow> portfolio_policy_id \<Rightarrow> policy_entry list \<Rightarrow> spec_set \<Rightarrow> planning_policy result" where
  "create_planning_policy std i es ss =
     guard_res (es = []) (planning_error INVALID_TYPE)
    (guard_res (policy_keys es \<noteq> sort (policy_keys es)) (planning_error OUT_OF_RANGE)
    (guard_res (\<not> distinct (policy_keys es)) (planning_error CONFLICTING_ID)
    (bind_res (entries_quantized ss es) (\<lambda>_.
       let p = \<lparr>pp_id = i, pp_set_id = set_identifier ss,
              pp_set_sha256 = instrument_spec_set_digest (hexdigest std) ss, pp_entries = es\<rparr>
       in bind_res (planning_policy_bytes p) (\<lambda>_. Inr p)))))"

section \<open>Targets\<close>

record portfolio_target =
  tg_run :: run_id
  tg_id :: economic_id
  tg_correlation :: economic_id
  tg_causation :: economic_id
  tg_signal_sha256 :: sha256_digest
  tg_instrument :: instrument
  tg_position :: canonical_decimal
  tg_policy :: portfolio_policy_id
  tg_policy_sha256 :: sha256_digest
  tg_snapshot_version :: int
  tg_snapshot_sha256 :: sha256_digest
  tg_available_at :: int
  tg_dispatch :: int
  tg_spec_id :: spec_id
  tg_set_id :: spec_set_id
  tg_set_sha256 :: sha256_digest

abbreviation validate_planning_id ::
  "economic_id \<Rightarrow> economic_owner_kind option \<Rightarrow> run_id option \<Rightarrow> unit result" where
  "validate_planning_id \<equiv> validate_economic_id planning_error"

definition validate_target :: "portfolio_target \<Rightarrow> unit result" where
  "validate_target t =
     bind_res (validate_planning_id (tg_id t) (Some PORTFOLIO_TARGET) (Some (tg_run t))) (\<lambda>_.
     bind_res (validate_planning_id (tg_correlation t) (Some STRATEGY_SIGNAL) (Some (tg_run t))) (\<lambda>_.
     bind_res (validate_planning_id (tg_causation t) (Some STRATEGY_SIGNAL) (Some (tg_run t))) (\<lambda>_.
     guard_res (tg_correlation t \<noteq> tg_causation t) (planning_error CONFLICTING_ID)
    (bind_res (non_negative_uint64 planning_error (tg_snapshot_version t)) (\<lambda>_.
       positive_uint64 planning_error (tg_dispatch t))))))"

definition portfolio_target_document :: "stdlib \<Rightarrow> portfolio_target \<Rightarrow> json" where
  "portfolio_target_document std t = JObj
     [(''canonicalization'', JStr ''ea-canonical-json-v1''),
      (''causal_root_available_at'', JStr (utc_text std (tg_available_at t))),
      (''causation_id'', economic_id_document (tg_causation t)),
      (''correlation_id'', economic_id_document (tg_correlation t)),
      (''dispatch_sequence'', JInt (tg_dispatch t)),
      (''instrument'', instrument_document (tg_instrument t)),
      (''instrument_spec_set_id'', JStr (spec_set_id_text (tg_set_id t))),
      (''instrument_spec_set_sha256'', digest_json (tg_set_sha256 t)),
      (''instrument_specification_id'', JStr (spec_id_text (tg_spec_id t))),
      (''portfolio_policy_id'', JStr (portfolio_policy_text (tg_policy t))),
      (''portfolio_policy_sha256'', digest_json (tg_policy_sha256 t)),
      (''portfolio_snapshot_sha256'', digest_json (tg_snapshot_sha256 t)),
      (''portfolio_snapshot_version'', JInt (tg_snapshot_version t)),
      (''run_id'', JStr (run_text (tg_run t))),
      (''schema'', JStr ''ea.phase1-portfolio-target.v1''),
      (''signal_sha256'', digest_json (tg_signal_sha256 t)),
      (''target_id'', economic_id_document (tg_id t)),
      (''target_position'', JStr (dec_text (tg_position t)))]"

definition target_bytes :: "stdlib \<Rightarrow> portfolio_target \<Rightarrow> string result" where
  "target_bytes std t = bind_res (validate_target t) (\<lambda>_. Inr (json_bytes (portfolio_target_document std t)))"

definition target_digest :: "stdlib \<Rightarrow> portfolio_target \<Rightarrow> sha256_digest result" where
  "target_digest std t =
     bind_res (target_bytes std t) (\<lambda>b. Inr (domain_digest (hexdigest std) ''ea.phase1-portfolio-target.v1'' b))"

definition create_portfolio_target ::
  "stdlib \<Rightarrow> run_id \<Rightarrow> economic_id \<Rightarrow> strategy_signal \<Rightarrow> sha256_digest \<Rightarrow> instrument \<Rightarrow> canonical_decimal
   \<Rightarrow> planning_policy \<Rightarrow> sha256_digest \<Rightarrow> int \<Rightarrow> sha256_digest \<Rightarrow> spec_id \<Rightarrow> portfolio_target result" where
  "create_portfolio_target std run i s sd instrument position policy pd version snapshot_sha256 spec =
     (let t = \<lparr>tg_run = run, tg_id = i, tg_correlation = sg_id s, tg_causation = sg_id s, tg_signal_sha256 = sd,
            tg_instrument = instrument, tg_position = position, tg_policy = pp_id policy,
            tg_policy_sha256 = pd, tg_snapshot_version = version, tg_snapshot_sha256 = snapshot_sha256,
            tg_available_at = sg_available_at s, tg_dispatch = sg_dispatch s, tg_spec_id = spec,
            tg_set_id = pp_set_id policy, tg_set_sha256 = pp_set_sha256 policy\<rparr>
      in bind_res (target_bytes std t) (\<lambda>_. Inr t))"

section \<open>Outcomes\<close>

datatype planning_kind = INTENT_EMITTED | ALREADY_AT_TARGET | BLOCKED_UNRESOLVED_FILLS

fun planning_kind_value :: "planning_kind \<Rightarrow> string" where
  "planning_kind_value INTENT_EMITTED = ''intent_emitted''"
| "planning_kind_value ALREADY_AT_TARGET = ''already_at_target''"
| "planning_kind_value BLOCKED_UNRESOLVED_FILLS = ''blocked_unresolved_fills''"

record planning_outcome =
  po_run :: run_id
  po_target :: economic_id
  po_target_sha256 :: sha256_digest
  po_signal :: economic_id
  po_signal_sha256 :: sha256_digest
  po_policy :: portfolio_policy_id
  po_policy_sha256 :: sha256_digest
  po_snapshot_version :: int
  po_snapshot_sha256 :: sha256_digest
  po_target_before :: int
  po_target_after :: "int option"
  po_intent_before :: "int option"
  po_intent_after :: "int option"
  po_kind :: planning_kind
  po_intent :: "economic_id option"
  po_intent_sha256 :: "sha256_digest option"
  po_delta :: canonical_decimal

definition outcome_coupling :: "planning_outcome \<Rightarrow> unit result" where
  "outcome_coupling o1 =
     (if po_kind o1 = INTENT_EMITTED then
        guard_res (po_intent o1 = None \<or> coefficient (po_delta o1) = 0) (planning_error CONFLICTING_ID)
       (guard_res (case po_intent_before o1 of None \<Rightarrow> True | Some n \<Rightarrow> po_intent_after o1 \<noteq> next_allocation n)
          (planning_error CONFLICTING_ID) (Inr ()))
      else if po_intent o1 \<noteq> None then Inl (planning_error CONFLICTING_ID)
      else guard_res (po_intent_after o1 \<noteq> po_intent_before o1) (planning_error CONFLICTING_ID) (Inr ()))"

definition validate_planning_outcome :: "planning_outcome \<Rightarrow> unit result" where
  "validate_planning_outcome o1 =
     bind_res (validate_planning_id (po_target o1) (Some PORTFOLIO_TARGET) (Some (po_run o1))) (\<lambda>_.
     bind_res (validate_planning_id (po_signal o1) (Some STRATEGY_SIGNAL) (Some (po_run o1))) (\<lambda>_.
     bind_res (non_negative_uint64 planning_error (po_snapshot_version o1)) (\<lambda>_.
     bind_res (positive_uint64 planning_error (po_target_before o1)) (\<lambda>_.
     bind_res (optional_positive_uint64 planning_error (po_target_after o1)) (\<lambda>_.
     bind_res (optional_positive_uint64 planning_error (po_intent_before o1)) (\<lambda>_.
     bind_res (optional_positive_uint64 planning_error (po_intent_after o1)) (\<lambda>_.
     guard_res ((po_intent o1 = None) \<noteq> (po_intent_sha256 o1 = None)) (planning_error CONFLICTING_ID)
    (bind_res (case po_intent o1 of None \<Rightarrow> Inr ()
        | Some i \<Rightarrow> validate_planning_id i (Some PORTFOLIO_INTENT) (Some (po_run o1))) (\<lambda>_.
     bind_res (outcome_coupling o1) (\<lambda>_.
     guard_res (po_kind o1 = ALREADY_AT_TARGET \<and> coefficient (po_delta o1) \<noteq> 0) (planning_error CONFLICTING_ID)
    (guard_res (po_target_after o1 \<noteq> next_allocation (po_target_before o1)) (planning_error CONFLICTING_ID)
       (Inr ()))))))))))))"

abbreviation optional_int :: "int option \<Rightarrow> json" where
  "optional_int v \<equiv> (case v of None \<Rightarrow> JNull | Some n \<Rightarrow> JInt n)"

definition planning_outcome_document :: "planning_outcome \<Rightarrow> json" where
  "planning_outcome_document o1 = JObj
     [(''canonicalization'', JStr ''ea-canonical-json-v1''),
      (''delta'', JStr (dec_text (po_delta o1))),
      (''intent_id'', (case po_intent o1 of None \<Rightarrow> JNull | Some i \<Rightarrow> economic_id_document i)),
      (''intent_next_after'', optional_int (po_intent_after o1)),
      (''intent_next_before'', optional_int (po_intent_before o1)),
      (''intent_sha256'', (case po_intent_sha256 o1 of None \<Rightarrow> JNull | Some d \<Rightarrow> digest_json d)),
      (''kind'', JStr (planning_kind_value (po_kind o1))),
      (''portfolio_policy_id'', JStr (portfolio_policy_text (po_policy o1))),
      (''portfolio_policy_sha256'', digest_json (po_policy_sha256 o1)),
      (''portfolio_snapshot_sha256'', digest_json (po_snapshot_sha256 o1)),
      (''portfolio_snapshot_version'', JInt (po_snapshot_version o1)),
      (''run_id'', JStr (run_text (po_run o1))),
      (''schema'', JStr ''ea.phase1-planning-outcome.v1''),
      (''signal_id'', economic_id_document (po_signal o1)),
      (''signal_sha256'', digest_json (po_signal_sha256 o1)),
      (''target_id'', economic_id_document (po_target o1)),
      (''target_next_after'', optional_int (po_target_after o1)),
      (''target_next_before'', JInt (po_target_before o1)),
      (''target_sha256'', digest_json (po_target_sha256 o1))]"

definition planning_outcome_bytes :: "planning_outcome \<Rightarrow> string result" where
  "planning_outcome_bytes o1 =
     bind_res (validate_planning_outcome o1) (\<lambda>_. Inr (json_bytes (planning_outcome_document o1)))"

definition planning_outcome_digest :: "stdlib \<Rightarrow> planning_outcome \<Rightarrow> sha256_digest result" where
  "planning_outcome_digest std o1 =
     bind_res (planning_outcome_bytes o1) (\<lambda>b. Inr (domain_digest (hexdigest std) ''ea.phase1-planning-outcome.v1'' b))"

definition create_planning_outcome :: "planning_outcome \<Rightarrow> planning_outcome result" where
  "create_planning_outcome o1 = bind_res (planning_outcome_bytes o1) (\<lambda>_. Inr o1)"

section \<open>Results\<close>

record planning_result =
  pz_signal :: strategy_signal
  pz_target :: portfolio_target
  pz_snapshot :: snapshot
  pz_outcome :: planning_outcome
  pz_intent :: "order_intent option"

definition result_position :: "planning_result \<Rightarrow> canonical_decimal result" where
  "result_position r =
     (case find (\<lambda>b. pb_instrument b = sg_instrument (pz_signal r)) (sn_positions (pz_snapshot r)) of
        Some b \<Rightarrow> Inr (pb_quantity b)
      | None \<Rightarrow> canonical_decimal ''0'')"

text \<open>The exact difference of target and position equals the delta, compared at one scale.\<close>

definition delta_matches :: "canonical_decimal \<Rightarrow> canonical_decimal \<Rightarrow> canonical_decimal \<Rightarrow> bool" where
  "delta_matches target current delta \<longleftrightarrow>
     (let s = max (scale target) (max (scale current) (scale delta))
      in coefficient delta * 10 ^ (s - scale delta)
         = coefficient target * 10 ^ (s - scale target) - coefficient current * 10 ^ (s - scale current))"

definition result_lineage_ok ::
  "stdlib \<Rightarrow> planning_result \<Rightarrow> canonical_decimal \<Rightarrow> sha256_digest \<Rightarrow> sha256_digest \<Rightarrow> bool" where
  "result_lineage_ok std r current sd td \<longleftrightarrow>
     (let s = pz_signal r; t = pz_target r; sn = pz_snapshot r; oc = pz_outcome r;
          snapshot_sha256 = portfolio_snapshot_digest std sn
      in tg_run t = sg_run s \<and> po_run oc = sg_run s \<and> sn_run sn = sg_run s
       \<and> tg_correlation t = sg_id s \<and> tg_causation t = sg_id s \<and> tg_signal_sha256 t = sd
       \<and> tg_instrument t = sg_instrument s \<and> tg_available_at t = sg_available_at s \<and> tg_dispatch t = sg_dispatch s
       \<and> po_signal oc = sg_id s \<and> po_signal_sha256 oc = sd
       \<and> po_target oc = tg_id t \<and> po_target_sha256 oc = td
       \<and> delta_matches (tg_position t) current (po_delta oc)
       \<and> tg_snapshot_version t = sn_version sn \<and> tg_snapshot_sha256 t = snapshot_sha256
       \<and> tg_set_id t = sn_set_id sn \<and> tg_set_sha256 t = sn_set_sha256 sn
       \<and> po_snapshot_version oc = sn_version sn \<and> po_snapshot_sha256 oc = snapshot_sha256
       \<and> po_policy oc = tg_policy t \<and> po_policy_sha256 oc = tg_policy_sha256 t)"

definition planned_kind :: "snapshot \<Rightarrow> canonical_decimal \<Rightarrow> planning_kind" where
  "planned_kind sn delta =
     (if sn_unresolved sn \<noteq> [] then BLOCKED_UNRESOLVED_FILLS
      else if coefficient delta = 0 then ALREADY_AT_TARGET else INTENT_EMITTED)"

definition result_intent_ids :: "planning_result \<Rightarrow> unit result" where
  "result_intent_ids r = (case pz_intent r of
      None \<Rightarrow> Inr ()
    | Some n \<Rightarrow> (let run = Some (sg_run (pz_signal r)) in
        bind_res (validate_planning_id (in_intent_id n) (Some PORTFOLIO_INTENT) run) (\<lambda>_.
        bind_res (validate_planning_id (in_correlation n) (Some STRATEGY_SIGNAL) run) (\<lambda>_.
        bind_res (validate_planning_id (in_causation n) (Some PORTFOLIO_TARGET) run) (\<lambda>_.
          validate_planning_id (target_id (in_target n)) (Some PORTFOLIO_TARGET) run)))))"

definition result_intent_ok :: "stdlib \<Rightarrow> planning_result \<Rightarrow> order_intent \<Rightarrow> sha256_digest \<Rightarrow> bool" where
  "result_intent_ok std r n td \<longleftrightarrow>
     (let s = pz_signal r; t = pz_target r; oc = pz_outcome r; delta = po_delta oc
      in po_kind oc = INTENT_EMITTED \<and> po_intent oc = Some (in_intent_id n)
       \<and> po_intent_sha256 oc = Some (order_intent_digest std n)
       \<and> in_side n = (if coefficient delta > 0 then BUY else SELL)
       \<and> coefficient (in_quantity n) = \<bar>coefficient delta\<bar> \<and> scale (in_quantity n) = scale delta
       \<and> in_run n = sg_run s \<and> in_correlation n = sg_id s \<and> in_causation n = tg_id t
       \<and> in_instrument n = tg_instrument t \<and> in_available_at n = sg_available_at s \<and> in_dispatch n = sg_dispatch s
       \<and> target_id (in_target n) = tg_id t \<and> td = target_sha256 (in_target n)
       \<and> in_snapshot_version n = sn_version (pz_snapshot r) \<and> in_spec_id n = tg_spec_id t
       \<and> in_set_id n = tg_set_id t \<and> in_set_sha256 n = tg_set_sha256 t)"

definition validate_planning_result :: "stdlib \<Rightarrow> planning_result \<Rightarrow> unit result" where
  "validate_planning_result std r =
     bind_res (result_intent_ids r) (\<lambda>_.
     bind_res (signal_bytes std (pz_signal r)) (\<lambda>_.
     bind_res (target_bytes std (pz_target r)) (\<lambda>_.
     bind_res (planning_outcome_bytes (pz_outcome r)) (\<lambda>_.
     bind_res (result_position r) (\<lambda>current.
     bind_res (signal_digest std (pz_signal r)) (\<lambda>sd.
     bind_res (target_digest std (pz_target r)) (\<lambda>td.
     guard_res (\<not> result_lineage_ok std r current sd td) (planning_error CONFLICTING_ID)
    (guard_res (po_kind (pz_outcome r) \<noteq> planned_kind (pz_snapshot r) (po_delta (pz_outcome r)))
       (planning_error CONFLICTING_ID)
    (case pz_intent r of
       None \<Rightarrow> guard_res (po_kind (pz_outcome r) = INTENT_EMITTED) (planning_error CONFLICTING_ID) (Inr ())
     | Some n \<Rightarrow> guard_res (\<not> result_intent_ok std r n td) (planning_error CONFLICTING_ID) (Inr ()))))))))))"

definition planning_result_document :: "stdlib \<Rightarrow> planning_result \<Rightarrow> json" where
  "planning_result_document std r = JObj
     [(''canonicalization'', JStr ''ea-canonical-json-v1''),
      (''intent'', (case pz_intent r of None \<Rightarrow> JNull | Some n \<Rightarrow> order_intent_document std n)),
      (''outcome'', planning_outcome_document (pz_outcome r)),
      (''portfolio_snapshot'', snapshot_document (pz_snapshot r)),
      (''schema'', JStr ''ea.phase1-planning-result.v1''),
      (''signal'', signal_document std (pz_signal r)),
      (''target'', portfolio_target_document std (pz_target r))]"

definition planning_result_bytes :: "stdlib \<Rightarrow> planning_result \<Rightarrow> string result" where
  "planning_result_bytes std r =
     bind_res (map_exn planning_preflight_error (validate_planning_result std r)) (\<lambda>_.
       Inr (json_bytes (planning_result_document std r)))"

definition planning_result_digest :: "stdlib \<Rightarrow> planning_result \<Rightarrow> sha256_digest result" where
  "planning_result_digest std r =
     bind_res (planning_result_bytes std r) (\<lambda>b. Inr (domain_digest (hexdigest std) ''ea.phase1-planning-result.v1'' b))"

definition create_planning_result :: "stdlib \<Rightarrow> planning_result \<Rightarrow> planning_result result" where
  "create_planning_result std r =
     bind_res (signal_bytes std (pz_signal r)) (\<lambda>_.
     bind_res (target_bytes std (pz_target r)) (\<lambda>_.
     bind_res (planning_outcome_bytes (pz_outcome r)) (\<lambda>_.
     bind_res (validate_planning_result std r) (\<lambda>_. Inr r))))"

text \<open>The objects handed to the risk authority are the ones of the result: equal values here.\<close>

definition validate_risk_handoff :: "stdlib \<Rightarrow> planning_result \<Rightarrow> order_intent \<Rightarrow> snapshot \<Rightarrow> unit result" where
  "validate_risk_handoff std r n sn =
     bind_res (planning_result_bytes std r) (\<lambda>_.
     guard_res (pz_intent r \<noteq> Some n \<or> pz_snapshot r \<noteq> sn) (planning_error CONFLICTING_ID)
    (guard_res (po_kind (pz_outcome r) \<noteq> INTENT_EMITTED \<or> po_intent (pz_outcome r) \<noteq> Some (in_intent_id n)
        \<or> po_intent_sha256 (pz_outcome r) \<noteq> Some (order_intent_digest std n)
        \<or> po_snapshot_version (pz_outcome r) \<noteq> sn_version sn
        \<or> po_snapshot_sha256 (pz_outcome r) \<noteq> portfolio_snapshot_digest std sn)
       (planning_error CONFLICTING_ID) (Inr ())))"

fun submission_error :: "exn \<Rightarrow> exn" where
  "submission_error (StrategyContractError c) =
     planning_error (if c \<in> {INVALID_TYPE, CONFLICTING_ID} then c else OUT_OF_RANGE)"
| "submission_error e = e"

definition planning_submission_digest :: "stdlib \<Rightarrow> strategy_signal \<Rightarrow> sha256_digest result" where
  "planning_submission_digest std s =
     bind_res (map_exn submission_error (signal_bytes std s)) (\<lambda>b.
       Inr (domain_digest (hexdigest std) ''ea.phase1-portfolio-planning-submission.v1'' (u64be (length b) @ b)))"

section \<open>The public state\<close>

record planning_state =
  ps_run :: run_id
  ps_halted :: bool
  ps_target_next :: "int option"
  ps_intent_next :: "int option"
  ps_last :: "int option"
  ps_count :: int
  ps_conflict :: "conflict_evidence option"

definition validate_planning_state :: "planning_state \<Rightarrow> unit result" where
  "validate_planning_state v =
     bind_res (optional_positive_uint64 planning_error (ps_target_next v)) (\<lambda>_.
     bind_res (optional_positive_uint64 planning_error (ps_intent_next v)) (\<lambda>_.
     bind_res (optional_positive_uint64 planning_error (ps_last v)) (\<lambda>_.
     bind_res (non_negative_uint64 planning_error (ps_count v)) (\<lambda>_.
     bind_res (case ps_conflict v of None \<Rightarrow> Inr ()
        | Some c \<Rightarrow> bind_res (validate_conflict c) (\<lambda>_.
            guard_res (cf_authority c \<noteq> PLANNING_AUTHORITY \<or> cf_run c \<noteq> ps_run v)
              (planning_error CONFLICTING_ID) (Inr ()))) (\<lambda>_.
     guard_res (ps_halted v = (ps_conflict v = None)) (planning_error CONFLICTING_ID) (Inr ()))))))"

definition planning_state_document :: "planning_state \<Rightarrow> json" where
  "planning_state_document v = JObj
     [(''canonicalization'', JStr ''ea-canonical-json-v1''),
      (''conflict'', (case ps_conflict v of None \<Rightarrow> JNull | Some c \<Rightarrow> conflict_document c)),
      (''halted'', JBool (ps_halted v)),
      (''intent_next'', optional_int (ps_intent_next v)),
      (''last_new_signal_dispatch_sequence'', optional_int (ps_last v)),
      (''result_count'', JInt (ps_count v)),
      (''run_id'', JStr (run_text (ps_run v))),
      (''schema'', JStr ''ea.phase1-portfolio-planning-authority-state.v1''),
      (''target_next'', optional_int (ps_target_next v))]"

definition planning_state_bytes :: "planning_state \<Rightarrow> string result" where
  "planning_state_bytes v =
     bind_res (map_exn planning_preflight_error (validate_planning_state v)) (\<lambda>_.
       Inr (json_bytes (planning_state_document v)))"

definition planning_state_digest :: "stdlib \<Rightarrow> planning_state \<Rightarrow> sha256_digest result" where
  "planning_state_digest std v =
     bind_res (planning_state_bytes v) (\<lambda>b.
       Inr (domain_digest (hexdigest std) ''ea.phase1-portfolio-planning-authority-state.v1'' b))"

definition create_planning_state :: "planning_state \<Rightarrow> planning_state result" where
  "create_planning_state v = bind_res (planning_state_bytes v) (\<lambda>_. Inr v)"

end
