(* ===== verification/Planning_Authority.thy ===== *)
theory Planning_Authority
  imports Portfolio_Planning Authority
begin

text \<open>
  \<open>ea.portfolio.planning\<close>: the single owner of targets and portfolio intents. A
  signal is planned against the snapshot the ledger shows at the call, an argument
  of each operation; a repeated signal is answered from the record, a conflicting
  or late one halts the authority. The retained copies of the specification set
  and the execution policy are equal to the values given.
\<close>

section \<open>State\<close>

record planning_replay =
  zr_signal_bytes :: string
  zr_signal_sha256 :: sha256_digest
  zr_submitted :: sha256_digest
  zr_snapshot_bytes :: string
  zr_snapshot_sha256 :: sha256_digest
  zr_result :: planning_result
  zr_result_bytes :: string
  zr_result_sha256 :: sha256_digest

record planning_authority =
  za_run :: run_id
  za_specs :: spec_set
  za_specs_bytes :: string
  za_specs_sha256 :: sha256_digest
  za_policy :: planning_policy
  za_policy_bytes :: string
  za_policy_sha256 :: sha256_digest
  za_execution :: execution_policy
  za_public :: planning_state
  za_replay :: "economic_id \<rightharpoonup> planning_replay"

definition entry_for :: "planning_authority \<Rightarrow> instrument \<Rightarrow> policy_entry option" where
  "entry_for a i = map_of (rev (map (\<lambda>e. (pe_instrument e, e)) (pp_entries (za_policy a)))) i"

definition plan_spec_for :: "planning_authority \<Rightarrow> instrument \<Rightarrow> execution_spec option" where
  "plan_spec_for a i = map_of (rev (map (\<lambda>s. (spec_instrument s, s)) (specifications (za_specs a)))) i"

section \<open>Creation and policy change\<close>

definition copy_entries :: "spec_set \<Rightarrow> policy_entry list \<Rightarrow> policy_entry list result" where
  "copy_entries ss es = map_res (\<lambda>e.
     bind_res (require_spec ss (pe_instrument e)) (\<lambda>s.
     bind_res (canonical_decimal (dec_text (pe_quantity e))) (\<lambda>q. make_policy_entry (spec_instrument s) q))) es"

fun planning_copy_error :: "exn \<Rightarrow> exn" where
  "planning_copy_error (PortfolioPlanningError c) = planning_code c"
| "planning_copy_error (EconomicValidationError c) = planning_code c"
| "planning_copy_error _ = planning_error INVALID_TYPE"

definition retained_policy :: "stdlib \<Rightarrow> planning_policy \<Rightarrow> spec_set \<Rightarrow> (planning_policy \<times> string \<times> sha256_digest) result" where
  "retained_policy std p ss =
     bind_res (copy_entries ss (pp_entries p)) (\<lambda>es.
     bind_res (create_planning_policy std (pp_id p) es ss) (\<lambda>retained.
     bind_res (planning_policy_bytes retained) (\<lambda>b.
     bind_res (planning_policy_digest std retained) (\<lambda>d. Inr (retained, b, d)))))"

definition snapshot_bound :: "run_id \<Rightarrow> spec_set_id \<Rightarrow> sha256_digest \<Rightarrow> snapshot \<Rightarrow> bool" where
  "snapshot_bound run i sha sn \<longleftrightarrow> sn_run sn = run \<and> sn_set_id sn = i \<and> sn_set_sha256 sn = sha"

definition create_planning_authority ::
  "stdlib \<Rightarrow> run_id \<Rightarrow> snapshot \<Rightarrow> spec_set \<Rightarrow> planning_policy \<Rightarrow> execution_policy \<Rightarrow> int \<Rightarrow> int \<Rightarrow> int \<Rightarrow> int option
   \<Rightarrow> planning_authority result" where
  "create_planning_authority std run sn ss p execution first_target first_intent planned latest =
     guard_res (\<not> (1 \<le> first_target \<and> first_target \<le> MAX_UINT64)) (planning_error OUT_OF_RANGE)
    (guard_res (\<not> (1 \<le> first_intent \<and> first_intent \<le> MAX_UINT64)) (planning_error OUT_OF_RANGE)
    (guard_res (\<not> (0 \<le> planned \<and> planned \<le> MAX_UINT64)) (planning_error OUT_OF_RANGE)
    (guard_res (case latest of None \<Rightarrow> False | Some n \<Rightarrow> \<not> (1 \<le> n \<and> n \<le> MAX_UINT64)) (planning_error OUT_OF_RANGE)
    (let sha = instrument_spec_set_digest (hexdigest std) ss in
     guard_res (pp_set_id p \<noteq> set_identifier ss \<or> pp_set_sha256 p \<noteq> sha) (planning_error CONFLICTING_ID)
    (bind_res (planning_policy_bytes p) (\<lambda>original_bytes.
     bind_res (planning_policy_digest std p) (\<lambda>original_sha256.
     bind_res (map_exn planning_copy_error (retained_policy std p ss)) (\<lambda>(retained, b, d).
     guard_res (b \<noteq> original_bytes \<or> d \<noteq> original_sha256) (planning_error CONFLICTING_ID)
    (guard_res (\<not> snapshot_bound run (set_identifier ss) sha sn) (planning_error CONFLICTING_ID)
    (bind_res (create_planning_state \<lparr>ps_run = run, ps_halted = False, ps_target_next = Some first_target,
         ps_intent_next = Some first_intent, ps_last = latest, ps_count = planned, ps_conflict = None\<rparr>) (\<lambda>public.
       Inr \<lparr>za_run = run, za_specs = ss, za_specs_bytes = canonical_instrument_spec_set_bytes ss, za_specs_sha256 = sha,
            za_policy = retained, za_policy_bytes = b, za_policy_sha256 = d, za_execution = execution,
            za_public = public, za_replay = Map.empty\<rparr>)))))))))))"

text \<open>\<open>_rebind_flat_policy\<close>: other quantities, only while flat and unhalted.\<close>

definition rebind_flat_policy ::
  "stdlib \<Rightarrow> planning_authority \<Rightarrow> snapshot \<Rightarrow> planning_policy \<Rightarrow> planning_authority \<times> unit result" where
  "rebind_flat_policy std a sn p =
     (if ps_halted (za_public a) \<or> list_ex (\<lambda>b. coefficient (pb_quantity b) \<noteq> 0) (sn_positions sn)
      then (a, Inl (planning_error CONFLICTING_ID))
      else if pp_id p \<noteq> pp_id (za_policy a) \<or> pp_set_id p \<noteq> set_identifier (za_specs a)
           \<or> pp_set_sha256 p \<noteq> za_specs_sha256 a
           \<or> pe_instrument ` set (pp_entries p) \<noteq> pe_instrument ` set (pp_entries (za_policy a))
      then (a, Inl (planning_error CONFLICTING_ID))
      else case retained_policy std p (za_specs a) of
          Inl e \<Rightarrow> (a, Inl e)
        | Inr (retained, b, d) \<Rightarrow>
            (a\<lparr>za_policy := retained, za_policy_bytes := b, za_policy_sha256 := d\<rparr>, Inr ()))"

definition lookup_planning :: "planning_authority \<Rightarrow> economic_id \<Rightarrow> planning_result option result" where
  "lookup_planning a i =
     bind_res (validate_planning_id i (Some STRATEGY_SIGNAL) (Some (za_run a))) (\<lambda>_.
       Inr (map_option zr_result (za_replay a i)))"

section \<open>Conflicts\<close>

definition publish_planning_conflict ::
  "planning_authority \<Rightarrow> authority_conflict_kind \<Rightarrow> strategy_signal \<Rightarrow> economic_id option \<Rightarrow> sha256_digest option
   \<Rightarrow> sha256_digest \<Rightarrow> planning_authority \<times> exn" where
  "publish_planning_conflict a kind s occupied existing submitted =
     (let p = za_public a
      in if ps_conflict p \<noteq> None then (a, planning_error CONFLICTING_ID)
         else case bind_res (map_exn planning_structural (create_conflict \<lparr>cf_authority = PLANNING_AUTHORITY, cf_kind = kind,
                 cf_run = za_run a, cf_occupied = occupied, cf_dispatch = sg_dispatch s, cf_last = ps_last p,
                 cf_existing = existing, cf_submitted = submitted\<rparr>))
               (\<lambda>c. create_planning_state \<lparr>ps_run = za_run a, ps_halted = True, ps_target_next = ps_target_next p,
                 ps_intent_next = ps_intent_next p, ps_last = ps_last p, ps_count = ps_count p, ps_conflict = Some c\<rparr>) of
             Inl e \<Rightarrow> (a, e)
           | Inr public \<Rightarrow> (a\<lparr>za_public := public\<rparr>, planning_error CONFLICTING_ID))"

section \<open>The planned delta\<close>

definition planning_subtract :: "canonical_decimal \<Rightarrow> canonical_decimal \<Rightarrow> canonical_decimal result" where
  "planning_subtract left right =
     (let s = max (scale left) (scale right);
          c = coefficient left * 10 ^ (s - scale left) - coefficient right * 10 ^ (s - scale right)
      in map_exn planning_structural (canonical_decimal (scaled_text c s)))"

definition planning_absolute :: "canonical_decimal \<Rightarrow> canonical_decimal result" where
  "planning_absolute v =
     (if coefficient v \<ge> 0 then Inr v
      else map_exn planning_structural
        (canonical_decimal (if prefix ''-'' (dec_text v) then drop 1 (dec_text v) else dec_text v)))"

fun signed_target :: "canonical_decimal \<Rightarrow> signal_direction \<Rightarrow> canonical_decimal result" where
  "signed_target q FLAT = canonical_decimal ''0''"
| "signed_target q LONG = Inr q"
| "signed_target q SHORT = canonical_decimal (''-'' @ dec_text q)"

definition current_position :: "snapshot \<Rightarrow> instrument \<Rightarrow> canonical_decimal result" where
  "current_position sn i =
     bind_res (canonical_decimal ''0'') (\<lambda>zero.
       Inr (case find (\<lambda>b. pb_instrument b = i) (sn_positions sn) of Some b \<Rightarrow> pb_quantity b | None \<Rightarrow> zero))"

definition plan_delta ::
  "snapshot \<Rightarrow> strategy_signal \<Rightarrow> policy_entry \<Rightarrow> execution_spec \<Rightarrow> (canonical_decimal \<times> canonical_decimal) result" where
  "plan_delta sn s entry specification =
     (let q = quantity_quantum specification in
      bind_res (map_exn planning_structural (signed_target (pe_quantity entry) (sg_direction s))) (\<lambda>target.
      bind_res (map_exn planning_structural (current_position sn (sg_instrument s))) (\<lambda>current.
      bind_res (map_exn planning_structural (require_quantized target q)) (\<lambda>_.
      bind_res (map_exn planning_structural (require_quantized current q)) (\<lambda>_.
      bind_res (planning_subtract target current) (\<lambda>delta.
      bind_res (map_exn planning_structural (require_quantized delta q)) (\<lambda>_.
        Inr (target, delta))))))))"

section \<open>One new signal\<close>

definition plan_target ::
  "stdlib \<Rightarrow> planning_authority \<Rightarrow> snapshot \<Rightarrow> strategy_signal \<Rightarrow> sha256_digest \<Rightarrow> execution_spec \<Rightarrow> canonical_decimal \<Rightarrow> int
   \<Rightarrow> (portfolio_target \<times> sha256_digest) result" where
  "plan_target std a sn s sd specification position target_next =
     map_exn planning_preflight_error
      (bind_res (make_economic_id (za_run a) PORTFOLIO_TARGET target_next) (\<lambda>i.
       bind_res (create_portfolio_target std (za_run a) i s sd (sg_instrument s) position (za_policy a)
          (za_policy_sha256 a) (sn_version sn) (portfolio_snapshot_digest std sn) (specification_id specification)) (\<lambda>t.
       bind_res (target_bytes std t) (\<lambda>_.
       bind_res (target_digest std t) (\<lambda>d. Inr (t, d))))))"

fun intent_error :: "exn \<Rightarrow> exn" where
  "intent_error (ExecutionMessageError c) = planning_code c"
| "intent_error (EconomicValidationError c) = planning_code c"
| "intent_error _ = planning_error INVALID_TYPE"

definition plan_intent ::
  "stdlib \<Rightarrow> planning_authority \<Rightarrow> snapshot \<Rightarrow> strategy_signal \<Rightarrow> portfolio_target \<Rightarrow> sha256_digest \<Rightarrow> canonical_decimal
   \<Rightarrow> (order_intent option \<times> sha256_digest option \<times> int option) result" where
  "plan_intent std a sn s t td delta =
     (let before = ps_intent_next (za_public a) in
      if planned_kind sn delta \<noteq> INTENT_EMITTED then Inr (None, None, before)
      else case before of
          None \<Rightarrow> Inl (planning_error OUT_OF_RANGE)
        | Some n \<Rightarrow>
            bind_res (planning_absolute delta) (\<lambda>quantity.
            bind_res (map_exn intent_error
              (bind_res (make_economic_id (za_run a) PORTFOLIO_INTENT n) (\<lambda>i.
               bind_res (make_target_lineage (tg_id t) td) (\<lambda>lineage.
                 create_order_intent std (za_run a) i (sg_id s) lineage (sg_instrument s)
                   (if coefficient delta > 0 then BUY else SELL) quantity (sn_version sn) (sg_available_at s)
                   (sg_dispatch s) (za_specs a) (za_execution a))))) (\<lambda>intent.
              Inr (Some intent, Some (order_intent_digest std intent), next_allocation n))))"

definition outcome_of ::
  "planning_authority \<Rightarrow> snapshot \<Rightarrow> strategy_signal \<Rightarrow> sha256_digest \<Rightarrow> sha256_digest \<Rightarrow> portfolio_target \<Rightarrow> sha256_digest
   \<Rightarrow> int \<Rightarrow> int option \<Rightarrow> order_intent option \<Rightarrow> sha256_digest option \<Rightarrow> canonical_decimal \<Rightarrow> planning_outcome" where
  "outcome_of a sn s sd snapshot_sha256 t td target_next intent_after intent intent_sha256 delta =
     \<lparr>po_run = za_run a, po_target = tg_id t, po_target_sha256 = td, po_signal = sg_id s, po_signal_sha256 = sd,
      po_policy = pp_id (za_policy a), po_policy_sha256 = za_policy_sha256 a,
      po_snapshot_version = tg_snapshot_version t, po_snapshot_sha256 = snapshot_sha256,
      po_target_before = target_next, po_target_after = next_allocation target_next,
      po_intent_before = ps_intent_next (za_public a), po_intent_after = intent_after,
      po_kind = planned_kind sn delta, po_intent = map_option in_intent_id intent,
      po_intent_sha256 = intent_sha256, po_delta = delta\<rparr>"

definition plan_new ::
  "stdlib \<Rightarrow> planning_authority \<Rightarrow> snapshot \<Rightarrow> strategy_signal \<Rightarrow> string \<Rightarrow> sha256_digest \<Rightarrow> sha256_digest
   \<Rightarrow> (planning_replay \<times> planning_state) result" where
  "plan_new std a sn s sb sd submitted =
     (case (entry_for a (sg_instrument s), plan_spec_for a (sg_instrument s)) of
        (Some entry, Some specification) \<Rightarrow>
          bind_res (planning_policy_bytes (za_policy a)) (\<lambda>pb.
          bind_res (planning_policy_digest std (za_policy a)) (\<lambda>pd.
          guard_res (pb \<noteq> za_policy_bytes a \<or> pd \<noteq> za_policy_sha256 a) (planning_error CONFLICTING_ID)
         (guard_res (canonical_instrument_spec_set_bytes (za_specs a) \<noteq> za_specs_bytes a
             \<or> instrument_spec_set_digest (hexdigest std) (za_specs a) \<noteq> za_specs_sha256 a) (planning_error CONFLICTING_ID)
         (case ps_target_next (za_public a) of
            None \<Rightarrow> Inl (planning_error OUT_OF_RANGE)
          | Some target_next \<Rightarrow>
              guard_res (\<not> snapshot_bound (za_run a) (set_identifier (za_specs a)) (za_specs_sha256 a) sn)
                (planning_error CONFLICTING_ID)
             (let snapshot_sha256 = portfolio_snapshot_digest std sn in
              bind_res (plan_delta sn s entry specification) (\<lambda>(position, delta).
              bind_res (plan_target std a sn s sd specification position target_next) (\<lambda>(t, td).
              bind_res (plan_intent std a sn s t td delta) (\<lambda>(intent, intent_sha256, intent_after).
              bind_res (map_exn planning_preflight_error
                (bind_res (create_planning_outcome
                   (outcome_of a sn s sd snapshot_sha256 t td target_next intent_after intent intent_sha256 delta)) (\<lambda>oc.
                 bind_res (create_planning_result std \<lparr>pz_signal = s, pz_target = t, pz_snapshot = sn, pz_outcome = oc,
                   pz_intent = intent\<rparr>) (\<lambda>r.
                 bind_res (planning_result_bytes std r) (\<lambda>rb.
                 bind_res (planning_result_digest std r) (\<lambda>rd. Inr (r, rb, rd))))))) (\<lambda>(r, rb, rd).
              bind_res (map_exn planning_preflight_error
                (create_planning_state \<lparr>ps_run = za_run a, ps_halted = False, ps_target_next = next_allocation target_next,
                   ps_intent_next = intent_after, ps_last = Some (sg_dispatch s),
                   ps_count = ps_count (za_public a) + 1, ps_conflict = None\<rparr>)) (\<lambda>public.
                Inr (\<lparr>zr_signal_bytes = sb, zr_signal_sha256 = sd, zr_submitted = submitted,
                      zr_snapshot_bytes = json_bytes (snapshot_document sn), zr_snapshot_sha256 = snapshot_sha256,
                      zr_result = r, zr_result_bytes = rb, zr_result_sha256 = rd\<rparr>, public)))))))))))
      | _ \<Rightarrow> Inl (planning_error CONFLICTING_ID))"

definition plan_portfolio ::
  "stdlib \<Rightarrow> planning_authority \<Rightarrow> snapshot \<Rightarrow> strategy_signal \<Rightarrow> planning_authority \<times> planning_result result" where
  "plan_portfolio std a sn s =
     (case bind_res (map_exn planning_structural (signal_bytes std s)) (\<lambda>sb.
           bind_res (map_exn planning_structural (signal_digest std s)) (\<lambda>sd.
           bind_res (planning_submission_digest std s) (\<lambda>submitted. Inr (sb, sd, submitted)))) of
        Inl e \<Rightarrow> (a, Inl e)
      | Inr (sb, sd, submitted) \<Rightarrow>
          let p = za_public a in
          (case za_replay a (sg_id s) of
             Some y \<Rightarrow>
               if zr_signal_bytes y = sb then (a, Inr (zr_result y))
               else apsnd Inl (publish_planning_conflict a IDENTITY_REUSE s (Some (sg_id s)) (Some (zr_signal_sha256 y)) submitted)
           | None \<Rightarrow>
               if (case ps_last p of None \<Rightarrow> False | Some n \<Rightarrow> sg_dispatch s \<le> n)
               then apsnd Inl (publish_planning_conflict a NON_MONOTONE_DISPATCH s None None submitted)
               else if ps_halted p then (a, Inl (planning_error CONFLICTING_ID))
               else if sg_run s \<noteq> za_run a then (a, Inl (planning_error CONFLICTING_ID))
               else (case plan_new std a sn s sb sd submitted of
                   Inl e \<Rightarrow> (a, Inl e)
                 | Inr (y, public) \<Rightarrow>
                     (a\<lparr>za_public := public, za_replay := (za_replay a)(sg_id s \<mapsto> y)\<rparr>, Inr (zr_result y)))))"

end
