(* ===== verification/Planning_Laws.thy ===== *)
theory Planning_Laws
  imports Planning_Authority Risk_Laws Signal_Runs
begin

text \<open>
  The exact arithmetic of one plan and the ways a call of the planning authority
  ends.
\<close>

section \<open>Signs\<close>

lemma scaled_text_neg:
  assumes "0 < c" "normalized c s"
  shows "scaled_text (- c) s = ''-'' @ scaled_text c s"
proof -
  have "(- c) mod 10 \<noteq> 0" if "c mod 10 \<noteq> 0" using that by presburger
  then have "normalized (- c) s" using assms(2) by (auto simp: normalized_def)
  then show ?thesis using assms by (simp add: scaled_text_body)
qed

lemma negated_text:
  assumes "wf_dec q" "0 < dval q" "canonical_decimal (''-'' @ dec_text q) = Inr d"
  shows "wf_dec d" "dval d = - dval q"
proof -
  have "''-'' @ dec_text q = scaled_text (- coefficient q) (scale q)"
    using assms(1,2) scaled_text_neg [of "coefficient q" "scale q"] by (simp add: wf_dec_iff)
  from canonical_scaled_val [OF assms(3) [unfolded this]]
  show "wf_dec d" "dval d = - dval q" by (simp_all add: dval_def)
qed

lemma planning_absolute_spec:
  assumes "planning_absolute v = Inr w" "wf_dec v"
  shows "wf_dec w" "dval w = \<bar>dval v\<bar>"
proof -
  have "wf_dec w \<and> dval w = \<bar>dval v\<bar>"
  proof (cases "coefficient v \<ge> 0")
    case True
    then show ?thesis using assms by (simp add: planning_absolute_def)
  next
    case False
    let ?c = "- coefficient v"
    have "(- coefficient v) mod 10 \<noteq> 0" if "coefficient v mod 10 \<noteq> 0" using that by presburger
    then have n: "normalized ?c (scale v)" using assms(2) by (auto simp: wf_dec_iff normalized_def)
    have "dec_text v = ''-'' @ scaled_text ?c (scale v)"
      using scaled_text_neg [OF _ n] False assms(2) by (simp add: wf_dec_iff)
    then have "canonical_decimal (scaled_text ?c (scale v)) = Inr w"
      using assms(1) False by (simp add: planning_absolute_def)
    from canonical_scaled_val [OF this] show ?thesis using False by (simp add: dval_def abs_if divide_less_0_iff)
  qed
  then show "wf_dec w" "dval w = \<bar>dval v\<bar>" by blast+
qed

fun direction_sign :: "signal_direction \<Rightarrow> int" where
  "direction_sign LONG = 1"
| "direction_sign FLAT = 0"
| "direction_sign SHORT = -1"

lemma signed_target_spec:
  assumes "signed_target q dir = Inr t" "wf_dec q" "0 < dval q"
  shows "dval t = of_int (direction_sign dir) * dval q"
  using assms negated_text [OF assms(2,3)] by (cases dir) (auto simp: canonical_zero_val)

lemma planning_subtract_spec:
  assumes "planning_subtract a b = Inr d"
  shows "wf_dec d" "dval d = dval a - dval b"
proof -
  let ?s = "max (scale a) (scale b)"
  have d: "canonical_decimal (scaled_text (coefficient a * 10 ^ (?s - scale a) - coefficient b * 10 ^ (?s - scale b)) ?s) = Inr d"
    using assms by (simp add: planning_subtract_def Let_def)
  show "wf_dec d" by (rule canonical_scaled_val [OF d])
  have "of_int (coefficient x * 10 ^ (?s - scale x)) / 10 ^ ?s = dval x" if "scale x \<le> ?s" for x
    using that by (simp add: dval_def field_simps flip: power_add)
  from this [of a] this [of b] show "dval d = dval a - dval b"
    by (simp add: canonical_scaled_val [OF d] diff_divide_distrib)
qed

lemma current_position_spec: "current_position sn i = Inr c \<Longrightarrow> dval c = position_value sn i"
  by (auto simp: current_position_def canonical_zero_text position_value_def dval_def split: option.splits)

lemma plan_delta_spec:
  assumes "plan_delta sn s entry specification = Inr (t, d)" "wf_dec (pe_quantity entry)" "0 < dval (pe_quantity entry)"
  shows "wf_dec d" "dval t = of_int (direction_sign (sg_direction s)) * dval (pe_quantity entry)"
    "dval d = dval t - position_value sn (sg_instrument s)"
  using assms by (auto simp: plan_delta_def Let_def planning_subtract_spec dest: signed_target_spec current_position_spec)

section \<open>The parts of a plan\<close>

lemma validate_economic_id_Inr:
  "validate_economic_id err i (Some k) (Some r) = Inr u \<Longrightarrow> owner_kind i = k \<and> run_id i = r"
  by (auto simp: validate_economic_id_def)

lemma planning_id_Inr:
  "make_economic_id r k n = Inr i \<Longrightarrow> i = \<lparr>run_id = r, owner_kind = k, owner_sequence = n\<rparr>"
  by (auto simp: make_economic_id_def require_uint64_def)

lemma plan_target_Inr:
  assumes "plan_target std a sn s sd specification position n = Inr (t, td)"
  shows "t = \<lparr>tg_run = za_run a, tg_id = \<lparr>run_id = za_run a, owner_kind = PORTFOLIO_TARGET, owner_sequence = n\<rparr>,
      tg_correlation = sg_id s, tg_causation = sg_id s, tg_signal_sha256 = sd, tg_instrument = sg_instrument s,
      tg_position = position, tg_policy = pp_id (za_policy a), tg_policy_sha256 = za_policy_sha256 a,
      tg_snapshot_version = sn_version sn, tg_snapshot_sha256 = portfolio_snapshot_digest std sn,
      tg_available_at = sg_available_at s, tg_dispatch = sg_dispatch s, tg_spec_id = specification_id specification,
      tg_set_id = pp_set_id (za_policy a), tg_set_sha256 = pp_set_sha256 (za_policy a)\<rparr>"
    "target_digest std t = Inr td"
  using assms by (auto simp: plan_target_def create_portfolio_target_def Let_def dest!: planning_id_Inr)

lemma create_order_intent_Inr:
  assumes "create_order_intent std run i c l ins side q v t d ss p = Inr n"
  shows "in_run n = run" "in_intent_id n = i" "in_correlation n = c" "in_causation n = target_id l" "in_target n = l"
    "in_instrument n = ins" "in_side n = side" "in_quantity n = q" "in_snapshot_version n = v" "in_available_at n = t"
    "in_dispatch n = d" "0 < dval q"
  using assms by (auto simp: create_order_intent_def require_quantity_Inr_iff)

text \<open>What the plan says of its intent.\<close>

definition intent_matches :: "planning_authority \<Rightarrow> snapshot \<Rightarrow> strategy_signal \<Rightarrow> portfolio_target \<Rightarrow> sha256_digest
    \<Rightarrow> canonical_decimal \<Rightarrow> order_intent \<Rightarrow> bool" where
  "intent_matches a sn s t td delta n \<longleftrightarrow>
     in_run n = za_run a \<and> in_correlation n = sg_id s \<and> in_causation n = tg_id t
     \<and> in_target n = \<lparr>target_id = tg_id t, target_sha256 = td\<rparr> \<and> in_instrument n = sg_instrument s
     \<and> in_side n = (if 0 < dval delta then BUY else SELL) \<and> 0 < dval (in_quantity n) \<and> wf_dec (in_quantity n)
     \<and> of_int (side_sign (in_side n)) * dval (in_quantity n) = dval delta
     \<and> in_snapshot_version n = sn_version sn \<and> in_available_at n = sg_available_at s \<and> in_dispatch n = sg_dispatch s"

lemma plan_intent_cases:
  assumes "plan_intent std a sn s t td delta = Inr (intent, sha, after)" "wf_dec delta"
  obtains (none) "intent = None" "after = ps_intent_next (za_public a)" "sn_unresolved sn \<noteq> [] \<or> dval delta = 0"
  | (some) n k where "intent = Some n" "ps_intent_next (za_public a) = Some k" "after = next_allocation k"
      "in_intent_id n = \<lparr>run_id = za_run a, owner_kind = PORTFOLIO_INTENT, owner_sequence = k\<rparr>"
      "intent_matches a sn s t td delta n" "sn_unresolved sn = []" "dval delta \<noteq> 0"
proof (cases "planned_kind sn delta = INTENT_EMITTED")
  case False
  then show thesis using assms none by (auto simp: plan_intent_def planned_kind_def Let_def split: if_splits)
next
  case True
  then have k: "sn_unresolved sn = []" "dval delta \<noteq> 0" by (auto simp: planned_kind_def split: if_splits)
  obtain m where m: "ps_intent_next (za_public a) = Some m"
    using assms True by (cases "ps_intent_next (za_public a)") (auto simp: plan_intent_def)
  obtain q i l n where n: "planning_absolute delta = Inr q" "make_economic_id (za_run a) PORTFOLIO_INTENT m = Inr i"
    "make_target_lineage (tg_id t) td = Inr l"
    "create_order_intent std (za_run a) i (sg_id s) l (sg_instrument s) (if coefficient delta > 0 then BUY else SELL) q
       (sn_version sn) (sg_available_at s) (sg_dispatch s) (za_specs a) (za_execution a) = Inr n"
    "intent = Some n" "after = next_allocation m"
    using assms True m by (auto simp: plan_intent_def)
  have l: "l = \<lparr>target_id = tg_id t, target_sha256 = td\<rparr>" using n(3) by (auto simp: make_target_lineage_def)
  note c = create_order_intent_Inr [OF n(4)] and q = planning_absolute_spec [OF n(1) assms(2)]
  have "of_int (side_sign (in_side n)) * dval (in_quantity n) = dval delta"
    using k(2) by (auto simp: c q abs_if)
  then have "intent_matches a sn s t td delta n"
    using c(12) q(1) by (simp add: intent_matches_def c(1-11) l)
  then show thesis using some [OF n(5) m n(6)] k planning_id_Inr [OF n(2)] c(2) by simp
qed

section \<open>One new plan\<close>

definition policy_ok :: "planning_authority \<Rightarrow> bool" where
  "policy_ok a \<longleftrightarrow> (\<forall>e \<in> set (pp_entries (za_policy a)). wf_dec (pe_quantity e) \<and> 0 < dval (pe_quantity e))"

definition planned :: "stdlib \<Rightarrow> planning_authority \<Rightarrow> snapshot \<Rightarrow> strategy_signal \<Rightarrow> planning_result \<Rightarrow> bool" where
  "planned std a sn s r \<longleftrightarrow>
     pz_signal r = s \<and> pz_snapshot r = sn \<and> sg_run s = za_run a \<and> sn_run sn = za_run a
     \<and> (\<exists>entry \<in> set (pp_entries (za_policy a)). pe_instrument entry = sg_instrument s
          \<and> dval (tg_position (pz_target r)) = of_int (direction_sign (sg_direction s)) * dval (pe_quantity entry))
     \<and> tg_causation (pz_target r) = sg_id s \<and> tg_instrument (pz_target r) = sg_instrument s
     \<and> tg_dispatch (pz_target r) = sg_dispatch s
     \<and> dval (po_delta (pz_outcome r)) = dval (tg_position (pz_target r)) - position_value sn (sg_instrument s)
     \<and> po_kind (pz_outcome r) = planned_kind sn (po_delta (pz_outcome r))
     \<and> (pz_intent r = None \<longleftrightarrow> sn_unresolved sn \<noteq> [] \<or> dval (po_delta (pz_outcome r)) = 0)
     \<and> (\<forall>n. pz_intent r = Some n \<longrightarrow> (\<exists>td. target_digest std (pz_target r) = Inr td
          \<and> intent_matches a sn s (pz_target r) td (po_delta (pz_outcome r)) n))"

lemma plan_new_Inr:
  assumes "plan_new std a sn s sb sd submitted = Inr (y, public)" "policy_ok a" "sg_run s = za_run a"
  obtains n r where "ps_target_next (za_public a) = Some n" "zr_result y = r" "zr_signal_bytes y = sb"
    "tg_id (pz_target r) = \<lparr>run_id = za_run a, owner_kind = PORTFOLIO_TARGET, owner_sequence = n\<rparr>"
    "planned std a sn s r"
    "ps_run public = za_run a" "\<not> ps_halted public" "ps_conflict public = None" "ps_target_next public = next_allocation n"
    "ps_last public = Some (sg_dispatch s)" "ps_count public = ps_count (za_public a) + 1"
    "pz_intent r = None \<and> ps_intent_next public = ps_intent_next (za_public a)
     \<or> (\<exists>m k. pz_intent r = Some m \<and> ps_intent_next (za_public a) = Some k \<and> ps_intent_next public = next_allocation k
        \<and> in_intent_id m = \<lparr>run_id = za_run a, owner_kind = PORTFOLIO_INTENT, owner_sequence = k\<rparr>)"
proof -
  obtain entry sp where e: "entry_for a (sg_instrument s) = Some entry" "plan_spec_for a (sg_instrument s) = Some sp"
    using assms(1) by (auto simp: plan_new_def split: option.splits)
  obtain n where n: "ps_target_next (za_public a) = Some n"
    using assms(1) by (auto simp: plan_new_def e split: option.splits)
  obtain position delta t td intent sha intent_after
    where b: "snapshot_bound (za_run a) (set_identifier (za_specs a)) (za_specs_sha256 a) sn" and
    d: "plan_delta sn s entry sp = Inr (position, delta)" and
    t: "plan_target std a sn s sd sp position n = Inr (t, td)" and
    i: "plan_intent std a sn s t td delta = Inr (intent, sha, intent_after)" and
    y: "zr_result y = \<lparr>pz_signal = s, pz_target = t, pz_snapshot = sn,
          pz_outcome = outcome_of a sn s sd (portfolio_snapshot_digest std sn) t td n intent_after intent sha delta, pz_intent = intent\<rparr>"
       "zr_signal_bytes y = sb" and
    p: "public = \<lparr>ps_run = za_run a, ps_halted = False, ps_target_next = next_allocation n, ps_intent_next = intent_after,
          ps_last = Some (sg_dispatch s), ps_count = ps_count (za_public a) + 1, ps_conflict = None\<rparr>"
    using assms(1)
    by (auto simp: plan_new_def e n Let_def create_planning_outcome_def create_planning_result_def create_planning_state_def)
  have entry: "entry \<in> set (pp_entries (za_policy a))" "pe_instrument entry = sg_instrument s"
    using map_of_SomeD [OF e(1) [unfolded entry_for_def]] by auto
  then have q: "wf_dec (pe_quantity entry)" "0 < dval (pe_quantity entry)" using assms(2) by (auto simp: policy_ok_def)
  note d' = plan_delta_spec [OF d q] and t' = plan_target_Inr [OF t]
  have "planned std a sn s (zr_result y)"
    using entry d' t' b assms(3) plan_intent_cases [OF i d'(1)]
    by (auto simp: planned_def y outcome_of_def snapshot_bound_def elim!: plan_intent_cases [OF i d'(1)])
  then show thesis
  proof (rule that [OF n refl y(2), rotated])
    show "pz_intent (zr_result y) = None \<and> ps_intent_next public = ps_intent_next (za_public a)
     \<or> (\<exists>m k. pz_intent (zr_result y) = Some m \<and> ps_intent_next (za_public a) = Some k \<and> ps_intent_next public = next_allocation k
        \<and> in_intent_id m = \<lparr>run_id = za_run a, owner_kind = PORTFOLIO_INTENT, owner_sequence = k\<rparr>)"
      by (rule plan_intent_cases [OF i d'(1)]) (simp_all add: y p)
  qed (simp_all add: y t' p)
qed

end
