(* ===== verification/Planning_Runs.thy ===== *)
theory Planning_Runs
  imports Planning_Laws
begin

text \<open>
  Runs of the planning authority: signals planned against the ledger of the moment
  and policy changes while flat. The books number targets and intents in the order
  of the signals; an answered signal stays answered.
\<close>

section \<open>The ways a call ends\<close>

definition halt_planning :: "planning_authority \<Rightarrow> conflict_evidence \<Rightarrow> planning_authority" where
  "halt_planning a c = (let p = za_public a in a\<lparr>za_public := \<lparr>ps_run = za_run a, ps_halted = True,
     ps_target_next = ps_target_next p, ps_intent_next = ps_intent_next p, ps_last = ps_last p, ps_count = ps_count p,
     ps_conflict = Some c\<rparr>\<rparr>)"

lemma publish_planning_conflict_cases:
  assumes "publish_planning_conflict a kind s occupied existing submitted = (b, x)"
  obtains (same) "b = a"
  | (halted) c where "ps_conflict (za_public a) = None" "x = planning_error CONFLICTING_ID" "b = halt_planning a c"
  using assms by (auto simp: publish_planning_conflict_def halt_planning_def Let_def create_planning_state_def split: if_splits sum.splits)

abbreviation signal_text :: "stdlib \<Rightarrow> strategy_signal \<Rightarrow> string" where
  "signal_text std s \<equiv> json_bytes (signal_document std s)"

lemma signal_bytes_Inr: "signal_bytes std s = Inr b \<Longrightarrow> b = signal_text std s"
  by (auto simp: signal_bytes_def)

lemma plan_portfolio_cases:
  assumes "plan_portfolio std a sn s = (b, x)"
  obtains (failed) z where "b = a" "x = Inl z"
  | (replayed) y where "b = a" "x = Inr (zr_result y)" "za_replay a (sg_id s) = Some y" "zr_signal_bytes y = signal_text std s"
      "validate_signal s = Inr ()"
  | (conflict) c where "ps_conflict (za_public a) = None" "x = Inl (planning_error CONFLICTING_ID)" "b = halt_planning a c"
  | (planned) y public sd submitted where "x = Inr (zr_result y)" "za_replay a (sg_id s) = None" "\<not> ps_halted (za_public a)"
      "\<And>m. ps_last (za_public a) = Some m \<Longrightarrow> m < sg_dispatch s" "sg_run s = za_run a"
      "plan_new std a sn s (signal_text std s) sd submitted = Inr (y, public)" "validate_signal s = Inr ()"
      "b = a\<lparr>za_public := public, za_replay := (za_replay a)(sg_id s \<mapsto> y)\<rparr>"
proof (cases "bind_res (map_exn planning_structural (signal_bytes std s)) (\<lambda>sb.
           bind_res (map_exn planning_structural (signal_digest std s)) (\<lambda>sd.
           bind_res (planning_submission_digest std s) (\<lambda>submitted. Inr (sb, sd, submitted))))")
  case (Inl e)
  then show thesis using assms failed [of e] by (auto simp: plan_portfolio_def)
next
  case (Inr q)
  obtain sb sd submitted where q: "q = (sb, sd, submitted)" by (cases q)
  then have sb: "sb = signal_text std s" and v: "validate_signal s = Inr ()" using Inr by (auto simp: signal_bytes_def)
  note eval = plan_portfolio_def [of std a sn s, unfolded Inr q sb sum.case prod.case Let_def]
  show thesis
  proof (cases "za_replay a (sg_id s)")
    case (Some y)
    show thesis
    proof (cases "zr_signal_bytes y = signal_text std s")
      case True
      then show thesis using assms Some v replayed [OF _ _ Some True] by (simp add: eval)
    next
      case False
      obtain c z where p: "publish_planning_conflict a IDENTITY_REUSE s (Some (sg_id s)) (Some (zr_signal_sha256 y)) submitted = (c, z)"
        by fastforce
      with assms False Some have x: "b = c" "x = Inl z" by (simp_all add: eval)
      show thesis using p by (cases rule: publish_planning_conflict_cases) (use x failed conflict in auto)
    qed
  next
    case None
    show thesis
    proof (cases "case ps_last (za_public a) of None \<Rightarrow> False | Some n \<Rightarrow> sg_dispatch s \<le> n")
      case True
      obtain c z where p: "publish_planning_conflict a NON_MONOTONE_DISPATCH s None None submitted = (c, z)" by fastforce
      with assms True None have x: "b = c" "x = Inl z" by (simp_all add: eval)
      show thesis using p by (cases rule: publish_planning_conflict_cases) (use x failed conflict in auto)
    next
      case False
      then have l: "\<And>m. ps_last (za_public a) = Some m \<Longrightarrow> m < sg_dispatch s" by simp
      show thesis
      proof (cases "ps_halted (za_public a) \<or> sg_run s \<noteq> za_run a")
        case True
        then show thesis using assms None False failed by (auto simp: eval split: if_splits)
      next
        case nh: False
        show thesis
        proof (cases "plan_new std a sn s (signal_text std s) sd submitted")
          case (Inl z)
          then have "b = a" "x = Inl z" using assms None False nh by (auto simp: eval)
          then show thesis by (rule failed)
        next
          case (Inr yp)
          obtain y public where yp: "yp = (y, public)" by (cases yp)
          have "b = a\<lparr>za_public := public, za_replay := (za_replay a)(sg_id s \<mapsto> y)\<rparr>" "x = Inr (zr_result y)"
            using assms None False nh Inr yp by (auto simp: eval)
          then show thesis using planned [OF _ None _ l] nh Inr yp v by blast
        qed
      qed
    qed
  qed
qed

section \<open>Runs\<close>

datatype planning_command = Plan snapshot strategy_signal | Rebind snapshot planning_policy

definition planning_step :: "stdlib \<Rightarrow> planning_authority \<Rightarrow> planning_command \<Rightarrow> planning_authority" where
  "planning_step std a c = (case c of Plan sn s \<Rightarrow> fst (plan_portfolio std a sn s)
     | Rebind sn p \<Rightarrow> fst (rebind_flat_policy std a sn p))"

text \<open>The results a run adds, in order: the answers that were not replays.\<close>

definition planning_new :: "stdlib \<Rightarrow> planning_authority \<Rightarrow> planning_command \<Rightarrow> planning_result list" where
  "planning_new std a c = (case c of
      Plan sn s \<Rightarrow> (case snd (plan_portfolio std a sn s) of
          Inr r \<Rightarrow> if za_replay a (sg_id s) = None then [r] else [] | Inl _ \<Rightarrow> [])
    | Rebind sn p \<Rightarrow> [])"

fun planning_run :: "stdlib \<Rightarrow> planning_authority \<Rightarrow> planning_command list \<Rightarrow> planning_authority \<times> planning_result list" where
  "planning_run std a [] = (a, [])"
| "planning_run std a (c # cs) =
     (case planning_run std (planning_step std a c) cs of (b, rs) \<Rightarrow> (b, planning_new std a c @ rs))"

lemma make_policy_entry_Inr: "make_policy_entry i q = Inr e \<Longrightarrow> pe_quantity e = q \<and> 0 < dval q"
  by (auto simp: make_policy_entry_def)

lemma copied_entries: "copy_entries ss es = Inr fs \<Longrightarrow> \<forall>e \<in> set fs. wf_dec (pe_quantity e) \<and> 0 < dval (pe_quantity e)"
proof (induction es arbitrary: fs)
  case (Cons e es)
  then show ?case by (auto simp: copy_entries_def dest!: make_policy_entry_Inr)
qed (simp add: copy_entries_def)

lemma retained_entries_ok:
  "retained_policy std p ss = Inr (q, b, d) \<Longrightarrow> \<forall>e \<in> set (pp_entries q). wf_dec (pe_quantity e) \<and> 0 < dval (pe_quantity e)"
  by (auto simp: retained_policy_def create_planning_policy_def Let_def dest: copied_entries)

lemma rebind_cases:
  assumes "rebind_flat_policy std a sn p = (b, x)"
  obtains (failed) z where "b = a" "x = Inl z"
  | (rebound) q t d where "b = a\<lparr>za_policy := q, za_policy_bytes := t, za_policy_sha256 := d\<rparr>" "x = Inr ()"
      "\<not> ps_halted (za_public a)" "\<forall>e \<in> set (pp_entries q). wf_dec (pe_quantity e) \<and> 0 < dval (pe_quantity e)"
      "\<And>i. position_value sn i = 0"
proof (cases "\<exists>z. b = a \<and> x = Inl z")
  case True
  then show thesis using failed by blast
next
  case False
  then have g: "\<not> (ps_halted (za_public a) \<or> list_ex (\<lambda>b. coefficient (pb_quantity b) \<noteq> 0) (sn_positions sn))"
    using assms unfolding rebind_flat_policy_def by (metis prod.inject)
  have k: "\<not> (pp_id p \<noteq> pp_id (za_policy a) \<or> pp_set_id p \<noteq> set_identifier (za_specs a)
           \<or> pp_set_sha256 p \<noteq> za_specs_sha256 a
           \<or> pe_instrument ` set (pp_entries p) \<noteq> pe_instrument ` set (pp_entries (za_policy a)))"
    using assms False g unfolding rebind_flat_policy_def by (metis prod.inject)
  have e: "(case retained_policy std p (za_specs a) of
          Inl e \<Rightarrow> (a, Inl e)
        | Inr (retained, b, d) \<Rightarrow>
            (a\<lparr>za_policy := retained, za_policy_bytes := b, za_policy_sha256 := d\<rparr>, Inr ())) = (b, x)"
    using assms g k unfolding rebind_flat_policy_def by (simp only: if_False)
  obtain q t d where r: "retained_policy std p (za_specs a) = Inr (q, t, d)" "x = Inr ()"
    "b = a\<lparr>za_policy := q, za_policy_bytes := t, za_policy_sha256 := d\<rparr>"
    using e False by (auto split: sum.splits)
  have "position_value sn i = 0" for i
    using g by (auto simp: position_value_def list_ex_iff find_Some_iff split: option.splits)
  then show thesis using rebound [OF r(3,2) _ retained_entries_ok [OF r(1)]] g by simp
qed

lemma planning_step_cases:
  obtains (same) "planning_step std a c = a" "planning_new std a c = []"
  | (conflict) e where "ps_conflict (za_public a) = None" "planning_step std a c = halt_planning a e" "planning_new std a c = []"
  | (rebound) q t d where "planning_step std a c = a\<lparr>za_policy := q, za_policy_bytes := t, za_policy_sha256 := d\<rparr>"
      "planning_new std a c = []" "\<not> ps_halted (za_public a)"
      "\<forall>e \<in> set (pp_entries q). wf_dec (pe_quantity e) \<and> 0 < dval (pe_quantity e)"
  | (planned) sn s y public sd submitted where "c = Plan sn s" "za_replay a (sg_id s) = None" "\<not> ps_halted (za_public a)"
      "\<And>m. ps_last (za_public a) = Some m \<Longrightarrow> m < sg_dispatch s" "sg_run s = za_run a"
      "plan_new std a sn s (signal_text std s) sd submitted = Inr (y, public)" "validate_signal s = Inr ()"
      "planning_step std a c = a\<lparr>za_public := public, za_replay := (za_replay a)(sg_id s \<mapsto> y)\<rparr>"
      "planning_new std a c = [zr_result y]"
proof (cases c)
  case (Plan sn s)
  obtain b x where p: "plan_portfolio std a sn s = (b, x)" by fastforce
  then have "planning_step std a c = b" "planning_new std a c = (case x of Inr r \<Rightarrow> if za_replay a (sg_id s) = None then [r] else [] | Inl _ \<Rightarrow> [])"
    by (simp_all add: planning_step_def planning_new_def Plan)
  with p show thesis using Plan
    by (cases rule: plan_portfolio_cases) (auto intro: same conflict planned)
next
  case (Rebind sn p)
  obtain b x where r: "rebind_flat_policy std a sn p = (b, x)" by fastforce
  then have "planning_step std a c = b" "planning_new std a c = []"
    by (simp_all add: planning_step_def planning_new_def Rebind)
  with r show thesis by (cases rule: rebind_cases) (auto intro: same rebound)
qed

section \<open>The books\<close>

definition result_intents :: "planning_result list \<Rightarrow> order_intent list" where
  "result_intents rs = concat (map (\<lambda>r. case pz_intent r of None \<Rightarrow> [] | Some n \<Rightarrow> [n]) rs)"

lemma result_intents_simps [simp]:
  "result_intents [] = []"
  "result_intents (rs @ [r]) = result_intents rs @ (case pz_intent r of None \<Rightarrow> [] | Some n \<Rightarrow> [n])"
  by (simp_all add: result_intents_def)

definition planning_books :: "stdlib \<Rightarrow> run_id \<Rightarrow> int \<Rightarrow> int \<Rightarrow> int option \<Rightarrow> int \<Rightarrow> planning_authority \<Rightarrow> planning_result list \<Rightarrow> bool" where
  "planning_books std run ft fi latest count0 a rs \<longleftrightarrow>
     za_run a = run \<and> policy_ok a
     \<and> numbered_from run PORTFOLIO_TARGET ft (map (\<lambda>r. tg_id (pz_target r)) rs) (ps_target_next (za_public a))
     \<and> numbered_from run PORTFOLIO_INTENT fi (map in_intent_id (result_intents rs)) (ps_intent_next (za_public a))
     \<and> sorted_wrt (<) (map (\<lambda>r. sg_dispatch (pz_signal r)) rs)
     \<and> ps_last (za_public a) = (if rs = [] then latest else Some (sg_dispatch (pz_signal (last rs))))
     \<and> (\<forall>m r. latest = Some m \<longrightarrow> r \<in> set rs \<longrightarrow> m < sg_dispatch (pz_signal r))
     \<and> ps_count (za_public a) = count0 + int (length rs)
     \<and> (ps_halted (za_public a) \<longleftrightarrow> ps_conflict (za_public a) \<noteq> None)
     \<and> dom (za_replay a) = (\<lambda>r. sg_id (pz_signal r)) ` set rs
     \<and> distinct (map (\<lambda>r. sg_id (pz_signal r)) rs)
     \<and> (\<forall>r \<in> set rs. \<exists>y. za_replay a (sg_id (pz_signal r)) = Some y \<and> zr_result y = r
          \<and> zr_signal_bytes y = signal_text std (pz_signal r) \<and> validate_signal (pz_signal r) = Inr ())"

lemma planning_books_step:
  assumes "planning_books std run ft fi l k a rs"
  shows "planning_books std run ft fi l k (planning_step std a c) (rs @ planning_new std a c)"
proof (cases rule: planning_step_cases [of std a c])
  case same
  then show ?thesis using assms by simp
next
  case (conflict e)
  then show ?thesis using assms by (simp add: planning_books_def halt_planning_def Let_def policy_ok_def)
next
  case (rebound q t d)
  then show ?thesis using assms by (simp add: planning_books_def policy_ok_def)
next
  case (planned sn s y public sd submitted)
  have run: "za_run a = run" and ok: "policy_ok a" using assms by (simp_all add: planning_books_def)
  obtain n r where p: "ps_target_next (za_public a) = Some n" "zr_result y = r" "zr_signal_bytes y = signal_text std s"
    "tg_id (pz_target r) = \<lparr>run_id = za_run a, owner_kind = PORTFOLIO_TARGET, owner_sequence = n\<rparr>"
    "planned std a sn s r"
    "ps_run public = za_run a" "\<not> ps_halted public" "ps_conflict public = None" "ps_target_next public = next_allocation n"
    "ps_last public = Some (sg_dispatch s)" "ps_count public = ps_count (za_public a) + 1"
    "pz_intent r = None \<and> ps_intent_next public = ps_intent_next (za_public a)
     \<or> (\<exists>m k. pz_intent r = Some m \<and> ps_intent_next (za_public a) = Some k \<and> ps_intent_next public = next_allocation k
        \<and> in_intent_id m = \<lparr>run_id = za_run a, owner_kind = PORTFOLIO_INTENT, owner_sequence = k\<rparr>)"
    by (rule plan_new_Inr [OF planned(6) ok planned(5)])
  have s: "pz_signal r = s" using p(5) by (simp add: planned_def)
  have "sg_id s \<notin> (\<lambda>r. sg_id (pz_signal r)) ` set rs" using planned(2) assms by (auto simp: planning_books_def)
  moreover have "numbered_from run PORTFOLIO_TARGET ft (map (\<lambda>r. tg_id (pz_target r)) (rs @ [r])) (ps_target_next public)"
    using numbered_from_extend [of run PORTFOLIO_TARGET ft "map (\<lambda>r. tg_id (pz_target r)) rs" n] assms p(1,4,9)
    by (simp add: planning_books_def run)
  moreover have "numbered_from run PORTFOLIO_INTENT fi (map in_intent_id (result_intents (rs @ [r]))) (ps_intent_next public)"
    using p(12)
  proof (elim disjE exE conjE)
    fix m k assume m: "pz_intent r = Some m" "ps_intent_next (za_public a) = Some k" "ps_intent_next public = next_allocation k"
      "in_intent_id m = \<lparr>run_id = za_run a, owner_kind = PORTFOLIO_INTENT, owner_sequence = k\<rparr>"
    then show ?thesis
      using numbered_from_extend [of run PORTFOLIO_INTENT fi "map in_intent_id (result_intents rs)" k] assms
      by (simp add: planning_books_def run)
  qed (use assms in \<open>simp add: planning_books_def\<close>)
  moreover have "sorted_wrt (<) (map (\<lambda>r. sg_dispatch (pz_signal r)) rs @ [sg_dispatch s])"
    using assms planned(4) by (intro sorted_wrt_append_last) (auto simp: planning_books_def last_map split: if_splits)
  moreover have "\<forall>m. l = Some m \<longrightarrow> m < sg_dispatch s"
  proof (intro allI impI)
    fix m assume m: "l = Some m"
    show "m < sg_dispatch s"
    proof (cases "rs = []")
      case True
      then show ?thesis using m assms planned(4) by (simp add: planning_books_def)
    next
      case False
      then have "m < sg_dispatch (pz_signal (last rs))" "ps_last (za_public a) = Some (sg_dispatch (pz_signal (last rs)))"
        using m assms by (auto simp: planning_books_def)
      then show ?thesis using planned(4) by force
    qed
  qed
  moreover have "za_replay a (sg_id (pz_signal q)) \<noteq> None \<and> sg_id (pz_signal q) \<noteq> sg_id s" if "q \<in> set rs" for q
    using that assms planned(2) by (force simp: planning_books_def)
  ultimately show ?thesis using assms unfolding planned(8,9) planning_books_def p(2)
    by (auto simp: s p(2,3,6-8,10,11) planned(7) policy_ok_def)
qed

lemma planning_books_run:
  "planning_books std run ft fi l k a rs \<Longrightarrow> planning_run std a cs = (b, new) \<Longrightarrow> planning_books std run ft fi l k b (rs @ new)"
proof (induction cs arbitrary: a rs new)
  case (Cons c cs)
  obtain b' new' where r: "planning_run std (planning_step std a c) cs = (b', new')" by fastforce
  show ?case
    using Cons.IH [OF planning_books_step [OF Cons.prems(1), of c], of new'] Cons.prems(2) r by (simp add: r)
qed simp

lemma planning_books_created:
  assumes "create_planning_authority std run sn ss p execution ft fi k l = Inr a"
  shows "planning_books std run ft fi l k a []"
  using assms by (auto simp: create_planning_authority_def create_planning_state_def planning_books_def policy_ok_def Let_def
      intro: numbered_from_start dest: retained_entries_ok split: option.splits)

end
