(* ===== verification/Planning_Claims.thy ===== *)
theory Planning_Claims
  imports Planning_Runs Risk_Claims
begin

text \<open>
  What the planning authority promises: a planned intent moves the position exactly
  to the target, the books number targets and intents in the order of the signals,
  and answers are final. The example plans one long signal from a flat position.
\<close>

section \<open>From the books\<close>

lemma planning_books_of_run:
  assumes "create_planning_authority std run sn ss p execution ft fi k l = Inr a" "planning_run std a cs = (b, rs)"
  shows "planning_books std run ft fi l k b rs"
  using planning_books_run [OF planning_books_created [OF assms(1)] assms(2)] by simp

lemma plan_new_planned:
  assumes "plan_new std a sn s sb sd submitted = Inr (y, public)" "policy_ok a" "sg_run s = za_run a"
  shows "planned std a sn s (zr_result y)"
  by (rule plan_new_Inr [OF assms]) simp

lemma planned_step:
  assumes "plan_portfolio std a sn s = (b, Inr r)" "b \<noteq> a" "policy_ok a"
  shows "planned std a sn s r"
  using assms(1)
proof (cases rule: plan_portfolio_cases)
  case (planned y public sd submitted)
  then show ?thesis using plan_new_planned [OF planned(6) assms(3) planned(5)] by simp
qed (use assms(2) in auto)

lemma planned_after_run:
  assumes "create_planning_authority std run sn0 ss p execution ft fi k latest = Inr a0" "planning_run std a0 cs = (a, rs)"
    "plan_portfolio std a sn s = (b, Inr r)" "b \<noteq> a"
  shows "planned std a sn s r" "za_run a = run" "policy_ok a"
proof -
  show "za_run a = run" "policy_ok a" using planning_books_of_run [OF assms(1,2)] by (simp_all add: planning_books_def)
  then show "planned std a sn s r" using planned_step [OF assms(3,4)] by simp
qed

lemma planning_run_source:
  assumes "planning_run std a cs = (b, rs)" "planning_books std run ft fi l k a qs" "r \<in> set rs"
  shows "\<exists>c sn s. Plan sn s \<in> set cs \<and> planned std c sn s r"
  using assms
proof (induction cs arbitrary: a qs rs)
  case (Cons c cs)
  obtain new where n: "planning_run std (planning_step std a c) cs = (b, new)" "rs = planning_new std a c @ new"
    using Cons.prems(1) by (auto split: prod.splits)
  show ?case
  proof (cases "r \<in> set new")
    case True
    then show ?thesis using Cons.IH [OF n(1) planning_books_step [OF Cons.prems(2)]] by auto
  next
    case False
    then have r: "r \<in> set (planning_new std a c)" using Cons.prems(3) n(2) by simp
    have ok: "policy_ok a" using Cons.prems(2) by (simp add: planning_books_def)
    show ?thesis
    proof (cases rule: planning_step_cases [of std a c])
      case (planned sn s y public sd submitted)
      then have "planned std a sn s r" using plan_new_planned [OF planned(6) ok planned(5)] r by simp
      then show ?thesis using planned(1) by auto
    qed (use r in simp_all)
  qed
qed simp

lemma planning_replays:
  assumes "za_replay a (sg_id s) = Some y" "zr_signal_bytes y = signal_text std s" "validate_signal s = Inr ()"
  shows "plan_portfolio std a sn s = (a, Inr (zr_result y))"
  using assms by (simp add: plan_portfolio_def signal_bytes_def signal_digest_def planning_submission_digest_def)

lemma replay_kept: "za_replay a i = Some y \<Longrightarrow> za_replay (planning_step std a c) i = Some y"
  by (cases rule: planning_step_cases [of std a c]) (auto simp: halt_planning_def Let_def)

lemma replay_kept_run: "za_replay a i = Some y \<Longrightarrow> za_replay (fst (planning_run std a cs)) i = Some y"
  by (induction cs arbitrary: a) (simp_all add: replay_kept case_prod_beta)

lemma halted_planning:
  "ps_halted (za_public a) \<Longrightarrow> ps_conflict (za_public a) \<noteq> None \<Longrightarrow> planning_run std a cs = (a, [])"
proof (induction cs)
  case (Cons c cs)
  have "planning_step std a c = a \<and> planning_new std a c = []"
    by (cases rule: planning_step_cases [of std a c]) (use Cons.prems in auto)
  then show ?case using Cons by simp
qed simp

lemma answered_signal:
  assumes "plan_portfolio std a sn s = (b, Inr r)"
  shows "validate_signal s = Inr () \<and> (\<exists>y. za_replay b (sg_id s) = Some y \<and> zr_signal_bytes y = signal_text std s \<and> zr_result y = r)"
  using assms
proof (cases rule: plan_portfolio_cases)
  case (planned y public sd submitted)
  have "zr_signal_bytes y = signal_text std s"
    using planned(6) by (auto simp: plan_new_def Let_def split: option.splits)
  then show ?thesis using planned by simp
qed auto

section \<open>An example\<close>

definition planning_policy_example :: planning_policy where
  "planning_policy_example = \<lparr>pp_id = PortfolioPolicyId ''p'', pp_set_id = InstrumentSpecSetId ''s'',
     pp_set_sha256 = Sha256Digest [], pp_entries = [\<lparr>pe_instrument = Instrument (VenueId ''X'') ''A'', pe_quantity = dec_3\<rparr>]\<rparr>"

definition planning_example :: planning_authority where
  "planning_example = \<lparr>za_run = RunId ''r'', za_specs = set_example,
     za_specs_bytes = canonical_instrument_spec_set_bytes set_example, za_specs_sha256 = Sha256Digest [],
     za_policy = planning_policy_example, za_policy_bytes = json_bytes (planning_policy_document planning_policy_example),
     za_policy_sha256 = Sha256Digest [], za_execution = policy_example,
     za_public = \<lparr>ps_run = RunId ''r'', ps_halted = False, ps_target_next = Some 1, ps_intent_next = Some 1,
       ps_last = None, ps_count = 0, ps_conflict = None\<rparr>, za_replay = Map.empty\<rparr>"

definition long_signal :: strategy_signal where
  "long_signal = \<lparr>sg_run = RunId ''r'', sg_id = id_of STRATEGY_SIGNAL 1, sg_instrument = Instrument (VenueId ''X'') ''A'',
     sg_direction = LONG, sg_market_sha256 = Sha256Digest [], sg_available_at = 2, sg_dispatch = 1\<rparr>"

lemma planning_policy_example_bytes:
  "planning_policy_bytes planning_policy_example = Inr (json_bytes (planning_policy_document planning_policy_example))"
proof -
  have "validate_planning_policy planning_policy_example = Inr ()" by code_simp
  then show ?thesis by (simp add: planning_policy_bytes_def)
qed

lemma retained_example:
  "retained_policy std_example planning_policy_example set_example
   = Inr (planning_policy_example, json_bytes (planning_policy_document planning_policy_example), Sha256Digest [])"
proof -
  have "copy_entries set_example (pp_entries planning_policy_example) = Inr (pp_entries planning_policy_example)" by code_simp
  moreover have "entries_quantized set_example (pp_entries planning_policy_example) = Inr ()" by code_simp
  moreover have "\<lparr>pp_id = pp_id planning_policy_example, pp_set_id = set_identifier set_example,
      pp_set_sha256 = Sha256Digest [], pp_entries = pp_entries planning_policy_example\<rparr> = planning_policy_example"
    by (simp add: planning_policy_example_def set_example_def)
  moreover have "pp_entries planning_policy_example \<noteq> []" "length (pp_entries planning_policy_example) = 1"
    by (simp_all add: planning_policy_example_def)
  moreover have "policy_keys (pp_entries planning_policy_example) = sort (policy_keys (pp_entries planning_policy_example))"
    "distinct (policy_keys (pp_entries planning_policy_example))"
    by (simp_all add: planning_policy_example_def policy_keys_def)
  ultimately show ?thesis
    by (simp add: retained_policy_def create_planning_policy_def planning_policy_digest_def planning_policy_example_bytes Let_def)
qed

lemma create_planning_example:
  "create_planning_authority std_example (RunId ''r'') snapshot_example set_example planning_policy_example policy_example 1 1 0 None
   = Inr planning_example"
proof -
  have s: "set_identifier set_example = InstrumentSpecSetId ''s''" "pp_set_id planning_policy_example = InstrumentSpecSetId ''s''"
    "pp_set_sha256 planning_policy_example = Sha256Digest []" by (simp_all add: set_example_def planning_policy_example_def)
  show ?thesis
    by (simp add: create_planning_authority_def Let_def retained_example planning_policy_digest_def planning_policy_example_bytes s
        snapshot_bound_def snapshot_example_def create_planning_state_def planning_state_bytes_def validate_planning_state_def
        optional_positive_uint64_def positive_uint64_def non_negative_uint64_def MAX_UINT64_def planning_example_def)
qed

text \<open>The intent the example plans: the example intent with the lineage, time and dispatch of this target.\<close>

abbreviation planned_intent :: order_intent where
  "planned_intent \<equiv> intent_example\<lparr>in_target := \<lparr>target_id = id_of PORTFOLIO_TARGET 1, target_sha256 = Sha256Digest []\<rparr>,
     in_available_at := 2, in_dispatch := 1\<rparr>"

lemma example_plans:
  "\<exists>b r. plan_portfolio std_example planning_example snapshot_example long_signal = (b, Inr r) \<and> b \<noteq> planning_example
     \<and> pz_intent r = Some planned_intent"
proof -
  let ?p = "za_public planning_example"
  have e: "za_run planning_example = RunId ''r''" "za_specs planning_example = set_example" "za_replay planning_example = Map.empty"
    "za_policy planning_example = planning_policy_example" "za_policy_sha256 planning_example = Sha256Digest []"
    "za_specs_sha256 planning_example = Sha256Digest []" "za_execution planning_example = policy_example"
    "za_specs_bytes planning_example = canonical_instrument_spec_set_bytes set_example"
    "za_policy_bytes planning_example = json_bytes (planning_policy_document planning_policy_example)"
    "ps_halted ?p = False" "ps_target_next ?p = Some 1" "ps_intent_next ?p = Some 1" "ps_last ?p = None" "ps_count ?p = 0"
    by (simp_all add: planning_example_def)
  have s: "sg_run long_signal = RunId ''r''" "sg_id long_signal = id_of STRATEGY_SIGNAL 1"
    "sg_instrument long_signal = Instrument (VenueId ''X'') ''A''" "sg_available_at long_signal = 2" "sg_dispatch long_signal = 1"
    by (simp_all add: long_signal_def)
  have i: "\<lparr>run_id = RunId ''r'', owner_kind = k, owner_sequence = 1\<rparr> = id_of k 1" for k by (simp add: id_of_def)
  have own: "owner_kind (id_of k m) = k" "owner_sequence (id_of k m) = m" "run_id (id_of k m) = RunId ''r''" for k m
    by (simp_all add: id_of_def)
  have "validate_signal long_signal = Inr ()" by code_simp
  then have sb: "signal_bytes std_example long_signal = Inr (signal_text std_example long_signal)"
    "signal_digest std_example long_signal = Inr (Sha256Digest [])" by (simp_all add: signal_bytes_def signal_digest_def)
  have sub: "planning_submission_digest std_example long_signal = Inr (Sha256Digest [])"
    by (simp add: planning_submission_digest_def sb)
  have entry: "entry_for planning_example (Instrument (VenueId ''X'') ''A'')
      = Some \<lparr>pe_instrument = Instrument (VenueId ''X'') ''A'', pe_quantity = dec_3\<rparr>"
    by (simp add: entry_for_def e planning_policy_example_def)
  have sp: "plan_spec_for planning_example (Instrument (VenueId ''X'') ''A'') = Some (spec_example ''A'')"
    by (simp add: plan_spec_for_def e set_example_def spec_example_def)
  have delta: "plan_delta snapshot_example long_signal \<lparr>pe_instrument = Instrument (VenueId ''X'') ''A'', pe_quantity = dec_3\<rparr>
      (spec_example ''A'') = Inr (dec_3, dec_3)" by code_simp
  define t where "t = \<lparr>tg_run = RunId ''r'', tg_id = id_of PORTFOLIO_TARGET 1, tg_correlation = id_of STRATEGY_SIGNAL 1,
    tg_causation = id_of STRATEGY_SIGNAL 1, tg_signal_sha256 = Sha256Digest [], tg_instrument = Instrument (VenueId ''X'') ''A'',
    tg_position = dec_3, tg_policy = PortfolioPolicyId ''p'', tg_policy_sha256 = Sha256Digest [], tg_snapshot_version = 0,
    tg_snapshot_sha256 = portfolio_snapshot_digest std_example snapshot_example, tg_available_at = 2, tg_dispatch = 1,
    tg_spec_id = InstrumentSpecId ''a'', tg_set_id = InstrumentSpecSetId ''s'', tg_set_sha256 = Sha256Digest []\<rparr>"
  have tv: "validate_target t = Inr ()"
    by (simp add: validate_target_def t_def validate_economic_id_def own positive_uint64_def non_negative_uint64_def MAX_UINT64_def)
  have tb: "target_bytes std_example t = Inr (json_bytes (portfolio_target_document std_example t))"
    "target_digest std_example t = Inr (Sha256Digest [])" by (simp_all add: target_bytes_def target_digest_def tv)
  have target: "plan_target std_example planning_example snapshot_example long_signal (Sha256Digest []) (spec_example ''A'') dec_3 1
      = Inr (t, Sha256Digest [])"
    using tb by (simp add: plan_target_def create_portfolio_target_def make_economic_id_def require_uint64_def MAX_UINT64_def e s i
        planning_policy_example_def snapshot_example_def spec_example_def Let_def t_def)
  have sv: "sn_version snapshot_example = 0" by (simp add: snapshot_example_def)
  have kind: "planned_kind snapshot_example dec_3 = INTENT_EMITTED" by code_simp
  have intent: "plan_intent std_example planning_example snapshot_example long_signal t (Sha256Digest []) dec_3
      = Inr (Some planned_intent, Some (order_intent_digest std_example planned_intent), Some 2)"
  proof -
    have abs: "planning_absolute dec_3 = Inr dec_3" "coefficient dec_3 > 0" by code_simp+
    have l: "make_target_lineage (tg_id t) (Sha256Digest []) = Inr \<lparr>target_id = id_of PORTFOLIO_TARGET 1, target_sha256 = Sha256Digest []\<rparr>"
      by (simp add: make_target_lineage_def t_def require_id_owner_def own)
    have q: "require_quantity dec_3 (spec_example ''A'') = Inr dec_3" by code_simp
    have sp': "require_spec set_example (Instrument (VenueId ''X'') ''A'') = Inr (spec_example ''A'')" by code_simp
    have ss: "require_spec_set std_example set_example (Instrument (VenueId ''X'') ''A'') None None None
        = Inr (spec_example ''A'', Sha256Digest [])"
      unfolding require_spec_set_def sp' bind_res_simps by (simp add: set_example_def)
    have "create_order_intent std_example (RunId ''r'') (id_of PORTFOLIO_INTENT 1) (id_of STRATEGY_SIGNAL 1)
        \<lparr>target_id = id_of PORTFOLIO_TARGET 1, target_sha256 = Sha256Digest []\<rparr> (Instrument (VenueId ''X'') ''A'') BUY dec_3
        0 2 1 set_example policy_example = Inr planned_intent"
      by (simp add: create_order_intent_def ss q own require_id_owner_def require_non_negative_def)
         (simp add: intent_example_def set_example_def spec_example_def)
    then show ?thesis
      by (simp add: plan_intent_def kind e s abs l make_economic_id_def require_uint64_def MAX_UINT64_def i
          sv next_allocation_def Let_def)
  qed
  let ?oc = "outcome_of planning_example snapshot_example long_signal (Sha256Digest []) (portfolio_snapshot_digest std_example snapshot_example)
      t (Sha256Digest []) 1 (Some 2) (Some planned_intent) (Some (order_intent_digest std_example planned_intent)) dec_3"
  have n: "in_intent_id planned_intent = id_of PORTFOLIO_INTENT 1" "in_correlation planned_intent = id_of STRATEGY_SIGNAL 1"
    "in_causation planned_intent = id_of PORTFOLIO_TARGET 1" by (simp_all add: intent_example_def)
  have "validate_planning_outcome ?oc = Inr ()"
    by (simp add: validate_planning_outcome_def outcome_of_def outcome_coupling_def kind validate_economic_id_def own e s n t_def
        positive_uint64_def optional_positive_uint64_def non_negative_uint64_def next_allocation_def MAX_UINT64_def)
       (simp add: dec_3_def)
  then have oc: "planning_outcome_bytes ?oc = Inr (json_bytes (planning_outcome_document ?oc))"
    by (simp add: planning_outcome_bytes_def)
  let ?r = "\<lparr>pz_signal = long_signal, pz_target = t, pz_snapshot = snapshot_example, pz_outcome = ?oc, pz_intent = Some planned_intent\<rparr>"
  obtain z where z: "result_position ?r = Inr z" "coefficient z = 0" "scale z = 0"
    by (simp add: result_position_def s snapshot_example_def canonical_zero_text)
  have "result_intent_ids ?r = Inr ()"
    by (simp add: result_intent_ids_def n s validate_economic_id_def own positive_uint64_def MAX_UINT64_def Let_def)
  moreover have "result_lineage_ok std_example ?r z (Sha256Digest []) (Sha256Digest [])"
    by (simp add: result_lineage_ok_def delta_matches_def z outcome_of_def t_def e s Let_def planning_policy_example_def snapshot_example_def)
  moreover have "po_kind ?oc = planned_kind snapshot_example (po_delta ?oc)" "po_kind ?oc = INTENT_EMITTED"
    by (simp_all add: outcome_of_def kind)
  moreover have "result_intent_ok std_example ?r planned_intent (Sha256Digest [])"
    by (simp add: result_intent_ok_def outcome_of_def kind s t_def Let_def)
       (simp add: intent_example_def snapshot_example_def dec_3_def)
  ultimately have v: "validate_planning_result std_example ?r = Inr ()"
    by (simp add: validate_planning_result_def sb tb oc z)
  have result: "create_planning_result std_example ?r = Inr ?r" "planning_result_bytes std_example ?r = Inr (json_bytes (planning_result_document std_example ?r))"
    "planning_result_digest std_example ?r = Inr (Sha256Digest [])"
    by (simp_all add: create_planning_result_def planning_result_bytes_def planning_result_digest_def v sb tb oc)
  have bound: "snapshot_bound (RunId ''r'') (set_identifier set_example) (Sha256Digest []) snapshot_example"
    by (simp add: snapshot_bound_def snapshot_example_def set_example_def)
  have "\<exists>y public. plan_new std_example planning_example snapshot_example long_signal (signal_text std_example long_signal)
      (Sha256Digest []) (Sha256Digest []) = Inr (y, public) \<and> zr_result y = ?r"
    by (simp add: plan_new_def e s entry sp planning_policy_example_bytes planning_policy_digest_def bound delta target intent
        create_planning_outcome_def oc result Let_def next_allocation_def MAX_UINT64_def create_planning_state_def planning_state_bytes_def
        validate_planning_state_def optional_positive_uint64_def positive_uint64_def non_negative_uint64_def)
  then obtain y public where y: "plan_new std_example planning_example snapshot_example long_signal (signal_text std_example long_signal)
      (Sha256Digest []) (Sha256Digest []) = Inr (y, public)" "zr_result y = ?r" by blast
  have "plan_portfolio std_example planning_example snapshot_example long_signal
      = (planning_example\<lparr>za_public := public, za_replay := (za_replay planning_example)(id_of STRATEGY_SIGNAL 1 \<mapsto> y)\<rparr>, Inr ?r)"
    by (simp add: plan_portfolio_def sb sub e s y)
  moreover have "planning_example\<lparr>za_public := public, za_replay := (za_replay planning_example)(id_of STRATEGY_SIGNAL 1 \<mapsto> y)\<rparr> \<noteq> planning_example"
    by (simp add: planning_example_def)
  ultimately show ?thesis by (intro exI conjI) auto
qed

section \<open>Properties\<close>

text \<open>C33: a planned intent moves the position exactly to its target. When a call plans a signal
  anew, the target is the quantity the policy sets for the instrument, signed by the direction
  of the signal, and the delta is exactly the target less the position of the snapshot; an
  intent is planned exactly when no fill is unresolved and the delta is not zero, and then it
  names the target, the snapshot and the signal, and its signed quantity is the delta.\<close>

theorem plan_moves_to_target:
  assumes "create_planning_authority std run sn0 ss p execution ft fi k latest = Inr a0" "planning_run std a0 cs = (a, rs)"
    "plan_portfolio std a sn s = (b, Inr r)" "b \<noteq> a"
  shows "(\<exists>entry \<in> set (pp_entries (za_policy a)). pe_instrument entry = sg_instrument s \<and> 0 < dval (pe_quantity entry)
        \<and> dval (tg_position (pz_target r)) = of_int (direction_sign (sg_direction s)) * dval (pe_quantity entry))
    \<and> pz_signal r = s \<and> pz_snapshot r = sn \<and> sn_run sn = run \<and> sg_run s = run
    \<and> dval (po_delta (pz_outcome r)) = dval (tg_position (pz_target r)) - position_value sn (sg_instrument s)
    \<and> (pz_intent r = None \<longleftrightarrow> sn_unresolved sn \<noteq> [] \<or> dval (tg_position (pz_target r)) = position_value sn (sg_instrument s))
    \<and> (\<forall>n. pz_intent r = Some n \<longrightarrow> in_run n = run \<and> in_correlation n = sg_id s \<and> in_causation n = tg_id (pz_target r)
        \<and> in_instrument n = sg_instrument s \<and> in_snapshot_version n = sn_version sn \<and> in_dispatch n = sg_dispatch s
        \<and> 0 < dval (in_quantity n)
        \<and> position_value sn (sg_instrument s) + of_int (side_sign (in_side n)) * dval (in_quantity n)
            = dval (tg_position (pz_target r)))"
proof -
  note p = planned_after_run(1) [OF assms] and run = planned_after_run(2) [OF assms] and ok = planned_after_run(3) [OF assms]
  have "\<exists>entry \<in> set (pp_entries (za_policy a)). pe_instrument entry = sg_instrument s \<and> 0 < dval (pe_quantity entry)
        \<and> dval (tg_position (pz_target r)) = of_int (direction_sign (sg_direction s)) * dval (pe_quantity entry)"
    using p ok unfolding planned_def policy_ok_def by blast
  moreover have d: "dval (po_delta (pz_outcome r)) = dval (tg_position (pz_target r)) - position_value sn (sg_instrument s)"
    using p by (simp add: planned_def)
  then have "dval (po_delta (pz_outcome r)) = 0 \<longleftrightarrow> dval (tg_position (pz_target r)) = position_value sn (sg_instrument s)"
    unfolding d by simp
  ultimately show ?thesis using p run d unfolding planned_def intent_matches_def by (auto simp del: dval_sign)
qed

theorem plan_moves_to_target_witness:
  "\<exists>b r n. plan_portfolio std_example planning_example snapshot_example long_signal = (b, Inr r)
     \<and> dval (tg_position (pz_target r)) = 3 \<and> pz_intent r = Some n \<and> in_side n = BUY \<and> dval (in_quantity n) = 3"
proof -
  obtain b r where r: "plan_portfolio std_example planning_example snapshot_example long_signal = (b, Inr r)"
    "b \<noteq> planning_example" "pz_intent r = Some planned_intent" using example_plans by blast
  have n: "in_side planned_intent = BUY" "dval (in_quantity planned_intent) = 3" "position_value snapshot_example i = 0" for i
    by (simp_all add: intent_example_def dec_3_def dval_def position_value_def snapshot_example_def)
  have "planning_run std_example planning_example [] = (planning_example, [])" by simp
  from plan_moves_to_target [OF create_planning_example this r(1,2)] r(3) n
  have "dval (tg_position (pz_target r)) = 3" by auto
  then show ?thesis using r n by blast
qed

text \<open>C34: the books of the planning authority. After any run of signals and policy changes, each with
  the ledger of the moment, the results are in strictly increasing order of the dispatches of
  their signals, no signal twice; targets and intents carry consecutive identities from the
  first of each; every result was planned for a submitted signal on the snapshot of that
  moment and is what the signal is looked up as.\<close>

theorem planning_books_sound:
  assumes "create_planning_authority std run sn0 ss p execution ft fi k latest = Inr a" "planning_run std a cs = (b, rs)"
  shows "map (\<lambda>r. tg_id (pz_target r)) rs
       = map (\<lambda>m. \<lparr>run_id = run, owner_kind = PORTFOLIO_TARGET, owner_sequence = ft + int m\<rparr>) [0..<length rs]
    \<and> map in_intent_id (result_intents rs)
       = map (\<lambda>m. \<lparr>run_id = run, owner_kind = PORTFOLIO_INTENT, owner_sequence = fi + int m\<rparr>) [0..<length (result_intents rs)]
    \<and> sorted_wrt (<) (case latest of None \<Rightarrow> map (\<lambda>r. sg_dispatch (pz_signal r)) rs
        | Some m \<Rightarrow> m # map (\<lambda>r. sg_dispatch (pz_signal r)) rs)
    \<and> distinct (map (\<lambda>r. sg_id (pz_signal r)) rs) \<and> ps_count (za_public b) = k + int (length rs)
    \<and> (\<forall>r \<in> set rs. (\<exists>c sn s. Plan sn s \<in> set cs \<and> planned std c sn s r)
        \<and> za_replay b (sg_id (pz_signal r)) \<noteq> None \<and> map_option zr_result (za_replay b (sg_id (pz_signal r))) = Some r)"
proof -
  have books: "planning_books std run ft fi latest k b rs" by (rule planning_books_of_run [OF assms])
  have "r \<in> set rs \<Longrightarrow> \<exists>c sn s. Plan sn s \<in> set cs \<and> planned std c sn s r" for r
    using planning_run_source [OF assms(2) planning_books_created [OF assms(1)]] by blast
  moreover have "length (map in_intent_id (result_intents rs)) = length (result_intents rs)" by simp
  moreover have "\<forall>r \<in> set rs. za_replay b (sg_id (pz_signal r)) \<noteq> None
      \<and> map_option zr_result (za_replay b (sg_id (pz_signal r))) = Some r"
    using books by (fastforce simp: planning_books_def)
  ultimately show ?thesis using books unfolding planning_books_def numbered_from_def length_map
    by (auto split: option.splits)
qed

theorem planning_books_sound_witness:
  "\<exists>b r. planning_run std_example planning_example [Plan snapshot_example long_signal] = (b, [r])
     \<and> tg_id (pz_target r) = id_of PORTFOLIO_TARGET 1 \<and> map_option zr_result (za_replay b (sg_id (pz_signal r))) = Some r"
proof -
  obtain b r where r: "plan_portfolio std_example planning_example snapshot_example long_signal = (b, Inr r)"
    using example_plans by blast
  then have run: "planning_run std_example planning_example [Plan snapshot_example long_signal] = (b, [r])"
    by (simp add: planning_step_def planning_new_def) (simp add: planning_example_def)
  from planning_books_sound [OF create_planning_example run] run show ?thesis by (simp add: id_of_def)
qed

text \<open>The answers of the planning authority are final. Once a signal has been answered with a
  result it is answered with it for ever, whatever snapshot the ledger then shows, and nothing
  changes; after a conflict has halted the authority it plans nothing more and never changes.\<close>

theorem planning_answers_final:
  assumes "create_planning_authority std run sn0 ss p execution ft fi k latest = Inr a0" "planning_run std a0 cs = (a, rs)"
    "plan_portfolio std a sn s = (b, x)"
  shows "(\<forall>r ds sp. x = Inr r \<longrightarrow> (let c = fst (planning_run std b ds) in plan_portfolio std c sp s = (c, Inr r)))
    \<and> (ps_halted (za_public b) \<longrightarrow> (\<forall>ds. planning_run std b ds = (b, [])))"
proof -
  have final: "plan_portfolio std (fst (planning_run std b ds)) sp s = (fst (planning_run std b ds), Inr r)" if x: "x = Inr r" for r ds sp
  proof -
    obtain y where y: "validate_signal s = Inr ()" "za_replay b (sg_id s) = Some y" "zr_signal_bytes y = signal_text std s"
      "zr_result y = r" using answered_signal [of std a sn s b r] assms(3) x by auto
    show ?thesis using planning_replays [OF replay_kept_run [OF y(2)] y(3,1)] y(4) by simp
  qed
  have "b = planning_step std a (Plan sn s)" using assms(3) by (simp add: planning_step_def)
  then have "planning_books std run ft fi latest k b (rs @ planning_new std a (Plan sn s))"
    using planning_books_step [OF planning_books_of_run [OF assms(1,2)], of "Plan sn s"] by simp
  then have "ps_halted (za_public b) \<longrightarrow> ps_conflict (za_public b) \<noteq> None" by (simp add: planning_books_def)
  then show ?thesis using final halted_planning by (simp add: Let_def)
qed

theorem planning_answers_final_witness:
  "\<exists>b r. plan_portfolio std_example planning_example snapshot_example long_signal = (b, Inr r)
     \<and> (let c = fst (planning_run std_example b [Rebind snapshot_example planning_policy_example])
        in plan_portfolio std_example c snapshot_example long_signal = (c, Inr r))"
proof -
  obtain b r where r: "plan_portfolio std_example planning_example snapshot_example long_signal = (b, Inr r)"
    using example_plans by blast
  have "planning_run std_example planning_example [] = (planning_example, [])" by simp
  then show ?thesis using planning_answers_final [OF create_planning_example _ r] r by blast
qed

end
