(* ===== verification/Desk_Claims.thy ===== *)
theory Desk_Claims
  imports Planning_Claims Risk_Claims
begin

text \<open>
  The planning and the risk authority together: what is approved of a planned
  intent moves the position towards the planned target and never beyond it.
\<close>

text \<open>C35: an approved plan moves towards its target and not beyond. Let the planning authority plan
  an intent anew after any run, and let the risk authority of the same run, after any run of
  its own, register an approval for that intent on a snapshot showing the same position. Then
  the position moved by the approved quantity lies between the position and the target, further
  on than the position; it is the target itself where the decision is an allowance; and it
  respects the position limit of the policy or comes no further out than it was.\<close>

theorem approved_plan_approaches_target:
  assumes "create_planning_authority std run sn0 ss p execution ft fi k latest = Inr a0" "planning_run std a0 cs = (a, rs)"
    "plan_portfolio std a sn s = (b, Inr r)" "b \<noteq> a" "pz_intent r = Some n"
    "create_risk_authority std run ss2 ex policy = Inr ra" "rb = risk_run std ra ks"
    "evaluate std rb n sn2 = (rc, Inr q)" "rc \<noteq> rb" "rd_approval (rr_decision q) = Some ap"
    "position_value sn2 (sg_instrument s) = position_value sn (sg_instrument s)"
  defines "before \<equiv> position_value sn (sg_instrument s)"
    and "target \<equiv> dval (tg_position (pz_target r))"
    and "moved \<equiv> position_value sn (sg_instrument s) + of_int (side_sign (in_side n)) * dval (ap_quantity ap)"
  shows "(\<exists>part. 0 < part \<and> part \<le> 1 \<and> moved = before + part * (target - before))
    \<and> (rd_kind (rr_decision q) = ALLOW \<longrightarrow> moved = target)
    \<and> sn_version sn2 = sn_version sn \<and> sn_run sn2 = run
    \<and> (\<exists>l \<in> set (rp_limits policy). rl_instrument l = sg_instrument s \<and> \<bar>moved\<bar> \<le> max \<bar>before\<bar> (dval (rl_position l)))"
proof -
  have p: "planned std a sn s r" by (rule planned_after_run [OF assms(1-4)])
  then obtain td where "intent_matches a sn s (pz_target r) td (po_delta (pz_outcome r)) n"
    using assms(5) by (auto simp: planned_def)
  then have i: "in_instrument n = sg_instrument s" "in_snapshot_version n = sn_version sn" "0 < dval (in_quantity n)"
    "of_int (side_sign (in_side n)) * dval (in_quantity n) = dval (po_delta (pz_outcome r))"
    unfolding intent_matches_def by blast+
  moreover have "dval (po_delta (pz_outcome r)) = target - before" using p by (simp add: planned_def before_def target_def)
  ultimately have n: "in_instrument n = sg_instrument s" "in_snapshot_version n = sn_version sn" "0 < dval (in_quantity n)"
    "before + of_int (side_sign (in_side n)) * dval (in_quantity n) = target" by simp_all
  have j: "judged std rb n sn2 (rr_decision q)" by (rule approval_judged(1) [OF assms(6-10)])
  have f: "ka_run rb = run" "ka_policy rb = policy" using created_fields [OF assms(6)] by (simp_all add: assms(7))
  have ap: "sn_run sn2 = run" "sn_version sn2 = in_snapshot_version n" "rd_kind (rr_decision q) = ALLOW \<longleftrightarrow> ap_quantity ap = in_quantity n"
    "0 < dval (ap_quantity ap)" "dval (ap_quantity ap) \<le> dval (in_quantity n)"
    "\<exists>l. l \<in> set (rp_limits policy) \<and> rl_instrument l = in_instrument n
        \<and> \<bar>position_value sn2 (in_instrument n) + of_int (side_sign (in_side n)) * dval (ap_quantity ap)\<bar>
            \<le> max \<bar>position_value sn2 (in_instrument n)\<bar> (dval (rl_position l))"
    using j assms(10) unfolding judged_def within_limit_def f by blast+
  let ?part = "dval (ap_quantity ap) / dval (in_quantity n)"
  have "?part * (target - before) = of_int (side_sign (in_side n)) * dval (ap_quantity ap)"
    using n(3) unfolding n(4) [symmetric] by (simp del: dval_sign)
  then have "0 < ?part \<and> ?part \<le> 1 \<and> moved = before + ?part * (target - before)"
    using ap(4,5) n(3) by (simp add: moved_def before_def del: dval_sign dval_sign_le)
  moreover have "moved = target" if "rd_kind (rr_decision q) = ALLOW"
    using that ap(3) n(4) by (simp add: moved_def before_def)
  moreover have "\<exists>l \<in> set (rp_limits policy). rl_instrument l = sg_instrument s \<and> \<bar>moved\<bar> \<le> max \<bar>before\<bar> (dval (rl_position l))"
    using ap(6) assms(11) unfolding n(1) moved_def before_def by auto
  ultimately show ?thesis using ap(1,2) n(2) by auto
qed

theorem approved_plan_approaches_target_witness:
  "\<exists>b r rc q ap. plan_portfolio std_example planning_example snapshot_example long_signal = (b, Inr r)
     \<and> pz_intent r = Some planned_intent
     \<and> evaluate std_example risk_example planned_intent snapshot_example = (rc, Inr q)
     \<and> rd_approval (rr_decision q) = Some ap \<and> dval (ap_quantity ap) = 1
     \<and> (\<exists>part. 0 < part \<and> part \<le> 1 \<and> (1 :: rat) = part * dval (tg_position (pz_target r)))"
proof -
  obtain b r where r: "plan_portfolio std_example planning_example snapshot_example long_signal = (b, Inr r)"
    "b \<noteq> planning_example" "pz_intent r = Some planned_intent" using example_plans by blast
  obtain rc q ap where q: "evaluate std_example risk_example planned_intent snapshot_example = (rc, Inr q)" "rc \<noteq> risk_example"
    "rd_approval (rr_decision q) = Some ap" "ap_quantity ap = dec_1"
    using like_evaluates [where lineage = "\<lparr>target_id = id_of PORTFOLIO_TARGET 1, target_sha256 = Sha256Digest []\<rparr>"
      and t = 2 and k = 1, OF refl] by auto
  have z: "position_value snapshot_example i = 0" for i by (simp add: position_value_def snapshot_example_def)
  have one: "of_int (side_sign (in_side planned_intent)) * dval dec_1 = (1 :: rat)"
    by (simp add: intent_example_def dec_1_def dval_def)
  have p: "planning_run std_example planning_example [] = (planning_example, [])" by simp
  have k: "risk_example = risk_run std_example risk_example []" by simp
  have "\<exists>part. 0 < part \<and> part \<le> 1 \<and> (1 :: rat) = part * dval (tg_position (pz_target r))"
    using approved_plan_approaches_target [OF create_planning_example p r create_risk_example k q(1-3) refl, THEN conjunct1]
    unfolding z q(4) one by simp
  moreover have "dval (ap_quantity ap) = 1" by (simp add: q(4) dec_1_def dval_def)
  ultimately show ?thesis using r(1,3) q(1,3) by blast
qed

end
