(* ===== verification/Strategy_Rules.thy ===== *)
theory Strategy_Rules
  imports Economics Canonical_Json Market_Data
begin

text \<open>
  \<open>ea.strategy.rules\<close>: the closed price-entry rules. A rule is a JSON document
  that one traversal admits (at most 32 nodes, depth six, windows up to 64); the
  evaluator keeps the closes of the longest window and enters once.
  \<open>json.loads\<close> with the hook that refuses a repeated field is the parameter
  \<open>loads\<close>, None where it raises; a document holding a binary64 is refused
  wherever the number stands, so it is None as well. \<open>Fraction(str(price))\<close> is the
  parameter \<open>px\<close>.
\<close>

section \<open>Decoding\<close>

record price_rule =
  pr_document :: json
  pr_history :: nat

definition COMPARISONS :: "string list" where
  "COMPARISONS = [''gt'', ''ge'', ''lt'', ''le'', ''eq'']"

definition PRICE_FIELDS :: "string list" where
  "PRICE_FIELDS = [''open'', ''high'', ''low'', ''close'']"

definition member :: "(string \<times> json) list \<Rightarrow> string \<Rightarrow> json" where
  "member kvs k = the (map_of kvs k)"

definition closed_fields :: "(string \<times> json) list \<Rightarrow> string list \<Rightarrow> unit result" where
  "closed_fields kvs keys = guard_res (fst ` set kvs \<noteq> set keys) ValueError (Inr ())"

text \<open>The state of the traversal: the nodes seen and the longest window.\<close>

type_synonym visit_state = "nat \<times> nat"

definition visit_operand :: "(string \<times> json) list \<Rightarrow> visit_state \<Rightarrow> visit_state result" where
  "visit_operand kvs st =
     (if map_of kvs ''kind'' = Some (JStr ''price'') then
        bind_res (closed_fields kvs [''kind'', ''field'']) (\<lambda>_.
          guard_res (member kvs ''field'' \<notin> JStr ` set PRICE_FIELDS) ValueError (Inr st))
      else if map_of kvs ''kind'' = Some (JStr ''sma'') then
        bind_res (closed_fields kvs [''kind'', ''window'']) (\<lambda>_.
          case member kvs ''window'' of
            JInt w \<Rightarrow> guard_res (\<not> (1 \<le> w \<and> w \<le> 64)) ValueError (Inr (fst st, max (snd st) (nat w)))
          | _ \<Rightarrow> Inl ValueError)
      else Inl ValueError)"

definition is_op :: "(string \<times> json) list \<Rightarrow> string list \<Rightarrow> bool" where
  "is_op kvs ops \<longleftrightarrow> map_of kvs ''op'' \<in> Some ` JStr ` set ops"

declare bind_res_cong [fundef_cong]

function visit :: "json \<Rightarrow> nat \<Rightarrow> bool \<Rightarrow> visit_state \<Rightarrow> visit_state result"
  and visit_all :: "json list \<Rightarrow> nat \<Rightarrow> visit_state \<Rightarrow> visit_state result" where
  "visit node depth operand st =
     (let st' = (fst st + 1, snd st) in
      if fst st' > 32 \<or> depth > 6 then Inl ValueError
      else case node of
          JObj kvs \<Rightarrow>
            if operand then visit_operand kvs st'
            else if is_op kvs COMPARISONS then
              bind_res (closed_fields kvs [''op'', ''left'', ''right'']) (\<lambda>_.
              bind_res (visit (member kvs ''left'') (depth + 1) True st') (\<lambda>st2.
                visit (member kvs ''right'') (depth + 1) True st2))
            else if is_op kvs [''all'', ''any''] then
              bind_res (closed_fields kvs [''op'', ''args'']) (\<lambda>_.
                case member kvs ''args'' of
                  JList xs \<Rightarrow> guard_res (\<not> (2 \<le> length xs \<and> length xs \<le> 8)) ValueError (visit_all xs (depth + 1) st')
                | _ \<Rightarrow> Inl ValueError)
            else if is_op kvs [''not''] then
              bind_res (closed_fields kvs [''op'', ''arg'']) (\<lambda>_. visit (member kvs ''arg'') (depth + 1) False st')
            else Inl ValueError
        | _ \<Rightarrow> Inl ValueError)"
| "visit_all [] depth st = Inr st"
| "visit_all (x # xs) depth st = bind_res (visit x depth False st) (\<lambda>st'. visit_all xs depth st')"
  by pat_completeness auto
termination
  by (relation "measures [\<lambda>x. case x of Inl (node, depth, operand, st) \<Rightarrow> 7 - depth | Inr (xs, depth, st) \<Rightarrow> 7 - depth,
       \<lambda>x. case x of Inl _ \<Rightarrow> 0 | Inr (xs, depth, st) \<Rightarrow> Suc (length xs)]") auto

declare visit.simps [simp del]

definition decode_rule :: "(string \<Rightarrow> json option) \<Rightarrow> string \<Rightarrow> price_rule result" where
  "decode_rule loads text =
     guard_res (utf8_length text > 4096) ValueError
    (case loads text of
       Some (JObj kvs) \<Rightarrow>
         bind_res (closed_fields kvs [''version'', ''when'', ''action'']) (\<lambda>_.
         guard_res (member kvs ''version'' \<noteq> JInt 1) ValueError
        (guard_res (member kvs ''action'' \<noteq> JStr ''ENTER_LONG'') ValueError
        (bind_res (visit (member kvs ''when'') 1 False (0, 1)) (\<lambda>(count, history).
           Inr \<lparr>pr_document = JObj kvs, pr_history = history\<rparr>))))
     | _ \<Rightarrow> Inl ValueError)"

definition rule_canonical :: "price_rule \<Rightarrow> string" where
  "rule_canonical r = json_bytes (pr_document r)"

fun rule_when :: "json \<Rightarrow> json" where
  "rule_when (JObj kvs) = member kvs ''when''"
| "rule_when _ = JNull"

section \<open>Evaluation\<close>

record rule_prices =
  qp_open :: rat
  qp_high :: rat
  qp_low :: rat
  qp_close :: rat

definition take_last :: "nat \<Rightarrow> 'a list \<Rightarrow> 'a list" where
  "take_last n xs = drop (length xs - n) xs"

fun price_value :: "rule_prices \<Rightarrow> json \<Rightarrow> rat result" where
  "price_value q (JStr s) =
     (if s = ''open'' then Inr (qp_open q) else if s = ''high'' then Inr (qp_high q)
      else if s = ''low'' then Inr (qp_low q) else if s = ''close'' then Inr (qp_close q) else Inl TypeError)"
| "price_value q _ = Inl TypeError"

definition operand_value :: "rule_prices \<Rightarrow> rat list \<Rightarrow> json \<Rightarrow> rat result" where
  "operand_value q closes node = (case node of
      JObj kvs \<Rightarrow>
        (case map_of kvs ''kind'' of
           None \<Rightarrow> Inl KeyError
         | Some kind \<Rightarrow>
             if kind = JStr ''price''
             then (case map_of kvs ''field'' of None \<Rightarrow> Inl KeyError | Some f \<Rightarrow> price_value q f)
             else (case map_of kvs ''window'' of
                 Some (JInt w) \<Rightarrow> guard_res (w < 1) ValueError (Inr (sum_list (take_last (nat w) closes) / of_int w))
               | _ \<Rightarrow> Inl KeyError))
    | _ \<Rightarrow> Inl TypeError)"

definition compare_values :: "json option \<Rightarrow> rat \<Rightarrow> rat \<Rightarrow> bool result" where
  "compare_values op left right =
     (if op = Some (JStr ''gt'') then Inr (left > right) else if op = Some (JStr ''ge'') then Inr (left \<ge> right)
      else if op = Some (JStr ''lt'') then Inr (left < right) else if op = Some (JStr ''le'') then Inr (left \<le> right)
      else if op = Some (JStr ''eq'') then Inr (left = right) else Inl KeyError)"

lemma map_res_cong [fundef_cong]:
  "xs = ys \<Longrightarrow> (\<And>x. x \<in> set ys \<Longrightarrow> f x = g x) \<Longrightarrow> map_res f xs = map_res g ys"
  by (induction ys arbitrary: xs) auto

lemma member_size:
  assumes "map_of kvs k = Some v"
  shows "size v < size (JObj kvs)"
proof -
  have "(k, v) \<in> set kvs" using assms by (rule map_of_SomeD)
  then have "size v < size_list (size_prod (\<lambda>_. 0) size) kvs"
    by (rule size_list_estimation) simp
  then show ?thesis by simp
qed

lemma element_size: "x \<in> set xs \<Longrightarrow> size x < size (JList xs)"
  using size_list_estimation' [of x xs "size x" size] by simp

lemma args_size: "map_of kvs k = Some (JList xs) \<Longrightarrow> x \<in> set xs \<Longrightarrow> size x < size (JObj kvs)"
  using less_trans [OF element_size member_size] .

function condition :: "rule_prices \<Rightarrow> rat list \<Rightarrow> json \<Rightarrow> bool result" where
  "condition q closes node = (case node of
      JObj kvs \<Rightarrow>
        (if map_of kvs ''op'' = None then Inl KeyError
         else if is_op kvs [''not''] then
           (case map_of kvs ''arg'' of
              None \<Rightarrow> Inl KeyError
            | Some arg \<Rightarrow> bind_res (condition q closes arg) (\<lambda>b. Inr (\<not> b)))
         else if is_op kvs [''all'', ''any''] then
           (case map_of kvs ''args'' of
              Some (JList xs) \<Rightarrow>
                bind_res (map_res (condition q closes) xs) (\<lambda>bs.
                  Inr (if is_op kvs [''all''] then list_all id bs else list_ex id bs))
            | _ \<Rightarrow> Inl KeyError)
         else case (map_of kvs ''left'', map_of kvs ''right'') of
             (Some left, Some right) \<Rightarrow>
               bind_res (operand_value q closes left) (\<lambda>l.
               bind_res (operand_value q closes right) (\<lambda>r. compare_values (map_of kvs ''op'') l r))
           | _ \<Rightarrow> Inl KeyError)
    | _ \<Rightarrow> Inl TypeError)"
  by pat_completeness auto
termination
  by (relation "measure (\<lambda>(q, closes, node). size node)") (use member_size args_size in \<open>auto simp del: json.size\<close>)

declare condition.simps [simp del]

section \<open>The evaluator\<close>

record rule_logic =
  lg_rule :: price_rule
  lg_quantity :: canonical_decimal
  lg_closes :: "rat list"
  lg_entered :: bool

definition create_rule_logic :: "(string \<Rightarrow> json option) \<Rightarrow> string \<Rightarrow> string \<Rightarrow> rule_logic result" where
  "create_rule_logic loads rule quantity =
     bind_res (decode_rule loads rule) (\<lambda>r.
     bind_res (canonical_decimal quantity) (\<lambda>q.
       Inr \<lparr>lg_rule = r, lg_quantity = q, lg_closes = [], lg_entered = False\<rparr>))"

definition on_prices :: "rule_logic \<Rightarrow> rule_prices \<Rightarrow> rule_logic \<times> canonical_decimal option result" where
  "on_prices lg q =
     (if lg_entered lg then (lg, Inr None)
      else let closes = take_last (pr_history (lg_rule lg)) (lg_closes lg @ [qp_close q]);
               lg' = lg\<lparr>lg_closes := closes\<rparr>
           in if length closes < pr_history (lg_rule lg) then (lg', Inr None)
              else case condition q closes (rule_when (pr_document (lg_rule lg))) of
                  Inl e \<Rightarrow> (lg', Inl e)
                | Inr b \<Rightarrow> if \<not> b then (lg', Inr None)
                    else (lg'\<lparr>lg_entered := True\<rparr>, Inr (Some (lg_quantity lg))))"

definition prices_of :: "(py_float \<Rightarrow> rat) \<Rightarrow> bar \<Rightarrow> rule_prices" where
  "prices_of px b = \<lparr>qp_open = px (br_open b), qp_high = px (br_high b), qp_low = px (br_low b),
     qp_close = px (br_close b)\<rparr>"

definition on_event :: "(py_float \<Rightarrow> rat) \<Rightarrow> rule_logic \<Rightarrow> market_envelope \<Rightarrow> rule_logic \<times> canonical_decimal option result" where
  "on_event px lg e =
     (if lg_entered lg \<or> me_revision e \<noteq> 0 \<or> br_adjustment (me_payload e) \<noteq> RAW then (lg, Inr None)
      else on_prices lg (prices_of px (me_payload e)))"

section \<open>The language of rules\<close>

text \<open>A well-formed node at a depth, as operand or condition, with its number of nodes and its longest window.\<close>

abbreviation has_fields :: "(string \<times> json) list \<Rightarrow> string list \<Rightarrow> bool" where
  "has_fields kvs ks \<equiv> fst ` set kvs = set ks"

inductive rule_shape :: "nat \<Rightarrow> bool \<Rightarrow> json \<Rightarrow> nat \<Rightarrow> nat \<Rightarrow> bool" where
  price: "d \<le> 6 \<Longrightarrow> map_of kvs ''kind'' = Some (JStr ''price'') \<Longrightarrow> has_fields kvs [''kind'', ''field'']
    \<Longrightarrow> member kvs ''field'' \<in> JStr ` set PRICE_FIELDS \<Longrightarrow> rule_shape d True (JObj kvs) 1 0"
| sma: "d \<le> 6 \<Longrightarrow> map_of kvs ''kind'' = Some (JStr ''sma'') \<Longrightarrow> has_fields kvs [''kind'', ''window'']
    \<Longrightarrow> member kvs ''window'' = JInt w \<Longrightarrow> 1 \<le> w \<Longrightarrow> w \<le> 64 \<Longrightarrow> rule_shape d True (JObj kvs) 1 (nat w)"
| comparison: "d \<le> 6 \<Longrightarrow> is_op kvs COMPARISONS \<Longrightarrow> has_fields kvs [''op'', ''left'', ''right'']
    \<Longrightarrow> rule_shape (d + 1) True (member kvs ''left'') m v \<Longrightarrow> rule_shape (d + 1) True (member kvs ''right'') n w
    \<Longrightarrow> rule_shape d False (JObj kvs) (1 + m + n) (max v w)"
| junction: "d \<le> 6 \<Longrightarrow> is_op kvs [''all'', ''any''] \<Longrightarrow> has_fields kvs [''op'', ''args'']
    \<Longrightarrow> member kvs ''args'' = JList xs \<Longrightarrow> 2 \<le> length xs \<Longrightarrow> length xs \<le> 8
    \<Longrightarrow> list_all2 (\<lambda>x (n, w). rule_shape (d + 1) False x n w) xs ns
    \<Longrightarrow> rule_shape d False (JObj kvs) (1 + sum_list (map fst ns)) (foldr max (map snd ns) 0)"
| negation: "d \<le> 6 \<Longrightarrow> is_op kvs [''not''] \<Longrightarrow> has_fields kvs [''op'', ''arg'']
    \<Longrightarrow> rule_shape (d + 1) False (member kvs ''arg'') n w \<Longrightarrow> rule_shape d False (JObj kvs) (1 + n) w"

end
