(* ===== verification/Rule_Laws.thy ===== *)
theory Rule_Laws
  imports Strategy_Rules
begin

text \<open>
  The traversal admits exactly the well-formed rules within the bounds, a rule it
  admits never fails to evaluate, and the bounded window loses nothing.
\<close>

section \<open>The traversal and the language\<close>

inductive_simps shape_operand: "rule_shape d True (JObj kvs) n w"
inductive_simps shape_condition: "rule_shape d False (JObj kvs) n w"

lemma shape_bounds: "rule_shape d operand j n w \<Longrightarrow> d \<le> 6 \<and> 1 \<le> n \<and> (\<exists>kvs. j = JObj kvs)"
  by (induction rule: rule_shape.induct) auto

lemma member_Some: "has_fields kvs ks \<Longrightarrow> k \<in> set ks \<Longrightarrow> map_of kvs k = Some (member kvs k)"
  unfolding member_def by (metis domIff dom_map_of_conv_image_fst option.collapse)

lemma closed_fields_Inr: "closed_fields kvs ks = Inr u \<longleftrightarrow> has_fields kvs ks"
  by (simp add: closed_fields_def)

lemma ops_disjoint:
  "is_op kvs COMPARISONS \<Longrightarrow> \<not> is_op kvs [''all'', ''any'']" "is_op kvs COMPARISONS \<Longrightarrow> \<not> is_op kvs [''not'']"
  "is_op kvs [''all'', ''any''] \<Longrightarrow> \<not> is_op kvs [''not'']"
  by (auto simp: is_op_def COMPARISONS_def)

lemma operand_iff:
  assumes "d \<le> 6"
  shows "visit_operand kvs st = Inr st' \<longleftrightarrow>
    (\<exists>w. rule_shape d True (JObj kvs) 1 w \<and> st' = (fst st, max (snd st) w))"
proof (cases "map_of kvs ''kind'' = Some (JStr ''price'')")
  case True
  then show ?thesis using assms
    by (cases st) (auto simp: visit_operand_def closed_fields_Inr shape_operand)
next
  case False
  then show ?thesis using assms
    by (cases st) (auto simp: visit_operand_def closed_fields_Inr shape_operand split: json.splits)
qed

lemma comparison_iff:
  assumes "d \<le> 6" "is_op kvs COMPARISONS"
  shows "rule_shape d False (JObj kvs) k u \<longleftrightarrow> has_fields kvs [''op'', ''left'', ''right'']
    \<and> (\<exists>m v n w. rule_shape (d + 1) True (member kvs ''left'') m v \<and> rule_shape (d + 1) True (member kvs ''right'') n w
        \<and> k = 1 + m + n \<and> u = max v w)" (is "_ \<longleftrightarrow> ?R")
proof
  assume "rule_shape d False (JObj kvs) k u"
  then show ?R by (cases rule: rule_shape.cases) (use ops_disjoint(1,2) [of kvs] assms(2) in blast)+
next
  assume ?R
  then show "rule_shape d False (JObj kvs) k u" using rule_shape.comparison [OF assms] by blast
qed

lemma junction_iff:
  assumes "d \<le> 6" "is_op kvs [''all'', ''any'']"
  shows "rule_shape d False (JObj kvs) k u \<longleftrightarrow> has_fields kvs [''op'', ''args'']
    \<and> (\<exists>xs ns. member kvs ''args'' = JList xs \<and> 2 \<le> length xs \<and> length xs \<le> 8
        \<and> list_all2 (\<lambda>x (n, w). rule_shape (d + 1) False x n w) xs ns
        \<and> k = 1 + sum_list (map fst ns) \<and> u = foldr max (map snd ns) 0)" (is "_ \<longleftrightarrow> ?R")
proof
  assume "rule_shape d False (JObj kvs) k u"
  then show ?R by (cases rule: rule_shape.cases) (use ops_disjoint(1,3) [of kvs] assms(2) in blast)+
next
  assume ?R
  then show "rule_shape d False (JObj kvs) k u" using rule_shape.junction [OF assms] by blast
qed

lemma negation_iff:
  assumes "d \<le> 6" "is_op kvs [''not'']"
  shows "rule_shape d False (JObj kvs) k u \<longleftrightarrow> has_fields kvs [''op'', ''arg'']
    \<and> (\<exists>n. rule_shape (d + 1) False (member kvs ''arg'') n u \<and> k = 1 + n)" (is "_ \<longleftrightarrow> ?R")
proof
  assume "rule_shape d False (JObj kvs) k u"
  then show ?R by (cases rule: rule_shape.cases) (use ops_disjoint(2,3) [of kvs] assms(2) in blast)+
next
  assume ?R
  then show "rule_shape d False (JObj kvs) k u" using rule_shape.negation [OF assms] by blast
qed

lemma no_shape:
  assumes "\<not> is_op kvs COMPARISONS" "\<not> is_op kvs [''all'', ''any'']" "\<not> is_op kvs [''not'']"
  shows "\<not> rule_shape d False (JObj kvs) k u"
  using assms unfolding shape_condition by blast

lemma operand_nodes: "rule_shape d True j n w \<Longrightarrow> n = 1"
  by (erule rule_shape.cases) simp_all

text \<open>One unfolding of the traversal within the bounds.\<close>

lemma visit_object:
  assumes "fst st < 32" "d \<le> 6"
  shows "visit (JObj kvs) d True st = visit_operand kvs (fst st + 1, snd st)"
    "is_op kvs COMPARISONS \<Longrightarrow> visit (JObj kvs) d False st =
       bind_res (closed_fields kvs [''op'', ''left'', ''right'']) (\<lambda>_.
       bind_res (visit (member kvs ''left'') (d + 1) True (fst st + 1, snd st)) (\<lambda>x.
         visit (member kvs ''right'') (d + 1) True x))"
    "is_op kvs [''all'', ''any''] \<Longrightarrow> visit (JObj kvs) d False st =
       bind_res (closed_fields kvs [''op'', ''args'']) (\<lambda>_.
         case member kvs ''args'' of
           JList xs \<Rightarrow> guard_res (\<not> (2 \<le> length xs \<and> length xs \<le> 8)) ValueError (visit_all xs (d + 1) (fst st + 1, snd st))
         | _ \<Rightarrow> Inl ValueError)"
    "is_op kvs [''not''] \<Longrightarrow> visit (JObj kvs) d False st =
       bind_res (closed_fields kvs [''op'', ''arg'']) (\<lambda>_. visit (member kvs ''arg'') (d + 1) False (fst st + 1, snd st))"
    "\<not> is_op kvs COMPARISONS \<Longrightarrow> \<not> is_op kvs [''all'', ''any''] \<Longrightarrow> \<not> is_op kvs [''not''] \<Longrightarrow>
       visit (JObj kvs) d False st = Inl ValueError"
proof -
  have u: "visit (JObj kvs) d operand st =
     (if operand then visit_operand kvs (fst st + 1, snd st)
      else if is_op kvs COMPARISONS then
        bind_res (closed_fields kvs [''op'', ''left'', ''right'']) (\<lambda>_.
        bind_res (visit (member kvs ''left'') (d + 1) True (fst st + 1, snd st)) (\<lambda>st2.
          visit (member kvs ''right'') (d + 1) True st2))
      else if is_op kvs [''all'', ''any''] then
        bind_res (closed_fields kvs [''op'', ''args'']) (\<lambda>_.
          case member kvs ''args'' of
            JList xs \<Rightarrow> guard_res (\<not> (2 \<le> length xs \<and> length xs \<le> 8)) ValueError (visit_all xs (d + 1) (fst st + 1, snd st))
          | _ \<Rightarrow> Inl ValueError)
      else if is_op kvs [''not''] then
        bind_res (closed_fields kvs [''op'', ''arg'']) (\<lambda>_. visit (member kvs ''arg'') (d + 1) False (fst st + 1, snd st))
      else Inl ValueError)" for operand
    using assms by (subst visit.simps) (simp only: Let_def json.case fst_conv if_False, simp)
  show "visit (JObj kvs) d True st = visit_operand kvs (fst st + 1, snd st)" by (simp add: u)
  show "visit (JObj kvs) d False st =
       bind_res (closed_fields kvs [''op'', ''left'', ''right'']) (\<lambda>_.
       bind_res (visit (member kvs ''left'') (d + 1) True (fst st + 1, snd st)) (\<lambda>x.
         visit (member kvs ''right'') (d + 1) True x))" if "is_op kvs COMPARISONS"
    unfolding u using that by (simp only: if_True if_False simp_thms)
  show "visit (JObj kvs) d False st =
       bind_res (closed_fields kvs [''op'', ''args'']) (\<lambda>_.
         case member kvs ''args'' of
           JList xs \<Rightarrow> guard_res (\<not> (2 \<le> length xs \<and> length xs \<le> 8)) ValueError (visit_all xs (d + 1) (fst st + 1, snd st))
         | _ \<Rightarrow> Inl ValueError)" if "is_op kvs [''all'', ''any'']"
    unfolding u using that ops_disjoint(1) [of kvs] by (simp only: if_True if_False simp_thms) metis
  show "visit (JObj kvs) d False st =
       bind_res (closed_fields kvs [''op'', ''arg'']) (\<lambda>_. visit (member kvs ''arg'') (d + 1) False (fst st + 1, snd st))"
    if "is_op kvs [''not'']"
    unfolding u using that ops_disjoint(2,3) [of kvs] by (simp only: if_True if_False simp_thms) metis
  show "visit (JObj kvs) d False st = Inl ValueError"
    if "\<not> is_op kvs COMPARISONS" "\<not> is_op kvs [''all'', ''any'']" "\<not> is_op kvs [''not'']"
    unfolding u using that by (simp only: if_True if_False simp_thms)
qed

definition shape_result :: "nat \<Rightarrow> bool \<Rightarrow> json \<Rightarrow> visit_state \<Rightarrow> visit_state \<Rightarrow> bool" where
  "shape_result d operand node st st' \<longleftrightarrow>
     fst st' \<le> 32 \<and> (\<exists>n w. rule_shape d operand node n w \<and> st' = (fst st + n, max (snd st) w))"

definition shapes_result :: "nat \<Rightarrow> json list \<Rightarrow> visit_state \<Rightarrow> visit_state \<Rightarrow> bool" where
  "shapes_result d xs st st' \<longleftrightarrow> (xs \<noteq> [] \<longrightarrow> fst st' \<le> 32)
     \<and> (\<exists>ns. list_all2 (\<lambda>x (n, w). rule_shape d False x n w) xs ns
         \<and> st' = (fst st + sum_list (map fst ns), max (snd st) (foldr max (map snd ns) 0)))"

lemma shape_result_Obj:
  assumes "d \<le> 6" "fst st < 32"
  shows "shape_result d True (JObj kvs) st st' \<longleftrightarrow> (\<exists>w. rule_shape d True (JObj kvs) 1 w \<and> st' = (fst st + 1, max (snd st) w))"
    "is_op kvs COMPARISONS \<Longrightarrow> shape_result d False (JObj kvs) st st' \<longleftrightarrow> has_fields kvs [''op'', ''left'', ''right'']
       \<and> (\<exists>x. shape_result (d + 1) True (member kvs ''left'') (fst st + 1, snd st) x
           \<and> shape_result (d + 1) True (member kvs ''right'') x st')"
    "is_op kvs [''all'', ''any''] \<Longrightarrow> shape_result d False (JObj kvs) st st' \<longleftrightarrow> has_fields kvs [''op'', ''args'']
       \<and> (\<exists>xs. member kvs ''args'' = JList xs \<and> 2 \<le> length xs \<and> length xs \<le> 8
           \<and> shapes_result (d + 1) xs (fst st + 1, snd st) st')"
    "is_op kvs [''not''] \<Longrightarrow> shape_result d False (JObj kvs) st st' \<longleftrightarrow> has_fields kvs [''op'', ''arg'']
       \<and> shape_result (d + 1) False (member kvs ''arg'') (fst st + 1, snd st) st'"
proof -
  show "shape_result d True (JObj kvs) st st' \<longleftrightarrow> (\<exists>w. rule_shape d True (JObj kvs) 1 w \<and> st' = (fst st + 1, max (snd st) w))"
    (is "?l \<longleftrightarrow> ?r")
  proof
    assume ?l
    then obtain n w where "rule_shape d True (JObj kvs) n w" "st' = (fst st + n, max (snd st) w)"
      unfolding shape_result_def by blast
    moreover from this(1) have "n = 1" by (rule operand_nodes)
    ultimately show ?r by blast
  next
    assume ?r
    then show ?l using assms(2) unfolding shape_result_def by force
  qed
  show "shape_result d False (JObj kvs) st st' \<longleftrightarrow> has_fields kvs [''op'', ''left'', ''right'']
       \<and> (\<exists>x. shape_result (d + 1) True (member kvs ''left'') (fst st + 1, snd st) x
           \<and> shape_result (d + 1) True (member kvs ''right'') x st')" (is "?l \<longleftrightarrow> ?h \<and> ?r") if op: "is_op kvs COMPARISONS"
  proof
    assume ?l
    then obtain m v n w where h: ?h "rule_shape (d + 1) True (member kvs ''left'') m v" "rule_shape (d + 1) True (member kvs ''right'') n w"
      "st' = (fst st + (1 + m + n), max (snd st) (max v w))" "fst st' \<le> 32"
      unfolding shape_result_def comparison_iff [OF assms(1) op] by blast
    have "shape_result (d + 1) True (member kvs ''left'') (fst st + 1, snd st) (fst st + 1 + m, max (snd st) v)"
      using h(2,4,5) unfolding shape_result_def by auto
    moreover have "shape_result (d + 1) True (member kvs ''right'') (fst st + 1 + m, max (snd st) v) st'"
      using h(3-5) unfolding shape_result_def by (auto simp: max.assoc)
    ultimately show "?h \<and> ?r" using h(1) by blast
  next
    assume "?h \<and> ?r"
    then obtain m v n w where h: ?h "rule_shape (d + 1) True (member kvs ''left'') m v" "rule_shape (d + 1) True (member kvs ''right'') n w"
      "st' = (fst st + 1 + m + n, max (max (snd st) v) w)" "fst st' \<le> 32"
      unfolding shape_result_def by auto
    then have "rule_shape d False (JObj kvs) (1 + m + n) (max v w)"
      unfolding comparison_iff [OF assms(1) op] by blast
    then show ?l using h(4,5) unfolding shape_result_def by (auto simp: max.assoc)
  qed
  show "shape_result d False (JObj kvs) st st' \<longleftrightarrow> has_fields kvs [''op'', ''args'']
       \<and> (\<exists>xs. member kvs ''args'' = JList xs \<and> 2 \<le> length xs \<and> length xs \<le> 8
           \<and> shapes_result (d + 1) xs (fst st + 1, snd st) st')" (is "?l \<longleftrightarrow> ?h \<and> ?r") if op: "is_op kvs [''all'', ''any'']"
  proof
    assume ?l
    then obtain xs ns where h: ?h "member kvs ''args'' = JList xs" "2 \<le> length xs" "length xs \<le> 8"
      "list_all2 (\<lambda>x (n, w). rule_shape (d + 1) False x n w) xs ns"
      "st' = (fst st + (1 + sum_list (map fst ns)), max (snd st) (foldr max (map snd ns) 0))" "fst st' \<le> 32"
      unfolding shape_result_def junction_iff [OF assms(1) op] by blast
    then have "shapes_result (d + 1) xs (fst st + 1, snd st) st'"
      unfolding shapes_result_def by (intro conjI exI [of _ ns]) simp_all
    then show "?h \<and> ?r" using h(1-4) by blast
  next
    assume "?h \<and> ?r"
    then obtain xs ns where h: ?h "member kvs ''args'' = JList xs" "2 \<le> length xs" "length xs \<le> 8" "xs \<noteq> [] \<longrightarrow> fst st' \<le> 32"
      "list_all2 (\<lambda>x (n, w). rule_shape (d + 1) False x n w) xs ns"
      "st' = (fst st + 1 + sum_list (map fst ns), max (snd st) (foldr max (map snd ns) 0))"
      unfolding shapes_result_def by auto
    then have "rule_shape d False (JObj kvs) (1 + sum_list (map fst ns)) (foldr max (map snd ns) 0)"
      unfolding junction_iff [OF assms(1) op] by blast
    moreover have "fst st' \<le> 32" using h(3,5) by auto
    ultimately show ?l using h(7) unfolding shape_result_def by auto
  qed
  show "shape_result d False (JObj kvs) st st' \<longleftrightarrow> has_fields kvs [''op'', ''arg'']
       \<and> shape_result (d + 1) False (member kvs ''arg'') (fst st + 1, snd st) st'" (is "?l \<longleftrightarrow> ?h \<and> ?r") if op: "is_op kvs [''not'']"
  proof
    assume ?l
    then show "?h \<and> ?r" unfolding shape_result_def negation_iff [OF assms(1) op] by auto
  next
    assume "?h \<and> ?r"
    then obtain n w where h: ?h "rule_shape (d + 1) False (member kvs ''arg'') n w" "st' = (fst st + 1 + n, max (snd st) w)" "fst st' \<le> 32"
      unfolding shape_result_def by auto
    then have "rule_shape d False (JObj kvs) (1 + n) w" unfolding negation_iff [OF assms(1) op] by blast
    then show ?l using h(3,4) unfolding shape_result_def by auto
  qed
qed

lemma shapes_result_Cons:
  "shapes_result d (x # xs) st st' \<longleftrightarrow> (\<exists>y. shape_result d False x st y \<and> shapes_result d xs y st')"
proof
  assume "shapes_result d (x # xs) st st'"
  then obtain n w ns where h: "fst st' \<le> 32" "rule_shape d False x n w" "list_all2 (\<lambda>x (n, w). rule_shape d False x n w) xs ns"
    "st' = (fst st + (n + sum_list (map fst ns)), max (snd st) (max w (foldr max (map snd ns) 0)))"
    by (auto simp: shapes_result_def list_all2_Cons1)
  then have "shape_result d False x st (fst st + n, max (snd st) w)" by (auto simp: shape_result_def)
  moreover have "shapes_result d xs (fst st + n, max (snd st) w) st'"
    using h by (auto simp: shapes_result_def max.assoc intro!: exI [of _ ns])
  ultimately show "\<exists>y. shape_result d False x st y \<and> shapes_result d xs y st'" by blast
next
  assume "\<exists>y. shape_result d False x st y \<and> shapes_result d xs y st'"
  then obtain n w ns where "fst st + n \<le> 32" "rule_shape d False x n w" "xs \<noteq> [] \<longrightarrow> fst st' \<le> 32"
    "list_all2 (\<lambda>x (n, w). rule_shape d False x n w) xs ns"
    "st' = (fst st + n + sum_list (map fst ns), max (max (snd st) w) (foldr max (map snd ns) 0))"
    by (auto simp: shape_result_def shapes_result_def)
  then show "shapes_result d (x # xs) st st'"
    unfolding shapes_result_def by (intro conjI exI [of _ "(n, w) # ns"]) (cases xs; auto simp: max.assoc)+
qed

text \<open>The traversal computes exactly the shape.\<close>

lemma visit_iff:
  "visit node d operand st = Inr st' \<longleftrightarrow> shape_result d operand node st st'"
  "visit_all xs d st = Inr st' \<longleftrightarrow> shapes_result d xs st st'"
proof (induction node d operand st and xs d st arbitrary: st' and st' rule: visit_visit_all.induct)
  case (1 node d operand st)
  show ?case
  proof (cases "fst st < 32 \<and> d \<le> 6 \<and> (\<exists>kvs. node = JObj kvs)")
    case False
    then have "visit node d operand st = Inl ValueError"
      by (subst visit.simps) (cases node; auto simp: Let_def)
    moreover have "\<not> shape_result d operand node st st'"
      using False shape_bounds by (fastforce simp: shape_result_def)
    ultimately show ?thesis by simp
  next
    case True
    then obtain kvs where k: "fst st < 32" "d \<le> 6" "node = JObj kvs" by auto
    note IH = "1.IH" [OF refl _ k(3)]
    have b: "\<not> (fst (fst st + 1, snd st) > 32 \<or> d > 6)" using k by simp
    show ?thesis
    proof (cases operand)
      case True
      then show ?thesis using k shape_result_Obj(1) [OF k(2,1)] operand_iff [OF k(2)] by (simp add: visit_object(1) [OF k(1,2)])
    next
      case op: False
      consider "is_op kvs COMPARISONS" | "is_op kvs [''all'', ''any'']" | "is_op kvs [''not'']"
        | "\<not> is_op kvs COMPARISONS" "\<not> is_op kvs [''all'', ''any'']" "\<not> is_op kvs [''not'']" by blast
      then show ?thesis
      proof cases
        case 1
        show ?thesis
        proof (cases "has_fields kvs [''op'', ''left'', ''right'']")
          case True
          then have F: "closed_fields kvs [''op'', ''left'', ''right''] = Inr ()" by (simp add: closed_fields_Inr)
          have "visit (JObj kvs) d False st = Inr st' \<longleftrightarrow>
              (\<exists>x. visit (member kvs ''left'') (d + 1) True (fst st + 1, snd st) = Inr x \<and> visit (member kvs ''right'') (d + 1) True x = Inr st')"
            unfolding visit_object(2) [OF k(1,2) 1] F by (simp only: bind_res_simps bind_res_Inr_iff)
          also have "\<dots> \<longleftrightarrow> shape_result d False (JObj kvs) st st'"
            unfolding shape_result_Obj(2) [OF k(2,1) 1] using IH(1) [OF b op 1 F] IH(2) [OF b op 1 F] True by blast
          finally show ?thesis using op k(3) by simp
        next
          case False
          then have "visit (JObj kvs) d False st \<noteq> Inr st'"
            unfolding visit_object(2) [OF k(1,2) 1] by (simp add: closed_fields_Inr)
          then show ?thesis using False op k(3) shape_result_Obj(2) [OF k(2,1) 1] by simp
        qed
      next
        case 2
        have j: "\<not> is_op kvs COMPARISONS" using ops_disjoint(1) 2 by blast
        show ?thesis
        proof (cases "has_fields kvs [''op'', ''args''] \<and> (\<exists>xs. member kvs ''args'' = JList xs)")
          case True
          then obtain xs where xs: "member kvs ''args'' = JList xs" by blast
          have F: "closed_fields kvs [''op'', ''args''] = Inr ()" using True by (simp add: closed_fields_Inr)
          have "visit (JObj kvs) d False st = Inr st' \<longleftrightarrow>
              2 \<le> length xs \<and> length xs \<le> 8 \<and> visit_all xs (d + 1) (fst st + 1, snd st) = Inr st'"
            unfolding visit_object(3) [OF k(1,2) 2] F xs json.case by (simp only: bind_res_simps guard_res_Inr_iff) blast
          also have "\<dots> \<longleftrightarrow> shape_result d False (JObj kvs) st st'"
            unfolding shape_result_Obj(3) [OF k(2,1) 2] IH(3) [OF b op j 2 F xs] using True xs by auto
          finally show ?thesis using op k(3) by simp
        next
          case False
          then have "visit (JObj kvs) d False st \<noteq> Inr st'"
            unfolding visit_object(3) [OF k(1,2) 2] by (cases "member kvs ''args''") (simp_all add: closed_fields_Inr)
          then show ?thesis using False op k(3) shape_result_Obj(3) [OF k(2,1) 2] by auto
        qed
      next
        case 3
        have j: "\<not> is_op kvs COMPARISONS" "\<not> is_op kvs [''all'', ''any'']" using ops_disjoint(2,3) 3 by blast+
        show ?thesis
        proof (cases "has_fields kvs [''op'', ''arg'']")
          case True
          then have F: "closed_fields kvs [''op'', ''arg''] = Inr ()" by (simp add: closed_fields_Inr)
          have "visit (JObj kvs) d False st = Inr st' \<longleftrightarrow> visit (member kvs ''arg'') (d + 1) False (fst st + 1, snd st) = Inr st'"
            unfolding visit_object(4) [OF k(1,2) 3] F by (simp only: bind_res_simps)
          also have "\<dots> \<longleftrightarrow> shape_result d False (JObj kvs) st st'"
            unfolding shape_result_Obj(4) [OF k(2,1) 3] IH(4) [OF b op j 3 F] using True by blast
          finally show ?thesis using op k(3) by simp
        next
          case False
          then have "visit (JObj kvs) d False st \<noteq> Inr st'"
            unfolding visit_object(4) [OF k(1,2) 3] by (simp add: closed_fields_Inr)
          then show ?thesis using False op k(3) shape_result_Obj(4) [OF k(2,1) 3] by simp
        qed
      next
        case 4
        then show ?thesis using op k no_shape [OF 4] by (simp add: visit_object(5) [OF k(1,2) 4] shape_result_def)
      qed
    qed
  qed
next
  case (2 d st)
  then show ?case by (cases st) (auto simp: shapes_result_def)
next
  case (3 x xs d st)
  then show ?case unfolding shapes_result_Cons by (simp only: visit_all.simps bind_res_Inr_iff) blast
qed

section \<open>Evaluation of an admitted rule\<close>

lemma take_last_take_last: "v \<le> h \<Longrightarrow> take_last v (take_last h xs) = take_last v xs"
  by (cases "length xs \<le> h") (auto simp: take_last_def intro!: arg_cong [where f = "\<lambda>k. drop k xs"])

lemma map_res_total: "(\<And>x. x \<in> set xs \<Longrightarrow> \<exists>y. f x = Inr y) \<Longrightarrow> \<exists>ys. map_res f xs = Inr ys"
proof (induction xs)
  case (Cons x xs)
  obtain y ys where "f x = Inr y" "map_res f xs = Inr ys" using Cons by (metis list.set_intros)
  then show ?case by simp
qed simp

lemma junction_member:
  assumes "list_all2 (\<lambda>x (n, w). R x n w) xs ns" "x \<in> set xs"
  shows "\<exists>n w. R x n w \<and> w \<le> foldr max (map snd ns) (0 :: nat)"
  using assms by (induction rule: list_all2_induct) (auto simp: le_max_iff_disj, blast+)

lemma operand_laws:
  assumes "rule_shape d True j n w"
  shows "\<exists>v. operand_value q xs j = Inr v" "w \<le> h \<Longrightarrow> operand_value q (take_last h xs) j = operand_value q xs j"
  using assms
proof (atomize (full), cases rule: rule_shape.cases)
  case (price kvs)
  then have "map_of kvs ''field'' = Some (member kvs ''field'')"
    using member_Some [of kvs "[''kind'', ''field'']" "''field''"] by simp
  then show "(\<exists>v. operand_value q xs j = Inr v) \<and> (w \<le> h \<longrightarrow> operand_value q (take_last h xs) j = operand_value q xs j)"
    using price(1,5,7) by (auto simp: operand_value_def PRICE_FIELDS_def)
next
  case (sma kvs k)
  then have "map_of kvs ''window'' = Some (JInt k)" using member_Some [of kvs "[''kind'', ''window'']" "''window''"] by simp
  then show "(\<exists>v. operand_value q xs j = Inr v) \<and> (w \<le> h \<longrightarrow> operand_value q (take_last h xs) j = operand_value q xs j)"
    using sma by (auto simp: operand_value_def take_last_take_last)
qed simp_all

lemma op_known: "is_op kvs ops \<Longrightarrow> map_of kvs ''op'' \<noteq> None"
  by (auto simp: is_op_def)

lemma compare_total: "is_op kvs COMPARISONS \<Longrightarrow> \<exists>b. compare_values (map_of kvs ''op'') l r = Inr b"
  by (auto simp: is_op_def COMPARISONS_def compare_values_def)

lemma condition_laws:
  assumes "rule_shape d operand j n w" "\<not> operand"
  shows "(\<exists>b. condition q xs j = Inr b) \<and> (w \<le> h \<longrightarrow> condition q (take_last h xs) j = condition q xs j)"
  using assms
proof (induction rule: rule_shape.induct)
  case (comparison d kvs m v n w)
  have f: "map_of kvs ''left'' = Some (member kvs ''left'')" "map_of kvs ''right'' = Some (member kvs ''right'')"
    using member_Some [OF comparison.hyps(3)] by simp_all
  note o = op_known [OF comparison.hyps(2)] ops_disjoint(1,2) [OF comparison.hyps(2)]
  have u: "condition q ys (JObj kvs) = bind_res (operand_value q ys (member kvs ''left'')) (\<lambda>l.
      bind_res (operand_value q ys (member kvs ''right'')) (\<lambda>r. compare_values (map_of kvs ''op'') l r))" for ys
    using o by (subst condition.simps) (auto simp: f)
  show ?case
    using operand_laws(1) [OF comparison.hyps(4), of q xs] operand_laws(1) [OF comparison.hyps(5), of q xs]
      operand_laws(2) [OF comparison.hyps(4), of h q xs] operand_laws(2) [OF comparison.hyps(5), of h q xs]
      compare_total [OF comparison.hyps(2)]
    unfolding u by auto
next
  case (junction d kvs as ns)
  have f: "map_of kvs ''args'' = Some (JList as)"
    using member_Some [OF junction.hyps(3), of "''args''"] junction.hyps(4) by simp
  note o = op_known [OF junction.hyps(2)] ops_disjoint(3) [OF junction.hyps(2)]
  have u: "condition q ys (JObj kvs) = bind_res (map_res (condition q ys) as) (\<lambda>bs.
      Inr (if is_op kvs [''all''] then list_all id bs else list_ex id bs))" for ys
    using o junction.hyps(2) by (subst condition.simps) (auto simp: f)
  have each: "(\<exists>b. condition q xs x = Inr b) \<and> (foldr max (map snd ns) 0 \<le> h \<longrightarrow> condition q (take_last h xs) x = condition q xs x)"
    if "x \<in> set as" for x
    using junction_member [OF junction.IH that] by force
  then obtain bs where "map_res (condition q xs) as = Inr bs" using map_res_total [of as "condition q xs"] by blast
  moreover have "foldr max (map snd ns) 0 \<le> h \<longrightarrow> map_res (condition q (take_last h xs)) as = map_res (condition q xs) as"
    using each by (auto intro: map_res_cong)
  ultimately show ?case unfolding u by auto
next
  case (negation d kvs n w)
  have f: "map_of kvs ''arg'' = Some (member kvs ''arg'')" using member_Some [OF negation.hyps(3)] by simp
  have u: "condition q ys (JObj kvs) = bind_res (condition q ys (member kvs ''arg'')) (\<lambda>b. Inr (\<not> b))" for ys
    using op_known [OF negation.hyps(2)] negation.hyps(2) by (subst condition.simps) (auto simp: f)
  show ?case using negation.IH unfolding u by auto
qed simp_all

end
