(* ===== verification/Rule_Claims.thy ===== *)
theory Rule_Claims
  imports Rule_Laws Market_Admission Execution_Spec
begin

text \<open>
  What the price rules promise: the decoder ends on every document and accepts
  exactly the bounded well-formed rules, and the evaluator with its bounded window
  enters at the first bar on which the rule holds of the whole history.
\<close>

section \<open>Runs of the evaluator\<close>

fun event_run :: "(py_float \<Rightarrow> rat) \<Rightarrow> rule_logic \<Rightarrow> market_envelope list
    \<Rightarrow> rule_logic \<times> canonical_decimal option result list" where
  "event_run px lg [] = (lg, [])"
| "event_run px lg (e # es) =
     (case on_event px lg e of (lg', x) \<Rightarrow> case event_run px lg' es of (lg'', xs) \<Rightarrow> (lg'', x # xs))"

lemma event_run_snoc:
  "event_run px lg (es @ [e]) = (case event_run px lg es of (lg', xs) \<Rightarrow>
     case on_event px lg' e of (lg'', x) \<Rightarrow> (lg'', xs @ [x]))"
  by (induction es arbitrary: lg) (simp_all add: case_prod_beta)

text \<open>The prices of the bars a strategy is shown: the first revision of each.\<close>

definition shown_prices :: "(py_float \<Rightarrow> rat) \<Rightarrow> market_envelope list \<Rightarrow> rule_prices list" where
  "shown_prices px es = map (\<lambda>e. prices_of px (me_payload e)) (filter (\<lambda>e. me_revision e = 0) es)"

text \<open>The rule on the whole history: no window is cut.\<close>

definition rule_holds :: "price_rule \<Rightarrow> rule_prices list \<Rightarrow> bool" where
  "rule_holds r ps \<longleftrightarrow> ps \<noteq> [] \<and> pr_history r \<le> length ps
     \<and> condition (last ps) (map qp_close ps) (rule_when (pr_document r)) = Inr True"

definition holds_at :: "(py_float \<Rightarrow> rat) \<Rightarrow> price_rule \<Rightarrow> market_envelope list \<Rightarrow> nat \<Rightarrow> bool" where
  "holds_at px r es k \<longleftrightarrow> me_revision (es ! k) = 0 \<and> rule_holds r (shown_prices px (take (Suc k) es))"

abbreviation held :: "(py_float \<Rightarrow> rat) \<Rightarrow> price_rule \<Rightarrow> market_envelope list \<Rightarrow> bool" where
  "held px r es \<equiv> \<exists>k < length es. holds_at px r es k"

lemma holds_at_append: "k < length es \<Longrightarrow> holds_at px r (es @ fs) k = holds_at px r es k"
  by (simp add: holds_at_def nth_append)

lemma held_snoc: "held px r (es @ [e]) \<longleftrightarrow> held px r es \<or> holds_at px r (es @ [e]) (length es)"
  by (auto simp: less_Suc_eq holds_at_append)

lemma take_last_snoc: "take_last h (take_last h xs @ [x]) = take_last h (xs @ [x])"
proof (cases "length xs < h")
  case True
  then show ?thesis by (simp add: take_last_def)
next
  case False
  then have "length (take_last h xs) = h" by (simp add: take_last_def)
  then show ?thesis using False by (cases h) (auto simp: take_last_def Suc_diff_le intro!: arg_cong [where f = "\<lambda>k. drop k xs"])
qed

lemma length_take_last [simp]: "length (take_last h xs) = min h (length xs)"
  by (auto simp: take_last_def min_def)

definition admitted :: "price_rule \<Rightarrow> bool" where
  "admitted r \<longleftrightarrow> (\<exists>d n w. rule_shape d False (rule_when (pr_document r)) n w \<and> w \<le> pr_history r) \<and> 1 \<le> pr_history r"

definition tracks_rule :: "(py_float \<Rightarrow> rat) \<Rightarrow> rule_logic \<Rightarrow> market_envelope list \<Rightarrow> rule_logic \<Rightarrow> bool" where
  "tracks_rule px lg es lg' \<longleftrightarrow> lg_rule lg' = lg_rule lg \<and> lg_quantity lg' = lg_quantity lg
     \<and> (lg_entered lg' \<longleftrightarrow> held px (lg_rule lg) es)
     \<and> (\<not> lg_entered lg' \<longrightarrow> lg_closes lg' = take_last (pr_history (lg_rule lg)) (map qp_close (shown_prices px es)))"

lemma tracks_step:
  assumes "tracks_rule px lg es l1" "on_event px l1 e = (l2, x)" "admitted (lg_rule lg)"
  shows "tracks_rule px lg (es @ [e]) l2"
    "x = Inr (if holds_at px (lg_rule lg) (es @ [e]) (length es) \<and> \<not> held px (lg_rule lg) es then Some (lg_quantity lg) else None)"
proof -
  let ?r = "lg_rule lg" and ?p = "prices_of px (me_payload e)" and ?ps = "shown_prices px es"
  let ?closes = "take_last (pr_history ?r) (map qp_close (?ps @ [?p]))"
  have f: "lg_rule l1 = ?r" "lg_quantity l1 = lg_quantity lg" "lg_entered l1 \<longleftrightarrow> held px ?r es"
    using assms(1) by (simp_all add: tracks_rule_def)
  obtain d n w where shape: "rule_shape d False (rule_when (pr_document ?r)) n w" "w \<le> pr_history ?r"
    using assms(3) by (auto simp: admitted_def)
  have raw: "br_adjustment (me_payload e) = RAW" by (cases "br_adjustment (me_payload e)") simp
  have "tracks_rule px lg (es @ [e]) l2 \<and>
    x = Inr (if holds_at px ?r (es @ [e]) (length es) \<and> \<not> held px ?r es then Some (lg_quantity lg) else None)"
  proof (cases "lg_entered l1 \<or> me_revision e \<noteq> 0")
    case True
    then have e: "l2 = l1" "x = Inr None" using assms(2) by (auto simp: on_event_def)
    show ?thesis
    proof (cases "lg_entered l1")
      case True
      then show ?thesis using assms(1) f(3) unfolding e tracks_rule_def held_snoc by simp
    next
      case False
      then have r: "me_revision e \<noteq> 0" using True by simp
      then have "\<not> holds_at px ?r (es @ [e]) (length es)" "shown_prices px (es @ [e]) = ?ps"
        by (simp_all add: holds_at_def shown_prices_def)
      then show ?thesis using assms(1) unfolding e tracks_rule_def held_snoc by simp
    qed
  next
    case False
    then have ne: "\<not> lg_entered l1" "me_revision e = 0" "\<not> held px ?r es" using f(3) by simp_all
    have s: "shown_prices px (es @ [e]) = ?ps @ [?p]" using ne(2) by (simp add: shown_prices_def)
    have c: "take_last (pr_history ?r) (lg_closes l1 @ [qp_close ?p]) = ?closes"
      using assms(1) ne(1) by (simp add: tracks_rule_def take_last_snoc)
    obtain b where b: "condition ?p (map qp_close (?ps @ [?p])) (rule_when (pr_document ?r)) = Inr b"
      "condition ?p ?closes (rule_when (pr_document ?r)) = Inr b"
      using condition_laws [OF shape(1), of ?p "map qp_close (?ps @ [?p])" "pr_history ?r"] shape(2) by auto
    have h: "holds_at px ?r (es @ [e]) (length es) \<longleftrightarrow> pr_history ?r \<le> Suc (length ?ps) \<and> b"
      using b(1) s ne(2) by (simp add: holds_at_def rule_holds_def)
    have "on_event px l1 e = on_prices l1 ?p" using ne raw by (simp add: on_event_def)
    also have "\<dots> = (let l = l1\<lparr>lg_closes := ?closes\<rparr>
        in if Suc (length ?ps) < pr_history ?r then (l, Inr None)
           else if \<not> b then (l, Inr None) else (l\<lparr>lg_entered := True\<rparr>, Inr (Some (lg_quantity lg))))"
      unfolding on_prices_def f(1) c Let_def b(2) by (simp add: ne(1) f(2) min_less_iff_conj)
    finally have o: "(l2, x) = \<dots>" using assms(2) by simp
    show ?thesis using o ne h f unfolding tracks_rule_def held_snoc s Let_def
      by (auto split: if_splits)
  qed
  then show "tracks_rule px lg (es @ [e]) l2"
    "x = Inr (if holds_at px ?r (es @ [e]) (length es) \<and> \<not> held px ?r es then Some (lg_quantity lg) else None)"
    by blast+
qed

lemma tracks_run:
  assumes "admitted (lg_rule lg)" "lg_closes lg = []" "\<not> lg_entered lg"
  shows "tracks_rule px lg es (fst (event_run px lg es)) \<and> snd (event_run px lg es)
    = map (\<lambda>k. Inr (if holds_at px (lg_rule lg) es k \<and> (\<forall>j < k. \<not> holds_at px (lg_rule lg) es j) then Some (lg_quantity lg) else None))
        [0..<length es]"
proof (induction es rule: rev_induct)
  case Nil
  then show ?case using assms by (simp add: tracks_rule_def shown_prices_def take_last_def)
next
  case (snoc e es)
  obtain l1 xs where r: "event_run px lg es = (l1, xs)" by fastforce
  obtain l2 x where o: "on_event px l1 e = (l2, x)" by fastforce
  have l1: "tracks_rule px lg es l1" and xs: "xs = map (\<lambda>k. Inr (if holds_at px (lg_rule lg) es k
      \<and> (\<forall>j < k. \<not> holds_at px (lg_rule lg) es j) then Some (lg_quantity lg) else None)) [0..<length es]"
    using snoc r by simp_all
  note st = tracks_step [OF l1 o assms(1)]
  have "event_run px lg (es @ [e]) = (l2, xs @ [x])" by (simp add: event_run_snoc r o)
  then show ?case using st by (auto simp: xs holds_at_append)
qed

lemma decoded_rule:
  "decode_rule loads text = Inr r \<longleftrightarrow> utf8_length text \<le> 4096 \<and> (\<exists>kvs n w. loads text = Some (JObj kvs)
     \<and> has_fields kvs [''version'', ''when'', ''action''] \<and> member kvs ''version'' = JInt 1
     \<and> member kvs ''action'' = JStr ''ENTER_LONG'' \<and> rule_shape 1 False (member kvs ''when'') n w \<and> n \<le> 32
     \<and> r = \<lparr>pr_document = JObj kvs, pr_history = max 1 w\<rparr>)"
proof (cases "\<exists>kvs. loads text = Some (JObj kvs) \<and> utf8_length text \<le> 4096")
  case False
  then show ?thesis by (auto simp: decode_rule_def split: option.splits json.splits)
next
  case True
  then obtain kvs where k: "loads text = Some (JObj kvs)" "\<not> utf8_length text > 4096" by auto
  have "decode_rule loads text = Inr r \<longleftrightarrow> has_fields kvs [''version'', ''when'', ''action''] \<and> member kvs ''version'' = JInt 1
     \<and> member kvs ''action'' = JStr ''ENTER_LONG'' \<and> (\<exists>s. visit (member kvs ''when'') 1 False (0, 1) = Inr s
        \<and> r = \<lparr>pr_document = JObj kvs, pr_history = snd s\<rparr>)"
    unfolding decode_rule_def k option.case json.case guard_res_Inr_iff bind_res_Inr_iff closed_fields_Inr
    by (simp add: case_prod_beta k(2)) blast
  also have "\<dots> \<longleftrightarrow> has_fields kvs [''version'', ''when'', ''action''] \<and> member kvs ''version'' = JInt 1
     \<and> member kvs ''action'' = JStr ''ENTER_LONG'' \<and> (\<exists>n w. rule_shape 1 False (member kvs ''when'') n w \<and> n \<le> 32
        \<and> r = \<lparr>pr_document = JObj kvs, pr_history = max 1 w\<rparr>)"
    unfolding visit_iff shape_result_def by auto
  finally show ?thesis using k by auto
qed

lemma shape_window: "rule_shape d operand j n w \<Longrightarrow> w \<le> 64"
proof (induction rule: rule_shape.induct)
  case (junction d kvs as ns)
  have "\<forall>(n, w) \<in> set ns. w \<le> 64" using junction.IH by (induction rule: list_all2_induct) auto
  then show ?case by (induction ns) auto
qed simp_all

lemma decoded_admitted:
  assumes "decode_rule loads text = Inr r"
  shows "admitted r" "pr_history r \<le> 64"
proof -
  obtain kvs n w where "rule_shape 1 False (member kvs ''when'') n w" "r = \<lparr>pr_document = JObj kvs, pr_history = max 1 w\<rparr>"
    using assms unfolding decoded_rule by blast
  then show "admitted r" "pr_history r \<le> 64" using shape_window by (fastforce simp: admitted_def)+
qed

lemma on_event_closes:
  "lg_rule (fst (on_event px lg e)) = lg_rule lg
   \<and> (length (lg_closes lg) \<le> pr_history (lg_rule lg) \<longrightarrow> length (lg_closes (fst (on_event px lg e))) \<le> pr_history (lg_rule lg))"
  by (auto simp: on_event_def on_prices_def Let_def split: sum.splits)

lemma closes_bounded:
  "length (lg_closes lg) \<le> pr_history (lg_rule lg) \<Longrightarrow> length (lg_closes (fst (event_run px lg es))) \<le> pr_history (lg_rule lg)"
proof (induction es arbitrary: lg)
  case (Cons e es)
  then show ?case using on_event_closes [of px lg e] by (simp add: case_prod_beta) (metis)
qed simp

section \<open>An example\<close>

definition rule_example :: json where
  "rule_example = JObj [(''version'', JInt 1), (''when'', JObj [(''op'', JStr ''ge''),
     (''left'', JObj [(''kind'', JStr ''price''), (''field'', JStr ''close'')]),
     (''right'', JObj [(''kind'', JStr ''sma''), (''window'', JInt 2)])]), (''action'', JStr ''ENTER_LONG'')]"

lemma decode_example: "decode_rule (\<lambda>_. Some rule_example) [] = Inr \<lparr>pr_document = rule_example, pr_history = 2\<rparr>"
  by code_simp

section \<open>Properties\<close>

text \<open>C36: the decoder accepts exactly the bounded well-formed rules. It ends on every document, and it
  returns a rule if and only if the text is at most 4096 bytes, reads as an object with the three
  fields, version and action of the schema, and its condition has the shape of the grammar with
  at most 32 nodes, depth six and windows from 1 to 64; the history kept is then the longest
  window, at least one bar.\<close>

theorem decoder_accepts_rules:
  "decode_rule loads text = Inr r \<longleftrightarrow> utf8_length text \<le> 4096 \<and> (\<exists>kvs n w. loads text = Some (JObj kvs)
     \<and> has_fields kvs [''version'', ''when'', ''action''] \<and> member kvs ''version'' = JInt 1
     \<and> member kvs ''action'' = JStr ''ENTER_LONG'' \<and> rule_shape 1 False (member kvs ''when'') n w \<and> n \<le> 32
     \<and> r = \<lparr>pr_document = JObj kvs, pr_history = max 1 w\<rparr>)"
  by (rule decoded_rule)

theorem decoder_accepts_rules_witness:
  "\<exists>kvs n w. rule_example = JObj kvs \<and> rule_shape 1 False (member kvs ''when'') n w \<and> n \<le> 32 \<and> max 1 w = 2"
  using decode_example unfolding decoder_accepts_rules by auto

text \<open>C37: a rule enters once, at the first bar on which it holds of the whole history. For any rule
  the decoder accepts and any sequence of events, the evaluator never fails; it answers with the
  configured quantity exactly at the first original bar on which the longest window is filled
  and the condition holds of all closes shown so far, and with nothing before, after, and on
  every correction: the bounded window of closes loses nothing.\<close>

theorem rule_enters_at_first_match:
  assumes "create_rule_logic loads rule quantity = Inr lg" "event_run px lg es = (lg', xs)"
  shows "decode_rule loads rule = Inr (lg_rule lg) \<and> canonical_decimal quantity = Inr (lg_quantity lg)
    \<and> xs = map (\<lambda>k. Inr (if holds_at px (lg_rule lg) es k \<and> (\<forall>j < k. \<not> holds_at px (lg_rule lg) es j)
        then Some (lg_quantity lg) else None)) [0..<length es]
    \<and> (lg_entered lg' \<longleftrightarrow> (\<exists>k < length es. holds_at px (lg_rule lg) es k))
    \<and> length (lg_closes lg') \<le> 64"
proof -
  have c: "decode_rule loads rule = Inr (lg_rule lg)" "canonical_decimal quantity = Inr (lg_quantity lg)"
    "lg_closes lg = []" "\<not> lg_entered lg" using assms(1) by (auto simp: create_rule_logic_def)
  note d = decoded_admitted [OF c(1)]
  show ?thesis
    using tracks_run [OF d(1) c(3,4), of px es] closes_bounded [of lg px es] c(1,2) d(2) assms(2)
    by (simp add: tracks_rule_def c(3))
qed

theorem rule_enters_at_first_match_witness:
  "\<exists>lg. create_rule_logic (\<lambda>_. Some rule_example) [] ''1'' = Inr lg
     \<and> snd (event_run (\<lambda>x. case x of Finite v \<Rightarrow> v | _ \<Rightarrow> 0) lg [envelope_example 0 0, envelope_example 1 1, envelope_example 2 2])
       = [Inr None, Inr (Some dec_1), Inr None]"
proof -
  let ?px = "\<lambda>x. case x of Finite v \<Rightarrow> v | _ \<Rightarrow> (0 :: rat)" and ?es = "[envelope_example 0 0, envelope_example 1 1, envelope_example 2 2]"
  have "canonical_decimal ''1'' = Inr dec_1" unfolding dec_1_def by code_simp
  then obtain lg where lg: "create_rule_logic (\<lambda>_. Some rule_example) [] ''1'' = Inr lg" "lg_quantity lg = dec_1"
    "lg_rule lg = \<lparr>pr_document = rule_example, pr_history = 2\<rparr>" by (simp add: create_rule_logic_def decode_example)
  obtain lg' xs where run: "event_run ?px lg ?es = (lg', xs)" by fastforce
  let ?h = "holds_at ?px \<lparr>pr_document = rule_example, pr_history = 2\<rparr> ?es"
  have h: "\<not> ?h 0" "?h 1" by code_simp+
  then have "\<forall>j < 1. \<not> ?h j" "\<not> (\<forall>j < 2. \<not> ?h j)" by (simp, metis one_less_numeral_iff semiring_norm(76))
  moreover have "xs = map (\<lambda>k. Inr (if ?h k \<and> (\<forall>j < k. \<not> ?h j) then Some dec_1 else None)) [0, 1, 2]"
  proof -
    have "[0..<length ?es] = [0, 1, 2]" by code_simp
    then show ?thesis using rule_enters_at_first_match [OF lg(1) run, THEN conjunct2, THEN conjunct2, THEN conjunct1]
      unfolding lg(2,3) by (simp only:)
  qed
  ultimately have "xs = [Inr None, Inr (Some dec_1), Inr None]" using h by simp
  then show ?thesis using lg(1) run by auto
qed

end
