(* ===== verification/Audit_Index.thy ===== *)
theory Audit_Index
  imports Order_Messages "HOL-Library.Word"
begin

unbundle bit_operations_syntax

text \<open>
  The compact indexes of the append-only audit journal
  (\<open>ea.experiments.audit\<close>): the open-addressed table from logical keys to record
  sequences with its linear probing and its resize, the fixed-width record of
  every journal frame, and the capacity arithmetic of the journal.
\<close>

section \<open>Record and subject kinds\<close>

datatype (plugins only: code) audit_record_kind =
    RUN_PREPARED | MATCHER_DISPATCH_BATCH | EXECUTION_FACT_PROCESSING_OUTCOME
  | PORTFOLIO_LEDGER_HANDOFF_OUTCOME | RISK_PORTFOLIO_REFRESH
  | RECONCILIATION_OBSERVATION_OUTCOME | RECONCILIATION_ADJUSTMENT_AUTHORIZATION
  | RECONCILIATION_ADJUSTMENT_OUTCOME | SUBMISSION_PRE_EFFECT_AUTHORIZATION
  | RUNTIME_FAILING_SAFETY_TRANSITION | RUNTIME_DISPATCH_COMPLETED | RUN_TERMINAL
  | PAPER_SUBMISSION_AUTHORIZATION | PAPER_FACT_DISPATCH | PAPER_SUBMISSION_RESULT
  | PAPER_ORDER_CONSTRUCTION | PAPER_OPERATIONAL_SAFETY

datatype (plugins only: code) audit_subject_kind =
    SUBJECT_RUN_MANIFEST | SUBJECT_HISTORICAL_MATCHER_DISPATCH_BATCH
  | SUBJECT_EXECUTION_FACT_PROCESSING_OUTCOME | SUBJECT_PORTFOLIO_LEDGER_HANDOFF_OUTCOME
  | SUBJECT_PORTFOLIO_RISK_REFRESH | SUBJECT_RECONCILIATION_OUTCOME
  | SUBJECT_RECONCILIATION_ADJUSTMENT_AUTHORIZATION | SUBJECT_RECONCILIATION_ADJUSTMENT_OUTCOME
  | SUBJECT_HISTORICAL_EXECUTION_REQUEST | SUBJECT_COORDINATOR_STATE | SUBJECT_RUNTIME_DISPATCH
  | SUBJECT_RUN_TERMINAL_STATE | SUBJECT_PAPER_SUBMISSION | SUBJECT_PAPER_FACT_DISPATCH
  | SUBJECT_PAPER_SUBMISSION_RESULT | SUBJECT_PAPER_ORDER_CONSTRUCTION
  | SUBJECT_PAPER_OPERATIONAL_SAFETY

text \<open>The enumerations in source order; a rank is one more than the position.\<close>

definition all_record_kinds :: "audit_record_kind list" where
  "all_record_kinds =
     [RUN_PREPARED, MATCHER_DISPATCH_BATCH, EXECUTION_FACT_PROCESSING_OUTCOME,
      PORTFOLIO_LEDGER_HANDOFF_OUTCOME, RISK_PORTFOLIO_REFRESH,
      RECONCILIATION_OBSERVATION_OUTCOME, RECONCILIATION_ADJUSTMENT_AUTHORIZATION,
      RECONCILIATION_ADJUSTMENT_OUTCOME, SUBMISSION_PRE_EFFECT_AUTHORIZATION,
      RUNTIME_FAILING_SAFETY_TRANSITION, RUNTIME_DISPATCH_COMPLETED, RUN_TERMINAL,
      PAPER_SUBMISSION_AUTHORIZATION, PAPER_FACT_DISPATCH, PAPER_SUBMISSION_RESULT,
      PAPER_ORDER_CONSTRUCTION, PAPER_OPERATIONAL_SAFETY]"

definition all_subject_kinds :: "audit_subject_kind list" where
  "all_subject_kinds =
     [SUBJECT_RUN_MANIFEST, SUBJECT_HISTORICAL_MATCHER_DISPATCH_BATCH,
      SUBJECT_EXECUTION_FACT_PROCESSING_OUTCOME, SUBJECT_PORTFOLIO_LEDGER_HANDOFF_OUTCOME,
      SUBJECT_PORTFOLIO_RISK_REFRESH, SUBJECT_RECONCILIATION_OUTCOME,
      SUBJECT_RECONCILIATION_ADJUSTMENT_AUTHORIZATION, SUBJECT_RECONCILIATION_ADJUSTMENT_OUTCOME,
      SUBJECT_HISTORICAL_EXECUTION_REQUEST, SUBJECT_COORDINATOR_STATE, SUBJECT_RUNTIME_DISPATCH,
      SUBJECT_RUN_TERMINAL_STATE, SUBJECT_PAPER_SUBMISSION, SUBJECT_PAPER_FACT_DISPATCH,
      SUBJECT_PAPER_SUBMISSION_RESULT, SUBJECT_PAPER_ORDER_CONSTRUCTION,
      SUBJECT_PAPER_OPERATIONAL_SAFETY]"

definition rank_in :: "'a list \<Rightarrow> 'a \<Rightarrow> nat" where
  "rank_in xs x = Suc (length (takeWhile (\<lambda>y. y \<noteq> x) xs))"

text \<open>\<open>AUDIT_SUBJECT_BY_RECORD_KIND\<close>: the two enumerations run in parallel.\<close>

fun subject_of_kind :: "audit_record_kind \<Rightarrow> audit_subject_kind" where
  "subject_of_kind RUN_PREPARED = SUBJECT_RUN_MANIFEST"
| "subject_of_kind MATCHER_DISPATCH_BATCH = SUBJECT_HISTORICAL_MATCHER_DISPATCH_BATCH"
| "subject_of_kind EXECUTION_FACT_PROCESSING_OUTCOME = SUBJECT_EXECUTION_FACT_PROCESSING_OUTCOME"
| "subject_of_kind PORTFOLIO_LEDGER_HANDOFF_OUTCOME = SUBJECT_PORTFOLIO_LEDGER_HANDOFF_OUTCOME"
| "subject_of_kind RISK_PORTFOLIO_REFRESH = SUBJECT_PORTFOLIO_RISK_REFRESH"
| "subject_of_kind RECONCILIATION_OBSERVATION_OUTCOME = SUBJECT_RECONCILIATION_OUTCOME"
| "subject_of_kind RECONCILIATION_ADJUSTMENT_AUTHORIZATION =
     SUBJECT_RECONCILIATION_ADJUSTMENT_AUTHORIZATION"
| "subject_of_kind RECONCILIATION_ADJUSTMENT_OUTCOME = SUBJECT_RECONCILIATION_ADJUSTMENT_OUTCOME"
| "subject_of_kind SUBMISSION_PRE_EFFECT_AUTHORIZATION = SUBJECT_HISTORICAL_EXECUTION_REQUEST"
| "subject_of_kind RUNTIME_FAILING_SAFETY_TRANSITION = SUBJECT_COORDINATOR_STATE"
| "subject_of_kind RUNTIME_DISPATCH_COMPLETED = SUBJECT_RUNTIME_DISPATCH"
| "subject_of_kind RUN_TERMINAL = SUBJECT_RUN_TERMINAL_STATE"
| "subject_of_kind PAPER_SUBMISSION_AUTHORIZATION = SUBJECT_PAPER_SUBMISSION"
| "subject_of_kind PAPER_FACT_DISPATCH = SUBJECT_PAPER_FACT_DISPATCH"
| "subject_of_kind PAPER_SUBMISSION_RESULT = SUBJECT_PAPER_SUBMISSION_RESULT"
| "subject_of_kind PAPER_ORDER_CONSTRUCTION = SUBJECT_PAPER_ORDER_CONSTRUCTION"
| "subject_of_kind PAPER_OPERATIONAL_SAFETY = SUBJECT_PAPER_OPERATIONAL_SAFETY"

record audit_key =
  lk_record :: audit_record_kind
  lk_subject :: audit_subject_kind
  lk_digest :: sha256_digest

text \<open>\<open>AuditLogicalKey.__post_init__\<close> with \<open>_require_kind_subject\<close>.\<close>

definition make_logical_key ::
  "audit_record_kind \<Rightarrow> audit_subject_kind \<Rightarrow> sha256_digest \<Rightarrow> audit_key result" where
  "make_logical_key rk sk d =
     guard_res (subject_of_kind rk \<noteq> sk) (AuditContractError CONFLICTING_ID)
       (Inr \<lparr>lk_record = rk, lk_subject = sk, lk_digest = d\<rparr>)"

section \<open>The logical-key table\<close>

text \<open>\<open>bytes.fromhex\<close> on a text of lowercase digits, and \<open>int.from_bytes(_, "big")\<close>.\<close>

fun fromhex :: "string \<Rightarrow> string" where
  "fromhex (a # b # r) = char_of (16 * hex_val a + hex_val b) # fromhex r"
| "fromhex _ = []"

definition from_bytes :: "string \<Rightarrow> nat" where
  "from_bytes bs = foldl (\<lambda>n b. 256 * n + of_char b) 0 bs"

text \<open>
  The table as the code lays it out: two byte arrays of kind ranks, one array of
  32-byte digests end to end, and the sequences; a sequence of zero is a free slot.
\<close>

record logical_index =
  li_count :: nat
  li_record_kinds :: "nat list"
  li_subject_kinds :: "nat list"
  li_digests :: string
  li_sequences :: "int list"

type_synonym key_parts = "nat \<times> nat \<times> string"

definition MAX_AUDIT_RECORDS :: int where "MAX_AUDIT_RECORDS = 600006"

definition new_logical_index :: "nat \<Rightarrow> logical_index result" where
  "new_logical_index capacity =
     guard_res (capacity < 8 \<or> capacity AND (capacity - 1) \<noteq> 0) ValueError
       (Inr \<lparr>li_count = 0, li_record_kinds = replicate capacity 0,
          li_subject_kinds = replicate capacity 0,
          li_digests = replicate (capacity * 32) (CHR 0x00),
          li_sequences = replicate capacity 0\<rparr>)"

definition capacity :: "logical_index \<Rightarrow> nat" where
  "capacity li = length (li_sequences li)"

text \<open>\<open>_parts\<close>.\<close>

definition key_parts :: "audit_key \<Rightarrow> key_parts" where
  "key_parts k = (rank_in all_record_kinds (lk_record k), rank_in all_subject_kinds (lk_subject k),
     fromhex (digest_text (lk_digest k)))"

text \<open>\<open>_initial_slot\<close>: the first eight bytes of a hash of the parts, masked.\<close>

definition initial_slot :: "stdlib \<Rightarrow> key_parts \<Rightarrow> nat \<Rightarrow> nat" where
  "initial_slot std = (\<lambda>(rk, sk, d) msk.
     from_bytes (take 8 (fromhex (hexdigest std ([char_of rk, char_of sk] @ d)))) AND msk)"

definition digest_at :: "logical_index \<Rightarrow> nat \<Rightarrow> string" where
  "digest_at li slot = take 32 (drop (slot * 32) (li_digests li))"

definition parts_at :: "logical_index \<Rightarrow> nat \<Rightarrow> key_parts" where
  "parts_at li slot = (li_record_kinds li ! slot, li_subject_kinds li ! slot, digest_at li slot)"

text \<open>The probing loop of \<open>_find_slot\<close>; \<open>None\<close> stands for a loop that never returns.\<close>

partial_function (option) probe ::
  "logical_index \<Rightarrow> key_parts \<Rightarrow> nat \<Rightarrow> nat \<Rightarrow> (nat \<times> bool) option" where
  "probe li k msk slot =
     (if li_sequences li ! slot = 0 then Some (slot, False)
      else if parts_at li slot = k then Some (slot, True)
      else probe li k msk (Suc slot AND msk))"

definition find_slot :: "stdlib \<Rightarrow> logical_index \<Rightarrow> key_parts \<Rightarrow> (nat \<times> bool) option" where
  "find_slot std li k =
     (let msk = capacity li - 1 in probe li k msk (initial_slot std k msk))"

definition index_get :: "stdlib \<Rightarrow> logical_index \<Rightarrow> audit_key \<Rightarrow> int option option" where
  "index_get std li key =
     map_option (\<lambda>(slot, found). if found then Some (li_sequences li ! slot) else None)
       (find_slot std li (key_parts key))"

text \<open>The five assignments that fill a slot, shared by \<open>insert\<close> and \<open>_resize\<close>.\<close>

definition write_digest :: "nat \<Rightarrow> string \<Rightarrow> string \<Rightarrow> string" where
  "write_digest slot d ds = take (slot * 32) ds @ d @ drop (slot * 32 + 32) ds"

definition fill_slot :: "nat \<Rightarrow> key_parts \<Rightarrow> int \<Rightarrow> logical_index \<Rightarrow> logical_index" where
  "fill_slot slot = (\<lambda>(rk, sk, d) n li.
     li\<lparr>li_record_kinds := (li_record_kinds li)[slot := rk],
        li_subject_kinds := (li_subject_kinds li)[slot := sk],
        li_digests := write_digest slot d (li_digests li),
        li_sequences := (li_sequences li)[slot := n],
        li_count := li_count li + 1\<rparr>)"

text \<open>The loop of \<open>_resize\<close> over the slots of the old table.\<close>

fun rehash :: "stdlib \<Rightarrow> logical_index \<Rightarrow> nat list \<Rightarrow> logical_index \<Rightarrow> logical_index result option" where
  "rehash std li [] replacement = Some (Inr replacement)"
| "rehash std li (slot # slots) replacement =
     (if li_sequences li ! slot = 0 then rehash std li slots replacement
      else (case find_slot std replacement (parts_at li slot) of
          None \<Rightarrow> None
        | Some (target, found) \<Rightarrow>
            if found then Some (Inl RuntimeError)
            else rehash std li slots
              (fill_slot target (parts_at li slot) (li_sequences li ! slot) replacement)))"

definition resize :: "stdlib \<Rightarrow> nat \<Rightarrow> logical_index \<Rightarrow> logical_index result option" where
  "resize std cap li =
     (case new_logical_index cap of
        Inl e \<Rightarrow> Some (Inl e)
      | Inr blank \<Rightarrow>
          map_option (\<lambda>r. bind_res r (\<lambda>replacement.
            Inr (li\<lparr>li_record_kinds := li_record_kinds replacement,
              li_subject_kinds := li_subject_kinds replacement,
              li_digests := li_digests replacement,
              li_sequences := li_sequences replacement\<rparr>)))
            (rehash std li [0..<capacity li] blank))"

definition reserve_for_insert :: "stdlib \<Rightarrow> logical_index \<Rightarrow> logical_index result option" where
  "reserve_for_insert std li =
     (if (li_count li + 1) * 4 > capacity li * 3 then resize std (capacity li * 2) li
      else Some (Inr li))"

text \<open>\<open>insert\<close>: the table after the call with its result. A failed resize leaves the table.\<close>

definition index_insert ::
  "stdlib \<Rightarrow> audit_key \<Rightarrow> int \<Rightarrow> logical_index \<Rightarrow> (logical_index \<times> unit result) option" where
  "index_insert std key n li =
     (if \<not> (1 \<le> n \<and> n \<le> MAX_AUDIT_RECORDS) then Some (li, Inl ValueError)
      else (case reserve_for_insert std li of
          None \<Rightarrow> None
        | Some (Inl e) \<Rightarrow> Some (li, Inl e)
        | Some (Inr grown) \<Rightarrow>
            (case find_slot std grown (key_parts key) of
               None \<Rightarrow> None
             | Some (slot, found) \<Rightarrow>
                 if found then Some (grown, Inl ValueError)
                 else Some (fill_slot slot (key_parts key) n grown, Inr ()))))"

end
