(* ===== verification/Audit_Capacity.thy ===== *)
theory Audit_Capacity
  imports Audit_Index
begin

text \<open>
  The finite envelope of an audit journal (\<open>AuditCapacityLimits\<close> and the capacity
  methods of \<open>PosixAuditJournal\<close>): the projection of the resident index, the
  binary search for the largest record count that fits, the frames left for
  ordinary records, and the reserve a closing journal spends.
\<close>

definition MAX_AUDIT_JOURNAL_BYTES :: int where
  "MAX_AUDIT_JOURNAL_BYTES = 13 * 1024 * 1024 * 1024"

definition MAX_AUDIT_INDEX_RESIDENT_BYTES :: int where
  "MAX_AUDIT_INDEX_RESIDENT_BYTES = 256 * 1024 * 1024"

definition MAX_AUDIT_HEADER_BYTES :: int where "MAX_AUDIT_HEADER_BYTES = 4096"
definition MAX_LARGE_AUDIT_PAYLOAD_BYTES :: int where "MAX_LARGE_AUDIT_PAYLOAD_BYTES = 16384"

definition MAX_AUDIT_FRAME_BYTES :: int where
  "MAX_AUDIT_FRAME_BYTES = 8 + MAX_AUDIT_HEADER_BYTES + 8 + MAX_LARGE_AUDIT_PAYLOAD_BYTES + 32"

definition AUDIT_INDEX_BYTES_PER_RECORD :: int where "AUDIT_INDEX_BYTES_PER_RECORD = 128"
definition AUDIT_INDEX_BYTES_PER_SLOT :: int where "AUDIT_INDEX_BYTES_PER_SLOT = 38"
definition AUDIT_INDEX_FIXED_OVERHEAD_BYTES :: int where "AUDIT_INDEX_FIXED_OVERHEAD_BYTES = 4096"

definition AUDIT_JOURNAL_PREAMBLE :: string where
  "AUDIT_JOURNAL_PREAMBLE = ''EA-AUDIT-V1'' @ [CHR 0x0A]"

section \<open>The projection of the index\<close>

text \<open>\<open>int.bit_length\<close> of a natural number.\<close>

fun bit_length :: "nat \<Rightarrow> nat" where
  "bit_length n = (if n = 0 then 0 else Suc (bit_length (n div 2)))"

declare bit_length.simps [simp del]

definition projected_index_resident_bytes :: "nat \<Rightarrow> int" where
  "projected_index_resident_bytes record_count =
     (let required_slots = (4 * (record_count + 1) + 2) div 3;
          slots = max 8 (push_bit (bit_length (max 0 (required_slots - 1))) 1)
      in int record_count * AUDIT_INDEX_BYTES_PER_RECORD
         + 2 * int slots * AUDIT_INDEX_BYTES_PER_SLOT + AUDIT_INDEX_FIXED_OVERHEAD_BYTES)"

section \<open>Limits\<close>

record capacity_limits =
  max_records :: int
  max_journal_bytes :: int
  max_index_resident_bytes :: int

definition in_bound :: "int \<Rightarrow> int \<Rightarrow> bool" where
  "in_bound top_value v \<longleftrightarrow> 1 \<le> v \<and> v \<le> top_value"

definition make_capacity_limits :: "int \<Rightarrow> int \<Rightarrow> int \<Rightarrow> capacity_limits result" where
  "make_capacity_limits r j x =
     guard_res (\<not> in_bound MAX_AUDIT_RECORDS r) ValueError
    (guard_res (\<not> in_bound MAX_AUDIT_JOURNAL_BYTES j) ValueError
    (guard_res (\<not> in_bound MAX_AUDIT_INDEX_RESIDENT_BYTES x) ValueError
       (Inr \<lparr>max_records = r, max_journal_bytes = j, max_index_resident_bytes = x\<rparr>)))"

text \<open>\<open>tightened\<close>: the overrides in the order they are given.\<close>

datatype limit_name = MAX_RECORDS | MAX_JOURNAL_BYTES | MAX_INDEX_RESIDENT_BYTES | UNKNOWN_LIMIT

fun override :: "limit_name \<times> int \<Rightarrow> capacity_limits \<Rightarrow> capacity_limits result" where
  "override (MAX_RECORDS, v) l =
     guard_res (\<not> in_bound (max_records l) v) ValueError (Inr (l\<lparr>max_records := v\<rparr>))"
| "override (MAX_JOURNAL_BYTES, v) l =
     guard_res (\<not> in_bound (max_journal_bytes l) v) ValueError (Inr (l\<lparr>max_journal_bytes := v\<rparr>))"
| "override (MAX_INDEX_RESIDENT_BYTES, v) l =
     guard_res (\<not> in_bound (max_index_resident_bytes l) v) ValueError
       (Inr (l\<lparr>max_index_resident_bytes := v\<rparr>))"
| "override (UNKNOWN_LIMIT, v) l = Inl ValueError"

fun overrides :: "(limit_name \<times> int) list \<Rightarrow> capacity_limits \<Rightarrow> capacity_limits result" where
  "overrides [] l = Inr l"
| "overrides (e # es) l = bind_res (override e l) (overrides es)"

definition tightened :: "(limit_name \<times> int) list \<Rightarrow> capacity_limits \<Rightarrow> capacity_limits result" where
  "tightened es l = bind_res (overrides es l) (\<lambda>v.
     make_capacity_limits (max_records v) (max_journal_bytes v) (max_index_resident_bytes v))"

section \<open>The capacity state of a journal\<close>

text \<open>The fields of \<open>PosixAuditJournal\<close> its capacity depends on; \<open>jn_entries\<close> is the
  number of entries.\<close>

record journal =
  jn_limits :: capacity_limits
  jn_entries :: nat
  jn_reserved :: int
  jn_verified_eof :: int
  jn_closing :: bool
  jn_failed :: bool
  jn_terminal :: bool
  jn_closed :: bool

definition new_journal :: "capacity_limits \<Rightarrow> int \<Rightarrow> journal result" where
  "new_journal limits protected_close_frames =
     guard_res (\<not> (0 \<le> protected_close_frames \<and> protected_close_frames < max_records limits))
       (AuditContractError OUT_OF_RANGE)
       (Inr \<lparr>jn_limits = limits, jn_entries = 0, jn_reserved = protected_close_frames,
          jn_verified_eof = int (length AUDIT_JOURNAL_PREAMBLE), jn_closing = False,
          jn_failed = False, jn_terminal = False, jn_closed = False\<rparr>)"

text \<open>\<open>_index_record_limit\<close>: the binary search.\<close>

function limit_search :: "int \<Rightarrow> nat \<Rightarrow> nat \<Rightarrow> nat" where
  "limit_search limit low high =
     (if low < high
      then let middle = (low + high + 1) div 2
           in if projected_index_resident_bytes middle \<le> limit
              then limit_search limit middle high
              else limit_search limit low (middle - 1)
      else low)"
  by pat_completeness auto
termination by (relation "measure (\<lambda>(limit, low, high). high - low)") auto

declare limit_search.simps [simp del]

definition index_record_limit :: "journal \<Rightarrow> nat" where
  "index_record_limit j =
     limit_search (max_index_resident_bytes (jn_limits j)) 0 (nat (max_records (jn_limits j)))"

definition remaining_frames :: "journal \<Rightarrow> int" where
  "remaining_frames j =
     (if jn_closed j \<or> jn_failed j \<or> jn_terminal j \<or> jn_closing j then 0
      else let committed = int (jn_entries j) + jn_reserved j;
               record_slack = max_records (jn_limits j) - committed;
               byte_slack = (max_journal_bytes (jn_limits j) - jn_verified_eof j)
                 div MAX_AUDIT_FRAME_BYTES - jn_reserved j;
               index_slack = int (index_record_limit j) - committed
           in max 0 (min (min record_slack byte_slack) index_slack))"

definition has_capacity_for :: "int \<Rightarrow> journal \<Rightarrow> bool result" where
  "has_capacity_for frames j =
     guard_res (frames < 0) (AuditContractError OUT_OF_RANGE) (Inr (frames \<le> remaining_frames j))"

text \<open>\<open>begin_protected_close\<close> of a journal that needs no rescan.\<close>

definition begin_protected_close :: "journal \<Rightarrow> journal result" where
  "begin_protected_close j =
     guard_res (jn_closed j) (AuditContractError CONFLICTING_ID)
    (guard_res (jn_failed j) (AuditContractError DURABILITY_AUDIT_ACK_MISMATCH)
       (Inr (j\<lparr>jn_closing := True\<rparr>)))"

definition CLOSING_AUDIT_RECORD_KINDS :: "audit_record_kind list" where
  "CLOSING_AUDIT_RECORD_KINDS = [RECONCILIATION_OBSERVATION_OUTCOME, RUN_TERMINAL]"

definition closing_allowance :: "journal \<Rightarrow> audit_record_kind \<Rightarrow> int" where
  "closing_allowance j kind =
     (if kind \<notin> set CLOSING_AUDIT_RECORD_KINDS then 0
      else let requirement = if kind = RECONCILIATION_OBSERVATION_OUTCOME then 2 else 1
           in if requirement \<le> jn_reserved j then 1 else 0)"

definition closing_appends_fit :: "journal \<Rightarrow> int \<Rightarrow> bool" where
  "closing_appends_fit j required =
     (if jn_terminal j \<or> required = 0 then False
      else if max_records (jn_limits j) < int (jn_entries j) + 1 then False
      else jn_entries j + 1 \<le> index_record_limit j)"

definition tighten_capacity_limits :: "(limit_name \<times> int) list \<Rightarrow> journal \<Rightarrow> journal result" where
  "tighten_capacity_limits es j =
     bind_res (tightened es (jn_limits j)) (\<lambda>l. Inr (j\<lparr>jn_limits := l\<rparr>))"

text \<open>
  The part of \<open>append\<close> that decides whether a new record is admitted, and the
  part that commits a durable frame of the given length.
\<close>

definition admit_record :: "journal \<Rightarrow> audit_record_kind \<Rightarrow> int result" where
  "admit_record j kind =
     (if jn_closing j
      then let allowance = closing_allowance j kind
           in guard_res (\<not> closing_appends_fit j allowance) (AuditContractError OUT_OF_RANGE)
                (Inr allowance)
      else guard_res (remaining_frames j < 1) (AuditContractError OUT_OF_RANGE) (Inr 0))"

definition frame_fits :: "journal \<Rightarrow> int \<Rightarrow> bool" where
  "frame_fits j frame_length \<longleftrightarrow>
     jn_verified_eof j + frame_length \<le> max_journal_bytes (jn_limits j)"

definition commit_frame :: "journal \<Rightarrow> audit_record_kind \<Rightarrow> int \<Rightarrow> int \<Rightarrow> journal" where
  "commit_frame j kind allowance frame_length =
     j\<lparr>jn_entries := jn_entries j + 1,
       jn_verified_eof := jn_verified_eof j + frame_length,
       jn_reserved := (if jn_closing j then jn_reserved j - allowance else jn_reserved j),
       jn_terminal := (kind = RUN_TERMINAL)\<rparr>"

definition require_index_resident_budget :: "int \<Rightarrow> unit result" where
  "require_index_resident_budget resident =
     guard_res (MAX_AUDIT_INDEX_RESIDENT_BYTES < resident) (AuditContractError OUT_OF_RANGE) (Inr ())"

text \<open>
  An append of a well-formed record with a new logical key whose write is durable, and a run of a
  journal. \<open>resident\<close> is what \<open>sys.getsizeof\<close> measures of the indexes with the record in them.
\<close>

definition append_new :: "audit_record_kind \<Rightarrow> int \<Rightarrow> int \<Rightarrow> journal \<Rightarrow> journal \<times> unit result" where
  "append_new kind frame_length resident j =
     (if jn_closed j then (j, Inl (AuditContractError CONFLICTING_ID))
      else if jn_failed j then (j, Inl (AuditContractError DURABILITY_AUDIT_ACK_MISMATCH))
      else if jn_terminal j then (j, Inl (AuditContractError CONFLICTING_ID))
      else (case admit_record j kind of
          Inl e \<Rightarrow> (j, Inl e)
        | Inr allowance \<Rightarrow>
            if frame_fits j frame_length
            then (case require_index_resident_budget resident of
                Inl e \<Rightarrow> (j, Inl e)
              | Inr _ \<Rightarrow> (commit_frame j kind allowance frame_length, Inr ()))
            else (j, Inl (AuditContractError OUT_OF_RANGE))))"

datatype journal_event = AppendEvent audit_record_kind int int | CloseEvent

fun journal_next :: "journal \<Rightarrow> journal_event \<Rightarrow> journal" where
  "journal_next j (AppendEvent kind n resident) = fst (append_new kind n resident j)"
| "journal_next j CloseEvent = (case begin_protected_close j of Inl e \<Rightarrow> j | Inr c \<Rightarrow> c)"

definition journal_run :: "journal \<Rightarrow> journal_event list \<Rightarrow> journal" where
  "journal_run j es = foldl journal_next j es"

definition frame_bound :: "int \<Rightarrow> bool" where
  "frame_bound n \<longleftrightarrow> 0 < n \<and> n \<le> MAX_AUDIT_FRAME_BYTES"

fun event_bound :: "journal_event \<Rightarrow> bool" where
  "event_bound (AppendEvent kind n resident) = frame_bound n"
| "event_bound CloseEvent = True"

end
