(* ===== verification/Audit_Index_Laws.thy ===== *)
theory Audit_Index_Laws
  imports Audit_Index
begin

text \<open>
  The logical-key table is a finite map: every probe meets the wanted key or a
  free slot, an insertion fills the slot the probe ends in, and a resize carries
  the entries over.
\<close>

section \<open>The shape and the invariant of a table\<close>

definition holds_entry :: "logical_index \<Rightarrow> nat \<Rightarrow> bool" where
  "holds_entry li s \<longleftrightarrow> s < capacity li \<and> li_sequences li ! s \<noteq> 0"

definition stores :: "logical_index \<Rightarrow> key_parts \<Rightarrow> int \<Rightarrow> bool" where
  "stores li k n \<longleftrightarrow> (\<exists>s. holds_entry li s \<and> parts_at li s = k \<and> li_sequences li ! s = n)"

definition table_shape :: "logical_index \<Rightarrow> bool" where
  "table_shape li \<longleftrightarrow> (\<exists>b\<ge>3. capacity li = 2 ^ b)
     \<and> length (li_record_kinds li) = capacity li \<and> length (li_subject_kinds li) = capacity li
     \<and> length (li_digests li) = capacity li * 32"

definition slot_from :: "stdlib \<Rightarrow> logical_index \<Rightarrow> key_parts \<Rightarrow> nat \<Rightarrow> nat" where
  "slot_from std li k d = (initial_slot std k (capacity li - 1) + d) mod capacity li"

definition reached :: "stdlib \<Rightarrow> logical_index \<Rightarrow> nat \<Rightarrow> bool" where
  "reached std li s \<longleftrightarrow> (\<exists>d < capacity li. s = slot_from std li (parts_at li s) d
     \<and> (\<forall>j < d. holds_entry li (slot_from std li (parts_at li s) j)))"

definition table_inv :: "stdlib \<Rightarrow> logical_index \<Rightarrow> bool" where
  "table_inv std li \<longleftrightarrow> table_shape li
     \<and> li_count li = card {s. holds_entry li s} \<and> li_count li * 4 \<le> capacity li * 3
     \<and> inj_on (parts_at li) {s. holds_entry li s}
     \<and> (\<forall>s. holds_entry li s \<longrightarrow> reached std li s)"

lemma nat_and_mask: "(x :: nat) AND (2 ^ b - 1) = x mod 2 ^ b"
  by (simp add: take_bit_eq_mod [symmetric] take_bit_eq_mask mask_eq_exp_minus_1)

lemma mask_is_mod: "capacity li = 2 ^ b \<Longrightarrow> x AND (capacity li - 1) = x mod capacity li"
  using nat_and_mask [of x b] by simp

lemma shape_positive: "table_shape li \<Longrightarrow> 0 < capacity li"
  by (auto simp: table_shape_def)

lemma initial_slot_less:
  assumes "table_shape li" shows "initial_slot std k (capacity li - 1) < capacity li"
proof -
  obtain b where "capacity li = 2 ^ b" using assms by (auto simp: table_shape_def)
  from mask_is_mod [OF this] show ?thesis
    using shape_positive [OF assms] by (cases k) (simp add: initial_slot_def)
qed

lemma slot_from_less: "table_shape li \<Longrightarrow> slot_from std li k d < capacity li"
  by (simp add: slot_from_def shape_positive)

lemma free_slot:
  assumes "table_inv std li" obtains f where "f < capacity li" "\<not> holds_entry li f"
proof -
  have "li_count li < capacity li"
    using assms shape_positive [of li] by (auto simp: table_inv_def)
  moreover have "{s. holds_entry li s} \<subseteq> {..<capacity li}" by (auto simp: holds_entry_def)
  ultimately have "\<not> {..<capacity li} \<subseteq> {s. holds_entry li s}"
    using assms card_mono [of "{s. holds_entry li s}" "{..<capacity li}"]
    by (auto simp: table_inv_def dest: finite_subset)
  then show thesis using that by auto
qed

section \<open>Probing\<close>

lemma probe_path:
  assumes "capacity li = 2 ^ b" "slot < capacity li"
    "\<And>j. j < d \<Longrightarrow> holds_entry li ((slot + j) mod capacity li)
        \<and> parts_at li ((slot + j) mod capacity li) \<noteq> k"
    "t = (slot + d) mod capacity li" "li_sequences li ! t = 0 \<or> parts_at li t = k"
  shows "probe li k (capacity li - 1) slot = Some (t, li_sequences li ! t \<noteq> 0)"
  using assms(2-)
proof (induction d arbitrary: slot)
  case 0
  then show ?case by (subst probe.simps) auto
next
  case (Suc d)
  let ?next = "Suc slot mod capacity li"
  have step: "Suc slot AND (capacity li - 1) = ?next" by (rule mask_is_mod [OF assms(1)])
  have shift: "(?next + j) mod capacity li = (slot + Suc j) mod capacity li" for j
    by (simp add: mod_add_left_eq)
  have "probe li k (capacity li - 1) ?next = Some (t, li_sequences li ! t \<noteq> 0)"
  proof (rule Suc.IH)
    show "?next < capacity li" using Suc.prems(1) by (intro mod_less_divisor) linarith
    show "holds_entry li ((?next + j) mod capacity li) \<and> parts_at li ((?next + j) mod capacity li) \<noteq> k"
      if "j < d" for j
      using Suc.prems(2) [of "Suc j"] that unfolding shift by simp
    show "t = (?next + d) mod capacity li" unfolding shift by (rule Suc.prems(3))
    show "li_sequences li ! t = 0 \<or> parts_at li t = k" by (rule Suc.prems(4))
  qed
  moreover have "li_sequences li ! slot \<noteq> 0 \<and> parts_at li slot \<noteq> k"
    using Suc.prems(2) [of 0] Suc.prems(1) by (simp add: holds_entry_def)
  ultimately show ?case by (subst probe.simps) (simp add: step [unfolded One_nat_def])
qed

lemma slot_reaches:
  assumes "table_shape li" "f < capacity li"
  obtains d where "d < capacity li" "slot_from std li k d = f"
proof
  let ?i = "initial_slot std k (capacity li - 1)" and ?c = "capacity li"
  have i: "?i < ?c" by (rule initial_slot_less [OF assms(1)])
  show "(f + ?c - ?i) mod ?c < ?c" using i by simp
  have "?i + (f + ?c - ?i) = f + ?c" using i by simp
  then show "slot_from std li k ((f + ?c - ?i) mod ?c) = f"
    using assms(2) by (simp add: slot_from_def mod_add_right_eq)
qed

lemma find_slot_stops:
  assumes "table_inv std li"
  obtains d t where "d < capacity li" "t = slot_from std li k d"
    "\<forall>j<d. holds_entry li (slot_from std li k j) \<and> parts_at li (slot_from std li k j) \<noteq> k"
    "\<not> holds_entry li t \<or> parts_at li t = k" "find_slot std li k = Some (t, holds_entry li t)"
proof -
  have shape: "table_shape li" using assms by (simp add: table_inv_def)
  obtain b where cap: "capacity li = 2 ^ b" using shape by (auto simp: table_shape_def)
  obtain f where f: "f < capacity li" "\<not> holds_entry li f" by (rule free_slot [OF assms])
  obtain d0 where d0: "d0 < capacity li" "slot_from std li k d0 = f"
    by (rule slot_reaches [OF shape f(1)])
  define stop where "stop = (\<lambda>d. \<not> holds_entry li (slot_from std li k d) \<or> parts_at li (slot_from std li k d) = k)"
  define d where "d = (LEAST d. stop d)"
  have "stop d0" using d0 f by (simp add: stop_def)
  then have d: "stop d" "d \<le> d0" unfolding d_def by (auto intro: LeastI Least_le)
  have before: "\<not> stop j" if "j < d" for j using that not_less_Least unfolding d_def by blast
  let ?t = "slot_from std li k d"
  have t: "?t < capacity li" by (rule slot_from_less [OF shape])
  have "probe li k (capacity li - 1) (initial_slot std k (capacity li - 1))
      = Some (?t, li_sequences li ! ?t \<noteq> 0)"
    using before d(1) t
    by (intro probe_path [OF cap initial_slot_less [OF shape], where d = d])
      (auto simp: stop_def slot_from_def holds_entry_def)
  then have found: "find_slot std li k = Some (?t, holds_entry li ?t)"
    using t by (simp add: find_slot_def Let_def holds_entry_def)
  show thesis
    by (rule that [of d, OF _ refl _ _ found]) (use d d0(1) before in \<open>auto simp: stop_def\<close>)
qed

lemma find_present:
  assumes inv: "table_inv std li" and s: "holds_entry li s" "parts_at li s = k"
  shows "find_slot std li k = Some (s, True)"
proof -
  obtain d t where "d < capacity li" and d: "t = slot_from std li k d"
      "\<forall>j<d. holds_entry li (slot_from std li k j) \<and> parts_at li (slot_from std li k j) \<noteq> k"
      "\<not> holds_entry li t \<or> parts_at li t = k" "find_slot std li k = Some (t, holds_entry li t)"
    by (rule find_slot_stops [OF inv, of k])
  obtain e where e: "s = slot_from std li k e" "\<And>j. j < e \<Longrightarrow> holds_entry li (slot_from std li k j)"
    using inv s by (auto simp: table_inv_def reached_def)
  have "\<not> e < d" using d(2) e(1) s(2) by auto
  then have "holds_entry li t" using e d(1) s(1) by (cases "d = e") auto
  moreover from this have "t = s"
    using d(3) s inv by (auto simp: table_inv_def dest: inj_onD)
  ultimately show ?thesis using d(4) by simp
qed

lemma find_absent:
  assumes inv: "table_inv std li" and absent: "\<And>s. holds_entry li s \<Longrightarrow> parts_at li s \<noteq> k"
  obtains d t where "d < capacity li" "t = slot_from std li k d" "\<not> holds_entry li t"
    "\<forall>j<d. holds_entry li (slot_from std li k j)" "find_slot std li k = Some (t, False)"
proof -
  obtain d t where d: "d < capacity li" "t = slot_from std li k d"
      "\<forall>j<d. holds_entry li (slot_from std li k j) \<and> parts_at li (slot_from std li k j) \<noteq> k"
      "\<not> holds_entry li t \<or> parts_at li t = k" "find_slot std li k = Some (t, holds_entry li t)"
    by (rule find_slot_stops [OF inv, of k])
  have "\<not> holds_entry li t" using d(4) absent [of t] by blast
  then show thesis using d by (intro that [of d t]) auto
qed

section \<open>Filling a slot\<close>

lemma splice_before:
  "\<lbrakk>a + w \<le> b; b \<le> length ds\<rbrakk> \<Longrightarrow> take w (drop a (take b ds @ x)) = take w (drop a ds)"
  by (simp add: take_drop)

lemma splice_after:
  "\<lbrakk>b + length d \<le> a; b \<le> length ds\<rbrakk>
   \<Longrightarrow> take w (drop a (take b ds @ d @ drop (b + length d) ds)) = take w (drop a ds)"
  by simp

lemma take_write_digest:
  assumes "length ds = c * 32" "t < c" "s < c" "length d = 32"
  shows "take 32 (drop (s * 32) (write_digest t d ds)) = (if s = t then d else take 32 (drop (s * 32) ds))"
proof -
  have t: "t * 32 \<le> length ds" using assms by simp
  consider "s = t" | "s * 32 + 32 \<le> t * 32" | "t * 32 + 32 \<le> s * 32" by linarith
  then show ?thesis
  proof cases
    case 1
    then show ?thesis using t assms(4) by (simp add: write_digest_def)
  next
    case 2
    show ?thesis unfolding write_digest_def splice_before [OF 2 t] using 2 by auto
  next
    case 3
    have "take 32 (drop (s * 32) (write_digest t d ds)) = take 32 (drop (s * 32) ds)"
      unfolding write_digest_def
      using splice_after [of "t * 32" d "s * 32" ds 32, unfolded assms(4)] 3 t by blast
    then show ?thesis using 3 by auto
  qed
qed

lemma length_write_digest:
  "\<lbrakk>length ds = c * 32; t < c; length d = 32\<rbrakk> \<Longrightarrow> length (write_digest t d ds) = c * 32"
  using mult_le_mono1 [of "Suc t" c 32] by (simp add: write_digest_def)

lemma fill_slot_simps:
  assumes "table_shape li" "t < capacity li" "length (snd (snd k)) = 32"
  shows "capacity (fill_slot t k n li) = capacity li"
    "li_count (fill_slot t k n li) = Suc (li_count li)"
    "s < capacity li \<Longrightarrow> li_sequences (fill_slot t k n li) ! s = (if s = t then n else li_sequences li ! s)"
    "s < capacity li \<Longrightarrow> parts_at (fill_slot t k n li) s = (if s = t then k else parts_at li s)"
    "table_shape (fill_slot t k n li)"
  using assms
  by (auto simp: fill_slot_def capacity_def parts_at_def digest_at_def table_shape_def
      take_write_digest length_write_digest split: prod.splits)

lemma fill_slot_stores:
  assumes inv: "table_inv std li" and k: "length (snd (snd k)) = 32" and n: "n \<noteq> 0"
    and room: "(li_count li + 1) * 4 \<le> capacity li * 3"
    and absent: "\<And>s. holds_entry li s \<Longrightarrow> parts_at li s \<noteq> k"
    and t: "d < capacity li" "t = slot_from std li k d" "\<not> holds_entry li t"
      "\<forall>j<d. holds_entry li (slot_from std li k j)"
  shows "table_inv std (fill_slot t k n li)"
    "stores (fill_slot t k n li) p q \<longleftrightarrow> stores li p q \<or> p = k \<and> q = n"
proof -
  let ?li = "fill_slot t k n li"
  have shape: "table_shape li" using inv by (simp add: table_inv_def)
  have tc: "t < capacity li" using t(2) slot_from_less [OF shape] by simp
  note fs = fill_slot_simps [OF shape tc k]
  have occ: "holds_entry ?li s \<longleftrightarrow> holds_entry li s \<or> s = t" for s
    using n tc t(3) by (auto simp: holds_entry_def fs split: if_splits)
  have parts: "parts_at ?li s = (if s = t then k else parts_at li s)" if "holds_entry ?li s" for s
    using that by (simp add: holds_entry_def fs)
  have seq: "li_sequences ?li ! s = (if s = t then n else li_sequences li ! s)" if "holds_entry ?li s" for s
    using that by (simp add: holds_entry_def fs)
  have sfrom: "slot_from std ?li = slot_from std li" by (simp add: slot_from_def fs fun_eq_iff)
  have "{s. holds_entry ?li s} = insert t {s. holds_entry li s}" by (auto simp: occ)
  moreover have "finite {s. holds_entry li s}" by (simp add: holds_entry_def)
  ultimately have "card {s. holds_entry ?li s} = Suc (li_count li)"
    using inv t(3) by (simp add: table_inv_def)
  moreover have "inj_on (parts_at ?li) {s. holds_entry ?li s}"
  proof (rule inj_onI)
    fix a b assume ab: "a \<in> {s. holds_entry ?li s}" "b \<in> {s. holds_entry ?li s}" "parts_at ?li a = parts_at ?li b"
    have "inj_on (parts_at li) {s. holds_entry li s}" using inv by (simp add: table_inv_def)
    then show "a = b" using ab absent parts occ by (auto split: if_splits dest: inj_onD)
  qed
  moreover have "reached std ?li s" if "holds_entry ?li s" for s
  proof (cases "s = t")
    case True
    then have "parts_at ?li s = k" using parts [OF that] by simp
    then show ?thesis unfolding reached_def sfrom fs(1) occ using t(1,2,4) True by metis
  next
    case False
    then have "holds_entry li s" using that occ by simp
    then have "reached std li s" using inv by (simp add: table_inv_def)
    moreover have "parts_at ?li s = parts_at li s" using parts [OF that] False by simp
    ultimately show ?thesis unfolding reached_def sfrom fs(1) occ by metis
  qed
  ultimately show "table_inv std ?li" using room fs by (simp add: table_inv_def)
  show "stores ?li p q \<longleftrightarrow> stores li p q \<or> p = k \<and> q = n"
    using occ parts seq t(3) unfolding stores_def by metis
qed

end
