(* ===== verification/Audit_Index_Claims.thy ===== *)
theory Audit_Index_Claims
  imports Audit_Index_Laws
begin

text \<open>
  A resize keeps the entries, an insertion adds one, and so the table after any
  sequence of insertions answers like a finite map from logical keys.
\<close>

section \<open>Resizing\<close>

lemma digest_width:
  assumes "table_shape li" "s < capacity li" shows "length (snd (snd (parts_at li s))) = 32"
  using assms mult_le_mono1 [of "Suc s" "capacity li" 32]
  by (simp add: parts_at_def digest_at_def table_shape_def)

lemma new_index_Inr:
  assumes "new_logical_index c = Inr li" "c = 2 ^ b"
  shows "table_inv std li" "capacity li = c" "\<not> holds_entry li s" "li_count li = 0"
proof -
  have c8: "8 \<le> c" using assms(1) by (auto simp: new_logical_index_def)
  have b: "3 \<le> b"
  proof (rule ccontr)
    assume "\<not> 3 \<le> b"
    then have "(2::nat) ^ b \<le> 2 ^ 2" by (intro power_increasing) auto
    then show False using c8 assms(2) by simp
  qed
  have li: "li = \<lparr>li_count = 0, li_record_kinds = replicate c 0, li_subject_kinds = replicate c 0,
      li_digests = replicate (c * 32) (CHR 0x00), li_sequences = replicate c 0\<rparr>"
    using assms(1) by (simp add: new_logical_index_def)
  show cap: "capacity li = c" "li_count li = 0" by (simp_all add: li capacity_def)
  have occ: "\<not> holds_entry li s" for s by (auto simp: li holds_entry_def capacity_def)
  then show "\<not> holds_entry li s" .
  show "table_inv std li" using b assms(2) cap occ
    by (auto simp: table_inv_def table_shape_def li intro!: exI [of _ b])
qed

lemma power_of_two_capacity:
  assumes "3 \<le> b" shows "\<exists>li. new_logical_index (2 ^ b) = Inr li"
proof -
  have "(2::nat) ^ 3 \<le> 2 ^ b" using assms by (intro power_increasing) auto
  moreover have "(2::nat) ^ b AND (2 ^ b - 1) = 0"
    using nat_and_mask [of "2 ^ b" b] by simp
  ultimately show ?thesis by (simp add: new_logical_index_def guard_res_def)
qed

lemma rehash_keeps:
  assumes old: "table_shape li" "inj_on (parts_at li) {s. holds_entry li s}"
  shows "\<lbrakk>table_inv std r; distinct slots; set slots \<subseteq> {..<capacity li};
      \<And>s t. \<lbrakk>s \<in> set slots; holds_entry li s; holds_entry r t\<rbrakk> \<Longrightarrow> parts_at r t \<noteq> parts_at li s;
      (li_count r + length (filter (holds_entry li) slots)) * 4 \<le> capacity r * 3\<rbrakk>
    \<Longrightarrow> \<exists>r'. rehash std li slots r = Some (Inr r') \<and> table_inv std r' \<and> capacity r' = capacity r
      \<and> li_count r' = li_count r + length (filter (holds_entry li) slots)
      \<and> (\<forall>k n. stores r' k n \<longleftrightarrow> stores r k n
           \<or> (\<exists>s\<in>set slots. holds_entry li s \<and> parts_at li s = k \<and> li_sequences li ! s = n))"
proof (induction slots arbitrary: r)
  case (Cons s slots)
  have s: "s < capacity li" using Cons.prems(3) by simp
  show ?case
  proof (cases "holds_entry li s")
    case False
    then have "li_sequences li ! s = 0" using s by (simp add: holds_entry_def)
    then show ?thesis using Cons.IH [of r] Cons.prems False by auto
  next
    case True
    let ?k = "parts_at li s" and ?n = "li_sequences li ! s"
    have n: "?n \<noteq> 0" using True by (simp add: holds_entry_def)
    have absent: "\<And>t. holds_entry r t \<Longrightarrow> parts_at r t \<noteq> ?k" using Cons.prems(4) [of s] True by simp
    obtain d t where t: "d < capacity r" "t = slot_from std r ?k d" "\<not> holds_entry r t"
        "\<forall>j<d. holds_entry r (slot_from std r ?k j)" "find_slot std r ?k = Some (t, False)"
      by (rule find_absent [OF Cons.prems(1) absent])
    have room: "(li_count r + 1) * 4 \<le> capacity r * 3" using Cons.prems(5) True by simp
    note filled = fill_slot_stores [OF Cons.prems(1) digest_width [OF old(1) s] n room absent t(1-4)]
    let ?r = "fill_slot t ?k ?n r"
    have shape: "table_shape r" using Cons.prems(1) by (simp add: table_inv_def)
    have tc: "t < capacity r" using t(2) slot_from_less [OF shape] by simp
    note fs = fill_slot_simps [OF shape tc digest_width [OF old(1) s]]
    have "\<exists>r'. rehash std li slots ?r = Some (Inr r') \<and> table_inv std r' \<and> capacity r' = capacity ?r
        \<and> li_count r' = li_count ?r + length (filter (holds_entry li) slots)
        \<and> (\<forall>k n. stores r' k n \<longleftrightarrow> stores ?r k n
             \<or> (\<exists>s\<in>set slots. holds_entry li s \<and> parts_at li s = k \<and> li_sequences li ! s = n))"
    proof (rule Cons.IH [OF filled(1)])
      show "parts_at ?r u \<noteq> parts_at li v" if "v \<in> set slots" "holds_entry li v" "holds_entry ?r u" for v u
      proof -
        have "v \<noteq> s" using that(1) Cons.prems(2) by auto
        then have ne: "?k \<noteq> parts_at li v" using old(2) True that(2) by (auto dest: inj_onD)
        have "stores ?r (parts_at ?r u) (li_sequences ?r ! u)" using that(3) by (auto simp: stores_def)
        then have "stores r (parts_at ?r u) (li_sequences ?r ! u) \<or> parts_at ?r u = ?k"
          using filled(2) by blast
        then show ?thesis using ne Cons.prems(4) [of v] that(1,2) by (auto simp: stores_def)
      qed
    qed (use Cons.prems True fs in auto)
    then show ?thesis using t(5) n filled(2) True fs by (auto simp: n)
  qed
qed simp

lemma resize_keeps:
  assumes inv: "table_inv std li"
  obtains li' where "resize std (capacity li * 2) li = Some (Inr li')" "table_inv std li'"
    "capacity li' = capacity li * 2" "li_count li' = li_count li"
    "\<And>k n. stores li' k n \<longleftrightarrow> stores li k n"
proof -
  have shape: "table_shape li" and inj: "inj_on (parts_at li) {s. holds_entry li s}"
    using inv by (simp_all add: table_inv_def)
  obtain b where b: "3 \<le> b" "capacity li = 2 ^ b" using shape by (auto simp: table_shape_def)
  have double: "capacity li * 2 = 2 ^ Suc b" using b by simp
  obtain r where r: "new_logical_index (capacity li * 2) = Inr r"
    unfolding double using power_of_two_capacity [of "Suc b"] b(1) by (meson le_SucI)
  note new = new_index_Inr [OF r double]
  have occ: "{s. holds_entry li s} = set (filter (holds_entry li) [0..<capacity li])"
    by (auto simp: holds_entry_def)
  have count: "length (filter (holds_entry li) [0..<capacity li]) = li_count li"
  proof -
    have "length (filter (holds_entry li) [0..<capacity li]) = card (set (filter (holds_entry li) [0..<capacity li]))"
      by (rule distinct_card [symmetric]) simp
    also have "\<dots> = card {s. holds_entry li s}" unfolding occ ..
    finally show ?thesis using inv by (simp add: table_inv_def)
  qed
  have load: "li_count li * 4 \<le> capacity li * 3" using inv by (simp add: table_inv_def)
  let ?slots = "[0..<capacity li]"
  have "\<exists>r'. rehash std li ?slots r = Some (Inr r') \<and> table_inv std r' \<and> capacity r' = capacity r
      \<and> li_count r' = li_count r + length (filter (holds_entry li) ?slots)
      \<and> (\<forall>k n. stores r' k n \<longleftrightarrow> stores r k n
           \<or> (\<exists>s\<in>set ?slots. holds_entry li s \<and> parts_at li s = k \<and> li_sequences li ! s = n))"
    by (rule rehash_keeps [OF shape inj new(1) distinct_upt]) (use new(2-4) count load in auto)
  then obtain r' where r': "rehash std li ?slots r = Some (Inr r')" "table_inv std r'"
      "capacity r' = capacity r" "li_count r' = li_count r + length (filter (holds_entry li) ?slots)"
      "\<forall>k n. stores r' k n \<longleftrightarrow> stores r k n
         \<or> (\<exists>s\<in>set ?slots. holds_entry li s \<and> parts_at li s = k \<and> li_sequences li ! s = n)"
    by blast
  let ?li = "li\<lparr>li_record_kinds := li_record_kinds r', li_subject_kinds := li_subject_kinds r',
    li_digests := li_digests r', li_sequences := li_sequences r'\<rparr>"
  have "?li = r'" using r'(4) new(4) count by (intro logical_index.equality) simp_all
  then have "resize std (capacity li * 2) li = Some (Inr r')" by (simp add: resize_def r r'(1))
  then show thesis
  proof (rule that)
    show "table_inv std r'" "capacity r' = capacity li * 2" "li_count r' = li_count li"
      using r'(2-4) new(2,4) count by simp_all
    have "\<not> stores r k n" for k n using new(3) by (simp add: stores_def)
    moreover have "s \<in> set ?slots" if "holds_entry li s" for s using that by (simp add: holds_entry_def)
    ultimately show "stores r' k n \<longleftrightarrow> stores li k n" for k n
      unfolding r'(5) [rule_format] stores_def [of li] by metis
  qed
qed

lemma reserve_keeps:
  assumes inv: "table_inv std li"
  obtains li' where "reserve_for_insert std li = Some (Inr li')" "table_inv std li'"
    "(li_count li' + 1) * 4 \<le> capacity li' * 3" "li_count li' = li_count li"
    "\<And>k n. stores li' k n \<longleftrightarrow> stores li k n"
proof (cases "(li_count li + 1) * 4 > capacity li * 3")
  case True
  obtain li' where li': "resize std (capacity li * 2) li = Some (Inr li')" "table_inv std li'"
      "capacity li' = capacity li * 2" "li_count li' = li_count li"
      "\<And>k n. stores li' k n \<longleftrightarrow> stores li k n"
    using resize_keeps [OF inv] by metis
  have "8 \<le> capacity li"
    using inv power_increasing [of 3 _ "2::nat"] by (auto simp: table_inv_def table_shape_def)
  moreover have "li_count li * 4 \<le> capacity li * 3" using inv by (simp add: table_inv_def)
  ultimately have "(li_count li' + 1) * 4 \<le> capacity li' * 3" using li' by simp
  then show thesis using True li' by (intro that [of li']) (simp_all add: reserve_for_insert_def)
next
  case False
  then show thesis using inv by (intro that [of li]) (simp_all add: reserve_for_insert_def)
qed

section \<open>The table as a map\<close>

definition digest_ok :: "sha256_digest \<Rightarrow> bool" where
  "digest_ok d \<longleftrightarrow> make_digest (digest_text d) = Inr d"

definition key_ok :: "audit_key \<Rightarrow> bool" where
  "key_ok k \<longleftrightarrow> digest_ok (lk_digest k)"

text \<open>The specification: a finite map whose insertion refuses a key it has.\<close>

definition map_insert ::
  "audit_key \<Rightarrow> int \<Rightarrow> (audit_key \<rightharpoonup> int) \<Rightarrow> (audit_key \<rightharpoonup> int) \<times> unit result" where
  "map_insert k n m =
     (if 1 \<le> n \<and> n \<le> MAX_AUDIT_RECORDS \<and> m k = None then (m(k \<mapsto> n), Inr ())
      else (m, Inl ValueError))"

fun map_run :: "(audit_key \<rightharpoonup> int) \<Rightarrow> (audit_key \<times> int) list
   \<Rightarrow> (audit_key \<rightharpoonup> int) \<times> unit result list" where
  "map_run m [] = (m, [])"
| "map_run m ((k, n) # ops) =
     (let (m1, r) = map_insert k n m; (m2, rs) = map_run m1 ops in (m2, r # rs))"

fun index_run :: "stdlib \<Rightarrow> logical_index \<Rightarrow> (audit_key \<times> int) list
   \<Rightarrow> (logical_index \<times> unit result list) option" where
  "index_run std li [] = Some (li, [])"
| "index_run std li ((k, n) # ops) =
     (case index_insert std k n li of
        None \<Rightarrow> None
      | Some (li1, r) \<Rightarrow> map_option (\<lambda>(li2, rs). (li2, r # rs)) (index_run std li1 ops))"

definition represents :: "logical_index \<Rightarrow> (audit_key \<rightharpoonup> int) \<Rightarrow> bool" where
  "represents li m \<longleftrightarrow> (\<forall>k n. key_ok k \<longrightarrow> (m k = Some n \<longleftrightarrow> stores li (key_parts k) n))"

lemma rank_in_inj: "\<lbrakk>x \<in> set xs; y \<in> set xs; rank_in xs x = rank_in xs y\<rbrakk> \<Longrightarrow> x = y"
proof (induction xs)
  case (Cons z zs)
  then show ?case by (cases "z = x"; cases "z = y") (auto simp: rank_in_def)
qed simp

lemma kinds_complete: "k \<in> set all_record_kinds" "s \<in> set all_subject_kinds"
  by (cases k; simp add: all_record_kinds_def) (cases s; simp add: all_subject_kinds_def)

lemma hex_char_val: "is_hex c \<Longrightarrow> hex_char (hex_val c) = c"
proof (cases "is_digit c")
  case True
  then show ?thesis by (simp add: hex_char_def hex_val_def digit_char_val digit_val_less)
next
  case False
  assume "is_hex c"
  with False have "c \<in> set ''abcdef''" by (simp add: is_hex_def)
  then show ?thesis using False by (auto simp: hex_char_def hex_val_def)
qed

lemma hex_val_inj: "\<lbrakk>is_hex a; is_hex b; hex_val a = hex_val b\<rbrakk> \<Longrightarrow> a = b"
  by (metis hex_char_val)

lemma hex_val_less: "is_hex a \<Longrightarrow> hex_val a < 16"
  by (auto simp: is_hex_def is_digit_def hex_val_def digit_val_def)

lemma fromhex_inj:
  assumes "list_all is_hex s" "list_all is_hex t" "even (length s)" "length s = length t"
    "fromhex s = fromhex t"
  shows "s = t"
  using assms
proof (induction s arbitrary: t rule: fromhex.induct)
  case (1 a b r)
  obtain c e u where t: "t = c # e # u" using 1(5) by (cases t rule: fromhex.cases) auto
  have "of_char (char_of (16 * hex_val a + hex_val b)) = (of_char (char_of (16 * hex_val c + hex_val e)) :: nat)"
    using 1(6) by (simp add: t)
  then have "16 * hex_val a + hex_val b = 16 * hex_val c + hex_val e"
    using 1(2,3) hex_val_less [of a] hex_val_less [of b] hex_val_less [of c] hex_val_less [of e]
    by (simp add: t)
  then have "hex_val a = hex_val c \<and> hex_val b = hex_val e"
    using 1(2,3) hex_val_less [of b] hex_val_less [of e]
    by (simp add: t) (metis add.commute div_mult_self4 div_less add_cancel_right_left mod_mult_self2 mod_less zero_neq_numeral)
  then show ?case using 1 hex_val_inj by (auto simp: t)
qed auto

lemma length_fromhex: "length (fromhex s) = length s div 2"
  by (induction s rule: fromhex.induct) auto

lemma key_parts_inj:
  assumes "key_ok a" "key_ok b" "key_parts a = key_parts b" shows "a = b"
proof -
  have "lk_record a = lk_record b" "lk_subject a = lk_subject b"
    using assms(3) kinds_complete by (auto simp: key_parts_def intro: rank_in_inj)
  moreover have "lk_digest a = lk_digest b"
    using assms fromhex_inj [of "digest_text (lk_digest a)" "digest_text (lk_digest b)"]
    by (cases "lk_digest a"; cases "lk_digest b")
      (simp add: key_parts_def key_ok_def digest_ok_def make_digest_def)
  ultimately show ?thesis by (intro audit_key.equality) simp_all
qed

lemma key_width: "key_ok k \<Longrightarrow> length (snd (snd (key_parts k))) = 32"
  by (cases "lk_digest k") (simp add: key_parts_def length_fromhex key_ok_def digest_ok_def make_digest_def)

lemma represents_get:
  assumes "table_inv std li" "represents li m" "key_ok k"
  shows "index_get std li k = Some (m k)"
proof (cases "m k")
  case None
  then have "\<And>s. holds_entry li s \<Longrightarrow> parts_at li s \<noteq> key_parts k"
    using assms(2,3) by (force simp: represents_def stores_def)
  then obtain t where "find_slot std li (key_parts k) = Some (t, False)"
    using find_absent [OF assms(1)] by metis
  then show ?thesis using None by (simp add: index_get_def)
next
  case (Some n)
  then obtain s where "holds_entry li s" "parts_at li s = key_parts k" "li_sequences li ! s = n"
    using assms(2,3) by (auto simp: represents_def stores_def)
  then show ?thesis using Some find_present [OF assms(1)] by (simp add: index_get_def)
qed

lemma index_insert_simulates:
  assumes inv: "table_inv std li" and rep: "represents li m" and k: "key_ok k"
  obtains li' where "index_insert std k n li = Some (li', snd (map_insert k n m))"
    "table_inv std li'" "represents li' (fst (map_insert k n m))"
proof (cases "1 \<le> n \<and> n \<le> MAX_AUDIT_RECORDS")
  case False
  then show thesis using inv rep by (intro that [of li]) (auto simp: index_insert_def map_insert_def)
next
  case True
  obtain g where g: "reserve_for_insert std li = Some (Inr g)" "table_inv std g"
      "(li_count g + 1) * 4 \<le> capacity g * 3" "\<And>k n. stores g k n \<longleftrightarrow> stores li k n"
    using reserve_keeps [OF inv] by metis
  have rep_g: "represents g m" using rep g(4) by (simp add: represents_def)
  show thesis
  proof (cases "m k")
    case (Some q)
    then obtain s where "holds_entry g s" "parts_at g s = key_parts k"
      using rep_g k by (auto simp: represents_def stores_def)
    then show thesis using True Some g find_present [OF g(2)] rep_g
      by (intro that [of g]) (auto simp: index_insert_def map_insert_def)
  next
    case None
    then have absent: "\<And>s. holds_entry g s \<Longrightarrow> parts_at g s \<noteq> key_parts k"
      using rep_g k by (force simp: represents_def stores_def)
    obtain d t where t: "d < capacity g" "t = slot_from std g (key_parts k) d" "\<not> holds_entry g t"
        "\<forall>j<d. holds_entry g (slot_from std g (key_parts k) j)"
        "find_slot std g (key_parts k) = Some (t, False)"
      by (rule find_absent [OF g(2) absent])
    have n: "n \<noteq> 0" using True by simp
    note filled = fill_slot_stores [OF g(2) key_width [OF k] n g(3) absent t(1-4)]
    have "represents (fill_slot t (key_parts k) n g) (m(k \<mapsto> n))"
      unfolding represents_def
    proof (intro allI impI)
      fix l p assume l: "key_ok l"
      have "key_parts l = key_parts k \<longleftrightarrow> l = k" using key_parts_inj [OF l k] by auto
      moreover have "\<not> stores g (key_parts k) p" for p using absent by (auto simp: stores_def)
      ultimately show "(m(k \<mapsto> n)) l = Some p \<longleftrightarrow> stores (fill_slot t (key_parts k) n g) (key_parts l) p"
        using rep_g l filled(2) by (auto simp: represents_def)
    qed
    then show thesis using True None g t(5) filled(1)
      by (intro that [of "fill_slot t (key_parts k) n g"]) (auto simp: index_insert_def map_insert_def)
  qed
qed

lemma index_run_simulates:
  "\<lbrakk>table_inv std li; represents li m; \<forall>(k, n) \<in> set ops. key_ok k\<rbrakk>
   \<Longrightarrow> \<exists>li'. index_run std li ops = Some (li', snd (map_run m ops)) \<and> table_inv std li'
     \<and> represents li' (fst (map_run m ops))"
proof (induction ops arbitrary: li m)
  case (Cons e ops)
  obtain k n where e: "e = (k, n)" by (cases e)
  obtain li1 where li1: "index_insert std k n li = Some (li1, snd (map_insert k n m))"
      "table_inv std li1" "represents li1 (fst (map_insert k n m))"
    using index_insert_simulates [OF Cons.prems(1,2)] Cons.prems(3) e by auto
  show ?case using Cons.IH [OF li1(2,3)] Cons.prems(3) li1(1)
    by (auto simp: e Let_def split: prod.splits)
qed simp

end
