(* ===== verification/Audit_Capacity_Laws.thy ===== *)
theory Audit_Capacity_Laws
  imports Audit_Capacity Audit_Index_Claims
begin

text \<open>
  The arithmetic of the journal's envelope: the projection grows with the count
  and covers the table, the binary search finds the largest count that fits, and
  a funded journal keeps its closing reserve.
\<close>

section \<open>The projection\<close>

lemma bit_length_less: "n < 2 ^ bit_length n"
proof (induction n rule: bit_length.induct)
  case (1 n)
  show ?case
  proof (cases "n = 0")
    case False
    then have "n div 2 < 2 ^ bit_length (n div 2)" using 1 by simp
    then have "n < 2 * 2 ^ bit_length (n div 2)" by linarith
    then show ?thesis using False by (subst bit_length.simps) simp
  qed (simp add: bit_length.simps)
qed

lemma bit_length_mono: "m \<le> n \<Longrightarrow> bit_length m \<le> bit_length n"
proof (induction n arbitrary: m rule: bit_length.induct)
  case (1 n)
  show ?case
  proof (cases "m = 0 \<or> n = 0")
    case False
    then have "bit_length (m div 2) \<le> bit_length (n div 2)"
      using 1 by (simp add: div_le_mono)
    then show ?thesis using False by (simp add: bit_length.simps [of m] bit_length.simps [of n])
  qed (use 1 in \<open>auto simp: bit_length.simps\<close>)
qed

definition index_slots :: "nat \<Rightarrow> nat" where
  "index_slots n = max 8 (2 ^ bit_length ((4 * (n + 1) + 2) div 3 - 1))"

lemma projected_slots:
  "projected_index_resident_bytes n = 128 * int n + 76 * int (index_slots n) + 4096"
  by (simp add: projected_index_resident_bytes_def index_slots_def Let_def push_bit_eq_mult
      AUDIT_INDEX_BYTES_PER_RECORD_def AUDIT_INDEX_BYTES_PER_SLOT_def AUDIT_INDEX_FIXED_OVERHEAD_BYTES_def)

lemma index_slots_mono: "m \<le> n \<Longrightarrow> index_slots m \<le> index_slots n"
proof -
  assume "m \<le> n"
  then have "(4 * (m + 1) + 2) div 3 - 1 \<le> (4 * (n + 1) + 2) div 3 - 1" by (intro diff_le_mono div_le_mono) simp
  then have "(2::nat) ^ bit_length ((4 * (m + 1) + 2) div 3 - 1) \<le> 2 ^ bit_length ((4 * (n + 1) + 2) div 3 - 1)"
    by (intro power_increasing bit_length_mono) auto
  then show ?thesis unfolding index_slots_def by (intro max.mono) auto
qed

lemma projected_mono: "m \<le> n \<Longrightarrow> projected_index_resident_bytes m \<le> projected_index_resident_bytes n"
  using index_slots_mono [of m n] by (simp add: projected_slots)

lemma index_slots_load: "4 * (n + 1) \<le> 3 * index_slots n"
proof -
  let ?r = "(4 * (n + 1) + 2) div 3"
  have "?r - 1 < 2 ^ bit_length (?r - 1)" by (rule bit_length_less)
  then have "?r \<le> 2 ^ bit_length (?r - 1)" by linarith
  also have "\<dots> \<le> index_slots n" unfolding index_slots_def by (rule max.cobounded2)
  finally show ?thesis by linarith
qed

text \<open>Between two powers of two a factor below two leaves no room.\<close>

lemma power_two_le: "(2::nat) ^ a < 2 * 2 ^ b \<Longrightarrow> (2::nat) ^ a \<le> 2 ^ b"
proof -
  assume "(2::nat) ^ a < 2 * 2 ^ b"
  then have "(2::nat) ^ a < 2 ^ Suc b" by simp
  then have "a \<le> b" using power_less_imp_less_exp [of "2::nat" a "Suc b"] by simp
  then show ?thesis by (intro power_increasing) auto
qed

definition tight :: "logical_index \<Rightarrow> bool" where
  "tight li \<longleftrightarrow> capacity li = 8 \<or> capacity li * 3 < (li_count li + 1) * 8"

lemma tight_slots:
  assumes "table_shape li" "capacity li = 8 \<or> capacity li * 3 < (n + 1) * 8"
  shows "capacity li \<le> index_slots n"
proof (cases "capacity li = 8")
  case False
  obtain a where a: "capacity li = 2 ^ a" using assms(1) by (auto simp: table_shape_def)
  obtain b where b: "index_slots n = 2 ^ b"
    by (cases "(8::nat) \<le> 2 ^ bit_length ((4 * (n + 1) + 2) div 3 - 1)")
      (auto simp: index_slots_def max_def intro: that [of 3] that)
  have "capacity li < 2 * index_slots n"
    using False assms(2) index_slots_load [of n] by auto
  then show ?thesis using power_two_le [of a b] by (simp add: a b)
qed (simp add: index_slots_def)

lemma reserve_tight:
  assumes "table_inv std li" "tight li" "reserve_for_insert std li = Some (Inr g)"
  shows "tight g" "table_inv std g" "li_count g = li_count li"
    "capacity li \<le> capacity g" "capacity g = capacity li \<or> capacity g = 2 * capacity li"
proof -
  obtain h where h: "reserve_for_insert std li = Some (Inr h)" "table_inv std h" "li_count h = li_count li"
    using reserve_keeps [OF assms(1)] by metis
  have g: "g = h" using h(1) assms(3) by simp
  show "table_inv std g" "li_count g = li_count li" using h g by simp_all
  have cap: "g = li \<or> capacity g = 2 * capacity li \<and> (li_count li + 1) * 4 > capacity li * 3"
  proof (cases "(li_count li + 1) * 4 > capacity li * 3")
    case True
    obtain r where "resize std (capacity li * 2) li = Some (Inr r)" "capacity r = capacity li * 2"
      using resize_keeps [OF assms(1)] by metis
    then show ?thesis using True assms(3) by (simp add: reserve_for_insert_def)
  next
    case False
    then show ?thesis using assms(3) by (simp add: reserve_for_insert_def)
  qed
  then show "capacity li \<le> capacity g" "capacity g = capacity li \<or> capacity g = 2 * capacity li" by auto
  show "tight g" using cap assms(2) h(3) g by (auto simp: tight_def)
qed

lemma insert_tight:
  assumes "table_inv std li" "tight li" "key_ok k" "index_insert std k n li = Some (li', r)"
    "represents li m"
  shows "tight li'" "table_inv std li'" "capacity li \<le> capacity li'"
    "capacity li' = 8 \<or> capacity li' * 3 < (li_count li + 1) * 8 \<or> li' = li"
    "represents li' (fst (map_insert k n m))"
proof -
  obtain g where g: "reserve_for_insert std li = Some (Inr g)"
    using reserve_keeps [OF assms(1)] by metis
  note rt = reserve_tight [OF assms(1,2) g]
  obtain t b where f: "find_slot std g (key_parts k) = Some (t, b)"
    using find_slot_stops [OF rt(2)] by metis
  have shape: "table_shape g" using rt(2) by (simp add: table_inv_def)
  have t: "t < capacity g"
    using find_slot_stops [OF rt(2), of "key_parts k"] f slot_from_less [OF shape] by (metis option.inject prod.inject)
  note fs = fill_slot_simps [OF shape t key_width [OF assms(3)]]
  from assms(4) g f consider "li' = li" | "li' = g" | "li' = fill_slot t (key_parts k) n g"
    by (auto simp: index_insert_def split: if_splits)
  note cs = this
  from cs show "tight li'" using rt assms(2) fs by cases (auto simp: tight_def)
  from cs show "capacity li \<le> capacity li'" using rt fs by cases auto
  from cs show "capacity li' = 8 \<or> capacity li' * 3 < (li_count li + 1) * 8 \<or> li' = li"
    using rt(1,3) fs(1) by cases (auto simp: tight_def)
  obtain q where "index_insert std k n li = Some (q, snd (map_insert k n m))" "table_inv std q"
      "represents q (fst (map_insert k n m))"
    by (rule index_insert_simulates [OF assms(1,5,3)])
  then show "table_inv std li'" "represents li' (fst (map_insert k n m))" using assms(4) by simp_all
qed

lemma run_tight:
  "\<lbrakk>table_inv std li; tight li; represents li m; \<forall>(k, n) \<in> set ops. key_ok k; index_run std li ops = Some (li', rs)\<rbrakk>
   \<Longrightarrow> table_inv std li' \<and> tight li'"
proof (induction ops arbitrary: li rs m)
  case (Cons e ops)
  obtain k n where e: "e = (k, n)" by (cases e)
  have k: "key_ok k" using Cons.prems(4) by (simp add: e)
  obtain li1 r where li1: "index_insert std k n li = Some (li1, r)" "\<exists>rs. index_run std li1 ops = Some (li', rs)"
    using Cons.prems(5) by (auto simp: e split: option.splits)
  note it = insert_tight [OF Cons.prems(1,2) k li1(1) Cons.prems(3)]
  show ?case using Cons.IH [OF it(2,1,5)] Cons.prems(4) li1(2) by (auto simp: e)
qed simp

section \<open>The binary search\<close>

lemma limit_search_spec:
  "\<lbrakk>low \<le> high; low = 0 \<or> projected_index_resident_bytes low \<le> limit;
    \<And>m. \<lbrakk>high < m; m \<le> h\<rbrakk> \<Longrightarrow> \<not> projected_index_resident_bytes m \<le> limit; high \<le> h\<rbrakk>
   \<Longrightarrow> (limit_search limit low high = 0 \<or> projected_index_resident_bytes (limit_search limit low high) \<le> limit)
     \<and> (\<forall>m. limit_search limit low high < m \<longrightarrow> m \<le> h \<longrightarrow> \<not> projected_index_resident_bytes m \<le> limit)
     \<and> limit_search limit low high \<le> h"
proof (induction limit low high rule: limit_search.induct)
  case (1 limit low high)
  show ?case
  proof (cases "low < high")
    case False
    then show ?thesis using "1.prems" by (subst (1 2 3 4) limit_search.simps) auto
  next
    case True
    let ?m = "(low + high + 1) div 2"
    have m: "low < ?m" "?m \<le> high" using True by auto
    show ?thesis
    proof (cases "projected_index_resident_bytes ?m \<le> limit")
      case fits: True
      then have "limit_search limit low high = limit_search limit ?m high"
        using True by (subst limit_search.simps) (simp add: Let_def)
      moreover note "1.IH"(1) [OF True refl fits m(2) disjI2 [OF fits] "1.prems"(3,4)]
      ultimately show ?thesis by simp
    next
      case over: False
      then have eq: "limit_search limit low high = limit_search limit low (?m - 1)"
        using True by (subst limit_search.simps) (simp add: Let_def)
      have above: "\<not> projected_index_resident_bytes q \<le> limit" if "?m - 1 < q" "q \<le> h" for q
      proof -
        have "?m \<le> q" using that(1) by linarith
        from projected_mono [OF this] show ?thesis using over by linarith
      qed
      have "low \<le> ?m - 1" "?m - 1 \<le> h" using m "1.prems"(4) by auto
      from "1.IH"(2) [OF True refl over this(1) "1.prems"(2) above this(2)] show ?thesis unfolding eq by simp
    qed
  qed
qed

lemma index_record_limit_bounds:
  assumes "0 \<le> max_records (jn_limits j)" "n \<le> nat (max_records (jn_limits j))"
  shows "n \<le> index_record_limit j \<longleftrightarrow>
    n = 0 \<or> projected_index_resident_bytes n \<le> max_index_resident_bytes (jn_limits j)"
proof -
  let ?h = "nat (max_records (jn_limits j))" and ?b = "max_index_resident_bytes (jn_limits j)"
  let ?r = "index_record_limit j"
  have r: "(?r = 0 \<or> projected_index_resident_bytes ?r \<le> ?b)
      \<and> (\<forall>m. index_record_limit j < m \<longrightarrow> m \<le> ?h \<longrightarrow> \<not> projected_index_resident_bytes m \<le> ?b)
      \<and> index_record_limit j \<le> ?h"
    unfolding index_record_limit_def by (rule limit_search_spec) auto
  show ?thesis
  proof (cases "n \<le> ?r")
    case True
    then show ?thesis using r projected_mono [OF True] by auto
  next
    case False
    then show ?thesis using r assms(2) by auto
  qed
qed

end
