(* ===== verification/Audit_Claims.thy ===== *)
theory Audit_Claims
  imports Audit_Capacity_Laws
begin

text \<open>
  The properties of the audit journal's indexes and of its finite envelope.
\<close>

section \<open>The closing reserve\<close>

text \<open>A funded journal has room for every frame of its reserve.\<close>

definition funded :: "journal \<Rightarrow> bool" where
  "funded j \<longleftrightarrow> 1 \<le> jn_reserved j
     \<and> int (jn_entries j) + jn_reserved j \<le> max_records (jn_limits j)
     \<and> int (jn_entries j) + jn_reserved j \<le> int (index_record_limit j)
     \<and> jn_verified_eof j + jn_reserved j * MAX_AUDIT_FRAME_BYTES \<le> max_journal_bytes (jn_limits j)"

lemma frame_positive: "0 < MAX_AUDIT_FRAME_BYTES"
  by (simp add: MAX_AUDIT_FRAME_BYTES_def MAX_AUDIT_HEADER_BYTES_def MAX_LARGE_AUDIT_PAYLOAD_BYTES_def)

lemma index_limit_same:
  "jn_limits j' = jn_limits j \<Longrightarrow> index_record_limit j' = index_record_limit j"
  by (simp add: index_record_limit_def)

lemma ordinary_room:
  assumes "\<not> remaining_frames j < 1"
  shows "int (jn_entries j) + jn_reserved j + 1 \<le> max_records (jn_limits j)"
    "int (jn_entries j) + jn_reserved j + 1 \<le> int (index_record_limit j)"
    "jn_verified_eof j + (jn_reserved j + 1) * MAX_AUDIT_FRAME_BYTES \<le> max_journal_bytes (jn_limits j)"
proof -
  let ?q = "(max_journal_bytes (jn_limits j) - jn_verified_eof j) div MAX_AUDIT_FRAME_BYTES"
  from assms show "int (jn_entries j) + jn_reserved j + 1 \<le> max_records (jn_limits j)"
    "int (jn_entries j) + jn_reserved j + 1 \<le> int (index_record_limit j)"
    by (auto simp: remaining_frames_def Let_def split: if_splits)
  from assms have "jn_reserved j + 1 \<le> ?q" by (auto simp: remaining_frames_def Let_def split: if_splits)
  then have "(jn_reserved j + 1) * MAX_AUDIT_FRAME_BYTES \<le> ?q * MAX_AUDIT_FRAME_BYTES"
    using frame_positive by (intro mult_right_mono) simp_all
  also have "\<dots> \<le> max_journal_bytes (jn_limits j) - jn_verified_eof j"
    using frame_positive by (metis minus_mod_eq_div_mult pos_mod_sign diff_ge_0_iff_ge diff_diff_eq2 add_diff_cancel_left')
  finally show "jn_verified_eof j + (jn_reserved j + 1) * MAX_AUDIT_FRAME_BYTES \<le> max_journal_bytes (jn_limits j)"
    by simp
qed

lemma append_new_cases:
  assumes "append_new kind n rb j = (j', r)"
  obtains (refused) e where "j' = j" "r = Inl e"
  | (ordinary) "\<not> jn_closing j" "\<not> remaining_frames j < 1" "r = Inr ()" "j' = commit_frame j kind 0 n"
  | (closing) "jn_closing j" "closing_allowance j kind = 1" "r = Inr ()" "j' = commit_frame j kind 1 n"
proof -
  have "(\<exists>e. j' = j \<and> r = Inl e)
      \<or> (\<exists>a. admit_record j kind = Inr a \<and> j' = commit_frame j kind a n \<and> r = Inr ())"
  proof (cases "admit_record j kind")
    case (Inl e)
    then show ?thesis using assms by (auto simp: append_new_def split: if_splits)
  next
    case (Inr a)
    then show ?thesis using assms
      by (auto simp: append_new_def require_index_resident_budget_def guard_res_def split: if_splits)
  qed
  then consider (left_alone) e where "j' = j" "r = Inl e"
    | (written) a where "admit_record j kind = Inr a" "j' = commit_frame j kind a n" "r = Inr ()" by blast
  then show thesis
  proof cases
    case left_alone
    then show thesis by (rule refused)
  next
    case written
    show thesis
    proof (cases "jn_closing j")
      case True
      then have a: "a = closing_allowance j kind" "closing_appends_fit j a"
        using written(1) by (auto simp: admit_record_def Let_def)
      have "closing_allowance j kind = 0 \<or> closing_allowance j kind = 1"
        by (simp add: closing_allowance_def Let_def)
      moreover have "a \<noteq> 0" using a(2) by (auto simp: closing_appends_fit_def)
      ultimately show thesis using closing True a(1) written by simp
    next
      case False
      then show thesis using ordinary written by (simp add: admit_record_def)
    qed
  qed
qed

lemma funded_append:
  assumes "append_new kind n rb j = (j', r)" "frame_bound n" "funded j"
  shows "funded j' \<or> jn_terminal j'"
  using assms(1)
proof (cases rule: append_new_cases)
  case refused
  then show ?thesis using assms(3) by simp
next
  case ordinary
  note room = ordinary_room [OF ordinary(2)]
  then show ?thesis using ordinary(1,4) assms(2,3)
    by (auto simp: funded_def commit_frame_def index_record_limit_def frame_bound_def algebra_simps)
next
  case closing
  show ?thesis
  proof (cases "kind = RUN_TERMINAL")
    case False
    then have "2 \<le> jn_reserved j"
      using closing(2) by (auto simp: closing_allowance_def CLOSING_AUDIT_RECORD_KINDS_def Let_def split: if_splits)
    then show ?thesis using closing(1,4) assms(2,3)
      by (auto simp: funded_def commit_frame_def index_record_limit_def frame_bound_def algebra_simps)
  qed (simp add: closing(4) commit_frame_def)
qed

lemma terminal_stays: "jn_terminal j \<Longrightarrow> jn_terminal (journal_next j e)"
  by (cases e) (auto simp: append_new_def begin_protected_close_def guard_res_def split: sum.splits)

lemma funded_next:
  assumes "event_bound e" "funded j \<or> jn_terminal j"
  shows "funded (journal_next j e) \<or> jn_terminal (journal_next j e)"
proof (cases "jn_terminal j")
  case True
  then show ?thesis by (simp add: terminal_stays)
next
  case False
  then have f: "funded j" using assms(2) by simp
  show ?thesis
  proof (cases e)
    case (AppendEvent kind n rb)
    then show ?thesis using funded_append [OF _ _ f, of kind n] assms(1)
      by (cases "append_new kind n rb j") auto
  next
    case CloseEvent
    then show ?thesis using f
      by (auto simp: begin_protected_close_def guard_res_def funded_def index_record_limit_def)
  qed
qed

lemma funded_run:
  "\<lbrakk>\<forall>e\<in>set es. event_bound e; funded j \<or> jn_terminal j\<rbrakk>
   \<Longrightarrow> funded (journal_run j es) \<or> jn_terminal (journal_run j es)"
  by (induction es arbitrary: j) (simp_all add: journal_run_def funded_next)

lemma first_append_funds:
  assumes "new_journal limits k = Inr j0" "1 \<le> k" "append_new kind n rb j0 = (j1, Inr ())" "frame_bound n"
  shows "funded j1"
proof -
  have j0: "jn_reserved j0 = k" "\<not> jn_closing j0" using assms(1) by (auto simp: new_journal_def)
  from assms(3) show ?thesis
  proof (cases rule: append_new_cases)
    case ordinary
    note room = ordinary_room [OF ordinary(2)]
    then show ?thesis using ordinary(1,4) assms(2,4) j0
      by (auto simp: funded_def commit_frame_def index_record_limit_def frame_bound_def algebra_simps)
  qed (use j0 in simp_all)
qed

lemma funded_admits_terminal:
  assumes "funded j" "\<not> jn_terminal j" "frame_bound n"
  shows "admit_record (j\<lparr>jn_closing := True\<rparr>) RUN_TERMINAL = Inr 1"
    "frame_fits (j\<lparr>jn_closing := True\<rparr>) n"
proof -
  show "admit_record (j\<lparr>jn_closing := True\<rparr>) RUN_TERMINAL = Inr 1"
    using assms(1,2)
    by (auto simp: admit_record_def closing_allowance_def closing_appends_fit_def funded_def
        CLOSING_AUDIT_RECORD_KINDS_def index_record_limit_def guard_res_def Let_def)
  have "n \<le> MAX_AUDIT_FRAME_BYTES" using assms(3) by (simp add: frame_bound_def)
  also have "\<dots> \<le> jn_reserved j * MAX_AUDIT_FRAME_BYTES"
    using assms(1) frame_positive by (simp add: funded_def)
  finally show "frame_fits (j\<lparr>jn_closing := True\<rparr>) n"
    using assms(1) by (simp add: frame_fits_def funded_def)
qed

section \<open>Properties\<close>

lemma fresh_represents: "(\<And>s. \<not> holds_entry li s) \<Longrightarrow> represents li Map.empty"
  by (simp add: represents_def stores_def)

lemma fresh_table:
  assumes "new_logical_index 8 = Inr li"
  shows "table_inv std li" "represents li Map.empty" "tight li"
  using new_index_Inr [OF assms, of 3] fresh_represents [of li] by (simp_all add: tight_def)

text \<open>C38: the logical-key table is a map. After any sequence of insertions into a fresh table, with
  every probe and every resize on the way, each insertion answered as an insertion into a finite map
  does (a sequence out of range or a key already held is refused) and a lookup of any key answers
  exactly what the map holds. In particular no probe and no rehash runs for ever.\<close>

theorem logical_index_is_a_map:
  assumes "new_logical_index 8 = Inr li0" "\<forall>(k, n) \<in> set ops. key_ok k"
  shows "\<exists>li. index_run std li0 ops = Some (li, snd (map_run Map.empty ops))
    \<and> (\<forall>k. key_ok k \<longrightarrow> index_get std li k = Some (fst (map_run Map.empty ops) k))"
proof -
  note fresh = fresh_table [OF assms(1)]
  obtain li where "index_run std li0 ops = Some (li, snd (map_run Map.empty ops))" "table_inv std li"
      "represents li (fst (map_run Map.empty ops))"
    using index_run_simulates [OF fresh(1,2) assms(2)] by blast
  then show ?thesis by (intro exI [of _ li]) (simp add: represents_get)
qed

definition key_example :: "char \<Rightarrow> audit_key" where
  "key_example c = \<lparr>lk_record = RUN_PREPARED, lk_subject = SUBJECT_RUN_MANIFEST,
     lk_digest = Sha256Digest (replicate 64 c)\<rparr>"

lemma key_example_ok: "key_ok (key_example (CHR ''a''))" "key_ok (key_example (CHR ''b''))"
  by code_simp+

lemma fresh_example: "\<exists>li. new_logical_index 8 = Inr li"
  using power_of_two_capacity [of 3] by simp

theorem logical_index_is_a_map_witness:
  "\<exists>li0 li. new_logical_index 8 = Inr li0
    \<and> index_run std_example li0 [(key_example (CHR ''a''), 1), (key_example (CHR ''a''), 2),
        (key_example (CHR ''b''), 0)] = Some (li, [Inr (), Inl ValueError, Inl ValueError])
    \<and> index_get std_example li (key_example (CHR ''a'')) = Some (Some 1)
    \<and> index_get std_example li (key_example (CHR ''b'')) = Some None"
proof -
  let ?ops = "[(key_example (CHR ''a''), 1), (key_example (CHR ''a''), 2), (key_example (CHR ''b''), 0)]"
  obtain li0 where li0: "new_logical_index 8 = Inr li0" using fresh_example by blast
  have ok: "\<forall>(k, n) \<in> set ?ops. key_ok k" using key_example_ok by simp
  have ne: "key_example (CHR ''a'') \<noteq> key_example (CHR ''b'')" by (simp add: key_example_def)
  have m: "map_run Map.empty ?ops
      = ([key_example (CHR ''a'') \<mapsto> 1], [Inr (), Inl ValueError, Inl ValueError])"
    by (simp add: map_insert_def MAX_AUDIT_RECORDS_def)
  show ?thesis using logical_index_is_a_map [OF li0 ok, of std_example] key_example_ok ne li0
    unfolding m by fastforce
qed

text \<open>C39: probing terminates. In every table a run of insertions reaches, a probe for any key parts
  returns a slot of the table, because at most three quarters of the slots are taken.\<close>

theorem probing_terminates:
  assumes "new_logical_index 8 = Inr li0" "\<forall>(k, n) \<in> set ops. key_ok k"
    "index_run std li0 ops = Some (li, rs)"
  shows "li_count li * 4 \<le> capacity li * 3
    \<and> (\<exists>slot found. find_slot std li parts = Some (slot, found) \<and> slot < capacity li
      \<and> (found \<longleftrightarrow> li_sequences li ! slot \<noteq> 0))"
proof -
  note fresh = fresh_table [OF assms(1)]
  have inv: "table_inv std li" using run_tight [OF fresh(1,3,2) assms(2,3)] by simp
  then have load: "li_count li * 4 \<le> capacity li * 3" by (simp add: table_inv_def)
  obtain d t where t: "t = slot_from std li parts d" "find_slot std li parts = Some (t, holds_entry li t)"
    using find_slot_stops [OF inv] by metis
  have "t < capacity li" using t(1) inv by (simp add: slot_from_less table_inv_def)
  then show ?thesis using load t(2) by (auto simp: holds_entry_def)
qed

theorem probing_terminates_witness:
  "\<exists>li0 li slot found. new_logical_index 8 = Inr li0
    \<and> index_run std_example li0 [(key_example (CHR ''a''), 1)] = Some (li, [Inr ()])
    \<and> find_slot std_example li (1, 1, []) = Some (slot, found) \<and> slot < capacity li"
proof -
  let ?ops = "[(key_example (CHR ''a''), 1 :: int)]"
  obtain li0 where li0: "new_logical_index 8 = Inr li0" using fresh_example by blast
  have ok: "\<forall>(k, n) \<in> set ?ops. key_ok k" using key_example_ok by simp
  have m: "map_run Map.empty ?ops = ([key_example (CHR ''a'') \<mapsto> 1], [Inr ()])"
    by (simp add: map_insert_def MAX_AUDIT_RECORDS_def)
  obtain li where li: "index_run std_example li0 ?ops = Some (li, [Inr ()])"
    using index_run_simulates [OF fresh_table(1,2) [OF li0] ok, of std_example] unfolding m by auto
  show ?thesis using probing_terminates [OF li0 ok li, of "(1, 1, [])"] li0 li by blast
qed

text \<open>The projection covers the index. Inserting one more record into a reachable table, with the
  old and the new slot buffers (38 bytes a slot) alive at once and 112 bytes of entry data for every
  record, stays within the bytes the capacity check projects for that record count.\<close>

theorem projection_covers_index:
  assumes "new_logical_index 8 = Inr li0" "\<forall>(k, n) \<in> set ops. key_ok k"
    "index_run std li0 ops = Some (li, rs)" "key_ok k" "index_insert std k n li = Some (li', r)"
  shows "112 * int (li_count li + 1) + 38 * (int (capacity li) + int (capacity li'))
    \<le> projected_index_resident_bytes (li_count li + 1)"
proof -
  note fresh = fresh_table [OF assms(1)]
  have inv: "table_inv std li" "tight li" using run_tight [OF fresh(1,3,2) assms(2,3)] by simp_all
  obtain m where m: "represents li m"
    using index_run_simulates [OF fresh(1,2) assms(2), of std] assms(3) by auto
  note it = insert_tight [OF inv assms(4,5) m]
  have "capacity li' \<le> index_slots (li_count li)"
    using it(2,4) inv tight_slots [of li' "li_count li"] tight_slots [of li "li_count li"]
    by (auto simp: table_inv_def tight_def)
  also have "\<dots> \<le> index_slots (li_count li + 1)" by (rule index_slots_mono) simp
  finally show ?thesis using it(3) by (simp add: projected_slots)
qed

theorem projection_covers_index_witness:
  "\<exists>li0 li'. new_logical_index 8 = Inr li0
    \<and> index_insert std_example (key_example (CHR ''a'')) 1 li0 = Some (li', Inr ())
    \<and> 112 * int (li_count li0 + 1) + 38 * (int (capacity li0) + int (capacity li'))
        \<le> projected_index_resident_bytes (li_count li0 + 1)"
proof -
  let ?k = "key_example (CHR ''a'')"
  obtain li0 where li0: "new_logical_index 8 = Inr li0" using fresh_example by blast
  have m: "map_insert ?k 1 Map.empty = ([?k \<mapsto> 1], Inr ())"
    by (simp add: map_insert_def MAX_AUDIT_RECORDS_def)
  obtain li' where li': "index_insert std_example ?k 1 li0 = Some (li', Inr ())"
    using index_insert_simulates [OF fresh_table(1,2) [OF li0] key_example_ok(1), of std_example 1]
    unfolding m by auto
  show ?thesis using projection_covers_index [OF li0 _ _ key_example_ok(1) li', of "[]"] li0 li' by auto
qed

text \<open>The record limit is exact. The binary search returns the largest record count whose
  projection fits the index budget: up to the record bound, a count is within the limit exactly when
  it is zero or its projected bytes fit.\<close>

theorem index_record_limit_exact:
  assumes "make_capacity_limits r b x = Inr limits" "jn_limits j = limits" "int n \<le> max_records limits"
  shows "n \<le> index_record_limit j \<longleftrightarrow>
    n = 0 \<or> projected_index_resident_bytes n \<le> max_index_resident_bytes limits"
  using index_record_limit_bounds [of j n] assms
  by (auto simp: make_capacity_limits_def in_bound_def le_nat_iff)

lemma limits_example:
  "make_capacity_limits 100 1000000 8192 = Inr \<lparr>max_records = 100, max_journal_bytes = 1000000,
     max_index_resident_bytes = 8192\<rparr>"
  by (simp add: make_capacity_limits_def in_bound_def MAX_AUDIT_RECORDS_def MAX_AUDIT_JOURNAL_BYTES_def
      MAX_AUDIT_INDEX_RESIDENT_BYTES_def)

definition journal_example :: journal where
  "journal_example = \<lparr>jn_limits = \<lparr>max_records = 100, max_journal_bytes = 1000000,
     max_index_resident_bytes = 8192\<rparr>, jn_entries = 0, jn_reserved = 2, jn_verified_eof = 12,
     jn_closing = False, jn_failed = False, jn_terminal = False, jn_closed = False\<rparr>"

lemma projected_examples:
  "projected_index_resident_bytes 12 = 8064" "projected_index_resident_bytes 13 = 8192"
  "projected_index_resident_bytes 23 = 9472"
  by code_simp+

theorem index_record_limit_exact_witness:
  "13 \<le> index_record_limit journal_example \<and> \<not> 23 \<le> index_record_limit journal_example"
  using index_record_limit_exact [OF limits_example, of journal_example 13]
    index_record_limit_exact [OF limits_example, of journal_example 23]
  by (simp add: journal_example_def projected_examples)

text \<open>C40: a journal can always be closed. A journal opened with a closing reserve that wrote its first
  record keeps the reserve funded through any appends and the start of the protected close: while it is
  not terminal, the terminal record is admitted in the closing phase and a frame of the largest size
  still fits the byte bound.\<close>

theorem closing_record_always_fits:
  assumes "new_journal limits reserve = Inr j0" "1 \<le> reserve"
    "append_new RUN_PREPARED n0 rb j0 = (j1, Inr ())" "frame_bound n0"
    "\<forall>e\<in>set events. event_bound e" "\<not> jn_terminal (journal_run j1 events)" "frame_bound n"
  shows "let j = (journal_run j1 events)\<lparr>jn_closing := True\<rparr>
    in 1 \<le> jn_reserved j \<and> admit_record j RUN_TERMINAL = Inr 1 \<and> frame_fits j n"
proof -
  have "funded (journal_run j1 events)"
    using funded_run [OF assms(5)] first_append_funds [OF assms(1-4)] assms(6) by blast
  then show ?thesis using funded_admits_terminal [OF _ assms(6,7)] by (simp add: Let_def funded_def)
qed

theorem closing_record_always_fits_witness:
  "\<exists>j1. append_new RUN_PREPARED 600 1000 journal_example = (j1, Inr ())
    \<and> admit_record ((journal_run j1 [AppendEvent MATCHER_DISPATCH_BATCH 900 1000, CloseEvent])
          \<lparr>jn_closing := True\<rparr>) RUN_TERMINAL = Inr 1"
proof -
  have new: "new_journal (jn_limits journal_example) 2 = Inr journal_example"
    by (simp add: new_journal_def journal_example_def AUDIT_JOURNAL_PREAMBLE_def)
  have bound: "frame_bound 600" "frame_bound 900"
    by (simp_all add: frame_bound_def MAX_AUDIT_FRAME_BYTES_def MAX_AUDIT_HEADER_BYTES_def
        MAX_LARGE_AUDIT_PAYLOAD_BYTES_def)
  have one: "append_new RUN_PREPARED 600 1000 journal_example
      = (commit_frame journal_example RUN_PREPARED 0 600, Inr ())"
    by code_simp
  let ?j1 = "commit_frame journal_example RUN_PREPARED 0 600"
  let ?es = "[AppendEvent MATCHER_DISPATCH_BATCH 900 1000, CloseEvent]"
  have live: "\<not> jn_terminal (journal_run ?j1 ?es)" by code_simp
  have es: "\<forall>e\<in>set ?es. event_bound e" using bound by simp
  have two: "(1 :: int) \<le> 2" by simp
  show ?thesis using closing_record_always_fits [OF new two one bound(1) es live bound(1)] one
    by (auto simp: Let_def)
qed

end
