(* ===== verification/Audit_Evidence.thy ===== *)
theory Audit_Evidence
  imports Observations Audit_Index Outcomes
begin

text \<open>
  The evidence the audit journal hands back (\<open>ea.core.audit\<close>): acknowledgements,
  the check that an acknowledgement binds one logical record, and the admission
  of a reconciliation outcome as an audit payload with its subject digest.

  A payload is the canonical bytes of a document; \<open>json.loads\<close> of canonical bytes
  gives the document back, so the payload checks read the document.
\<close>

section \<open>Acknowledgements\<close>

record run_reference =
  rr_run :: run_id
  rr_lineage :: sha256_digest

record run_binding =
  rb_reference :: run_reference
  rb_manifest :: sha256_digest

record audit_acknowledgement =
  ak_binding :: run_binding
  ak_record_id :: economic_id
  ak_record_kind :: audit_record_kind
  ak_subject_kind :: audit_subject_kind
  ak_subject :: sha256_digest
  ak_payload :: sha256_digest
  ak_record :: sha256_digest
  ak_chain :: sha256_digest

fun record_kind_value :: "audit_record_kind \<Rightarrow> string" where
  "record_kind_value RUN_PREPARED = ''run.prepared''"
| "record_kind_value MATCHER_DISPATCH_BATCH = ''matcher.dispatch_batch''"
| "record_kind_value EXECUTION_FACT_PROCESSING_OUTCOME = ''execution.fact_processing_outcome''"
| "record_kind_value PORTFOLIO_LEDGER_HANDOFF_OUTCOME = ''portfolio.ledger_handoff_outcome''"
| "record_kind_value RISK_PORTFOLIO_REFRESH = ''risk.portfolio_refresh''"
| "record_kind_value RECONCILIATION_OBSERVATION_OUTCOME = ''reconciliation.observation_outcome''"
| "record_kind_value RECONCILIATION_ADJUSTMENT_AUTHORIZATION =
     ''reconciliation.adjustment_authorization''"
| "record_kind_value RECONCILIATION_ADJUSTMENT_OUTCOME = ''reconciliation.adjustment_outcome''"
| "record_kind_value SUBMISSION_PRE_EFFECT_AUTHORIZATION = ''submission.pre_effect_authorization''"
| "record_kind_value RUNTIME_FAILING_SAFETY_TRANSITION = ''runtime.failing_safety_transition''"
| "record_kind_value RUNTIME_DISPATCH_COMPLETED = ''runtime.dispatch_completed''"
| "record_kind_value RUN_TERMINAL = ''run.terminal''"
| "record_kind_value PAPER_SUBMISSION_AUTHORIZATION = ''paper.submission_authorization''"
| "record_kind_value PAPER_FACT_DISPATCH = ''paper.fact_dispatch''"
| "record_kind_value PAPER_SUBMISSION_RESULT = ''paper.submission_result''"
| "record_kind_value PAPER_ORDER_CONSTRUCTION = ''paper.order_construction''"
| "record_kind_value PAPER_OPERATIONAL_SAFETY = ''paper.operational_safety''"

fun subject_kind_value :: "audit_subject_kind \<Rightarrow> string" where
  "subject_kind_value SUBJECT_RUN_MANIFEST = ''run_manifest''"
| "subject_kind_value SUBJECT_HISTORICAL_MATCHER_DISPATCH_BATCH = ''historical_matcher_dispatch_batch''"
| "subject_kind_value SUBJECT_EXECUTION_FACT_PROCESSING_OUTCOME = ''execution_fact_processing_outcome''"
| "subject_kind_value SUBJECT_PORTFOLIO_LEDGER_HANDOFF_OUTCOME = ''portfolio_ledger_handoff_outcome''"
| "subject_kind_value SUBJECT_PORTFOLIO_RISK_REFRESH = ''portfolio_risk_refresh''"
| "subject_kind_value SUBJECT_RECONCILIATION_OUTCOME = ''reconciliation_outcome''"
| "subject_kind_value SUBJECT_RECONCILIATION_ADJUSTMENT_AUTHORIZATION =
     ''reconciliation_adjustment_authorization''"
| "subject_kind_value SUBJECT_RECONCILIATION_ADJUSTMENT_OUTCOME = ''reconciliation_adjustment_outcome''"
| "subject_kind_value SUBJECT_HISTORICAL_EXECUTION_REQUEST = ''historical_execution_request''"
| "subject_kind_value SUBJECT_COORDINATOR_STATE = ''coordinator_state''"
| "subject_kind_value SUBJECT_RUNTIME_DISPATCH = ''runtime_dispatch''"
| "subject_kind_value SUBJECT_RUN_TERMINAL_STATE = ''run_terminal_state''"
| "subject_kind_value SUBJECT_PAPER_SUBMISSION = ''paper_submission''"
| "subject_kind_value SUBJECT_PAPER_FACT_DISPATCH = ''paper_fact_dispatch''"
| "subject_kind_value SUBJECT_PAPER_SUBMISSION_RESULT = ''paper_submission_result''"
| "subject_kind_value SUBJECT_PAPER_ORDER_CONSTRUCTION = ''paper_order_construction''"
| "subject_kind_value SUBJECT_PAPER_OPERATIONAL_SAFETY = ''paper_operational_safety''"

definition acknowledgement_document :: "audit_acknowledgement \<Rightarrow> json" where
  "acknowledgement_document a = JObj
     [(''canonicalization'', JStr ''ea-canonical-json-v1''),
      (''chain_head_sha256'', digest_json (ak_chain a)),
      (''lineage_sha256'', digest_json (rr_lineage (rb_reference (ak_binding a)))),
      (''manifest_sha256'', digest_json (rb_manifest (ak_binding a))),
      (''payload_sha256'', digest_json (ak_payload a)),
      (''record_id'', economic_id_document (ak_record_id a)),
      (''record_kind'', JStr (record_kind_value (ak_record_kind a))),
      (''record_sha256'', digest_json (ak_record a)),
      (''run_id'', JStr (run_text (rr_run (rb_reference (ak_binding a))))),
      (''schema'', JStr ''ea.audit-append-acknowledgement.v1''),
      (''subject_kind'', JStr (subject_kind_value (ak_subject_kind a))),
      (''subject_sha256'', digest_json (ak_subject a))]"

definition acknowledgement_digest :: "stdlib \<Rightarrow> audit_acknowledgement \<Rightarrow> sha256_digest" where
  "acknowledgement_digest std a =
     domain_digest (hexdigest std) ''ea.audit-append-acknowledgement.v1''
       (json_bytes (acknowledgement_document a))"

definition require_audit_acknowledgement ::
  "stdlib \<Rightarrow> audit_acknowledgement \<Rightarrow> run_binding \<Rightarrow> audit_key \<Rightarrow> string
   \<Rightarrow> audit_acknowledgement result" where
  "require_audit_acknowledgement std a binding key payload =
     guard_res (ak_binding a \<noteq> binding
         \<or> run_id (ak_record_id a) \<noteq> rr_run (rb_reference binding)
         \<or> owner_kind (ak_record_id a) \<noteq> AUDIT_RECORD
         \<or> owner_sequence (ak_record_id a) < 1
         \<or> ak_record_kind a \<noteq> lk_record key
         \<or> ak_subject_kind a \<noteq> lk_subject key
         \<or> ak_subject a \<noteq> lk_digest key
         \<or> digest_text (ak_payload a) \<noteq> hexdigest std payload)
       (AuditContractError DURABILITY_AUDIT_ACK_MISMATCH) (Inr a)"

section \<open>Payload fields\<close>

definition audit_conflict :: exn where
  "audit_conflict = AuditContractError CONFLICTING_ID"

text \<open>A missing key is a \<open>KeyError\<close>; the key set of a payload is checked first.\<close>

definition payload_field :: "(string \<times> json) list \<Rightarrow> string \<Rightarrow> json result" where
  "payload_field doc k = (case map_of doc k of None \<Rightarrow> Inl KeyError | Some v \<Rightarrow> Inr v)"

definition require_json_text :: "(string \<times> json) list \<Rightarrow> string \<Rightarrow> string result" where
  "require_json_text doc k = bind_res (payload_field doc k) (\<lambda>v.
     case v of JStr t \<Rightarrow> Inr t | _ \<Rightarrow> Inl audit_conflict)"

definition require_json_digest :: "(string \<times> json) list \<Rightarrow> string \<Rightarrow> unit result" where
  "require_json_digest doc k = bind_res (require_json_text doc k) (\<lambda>t.
     bind_res (map_exn (\<lambda>_. audit_conflict) (make_digest t)) (\<lambda>_. Inr ()))"

definition require_json_uint64 :: "(string \<times> json) list \<Rightarrow> string \<Rightarrow> bool \<Rightarrow> int result" where
  "require_json_uint64 doc k positive = bind_res (payload_field doc k) (\<lambda>v.
     case v of
       JInt n \<Rightarrow> guard_res (\<not> ((if positive then 1 else 0) \<le> n \<and> n \<le> MAX_UINT64)) audit_conflict (Inr n)
     | _ \<Rightarrow> Inl audit_conflict)"

definition require_json_bool :: "(string \<times> json) list \<Rightarrow> string \<Rightarrow> bool result" where
  "require_json_bool doc k = bind_res (payload_field doc k) (\<lambda>v.
     case v of JBool b \<Rightarrow> Inr b | _ \<Rightarrow> Inl audit_conflict)"

text \<open>\<open>Enum(text)\<close> of a field: the text has to be a value of the enumeration.\<close>

definition require_json_member :: "(string \<times> json) list \<Rightarrow> string \<Rightarrow> string list \<Rightarrow> string result" where
  "require_json_member doc k vs = bind_res (require_json_text doc k) (\<lambda>t.
     guard_res (t \<notin> set vs) audit_conflict (Inr t))"

section \<open>The payload of a reconciliation outcome\<close>

definition all_actions :: "requested_action list" where
  "all_actions = [ACTION_NONE, REQUEST_MISSING_TRADE_FACTS, RETAIN_AND_HALT,
     MANUAL_EVIDENCE_DECOMPOSITION, PROPOSE_SINGLE_TARGET_ADJUSTMENT, PROPOSE_ANCESTRY_RESOLUTION]"

definition all_comparisons :: "watermark_comparison list" where
  "all_comparisons = [EQUAL, REMOTE_LOWER, REMOTE_HIGHER, INCOMPARABLE]"

text \<open>The target of a discrepancy document with its sort key.\<close>

definition discrepancy_target ::
  "(string \<times> json) list \<Rightarrow> string \<Rightarrow> (string \<times> string \<times> string) result" where
  "discrepancy_target doc kind =
     (if kind = ''instrument_position''
      then bind_res (payload_field doc ''instrument'') (\<lambda>v.
        case v of
          JObj kvs \<Rightarrow>
            guard_res (set (map fst kvs) \<noteq> {''symbol'', ''venue''}) audit_conflict
           (bind_res (require_json_text kvs ''symbol'') (\<lambda>symbol.
            bind_res (require_json_text kvs ''venue'') (\<lambda>venue.
            bind_res (map_exn (\<lambda>_. audit_conflict)
                (bind_res (make_venue_id venue) (\<lambda>w. make_instrument w symbol))) (\<lambda>i.
            let (code, s) = instrument_key i in Inr (''instrument_position'', code, s)))))
        | _ \<Rightarrow> Inl audit_conflict)
      else bind_res (require_json_text doc ''currency'') (\<lambda>t.
        bind_res (map_exn (\<lambda>_. audit_conflict) (make_settlement_currency t)) (\<lambda>y.
          Inr (''settlement_cash'', currency_code y, []))))"

text \<open>The three amounts agree: the difference is aligned to the wider scale and is not zero.\<close>

definition delta_conflicts ::
  "canonical_decimal \<Rightarrow> canonical_decimal \<Rightarrow> canonical_decimal \<Rightarrow> bool" where
  "delta_conflicts l ob delta =
     (let s = max (scale l) (scale ob);
          expected = coefficient ob * 10 ^ (s - scale ob) - coefficient l * 10 ^ (s - scale l);
          (expected', actual) =
            (if s < scale delta then (expected * 10 ^ (scale delta - s), coefficient delta)
             else (expected, coefficient delta * 10 ^ (s - scale delta)))
      in expected' \<noteq> actual \<or> coefficient delta = 0)"

definition require_discrepancy_document :: "json \<Rightarrow> (string \<times> string \<times> string) result" where
  "require_discrepancy_document v =
     (case v of
        JObj doc \<Rightarrow>
          (case map_of doc ''kind'' of
             Some (JStr kind) \<Rightarrow>
               guard_res (kind \<noteq> ''instrument_position'' \<and> kind \<noteq> ''settlement_cash'') audit_conflict
              (guard_res (set (map fst doc) \<noteq> {''delta'', ''kind'', ''local_amount'', ''observed_amount'',
                  (if kind = ''instrument_position'' then ''instrument'' else ''currency'')}) audit_conflict
              (bind_res (discrepancy_target doc kind) (\<lambda>key.
               bind_res (bind_res (require_json_text doc ''local_amount'') (\<lambda>t.
                   map_exn (economic_to audit_conflict) (canonical_decimal t))) (\<lambda>l.
               bind_res (bind_res (require_json_text doc ''observed_amount'') (\<lambda>t.
                   map_exn (economic_to audit_conflict) (canonical_decimal t))) (\<lambda>ob.
               bind_res (bind_res (require_json_text doc ''delta'') (\<lambda>t.
                   map_exn (economic_to audit_conflict) (canonical_decimal t))) (\<lambda>delta.
               guard_res (delta_conflicts l ob delta) audit_conflict (Inr key)))))))
           | Some (JList _) \<Rightarrow> Inl TypeError
           | Some (JObj _) \<Rightarrow> Inl TypeError
           | _ \<Rightarrow> Inl audit_conflict)
      | _ \<Rightarrow> Inl audit_conflict)"

definition OUTCOME_PAYLOAD_FIELDS :: "string list" where
  "OUTCOME_PAYLOAD_FIELDS =
     [''canonicalization'', ''discrepancies'', ''dispatch_sequence'', ''halt_requested'',
      ''ledger_sequence'', ''local_snapshot_sha256'', ''local_snapshot_version'',
      ''observation_sha256'', ''outcome_code'', ''requested_action'', ''run_id'', ''schema'',
      ''watermark_comparison'']"

text \<open>The audit layer's own copy of the closed outcome matrix, over texts.\<close>

definition audit_allowed :: "(string \<times> string \<times> string \<times> bool \<times> nat) list" where
  "audit_allowed =
     [(''equal'', ''reconciliation.match'', ''none'', False, 0),
      (''equal'', ''reconciliation.match'', ''propose_ancestry_resolution'', True, 0),
      (''remote_lower'', ''reconciliation.local_ahead_stale'', ''retain_and_halt'', True, 0),
      (''remote_higher'', ''reconciliation.remote_ahead'', ''request_missing_trade_facts'', True, 0),
      (''equal'', ''reconciliation.mismatch'', ''propose_single_target_adjustment'', True, 1),
      (''incomparable'', ''reconciliation.invalid'', ''retain_and_halt'', True, 0),
      (''equal'', ''reconciliation.unresolved_correlation'', ''retain_and_halt'', True, 0)]"

definition audit_quarantined :: "string \<times> string \<times> string \<times> bool \<times> nat \<Rightarrow> bool" where
  "audit_quarantined = (\<lambda>(w, c, a, h, n).
     (w, c, a, h) = (''equal'', ''reconciliation.quarantined'', ''manual_evidence_decomposition'', True)
     \<and> 2 \<le> n \<and> n \<le> 32)"

text \<open>The branch of \<open>_require_audit_owned_payload_values\<close> for an observation outcome.\<close>

definition require_outcome_values :: "(string \<times> json) list \<Rightarrow> unit result" where
  "require_outcome_values doc =
     bind_res (require_json_text doc ''run_id'') (\<lambda>_.
     bind_res (require_json_digest doc ''observation_sha256'') (\<lambda>_.
     bind_res (require_json_digest doc ''local_snapshot_sha256'') (\<lambda>_.
     bind_res (require_json_uint64 doc ''dispatch_sequence'' True) (\<lambda>_.
     bind_res (require_json_uint64 doc ''local_snapshot_version'' False) (\<lambda>_.
     bind_res (require_json_uint64 doc ''ledger_sequence'' False) (\<lambda>_.
     bind_res (require_json_bool doc ''halt_requested'') (\<lambda>halt.
     bind_res (require_json_member doc ''outcome_code'' (map outcome_code_value all_outcome_codes)) (\<lambda>code.
     bind_res (require_json_member doc ''requested_action'' (map action_value all_actions)) (\<lambda>act.
     bind_res (require_json_member doc ''watermark_comparison'' (map comparison_value all_comparisons)) (\<lambda>w.
     bind_res (payload_field doc ''discrepancies'') (\<lambda>v.
     case v of
       JList ds \<Rightarrow>
         guard_res (32 < length ds) audit_conflict
        (bind_res (map_res require_discrepancy_document ds) (\<lambda>keys.
         guard_res (keys \<noteq> sort (remdups keys)) audit_conflict
        (guard_res ((w, code, act, halt, length ds) \<notin> set audit_allowed
            \<and> \<not> audit_quarantined (w, code, act, halt, length ds)) audit_conflict (Inr ()))))
     | _ \<Rightarrow> Inl audit_conflict)))))))))))"

text \<open>\<open>require_canonical_audit_payload\<close> for an observation outcome without a specification set.\<close>

definition require_outcome_payload :: "json \<Rightarrow> string result" where
  "require_outcome_payload v =
     (let payload = json_bytes v
      in guard_res (\<not> (1 \<le> length payload \<and> length payload \<le> 16384)) (AuditContractError OUT_OF_RANGE)
        (case v of
           JObj doc \<Rightarrow>
             guard_res (set (map fst doc) \<noteq> set OUTCOME_PAYLOAD_FIELDS) audit_conflict
            (guard_res (map_of doc ''schema'' \<noteq> Some (JStr ''ea.reconciliation-outcome.v2'')
                \<or> map_of doc ''canonicalization'' \<noteq> Some (JStr ''ea-canonical-json-v1'')) audit_conflict
            (bind_res (require_outcome_values doc) (\<lambda>_. Inr payload)))
         | _ \<Rightarrow> Inl audit_conflict))"

text \<open>\<open>audit_subject_digest\<close> of an observation outcome.\<close>

definition outcome_subject_digest :: "stdlib \<Rightarrow> json \<Rightarrow> sha256_digest result" where
  "outcome_subject_digest std v = bind_res (require_outcome_payload v) (\<lambda>payload.
     Inr (framed_digest (hexdigest std) ''ea.audit-subject.reconciliation.observation_outcome.v1'' payload))"

end
