(* ===== verification/Adjustment_Evidence.thy ===== *)
theory Adjustment_Evidence
  imports Audit_Evidence Portfolio_Ledger
begin

text \<open>
  The factories of \<open>ea.core.reconciliation\<close> that turn an acknowledged outcome into
  an adjustment command, and a command into an authorization: the evidence each
  of them requires, and the audited form the ledger applies.
\<close>

section \<open>Commands\<close>

definition reconciliation_conflict :: exn where
  "reconciliation_conflict = ReconciliationContractError CONFLICTING_ID"

definition PORTFOLIO_LEDGER_NAMESPACE :: source_namespace where
  "PORTFOLIO_LEDGER_NAMESPACE = SourceNamespace ''ledger.portfolio''"

text \<open>The acknowledgement an outcome needs before anything is derived from it.\<close>

definition outcome_acknowledged ::
  "stdlib \<Rightarrow> run_binding \<Rightarrow> reconciliation_outcome \<Rightarrow> audit_acknowledgement
   \<Rightarrow> audit_acknowledgement result" where
  "outcome_acknowledged std binding outcome ack =
     bind_res (outcome_bytes outcome) (\<lambda>payload.
     bind_res (outcome_subject_digest std (outcome_document outcome)) (\<lambda>subject.
     map_exn (\<lambda>_. reconciliation_conflict)
       (bind_res (make_logical_key RECONCILIATION_OBSERVATION_OUTCOME SUBJECT_RECONCILIATION_OUTCOME subject)
          (\<lambda>key. require_audit_acknowledgement std ack binding key payload))))"

definition snapshot_position_amount :: "snapshot \<Rightarrow> instrument \<Rightarrow> canonical_decimal result" where
  "snapshot_position_amount n i =
     (case find (\<lambda>b. pb_instrument b = i) (sn_positions n) of
        Some b \<Rightarrow> Inr (pb_quantity b) | None \<Rightarrow> canonical_decimal ''0'')"

definition snapshot_cash_amount :: "snapshot \<Rightarrow> settlement_currency \<Rightarrow> canonical_decimal result" where
  "snapshot_cash_amount n y =
     (case find (\<lambda>b. cb_currency b = y) (sn_cash n) of
        Some b \<Rightarrow> Inr (cb_amount b) | None \<Rightarrow> canonical_decimal ''0'')"

text \<open>The identity and frontier fields every command copies from its outcome.\<close>

definition command_base ::
  "stdlib \<Rightarrow> spec_set \<Rightarrow> reconciliation_outcome \<Rightarrow> sha256_digest \<Rightarrow> economic_id \<Rightarrow> adjustment_command" where
  "command_base std ss outcome sha adjustment =
     \<lparr>ac_run = ro_run outcome, ac_set_id = set_identifier ss,
      ac_set_sha256 = instrument_spec_set_digest (hexdigest std) ss, ac_adjustment = adjustment,
      ac_observation = ro_observation outcome, ac_outcome = sha,
      ac_sequence = ro_ledger_sequence outcome, ac_snapshot = ro_snapshot outcome,
      ac_variant = BALANCE_CORRECTION, ac_target = INSTRUMENT_POSITION, ac_instrument = None,
      ac_currency = None, ac_local = None, ac_observed = None, ac_delta = None, ac_ref = None,
      ac_order = None, ac_order_sha256 = None, ac_dispatch = ro_dispatch outcome\<rparr>"

text \<open>\<open>_build_adjustment_command\<close>; \<open>f\<close> sets the fields of the variant.\<close>

definition build_adjustment_command ::
  "stdlib \<Rightarrow> spec_set \<Rightarrow> reconciliation_outcome \<Rightarrow> economic_id
   \<Rightarrow> (adjustment_command \<Rightarrow> adjustment_command) \<Rightarrow> adjustment_command result" where
  "build_adjustment_command std ss outcome adjustment f =
     bind_res (outcome_digest std outcome) (\<lambda>sha.
     let c = f (command_base std ss outcome sha adjustment)
     in bind_res (adjustment_command_bytes c) (\<lambda>_. Inr c))"

text \<open>The command of the one discrepancy of an outcome.\<close>

definition balance_command ::
  "stdlib \<Rightarrow> spec_set \<Rightarrow> observation \<Rightarrow> reconciliation_outcome \<Rightarrow> snapshot \<Rightarrow> economic_id
   \<Rightarrow> discrepancy \<Rightarrow> adjustment_command result" where
  "balance_command std ss ob outcome n adjustment d =
     (case d of
        PositionDiscrepancy i x y delta \<Rightarrow>
          guard_res (ob_kind ob \<noteq> POSITION_SNAPSHOT \<or> ObservedPosition i y \<notin> set (ob_balances ob))
            reconciliation_conflict
         (bind_res (snapshot_position_amount n i) (\<lambda>held.
          guard_res (x \<noteq> held) reconciliation_conflict
            (build_adjustment_command std ss outcome adjustment (\<lambda>c. c
               \<lparr>ac_target := INSTRUMENT_POSITION, ac_instrument := Some i,
                ac_local := Some x, ac_observed := Some y, ac_delta := Some delta\<rparr>))))
      | CashDiscrepancy u x y delta \<Rightarrow>
          guard_res (ob_kind ob \<noteq> CASH_SNAPSHOT \<or> ObservedCash u y \<notin> set (ob_balances ob))
            reconciliation_conflict
         (bind_res (snapshot_cash_amount n u) (\<lambda>held.
          guard_res (x \<noteq> held) reconciliation_conflict
            (build_adjustment_command std ss outcome adjustment (\<lambda>c. c
               \<lparr>ac_target := SETTLEMENT_CASH, ac_currency := Some u,
                ac_local := Some x, ac_observed := Some y, ac_delta := Some delta\<rparr>)))))"

section \<open>Ancestry\<close>

definition ancestry_order_scope_id :: "order \<Rightarrow> runtime_identifier result" where
  "ancestry_order_scope_id od =
     make_runtime_identifier (''execution_order:'' @ run_text (or_run od) @ '':''
       @ decimal_integer_bytes (owner_sequence (or_id od)))"

definition ancestry_evidence_document :: "stdlib \<Rightarrow> fill \<Rightarrow> open_ref \<Rightarrow> order \<Rightarrow> json" where
  "ancestry_evidence_document std f r od = JObj
     [(''canonicalization'', JStr ''ea-reconciliation-v1''),
      (''fill_id'', economic_id_document (fl_id f)),
      (''fill_sha256'', digest_json (fill_digest std f)),
      (''order_id'', economic_id_document (or_id od)),
      (''order_sha256'', digest_json (order_digest std od)),
      (''processing_outcome_sha256'', digest_json (op_outcome_sha256 r)),
      (''run_id'', JStr (run_text (fl_run f))),
      (''schema'', JStr ''ea.reconciliation-ancestry-evidence.v1'')]"

definition ancestry_evidence_digest :: "stdlib \<Rightarrow> fill \<Rightarrow> open_ref \<Rightarrow> order \<Rightarrow> sha256_digest" where
  "ancestry_evidence_digest std f r od =
     framed_digest (hexdigest std) ''ea.reconciliation-ancestry-evidence.v1''
       (json_bytes (ancestry_evidence_document std f r od))"

definition fill_ancestry_is_compatible :: "stdlib \<Rightarrow> fill \<Rightarrow> order \<Rightarrow> bool" where
  "fill_ancestry_is_compatible std f od \<longleftrightarrow>
     (fl_order f = None \<or> fl_correlation f = None \<or> fl_causation f = None)
     \<and> fl_instrument f = or_instrument od \<and> fl_side f = or_side od \<and> fl_spec_id f = or_spec_id od
     \<and> (fl_submission_key f = None \<or> fl_submission_key f = Some (order_client_submission_key std od))
     \<and> (fl_order f = None \<or> fl_order f = Some (or_id od))
     \<and> (fl_correlation f = None \<or> fl_correlation f = Some (or_correlation od))
     \<and> (fl_causation f = None \<or> fl_causation f = Some (or_id od))"

record ancestry =
  an_ref :: "open_ref option"
  an_fill :: "fill option"
  an_order :: "order option"

definition no_ancestry :: ancestry where
  "no_ancestry = \<lparr>an_ref = None, an_fill = None, an_order = None\<rparr>"

definition ancestry_command ::
  "stdlib \<Rightarrow> spec_set \<Rightarrow> run_id \<Rightarrow> observation \<Rightarrow> reconciliation_outcome \<Rightarrow> snapshot \<Rightarrow> economic_id
   \<Rightarrow> ancestry \<Rightarrow> adjustment_command result" where
  "ancestry_command std ss run ob outcome n adjustment a =
     (case (an_ref a, an_fill a, an_order a) of
        (Some r, Some f, Some od) \<Rightarrow>
          (let sha = instrument_spec_set_digest (hexdigest std) ss
           in guard_res (run_id (op_fill r) \<noteq> run \<or> r \<notin> set (sn_open_refs n)
                  \<or> \<not> list_ex (\<lambda>b. bi_fill b = op_fill r \<and> bi_fill_sha256 b = op_sha256 r) (sn_open_bindings n)
                  \<or> fl_id f \<noteq> op_fill r \<or> fill_digest std f \<noteq> op_sha256 r
                  \<or> fl_run f \<noteq> run \<or> fl_set_id f \<noteq> set_identifier ss \<or> fl_set_sha256 f \<noteq> sha
                  \<or> or_run od \<noteq> run \<or> or_set_id od \<noteq> set_identifier ss \<or> or_set_sha256 od \<noteq> sha
                  \<or> ob_kind ob \<noteq> ORDER_DETAIL) reconciliation_conflict
             (bind_res (ancestry_order_scope_id od) (\<lambda>scope.
              guard_res (ob_scope_id ob \<noteq> scope
                  \<or> ob_provenance_sha256 ob \<noteq> ancestry_evidence_digest std f r od
                  \<or> \<not> fill_ancestry_is_compatible std f od) reconciliation_conflict
                (build_adjustment_command std ss outcome adjustment (\<lambda>c. c
                   \<lparr>ac_variant := ANCESTRY_RESOLUTION, ac_target := OPEN_RECONCILIATION_REF,
                    ac_ref := Some r, ac_order := Some (or_id od),
                    ac_order_sha256 := Some (order_digest std od)\<rparr>)))))
      | _ \<Rightarrow> Inl reconciliation_conflict)"

text \<open>The bindings of \<open>_create_reconciliation_adjustment_command\<close>.\<close>

definition command_evidence_conflicts ::
  "stdlib \<Rightarrow> run_id \<Rightarrow> spec_set \<Rightarrow> observation \<Rightarrow> sha256_digest \<Rightarrow> reconciliation_outcome \<Rightarrow> snapshot
   \<Rightarrow> economic_id \<Rightarrow> bool" where
  "command_evidence_conflicts std run ss ob ob_sha outcome n adjustment \<longleftrightarrow>
     ob_run ob \<noteq> run \<or> ro_run outcome \<noteq> run \<or> run_id adjustment \<noteq> run
     \<or> owner_kind adjustment \<noteq> RECONCILIATION_ADJUSTMENT
     \<or> ob_set_id ob \<noteq> set_identifier ss
     \<or> ob_set_sha256 ob \<noteq> instrument_spec_set_digest (hexdigest std) ss
     \<or> ro_observation outcome \<noteq> ob_sha
     \<or> sn_run n \<noteq> run \<or> sn_set_id n \<noteq> set_identifier ss
     \<or> sn_set_sha256 n \<noteq> instrument_spec_set_digest (hexdigest std) ss
     \<or> sn_version n \<noteq> ro_snapshot_version outcome \<or> sn_sequence n \<noteq> ro_ledger_sequence outcome
     \<or> portfolio_snapshot_digest std n \<noteq> ro_snapshot outcome
     \<or> ob_watermark_namespace ob \<noteq> PORTFOLIO_LEDGER_NAMESPACE
     \<or> ob_watermark_sequence ob \<noteq> sn_sequence n"

definition create_adjustment_command ::
  "stdlib \<Rightarrow> run_binding \<Rightarrow> spec_set \<Rightarrow> observation \<Rightarrow> reconciliation_outcome \<Rightarrow> audit_acknowledgement
   \<Rightarrow> snapshot \<Rightarrow> economic_id \<Rightarrow> ancestry \<Rightarrow> adjustment_command result" where
  "create_adjustment_command std binding ss ob outcome ack n adjustment a =
     (let run = rr_run (rb_reference binding)
      in bind_res (observation_digest std ob) (\<lambda>ob_sha.
         guard_res (command_evidence_conflicts std run ss ob ob_sha outcome n adjustment)
           reconciliation_conflict
        (bind_res (outcome_acknowledged std binding outcome ack) (\<lambda>_.
         if ro_action outcome = PROPOSE_SINGLE_TARGET_ADJUSTMENT
         then (case ro_discrepancies outcome of
             [d] \<Rightarrow> guard_res (a \<noteq> no_ancestry) reconciliation_conflict
               (balance_command std ss ob outcome n adjustment d)
           | _ \<Rightarrow> Inl reconciliation_conflict)
         else if ro_action outcome = PROPOSE_ANCESTRY_RESOLUTION
         then ancestry_command std ss run ob outcome n adjustment a
         else Inl reconciliation_conflict))))"

section \<open>Authorizations\<close>

datatype policy_id = PolicyId string

text \<open>\<open>ReconciliationAuthorizationPolicyId\<close>: the domain of runtime identifiers.\<close>

definition make_policy_id :: "string \<Rightarrow> policy_id result" where
  "make_policy_id t =
     map_exn (\<lambda>_. reconciliation_conflict)
       (bind_res (make_runtime_identifier t) (\<lambda>_. Inr (PolicyId t)))"

fun policy_text :: "policy_id \<Rightarrow> string" where
  "policy_text (PolicyId t) = t"

fun decision_value :: "authorization_decision \<Rightarrow> string" where
  "decision_value AUTHORIZATION_ALLOWED = ''allowed''"
| "decision_value AUTHORIZATION_DENIED = ''denied''"

definition authorization_document :: "stdlib \<Rightarrow> adjustment_authorization \<Rightarrow> json" where
  "authorization_document std a = JObj
     [(''adjustment_id'', economic_id_document (aa_adjustment a)),
      (''authorization_id'', economic_id_document (aa_authorization a)),
      (''available_at'', JStr (utc_text std (aa_available_at a))),
      (''canonicalization'', JStr ''ea-canonical-json-v1''),
      (''command_sha256'', digest_json (aa_command_sha256 a)),
      (''decision'', JStr (decision_value (aa_decision a))),
      (''dispatch_sequence'', JInt (aa_dispatch a)),
      (''instrument_spec_set_id'', JStr (spec_set_id_text (aa_set_id a))),
      (''instrument_spec_set_sha256'', digest_json (aa_set_sha256 a)),
      (''ledger_sequence'', JInt (aa_sequence a)),
      (''local_snapshot_sha256'', digest_json (aa_snapshot a)),
      (''observation_sha256'', digest_json (aa_observation a)),
      (''outcome_acknowledgement_sha256'', digest_json (aa_outcome_ack a)),
      (''policy_id'', JStr (aa_policy a)),
      (''policy_sha256'', digest_json (aa_policy_sha256 a)),
      (''policy_version'', JInt (aa_policy_version a)),
      (''reconciliation_outcome_sha256'', digest_json (aa_outcome a)),
      (''run_id'', JStr (run_text (aa_run a))),
      (''schema'', JStr ''ea.reconciliation-adjustment-authorization.v1'')]"

definition authorization_bytes :: "stdlib \<Rightarrow> adjustment_authorization \<Rightarrow> string result" where
  "authorization_bytes std a = bounded_payload (json_bytes (authorization_document std a))"

definition authorization_digest :: "stdlib \<Rightarrow> adjustment_authorization \<Rightarrow> sha256_digest result" where
  "authorization_digest std a = bind_res (authorization_bytes std a) (\<lambda>p.
     Inr (framed_digest (hexdigest std) ''ea.reconciliation-adjustment-authorization.v1'' p))"

text \<open>The policy a caller authorizes under.\<close>

record authorization_policy =
  pl_id :: policy_id
  pl_version :: int
  pl_sha256 :: sha256_digest
  pl_decision :: authorization_decision
  pl_available_at :: int

definition authorization_evidence_conflicts ::
  "stdlib \<Rightarrow> run_id \<Rightarrow> spec_set \<Rightarrow> reconciliation_outcome \<Rightarrow> sha256_digest \<Rightarrow> adjustment_command
   \<Rightarrow> economic_id \<Rightarrow> bool" where
  "authorization_evidence_conflicts std run ss outcome outcome_sha c authorization \<longleftrightarrow>
     ac_run c \<noteq> run \<or> ro_run outcome \<noteq> run \<or> run_id authorization \<noteq> run
     \<or> owner_kind authorization \<noteq> RECONCILIATION_AUTHORIZATION
     \<or> ac_set_id c \<noteq> set_identifier ss
     \<or> ac_set_sha256 c \<noteq> instrument_spec_set_digest (hexdigest std) ss
     \<or> ac_outcome c \<noteq> outcome_sha \<or> ac_observation c \<noteq> ro_observation outcome
     \<or> ac_sequence c \<noteq> ro_ledger_sequence outcome \<or> ac_snapshot c \<noteq> ro_snapshot outcome
     \<or> ac_dispatch c \<noteq> ro_dispatch outcome"

definition create_adjustment_authorization ::
  "stdlib \<Rightarrow> run_binding \<Rightarrow> spec_set \<Rightarrow> reconciliation_outcome \<Rightarrow> audit_acknowledgement
   \<Rightarrow> adjustment_command \<Rightarrow> economic_id \<Rightarrow> authorization_policy \<Rightarrow> adjustment_authorization result" where
  "create_adjustment_authorization std binding ss outcome ack c authorization p =
     bind_res (require_reconciliation_uint64 (pl_version p)) (\<lambda>_.
     guard_res (pl_version p = 0) (ReconciliationContractError OUT_OF_RANGE)
    (guard_res (owner_sequence authorization = 0) (ReconciliationContractError OUT_OF_RANGE)
    (bind_res (outcome_digest std outcome) (\<lambda>outcome_sha.
     guard_res (authorization_evidence_conflicts std (rr_run (rb_reference binding)) ss outcome outcome_sha
         c authorization) reconciliation_conflict
    (bind_res (outcome_acknowledged std binding outcome ack) (\<lambda>checked.
     bind_res (adjustment_command_digest std c) (\<lambda>command_sha.
     let a = \<lparr>aa_run = rr_run (rb_reference binding), aa_set_id = set_identifier ss,
           aa_set_sha256 = instrument_spec_set_digest (hexdigest std) ss,
           aa_authorization = authorization, aa_adjustment = ac_adjustment c,
           aa_observation = ac_observation c, aa_outcome = ac_outcome c,
           aa_outcome_ack = acknowledgement_digest std checked,
           aa_sequence = ac_sequence c, aa_snapshot = ac_snapshot c,
           aa_command_sha256 = command_sha, aa_policy = policy_text (pl_id p),
           aa_policy_version = pl_version p, aa_policy_sha256 = pl_sha256 p,
           aa_decision = pl_decision p, aa_available_at = pl_available_at p,
           aa_dispatch = ac_dispatch c\<rparr>
     in bind_res (authorization_bytes std a) (\<lambda>_. Inr a))))))))"

end
