(* ===== verification/Reconciliation_Authority.thy ===== *)
theory Reconciliation_Authority
  imports Adjustment_Evidence
begin

text \<open>
  \<open>ea.reconciliation.authority\<close>: the sealed authority that admits observations,
  compares them with the acknowledged snapshot, proposes adjustment commands and
  issues authorizations, and its observation-only form. A call of the injected
  snapshot view is the snapshot argument of an operation. The code compares a
  presented outcome with the retained object by identity; the model compares the
  immutable values.
\<close>

section \<open>State\<close>

definition AUTHORITY_ERROR_CODES :: "outcome_code list" where
  "AUTHORITY_ERROR_CODES = [INVALID_TYPE, OUT_OF_RANGE, CONFLICTING_ID]"

definition authority_fail :: "outcome_code \<Rightarrow> exn" where
  "authority_fail c = (if c \<in> set AUTHORITY_ERROR_CODES then ReconciliationAuthorityError c else TypeError)"

record reconciliation_state =
  rc_run :: run_id
  rc_specs :: spec_set
  rc_observations :: "source_namespace \<times> int \<rightharpoonup> sha256_digest"
  rc_outcomes :: "sha256_digest \<rightharpoonup> reconciliation_outcome"
  rc_authorizations :: "economic_id \<rightharpoonup> sha256_digest"
  rc_adjustments :: "economic_id \<rightharpoonup> sha256_digest"
  rc_commands :: "sha256_digest \<rightharpoonup> sha256_digest"
  rc_next_authorization :: int
  rc_next_adjustment :: int

definition authority_uint64 :: "int \<Rightarrow> int result" where
  "authority_uint64 n = guard_res (\<not> (0 \<le> n \<and> n \<le> MAX_UINT64)) (authority_fail OUT_OF_RANGE) (Inr n)"

text \<open>\<open>_advance\<close>: the next sequence, \<open>None\<close> when it is exhausted.\<close>

definition advance :: "int \<Rightarrow> int option result" where
  "advance n = guard_res (\<not> (1 \<le> n \<and> n \<le> MAX_UINT64)) (authority_fail OUT_OF_RANGE)
     (Inr (if n = MAX_UINT64 then None else Some (n + 1)))"

definition require_observation_evidence ::
  "stdlib \<Rightarrow> observation \<Rightarrow> run_id \<Rightarrow> spec_set \<Rightarrow> unit result" where
  "require_observation_evidence std ob run ss =
     guard_res (ob_run ob \<noteq> run \<or> ob_set_id ob \<noteq> set_identifier ss
         \<or> ob_set_sha256 ob \<noteq> instrument_spec_set_digest (hexdigest std) ss)
       (authority_fail CONFLICTING_ID) (Inr ())"

definition require_outcome_evidence ::
  "stdlib \<Rightarrow> reconciliation_outcome \<Rightarrow> observation \<Rightarrow> run_id \<Rightarrow> spec_set \<Rightarrow> unit result" where
  "require_outcome_evidence std outcome ob run ss =
     guard_res (ro_run outcome \<noteq> run \<or> ob_run ob \<noteq> run \<or> ob_set_id ob \<noteq> set_identifier ss
         \<or> ob_set_sha256 ob \<noteq> instrument_spec_set_digest (hexdigest std) ss)
       (authority_fail CONFLICTING_ID)
    (bind_res (observation_digest std ob) (\<lambda>sha.
     guard_res (ro_observation outcome \<noteq> sha) (authority_fail CONFLICTING_ID) (Inr ())))"

definition require_snapshot ::
  "stdlib \<Rightarrow> snapshot \<Rightarrow> run_id \<Rightarrow> spec_set \<Rightarrow> snapshot result" where
  "require_snapshot std n run ss =
     guard_res (sn_run n \<noteq> run \<or> sn_set_id n \<noteq> set_identifier ss
         \<or> sn_set_sha256 n \<noteq> instrument_spec_set_digest (hexdigest std) ss)
       (authority_fail CONFLICTING_ID) (Inr n)"

section \<open>Comparison\<close>

text \<open>A dictionary filled in order: the last value of a key stands.\<close>

definition dict_of :: "('k \<times> 'v) list \<Rightarrow> 'k \<rightharpoonup> 'v" where
  "dict_of kvs = map_of (rev kvs)"

definition observed_positions :: "observation \<Rightarrow> (instrument \<times> canonical_decimal) list" where
  "observed_positions ob = List.map_filter
     (\<lambda>b. case b of ObservedPosition i q \<Rightarrow> Some (i, q) | _ \<Rightarrow> None) (ob_balances ob)"

definition observed_cash :: "observation \<Rightarrow> (settlement_currency \<times> canonical_decimal) list" where
  "observed_cash ob = List.map_filter
     (\<lambda>b. case b of ObservedCash y v \<Rightarrow> Some (y, v) | _ \<Rightarrow> None) (ob_balances ob)"

definition local_positions :: "snapshot \<Rightarrow> (instrument \<times> canonical_decimal) list" where
  "local_positions n = map (\<lambda>b. (pb_instrument b, pb_quantity b)) (sn_positions n)"

definition local_cash :: "snapshot \<Rightarrow> (settlement_currency \<times> canonical_decimal) list" where
  "local_cash n = map (\<lambda>b. (cb_currency b, cb_amount b)) (sn_cash n)"

definition observation_scope_is_complete :: "observation \<Rightarrow> snapshot \<Rightarrow> bool" where
  "observation_scope_is_complete ob n =
     (if ob_kind ob = POSITION_SNAPSHOT
      then set (map fst (local_positions n)) \<subseteq> set (map fst (observed_positions ob))
      else set (map fst (local_cash n)) \<subseteq> set (map fst (observed_cash ob)))"

definition amount_in :: "('k \<times> canonical_decimal) list \<Rightarrow> 'k \<Rightarrow> canonical_decimal result" where
  "amount_in kvs k = (case dict_of kvs k of Some v \<Rightarrow> Inr v | None \<Rightarrow> canonical_decimal ''0'')"

text \<open>The loop both comparisons run over their sorted targets.\<close>

fun compare_targets ::
  "('k \<Rightarrow> canonical_decimal \<Rightarrow> canonical_decimal \<Rightarrow> discrepancy result)
   \<Rightarrow> ('k \<times> canonical_decimal) list \<Rightarrow> ('k \<times> canonical_decimal) list \<Rightarrow> 'k list
   \<Rightarrow> discrepancy list result" where
  "compare_targets create observed loc [] = Inr []"
| "compare_targets create observed loc (k # ks) =
     bind_res (amount_in loc k) (\<lambda>x.
     bind_res (amount_in observed k) (\<lambda>y.
     if x = y then compare_targets create observed loc ks
     else bind_res (create k x y) (\<lambda>d.
       bind_res (compare_targets create observed loc ks) (\<lambda>ds. Inr (d # ds)))))"

definition compare_position_balances ::
  "observation \<Rightarrow> snapshot \<Rightarrow> spec_set \<Rightarrow> discrepancy list result" where
  "compare_position_balances ob n ss =
     (let observed = observed_positions ob; loc = local_positions n
      in compare_targets (create_position_discrepancy ss) observed loc
           (sort_key instrument_key (remdups (map fst observed @ map fst loc))))"

definition compare_cash_balances ::
  "observation \<Rightarrow> snapshot \<Rightarrow> spec_set \<Rightarrow> discrepancy list result" where
  "compare_cash_balances ob n ss =
     (let observed = observed_cash ob; loc = local_cash n
      in compare_targets (create_cash_discrepancy ss) observed loc
           (sort_key currency_code (remdups (map fst observed @ map fst loc))))"

definition compare_balances :: "observation \<Rightarrow> snapshot \<Rightarrow> spec_set \<Rightarrow> discrepancy list result" where
  "compare_balances ob n ss =
     (if ob_kind ob = POSITION_SNAPSHOT then compare_position_balances ob n ss
      else compare_cash_balances ob n ss)"

definition comparison_outcome ::
  "stdlib \<Rightarrow> sha256_digest \<Rightarrow> snapshot \<Rightarrow> run_id \<Rightarrow> int \<Rightarrow> watermark_comparison \<Rightarrow> discrepancy list
   \<Rightarrow> outcome_code \<Rightarrow> requested_action \<Rightarrow> bool \<Rightarrow> reconciliation_outcome result" where
  "comparison_outcome std ob_sha n run dispatch comparison ds code act halt =
     create_reconciliation_outcome
       \<lparr>ro_run = run, ro_dispatch = dispatch, ro_observation = ob_sha,
        ro_snapshot_version = sn_version n, ro_snapshot = portfolio_snapshot_digest std n,
        ro_ledger_sequence = sn_sequence n, ro_comparison = comparison, ro_discrepancies = ds,
        ro_code = code, ro_action = act, ro_halt = halt\<rparr>"

definition compare_observation ::
  "stdlib \<Rightarrow> observation \<Rightarrow> snapshot \<Rightarrow> run_id \<Rightarrow> spec_set \<Rightarrow> int \<Rightarrow> reconciliation_outcome result" where
  "compare_observation std ob n run ss dispatch =
     bind_res (observation_digest std ob) (\<lambda>sha.
     let result = comparison_outcome std sha n run dispatch
     in if ob_kind ob = ORDER_DETAIL
        then result EQUAL [] RECONCILIATION_UNRESOLVED_CORRELATION RETAIN_AND_HALT True
        else if ob_kind ob = TRADE_DETAIL
        then result INCOMPARABLE [] RECONCILIATION_INVALID RETAIN_AND_HALT True
        else if ob_watermark_namespace ob \<noteq> PORTFOLIO_LEDGER_NAMESPACE
        then result INCOMPARABLE [] RECONCILIATION_INVALID RETAIN_AND_HALT True
        else if ob_watermark_sequence ob < sn_sequence n
        then result REMOTE_LOWER [] RECONCILIATION_LOCAL_AHEAD_STALE RETAIN_AND_HALT True
        else if ob_watermark_sequence ob > sn_sequence n
        then result REMOTE_HIGHER [] RECONCILIATION_REMOTE_AHEAD REQUEST_MISSING_TRADE_FACTS True
        else if \<not> observation_scope_is_complete ob n
        then result INCOMPARABLE [] RECONCILIATION_INVALID RETAIN_AND_HALT True
        else bind_res (compare_balances ob n ss) (\<lambda>ds.
          if ds = [] then result EQUAL [] RECONCILIATION_MATCH ACTION_NONE False
          else if length ds = 1
          then result EQUAL ds RECONCILIATION_MISMATCH PROPOSE_SINGLE_TARGET_ADJUSTMENT True
          else result EQUAL ds RECONCILIATION_QUARANTINED MANUAL_EVIDENCE_DECOMPOSITION True))"

section \<open>The operations\<close>

text \<open>The part of \<open>admit_observation\<close> that both authorities share.\<close>

definition admit_dispatched ::
  "stdlib \<Rightarrow> snapshot \<Rightarrow> observation \<Rightarrow> int \<Rightarrow> reconciliation_state
   \<Rightarrow> (reconciliation_state \<times> reconciliation_outcome) result" where
  "admit_dispatched std n ob dispatch st =
     bind_res (authority_uint64 dispatch) (\<lambda>_.
     guard_res (dispatch = 0) (authority_fail OUT_OF_RANGE)
    (bind_res (observation_digest std ob) (\<lambda>sha.
     let identity = (ob_namespace ob, ob_sequence ob)
     in (case rc_observations st identity of
           Some prior \<Rightarrow>
             guard_res (prior \<noteq> sha) (authority_fail CONFLICTING_ID)
               (case rc_outcomes st sha of
                  None \<Rightarrow> Inl (authority_fail CONFLICTING_ID)
                | Some outcome \<Rightarrow> Inr (st, outcome))
         | None \<Rightarrow>
             bind_res (require_snapshot std n (rc_run st) (rc_specs st)) (\<lambda>n.
             bind_res (compare_observation std ob n (rc_run st) (rc_specs st) dispatch) (\<lambda>outcome.
             Inr (st\<lparr>rc_observations := (rc_observations st)(identity \<mapsto> sha),
                     rc_outcomes := (rc_outcomes st)(sha \<mapsto> outcome)\<rparr>, outcome)))))))"

text \<open>An exception leaves the state; a result commits it.\<close>

definition commit_authority ::
  "reconciliation_state \<Rightarrow> (reconciliation_state \<times> 'a) result \<Rightarrow> reconciliation_state \<times> 'a result" where
  "commit_authority st r = (case r of Inl e \<Rightarrow> (st, Inl e) | Inr (st', a) \<Rightarrow> (st', Inr a))"

definition admit_observation ::
  "stdlib \<Rightarrow> snapshot \<Rightarrow> observation \<Rightarrow> int \<Rightarrow> reconciliation_state
   \<Rightarrow> reconciliation_state \<times> reconciliation_outcome result" where
  "admit_observation std n ob dispatch st = commit_authority st
     (bind_res (require_observation_evidence std ob (rc_run st) (rc_specs st)) (\<lambda>_.
        admit_dispatched std n ob dispatch st))"

definition proposes_single_target :: "reconciliation_outcome \<Rightarrow> bool" where
  "proposes_single_target r \<longleftrightarrow>
     ro_comparison r = EQUAL \<and> ro_code r = RECONCILIATION_MISMATCH
     \<and> ro_action r = PROPOSE_SINGLE_TARGET_ADJUSTMENT"

definition propose_adjustment_command ::
  "stdlib \<Rightarrow> run_binding \<Rightarrow> reconciliation_outcome \<Rightarrow> audit_acknowledgement \<Rightarrow> observation \<Rightarrow> snapshot
   \<Rightarrow> reconciliation_state \<Rightarrow> reconciliation_state \<times> adjustment_command result" where
  "propose_adjustment_command std binding outcome ack ob n st = commit_authority st
     (bind_res (require_outcome_evidence std outcome ob (rc_run st) (rc_specs st)) (\<lambda>_.
      bind_res (require_snapshot std n (rc_run st) (rc_specs st)) (\<lambda>_.
      guard_res (ro_action outcome = PROPOSE_ANCESTRY_RESOLUTION) (authority_fail CONFLICTING_ID)
     (guard_res (\<not> proposes_single_target outcome \<or> length (ro_discrepancies outcome) \<noteq> 1
          \<or> \<not> ro_halt outcome) (authority_fail CONFLICTING_ID)
     (guard_res (rc_outcomes st (ro_observation outcome) \<noteq> Some outcome) (authority_fail CONFLICTING_ID)
     (bind_res (advance (rc_next_adjustment st)) (\<lambda>after.
      case after of
        None \<Rightarrow> Inl (authority_fail OUT_OF_RANGE)
      | Some after \<Rightarrow>
          bind_res (make_economic_id (rc_run st) RECONCILIATION_ADJUSTMENT (rc_next_adjustment st)) (\<lambda>adjustment.
          bind_res (create_adjustment_command std binding (rc_specs st) ob outcome ack n adjustment
              no_ancestry) (\<lambda>c.
          bind_res (adjustment_command_digest std c) (\<lambda>sha.
          Inr (st\<lparr>rc_adjustments := (rc_adjustments st)(adjustment \<mapsto> sha),
                  rc_commands := (rc_commands st)(sha \<mapsto> ro_observation outcome),
                  rc_next_adjustment := after\<rparr>, c)))))))))))"

definition issue_authorization ::
  "stdlib \<Rightarrow> run_binding \<Rightarrow> reconciliation_outcome \<Rightarrow> audit_acknowledgement \<Rightarrow> adjustment_command
   \<Rightarrow> authorization_policy \<Rightarrow> reconciliation_state
   \<Rightarrow> reconciliation_state \<times> adjustment_authorization result" where
  "issue_authorization std binding outcome ack c p st = commit_authority st
     (bind_res (authority_uint64 (pl_version p)) (\<lambda>_.
      guard_res (pl_version p = 0) (authority_fail OUT_OF_RANGE)
     (guard_res (rc_outcomes st (ro_observation outcome) \<noteq> Some outcome) (authority_fail CONFLICTING_ID)
     (bind_res (adjustment_command_digest std c) (\<lambda>sha.
      guard_res (rc_adjustments st (ac_adjustment c) \<noteq> Some sha) (authority_fail CONFLICTING_ID)
     (guard_res (rc_commands st sha \<noteq> Some (ro_observation outcome)) (authority_fail CONFLICTING_ID)
     (guard_res (\<not> proposes_single_target outcome) (authority_fail CONFLICTING_ID)
     (bind_res (advance (rc_next_authorization st)) (\<lambda>after.
      case after of
        None \<Rightarrow> Inl (authority_fail OUT_OF_RANGE)
      | Some after \<Rightarrow>
          bind_res (make_economic_id (rc_run st) RECONCILIATION_AUTHORIZATION (rc_next_authorization st)) (\<lambda>i.
          guard_res (rc_authorizations st i \<noteq> None) (authority_fail CONFLICTING_ID)
         (bind_res (create_adjustment_authorization std binding (rc_specs st) outcome ack c i p) (\<lambda>a.
          bind_res (authorization_digest std a) (\<lambda>a_sha.
          Inr (st\<lparr>rc_authorizations := (rc_authorizations st)(i \<mapsto> a_sha),
                  rc_next_authorization := after\<rparr>, a))))))))))))))"

definition has_issued_authorization :: "economic_id \<Rightarrow> reconciliation_state \<Rightarrow> bool" where
  "has_issued_authorization i st \<longleftrightarrow> rc_authorizations st i \<noteq> None"

definition create_reconciliation_authority ::
  "stdlib \<Rightarrow> run_id \<Rightarrow> spec_set \<Rightarrow> snapshot \<Rightarrow> reconciliation_state result" where
  "create_reconciliation_authority std run ss n =
     bind_res (require_snapshot std n run ss) (\<lambda>_.
       Inr \<lparr>rc_run = run, rc_specs = ss, rc_observations = Map.empty, rc_outcomes = Map.empty,
            rc_authorizations = Map.empty, rc_adjustments = Map.empty, rc_commands = Map.empty,
            rc_next_authorization = 1, rc_next_adjustment = 1\<rparr>)"

section \<open>The observation-only authority\<close>

definition observe_only ::
  "stdlib \<Rightarrow> snapshot \<Rightarrow> observation \<Rightarrow> int \<Rightarrow> reconciliation_state
   \<Rightarrow> reconciliation_state \<times> reconciliation_outcome result" where
  "observe_only std n ob dispatch st = commit_authority st
     (bind_res (require_observation_evidence std ob (rc_run st) (rc_specs st)) (\<lambda>_.
      guard_res (ob_kind ob = TRADE_DETAIL) (authority_fail OUT_OF_RANGE)
        (admit_dispatched std n ob dispatch st)))"

definition resolve_outcome ::
  "stdlib \<Rightarrow> observation \<Rightarrow> reconciliation_state \<Rightarrow> reconciliation_outcome result" where
  "resolve_outcome std ob st =
     bind_res (require_observation_evidence std ob (rc_run st) (rc_specs st)) (\<lambda>_.
     bind_res (observation_digest std ob) (\<lambda>sha.
     (case rc_outcomes st sha of
        None \<Rightarrow> Inl (authority_fail CONFLICTING_ID)
      | Some outcome \<Rightarrow> Inr outcome)))"

end
