(* ===== verification/Reconciliation_Runs.thy ===== *)
theory Reconciliation_Runs
  imports Reconciliation_Authority Reconciliation_Laws Ledger_Properties Execution_State Authority
begin

text \<open>
  Laws of the reconciliation authority: what a comparison finds, what the
  factories copied into a command and an authorization, and the invariant of the
  authority's indexes over any sequence of calls.
\<close>

section \<open>Comparison\<close>

definition differing :: "('k \<times> canonical_decimal) list \<Rightarrow> ('k \<times> canonical_decimal) list \<Rightarrow> 'k set" where
  "differing observed loc = {k. amount_in loc k \<noteq> amount_in observed k}"

lemma dict_of_dom: "dict_of kvs k = None \<longleftrightarrow> k \<notin> set (map fst kvs)"
  by (auto simp: dict_of_def map_of_eq_None_iff)

lemma amount_in_Inr: "\<exists>v. amount_in kvs k = Inr v"
  by (auto simp: amount_in_def canonical_zero split: option.splits)

lemma differing_keys: "differing observed loc \<subseteq> set (map fst observed @ map fst loc)"
proof
  fix k assume "k \<in> differing observed loc"
  then have "dict_of loc k \<noteq> None \<or> dict_of observed k \<noteq> None"
    by (auto simp: differing_def amount_in_def split: option.splits)
  then show "k \<in> set (map fst observed @ map fst loc)" unfolding dict_of_dom by auto
qed

lemma compare_targets_length:
  "compare_targets create observed loc ks = Inr ds
   \<Longrightarrow> length ds = length (filter (\<lambda>k. k \<in> differing observed loc) ks)"
proof (induction ks arbitrary: ds)
  case (Cons k ks)
  then show ?case by (auto simp: differing_def split: if_splits)
qed simp

text \<open>The number of discrepancies is the number of targets the two sides hold different amounts of.\<close>

lemma compare_targets_counts:
  assumes "compare_targets create observed loc (sort_key f (remdups (map fst observed @ map fst loc))) = Inr ds"
  shows "length ds = card (differing observed loc)"
proof -
  let ?ks = "sort_key f (remdups (map fst observed @ map fst loc))"
  have "length ds = length (filter (\<lambda>k. k \<in> differing observed loc) ?ks)"
    by (rule compare_targets_length [OF assms])
  also have "\<dots> = card (set (filter (\<lambda>k. k \<in> differing observed loc) ?ks))"
    by (rule distinct_card [symmetric]) simp
  also have "set (filter (\<lambda>k. k \<in> differing observed loc) ?ks) = differing observed loc"
    using differing_keys [of observed loc] by auto
  finally show ?thesis .
qed

lemma compare_targets_from:
  assumes "compare_targets create observed loc ks = Inr ds" "d \<in> set ds"
  shows "\<exists>k x y. create k x y = Inr d \<and> amount_in loc k = Inr x \<and> amount_in observed k = Inr y"
  using assms
proof (induction ks arbitrary: ds)
  case (Cons k ks)
  then show ?case by (auto split: if_splits) blast
qed simp

lemma create_outcome_self: "create_reconciliation_outcome r = Inr q \<Longrightarrow> q = r"
  by (auto simp: create_reconciliation_outcome_def Let_def)

lemma create_outcome_matrix: "create_reconciliation_outcome r = Inr q \<Longrightarrow> outcome_matrix_ok r"
  by (auto simp: create_reconciliation_outcome_def Let_def)

text \<open>The amounts on the side the observation speaks about.\<close>

definition differences :: "observation \<Rightarrow> snapshot \<Rightarrow> nat" where
  "differences ob n =
     (if ob_kind ob = POSITION_SNAPSHOT then card (differing (observed_positions ob) (local_positions n))
      else card (differing (observed_cash ob) (local_cash n)))"

definition comparable :: "observation \<Rightarrow> snapshot \<Rightarrow> bool" where
  "comparable ob n \<longleftrightarrow> ob_kind ob \<in> {POSITION_SNAPSHOT, CASH_SNAPSHOT}
     \<and> ob_watermark_namespace ob = PORTFOLIO_LEDGER_NAMESPACE
     \<and> ob_watermark_sequence ob = sn_sequence n \<and> observation_scope_is_complete ob n"

lemma compare_balances_counts:
  "compare_balances ob n ss = Inr ds \<Longrightarrow> length ds = differences ob n"
  by (auto simp: compare_balances_def compare_position_balances_def compare_cash_balances_def
      differences_def Let_def dest: compare_targets_counts split: if_splits)

text \<open>The row of the comparison table an observation falls into.\<close>

type_synonym comparison_row =
  "watermark_comparison \<times> discrepancy list \<times> outcome_code \<times> requested_action \<times> bool"

fun graded :: "discrepancy list \<Rightarrow> comparison_row" where
  "graded [] = (EQUAL, [], RECONCILIATION_MATCH, ACTION_NONE, False)"
| "graded [d] = (EQUAL, [d], RECONCILIATION_MISMATCH, PROPOSE_SINGLE_TARGET_ADJUSTMENT, True)"
| "graded ds = (EQUAL, ds, RECONCILIATION_QUARANTINED, MANUAL_EVIDENCE_DECOMPOSITION, True)"

definition incomparable_row :: "observation \<Rightarrow> snapshot \<Rightarrow> comparison_row" where
  "incomparable_row ob n =
     (if ob_kind ob = ORDER_DETAIL
      then (EQUAL, [], RECONCILIATION_UNRESOLVED_CORRELATION, RETAIN_AND_HALT, True)
      else if ob_kind ob = TRADE_DETAIL \<or> ob_watermark_namespace ob \<noteq> PORTFOLIO_LEDGER_NAMESPACE
      then (INCOMPARABLE, [], RECONCILIATION_INVALID, RETAIN_AND_HALT, True)
      else if ob_watermark_sequence ob < sn_sequence n
      then (REMOTE_LOWER, [], RECONCILIATION_LOCAL_AHEAD_STALE, RETAIN_AND_HALT, True)
      else if ob_watermark_sequence ob > sn_sequence n
      then (REMOTE_HIGHER, [], RECONCILIATION_REMOTE_AHEAD, REQUEST_MISSING_TRADE_FACTS, True)
      else (INCOMPARABLE, [], RECONCILIATION_INVALID, RETAIN_AND_HALT, True))"

definition verdict :: "observation \<Rightarrow> snapshot \<Rightarrow> spec_set \<Rightarrow> comparison_row result" where
  "verdict ob n ss =
     (if comparable ob n then bind_res (compare_balances ob n ss) (\<lambda>ds. Inr (graded ds))
      else Inr (incomparable_row ob n))"

lemma compare_observation_verdict:
  "compare_observation std ob n run ss dispatch =
     bind_res (observation_digest std ob) (\<lambda>sha. bind_res (verdict ob n ss)
       (\<lambda>(w, ds, c, a, h). comparison_outcome std sha n run dispatch w ds c a h))"
proof -
  have g: "(if ds = [] then f EQUAL [] RECONCILIATION_MATCH ACTION_NONE False
      else if length ds = 1 then f EQUAL ds RECONCILIATION_MISMATCH PROPOSE_SINGLE_TARGET_ADJUSTMENT True
      else f EQUAL ds RECONCILIATION_QUARANTINED MANUAL_EVIDENCE_DECOMPOSITION True)
    = (case graded ds of (w, ds, c, a, h) \<Rightarrow> f w ds c a h)" for ds and f :: "_ \<Rightarrow> _ \<Rightarrow> _ \<Rightarrow> _ \<Rightarrow> _ \<Rightarrow> 'x"
    by (cases ds rule: graded.cases) simp_all
  show ?thesis
    by (cases "ob_kind ob"; cases "observation_digest std ob"; cases "compare_balances ob n ss")
      (simp_all add: compare_observation_def verdict_def comparable_def incomparable_row_def Let_def g)
qed

lemma compare_observation_Inr:
  assumes "compare_observation std ob n run ss dispatch = Inr r"
  shows "observation_digest std ob = Inr (ro_observation r)"
    "verdict ob n ss = Inr (ro_comparison r, ro_discrepancies r, ro_code r, ro_action r, ro_halt r)"
    "ro_run r = run" "ro_dispatch r = dispatch" "ro_snapshot r = portfolio_snapshot_digest std n"
    "ro_ledger_sequence r = sn_sequence n" "ro_snapshot_version r = sn_version n" "outcome_matrix_ok r"
proof -
  obtain sha w ds c a h where sha: "observation_digest std ob = Inr sha" "verdict ob n ss = Inr (w, ds, c, a, h)"
    and made: "comparison_outcome std sha n run dispatch w ds c a h = Inr r"
    using assms unfolding compare_observation_verdict by auto
  note r = create_outcome_self [OF made [unfolded comparison_outcome_def]]
  show "outcome_matrix_ok r"
    using create_outcome_matrix [OF made [unfolded comparison_outcome_def]] r by simp
  show "observation_digest std ob = Inr (ro_observation r)"
    "verdict ob n ss = Inr (ro_comparison r, ro_discrepancies r, ro_code r, ro_action r, ro_halt r)"
    "ro_run r = run" "ro_dispatch r = dispatch" "ro_snapshot r = portfolio_snapshot_digest std n"
    "ro_ledger_sequence r = sn_sequence n" "ro_snapshot_version r = sn_version n"
    using sha r by simp_all
qed

text \<open>The row is graded by the number of differing targets.\<close>

lemma verdict_exact:
  assumes "verdict ob n ss = Inr (w, ds, c, a, h)"
  shows "\<not> h \<longleftrightarrow> comparable ob n \<and> differences ob n = 0"
    "comparable ob n \<Longrightarrow> length ds = differences ob n
      \<and> c = (if differences ob n = 0 then RECONCILIATION_MATCH
             else if differences ob n = 1 then RECONCILIATION_MISMATCH else RECONCILIATION_QUARANTINED)"
    "a = PROPOSE_SINGLE_TARGET_ADJUSTMENT \<longleftrightarrow> comparable ob n \<and> differences ob n = 1"
proof -
  have ds: "length es = differences ob n" if "compare_balances ob n ss = Inr es" for es
    by (rule compare_balances_counts [OF that])
  have graded: "\<exists>es. graded es = (w, ds, c, a, h) \<and> length es = differences ob n" if "comparable ob n"
    using assms that ds by (auto simp: verdict_def)
  have halted: "incomparable_row ob n = (w, ds, c, a, h)" if "\<not> comparable ob n"
    using assms that by (simp add: verdict_def)
  have out: "h \<and> a \<noteq> PROPOSE_SINGLE_TARGET_ADJUSTMENT" if "\<not> comparable ob n"
    using halted [OF that] by (auto simp: incomparable_row_def split: if_splits)
  have row: "\<not> h \<longleftrightarrow> differences ob n = 0" "length ds = differences ob n
      \<and> c = (if differences ob n = 0 then RECONCILIATION_MATCH
             else if differences ob n = 1 then RECONCILIATION_MISMATCH else RECONCILIATION_QUARANTINED)"
    "a = PROPOSE_SINGLE_TARGET_ADJUSTMENT \<longleftrightarrow> differences ob n = 1" if "comparable ob n"
  proof -
    note here = graded [OF that]
    obtain es where es: "graded es = (w, ds, c, a, h)" "length es = differences ob n"
      using here by blast
    show "\<not> h \<longleftrightarrow> differences ob n = 0" "length ds = differences ob n
      \<and> c = (if differences ob n = 0 then RECONCILIATION_MATCH
             else if differences ob n = 1 then RECONCILIATION_MISMATCH else RECONCILIATION_QUARANTINED)"
      "a = PROPOSE_SINGLE_TARGET_ADJUSTMENT \<longleftrightarrow> differences ob n = 1"
      using es by (cases es rule: graded.cases; auto)+
  qed
  show "\<not> h \<longleftrightarrow> comparable ob n \<and> differences ob n = 0"
    "a = PROPOSE_SINGLE_TARGET_ADJUSTMENT \<longleftrightarrow> comparable ob n \<and> differences ob n = 1"
    using out row by blast+
  show "comparable ob n \<Longrightarrow> length ds = differences ob n
      \<and> c = (if differences ob n = 0 then RECONCILIATION_MATCH
             else if differences ob n = 1 then RECONCILIATION_MISMATCH else RECONCILIATION_QUARANTINED)"
    by (rule row(2))
qed

end
