(* ===== verification/Reconciliation_Calls.thy ===== *)
theory Reconciliation_Calls
  imports Reconciliation_Runs
begin

text \<open>
  The reconciliation authority over sequences of calls: what each call that
  returns has done, and the invariant of the indexes.
\<close>

section \<open>What a call does\<close>

lemma commit_authority_Inr:
  "commit_authority st r = (st', Inr a) \<longleftrightarrow> r = Inr (st', a)"
  by (cases r) (auto simp: commit_authority_def)

lemma commit_authority_Inl:
  "commit_authority st r = (st', Inl e) \<longleftrightarrow> r = Inl e \<and> st' = st"
  by (cases r) (auto simp: commit_authority_def)

lemma advance_Inr: "advance n = Inr (Some m) \<longleftrightarrow> 1 \<le> n \<and> n < MAX_UINT64 \<and> m = n + 1"
  by (auto simp: advance_def)

definition observation_identity :: "observation \<Rightarrow> source_namespace \<times> int" where
  "observation_identity ob = (ob_namespace ob, ob_sequence ob)"

lemma admit_observation_cases:
  assumes "admit_observation std n ob dispatch st = (st', Inr r)"
  obtains (replay) sha where "observation_digest std ob = Inr sha" "st' = st"
      "rc_observations st (observation_identity ob) = Some sha" "rc_outcomes st sha = Some r"
  | (compared) sha where "observation_digest std ob = Inr sha" "rc_observations st (observation_identity ob) = None"
      "compare_observation std ob n (rc_run st) (rc_specs st) dispatch = Inr r"
      "st' = st\<lparr>rc_observations := (rc_observations st)(observation_identity ob \<mapsto> sha),
                rc_outcomes := (rc_outcomes st)(sha \<mapsto> r)\<rparr>"
proof -
  obtain sha where sha: "observation_digest std ob = Inr sha"
    using assms by (auto simp: admit_observation_def commit_authority_Inr admit_dispatched_def)
  show thesis
  proof (cases "rc_observations st (observation_identity ob)")
    case None
    then show thesis using compared [OF sha] assms sha
      by (auto simp: admit_observation_def commit_authority_Inr admit_dispatched_def observation_identity_def
          require_snapshot_def Let_def)
  next
    case (Some prior)
    then show thesis using replay [OF sha] assms sha
      by (auto simp: admit_observation_def commit_authority_Inr admit_dispatched_def observation_identity_def
          Let_def split: option.splits)
  qed
qed

text \<open>The evidence behind a proposed command.\<close>

lemma create_command_evidence:
  assumes "create_adjustment_command std binding ss ob outcome ack n adjustment no_ancestry = Inr c"
    "ro_action outcome = PROPOSE_SINGLE_TARGET_ADJUSTMENT"
  obtains d where "ro_discrepancies outcome = [d]" "balance_command std ss ob outcome n adjustment d = Inr c"
    "portfolio_snapshot_digest std n = ro_snapshot outcome" "observation_digest std ob = Inr (ro_observation outcome)"
    "sn_sequence n = ro_ledger_sequence outcome" "ob_watermark_sequence ob = sn_sequence n"
proof -
  from assms obtain sha where sha: "observation_digest std ob = Inr sha"
      "\<not> command_evidence_conflicts std (rr_run (rb_reference binding)) ss ob sha outcome n adjustment"
    and rest: "(case ro_discrepancies outcome of
             [d] \<Rightarrow> guard_res (no_ancestry \<noteq> no_ancestry) reconciliation_conflict
               (balance_command std ss ob outcome n adjustment d)
           | _ \<Rightarrow> Inl reconciliation_conflict) = Inr c"
    by (auto simp: create_adjustment_command_def Let_def)
  from rest obtain d where "ro_discrepancies outcome = [d]" "balance_command std ss ob outcome n adjustment d = Inr c"
    by (auto split: list.splits)
  with sha show thesis by (intro that [of d]) (auto simp: command_evidence_conflicts_def)
qed

lemma build_command_Inr:
  "build_adjustment_command std ss outcome adjustment f = Inr c \<Longrightarrow>
   \<exists>sha. outcome_digest std outcome = Inr sha \<and> c = f (command_base std ss outcome sha adjustment)"
  by (auto simp: build_adjustment_command_def Let_def)

lemma balance_command_cases:
  assumes "balance_command std ss ob outcome n adjustment d = Inr c"
  obtains (position) i x y delta where "d = PositionDiscrepancy i x y delta"
      "ObservedPosition i y \<in> set (ob_balances ob)" "snapshot_position_amount n i = Inr x"
      "ac_target c = INSTRUMENT_POSITION" "ac_instrument c = Some i"
      "ac_local c = Some x" "ac_observed c = Some y" "ac_variant c = BALANCE_CORRECTION"
      "ac_adjustment c = adjustment" "ac_observation c = ro_observation outcome" "ac_snapshot c = ro_snapshot outcome"
  | (cash) u x y delta where "d = CashDiscrepancy u x y delta"
      "ObservedCash u y \<in> set (ob_balances ob)" "snapshot_cash_amount n u = Inr x"
      "ac_target c = SETTLEMENT_CASH" "ac_currency c = Some u"
      "ac_local c = Some x" "ac_observed c = Some y" "ac_variant c = BALANCE_CORRECTION"
      "ac_adjustment c = adjustment" "ac_observation c = ro_observation outcome" "ac_snapshot c = ro_snapshot outcome"
proof (cases d)
  case (PositionDiscrepancy i x y delta)
  then show thesis using assms position
    by (auto simp: balance_command_def command_base_def dest!: build_command_Inr)
next
  case (CashDiscrepancy u x y delta)
  then show thesis using assms cash
    by (auto simp: balance_command_def command_base_def dest!: build_command_Inr)
qed

lemma propose_Inr:
  assumes "propose_adjustment_command std binding outcome ack ob n st = (st', Inr c)"
  obtains d sha where "proposes_single_target outcome"
    "rc_outcomes st (ro_observation outcome) = Some outcome" "ro_discrepancies outcome = [d]"
    "1 \<le> rc_next_adjustment st"
    "balance_command std (rc_specs st) ob outcome n
       \<lparr>run_id = rc_run st, owner_kind = RECONCILIATION_ADJUSTMENT, owner_sequence = rc_next_adjustment st\<rparr> d = Inr c"
    "portfolio_snapshot_digest std n = ro_snapshot outcome" "observation_digest std ob = Inr (ro_observation outcome)"
    "adjustment_command_digest std c = Inr sha"
    "st' = st\<lparr>rc_adjustments := (rc_adjustments st)(\<lparr>run_id = rc_run st, owner_kind = RECONCILIATION_ADJUSTMENT,
             owner_sequence = rc_next_adjustment st\<rparr> \<mapsto> sha),
           rc_commands := (rc_commands st)(sha \<mapsto> ro_observation outcome),
           rc_next_adjustment := rc_next_adjustment st + 1\<rparr>"
proof -
  from assms obtain after adjustment sha where p: "proposes_single_target outcome"
      "rc_outcomes st (ro_observation outcome) = Some outcome"
      "advance (rc_next_adjustment st) = Inr (Some after)"
      "make_economic_id (rc_run st) RECONCILIATION_ADJUSTMENT (rc_next_adjustment st) = Inr adjustment"
      "create_adjustment_command std binding (rc_specs st) ob outcome ack n adjustment no_ancestry = Inr c"
      "adjustment_command_digest std c = Inr sha"
    and st': "st' = st\<lparr>rc_adjustments := (rc_adjustments st)(adjustment \<mapsto> sha),
           rc_commands := (rc_commands st)(sha \<mapsto> ro_observation outcome), rc_next_adjustment := after\<rparr>"
    by (auto simp: propose_adjustment_command_def commit_authority_Inr split: option.splits)
  have i: "adjustment = \<lparr>run_id = rc_run st, owner_kind = RECONCILIATION_ADJUSTMENT,
      owner_sequence = rc_next_adjustment st\<rparr>" by (rule make_economic_id_Inr [OF p(4)])
  have act: "ro_action outcome = PROPOSE_SINGLE_TARGET_ADJUSTMENT" using p(1) by (simp add: proposes_single_target_def)
  obtain d where "ro_discrepancies outcome = [d]"
      "balance_command std (rc_specs st) ob outcome n adjustment d = Inr c"
      "portfolio_snapshot_digest std n = ro_snapshot outcome" "observation_digest std ob = Inr (ro_observation outcome)"
    by (rule create_command_evidence [OF p(5) act])
  then show thesis using p st' unfolding i by (intro that [of d sha]) (simp_all add: advance_Inr)
qed

lemma issue_Inr:
  assumes "issue_authorization std binding outcome ack c p st = (st', Inr a)"
  obtains sha a_sha where "proposes_single_target outcome"
    "rc_outcomes st (ro_observation outcome) = Some outcome" "adjustment_command_digest std c = Inr sha"
    "rc_adjustments st (ac_adjustment c) = Some sha" "rc_commands st sha = Some (ro_observation outcome)"
    "1 \<le> rc_next_authorization st"
    "rc_authorizations st \<lparr>run_id = rc_run st, owner_kind = RECONCILIATION_AUTHORIZATION,
       owner_sequence = rc_next_authorization st\<rparr> = None"
    "aa_authorization a = \<lparr>run_id = rc_run st, owner_kind = RECONCILIATION_AUTHORIZATION,
       owner_sequence = rc_next_authorization st\<rparr>"
    "aa_adjustment a = ac_adjustment c" "aa_command_sha256 a = sha" "aa_observation a = ro_observation outcome"
    "aa_snapshot a = ro_snapshot outcome" "aa_sequence a = ro_ledger_sequence outcome" "aa_decision a = pl_decision p"
    "st' = st\<lparr>rc_authorizations := (rc_authorizations st)(aa_authorization a \<mapsto> a_sha),
           rc_next_authorization := rc_next_authorization st + 1\<rparr>"
proof -
  from assms obtain sha after i a_sha where p: "proposes_single_target outcome"
      "rc_outcomes st (ro_observation outcome) = Some outcome" "adjustment_command_digest std c = Inr sha"
      "rc_adjustments st (ac_adjustment c) = Some sha" "rc_commands st sha = Some (ro_observation outcome)"
      "advance (rc_next_authorization st) = Inr (Some after)"
      "make_economic_id (rc_run st) RECONCILIATION_AUTHORIZATION (rc_next_authorization st) = Inr i"
      "rc_authorizations st i = None"
      "create_adjustment_authorization std binding (rc_specs st) outcome ack c i p = Inr a"
    and st': "st' = st\<lparr>rc_authorizations := (rc_authorizations st)(i \<mapsto> a_sha), rc_next_authorization := after\<rparr>"
    by (auto simp: issue_authorization_def commit_authority_Inr split: option.splits)
  have i: "i = \<lparr>run_id = rc_run st, owner_kind = RECONCILIATION_AUTHORIZATION,
      owner_sequence = rc_next_authorization st\<rparr>" by (rule make_economic_id_Inr [OF p(7)])
  have a: "aa_authorization a = i" "aa_adjustment a = ac_adjustment c" "aa_command_sha256 a = sha"
      "aa_observation a = ro_observation outcome" "aa_snapshot a = ro_snapshot outcome"
      "aa_sequence a = ro_ledger_sequence outcome" "aa_decision a = pl_decision p"
    using p(3,9) by (auto simp: create_adjustment_authorization_def authorization_evidence_conflicts_def Let_def)
  show thesis using p a st' unfolding i by (intro that [of sha a_sha]) (simp_all add: advance_Inr)
qed

section \<open>Sequences of calls\<close>

datatype reconciliation_call =
    Observe snapshot observation int
  | Propose run_binding reconciliation_outcome audit_acknowledgement observation snapshot
  | Authorize run_binding reconciliation_outcome audit_acknowledgement adjustment_command authorization_policy

text \<open>The authority with the commands it has proposed and the authorizations it has issued.\<close>

type_synonym reconciliation_log =
  "reconciliation_state \<times> adjustment_command list \<times> adjustment_authorization list"

fun reconciliation_next :: "stdlib \<Rightarrow> reconciliation_log \<Rightarrow> reconciliation_call \<Rightarrow> reconciliation_log" where
  "reconciliation_next std (st, cs, as) (Observe n ob dispatch) =
     (fst (admit_observation std n ob dispatch st), cs, as)"
| "reconciliation_next std (st, cs, as) (Propose binding outcome ack ob n) =
     (case propose_adjustment_command std binding outcome ack ob n st of
        (st', Inl e) \<Rightarrow> (st', cs, as) | (st', Inr c) \<Rightarrow> (st', cs @ [c], as))"
| "reconciliation_next std (st, cs, as) (Authorize binding outcome ack c p) =
     (case issue_authorization std binding outcome ack c p st of
        (st', Inl e) \<Rightarrow> (st', cs, as) | (st', Inr a) \<Rightarrow> (st', cs, as @ [a]))"

definition reconciliation_run :: "stdlib \<Rightarrow> reconciliation_log \<Rightarrow> reconciliation_call list \<Rightarrow> reconciliation_log" where
  "reconciliation_run std l calls = foldl (reconciliation_next std) l calls"

text \<open>A command that corrects one target from what a snapshot holds to what an observation says.\<close>

definition corrects :: "stdlib \<Rightarrow> adjustment_command \<Rightarrow> observation \<Rightarrow> snapshot \<Rightarrow> bool" where
  "corrects std c ob n \<longleftrightarrow>
     observation_digest std ob = Inr (ac_observation c) \<and> portfolio_snapshot_digest std n = ac_snapshot c
     \<and> ac_variant c = BALANCE_CORRECTION
     \<and> ((\<exists>i x y. ac_target c = INSTRUMENT_POSITION \<and> ac_instrument c = Some i
            \<and> ac_local c = Some x \<and> ac_observed c = Some y
            \<and> snapshot_position_amount n i = Inr x \<and> ObservedPosition i y \<in> set (ob_balances ob))
       \<or> (\<exists>u x y. ac_target c = SETTLEMENT_CASH \<and> ac_currency c = Some u
            \<and> ac_local c = Some x \<and> ac_observed c = Some y
            \<and> snapshot_cash_amount n u = Inr x \<and> ObservedCash u y \<in> set (ob_balances ob)))"

lemma proposed_corrects:
  assumes "propose_adjustment_command std binding outcome ack ob n st = (st', Inr c)"
  shows "corrects std c ob n"
  using assms
proof (rule propose_Inr)
  fix d sha assume p: "balance_command std (rc_specs st) ob outcome n
       \<lparr>run_id = rc_run st, owner_kind = RECONCILIATION_ADJUSTMENT, owner_sequence = rc_next_adjustment st\<rparr> d = Inr c"
    "portfolio_snapshot_digest std n = ro_snapshot outcome" "observation_digest std ob = Inr (ro_observation outcome)"
  from p(1) show ?thesis by (cases rule: balance_command_cases) (use p(2,3) in \<open>auto simp: corrects_def\<close>)
qed

definition issued_id :: "run_id \<Rightarrow> economic_owner_kind \<Rightarrow> nat \<Rightarrow> economic_id" where
  "issued_id run kind k = \<lparr>run_id = run, owner_kind = kind, owner_sequence = int k + 1\<rparr>"

definition log_sound :: "stdlib \<Rightarrow> run_id \<Rightarrow> reconciliation_log \<Rightarrow> bool" where
  "log_sound std run = (\<lambda>(st, cs, as).
     rc_run st = run \<and> rc_next_adjustment st = int (length cs) + 1
     \<and> rc_next_authorization st = int (length as) + 1
     \<and> map ac_adjustment cs = map (issued_id run RECONCILIATION_ADJUSTMENT) [0..<length cs]
     \<and> map aa_authorization as = map (issued_id run RECONCILIATION_AUTHORIZATION) [0..<length as]
     \<and> (\<forall>c\<in>set cs. \<exists>ob n. corrects std c ob n)
     \<and> (\<forall>i sha. rc_adjustments st i = Some sha \<longrightarrow>
          (\<exists>c\<in>set cs. ac_adjustment c = i \<and> adjustment_command_digest std c = Inr sha))
     \<and> (\<forall>a\<in>set as. \<exists>c\<in>set cs. aa_adjustment a = ac_adjustment c
          \<and> adjustment_command_digest std c = Inr (aa_command_sha256 a))
     \<and> dom (rc_authorizations st) = aa_authorization ` set as)"

lemma log_sound_start:
  "create_reconciliation_authority std run ss n = Inr st \<Longrightarrow> log_sound std run (st, [], [])"
  by (auto simp: create_reconciliation_authority_def log_sound_def)

lemma log_sound_propose:
  assumes "log_sound std run (st, cs, as)" "propose_adjustment_command std binding outcome ack ob n st = (st', Inr c)"
  shows "log_sound std run (st', cs @ [c], as)"
  using assms(2)
proof (rule propose_Inr)
  fix d sha
  let ?i = "\<lparr>run_id = rc_run st, owner_kind = RECONCILIATION_ADJUSTMENT, owner_sequence = rc_next_adjustment st\<rparr>"
  assume b: "balance_command std (rc_specs st) ob outcome n ?i d = Inr c"
    and sha: "adjustment_command_digest std c = Inr sha"
    and st': "st' = st\<lparr>rc_adjustments := (rc_adjustments st)(?i \<mapsto> sha),
           rc_commands := (rc_commands st)(sha \<mapsto> ro_observation outcome),
           rc_next_adjustment := rc_next_adjustment st + 1\<rparr>"
  have "ac_adjustment c = ?i" using b by (cases rule: balance_command_cases) auto
  then have i: "ac_adjustment c = issued_id run RECONCILIATION_ADJUSTMENT (length cs)" "?i = ac_adjustment c"
    using assms(1) by (simp_all add: log_sound_def issued_id_def)
  show ?thesis using assms(1) proposed_corrects [OF assms(2)] sha i(1) unfolding st' i(2)
    by (auto simp: log_sound_def split: if_splits)
qed

lemma log_sound_issue:
  assumes "log_sound std run (st, cs, as)" "issue_authorization std binding outcome ack c p st = (st', Inr a)"
  shows "log_sound std run (st', cs, as @ [a])"
  using assms(2)
proof (rule issue_Inr)
  fix sha a_sha
  assume r: "adjustment_command_digest std c = Inr sha" "rc_adjustments st (ac_adjustment c) = Some sha"
      "aa_adjustment a = ac_adjustment c" "aa_command_sha256 a = sha"
    and i: "aa_authorization a = \<lparr>run_id = rc_run st, owner_kind = RECONCILIATION_AUTHORIZATION,
       owner_sequence = rc_next_authorization st\<rparr>"
    and st': "st' = st\<lparr>rc_authorizations := (rc_authorizations st)(aa_authorization a \<mapsto> a_sha),
           rc_next_authorization := rc_next_authorization st + 1\<rparr>"
  have "aa_authorization a = issued_id run RECONCILIATION_AUTHORIZATION (length as)"
    using assms(1) i by (simp add: log_sound_def issued_id_def)
  moreover have "\<exists>c'\<in>set cs. aa_adjustment a = ac_adjustment c'
      \<and> adjustment_command_digest std c' = Inr (aa_command_sha256 a)"
  proof -
    have "\<exists>c'\<in>set cs. ac_adjustment c' = ac_adjustment c \<and> adjustment_command_digest std c' = Inr sha"
      using assms(1) r(2) by (simp add: log_sound_def)
    then show ?thesis unfolding r(3,4) by metis
  qed
  ultimately show ?thesis using assms(1) unfolding st' by (simp add: log_sound_def ball_Un)
qed

lemma refused_calls:
  "admit_observation std n ob dispatch st = (st', Inl e) \<Longrightarrow> st' = st"
  "propose_adjustment_command std binding outcome ack ob n st = (st', Inl e) \<Longrightarrow> st' = st"
  "issue_authorization std binding outcome ack c p st = (st', Inl e) \<Longrightarrow> st' = st"
  by (simp_all add: admit_observation_def propose_adjustment_command_def issue_authorization_def
      commit_authority_Inl)

lemma log_sound_observe:
  assumes "log_sound std run (st, cs, as)" "admit_observation std n ob dispatch st = (st', Inr r)"
  shows "log_sound std run (st', cs, as)"
  using assms(2) by (cases rule: admit_observation_cases) (use assms(1) in \<open>auto simp: log_sound_def\<close>)

lemma log_sound_next:
  assumes "log_sound std run l" shows "log_sound std run (reconciliation_next std l call)"
proof -
  obtain st cs as where l: "l = (st, cs, as)" by (cases l)
  show ?thesis
  proof (cases call)
    case (Observe n ob dispatch)
    obtain st' r where "admit_observation std n ob dispatch st = (st', r)" by fastforce
    then show ?thesis using assms Observe l log_sound_observe [of std run st cs as]
      by (cases r) (auto dest: refused_calls(1))
  next
    case (Propose binding outcome ack ob n)
    obtain st' r where "propose_adjustment_command std binding outcome ack ob n st = (st', r)" by fastforce
    then show ?thesis using assms Propose l log_sound_propose [of std run st cs as]
      by (cases r) (auto dest: refused_calls(2))
  next
    case (Authorize binding outcome ack c p)
    obtain st' r where "issue_authorization std binding outcome ack c p st = (st', r)" by fastforce
    then show ?thesis using assms Authorize l log_sound_issue [of std run st cs as]
      by (cases r) (auto dest: refused_calls(3))
  qed
qed

lemma log_sound_run: "log_sound std run l \<Longrightarrow> log_sound std run (reconciliation_run std l calls)"
  by (induction calls arbitrary: l) (simp_all add: reconciliation_run_def log_sound_next)

end
