(* ===== verification/Reconciliation_Examples.thy ===== *)
theory Reconciliation_Examples
  imports Reconciliation_Calls Ledger_Witnesses
begin

text \<open>
  One reconciliation, evaluated: a broker reports cash that an empty ledger does
  not hold, the authority proposes and authorizes the correction, and the ledger
  applies it.
\<close>

definition zero_sha :: sha256_digest where
  "zero_sha = Sha256Digest (replicate 64 (CHR ''0''))"

text \<open>Every digest is the same well-formed text.\<close>

definition std_sealed :: stdlib where
  "std_sealed = \<lparr>hexdigest = (\<lambda>_. replicate 64 (CHR ''0'')), utc_text = utc_text std_example\<rparr>"

lemma sealed_digests:
  "domain_digest (hexdigest std_sealed) t p = zero_sha"
  "framed_digest (hexdigest std_sealed) t p = zero_sha"
  by (simp_all add: framed_digest_def domain_digest_def std_sealed_def zero_sha_def)

lemma sealed_transaction_digest: "transaction_digest std_sealed t = zero_sha"
  by (cases t) (simp_all add: sealed_digests ledger_transaction_digest_def funding_transaction_digest_def
      reconciliation_transaction_digest_def)

definition ledger_sealed :: ledger where
  "ledger_sealed = ledger_example\<lparr>lg_specs_sha256 := zero_sha, lg_state := (lg_state ledger_example)
     \<lparr>ls_snapshot := (ls_snapshot (lg_state ledger_example))\<lparr>sn_set_sha256 := zero_sha\<rparr>\<rparr>\<rparr>"

definition snapshot_sealed :: snapshot where
  "snapshot_sealed = ls_snapshot (lg_state ledger_sealed)"

lemma create_sealed: "create_portfolio_ledger std_sealed (RunId ''r'') set_example = Inr ledger_sealed"
proof -
  have "make_snapshot snapshot_sealed = Inr snapshot_sealed" by code_simp
  then show ?thesis
    by (simp add: create_portfolio_ledger_def Let_def digest_defs sealed_digests set_example_def spec_example_def
        ledger_example_def ledger_sealed_def snapshot_sealed_def)
qed

definition observation_example :: observation where
  "observation_example = \<lparr>ob_run = RunId ''r'', ob_set_id = InstrumentSpecSetId ''s'', ob_set_sha256 = zero_sha,
     ob_id = id_of RECONCILIATION_OBSERVATION 1, ob_kind = CASH_SNAPSHOT, ob_namespace = SourceNamespace ''b'',
     ob_sequence = 1, ob_occurred_at = 0, ob_available_at = 0,
     ob_watermark_namespace = PORTFOLIO_LEDGER_NAMESPACE, ob_watermark_sequence = 0,
     ob_scope_kind = SCOPE_CASH, ob_scope_id = RuntimeIdentifier ''s'', ob_provenance_id = ''p'',
     ob_provenance_sha256 = zero_sha, ob_balances = [ObservedCash (SettlementCurrency ''USD'') dec_3]\<rparr>"

definition outcome_example :: reconciliation_outcome where
  "outcome_example = \<lparr>ro_run = RunId ''r'', ro_dispatch = 1, ro_observation = zero_sha, ro_snapshot_version = 0,
     ro_snapshot = zero_sha, ro_ledger_sequence = 0, ro_comparison = EQUAL,
     ro_discrepancies = [CashDiscrepancy (SettlementCurrency ''USD'') zero_dec dec_3 dec_3],
     ro_code = RECONCILIATION_MISMATCH, ro_action = PROPOSE_SINGLE_TARGET_ADJUSTMENT, ro_halt = True\<rparr>"

definition authority_example :: reconciliation_state where
  "authority_example = \<lparr>rc_run = RunId ''r'', rc_specs = set_example, rc_observations = Map.empty,
     rc_outcomes = Map.empty, rc_authorizations = Map.empty, rc_adjustments = Map.empty,
     rc_commands = Map.empty, rc_next_authorization = 1, rc_next_adjustment = 1\<rparr>"

lemma specs_sealed: "instrument_spec_set_digest (hexdigest std_sealed) ss = zero_sha"
  "portfolio_snapshot_digest std_sealed n = zero_sha"
  by (simp_all add: digest_defs sealed_digests)

lemma create_authority_example:
  "create_reconciliation_authority std_sealed (RunId ''r'') set_example snapshot_sealed = Inr authority_example"
  by (simp add: create_reconciliation_authority_def require_snapshot_def specs_sealed authority_example_def
      snapshot_sealed_def ledger_sealed_def ledger_example_def set_example_def)

section \<open>Admission\<close>

lemma payload_fits: "json_size d \<le> 16384 \<Longrightarrow> bounded_payload (json_bytes d) = Inr (json_bytes d)"
  using json_size_bounds [of d] by (simp add: bounded_payload_def MAX_RECONCILIATION_PAYLOAD_BYTES_def)

lemma observation_digest_example: "observation_digest std_sealed observation_example = Inr zero_sha"
proof -
  have "json_size (observation_document std_sealed observation_example) \<le> 16384" by code_simp
  then show ?thesis by (simp add: observation_digest_def observation_bytes_def payload_fits sealed_digests)
qed

lemma outcome_bytes_example:
  "outcome_bytes outcome_example = Inr (json_bytes (outcome_document outcome_example))"
  unfolding outcome_bytes_def by (rule payload_fits) code_simp

lemma outcome_created: "create_reconciliation_outcome outcome_example = Inr outcome_example"
proof -
  have "outcome_matrix_ok outcome_example" by code_simp
  then show ?thesis
    by (simp add: create_reconciliation_outcome_def outcome_bytes_example)
      (simp add: outcome_example_def require_reconciliation_uint64_def MAX_UINT64_def MAX_RECONCILIATION_BALANCES_def)
qed

lemma compare_example:
  "compare_balances observation_example snapshot_sealed set_example = Inr (ro_discrepancies outcome_example)"
  by code_simp

lemma compared_example:
  "compare_observation std_sealed observation_example snapshot_sealed (RunId ''r'') set_example 1 = Inr outcome_example"
proof -
  have c: "comparable observation_example snapshot_sealed"
    by (simp add: comparable_def observation_example_def snapshot_sealed_def ledger_sealed_def ledger_example_def
        observation_scope_is_complete_def local_cash_def)
  have r: "comparison_outcome std_sealed zero_sha snapshot_sealed (RunId ''r'') 1 EQUAL
      (ro_discrepancies outcome_example) RECONCILIATION_MISMATCH PROPOSE_SINGLE_TARGET_ADJUSTMENT True
      = create_reconciliation_outcome outcome_example"
    by (simp add: comparison_outcome_def specs_sealed outcome_example_def snapshot_sealed_def ledger_sealed_def
        ledger_example_def)
  show ?thesis unfolding compare_observation_verdict observation_digest_example verdict_def
    using c compare_example r outcome_created by (simp add: outcome_example_def)
qed

definition admitted_example :: reconciliation_state where
  "admitted_example = authority_example
     \<lparr>rc_observations := [(SourceNamespace ''b'', 1) \<mapsto> zero_sha], rc_outcomes := [zero_sha \<mapsto> outcome_example]\<rparr>"

lemma admit_example:
  "admit_observation std_sealed snapshot_sealed observation_example 1 authority_example
   = (admitted_example, Inr outcome_example)"
proof -
  have "require_observation_evidence std_sealed observation_example (RunId ''r'') set_example = Inr ()"
    by (simp add: require_observation_evidence_def observation_example_def set_example_def specs_sealed)
  moreover have "require_snapshot std_sealed snapshot_sealed (RunId ''r'') set_example = Inr snapshot_sealed"
    by (simp add: require_snapshot_def snapshot_sealed_def ledger_sealed_def ledger_example_def set_example_def
        specs_sealed)
  moreover have "rc_run authority_example = RunId ''r''" "rc_specs authority_example = set_example"
    "ob_namespace observation_example = SourceNamespace ''b''" "ob_sequence observation_example = 1"
    by (simp_all add: authority_example_def observation_example_def)
  moreover have "rc_observations authority_example = Map.empty" "rc_outcomes authority_example = Map.empty"
    by (simp_all add: authority_example_def)
  ultimately show ?thesis
    unfolding admitted_example_def
    by (simp add: admit_observation_def admit_dispatched_def authority_uint64_def MAX_UINT64_def
        observation_digest_example compared_example commit_authority_def Let_def)
qed

end
