(* ===== verification/Reconciliation_Correction.thy ===== *)
theory Reconciliation_Correction
  imports Reconciliation_Examples
begin

text \<open>
  The correction of the example, from the acknowledged outcome to the ledger that
  applied it.
\<close>

section \<open>The correction\<close>

definition binding_example :: run_binding where
  "binding_example = \<lparr>rb_reference = \<lparr>rr_run = RunId ''r'', rr_lineage = zero_sha\<rparr>, rb_manifest = zero_sha\<rparr>"

definition ack_example :: audit_acknowledgement where
  "ack_example = \<lparr>ak_binding = binding_example, ak_record_id = id_of AUDIT_RECORD 1,
     ak_record_kind = RECONCILIATION_OBSERVATION_OUTCOME, ak_subject_kind = SUBJECT_RECONCILIATION_OUTCOME,
     ak_subject = zero_sha, ak_payload = zero_sha, ak_record = zero_sha, ak_chain = zero_sha\<rparr>"

definition proposed_example :: adjustment_command where
  "proposed_example = correction_example\<lparr>ac_set_sha256 := zero_sha, ac_observation := zero_sha,
     ac_outcome := zero_sha, ac_snapshot := zero_sha\<rparr>"

lemma outcome_acknowledged_example:
  "outcome_acknowledged std_sealed binding_example outcome_example ack_example = Inr ack_example"
proof -
  have doc: "(case outcome_document outcome_example of
      JObj doc \<Rightarrow> set (map fst doc) = set OUTCOME_PAYLOAD_FIELDS
        \<and> map_of doc ''schema'' = Some (JStr ''ea.reconciliation-outcome.v2'')
        \<and> map_of doc ''canonicalization'' = Some (JStr ''ea-canonical-json-v1'')
        \<and> require_outcome_values doc = Inr () | _ \<Rightarrow> False)" by code_simp
  have size: "json_size (outcome_document outcome_example) \<le> 16384" by code_simp
  have payload: "1 \<le> length (json_bytes (outcome_document outcome_example))"
    by (simp add: outcome_document_def)
  have "require_outcome_payload (outcome_document outcome_example)
      = Inr (json_bytes (outcome_document outcome_example))"
    using doc payload json_size_bounds [of "outcome_document outcome_example"] size
    by (auto simp: require_outcome_payload_def Let_def split: json.splits)
  then show ?thesis
    by (simp add: outcome_acknowledged_def outcome_bytes_example outcome_subject_digest_def sealed_digests
        make_logical_key_def subject_of_kind.simps require_audit_acknowledgement_def ack_example_def binding_example_def
        id_of_def std_sealed_def zero_sha_def framed_digest_def domain_digest_def)
qed

lemma outcome_digest_example: "outcome_digest std_sealed outcome_example = Inr zero_sha"
  by (simp add: outcome_digest_def outcome_bytes_example sealed_digests)

lemma proposed_bytes:
  "\<exists>p. adjustment_command_bytes proposed_example = Inr p" "adjustment_command_digest std_sealed proposed_example = Inr zero_sha"
proof -
  have "case adjustment_command_document proposed_example of Inr d \<Rightarrow> json_size d \<le> 16384 | _ \<Rightarrow> False"
    by code_simp
  then obtain d where "adjustment_command_document proposed_example = Inr d" "json_size d \<le> 16384"
    by (auto split: sum.splits)
  then have "adjustment_command_bytes proposed_example = Inr (json_bytes d)"
    by (simp add: adjustment_command_bytes_def payload_fits)
  then show "\<exists>p. adjustment_command_bytes proposed_example = Inr p"
    "adjustment_command_digest std_sealed proposed_example = Inr zero_sha"
    by (simp_all add: adjustment_command_digest_def sealed_digests)
qed

lemma command_example:
  "create_adjustment_command std_sealed binding_example set_example observation_example outcome_example ack_example
     snapshot_sealed (id_of RECONCILIATION_ADJUSTMENT 1) no_ancestry = Inr proposed_example"
proof -
  let ?d = "CashDiscrepancy (SettlementCurrency ''USD'') zero_dec dec_3 dec_3"
  have d: "ro_action outcome_example = PROPOSE_SINGLE_TARGET_ADJUSTMENT" "ro_discrepancies outcome_example = [?d]"
    by (simp_all add: outcome_example_def)
  have e: "\<not> command_evidence_conflicts std_sealed (RunId ''r'') set_example observation_example zero_sha
      outcome_example snapshot_sealed (id_of RECONCILIATION_ADJUSTMENT 1)"
    by (simp add: command_evidence_conflicts_def observation_example_def outcome_example_def snapshot_sealed_def
        ledger_sealed_def ledger_example_def set_example_def specs_sealed id_of_def)
  have held: "snapshot_cash_amount snapshot_sealed (SettlementCurrency ''USD'') = Inr zero_dec" by code_simp
  have c: "(command_base std_sealed set_example outcome_example zero_sha (id_of RECONCILIATION_ADJUSTMENT 1))
      \<lparr>ac_target := SETTLEMENT_CASH, ac_currency := Some (SettlementCurrency ''USD''),
       ac_local := Some zero_dec, ac_observed := Some dec_3, ac_delta := Some dec_3\<rparr> = proposed_example"
    by (simp add: command_base_def proposed_example_def correction_example_def outcome_example_def specs_sealed
        set_example_def)
  obtain p where p: "adjustment_command_bytes proposed_example = Inr p" using proposed_bytes by blast
  have b: "balance_command std_sealed set_example observation_example outcome_example snapshot_sealed
      (id_of RECONCILIATION_ADJUSTMENT 1) ?d = Inr proposed_example"
    by (simp add: balance_command_def build_adjustment_command_def outcome_digest_example held c p Let_def)
      (simp add: observation_example_def)
  have r: "rr_run (rb_reference binding_example) = RunId ''r''" by (simp add: binding_example_def)
  show ?thesis
    by (simp add: create_adjustment_command_def observation_digest_example r e outcome_acknowledged_example d b)
qed

definition proposing_example :: reconciliation_state where
  "proposing_example = admitted_example
     \<lparr>rc_adjustments := [id_of RECONCILIATION_ADJUSTMENT 1 \<mapsto> zero_sha], rc_commands := [zero_sha \<mapsto> zero_sha],
      rc_next_adjustment := 2\<rparr>"

lemma propose_example:
  "propose_adjustment_command std_sealed binding_example outcome_example ack_example observation_example
     snapshot_sealed admitted_example = (proposing_example, Inr proposed_example)"
proof -
  have f: "ro_run outcome_example = RunId ''r''" "ro_observation outcome_example = zero_sha"
    "ro_action outcome_example = PROPOSE_SINGLE_TARGET_ADJUSTMENT" "ro_halt outcome_example"
    "length (ro_discrepancies outcome_example) = 1" "proposes_single_target outcome_example"
    by (simp_all add: outcome_example_def proposes_single_target_def)
  have o': "ob_run observation_example = RunId ''r''" "ob_set_id observation_example = set_identifier set_example"
    "ob_set_sha256 observation_example = zero_sha"
    by (simp_all add: observation_example_def set_example_def)
  have n: "require_snapshot std_sealed snapshot_sealed (RunId ''r'') set_example = Inr snapshot_sealed"
    by (simp add: require_snapshot_def snapshot_sealed_def ledger_sealed_def ledger_example_def set_example_def
        specs_sealed)
  have st: "rc_run admitted_example = RunId ''r''" "rc_specs admitted_example = set_example"
    "rc_outcomes admitted_example = [zero_sha \<mapsto> outcome_example]" "rc_next_adjustment admitted_example = 1"
    "rc_adjustments admitted_example = Map.empty" "rc_commands admitted_example = Map.empty"
    by (simp_all add: admitted_example_def authority_example_def)
  have i: "make_economic_id (RunId ''r'') RECONCILIATION_ADJUSTMENT 1 = Inr (id_of RECONCILIATION_ADJUSTMENT 1)"
    by code_simp
  have a: "advance 1 = Inr (Some 2)" by code_simp
  show ?thesis unfolding proposing_example_def
    by (simp add: propose_adjustment_command_def require_outcome_evidence_def f o' specs_sealed
        observation_digest_example n st i a command_example proposed_bytes commit_authority_def)
qed

definition authorization_policy_example :: authorization_policy where
  "authorization_policy_example = \<lparr>pl_id = PolicyId ''p'', pl_version = 1, pl_sha256 = zero_sha,
     pl_decision = AUTHORIZATION_ALLOWED, pl_available_at = 0\<rparr>"

definition issued_example :: adjustment_authorization where
  "issued_example = \<lparr>aa_run = RunId ''r'', aa_set_id = InstrumentSpecSetId ''s'', aa_set_sha256 = zero_sha,
     aa_authorization = id_of RECONCILIATION_AUTHORIZATION 1, aa_adjustment = id_of RECONCILIATION_ADJUSTMENT 1,
     aa_observation = zero_sha, aa_outcome = zero_sha, aa_outcome_ack = zero_sha, aa_sequence = 0,
     aa_snapshot = zero_sha, aa_command_sha256 = zero_sha, aa_policy = ''p'', aa_policy_version = 1,
     aa_policy_sha256 = zero_sha, aa_decision = AUTHORIZATION_ALLOWED, aa_available_at = 0, aa_dispatch = 1\<rparr>"

definition authorizing_example :: reconciliation_state where
  "authorizing_example = proposing_example
     \<lparr>rc_authorizations := [id_of RECONCILIATION_AUTHORIZATION 1 \<mapsto> zero_sha], rc_next_authorization := 2\<rparr>"

lemma issued_bytes: "\<exists>p. authorization_bytes std_sealed issued_example = Inr p"
proof -
  have "json_size (authorization_document std_sealed issued_example) \<le> 16384" by code_simp
  then show ?thesis by (simp add: authorization_bytes_def payload_fits)
qed

lemma created_authorization:
  "create_adjustment_authorization std_sealed binding_example set_example outcome_example ack_example
     proposed_example (id_of RECONCILIATION_AUTHORIZATION 1) authorization_policy_example = Inr issued_example"
proof -
  have e: "\<not> authorization_evidence_conflicts std_sealed (RunId ''r'') set_example outcome_example zero_sha
      proposed_example (id_of RECONCILIATION_AUTHORIZATION 1)"
    by (simp add: authorization_evidence_conflicts_def outcome_example_def proposed_example_def correction_example_def
        set_example_def specs_sealed id_of_def)
  have u: "require_reconciliation_uint64 1 = Inr ()" by code_simp
  have k: "acknowledgement_digest std_sealed ack_example = zero_sha"
    by (simp add: acknowledgement_digest_def sealed_digests)
  have r: "rr_run (rb_reference binding_example) = RunId ''r''" by (simp add: binding_example_def)
  have i: "owner_sequence (id_of RECONCILIATION_AUTHORIZATION 1) = 1" by (simp add: id_of_def)
  obtain p where p: "authorization_bytes std_sealed issued_example = Inr p" using issued_bytes by blast
  have a: "\<lparr>aa_run = RunId ''r'', aa_set_id = set_identifier set_example,
       aa_set_sha256 = zero_sha, aa_authorization = id_of RECONCILIATION_AUTHORIZATION 1,
       aa_adjustment = ac_adjustment proposed_example, aa_observation = ac_observation proposed_example,
       aa_outcome = ac_outcome proposed_example, aa_outcome_ack = zero_sha,
       aa_sequence = ac_sequence proposed_example, aa_snapshot = ac_snapshot proposed_example,
       aa_command_sha256 = zero_sha, aa_policy = policy_text (pl_id authorization_policy_example),
       aa_policy_version = pl_version authorization_policy_example, aa_policy_sha256 = pl_sha256 authorization_policy_example,
       aa_decision = pl_decision authorization_policy_example, aa_available_at = pl_available_at authorization_policy_example,
       aa_dispatch = ac_dispatch proposed_example\<rparr> = issued_example"
    by (simp add: issued_example_def proposed_example_def correction_example_def authorization_policy_example_def set_example_def)
  have v: "pl_version authorization_policy_example = 1" by (simp add: authorization_policy_example_def)
  show ?thesis
    unfolding create_adjustment_authorization_def r outcome_digest_example bind_res_simps
    by (simp add: v u i e outcome_acknowledged_example proposed_bytes(2) k specs_sealed Let_def a [unfolded v] p)
qed

lemma issue_authorization_example:
  "issue_authorization std_sealed binding_example outcome_example ack_example proposed_example authorization_policy_example
     proposing_example = (authorizing_example, Inr issued_example)"
proof -
  have f: "ro_observation outcome_example = zero_sha" "proposes_single_target outcome_example"
    "ac_adjustment proposed_example = id_of RECONCILIATION_ADJUSTMENT 1" "pl_version authorization_policy_example = 1"
    by (simp_all add: outcome_example_def proposes_single_target_def proposed_example_def correction_example_def
        authorization_policy_example_def)
  have st: "rc_run proposing_example = RunId ''r''" "rc_specs proposing_example = set_example"
    "rc_outcomes proposing_example = [zero_sha \<mapsto> outcome_example]" "rc_next_authorization proposing_example = 1"
    "rc_adjustments proposing_example = [id_of RECONCILIATION_ADJUSTMENT 1 \<mapsto> zero_sha]"
    "rc_commands proposing_example = [zero_sha \<mapsto> zero_sha]" "rc_authorizations proposing_example = Map.empty"
    by (simp_all add: proposing_example_def admitted_example_def authority_example_def)
  have i: "make_economic_id (RunId ''r'') RECONCILIATION_AUTHORIZATION 1 = Inr (id_of RECONCILIATION_AUTHORIZATION 1)"
    by code_simp
  have a: "advance 1 = Inr (Some 2)" "authority_uint64 1 = Inr 1" by code_simp+
  obtain p where p: "authorization_bytes std_sealed issued_example = Inr p" using issued_bytes by blast
  have d: "authorization_digest std_sealed issued_example = Inr zero_sha"
    by (simp add: authorization_digest_def p sealed_digests)
  show ?thesis unfolding authorizing_example_def
    by (simp add: issue_authorization_def f st i a proposed_bytes(2) created_authorization d commit_authority_def)
qed

section \<open>The ledger applies it\<close>

definition approved_example :: audited_authorization where
  "approved_example = authorization_example\<lparr>au_authorization := (au_authorization authorization_example)
       \<lparr>aa_set_sha256 := zero_sha, aa_observation := zero_sha, aa_outcome := zero_sha, aa_outcome_ack := zero_sha,
        aa_snapshot := zero_sha, aa_command_sha256 := zero_sha, aa_policy_sha256 := zero_sha\<rparr>,
     au_sha256 := zero_sha, au_ack := zero_sha, au_head := zero_sha\<rparr>"

lemma approved_example_applied:
  "\<exists>l a. apply_reconciliation_adjustment std_sealed ledger_sealed approved_example proposed_example
     = (l, Inr a) \<and> l \<noteq> ledger_sealed"
proof -
  have "case apply_reconciliation_adjustment std_sealed ledger_sealed approved_example proposed_example of
     (l, Inr a) \<Rightarrow> ls_cash (lg_state l) \<noteq> [] | _ \<Rightarrow> False"
    unfolding adjustment_defs digest_defs sealed_digests sealed_transaction_digest bounded_payload_weight
      bind_res_simps bind_res_assoc
    by code_simp
  then show ?thesis by (force simp: ledger_sealed_def ledger_example_def split: prod.splits sum.splits)
qed

end
