(* ===== verification/Reconciliation_Claims.thy ===== *)
theory Reconciliation_Claims
  imports Reconciliation_Correction
begin

text \<open>
  The properties of the reconciliation authority, and of the authority with the
  ledger whose snapshot it compares.
\<close>

section \<open>Snapshots and balances\<close>

lemma find_map_of:
  "(case find (\<lambda>b. f b = k) bs of Some b \<Rightarrow> Some (g b) | None \<Rightarrow> None) = map_of (map (\<lambda>b. (f b, g b)) bs) k"
  by (induction bs) auto

lemma shown_amount:
  assumes "map (\<lambda>b. (f b, g b)) bs = sort_key h kvs" "distinct (map fst kvs)"
    "(case find (\<lambda>b. f b = k) bs of Some b \<Rightarrow> Inr (g b) | None \<Rightarrow> canonical_decimal ''0'') = Inr x"
  shows "value_at kvs k = dval x"
proof -
  have m: "map_of kvs k = (case find (\<lambda>b. f b = k) bs of Some b \<Rightarrow> Some (g b) | None \<Rightarrow> None)"
    unfolding find_map_of assms(1) map_of_sorted [OF assms(2)] by (rule refl)
  show ?thesis
    using assms(3) by (cases "find (\<lambda>b. f b = k) bs") (auto simp: value_at_def m canonical_zero dec_zero_simps)
qed

lemma snapshot_shows:
  assumes "ledger_inv std l"
  shows "snapshot_position_amount (ls_snapshot (lg_state l)) i = Inr x \<Longrightarrow> value_at (ls_positions (lg_state l)) i = dval x"
    "snapshot_cash_amount (ls_snapshot (lg_state l)) u = Inr x \<Longrightarrow> value_at (ls_cash (lg_state l)) u = dval x"
proof -
  let ?st = "lg_state l"
  have p: "map (\<lambda>b. (pb_instrument b, pb_quantity b)) (sn_positions (ls_snapshot ?st))
        = sort_key (instrument_key \<circ> fst) (ls_positions ?st)" "distinct (map fst (ls_positions ?st))"
    and c: "map (\<lambda>b. (cb_currency b, cb_amount b)) (sn_cash (ls_snapshot ?st))
        = sort_key (currency_code \<circ> fst) (ls_cash ?st)" "distinct (map fst (ls_cash ?st))"
    using assms by (simp_all add: ledger_inv_def snapshot_ok_def balances_ok_def Let_def)
  show "snapshot_position_amount (ls_snapshot ?st) i = Inr x \<Longrightarrow> value_at (ls_positions ?st) i = dval x"
    unfolding snapshot_position_amount_def by (rule shown_amount [OF p])
  show "snapshot_cash_amount (ls_snapshot ?st) u = Inr x \<Longrightarrow> value_at (ls_cash ?st) u = dval x"
    unfolding snapshot_cash_amount_def by (rule shown_amount [OF c])
qed

section \<open>Properties\<close>



text \<open>C13: a reconciled target ends at the observed amount. When the authority compared the snapshot of a
  reachable ledger and the ledger applies a command the authority proposed, the target of the command
  holds exactly the amount the broker's observation states for it, no other position and no other cash
  balance moves, and rounding, funding, unresolved fills and open references stay as they were.\<close>

theorem reconciled_target_matches_observation:
  assumes "create_portfolio_ledger std run ss = Inr l0" "l = ledger_run std l0 es"
    "propose_adjustment_command std binding outcome ack ob (ls_snapshot (lg_state l)) st = (st', Inr c)"
    "apply_reconciliation_adjustment std l au c = (l', Inr a)" "l' \<noteq> l"
  shows "frame_kept (lg_state l) (lg_state l')
    \<and> ((\<exists>i y. ac_instrument c = Some i \<and> ObservedPosition i y \<in> set (ob_balances ob)
      \<and> value_at (ls_positions (lg_state l')) = (value_at (ls_positions (lg_state l)))(i := dval y)
      \<and> ls_cash (lg_state l') = ls_cash (lg_state l))
    \<or> (\<exists>u y. ac_currency c = Some u \<and> ObservedCash u y \<in> set (ob_balances ob)
      \<and> value_at (ls_cash (lg_state l')) = (value_at (ls_cash (lg_state l)))(u := dval y)
      \<and> ls_positions (lg_state l') = ls_positions (lg_state l)))"
proof -
  have inv: "ledger_inv std l" using run_ok [OF assms(1)] assms(2) by (simp add: ledger_ok_def)
  note shown = snapshot_shows [OF inv]
  have k: "corrects std c ob (ls_snapshot (lg_state l))" by (rule proposed_corrects [OF assms(3)])
  then obtain x y where xy: "ac_local c = Some x" "ac_observed c = Some y" "ac_variant c = BALANCE_CORRECTION"
    by (auto simp: corrects_def)
  note moved = correction_effect [OF assms(4,5) xy(3,1,2)]
  consider (position) i where "ac_target c = INSTRUMENT_POSITION" "ac_instrument c = Some i"
      "ObservedPosition i y \<in> set (ob_balances ob)" "value_at (ls_positions (lg_state l)) i = dval x"
    | (cash) u where "ac_target c = SETTLEMENT_CASH" "ac_currency c = Some u"
      "ObservedCash u y \<in> set (ob_balances ob)" "value_at (ls_cash (lg_state l)) u = dval x"
    using k xy by (auto simp: corrects_def dest: shown)
  then show ?thesis
  proof cases
    case (position i)
    then show ?thesis using moved by (intro conjI disjI1 exI [of _ i] exI [of _ y]) auto
  next
    case (cash u)
    then show ?thesis using moved by (intro conjI disjI2 exI [of _ u] exI [of _ y]) auto
  qed
qed

theorem reconciled_target_matches_observation_witness:
  "\<exists>l a. apply_reconciliation_adjustment std_sealed ledger_sealed approved_example proposed_example = (l, Inr a)
     \<and> value_at (ls_cash (lg_state l)) (SettlementCurrency ''USD'') = 3"
proof -
  obtain l a where a: "apply_reconciliation_adjustment std_sealed ledger_sealed approved_example proposed_example
      = (l, Inr a)" "l \<noteq> ledger_sealed" using approved_example_applied by blast
  have p: "propose_adjustment_command std_sealed binding_example outcome_example ack_example observation_example
      (ls_snapshot (lg_state ledger_sealed)) admitted_example = (proposing_example, Inr proposed_example)"
    using propose_example by (simp add: snapshot_sealed_def)
  have r: "ledger_sealed = ledger_run std_sealed ledger_sealed []" by (simp add: ledger_run_def)
  have f: "ac_instrument proposed_example = None" "ac_currency proposed_example = Some (SettlementCurrency ''USD'')"
    "ob_balances observation_example = [ObservedCash (SettlementCurrency ''USD'') dec_3]" "dval dec_3 = 3"
    by (simp_all add: proposed_example_def correction_example_def observation_example_def dval_def dec_3_def)
  from reconciled_target_matches_observation [OF create_sealed r p a]
  have "value_at (ls_cash (lg_state l)) (SettlementCurrency ''USD'') = 3" by (auto simp: f)
  with a(1) show ?thesis by blast
qed

text \<open>C15: every authorization is backed by a proposed command. Over any sequence of calls of a fresh
  authority the proposed commands and the issued authorizations carry the identities 1, 2, 3, ... of
  their kinds, each once; every authorization names a command the authority proposed by identity and
  digest; every proposed command corrects one target from the amount of a snapshot to the amount of an
  observation it names by digest; and an identity counts as issued exactly when an authorization has it.\<close>

theorem authorizations_are_backed:
  assumes "create_reconciliation_authority std run ss n0 = Inr st0"
    "reconciliation_run std (st0, [], []) calls = (st, cs, as)"
  shows "map ac_adjustment cs = map (issued_id run RECONCILIATION_ADJUSTMENT) [0..<length cs]
    \<and> map aa_authorization as = map (issued_id run RECONCILIATION_AUTHORIZATION) [0..<length as]
    \<and> (\<forall>a\<in>set as. \<exists>c\<in>set cs. aa_adjustment a = ac_adjustment c
         \<and> adjustment_command_digest std c = Inr (aa_command_sha256 a))
    \<and> (\<forall>c\<in>set cs. \<exists>ob n. corrects std c ob n)
    \<and> (\<forall>i. has_issued_authorization i st \<longleftrightarrow> i \<in> aa_authorization ` set as)"
proof -
  have "log_sound std run (st, cs, as)"
    using log_sound_run [OF log_sound_start [OF assms(1)], of calls] assms(2) by simp
  then show ?thesis by (auto simp: log_sound_def has_issued_authorization_def)
qed

theorem authorizations_are_backed_witness:
  "\<exists>st c a ob n. reconciliation_run std_sealed (authority_example, [], [])
       [Observe snapshot_sealed observation_example 1,
        Propose binding_example outcome_example ack_example observation_example snapshot_sealed,
        Authorize binding_example outcome_example ack_example proposed_example authorization_policy_example] = (st, [c], [a])
     \<and> owner_sequence (aa_authorization a) = 1 \<and> aa_adjustment a = ac_adjustment c \<and> corrects std_sealed c ob n"
proof -
  have r: "reconciliation_run std_sealed (authority_example, [], [])
      [Observe snapshot_sealed observation_example 1,
       Propose binding_example outcome_example ack_example observation_example snapshot_sealed,
       Authorize binding_example outcome_example ack_example proposed_example authorization_policy_example]
    = (authorizing_example, [proposed_example], [issued_example])"
    by (simp add: reconciliation_run_def admit_example propose_example issue_authorization_example)
  from authorizations_are_backed [OF create_authority_example r]
  obtain ob n where "corrects std_sealed proposed_example ob n" "owner_sequence (aa_authorization issued_example) = 1"
    "aa_adjustment issued_example = ac_adjustment proposed_example"
    by (auto simp: issued_id_def)
  with r show ?thesis by blast
qed

end
