(* ===== verification/Spec2Isabelle.thy ===== *)
theory Spec2Isabelle
  imports Commission Identity Outcomes Execution_Spec Order_Messages Fact_Messages Ledger_Witnesses Market_Admission Queue_Runs Fact_Claims Risk_Claims Order_Claims Command_Claims Kill_Claims Signal_Claims Planning_Claims Desk_Claims Rule_Claims Audit_Claims Reconciliation_Claims
begin

text \<open>
  A verification development for the deterministic trading core of \<open>ea\<close>
  (the Python packages under \<open>src/ea\<close>): from admitted market data through
  strategy signals, portfolio targets, risk decisions and orders to execution
  facts, fills and the portfolio ledger, with the operator's kill switch beside
  it. Every stage is owned by one authority, an object that is the only writer of
  its state; the stages hand each other immutable, canonically encoded evidence.
  The theories model the authorities and their evidence operation by operation and
  prove what each promises its callers.

  \<^bold>\<open>The flow and the theories.\<close>

  \<^item> Shared vocabulary: \<open>Prelude\<close> (results with the errors of the code as values,
    decimal digit strings, generic lemmas), \<open>Authority\<close> (the contract of a
    single-owner authority as two locales: an idempotent one, and one that also
    retains its answers), \<open>Canonical_Json\<close> (the encoder every module carries as
    \<open>_encode_json\<close>, with its injectivity), \<open>Regex\<close> (the fragment of \<open>re\<close> that is used),
    \<open>Outcomes\<close> (\<open>core/outcomes.py\<close>).
  \<^item> Exact arithmetic: \<open>Economics\<close> and \<open>Decimal_Laws\<close> (\<open>core/economics.py\<close>: canonical
    decimals, the grid check, half-even settlement), \<open>Commission\<close> (\<open>core/commission.py\<close>),
    \<open>Execution_Spec\<close> (\<open>core/execution.py\<close>: instrument specifications and settlement).
  \<^item> Identities: \<open>Identity\<close> (\<open>core/identity.py\<close>, \<open>core/execution_identity.py\<close> and the run
    identities).
  \<^item> Market data: \<open>Market_Data\<close>, \<open>Market_Laws\<close>, \<open>Market_Admission\<close> (\<open>core/market_data.py\<close>:
    batches, the admission order, the cursor, the latest view).
  \<^item> Strategy: \<open>Strategy_Rules\<close>, \<open>Rule_Laws\<close>, \<open>Rule_Claims\<close> (\<open>strategy/rules.py\<close>: the closed
    price rules and their evaluator); \<open>Strategy_Signals\<close> (\<open>core/strategy.py\<close>, the record
    bytes of \<open>core/market_data_codec.py\<close>, the verifier of \<open>runtime/strategy.py\<close> and the
    proof of \<open>core/runtime.py\<close>), \<open>Signal_Authority\<close>, \<open>Signal_Runs\<close>, \<open>Signal_Claims\<close>
    (\<open>strategy/authority.py\<close>).
  \<^item> Planning: \<open>Portfolio_Planning\<close> (\<open>core/portfolio_planning.py\<close>), \<open>Planning_Authority\<close>,
    \<open>Planning_Laws\<close>, \<open>Planning_Runs\<close>, \<open>Planning_Claims\<close> (\<open>portfolio/planning.py\<close>).
  \<^item> Risk: \<open>Risk_Contracts\<close> (\<open>core/risk.py\<close>), \<open>Risk_Authority\<close>, \<open>Risk_Laws\<close>, \<open>Risk_Runs\<close>,
    \<open>Risk_Claims\<close> (\<open>risk/authority.py\<close>); \<open>Kill_Switch\<close>, \<open>Kill_Claims\<close> (\<open>risk/kill_switch.py\<close>).
  \<^item> Orders: \<open>Order_Messages\<close>, \<open>Fact_Messages\<close> (\<open>core/execution_messages.py\<close>),
    \<open>Order_Authority\<close>, \<open>Order_Runs\<close>, \<open>Order_Claims\<close> (\<open>execution/authority.py\<close>),
    \<open>Order_Commands\<close>, \<open>Command_Claims\<close> (\<open>execution/order_lifecycle.py\<close>).
  \<^item> Runtime: \<open>Runtime_Kinds\<close>, \<open>Runtime_Roots\<close>, \<open>Runtime_Plan\<close> (\<open>core/runtime.py\<close>: the bounded
    plan of roots), \<open>Root_Queue\<close>, \<open>Queue_Runs\<close> (\<open>runtime/queue.py\<close>, \<open>runtime/ingress.py\<close>: the queue, its live
    dispatch and the register of issued facts).
  \<^item> Facts: \<open>Execution_State\<close> (\<open>core/execution_state.py\<close>), \<open>Fact_Authority\<close>, \<open>Fact_Laws\<close>,
    \<open>Fact_Runs\<close>, \<open>Fact_Resolution\<close>, \<open>Fact_Claims\<close> (\<open>execution/fact_authority.py\<close>).
  \<^item> Portfolio: \<open>Portfolio\<close> (\<open>core/portfolio.py\<close>), \<open>Observations\<close>, \<open>Reconciliation\<close>,
    \<open>Reconciliation_Laws\<close> (\<open>core/reconciliation.py\<close> and the integration messages),
    \<open>Portfolio_Ledger\<close>, \<open>Ledger_Laws\<close>, \<open>Ledger_Effects\<close>, \<open>Ledger_Books\<close>, \<open>Ledger_Steps\<close>,
    \<open>Ledger_Properties\<close>, \<open>Ledger_Claims\<close>, \<open>Ledger_Witnesses\<close> (\<open>portfolio/ledger.py\<close>).
  \<^item> Audit: \<open>Audit_Index\<close>, \<open>Audit_Index_Laws\<close>, \<open>Audit_Index_Claims\<close>, \<open>Audit_Capacity\<close>,
    \<open>Audit_Capacity_Laws\<close>, \<open>Audit_Claims\<close> (\<open>experiments/audit.py\<close>: the open-addressed table of
    logical keys, the projection of its bytes, the limits of a journal and its protected close),
    \<open>Audit_Evidence\<close> (\<open>core/audit.py\<close>: record kinds, acknowledgements, the payload of a
    reconciliation outcome).
  \<^item> Reconciliation: \<open>Adjustment_Evidence\<close> (the command and authorization factories of
    \<open>core/reconciliation.py\<close>), \<open>Reconciliation_Authority\<close>, \<open>Reconciliation_Runs\<close>,
    \<open>Reconciliation_Calls\<close>, \<open>Reconciliation_Examples\<close>, \<open>Reconciliation_Correction\<close>,
    \<open>Reconciliation_Claims\<close> (\<open>reconciliation/authority.py\<close>: the comparison of broker
    observations with the ledger, the proposal of corrections and their authorization).
  \<^item> \<open>Reconciliation_Claims\<close> composes the authority with the ledger that applies its commands;
    \<open>Desk_Claims\<close> composes planning and risk; \<open>Order_Runs\<close> composes risk and orders;
    \<open>Queue_Runs\<close> composes the queue and the registers of its sources.

  \<^bold>\<open>How the model reads the code.\<close>

  \<^item> A class or frozen dataclass is a record, an enumeration a datatype with the
    constructors of the source, a closed-over mapping a partial function or, where order
    matters, a list. A method that changes its object returns the object updated together with
    its result; the methods of one authority are the commands of its runs.
  \<^item> An exception is a value: \<open>exn result\<close> is a sum whose left side names the error class and its
    code. Every raise, every translation of a caught error and every early return is a branch.
    A failed call returns the object it was given.
  \<^item> Checks that an argument has an exact Python type, and the seals and object identities
    that only prove that a value came from its factory, hold by the types of the model;
    equality of values stands for identity of immutable objects.
  \<^item> Integers are unbounded as in Python; the 64-bit counters have their bounds written out, and
    exhaustion of a counter is a branch. Decimals are the text, coefficient and scale the
    code stores; their meaning is the rational \<open>dval\<close>. A binary64 is its rational value or a
    non-finite constant. Instants are microseconds of UTC; the kill switch, where a naive
    datetime can appear, keeps the difference.
  \<^item> Strings are sequences of code points below 256; identifiers are ASCII by their patterns.
  \<^item> The standard library is an argument: \<open>stdlib\<close> carries SHA-256 and the rendering of
    instants, other parameters the reader of JSON, the bits of a binary64 and the rational of a
    printed number. What is required of them is a named hypothesis: injectivity of
    the rendering of instants, reading back what was written. Nothing is assumed of SHA-256;
    the statements about digests hold for any function.
  \<^item> Another authority that a method asks (the runtime behind a verifier, the issuer of
    risk results, the resolvers of orders and dispatches) is a record of functions, a fresh one
    for every call, so that it may change arbitrarily between calls; where the
    asked authority is modelled too, the composition instantiates the record with it.
  \<^item> Decoding an authority's own bytes is the reconstruction of the value from its
    fields with all the checks the decoder makes.
  \<^item> Every definition computes. Recursion is structural or has an explicit measure: the rule
    traversal goes down in its depth bound of six and then in the list of arguments, the rule
    evaluator in the size of the document, normalisation in the scale, the search for the
    record limit in the interval that is left. The probing loop of the audit index ends only on
    tables with a free slot; it is a partial function into an option, and that it
    returns on every reachable table is proved. No fuel is used.

  \<^bold>\<open>What is proved.\<close>

  \<^item> Invariants over arbitrary runs: the hash chain and the double entry of the ledger, the
    numbering and pairing of decisions, approvals, signals, targets, intents, fills and
    projections, the plan order of the queue, the backing of every authorization by a
    proposed command.
  \<^item> Exact effects: of a fill, of a correction, of an accepted fact, of a plan (the intent moves
    the position exactly to its target), of a commission and a settlement (nearest multiple of
    the quantum, ties to even), of the comparison of an observation with the ledger.
  \<^item> Safety across authorities: orders rest on consumed approvals within the limits, an approved
    plan approaches its target and never passes it, a reconciled target ends at the observed
    amount, no command is sent twice, no fact
    is judged twice.
  \<^item> Final answers: what an authority has answered it answers for ever, an instance of the
    contract in \<open>Authority\<close> discharged by interpretation for the ledger, the register,
    the fact, risk, order and signal authorities, and shown directly for planning, where a
    change of policy is not itself a settled command.
  \<^item> Refinement and equivalence: incremental admission against the one sorted batch, the
    bounded window of a rule against the whole history, the comparison of decimals against
    the order of rationals, the audit index with its probes and resizes against a finite map.
  \<^item> Round trips, error kinds and liveness: parsing and printing of decimals, restart of the
    kill switch, the closed matrix of answers to a fill, the draining of the queue, the record that
    closes a journal and always fits.

  A property that has hypotheses is followed by a witness that applies it to a concrete state
  of the system; the examples evaluate the model's own definitions.

  \<^bold>\<open>Not modelled.\<close> The web application, the storage, the data providers and the command
  line are input and output around the core. The historical matcher
  (\<open>core/historical_matching.py\<close>, \<open>execution/matcher.py\<close>), the coordinator that drives the
  authorities (\<open>runtime/coordinator.py\<close>, \<open>runtime/historical.py\<close>), the run lifecycle and the
  periodic safety checks use the modelled parts but are not modelled themselves; strategy packages
  load user code. Of the audit journal the frames on disk, their synchronisation, the retry of a
  known key and the recovery by rescan are left out, and of its evidence the payloads of
  the kinds other than a reconciliation outcome. Of the modelled
  modules the decoders of foreign bytes (execution state, risk evidence, portfolio messages)
  are left out, since the authorities never read their own state back through them.
\<close>

end
